(* ===== verification/Go_Prelude.thy ===== *)
theory Go_Prelude
  imports Complex_Main "HOL-Library.Word" "HOL-Library.AList" "HOL-Library.Sublist"
begin

text \<open>
  What the components share of the Go language and its standard library, and the generic lemmas
  their proofs use:
  \<^item> \<open>time\<close> and \<open>duration\<close>: instants and spans in nanoseconds. An instant counts from Go's zero
    instant (\<^verbatim>\<open>time.Time{}\<close>), so \<^verbatim>\<open>IsZero\<close> is the test against 0. A clock reading is an argument
    of every operation that calls \<^verbatim>\<open>time.Now\<close>, \<^verbatim>\<open>time.Since\<close> or \<^verbatim>\<open>time.Until\<close>;
  \<^item> \<open>go_error\<close>: error values with their message and, for \<^verbatim>\<open>%w\<close>, the error they wrap;
  \<^item> \<open>result\<close>: the pair (value, error) of a fallible function, as a sum;
  \<^item> \<open>wrap64\<close>: the wrap-around of a 64-bit \<^verbatim>\<open>int\<close>;
  \<^item> \<^verbatim>\<open>float64\<close> values as rationals, each operation followed by a rounding function that is a
    parameter: an IEEE operation is the exact one, rounded. Not-a-number and the infinities are
    not modelled;
  \<^item> association lists with distinct keys as Go maps: the order of the list is the order in which
    \<^verbatim>\<open>range\<close> visits the map, and the theorems hold for every such list.
\<close>

section \<open>Collections of facts\<close>

named_theorems go_defs \<open>definitions of operations, unfolded to follow the branches of the code\<close>
named_theorems go_inv \<open>preservation lemmas of the components' invariants\<close>

section \<open>Time\<close>

type_synonym time = int
type_synonym duration = int

definition time_zero :: time where
  "time_zero = 0"

definition is_zero :: "time \<Rightarrow> bool" where
  "is_zero t \<longleftrightarrow> t = 0"

text \<open>A \<^verbatim>\<open>time.Duration\<close> is an \<^verbatim>\<open>int64\<close>; \<^verbatim>\<open>Time.Sub\<close> saturates at its ends instead of wrapping.\<close>

definition max_duration :: duration where
  "max_duration = 2 ^ 63 - 1"

definition min_duration :: duration where
  "min_duration = - (2 ^ 63)"

definition time_sub :: "time \<Rightarrow> time \<Rightarrow> duration" where
  "time_sub t u = max min_duration (min max_duration (t - u))"

definition time_since :: "time \<Rightarrow> time \<Rightarrow> duration" where
  "time_since now t = time_sub now t"

definition wrap64 :: "int \<Rightarrow> int" where
  "wrap64 x = (x + 2 ^ 63) mod 2 ^ 64 - 2 ^ 63"

text \<open>Integer division truncates towards zero in Go.\<close>

definition go_quot :: "int \<Rightarrow> int \<Rightarrow> int" where
  "go_quot a b = (if (a < 0) = (b < 0) then \<bar>a\<bar> div \<bar>b\<bar> else - (\<bar>a\<bar> div \<bar>b\<bar>))"

definition go_rem :: "int \<Rightarrow> int \<Rightarrow> int" where
  "go_rem a b = a - b * go_quot a b"

lemma wrap64_id [simp]: "- (2 ^ 63) \<le> x \<Longrightarrow> x < 2 ^ 63 \<Longrightarrow> wrap64 x = x"
  by (simp add: wrap64_def)

lemma wrap64_bounds: "- (2 ^ 63) \<le> wrap64 x" "wrap64 x < 2 ^ 63"
  using pos_mod_bound [of "2 ^ 64 :: int" "x + 2 ^ 63"] pos_mod_sign [of "2 ^ 64 :: int" "x + 2 ^ 63"]
  by (auto simp: wrap64_def)

lemma is_zero_time_zero [simp]: "is_zero time_zero"
  by (simp add: is_zero_def time_zero_def)

lemma time_sub_less_iff:
  "d \<le> max_duration \<Longrightarrow> min_duration < d \<Longrightarrow> time_sub t u < d \<longleftrightarrow> t < u + d"
  by (auto simp: time_sub_def max_duration_def min_duration_def)

lemma time_sub_mono: "t \<le> t' \<Longrightarrow> time_sub t u \<le> time_sub t' u"
  by (auto simp: time_sub_def max_duration_def min_duration_def)

lemma time_sub_exact:
  "min_duration \<le> t - u \<Longrightarrow> t - u \<le> max_duration \<Longrightarrow> time_sub t u = t - u"
  by (simp add: time_sub_def)

lemma time_sub_bounds: "min_duration \<le> time_sub t u" "time_sub t u \<le> max_duration"
  by (auto simp: time_sub_def max_duration_def min_duration_def)

section \<open>Floating point\<close>

type_synonym rounding = "rat \<Rightarrow> rat"

text \<open>
  What the proofs use of IEEE rounding to nearest: it is monotone, and it does not change a number
  that is already rounded, of which 0 is one.
\<close>

definition rounding_ok :: "rounding \<Rightarrow> bool" where
  "rounding_ok rnd \<longleftrightarrow> mono rnd \<and> rnd 0 = 0 \<and> (\<forall>x. rnd (rnd x) = rnd x)"

definition trunc_int :: "rat \<Rightarrow> int" where
  "trunc_int x = (if 0 \<le> x then \<lfloor>x\<rfloor> else \<lceil>x\<rceil>)"

text \<open>\<^verbatim>\<open>Duration.Seconds\<close> and \<^verbatim>\<open>Duration.Hours\<close>: whole units plus the fraction, in \<^verbatim>\<open>float64\<close>.\<close>

definition float_units :: "rounding \<Rightarrow> int \<Rightarrow> duration \<Rightarrow> rat" where
  "float_units rnd unit_ns d =
     rnd (rnd (of_int (go_quot d unit_ns)) + rnd (rnd (of_int (go_rem d unit_ns)) / of_int unit_ns))"

lemma rounding_okD:
  assumes "rounding_ok rnd"
  shows "x \<le> y \<Longrightarrow> rnd x \<le> rnd y" "rnd 0 = 0" "rnd (rnd x) = rnd x"
  using assms by (auto simp: rounding_ok_def dest: monoD)

lemma rounding_nonneg: "rounding_ok rnd \<Longrightarrow> 0 \<le> x \<Longrightarrow> 0 \<le> rnd x"
  using rounding_okD(1) [of rnd 0 x] rounding_okD(2) [of rnd] by simp

lemma rounding_ok_id: "rounding_ok (\<lambda>x. x)"
  by (simp add: rounding_ok_def mono_def)

section \<open>Errors\<close>

datatype go_error =
    Errorf string               \<comment> \<open>\<^verbatim>\<open>errors.New\<close>, or \<^verbatim>\<open>fmt.Errorf\<close> without \<^verbatim>\<open>%w\<close>\<close>
  | Wrapf string go_error       \<comment> \<open>\<^verbatim>\<open>fmt.Errorf("...: %w", err)\<close>\<close>

fun Error :: "go_error \<Rightarrow> string" where
  "Error (Errorf s) = s"
| "Error (Wrapf s e) = s @ '': '' @ Error e"

type_synonym 'a result = "go_error + 'a"

text \<open>The early return on an error, the wrapping of it, and the value otherwise.\<close>

definition wrap_err :: "string \<Rightarrow> 'a result \<Rightarrow> 'a result" where
  "wrap_err s r = (case r of Inl e \<Rightarrow> Inl (Wrapf s e) | Inr x \<Rightarrow> Inr x)"

definition bind_result :: "'a result \<Rightarrow> ('a \<Rightarrow> 'b result) \<Rightarrow> 'b result" where
  "bind_result r f = (case r of Inl e \<Rightarrow> Inl e | Inr x \<Rightarrow> f x)"

lemma wrap_err_simps [simp]:
  "wrap_err s (Inl e) = Inl (Wrapf s e)"
  "wrap_err s (Inr x) = Inr x"
  by (simp_all add: wrap_err_def)

lemma wrap_err_Inr_iff [simp]: "wrap_err s r = Inr x \<longleftrightarrow> r = Inr x"
  by (cases r) simp_all

lemma isl_wrap_err [simp]: "isl (wrap_err s r) = isl r"
  by (cases r) simp_all

lemma bind_result_simps [simp]:
  "bind_result (Inl e) f = Inl e"
  "bind_result (Inr x) f = f x"
  by (simp_all add: bind_result_def)

lemma bind_result_Inr_iff:
  "bind_result r f = Inr y \<longleftrightarrow> (\<exists>x. r = Inr x \<and> f x = Inr y)"
  by (cases r) simp_all

section \<open>Go maps as association lists\<close>

definition amap_ok :: "('k \<times> 'v) list \<Rightarrow> bool" where
  "amap_ok m \<longleftrightarrow> distinct (map fst m)"

lemma amap_ok_Nil [simp]: "amap_ok []"
  by (simp add: amap_ok_def)

lemma amap_ok_update [simp, intro]: "amap_ok m \<Longrightarrow> amap_ok (AList.update k v m)"
  by (simp add: amap_ok_def distinct_update)

lemma amap_ok_delete [simp, intro]: "amap_ok m \<Longrightarrow> amap_ok (AList.delete k m)"
  by (simp add: amap_ok_def distinct_delete)

lemma amap_lookup_update [simp]:
  "map_of (AList.update k v m) k' = (if k' = k then Some v else map_of m k')"
  by (simp add: update_conv')

lemma amap_lookup_delete [simp]:
  "map_of (AList.delete k m) k' = (if k' = k then None else map_of m k')"
  by (simp add: delete_conv')

lemma amap_mem_lookup: "amap_ok m \<Longrightarrow> (k, v) \<in> set m \<longleftrightarrow> map_of m k = Some v"
  by (auto simp: amap_ok_def dest: map_of_SomeD)

lemma amap_snd_update_subset: "snd ` set (AList.update k v m) \<subseteq> insert v (snd ` set m)"
proof
  fix x
  assume "x \<in> snd ` set (AList.update k v m)"
  then obtain j where "(j, x) \<in> set (AList.update k v m)" by auto
  then show "x \<in> insert v (snd ` set m)"
    by (induction m) (auto split: if_splits intro: rev_image_eqI)
qed

lemma amap_update_new: "map_of m k = None \<Longrightarrow> AList.update k v m = m @ [(k, v)]"
  by (induction m) (auto split: if_splits)

lemma amap_set_delete: "set (AList.delete k m) = {p \<in> set m. fst p \<noteq> k}"
  by (auto simp: AList.delete_eq)

lemma amap_distinct_delete: "distinct (map f m) \<Longrightarrow> distinct (map f (AList.delete k m))"
  by (simp add: AList.delete_eq distinct_map_filter)

section \<open>Decimal numerals: \<^verbatim>\<open>strconv.Itoa\<close>\<close>

definition digit_char :: "nat \<Rightarrow> char" where
  "digit_char d = char_of (48 + d)"

fun nat_digits :: "nat \<Rightarrow> string" where
  "nat_digits n = (if n < 10 then [digit_char n] else nat_digits (n div 10) @ [digit_char (n mod 10)])"

declare nat_digits.simps [simp del]

definition Itoa :: "int \<Rightarrow> string" where
  "Itoa i = (if i < 0 then CHR ''-'' # nat_digits (nat (- i)) else nat_digits (nat i))"

text \<open>
  \<^verbatim>\<open>strconv.FormatFloat(x, 'f', p, 64)\<close>, also what \<^verbatim>\<open>%.01f\<close> prints, for \<open>p > 0\<close>: the nearest multiple of
  $10^{-p}$, half to even.
\<close>

definition round_half_even :: "rat \<Rightarrow> int" where
  "round_half_even x =
     (let n = \<lfloor>x\<rfloor>; f = x - of_int n
      in if f < 1 / 2 then n else if f > 1 / 2 then n + 1 else if even n then n else n + 1)"

definition FormatFloat :: "nat \<Rightarrow> rat \<Rightarrow> string" where
  "FormatFloat p x =
     (let n = round_half_even (10 ^ p * \<bar>x\<bar>); f = Itoa (n mod 10 ^ p)
      in (if x < 0 then ''-'' else '''') @ Itoa (n div 10 ^ p) @ ''.'' @ replicate (p - length f) (CHR ''0'') @ f)"

text \<open>\<^verbatim>\<open>math.Round\<close>: the nearest integer, half away from zero.\<close>

definition math_Round :: "rat \<Rightarrow> rat" where
  "math_Round x = (if x < 0 then - of_int \<lfloor>- x + 1 / 2\<rfloor> else of_int \<lfloor>x + 1 / 2\<rfloor>)"

lemma digit_char_inj: "a < 10 \<Longrightarrow> b < 10 \<Longrightarrow> digit_char a = digit_char b \<Longrightarrow> a = b"
  by (auto simp: digit_char_def char_of_eq_iff take_bit_eq_mod)

lemma nat_digits_nonempty [simp]: "nat_digits n \<noteq> []" "[] \<noteq> nat_digits n"
  by (subst nat_digits.simps, simp)+

lemma nat_digits_inj: "nat_digits m = nat_digits n \<Longrightarrow> m = n"
proof (induction m arbitrary: n rule: nat_digits.induct)
  case (1 m)
  note eq = "1.prems"
  show ?case
  proof (cases "m < 10")
    case True
    then have m: "nat_digits m = [digit_char m]" by (simp add: nat_digits.simps [of m])
    have "n < 10"
    proof (rule ccontr)
      assume "\<not> n < 10"
      then show False
        using eq m by (simp add: nat_digits.simps [of n])
    qed
    then show ?thesis
      using True eq m by (simp add: nat_digits.simps [of n] digit_char_inj)
  next
    case False
    then have m: "nat_digits m = nat_digits (m div 10) @ [digit_char (m mod 10)]"
      by (simp add: nat_digits.simps [of m])
    have n10: "\<not> n < 10"
    proof
      assume "n < 10"
      then show False
        using eq m by (simp add: nat_digits.simps [of n])
    qed
    then have n: "nat_digits n = nat_digits (n div 10) @ [digit_char (n mod 10)]"
      by (simp add: nat_digits.simps [of n])
    have "m div 10 = n div 10"
      using "1.IH" [OF False, of "n div 10"] eq m n by simp
    moreover have "m mod 10 = n mod 10"
      using eq m n by (intro digit_char_inj) simp_all
    ultimately show ?thesis
      by (metis div_mult_mod_eq)
  qed
qed

lemma Itoa_inj_nonneg: "0 \<le> i \<Longrightarrow> 0 \<le> j \<Longrightarrow> Itoa i = Itoa j \<Longrightarrow> i = j"
  by (auto simp: Itoa_def dest: nat_digits_inj)

lemma Itoa_nonempty [simp]: "Itoa i \<noteq> []"
  by (simp add: Itoa_def)

section \<open>Lists\<close>

lemma filter_id_conv_all: "list_all P xs \<Longrightarrow> filter P xs = xs"
  by (simp add: list_all_iff)

section \<open>Strings\<close>

fun strings_Join :: "string \<Rightarrow> string list \<Rightarrow> string" where
  "strings_Join sep [] = []"
| "strings_Join sep [x] = x"
| "strings_Join sep (x # y # xs) = x @ sep @ strings_Join sep (y # xs)"

text \<open>\<^verbatim>\<open>strings.Split\<close> by a separator of one character.\<close>

fun strings_Split :: "char \<Rightarrow> string \<Rightarrow> string list" where
  "strings_Split c [] = [[]]"
| "strings_Split c (x # xs) =
     (if x = c then [] # strings_Split c xs
      else case strings_Split c xs of [] \<Rightarrow> [[x]] | seg # segs \<Rightarrow> (x # seg) # segs)"

lemma strings_Join_Cons: "xs \<noteq> [] \<Longrightarrow> strings_Join sep (x # xs) = x @ sep @ strings_Join sep xs"
  by (cases xs) simp_all

lemma append_sep_inj:
  "c \<notin> set x \<Longrightarrow> c \<notin> set y \<Longrightarrow> x @ c # u = y @ c # v \<Longrightarrow> x = y \<and> u = v"
proof (induction x arbitrary: y)
  case Nil
  then show ?case by (cases y) auto
next
  case (Cons a x)
  then show ?case by (cases y) auto
qed

text \<open>Parts that do not contain the separator can be read back from the joined string.\<close>

lemma strings_Join_inj:
  assumes "xs \<noteq> []" "ys \<noteq> []" "\<forall>x \<in> set xs. c \<notin> set x" "\<forall>y \<in> set ys. c \<notin> set y"
    and "strings_Join [c] xs = strings_Join [c] ys"
  shows "xs = ys"
  using assms
proof (induction xs arbitrary: ys)
  case Nil
  then show ?case by simp
next
  case (Cons x xs)
  obtain y ys' where ys: "ys = y # ys'" using Cons.prems(2) by (cases ys) simp_all
  have c: "c \<notin> set x" "c \<notin> set y" "\<forall>x \<in> set xs. c \<notin> set x" "\<forall>y \<in> set ys'. c \<notin> set y"
    using Cons.prems(3,4) ys by simp_all
  have eq: "strings_Join [c] (x # xs) = strings_Join [c] (y # ys')" using Cons.prems(5) ys by simp
  show ?case
  proof (cases "xs = [] \<or> ys' = []")
    case True
    then show ?thesis
    proof
      assume "xs = []"
      then show ?thesis using eq c(1) ys by (cases "ys' = []") (simp_all add: strings_Join_Cons)
    next
      assume "ys' = []"
      then have "strings_Join [c] (x # xs) = y" using eq by simp
      then show ?thesis using c(2) ys \<open>ys' = []\<close> by (cases "xs = []") (auto simp: strings_Join_Cons)
    qed
  next
    case False
    then have "x @ c # strings_Join [c] xs = y @ c # strings_Join [c] ys'"
      using eq by (simp add: strings_Join_Cons)
    from append_sep_inj [OF c(1,2) this] have eqs: "x = y" "strings_Join [c] xs = strings_Join [c] ys'"
      by simp_all
    have "xs = ys'" using Cons.IH [OF _ _ c(3,4) eqs(2)] False by simp
    then show ?thesis using eqs(1) ys by simp
  qed
qed

end
