(* ===== verification/Rounding.thy ===== *)
theory Rounding
  imports Go_Prelude
begin

text \<open>
  Rounding errors. Each operation on \<^verbatim>\<open>float64\<close> values rounds its exact result, and IEEE 754 bounds the error of
  rounding to nearest relative to the result, in the range of the normal numbers. The relation of a computed
  value to the exact one, up to a number of roundings, goes through the operations that the program uses.
\<close>

section \<open>Rounding to nearest\<close>

definition unit_roundoff :: rat where
  "unit_roundoff = 1 / 2 ^ 53"

text \<open>Non-negative numbers between the smallest and the largest normal number; both are generously inside the range.\<close>

definition float64_round :: "rounding \<Rightarrow> bool" where
  "float64_round rnd \<longleftrightarrow>
     (\<forall>x. x = 0 \<or> 1 / 10 ^ 300 \<le> x \<and> x \<le> 10 ^ 300 \<longrightarrow> \<bar>rnd x - x\<bar> \<le> unit_roundoff * x)"

text \<open>A computed value \<open>y\<close> is off an exact one, \<open>x\<close>, by at most \<open>k\<close> roundings.\<close>

definition near :: "nat \<Rightarrow> rat \<Rightarrow> rat \<Rightarrow> bool" where
  "near k x y \<longleftrightarrow> (1 - unit_roundoff) ^ k * x \<le> y \<and> y \<le> (1 + unit_roundoff) ^ k * x"

text \<open>A number is zero or of an order of magnitude between \<open>- n\<close> and \<open>n\<close>.\<close>

definition sized :: "nat \<Rightarrow> rat \<Rightarrow> bool" where
  "sized n x \<longleftrightarrow> x = 0 \<or> 1 / 10 ^ n \<le> x \<and> x \<le> 10 ^ n"

lemma roundoff_range: "0 < unit_roundoff" "unit_roundoff < 1"
  by (simp_all add: unit_roundoff_def)

section \<open>Orders of magnitude\<close>

lemma sized_nonneg: "sized n x \<Longrightarrow> 0 \<le> x"
  by (auto simp: sized_def intro: order_trans [rotated])

lemma sized_zero [simp]: "sized n 0"
  by (simp add: sized_def)

lemma sized_mono:
  assumes "sized n x" "n \<le> m"
  shows "sized m x"
proof -
  have "(10::rat) ^ n \<le> 10 ^ m" using assms(2) by (simp add: power_increasing)
  moreover from this have "1 / (10::rat) ^ m \<le> 1 / 10 ^ n" by (simp add: frac_le)
  ultimately show ?thesis using assms(1) unfolding sized_def by linarith
qed

lemma sized_mult:
  assumes "sized n x" "sized m y"
  shows "sized (n + m) (x * y)"
proof (cases "x = 0 \<or> y = 0")
  case True
  then show ?thesis by auto
next
  case False
  with assms have x: "1 / 10 ^ n \<le> x" "x \<le> 10 ^ n" and y: "1 / 10 ^ m \<le> y" "y \<le> 10 ^ m"
    by (auto simp: sized_def)
  have nn: "0 \<le> x" "0 \<le> y" using assms by (simp_all add: sized_nonneg)
  have pos: "0 \<le> 1 / (10::rat) ^ n" "0 \<le> 1 / (10::rat) ^ m" by simp_all
  have "1 / (10::rat) ^ n * (1 / 10 ^ m) \<le> x * y" using x(1) y(1) pos nn by (intro mult_mono) auto
  moreover have "x * y \<le> 10 ^ n * 10 ^ m" using x y nn by (intro mult_mono) auto
  ultimately show ?thesis by (simp add: sized_def power_add)
qed

lemma sized_inverse: "sized n x \<Longrightarrow> sized n (1 / x)"
proof (cases "x = 0")
  case False
  assume "sized n x"
  with False have "1 / 10 ^ n \<le> x" "x \<le> 10 ^ n" by (auto simp: sized_def)
  moreover from this have "0 < x" using less_le_trans [of 0 "1 / 10 ^ n" x] by simp
  ultimately show ?thesis by (simp add: sized_def field_simps)
qed simp

lemma sized_divide: "sized n x \<Longrightarrow> sized m y \<Longrightarrow> sized (n + m) (x / y)"
  using sized_mult [OF _ sized_inverse, of n x m y] by simp

lemma sized_add: "sized n x \<Longrightarrow> sized n y \<Longrightarrow> sized (Suc n) (x + y)"
  using sized_nonneg [of n x] sized_nonneg [of n y] sized_mono [of n x "Suc n"] sized_mono [of n y "Suc n"]
  unfolding sized_def by auto

lemma sized_of_int:
  assumes "0 \<le> i" "i \<le> 10 ^ n"
  shows "sized n (of_int i)"
proof (cases "i = 0")
  case False
  with assms have "1 \<le> i" by simp
  then have "(1::rat) \<le> of_int i" by (metis of_int_1 of_int_le_iff)
  moreover have "1 / (10::rat) ^ n \<le> 1" by simp
  moreover have "(of_int i :: rat) \<le> 10 ^ n" using assms(2) by (metis of_int_le_iff of_int_numeral of_int_power)
  ultimately show ?thesis unfolding sized_def by linarith
qed simp

section \<open>Relative errors\<close>

lemma near_refl: "near 0 x x"
  by (simp add: near_def)

lemma near_mono:
  assumes "near k x y" "k \<le> m" "0 \<le> x"
  shows "near m x y"
proof -
  have "(1 - unit_roundoff) ^ m \<le> (1 - unit_roundoff) ^ k"
    using roundoff_range assms(2) by (simp add: power_decreasing)
  moreover have "(1 + unit_roundoff) ^ k \<le> (1 + unit_roundoff) ^ m"
    using roundoff_range assms(2) by (simp add: power_increasing)
  ultimately have "(1 - unit_roundoff) ^ m * x \<le> (1 - unit_roundoff) ^ k * x"
    "(1 + unit_roundoff) ^ k * x \<le> (1 + unit_roundoff) ^ m * x"
    using assms(3) by (simp_all add: mult_right_mono)
  then show ?thesis using assms(1) unfolding near_def by linarith
qed

lemma near_add: "near k x y \<Longrightarrow> near k x' y' \<Longrightarrow> near k (x + x') (y + y')"
  by (simp add: near_def distrib_left)

lemma near_mult:
  assumes "near k x y" "0 \<le> c"
  shows "near k (x * c) (y * c)"
  using mult_right_mono [of _ _ c] assms unfolding near_def by (simp add: mult.assoc [symmetric])

lemma near_divide: "near k x y \<Longrightarrow> 0 < c \<Longrightarrow> near k (x / c) (y / c)"
  using near_mult [of k x y "1 / c"] by simp

lemma near_min:
  assumes "near k x y" "near k x' y'"
  shows "near k (min x x') (min y y')"
proof -
  have "0 \<le> (1 - unit_roundoff) ^ k" "0 \<le> (1 + unit_roundoff) ^ k" using roundoff_range by simp_all
  then have "(1 - unit_roundoff) ^ k * min x x' \<le> (1 - unit_roundoff) ^ k * x"
    "(1 - unit_roundoff) ^ k * min x x' \<le> (1 - unit_roundoff) ^ k * x'"
    by (simp_all add: mult_left_mono)
  with assms show ?thesis unfolding near_def min_def by (auto split: if_splits)
qed

text \<open>Up to \<open>2 ^ 50\<close> roundings change a value by less than a factor of two.\<close>

lemma one_minus_power: "1 - of_nat k * unit_roundoff \<le> (1 - unit_roundoff) ^ k"
proof (induction k)
  case (Suc k)
  have "(1 - of_nat k * unit_roundoff) * (1 - unit_roundoff) \<le> (1 - unit_roundoff) ^ k * (1 - unit_roundoff)"
    using Suc.IH roundoff_range by (intro mult_right_mono) auto
  moreover have "1 - of_nat (Suc k) * unit_roundoff \<le> (1 - of_nat k * unit_roundoff) * (1 - unit_roundoff)"
    using roundoff_range by (simp add: algebra_simps)
  ultimately show ?case by (simp add: mult.commute)
qed simp

lemma roundings_factor:
  assumes "k \<le> 2 ^ 50"
  shows "1 / 2 \<le> (1 - unit_roundoff) ^ k" "(1 + unit_roundoff) ^ k \<le> 2"
proof -
  have "(of_nat k :: rat) \<le> 2 ^ 50" using assms by (metis of_nat_le_iff of_nat_numeral of_nat_power)
  then have "of_nat k * unit_roundoff \<le> 2 ^ 50 * unit_roundoff" using roundoff_range by (simp add: mult_right_mono)
  also have "\<dots> \<le> 1 / 2" by (simp add: unit_roundoff_def)
  finally show low: "1 / 2 \<le> (1 - unit_roundoff) ^ k" using one_minus_power [of k] by linarith
  have "(1 + unit_roundoff) ^ k * (1 - unit_roundoff) ^ k = (1 - unit_roundoff * unit_roundoff) ^ k"
    by (simp add: power_mult_distrib [symmetric] algebra_simps)
  also have "\<dots> \<le> 1"
  proof (rule power_le_one)
    have "unit_roundoff * unit_roundoff \<le> 1" using roundoff_range mult_le_one [of unit_roundoff unit_roundoff] by simp
    then show "0 \<le> 1 - unit_roundoff * unit_roundoff" by simp
  qed (use roundoff_range in simp)
  finally have "(1 + unit_roundoff) ^ k * (1 - unit_roundoff) ^ k \<le> 1" .
  moreover have "(1 + unit_roundoff) ^ k * (1 / 2) \<le> (1 + unit_roundoff) ^ k * (1 - unit_roundoff) ^ k"
    using low roundoff_range by (intro mult_left_mono) auto
  ultimately show "(1 + unit_roundoff) ^ k \<le> 2" by simp
qed

text \<open>The step of every operation: rounding a computed value adds one rounding to its error.\<close>

lemma near_round:
  assumes "float64_round rnd" "near k x y" "sized 299 x" "k \<le> 2 ^ 50"
  shows "near (Suc k) x (rnd y)"
proof (cases "x = 0")
  case True
  then have y: "y = 0" using assms(2) by (simp add: near_def)
  have "\<bar>rnd 0 - 0\<bar> \<le> unit_roundoff * 0" using assms(1) unfolding float64_round_def by blast
  with True y show ?thesis by (simp add: near_def)
next
  case False
  with assms(3) have x: "1 / 10 ^ 299 \<le> x" "x \<le> 10 ^ 299" by (auto simp: sized_def)
  then have pos: "0 < x" using less_le_trans [of 0 "1 / 10 ^ 299" x] by simp
  have "1 / 2 * x \<le> (1 - unit_roundoff) ^ k * x" "(1 + unit_roundoff) ^ k * x \<le> 2 * x"
    using roundings_factor [OF assms(4)] pos by simp_all
  with assms(2) have y: "1 / 2 * x \<le> y" "y \<le> 2 * x" unfolding near_def by linarith+
  have "1 / 10 ^ 300 \<le> 1 / 2 * (1 / (10::rat) ^ 299)" "2 * (10::rat) ^ 299 \<le> 10 ^ 300" by simp_all
  with x y have "1 / 10 ^ 300 \<le> y" "y \<le> 10 ^ 300" by linarith+
  with assms(1) have r: "\<bar>rnd y - y\<bar> \<le> unit_roundoff * y" unfolding float64_round_def by blast
  have "(1 - unit_roundoff) * ((1 - unit_roundoff) ^ k * x) \<le> (1 - unit_roundoff) * y"
    "(1 + unit_roundoff) * y \<le> (1 + unit_roundoff) * ((1 + unit_roundoff) ^ k * x)"
    using assms(2) roundoff_range unfolding near_def by simp_all
  moreover have "(1 - unit_roundoff) * y \<le> rnd y" "rnd y \<le> (1 + unit_roundoff) * y"
    using r by (simp_all add: algebra_simps abs_le_iff)
  ultimately show ?thesis unfolding near_def by (simp add: mult.assoc)
qed

section \<open>Durations in hours\<close>

lemma near_float_units:
  assumes "float64_round rnd" "0 \<le> d" "d \<le> max_duration" "0 < u" "u \<le> 10 ^ 13"
  shows "near 3 (of_int d / of_int u) (float_units rnd u d)" "sized 33 (of_int d / of_int u)"
proof -
  let ?q = "go_quot d u" and ?r = "go_rem d u"
  have go: "?q = d div u" "?r = d mod u" using assms(2,4) by (simp_all add: go_quot_def go_rem_def minus_mult_div_eq_mod)
  have qr: "?q * u + ?r = d" "0 \<le> ?q" "0 \<le> ?r"
    using assms(2,4) unfolding go by (simp_all add: pos_imp_zdiv_nonneg_iff)
  moreover have "?q * 1 \<le> ?q * u" using assms(4) qr(2) by (intro mult_left_mono) auto
  ultimately have le: "?q \<le> d" "?r \<le> d" by linarith+
  have d19: "d \<le> 10 ^ 19" using assms(3) by (simp add: max_duration_def)
  have s: "sized 19 (of_int ?q)" "sized 19 (of_int ?r)" "sized 19 (of_int d)" "sized 13 (of_int u)"
    using qr le d19 assms(2,4,5) by (auto intro!: sized_of_int)
  have up: "0 < (of_int u :: rat)" using assms(4) by simp
  have exact: "(of_int d :: rat) / of_int u = of_int ?q + of_int ?r / of_int u"
    using qr(1) up by (metis add_divide_distrib nonzero_mult_div_cancel_right of_int_add of_int_mult less_irrefl)
  have round: "near (Suc k) x (rnd y)" if "near k x y" "sized 33 x" "k \<le> 5" for k x y
    using near_round [OF assms(1) that(1)] sized_mono [OF that(2)] that(3) by simp
  have sr: "sized 32 (of_int ?r / of_int u)" using sized_divide [OF s(2,4)] by simp
  have q: "near 1 (of_int ?q) (rnd (of_int ?q))"
    using round [OF near_refl sized_mono [OF s(1)]] by simp
  have "near 1 (of_int ?r) (rnd (of_int ?r))"
    using round [OF near_refl sized_mono [OF s(2)]] by simp
  then have r: "near 2 (of_int ?r / of_int u) (rnd (rnd (of_int ?r) / of_int u))"
    using round [OF near_divide [OF _ up] sized_mono [OF sr], of 1] by (simp add: numeral_2_eq_2)
  have sq: "sized 32 (of_int ?q)" using sized_mono [OF s(1)] by simp
  have sum: "sized 33 (of_int ?q + of_int ?r / of_int u)" using sized_add [OF sq sr] by simp
  have "near 2 (of_int ?q) (rnd (of_int ?q))" using near_mono [OF q] sized_nonneg [OF s(1)] by simp
  from round [OF near_add [OF this r] sum]
  show "near 3 (of_int d / of_int u) (float_units rnd u d)" by (simp add: float_units_def exact numeral_3_eq_3)
  show "sized 33 (of_int d / of_int u)" using sum exact by simp
qed

lemma float64_round_id: "float64_round (\<lambda>x. x)"
  using roundoff_range(1) by (simp add: float64_round_def)

text \<open>A rounding that is always off by half of what is allowed.\<close>

lemma float64_round_biased: "float64_round (\<lambda>x. x + x / 2 ^ 54)"
  by (auto simp: float64_round_def unit_roundoff_def)

end
