(* ===== verification/Backoff.thy ===== *)
theory Backoff
  imports Go_Prelude
begin

text \<open>
  The three-stage backoff of \<^verbatim>\<open>src/backoff\<close>: the stateless strategy (\<^verbatim>\<open>backoff.go\<close>) and the stateful
  one that counts consecutive failures (\<^verbatim>\<open>stateful.go\<close>). Failure counts are \<^verbatim>\<open>uint32\<close>, kept at their
  width. The locale \<open>staged_backoff\<close> states what a client may rely on (the delay depends on the
  stage only, and the stage never decreases with the count); it is interpreted here for
  \<^verbatim>\<open>backoff.Delay\<close> and in \<^verbatim>\<open>Cache\<close> for the refresher's own \<^verbatim>\<open>getBackoff\<close>.
\<close>

section \<open>The contract\<close>

locale staged_backoff =
  fixes delay :: "'c \<Rightarrow> 'n::linorder \<Rightarrow> duration"
    and stage :: "'c \<Rightarrow> 'n \<Rightarrow> nat"
    and stage_delay :: "'c \<Rightarrow> nat \<Rightarrow> duration"
  assumes delay_stage: "delay c n = stage_delay c (stage c n)"
    and stage_mono: "m \<le> n \<Longrightarrow> stage c m \<le> stage c n"
    and stage_bound: "stage c n < 3"
begin

lemma delay_cases:
  "delay c n \<in> {stage_delay c 0, stage_delay c 1, stage_delay c 2}"
proof -
  have "stage c n = 0 \<or> stage c n = 1 \<or> stage c n = 2"
    using stage_bound [of c n] by arith
  then show ?thesis by (auto simp: delay_stage)
qed

lemma delay_mono:
  assumes "stage_delay c 0 \<le> stage_delay c 1" "stage_delay c 1 \<le> stage_delay c 2" "m \<le> n"
  shows "delay c m \<le> delay c n"
proof -
  have "i \<le> j \<Longrightarrow> j < 3 \<Longrightarrow> stage_delay c i \<le> stage_delay c j" for i j
    using assms(1,2) by (auto simp: numeral_3_eq_3 less_Suc_eq le_Suc_eq numeral_2_eq_2)
  then show ?thesis
    by (simp add: delay_stage stage_mono stage_bound assms(3))
qed

end

section \<open>The stateless strategy (\<^verbatim>\<open>backoff.go\<close>)\<close>

record backoff =
  bk_initialBackoff :: duration
  bk_repeatedBackoff :: duration
  bk_finalBackoff :: duration
  bk_initialFailureCount :: "32 word"
  bk_repeatedFailureCount :: "32 word"

definition backoff_New ::
  "duration \<Rightarrow> duration \<Rightarrow> duration \<Rightarrow> 32 word \<Rightarrow> 32 word \<Rightarrow> backoff" where
  "backoff_New initial repeated final initialCount repeatedCount =
     \<lparr>bk_initialBackoff = initial, bk_repeatedBackoff = repeated, bk_finalBackoff = final,
      bk_initialFailureCount = initialCount, bk_repeatedFailureCount = repeatedCount\<rparr>"

definition backoff_Delay :: "backoff \<Rightarrow> 32 word \<Rightarrow> duration" where
  "backoff_Delay b failureCount =
     (if failureCount \<le> bk_initialFailureCount b then bk_initialBackoff b
      else if failureCount - bk_initialFailureCount b \<le> bk_repeatedFailureCount b
      then bk_repeatedBackoff b
      else bk_finalBackoff b)"

definition backoff_Should :: "backoff \<Rightarrow> time \<Rightarrow> time \<Rightarrow> 32 word \<Rightarrow> bool" where
  "backoff_Should b now lastFailure failureCount =
     (if is_zero lastFailure then False
      else lastFailure + backoff_Delay b failureCount > now)"

text \<open>The stage of a count, over the natural numbers, where no sum can wrap.\<close>

definition backoff_stage :: "backoff \<Rightarrow> 32 word \<Rightarrow> nat" where
  "backoff_stage b n =
     (if unat n \<le> unat (bk_initialFailureCount b) then 0
      else if unat n \<le> unat (bk_initialFailureCount b) + unat (bk_repeatedFailureCount b) then 1
      else 2)"

definition backoff_stage_delay :: "backoff \<Rightarrow> nat \<Rightarrow> duration" where
  "backoff_stage_delay b k =
     (if k = 0 then bk_initialBackoff b else if k = 1 then bk_repeatedBackoff b
      else bk_finalBackoff b)"

lemma word_diff_le_iff:
  fixes n i r :: "32 word"
  assumes "i < n"
  shows "n - i \<le> r \<longleftrightarrow> unat n \<le> unat i + unat r"
proof -
  have "unat (n - i) = unat n - unat i"
    using assms by (simp add: unat_sub)
  moreover have "unat i < unat n"
    using assms by (simp add: word_less_nat_alt)
  ultimately show ?thesis by (auto simp: word_le_nat_alt)
qed

lemma backoff_Delay_stage: "backoff_Delay b n = backoff_stage_delay b (backoff_stage b n)"
proof (cases "n \<le> bk_initialFailureCount b")
  case True
  then show ?thesis
    by (simp add: backoff_Delay_def backoff_stage_delay_def backoff_stage_def word_le_nat_alt)
next
  case False
  then show ?thesis
    using word_diff_le_iff [of "bk_initialFailureCount b" n "bk_repeatedFailureCount b"]
    by (simp add: backoff_Delay_def backoff_stage_delay_def backoff_stage_def word_le_nat_alt
        not_le word_less_nat_alt)
qed

interpretation bk: staged_backoff backoff_Delay backoff_stage backoff_stage_delay
proof
  show "m \<le> n \<Longrightarrow> backoff_stage c m \<le> backoff_stage c n" for c m n
    by (auto simp: backoff_stage_def word_le_nat_alt)
qed (auto simp: backoff_Delay_stage backoff_stage_def)

section \<open>The stateful strategy (\<^verbatim>\<open>stateful.go\<close>)\<close>

record stateful =
  sf_backoff :: backoff
  sf_lastFailure :: time
  sf_failures :: "32 word"

definition stateful_New ::
  "duration \<Rightarrow> duration \<Rightarrow> duration \<Rightarrow> 32 word \<Rightarrow> 32 word \<Rightarrow> stateful" where
  "stateful_New initial repeated final initialCount repeatedCount =
     \<lparr>sf_backoff = backoff_New initial repeated final initialCount repeatedCount,
      sf_lastFailure = time_zero, sf_failures = 0\<rparr>"

definition stateful_Next :: "time \<Rightarrow> stateful \<Rightarrow> duration \<times> stateful" where
  "stateful_Next now s =
     (let s' = s\<lparr>sf_lastFailure := now, sf_failures := sf_failures s + 1\<rparr>
      in (backoff_Delay (sf_backoff s') (sf_failures s'), s'))"

definition stateful_Fail :: "time \<Rightarrow> stateful \<Rightarrow> stateful" where
  "stateful_Fail now s = s\<lparr>sf_lastFailure := now, sf_failures := sf_failures s + 1\<rparr>"

definition stateful_Should :: "time \<Rightarrow> stateful \<Rightarrow> bool" where
  "stateful_Should now s = backoff_Should (sf_backoff s) now (sf_lastFailure s) (sf_failures s)"

definition stateful_Reset :: "stateful \<Rightarrow> stateful" where
  "stateful_Reset s = s\<lparr>sf_lastFailure := time_zero, sf_failures := 0\<rparr>"

lemmas stateful_defs = stateful_New_def stateful_Next_def stateful_Fail_def stateful_Should_def
  stateful_Reset_def

text \<open>A run of calls, each with the clock reading it makes.\<close>

datatype stateful_call = CallNext time | CallFail time | CallReset

fun stateful_step :: "stateful \<Rightarrow> stateful_call \<Rightarrow> stateful" where
  "stateful_step s (CallNext now) = snd (stateful_Next now s)"
| "stateful_step s (CallFail now) = stateful_Fail now s"
| "stateful_step s CallReset = stateful_Reset s"

definition stateful_run :: "stateful \<Rightarrow> stateful_call list \<Rightarrow> stateful" where
  "stateful_run = foldl stateful_step"

text \<open>The specification: the number of failures since the last reset, and the time of the last.\<close>

definition spec_failures :: "stateful_call list \<Rightarrow> nat" where
  "spec_failures cs = length (takeWhile (\<lambda>c. c \<noteq> CallReset) (rev cs))"

fun call_time :: "stateful_call \<Rightarrow> time" where
  "call_time (CallNext t) = t"
| "call_time (CallFail t) = t"
| "call_time CallReset = time_zero"

lemma stateful_run_snoc: "stateful_run s (cs @ [c]) = stateful_step (stateful_run s cs) c"
  by (simp add: stateful_run_def)

lemma spec_failures_snoc:
  "spec_failures (cs @ [c]) = (if c = CallReset then 0 else Suc (spec_failures cs))"
  by (simp add: spec_failures_def)

lemma stateful_step_backoff [simp]: "sf_backoff (stateful_step s c) = sf_backoff s"
  by (cases c) (simp_all add: stateful_defs Let_def)

lemma stateful_run_backoff [simp]: "sf_backoff (stateful_run s cs) = sf_backoff s"
  by (induction cs rule: rev_induct) (simp_all add: stateful_run_snoc, simp add: stateful_run_def)

lemma stateful_step_failures:
  "sf_failures (stateful_step s c) = (if c = CallReset then 0 else sf_failures s + 1)"
  by (cases c) (simp_all add: stateful_defs Let_def)

lemma stateful_step_lastFailure: "sf_lastFailure (stateful_step s c) = call_time c"
  by (cases c) (simp_all add: stateful_defs Let_def)

lemma stateful_run_failures:
  "sf_failures s = 0 \<Longrightarrow> sf_failures (stateful_run s cs) = of_nat (spec_failures cs)"
proof (induction cs rule: rev_induct)
  case Nil
  then show ?case by (simp add: stateful_run_def spec_failures_def)
next
  case (snoc c cs)
  then show ?case
    by (simp add: stateful_run_snoc spec_failures_snoc stateful_step_failures)
qed

lemma stateful_run_lastFailure:
  "is_zero (sf_lastFailure s) \<Longrightarrow>
   sf_lastFailure (stateful_run s cs) = (if cs = [] then sf_lastFailure s else call_time (last cs))"
  by (induction cs rule: rev_induct) (simp_all add: stateful_run_snoc stateful_step_lastFailure,
      simp add: stateful_run_def)

section \<open>Properties\<close>

text \<open>
  C22. The delay of the stateless strategy, over the natural numbers: the initial backoff up to the
  initial failure count, the repeated one for the next \<^verbatim>\<open>repeatedFailureCount\<close> failures, the final
  one after that. The code subtracts 32-bit counts and never wraps doing so, whatever the two
  configured counts are, even if their sum exceeds 32 bits.
\<close>
theorem backoff_Delay_no_wrap:
  "backoff_Delay b n =
     (if unat n \<le> unat (bk_initialFailureCount b) then bk_initialBackoff b
      else if unat n \<le> unat (bk_initialFailureCount b) + unat (bk_repeatedFailureCount b)
      then bk_repeatedBackoff b
      else bk_finalBackoff b)"
  by (simp add: backoff_Delay_stage backoff_stage_delay_def backoff_stage_def)

text \<open>
  With stages configured in increasing order, one more failure never shortens the delay.
\<close>
theorem backoff_Delay_monotone:
  assumes "bk_initialBackoff b \<le> bk_repeatedBackoff b" "bk_repeatedBackoff b \<le> bk_finalBackoff b"
    and "m \<le> n"
  shows "backoff_Delay b m \<le> backoff_Delay b n"
  using assms by (intro bk.delay_mono) (simp_all add: backoff_stage_delay_def)

theorem backoff_Delay_monotone_witness:
  "backoff_Delay (backoff_New 5 900 86400 3 3) 2 \<le> backoff_Delay (backoff_New 5 900 86400 3 3) 7"
  by (rule backoff_Delay_monotone) (simp_all add: backoff_New_def)

text \<open>
  After any sequence of \<^verbatim>\<open>Next\<close>, \<^verbatim>\<open>Fail\<close> and \<^verbatim>\<open>Reset\<close> calls on a new stateful backoff, \<^verbatim>\<open>Should\<close> answers
  yes exactly when the last call recorded a failure and the delay for the number of failures since
  the last reset has not passed yet since that call.
\<close>
theorem stateful_Should_after_run:
  assumes "\<forall>c \<in> set cs. c \<noteq> CallReset \<longrightarrow> call_time c \<noteq> 0"
  shows "stateful_Should now (stateful_run (stateful_New initial repeated final ci cr) cs) \<longleftrightarrow>
    cs \<noteq> [] \<and> last cs \<noteq> CallReset \<and>
    now < call_time (last cs)
      + backoff_Delay (backoff_New initial repeated final ci cr) (of_nat (spec_failures cs))"
proof -
  define s where "s = stateful_New initial repeated final ci cr"
  have f: "sf_failures (stateful_run s cs) = of_nat (spec_failures cs)"
    by (rule stateful_run_failures) (simp add: s_def stateful_New_def)
  have l: "sf_lastFailure (stateful_run s cs) = (if cs = [] then 0 else call_time (last cs))"
    by (subst stateful_run_lastFailure) (simp_all add: s_def stateful_New_def time_zero_def is_zero_def)
  have b: "sf_backoff s = backoff_New initial repeated final ci cr"
    by (simp add: s_def stateful_New_def)
  have z: "cs \<noteq> [] \<Longrightarrow> is_zero (call_time (last cs)) \<longleftrightarrow> last cs = CallReset"
    using assms by (auto simp: is_zero_def time_zero_def)
  show ?thesis
    using z unfolding s_def [symmetric]
    by (auto simp: stateful_Should_def backoff_Should_def f l b is_zero_def)
qed

theorem stateful_Should_after_run_witness:
  "stateful_Should 110 (stateful_run (stateful_New 5 20 30 1 1) [CallFail 50, CallReset, CallNext 90, CallFail 100])
   \<longleftrightarrow> [CallFail 50, CallReset, CallNext 90, CallFail 100] \<noteq> []
     \<and> last [CallFail 50, CallReset, CallNext 90, CallFail 100] \<noteq> CallReset
     \<and> (110::int) < call_time (last [CallFail 50, CallReset, CallNext 90, CallFail 100])
        + backoff_Delay (backoff_New 5 20 30 1 1)
            (of_nat (spec_failures [CallFail 50, CallReset, CallNext 90, CallFail 100]))"
  by (rule stateful_Should_after_run) simp

end
