(* ===== verification/Cache.thy ===== *)
theory Cache
  imports Backoff
begin

text \<open>
  The caches of \<^verbatim>\<open>src/adapter/cache\<close>: the reporting cache (\<^verbatim>\<open>reporter.go\<close>) that decides whether a
  value has to be reported again, and the refresher (\<^verbatim>\<open>refresher.go\<close>) that polls a source at most
  once per interval and backs off while it fails. Values are of an arbitrary type with equality, as
  \<^verbatim>\<open>reflect.DeepEqual\<close> compares them.
\<close>

section \<open>The reporting cache (\<^verbatim>\<open>reporter.go\<close>)\<close>

text \<open>A strategy sees the clock, whether the value changed and when it was last reported.\<close>

type_synonym strategy = "time \<Rightarrow> bool \<Rightarrow> time \<Rightarrow> bool"

definition ReportAlways :: strategy where
  "ReportAlways now hasChanged lastReported = True"

definition ReportOnChangeOnly :: strategy where
  "ReportOnChangeOnly now hasChanged lastReported = hasChanged"

definition ReportAtLeastEvery :: "duration \<Rightarrow> strategy" where
  "ReportAtLeastEvery interval now hasChanged lastReported =
     (if hasChanged then True else time_since now lastReported > interval)"

record 'v cached =
  cv_reported :: time
  cv_value :: 'v

type_synonym 'v reporting_cache = "string \<rightharpoonup> (string \<rightharpoonup> 'v cached)"

definition NewReportingCache :: "'v reporting_cache" where
  "NewReportingCache = Map.empty"

definition value_hasChanged :: "'v cached \<Rightarrow> 'v \<Rightarrow> bool" where
  "value_hasChanged v val \<longleftrightarrow> cv_value v \<noteq> val"

text \<open>\<^verbatim>\<open>c.values[key][subKey]\<close>: a missing key reads as the nil map, and a missing sub key as nil.\<close>

definition cache_lookup :: "'v reporting_cache \<Rightarrow> string \<Rightarrow> string \<Rightarrow> 'v cached option" where
  "cache_lookup c key subKey = (case c key of None \<Rightarrow> None | Some m \<Rightarrow> m subKey)"

definition cache_ReportRequired ::
  "strategy \<Rightarrow> time \<Rightarrow> string \<Rightarrow> string \<Rightarrow> 'v \<Rightarrow> 'v reporting_cache \<Rightarrow> bool" where
  "cache_ReportRequired strat now key subKey val c =
     (case cache_lookup c key subKey of
        None \<Rightarrow> True
      | Some v \<Rightarrow> strat now (value_hasChanged v val) (cv_reported v))"

definition cache_HasChanged :: "string \<Rightarrow> string \<Rightarrow> 'v \<Rightarrow> 'v reporting_cache \<Rightarrow> bool" where
  "cache_HasChanged key subKey val c =
     (case cache_lookup c key subKey of None \<Rightarrow> True | Some v \<Rightarrow> value_hasChanged v val)"

definition cache_Reported ::
  "time \<Rightarrow> string \<Rightarrow> string \<Rightarrow> 'v \<Rightarrow> 'v reporting_cache \<Rightarrow> 'v reporting_cache" where
  "cache_Reported now key subKey val c =
     (let m = (case c key of None \<Rightarrow> Map.empty | Some m \<Rightarrow> m)
      in c(key \<mapsto> m(subKey \<mapsto> \<lparr>cv_reported = now, cv_value = val\<rparr>)))"

lemma cache_lookup_new [simp]: "cache_lookup NewReportingCache k s = None"
  by (simp add: cache_lookup_def NewReportingCache_def)

lemma cache_lookup_Reported [simp]:
  "cache_lookup (cache_Reported now k s v c) k' s' =
     (if k' = k \<and> s' = s then Some \<lparr>cv_reported = now, cv_value = v\<rparr> else cache_lookup c k' s')"
  by (auto simp: cache_lookup_def cache_Reported_def Let_def split: option.splits)

subsection \<open>The contract the services use\<close>

text \<open>
  A service polls its controller, asks whether the value has to be reported, sends it and marks it
  as reported. \<open>poll_sent\<close> is that loop over the successive readings (clock, value): it returns the
  readings that were sent.
\<close>

fun poll_sent ::
  "(time \<Rightarrow> 'v \<Rightarrow> 'c \<Rightarrow> bool) \<Rightarrow> (time \<Rightarrow> 'v \<Rightarrow> 'c \<Rightarrow> 'c) \<Rightarrow> (time \<times> 'v) list \<Rightarrow> 'c
   \<Rightarrow> (time \<times> 'v) list" where
  "poll_sent required mark [] c = []"
| "poll_sent required mark ((now, v) # ps) c =
     (if required now v c then (now, v) # poll_sent required mark ps (mark now v c)
      else poll_sent required mark ps c)"

locale report_tracker =
  fixes required :: "strategy \<Rightarrow> time \<Rightarrow> string \<Rightarrow> string \<Rightarrow> 'v \<Rightarrow> 'c \<Rightarrow> bool"
    and changed :: "string \<Rightarrow> string \<Rightarrow> 'v \<Rightarrow> 'c \<Rightarrow> bool"
    and mark :: "time \<Rightarrow> string \<Rightarrow> string \<Rightarrow> 'v \<Rightarrow> 'c \<Rightarrow> 'c"
    and fresh :: 'c
  assumes required_fresh: "required st now k s v fresh"
    and required_marked: "required st now k s w (mark t k s v c) = st now (v \<noteq> w) t"
    and required_other:
      "(k', s') \<noteq> (k, s) \<Longrightarrow> required st now k' s' w (mark t k s v c) = required st now k' s' w c"
    and changed_fresh: "changed k s v fresh"
    and changed_marked: "changed k s w (mark t k s v c) \<longleftrightarrow> v \<noteq> w"
begin

abbreviation polls :: "strategy \<Rightarrow> string \<Rightarrow> string \<Rightarrow> (time \<times> 'v) list \<Rightarrow> 'c \<Rightarrow> (time \<times> 'v) list" where
  "polls st k s \<equiv> poll_sent (\<lambda>now. required st now k s) (\<lambda>now. mark now k s)"

lemma on_change_marked:
  "map snd (polls ReportOnChangeOnly k s ps (mark t k s v c)) = tl (remdups_adj (v # map snd ps))"
proof (induction ps arbitrary: t v c)
  case Nil
  then show ?case by simp
next
  case (Cons p ps)
  obtain now w where p: "p = (now, w)" by (cases p)
  show ?case
  proof (cases "v = w")
    case True
    then show ?thesis
      using Cons [of t v c] by (simp add: p required_marked ReportOnChangeOnly_def)
  next
    case False
    then show ?thesis
      using Cons [of now w "mark t k s v c"]
      by (simp add: p required_marked ReportOnChangeOnly_def remdups_adj_Cons split: list.split)
  qed
qed

lemma on_change_fresh:
  "map snd (polls ReportOnChangeOnly k s ps fresh) = remdups_adj (map snd ps)"
proof (cases ps)
  case Nil
  then show ?thesis by simp
next
  case (Cons p ps')
  obtain now v where p: "p = (now, v)" by (cases p)
  have "remdups_adj (v # map snd ps') = v # tl (remdups_adj (v # map snd ps'))"
    by (simp add: remdups_adj_Cons split: list.split)
  then show ?thesis
    by (simp add: Cons p required_fresh on_change_marked)
qed

text \<open>
  Under \<^verbatim>\<open>ReportAtLeastEvery i\<close>, polls at most \<open>d\<close> apart are reports at most \<open>i + d\<close> apart.
\<close>

lemma at_least_every_marked:
  assumes "0 \<le> i" "i < max_duration" "t \<le> t0"
    and "sorted (t0 # map fst ps)" "t0 \<le> t + i"
    and "successively (\<lambda>a b. b \<le> a + d) (t0 # map fst ps)"
  shows "successively (\<lambda>a b. b \<le> a + (i + d))
           (t # map fst (polls (ReportAtLeastEvery i) k s ps (mark t k s v c)))"
  using assms
proof (induction ps arbitrary: t t0 v c)
  case Nil
  then show ?case by simp
next
  case (Cons p ps)
  obtain now w where p: "p = (now, w)" by (cases p)
  have now: "t0 \<le> now" "now \<le> t0 + d" using Cons.prems by (auto simp: p)
  show ?case
  proof (cases "required (ReportAtLeastEvery i) now k s w (mark t k s v c)")
    case True
    have "successively (\<lambda>a b. b \<le> a + (i + d))
            (now # map fst (polls (ReportAtLeastEvery i) k s ps (mark now k s w (mark t k s v c))))"
      using Cons.prems by (intro Cons.IH [of now now]) (auto simp: p successively_Cons)
    then show ?thesis
      using True now Cons.prems by (simp add: p)
  next
    case False
    then have "time_since now t \<le> i"
      by (simp add: required_marked ReportAtLeastEvery_def split: if_splits)
    then have "now \<le> t + i"
      using Cons.prems now by (auto simp: time_since_def time_sub_def max_duration_def
          min_duration_def)
    then show ?thesis
      using False Cons.prems now Cons.IH [of t now v c] by (auto simp: p successively_Cons)
  qed
qed

lemma at_least_every_fresh:
  assumes "0 \<le> i" "i < max_duration" "sorted (map fst ps)"
    and "successively (\<lambda>a b. b \<le> a + d) (map fst ps)"
  shows "successively (\<lambda>a b. b \<le> a + (i + d))
           (map fst (polls (ReportAtLeastEvery i) k s ps fresh))"
proof (cases ps)
  case Nil
  then show ?thesis by simp
next
  case (Cons p ps')
  obtain now v where p: "p = (now, v)" by (cases p)
  show ?thesis
    using assms at_least_every_marked [of i now now ps' d k s v fresh]
    by (simp add: Cons p required_fresh)
qed

end

interpretation rc: report_tracker cache_ReportRequired cache_HasChanged cache_Reported
  NewReportingCache
  by unfold_locales
    (auto simp: cache_ReportRequired_def cache_HasChanged_def value_hasChanged_def)

text \<open>
  C20. Under \<^verbatim>\<open>ReportOnChangeOnly\<close>, a service that polls a value and reports through the reporting
  cache sends exactly the successive distinct values: the first one, and then each value that
  differs from the one before it.
\<close>
theorem on_change_sends_changes:
  "map snd (poll_sent (\<lambda>now v. cache_ReportRequired ReportOnChangeOnly now key subKey v)
              (\<lambda>now v. cache_Reported now key subKey v) readings NewReportingCache)
   = remdups_adj (map snd readings)"
  by (rule rc.on_change_fresh)

text \<open>
  C21. Under \<^verbatim>\<open>ReportAtLeastEvery interval\<close>, if the polls follow each other at most \<open>d\<close> apart then the
  reports that are sent follow each other at most \<open>interval + d\<close> apart.
\<close>
theorem at_least_every_bounded_silence:
  assumes "0 \<le> interval" "interval < max_duration" "sorted (map fst readings)"
    and "successively (\<lambda>a b. b \<le> a + d) (map fst readings)"
  shows "successively (\<lambda>a b. b \<le> a + (interval + d))
           (map fst (poll_sent (\<lambda>now v. cache_ReportRequired (ReportAtLeastEvery interval) now key subKey v)
              (\<lambda>now v. cache_Reported now key subKey v) readings NewReportingCache))"
  using assms by (rule rc.at_least_every_fresh)

theorem at_least_every_bounded_silence_witness:
  "successively (\<lambda>a b. b \<le> a + (10 + 4))
     (map fst (poll_sent (\<lambda>now v. cache_ReportRequired (ReportAtLeastEvery 10) now ''k'' '''' v)
        (\<lambda>now v. cache_Reported now ''k'' '''' v)
        [(1, True), (5, True), (9, True), (13, True), (17, False)] NewReportingCache))"
  by (rule at_least_every_bounded_silence) (simp_all add: max_duration_def)

section \<open>The refresher (\<^verbatim>\<open>refresher.go\<close>)\<close>

definition defaultFailureThreshold :: int where "defaultFailureThreshold = 2"
definition defaultBackoffThreshold :: int where "defaultBackoffThreshold = 3"
definition defaultOffset :: rat where "defaultOffset = 5 / 100"
definition defaultInitialBackoff :: duration where "defaultInitialBackoff = 15 * 1000000000"
definition defaultRepeatedBackoff :: duration where "defaultRepeatedBackoff = 60 * 1000000000"
definition defaultFinalBackoff :: duration where "defaultFinalBackoff = 5 * 60 * 1000000000"

record refresher_options =
  ro_interval :: duration
  ro_failureThreshold :: int
  ro_backoffThreshold :: int
  ro_initialBackoff :: duration
  ro_repeatedBackoff :: duration
  ro_finalBackoff :: duration

definition WithBackoff ::
  "duration \<Rightarrow> duration \<Rightarrow> duration \<Rightarrow> int \<Rightarrow> refresher_options \<Rightarrow> refresher_options" where
  "WithBackoff initial repeated final threshold r =
     r\<lparr>ro_initialBackoff := initial, ro_repeatedBackoff := repeated, ro_finalBackoff := final,
       ro_backoffThreshold := threshold\<rparr>"

definition WithDefaultBackoff :: "refresher_options \<Rightarrow> refresher_options" where
  "WithDefaultBackoff =
     WithBackoff defaultInitialBackoff defaultRepeatedBackoff defaultFinalBackoff
       defaultBackoffThreshold"

definition WithFailureThreshold :: "int \<Rightarrow> refresher_options \<Rightarrow> refresher_options" where
  "WithFailureThreshold threshold r = r\<lparr>ro_failureThreshold := threshold\<rparr>"

definition WithDefaultFailureThreshold :: "refresher_options \<Rightarrow> refresher_options" where
  "WithDefaultFailureThreshold = WithFailureThreshold defaultFailureThreshold"

definition WithIntervalOffset :: "rounding \<Rightarrow> rat \<Rightarrow> refresher_options \<Rightarrow> refresher_options" where
  "WithIntervalOffset rnd offset r =
     r\<lparr>ro_interval := trunc_int (rnd (rnd (1 - rnd offset) * rnd (of_int (ro_interval r))))\<rparr>"

definition WithDefaultIntervalOffset :: "rounding \<Rightarrow> refresher_options \<Rightarrow> refresher_options" where
  "WithDefaultIntervalOffset rnd = WithIntervalOffset rnd defaultOffset"

definition WithDefaultOptions :: "rounding \<Rightarrow> refresher_options \<Rightarrow> refresher_options" where
  "WithDefaultOptions rnd r =
     WithDefaultIntervalOffset rnd (WithDefaultFailureThreshold (WithDefaultBackoff r))"

record 'a refresher = refresher_options +
  rf_value :: 'a
  rf_lastRefresh :: time
  rf_lastFailure :: time
  rf_failureCount :: int

text \<open>
  The constructor applies the options in order to the options record. \<open>def\<close> is the zero value of
  the refresher's type parameter.
\<close>

definition NewRefresher ::
  "'a \<Rightarrow> duration \<Rightarrow> (refresher_options \<Rightarrow> refresher_options) list \<Rightarrow> 'a refresher" where
  "NewRefresher def interval options =
     (let o0 = \<lparr>ro_interval = interval, ro_failureThreshold = 0, ro_backoffThreshold = 0,
                ro_initialBackoff = 0, ro_repeatedBackoff = 0, ro_finalBackoff = 0\<rparr>;
          opts = fold (\<lambda>opt r. opt r) options o0
      in refresher_options.extend opts
           \<lparr>rf_value = def, rf_lastRefresh = time_zero, rf_lastFailure = time_zero,
            rf_failureCount = 0\<rparr>)"

definition refresher_getBackoff :: "('a, 'b) refresher_scheme \<Rightarrow> int \<Rightarrow> duration" where
  "refresher_getBackoff r failureCount =
     (if failureCount \<le> ro_backoffThreshold r then ro_initialBackoff r
      else if failureCount \<le> wrap64 (2 * ro_backoffThreshold r) then ro_repeatedBackoff r
      else ro_finalBackoff r)"

definition refresher_shouldBackoff :: "time \<Rightarrow> ('a, 'b) refresher_scheme \<Rightarrow> bool" where
  "refresher_shouldBackoff now r =
     (if ro_backoffThreshold r = 0 then False
      else if is_zero (rf_lastFailure r) then False
      else time_since now (rf_lastFailure r) < refresher_getBackoff r (rf_failureCount r))"

text \<open>
  \<^verbatim>\<open>Refresh\<close> reads the clock up to three times: for the age of the value, for the backoff and after
  the source answered. \<open>source\<close> is what the refresh function returns if it is called; the second
  component of the result says whether it was.
\<close>

definition refresher_Refresh ::
  "'a \<Rightarrow> time \<Rightarrow> time \<Rightarrow> time \<Rightarrow> 'a result \<Rightarrow> 'a refresher \<Rightarrow> 'a result \<times> bool \<times> 'a refresher" where
  "refresher_Refresh def now1 now2 now3 source r =
     (if \<not> is_zero (rf_lastRefresh r) \<and> time_since now1 (rf_lastRefresh r) < ro_interval r
      then (Inr (rf_value r), False, r)
      else if refresher_shouldBackoff now2 r
      then (Inl (Errorf ''refresher: backoff is in effect''), False, r)
      else case source of
          Inl err \<Rightarrow>
            (Inl (Wrapf ''refresher: failed to refresh data'' err), True,
             r\<lparr>rf_lastFailure := now3, rf_failureCount := wrap64 (rf_failureCount r + 1)\<rparr>)
        | Inr val \<Rightarrow>
            (Inr val, True,
             r\<lparr>rf_value := val, rf_lastRefresh := now3, rf_failureCount := 0,
               rf_lastFailure := time_zero\<rparr>))"

definition refresher_Reset :: "'a \<Rightarrow> 'a refresher \<Rightarrow> 'a refresher" where
  "refresher_Reset def r = r\<lparr>rf_value := def, rf_lastRefresh := time_zero\<rparr>"

definition refresher_IsFailing :: "'a refresher \<Rightarrow> bool" where
  "refresher_IsFailing r \<longleftrightarrow> rf_failureCount r > ro_failureThreshold r"

subsection \<open>Its backoff is a staged one\<close>

definition refresher_stage :: "('a, 'b) refresher_scheme \<Rightarrow> int \<Rightarrow> nat" where
  "refresher_stage r n =
     (if n \<le> ro_backoffThreshold r then 0 else if n \<le> wrap64 (2 * ro_backoffThreshold r) then 1
      else 2)"

definition refresher_stage_delay :: "('a, 'b) refresher_scheme \<Rightarrow> nat \<Rightarrow> duration" where
  "refresher_stage_delay r k =
     (if k = 0 then ro_initialBackoff r else if k = 1 then ro_repeatedBackoff r
      else ro_finalBackoff r)"

interpretation rb: staged_backoff refresher_getBackoff refresher_stage refresher_stage_delay
  by unfold_locales
    (auto simp: refresher_getBackoff_def refresher_stage_def refresher_stage_delay_def)

subsection \<open>Runs of a refresher\<close>

datatype 'a refresher_call = RefreshCall time time time "'a result" | ResetCall

fun refresher_step :: "'a \<Rightarrow> 'a refresher \<Rightarrow> 'a refresher_call \<Rightarrow> 'a refresher" where
  "refresher_step def r (RefreshCall n1 n2 n3 source) =
     snd (snd (refresher_Refresh def n1 n2 n3 source r))"
| "refresher_step def r ResetCall = refresher_Reset def r"

definition call_ok :: "'a refresher_call \<Rightarrow> bool" where
  "call_ok c = (case c of RefreshCall n1 n2 n3 _ \<Rightarrow> 0 < n1 \<and> n1 \<le> n2 \<and> n2 \<le> n3 | ResetCall \<Rightarrow> True)"

text \<open>The invariant: no failure is recorded exactly when the counter is zero.\<close>

definition refresher_inv :: "'a refresher \<Rightarrow> bool" where
  "refresher_inv r \<longleftrightarrow>
     0 \<le> rf_failureCount r \<and> (is_zero (rf_lastFailure r) \<longleftrightarrow> rf_failureCount r = 0)"

lemma refresher_step_inv:
  assumes "refresher_inv r" "call_ok c" "rf_failureCount r < 2 ^ 63 - 1"
  shows "refresher_inv (refresher_step def r c)"
proof (cases c)
  case ResetCall
  then show ?thesis using assms by (simp add: refresher_inv_def refresher_Reset_def)
next
  case (RefreshCall n1 n2 n3 source)
  then have "n3 \<noteq> 0" using assms(2) by (simp add: call_ok_def)
  then show ?thesis
    using assms RefreshCall
    by (auto simp: refresher_inv_def refresher_Refresh_def is_zero_def time_zero_def
        split: sum.splits)
qed

lemma refresher_step_options [simp]:
  "refresher_options.truncate (refresher_step def r c) = refresher_options.truncate r"
  by (cases c)
    (auto simp: refresher_Refresh_def refresher_Reset_def refresher_options.truncate_def
      split: sum.splits)

subsection \<open>Properties of the refresher\<close>

text \<open>
  A successful refresh is served from the cache for one interval: every call before the
  interval has passed returns the value that was fetched, does not call the source and changes
  nothing.
\<close>
theorem refresh_serves_cached:
  assumes "refresher_Refresh def n1 n2 n3 (Inr v) r = (Inr v, True, r')"
    and "0 < n3" "m1 < n3 + ro_interval r" "min_duration < ro_interval r"
    and "ro_interval r \<le> max_duration"
  shows "refresher_Refresh def m1 m2 m3 source r' = (Inr v, False, r')"
proof -
  from assms(1) have r': "rf_value r' = v" "rf_lastRefresh r' = n3" "ro_interval r' = ro_interval r"
    by (auto simp: refresher_Refresh_def split: if_splits)
  have "time_since m1 n3 < ro_interval r"
    using assms(3-5) by (simp add: time_since_def time_sub_less_iff)
  then show ?thesis
    using assms(2) by (simp add: refresher_Refresh_def r' is_zero_def)
qed

theorem refresh_serves_cached_witness:
  "\<exists>r'. refresher_Refresh (0::int) 101 101 102 (Inr 7) (NewRefresher 0 60 []) = (Inr 7, True, r')
     \<and> refresher_Refresh (0::int) 150 150 151 (Inr 8) r' = (Inr 7, False, r')"
proof -
  let ?r = "NewRefresher (0::int) 60 []"
  let ?r' = "?r\<lparr>rf_value := 7, rf_lastRefresh := 102, rf_failureCount := 0, rf_lastFailure := time_zero\<rparr>"
  have h: "refresher_Refresh (0::int) 101 101 102 (Inr 7) ?r = (Inr 7, True, ?r')"
    by (simp add: refresher_Refresh_def NewRefresher_def refresher_options.extend_def Let_def
        refresher_shouldBackoff_def)
  have "refresher_Refresh (0::int) 150 150 151 (Inr 8) ?r' = (Inr 7, False, ?r')"
    by (rule refresh_serves_cached [OF h])
      (simp_all add: NewRefresher_def refresher_options.extend_def Let_def min_duration_def
        max_duration_def)
  with h show ?thesis by blast
qed

text \<open>
  While a refresher is failing it leaves its source alone: after a call of the source that
  failed, every call made before the backoff of the new failure count has passed, and with no
  value fresh enough to serve, returns the backoff error, does not call the source and changes
  nothing.
\<close>
theorem refresh_backs_off:
  assumes "refresher_Refresh def n1 n2 n3 (Inl e) r = (res, True, r')"
    and "0 < n3" "ro_backoffThreshold r \<noteq> 0"
    and "is_zero (rf_lastRefresh r) \<or> ro_interval r \<le> time_since m1 (rf_lastRefresh r)"
    and "m2 < n3 + refresher_getBackoff r' (rf_failureCount r')"
    and "min_duration < refresher_getBackoff r' (rf_failureCount r')"
    and "refresher_getBackoff r' (rf_failureCount r') \<le> max_duration"
  shows "refresher_Refresh def m1 m2 m3 source r'
       = (Inl (Errorf ''refresher: backoff is in effect''), False, r')"
proof -
  from assms(1) have r': "rf_lastFailure r' = n3" "rf_lastRefresh r' = rf_lastRefresh r"
      "ro_interval r' = ro_interval r" "ro_backoffThreshold r' = ro_backoffThreshold r"
    by (auto simp: refresher_Refresh_def split: if_splits)
  have "time_since m2 n3 < refresher_getBackoff r' (rf_failureCount r')"
    using assms(5-7) by (simp add: time_since_def time_sub_less_iff)
  then have "refresher_shouldBackoff m2 r'"
    using assms(2,3) by (simp add: refresher_shouldBackoff_def r' is_zero_def)
  then show ?thesis
    using assms(4) by (auto simp: refresher_Refresh_def r')
qed

theorem refresh_backs_off_witness:
  "\<exists>r'. refresher_Refresh (0::int) 101 101 102 (Inl (Errorf ''x'')) (NewRefresher 0 60 [WithBackoff 15 60 300 3])
         = (Inl (Wrapf ''refresher: failed to refresh data'' (Errorf ''x'')), True, r')
     \<and> refresher_Refresh (0::int) 110 110 111 (Inr 8) r'
         = (Inl (Errorf ''refresher: backoff is in effect''), False, r')"
proof -
  let ?r = "NewRefresher (0::int) 60 [WithBackoff 15 60 300 3]"
  let ?r' = "?r\<lparr>rf_lastFailure := 102, rf_failureCount := 1\<rparr>"
  note defs = NewRefresher_def refresher_options.extend_def Let_def WithBackoff_def
  have h: "refresher_Refresh (0::int) 101 101 102 (Inl (Errorf ''x'')) ?r
      = (Inl (Wrapf ''refresher: failed to refresh data'' (Errorf ''x'')), True, ?r')"
    by (simp add: refresher_Refresh_def defs refresher_shouldBackoff_def)
  have "refresher_Refresh (0::int) 110 110 111 (Inr 8) ?r'
      = (Inl (Errorf ''refresher: backoff is in effect''), False, ?r')"
    by (rule refresh_backs_off [OF h])
      (simp_all add: defs refresher_getBackoff_def min_duration_def max_duration_def)
  with h show ?thesis by blast
qed

text \<open>
  \<^verbatim>\<open>Reset\<close> drops the cached value but keeps the recorded failures: if the backoff is in effect,
  the next \<^verbatim>\<open>Refresh\<close> after a \<^verbatim>\<open>Reset\<close> does not call the refresh function and fails. The comment of
  \<^verbatim>\<open>Reset\<close> promises that the next invocation executes it.
\<close>
theorem Reset_keeps_backoff:
  assumes "refresher_shouldBackoff now2 r"
  shows "refresher_Refresh def now1 now2 now3 source (refresher_Reset def r)
       = (Inl (Errorf ''refresher: backoff is in effect''), False, refresher_Reset def r)"
  using assms
  by (simp add: refresher_Refresh_def refresher_Reset_def refresher_shouldBackoff_def
      refresher_getBackoff_def split: if_splits)

theorem Reset_keeps_backoff_witness:
  "refresher_Refresh (0::int) 110 110 111 (Inr 8)
       (refresher_Reset 0 (NewRefresher 0 60 [WithBackoff 15 60 300 3]\<lparr>rf_lastFailure := 102, rf_failureCount := 1\<rparr>))
   = (Inl (Errorf ''refresher: backoff is in effect''), False,
      refresher_Reset 0 (NewRefresher 0 60 [WithBackoff 15 60 300 3]\<lparr>rf_lastFailure := 102, rf_failureCount := 1\<rparr>))"
  by (rule Reset_keeps_backoff)
    (simp add: refresher_shouldBackoff_def NewRefresher_def refresher_options.extend_def Let_def
      WithBackoff_def refresher_getBackoff_def time_since_def time_sub_def min_duration_def
      max_duration_def is_zero_def)

end
