(* ===== verification/Phases.thy ===== *)
theory Phases
  imports Go_Prelude "HOL-Library.Multiset"
begin

text \<open>
  The phase vocabulary of \<^verbatim>\<open>src/types/types.go\<close> and the conversions of \<^verbatim>\<open>src/utils/phases.go\<close>. The Go
  types are named strings, so any string may arrive where one of them is expected; the model keeps
  them as strings.
\<close>

type_synonym phase = string
type_synonym grid_type = string
type_synonym phase_mode = string

definition PhaseL1 :: phase where "PhaseL1 = ''L1''"
definition PhaseL2 :: phase where "PhaseL2 = ''L2''"
definition PhaseL3 :: phase where "PhaseL3 = ''L3''"

definition GridTypeIT :: grid_type where "GridTypeIT = ''IT''"
definition GridTypeTT :: grid_type where "GridTypeTT = ''TT''"
definition GridTypeTN :: grid_type where "GridTypeTN = ''TN''"
definition GridTypeUnknown :: grid_type where "GridTypeUnknown = ''''"

definition PhaseModeNL1L2L3 :: phase_mode where "PhaseModeNL1L2L3 = ''NL1L2L3''"
definition PhaseModeNL1L2 :: phase_mode where "PhaseModeNL1L2 = ''NL1L2''"
definition PhaseModeNL2L3 :: phase_mode where "PhaseModeNL2L3 = ''NL2L3''"
definition PhaseModeNL1 :: phase_mode where "PhaseModeNL1 = ''NL1''"
definition PhaseModeNL2 :: phase_mode where "PhaseModeNL2 = ''NL2''"
definition PhaseModeNL3 :: phase_mode where "PhaseModeNL3 = ''NL3''"
definition PhaseModeL1L2L3 :: phase_mode where "PhaseModeL1L2L3 = ''L1L2L3''"
definition PhaseModeL1L2 :: phase_mode where "PhaseModeL1L2 = ''L1L2''"
definition PhaseModeL2L3 :: phase_mode where "PhaseModeL2L3 = ''L2L3''"
definition PhaseModeL3L1 :: phase_mode where "PhaseModeL3L1 = ''L3L1''"
definition PhaseModeUnknown :: phase_mode where "PhaseModeUnknown = ''''"

lemmas phase_names = PhaseL1_def PhaseL2_def PhaseL3_def
lemmas grid_names = GridTypeIT_def GridTypeTT_def GridTypeTN_def GridTypeUnknown_def
lemmas mode_names = PhaseModeNL1L2L3_def PhaseModeNL1L2_def PhaseModeNL2L3_def PhaseModeNL1_def
  PhaseModeNL2_def PhaseModeNL3_def PhaseModeL1L2L3_def PhaseModeL1L2_def PhaseModeL2L3_def
  PhaseModeL3L1_def PhaseModeUnknown_def

section \<open>\<^verbatim>\<open>types.go\<close>\<close>

definition PhaseMode_Phases :: "phase_mode \<Rightarrow> phase list" where
  "PhaseMode_Phases m =
     (if m = PhaseModeNL1L2L3 then [PhaseL1, PhaseL2, PhaseL3]
      else if m = PhaseModeNL1L2 then [PhaseL1, PhaseL2]
      else if m = PhaseModeNL2L3 then [PhaseL2, PhaseL3]
      else if m = PhaseModeNL1 then [PhaseL1]
      else if m = PhaseModeNL2 then [PhaseL2]
      else if m = PhaseModeNL3 then [PhaseL3]
      else if m = PhaseModeL1L2L3 then [PhaseL1, PhaseL2, PhaseL3]
      else if m = PhaseModeL1L2 then [PhaseL1, PhaseL2]
      else if m = PhaseModeL2L3 then [PhaseL2, PhaseL3]
      else if m = PhaseModeL3L1 then [PhaseL1, PhaseL3]
      else [PhaseL1, PhaseL2, PhaseL3])"

definition EffectivePhasesCnt :: "phase_mode \<Rightarrow> nat" where
  "EffectivePhasesCnt m =
     (if m \<in> {PhaseModeNL1L2L3, PhaseModeL1L2L3} then 3
      else if m \<in> {PhaseModeNL1L2, PhaseModeNL2L3} then 2
      else if m \<in> {PhaseModeNL1, PhaseModeNL2, PhaseModeNL3} then 1
      else if m \<in> {PhaseModeL1L2, PhaseModeL2L3, PhaseModeL3L1} then 1
      else 3)"

section \<open>\<^verbatim>\<open>utils/phases.go\<close>\<close>

definition Phases_all :: "phase list" where
  "Phases_all = [PhaseL1, PhaseL2, PhaseL3]"

definition PhaseModes_all :: "phase_mode list" where
  "PhaseModes_all =
     [PhaseModeNL1L2L3, PhaseModeNL1L2, PhaseModeNL2L3, PhaseModeNL1, PhaseModeNL2, PhaseModeNL3,
      PhaseModeL1L2L3, PhaseModeL1L2, PhaseModeL2L3, PhaseModeL3L1]"

definition GridTypes_all :: "grid_type list" where
  "GridTypes_all = [GridTypeTN, GridTypeTT, GridTypeIT]"

definition PhaseMode :: "grid_type \<Rightarrow> phase list \<Rightarrow> phase_mode" where
  "PhaseMode gridType phases =
     (if gridType = GridTypeTN then
        (if length phases = 3 then
           (if PhaseL1 \<in> set phases \<and> PhaseL2 \<in> set phases \<and> PhaseL3 \<in> set phases
            then PhaseModeNL1L2L3 else PhaseModeUnknown)
         else if length phases = 2 then
           (if PhaseL1 \<in> set phases \<and> PhaseL2 \<in> set phases then PhaseModeNL1L2
            else if PhaseL2 \<in> set phases \<and> PhaseL3 \<in> set phases then PhaseModeNL2L3
            else PhaseModeUnknown)
         else if length phases = 1 then
           (if phases ! 0 = PhaseL1 then PhaseModeNL1
            else if phases ! 0 = PhaseL2 then PhaseModeNL2
            else if phases ! 0 = PhaseL3 then PhaseModeNL3
            else PhaseModeUnknown)
         else PhaseModeUnknown)
      else if gridType = GridTypeIT \<or> gridType = GridTypeTT then
        (if length phases = 3 then
           (if PhaseL1 \<in> set phases \<and> PhaseL2 \<in> set phases \<and> PhaseL3 \<in> set phases
            then PhaseModeL1L2L3 else PhaseModeUnknown)
         else if length phases = 2 then
           (if PhaseL1 \<in> set phases \<and> PhaseL2 \<in> set phases then PhaseModeL1L2
            else if PhaseL2 \<in> set phases \<and> PhaseL3 \<in> set phases then PhaseModeL2L3
            else if PhaseL3 \<in> set phases \<and> PhaseL1 \<in> set phases then PhaseModeL3L1
            else PhaseModeUnknown)
         else PhaseModeUnknown)
      else PhaseModeUnknown)"

definition SupportedPhaseModes :: "grid_type \<Rightarrow> int \<Rightarrow> phase_mode \<Rightarrow> phase_mode list" where
  "SupportedPhaseModes earthingType utilizedPhases phaseMode =
     (if earthingType = GridTypeTN then
        (if utilizedPhases = 3
         then [PhaseModeNL1, PhaseModeNL2, PhaseModeNL3, PhaseModeNL1L2L3]
         else [phaseMode])
      else if earthingType = GridTypeIT \<or> earthingType = GridTypeTT then
        (if utilizedPhases = 3
         then [PhaseModeL1L2, PhaseModeL2L3, PhaseModeL3L1, PhaseModeL1L2L3]
         else [phaseMode])
      else [PhaseModeUnknown])"

section \<open>Properties\<close>

lemma card_two_subset:
  assumes "length ps = 2" "a \<in> set ps" "b \<in> set ps" "a \<noteq> b"
  shows "set ps = {a, b}"
  using assms by (auto simp: length_Suc_conv numeral_2_eq_2)

lemma card_three_subset:
  assumes "length ps = 3" "a \<in> set ps" "b \<in> set ps" "c \<in> set ps" "a \<noteq> b" "b \<noteq> c" "a \<noteq> c"
  shows "set ps = {a, b, c}"
  using assms by (auto simp: length_Suc_conv numeral_3_eq_3)

lemma phases_distinct [simp]:
  "PhaseL1 \<noteq> PhaseL2" "PhaseL2 \<noteq> PhaseL1" "PhaseL1 \<noteq> PhaseL3" "PhaseL3 \<noteq> PhaseL1"
  "PhaseL2 \<noteq> PhaseL3" "PhaseL3 \<noteq> PhaseL2"
  by (simp_all add: phase_names)

lemma PhaseMode_Phases_simps [simp]:
  "PhaseMode_Phases PhaseModeNL1L2L3 = [PhaseL1, PhaseL2, PhaseL3]"
  "PhaseMode_Phases PhaseModeNL1L2 = [PhaseL1, PhaseL2]"
  "PhaseMode_Phases PhaseModeNL2L3 = [PhaseL2, PhaseL3]"
  "PhaseMode_Phases PhaseModeNL1 = [PhaseL1]"
  "PhaseMode_Phases PhaseModeNL2 = [PhaseL2]"
  "PhaseMode_Phases PhaseModeNL3 = [PhaseL3]"
  "PhaseMode_Phases PhaseModeL1L2L3 = [PhaseL1, PhaseL2, PhaseL3]"
  "PhaseMode_Phases PhaseModeL1L2 = [PhaseL1, PhaseL2]"
  "PhaseMode_Phases PhaseModeL2L3 = [PhaseL2, PhaseL3]"
  "PhaseMode_Phases PhaseModeL3L1 = [PhaseL1, PhaseL3]"
  by (simp_all add: PhaseMode_Phases_def mode_names)

lemma PhaseMode_elim:
  assumes "PhaseMode g ps = m" "m \<noteq> PhaseModeUnknown"
  obtains
    (three) "length ps = 3" "PhaseL1 \<in> set ps" "PhaseL2 \<in> set ps" "PhaseL3 \<in> set ps"
      "PhaseMode_Phases m = [PhaseL1, PhaseL2, PhaseL3]"
  | (two) p q where "length ps = 2" "p \<in> set ps" "q \<in> set ps" "p \<noteq> q" "PhaseMode_Phases m = [p, q]"
  | (one) "length ps = 1" "PhaseMode_Phases m = [ps ! 0]"
  using assms that(1) that(2) [of PhaseL1 PhaseL2] that(2) [of PhaseL2 PhaseL3]
    that(2) [of PhaseL1 PhaseL3] that(3)
  unfolding PhaseMode_def
  by (auto split: if_split_asm)

lemma PhaseMode_cases:
  assumes "PhaseMode g ps = m" "m \<noteq> PhaseModeUnknown"
  shows "set (PhaseMode_Phases m) = set ps \<and> length (PhaseMode_Phases m) = length ps"
  using assms
proof (cases rule: PhaseMode_elim)
  case three
  then show ?thesis
    using card_three_subset [of ps PhaseL1 PhaseL2 PhaseL3] by simp
next
  case (two p q)
  then show ?thesis
    using card_two_subset [of ps p q] by simp
next
  case one
  then show ?thesis by (auto simp: length_Suc_conv)
qed

text \<open>
  A conversion from phases to a phase mode loses nothing: whenever \<^verbatim>\<open>PhaseMode\<close> recognises the
  phases, \<^verbatim>\<open>Phases\<close> of the mode lists exactly the phases that were given, each once.
\<close>
theorem PhaseMode_roundtrip:
  assumes "PhaseMode g ps \<noteq> PhaseModeUnknown"
  shows "mset (PhaseMode_Phases (PhaseMode g ps)) = mset ps"
proof -
  have "distinct (PhaseMode_Phases (PhaseMode g ps))"
    by (simp add: PhaseMode_Phases_def)
  moreover have "set (PhaseMode_Phases (PhaseMode g ps)) = set ps"
    and len: "length (PhaseMode_Phases (PhaseMode g ps)) = length ps"
    using PhaseMode_cases [OF refl assms] by auto
  moreover from calculation have "distinct ps"
    by (metis card_distinct distinct_card)
  ultimately show ?thesis
    by (simp add: set_eq_iff_mset_eq_distinct)
qed

theorem PhaseMode_roundtrip_witness:
  "mset (PhaseMode_Phases (PhaseMode GridTypeIT [PhaseL3, PhaseL1])) = mset [PhaseL3, PhaseL1]"
  by (rule PhaseMode_roundtrip) (simp add: PhaseMode_def phase_names grid_names mode_names)

lemma PhaseMode_of_Phases:
  assumes "m \<in> set PhaseModes_all"
  shows "\<exists>g \<in> set GridTypes_all. PhaseMode g (PhaseMode_Phases m) = m"
  using assms
  by (auto simp: PhaseModes_all_def GridTypes_all_def PhaseMode_def PhaseMode_Phases_def
      mode_names grid_names phase_names)

end
