(* ===== verification/Channels.thy ===== *)
theory Channels
  imports Go_Prelude
begin

text \<open>
  Go channels, and the contract of the two publish/subscribe buses of the program (the event manager
  of \<^verbatim>\<open>src/event\<close> and the system event bus of \<^verbatim>\<open>src/lifecycle\<close>). Channels live in a heap, because a
  subscriber keeps its channel after the bus has forgotten it, and two holders of one channel share
  its buffer.
\<close>

section \<open>Channels\<close>

record 'a chan =
  ch_buf :: "'a list"     \<comment> \<open>sent and not yet received, oldest first\<close>
  ch_cap :: nat           \<comment> \<open>the capacity given to \<^verbatim>\<open>make\<close>\<close>
  ch_recvq :: nat         \<comment> \<open>receivers blocked on the channel, which take a value directly\<close>
  ch_closed :: bool

record 'a heap =
  hp_chans :: "nat \<Rightarrow> 'a chan"
  hp_next :: nat

definition chan_make :: "nat \<Rightarrow> 'a heap \<Rightarrow> nat \<times> 'a heap" where
  "chan_make cap h =
     (hp_next h,
      h\<lparr>hp_chans := (hp_chans h)(hp_next h := \<lparr>ch_buf = [], ch_cap = cap, ch_recvq = 0, ch_closed = False\<rparr>),
        hp_next := Suc (hp_next h)\<rparr>)"

definition chan_room :: "'a chan \<Rightarrow> bool" where
  "chan_room c \<longleftrightarrow> length (ch_buf c) < ch_cap c + ch_recvq c"

text \<open>
  \<^verbatim>\<open>select { case ch <- v: default: }\<close>: the value is appended if there is room and dropped otherwise; a
  send on a closed channel panics, which is \<open>None\<close>.
\<close>

definition chan_trysend :: "nat \<Rightarrow> 'a \<Rightarrow> 'a heap \<Rightarrow> 'a heap option" where
  "chan_trysend i v h =
     (let c = hp_chans h i
      in if ch_closed c then None
         else if chan_room c
         then Some (h\<lparr>hp_chans := (hp_chans h)(i := c\<lparr>ch_buf := ch_buf c @ [v]\<rparr>)\<rparr>)
         else Some h)"

text \<open>\<^verbatim>\<open>close(ch)\<close>: closing a closed channel panics.\<close>

definition chan_close :: "nat \<Rightarrow> 'a heap \<Rightarrow> 'a heap option" where
  "chan_close i h =
     (let c = hp_chans h i
      in if ch_closed c then None else Some (h\<lparr>hp_chans := (hp_chans h)(i := c\<lparr>ch_closed := True\<rparr>)\<rparr>))"

text \<open>A receive: a buffered value, the end of a closed and drained channel, or blocking.\<close>

datatype 'a received = Received 'a | Closed | Blocked

definition chan_recv :: "nat \<Rightarrow> 'a heap \<Rightarrow> 'a received \<times> 'a heap" where
  "chan_recv i h =
     (let c = hp_chans h i
      in case ch_buf c of
           v # vs \<Rightarrow> (Received v, h\<lparr>hp_chans := (hp_chans h)(i := c\<lparr>ch_buf := vs\<rparr>)\<rparr>)
         | [] \<Rightarrow> ((if ch_closed c then Closed else Blocked), h))"

lemma chan_make_other [simp]:
  "i \<noteq> hp_next h \<Longrightarrow> hp_chans (snd (chan_make cap h)) i = hp_chans h i"
  by (simp add: chan_make_def)

lemma chan_make_simps [simp]:
  "fst (chan_make cap h) = hp_next h"
  "hp_next (snd (chan_make cap h)) = Suc (hp_next h)"
  "hp_chans (snd (chan_make cap h)) (hp_next h)
     = \<lparr>ch_buf = [], ch_cap = cap, ch_recvq = 0, ch_closed = False\<rparr>"
  by (simp_all add: chan_make_def)

definition chan_push :: "'a \<Rightarrow> 'a chan \<Rightarrow> 'a chan" where
  "chan_push v c = (if chan_room c then c\<lparr>ch_buf := ch_buf c @ [v]\<rparr> else c)"

lemma chan_push_simps [simp]:
  "ch_cap (chan_push v c) = ch_cap c" "ch_recvq (chan_push v c) = ch_recvq c"
  "ch_closed (chan_push v c) = ch_closed c"
  "ch_buf (chan_push v c) = ch_buf c @ (if chan_room c then [v] else [])"
  by (simp_all add: chan_push_def)

lemma chan_trysend_open:
  "\<not> ch_closed (hp_chans h i) \<Longrightarrow>
   chan_trysend i v h = Some (h\<lparr>hp_chans := (hp_chans h)(i := chan_push v (hp_chans h i))\<rparr>)"
  by (auto simp: chan_trysend_def Let_def chan_push_def)

section \<open>Broadcasting over a list of channels\<close>

text \<open>
  Both buses send a message to each registered channel whose subscriber wants it, in the order in
  which the map is ranged over.
\<close>

fun broadcast :: "('s \<Rightarrow> bool) \<Rightarrow> ('s \<Rightarrow> nat) \<Rightarrow> 'a \<Rightarrow> 's list \<Rightarrow> 'a heap \<Rightarrow> 'a heap option" where
  "broadcast wants chan_of v [] h = Some h"
| "broadcast wants chan_of v (s # ss) h =
     (if wants s then Option.bind (chan_trysend (chan_of s) v h) (broadcast wants chan_of v ss)
      else broadcast wants chan_of v ss h)"

lemma broadcast_open:
  assumes "\<forall>s \<in> set ss. \<not> ch_closed (hp_chans h (chan_of s))" "distinct (map chan_of ss)"
  shows "\<exists>h'. broadcast wants chan_of v ss h = Some h' \<and> hp_next h' = hp_next h \<and>
    (\<forall>i. hp_chans h' i =
       (if \<exists>s \<in> set ss. chan_of s = i \<and> wants s then chan_push v (hp_chans h i) else hp_chans h i))"
  using assms
proof (induction ss arbitrary: h)
  case Nil
  then show ?case by simp
next
  case (Cons s ss)
  let ?h1 = "h\<lparr>hp_chans := (hp_chans h)(chan_of s := chan_push v (hp_chans h (chan_of s)))\<rparr>"
  have fresh: "\<forall>t \<in> set ss. chan_of t \<noteq> chan_of s"
    using Cons.prems(2) by (metis distinct.simps(2) image_eqI list.set_map list.simps(9))
  show ?case
  proof (cases "wants s")
    case True
    have "\<forall>t \<in> set ss. \<not> ch_closed (hp_chans ?h1 (chan_of t))"
      using Cons.prems fresh by simp
    then obtain h' where h': "broadcast wants chan_of v ss ?h1 = Some h'" "hp_next h' = hp_next h"
      "\<forall>i. hp_chans h' i = (if \<exists>t \<in> set ss. chan_of t = i \<and> wants t
         then chan_push v (hp_chans ?h1 i) else hp_chans ?h1 i)"
      using Cons.IH [of ?h1] Cons.prems by auto
    have "hp_chans h' i = (if \<exists>t \<in> set (s # ss). chan_of t = i \<and> wants t
         then chan_push v (hp_chans h i) else hp_chans h i)" for i
      using h'(3) fresh True by auto
    then show ?thesis
      using h' True Cons.prems by (simp add: chan_trysend_open)
  next
    case False
    have "\<forall>t \<in> set ss. \<not> ch_closed (hp_chans h (chan_of t))"
      using Cons.prems by simp
    then obtain h' where "broadcast wants chan_of v ss h = Some h'" "hp_next h' = hp_next h"
      "\<forall>i. hp_chans h' i = (if \<exists>t \<in> set ss. chan_of t = i \<and> wants t
         then chan_push v (hp_chans h i) else hp_chans h i)"
      using Cons.IH [of h] Cons.prems by auto
    then show ?thesis using False by auto
  qed
qed

section \<open>Registers of subscribers\<close>

text \<open>
  What both buses keep true of their map of subscribers: one entry per identifier, and each entry
  has an open channel of its own.
\<close>

definition bus_ok :: "('s \<Rightarrow> nat) \<Rightarrow> (string \<times> 's) list \<Rightarrow> 'a heap \<Rightarrow> bool" where
  "bus_ok chan_of subs h \<longleftrightarrow>
     amap_ok subs \<and> distinct (map (\<lambda>p. chan_of (snd p)) subs)
   \<and> (\<forall>p \<in> set subs. chan_of (snd p) < hp_next h \<and> \<not> ch_closed (hp_chans h (chan_of (snd p))))"

lemma bus_ok_Nil [simp]: "bus_ok chan_of [] h"
  by (simp add: bus_ok_def)

lemma bus_ok_inj:
  assumes "bus_ok chan_of subs h" "p \<in> set subs" "q \<in> set subs" "chan_of (snd p) = chan_of (snd q)"
  shows "p = q"
  using assms by (auto simp: bus_ok_def distinct_map dest: inj_onD)

lemma bus_ok_lookup:
  assumes "bus_ok chan_of subs h" "map_of subs x = Some s"
  shows "chan_of s < hp_next h" "\<not> ch_closed (hp_chans h (chan_of s))"
  using assms by (auto simp: bus_ok_def dest!: map_of_SomeD)

lemma bus_ok_broadcast:
  assumes ok: "bus_ok chan_of subs h"
  obtains h' where
    "broadcast wants (\<lambda>p. chan_of (snd p)) v subs h = Some h'" "bus_ok chan_of subs h'"
    "\<And>x s. map_of subs x = Some s \<Longrightarrow> hp_chans h' (chan_of s) =
       (if wants (x, s) then chan_push v (hp_chans h (chan_of s)) else hp_chans h (chan_of s))"
    "\<And>i. \<forall>x s. map_of subs x = Some s \<longrightarrow> chan_of s \<noteq> i \<Longrightarrow> hp_chans h' i = hp_chans h i"
proof -
  have d: "distinct (map (\<lambda>p. chan_of (snd p)) subs)"
    and o: "\<forall>p \<in> set subs. \<not> ch_closed (hp_chans h (chan_of (snd p)))"
    using ok by (auto simp: bus_ok_def)
  obtain h' where h': "broadcast wants (\<lambda>p. chan_of (snd p)) v subs h = Some h'"
      "hp_next h' = hp_next h"
    and ch: "\<And>i. hp_chans h' i = (if \<exists>p \<in> set subs. chan_of (snd p) = i \<and> wants p
       then chan_push v (hp_chans h i) else hp_chans h i)"
    using broadcast_open [OF o d, of wants v] by auto
  have mem: "map_of subs x = Some s \<longleftrightarrow> (x, s) \<in> set subs" for x s
    using ok by (simp add: bus_ok_def amap_mem_lookup)
  show ?thesis
  proof (rule that [OF h'(1)])
    have "ch_closed (hp_chans h' i) = ch_closed (hp_chans h i)" for i
      by (simp add: ch)
    then show "bus_ok chan_of subs h'"
      using ok h'(2) by (simp add: bus_ok_def)
    show "hp_chans h' (chan_of s) =
       (if wants (x, s) then chan_push v (hp_chans h (chan_of s)) else hp_chans h (chan_of s))"
      if "map_of subs x = Some s" for x s
    proof -
      have xs: "(x, s) \<in> set subs" using that by (simp add: mem)
      have "p = (x, s)" if "p \<in> set subs" "chan_of (snd p) = chan_of s" for p
        using bus_ok_inj [OF ok that(1) xs] that(2) by simp
      then have "(\<exists>p \<in> set subs. chan_of (snd p) = chan_of s \<and> wants p) \<longleftrightarrow> wants (x, s)"
        using xs by (metis snd_conv)
      then show ?thesis by (simp add: ch)
    qed
    show "hp_chans h' i = hp_chans h i"
      if "\<forall>x s. map_of subs x = Some s \<longrightarrow> chan_of s \<noteq> i" for i
    proof -
      have "\<not> (\<exists>p \<in> set subs. chan_of (snd p) = i \<and> wants p)"
        using that by (metis mem prod.collapse)
      then show ?thesis by (simp add: ch)
    qed
  qed
qed

lemma bus_ok_add:
  assumes "bus_ok chan_of subs h" "map_of subs x = None" "chan_of s = hp_next h"
  shows "bus_ok chan_of (AList.update x s subs) (snd (chan_make cap h))"
proof -
  have "x \<notin> fst ` set subs" using assms(2) by (simp add: map_of_eq_None_iff)
  moreover have "chan_of (snd p) \<noteq> hp_next h" if "p \<in> set subs" for p
    using assms(1) that by (auto simp: bus_ok_def)
  ultimately show ?thesis
    using assms by (auto simp: bus_ok_def amap_ok_def amap_update_new less_Suc_eq)
qed

lemma bus_ok_remove:
  assumes "bus_ok chan_of subs h" "map_of subs x = Some s" "chan_close (chan_of s) h = Some h'"
  shows "bus_ok chan_of (AList.delete x subs) h'"
proof -
  have "chan_of (snd p) \<noteq> chan_of s" if "p \<in> set subs" "fst p \<noteq> x" for p
    using bus_ok_inj [OF assms(1) that(1), of "(x, s)"] map_of_SomeD [OF assms(2)] that(2) by auto
  then show ?thesis
    using assms amap_distinct_delete [of _ subs x]
    by (auto simp: bus_ok_def chan_close_def Let_def amap_set_delete split: if_splits)
qed

section \<open>The contract of a bus\<close>

text \<open>
  \<open>sub_chan b x\<close> is the channel of subscriber \<open>x\<close>, \<open>heap_of b\<close> the channels; \<open>wants b x v\<close> says whether
  its filters accept the message. A publication panics (\<open>None\<close>) only if the invariant is broken.
\<close>

locale pubsub =
  fixes publish :: "'m \<Rightarrow> 'b \<Rightarrow> 'b option"
    and sub_chan :: "'b \<Rightarrow> string \<Rightarrow> nat option"
    and heap_of :: "'b \<Rightarrow> 'm heap"
    and wants :: "'b \<Rightarrow> string \<Rightarrow> 'm \<Rightarrow> bool"
    and invar :: "'b \<Rightarrow> bool"
  assumes publish_total: "invar b \<Longrightarrow> \<exists>b'. publish v b = Some b'"
    and publish_invar: "invar b \<Longrightarrow> publish v b = Some b' \<Longrightarrow> invar b'"
    and publish_subs: "invar b \<Longrightarrow> publish v b = Some b' \<Longrightarrow> sub_chan b' = sub_chan b"
    and publish_wants: "invar b \<Longrightarrow> publish v b = Some b' \<Longrightarrow> wants b' = wants b"
    and publish_delivers: "invar b \<Longrightarrow> publish v b = Some b' \<Longrightarrow> sub_chan b x = Some i \<Longrightarrow>
      hp_chans (heap_of b') i = (if wants b x v then chan_push v (hp_chans (heap_of b) i)
        else hp_chans (heap_of b) i)"
    and publish_frame: "invar b \<Longrightarrow> publish v b = Some b' \<Longrightarrow> \<forall>x. sub_chan b x \<noteq> Some i \<Longrightarrow>
      hp_chans (heap_of b') i = hp_chans (heap_of b) i"
begin

primrec publish_all :: "'m list \<Rightarrow> 'b \<Rightarrow> 'b option" where
  "publish_all [] b = Some b"
| "publish_all (v # vs) b = Option.bind (publish v b) (publish_all vs)"

text \<open>
  With room for them all, a subscriber receives the messages it wants, all of them and in order.
\<close>

lemma publish_all_fifo:
  assumes "invar b" "sub_chan b x = Some i"
    and "length (ch_buf (hp_chans (heap_of b) i)) + length (filter (wants b x) vs)
         \<le> ch_cap (hp_chans (heap_of b) i)"
  shows "\<exists>b'. publish_all vs b = Some b' \<and> invar b' \<and>
    ch_buf (hp_chans (heap_of b') i) = ch_buf (hp_chans (heap_of b) i) @ filter (wants b x) vs"
  using assms
proof (induction vs arbitrary: b)
  case Nil
  then show ?case by simp
next
  case (Cons v vs)
  obtain b1 where b1: "publish v b = Some b1"
    using publish_total [OF Cons.prems(1)] by blast
  note facts = publish_invar [OF Cons.prems(1) b1] publish_subs [OF Cons.prems(1) b1]
    publish_wants [OF Cons.prems(1) b1] publish_delivers [OF Cons.prems(1) b1 Cons.prems(2)]
  have room: "wants b x v \<Longrightarrow> chan_room (hp_chans (heap_of b) i)"
    using Cons.prems(3) by (simp add: chan_room_def)
  have "\<exists>b'. publish_all vs b1 = Some b' \<and> invar b' \<and>
    ch_buf (hp_chans (heap_of b') i) = ch_buf (hp_chans (heap_of b1) i) @ filter (wants b1 x) vs"
    using Cons.prems facts room by (intro Cons.IH) (auto split: if_splits)
  then show ?case
    using b1 facts room by (auto split: if_splits)
qed

text \<open>Whatever the capacity, what a subscriber finds is a subsequence of what it wants, in order.\<close>

lemma publish_all_subseq:
  assumes "invar b" "sub_chan b x = Some i" "publish_all vs b = Some b'"
  shows "\<exists>ws. subseq ws (filter (wants b x) vs) \<and>
    ch_buf (hp_chans (heap_of b') i) = ch_buf (hp_chans (heap_of b) i) @ ws"
  using assms
proof (induction vs arbitrary: b)
  case Nil
  then show ?case by simp
next
  case (Cons v vs)
  then obtain b1 where b1: "publish v b = Some b1" "publish_all vs b1 = Some b'"
    by (auto simp: bind_eq_Some_conv)
  note facts = publish_invar [OF Cons.prems(1) b1(1)] publish_subs [OF Cons.prems(1) b1(1)]
    publish_wants [OF Cons.prems(1) b1(1)] publish_delivers [OF Cons.prems(1) b1(1) Cons.prems(2)]
  obtain ws where ws: "subseq ws (filter (wants b x) vs)"
    "ch_buf (hp_chans (heap_of b') i) = ch_buf (hp_chans (heap_of b1) i) @ ws"
    using Cons.IH [OF facts(1) _ b1(2)] facts Cons.prems(2) by auto
  show ?case
    using ws facts(4) by (auto intro: exI [of _ "v # ws"] exI [of _ ws])
qed

end

end
