(* ===== verification/Events.thy ===== *)
theory Events
  imports Channels
begin

text \<open>
  The event bus of \<^verbatim>\<open>src/event\<close>: events and filters (\<^verbatim>\<open>event.go\<close>) and the manager that delivers them
  (\<^verbatim>\<open>manager.go\<close>). The manager holds its lock for the whole of each operation, so an operation is one
  step; its subscriptions are a Go map, its channels live in the heap of \<^verbatim>\<open>Channels\<close>.
\<close>

section \<open>Events and filters (\<^verbatim>\<open>event.go\<close>)\<close>

text \<open>
  An event has a domain and a class; the rest of it depends on its dynamic type, which is the type
  parameter of the model. A type assertion on an event is a partial function on that part.
\<close>

record 'x event =
  ev_domain :: string
  ev_class :: string
  ev_body :: 'x

type_synonym 'x filter_fn = "'x event \<Rightarrow> bool"

text \<open>The two event types of the package itself.\<close>

datatype 'p base_body = NoPayload | WithPayload 'p

definition event_New :: "string \<Rightarrow> string \<Rightarrow> 'p base_body event" where
  "event_New domain class = \<lparr>ev_domain = domain, ev_class = class, ev_body = NoPayload\<rparr>"

definition event_NewWithPayload :: "string \<Rightarrow> string \<Rightarrow> 'p \<Rightarrow> 'p base_body event" where
  "event_NewWithPayload domain class payload =
     \<lparr>ev_domain = domain, ev_class = class, ev_body = WithPayload payload\<rparr>"

fun event_Or :: "'x filter_fn list \<Rightarrow> 'x filter_fn" where
  "event_Or [] e = False"
| "event_Or (f # fs) e = (if f e then True else event_Or fs e)"

fun event_And :: "'x filter_fn list \<Rightarrow> 'x filter_fn" where
  "event_And [] e = True"
| "event_And (f # fs) e = (if \<not> f e then False else event_And fs e)"

definition WaitForDomain :: "string \<Rightarrow> 'x filter_fn" where
  "WaitForDomain domain e \<longleftrightarrow> ev_domain e = domain"

definition WaitForClass :: "string \<Rightarrow> 'x filter_fn" where
  "WaitForClass class e \<longleftrightarrow> ev_class e = class"

text \<open>\<open>payload_of\<close> is the assertion to \<^verbatim>\<open>EventWithPayload\<close> followed by \<^verbatim>\<open>Payload()\<close>.\<close>

definition WaitForPayload :: "('x \<Rightarrow> 'p option) \<Rightarrow> 'p \<Rightarrow> 'x filter_fn" where
  "WaitForPayload payload_of payload e =
     (case payload_of (ev_body e) of None \<Rightarrow> False | Some p \<Rightarrow> p = payload)"

text \<open>\<open>is_T\<close> is the assertion to the type parameter of \<^verbatim>\<open>WaitFor\<close>.\<close>

definition event_WaitFor :: "('x \<Rightarrow> bool) \<Rightarrow> 'x filter_fn" where
  "event_WaitFor is_T e \<longleftrightarrow> is_T (ev_body e)"

lemma event_Or_iff: "event_Or fs e \<longleftrightarrow> (\<exists>f \<in> set fs. f e)"
  by (induction fs) auto

lemma event_And_iff: "event_And fs e \<longleftrightarrow> (\<forall>f \<in> set fs. f e)"
  by (induction fs) auto

section \<open>The manager (\<^verbatim>\<open>manager.go\<close>)\<close>

record 'x subscription =
  sub_id :: string
  sub_channel :: nat
  sub_filters :: "'x filter_fn list"

record 'x manager =
  em_subscriptions :: "(string \<times> 'x subscription) list"
  em_waitBuffer :: nat
  em_heap :: "'x event heap"

definition event_NewManager :: "'x event heap \<Rightarrow> 'x manager" where
  "event_NewManager h = \<lparr>em_subscriptions = [], em_waitBuffer = 10, em_heap = h\<rparr>"

fun filter_all :: "'x filter_fn list \<Rightarrow> 'x event \<Rightarrow> bool" where
  "filter_all [] e = True"
| "filter_all (f # fs) e = (if \<not> f e then False else filter_all fs e)"

definition subscription_filter :: "'x subscription \<Rightarrow> 'x event \<Rightarrow> bool" where
  "subscription_filter s e = filter_all (sub_filters s) e"

definition manager_Publish :: "'x event \<Rightarrow> 'x manager \<Rightarrow> 'x manager option" where
  "manager_Publish e m =
     map_option (\<lambda>h. m\<lparr>em_heap := h\<rparr>)
       (broadcast (\<lambda>(k, s). subscription_filter s e) (\<lambda>(k, s). sub_channel s) e
          (em_subscriptions m) (em_heap m))"

definition manager_Subscribe ::
  "string \<Rightarrow> nat \<Rightarrow> 'x filter_fn list \<Rightarrow> 'x manager \<Rightarrow> nat \<times> 'x manager" where
  "manager_Subscribe subID buffer filters m =
     (case map_of (em_subscriptions m) subID of
        Some s \<Rightarrow> (sub_channel s, m)
      | None \<Rightarrow>
          (let (subCh, h) = chan_make buffer (em_heap m)
           in (subCh,
               m\<lparr>em_subscriptions :=
                   AList.update subID \<lparr>sub_id = subID, sub_channel = subCh, sub_filters = filters\<rparr>
                     (em_subscriptions m),
                 em_heap := h\<rparr>)))"

definition manager_Unsubscribe :: "string \<Rightarrow> 'x manager \<Rightarrow> 'x manager option" where
  "manager_Unsubscribe subID m =
     (case map_of (em_subscriptions m) subID of
        None \<Rightarrow> Some m
      | Some s \<Rightarrow>
          map_option
            (\<lambda>h. m\<lparr>em_subscriptions := AList.delete subID (em_subscriptions m), em_heap := h\<rparr>)
            (chan_close (sub_channel s) (em_heap m)))"

text \<open>
  \<^verbatim>\<open>WaitFor\<close>: the call subscribes under a fresh identifier (\<open>uuid\<close>); its goroutine then waits for the
  first event or the timer, whichever the \<^verbatim>\<open>select\<close> takes, sends the event or nil on the result channel
  and unsubscribes. A closed subscription channel reads as the nil event, as in Go.
\<close>

definition manager_WaitFor_start ::
  "string \<Rightarrow> 'x filter_fn list \<Rightarrow> 'x manager \<Rightarrow> nat \<times> 'x manager" where
  "manager_WaitFor_start uuid filters m = manager_Subscribe uuid (em_waitBuffer m) filters m"

datatype select_case = OnEvent | OnTimer

definition manager_WaitFor_select ::
  "string \<Rightarrow> nat \<Rightarrow> select_case \<Rightarrow> 'x manager \<Rightarrow> ('x event option \<times> 'x manager) option" where
  "manager_WaitFor_select uuid subChannel choice m =
     (case choice of
        OnTimer \<Rightarrow> map_option (Pair None) (manager_Unsubscribe uuid m)
      | OnEvent \<Rightarrow>
          (case chan_recv subChannel (em_heap m) of
             (Received e, h) \<Rightarrow> map_option (Pair (Some e)) (manager_Unsubscribe uuid (m\<lparr>em_heap := h\<rparr>))
           | (Closed, h) \<Rightarrow> map_option (Pair None) (manager_Unsubscribe uuid m)
           | (Blocked, h) \<Rightarrow> None))"

section \<open>The invariant\<close>

definition manager_inv :: "'x manager \<Rightarrow> bool" where
  "manager_inv m \<longleftrightarrow>
     bus_ok sub_channel (em_subscriptions m) (em_heap m)
   \<and> (\<forall>(k, s) \<in> set (em_subscriptions m). sub_id s = k)"

lemma manager_inv_new: "manager_inv (event_NewManager h)"
  by (simp add: manager_inv_def event_NewManager_def)

lemma manager_Publish_shape:
  assumes "manager_inv m"
  obtains h where "manager_Publish e m = Some (m\<lparr>em_heap := h\<rparr>)"
    "manager_inv (m\<lparr>em_heap := h\<rparr>)"
    "\<And>x s. map_of (em_subscriptions m) x = Some s \<Longrightarrow> hp_chans h (sub_channel s) =
       (if subscription_filter s e then chan_push e (hp_chans (em_heap m) (sub_channel s))
        else hp_chans (em_heap m) (sub_channel s))"
    "\<And>i. \<forall>x s. map_of (em_subscriptions m) x = Some s \<longrightarrow> sub_channel s \<noteq> i \<Longrightarrow>
       hp_chans h i = hp_chans (em_heap m) i"
proof -
  have ok: "bus_ok sub_channel (em_subscriptions m) (em_heap m)"
    using assms by (simp add: manager_inv_def)
  have eqs: "(\<lambda>(k, s). subscription_filter s e) = (\<lambda>p. subscription_filter (snd p) e)"
    "(\<lambda>(k, s). sub_channel s) = (\<lambda>p. sub_channel (snd p :: 'a subscription))"
    by (simp_all add: fun_eq_iff)
  obtain h where h: "broadcast (\<lambda>p. subscription_filter (snd p) e) (\<lambda>p. sub_channel (snd p)) e
       (em_subscriptions m) (em_heap m) = Some h" "bus_ok sub_channel (em_subscriptions m) h"
    and dlv: "\<And>x s. map_of (em_subscriptions m) x = Some s \<Longrightarrow> hp_chans h (sub_channel s) =
       (if subscription_filter (snd (x, s)) e then chan_push e (hp_chans (em_heap m) (sub_channel s))
        else hp_chans (em_heap m) (sub_channel s))"
    and frm: "\<And>i. \<forall>x s. map_of (em_subscriptions m) x = Some s \<longrightarrow> sub_channel s \<noteq> i \<Longrightarrow>
       hp_chans h i = hp_chans (em_heap m) i"
    by (rule bus_ok_broadcast [OF ok, of "\<lambda>p. subscription_filter (snd p) e" e]) blast
  show ?thesis
    by (rule that [of h]) (use assms h dlv frm in \<open>simp_all add: manager_Publish_def eqs manager_inv_def\<close>)
qed

lemma manager_Publish_inv [go_inv]:
  assumes "manager_inv m" "manager_Publish e m = Some m'"
  shows "manager_inv m'"
  using assms(2) by (rule_tac manager_Publish_shape [OF assms(1), of e]) simp

lemma manager_Subscribe_inv [go_inv]:
  assumes "manager_inv m"
  shows "manager_inv (snd (manager_Subscribe subID buffer filters m))"
proof (cases "map_of (em_subscriptions m) subID")
  case (Some s)
  then show ?thesis using assms by (simp add: manager_Subscribe_def)
next
  case None
  let ?s = "\<lparr>sub_id = subID, sub_channel = hp_next (em_heap m), sub_filters = filters\<rparr>"
  show ?thesis
    using assms None
      bus_ok_add [of sub_channel "em_subscriptions m" "em_heap m" subID ?s buffer]
    by (auto simp: manager_inv_def manager_Subscribe_def case_prod_unfold amap_update_new)
qed

lemma manager_Unsubscribe_ok:
  assumes "manager_inv m"
  shows "\<exists>m'. manager_Unsubscribe subID m = Some m' \<and> manager_inv m'"
proof (cases "map_of (em_subscriptions m) subID")
  case None
  then show ?thesis using assms by (simp add: manager_Unsubscribe_def)
next
  case (Some s)
  have ok: "bus_ok sub_channel (em_subscriptions m) (em_heap m)"
    using assms by (simp add: manager_inv_def)
  obtain h where h: "chan_close (sub_channel s) (em_heap m) = Some h"
    using bus_ok_lookup(2) [OF ok Some] by (simp add: chan_close_def Let_def)
  show ?thesis
    using assms bus_ok_remove [OF ok Some h]
    by (auto simp: manager_inv_def manager_Unsubscribe_def Some h amap_set_delete)
qed

section \<open>The manager is a bus\<close>

definition manager_chan :: "'x manager \<Rightarrow> string \<Rightarrow> nat option" where
  "manager_chan m x = map_option sub_channel (map_of (em_subscriptions m) x)"

definition manager_wants :: "'x manager \<Rightarrow> string \<Rightarrow> 'x event \<Rightarrow> bool" where
  "manager_wants m x e =
     (case map_of (em_subscriptions m) x of None \<Rightarrow> False | Some s \<Rightarrow> subscription_filter s e)"

interpretation em: pubsub manager_Publish manager_chan em_heap manager_wants manager_inv
proof
  fix m :: "'x manager" and e
  assume inv: "manager_inv m"
  obtain h where h: "manager_Publish e m = Some (m\<lparr>em_heap := h\<rparr>)"
    and inv': "manager_inv (m\<lparr>em_heap := h\<rparr>)"
    and dlv: "\<And>x s. map_of (em_subscriptions m) x = Some s \<Longrightarrow> hp_chans h (sub_channel s) =
       (if subscription_filter s e then chan_push e (hp_chans (em_heap m) (sub_channel s))
        else hp_chans (em_heap m) (sub_channel s))"
    and frm: "\<And>i. \<forall>x s. map_of (em_subscriptions m) x = Some s \<longrightarrow> sub_channel s \<noteq> i \<Longrightarrow>
       hp_chans h i = hp_chans (em_heap m) i"
    by (rule manager_Publish_shape [OF inv, of e]) blast
  show "\<exists>m'. manager_Publish e m = Some m'" using h by blast
  fix m'
  assume "manager_Publish e m = Some m'"
  with h have m': "m' = m\<lparr>em_heap := h\<rparr>" by simp
  show "manager_inv m'" using inv' m' by simp
  show "manager_chan m' = manager_chan m"
    by (simp add: m' manager_chan_def fun_eq_iff)
  show "manager_wants m' = manager_wants m"
    by (simp add: m' manager_wants_def fun_eq_iff)
  show "hp_chans (em_heap m') i = (if manager_wants m x e then chan_push e (hp_chans (em_heap m) i)
      else hp_chans (em_heap m) i)" if "manager_chan m x = Some i" for x i
    using that dlv by (auto simp: m' manager_chan_def manager_wants_def)
  show "hp_chans (em_heap m') i = hp_chans (em_heap m) i" if "\<forall>x. manager_chan m x \<noteq> Some i" for i
    using that frm [of i] by (auto simp: m' manager_chan_def)
qed

section \<open>Properties\<close>

text \<open>The operations of the bus, as one step each; \<open>None\<close> is a panic.\<close>

datatype 'x manager_op =
    OpPublish "'x event"
  | OpSubscribe string nat "'x filter_fn list"
  | OpUnsubscribe string

fun manager_step :: "'x manager_op \<Rightarrow> 'x manager \<Rightarrow> 'x manager option" where
  "manager_step (OpPublish e) m = manager_Publish e m"
| "manager_step (OpSubscribe x n fs) m = Some (snd (manager_Subscribe x n fs m))"
| "manager_step (OpUnsubscribe x) m = manager_Unsubscribe x m"

fun manager_run :: "'x manager_op list \<Rightarrow> 'x manager \<Rightarrow> 'x manager option" where
  "manager_run [] m = Some m"
| "manager_run (op # ops) m = Option.bind (manager_step op m) (manager_run ops)"

lemma manager_step_ok:
  assumes "manager_inv m"
  shows "\<exists>m'. manager_step op m = Some m' \<and> manager_inv m'"
proof (cases op)
  case (OpPublish e)
  then show ?thesis
    using em.publish_total [OF assms, of e] manager_Publish_inv [OF assms] by auto
next
  case (OpSubscribe x n fs)
  then show ?thesis using manager_Subscribe_inv [OF assms] by simp
next
  case (OpUnsubscribe x)
  then show ?thesis using manager_Unsubscribe_ok [OF assms] by simp
qed

lemma manager_run_ok:
  "manager_inv m \<Longrightarrow> \<exists>m'. manager_run ops m = Some m' \<and> manager_inv m'"
proof (induction ops arbitrary: m)
  case Nil
  then show ?case by simp
next
  case (Cons op ops)
  from manager_step_ok [OF Cons.prems, of op] obtain m1
    where "manager_step op m = Some m1" "manager_inv m1" by blast
  with Cons.IH show ?case by simp
qed

text \<open>
  C18. The event manager never panics: whatever sequence of publications, subscriptions and
  unsubscriptions it goes through, it never sends on a closed channel and never closes a channel
  twice, and afterwards every subscription has an open channel of its own.
\<close>
theorem event_manager_no_panic:
  "\<exists>m. manager_run ops (event_NewManager h) = Some m \<and> manager_inv m"
  by (rule manager_run_ok) (rule manager_inv_new)

text \<open>
  Publishing delivers to each subscriber at the end of its channel, if the subscriber's filters
  all accept the event and its buffer has room; otherwise the event is dropped for this subscriber
  and its channel is left as it was. Channels of nobody are left alone, and the subscriptions do not
  change.
\<close>
theorem Publish_delivers:
  assumes "manager_inv m"
  shows "\<exists>m'. manager_Publish e m = Some m' \<and> em_subscriptions m' = em_subscriptions m \<and>
    (\<forall>x s. map_of (em_subscriptions m) x = Some s \<longrightarrow>
       ch_buf (hp_chans (em_heap m') (sub_channel s)) =
         ch_buf (hp_chans (em_heap m) (sub_channel s)) @
           (if (\<forall>f \<in> set (sub_filters s). f e) \<and> chan_room (hp_chans (em_heap m) (sub_channel s))
            then [e] else [])) \<and>
    (\<forall>i. (\<forall>x s. map_of (em_subscriptions m) x = Some s \<longrightarrow> sub_channel s \<noteq> i) \<longrightarrow>
       hp_chans (em_heap m') i = hp_chans (em_heap m) i)"
proof -
  have all: "filter_all fs e \<longleftrightarrow> (\<forall>f \<in> set fs. f e)" for fs :: "'a filter_fn list"
    by (induction fs) auto
  obtain h where "manager_Publish e m = Some (m\<lparr>em_heap := h\<rparr>)"
    by (rule manager_Publish_shape [OF assms, of e]) blast
  then obtain m' where m': "manager_Publish e m = Some m'" "em_subscriptions m' = em_subscriptions m"
    by simp
  have "ch_buf (hp_chans (em_heap m') (sub_channel s)) =
      ch_buf (hp_chans (em_heap m) (sub_channel s)) @
        (if (\<forall>f \<in> set (sub_filters s). f e) \<and> chan_room (hp_chans (em_heap m) (sub_channel s))
         then [e] else [])" if "map_of (em_subscriptions m) x = Some s" for x s
    using em.publish_delivers [OF assms m'(1), of x "sub_channel s"] that
    by (simp add: manager_chan_def manager_wants_def subscription_filter_def all)
  moreover have "hp_chans (em_heap m') i = hp_chans (em_heap m) i"
    if "\<forall>x s. map_of (em_subscriptions m) x = Some s \<longrightarrow> sub_channel s \<noteq> i" for i
    using em.publish_frame [OF assms m'(1), of i] that by (auto simp: manager_chan_def)
  ultimately show ?thesis using m' by blast
qed

definition demo_heap :: "unit event heap" where
  "demo_heap = \<lparr>hp_chans = (\<lambda>_. \<lparr>ch_buf = [], ch_cap = 0, ch_recvq = 0, ch_closed = False\<rparr>), hp_next = 0\<rparr>"

definition demo_manager :: "unit manager" where
  "demo_manager = snd (manager_Subscribe ''a'' 1 [WaitForDomain ''d''] (event_NewManager demo_heap))"

theorem Publish_delivers_witness:
  "\<exists>m'. manager_Publish \<lparr>ev_domain = ''d'', ev_class = ''c'', ev_body = ()\<rparr> demo_manager = Some m'
     \<and> ch_buf (hp_chans (em_heap m') 0) = [\<lparr>ev_domain = ''d'', ev_class = ''c'', ev_body = ()\<rparr>]"
proof -
  let ?e = "\<lparr>ev_domain = ''d'', ev_class = ''c'', ev_body = ()\<rparr>"
  let ?s = "\<lparr>sub_id = ''a'', sub_channel = 0, sub_filters = [WaitForDomain ''d'']\<rparr>"
  have inv: "manager_inv demo_manager"
    unfolding demo_manager_def by (intro manager_Subscribe_inv manager_inv_new)
  have sub: "map_of (em_subscriptions demo_manager) ''a'' = Some ?s"
    by (simp add: demo_manager_def manager_Subscribe_def event_NewManager_def chan_make_def
        demo_heap_def)
  have room: "ch_buf (hp_chans (em_heap demo_manager) 0) = []"
    "chan_room (hp_chans (em_heap demo_manager) 0)"
    by (simp_all add: demo_manager_def manager_Subscribe_def event_NewManager_def chan_make_def
        demo_heap_def chan_room_def)
  from Publish_delivers [OF inv, of ?e] sub room show ?thesis
    by (force simp: WaitForDomain_def)
qed

end
