(* ===== verification/Runnable.thy ===== *)
theory Runnable
  imports Go_Prelude
begin

text \<open>
  The contract of a background service: \<^verbatim>\<open>Start\<close> and \<^verbatim>\<open>Stop\<close> under a lock, each refused in the wrong state.
  The message router, the task manager and the event listener promise it; each interprets the locale in
  its own theory.
\<close>

datatype run_op = OpStart | OpStop

locale runnable =
  fixes start :: "'s \<Rightarrow> 's result"
    and stop :: "'s \<Rightarrow> 's result"
    and running :: "'s \<Rightarrow> bool"
    and ok :: "'s \<Rightarrow> bool"
  assumes start_running: "ok s \<Longrightarrow> running s \<Longrightarrow> isl (start s)"
    and start_stopped: "ok s \<Longrightarrow> \<not> running s \<Longrightarrow> \<exists>s'. start s = Inr s' \<and> running s' \<and> ok s'"
    and stop_stopped: "ok s \<Longrightarrow> \<not> running s \<Longrightarrow> isl (stop s)"
    and stop_running: "ok s \<Longrightarrow> running s \<Longrightarrow> \<exists>s'. stop s = Inr s' \<and> \<not> running s' \<and> ok s'"
begin

text \<open>A sequence of calls: a refused call leaves the service as it is.\<close>

fun call :: "'s \<Rightarrow> run_op \<Rightarrow> 's" where
  "call s OpStart = (case start s of Inl _ \<Rightarrow> s | Inr s' \<Rightarrow> s')"
| "call s OpStop = (case stop s of Inl _ \<Rightarrow> s | Inr s' \<Rightarrow> s')"

lemma call_ok: "ok s \<Longrightarrow> ok (call s op)"
  using start_running [of s] start_stopped [of s] stop_stopped [of s] stop_running [of s]
  by (cases op; cases "running s") (auto split: sum.splits)

lemma call_running: "ok s \<Longrightarrow> running (call s op) \<longleftrightarrow> op = OpStart"
  using start_running [of s] start_stopped [of s] stop_stopped [of s] stop_running [of s]
  by (cases op; cases "running s") (auto split: sum.splits)

lemma calls_running:
  "ok s \<Longrightarrow> running (foldl call s ops) \<longleftrightarrow> (if ops = [] then running s else last ops = OpStart)"
proof (induction ops arbitrary: s)
  case Nil
  then show ?case by simp
next
  case (Cons op ops)
  then show ?case using call_ok [of s op] call_running [of s op] by simp
qed

lemma calls_ok: "ok s \<Longrightarrow> ok (foldl call s ops)"
  by (induction ops arbitrary: s) (auto intro: call_ok)

text \<open>
  A call is accepted exactly when it changes the state, so accepted starts and stops alternate.
\<close>

lemma start_accepted_iff: "ok s \<Longrightarrow> \<not> isl (start s) \<longleftrightarrow> \<not> running s"
  using start_running start_stopped by fastforce

lemma stop_accepted_iff: "ok s \<Longrightarrow> \<not> isl (stop s) \<longleftrightarrow> running s"
  using stop_running stop_stopped by fastforce

end

section \<open>Goroutines that can be waited for\<close>

text \<open>
  \<^verbatim>\<open>Stop\<close> waits for the goroutines of the service. The contract of their step relation: as long as one is
  left, some step is possible that brings the service closer to having none.
\<close>

locale worker_pool =
  fixes step :: "'c \<Rightarrow> 'c \<Rightarrow> bool"
    and ok :: "'c \<Rightarrow> bool"
    and idle :: "'c \<Rightarrow> bool"
    and debt :: "'c \<Rightarrow> nat"
  assumes progress: "ok c \<Longrightarrow> \<not> idle c \<Longrightarrow> \<exists>c'. step c c' \<and> ok c' \<and> debt c' < debt c"
begin

lemma drains: "ok c \<Longrightarrow> \<exists>c'. step\<^sup>*\<^sup>* c c' \<and> ok c' \<and> idle c'"
proof (induction "debt c" arbitrary: c rule: less_induct)
  case less
  show ?case
  proof (cases "idle c")
    case True
    with less.prems show ?thesis by blast
  next
    case False
    from progress [OF less.prems this] obtain c1 where
      c1: "step c c1" "ok c1" "debt c1 < debt c" by blast
    with less.hyps [of c1] show ?thesis by (meson converse_rtranclp_into_rtranclp)
  qed
qed

end

end
