(* ===== verification/Lifecycle.thy ===== *)
theory Lifecycle
  imports Channels
begin

text \<open>
  The application life cycle of \<^verbatim>\<open>src/lifecycle/lifecycle.go\<close>: four state variables, each with a setter
  that announces a change on the system event bus, the bus itself, and \<^verbatim>\<open>WaitFor\<close>, which blocks until
  a state is reached. The setters hold the write lock while they change the state and emit, so a setter
  is one step; \<^verbatim>\<open>WaitFor\<close> takes no lock across its steps and is modelled by a step relation in which the
  other goroutines may act between any two of its own steps.
\<close>

section \<open>States\<close>

type_synonym state_type = string
type_synonym app_state = string

definition StateTypeAppHealth :: state_type where "StateTypeAppHealth = ''APP_HEALTH''"
definition StateTypeConfigState :: state_type where "StateTypeConfigState = ''CONFIG_STATE''"
definition StateTypeAuthState :: state_type where "StateTypeAuthState = ''AUTH_STATE''"
definition StateTypeConnState :: state_type where "StateTypeConnState = ''CONN_STATE''"

lemmas state_type_names = StateTypeAppHealth_def StateTypeConfigState_def StateTypeAuthState_def
  StateTypeConnState_def

definition AppHealthStarting :: app_state where "AppHealthStarting = ''STARTING''"
definition AppHealthStartupError :: app_state where "AppHealthStartupError = ''STARTUP_ERROR''"
definition AppHealthNotConfigured :: app_state where "AppHealthNotConfigured = ''NOT_CONFIGURED''"
definition AppHealthError :: app_state where "AppHealthError = ''ERROR''"
definition AppHealthRunning :: app_state where "AppHealthRunning = ''RUNNING''"
definition AppHealthTerminate :: app_state where "AppHealthTerminate = ''TERMINATING''"
definition ConfigStateNotConfigured :: app_state where "ConfigStateNotConfigured = ''NOT_CONFIGURED''"
definition AuthStateNA :: app_state where "AuthStateNA = ''NA''"
definition ConnStateNA :: app_state where "ConnStateNA = ''NA''"
definition ConnStateConnected :: app_state where "ConnStateConnected = ''CONNECTED''"
definition ConnStateDisconnected :: app_state where "ConnStateDisconnected = ''DISCONNECTED''"

lemmas app_state_names = AppHealthStarting_def AppHealthStartupError_def AppHealthNotConfigured_def
  AppHealthError_def AppHealthRunning_def AppHealthTerminate_def ConfigStateNotConfigured_def
  AuthStateNA_def ConnStateNA_def ConnStateConnected_def ConnStateDisconnected_def

record system_event =
  se_type :: state_type
  se_state :: app_state
  se_params :: "(string \<rightharpoonup> string) option"

record lifecycle =
  lc_systemEventBus :: "(string \<times> nat) list"
  lc_appHealth :: app_state
  lc_connectionState :: app_state
  lc_authState :: app_state
  lc_configState :: app_state
  lc_startTime :: time
  lc_restartsCount :: int
  lc_heap :: "system_event heap"

text \<open>
  \<^verbatim>\<open>New\<close>: \<open>restarts\<close> is what \<^verbatim>\<open>IncrementRestartsCount\<close> of the configuration store returns (the count is
  taken over even when it comes with an error), or \<open>None\<close> if there is no store.
\<close>

definition lifecycle_New :: "time \<Rightarrow> int option \<Rightarrow> system_event heap \<Rightarrow> lifecycle" where
  "lifecycle_New now restarts h =
     \<lparr>lc_systemEventBus = [], lc_appHealth = AppHealthStarting, lc_connectionState = ConnStateNA,
      lc_authState = AuthStateNA, lc_configState = ConfigStateNotConfigured, lc_startTime = now,
      lc_restartsCount = (case restarts of None \<Rightarrow> 0 | Some n \<Rightarrow> n), lc_heap = h\<rparr>"

definition lifecycle_State :: "state_type \<Rightarrow> lifecycle \<Rightarrow> app_state" where
  "lifecycle_State st l =
     (if st = StateTypeAppHealth then lc_appHealth l
      else if st = StateTypeConfigState then lc_configState l
      else if st = StateTypeAuthState then lc_authState l
      else if st = StateTypeConnState then lc_connectionState l
      else '''')"

definition lifecycle_AllStates :: "lifecycle \<Rightarrow> app_state \<times> app_state \<times> app_state \<times> app_state" where
  "lifecycle_AllStates l =
     (lc_appHealth l, lc_connectionState l, lc_configState l, lc_authState l)"

definition lifecycle_Uptime :: "rounding \<Rightarrow> time \<Rightarrow> lifecycle \<Rightarrow> int" where
  "lifecycle_Uptime rnd now l =
     trunc_int (float_units rnd 1000000000 (time_since now (lc_startTime l)))"

section \<open>The bus\<close>

definition lifecycle_emit :: "system_event \<Rightarrow> lifecycle \<Rightarrow> lifecycle option" where
  "lifecycle_emit e l =
     map_option (\<lambda>h. l\<lparr>lc_heap := h\<rparr>)
       (broadcast (\<lambda>_. True) (\<lambda>p. snd p) e (lc_systemEventBus l) (lc_heap l))"

definition lifecycle_Subscribe :: "string \<Rightarrow> nat \<Rightarrow> lifecycle \<Rightarrow> nat \<times> lifecycle" where
  "lifecycle_Subscribe subID bufSize l =
     (case map_of (lc_systemEventBus l) subID of
        Some ch \<Rightarrow> (ch, l)
      | None \<Rightarrow>
          (let (msgChan, h) = chan_make bufSize (lc_heap l)
           in (msgChan,
               l\<lparr>lc_systemEventBus := AList.update subID msgChan (lc_systemEventBus l),
                 lc_heap := h\<rparr>)))"

definition lifecycle_Unsubscribe :: "string \<Rightarrow> lifecycle \<Rightarrow> lifecycle option" where
  "lifecycle_Unsubscribe subID l =
     (case map_of (lc_systemEventBus l) subID of
        None \<Rightarrow> Some l
      | Some ch \<Rightarrow>
          map_option
            (\<lambda>h. l\<lparr>lc_systemEventBus := AList.delete subID (lc_systemEventBus l), lc_heap := h\<rparr>)
            (chan_close ch (lc_heap l)))"

section \<open>The setters\<close>

definition lifecycle_SetConfigState :: "app_state \<Rightarrow> lifecycle \<Rightarrow> lifecycle option" where
  "lifecycle_SetConfigState s l =
     (if s = lc_configState l then Some l
      else lifecycle_emit \<lparr>se_type = StateTypeConfigState, se_state = s, se_params = None\<rparr>
             (l\<lparr>lc_configState := s\<rparr>))"

definition lifecycle_SetAuthState :: "app_state \<Rightarrow> lifecycle \<Rightarrow> lifecycle option" where
  "lifecycle_SetAuthState s l =
     (if s = lc_authState l then Some l
      else lifecycle_emit \<lparr>se_type = StateTypeAuthState, se_state = s, se_params = None\<rparr>
             (l\<lparr>lc_authState := s\<rparr>))"

definition lifecycle_SetConnState :: "app_state \<Rightarrow> lifecycle \<Rightarrow> lifecycle option" where
  "lifecycle_SetConnState s l =
     (if s = lc_connectionState l then Some l
      else lifecycle_emit \<lparr>se_type = StateTypeConnState, se_state = s, se_params = None\<rparr>
             (l\<lparr>lc_connectionState := s\<rparr>))"

definition lifecycle_SetAppHealth ::
  "app_state \<Rightarrow> (string \<rightharpoonup> string) option \<Rightarrow> lifecycle \<Rightarrow> lifecycle option" where
  "lifecycle_SetAppHealth s params l =
     (if s = lc_appHealth l then Some l
      else lifecycle_emit \<lparr>se_type = StateTypeAppHealth, se_state = s, se_params = params\<rparr>
             (l\<lparr>lc_appHealth := s\<rparr>))"

lemmas lifecycle_setters = lifecycle_SetConfigState_def lifecycle_SetAuthState_def
  lifecycle_SetConnState_def lifecycle_SetAppHealth_def

section \<open>The invariant and the bus contract\<close>

definition lifecycle_inv :: "lifecycle \<Rightarrow> bool" where
  "lifecycle_inv l \<longleftrightarrow> bus_ok (\<lambda>c. c) (lc_systemEventBus l) (lc_heap l)"

lemma lifecycle_inv_new: "lifecycle_inv (lifecycle_New now restarts h)"
  by (simp add: lifecycle_inv_def lifecycle_New_def)

lemma lifecycle_inv_frame [simp]:
  "lifecycle_inv (l\<lparr>lc_configState := s\<rparr>) = lifecycle_inv l"
  "lifecycle_inv (l\<lparr>lc_authState := s\<rparr>) = lifecycle_inv l"
  "lifecycle_inv (l\<lparr>lc_connectionState := s\<rparr>) = lifecycle_inv l"
  "lifecycle_inv (l\<lparr>lc_appHealth := s\<rparr>) = lifecycle_inv l"
  by (simp_all add: lifecycle_inv_def)

lemma lifecycle_emit_shape:
  assumes "lifecycle_inv l"
  obtains h where "lifecycle_emit e l = Some (l\<lparr>lc_heap := h\<rparr>)" "lifecycle_inv (l\<lparr>lc_heap := h\<rparr>)"
    "\<And>x c. map_of (lc_systemEventBus l) x = Some c \<Longrightarrow>
       hp_chans h c = chan_push e (hp_chans (lc_heap l) c)"
    "\<And>i. \<forall>x c. map_of (lc_systemEventBus l) x = Some c \<longrightarrow> c \<noteq> i \<Longrightarrow>
       hp_chans h i = hp_chans (lc_heap l) i"
proof -
  have ok: "bus_ok (\<lambda>c. c) (lc_systemEventBus l) (lc_heap l)"
    using assms by (simp add: lifecycle_inv_def)
  obtain h where h: "broadcast (\<lambda>_. True) (\<lambda>p. snd p) e (lc_systemEventBus l) (lc_heap l) = Some h"
      "bus_ok (\<lambda>c. c) (lc_systemEventBus l) h"
    and dlv: "\<And>x c. map_of (lc_systemEventBus l) x = Some c \<Longrightarrow>
       hp_chans h c = (if True then chan_push e (hp_chans (lc_heap l) c) else hp_chans (lc_heap l) c)"
    and frm: "\<And>i. \<forall>x c. map_of (lc_systemEventBus l) x = Some c \<longrightarrow> c \<noteq> i \<Longrightarrow>
       hp_chans h i = hp_chans (lc_heap l) i"
    by (rule bus_ok_broadcast [OF ok, of "\<lambda>_. True" e]) blast
  show ?thesis
    by (rule that [of h]) (use h dlv frm in \<open>simp_all add: lifecycle_emit_def lifecycle_inv_def\<close>)
qed

definition lifecycle_chan :: "lifecycle \<Rightarrow> string \<Rightarrow> nat option" where
  "lifecycle_chan l x = map_of (lc_systemEventBus l) x"

interpretation lb: pubsub lifecycle_emit lifecycle_chan lc_heap "\<lambda>_ _ _. True" lifecycle_inv
proof
  fix l e
  assume inv: "lifecycle_inv l"
  obtain h where h: "lifecycle_emit e l = Some (l\<lparr>lc_heap := h\<rparr>)"
    and inv': "lifecycle_inv (l\<lparr>lc_heap := h\<rparr>)"
    and dlv: "\<And>x c. map_of (lc_systemEventBus l) x = Some c \<Longrightarrow>
       hp_chans h c = chan_push e (hp_chans (lc_heap l) c)"
    and frm: "\<And>i. \<forall>x c. map_of (lc_systemEventBus l) x = Some c \<longrightarrow> c \<noteq> i \<Longrightarrow>
       hp_chans h i = hp_chans (lc_heap l) i"
    by (rule lifecycle_emit_shape [OF inv, of e]) blast
  show "\<exists>l'. lifecycle_emit e l = Some l'" using h by blast
  fix l'
  assume "lifecycle_emit e l = Some l'"
  with h have l': "l' = l\<lparr>lc_heap := h\<rparr>" by simp
  show "lifecycle_inv l'" using inv' l' by simp
  show "lifecycle_chan l' = lifecycle_chan l" by (simp add: l' lifecycle_chan_def fun_eq_iff)
  show "hp_chans (lc_heap l') i =
      (if True then chan_push e (hp_chans (lc_heap l) i) else hp_chans (lc_heap l) i)"
    if "lifecycle_chan l x = Some i" for x i
    using that dlv by (simp add: l' lifecycle_chan_def)
  show "hp_chans (lc_heap l') i = hp_chans (lc_heap l) i"
    if "\<forall>x. lifecycle_chan l x \<noteq> Some i" for i
    using that frm [of i] by (auto simp: l' lifecycle_chan_def)
qed auto

lemma lifecycle_Subscribe_inv [go_inv]:
  assumes "lifecycle_inv l"
  shows "lifecycle_inv (snd (lifecycle_Subscribe x n l))"
proof (cases "map_of (lc_systemEventBus l) x")
  case (Some c)
  then show ?thesis using assms by (simp add: lifecycle_Subscribe_def)
next
  case None
  then show ?thesis
    using assms bus_ok_add [of "\<lambda>c. c" "lc_systemEventBus l" "lc_heap l" x "hp_next (lc_heap l)" n]
    by (simp add: lifecycle_inv_def lifecycle_Subscribe_def case_prod_unfold)
qed

lemma lifecycle_Unsubscribe_ok:
  assumes "lifecycle_inv l"
  shows "\<exists>l'. lifecycle_Unsubscribe x l = Some l' \<and> lifecycle_inv l'"
proof (cases "map_of (lc_systemEventBus l) x")
  case None
  then show ?thesis using assms by (simp add: lifecycle_Unsubscribe_def)
next
  case (Some c)
  have ok: "bus_ok (\<lambda>c. c) (lc_systemEventBus l) (lc_heap l)"
    using assms by (simp add: lifecycle_inv_def)
  obtain h where h: "chan_close c (lc_heap l) = Some h"
    using bus_ok_lookup(2) [OF ok Some] by (simp add: chan_close_def Let_def)
  show ?thesis
    using bus_ok_remove [OF ok Some h] by (simp add: lifecycle_inv_def lifecycle_Unsubscribe_def Some h)
qed

section \<open>Runs of the life cycle\<close>

datatype lifecycle_op =
    OpSetConfig app_state
  | OpSetAuth app_state
  | OpSetConn app_state
  | OpSetHealth app_state "(string \<rightharpoonup> string) option"

fun lifecycle_step :: "lifecycle_op \<Rightarrow> lifecycle \<Rightarrow> lifecycle option" where
  "lifecycle_step (OpSetConfig s) l = lifecycle_SetConfigState s l"
| "lifecycle_step (OpSetAuth s) l = lifecycle_SetAuthState s l"
| "lifecycle_step (OpSetConn s) l = lifecycle_SetConnState s l"
| "lifecycle_step (OpSetHealth s p) l = lifecycle_SetAppHealth s p l"

fun lifecycle_run :: "lifecycle_op list \<Rightarrow> lifecycle \<Rightarrow> lifecycle option" where
  "lifecycle_run [] l = Some l"
| "lifecycle_run (op # ops) l = Option.bind (lifecycle_step op l) (lifecycle_run ops)"

text \<open>What a subscriber reconstructs from the events it received, by replaying them in order.\<close>

definition lifecycle_view :: "lifecycle \<Rightarrow> state_type \<Rightarrow> app_state" where
  "lifecycle_view l st = lifecycle_State st l"

definition replay :: "system_event list \<Rightarrow> (state_type \<Rightarrow> app_state) \<Rightarrow> (state_type \<Rightarrow> app_state)" where
  "replay es f = fold (\<lambda>e g. g(se_type e := se_state e)) es f"

lemma lifecycle_view_simps [simp]:
  "lifecycle_view (l\<lparr>lc_heap := h\<rparr>) = lifecycle_view l"
  "lifecycle_view (l\<lparr>lc_configState := s\<rparr>) = (lifecycle_view l)(StateTypeConfigState := s)"
  "lifecycle_view (l\<lparr>lc_authState := s\<rparr>) = (lifecycle_view l)(StateTypeAuthState := s)"
  "lifecycle_view (l\<lparr>lc_connectionState := s\<rparr>) = (lifecycle_view l)(StateTypeConnState := s)"
  "lifecycle_view (l\<lparr>lc_appHealth := s\<rparr>) = (lifecycle_view l)(StateTypeAppHealth := s)"
  by (auto simp: fun_eq_iff lifecycle_view_def lifecycle_State_def state_type_names)

text \<open>
  The event that announces a requested change, and the announcements that a sequence of requests calls for, given the
  states: one for each request of a state that differs from the present one.
\<close>

fun requested :: "lifecycle_op \<Rightarrow> system_event" where
  "requested (OpSetConfig s) = \<lparr>se_type = StateTypeConfigState, se_state = s, se_params = None\<rparr>"
| "requested (OpSetAuth s) = \<lparr>se_type = StateTypeAuthState, se_state = s, se_params = None\<rparr>"
| "requested (OpSetConn s) = \<lparr>se_type = StateTypeConnState, se_state = s, se_params = None\<rparr>"
| "requested (OpSetHealth s p) = \<lparr>se_type = StateTypeAppHealth, se_state = s, se_params = p\<rparr>"

fun announced :: "(state_type \<Rightarrow> app_state) \<Rightarrow> system_event list \<Rightarrow> system_event list" where
  "announced f [] = []"
| "announced f (e # es) =
     (if f (se_type e) = se_state e then announced f es
      else e # announced (f(se_type e := se_state e)) es)"

text \<open>A setter does nothing if the state is the present one, and otherwise announces exactly the change that it makes.\<close>

lemma lifecycle_step_same:
  "lifecycle_view l (se_type (requested op)) = se_state (requested op) \<Longrightarrow> lifecycle_step op l = Some l"
  by (cases op) (auto simp: lifecycle_setters lifecycle_view_def lifecycle_State_def state_type_names)

lemma lifecycle_step_changes:
  assumes "lifecycle_inv l" "lifecycle_view l (se_type (requested op)) \<noteq> se_state (requested op)"
  obtains l0 where "lifecycle_step op l = lifecycle_emit (requested op) l0" "lifecycle_inv l0"
    "lc_systemEventBus l0 = lc_systemEventBus l" "lc_heap l0 = lc_heap l"
    "lifecycle_view l0 = (lifecycle_view l)(se_type (requested op) := se_state (requested op))"
proof (cases op)
  case (OpSetConfig s)
  with assms show thesis by (intro that [of "l\<lparr>lc_configState := s\<rparr>"])
    (auto simp: lifecycle_SetConfigState_def lifecycle_view_def lifecycle_State_def state_type_names)
next
  case (OpSetAuth s)
  with assms show thesis by (intro that [of "l\<lparr>lc_authState := s\<rparr>"])
    (auto simp: lifecycle_SetAuthState_def lifecycle_view_def lifecycle_State_def state_type_names)
next
  case (OpSetConn s)
  with assms show thesis by (intro that [of "l\<lparr>lc_connectionState := s\<rparr>"])
    (auto simp: lifecycle_SetConnState_def lifecycle_view_def lifecycle_State_def state_type_names)
next
  case (OpSetHealth s p)
  with assms show thesis by (intro that [of "l\<lparr>lc_appHealth := s\<rparr>"])
    (auto simp: lifecycle_SetAppHealth_def lifecycle_view_def lifecycle_State_def state_type_names)
qed

lemma lifecycle_step_announces:
  assumes inv: "lifecycle_inv l" and sub: "map_of (lc_systemEventBus l) x = Some c"
    and room: "length (ch_buf (hp_chans (lc_heap l) c)) < ch_cap (hp_chans (lc_heap l) c)"
  shows "\<exists>l'. lifecycle_step op l = Some l' \<and> lifecycle_inv l'
    \<and> lc_systemEventBus l' = lc_systemEventBus l
    \<and> ch_cap (hp_chans (lc_heap l') c) = ch_cap (hp_chans (lc_heap l) c)
    \<and> ch_buf (hp_chans (lc_heap l') c) = ch_buf (hp_chans (lc_heap l) c) @ announced (lifecycle_view l) [requested op]
    \<and> lifecycle_view l' = (lifecycle_view l)(se_type (requested op) := se_state (requested op))"
proof (cases "lifecycle_view l (se_type (requested op)) = se_state (requested op)")
  case True
  then show ?thesis using inv lifecycle_step_same [OF True] by auto
next
  case False
  obtain l0 where l0: "lifecycle_step op l = lifecycle_emit (requested op) l0" "lifecycle_inv l0"
    "lc_systemEventBus l0 = lc_systemEventBus l" "lc_heap l0 = lc_heap l"
    "lifecycle_view l0 = (lifecycle_view l)(se_type (requested op) := se_state (requested op))"
    by (rule lifecycle_step_changes [OF inv False])
  obtain h where h: "lifecycle_emit (requested op) l0 = Some (l0\<lparr>lc_heap := h\<rparr>)" "lifecycle_inv (l0\<lparr>lc_heap := h\<rparr>)"
    and dlv: "\<And>y c. map_of (lc_systemEventBus l0) y = Some c \<Longrightarrow>
       hp_chans h c = chan_push (requested op) (hp_chans (lc_heap l0) c)"
    by (rule lifecycle_emit_shape [OF l0(2), of "requested op"]) blast
  have "chan_room (hp_chans (lc_heap l) c)"
    using room by (simp add: chan_room_def)
  then show ?thesis using l0 h dlv [of x c] sub False by simp
qed

lemma announced_step:
  "announced f (e # es) = announced f [e] @ announced (f(se_type e := se_state e)) es"
  by (simp add: fun_upd_idem)

lemma announced_length: "length (announced f es) \<le> length es"
  by (induction es arbitrary: f) (auto intro: le_SucI)

lemma replay_announced: "replay (announced f es) f = replay es f"
  by (induction es arbitrary: f) (auto simp: replay_def fun_upd_idem)

lemma lifecycle_run_announces:
  assumes "lifecycle_inv l" "map_of (lc_systemEventBus l) x = Some c"
    and "length (ch_buf (hp_chans (lc_heap l) c)) + length ops \<le> ch_cap (hp_chans (lc_heap l) c)"
  shows "\<exists>l'. lifecycle_run ops l = Some l'
    \<and> ch_buf (hp_chans (lc_heap l') c) = ch_buf (hp_chans (lc_heap l) c) @ announced (lifecycle_view l) (map requested ops)
    \<and> lifecycle_view l' = replay (map requested ops) (lifecycle_view l)"
  using assms
proof (induction ops arbitrary: l)
  case Nil
  then show ?case by (auto simp: replay_def)
next
  case (Cons op ops)
  let ?e = "requested op"
  obtain l1 where l1: "lifecycle_step op l = Some l1" "lifecycle_inv l1"
      "lc_systemEventBus l1 = lc_systemEventBus l"
      "ch_cap (hp_chans (lc_heap l1) c) = ch_cap (hp_chans (lc_heap l) c)"
      "ch_buf (hp_chans (lc_heap l1) c) = ch_buf (hp_chans (lc_heap l) c) @ announced (lifecycle_view l) [?e]"
      "lifecycle_view l1 = (lifecycle_view l)(se_type ?e := se_state ?e)"
    using lifecycle_step_announces [OF Cons.prems(1,2), of op] Cons.prems(3) by auto
  have room1: "length (ch_buf (hp_chans (lc_heap l1) c)) + length ops \<le> ch_cap (hp_chans (lc_heap l1) c)"
    using Cons.prems(3) l1(4) announced_length [of "lifecycle_view l" "[?e]"] unfolding l1(5) by simp
  obtain l' where l': "lifecycle_run ops l1 = Some l'"
      "ch_buf (hp_chans (lc_heap l') c) = ch_buf (hp_chans (lc_heap l1) c) @ announced (lifecycle_view l1) (map requested ops)"
      "lifecycle_view l' = replay (map requested ops) (lifecycle_view l1)"
    using Cons.IH [OF l1(2) _ room1] Cons.prems(2) l1(3) by auto
  have "announced (lifecycle_view l) (map requested (op # ops))
      = announced (lifecycle_view l) [?e] @ announced (lifecycle_view l1) (map requested ops)"
    using announced_step [of "lifecycle_view l" ?e "map requested ops"] l1(6) by simp
  then show ?case using l1(1,5,6) l' by (simp add: replay_def)
qed

section \<open>\<^verbatim>\<open>WaitFor\<close>\<close>

datatype waitfor_pc = WfStart | WfChecked | WfWaiting nat | WfMatched | WfDone

text \<open>The steps of the goroutine that runs \<^verbatim>\<open>WaitFor(subID, stateType, targetState)\<close>.\<close>

inductive waitfor_step ::
  "string \<Rightarrow> state_type \<Rightarrow> app_state \<Rightarrow> waitfor_pc \<times> lifecycle \<Rightarrow> waitfor_pc \<times> lifecycle \<Rightarrow> bool"
  for subID st tgt where
  already: "lifecycle_State st l = tgt \<Longrightarrow> waitfor_step subID st tgt (WfStart, l) (WfDone, l)"
| checked: "lifecycle_State st l \<noteq> tgt \<Longrightarrow> waitfor_step subID st tgt (WfStart, l) (WfChecked, l)"
| subscribed: "lifecycle_Subscribe subID 5 l = (ch, l') \<Longrightarrow>
    waitfor_step subID st tgt (WfChecked, l) (WfWaiting ch, l')"
| matched: "chan_recv ch (lc_heap l) = (Received e, h) \<Longrightarrow> se_type e = st \<Longrightarrow> se_state e = tgt \<Longrightarrow>
    waitfor_step subID st tgt (WfWaiting ch, l) (WfMatched, l\<lparr>lc_heap := h\<rparr>)"
| skipped: "chan_recv ch (lc_heap l) = (Received e, h) \<Longrightarrow> \<not> (se_type e = st \<and> se_state e = tgt) \<Longrightarrow>
    waitfor_step subID st tgt (WfWaiting ch, l) (WfWaiting ch, l\<lparr>lc_heap := h\<rparr>)"
| range_ends: "chan_recv ch (lc_heap l) = (Closed, h) \<Longrightarrow>
    waitfor_step subID st tgt (WfWaiting ch, l) (WfDone, l)"
| unsubscribed: "lifecycle_Unsubscribe subID l = Some l' \<Longrightarrow>
    waitfor_step subID st tgt (WfMatched, l) (WfDone, l')"

text \<open>The other goroutines: a setter runs between two steps of \<^verbatim>\<open>WaitFor\<close>.\<close>

inductive waitfor_sys ::
  "string \<Rightarrow> state_type \<Rightarrow> app_state \<Rightarrow> waitfor_pc \<times> lifecycle \<Rightarrow> waitfor_pc \<times> lifecycle \<Rightarrow> bool"
  for subID st tgt where
  own: "waitfor_step subID st tgt c c' \<Longrightarrow> waitfor_sys subID st tgt c c'"
| other: "lifecycle_step op l = Some l' \<Longrightarrow> waitfor_sys subID st tgt (pc, l) (pc, l')"

inductive_cases waitfor_waitingE: "waitfor_step subID st tgt (WfWaiting ch, l) c'"

lemma chan_recv_Nil:
  "ch_buf (hp_chans h i) = [] \<Longrightarrow>
   chan_recv i h = ((if ch_closed (hp_chans h i) then Closed else Blocked), h)"
  by (simp add: chan_recv_def Let_def)

lemma waitfor_blocked:
  assumes "ch_buf (hp_chans (lc_heap l) ch) = []" "\<not> ch_closed (hp_chans (lc_heap l) ch)"
  shows "\<not> waitfor_step subID st tgt (WfWaiting ch, l) c'"
  using assms by (auto elim!: waitfor_waitingE simp: chan_recv_Nil)

lemma waitfor_drains:
  assumes "lifecycle_inv l" "e \<in> set (ch_buf (hp_chans (lc_heap l) ch))"
    and "se_type e = st" "se_state e = tgt"
  shows "\<exists>l'. (waitfor_step subID st tgt)\<^sup>*\<^sup>* (WfWaiting ch, l) (WfDone, l') \<and> lifecycle_inv l'"
  using assms(1,2)
proof (induction "ch_buf (hp_chans (lc_heap l) ch)" arbitrary: l)
  case Nil
  then show ?case by simp
next
  case (Cons v vs)
  let ?h = "(lc_heap l)\<lparr>hp_chans := (hp_chans (lc_heap l))(ch := (hp_chans (lc_heap l) ch)\<lparr>ch_buf := vs\<rparr>)\<rparr>"
  let ?l = "l\<lparr>lc_heap := ?h\<rparr>"
  have recv: "chan_recv ch (lc_heap l) = (Received v, ?h)"
    by (simp add: chan_recv_def Let_def flip: Cons.hyps(2))
  have inv: "lifecycle_inv ?l"
    using Cons.prems(1) by (auto simp: lifecycle_inv_def bus_ok_def)
  show ?case
  proof (cases "se_type v = st \<and> se_state v = tgt")
    case True
    obtain l' where l': "lifecycle_Unsubscribe subID ?l = Some l'" "lifecycle_inv l'"
      using lifecycle_Unsubscribe_ok [OF inv] by blast
    have "waitfor_step subID st tgt (WfWaiting ch, l) (WfMatched, ?l)"
      using recv True by (intro waitfor_step.matched) auto
    moreover have "waitfor_step subID st tgt (WfMatched, ?l) (WfDone, l')"
      using l'(1) by (rule waitfor_step.unsubscribed)
    ultimately show ?thesis
      using l'(2) by (meson converse_rtranclp_into_rtranclp r_into_rtranclp)
  next
    case False
    have step: "waitfor_step subID st tgt (WfWaiting ch, l) (WfWaiting ch, ?l)"
      using recv False by (rule waitfor_step.skipped)
    have "e \<in> set vs"
      using Cons.prems(2) Cons.hyps(2) [symmetric] False assms(3,4) by auto
    then obtain l' where "(waitfor_step subID st tgt)\<^sup>*\<^sup>* (WfWaiting ch, ?l) (WfDone, l')" "lifecycle_inv l'"
      using Cons.hyps(1) [of ?l] inv by auto
    with step show ?thesis by (meson converse_rtranclp_into_rtranclp)
  qed
qed

section \<open>Properties\<close>

text \<open>
  C6. The system events announce exactly the changes: for any sequence of calls of the setters, a subscriber whose buffer has room
  receives one event for each call that sets a state different from the present one, with its new value and parameters, in the
  order of the calls, and none for the other calls. The states end up as last requested, and replaying the received
  events from the states in which the subscriber found the application gives these states.
\<close>
theorem lifecycle_events_replay:
  assumes "lifecycle_inv l" "map_of (lc_systemEventBus l) x = Some c"
    and "length (ch_buf (hp_chans (lc_heap l) c)) + length ops \<le> ch_cap (hp_chans (lc_heap l) c)"
  shows "\<exists>l' es. lifecycle_run ops l = Some l'
    \<and> es = announced (\<lambda>st. lifecycle_State st l) (map requested ops)
    \<and> ch_buf (hp_chans (lc_heap l') c) = ch_buf (hp_chans (lc_heap l) c) @ es
    \<and> (\<lambda>st. lifecycle_State st l') = replay (map requested ops) (\<lambda>st. lifecycle_State st l)
    \<and> (\<lambda>st. lifecycle_State st l') = replay es (\<lambda>st. lifecycle_State st l)"
proof -
  have view: "lifecycle_view k = (\<lambda>st. lifecycle_State st k)" for k
    by (simp add: fun_eq_iff lifecycle_view_def)
  show ?thesis using lifecycle_run_announces [OF assms] unfolding view by (simp add: replay_announced)
qed

definition no_chans :: "system_event heap" where
  "no_chans = \<lparr>hp_chans = (\<lambda>_. \<lparr>ch_buf = [], ch_cap = 0, ch_recvq = 0, ch_closed = False\<rparr>), hp_next = 0\<rparr>"

definition demo_lifecycle :: lifecycle where
  "demo_lifecycle = snd (lifecycle_Subscribe ''ui'' 5 (lifecycle_New 1 None no_chans))"

theorem lifecycle_events_replay_witness:
  "\<exists>l' e1 e2. lifecycle_run [OpSetHealth AppHealthRunning None, OpSetConn ConnStateConnected, OpSetHealth AppHealthRunning None]
         demo_lifecycle = Some l'
    \<and> ch_buf (hp_chans (lc_heap l') 0) = ch_buf (hp_chans (lc_heap demo_lifecycle) 0) @ [e1, e2]
    \<and> e1 = \<lparr>se_type = StateTypeAppHealth, se_state = AppHealthRunning, se_params = None\<rparr>
    \<and> e2 = \<lparr>se_type = StateTypeConnState, se_state = ConnStateConnected, se_params = None\<rparr>"
proof -
  let ?ops = "[OpSetHealth AppHealthRunning None, OpSetConn ConnStateConnected, OpSetHealth AppHealthRunning None]"
  have demo: "demo_lifecycle = (lifecycle_New 1 None no_chans)\<lparr>lc_systemEventBus := [(''ui'', 0)],
      lc_heap := snd (chan_make 5 no_chans)\<rparr>"
    by (simp add: demo_lifecycle_def lifecycle_Subscribe_def lifecycle_New_def chan_make_def no_chans_def)
  have inv: "lifecycle_inv demo_lifecycle"
    unfolding demo_lifecycle_def by (intro lifecycle_Subscribe_inv lifecycle_inv_new)
  have sub: "map_of (lc_systemEventBus demo_lifecycle) ''ui'' = Some 0"
    by (simp add: demo)
  have room: "length (ch_buf (hp_chans (lc_heap demo_lifecycle) 0)) + length ?ops \<le> ch_cap (hp_chans (lc_heap demo_lifecycle) 0)"
    by (simp add: demo chan_make_def no_chans_def)
  have "announced (\<lambda>st. lifecycle_State st demo_lifecycle) (map requested ?ops)
      = [\<lparr>se_type = StateTypeAppHealth, se_state = AppHealthRunning, se_params = None\<rparr>,
         \<lparr>se_type = StateTypeConnState, se_state = ConnStateConnected, se_params = None\<rparr>]"
    by (simp add: demo lifecycle_New_def lifecycle_State_def state_type_names app_state_names)
  with lifecycle_events_replay [OF inv sub room] show ?thesis by auto
qed

text \<open>
  \<^verbatim>\<open>WaitFor\<close> returns once the announcement it waits for is in its channel, whatever other
  announcements come before it: its own steps alone take it to its return.
\<close>
theorem WaitFor_returns_on_event:
  assumes "lifecycle_inv l" "e \<in> set (ch_buf (hp_chans (lc_heap l) ch))"
    and "se_type e = st" "se_state e = tgt"
  shows "\<exists>l'. (waitfor_step subID st tgt)\<^sup>*\<^sup>* (WfWaiting ch, l) (WfDone, l')"
  using waitfor_drains [OF assms] by blast

theorem WaitFor_returns_on_event_witness:
  "\<exists>l l'. ch_buf (hp_chans (lc_heap l) 0) =
        [\<lparr>se_type = StateTypeConnState, se_state = ConnStateConnected, se_params = None\<rparr>]
     \<and> (waitfor_step ''ui'' StateTypeConnState ConnStateConnected)\<^sup>*\<^sup>* (WfWaiting 0, l) (WfDone, l')"
proof -
  let ?e = "\<lparr>se_type = StateTypeConnState, se_state = ConnStateConnected, se_params = None\<rparr>"
  have inv: "lifecycle_inv demo_lifecycle"
    unfolding demo_lifecycle_def by (intro lifecycle_Subscribe_inv lifecycle_inv_new)
  obtain h where h: "lifecycle_inv (demo_lifecycle\<lparr>lc_heap := h\<rparr>)"
    and dlv: "\<And>y c. map_of (lc_systemEventBus demo_lifecycle) y = Some c \<Longrightarrow>
       hp_chans h c = chan_push ?e (hp_chans (lc_heap demo_lifecycle) c)"
    by (rule lifecycle_emit_shape [OF inv, of ?e]) blast
  have buf: "ch_buf (hp_chans h 0) = [?e]"
    using dlv [of "''ui''" 0]
    by (simp add: demo_lifecycle_def lifecycle_Subscribe_def lifecycle_New_def chan_make_def
        no_chans_def chan_room_def)
  obtain l' where "(waitfor_step ''ui'' StateTypeConnState ConnStateConnected)\<^sup>*\<^sup>*
      (WfWaiting 0, demo_lifecycle\<lparr>lc_heap := h\<rparr>) (WfDone, l')"
    using WaitFor_returns_on_event [OF h, of ?e 0 StateTypeConnState ConnStateConnected "''ui''"] buf
    by auto
  with buf show ?thesis
    by (metis (no_types, lifting) lifecycle.select_convs(8) lifecycle.surjective
        lifecycle.update_convs(8))
qed

text \<open>
  C19. \<^verbatim>\<open>WaitFor\<close> can miss the state it waits for: it reads the state before it subscribes, and if the state
  is reached between the two, the announcement goes to nobody. In a new life cycle, with one call of
  \<^verbatim>\<open>SetConnState\<close> in between, it ends up waiting on an empty channel although the connection state is
  the target, and no step of its own is possible.
\<close>
theorem WaitFor_lost_wakeup:
  "\<exists>l ch. (waitfor_sys x StateTypeConnState ConnStateConnected)\<^sup>*\<^sup>*
            (WfStart, lifecycle_New now None no_chans) (WfWaiting ch, l)
     \<and> lifecycle_State StateTypeConnState l = ConnStateConnected
     \<and> (\<forall>c. \<not> waitfor_step x StateTypeConnState ConnStateConnected (WfWaiting ch, l) c)"
proof -
  let ?l0 = "lifecycle_New now None no_chans"
  let ?l1 = "?l0\<lparr>lc_connectionState := ConnStateConnected\<rparr>"
  let ?sys = "waitfor_sys x StateTypeConnState ConnStateConnected"
  obtain ch l where l: "lifecycle_Subscribe x 5 ?l1 = (ch, l)" by (metis surj_pair)
  have "?sys (WfStart, ?l0) (WfChecked, ?l0)"
    by (intro waitfor_sys.own waitfor_step.checked)
      (simp add: lifecycle_State_def lifecycle_New_def state_type_names app_state_names)
  moreover have "lifecycle_step (OpSetConn ConnStateConnected) ?l0 = Some ?l1"
    by (simp add: lifecycle_SetConnState_def lifecycle_New_def lifecycle_emit_def app_state_names)
  then have "?sys (WfChecked, ?l0) (WfChecked, ?l1)"
    by (rule waitfor_sys.other)
  moreover have "?sys (WfChecked, ?l1) (WfWaiting ch, l)"
    using l by (intro waitfor_sys.own waitfor_step.subscribed)
  ultimately have "?sys\<^sup>*\<^sup>* (WfStart, ?l0) (WfWaiting ch, l)"
    by (meson converse_rtranclp_into_rtranclp r_into_rtranclp)
  moreover have "lifecycle_State StateTypeConnState l = ConnStateConnected"
    "ch_buf (hp_chans (lc_heap l) ch) = []" "\<not> ch_closed (hp_chans (lc_heap l) ch)"
    using l by (auto simp: lifecycle_Subscribe_def lifecycle_New_def chan_make_def no_chans_def
        lifecycle_State_def state_type_names)
  ultimately show ?thesis
    using waitfor_blocked by blast
qed

end
