(* ===== verification/Tasks.thy ===== *)
theory Tasks
  imports Runnable Lifecycle
begin

text \<open>
  The task package (\<^verbatim>\<open>src/task\<close>): tasks with their voters (\<^verbatim>\<open>task.go\<close>, \<^verbatim>\<open>voter.go\<close>) and the manager that
  runs them in goroutines (\<^verbatim>\<open>manager.go\<close>). A handler and a voter act on the state of the application,
  the type parameter \<open>'s\<close>; a handler that panics says so in its result, and what it did before the
  panic stays done.
\<close>

section \<open>Tasks (\<^verbatim>\<open>task.go\<close>)\<close>

record 's task =
  tk_handler :: "'s \<Rightarrow> 's \<times> bool"   \<comment> \<open>the state afterwards and whether the handler panicked\<close>
  tk_duration :: duration
  tk_voters :: "('s \<Rightarrow> bool) list"

definition task_New :: "('s \<Rightarrow> 's \<times> bool) \<Rightarrow> duration \<Rightarrow> ('s \<Rightarrow> bool) list \<Rightarrow> 's task" where
  "task_New handler d voters = \<lparr>tk_handler = handler, tk_duration = d, tk_voters = voters\<rparr>"

fun vote_all :: "('s \<Rightarrow> bool) list \<Rightarrow> 's \<Rightarrow> bool" where
  "vote_all [] s = True"
| "vote_all (v # vs) s = (if \<not> v s then False else vote_all vs s)"

definition task_vote :: "'s task \<Rightarrow> 's \<Rightarrow> bool" where
  "task_vote t s = vote_all (tk_voters t) s"

definition task_run :: "'s task \<Rightarrow> 's \<Rightarrow> 's \<times> bool" where
  "task_run t s = (if \<not> task_vote t s then (s, False) else tk_handler t s)"

text \<open>\<^verbatim>\<open>Combine\<close>: its arguments are all single tasks or all slices of tasks.\<close>

datatype 's task_parts = TaskList "'s task list" | TaskLists "'s task list list"

definition task_Combine :: "'s task_parts \<Rightarrow> 's task list" where
  "task_Combine parts = (case parts of TaskList ts \<Rightarrow> ts | TaskLists tss \<Rightarrow> concat tss)"

section \<open>Voters (\<^verbatim>\<open>voter.go\<close>)\<close>

definition WhenNot :: "('s \<Rightarrow> bool) \<Rightarrow> 's \<Rightarrow> bool" where
  "WhenNot v s \<longleftrightarrow> \<not> v s"

definition WhenAppIsStarting :: "('s \<Rightarrow> lifecycle) \<Rightarrow> 's \<Rightarrow> bool" where
  "WhenAppIsStarting l s \<longleftrightarrow> lc_appHealth (l s) = AppHealthStarting"

definition WhenAppIsNotConfigured :: "('s \<Rightarrow> lifecycle) \<Rightarrow> 's \<Rightarrow> bool" where
  "WhenAppIsNotConfigured l s \<longleftrightarrow> lc_appHealth (l s) = AppHealthNotConfigured"

definition WhenAppIsRunning :: "('s \<Rightarrow> lifecycle) \<Rightarrow> 's \<Rightarrow> bool" where
  "WhenAppIsRunning l s \<longleftrightarrow> lc_appHealth (l s) = AppHealthRunning"

definition WhenAppIsTerminating :: "('s \<Rightarrow> lifecycle) \<Rightarrow> 's \<Rightarrow> bool" where
  "WhenAppIsTerminating l s \<longleftrightarrow> lc_appHealth (l s) = AppHealthTerminate"

definition WhenAppEncounteredStartupError :: "('s \<Rightarrow> lifecycle) \<Rightarrow> 's \<Rightarrow> bool" where
  "WhenAppEncounteredStartupError l s \<longleftrightarrow> lc_appHealth (l s) = AppHealthStartupError"

definition WhenAppEncounteredError :: "('s \<Rightarrow> lifecycle) \<Rightarrow> 's \<Rightarrow> bool" where
  "WhenAppEncounteredError l s \<longleftrightarrow> lc_appHealth (l s) = AppHealthError"

definition WhenAppIsConnected :: "('s \<Rightarrow> lifecycle) \<Rightarrow> 's \<Rightarrow> bool" where
  "WhenAppIsConnected l s \<longleftrightarrow> lc_connectionState (l s) = ConnStateConnected"

definition WhenAppIsDisconnected :: "('s \<Rightarrow> lifecycle) \<Rightarrow> 's \<Rightarrow> bool" where
  "WhenAppIsDisconnected l s \<longleftrightarrow> lc_connectionState (l s) = ConnStateDisconnected"

lemma vote_all_iff: "vote_all vs s \<longleftrightarrow> (\<forall>v \<in> set vs. v s)"
  by (induction vs) auto

section \<open>The manager (\<^verbatim>\<open>manager.go\<close>)\<close>

text \<open>
  A goroutine of the manager: one that runs its task once, one that is about to make its first run,
  and one that waits in its \<^verbatim>\<open>select\<close> for a tick or for the stop channel. A nil task in the list is
  \<open>None\<close>.
\<close>

datatype 's worker = RunOnce "'s task option" | RunFirst "'s task" | Selecting "'s task"

datatype stop_chan = NoStopCh | OpenStopCh | ClosedStopCh

record 's task_manager =
  tm_tasks :: "'s task list"
  tm_stopCh :: stop_chan
  tm_wg :: nat
  tm_workers :: "'s worker list"

definition task_NewManager :: "'s task list \<Rightarrow> 's task_manager" where
  "task_NewManager tasks = \<lparr>tm_tasks = tasks, tm_stopCh = NoStopCh, tm_wg = 0, tm_workers = []\<rparr>"

definition task_spawn :: "'s task \<Rightarrow> 's worker" where
  "task_spawn t = (if tk_duration t = 0 then RunOnce (Some t) else RunFirst t)"

definition tmanager_Start :: "'s task_manager \<Rightarrow> 's task_manager result" where
  "tmanager_Start m =
     (if tm_stopCh m \<noteq> NoStopCh
      then Inl (Errorf ''task manager: cannot be started as it is already running'')
      else Inr (m\<lparr>tm_stopCh := OpenStopCh, tm_wg := tm_wg m + length (tm_tasks m),
                  tm_workers := tm_workers m @ map task_spawn (tm_tasks m)\<rparr>))"

text \<open>
  \<^verbatim>\<open>Stop\<close> up to the point where it waits: the stop channel is closed. It returns when the wait group is
  zero, and then forgets the channel.
\<close>

definition tmanager_Stop_close :: "'s task_manager \<Rightarrow> 's task_manager result" where
  "tmanager_Stop_close m =
     (if tm_stopCh m = NoStopCh
      then Inl (Errorf ''task manager: cannot be stopped as it is already not running'')
      else Inr (m\<lparr>tm_stopCh := ClosedStopCh\<rparr>))"

definition tmanager_Stop_return :: "'s task_manager \<Rightarrow> 's task_manager option" where
  "tmanager_Stop_return m = (if tm_wg m = 0 then Some (m\<lparr>tm_stopCh := NoStopCh\<rparr>) else None)"

text \<open>\<^verbatim>\<open>run\<close>: a panic is recovered, so all that remains of it is what the handler had done.\<close>

definition run_task :: "'s task option \<Rightarrow> 's \<Rightarrow> 's" where
  "run_task t s = (case t of None \<Rightarrow> s | Some t \<Rightarrow> fst (task_run t s))"

text \<open>The steps of the goroutines, on the manager and the application state.\<close>

inductive worker_step :: "'s task_manager \<times> 's \<Rightarrow> 's task_manager \<times> 's \<Rightarrow> bool" where
  once: "tm_workers m = ws1 @ RunOnce t # ws2 \<Longrightarrow>
    worker_step (m, s) (m\<lparr>tm_workers := ws1 @ ws2, tm_wg := tm_wg m - 1\<rparr>, run_task t s)"
| first: "tm_workers m = ws1 @ RunFirst t # ws2 \<Longrightarrow> 0 < tk_duration t \<Longrightarrow>
    worker_step (m, s) (m\<lparr>tm_workers := ws1 @ Selecting t # ws2\<rparr>, run_task (Some t) s)"
| tick: "tm_workers m = ws1 @ Selecting t # ws2 \<Longrightarrow> worker_step (m, s) (m, run_task (Some t) s)"
| stopped: "tm_workers m = ws1 @ Selecting t # ws2 \<Longrightarrow> tm_stopCh m = ClosedStopCh \<Longrightarrow>
    worker_step (m, s) (m\<lparr>tm_workers := ws1 @ ws2, tm_wg := tm_wg m - 1\<rparr>, s)"

text \<open>
  The invariant: the wait group counts the goroutines, a stopped manager has none, and no duration is
  negative (\<^verbatim>\<open>time.NewTicker\<close> panics on such a one: the step \<open>first\<close> is then missing).
\<close>

definition tmanager_inv :: "'s task_manager \<Rightarrow> bool" where
  "tmanager_inv m \<longleftrightarrow>
     tm_wg m = length (tm_workers m) \<and> (tm_stopCh m = NoStopCh \<longrightarrow> tm_workers m = [])
   \<and> (\<forall>t \<in> set (tm_tasks m). 0 \<le> tk_duration t)
   \<and> (\<forall>t. RunFirst t \<in> set (tm_workers m) \<longrightarrow> 0 < tk_duration t)"

lemma tmanager_inv_new: "\<forall>t \<in> set tasks. 0 \<le> tk_duration t \<Longrightarrow> tmanager_inv (task_NewManager tasks)"
  by (simp add: tmanager_inv_def task_NewManager_def)

lemma tmanager_Start_inv [go_inv]:
  "tmanager_inv m \<Longrightarrow> tmanager_Start m = Inr m' \<Longrightarrow> tmanager_inv m'"
  by (fastforce simp: tmanager_inv_def tmanager_Start_def task_spawn_def split: if_splits)

lemma tmanager_Stop_close_inv [go_inv]:
  "tmanager_inv m \<Longrightarrow> tmanager_Stop_close m = Inr m' \<Longrightarrow> tmanager_inv m'"
  by (auto simp: tmanager_inv_def tmanager_Stop_close_def split: if_splits)

lemma tmanager_Stop_return_inv [go_inv]:
  "tmanager_inv m \<Longrightarrow> tmanager_Stop_return m = Some m' \<Longrightarrow> tmanager_inv m'"
  by (auto simp: tmanager_inv_def tmanager_Stop_return_def split: if_splits)

lemma worker_step_inv [go_inv]:
  "worker_step c c' \<Longrightarrow> tmanager_inv (fst c) \<Longrightarrow> tmanager_inv (fst c')"
  by (induction rule: worker_step.induct) (auto simp: tmanager_inv_def)

lemma worker_steps_inv: "worker_step\<^sup>*\<^sup>* c c' \<Longrightarrow> tmanager_inv (fst c) \<Longrightarrow> tmanager_inv (fst c')"
  by (induction rule: rtranclp_induct) (auto dest: worker_step_inv)

lemma worker_step_frame:
  "worker_step c c' \<Longrightarrow> tm_stopCh (fst c') = tm_stopCh (fst c) \<and> tm_tasks (fst c') = tm_tasks (fst c)"
  by (induction rule: worker_step.induct) auto

text \<open>How much work is left before a closed manager has no goroutine.\<close>

definition worker_debt :: "'s task_manager \<Rightarrow> nat" where
  "worker_debt m = sum_list (map (\<lambda>w. case w of RunFirst _ \<Rightarrow> 2 | _ \<Rightarrow> 1) (tm_workers m))"

lemma worker_can_finish:
  assumes "tmanager_inv m" "tm_stopCh m = ClosedStopCh" "tm_wg m \<noteq> 0"
  shows "\<exists>m' s'. worker_step (m, s) (m', s') \<and> worker_debt m' < worker_debt m"
proof -
  obtain w ws where ws: "tm_workers m = [] @ w # ws"
    using assms by (cases "tm_workers m") (auto simp: tmanager_inv_def)
  show ?thesis
  proof (cases w)
    case (RunOnce t)
    show ?thesis
      by (intro exI conjI, rule worker_step.once [OF ws [unfolded RunOnce]])
        (simp add: worker_debt_def ws RunOnce)
  next
    case (RunFirst t)
    have "0 < tk_duration t" using assms(1) ws RunFirst by (simp add: tmanager_inv_def)
    from worker_step.first [OF ws [unfolded RunFirst] this] show ?thesis
      by (intro exI conjI) (assumption, simp add: worker_debt_def ws RunFirst)
  next
    case (Selecting t)
    show ?thesis
      by (intro exI conjI, rule worker_step.stopped [OF ws [unfolded Selecting] assms(2)])
        (simp add: worker_debt_def ws Selecting)
  qed
qed

interpretation tp: worker_pool worker_step
  "\<lambda>c. tmanager_inv (fst c) \<and> tm_stopCh (fst c) = ClosedStopCh \<and> tm_tasks (fst c) = ts"
  "\<lambda>c. tm_wg (fst c) = 0" "\<lambda>c. worker_debt (fst c)" for ts
proof
  fix c :: "'s task_manager \<times> 's" and ts
  assume ok: "tmanager_inv (fst c) \<and> tm_stopCh (fst c) = ClosedStopCh \<and> tm_tasks (fst c) = ts"
    and busy: "tm_wg (fst c) \<noteq> 0"
  obtain m' s' where step: "worker_step c (m', s')" and debt: "worker_debt m' < worker_debt (fst c)"
    using worker_can_finish [of "fst c" "snd c"] ok busy by auto
  moreover have "tmanager_inv m' \<and> tm_stopCh m' = ClosedStopCh \<and> tm_tasks m' = ts"
    using worker_step_inv [OF step] worker_step_frame [OF step] ok by simp
  ultimately show "\<exists>c'. worker_step c c' \<and> (tmanager_inv (fst c') \<and> tm_stopCh (fst c') = ClosedStopCh
      \<and> tm_tasks (fst c') = ts) \<and> worker_debt (fst c') < worker_debt (fst c)"
    by (intro exI [of _ "(m', s')"]) simp
qed

section \<open>Start and stop\<close>

text \<open>\<^verbatim>\<open>Stop\<close> as its caller sees it: the goroutines are gone when it returns.\<close>

definition tmanager_Stop :: "'s task_manager \<Rightarrow> 's task_manager result" where
  "tmanager_Stop m =
     bind_result (tmanager_Stop_close m)
       (\<lambda>m'. Inr (m'\<lparr>tm_workers := [], tm_wg := 0, tm_stopCh := NoStopCh\<rparr>))"

interpretation tm: runnable tmanager_Start tmanager_Stop
  "\<lambda>m. tm_stopCh m \<noteq> NoStopCh" tmanager_inv
  by unfold_locales
    (fastforce simp: tmanager_Start_def tmanager_Stop_def tmanager_Stop_close_def tmanager_inv_def
      task_spawn_def split: if_splits)+

text \<open>
  Stopping the task manager terminates: once \<^verbatim>\<open>Stop\<close> has closed the stop channel, the goroutines can
  always run to completion, whatever they were doing, until the wait group that \<^verbatim>\<open>Stop\<close> waits for is zero;
  \<^verbatim>\<open>Stop\<close> then returns, no goroutine is left, and the manager can be started again with the same tasks.
\<close>
theorem task_Stop_returns:
  assumes "tmanager_inv m" "tmanager_Stop_close m = Inr m1"
  shows "\<exists>m2 s2 m3. worker_step\<^sup>*\<^sup>* (m1, s) (m2, s2) \<and> tmanager_Stop_return m2 = Some m3
    \<and> tm_workers m3 = [] \<and> tm_tasks m3 = tm_tasks m \<and> \<not> isl (tmanager_Start m3)"
proof -
  have m1: "tmanager_inv m1" "tm_stopCh m1 = ClosedStopCh" "tm_tasks m1 = tm_tasks m"
    using assms tmanager_Stop_close_inv [OF assms]
    by (auto simp: tmanager_Stop_close_def split: if_splits)
  obtain m2 s2 where m2: "worker_step\<^sup>*\<^sup>* (m1, s) (m2, s2)" "tmanager_inv m2" "tm_wg m2 = 0"
      "tm_tasks m2 = tm_tasks m1"
    using tp.drains [of "(m1, s)" "tm_tasks m1"] m1 by auto
  have "tm_workers m2 = []"
    using m2(2,3) by (simp add: tmanager_inv_def)
  then show ?thesis
    using m2 m1(3)
    by (intro exI [of _ m2] exI [of _ s2] exI [of _ "m2\<lparr>tm_stopCh := NoStopCh\<rparr>"])
      (simp add: tmanager_Stop_return_def tmanager_Start_def)
qed

definition demo_task :: "nat task" where
  "demo_task = task_New (\<lambda>n. (n + 1, False)) 5 [(\<lambda>n. n < 3)]"

theorem task_Stop_returns_witness:
  "\<exists>m m1 m2 s2 m3. tmanager_Start (task_NewManager [demo_task]) = Inr m \<and> tmanager_Stop_close m = Inr m1
     \<and> worker_step\<^sup>*\<^sup>* (m1, 0) (m2, s2) \<and> tmanager_Stop_return m2 = Some m3
     \<and> tm_workers m3 = [] \<and> tm_tasks m3 = tm_tasks m \<and> \<not> isl (tmanager_Start m3)"
proof -
  obtain m where m: "tmanager_Start (task_NewManager [demo_task]) = Inr m"
    by (simp add: tmanager_Start_def task_NewManager_def)
  then have inv: "tmanager_inv m"
    by (rule tmanager_Start_inv [OF tmanager_inv_new, rotated]) (simp add: demo_task_def task_New_def)
  obtain m1 where "tmanager_Stop_close m = Inr m1"
    using m by (auto simp: tmanager_Stop_close_def tmanager_Start_def split: if_splits)
  with m task_Stop_returns [OF inv, of m1 0] show ?thesis by blast
qed

section \<open>Which runs take place\<close>

text \<open>
  The runs that the goroutines of a manager made are a list of tasks in the order of the runs. Every goroutine
  belongs to a task of the manager, and the runs made together with those that a goroutine still has to
  begin with account for every task: exactly once for a task without a duration, at least once otherwise.
\<close>

definition worker_pending :: "'s task \<Rightarrow> 's task_manager \<Rightarrow> nat" where
  "worker_pending t m =
     count_list (tm_workers m) (RunOnce (Some t)) + count_list (tm_workers m) (RunFirst t)"

definition worker_of :: "'s task list \<Rightarrow> 's worker \<Rightarrow> bool" where
  "worker_of tasks w \<longleftrightarrow>
     (\<exists>t \<in> set tasks. w = (if tk_duration t = 0 then RunOnce (Some t) else RunFirst t)
        \<or> (tk_duration t \<noteq> 0 \<and> w = Selecting t))"

definition runs_begun :: "'s task list \<Rightarrow> 's task_manager \<Rightarrow> 's task \<Rightarrow> nat" where
  "runs_begun runs m t = count_list runs t + worker_pending t m"

definition runs_account :: "'s task list \<Rightarrow> 's task list \<Rightarrow> 's task_manager \<Rightarrow> bool" where
  "runs_account tasks runs m \<longleftrightarrow>
     set runs \<subseteq> set tasks \<and> (\<forall>w \<in> set (tm_workers m). worker_of tasks w)
   \<and> (\<forall>t. count_list tasks t \<le> runs_begun runs m t)
   \<and> (\<forall>t. tk_duration t = 0 \<longrightarrow> count_list tasks t = runs_begun runs m t)"

definition run_all :: "'s task list \<Rightarrow> 's \<Rightarrow> 's" where
  "run_all runs s = foldl (\<lambda>s t. run_task (Some t) s) s runs"

lemma run_all_snoc [simp]: "run_all (runs @ [t]) s = run_task (Some t) (run_all runs s)"
  by (simp add: run_all_def)

lemma spawned_pending:
  "count_list (map task_spawn tasks) (RunOnce (Some t)) + count_list (map task_spawn tasks) (RunFirst t)
   = count_list tasks t"
  by (induction tasks) (auto simp: task_spawn_def)

lemma runs_account_start:
  assumes "tmanager_Start (task_NewManager tasks) = Inr m"
  shows "runs_account tasks [] m"
proof -
  have "tm_workers m = map task_spawn tasks"
    using assms by (auto simp: tmanager_Start_def task_NewManager_def)
  then show ?thesis
    by (auto simp: runs_account_def runs_begun_def worker_pending_def spawned_pending worker_of_def task_spawn_def)
qed

lemma runs_account_step:
  assumes "worker_step c c'" "runs_account tasks runs (fst c)" "snd c = run_all runs s0"
  shows "\<exists>runs'. runs_account tasks runs' (fst c') \<and> snd c' = run_all runs' s0"
  using assms
proof (induction rule: worker_step.induct)
  case (once m ws1 t ws2 s)
  then obtain t' where t: "t = Some t'" "t' \<in> set tasks" "tk_duration t' = 0"
    by (auto simp: runs_account_def worker_of_def split: if_splits)
  let ?m' = "m\<lparr>tm_workers := ws1 @ ws2, tm_wg := tm_wg m - 1\<rparr>"
  have "runs_begun (runs @ [t']) ?m' u = runs_begun runs m u" for u
    using once t by (simp add: runs_begun_def worker_pending_def)
  with once t show ?case
    by (intro exI [of _ "runs @ [t']"]) (simp add: runs_account_def)
next
  case (first m ws1 t ws2 s)
  then have t: "t \<in> set tasks" "worker_of tasks (Selecting t)"
    by (auto simp: runs_account_def worker_of_def split: if_splits)
  let ?m' = "m\<lparr>tm_workers := ws1 @ Selecting t # ws2\<rparr>"
  have "runs_begun (runs @ [t]) ?m' u = runs_begun runs m u" for u
    using first by (simp add: runs_begun_def worker_pending_def)
  with first t show ?case
    by (intro exI [of _ "runs @ [t]"]) (simp add: runs_account_def)
next
  case (tick m ws1 t ws2 s)
  then have t: "t \<in> set tasks" "tk_duration t \<noteq> 0"
    by (auto simp: runs_account_def worker_of_def split: if_splits)
  with tick show ?case
    by (intro exI [of _ "runs @ [t]"]) (auto simp: runs_account_def runs_begun_def le_SucI)
next
  case (stopped m ws1 t ws2 s)
  let ?m' = "m\<lparr>tm_workers := ws1 @ ws2, tm_wg := tm_wg m - 1\<rparr>"
  have "runs_begun runs ?m' u = runs_begun runs m u" for u
    using stopped by (simp add: runs_begun_def worker_pending_def)
  with stopped show ?case
    by (intro exI [of _ runs]) (simp add: runs_account_def)
qed

lemma runs_account_steps:
  assumes "worker_step\<^sup>*\<^sup>* c c'" "runs_account tasks runs (fst c)" "snd c = run_all runs s0"
  shows "\<exists>runs'. runs_account tasks runs' (fst c') \<and> snd c' = run_all runs' s0"
  using assms by (induction rule: rtranclp_induct) (auto dest: runs_account_step)

text \<open>
  C9. Between the start of the manager and the return of \<^verbatim>\<open>Stop\<close> the goroutines change the application only by
  runs of the given tasks, one at a time in some order. In that order every task without a duration
  occurs exactly as often as it was given, every other task at least as often: no task is lost to a stop
  that comes early, and none that should run once runs twice.
\<close>
theorem tasks_all_run:
  assumes "tmanager_Start (task_NewManager tasks) = Inr m" "worker_step\<^sup>*\<^sup>* (m, s) (m1, s1)"
    and "tmanager_Stop_close m1 = Inr m2" "worker_step\<^sup>*\<^sup>* (m2, s1) (m3, s3)"
    and "\<forall>t \<in> set tasks. 0 \<le> tk_duration t" "tmanager_Stop_return m3 = Some m4"
  shows "\<exists>runs. s3 = run_all runs s \<and> set runs = set tasks
     \<and> (\<forall>t. count_list tasks t \<le> count_list runs t)
     \<and> (\<forall>t. tk_duration t = 0 \<longrightarrow> count_list runs t = count_list tasks t)"
proof -
  obtain runs1 where r1: "runs_account tasks runs1 m1" "s1 = run_all runs1 s"
    using runs_account_steps [OF assms(2), of tasks "[]" s] runs_account_start [OF assms(1)]
    by (auto simp: run_all_def)
  have "runs_account tasks runs1 m2"
    using r1(1) assms(3)
    by (auto simp: tmanager_Stop_close_def runs_account_def runs_begun_def worker_pending_def split: if_splits)
  then obtain runs where r: "runs_account tasks runs m3" "s3 = run_all runs s"
    using runs_account_steps [OF assms(4), of tasks runs1 s] r1(2) by auto
  have "tmanager_inv m3"
    using worker_steps_inv [OF assms(4)] tmanager_Stop_close_inv [OF _ assms(3)]
      worker_steps_inv [OF assms(2)] tmanager_Start_inv [OF tmanager_inv_new [OF assms(5)] assms(1)]
    by simp
  then have "tm_workers m3 = []"
    using assms(6) by (auto simp: tmanager_inv_def tmanager_Stop_return_def split: if_splits)
  then have none: "runs_begun runs m3 t = count_list runs t" for t
    by (simp add: runs_begun_def worker_pending_def)
  have "set tasks \<subseteq> set runs"
    using r(1) by (auto simp: runs_account_def none) (metis count_list_0_iff le_zero_eq)
  with r none show ?thesis by (auto simp: runs_account_def)
qed


definition demo_once :: "nat task" where
  "demo_once = task_New (\<lambda>n. (n + 1, True)) 0 []"

theorem tasks_all_run_witness:
  "\<exists>runs. (2::nat) = run_all runs 0 \<and> set runs = {demo_once, demo_task} \<and> count_list runs demo_once = 1"
proof -
  have d: "tk_duration demo_once = 0" "tk_duration demo_task = 5"
    by (simp_all add: demo_once_def demo_task_def task_New_def)
  then have ne: "demo_task \<noteq> demo_once" by auto
  define m where "m = \<lparr>tm_tasks = [demo_once, demo_task], tm_stopCh = OpenStopCh, tm_wg = 2,
    tm_workers = [RunOnce (Some demo_once), RunFirst demo_task]\<rparr>"
  define m2 where "m2 = m\<lparr>tm_stopCh := ClosedStopCh\<rparr>"
  define m3 where "m3 = m2\<lparr>tm_workers := [], tm_wg := 0\<rparr>"
  have start: "tmanager_Start (task_NewManager [demo_once, demo_task]) = Inr m"
    by (simp add: tmanager_Start_def task_NewManager_def task_spawn_def d m_def)
  have close: "tmanager_Stop_close m = Inr m2" by (simp add: tmanager_Stop_close_def m_def m2_def)
  have s1: "worker_step (m2, 0) (m2\<lparr>tm_workers := [RunFirst demo_task], tm_wg := 1\<rparr>, 1)"
    using worker_step.once [of m2 "[]" "Some demo_once" "[RunFirst demo_task]" 0]
    by (simp add: m2_def m_def run_task_def task_run_def task_vote_def demo_once_def task_New_def)
  have s2: "worker_step (m2\<lparr>tm_workers := [RunFirst demo_task], tm_wg := 1\<rparr>, 1)
      (m2\<lparr>tm_workers := [Selecting demo_task], tm_wg := 1\<rparr>, 2)"
    using worker_step.first [of "m2\<lparr>tm_workers := [RunFirst demo_task], tm_wg := 1\<rparr>" "[]" demo_task "[]" 1]
    by (simp add: d run_task_def task_run_def task_vote_def m2_def m_def) (simp add: demo_task_def task_New_def numeral_2_eq_2)
  have s3: "worker_step (m2\<lparr>tm_workers := [Selecting demo_task], tm_wg := 1\<rparr>, 2) (m3, 2)"
    using worker_step.stopped [of "m2\<lparr>tm_workers := [Selecting demo_task], tm_wg := 1\<rparr>" "[]" demo_task "[]" 2]
    by (simp add: m2_def m3_def)
  have run: "worker_step\<^sup>*\<^sup>* (m2, 0) (m3, 2)" using s1 s2 s3 by (meson converse_rtranclp_into_rtranclp rtranclp.rtrancl_refl)
  show ?thesis
    using tasks_all_run [OF start rtranclp.rtrancl_refl close run, of "m3\<lparr>tm_stopCh := NoStopCh\<rparr>"] d ne
    by (auto simp: tmanager_Stop_return_def m3_def)
qed

end
