(* ===== verification/Listener.thy ===== *)
theory Listener
  imports Events Tasks
begin

text \<open>
  The event listener of \<^verbatim>\<open>src/event/listener.go\<close>: handlers that subscribe to the event manager and process
  their events in goroutines until the listener is stopped. The listener shares the event manager with
  the rest of the application, so its operations act on both.
\<close>

section \<open>Handlers and listener\<close>

record ('x, 's) handler =
  hd_processor :: "'x event \<Rightarrow> 's \<Rightarrow> 's \<times> bool"   \<comment> \<open>the state afterwards and whether it panicked\<close>
  hd_subID :: string
  hd_buffer :: nat
  hd_filters :: "'x filter_fn list"
  hd_eventCh :: nat

definition NewHandler ::
  "('x event \<Rightarrow> 's \<Rightarrow> 's \<times> bool) \<Rightarrow> string \<Rightarrow> nat \<Rightarrow> 'x filter_fn list \<Rightarrow> ('x, 's) handler" where
  "NewHandler processor subID buffer filters =
     \<lparr>hd_processor = processor, hd_subID = subID, hd_buffer = buffer, hd_filters = filters,
      hd_eventCh = 0\<rparr>"

record ('x, 's) listener =
  ls_handlers :: "('x, 's) handler list"
  ls_closeCh :: stop_chan
  ls_wg :: nat
  ls_workers :: "('x, 's) handler list"

definition NewListener :: "('x, 's) handler list \<Rightarrow> ('x, 's) listener" where
  "NewListener handlers =
     \<lparr>ls_handlers = handlers, ls_closeCh = NoStopCh, ls_wg = 0, ls_workers = []\<rparr>"

text \<open>The loop of \<^verbatim>\<open>Start\<close>: each handler subscribes and gets its channel.\<close>

fun subscribe_handlers ::
  "('x, 's) handler list \<Rightarrow> 'x manager \<Rightarrow> ('x, 's) handler list \<times> 'x manager" where
  "subscribe_handlers [] m = ([], m)"
| "subscribe_handlers (h # hs) m =
     (let (ch, m1) = manager_Subscribe (hd_subID h) (hd_buffer h) (hd_filters h) m;
          (hs', m2) = subscribe_handlers hs m1
      in (h\<lparr>hd_eventCh := ch\<rparr> # hs', m2))"

definition listener_Start ::
  "('x, 's) listener \<times> 'x manager \<Rightarrow> (('x, 's) listener \<times> 'x manager) result" where
  "listener_Start lm =
     (let (l, m) = lm
      in if ls_closeCh l \<noteq> NoStopCh then Inl (Errorf ''listener: already started'')
         else let (hs, m') = subscribe_handlers (ls_handlers l) m
              in Inr (l\<lparr>ls_handlers := hs, ls_closeCh := OpenStopCh,
                        ls_wg := ls_wg l + length hs, ls_workers := ls_workers l @ hs\<rparr>, m'))"

text \<open>\<^verbatim>\<open>doProcess\<close> recovers a panic of the processor.\<close>

definition doProcess :: "('x event \<Rightarrow> 's \<Rightarrow> 's \<times> bool) \<Rightarrow> 'x event \<Rightarrow> 's \<Rightarrow> 's" where
  "doProcess processor e s = fst (processor e s)"

text \<open>The steps of the goroutines: \<^verbatim>\<open>startHandler\<close>.\<close>

inductive handler_step ::
  "('x, 's) listener \<times> 'x manager \<times> 's \<Rightarrow> ('x, 's) listener \<times> 'x manager \<times> 's \<Rightarrow> bool" where
  process: "h \<in> set (ls_workers l) \<Longrightarrow> chan_recv (hd_eventCh h) (em_heap m) = (Received e, hp) \<Longrightarrow>
    handler_step (l, m, s) (l, m\<lparr>em_heap := hp\<rparr>, doProcess (hd_processor h) e s)"
| closed: "ls_workers l = ws1 @ h # ws2 \<Longrightarrow> chan_recv (hd_eventCh h) (em_heap m) = (Closed, hp) \<Longrightarrow>
    handler_step (l, m, s) (l\<lparr>ls_workers := ws1 @ ws2, ls_wg := ls_wg l - 1\<rparr>, m, s)"
| stop: "ls_workers l = ws1 @ h # ws2 \<Longrightarrow> ls_closeCh l = ClosedStopCh \<Longrightarrow>
    handler_step (l, m, s) (l\<lparr>ls_workers := ws1 @ ws2, ls_wg := ls_wg l - 1\<rparr>, m, s)"

text \<open>\<^verbatim>\<open>Stop\<close>: close, wait for the goroutines, unsubscribe every handler, forget the channel.\<close>

definition listener_Stop_close :: "('x, 's) listener \<Rightarrow> ('x, 's) listener result" where
  "listener_Stop_close l =
     (if ls_closeCh l = NoStopCh then Inl (Errorf ''listener: already stopped'')
      else Inr (l\<lparr>ls_closeCh := ClosedStopCh\<rparr>))"

fun unsubscribe_all :: "string list \<Rightarrow> 'x manager \<Rightarrow> 'x manager option" where
  "unsubscribe_all [] m = Some m"
| "unsubscribe_all (x # xs) m = Option.bind (manager_Unsubscribe x m) (unsubscribe_all xs)"

definition listener_Stop_return ::
  "('x, 's) listener \<Rightarrow> 'x manager \<Rightarrow> (('x, 's) listener \<times> 'x manager) option" where
  "listener_Stop_return l m =
     (if ls_wg l = 0
      then map_option (Pair (l\<lparr>ls_closeCh := NoStopCh\<rparr>))
             (unsubscribe_all (map hd_subID (ls_handlers l)) m)
      else None)"

section \<open>The invariant\<close>

definition listener_inv :: "('x, 's) listener \<times> 'x manager \<Rightarrow> bool" where
  "listener_inv lm \<longleftrightarrow>
     (let (l, m) = lm
      in manager_inv m \<and> ls_wg l = length (ls_workers l)
       \<and> (ls_closeCh l = NoStopCh \<longrightarrow> ls_workers l = []))"

lemma subscribe_handlers_inv:
  "manager_inv m \<Longrightarrow> manager_inv (snd (subscribe_handlers hs m))"
proof (induction hs arbitrary: m)
  case Nil
  then show ?case by simp
next
  case (Cons h hs)
  then show ?case
    using manager_Subscribe_inv [OF Cons.prems, of "hd_subID h" "hd_buffer h" "hd_filters h"]
    by (simp add: case_prod_unfold Let_def)
qed

lemma subscribe_handlers_length [simp]: "length (fst (subscribe_handlers hs m)) = length hs"
  by (induction hs arbitrary: m) (simp_all add: case_prod_unfold Let_def)

lemma subscribe_handlers_subIDs [simp]:
  "map hd_subID (fst (subscribe_handlers hs m)) = map hd_subID hs"
  by (induction hs arbitrary: m) (simp_all add: case_prod_unfold Let_def)

lemma manager_Subscribe_lookup:
  "map_of (em_subscriptions (snd (manager_Subscribe x n fs m))) y \<noteq> None
   \<longleftrightarrow> y = x \<or> map_of (em_subscriptions m) y \<noteq> None"
  by (auto simp: manager_Subscribe_def case_prod_unfold split: option.splits)

lemma subscribe_handlers_lookup:
  "map_of (em_subscriptions (snd (subscribe_handlers hs m))) y \<noteq> None
   \<longleftrightarrow> y \<in> hd_subID ` set hs \<or> map_of (em_subscriptions m) y \<noteq> None"
proof (induction hs arbitrary: m)
  case Nil
  then show ?case by simp
next
  case (Cons h hs)
  then show ?case
    using manager_Subscribe_lookup [of "hd_subID h" "hd_buffer h" "hd_filters h" m y]
    by (auto simp: case_prod_unfold Let_def)
qed

lemma manager_Unsubscribe_lookup:
  assumes "manager_Unsubscribe x m = Some m'"
  shows "map_of (em_subscriptions m') y = (if y = x then None else map_of (em_subscriptions m) y)"
  using assms by (auto simp: manager_Unsubscribe_def split: option.splits)

lemma unsubscribe_all_ok:
  assumes "manager_inv m"
  shows "\<exists>m'. unsubscribe_all xs m = Some m' \<and> manager_inv m' \<and>
    (\<forall>y. map_of (em_subscriptions m') y
       = (if y \<in> set xs then None else map_of (em_subscriptions m) y))"
  using assms
proof (induction xs arbitrary: m)
  case Nil
  then show ?case by simp
next
  case (Cons x xs)
  obtain m1 where m1: "manager_Unsubscribe x m = Some m1" "manager_inv m1"
    using manager_Unsubscribe_ok [OF Cons.prems] by blast
  with Cons.IH [OF m1(2)] manager_Unsubscribe_lookup [OF m1(1)] show ?case by auto
qed

lemma listener_Start_fresh:
  assumes "ls_closeCh l = NoStopCh"
  shows "listener_Start (l, m) =
    (let r = subscribe_handlers (ls_handlers l) m
     in Inr (l\<lparr>ls_handlers := fst r, ls_closeCh := OpenStopCh,
               ls_wg := ls_wg l + length (fst r), ls_workers := ls_workers l @ fst r\<rparr>, snd r))"
  using assms by (simp add: listener_Start_def case_prod_unfold Let_def)

lemma listener_Start_inv [go_inv]:
  assumes "listener_inv lm" "listener_Start lm = Inr lm'"
  shows "listener_inv lm'"
  using assms subscribe_handlers_inv [of "snd lm" "ls_handlers (fst lm)"]
  by (auto simp: listener_inv_def listener_Start_def case_prod_unfold Let_def split: if_splits)

lemma manager_inv_recv:
  assumes "manager_inv m" "chan_recv i (em_heap m) = (r, hp)"
  shows "manager_inv (m\<lparr>em_heap := hp\<rparr>)"
  using assms
  by (auto simp: manager_inv_def bus_ok_def chan_recv_def Let_def split: list.splits if_splits)

lemma handler_step_inv [go_inv]:
  assumes "handler_step (l, m, s) (l', m', s')" "listener_inv (l, m)"
  shows "listener_inv (l', m') \<and> ls_closeCh l' = ls_closeCh l
    \<and> ls_handlers l' = ls_handlers l \<and> em_subscriptions m' = em_subscriptions m"
  using assms
  by (cases rule: handler_step.cases) (auto simp: listener_inv_def dest: manager_inv_recv)

lemma listener_drains:
  assumes "listener_inv (l, m)" "ls_closeCh l = ClosedStopCh"
  shows "handler_step\<^sup>*\<^sup>* (l, m, s) (l\<lparr>ls_workers := [], ls_wg := 0\<rparr>, m, s)"
  using assms
proof (induction "ls_workers l" arbitrary: l)
  case Nil
  then have "l\<lparr>ls_workers := [], ls_wg := 0\<rparr> = l" by (simp add: listener_inv_def)
  then show ?case by simp
next
  case (Cons h ws)
  let ?l = "l\<lparr>ls_workers := ws, ls_wg := ls_wg l - 1\<rparr>"
  have "handler_step (l, m, s) (?l, m, s)"
    using handler_step.stop [of l "[]" h ws m s] Cons.hyps(2) [symmetric] Cons.prems(2) by simp
  moreover have "handler_step\<^sup>*\<^sup>* (?l, m, s) (?l\<lparr>ls_workers := [], ls_wg := 0\<rparr>, m, s)"
    using Cons.hyps(1) [of ?l] Cons.hyps(2) [symmetric] Cons.prems by (simp add: listener_inv_def)
  ultimately show ?case by (simp add: converse_rtranclp_into_rtranclp)
qed

section \<open>Start and stop\<close>

definition listener_Stop ::
  "('x, 's) listener \<times> 'x manager \<Rightarrow> (('x, 's) listener \<times> 'x manager) result" where
  "listener_Stop lm =
     (let (l, m) = lm
      in bind_result (listener_Stop_close l)
           (\<lambda>l1. case listener_Stop_return (l1\<lparr>ls_workers := [], ls_wg := 0\<rparr>) m of
                   Some lm' \<Rightarrow> Inr lm'
                 | None \<Rightarrow> Inl (Errorf ''panic'')))"

interpretation ls: runnable listener_Start listener_Stop
  "\<lambda>lm. ls_closeCh (fst lm) \<noteq> NoStopCh" listener_inv
proof
  fix lm :: "('x, 's) listener \<times> 'x manager"
  assume inv: "listener_inv lm"
  show "isl (listener_Start lm)" if "ls_closeCh (fst lm) \<noteq> NoStopCh"
    using that by (simp add: listener_Start_def case_prod_unfold)
  show "\<exists>lm'. listener_Start lm = Inr lm' \<and> ls_closeCh (fst lm') \<noteq> NoStopCh \<and> listener_inv lm'"
    if "\<not> ls_closeCh (fst lm) \<noteq> NoStopCh"
  proof -
    have "\<exists>lm'. listener_Start lm = Inr lm' \<and> ls_closeCh (fst lm') \<noteq> NoStopCh"
      using that by (cases lm) (simp add: listener_Start_fresh Let_def)
    with listener_Start_inv [OF inv] show ?thesis by blast
  qed
  show "isl (listener_Stop lm)" if "\<not> ls_closeCh (fst lm) \<noteq> NoStopCh"
    using that by (simp add: listener_Stop_def listener_Stop_close_def case_prod_unfold)
  show "\<exists>lm'. listener_Stop lm = Inr lm' \<and> \<not> ls_closeCh (fst lm') \<noteq> NoStopCh \<and> listener_inv lm'"
    if "ls_closeCh (fst lm) \<noteq> NoStopCh"
  proof -
    have "manager_inv (snd lm)" using inv by (simp add: listener_inv_def case_prod_unfold)
    from unsubscribe_all_ok [OF this, of "map hd_subID (ls_handlers (fst lm))"]
    obtain m' where "unsubscribe_all (map hd_subID (ls_handlers (fst lm))) (snd lm) = Some m'"
      "manager_inv m'" by blast
    then show ?thesis
      using that
      by (simp add: listener_Stop_def listener_Stop_close_def listener_Stop_return_def
          case_prod_unfold listener_inv_def)
  qed
qed

section \<open>Properties\<close>

text \<open>
  Stopping a listener returns and cleans up: after \<^verbatim>\<open>Stop\<close> has closed the listener's channel, its
  goroutines can all finish; \<^verbatim>\<open>Stop\<close> then unsubscribes every handler without a panic, every other
  subscription of the event manager is kept as it was, and the listener can be started again.
\<close>
theorem listener_Stop_cleans_up:
  assumes "listener_inv (l, m)" "listener_Stop_close l = Inr l1"
  shows "\<exists>l2 l3 m3. handler_step\<^sup>*\<^sup>* (l1, m, s) (l2, m, s) \<and> listener_Stop_return l2 m = Some (l3, m3)
    \<and> ls_workers l3 = []
    \<and> (\<forall>y. map_of (em_subscriptions m3) y =
         (if y \<in> hd_subID ` set (ls_handlers l) then None else map_of (em_subscriptions m) y))
    \<and> \<not> isl (listener_Start (l3, m3))"
proof -
  have l1: "l1 = l\<lparr>ls_closeCh := ClosedStopCh\<rparr>" "listener_inv (l1, m)"
    using assms by (auto simp: listener_Stop_close_def listener_inv_def split: if_splits)
  let ?l2 = "l1\<lparr>ls_workers := [], ls_wg := 0\<rparr>"
  have run: "handler_step\<^sup>*\<^sup>* (l1, m, s) (?l2, m, s)"
    using l1 by (intro listener_drains) simp_all
  have "manager_inv m" using assms(1) by (simp add: listener_inv_def)
  from unsubscribe_all_ok [OF this, of "map hd_subID (ls_handlers l)"]
  obtain m3 where m3: "unsubscribe_all (map hd_subID (ls_handlers l)) m = Some m3"
    "\<forall>y. map_of (em_subscriptions m3) y
       = (if y \<in> set (map hd_subID (ls_handlers l)) then None else map_of (em_subscriptions m) y)"
    by blast
  have "listener_Stop_return ?l2 m = Some (?l2\<lparr>ls_closeCh := NoStopCh\<rparr>, m3)"
    using m3(1) by (simp add: listener_Stop_return_def l1(1))
  with run m3(2) show ?thesis
    by (intro exI [of _ ?l2] exI [of _ "?l2\<lparr>ls_closeCh := NoStopCh\<rparr>"] exI [of _ m3])
      (simp add: listener_Start_fresh Let_def)
qed

theorem listener_Stop_cleans_up_witness:
  "\<exists>l m l1 l2 l3 m3.
     listener_Start (NewListener [NewHandler (\<lambda>_ n. (n + 1, False)) ''vm'' 2 []], demo_manager) = Inr (l, m)
   \<and> listener_Stop_close l = Inr l1
   \<and> handler_step\<^sup>*\<^sup>* (l1, m, 0::nat) (l2, m, 0) \<and> listener_Stop_return l2 m = Some (l3, m3)
   \<and> ls_workers l3 = []
   \<and> (\<forall>y. map_of (em_subscriptions m3) y =
        (if y \<in> hd_subID ` set (ls_handlers l) then None else map_of (em_subscriptions m) y))
   \<and> \<not> isl (listener_Start (l3, m3))"
proof -
  let ?l0 = "NewListener [NewHandler (\<lambda>_ n. (n + 1, False)) ''vm'' 2 []] :: (unit, nat) listener"
  have "manager_inv demo_manager"
    unfolding demo_manager_def by (intro manager_Subscribe_inv manager_inv_new)
  then have inv0: "listener_inv (?l0, demo_manager)"
    by (simp add: listener_inv_def NewListener_def)
  obtain l m where lm: "listener_Start (?l0, demo_manager) = Inr (l, m)"
    by (auto simp: listener_Start_fresh NewListener_def Let_def)
  have inv: "listener_inv (l, m)" using listener_Start_inv [OF inv0 lm] .
  obtain l1 where l1: "listener_Stop_close l = Inr l1"
    using lm by (auto simp: listener_Stop_close_def listener_Start_fresh NewListener_def Let_def)
  from listener_Stop_cleans_up [OF inv l1, of 0] lm l1 show ?thesis by blast
qed

end
