(* ===== verification/Go_Actions.thy ===== *)
theory Go_Actions
  imports Go_Prelude
begin

text \<open>
  Methods that act on a shared state and may return an error. An action maps the state to the result
  and the state afterwards; \<open>None\<close> is an action that never returns, e.g. because it waits for a lock
  that its own goroutine holds. A small calculus of pre- and postconditions carries the proofs of the
  components that are written with actions.
\<close>

section \<open>Actions\<close>

type_synonym ('w, 'a) act = "'w \<Rightarrow> ('a result \<times> 'w) option"

definition act_return :: "'a \<Rightarrow> ('w, 'a) act" where
  "act_return x w = Some (Inr x, w)"

definition act_fail :: "go_error \<Rightarrow> ('w, 'a) act" where
  "act_fail e w = Some (Inl e, w)"

text \<open>Sequencing, with the early return on an error.\<close>

definition act_bind :: "('w, 'a) act \<Rightarrow> ('a \<Rightarrow> ('w, 'b) act) \<Rightarrow> ('w, 'b) act" where
  "act_bind m f w =
     (case m w of
        None \<Rightarrow> None
      | Some (Inl e, w') \<Rightarrow> Some (Inl e, w')
      | Some (Inr x, w') \<Rightarrow> f x w')"

definition act_get :: "('w \<Rightarrow> 'a) \<Rightarrow> ('w, 'a) act" where
  "act_get f w = Some (Inr (f w), w)"

definition act_modify :: "('w \<Rightarrow> 'w) \<Rightarrow> ('w, unit) act" where
  "act_modify f w = Some (Inr (), f w)"

definition act_result :: "'a result \<Rightarrow> ('w, 'a) act" where
  "act_result r w = Some (r, w)"

text \<open>\<^verbatim>\<open>if err != nil { return ..., fmt.Errorf("s: %w", err) }\<close>\<close>

definition act_wrap :: "string \<Rightarrow> ('w, 'a) act \<Rightarrow> ('w, 'a) act" where
  "act_wrap s m w = map_option (\<lambda>(r, w'). (wrap_err s r, w')) (m w)"

text \<open>\<^verbatim>\<open>fmt.Errorf\<close> with the text of the error after \<open>s\<close>.\<close>

definition act_errorf :: "string \<Rightarrow> ('w, 'a) act \<Rightarrow> ('w, 'a) act" where
  "act_errorf s m w =
     map_option (\<lambda>(r, w'). ((case r of Inl e \<Rightarrow> Inl (Errorf (s @ Error e)) | Inr x \<Rightarrow> Inr x), w')) (m w)"

text \<open>An error that the code looks at instead of returning it.\<close>

definition act_try :: "('w, 'a) act \<Rightarrow> ('w, 'a result) act" where
  "act_try m w = map_option (\<lambda>(r, w'). (Inr r, w')) (m w)"

text \<open>\<^verbatim>\<open>for _, x := range xs { ... }\<close> whose body may return an error.\<close>

fun act_for :: "'a list \<Rightarrow> ('a \<Rightarrow> ('w, unit) act) \<Rightarrow> ('w, unit) act" where
  "act_for [] f = act_return ()"
| "act_for (x # xs) f = act_bind (f x) (\<lambda>_. act_for xs f)"

fun act_map :: "'a list \<Rightarrow> ('a \<Rightarrow> ('w, 'b) act) \<Rightarrow> ('w, 'b list) act" where
  "act_map [] f = act_return []"
| "act_map (x # xs) f = act_bind (f x) (\<lambda>y. act_bind (act_map xs f) (\<lambda>ys. act_return (y # ys)))"

lemma act_simps [simp]:
  "act_return x w = Some (Inr x, w)"
  "act_fail e w = Some (Inl e, w)"
  "act_get f w = Some (Inr (f w), w)"
  "act_modify g w = Some (Inr (), g w)"
  "act_result r w = Some (r, w)"
  by (simp_all add: act_return_def act_fail_def act_get_def act_modify_def act_result_def)

lemma act_bind_simps [simp]:
  "m w = None \<Longrightarrow> act_bind m f w = None"
  "m w = Some (Inl e, w') \<Longrightarrow> act_bind m f w = Some (Inl e, w')"
  "m w = Some (Inr x, w') \<Longrightarrow> act_bind m f w = f x w'"
  by (simp_all add: act_bind_def)

lemma act_bind_return_eq [simp]: "act_bind (act_return x) f = f x"
  by (rule ext) (simp add: act_bind_def)

text \<open>What went before an action that has returned a value.\<close>

lemma act_bind_InrE:
  assumes "act_bind m f w = Some (Inr y, w')"
  obtains x w1 where "m w = Some (Inr x, w1)" "f x w1 = Some (Inr y, w')"
  using assms by (auto simp: act_bind_def split: option.splits sum.splits prod.splits)

lemma act_bind_assoc: "act_bind (act_bind m f) g = act_bind m (\<lambda>x. act_bind (f x) g)"
  by (rule ext) (simp add: act_bind_def split: option.splits sum.splits)

lemma act_wrap_Inr [simp]: "act_wrap s m w = Some (Inr x, w') \<longleftrightarrow> m w = Some (Inr x, w')"
  by (cases "m w") (auto simp: act_wrap_def wrap_err_def split: sum.splits)

lemma act_result_Inr [simp]: "act_result r w = Some (Inr x, w') \<longleftrightarrow> r = Inr x \<and> w' = w"
  by (auto simp: act_result_def)

lemma act_wrap_simps [simp]:
  "m w = None \<Longrightarrow> act_wrap s m w = None"
  "m w = Some (r, w') \<Longrightarrow> act_wrap s m w = Some (wrap_err s r, w')"
  by (simp_all add: act_wrap_def)

lemma act_errorf_simps [simp]:
  "m w = None \<Longrightarrow> act_errorf s m w = None"
  "m w = Some (Inr x, w') \<Longrightarrow> act_errorf s m w = Some (Inr x, w')"
  "m w = Some (Inl e, w') \<Longrightarrow> act_errorf s m w = Some (Inl (Errorf (s @ Error e)), w')"
  by (simp_all add: act_errorf_def)

lemma act_try_simps [simp]:
  "m w = None \<Longrightarrow> act_try m w = None"
  "m w = Some (r, w') \<Longrightarrow> act_try m w = Some (Inr r, w')"
  by (simp_all add: act_try_def)

text \<open>A computation that may panic, and an action as the processor of a message: the state it leaves, and its result.\<close>

definition act_option :: "'a option \<Rightarrow> ('w, 'a) act" where
  "act_option x w = (case x of None \<Rightarrow> None | Some y \<Rightarrow> Some (Inr y, w))"

definition act_processor :: "('m \<Rightarrow> ('w, 'a) act) \<Rightarrow> 'm \<Rightarrow> 'w \<Rightarrow> 'w \<times> 'a result option" where
  "act_processor f msg w = (case f msg w of None \<Rightarrow> (w, None) | Some (r, w') \<Rightarrow> (w', Some r))"

lemma act_option_simps [simp]:
  "act_option None w = None"
  "act_option (Some y) w = Some (Inr y, w)"
  by (simp_all add: act_option_def)

section \<open>Pre- and postconditions\<close>

text \<open>From a state with \<open>P\<close>, the action returns, with a result and a state that satisfy \<open>Q\<close>.\<close>

definition act_total :: "('w \<Rightarrow> bool) \<Rightarrow> ('w, 'a) act \<Rightarrow> ('a result \<Rightarrow> 'w \<Rightarrow> bool) \<Rightarrow> bool" where
  "act_total P m Q \<longleftrightarrow> (\<forall>w. P w \<longrightarrow> (\<exists>r w'. m w = Some (r, w') \<and> Q r w'))"

text \<open>It returns without an error, with a value and a state that satisfy \<open>Q\<close>.\<close>

definition act_succeeds :: "('w \<Rightarrow> bool) \<Rightarrow> ('w, 'a) act \<Rightarrow> ('a \<Rightarrow> 'w \<Rightarrow> bool) \<Rightarrow> bool" where
  "act_succeeds P m Q \<longleftrightarrow> (\<forall>w. P w \<longrightarrow> (\<exists>x w'. m w = Some (Inr x, w') \<and> Q x w'))"

text \<open>If it returns at all, the state afterwards satisfies \<open>I\<close> again.\<close>

definition act_keeps :: "('w \<Rightarrow> bool) \<Rightarrow> ('w, 'a) act \<Rightarrow> bool" where
  "act_keeps I m \<longleftrightarrow> (\<forall>w r w'. I w \<longrightarrow> m w = Some (r, w') \<longrightarrow> I w')"

named_theorems act_keeps_rules \<open>what keeps an invariant\<close>

lemma act_keepsI: "(\<And>w r w'. I w \<Longrightarrow> m w = Some (r, w') \<Longrightarrow> I w') \<Longrightarrow> act_keeps I m"
  by (simp add: act_keeps_def)

lemma act_keepsD: "act_keeps I m \<Longrightarrow> I w \<Longrightarrow> m w = Some (r, w') \<Longrightarrow> I w'"
  by (auto simp: act_keeps_def)

lemma act_keeps_basic [act_keeps_rules]:
  "act_keeps I (act_return x)" "act_keeps I (act_fail e)" "act_keeps I (act_get f)"
  "act_keeps I (act_result r)"
  by (auto simp: act_keeps_def)

lemma act_keeps_modify: "(\<And>w. I w \<Longrightarrow> I (f w)) \<Longrightarrow> act_keeps I (act_modify f)"
  by (auto simp: act_keeps_def)

lemma act_keeps_bind [act_keeps_rules]:
  assumes "act_keeps I m" "\<And>x. act_keeps I (f x)"
  shows "act_keeps I (act_bind m f)"
proof (rule act_keepsI)
  fix w r w'
  assume I: "I w" and run: "act_bind m f w = Some (r, w')"
  obtain r1 w1 where m: "m w = Some (r1, w1)"
    using run by (cases "m w") (auto simp: act_bind_def)
  have "I w1" using act_keepsD [OF assms(1) I m] .
  then show "I w'"
    using run m act_keepsD [OF assms(2)] by (cases r1) auto
qed

lemma act_keeps_wrap [act_keeps_rules]: "act_keeps I m \<Longrightarrow> act_keeps I (act_wrap s m)"
  by (auto simp: act_keeps_def act_wrap_def split: prod.splits)

lemma act_keeps_try [act_keeps_rules]: "act_keeps I m \<Longrightarrow> act_keeps I (act_try m)"
  by (auto simp: act_keeps_def act_try_def split: prod.splits)

lemma act_keeps_if [act_keeps_rules]:
  "act_keeps I m \<Longrightarrow> act_keeps I m' \<Longrightarrow> act_keeps I (if b then m else m')"
  by simp

lemma act_keeps_for [act_keeps_rules]: "(\<And>x. act_keeps I (f x)) \<Longrightarrow> act_keeps I (act_for xs f)"
  by (induction xs) (auto intro!: act_keeps_rules)

lemma act_keeps_map [act_keeps_rules]: "(\<And>x. act_keeps I (f x)) \<Longrightarrow> act_keeps I (act_map xs f)"
  by (induction xs) (auto intro!: act_keeps_rules)

lemma act_succeedsI:
  "(\<And>w. P w \<Longrightarrow> \<exists>x w'. m w = Some (Inr x, w') \<and> Q x w') \<Longrightarrow> act_succeeds P m Q"
  by (simp add: act_succeeds_def)

lemma act_succeedsD:
  assumes "act_succeeds P m Q" "P w"
  obtains x w' where "m w = Some (Inr x, w')" "Q x w'"
  using assms by (auto simp: act_succeeds_def)

lemma act_succeeds_bind:
  assumes "act_succeeds P m Q" "\<And>x. act_succeeds (Q x) (f x) R"
  shows "act_succeeds P (act_bind m f) R"
  using assms unfolding act_succeeds_def by (metis act_bind_simps(3))

lemma act_succeeds_wrap: "act_succeeds P m Q \<Longrightarrow> act_succeeds P (act_wrap s m) Q"
  unfolding act_succeeds_def by (metis act_wrap_simps(2) wrap_err_simps(2))

lemma act_succeeds_weaken:
  "act_succeeds P m Q \<Longrightarrow> (\<And>w. P' w \<Longrightarrow> P w) \<Longrightarrow> (\<And>x w. Q x w \<Longrightarrow> Q' x w) \<Longrightarrow> act_succeeds P' m Q'"
  unfolding act_succeeds_def by blast

text \<open>A loop with an invariant over the elements done and the elements left.\<close>

lemma act_succeeds_for:
  assumes "\<And>done x rest. act_succeeds (I done (x # rest)) (f x) (\<lambda>_. I (done @ [x]) rest)"
  shows "act_succeeds (I ys xs) (act_for xs f) (\<lambda>_. I (ys @ xs) [])"
proof (induction xs arbitrary: ys)
  case Nil
  then show ?case by (auto simp: act_succeeds_def)
next
  case (Cons x xs)
  have "act_succeeds (I (ys @ [x]) xs) (act_for xs f) (\<lambda>_. I (ys @ x # xs) [])"
    using Cons [of "ys @ [x]"] by simp
  with assms [of ys x xs] show ?case by (auto intro: act_succeeds_bind)
qed

end
