(* ===== verification/Storage.thy ===== *)
theory Storage
  imports Go_Prelude
begin

text \<open>
  The file storage of \<^verbatim>\<open>src/storage/storage.go\<close>: a model kept in a data file with a backup and optional
  defaults. The file system is a map from paths to contents, and every system call may fail as the
  fault oracle of the operating system says. JSON encoding is a parameter. A crash is a system call that does
  not succeed: every operation returns at the first one, and the oracle says what it leaves on disk.
\<close>

section \<open>The operating system\<close>

datatype node = RegFile string | Directory

datatype syscall = SMkdir | SStat | SRead | SOpen | SWrite | SSync | SClose | SRemove | SRename | SChmod

record os =
  os_files :: "string \<Rightarrow> node option"
  os_fault :: "syscall \<Rightarrow> string \<Rightarrow> go_error option"   \<comment> \<open>the error a system call returns, if any\<close>
  os_short :: "string \<Rightarrow> nat"                  \<comment> \<open>the bytes on disk when a write or a sync fails\<close>

definition os_put :: "string \<Rightarrow> string \<Rightarrow> os \<Rightarrow> os" where
  "os_put path body os = os\<lparr>os_files := (os_files os)(path := Some (RegFile body))\<rparr>"

definition os_ReadFile :: "os \<Rightarrow> string \<Rightarrow> string result" where
  "os_ReadFile os path =
     (case os_fault os SRead path of
        Some e \<Rightarrow> Inl e
      | None \<Rightarrow>
          (case os_files os path of
             Some (RegFile body) \<Rightarrow> Inr body
           | Some Directory \<Rightarrow> Inl (Errorf ''is a directory'')
           | None \<Rightarrow> Inl (Errorf ''no such file or directory'')))"

section \<open>The storage\<close>

text \<open>
  \<^verbatim>\<open>json.Unmarshal\<close> decodes into the model it is given, which it may change even when it fails.
\<close>

record 'm json =
  js_Marshal :: "'m \<Rightarrow> string result"
  js_Unmarshal :: "string \<Rightarrow> 'm \<Rightarrow> 'm \<times> go_error option"

record 'm storage =
  sg_dataPath :: string
  sg_backupPath :: string
  sg_defaultsPath :: string
  sg_model :: 'm

definition dataDirectory :: string where "dataDirectory = ''data''"
definition defaultsDirectory :: string where "defaultsDirectory = ''defaults''"
definition backupExtension :: string where "backupExtension = ''.bak''"

text \<open>\<^verbatim>\<open>filepath.Join\<close> on clean, non-empty elements.\<close>

definition filepath_Join :: "string list \<Rightarrow> string" where
  "filepath_Join elems = strings_Join ''/'' elems"

definition storage_New :: "'m \<Rightarrow> string \<Rightarrow> string \<Rightarrow> 'm storage" where
  "storage_New model workDir name =
     \<lparr>sg_dataPath = filepath_Join [workDir, dataDirectory, name],
      sg_backupPath = filepath_Join [workDir, dataDirectory, name] @ backupExtension,
      sg_defaultsPath = filepath_Join [workDir, defaultsDirectory, name], sg_model = model\<rparr>"

definition storage_NewCanonical :: "'m \<Rightarrow> string \<Rightarrow> string \<Rightarrow> string \<Rightarrow> 'm storage" where
  "storage_NewCanonical model workDir defaultsDir name =
     \<lparr>sg_dataPath = filepath_Join [workDir, name],
      sg_backupPath = filepath_Join [workDir, name] @ backupExtension,
      sg_defaultsPath = filepath_Join [defaultsDir, name], sg_model = model\<rparr>"

definition storage_NewState :: "'m \<Rightarrow> string \<Rightarrow> string \<Rightarrow> 'm storage" where
  "storage_NewState model workDir name =
     \<lparr>sg_dataPath = filepath_Join [workDir, dataDirectory, name],
      sg_backupPath = filepath_Join [workDir, dataDirectory, name] @ backupExtension,
      sg_defaultsPath = '''', sg_model = model\<rparr>"

definition storage_NewCanonicalState :: "'m \<Rightarrow> string \<Rightarrow> string \<Rightarrow> 'm storage" where
  "storage_NewCanonicalState model workDir name =
     \<lparr>sg_dataPath = filepath_Join [workDir, name],
      sg_backupPath = filepath_Join [workDir, name] @ backupExtension,
      sg_defaultsPath = '''', sg_model = model\<rparr>"

definition storage_fileExists :: "os \<Rightarrow> string \<Rightarrow> bool result" where
  "storage_fileExists os path =
     (case os_fault os SStat path of
        Some e \<Rightarrow> Inl (Wrapf (''storage: cannot verify existence of a configuration file at path '' @ path) e)
      | None \<Rightarrow>
          (case os_files os path of
             None \<Rightarrow> Inr False
           | Some Directory \<Rightarrow> Inr False
           | Some (RegFile _) \<Rightarrow> Inr True))"

text \<open>\<^verbatim>\<open>path.Dir\<close> of a clean path.\<close>

definition path_Dir :: "string \<Rightarrow> string" where
  "path_Dir path =
     (if CHR ''/'' \<in> set path then rev (tl (dropWhile (\<lambda>c. c \<noteq> CHR ''/'') (rev path))) else ''.'')"

text \<open>An operation on the storage and the operating system, with the error it returns.\<close>

type_synonym 'm storage_op = "'m storage \<Rightarrow> os \<Rightarrow> 'm storage \<times> os \<times> go_error option"

definition storage_loadFile :: "'m json \<Rightarrow> os \<Rightarrow> string \<Rightarrow> 'm storage \<Rightarrow> 'm storage \<times> go_error option" where
  "storage_loadFile js os path s =
     (case os_ReadFile os path of
        Inl e \<Rightarrow> (s, Some (Wrapf (''storage: cannot load a configuration file from path '' @ path) e))
      | Inr body \<Rightarrow>
          (case js_Unmarshal js body (sg_model s) of
             (model, None) \<Rightarrow> (s\<lparr>sg_model := model\<rparr>, None)
           | (model, Some e) \<Rightarrow>
               (s\<lparr>sg_model := model\<rparr>,
                Some (Wrapf (''storage: cannot unmarshal a configuration file from path '' @ path @
                        '' with contents '' @ body) e))))"

definition storage_writeFile :: "string \<Rightarrow> string \<Rightarrow> os \<Rightarrow> os \<times> go_error option" where
  "storage_writeFile path data os =
     (case os_fault os SOpen path of
        Some e \<Rightarrow> (os, Some e)
      | None \<Rightarrow>
          if os_files os path = Some Directory then (os, Some (Errorf ''is a directory''))
          else
            (case os_fault os SWrite path of
               Some e \<Rightarrow> (os_put path (take (os_short os path) data) os, Some e)
             | None \<Rightarrow>
                 (case os_fault os SSync path of
                    Some e \<Rightarrow> (os_put path (take (os_short os path) data) os, Some e)
                  | None \<Rightarrow> (os_put path data os, os_fault os SClose path))))"

definition storage_removeFile :: "string \<Rightarrow> os \<Rightarrow> os \<times> go_error option" where
  "storage_removeFile path os =
     (case storage_fileExists os path of
        Inl e \<Rightarrow> (os, Some e)
      | Inr False \<Rightarrow> (os, None)
      | Inr True \<Rightarrow>
          (case os_fault os SRemove path of
             Some e \<Rightarrow> (os, Some (Wrapf (''storage: failed to remove the configuration file at path '' @ path) e))
           | None \<Rightarrow> (os\<lparr>os_files := (os_files os)(path := None)\<rparr>, None)))"

definition storage_loadData :: "'m json \<Rightarrow> os \<Rightarrow> 'm storage \<Rightarrow> 'm storage \<times> go_error option" where
  "storage_loadData js os s =
     (case storage_loadFile js os (sg_dataPath s) s of
        (s1, None) \<Rightarrow> (s1, None)
      | (s1, Some err) \<Rightarrow>
          (case storage_fileExists os (sg_backupPath s) of
             Inl existsErr \<Rightarrow> (s1, Some existsErr)
           | Inr False \<Rightarrow> (s1, Some err)
           | Inr True \<Rightarrow> storage_loadFile js os (sg_backupPath s) s1))"

definition storage_load ::
  "'m json \<Rightarrow> os \<Rightarrow> bool \<Rightarrow> bool \<Rightarrow> 'm storage \<Rightarrow> 'm storage \<times> go_error option" where
  "storage_load js os defaultsExists dataExists s =
     (if \<not> dataExists \<and> \<not> defaultsExists \<and> sg_defaultsPath s = '''' then (s, None)
      else
        let (s1, err) = (if defaultsExists then storage_loadFile js os (sg_defaultsPath s) s else (s, None))
        in if err \<noteq> None then (s1, err)
           else if defaultsExists \<and> \<not> dataExists then (s1, None)
           else
             let (s2, err2) = storage_loadData js os s1
             in if err2 \<noteq> None \<and> \<not> defaultsExists then (s2, err2) else (s2, None))"

definition storage_Load :: "'m json \<Rightarrow> 'm storage_op" where
  "storage_Load js s os =
     (case storage_fileExists os (sg_dataPath s) of
        Inl e \<Rightarrow> (s, os, Some e)
      | Inr dataExists \<Rightarrow>
          (case (if sg_defaultsPath s \<noteq> '''' then storage_fileExists os (sg_defaultsPath s) else Inr False) of
             Inl e \<Rightarrow> (s, os, Some e)
           | Inr defaultsExists \<Rightarrow>
               if \<not> dataExists \<and> \<not> defaultsExists \<and> sg_defaultsPath s \<noteq> ''''
               then (s, os, Some (Errorf (''storage: no configuration files were found at paths: ''
                       @ sg_dataPath s @ '', '' @ sg_defaultsPath s)))
               else let (s', err) = storage_load js os defaultsExists dataExists s in (s', os, err)))"

definition storage_makeBackup :: "'m storage \<Rightarrow> os \<Rightarrow> os \<times> go_error option" where
  "storage_makeBackup s os =
     (case storage_fileExists os (sg_dataPath s) of
        Inl e \<Rightarrow> (os, Some e)
      | Inr False \<Rightarrow> (os, None)
      | Inr True \<Rightarrow>
          (case os_ReadFile os (sg_dataPath s) of
             Inl e \<Rightarrow> (os, Some e)
           | Inr body \<Rightarrow> storage_writeFile (sg_backupPath s) body os))"

definition storage_Save :: "'m json \<Rightarrow> 'm storage_op" where
  "storage_Save js s os =
     (case os_fault os SMkdir (path_Dir (sg_dataPath s)) of
        Some e \<Rightarrow>
          (s, os, Some (Wrapf (''storage: cannot create a configuration directory at path '' @ path_Dir (sg_dataPath s)) e))
      | None \<Rightarrow>
          (case storage_makeBackup s os of
             (os1, Some e) \<Rightarrow> (s, os1, Some (Wrapf ''storage: failed to make a configuration backup'' e))
           | (os1, None) \<Rightarrow>
               (case js_Marshal js (sg_model s) of
                  Inl e \<Rightarrow> (s, os1, Some (Wrapf (''storage: cannot marshal a configuration file at path '' @ sg_dataPath s) e))
                | Inr body \<Rightarrow>
                    (case storage_writeFile (sg_dataPath s) body os1 of
                       (os2, Some e) \<Rightarrow> (s, os2, Some (Wrapf (''storage: cannot save a configuration file at path '' @ sg_dataPath s) e))
                     | (os2, None) \<Rightarrow> (s, os2, None)))))"

definition storage_Reset :: "'m json \<Rightarrow> 'm storage_op" where
  "storage_Reset js s os =
     (case storage_fileExists os (sg_defaultsPath s) of
        Inl e \<Rightarrow> (s, os, Some e)
      | Inr defaultsExists \<Rightarrow>
          if \<not> defaultsExists \<and> sg_defaultsPath s \<noteq> ''''
          then (s, os, Some (Errorf (''storage: cannot reset as the default configuration file at path ''
                  @ sg_defaultsPath s @ '' is not found'')))
          else
            (case storage_removeFile (sg_dataPath s) os of
               (os1, Some e) \<Rightarrow> (s, os1, Some e)
             | (os1, None) \<Rightarrow>
                 (case storage_removeFile (sg_backupPath s) os1 of
                    (os2, Some e) \<Rightarrow> (s, os2, Some e)
                  | (os2, None) \<Rightarrow>
                      if sg_defaultsPath s = '''' then (s, os2, None)
                      else let (s', err) = storage_load js os2 True False s in (s', os2, err))))"

section \<open>Encoding\<close>

text \<open>
  What the storage relies on in \<^verbatim>\<open>encoding/json\<close>. A model is read and written by fields; a field is a path, and an entry of
  a map is one. A model stores some of its fields in its encoding and skips others: those with the tag \<^verbatim>\<open>json:"-"\<close>, and
  those with \<^verbatim>\<open>omitempty\<close> that are empty. Nothing is assumed of a field that it neither stores nor skips, such as a string
  that is not valid UTF-8. Decoding the encoding of \<open>m\<close> into a model sets the stored fields to those of \<open>m\<close> and leaves the
  skipped ones as they are in that model. The models are structs, so that a truncated encoding is a syntax error, on
  which the model is left alone.
\<close>

record ('m, 'f, 'v) json_fields =
  jf_get :: "'f \<Rightarrow> 'm \<Rightarrow> 'v"
  jf_stored :: "'m \<Rightarrow> 'f set"
  jf_skipped :: "'m \<Rightarrow> 'f set"

text \<open>A model after the fields that \<open>m\<close> encodes have been decoded into \<open>m0\<close>.\<close>

definition decoded :: "('m, 'f, 'v) json_fields \<Rightarrow> 'm \<Rightarrow> 'm \<Rightarrow> 'm \<Rightarrow> bool" where
  "decoded jf m m0 m' \<longleftrightarrow>
     (\<forall>f \<in> jf_stored jf m. jf_get jf f m' = jf_get jf f m) \<and> (\<forall>f \<in> jf_skipped jf m. jf_get jf f m' = jf_get jf f m0)"

definition json_ok :: "('m, 'f, 'v) json_fields \<Rightarrow> 'm json \<Rightarrow> bool" where
  "json_ok jf js \<longleftrightarrow>
     (\<forall>m body. js_Marshal js m = Inr body \<longrightarrow>
        body \<noteq> '''' \<and> (\<forall>m0. \<exists>m'. js_Unmarshal js body m0 = (m', None) \<and> decoded jf m m0 m')
      \<and> (\<forall>n m0. n < length body \<longrightarrow> (\<exists>e. js_Unmarshal js (take n body) m0 = (m0, Some e))))"

lemma json_okD:
  assumes "json_ok jf js" "js_Marshal js m = Inr body"
  shows "body \<noteq> ''''" "\<exists>m'. js_Unmarshal js body m0 = (m', None) \<and> decoded jf m m0 m'"
    "n < length body \<Longrightarrow> \<exists>e. js_Unmarshal js (take n body) m0 = (m0, Some e)"
  using assms by (auto simp: json_ok_def)

text \<open>
  The model that comes back from storage, field by field: a stored field is the saved one; a field that the saved model
  skipped comes from the defaults if they store it, and otherwise it is what it was in the model loaded into.
\<close>

definition restored :: "('m, 'f, 'v) json_fields \<Rightarrow> 'm option \<Rightarrow> 'm \<Rightarrow> 'm \<Rightarrow> 'm \<Rightarrow> bool" where
  "restored jf dflt m fresh m' \<longleftrightarrow>
     (\<forall>f \<in> jf_stored jf m. jf_get jf f m' = jf_get jf f m)
   \<and> (\<forall>f \<in> jf_skipped jf m.
        (case dflt of
           None \<Rightarrow> jf_get jf f m' = jf_get jf f fresh
         | Some d \<Rightarrow> (f \<in> jf_stored jf d \<longrightarrow> jf_get jf f m' = jf_get jf f d)
                   \<and> (f \<in> jf_skipped jf d \<longrightarrow> jf_get jf f m' = jf_get jf f fresh)))"

lemma restored_without_defaults: "decoded jf m fresh m' \<Longrightarrow> restored jf None m fresh m'"
  by (simp add: restored_def decoded_def)

lemma restored_over_defaults: "decoded jf d fresh m1 \<Longrightarrow> decoded jf m m1 m' \<Longrightarrow> restored jf (Some d) m fresh m'"
  by (simp add: restored_def decoded_def)

section \<open>Crashes\<close>

definition healthy :: "os \<Rightarrow> bool" where
  "healthy os \<longleftrightarrow> (\<forall>c p. os_fault os c p = None)"

text \<open>The files after a restart of the machine, whose system calls now succeed.\<close>

definition restarted :: "os \<Rightarrow> os" where
  "restarted os = os\<lparr>os_fault := \<lambda>_ _. None\<rparr>"

definition storage_ok :: "'m storage \<Rightarrow> os \<Rightarrow> bool" where
  "storage_ok s os \<longleftrightarrow>
     distinct [sg_dataPath s, sg_backupPath s, sg_defaultsPath s]
   \<and> os_files os (sg_dataPath s) \<noteq> Some Directory \<and> os_files os (sg_backupPath s) \<noteq> Some Directory
   \<and> os_files os '''' = None"

text \<open>A file holds a model; a file holds a truncated model.\<close>

definition holds :: "'m json \<Rightarrow> os \<Rightarrow> string \<Rightarrow> 'm \<Rightarrow> bool" where
  "holds js os path m \<longleftrightarrow> (\<exists>body. os_files os path = Some (RegFile body) \<and> js_Marshal js m = Inr body)"

definition truncated :: "'m json \<Rightarrow> os \<Rightarrow> string \<Rightarrow> bool" where
  "truncated js os path \<longleftrightarrow>
     (\<exists>m body n. js_Marshal js m = Inr body \<and> n < length body \<and> os_files os path = Some (RegFile (take n body)))"

text \<open>The defaults: none are configured, or the file holds a model.\<close>

definition defaults_hold :: "'m json \<Rightarrow> os \<Rightarrow> 'm storage \<Rightarrow> 'm option \<Rightarrow> bool" where
  "defaults_hold js os s dflt \<longleftrightarrow>
     (case dflt of None \<Rightarrow> sg_defaultsPath s = ''''
      | Some d \<Rightarrow> sg_defaultsPath s \<noteq> '''' \<and> holds js os (sg_defaultsPath s) d)"

lemma healthy_put [simp]: "healthy (os_put path body os) = healthy os"
  by (simp add: healthy_def os_put_def)

lemma os_files_put [simp]:
  "os_files (os_put path body os) p = (if p = path then Some (RegFile body) else os_files os p)"
  by (simp add: os_put_def)

lemma os_put_put [simp]: "os_put path b (os_put path a os) = os_put path b os"
  by (simp add: os_put_def)

lemma os_put_oracle [simp]: "os_fault (os_put path b os) = os_fault os" "os_short (os_put path b os) = os_short os"
  by (simp_all add: os_put_def)

lemma restarted_simps [simp]: "healthy (restarted os)" "os_files (restarted os) = os_files os"
  by (simp_all add: restarted_def healthy_def)

lemma healthy_restarted: "healthy os \<Longrightarrow> restarted os = os"
  by (cases os) (simp add: restarted_def healthy_def fun_eq_iff)

lemma holds_restarted [simp]: "holds js (restarted os) path m = holds js os path m"
  by (simp add: holds_def)

lemma truncated_restarted [simp]: "truncated js (restarted os) path = truncated js os path"
  by (simp add: truncated_def)

lemma defaults_hold_restarted [simp]: "defaults_hold js (restarted os) s dflt = defaults_hold js os s dflt"
  by (simp add: defaults_hold_def split: option.split)

lemma defaults_hold_model [simp]: "defaults_hold js os (s\<lparr>sg_model := m\<rparr>) dflt = defaults_hold js os s dflt"
  by (simp add: defaults_hold_def split: option.split)

lemma storage_fileExists_healthy:
  "healthy os \<Longrightarrow> storage_fileExists os path = Inr (\<exists>body. os_files os path = Some (RegFile body))"
  by (auto simp: storage_fileExists_def healthy_def split: option.split node.split)

lemma storage_writeFile_healthy:
  "healthy os \<Longrightarrow> os_files os path \<noteq> Some Directory \<Longrightarrow>
   storage_writeFile path data os = (os_put path data os, None)"
  by (simp add: storage_writeFile_def healthy_def)

section \<open>Loading\<close>

lemma loadFile_holds:
  assumes "healthy os" "json_ok jf js" "holds js os path m"
  obtains m' where "storage_loadFile js os path s = (s\<lparr>sg_model := m'\<rparr>, None)" "decoded jf m (sg_model s) m'"
proof -
  obtain body where b: "os_files os path = Some (RegFile body)" "js_Marshal js m = Inr body"
    using assms(3) by (auto simp: holds_def)
  obtain m' where "js_Unmarshal js body (sg_model s) = (m', None)" "decoded jf m (sg_model s) m'"
    using json_okD(2) [OF assms(2) b(2), of "sg_model s"] by blast
  with b(1) assms(1) show thesis
    by (intro that) (simp_all add: storage_loadFile_def os_ReadFile_def healthy_def)
qed

lemma loadFile_truncated:
  assumes "healthy os" "json_ok jf js" "truncated js os path"
  shows "\<exists>e. storage_loadFile js os path s = (s, Some e)"
proof -
  obtain m body n where t: "js_Marshal js m = Inr body" "n < length body" "os_files os path = Some (RegFile (take n body))"
    using assms(3) by (auto simp: truncated_def)
  obtain e where "js_Unmarshal js (take n body) (sg_model s) = (sg_model s, Some e)"
    using json_okD(3) [OF assms(2) t(1,2)] by blast
  with t(3) assms(1) show ?thesis by (simp add: storage_loadFile_def os_ReadFile_def healthy_def)
qed

text \<open>Loading ends with the model that the data file or the backup holds.\<close>

definition recovers :: "'m json \<Rightarrow> os \<Rightarrow> 'm storage \<Rightarrow> 'm \<Rightarrow> bool" where
  "recovers js os s m \<longleftrightarrow>
     holds js os (sg_dataPath s) m
   \<or> truncated js os (sg_dataPath s) \<and> holds js os (sg_backupPath s) m"

lemma recovers_simps [simp]:
  "recovers js os (s\<lparr>sg_model := x\<rparr>) m = recovers js os s m" "recovers js (restarted os) s m = recovers js os s m"
  by (simp_all add: recovers_def)

lemma loadData_recovers:
  assumes "healthy os" "json_ok jf js" "recovers js os s m"
  obtains m' where "storage_loadData js os s = (s\<lparr>sg_model := m'\<rparr>, None)" "decoded jf m (sg_model s) m'"
proof (cases "holds js os (sg_dataPath s) m")
  case True
  then obtain m' where "storage_loadFile js os (sg_dataPath s) s = (s\<lparr>sg_model := m'\<rparr>, None)"
    "decoded jf m (sg_model s) m'"
    by (rule loadFile_holds [OF assms(1,2), of _ _ s])
  then show thesis by (intro that) (simp_all add: storage_loadData_def)
next
  case False
  with assms(3) have t: "truncated js os (sg_dataPath s)" and b: "holds js os (sg_backupPath s) m"
    by (simp_all add: recovers_def)
  obtain e where e: "storage_loadFile js os (sg_dataPath s) s = (s, Some e)"
    using loadFile_truncated [OF assms(1,2) t] by blast
  obtain m' where m': "storage_loadFile js os (sg_backupPath s) s = (s\<lparr>sg_model := m'\<rparr>, None)"
    "decoded jf m (sg_model s) m'"
    by (rule loadFile_holds [OF assms(1,2) b, of s])
  have "storage_fileExists os (sg_backupPath s) = Inr True"
    using assms(1) b by (auto simp: storage_fileExists_healthy holds_def)
  with e m' show thesis by (intro that) (simp_all add: storage_loadData_def)
qed

lemma Load_recovers:
  assumes "healthy os" "json_ok jf js" "defaults_hold js os s dflt" "recovers js os s m"
  obtains m' where "storage_Load js s os = (s\<lparr>sg_model := m'\<rparr>, os, None)" "restored jf dflt m (sg_model s) m'"
proof -
  have exists: "storage_fileExists os (sg_dataPath s) = Inr True"
    using assms(1,4) by (auto simp: storage_fileExists_healthy recovers_def holds_def truncated_def)
  show thesis
  proof (cases dflt)
    case None
    then have d: "sg_defaultsPath s = ''''" using assms(3) by (simp add: defaults_hold_def)
    obtain m' where "storage_loadData js os s = (s\<lparr>sg_model := m'\<rparr>, None)" "decoded jf m (sg_model s) m'"
      by (rule loadData_recovers [OF assms(1,2,4)])
    then show thesis
      using None d exists restored_without_defaults
      by (intro that) (auto simp: storage_Load_def storage_load_def)
  next
    case (Some d)
    then have dp: "sg_defaultsPath s \<noteq> ''''" and d: "holds js os (sg_defaultsPath s) d"
      using assms(3) by (simp_all add: defaults_hold_def)
    obtain m1 where m1: "storage_loadFile js os (sg_defaultsPath s) s = (s\<lparr>sg_model := m1\<rparr>, None)"
      "decoded jf d (sg_model s) m1"
      by (rule loadFile_holds [OF assms(1,2) d, of s])
    have "recovers js os (s\<lparr>sg_model := m1\<rparr>) m" using assms(4) by simp
    then obtain m' where "storage_loadData js os (s\<lparr>sg_model := m1\<rparr>) = (s\<lparr>sg_model := m'\<rparr>, None)" "decoded jf m m1 m'"
      by (rule loadData_recovers [OF assms(1,2)]) simp
    moreover have "storage_fileExists os (sg_defaultsPath s) = Inr True"
      using d assms(1) by (auto simp: storage_fileExists_healthy holds_def)
    ultimately show thesis
      using Some dp exists m1 restored_over_defaults
      by (intro that) (auto simp: storage_Load_def storage_load_def)
  qed
qed

section \<open>Saving\<close>

text \<open>
  A write that ends early leaves the file as it was, or with a prefix of the data; the oracle of the operating system may
  fail any call.
\<close>

lemma writeFile_outcome:
  assumes "storage_writeFile path data os = (os', r)" "os_files os path \<noteq> Some Directory"
  obtains (untouched) "os' = os" "r \<noteq> None"
    | (cut) n where "os' = os_put path (take n data) os" "r \<noteq> None"
    | (whole) "os' = os_put path data os"
proof -
  have "os' = os \<and> r \<noteq> None \<or> (\<exists>n. os' = os_put path (take n data) os \<and> r \<noteq> None) \<or> os' = os_put path data os"
  proof (cases "os_fault os SOpen path")
    case opened: None
    show ?thesis
    proof (cases "os_fault os SWrite path")
      case written: None
      show ?thesis
      proof (cases "os_fault os SSync path")
        case None
        then show ?thesis using assms opened written by (auto simp: storage_writeFile_def)
      next
        case (Some e)
        then have "r = Some e" "os' = os_put path (take (os_short os path) data) os"
          using assms opened written by (simp_all add: storage_writeFile_def)
        then show ?thesis by blast
      qed
    next
      case (Some e)
      then have "r = Some e" "os' = os_put path (take (os_short os path) data) os"
        using assms opened by (simp_all add: storage_writeFile_def)
      then show ?thesis by blast
    qed
  next
    case (Some e)
    then have "r = Some e" "os' = os" using assms by (simp_all add: storage_writeFile_def)
    then show ?thesis by blast
  qed
  then show thesis using untouched cut whole by blast
qed

lemma makeBackup_outcome:
  assumes "storage_makeBackup s os = (os', r)" "storage_ok s os" "os_files os (sg_dataPath s) = Some (RegFile old)"
  obtains (failed) body where "os' = os \<or> os' = os_put (sg_backupPath s) body os" "r \<noteq> None"
    | (made) "os' = os_put (sg_backupPath s) old os"
proof -
  have nd: "os_files os (sg_backupPath s) \<noteq> Some Directory" using assms(2) by (simp add: storage_ok_def)
  have "os' = os \<and> r \<noteq> None \<or> storage_writeFile (sg_backupPath s) old os = (os', r)"
    using assms(1,3)
    by (cases "os_fault os SStat (sg_dataPath s)"; cases "os_fault os SRead (sg_dataPath s)")
      (auto simp: storage_makeBackup_def storage_fileExists_def os_ReadFile_def split: option.splits)
  then consider "os' = os" "r \<noteq> None" | "storage_writeFile (sg_backupPath s) old os = (os', r)" by blast
  then show thesis
  proof cases
    case 1
    then show thesis by (intro failed) auto
  next
    case 2
    from this nd show thesis
    proof (cases rule: writeFile_outcome)
      case untouched
      then show thesis by (intro failed) auto
    next
      case (cut n)
      then show thesis by (intro failed) auto
    next
      case whole
      then show thesis by (rule made)
    qed
  qed
qed

lemma Save_recovers:
  assumes "storage_Save js s os = (s', os', r)" "storage_ok s os" "holds js os (sg_dataPath s) old"
  shows "s' = s \<and> (r \<noteq> None \<and> recovers js os' s old \<or> recovers js os' s (sg_model s))"
proof -
  obtain ob where ob: "os_files os (sg_dataPath s) = Some (RegFile ob)" "js_Marshal js old = Inr ob"
    using assms(3) by (auto simp: holds_def)
  have ne: "sg_dataPath s \<noteq> sg_backupPath s" using assms(2) by (simp add: storage_ok_def)
  have old: "recovers js os s old" "recovers js (os_put (sg_backupPath s) body os) s old" for body
    using ob ne by (simp_all add: recovers_def holds_def)
  show ?thesis
  proof (cases "os_fault os SMkdir (path_Dir (sg_dataPath s))")
    case (Some e)
    then show ?thesis using assms(1) old by (auto simp: storage_Save_def)
  next
    case mkdir: None
    obtain os1 r1 where bk: "storage_makeBackup s os = (os1, r1)" by fastforce
    from this assms(2) ob(1) show ?thesis
    proof (cases rule: makeBackup_outcome)
      case (failed body)
      then show ?thesis using assms(1) mkdir bk old by (auto simp: storage_Save_def)
    next
      case made
      show ?thesis
      proof (cases "r1 \<noteq> None \<or> (\<exists>e. js_Marshal js (sg_model s) = Inl e)")
        case True
        then have "s' = s \<and> os' = os1 \<and> r \<noteq> None"
          using assms(1) mkdir bk by (cases r1) (auto simp: storage_Save_def)
        then show ?thesis using made old(2) by simp
      next
        case False
        then obtain body where body: "r1 = None" "js_Marshal js (sg_model s) = Inr body"
          by (cases "js_Marshal js (sg_model s)") auto
        obtain os2 r2 where wr: "storage_writeFile (sg_dataPath s) body os1 = (os2, r2)" by fastforce
        have res: "s' = s" "os' = os2" "r \<noteq> None \<longleftrightarrow> r2 \<noteq> None"
          using assms(1) mkdir bk body wr by (auto simp: storage_Save_def split: option.splits)
        have nd: "os_files os1 (sg_dataPath s) \<noteq> Some Directory"
          using made ne ob(1) by simp
        have whole: "recovers js (os_put (sg_dataPath s) body os1) s (sg_model s)"
          using body by (simp add: recovers_def holds_def)
        from wr nd show ?thesis
        proof (cases rule: writeFile_outcome)
          case untouched
          then show ?thesis using res made old(2) by simp
        next
          case (cut n)
          show ?thesis
          proof (cases "n < length body")
            case True
            then have "truncated js os2 (sg_dataPath s)" "holds js os2 (sg_backupPath s) old"
              using cut made body(2) ob(2) ne by (auto simp: truncated_def holds_def)
            then show ?thesis using res cut(2) by (simp add: recovers_def)
          next
            case False
            then show ?thesis using res cut(1) whole by simp
          qed
        next
          case whole
          then show ?thesis using res \<open>recovers js (os_put (sg_dataPath s) body os1) s (sg_model s)\<close> by simp
        qed
      qed
    qed
  qed
qed

text \<open>A save touches only the data file and the backup, and does not change the oracle.\<close>

lemma writeFile_frame:
  assumes "storage_writeFile path data os = (os', r)"
  shows "p \<noteq> path \<Longrightarrow> os_files os' p = os_files os p" "os_fault os' = os_fault os"
  using assms by (auto simp: storage_writeFile_def split: option.splits if_splits)

lemma makeBackup_frame:
  assumes "storage_makeBackup s os = (os', r)"
  shows "p \<noteq> sg_backupPath s \<Longrightarrow> os_files os' p = os_files os p" "os_fault os' = os_fault os"
  using assms
  by (auto simp: storage_makeBackup_def split: option.splits sum.splits bool.splits dest: writeFile_frame)

lemma Save_frame:
  assumes "storage_Save js s os = (s', os', r)"
  shows "p \<noteq> sg_dataPath s \<Longrightarrow> p \<noteq> sg_backupPath s \<Longrightarrow> os_files os' p = os_files os p" "os_fault os' = os_fault os"
proof -
  obtain os1 r1 where bk: "storage_makeBackup s os = (os1, r1)" by fastforce
  consider "os' = os" | "os' = os1" | body r2 where "storage_writeFile (sg_dataPath s) body os1 = (os', r2)"
    using assms bk by (auto simp: storage_Save_def split: option.splits sum.splits prod.splits)
  note cases = this
  show "p \<noteq> sg_dataPath s \<Longrightarrow> p \<noteq> sg_backupPath s \<Longrightarrow> os_files os' p = os_files os p"
    by (rule cases) (simp_all add: makeBackup_frame(1) [OF bk] writeFile_frame(1))
  show "os_fault os' = os_fault os"
    by (rule cases) (simp_all add: makeBackup_frame(2) [OF bk] writeFile_frame(2))
qed

lemma Save_defaults:
  assumes "storage_Save js s os = (s', os', r)" "storage_ok s os" "defaults_hold js os s dflt"
  shows "defaults_hold js os' s dflt"
proof -
  have "os_files os' (sg_defaultsPath s) = os_files os (sg_defaultsPath s)"
    using Save_frame(1) [OF assms(1), of "sg_defaultsPath s"] assms(2) by (auto simp: storage_ok_def)
  then show ?thesis using assms(3) by (simp add: defaults_hold_def holds_def split: option.splits)
qed

text \<open>Without faults a save writes the backup and the data file.\<close>

definition saved_files :: "'m storage \<Rightarrow> string \<Rightarrow> os \<Rightarrow> os" where
  "saved_files s body os =
     os_put (sg_dataPath s) body
       (case os_files os (sg_dataPath s) of Some (RegFile old) \<Rightarrow> os_put (sg_backupPath s) old os | _ \<Rightarrow> os)"

lemma Save_healthy:
  assumes "healthy os" "storage_ok s os" "js_Marshal js (sg_model s) = Inr body"
  shows "storage_Save js s os = (s, saved_files s body os, None)"
proof -
  have nm: "os_fault os SMkdir p = None" for p using assms(1) by (simp add: healthy_def)
  show ?thesis
  proof (cases "os_files os (sg_dataPath s)")
    case None
    then show ?thesis
      using assms nm
      by (simp add: storage_Save_def storage_makeBackup_def storage_fileExists_healthy
          storage_writeFile_healthy saved_files_def)
  next
    case (Some nd)
    then obtain old where nd: "nd = RegFile old" using assms(2) by (cases nd) (auto simp: storage_ok_def)
    have read: "os_ReadFile os (sg_dataPath s) = Inr old"
      using assms(1) Some nd by (simp add: os_ReadFile_def healthy_def)
    then show ?thesis
      using assms nm Some nd
      by (simp add: storage_Save_def storage_makeBackup_def storage_fileExists_healthy storage_ok_def
          storage_writeFile_healthy saved_files_def)
  qed
qed

section \<open>Properties\<close>

text \<open>
  C24. What was saved is what is loaded: a save in which no system call fails succeeds if the model can be encoded, and a storage
  opened on the same files afterwards, with whatever model it starts from, loads without an error a model in which every
  field that the saved model stores in its encoding is the saved one. A field that it skips comes from the defaults, if
  there are any and they store it, and keeps its initial value otherwise.
\<close>
theorem Save_Load_roundtrip:
  assumes "healthy os" "json_ok jf js" "storage_ok s os" "defaults_hold js os s dflt"
    and "js_Marshal js (sg_model s) = Inr body"
  shows "\<exists>os' m'. storage_Save js s os = (s, os', None)
    \<and> storage_Load js (s\<lparr>sg_model := fresh\<rparr>) os' = (s\<lparr>sg_model := m'\<rparr>, os', None)
    \<and> restored jf dflt (sg_model s) fresh m'"
proof -
  let ?os' = "saved_files s body os"
  let ?s = "s\<lparr>sg_model := fresh\<rparr>"
  have save: "storage_Save js s os = (s, ?os', None)" using Save_healthy [OF assms(1,3,5)] .
  have h: "healthy ?os'" using assms(1) by (simp add: saved_files_def split: option.split node.split)
  have d: "defaults_hold js ?os' ?s dflt" using Save_defaults [OF save assms(3,4)] by simp
  have "recovers js ?os' ?s (sg_model s)" using assms(5) by (simp add: recovers_def holds_def saved_files_def)
  then obtain m' where "storage_Load js ?s ?os' = (?s\<lparr>sg_model := m'\<rparr>, ?os', None)"
    "restored jf dflt (sg_model s) (sg_model ?s) m'"
    by (rule Load_recovers [OF h assms(2) d])
  with save show ?thesis by (intro exI [of _ ?os'] exI [of _ m']) simp
qed

text \<open>
  C2. A crash while saving loses nothing but the save. Take a state in which the data file holds a model, and a save during
  which any system calls may fail; a crash is such a call, at which the save stops: what it leaves of the file that it
  was writing is any prefix of the data. After a restart, loading succeeds and gives back the model of the data file or
  the new one, with the fields that it stores; and if the save had succeeded, it is the new one.
\<close>
theorem save_crash_safe:
  assumes "storage_Save js s os = (s', os1, r)" "json_ok jf js" "storage_ok s os" "defaults_hold js os s dflt"
    and "holds js os (sg_dataPath s) old"
  shows "\<exists>m m'. storage_Load js (s\<lparr>sg_model := fresh\<rparr>) (restarted os1) = (s\<lparr>sg_model := m'\<rparr>, restarted os1, None)
    \<and> restored jf dflt m fresh m' \<and> (m = sg_model s \<or> r \<noteq> None \<and> m = old)"
proof -
  let ?s = "s\<lparr>sg_model := fresh\<rparr>"
  from Save_recovers [OF assms(1,3,5)] obtain m where
    m: "recovers js (restarted os1) ?s m" "m = sg_model s \<or> r \<noteq> None \<and> m = old" by auto
  have d: "defaults_hold js (restarted os1) ?s dflt" using Save_defaults [OF assms(1,3,4)] by simp
  obtain m' where "storage_Load js ?s (restarted os1) = (?s\<lparr>sg_model := m'\<rparr>, restarted os1, None)"
    "restored jf dflt m (sg_model ?s) m'"
    by (rule Load_recovers [OF restarted_simps(1) assms(2) d m(1)])
  with m(2) show ?thesis by (intro exI [of _ m] exI [of _ m']) simp
qed

text \<open>
  A second crash can lose everything: once a crash has left a truncated data file, the next save first
  copies it over the only good backup. A crash at its write of the data file leaves two truncated files, and a storage
  without defaults can no longer be loaded, although the backup held a model before.
\<close>

definition crash_writing :: "string \<Rightarrow> os \<Rightarrow> os" where
  "crash_writing path os =
     os\<lparr>os_fault := \<lambda>c p. if c = SWrite \<and> p = path then Some (Errorf ''crash'') else None, os_short := \<lambda>_. 0\<rparr>"

theorem second_crash_loses_data:
  assumes "json_ok jf js" "storage_ok s os" "sg_defaultsPath s = ''''"
    and "truncated js os (sg_dataPath s)" "holds js os (sg_backupPath s) old"
    and "js_Marshal js (sg_model s) = Inr body"
  shows "\<exists>f e. storage_Save js s (crash_writing (sg_dataPath s) os) = (s, f, Some e)
    \<and> (\<forall>m. \<exists>s' e. storage_Load js (s\<lparr>sg_model := m\<rparr>) (restarted f) = (s', restarted f, Some e))"
proof -
  obtain cut where cut: "os_files os (sg_dataPath s) = Some (RegFile cut)"
    using assms(4) by (auto simp: truncated_def)
  let ?os = "crash_writing (sg_dataPath s) os"
  let ?f = "os_put (sg_dataPath s) [] (os_put (sg_backupPath s) cut ?os)"
  have ne: "sg_dataPath s \<noteq> sg_backupPath s" "os_files os (sg_backupPath s) \<noteq> Some Directory"
    using assms(2) by (simp_all add: storage_ok_def)
  have backup: "storage_makeBackup s ?os = (os_put (sg_backupPath s) cut ?os, None)"
    using cut ne by (simp add: storage_makeBackup_def storage_fileExists_def os_ReadFile_def storage_writeFile_def crash_writing_def)
  have "storage_writeFile (sg_dataPath s) body (os_put (sg_backupPath s) cut ?os) = (?f, Some (Errorf ''crash''))"
    using cut ne by (simp add: storage_writeFile_def crash_writing_def os_put_def)
  with backup assms(6) have save: "\<exists>e. storage_Save js s ?os = (s, ?f, Some e)"
    by (simp add: storage_Save_def crash_writing_def)
  have "body \<noteq> ''''" using json_okD(1) [OF assms(1,6)] .
  then have t: "truncated js (restarted ?f) (sg_dataPath s)"
    using assms(6) unfolding truncated_def by (intro exI [of _ "sg_model s"] exI [of _ body] exI [of _ 0]) simp
  have tb: "truncated js (restarted ?f) (sg_backupPath s)"
    using assms(4) cut ne by (simp add: truncated_def)
  have "\<exists>s' e. storage_Load js (s\<lparr>sg_model := m\<rparr>) (restarted ?f) = (s', restarted ?f, Some e)" for m
  proof -
    let ?s = "s\<lparr>sg_model := m\<rparr>"
    obtain e e2 where "storage_loadFile js (restarted ?f) (sg_dataPath ?s) ?s = (?s, Some e)"
      "storage_loadFile js (restarted ?f) (sg_backupPath ?s) ?s = (?s, Some e2)"
      using loadFile_truncated [OF restarted_simps(1) assms(1)] t tb by fastforce
    moreover have "storage_fileExists (restarted ?f) (sg_dataPath ?s) = Inr True"
      "storage_fileExists (restarted ?f) (sg_backupPath ?s) = Inr True"
      using storage_fileExists_healthy [OF restarted_simps(1)] by simp_all
    ultimately show ?thesis
      using assms(3) by (simp add: storage_Load_def storage_load_def storage_loadData_def)
  qed
  with save show ?thesis by blast
qed

text \<open>
  Reset returns to the defaults: it removes the data file and the backup, and every field that the defaults file stores is
  that of the defaults, in memory and after every later load. But the defaults are decoded into the model in use: a field
  that they skip keeps the value it had before the reset.
\<close>
theorem Reset_restores_defaults:
  assumes "healthy os" "json_ok jf js" "storage_ok s os" "sg_defaultsPath s \<noteq> ''''"
    and "holds js os (sg_defaultsPath s) d"
  shows "\<exists>os' m1 m2. storage_Reset js s os = (s\<lparr>sg_model := m1\<rparr>, os', None) \<and> decoded jf d (sg_model s) m1
    \<and> os_files os' (sg_dataPath s) = None \<and> os_files os' (sg_backupPath s) = None
    \<and> storage_Load js (s\<lparr>sg_model := m\<rparr>) os' = (s\<lparr>sg_model := m2\<rparr>, os', None) \<and> decoded jf d m m2"
proof -
  let ?rm = "\<lambda>p os. os\<lparr>os_files := (os_files os)(p := None)\<rparr>"
  have rm: "storage_removeFile p o1 = (?rm p o1, None)"
    if "healthy o1" "os_files o1 p \<noteq> Some Directory" for p o1
    using that
    by (cases "os_files o1 p")
      (auto simp: storage_removeFile_def storage_fileExists_def healthy_def fun_upd_idem split: node.split)
  let ?os1 = "?rm (sg_dataPath s) os"
  let ?os2 = "?rm (sg_backupPath s) ?os1"
  have h: "healthy ?os1" "healthy ?os2" using assms(1) by (simp_all add: healthy_def)
  have d: "holds js ?os2 (sg_defaultsPath s) d"
    using assms(3,5) by (auto simp: holds_def storage_ok_def)
  have ex: "storage_fileExists os (sg_defaultsPath s) = Inr True"
    "storage_fileExists ?os2 (sg_defaultsPath s) = Inr True"
    "storage_fileExists ?os2 (sg_dataPath s) = Inr False"
    using assms(1,3,5) h d by (auto simp: storage_fileExists_healthy holds_def storage_ok_def)
  have load: "\<exists>m'. storage_load js ?os2 True False (s\<lparr>sg_model := m0\<rparr>) = (s\<lparr>sg_model := m'\<rparr>, None) \<and> decoded jf d m0 m'" for m0
  proof -
    obtain m' where "storage_loadFile js ?os2 (sg_defaultsPath s) (s\<lparr>sg_model := m0\<rparr>) = (s\<lparr>sg_model := m0, sg_model := m'\<rparr>, None)"
      "decoded jf d (sg_model (s\<lparr>sg_model := m0\<rparr>)) m'"
      by (rule loadFile_holds [OF h(2) assms(2) d])
    then show ?thesis by (auto simp: storage_load_def)
  qed
  have rms: "storage_removeFile (sg_dataPath s) os = (?os1, None)"
    "storage_removeFile (sg_backupPath s) ?os1 = (?os2, None)"
    using rm [OF assms(1), of "sg_dataPath s"] rm [OF h(1), of "sg_backupPath s"] assms(3)
    by (auto simp: storage_ok_def)
  obtain m1 where m1: "storage_load js ?os2 True False s = (s\<lparr>sg_model := m1\<rparr>, None)" "decoded jf d (sg_model s) m1"
    using load [of "sg_model s"] by (cases s) auto
  obtain m2 where m2: "storage_load js ?os2 True False (s\<lparr>sg_model := m\<rparr>) = (s\<lparr>sg_model := m2\<rparr>, None)" "decoded jf d m m2"
    using load [of m] by auto
  have "storage_Reset js s os = (s\<lparr>sg_model := m1\<rparr>, ?os2, None)"
    using rms ex(1) m1(1) assms(4) by (simp add: storage_Reset_def)
  moreover have "storage_Load js (s\<lparr>sg_model := m\<rparr>) ?os2 = (s\<lparr>sg_model := m2\<rparr>, ?os2, None)"
    using ex(2,3) m2(1) assms(4) by (simp add: storage_Load_def)
  moreover have "os_files ?os2 (sg_dataPath s) = None" "os_files ?os2 (sg_backupPath s) = None"
    using assms(3) by simp_all
  ultimately show ?thesis using m1(2) m2(2) by blast
qed

section \<open>Witnesses\<close>

text \<open>A model of one bit, and a storage of it.\<close>

definition demo_json :: "bool json" where
  "demo_json =
     \<lparr>js_Marshal = (\<lambda>b. Inr (if b then ''{1}'' else ''{0}'')),
      js_Unmarshal = (\<lambda>s m. if s = ''{1}'' then (True, None) else if s = ''{0}'' then (False, None)
                            else (m, Some (Errorf ''unexpected end of JSON input'')))\<rparr>"

definition demo_fields :: "(bool, unit, bool) json_fields" where
  "demo_fields = \<lparr>jf_get = (\<lambda>_ m. m), jf_stored = (\<lambda>_. {()}), jf_skipped = (\<lambda>_. {})\<rparr>"

lemma demo_json_ok: "json_ok demo_fields demo_json"
proof -
  have "take n ''{1}'' \<noteq> ''{1}'' \<and> take n ''{1}'' \<noteq> ''{0}'' \<and> take n ''{0}'' \<noteq> ''{1}'' \<and> take n ''{0}'' \<noteq> ''{0}''"
    if "n < 3" for n
    using that by (auto simp: less_Suc_eq numeral_3_eq_3)
  then show ?thesis by (auto simp: json_ok_def demo_json_def demo_fields_def decoded_def)
qed

lemma demo_restored: "restored demo_fields None m fresh m' \<Longrightarrow> m' = m"
  by (simp add: restored_def demo_fields_def)

definition demo_storage :: "bool storage" where
  "demo_storage = storage_NewState True ''w'' ''s.json''"

definition demo_os :: "(string \<times> string) list \<Rightarrow> os" where
  "demo_os fs = \<lparr>os_files = (\<lambda>p. map_option RegFile (map_of fs p)), os_fault = (\<lambda>_ _. None), os_short = (\<lambda>_. 0)\<rparr>"

lemma demo_storage_simps [simp]:
  "sg_dataPath demo_storage = ''w/data/s.json''" "sg_backupPath demo_storage = ''w/data/s.json.bak''"
  "sg_defaultsPath demo_storage = ''''" "sg_model demo_storage = True"
  by (simp_all add: demo_storage_def storage_NewState_def filepath_Join_def dataDirectory_def
      backupExtension_def)

lemma demo_os_simps [simp]:
  "healthy (demo_os fs)" "os_files (demo_os fs) p = map_option RegFile (map_of fs p)"
  by (simp_all add: demo_os_def healthy_def)

lemma demo_storage_ok: "map_of fs '''' = None \<Longrightarrow> storage_ok demo_storage (demo_os fs)"
  by (simp add: storage_ok_def)

text \<open>
  A configuration with a field that is always stored, one that is omitted when it is false, and one that is never
  stored.
\<close>

datatype demo_field = Enabled | Verbose | WorkDir

record demo_config =
  dc_enabled :: bool
  dc_verbose :: bool
  dc_workDir :: bool

definition config_fields :: "(demo_config, demo_field, bool) json_fields" where
  "config_fields =
     \<lparr>jf_get = (\<lambda>f. case f of Enabled \<Rightarrow> dc_enabled | Verbose \<Rightarrow> dc_verbose | WorkDir \<Rightarrow> dc_workDir),
      jf_stored = (\<lambda>m. if dc_verbose m then {Enabled, Verbose} else {Enabled}),
      jf_skipped = (\<lambda>m. if dc_verbose m then {WorkDir} else {Verbose, WorkDir})\<rparr>"

definition config_json :: "demo_config json" where
  "config_json =
     \<lparr>js_Marshal = (\<lambda>m. Inr ((if dc_enabled m then ''{1'' else ''{0'') @ (if dc_verbose m then ''v}'' else ''}''))),
      js_Unmarshal = (\<lambda>s m.
        if s = ''{1}'' then (m\<lparr>dc_enabled := True\<rparr>, None) else if s = ''{0}'' then (m\<lparr>dc_enabled := False\<rparr>, None)
        else if s = ''{1v}'' then (m\<lparr>dc_enabled := True, dc_verbose := True\<rparr>, None)
        else if s = ''{0v}'' then (m\<lparr>dc_enabled := False, dc_verbose := True\<rparr>, None)
        else (m, Some (Errorf ''unexpected end of JSON input'')))\<rparr>"

lemma config_json_ok: "json_ok config_fields config_json"
proof -
  have body: "body \<in> {''{1}'', ''{0}'', ''{1v}'', ''{0v}''}" if "js_Marshal config_json m = Inr body" for m body
    using that by (auto simp: config_json_def split: if_splits)
  have trunc: "take n body \<notin> {''{1}'', ''{0}'', ''{1v}'', ''{0v}''}"
    if "body \<in> {''{1}'', ''{0}'', ''{1v}'', ''{0v}''}" "n < length body" for n body
    using that by (auto simp: less_Suc_eq numeral_3_eq_3)
  have "\<exists>e. js_Unmarshal config_json (take n body) m0 = (m0, Some e)"
    if "js_Marshal config_json m = Inr body" "n < length body" for m body n m0
    using trunc [OF body [OF that(1)] that(2)] by (simp add: config_json_def)
  moreover have "\<exists>m'. js_Unmarshal config_json body m0 = (m', None) \<and> decoded config_fields m m0 m'"
    if "js_Marshal config_json m = Inr body" for m body m0
    using that by (auto simp: config_json_def config_fields_def decoded_def split: if_splits)
  ultimately show ?thesis using body by (fastforce simp: json_ok_def)
qed

definition demo_config :: "bool \<Rightarrow> bool \<Rightarrow> bool \<Rightarrow> demo_config" where
  "demo_config e v d = \<lparr>dc_enabled = e, dc_verbose = v, dc_workDir = d\<rparr>"

text \<open>The field that is false is not stored, so that it comes back from the defaults as true.\<close>

theorem Save_Load_roundtrip_witness:
  "\<exists>os' m'. storage_Save config_json (storage_New (demo_config True False True) ''w'' ''s'') (demo_os [(''w/defaults/s'', ''{0v}'')])
        = (storage_New (demo_config True False True) ''w'' ''s'', os', None)
     \<and> storage_Load config_json (storage_New (demo_config False False False) ''w'' ''s'') os'
        = (storage_New m' ''w'' ''s'', os', None)
     \<and> m' = demo_config True True False"
proof -
  let ?s = "storage_New (demo_config True False True) ''w'' ''s''"
  let ?os = "demo_os [(''w/defaults/s'', ''{0v}'')]"
  let ?fresh = "demo_config False False False"
  have p: "sg_dataPath ?s = ''w/data/s''" "sg_backupPath ?s = ''w/data/s.bak''" "sg_defaultsPath ?s = ''w/defaults/s''"
    "sg_model ?s = demo_config True False True" "?s\<lparr>sg_model := m\<rparr> = storage_New m ''w'' ''s''" for m
    by (simp_all add: storage_New_def filepath_Join_def dataDirectory_def defaultsDirectory_def backupExtension_def)
  have "storage_ok ?s ?os" by (simp add: storage_ok_def p)
  moreover have "defaults_hold config_json ?os ?s (Some (demo_config False True False))"
    unfolding defaults_hold_def holds_def p by (simp add: config_json_def demo_config_def)
  moreover have "js_Marshal config_json (sg_model ?s) = Inr ''{1}''"
    unfolding p by (simp add: config_json_def demo_config_def)
  ultimately obtain os' m' where
    r: "storage_Save config_json ?s ?os = (?s, os', None)"
      "storage_Load config_json (storage_New ?fresh ''w'' ''s'') os' = (storage_New m' ''w'' ''s'', os', None)"
      "restored config_fields (Some (demo_config False True False)) (demo_config True False True) ?fresh m'"
    using Save_Load_roundtrip [of ?os config_fields config_json ?s "Some (demo_config False True False)" "''{1}''" ?fresh]
      config_json_ok unfolding p by auto
  from r(3) have "m' = demo_config True True False"
    by (cases m') (simp add: restored_def config_fields_def demo_config_def)
  with r(1,2) show ?thesis by blast
qed

text \<open>The machine stops while the data file is written, after one byte.\<close>

theorem save_crash_safe_witness:
  "\<exists>f e. storage_Save demo_json demo_storage
         ((crash_writing ''w/data/s.json'' (demo_os [(''w/data/s.json'', ''{0}'')]))\<lparr>os_short := \<lambda>_. 1\<rparr>) = (demo_storage, f, Some e)
     \<and> os_files f ''w/data/s.json'' = Some (RegFile ''{'')
     \<and> (\<exists>m'. storage_Load demo_json (demo_storage\<lparr>sg_model := False\<rparr>) (restarted f) = (demo_storage\<lparr>sg_model := m'\<rparr>, restarted f, None))"
proof -
  let ?os = "(crash_writing ''w/data/s.json'' (demo_os [(''w/data/s.json'', ''{0}'')]))\<lparr>os_short := \<lambda>_. 1\<rparr>"
  have files: "os_files ?os = os_files (demo_os [(''w/data/s.json'', ''{0}'')])" by (simp add: crash_writing_def)
  let ?f = "os_put ''w/data/s.json'' ''{'' (os_put ''w/data/s.json.bak'' ''{0}'' ?os)"
  have save: "\<exists>e. storage_Save demo_json demo_storage ?os = (demo_storage, ?f, Some e)"
    using files
    by (simp add: storage_Save_def storage_makeBackup_def storage_fileExists_def os_ReadFile_def storage_writeFile_def
        crash_writing_def demo_json_def path_Dir_def os_put_def)
  then obtain e where e: "storage_Save demo_json demo_storage ?os = (demo_storage, ?f, Some e)" by blast
  have ok: "storage_ok demo_storage ?os" using files by (simp add: storage_ok_def)
  have d: "defaults_hold demo_json ?os demo_storage None" by (simp add: defaults_hold_def)
  have h: "holds demo_json ?os (sg_dataPath demo_storage) False" using files by (simp add: holds_def demo_json_def)
  from save_crash_safe [OF e demo_json_ok ok d h, of False] e show ?thesis by auto
qed

theorem second_crash_loses_data_witness:
  "\<exists>f e. storage_Save demo_json demo_storage
         (crash_writing (sg_dataPath demo_storage) (demo_os [(''w/data/s.json'', ''{''), (''w/data/s.json.bak'', ''{0}'')]))
       = (demo_storage, f, Some e)
     \<and> (\<forall>m. \<exists>s' e. storage_Load demo_json (demo_storage\<lparr>sg_model := m\<rparr>) (restarted f) = (s', restarted f, Some e))"
proof -
  let ?fs = "[(''w/data/s.json'', ''{''), (''w/data/s.json.bak'', ''{0}'')]"
  have "truncated demo_json (demo_os ?fs) (sg_dataPath demo_storage)"
    unfolding truncated_def
    by (intro exI [of _ True] exI [of _ "''{1}''"] exI [of _ "1::nat"]) (simp add: demo_json_def)
  moreover have "holds demo_json (demo_os ?fs) (sg_backupPath demo_storage) False"
    by (simp add: holds_def demo_json_def)
  moreover have "js_Marshal demo_json (sg_model demo_storage) = Inr ''{1}''" by (simp add: demo_json_def)
  ultimately show ?thesis
    using second_crash_loses_data [OF demo_json_ok demo_storage_ok [of ?fs], of False "''{1}''"] by simp
qed

theorem Reset_restores_defaults_witness:
  "\<exists>os'. storage_Reset demo_json (storage_New True ''w'' ''s'')
        (demo_os [(''w/data/s'', ''{1}''), (''w/defaults/s'', ''{0}'')])
      = ((storage_New True ''w'' ''s'')\<lparr>sg_model := False\<rparr>, os', None)"
proof -
  let ?s = "storage_New True ''w'' ''s''"
  let ?fs = "[(''w/data/s'', ''{1}''), (''w/defaults/s'', ''{0}'')]"
  have p: "sg_dataPath ?s = ''w/data/s''" "sg_backupPath ?s = ''w/data/s.bak''"
    "sg_defaultsPath ?s = ''w/defaults/s''"
    by (simp_all add: storage_New_def filepath_Join_def dataDirectory_def defaultsDirectory_def
        backupExtension_def)
  have ok: "storage_ok ?s (demo_os ?fs)" by (simp add: storage_ok_def p)
  have ne: "sg_defaultsPath ?s \<noteq> ''''" by (simp add: p)
  have h: "holds demo_json (demo_os ?fs) (sg_defaultsPath ?s) False"
    by (simp add: holds_def p demo_json_def)
  have "decoded demo_fields False m0 m' \<Longrightarrow> \<not> m'" for m0 m' by (simp add: decoded_def demo_fields_def)
  with Reset_restores_defaults [OF demo_os_simps(1) demo_json_ok ok ne h, of False] show ?thesis by fastforce
qed

end
