(* ===== verification/Fimp.thy ===== *)
theory Fimp
  imports Go_Prelude
begin

text \<open>
  The messages the program exchanges, and what it takes from the FIMP client library
  \<^verbatim>\<open>fimpgo\<close>, which is not part of the repository. The records below hold the fields of the library's
  \<^verbatim>\<open>Address\<close>, \<^verbatim>\<open>FimpMessage\<close> and \<^verbatim>\<open>Message\<close> that the repository reads and writes. The library's functions
  and constants are the fields of the record \<open>fimpgo\<close>, an argument of every definition that uses
  them; \<open>fimpgo_ok\<close> names the documented behaviour that the repository relies on.
\<close>

section \<open>Messages\<close>

datatype fimp_value =
    VNull
  | VString string
  | VInt int
  | VFloat rat
  | VBool bool
  | VList "fimp_value list"
  | VObject "(string \<times> fimp_value) list"

type_synonym properties = "(string \<times> string) list"

record address =
  ad_PayloadType :: string
  ad_MsgType :: string
  ad_ResourceType :: string
  ad_ResourceName :: string
  ad_ResourceAddress :: string
  ad_ServiceName :: string
  ad_ServiceAddress :: string
  ad_GlobalPrefix :: string

record fimp_message =
  pl_Interface :: string
  pl_Service :: string
  pl_ValueType :: string
  pl_Value :: fimp_value
  pl_Properties :: properties
  pl_Source :: string
  pl_UID :: string
  pl_CorrelationID :: string
  pl_ResponseToTopic :: string
  pl_Storage :: "(string \<times> string) option"   \<comment> \<open>strategy and sub-value\<close>

text \<open>
  A message that was received from the transport, with its address and payload; and a message that a
  handler returns, whose address and payload may be nil.
\<close>

record message =
  ms_Topic :: string
  ms_Addr :: address
  ms_Payload :: fimp_message

record reply =
  re_Addr :: "address option"
  re_Payload :: "fimp_message option"

text \<open>The service specification and the inclusion report of a thing (package \<^verbatim>\<open>fimptype\<close>).\<close>

record interface =
  if_Type :: string
  if_MsgType :: string
  if_ValueType :: string
  if_Version :: string

record service_spec =
  sv_Name :: string
  sv_Address :: string
  sv_Enabled :: bool
  sv_Groups :: "string list"
  sv_Props :: "(string \<times> fimp_value) list"
  sv_Interfaces :: "interface list"

record inclusion_report =
  ir_Address :: string
  ir_ProductHash :: string
  ir_ProductName :: string
  ir_PowerSource :: string
  ir_WakeUpInterval :: string
  ir_CommTechnology :: string
  ir_Groups :: "string list"
  ir_Services :: "service_spec list"

text \<open>The reports as values of a message, an object with the fields of the Go type.\<close>

definition service_value :: "service_spec \<Rightarrow> fimp_value" where
  "service_value s =
     VObject [(''Name'', VString (sv_Name s)), (''Address'', VString (sv_Address s)),
              (''Enabled'', VBool (sv_Enabled s)), (''Groups'', VList (map VString (sv_Groups s))),
              (''Props'', VObject (sv_Props s)),
              (''Interfaces'', VList (map (\<lambda>i. VObject [(''Type'', VString (if_Type i)), (''MsgType'', VString (if_MsgType i)),
                 (''ValueType'', VString (if_ValueType i)), (''Version'', VString (if_Version i))]) (sv_Interfaces s)))]"

definition inclusion_value :: "inclusion_report \<Rightarrow> fimp_value" where
  "inclusion_value r =
     VObject [(''Address'', VString (ir_Address r)), (''ProductHash'', VString (ir_ProductHash r)),
              (''ProductName'', VString (ir_ProductName r)), (''PowerSource'', VString (ir_PowerSource r)),
              (''WakeUpInterval'', VString (ir_WakeUpInterval r)), (''CommTechnology'', VString (ir_CommTechnology r)),
              (''Groups'', VList (map VString (ir_Groups r))),
              (''Services'', VList (map service_value (ir_Services r)))]"

section \<open>The library\<close>

text \<open>The typed constructors of messages, \<^verbatim>\<open>NewNullMessage\<close>, \<^verbatim>\<open>NewStringMessage\<close> and so on.\<close>

datatype msg_kind = KNull | KString | KBool | KInt | KFloat | KStrArray | KObject | KStrMap | KFloatMap | KIntMap | KBoolMap

record fimpgo =
  fg_NewMessage :: "string \<Rightarrow> string \<Rightarrow> string \<Rightarrow> fimp_value \<Rightarrow> properties \<Rightarrow> fimp_message option
                    \<Rightarrow> fimp_message"
  fg_New :: "msg_kind \<Rightarrow> string \<Rightarrow> string \<Rightarrow> fimp_value \<Rightarrow> properties \<Rightarrow> fimp_message option \<Rightarrow> fimp_message"
  fg_GetStringValue :: "fimp_message \<Rightarrow> string result"
  fg_GetBoolValue :: "fimp_message \<Rightarrow> bool result"
  fg_GetIntValue :: "fimp_message \<Rightarrow> int result"
  fg_GetFloatValue :: "fimp_message \<Rightarrow> rat result"
  fg_GetFloatMapValue :: "fimp_message \<Rightarrow> (string \<times> rat) list result"
  fg_GetStrMapValue :: "fimp_message \<Rightarrow> (string \<times> string) list result"
  fg_GetIntMapValue :: "fimp_message \<Rightarrow> (string \<times> int) list result"
  fg_GetBoolMapValue :: "fimp_message \<Rightarrow> (string \<times> bool) list result"
  fg_GetStrArrayValue :: "fimp_message \<Rightarrow> string list result"
  fg_IntProperty :: "properties \<Rightarrow> string \<Rightarrow> int result option"   \<comment> \<open>\<^verbatim>\<open>Properties.GetIntValue\<close>; \<open>None\<close> if the key is missing\<close>
  fg_WithStorageStrategy :: "string \<Rightarrow> string \<Rightarrow> fimp_message \<Rightarrow> fimp_message"
  fg_NewAddressFromString :: "string \<Rightarrow> address result"
  fg_Serialize :: "address option \<Rightarrow> string option"     \<comment> \<open>\<open>None\<close> is a panic, e.g. on a nil receiver\<close>
  fg_DefaultPayload :: string
  fg_MsgTypeCmd :: string
  fg_MsgTypeEvt :: string
  fg_ResourceTypeDiscovery :: string
  fg_ResourceTypeAdapter :: string
  fg_ResourceTypeApp :: string
  fg_ResourceTypeCloud :: string
  fg_ResourceTypeDevice :: string
  fg_ResourceTypeLocation :: string
  fg_VTypeNull :: string
  fg_VTypeString :: string
  fg_VTypeBool :: string
  fg_VTypeInt :: string
  fg_VTypeFloat :: string
  fg_VTypeObject :: string
  fg_VTypeStrMap :: string
  fg_VTypeFloatMap :: string
  fg_VTypeIntMap :: string
  fg_VTypeBoolMap :: string
  fg_VTypeStrArray :: string
  fg_VTypeIntArray :: string
  fg_VTypeFloatArray :: string
  fg_VTypeBoolArray :: string
  fg_StorageStrategySkip :: string
  fg_StorageStrategyAggregate :: string
  fg_StorageStrategySplit :: string
  fg_TypeIn :: string
  fg_TypeOut :: string
  fg_EnsureInterfaces :: "interface list \<Rightarrow> service_spec \<Rightarrow> service_spec"
  fg_PropertyInteger :: "service_spec \<Rightarrow> string \<Rightarrow> int option"
  fg_PropertyStrings :: "service_spec \<Rightarrow> string \<Rightarrow> string list"
  fg_PropertyIntegers :: "service_spec \<Rightarrow> string \<Rightarrow> int list"
  fg_PropertyBool :: "service_spec \<Rightarrow> string \<Rightarrow> bool"
  fg_PropertyFloat :: "service_spec \<Rightarrow> string \<Rightarrow> rat option"
  fg_ParseTime :: "string \<Rightarrow> time"
  fg_MsgTypeRsp :: string
  fg_VinculumRn :: string
  fg_BackendServiceRn :: string
  fg_VinculumService :: string

text \<open>
  A new message carries what it was built from and answers the request, if one was given; a storage
  strategy changes nothing but the storage.
\<close>

definition carries ::
  "fimp_message \<Rightarrow> string \<Rightarrow> string \<Rightarrow> fimp_value \<Rightarrow> properties \<Rightarrow> fimp_message option \<Rightarrow> bool" where
  "carries m i s v p r \<longleftrightarrow>
     pl_Interface m = i \<and> pl_Service m = s \<and> pl_Value m = v \<and> pl_Properties m = p \<and> pl_Storage m = None
   \<and> (\<forall>q. r = Some q \<longrightarrow> pl_CorrelationID m = pl_UID q)"

definition fimpgo_ok :: "fimpgo \<Rightarrow> bool" where
  "fimpgo_ok fg \<longleftrightarrow>
     (\<forall>i s t v p r. carries (fg_NewMessage fg i s t v p r) i s v p r)
   \<and> (\<forall>k i s v p r. carries (fg_New fg k i s v p r) i s v p r)
   \<and> (\<forall>st sub m. fg_WithStorageStrategy fg st sub m = m\<lparr>pl_Storage := Some (st, sub)\<rparr>)"

lemma fimpgo_okD:
  assumes "fimpgo_ok fg"
  shows "carries (fg_NewMessage fg i s t v p r) i s v p r" "carries (fg_New fg k i s v p r) i s v p r"
    "fg_WithStorageStrategy fg st sub m = m\<lparr>pl_Storage := Some (st, sub)\<rparr>"
  using assms unfolding fimpgo_ok_def by blast+

lemma carriesD:
  assumes "carries m i s v p r"
  shows "pl_Interface m = i" "pl_Service m = s" "pl_Value m = v" "pl_Properties m = p" "pl_Storage m = None"
    "r = Some q \<Longrightarrow> pl_CorrelationID m = pl_UID q"
  using assms by (simp_all add: carries_def)

lemma NewMessage_simps [simp]:
  assumes "fimpgo_ok fg"
  shows "pl_Interface (fg_NewMessage fg i s t v p r) = i"
    and "pl_Service (fg_NewMessage fg i s t v p r) = s"
    and "pl_Value (fg_NewMessage fg i s t v p r) = v"
    and "pl_Properties (fg_NewMessage fg i s t v p r) = p"
    and "pl_Storage (fg_NewMessage fg i s t v p r) = None"
    and "pl_CorrelationID (fg_NewMessage fg i s t v p (Some q)) = pl_UID q"
  by (rule carriesD [OF fimpgo_okD(1) [OF assms]], (rule refl)?)+

lemma fg_New_simps [simp]:
  assumes "fimpgo_ok fg"
  shows "pl_Interface (fg_New fg k i s v p r) = i"
    and "pl_Service (fg_New fg k i s v p r) = s"
    and "pl_Value (fg_New fg k i s v p r) = v"
    and "pl_Properties (fg_New fg k i s v p r) = p"
    and "pl_Storage (fg_New fg k i s v p r) = None"
    and "pl_CorrelationID (fg_New fg k i s v p (Some q)) = pl_UID q"
  by (rule carriesD [OF fimpgo_okD(2) [OF assms]], (rule refl)?)+

lemmas WithStorageStrategy_simp [simp] = fimpgo_okD(3)

section \<open>An instance\<close>

text \<open>A library with the documented behaviour, at which the statements can be evaluated.\<close>

definition demo_address :: address where
  "demo_address =
     \<lparr>ad_PayloadType = ''j1'', ad_MsgType = ''cmd'', ad_ResourceType = ''dev'', ad_ResourceName = ''zw'',
      ad_ResourceAddress = ''1'', ad_ServiceName = ''out_bin_switch'', ad_ServiceAddress = ''2_0'',
      ad_GlobalPrefix = ''''\<rparr>"

definition demo_NewMessage ::
  "string \<Rightarrow> string \<Rightarrow> string \<Rightarrow> fimp_value \<Rightarrow> properties \<Rightarrow> fimp_message option \<Rightarrow> fimp_message" where
  "demo_NewMessage i s t v p r =
     \<lparr>pl_Interface = i, pl_Service = s, pl_ValueType = t, pl_Value = v, pl_Properties = p,
      pl_Source = '''', pl_UID = ''uid-1'',
      pl_CorrelationID = (case r of None \<Rightarrow> '''' | Some q \<Rightarrow> pl_UID q), pl_ResponseToTopic = '''',
      pl_Storage = None\<rparr>"

definition demo_fimpgo :: fimpgo where
  "demo_fimpgo =
     \<lparr>fg_NewMessage = demo_NewMessage,
      fg_New = (\<lambda>k i s. demo_NewMessage i s ''any''),
      fg_GetStringValue = (\<lambda>m. case pl_Value m of VString x \<Rightarrow> Inr x | _ \<Rightarrow> Inl (Errorf ''wrong value format'')),
      fg_GetBoolValue = (\<lambda>m. case pl_Value m of VBool x \<Rightarrow> Inr x | _ \<Rightarrow> Inl (Errorf ''wrong value format'')),
      fg_GetIntValue = (\<lambda>m. case pl_Value m of VInt x \<Rightarrow> Inr x | _ \<Rightarrow> Inl (Errorf ''wrong value format'')),
      fg_GetFloatValue = (\<lambda>m. case pl_Value m of VFloat x \<Rightarrow> Inr x | _ \<Rightarrow> Inl (Errorf ''wrong value format'')),
      fg_GetFloatMapValue = (\<lambda>m. case pl_Value m of
        VObject ps \<Rightarrow> Inr (map (\<lambda>(k, v). (k, case v of VFloat x \<Rightarrow> x | _ \<Rightarrow> 0)) ps) | _ \<Rightarrow> Inl (Errorf ''wrong value format'')),
      fg_GetStrMapValue = (\<lambda>m. Inl (Errorf ''wrong value format'')),
      fg_GetIntMapValue = (\<lambda>m. Inl (Errorf ''wrong value format'')),
      fg_GetBoolMapValue = (\<lambda>m. Inl (Errorf ''wrong value format'')),
      fg_GetStrArrayValue = (\<lambda>m. Inl (Errorf ''wrong value format'')),
      fg_IntProperty = (\<lambda>p k. None),
      fg_WithStorageStrategy = (\<lambda>st sub m. m\<lparr>pl_Storage := Some (st, sub)\<rparr>),
      fg_NewAddressFromString =
        (\<lambda>s. if s = '''' then Inl (Errorf ''invalid address'') else Inr (demo_address\<lparr>ad_ResourceName := s\<rparr>)),
      fg_Serialize = map_option ad_ServiceAddress,
      fg_DefaultPayload = ''j1'', fg_MsgTypeCmd = ''cmd'', fg_MsgTypeEvt = ''evt'',
      fg_ResourceTypeDiscovery = ''discovery'', fg_ResourceTypeAdapter = ''ad'',
      fg_ResourceTypeApp = ''app'', fg_ResourceTypeCloud = ''cloud'', fg_ResourceTypeDevice = ''dev'',
      fg_ResourceTypeLocation = ''loc'', fg_VTypeNull = ''null'', fg_VTypeString = ''string'',
      fg_VTypeBool = ''bool'', fg_VTypeInt = ''int'', fg_VTypeFloat = ''float'',
      fg_VTypeObject = ''object'', fg_VTypeStrMap = ''str_map'', fg_VTypeFloatMap = ''float_map'',
      fg_VTypeIntMap = ''int_map'', fg_VTypeBoolMap = ''bool_map'', fg_VTypeStrArray = ''str_array'',
      fg_VTypeIntArray = ''int_array'', fg_VTypeFloatArray = ''float_array'', fg_VTypeBoolArray = ''bool_array'',
      fg_StorageStrategySkip = ''skip'', fg_StorageStrategyAggregate = ''aggregate'',
      fg_StorageStrategySplit = ''split'', fg_TypeIn = ''in'', fg_TypeOut = ''out'',
      fg_EnsureInterfaces = (\<lambda>is s. s\<lparr>sv_Interfaces := sv_Interfaces s @ is\<rparr>),
      fg_PropertyInteger = (\<lambda>s p. case map_of (sv_Props s) p of Some (VInt i) \<Rightarrow> Some i | _ \<Rightarrow> None),
      fg_PropertyStrings = (\<lambda>s p. case map_of (sv_Props s) p of
        Some (VList vs) \<Rightarrow> concat (map (\<lambda>v. case v of VString x \<Rightarrow> [x] | _ \<Rightarrow> []) vs) | _ \<Rightarrow> []),
      fg_PropertyIntegers = (\<lambda>s p. case map_of (sv_Props s) p of
        Some (VList vs) \<Rightarrow> concat (map (\<lambda>v. case v of VInt x \<Rightarrow> [x] | _ \<Rightarrow> []) vs) | _ \<Rightarrow> []),
      fg_PropertyBool = (\<lambda>s p. case map_of (sv_Props s) p of Some (VBool b) \<Rightarrow> b | _ \<Rightarrow> False),
      fg_PropertyFloat = (\<lambda>s p. case map_of (sv_Props s) p of Some (VFloat x) \<Rightarrow> Some x | _ \<Rightarrow> None),
      fg_ParseTime = (\<lambda>s. int (length s)), fg_MsgTypeRsp = ''rsp'', fg_VinculumRn = ''vinculum'',
      fg_BackendServiceRn = ''backend-service'', fg_VinculumService = ''vinculum''\<rparr>"

lemma demo_fimpgo_ok: "fimpgo_ok demo_fimpgo"
  by (simp add: fimpgo_ok_def carries_def demo_fimpgo_def demo_NewMessage_def)

end
