(* ===== verification/Adapter_State.thy ===== *)
theory Adapter_State
  imports Go_Actions Storage Fimp "HOL-Library.Word"
begin

text \<open>
  The persistent state of the adapter, \<^verbatim>\<open>src/adapter/state.go\<close>: the records of the things, the index from
  which addresses are taken, and the proxies through which a thing reads and writes its own record. A
  proxy keeps a pointer to its record, so records live in a heap. The lock of the state is part of the
  model, because a method that takes it while its own goroutine holds it never returns.
\<close>

section \<open>The state\<close>

record thing_state_model =
  tm_ID :: string
  tm_Address :: string
  tm_Info :: string
  tm_State :: string
  tm_InclusionChecksum :: "32 word"

text \<open>
  \<open>as_Things\<close> is the map of the model file, with pointers to the records. \<open>as_saveErr\<close> says how the
  successive saves end, and \<open>as_disk\<close> is what the last successful one wrote.
\<close>

record adapter_state =
  as_AddressIndex :: int
  as_Things :: "(string \<times> nat) list"
  as_heap :: "nat \<Rightarrow> thing_state_model"
  as_next :: nat
  as_wlock :: bool
  as_readers :: nat
  as_saves :: nat
  as_saveErr :: "nat \<Rightarrow> go_error option"
  as_disk :: "int \<times> (string \<times> thing_state_model) list"

type_synonym ('z, 'a) state_act = "('z adapter_state_scheme, 'a) act"

definition state_model :: "'z adapter_state_scheme \<Rightarrow> int \<times> (string \<times> thing_state_model) list" where
  "state_model w = (as_AddressIndex w, map (\<lambda>(id, p). (id, as_heap w p)) (as_Things w))"

definition state_Save :: "('z, unit) state_act" where
  "state_Save w =
     (let w' = w\<lparr>as_saves := Suc (as_saves w)\<rparr>
      in case as_saveErr w (as_saves w) of
           Some e \<Rightarrow> Some (Inl e, w')
         | None \<Rightarrow> Some (Inr (), w'\<lparr>as_disk := state_model w\<rparr>))"

text \<open>\<^verbatim>\<open>Lock\<close> and \<^verbatim>\<open>RLock\<close> with the deferred release; \<open>None\<close> is waiting for a lock that is never released.\<close>

definition with_Lock :: "('z, 'a) state_act \<Rightarrow> ('z, 'a) state_act" where
  "with_Lock m w =
     (if as_wlock w \<or> 0 < as_readers w then None
      else map_option (\<lambda>(r, w'). (r, w'\<lparr>as_wlock := False\<rparr>)) (m (w\<lparr>as_wlock := True\<rparr>)))"

definition with_RLock :: "('z, 'a) state_act \<Rightarrow> ('z, 'a) state_act" where
  "with_RLock m w =
     (if as_wlock w then None
      else map_option (\<lambda>(r, w'). (r, w'\<lparr>as_readers := as_readers w' - 1\<rparr>))
             (m (w\<lparr>as_readers := Suc (as_readers w)\<rparr>)))"

text \<open>\<^verbatim>\<open>NewState\<close> on what was saved: the records are loaded into a new heap.\<close>

definition state_NewState ::
  "int \<times> (string \<times> thing_state_model) list \<Rightarrow> (nat \<Rightarrow> go_error option) \<Rightarrow> adapter_state" where
  "state_NewState disk saveErr =
     (let models = map snd (snd disk)
      in \<lparr>as_AddressIndex = fst disk, as_Things = zip (map fst (snd disk)) [0..<length models],
          as_heap = (\<lambda>p. if p < length models then models ! p
                         else \<lparr>tm_ID = '''', tm_Address = '''', tm_Info = '''', tm_State = '''', tm_InclusionChecksum = 0\<rparr>),
          as_next = length models, as_wlock = False, as_readers = 0, as_saves = 0,
          as_saveErr = saveErr, as_disk = disk\<rparr>)"

definition state_acquireAddress :: "('z, string) state_act" where
  "state_acquireAddress =
     with_Lock
       (act_bind (act_modify (\<lambda>w. w\<lparr>as_AddressIndex := as_AddressIndex w + 1\<rparr>)) (\<lambda>_.
        act_bind (act_wrap ''state: failed to persist address index'' state_Save) (\<lambda>_.
        act_get (\<lambda>w. Itoa (as_AddressIndex w)))))"

definition state_all :: "('z, nat list) state_act" where
  "state_all = with_RLock (act_get (\<lambda>w. map snd (as_Things w)))"

definition state_add :: "thing_state_model \<Rightarrow> ('z, nat) state_act" where
  "state_add model =
     with_Lock
       (act_bind (act_get as_next) (\<lambda>p.
        act_bind (act_modify (\<lambda>w. w\<lparr>as_heap := (as_heap w)(p := model), as_next := Suc p,
                                    as_Things := AList.update (tm_ID model) p (as_Things w)\<rparr>)) (\<lambda>_.
        act_bind (act_wrap (''state: failed to persist state of a thing with ID '' @ tm_ID model) state_Save) (\<lambda>_.
        act_return p))))"

definition state_remove :: "string \<Rightarrow> ('z, unit) state_act" where
  "state_remove i =
     with_Lock
       (act_bind (act_modify (\<lambda>w. w\<lparr>as_Things := AList.delete i (as_Things w)\<rparr>)) (\<lambda>_.
        act_wrap (''state: failed to remove state of a thing with ID '' @ i) state_Save))"

definition state_byID :: "string \<Rightarrow> ('z, nat option) state_act" where
  "state_byID i = with_RLock (act_get (\<lambda>w. map_of (as_Things w) i))"

definition state_lookup_address :: "'z adapter_state_scheme \<Rightarrow> string \<Rightarrow> nat option" where
  "state_lookup_address w address =
     map_option snd (find (\<lambda>(id, p). tm_Address (as_heap w p) = address) (as_Things w))"

definition state_byAddress :: "string \<Rightarrow> ('z, nat option) state_act" where
  "state_byAddress address = with_RLock (act_get (\<lambda>w. state_lookup_address w address))"

section \<open>The proxies\<close>

definition thingState_ID :: "nat \<Rightarrow> ('z, string) state_act" where
  "thingState_ID p = with_RLock (act_get (\<lambda>w. tm_ID (as_heap w p)))"

definition thingState_Address :: "nat \<Rightarrow> ('z, string) state_act" where
  "thingState_Address p = with_RLock (act_get (\<lambda>w. tm_Address (as_heap w p)))"

text \<open>\<^verbatim>\<open>fmt.Errorf\<close> with the id of the thing: the argument \<^verbatim>\<open>s.ID()\<close> takes the lock of the state.\<close>

definition fail_with_ID :: "string \<Rightarrow> nat \<Rightarrow> string \<Rightarrow> go_error \<Rightarrow> ('z, 'a) state_act" where
  "fail_with_ID pre p post e =
     act_bind (thingState_ID p) (\<lambda>id. act_fail (Wrapf (pre @ id @ post) e))"

definition thingState_Info :: "'m json \<Rightarrow> nat \<Rightarrow> 'm \<Rightarrow> ('z, 'm) state_act" where
  "thingState_Info js p model =
     with_RLock
       (act_bind (act_get (\<lambda>w. tm_Info (as_heap w p))) (\<lambda>info.
        if info = '''' then act_return model
        else
          (case js_Unmarshal js info model of
             (model', None) \<Rightarrow> act_return model'
           | (_, Some e) \<Rightarrow>
               fail_with_ID ''thing state: failed to unmarshal info of a thing with ID '' p
                 '' into a provided model'' e)))"

definition thingState_State :: "'m json \<Rightarrow> nat \<Rightarrow> 'm \<Rightarrow> ('z, 'm) state_act" where
  "thingState_State js p model =
     with_RLock
       (act_bind (act_get (\<lambda>w. tm_State (as_heap w p))) (\<lambda>st.
        if st = '''' then act_return model
        else
          (case js_Unmarshal js st model of
             (model', None) \<Rightarrow> act_return model'
           | (_, Some e) \<Rightarrow>
               fail_with_ID ''thing state: failed to unmarshal state of a thing with ID '' p
                 '' into a provided model'' e)))"

definition heap_update :: "nat \<Rightarrow> (thing_state_model \<Rightarrow> thing_state_model) \<Rightarrow> ('z, unit) state_act" where
  "heap_update p f = act_modify (\<lambda>w. w\<lparr>as_heap := (as_heap w)(p := f (as_heap w p))\<rparr>)"

definition thingState_SetState :: "'m json \<Rightarrow> nat \<Rightarrow> 'm \<Rightarrow> ('z, unit) state_act" where
  "thingState_SetState js p model =
     with_Lock
       (case js_Marshal js model of
          Inl e \<Rightarrow>
            fail_with_ID ''thing state: failed to marshal state of a thing with ID '' p '' from a provided model'' e
        | Inr b \<Rightarrow>
            act_bind (heap_update p (\<lambda>m. m\<lparr>tm_State := b\<rparr>)) (\<lambda>_.
            act_bind (act_try state_Save) (\<lambda>r.
            case r of
              Inl e \<Rightarrow> fail_with_ID ''thing state: failed to persist state of a thing with ID '' p '''' e
            | Inr _ \<Rightarrow> act_return ())))"

definition thingState_InclusionChecksum :: "nat \<Rightarrow> ('z, 32 word) state_act" where
  "thingState_InclusionChecksum p = with_RLock (act_get (\<lambda>w. tm_InclusionChecksum (as_heap w p)))"

definition thingState_SetInclusionChecksum :: "nat \<Rightarrow> 32 word \<Rightarrow> ('z, unit) state_act" where
  "thingState_SetInclusionChecksum p checksum =
     with_Lock
       (act_bind (heap_update p (\<lambda>m. m\<lparr>tm_InclusionChecksum := checksum\<rparr>)) (\<lambda>_.
        act_bind (act_try state_Save) (\<lambda>r.
        case r of
          Inl e \<Rightarrow> fail_with_ID ''thing state: failed to persist inclusion checksum of a thing with ID '' p '''' e
        | Inr _ \<Rightarrow> act_return ())))"

section \<open>How the operations run\<close>

definition lock_free :: "'z adapter_state_scheme \<Rightarrow> bool" where
  "lock_free w \<longleftrightarrow> \<not> as_wlock w \<and> as_readers w = 0"

definition saves_fine :: "'z adapter_state_scheme \<Rightarrow> bool" where
  "saves_fine w \<longleftrightarrow> (\<forall>n. as_saveErr w n = None)"

text \<open>A save: the counter, and the disk if it succeeds.\<close>

definition saved :: "'z adapter_state_scheme \<Rightarrow> 'z adapter_state_scheme" where
  "saved w = w\<lparr>as_saves := Suc (as_saves w), as_disk := state_model w\<rparr>"

lemma state_model_lock [simp]:
  "state_model (w\<lparr>as_wlock := b\<rparr>) = state_model w" "state_model (w\<lparr>as_readers := n\<rparr>) = state_model w"
  "state_model (w\<lparr>as_saves := n\<rparr>) = state_model w" "state_model (w\<lparr>as_disk := d\<rparr>) = state_model w"
  by (simp_all add: state_model_def)

lemma with_RLock_get [simp]:
  "lock_free w \<Longrightarrow> with_RLock (act_get f) w = Some (Inr (f (w\<lparr>as_readers := Suc 0\<rparr>)), w)"
  by (cases w) (simp add: with_RLock_def lock_free_def)

lemma readers_run [simp]:
  assumes "lock_free w"
  shows "state_all w = Some (Inr (map snd (as_Things w)), w)"
    and "state_byID i w = Some (Inr (map_of (as_Things w) i), w)"
    and "state_byAddress a w = Some (Inr (state_lookup_address w a), w)"
    and "thingState_ID p w = Some (Inr (tm_ID (as_heap w p)), w)"
    and "thingState_Address p w = Some (Inr (tm_Address (as_heap w p)), w)"
    and "thingState_InclusionChecksum p w = Some (Inr (tm_InclusionChecksum (as_heap w p)), w)"
  using assms
  by (simp_all add: state_all_def state_byID_def state_byAddress_def thingState_ID_def thingState_Address_def
      thingState_InclusionChecksum_def state_lookup_address_def)

lemma acquireAddress_run:
  assumes "lock_free w" "saves_fine w"
  shows "state_acquireAddress w =
    Some (Inr (Itoa (as_AddressIndex w + 1)), saved (w\<lparr>as_AddressIndex := as_AddressIndex w + 1\<rparr>))"
  using assms
  by (cases w) (simp add: state_acquireAddress_def with_Lock_def lock_free_def saves_fine_def state_Save_def saved_def
      state_model_def Let_def act_wrap_def act_bind_def)

lemma add_run:
  assumes "lock_free w" "saves_fine w"
  shows "state_add m w =
    Some (Inr (as_next w),
      saved (w\<lparr>as_heap := (as_heap w)(as_next w := m), as_next := Suc (as_next w),
               as_Things := AList.update (tm_ID m) (as_next w) (as_Things w)\<rparr>))"
  using assms
  by (cases w) (simp add: state_add_def with_Lock_def lock_free_def saves_fine_def state_Save_def saved_def
      state_model_def Let_def act_wrap_def act_bind_def)

lemma remove_run:
  assumes "lock_free w" "saves_fine w"
  shows "state_remove i w = Some (Inr (), saved (w\<lparr>as_Things := AList.delete i (as_Things w)\<rparr>))"
  using assms
  by (cases w) (simp add: state_remove_def with_Lock_def lock_free_def saves_fine_def state_Save_def saved_def
      state_model_def Let_def act_wrap_def act_bind_def)

lemma SetInclusionChecksum_run:
  assumes "lock_free w" "saves_fine w"
  shows "thingState_SetInclusionChecksum p c w =
    Some (Inr (), saved (w\<lparr>as_heap := (as_heap w)(p := (as_heap w p)\<lparr>tm_InclusionChecksum := c\<rparr>)\<rparr>))"
  using assms
  by (cases w) (simp add: thingState_SetInclusionChecksum_def with_Lock_def lock_free_def saves_fine_def
      state_Save_def saved_def state_model_def heap_update_def Let_def act_try_def act_bind_def)

text \<open>While the state is locked for writing, no proxy can read its id.\<close>

lemma thingState_ID_locked: "as_wlock w \<Longrightarrow> thingState_ID p w = None"
  by (simp add: thingState_ID_def with_RLock_def)

lemma fail_with_ID_locked: "as_wlock w \<Longrightarrow> fail_with_ID pre p post e w = None"
  by (simp add: fail_with_ID_def thingState_ID_locked)

section \<open>The invariant\<close>

text \<open>The ids and addresses of the recorded things.\<close>

definition things_view :: "'z adapter_state_scheme \<Rightarrow> (string \<times> string) list" where
  "things_view w = map (\<lambda>(i, p). (i, tm_Address (as_heap w p))) (as_Things w)"

text \<open>
  Ids are distinct and each record has the id it is filed under; no two things share a record or an
  address; and no thing has an address that the index has yet to hand out.
\<close>

definition state_inv :: "'z adapter_state_scheme \<Rightarrow> bool" where
  "state_inv w \<longleftrightarrow>
     amap_ok (as_Things w) \<and> distinct (map snd (as_Things w)) \<and> distinct (map snd (things_view w))
   \<and> (\<forall>(i, p) \<in> set (as_Things w). p < as_next w \<and> tm_ID (as_heap w p) = i)
   \<and> 0 \<le> as_AddressIndex w
   \<and> (\<forall>a \<in> snd ` set (things_view w). \<forall>j > as_AddressIndex w. a \<noteq> Itoa j)
   \<and> lock_free w"

lemma things_view_fst: "map fst (things_view w) = map fst (as_Things w)"
  by (simp add: things_view_def case_prod_unfold comp_def)

lemma things_view_fst_set: "fst ` set (things_view w) = fst ` set (as_Things w)"
  using arg_cong [OF things_view_fst, of set w] by simp

lemma things_view_saved [simp]: "things_view (saved w) = things_view w"
  by (simp add: things_view_def saved_def)

lemma saved_simps [simp]:
  "as_Things (saved w) = as_Things w" "as_heap (saved w) = as_heap w" "as_next (saved w) = as_next w"
  "as_AddressIndex (saved w) = as_AddressIndex w" "as_saveErr (saved w) = as_saveErr w"
  "lock_free (saved w) = lock_free w" "saves_fine (saved w) = saves_fine w"
  "as_disk (saved w) = state_model w"
  by (simp_all add: saved_def lock_free_def saves_fine_def)

lemma state_inv_saved [simp]: "state_inv (saved w) = state_inv w"
  by (simp add: state_inv_def)

lemma state_lookup_address_view:
  assumes "state_inv w" "(i, a) \<in> set (things_view w)"
  shows "\<exists>p. state_lookup_address w a = Some p \<and> map_of (as_Things w) i = Some p \<and> tm_ID (as_heap w p) = i"
proof -
  obtain p where p: "(i, p) \<in> set (as_Things w)" "a = tm_Address (as_heap w p)"
    using assms(2) by (auto simp: things_view_def)
  have inj: "inj_on (\<lambda>(i, p). tm_Address (as_heap w p)) (set (as_Things w))"
    using assms(1) by (auto simp: state_inv_def things_view_def distinct_map comp_def case_prod_unfold
        intro: comp_inj_on_iff [THEN iffD2])
  have "find (\<lambda>(i, p). tm_Address (as_heap w p) = a) (as_Things w) \<noteq> None"
    using p by (auto simp: find_None_iff)
  then obtain i' p' where f: "find (\<lambda>(i, p). tm_Address (as_heap w p) = a) (as_Things w) = Some (i', p')"
    by auto
  then have "(i', p') \<in> set (as_Things w)" "tm_Address (as_heap w p') = a"
    by (auto simp: find_Some_iff dest: nth_mem)
  with p inj have "(i', p') = (i, p)" unfolding inj_on_def by fastforce
  with f p assms(1) show ?thesis
    by (auto simp: state_lookup_address_def state_inv_def amap_mem_lookup [symmetric])
qed

section \<open>Operations on the invariant\<close>

lemma remove_inv:
  assumes "state_inv w"
  shows "state_inv (w\<lparr>as_Things := AList.delete i (as_Things w)\<rparr>)"
    and "things_view (w\<lparr>as_Things := AList.delete i (as_Things w)\<rparr>) = filter (\<lambda>x. fst x \<noteq> i) (things_view w)"
proof -
  show v: "things_view (w\<lparr>as_Things := AList.delete i (as_Things w)\<rparr>) = filter (\<lambda>x. fst x \<noteq> i) (things_view w)"
  proof -
    have "filter (\<lambda>p. i \<noteq> fst p) (as_Things w) = filter (\<lambda>p. fst p \<noteq> i) (as_Things w)"
      by (rule filter_cong) auto
    then show ?thesis
      by (simp add: things_view_def AList.delete_eq filter_map comp_def case_prod_unfold)
  qed
  have "distinct (map snd (filter (\<lambda>x. fst x \<noteq> i) (things_view w)))"
    using assms by (auto simp: state_inv_def intro: distinct_map_filter)
  then show "state_inv (w\<lparr>as_Things := AList.delete i (as_Things w)\<rparr>)"
    using assms v
    by (auto simp: state_inv_def amap_distinct_delete lock_free_def amap_set_delete)
qed

lemma add_inv:
  fixes w :: "'z adapter_state_scheme"
  assumes "state_inv w" "tm_ID m \<notin> fst ` set (things_view w)" "tm_Address m \<notin> snd ` set (things_view w)"
    and "\<forall>j > as_AddressIndex w. tm_Address m \<noteq> Itoa j"
  defines "w' \<equiv> w\<lparr>as_heap := (as_heap w)(as_next w := m), as_next := Suc (as_next w),
               as_Things := AList.update (tm_ID m) (as_next w) (as_Things w)\<rparr>"
  shows "things_view w' = things_view w @ [(tm_ID m, tm_Address m)]" "state_inv w'"
proof -
  have "map_of (as_Things w) (tm_ID m) = None"
    using assms(2) by (simp add: things_view_fst_set map_of_eq_None_iff)
  then have ts: "as_Things w' = as_Things w @ [(tm_ID m, as_next w)]"
    by (simp add: w'_def amap_update_new)
  have old: "as_heap w' p = as_heap w p" if "(i, p) \<in> set (as_Things w)" for i p
    using that assms(1) by (auto simp: w'_def state_inv_def)
  have new: "as_heap w' (as_next w) = m" by (simp add: w'_def)
  show v: "things_view w' = things_view w @ [(tm_ID m, tm_Address m)]"
    using old by (auto simp: things_view_def ts new)
  have "map_of (as_Things w) (tm_ID m) = None \<Longrightarrow> amap_ok (as_Things w')"
    using assms(1) by (auto simp: ts amap_ok_def state_inv_def map_of_eq_None_iff)
  moreover have "as_next w \<notin> snd ` set (as_Things w)"
    using assms(1) by (auto simp: state_inv_def)
  moreover have "\<forall>(i, p) \<in> set (as_Things w'). p < as_next w' \<and> tm_ID (as_heap w' p) = i"
  proof -
    have "as_next w' = Suc (as_next w)" by (simp add: w'_def)
    moreover have "\<forall>(i, p) \<in> set (as_Things w). p < as_next w \<and> tm_ID (as_heap w' p) = i"
      using assms(1) old by (auto simp: state_inv_def)
    ultimately show ?thesis using new unfolding ts by auto
  qed
  moreover have "as_AddressIndex w' = as_AddressIndex w" "lock_free w' = lock_free w"
    by (simp_all add: w'_def lock_free_def)
  ultimately show "state_inv w'"
    using assms(1,3,4) \<open>map_of (as_Things w) (tm_ID m) = None\<close>
    unfolding state_inv_def v by (auto simp: ts)
qed

lemma acquire_inv:
  assumes "state_inv w"
  shows "state_inv (w\<lparr>as_AddressIndex := as_AddressIndex w + 1\<rparr>)"
    and "Itoa (as_AddressIndex w + 1) \<notin> snd ` set (things_view w)"
    and "things_view (w\<lparr>as_AddressIndex := as_AddressIndex w + 1\<rparr>) = things_view w"
proof -
  show v: "things_view (w\<lparr>as_AddressIndex := as_AddressIndex w + 1\<rparr>) = things_view w"
    by (simp add: things_view_def)
  then show "state_inv (w\<lparr>as_AddressIndex := as_AddressIndex w + 1\<rparr>)"
    using assms by (simp add: state_inv_def lock_free_def)
  show "Itoa (as_AddressIndex w + 1) \<notin> snd ` set (things_view w)"
  proof -
    have "\<forall>a \<in> snd ` set (things_view w). \<forall>j > as_AddressIndex w. a \<noteq> Itoa j"
      using assms by (simp add: state_inv_def)
    moreover have "as_AddressIndex w < as_AddressIndex w + 1" by simp
    ultimately show ?thesis by blast
  qed
qed

lemma checksum_inv:
  fixes w :: "'z adapter_state_scheme"
  defines "w' c p \<equiv> w\<lparr>as_heap := (as_heap w)(p := (as_heap w p)\<lparr>tm_InclusionChecksum := c\<rparr>)\<rparr>"
  shows "things_view (w' c p) = things_view w" "state_inv (w' c p) = state_inv w"
proof -
  show v: "things_view (w' c p) = things_view w"
    by (simp add: things_view_def w'_def case_prod_unfold)
  have ids: "tm_ID (as_heap (w' c p) q) = tm_ID (as_heap w q)" for q by (simp add: w'_def)
  have rest: "as_Things (w' c p) = as_Things w" "as_next (w' c p) = as_next w"
    "as_AddressIndex (w' c p) = as_AddressIndex w" "lock_free (w' c p) = lock_free w"
    by (simp_all add: w'_def lock_free_def)
  show "state_inv (w' c p) = state_inv w"
    unfolding state_inv_def v ids rest ..
qed

text \<open>The records survive a restart: what the last save wrote is what a new state loads.\<close>

lemma restart_model: "state_model (state_NewState disk f) = disk"
  by (cases disk)
    (auto simp: state_model_def state_NewState_def Let_def zip_map1 map_nth intro!: nth_equalityI)

section \<open>Properties\<close>

text \<open>
  C26. A failed save of the inclusion checksum or of the state of a thing never returns: the method holds
  the lock of the adapter state, and the error message asks the proxy for the id of the thing, which
  waits for that same lock. So does a state that cannot be marshalled.
\<close>
theorem failed_save_never_returns:
  assumes "lock_free w" "as_saveErr w (as_saves w) = Some e"
  shows "thingState_SetInclusionChecksum p c w = None \<and> thingState_SetState js p m w = None"
  using assms
  by (auto simp: thingState_SetInclusionChecksum_def thingState_SetState_def with_Lock_def lock_free_def
      state_Save_def heap_update_def Let_def fail_with_ID_locked split: sum.split)

text \<open>A state with one thing, whose disk is full.\<close>

definition demo_state :: "(nat \<Rightarrow> go_error option) \<Rightarrow> adapter_state" where
  "demo_state saveErr =
     state_NewState (1, [(''a'', \<lparr>tm_ID = ''a'', tm_Address = ''1'', tm_Info = '''', tm_State = '''', tm_InclusionChecksum = 0\<rparr>)])
       saveErr"

theorem failed_save_never_returns_witness:
  "thingState_SetInclusionChecksum 0 7 (demo_state (\<lambda>_. Some (Errorf ''no space left on device''))) = None
   \<and> thingState_SetState demo_json 0 True (demo_state (\<lambda>_. Some (Errorf ''no space left on device''))) = None"
  by (rule failed_save_never_returns) (simp_all add: demo_state_def state_NewState_def lock_free_def Let_def)

end
