(* ===== verification/Router.thy ===== *)
theory Router
  imports Fimp Tasks
begin

text \<open>
  The message router of \<^verbatim>\<open>src/router\<close>: topic patterns, voters and routings, the message handler with its
  options and lock, and the router that offers each received message to every routing and publishes
  the replies.
\<close>

section \<open>Topic patterns (\<^verbatim>\<open>pattern.go\<close>)\<close>

record TopicPattern =
  tp_PayloadType :: string
  tp_MessageType :: string
  tp_ResourceType :: string
  tp_ResourceName :: string
  tp_ResourceAddress :: string
  tp_ServiceName :: string
  tp_ServiceAddress :: string

text \<open>\<^verbatim>\<open>pt\<close>, \<^verbatim>\<open>mt\<close>, \<^verbatim>\<open>rt\<close>, \<^verbatim>\<open>rn\<close>, \<^verbatim>\<open>ra\<close>, \<^verbatim>\<open>sv\<close> and \<^verbatim>\<open>sa\<close> differ in their prefix only.\<close>

definition tp_level :: "string \<Rightarrow> string \<Rightarrow> string" where
  "tp_level pre field = (if field = '''' then ''+'' else pre @ field)"

definition tp_pt :: "TopicPattern \<Rightarrow> string" where "tp_pt tp = tp_level ''pt:'' (tp_PayloadType tp)"
definition tp_mt :: "TopicPattern \<Rightarrow> string" where "tp_mt tp = tp_level ''mt:'' (tp_MessageType tp)"
definition tp_rt :: "TopicPattern \<Rightarrow> string" where "tp_rt tp = tp_level ''rt:'' (tp_ResourceType tp)"
definition tp_rn :: "TopicPattern \<Rightarrow> string" where "tp_rn tp = tp_level ''rn:'' (tp_ResourceName tp)"
definition tp_ra :: "TopicPattern \<Rightarrow> string" where "tp_ra tp = tp_level ''ad:'' (tp_ResourceAddress tp)"
definition tp_sv :: "TopicPattern \<Rightarrow> string" where "tp_sv tp = tp_level ''sv:'' (tp_ServiceName tp)"
definition tp_sa :: "TopicPattern \<Rightarrow> string" where "tp_sa tp = tp_level ''ad:'' (tp_ServiceAddress tp)"

definition TopicPattern_String :: "fimpgo \<Rightarrow> TopicPattern \<Rightarrow> string" where
  "TopicPattern_String fg tp =
     (if tp_ResourceType tp = fg_ResourceTypeDiscovery fg
      then strings_Join ''/'' [tp_pt tp, tp_mt tp, tp_rt tp]
      else if tp_ResourceType tp \<in> {fg_ResourceTypeAdapter fg, fg_ResourceTypeApp fg, fg_ResourceTypeCloud fg}
      then strings_Join ''/'' [tp_pt tp, tp_mt tp, tp_rt tp, tp_rn tp, tp_ra tp]
      else strings_Join ''/'' [tp_pt tp, tp_mt tp, tp_rt tp, tp_rn tp, tp_ra tp, tp_sv tp, tp_sa tp])"

definition TopicPatternAdapter :: "fimpgo \<Rightarrow> string \<Rightarrow> string \<Rightarrow> string" where
  "TopicPatternAdapter fg resourceName msgType =
     TopicPattern_String fg
       \<lparr>tp_PayloadType = fg_DefaultPayload fg, tp_MessageType = msgType,
        tp_ResourceType = fg_ResourceTypeAdapter fg, tp_ResourceName = resourceName,
        tp_ResourceAddress = ''1'', tp_ServiceName = '''', tp_ServiceAddress = ''''\<rparr>"

definition TopicPatternDevice :: "fimpgo \<Rightarrow> string \<Rightarrow> string \<Rightarrow> string" where
  "TopicPatternDevice fg resourceName msgType =
     TopicPattern_String fg
       \<lparr>tp_PayloadType = fg_DefaultPayload fg, tp_MessageType = msgType,
        tp_ResourceType = fg_ResourceTypeDevice fg, tp_ResourceName = resourceName,
        tp_ResourceAddress = ''1'', tp_ServiceName = '''', tp_ServiceAddress = ''''\<rparr>"

definition TopicPatternDeviceService :: "fimpgo \<Rightarrow> string \<Rightarrow> string \<Rightarrow> string" where
  "TopicPatternDeviceService fg serviceName msgType =
     TopicPattern_String fg
       \<lparr>tp_PayloadType = fg_DefaultPayload fg, tp_MessageType = msgType,
        tp_ResourceType = fg_ResourceTypeDevice fg, tp_ResourceName = '''',
        tp_ResourceAddress = '''', tp_ServiceName = serviceName, tp_ServiceAddress = ''''\<rparr>"

definition TopicPatternApplication :: "fimpgo \<Rightarrow> string \<Rightarrow> string \<Rightarrow> string" where
  "TopicPatternApplication fg resourceName msgType =
     TopicPattern_String fg
       \<lparr>tp_PayloadType = fg_DefaultPayload fg, tp_MessageType = msgType,
        tp_ResourceType = fg_ResourceTypeApp fg, tp_ResourceName = resourceName,
        tp_ResourceAddress = ''1'', tp_ServiceName = '''', tp_ServiceAddress = ''''\<rparr>"

definition TopicPatternRoomService :: "fimpgo \<Rightarrow> string \<Rightarrow> string \<Rightarrow> string" where
  "TopicPatternRoomService fg serviceName msgType =
     TopicPattern_String fg
       \<lparr>tp_PayloadType = fg_DefaultPayload fg, tp_MessageType = msgType,
        tp_ResourceType = fg_ResourceTypeLocation fg, tp_ResourceName = ''room'',
        tp_ResourceAddress = '''', tp_ServiceName = serviceName, tp_ServiceAddress = ''''\<rparr>"

definition CombineTopicPatterns :: "string list list \<Rightarrow> string list" where
  "CombineTopicPatterns patterns = foldl (@) [] patterns"

section \<open>Voters (\<^verbatim>\<open>voter.go\<close>)\<close>

type_synonym voter = "message \<Rightarrow> bool"

fun router_Or :: "voter list \<Rightarrow> voter" where
  "router_Or [] m = False"
| "router_Or (v # vs) m = (if v m then True else router_Or vs m)"

definition router_Not :: "voter \<Rightarrow> voter" where
  "router_Not v m \<longleftrightarrow> \<not> v m"

definition ForTopic :: "string \<Rightarrow> voter" where
  "ForTopic topic m \<longleftrightarrow> ms_Topic m = topic"

definition ForMessageType :: "string \<Rightarrow> voter" where
  "ForMessageType messageType m \<longleftrightarrow> ad_MsgType (ms_Addr m) = messageType"

definition ForResourceType :: "string \<Rightarrow> voter" where
  "ForResourceType resourceType m \<longleftrightarrow> ad_ResourceType (ms_Addr m) = resourceType"

definition ForResourceName :: "string \<Rightarrow> voter" where
  "ForResourceName resourceName m \<longleftrightarrow> ad_ResourceName (ms_Addr m) = resourceName"

definition ForService :: "string \<Rightarrow> voter" where
  "ForService service m \<longleftrightarrow> pl_Service (ms_Payload m) = service"

definition ForServicePrefix :: "string \<Rightarrow> voter" where
  "ForServicePrefix pre m \<longleftrightarrow> take (length pre) (pl_Service (ms_Payload m)) = pre"

definition ForType :: "string \<Rightarrow> voter" where
  "ForType messageType m \<longleftrightarrow> pl_Interface (ms_Payload m) = messageType"

definition ForSource :: "string \<Rightarrow> voter" where
  "ForSource source m \<longleftrightarrow> pl_Source (ms_Payload m) = source"

definition ForServiceAndType :: "string \<Rightarrow> string \<Rightarrow> voter" where
  "ForServiceAndType service messageType m \<longleftrightarrow> ForService service m \<and> ForType messageType m"

definition ForProperty :: "string \<Rightarrow> string \<Rightarrow> voter" where
  "ForProperty propertyName propertyValue m =
     (case map_of (pl_Properties (ms_Payload m)) propertyName of
        None \<Rightarrow> False
      | Some v \<Rightarrow> v = propertyValue)"

section \<open>Routings (\<^verbatim>\<open>routing.go\<close>)\<close>

definition EvtSuccessReport :: string where "EvtSuccessReport = ''evt.success.report''"
definition EvtErrorReport :: string where "EvtErrorReport = ''evt.error.report''"
definition PropertyMsg :: string where "PropertyMsg = ''msg''"
definition PropertyCmdTopic :: string where "PropertyCmdTopic = ''cmd_topic''"
definition PropertyCmdService :: string where "PropertyCmdService = ''cmd_service''"
definition PropertyCmdType :: string where "PropertyCmdType = ''cmd_type''"

text \<open>
  A handler acts on the state of the application, held by the locks and the part \<open>'s\<close>. It returns a
  reply or nil; \<open>None\<close> is a panic, with the state as the panic leaves it.
\<close>

record 's rstate =
  rs_locked :: "nat \<Rightarrow> bool"     \<comment> \<open>\<^verbatim>\<open>isLocked\<close> of each message handler locker\<close>
  rs_app :: 's

type_synonym 's handler_fn = "message \<Rightarrow> 's rstate \<Rightarrow> 's rstate \<times> reply option option"

record 's routing =
  rt_handler :: "'s handler_fn option"
  rt_voters :: "voter list"

definition NewRouting :: "'s handler_fn option \<Rightarrow> voter list \<Rightarrow> 's routing" where
  "NewRouting handler voters = \<lparr>rt_handler = handler, rt_voters = voters\<rparr>"

definition routing_Wrap :: "'s routing \<Rightarrow> voter list \<Rightarrow> 's routing" where
  "routing_Wrap r voters = NewRouting (rt_handler r) (voters @ rt_voters r)"

fun vote_loop :: "voter list \<Rightarrow> message \<Rightarrow> bool" where
  "vote_loop [] m = True"
| "vote_loop (v # vs) m = (if \<not> v m then False else vote_loop vs m)"

definition routing_vote :: "'s routing \<Rightarrow> message \<Rightarrow> bool" where
  "routing_vote r m = vote_loop (rt_voters r) m"

text \<open>\<^verbatim>\<open>Combine\<close> takes single routings or slices of them.\<close>

datatype 's routing_part = OneRouting "'s routing" | ManyRoutings "'s routing list"

fun router_Combine :: "'s routing_part list \<Rightarrow> 's routing list" where
  "router_Combine [] = []"
| "router_Combine (OneRouting r # ps) = r # router_Combine ps"
| "router_Combine (ManyRoutings rs # ps) = rs @ router_Combine ps"

lemma routing_vote_iff: "routing_vote r m \<longleftrightarrow> (\<forall>v \<in> set (rt_voters r). v m)"
proof -
  have "vote_loop vs m \<longleftrightarrow> (\<forall>v \<in> set vs. v m)" for vs by (induction vs) auto
  then show ?thesis by (simp add: routing_vote_def)
qed

lemma router_Or_iff: "router_Or vs m \<longleftrightarrow> (\<exists>v \<in> set vs. v m)"
  by (induction vs) auto

lemma routing_Wrap_vote [simp]:
  "routing_vote (routing_Wrap r vs) m \<longleftrightarrow> (\<forall>v \<in> set vs. v m) \<and> routing_vote r m"
  by (auto simp: routing_vote_iff routing_Wrap_def NewRouting_def)

section \<open>The message handler (\<^verbatim>\<open>handler.go\<close>)\<close>

text \<open>The lockers are numbered; each number is one \<^verbatim>\<open>messageProcessorLocker\<close>.\<close>

definition locker_Lock :: "nat \<Rightarrow> 's rstate \<Rightarrow> bool \<times> 's rstate" where
  "locker_Lock k s =
     (if rs_locked s k then (False, s) else (True, s\<lparr>rs_locked := (rs_locked s)(k := True)\<rparr>))"

definition locker_Unlock :: "nat \<Rightarrow> 's rstate \<Rightarrow> 's rstate" where
  "locker_Unlock k s = s\<lparr>rs_locked := (rs_locked s)(k := False)\<rparr>"

text \<open>
  A processor acts on the state of the application, not on the lockers. It returns a payload or nil,
  or an error; \<open>None\<close> is a panic.
\<close>

type_synonym 's processor_fn = "message \<Rightarrow> 's \<Rightarrow> 's \<times> fimp_message option result option"

record 's message_handler =
  mh_processor :: "'s processor_fn"
  mh_defaultAddress :: "address option"
  mh_silentErrors :: bool
  mh_confirmSuccess :: bool
  mh_locker :: "nat option"

type_synonym 's handler_option = "'s message_handler \<Rightarrow> 's message_handler"

definition WithSilentErrors :: "'s handler_option" where
  "WithSilentErrors h = h\<lparr>mh_silentErrors := True\<rparr>"

definition WithDefaultAddress :: "address \<Rightarrow> 's handler_option" where
  "WithDefaultAddress a h = h\<lparr>mh_defaultAddress := Some a\<rparr>"

definition WithExternalLock :: "nat \<Rightarrow> 's handler_option" where
  "WithExternalLock k h = h\<lparr>mh_locker := Some k\<rparr>"

text \<open>\<^verbatim>\<open>WithLock\<close> makes a new locker, whose number is the argument.\<close>

definition WithLock :: "nat \<Rightarrow> 's handler_option" where
  "WithLock fresh h = h\<lparr>mh_locker := Some fresh\<rparr>"

definition WithSuccessConfirmation :: "'s handler_option" where
  "WithSuccessConfirmation h = h\<lparr>mh_confirmSuccess := True\<rparr>"

definition NewMessageHandler :: "'s processor_fn \<Rightarrow> 's handler_option list \<Rightarrow> 's message_handler" where
  "NewMessageHandler processor options =
     foldl (\<lambda>h opt. opt h)
       \<lparr>mh_processor = processor, mh_defaultAddress = None, mh_silentErrors = False,
        mh_confirmSuccess = False, mh_locker = None\<rparr> options"

definition handler_getResponseAddress :: "fimpgo \<Rightarrow> 's message_handler \<Rightarrow> address \<Rightarrow> address" where
  "handler_getResponseAddress fg m requestAddress =
     (let a = (case mh_defaultAddress m of None \<Rightarrow> requestAddress | Some d \<Rightarrow> d)
      in \<lparr>ad_PayloadType = ad_PayloadType a, ad_MsgType = fg_MsgTypeEvt fg,
          ad_ResourceType = ad_ResourceType a, ad_ResourceName = ad_ResourceName a,
          ad_ResourceAddress = ad_ResourceAddress a, ad_ServiceName = ad_ServiceName a,
          ad_ServiceAddress = ad_ServiceAddress a, ad_GlobalPrefix = ''''\<rparr>)"

definition handler_handleReply ::
  "fimpgo \<Rightarrow> 's message_handler \<Rightarrow> message \<Rightarrow> fimp_message option \<Rightarrow> reply option" where
  "handler_handleReply fg m request reply =
     (case reply of
        None \<Rightarrow>
          if \<not> mh_confirmSuccess m then None
          else Some
            \<lparr>re_Addr = Some (handler_getResponseAddress fg m (ms_Addr request)),
             re_Payload = Some (fg_NewMessage fg EvtSuccessReport (pl_Service (ms_Payload request))
               (fg_VTypeNull fg) VNull
               [(PropertyCmdTopic, ms_Topic request),
                (PropertyCmdService, pl_Service (ms_Payload request)),
                (PropertyCmdType, pl_Interface (ms_Payload request))]
               (Some (ms_Payload request)))\<rparr>
      | Some p \<Rightarrow>
          Some \<lparr>re_Addr = Some (handler_getResponseAddress fg m (ms_Addr request)),
                re_Payload = Some p\<rparr>)"

definition handler_handleError ::
  "fimpgo \<Rightarrow> 's message_handler \<Rightarrow> message \<Rightarrow> go_error \<Rightarrow> reply option" where
  "handler_handleError fg m request err =
     (if mh_silentErrors m then None
      else
        let addr = handler_getResponseAddress fg m (ms_Addr request);
            payload = fg_NewMessage fg EvtErrorReport (pl_Service (ms_Payload request))
               (fg_VTypeString fg) (VString ''failed to process incoming message'')
               [(PropertyMsg, Error err),
                (PropertyCmdTopic, ms_Topic request),
                (PropertyCmdService, pl_Service (ms_Payload request)),
                (PropertyCmdType, pl_Interface (ms_Payload request))]
               (Some (ms_Payload request))
        in Some \<lparr>re_Addr = Some addr,
                 re_Payload = Some
                   (if ad_ResourceType addr = fg_ResourceTypeDevice fg \<and> pl_Storage payload = None
                    then fg_WithStorageStrategy fg (fg_StorageStrategySkip fg) '''' payload
                    else payload)\<rparr>)"

text \<open>
  \<^verbatim>\<open>Handle\<close>, in the parts between which other goroutines can run: taking the lock, the processor, and
  the deferred release of the lock, which also runs when the processor panics.
\<close>

definition handler_enter :: "'s message_handler \<Rightarrow> 's rstate \<Rightarrow> bool \<times> 's rstate" where
  "handler_enter m s = (case mh_locker m of None \<Rightarrow> (True, s) | Some k \<Rightarrow> locker_Lock k s)"

definition handler_leave :: "'s message_handler \<Rightarrow> 's rstate \<Rightarrow> 's rstate" where
  "handler_leave m s = (case mh_locker m of None \<Rightarrow> s | Some k \<Rightarrow> locker_Unlock k s)"

definition handler_Handle :: "fimpgo \<Rightarrow> 's message_handler \<Rightarrow> 's handler_fn" where
  "handler_Handle fg m msg s =
     (let (entered, s1) = handler_enter m s
      in if \<not> entered
         then (s1, Some (handler_handleError fg m msg
                 (Errorf ''another operation is already running, skipping message'')))
         else
           let (app, r) = mh_processor m msg (rs_app s1)
           in (handler_leave m (s1\<lparr>rs_app := app\<rparr>),
               case r of
                 None \<Rightarrow> None
               | Some (Inl err) \<Rightarrow> Some (handler_handleError fg m msg err)
               | Some (Inr reply) \<Rightarrow> Some (handler_handleReply fg m msg reply)))"

section \<open>The router (\<^verbatim>\<open>router.go\<close>)\<close>

text \<open>The callbacks of the configuration only observe, so it holds whether they are set.\<close>

record router_config =
  cf_buffer :: int
  cf_concurrency :: int
  cf_preserveGlobalPrefix :: bool
  cf_panicCallback :: bool
  cf_statsCallback :: bool

definition router_defaultConfig :: router_config where
  "router_defaultConfig =
     \<lparr>cf_buffer = 10, cf_concurrency = 5, cf_preserveGlobalPrefix = False,
      cf_panicCallback = False, cf_statsCallback = False\<rparr>"

datatype router_option =
    WithSyncProcessing
  | WithAsyncProcessing int
  | WithMessageBuffer int
  | WithPreservedGlobalPrefix
  | WithPanicCallback
  | WithStatsCallback

fun router_option_apply :: "router_option \<Rightarrow> router_config \<Rightarrow> router_config" where
  "router_option_apply WithSyncProcessing cfg = cfg\<lparr>cf_concurrency := 1\<rparr>"
| "router_option_apply (WithAsyncProcessing concurrency) cfg =
     (if concurrency < 2 then cfg else cfg\<lparr>cf_concurrency := concurrency\<rparr>)"
| "router_option_apply (WithMessageBuffer buffer) cfg =
     (if buffer < 0 then cfg else cfg\<lparr>cf_buffer := buffer\<rparr>)"
| "router_option_apply WithPreservedGlobalPrefix cfg = cfg\<lparr>cf_preserveGlobalPrefix := True\<rparr>"
| "router_option_apply WithPanicCallback cfg = cfg\<lparr>cf_panicCallback := True\<rparr>"
| "router_option_apply WithStatsCallback cfg = cfg\<lparr>cf_statsCallback := True\<rparr>"

record Stats =
  st_InputMessage :: message
  st_OutputMessage :: "reply option"
  st_ProcessingDuration :: duration

text \<open>
  What processing messages acts on: the state of the application, and the outside, which sees the
  messages published and the calls of the two callbacks.
\<close>

record 's router_env =
  en_state :: "'s rstate"
  en_published :: "(address \<times> fimp_message) list"
  en_stats :: "Stats list"
  en_panics :: "message list"

text \<open>What the transport offers: \<^verbatim>\<open>Publish\<close>, which may fail. \<^verbatim>\<open>time.Now\<close> is read from the state.\<close>

record 's transport =
  tr_fimpgo :: fimpgo
  tr_Publish :: "address \<Rightarrow> fimp_message \<Rightarrow> go_error option"
  tr_Now :: "'s rstate \<Rightarrow> time"

definition handleProcessingPanic :: "router_config \<Rightarrow> message \<Rightarrow> 's router_env \<Rightarrow> 's router_env" where
  "handleProcessingPanic cfg msg env =
     (if cf_panicCallback cfg then env\<lparr>en_panics := en_panics env @ [msg]\<rparr> else env)"

text \<open>
  \<^verbatim>\<open>getResponseAddress\<close> returns the address and, because it may write the global prefix into the reply's
  own address, the reply.
\<close>

definition router_getResponseAddress ::
  "fimpgo \<Rightarrow> router_config \<Rightarrow> message \<Rightarrow> reply \<Rightarrow> (address \<times> reply) option" where
  "router_getResponseAddress fg cfg msg response =
     (if pl_ResponseToTopic (ms_Payload msg) = '''' \<and> re_Addr response = None then None
      else if pl_ResponseToTopic (ms_Payload msg) \<noteq> '''' then
        (case fg_NewAddressFromString fg (pl_ResponseToTopic (ms_Payload msg)) of
           Inl _ \<Rightarrow> None
         | Inr a \<Rightarrow>
             Some (if cf_preserveGlobalPrefix cfg
                   then a\<lparr>ad_GlobalPrefix := ad_GlobalPrefix (ms_Addr msg)\<rparr> else a, response))
      else
        (case re_Addr response of
           None \<Rightarrow> None
         | Some a \<Rightarrow>
             if cf_preserveGlobalPrefix cfg
             then (let a' = a\<lparr>ad_GlobalPrefix := ad_GlobalPrefix (ms_Addr msg)\<rparr>
                   in Some (a', response\<lparr>re_Addr := Some a'\<rparr>))
             else Some (a, response)))"

text \<open>
  The part of \<^verbatim>\<open>processMessage\<close> after the handler: the environment, the reply as the deferred statistics
  callback sees it, and whether the code panicked (on a reply without payload, or on logging a failed
  publication whose reply has no address).
\<close>

definition router_correlate :: "message \<Rightarrow> fimp_message \<Rightarrow> fimp_message" where
  "router_correlate msg p =
     (if pl_CorrelationID p = '''' then p\<lparr>pl_CorrelationID := pl_UID (ms_Payload msg)\<rparr> else p)"

definition router_respond ::
  "'s transport \<Rightarrow> router_config \<Rightarrow> message \<Rightarrow> reply option \<Rightarrow> 's router_env
   \<Rightarrow> 's router_env \<times> reply option \<times> bool" where
  "router_respond tr cfg msg response env =
     (case response of
        None \<Rightarrow> (env, None, False)
      | Some resp \<Rightarrow>
          (case router_getResponseAddress (tr_fimpgo tr) cfg msg resp of
             None \<Rightarrow> (env, Some resp, False)
           | Some (addr, resp1) \<Rightarrow>
               (case re_Payload resp1 of
                  None \<Rightarrow> (env, Some resp1, True)
                | Some p \<Rightarrow>
                    let p1 = router_correlate msg p;
                        resp2 = resp1\<lparr>re_Payload := Some p1\<rparr>
                    in (case tr_Publish tr addr p1 of
                          None \<Rightarrow> (env\<lparr>en_published := en_published env @ [(addr, p1)]\<rparr>, Some resp2, False)
                        | Some err \<Rightarrow>
                            (env, Some resp2, fg_Serialize (tr_fimpgo tr) (re_Addr resp2) = None)))))"

definition router_stats ::
  "router_config \<Rightarrow> message \<Rightarrow> reply option \<Rightarrow> duration \<Rightarrow> 's router_env \<Rightarrow> 's router_env" where
  "router_stats cfg msg response elapsed env =
     (if cf_statsCallback cfg
      then env\<lparr>en_stats := en_stats env @
             [\<lparr>st_InputMessage = msg, st_OutputMessage = response, st_ProcessingDuration = elapsed\<rparr>]\<rparr>
      else env)"

definition processMessage ::
  "'s transport \<Rightarrow> router_config \<Rightarrow> 's routing \<Rightarrow> message \<Rightarrow> 's router_env \<Rightarrow> 's router_env" where
  "processMessage tr cfg routing msg env =
     (if \<not> routing_vote routing msg then env
      else
        case rt_handler routing of
          None \<Rightarrow> env
        | Some h \<Rightarrow>
            let startTime = tr_Now tr (en_state env);
                (s, out) = h msg (en_state env);
                env1 = env\<lparr>en_state := s\<rparr>
            in (case out of
                  None \<Rightarrow> handleProcessingPanic cfg msg env1
                | Some response \<Rightarrow>
                    let elapsed = time_since (tr_Now tr s) startTime;
                        (env2, response2, panicked) = router_respond tr cfg msg response env1;
                        env3 = router_stats cfg msg response2 elapsed env2
                    in if panicked then handleProcessingPanic cfg msg env3 else env3))"

text \<open>The body of the loop of \<^verbatim>\<open>routeMessages\<close>: every routing is offered the message.\<close>

definition route_message ::
  "'s transport \<Rightarrow> router_config \<Rightarrow> 's routing list \<Rightarrow> 's router_env \<Rightarrow> message \<Rightarrow> 's router_env" where
  "route_message tr cfg routings env msg =
     foldl (\<lambda>e r. processMessage tr cfg r msg e) env routings"

text \<open>
  A worker goroutine waits in its \<^verbatim>\<open>select\<close> or is offering a message to the routings that remain. The
  messages in the channel that was registered with the transport are \<open>ro_messageCh\<close>.
\<close>

datatype 's router_worker = WSelect | WRouting message "'s routing list"

record 's router =
  ro_cfg :: router_config
  ro_channelID :: string
  ro_routing :: "'s routing list"
  ro_stopCh :: stop_chan
  ro_wg :: nat
  ro_registered :: bool
  ro_messageCh :: "message list"
  ro_workers :: "'s router_worker list"

definition NewRouter :: "string \<Rightarrow> 's routing list \<Rightarrow> 's router" where
  "NewRouter channelID routing =
     \<lparr>ro_cfg = router_defaultConfig, ro_channelID = channelID, ro_routing = routing, ro_stopCh = NoStopCh,
      ro_wg = 0, ro_registered = False, ro_messageCh = [], ro_workers = []\<rparr>"

definition router_WithOptions :: "router_option list \<Rightarrow> 's router \<Rightarrow> 's router" where
  "router_WithOptions options r = r\<lparr>ro_cfg := foldl (\<lambda>c opt. router_option_apply opt c) (ro_cfg r) options\<rparr>"

definition router_Start :: "'s router \<Rightarrow> 's router result" where
  "router_Start r =
     (if ro_stopCh r \<noteq> NoStopCh
      then Inl (Errorf ''message router: cannot be started as it is already running'')
      else Inr (r\<lparr>ro_stopCh := OpenStopCh, ro_messageCh := [], ro_registered := True,
                  ro_wg := ro_wg r + nat (cf_concurrency (ro_cfg r)),
                  ro_workers := ro_workers r @ replicate (nat (cf_concurrency (ro_cfg r))) WSelect\<rparr>))"

definition router_Stop_close :: "'s router \<Rightarrow> 's router result" where
  "router_Stop_close r =
     (if ro_stopCh r = NoStopCh
      then Inl (Errorf ''message router: cannot be stopped as it is already not running'')
      else Inr (r\<lparr>ro_registered := False, ro_stopCh := ClosedStopCh\<rparr>))"

definition router_Stop_return :: "'s router \<Rightarrow> 's router option" where
  "router_Stop_return r = (if ro_wg r = 0 then Some (r\<lparr>ro_stopCh := NoStopCh\<rparr>) else None)"

inductive router_step ::
  "'s transport \<Rightarrow> 's router \<times> 's router_env \<Rightarrow> 's router \<times> 's router_env \<Rightarrow> bool" for tr where
  recv: "ro_workers r = ws1 @ WSelect # ws2 \<Longrightarrow> ro_messageCh r = msg # msgs \<Longrightarrow>
    router_step tr (r, env)
      (r\<lparr>ro_messageCh := msgs, ro_workers := ws1 @ WRouting msg (ro_routing r) # ws2\<rparr>, env)"
| process: "ro_workers r = ws1 @ WRouting msg (rt # rts) # ws2 \<Longrightarrow>
    router_step tr (r, env)
      (r\<lparr>ro_workers := ws1 @ WRouting msg rts # ws2\<rparr>, processMessage tr (ro_cfg r) rt msg env)"
| finish: "ro_workers r = ws1 @ WRouting msg [] # ws2 \<Longrightarrow>
    router_step tr (r, env) (r\<lparr>ro_workers := ws1 @ WSelect # ws2\<rparr>, env)"
| stop: "ro_workers r = ws1 @ WSelect # ws2 \<Longrightarrow> ro_stopCh r = ClosedStopCh \<Longrightarrow>
    router_step tr (r, env) (r\<lparr>ro_workers := ws1 @ ws2, ro_wg := ro_wg r - 1\<rparr>, env)"

section \<open>Workers\<close>

definition router_inv :: "'s router \<Rightarrow> bool" where
  "router_inv r \<longleftrightarrow>
     ro_wg r = length (ro_workers r) \<and> (ro_stopCh r = NoStopCh \<longrightarrow> ro_workers r = [])
   \<and> (ro_registered r \<longleftrightarrow> ro_stopCh r = OpenStopCh)
   \<and> 1 \<le> cf_concurrency (ro_cfg r) \<and> 0 \<le> cf_buffer (ro_cfg r)"

lemma router_option_apply_bounds:
  assumes "1 \<le> cf_concurrency cfg" "0 \<le> cf_buffer cfg"
  shows "1 \<le> cf_concurrency (router_option_apply opt cfg) \<and> 0 \<le> cf_buffer (router_option_apply opt cfg)"
  using assms by (cases opt) auto

lemma router_WithOptions_inv [go_inv]: "router_inv r \<Longrightarrow> router_inv (router_WithOptions opts r)"
proof -
  have "1 \<le> cf_concurrency c \<and> 0 \<le> cf_buffer c \<Longrightarrow>
    (let c' = foldl (\<lambda>c opt. router_option_apply opt c) c opts
     in 1 \<le> cf_concurrency c' \<and> 0 \<le> cf_buffer c')" for c
  proof (induction opts arbitrary: c)
    case Nil
    then show ?case by simp
  next
    case (Cons opt opts)
    then show ?case using router_option_apply_bounds [of c opt] by (simp add: Let_def)
  qed
  then show "router_inv r \<Longrightarrow> router_inv (router_WithOptions opts r)"
    by (simp add: router_inv_def router_WithOptions_def Let_def)
qed

lemma router_inv_new: "router_inv (NewRouter channelID routing)"
  by (simp add: router_inv_def NewRouter_def router_defaultConfig_def)

lemma router_Start_inv [go_inv]: "router_inv r \<Longrightarrow> router_Start r = Inr r' \<Longrightarrow> router_inv r'"
  by (auto simp: router_inv_def router_Start_def split: if_splits)

lemma router_Stop_close_inv [go_inv]: "router_inv r \<Longrightarrow> router_Stop_close r = Inr r' \<Longrightarrow> router_inv r'"
  by (auto simp: router_inv_def router_Stop_close_def split: if_splits)

lemma router_Stop_return_inv [go_inv]:
  "router_inv r \<Longrightarrow> ro_stopCh r = ClosedStopCh \<Longrightarrow> router_Stop_return r = Some r' \<Longrightarrow> router_inv r'"
  by (auto simp: router_inv_def router_Stop_return_def split: if_splits)

lemma router_step_inv [go_inv]:
  "router_step tr c c' \<Longrightarrow> router_inv (fst c) \<Longrightarrow> router_inv (fst c')"
  by (induction rule: router_step.induct) (auto simp: router_inv_def)

lemma router_step_frame:
  "router_step tr c c' \<Longrightarrow> ro_stopCh (fst c') = ro_stopCh (fst c) \<and> ro_cfg (fst c') = ro_cfg (fst c)
     \<and> ro_routing (fst c') = ro_routing (fst c)"
  by (induction rule: router_step.induct) auto

fun rworker_debt :: "'s router_worker \<Rightarrow> nat" where
  "rworker_debt WSelect = 1"
| "rworker_debt (WRouting msg rts) = length rts + 2"

definition router_debt :: "'s router \<Rightarrow> nat" where
  "router_debt r = sum_list (map rworker_debt (ro_workers r))"

lemma router_can_finish:
  assumes "router_inv r" "ro_stopCh r = ClosedStopCh" "ro_wg r \<noteq> 0"
  shows "\<exists>r' env'. router_step tr (r, env) (r', env') \<and> router_debt r' < router_debt r"
proof -
  obtain w ws where ws: "ro_workers r = [] @ w # ws"
    using assms by (cases "ro_workers r") (auto simp: router_inv_def)
  consider "w = WSelect" | msg where "w = WRouting msg []"
    | msg rt rts where "w = WRouting msg (rt # rts)"
    by (metis neq_Nil_conv router_worker.exhaust)
  then show ?thesis
  proof cases
    case 1
    show ?thesis
      by (intro exI conjI, rule router_step.stop [OF ws [unfolded 1] assms(2)])
        (simp add: router_debt_def ws 1)
  next
    case 2
    show ?thesis
      by (intro exI conjI, rule router_step.finish [OF ws [unfolded 2]])
        (simp add: router_debt_def ws 2)
  next
    case 3
    show ?thesis
      by (intro exI conjI, rule router_step.process [OF ws [unfolded 3]])
        (simp add: router_debt_def ws 3)
  qed
qed

interpretation rp: worker_pool "router_step tr"
  "\<lambda>c. router_inv (fst c) \<and> ro_stopCh (fst c) = ClosedStopCh" "\<lambda>c. ro_wg (fst c) = 0"
  "\<lambda>c. router_debt (fst c)" for tr
proof
  fix tr and c :: "'s router \<times> 's router_env"
  assume ok: "router_inv (fst c) \<and> ro_stopCh (fst c) = ClosedStopCh" and busy: "ro_wg (fst c) \<noteq> 0"
  obtain r' env' where step: "router_step tr c (r', env')" and "router_debt r' < router_debt (fst c)"
    using router_can_finish [of "fst c" tr "snd c"] ok busy by auto
  moreover have "router_inv r' \<and> ro_stopCh r' = ClosedStopCh"
    using router_step_inv [OF step] router_step_frame [OF step] ok by simp
  ultimately show "\<exists>c'. router_step tr c c' \<and> (router_inv (fst c') \<and> ro_stopCh (fst c') = ClosedStopCh)
      \<and> router_debt (fst c') < router_debt (fst c)"
    by (intro exI [of _ "(r', env')"]) simp
qed

text \<open>\<^verbatim>\<open>Stop\<close> as its caller sees it.\<close>

definition router_Stop :: "'s router \<Rightarrow> 's router result" where
  "router_Stop r =
     bind_result (router_Stop_close r)
       (\<lambda>r'. Inr (r'\<lparr>ro_workers := [], ro_wg := 0, ro_stopCh := NoStopCh\<rparr>))"

interpretation rr: runnable router_Start router_Stop "\<lambda>r. ro_stopCh r \<noteq> NoStopCh" router_inv
  by unfold_locales
    (auto simp: router_Start_def router_Stop_def router_Stop_close_def router_inv_def)

section \<open>What processing a message does\<close>

lemma router_getResponseAddress_to_topic:
  assumes "pl_ResponseToTopic (ms_Payload msg) \<noteq> ''''"
    "router_getResponseAddress fg cfg msg resp = Some (a, resp')"
  shows "resp' = resp \<and> (\<exists>b. fg_NewAddressFromString fg (pl_ResponseToTopic (ms_Payload msg)) = Inr b
     \<and> a = (if cf_preserveGlobalPrefix cfg then b\<lparr>ad_GlobalPrefix := ad_GlobalPrefix (ms_Addr msg)\<rparr> else b))"
  using assms by (auto simp: router_getResponseAddress_def split: sum.splits if_splits)

lemma router_getResponseAddress_payload:
  "router_getResponseAddress fg cfg msg resp = Some (a, resp') \<Longrightarrow> re_Payload resp' = re_Payload resp"
  by (auto simp: router_getResponseAddress_def Let_def split: sum.splits if_splits option.splits)

lemma handleProcessingPanic_simps [simp]:
  "en_published (handleProcessingPanic cfg msg env) = en_published env"
  "en_state (handleProcessingPanic cfg msg env) = en_state env"
  "en_stats (handleProcessingPanic cfg msg env) = en_stats env"
  by (simp_all add: handleProcessingPanic_def)

lemma router_stats_simps [simp]:
  "en_published (router_stats cfg msg resp d env) = en_published env"
  "en_state (router_stats cfg msg resp d env) = en_state env"
  "en_panics (router_stats cfg msg resp d env) = en_panics env"
  by (simp_all add: router_stats_def)

lemma processMessage_published:
  "en_published (processMessage tr cfg rt msg env) =
     (if routing_vote rt msg then
        (case rt_handler rt of
           None \<Rightarrow> en_published env
         | Some h \<Rightarrow>
             (case h msg (en_state env) of
                (s, None) \<Rightarrow> en_published env
              | (s, Some response) \<Rightarrow>
                  en_published (fst (router_respond tr cfg msg response (env\<lparr>en_state := s\<rparr>)))))
      else en_published env)"
  by (simp add: processMessage_def Let_def case_prod_unfold split: option.split)

lemma router_respond_published:
  "\<exists>xs. en_published (fst (router_respond tr cfg msg response env)) = en_published env @ xs \<and> length xs \<le> 1
    \<and> (\<forall>(a, p) \<in> set xs. \<exists>resp q resp'. response = Some resp \<and> re_Payload resp = Some q
         \<and> router_getResponseAddress (tr_fimpgo tr) cfg msg resp = Some (a, resp')
         \<and> p = router_correlate msg q)"
  by (auto simp: router_respond_def Let_def dest: router_getResponseAddress_payload split: option.splits)

section \<open>Handlers that run at the same time\<close>

text \<open>
  Several workers handle messages at once. The handlers inside \<^verbatim>\<open>Handle\<close> are a list; a handler enters by
  \<open>handler_enter\<close> (a refused one answers with an error and is not inside), works on the state of the
  application, and leaves by \<open>handler_leave\<close>, after a reply, an error or a panic.
\<close>

inductive handle_step ::
  "'s rstate \<times> 's message_handler list \<Rightarrow> 's rstate \<times> 's message_handler list \<Rightarrow> bool" where
  enter: "handler_enter h s = (True, s') \<Longrightarrow> handle_step (s, hs) (s', h # hs)"
| work: "h \<in> set hs \<Longrightarrow> mh_processor h msg (rs_app s) = (app, out) \<Longrightarrow>
    handle_step (s, hs) (s\<lparr>rs_app := app\<rparr>, hs)"
| leave: "hs = hs1 @ h # hs2 \<Longrightarrow> handle_step (s, hs) (handler_leave h s, hs1 @ hs2)"

definition locker_users :: "nat \<Rightarrow> 's message_handler list \<Rightarrow> nat" where
  "locker_users k hs = length (filter (\<lambda>h. mh_locker h = Some k) hs)"

lemma handle_step_users:
  "handle_step c c' \<Longrightarrow> (\<forall>k. locker_users k (snd c) = (if rs_locked (fst c) k then 1 else 0)) \<Longrightarrow>
   \<forall>k. locker_users k (snd c') = (if rs_locked (fst c') k then 1 else 0)"
proof (induction rule: handle_step.induct)
  case (enter h s s' hs)
  then show ?case
    by (auto simp: handler_enter_def locker_Lock_def locker_users_def split: option.splits if_splits)
next
  case (work h hs msg s app out)
  then show ?case by simp
next
  case (leave hs hs1 h hs2 s)
  show ?case
  proof
    fix k
    from leave.prems have "locker_users k hs = (if rs_locked s k then 1 else 0)" by simp
    then show "locker_users k (snd (handler_leave h s, hs1 @ hs2)) =
        (if rs_locked (fst (handler_leave h s, hs1 @ hs2)) k then 1 else 0)"
      using leave.hyps
      by (auto simp: locker_users_def handler_leave_def locker_Unlock_def split: option.splits if_splits)
  qed
qed

lemma handle_steps_users:
  "handle_step\<^sup>*\<^sup>* c c' \<Longrightarrow> \<forall>k. locker_users k (snd c) = (if rs_locked (fst c) k then 1 else 0) \<Longrightarrow>
   \<forall>k. locker_users k (snd c') = (if rs_locked (fst c') k then 1 else 0)"
  by (induction rule: rtranclp_induct) (blast dest: handle_step_users)+

lemma handler_enter_unlocked:
  "fst (handler_enter m s) \<longleftrightarrow> (\<forall>k. mh_locker m = Some k \<longrightarrow> \<not> rs_locked s k)"
  by (auto simp: handler_enter_def locker_Lock_def split: option.splits)

section \<open>Properties\<close>

text \<open>
  C23. Whatever a handler does, one routing publishes at most one message for a received message, and only
  the reply of its handler. The published reply carries the correlation id it was given or else the id
  of the request, and when the request names a topic for the response, the reply is published there and
  nowhere else.
\<close>
theorem processMessage_replies:
  "\<exists>xs. en_published (processMessage tr cfg rt msg env) = en_published env @ xs \<and> length xs \<le> 1
     \<and> (\<forall>(a, p) \<in> set xs. routing_vote rt msg
         \<and> (\<exists>h s resp q. rt_handler rt = Some h \<and> h msg (en_state env) = (s, Some (Some resp))
             \<and> re_Payload resp = Some q \<and> p = q\<lparr>pl_CorrelationID := pl_CorrelationID p\<rparr>
             \<and> pl_CorrelationID p =
                 (if pl_CorrelationID q = '''' then pl_UID (ms_Payload msg) else pl_CorrelationID q)
             \<and> (pl_ResponseToTopic (ms_Payload msg) \<noteq> '''' \<longrightarrow>
                 (\<exists>b. fg_NewAddressFromString (tr_fimpgo tr) (pl_ResponseToTopic (ms_Payload msg)) = Inr b
                   \<and> a = (if cf_preserveGlobalPrefix cfg
                          then b\<lparr>ad_GlobalPrefix := ad_GlobalPrefix (ms_Addr msg)\<rparr> else b)))))"
proof (cases "routing_vote rt msg \<and> (\<exists>h s r. rt_handler rt = Some h \<and> h msg (en_state env) = (s, Some r))")
  case False
  then have "en_published (processMessage tr cfg rt msg env) = en_published env"
    by (auto simp: processMessage_published split: option.split prod.split)
  then show ?thesis by simp
next
  case True
  then obtain h s r where h: "routing_vote rt msg" "rt_handler rt = Some h"
    "h msg (en_state env) = (s, Some r)" by blast
  obtain xs where xs: "en_published (processMessage tr cfg rt msg env) = en_published env @ xs"
      "length xs \<le> 1"
    and ap: "\<forall>(a, p) \<in> set xs. \<exists>resp q resp'. r = Some resp \<and> re_Payload resp = Some q
         \<and> router_getResponseAddress (tr_fimpgo tr) cfg msg resp = Some (a, resp')
         \<and> p = router_correlate msg q"
    using router_respond_published [of tr cfg msg r "env\<lparr>en_state := s\<rparr>"] h
    by (auto simp: processMessage_published)
  show ?thesis
  proof (intro exI conjI)
    show "en_published (processMessage tr cfg rt msg env) = en_published env @ xs" by (rule xs(1))
    show "length xs \<le> 1" by (rule xs(2))
    show "\<forall>(a, p) \<in> set xs. routing_vote rt msg
         \<and> (\<exists>h s resp q. rt_handler rt = Some h \<and> h msg (en_state env) = (s, Some (Some resp))
             \<and> re_Payload resp = Some q \<and> p = q\<lparr>pl_CorrelationID := pl_CorrelationID p\<rparr>
             \<and> pl_CorrelationID p =
                 (if pl_CorrelationID q = '''' then pl_UID (ms_Payload msg) else pl_CorrelationID q)
             \<and> (pl_ResponseToTopic (ms_Payload msg) \<noteq> '''' \<longrightarrow>
                 (\<exists>b. fg_NewAddressFromString (tr_fimpgo tr) (pl_ResponseToTopic (ms_Payload msg)) = Inr b
                   \<and> a = (if cf_preserveGlobalPrefix cfg
                          then b\<lparr>ad_GlobalPrefix := ad_GlobalPrefix (ms_Addr msg)\<rparr> else b))))"
      using ap h by (fastforce simp: router_correlate_def dest: router_getResponseAddress_to_topic)
  qed
qed

text \<open>
  Where the report of an error goes: to the topic that the request names for the response, if it names one and it is an
  address; otherwise to the default address of the handler, or to that of the request if it has none, as an event. The
  global prefix is that of the request if the router keeps it.
\<close>

definition error_base :: "'s message_handler \<Rightarrow> message \<Rightarrow> address" where
  "error_base m msg = (case mh_defaultAddress m of None \<Rightarrow> ms_Addr msg | Some d \<Rightarrow> d)"

definition error_address :: "fimpgo \<Rightarrow> router_config \<Rightarrow> 's message_handler \<Rightarrow> message \<Rightarrow> address option" where
  "error_address fg cfg m msg =
     map_option (\<lambda>a. if cf_preserveGlobalPrefix cfg then a\<lparr>ad_GlobalPrefix := ad_GlobalPrefix (ms_Addr msg)\<rparr> else a)
       (if pl_ResponseToTopic (ms_Payload msg) = ''''
        then Some ((error_base m msg)\<lparr>ad_MsgType := fg_MsgTypeEvt fg, ad_GlobalPrefix := ''''\<rparr>)
        else case fg_NewAddressFromString fg (pl_ResponseToTopic (ms_Payload msg)) of Inl _ \<Rightarrow> None | Inr b \<Rightarrow> Some b)"

text \<open>The error of a request: that of the processor, or that the lock of the handler is held.\<close>

definition handler_error :: "'s message_handler \<Rightarrow> message \<Rightarrow> 's rstate \<Rightarrow> go_error option" where
  "handler_error m msg s =
     (if (case mh_locker m of None \<Rightarrow> False | Some k \<Rightarrow> rs_locked s k)
      then Some (Errorf ''another operation is already running, skipping message'')
      else case snd (mh_processor m msg (rs_app s)) of Some (Inl err) \<Rightarrow> Some err | _ \<Rightarrow> None)"

lemma handler_Handle_error:
  assumes "handler_error m msg s = Some err"
  obtains s' where "handler_Handle fg m msg s = (s', Some (handler_handleError fg m msg err))"
  using assms
  by (cases "mh_locker m")
    (auto simp: handler_error_def handler_Handle_def handler_enter_def locker_Lock_def case_prod_unfold Let_def
      split: if_splits option.splits sum.splits)

lemma error_address_respond:
  "map_option fst (router_getResponseAddress fg cfg msg
     \<lparr>re_Addr = Some (handler_getResponseAddress fg m (ms_Addr msg)), re_Payload = p\<rparr>) = error_address fg cfg m msg"
  by (cases "mh_defaultAddress m"; cases "ms_Addr msg")
    (auto simp: router_getResponseAddress_def error_address_def error_base_def handler_getResponseAddress_def Let_def
      split: sum.split)

text \<open>
  C7. An error while a request is handled is reported, once and at the right address: a request that a routing accepts, and whose
  processor returns an error or whose handler is locked, publishes exactly one error report, unless the handler is configured
  to be silent about errors, the request names a response topic that is not an address, or publishing fails; then
  nothing. The report goes to the response topic, the default address of the handler or the address of the request, in this order,
  and carries the text of the error, the topic, service and type of the request as its properties, and the id of the
  request as its correlation id. A report about a device is not stored.
\<close>
theorem error_report_published:
  assumes "fimpgo_ok (tr_fimpgo tr)" "routing_vote rt msg" "rt_handler rt = Some (handler_Handle (tr_fimpgo tr) m)"
    and "handler_error m msg (en_state env) = Some err"
  shows "\<exists>p. en_published (processMessage tr cfg rt msg env) = en_published env @
      (case error_address (tr_fimpgo tr) cfg m msg of
         None \<Rightarrow> []
       | Some a \<Rightarrow> if mh_silentErrors m \<or> tr_Publish tr a p \<noteq> None then [] else [(a, p)])
    \<and> pl_Interface p = ''evt.error.report'' \<and> pl_Service p = pl_Service (ms_Payload msg)
    \<and> pl_Properties p = [(''msg'', Error err), (''cmd_topic'', ms_Topic msg),
        (''cmd_service'', pl_Service (ms_Payload msg)), (''cmd_type'', pl_Interface (ms_Payload msg))]
    \<and> pl_CorrelationID p = pl_UID (ms_Payload msg)
    \<and> pl_Storage p = (if ad_ResourceType (error_base m msg) = fg_ResourceTypeDevice (tr_fimpgo tr)
         then Some (fg_StorageStrategySkip (tr_fimpgo tr), '''') else None)"
proof -
  let ?fg = "tr_fimpgo tr"
  let ?addr = "handler_getResponseAddress ?fg m (ms_Addr msg)"
  let ?q0 = "fg_NewMessage ?fg EvtErrorReport (pl_Service (ms_Payload msg)) (fg_VTypeString ?fg)
     (VString ''failed to process incoming message'')
     [(PropertyMsg, Error err), (PropertyCmdTopic, ms_Topic msg), (PropertyCmdService, pl_Service (ms_Payload msg)),
      (PropertyCmdType, pl_Interface (ms_Payload msg))] (Some (ms_Payload msg))"
  let ?q = "if ad_ResourceType ?addr = fg_ResourceTypeDevice ?fg \<and> pl_Storage ?q0 = None
    then fg_WithStorageStrategy ?fg (fg_StorageStrategySkip ?fg) '''' ?q0 else ?q0"
  let ?p = "router_correlate msg ?q"
  let ?resp = "\<lparr>re_Addr = Some ?addr, re_Payload = Some ?q\<rparr>"
  note defs = PropertyMsg_def PropertyCmdTopic_def PropertyCmdService_def PropertyCmdType_def EvtErrorReport_def
  have base: "ad_ResourceType ?addr = ad_ResourceType (error_base m msg)"
    by (simp add: handler_getResponseAddress_def error_base_def Let_def)
  have p: "pl_Interface ?p = ''evt.error.report'' \<and> pl_Service ?p = pl_Service (ms_Payload msg)
    \<and> pl_Properties ?p = [(''msg'', Error err), (''cmd_topic'', ms_Topic msg),
        (''cmd_service'', pl_Service (ms_Payload msg)), (''cmd_type'', pl_Interface (ms_Payload msg))]
    \<and> pl_CorrelationID ?p = pl_UID (ms_Payload msg)
    \<and> pl_Storage ?p = (if ad_ResourceType (error_base m msg) = fg_ResourceTypeDevice ?fg
         then Some (fg_StorageStrategySkip ?fg, '''') else None)"
    using assms(1) fimpgo_okD(3) [OF assms(1)] by (simp add: router_correlate_def base defs)
  obtain s' where "handler_Handle ?fg m msg (en_state env) = (s', Some (handler_handleError ?fg m msg err))"
    by (rule handler_Handle_error [OF assms(4)])
  then have out: "en_published (processMessage tr cfg rt msg env)
      = en_published (fst (router_respond tr cfg msg (handler_handleError ?fg m msg err) (env\<lparr>en_state := s'\<rparr>)))"
    using assms(2,3) by (simp add: processMessage_published)
  have "en_published (processMessage tr cfg rt msg env) = en_published env @
      (case error_address ?fg cfg m msg of
         None \<Rightarrow> [] | Some a \<Rightarrow> if mh_silentErrors m \<or> tr_Publish tr a ?p \<noteq> None then [] else [(a, ?p)])"
  proof (cases "mh_silentErrors m")
    case True
    then show ?thesis
      unfolding out by (simp add: router_respond_def handler_handleError_def split: option.split)
  next
    case False
    then have resp: "handler_handleError ?fg m msg err = Some ?resp"
      by (simp add: handler_handleError_def Let_def)
    show ?thesis
    proof (cases "router_getResponseAddress ?fg cfg msg ?resp")
      case None
      moreover from this have "error_address ?fg cfg m msg = None"
        using error_address_respond [of ?fg cfg msg m "Some ?q"] by simp
      ultimately show ?thesis unfolding out resp by (simp add: router_respond_def)
    next
      case (Some r)
      then obtain a resp1 where r: "router_getResponseAddress ?fg cfg msg ?resp = Some (a, resp1)" by (cases r) auto
      have "re_Payload resp1 = Some ?q" using router_getResponseAddress_payload [OF r] by simp
      moreover have "error_address ?fg cfg m msg = Some a"
        using error_address_respond [of ?fg cfg msg m "Some ?q"] r by simp
      ultimately show ?thesis using False r unfolding out resp
        by (simp add: router_respond_def Let_def split: option.split)
    qed
  qed
  with p show ?thesis by blast
qed

definition demo_transport :: "nat transport" where
  "demo_transport =
     \<lparr>tr_fimpgo = demo_fimpgo, tr_Publish = (\<lambda>a p. None), tr_Now = (\<lambda>s. int (rs_app s))\<rparr>"

definition demo_message :: message where
  "demo_message =
     \<lparr>ms_Topic = ''t'', ms_Addr = demo_address,
      ms_Payload = (demo_NewMessage ''cmd.binary.set'' ''out_bin_switch'' ''bool'' (VBool True) [] None)
        \<lparr>pl_UID := ''uid-7''\<rparr>\<rparr>"

definition demo_env :: "nat router_env" where
  "demo_env =
     \<lparr>en_state = \<lparr>rs_locked = (\<lambda>_. False), rs_app = 0\<rparr>, en_published = [], en_stats = [], en_panics = []\<rparr>"

text \<open>A handler that echoes the payload of the request, asked to reply to a topic of its own.\<close>

definition demo_request :: message where
  "demo_request =
     demo_message\<lparr>ms_Payload := (ms_Payload demo_message)\<lparr>pl_ResponseToTopic := ''reply'', pl_CorrelationID := ''''\<rparr>\<rparr>"

definition demo_echo :: "nat routing" where
  "demo_echo =
     NewRouting (Some (\<lambda>m s. (s, Some (Some \<lparr>re_Addr = None, re_Payload = Some (ms_Payload m)\<rparr>)))) []"

theorem processMessage_replies_witness:
  "\<exists>p. en_published (processMessage demo_transport router_defaultConfig demo_echo demo_request demo_env)
      = [(demo_address\<lparr>ad_ResourceName := ''reply''\<rparr>, p)] \<and> pl_CorrelationID p = ''uid-7''"
proof -
  let ?pub = "en_published (processMessage demo_transport router_defaultConfig demo_echo demo_request demo_env)"
  have "?pub \<noteq> []"
    by (simp add: processMessage_published demo_echo_def NewRouting_def routing_vote_def router_respond_def Let_def
        router_getResponseAddress_def demo_request_def demo_transport_def demo_fimpgo_def demo_env_def
        router_defaultConfig_def)
  moreover have "rt_handler demo_echo =
      Some (\<lambda>m s. (s, Some (Some \<lparr>re_Addr = None, re_Payload = Some (ms_Payload m)\<rparr>)))"
    by (simp add: demo_echo_def NewRouting_def)
  moreover have "en_published demo_env = []" "pl_UID (ms_Payload demo_request) = ''uid-7''"
      "pl_CorrelationID (ms_Payload demo_request) = ''''"
      "pl_ResponseToTopic (ms_Payload demo_request) = ''reply''"
      "\<not> cf_preserveGlobalPrefix router_defaultConfig"
      "fg_NewAddressFromString (tr_fimpgo demo_transport) ''reply'' = Inr (demo_address\<lparr>ad_ResourceName := ''reply''\<rparr>)"
    by (simp_all add: demo_env_def demo_request_def demo_message_def router_defaultConfig_def
        demo_transport_def demo_fimpgo_def)
  ultimately show ?thesis
    using processMessage_replies [of demo_transport router_defaultConfig demo_echo demo_request demo_env]
    by (fastforce simp: le_Suc_eq length_Suc_conv)
qed

text \<open>A processor that counts the requests and refuses each.\<close>

definition demo_handler :: "nat message_handler" where
  "demo_handler = NewMessageHandler (\<lambda>m n. (n + 1, Some (Inl (Errorf ''no'')))) [WithLock 0]"

lemma demo_handler_simps [simp]:
  "mh_silentErrors demo_handler = False" "mh_defaultAddress demo_handler = None"
  "mh_locker demo_handler = Some 0"
  "mh_processor demo_handler = (\<lambda>m n. (n + 1, Some (Inl (Errorf ''no''))))"
  by (simp_all add: demo_handler_def NewMessageHandler_def WithLock_def)

definition demo_routing :: "nat routing" where
  "demo_routing = NewRouting (Some (handler_Handle demo_fimpgo demo_handler)) [ForService ''out_bin_switch'']"

theorem error_report_published_witness:
  "\<exists>p. en_published (processMessage demo_transport router_defaultConfig demo_routing demo_message demo_env)
       = [(demo_address\<lparr>ad_MsgType := ''evt''\<rparr>, p)]
     \<and> pl_Interface p = ''evt.error.report'' \<and> pl_CorrelationID p = ''uid-7''
     \<and> map_of (pl_Properties p) ''msg'' = Some ''no'' \<and> pl_Storage p = Some (''skip'', '''')"
proof -
  have fg: "fimpgo_ok (tr_fimpgo demo_transport)" by (simp add: demo_fimpgo_ok demo_transport_def)
  have vote: "routing_vote demo_routing demo_message"
    by (simp add: demo_routing_def NewRouting_def routing_vote_def ForService_def demo_message_def demo_NewMessage_def)
  have handler: "rt_handler demo_routing = Some (handler_Handle (tr_fimpgo demo_transport) demo_handler)"
    by (simp add: demo_routing_def NewRouting_def demo_transport_def)
  have err: "handler_error demo_handler demo_message (en_state demo_env) = Some (Errorf ''no'')"
    by (simp add: handler_error_def demo_env_def)
  have "pl_ResponseToTopic (ms_Payload demo_message) = ''''" by (simp add: demo_message_def demo_NewMessage_def)
  then have addr: "error_address (tr_fimpgo demo_transport) router_defaultConfig demo_handler demo_message
      = Some (demo_address\<lparr>ad_MsgType := ''evt''\<rparr>)"
    by (simp add: error_address_def error_base_def demo_message_def demo_address_def demo_transport_def demo_fimpgo_def
        router_defaultConfig_def)
  have base: "ad_ResourceType (error_base demo_handler demo_message) = fg_ResourceTypeDevice (tr_fimpgo demo_transport)"
    "fg_StorageStrategySkip (tr_fimpgo demo_transport) = ''skip''" "tr_Publish demo_transport a p = None"
    "pl_UID (ms_Payload demo_message) = ''uid-7''" "en_published demo_env = []" for a p
    by (simp_all add: error_base_def demo_message_def demo_address_def demo_transport_def demo_fimpgo_def demo_env_def)
  from error_report_published [OF fg vote handler err, of router_defaultConfig] show ?thesis
    unfolding addr base by (auto simp: base)
qed

text \<open>
  A panicking handler is isolated: it costs the routing its reply, and the panic callback is told,
  but nothing is published, and the routings after it are offered the message as if it had returned
  nothing.
\<close>
theorem panic_isolated:
  assumes "routing_vote rt msg" "rt_handler rt = Some h" "h msg (en_state (route_message tr cfg rts1 env msg)) = (s, None)"
  shows "route_message tr cfg (rts1 @ rt # rts2) env msg =
    route_message tr cfg rts2
      ((route_message tr cfg rts1 env msg)
         \<lparr>en_state := s,
          en_panics := en_panics (route_message tr cfg rts1 env msg) @ (if cf_panicCallback cfg then [msg] else [])\<rparr>) msg"
  using assms by (simp add: route_message_def processMessage_def handleProcessingPanic_def Let_def)

text \<open>A first routing that panics, and the demo routing after it.\<close>

definition demo_panic_routing :: "nat routing" where
  "demo_panic_routing = NewRouting (Some (\<lambda>m s. (s\<lparr>rs_app := 5\<rparr>, None))) []"

theorem panic_isolated_witness:
  "route_message demo_transport (router_defaultConfig\<lparr>cf_panicCallback := True\<rparr>)
      [demo_panic_routing, demo_routing] demo_env demo_message =
   route_message demo_transport (router_defaultConfig\<lparr>cf_panicCallback := True\<rparr>) [demo_routing]
      (demo_env\<lparr>en_state := \<lparr>rs_locked = (\<lambda>_. False), rs_app = 5\<rparr>, en_panics := [demo_message]\<rparr>) demo_message"
  using panic_isolated [of demo_panic_routing demo_message "\<lambda>m s. (s\<lparr>rs_app := 5\<rparr>, None)" demo_transport
      "router_defaultConfig\<lparr>cf_panicCallback := True\<rparr>" "[]" demo_env
      "\<lparr>rs_locked = (\<lambda>_. False), rs_app = 5\<rparr>" "[demo_routing]"]
  by (simp add: demo_panic_routing_def NewRouting_def routing_vote_def route_message_def demo_env_def)

text \<open>
  The lock of a handler is exclusive: from a state in which no locker is held, however the workers
  interleave, at most one handler of each locker is inside \<^verbatim>\<open>Handle\<close>; a further handler with that locker is
  refused while one is inside, and is let in again once it has left, by whatever way it left.
\<close>
theorem handler_lock_exclusive:
  assumes "handle_step\<^sup>*\<^sup>* (s0, []) (s, hs)" "\<forall>k. \<not> rs_locked s0 k" "mh_locker m = Some k"
  shows "locker_users k hs \<le> 1 \<and> (fst (handler_enter m s) \<longleftrightarrow> locker_users k hs = 0)"
proof -
  have "\<forall>j. locker_users j (snd (s, hs)) = (if rs_locked (fst (s, hs)) j then 1 else 0)"
    by (rule handle_steps_users [OF assms(1)]) (simp add: locker_users_def assms(2))
  then show ?thesis using assms(3) by (simp add: handler_enter_unlocked)
qed

theorem handler_lock_exclusive_witness:
  "\<exists>s. handle_step\<^sup>*\<^sup>* (en_state demo_env, []) (s, [demo_handler])
     \<and> locker_users 0 [demo_handler] \<le> 1 \<and> \<not> fst (handler_enter demo_handler s)"
proof -
  let ?s0 = "en_state demo_env"
  obtain s where s: "handler_enter demo_handler ?s0 = (True, s)"
    by (simp add: handler_enter_def locker_Lock_def demo_env_def)
  then have run: "handle_step\<^sup>*\<^sup>* (?s0, []) (s, [demo_handler])"
    by (intro r_into_rtranclp handle_step.enter)
  have free: "\<forall>k. \<not> rs_locked ?s0 k" by (simp add: demo_env_def)
  have "locker_users 0 [demo_handler] = 1" by (simp add: locker_users_def)
  with run handler_lock_exclusive [OF run free, of demo_handler 0] show ?thesis by auto
qed

text \<open>
  C8. \<^verbatim>\<open>Handle\<close> leaves every locker as it found it, whether the message was refused, answered, failed or the
  processor panicked: the lock is never leaked.
\<close>
theorem Handle_releases_lock:
  "rs_locked (fst (handler_Handle fg m msg s)) = rs_locked s"
  by (auto simp: handler_Handle_def handler_enter_def handler_leave_def locker_Lock_def locker_Unlock_def
      case_prod_unfold Let_def fun_upd_idem_iff split: option.split)

text \<open>
  Stopping the router returns: once \<^verbatim>\<open>Stop\<close> has unregistered and closed its channel, the workers can always
  finish what they are doing, until the wait group is zero; no worker is left and the router can be
  started again.
\<close>
theorem router_Stop_returns:
  assumes "router_inv r" "router_Stop_close r = Inr r1"
  shows "\<exists>r2 env2 r3. (router_step tr)\<^sup>*\<^sup>* (r1, env) (r2, env2) \<and> router_Stop_return r2 = Some r3
    \<and> ro_workers r3 = [] \<and> \<not> ro_registered r3 \<and> \<not> isl (router_Start r3)"
proof -
  have r1: "router_inv r1" "ro_stopCh r1 = ClosedStopCh"
    using assms router_Stop_close_inv [OF assms] by (auto simp: router_Stop_close_def split: if_splits)
  obtain r2 env2 where r2: "(router_step tr)\<^sup>*\<^sup>* (r1, env) (r2, env2)" "router_inv r2"
      "ro_stopCh r2 = ClosedStopCh" "ro_wg r2 = 0"
    using rp.drains [of "(r1, env)" tr] r1 by auto
  then show ?thesis
    by (intro exI [of _ r2] exI [of _ env2] exI [of _ "r2\<lparr>ro_stopCh := NoStopCh\<rparr>"])
      (auto simp: router_Stop_return_def router_Start_def router_inv_def)
qed

definition demo_router :: "nat router" where
  "demo_router = router_WithOptions [WithSyncProcessing] (NewRouter ''main_router'' [demo_panic_routing, demo_routing])"

lemma demo_router_started:
  "\<exists>r. router_Start demo_router = Inr r \<and> router_inv r \<and> ro_workers r = [WSelect] \<and> ro_stopCh r = OpenStopCh"
proof -
  have inv: "router_inv demo_router"
    unfolding demo_router_def by (intro router_WithOptions_inv router_inv_new)
  have "\<exists>r. router_Start demo_router = Inr r \<and> ro_workers r = [WSelect] \<and> ro_stopCh r = OpenStopCh"
    by (simp add: router_Start_def demo_router_def router_WithOptions_def NewRouter_def)
  with router_Start_inv [OF inv] show ?thesis by blast
qed

theorem router_Stop_returns_witness:
  "\<exists>r r1 r2 env2 r3. router_Start demo_router = Inr r \<and> router_Stop_close r = Inr r1
     \<and> (router_step demo_transport)\<^sup>*\<^sup>* (r1, demo_env) (r2, env2) \<and> router_Stop_return r2 = Some r3
     \<and> ro_workers r3 = [] \<and> \<not> ro_registered r3 \<and> \<not> isl (router_Start r3)"
proof -
  obtain r where r: "router_Start demo_router = Inr r" "router_inv r" "ro_stopCh r = OpenStopCh"
    using demo_router_started by blast
  obtain r1 where r1: "router_Stop_close r = Inr r1" using r(3) by (simp add: router_Stop_close_def)
  from router_Stop_returns [OF r(2) r1, of demo_transport demo_env] r r1 show ?thesis by blast
qed

section \<open>One worker\<close>

text \<open>What a single worker has still to do for its message.\<close>

fun worker_rest :: "'s transport \<Rightarrow> router_config \<Rightarrow> 's router_env \<Rightarrow> 's router_worker \<Rightarrow> 's router_env" where
  "worker_rest tr cfg env WSelect = env"
| "worker_rest tr cfg env (WRouting msg rts) = route_message tr cfg rts env msg"

definition sync_outcome :: "'s transport \<Rightarrow> 's router \<times> 's router_env \<Rightarrow> 's router_env" where
  "sync_outcome tr c =
     foldl (route_message tr (ro_cfg (fst c)) (ro_routing (fst c)))
       (worker_rest tr (ro_cfg (fst c)) (snd c) (hd (ro_workers (fst c)))) (ro_messageCh (fst c))"

lemma singleton_split: "[w] = ws1 @ x # ws2 \<longleftrightarrow> ws1 = [] \<and> ws2 = [] \<and> w = x"
  by (cases ws1) auto

definition sync_ok :: "'s router \<Rightarrow> bool" where
  "sync_ok r \<longleftrightarrow> length (ro_workers r) = 1 \<and> ro_stopCh r \<noteq> ClosedStopCh"

lemma router_step_sync:
  assumes "router_step tr c c'" "sync_ok (fst c)"
  shows "sync_ok (fst c') \<and> sync_outcome tr c' = sync_outcome tr c"
  using assms
  by (induction rule: router_step.induct)
    (auto simp: sync_ok_def sync_outcome_def route_message_def length_Suc_conv singleton_split)

lemma router_steps_sync:
  "(router_step tr)\<^sup>*\<^sup>* c c' \<Longrightarrow> sync_ok (fst c) \<Longrightarrow> sync_ok (fst c') \<and> sync_outcome tr c' = sync_outcome tr c"
proof (induction rule: rtranclp_induct)
  case base
  then show ?case by simp
next
  case (step c1 c2)
  then show ?case using router_step_sync [OF step.hyps(2)] by simp
qed

definition sync_debt :: "'s router \<Rightarrow> nat" where
  "sync_debt r = length (ro_messageCh r) * (length (ro_routing r) + 3) + router_debt r"

interpretation rs: worker_pool "router_step tr" "\<lambda>c. sync_ok (fst c)"
  "\<lambda>c. ro_messageCh (fst c) = [] \<and> ro_workers (fst c) = [WSelect]" "\<lambda>c. sync_debt (fst c)" for tr
proof
  fix tr and c :: "'s router \<times> 's router_env"
  assume ok: "sync_ok (fst c)" and busy: "\<not> (ro_messageCh (fst c) = [] \<and> ro_workers (fst c) = [WSelect])"
  obtain r env where c: "c = (r, env)" by (cases c)
  obtain w where w: "ro_workers r = [] @ w # []"
    using ok c by (auto simp: sync_ok_def length_Suc_conv)
  consider msg msgs where "w = WSelect" "ro_messageCh r = msg # msgs"
    | msg where "w = WRouting msg []" | msg rt rts where "w = WRouting msg (rt # rts)"
    using busy c w by (metis append_Nil fst_conv neq_Nil_conv router_worker.exhaust)
  then have "\<exists>c'. router_step tr c c' \<and> sync_debt (fst c') < sync_debt (fst c)"
  proof cases
    case 1
    show ?thesis
      unfolding c
      by (intro exI conjI, rule router_step.recv [OF w [unfolded 1(1)] 1(2)])
        (simp add: sync_debt_def router_debt_def w 1)
  next
    case 2
    show ?thesis
      unfolding c
      by (intro exI conjI, rule router_step.finish [OF w [unfolded 2]])
        (simp add: sync_debt_def router_debt_def w 2)
  next
    case 3
    show ?thesis
      unfolding c
      by (intro exI conjI, rule router_step.process [OF w [unfolded 3]])
        (simp add: sync_debt_def router_debt_def w 3)
  qed
  with router_step_sync [of tr c] ok
  show "\<exists>c'. router_step tr c c' \<and> sync_ok (fst c') \<and> sync_debt (fst c') < sync_debt (fst c)" by blast
qed

text \<open>
  With synchronous processing (one worker) messages are handled one at a time and in the order in
  which they arrived: the worker can consume every message in the channel, and however it got there, the
  outcome is that of offering the first message to all routings, then the second, and so on.
\<close>
theorem sync_processing_in_order:
  assumes "ro_workers r = [WSelect]" "ro_stopCh r = OpenStopCh"
  shows "(\<exists>r' env'. (router_step tr)\<^sup>*\<^sup>* (r, env) (r', env') \<and> ro_messageCh r' = [] \<and> ro_workers r' = [WSelect])
    \<and> (\<forall>r' env'. (router_step tr)\<^sup>*\<^sup>* (r, env) (r', env') \<and> ro_messageCh r' = [] \<and> ro_workers r' = [WSelect] \<longrightarrow>
         env' = foldl (route_message tr (ro_cfg r) (ro_routing r)) env (ro_messageCh r))"
proof (intro conjI allI impI)
  have ok: "sync_ok (fst (r, env))" using assms by (simp add: sync_ok_def)
  show "\<exists>r' env'. (router_step tr)\<^sup>*\<^sup>* (r, env) (r', env') \<and> ro_messageCh r' = [] \<and> ro_workers r' = [WSelect]"
    using rs.drains [OF ok, of tr] by auto
  show "env' = foldl (route_message tr (ro_cfg r) (ro_routing r)) env (ro_messageCh r)"
    if "(router_step tr)\<^sup>*\<^sup>* (r, env) (r', env') \<and> ro_messageCh r' = [] \<and> ro_workers r' = [WSelect]" for r' env'
    using router_steps_sync [of tr "(r, env)" "(r', env')"] ok assms that by (auto simp: sync_outcome_def)
qed

theorem sync_processing_in_order_witness:
  "\<exists>r r' env'. router_Start demo_router = Inr r
     \<and> (router_step demo_transport)\<^sup>*\<^sup>* (r\<lparr>ro_messageCh := [demo_message, demo_message]\<rparr>, demo_env) (r', env')
     \<and> env' = foldl (route_message demo_transport (ro_cfg r) (ro_routing r)) demo_env [demo_message, demo_message]"
proof -
  obtain r where r: "router_Start demo_router = Inr r" "ro_workers r = [WSelect]" "ro_stopCh r = OpenStopCh"
    using demo_router_started by blast
  let ?r = "r\<lparr>ro_messageCh := [demo_message, demo_message]\<rparr>"
  have "ro_workers ?r = [WSelect]" "ro_stopCh ?r = OpenStopCh" using r by simp_all
  from sync_processing_in_order [OF this, of demo_transport demo_env] r(1) show ?thesis by auto
qed

section \<open>Topic patterns\<close>

lemma tp_level_inj: "c \<noteq> CHR ''+'' \<Longrightarrow> tp_level (c # pre) f = tp_level (c # pre) g \<Longrightarrow> f = g"
  by (auto simp: tp_level_def split: if_splits)

lemma tp_level_no_slash:
  "CHR ''/'' \<notin> set pre \<Longrightarrow> CHR ''/'' \<notin> set f \<Longrightarrow> CHR ''/'' \<notin> set (tp_level pre f)"
  by (simp add: tp_level_def)

lemmas tp_levels = tp_pt_def tp_mt_def tp_rt_def tp_rn_def tp_ra_def tp_sv_def tp_sa_def

text \<open>The fields of a pattern that its string shows.\<close>

definition tp_shown :: "fimpgo \<Rightarrow> TopicPattern \<Rightarrow> string list" where
  "tp_shown fg tp =
     (let res = [tp_PayloadType tp, tp_MessageType tp, tp_ResourceType tp];
          name = [tp_ResourceName tp, tp_ResourceAddress tp];
          serv = [tp_ServiceName tp, tp_ServiceAddress tp]
      in if tp_ResourceType tp = fg_ResourceTypeDiscovery fg then res
         else if tp_ResourceType tp \<in> {fg_ResourceTypeAdapter fg, fg_ResourceTypeApp fg, fg_ResourceTypeCloud fg}
         then res @ name else res @ name @ serv)"

definition tp_prefixes :: "string list" where
  "tp_prefixes = [''pt:'', ''mt:'', ''rt:'', ''rn:'', ''ad:'', ''sv:'', ''ad:'']"

lemma TopicPattern_String_shown:
  "TopicPattern_String fg tp = strings_Join ''/'' (map2 tp_level tp_prefixes (tp_shown fg tp))"
  by (simp add: TopicPattern_String_def tp_shown_def tp_prefixes_def tp_levels)

lemma tp_shown_nonempty [simp]: "tp_shown fg tp \<noteq> []"
  by (simp add: tp_shown_def Let_def)

lemma tp_shown_length: "length (tp_shown fg tp) \<le> length tp_prefixes"
  by (simp add: tp_shown_def tp_prefixes_def Let_def)

lemma map2_tp_level_inj:
  "length xs \<le> length ps \<Longrightarrow> length ys \<le> length ps \<Longrightarrow>
   \<forall>p \<in> set ps. p \<noteq> [] \<and> hd p \<noteq> CHR ''+'' \<Longrightarrow> map2 tp_level ps xs = map2 tp_level ps ys \<Longrightarrow> xs = ys"
proof (induction ps arbitrary: xs ys)
  case Nil
  then show ?case by simp
next
  case (Cons p ps)
  obtain c pre where p: "p = c # pre" "c \<noteq> CHR ''+''" using Cons.prems(3) by (cases p) auto
  show ?case
  proof (cases xs)
    case Nil
    with Cons.prems(4) show ?thesis by (cases ys) simp_all
  next
    case (Cons x xs')
    with Cons.prems(4) obtain y ys' where ys: "ys = y # ys'" by (cases ys) simp_all
    have "x = y" using Cons.prems(4) p tp_level_inj [of c pre x y] by (simp add: Cons ys)
    moreover have "xs' = ys'" using Cons.IH [of xs' ys'] Cons.prems by (simp add: Cons ys)
    ultimately show ?thesis by (simp add: Cons ys)
  qed
qed

text \<open>
  Topic patterns are unambiguous: two patterns whose fields contain no level separator have the same
  string only if they agree in every field that the string of their resource type shows (an empty field
  being the wildcard), so no two different subscriptions are confused.
\<close>
theorem TopicPattern_String_unambiguous:
  assumes "\<forall>x \<in> set (tp_shown fg tp1) \<union> set (tp_shown fg tp2). CHR ''/'' \<notin> set x"
    and "TopicPattern_String fg tp1 = TopicPattern_String fg tp2"
  shows "tp_shown fg tp1 = tp_shown fg tp2"
proof -
  have clean: "\<forall>l \<in> set (map2 tp_level tp_prefixes (tp_shown fg tp)). CHR ''/'' \<notin> set l"
    if "\<forall>x \<in> set (tp_shown fg tp). CHR ''/'' \<notin> set x" for tp
  proof
    fix l
    assume "l \<in> set (map2 tp_level tp_prefixes (tp_shown fg tp))"
    then obtain p x where "p \<in> set tp_prefixes" "x \<in> set (tp_shown fg tp)" "l = tp_level p x"
      by (auto dest: set_zip_leftD set_zip_rightD)
    then show "CHR ''/'' \<notin> set l"
      using that by (intro notI) (auto simp: tp_prefixes_def tp_level_def split: if_splits)
  qed
  have ne: "map2 tp_level tp_prefixes (tp_shown fg tp) \<noteq> []" for tp
    by (simp add: zip_eq_Nil_iff tp_prefixes_def)
  have "map2 tp_level tp_prefixes (tp_shown fg tp1) = map2 tp_level tp_prefixes (tp_shown fg tp2)"
    using assms by (intro strings_Join_inj [OF ne ne clean clean]) (simp_all add: TopicPattern_String_shown)
  then show ?thesis
    by (intro map2_tp_level_inj [OF tp_shown_length tp_shown_length]) (simp_all add: tp_prefixes_def)
qed

theorem TopicPattern_String_unambiguous_witness:
  "TopicPattern_String demo_fimpgo \<lparr>tp_PayloadType = ''j1'', tp_MessageType = ''cmd'', tp_ResourceType = ''dev'',
      tp_ResourceName = ''zw'', tp_ResourceAddress = ''1'', tp_ServiceName = [], tp_ServiceAddress = []\<rparr>
   \<noteq> TopicPattern_String demo_fimpgo \<lparr>tp_PayloadType = ''j1'', tp_MessageType = ''cmd'', tp_ResourceType = ''dev'',
      tp_ResourceName = [], tp_ResourceAddress = [], tp_ServiceName = ''zw'', tp_ServiceAddress = ''1''\<rparr>"
proof
  let ?a = "\<lparr>tp_PayloadType = ''j1'', tp_MessageType = ''cmd'', tp_ResourceType = ''dev'',
      tp_ResourceName = ''zw'', tp_ResourceAddress = ''1'', tp_ServiceName = [], tp_ServiceAddress = []\<rparr>"
  let ?b = "\<lparr>tp_PayloadType = ''j1'', tp_MessageType = ''cmd'', tp_ResourceType = ''dev'',
      tp_ResourceName = [], tp_ResourceAddress = [], tp_ServiceName = ''zw'', tp_ServiceAddress = ''1''\<rparr>"
  assume eq: "TopicPattern_String demo_fimpgo ?a = TopicPattern_String demo_fimpgo ?b"
  have "\<forall>x \<in> set (tp_shown demo_fimpgo ?a) \<union> set (tp_shown demo_fimpgo ?b). CHR ''/'' \<notin> set x"
    by (simp add: tp_shown_def demo_fimpgo_def)
  from TopicPattern_String_unambiguous [OF this eq] show False
    by (simp add: tp_shown_def demo_fimpgo_def)
qed

end
