(* ===== verification/Adapter.thy ===== *)
theory Adapter
  imports Adapter_State Cache Router
begin

text \<open>
  The device adapter of \<^verbatim>\<open>src/adapter\<close>: connectivity (\<^verbatim>\<open>connector.go\<close>), events (\<^verbatim>\<open>event.go\<close>), the publisher
  (\<^verbatim>\<open>publisher.go\<close>), services (\<^verbatim>\<open>service.go\<close>), things (\<^verbatim>\<open>thing.go\<close>), the adapter that creates, registers and
  destroys them (\<^verbatim>\<open>adapter.go\<close>), its routing (\<^verbatim>\<open>routing.go\<close>) and tasks (\<^verbatim>\<open>tasks.go\<close>).
\<close>

unbundle bit_operations_syntax

section \<open>Connectivity (\<^verbatim>\<open>connector.go\<close>)\<close>

definition ConnStatusUp :: string where "ConnStatusUp = ''UP''"
definition ConnStatusDown :: string where "ConnStatusDown = ''DOWN''"
definition ConnQualityUndefined :: string where "ConnQualityUndefined = ''undefined''"
definition ConnTypeUnknown :: string where "ConnTypeUnknown = ''unknown''"
definition PingResultSuccess :: string where "PingResultSuccess = ''SUCCESS''"
definition PingResultFailed :: string where "PingResultFailed = ''FAILED''"

text \<open>A nil slice of operationability values is \<open>None\<close>.\<close>

record connectivity_details =
  cd_ConnStatus :: string
  cd_Operationability :: "string list option"
  cd_ConnQuality :: string
  cd_ConnType :: string

record connectivity_report =
  cr_Address :: string
  cr_Hash :: string
  cr_Alias :: string
  cr_PowerSource :: string
  cr_WakeupInterval :: string
  cr_CommTechnology :: string
  cr_Details :: connectivity_details

definition report_sanitize :: "connectivity_report \<Rightarrow> connectivity_report" where
  "report_sanitize c =
     (let d = cr_Details c;
          d1 = (if cd_ConnQuality d = '''' then d\<lparr>cd_ConnQuality := ConnQualityUndefined\<rparr> else d);
          d2 = (if cd_ConnType d1 = '''' then d1\<lparr>cd_ConnType := ConnTypeUnknown\<rparr> else d1);
          d3 = (if cd_Operationability d2 = None then d2\<lparr>cd_Operationability := Some []\<rparr> else d2)
      in c\<lparr>cr_Details := d3\<rparr>)"

record connection_node =
  nd_Address :: string
  nd_Type :: string
  nd_Value :: string

record ping_details =
  pd_Status :: string
  pd_Nodes :: "connection_node list"

record ping_report =
  pr_Address :: string
  pr_Delay :: int
  pr_Details :: ping_details

definition connectivity_value :: "connectivity_report \<Rightarrow> fimp_value" where
  "connectivity_value c =
     VObject [(''address'', VString (cr_Address c)), (''hash'', VString (cr_Hash c)),
              (''alias'', VString (cr_Alias c)), (''power_source'', VString (cr_PowerSource c)),
              (''wakeup_interval'', VString (cr_WakeupInterval c)), (''comm_tech'', VString (cr_CommTechnology c)),
              (''status'', VString (cd_ConnStatus (cr_Details c))),
              (''operationability'', (case cd_Operationability (cr_Details c) of
                 None \<Rightarrow> VNull | Some xs \<Rightarrow> VList (map VString xs))),
              (''conn_quality'', VString (cd_ConnQuality (cr_Details c))),
              (''conn_type'', VString (cd_ConnType (cr_Details c)))]"

definition ping_value :: "ping_report \<Rightarrow> fimp_value" where
  "ping_value r =
     VObject ([(''address'', VString (pr_Address r)), (''delay'', VInt (pr_Delay r)),
               (''status'', VString (pd_Status (pr_Details r)))] @
              (if pd_Nodes (pr_Details r) = [] then []
               else [(''nodes'', VList (map (\<lambda>n. VObject [(''address'', VString (nd_Address n)),
                        (''type'', VString (nd_Type n)), (''value'', VString (nd_Value n))])
                        (pd_Nodes (pr_Details r))))]))"

section \<open>Events (\<^verbatim>\<open>event.go\<close>)\<close>

definition EventDomainAdapterService :: string where "EventDomainAdapterService = ''adapter_service''"
definition EventDomainAdapterThing :: string where "EventDomainAdapterThing = ''adapter_thing''"
definition EventClassAdapterThing :: string where "EventClassAdapterThing = ''thing''"
definition EventClassInclusionReportSent :: string where "EventClassInclusionReportSent = ''inclusion_report_sent''"

record service_event =
  se_domain :: string
  se_class :: string
  se_serviceName :: string
  se_address :: string
  se_eventType :: string
  se_hasChanged :: bool
  se_Level :: "int option"   \<comment> \<open>the field of a \<^verbatim>\<open>LevelEvent\<close> of \<^verbatim>\<open>src/adapter/service/outlvlswitch\<close>\<close>

definition NewServiceEvent :: "string \<Rightarrow> bool \<Rightarrow> service_event" where
  "NewServiceEvent eventType hasChanged =
     \<lparr>se_domain = '''', se_class = '''', se_serviceName = '''', se_address = '''',
      se_eventType = eventType, se_hasChanged = hasChanged, se_Level = None\<rparr>"

datatype adapter_event =
    ServiceEvent service_event
  | ThingEvent string                               \<comment> \<open>address\<close>
  | ConnectivityEvent string connectivity_details
  | InclusionReportSent string inclusion_report

definition newConnectivityEvent :: "string \<Rightarrow> connectivity_details \<Rightarrow> adapter_event" where
  "newConnectivityEvent address c = ConnectivityEvent address c"

definition NewInclusionReportSentEvent :: "string \<Rightarrow> inclusion_report \<Rightarrow> adapter_event" where
  "NewInclusionReportSentEvent address payload = InclusionReportSent address payload"

text \<open>Domain and class of an event, by which listeners select it.\<close>

fun adapter_event_domain :: "adapter_event \<Rightarrow> string" where
  "adapter_event_domain (ServiceEvent e) = se_domain e"
| "adapter_event_domain _ = EventDomainAdapterThing"

fun adapter_event_class :: "adapter_event \<Rightarrow> string" where
  "adapter_event_class (ServiceEvent e) = se_class e"
| "adapter_event_class (InclusionReportSent _ _) = EventClassInclusionReportSent"
| "adapter_event_class _ = EventClassAdapterThing"

section \<open>Things and the adapter: the data\<close>

text \<open>
  A thing. Its services are indexed by topic; a service is its specification. The connector is outside
  of the repository: what it answers is an argument of the methods that ask it, and whether it can be
  controlled is recorded in the thing.
\<close>

record thing =
  th_state :: nat
  th_cache :: "connectivity_report reporting_cache"
  th_strategy :: strategy
  th_inclusionReport :: inclusion_report
  th_services :: "(string \<times> service_spec) list"
  th_controllable :: bool

record thing_config =
  tc_Controllable :: bool
  tc_InclusionReport :: inclusion_report
  tc_ConnectivityReportingStrategy :: "strategy option"

record thing_seed =
  ts_ID :: string
  ts_Info :: "string result option"     \<comment> \<open>nil, or the outcome of marshalling it\<close>
  ts_CustomAddress :: string

record adapter = adapter_state +
  ad_name :: string
  ad_address :: string
  ad_things :: "(string \<times> thing) list"
  ad_initialized :: bool
  ad_published :: "(address \<times> fimp_message) list"
  ad_publishes :: nat
  ad_publishErr :: "nat \<Rightarrow> go_error option"
  ad_events :: "adapter_event list"
  ad_connections :: "(string \<times> bool) list"   \<comment> \<open>calls of \<^verbatim>\<open>Connect\<close> (true) and \<^verbatim>\<open>Disconnect\<close>\<close>

type_synonym 'a adapter_act = "(adapter, 'a) act"

section \<open>The publisher (\<^verbatim>\<open>publisher.go\<close>)\<close>

definition mqtt_Publish :: "address \<Rightarrow> fimp_message \<Rightarrow> unit adapter_act" where
  "mqtt_Publish a m w =
     (let w' = w\<lparr>ad_publishes := Suc (ad_publishes w)\<rparr>
      in case ad_publishErr w (ad_publishes w) of
           Some e \<Rightarrow> Some (Inl e, w')
         | None \<Rightarrow> Some (Inr (), w'\<lparr>ad_published := ad_published w @ [(a, m)]\<rparr>))"

definition PublishServiceMessage :: "fimpgo \<Rightarrow> service_spec \<Rightarrow> fimp_message \<Rightarrow> unit adapter_act" where
  "PublishServiceMessage fg s message =
     act_bind (act_result (wrap_err (''failed to parse a service topic '' @ sv_Address s)
                             (fg_NewAddressFromString fg (sv_Address s)))) (\<lambda>address.
     act_wrap ''failed to publish a service report''
       (mqtt_Publish (address\<lparr>ad_MsgType := fg_MsgTypeEvt fg\<rparr>) (message\<lparr>pl_Service := sv_Name s\<rparr>)))"

definition adapter_event_address :: "fimpgo \<Rightarrow> adapter \<Rightarrow> address" where
  "adapter_event_address fg w =
     \<lparr>ad_PayloadType = '''', ad_MsgType = fg_MsgTypeEvt fg, ad_ResourceType = fg_ResourceTypeAdapter fg,
      ad_ResourceName = ad_name w, ad_ResourceAddress = adapter.ad_address w, ad_ServiceName = '''',
      ad_ServiceAddress = '''', ad_GlobalPrefix = ''''\<rparr>"

definition PublishThingMessage :: "fimpgo \<Rightarrow> string \<Rightarrow> fimp_message \<Rightarrow> unit adapter_act" where
  "PublishThingMessage fg thing_address message w =
     act_wrap (''failed to publish a thing with address '' @ thing_address @ '' report'')
       (mqtt_Publish (adapter_event_address fg w) (message\<lparr>pl_Service := ad_name w\<rparr>)) w"

definition PublishAdapterMessage :: "fimpgo \<Rightarrow> fimp_message \<Rightarrow> unit adapter_act" where
  "PublishAdapterMessage fg message w =
     act_wrap ''failed to publish an adapter report''
       (mqtt_Publish (adapter_event_address fg w) (message\<lparr>pl_Service := ad_name w\<rparr>)) w"

definition PublishEvent :: "adapter_event \<Rightarrow> unit adapter_act" where
  "PublishEvent e = act_modify (\<lambda>w. w\<lparr>ad_events := ad_events w @ [e]\<rparr>)"

definition PublishServiceEvent :: "service_spec \<Rightarrow> service_event \<Rightarrow> unit adapter_act" where
  "PublishServiceEvent s e =
     PublishEvent (ServiceEvent (e\<lparr>se_domain := EventDomainAdapterService, se_class := sv_Name s,
       se_address := sv_Address s, se_serviceName := sv_Name s\<rparr>))"

definition PublishThingEvent :: "adapter_event \<Rightarrow> unit adapter_act" where
  "PublishThingEvent e = PublishEvent e"

section \<open>Things (\<^verbatim>\<open>thing.go\<close>)\<close>

fun seeds_Contains :: "thing_seed list \<Rightarrow> string \<Rightarrow> bool" where
  "seeds_Contains [] i = False"
| "seeds_Contains (s # ss) i = (if ts_ID s = i then True else seeds_Contains ss i)"

definition seeds_Without :: "thing_seed list \<Rightarrow> string \<Rightarrow> thing_seed list" where
  "seeds_Without s i = filter (\<lambda>seed. ts_ID seed \<noteq> i) s"

definition time_Hour :: duration where "time_Hour = 3600 * 1000000000"
definition time_Millisecond :: duration where "time_Millisecond = 1000000"

definition NewThing :: "nat \<Rightarrow> thing_config \<Rightarrow> service_spec list \<Rightarrow> thing" where
  "NewThing state cfg services =
     \<lparr>th_state = state, th_cache = NewReportingCache,
      th_strategy = (case tc_ConnectivityReportingStrategy cfg of
                       None \<Rightarrow> ReportAtLeastEvery time_Hour | Some s \<Rightarrow> s),
      th_inclusionReport = (tc_InclusionReport cfg)\<lparr>ir_Services := services\<rparr>,
      th_services = foldl (\<lambda>m s. AList.update (sv_Address s) s m) [] services,
      th_controllable = tc_Controllable cfg\<rparr>"

definition thing_Address :: "thing \<Rightarrow> string" where
  "thing_Address t = ir_Address (th_inclusionReport t)"

definition thing_Services :: "thing \<Rightarrow> string \<Rightarrow> service_spec list" where
  "thing_Services t name = filter (\<lambda>s. name = '''' \<or> sv_Name s = name) (map snd (th_services t))"

definition HasSuffix :: "string \<Rightarrow> string \<Rightarrow> bool" where
  "HasSuffix s suf \<longleftrightarrow> length suf \<le> length s \<and> drop (length s - length suf) s = suf"

definition thing_ServiceByTopic :: "thing \<Rightarrow> string \<Rightarrow> service_spec option" where
  "thing_ServiceByTopic t topic =
     map_option snd (find (\<lambda>(serviceTopic, s). HasSuffix topic serviceTopic) (th_services t))"

text \<open>\<^verbatim>\<open>crc32.ChecksumIEEE\<close>: the reflected polynomial, one bit at a time.\<close>

definition crc_bit :: "32 word \<Rightarrow> 32 word" where
  "crc_bit c = (if bit c 0 then drop_bit 1 c XOR 0xEDB88320 else drop_bit 1 c)"

definition crc_byte :: "32 word \<Rightarrow> char \<Rightarrow> 32 word" where
  "crc_byte c b = (crc_bit ^^ 8) (c XOR of_char b)"

definition ChecksumIEEE :: "string \<Rightarrow> 32 word" where
  "ChecksumIEEE data = NOT (foldl crc_byte (NOT 0) data)"

text \<open>
  \<^verbatim>\<open>json.Marshal\<close> of an inclusion report is an argument. The thing is looked up by its address in the
  adapter or is not yet registered, so the methods take and return the thing.
\<close>

definition EvtThingInclusionReport :: string where "EvtThingInclusionReport = ''evt.thing.inclusion_report''"
definition EvtThingExclusionReport :: string where "EvtThingExclusionReport = ''evt.thing.exclusion_report''"
definition EvtNetworkNodeReport :: string where "EvtNetworkNodeReport = ''evt.network.node_report''"
definition EvtNetworkAllNodesReport :: string where "EvtNetworkAllNodesReport = ''evt.network.all_nodes_report''"
definition EvtPingReport :: string where "EvtPingReport = ''evt.ping.report''"
definition EvtNetworkResetDone :: string where "EvtNetworkResetDone = ''evt.network.reset_done''"
definition CmdThingGetInclusionReport :: string where "CmdThingGetInclusionReport = ''cmd.thing.get_inclusion_report''"
definition CmdThingDelete :: string where "CmdThingDelete = ''cmd.thing.delete''"
definition CmdNetworkReset :: string where "CmdNetworkReset = ''cmd.network.reset''"
definition CmdNetworkGetNode :: string where "CmdNetworkGetNode = ''cmd.network.get_node''"
definition CmdNetworkGetAllNodes :: string where "CmdNetworkGetAllNodes = ''cmd.network.get_all_nodes''"
definition CmdPingSend :: string where "CmdPingSend = ''cmd.ping.send''"

text \<open>What the adapter takes from outside: the FIMP library, JSON, and the factory of things.\<close>

record adapter_env =
  av_fimpgo :: fimpgo
  av_Marshal :: "inclusion_report \<Rightarrow> string result"
  av_Create :: "nat \<Rightarrow> thing_state_model \<Rightarrow> thing result"
  av_Connectivity :: "string \<Rightarrow> connectivity_details"   \<comment> \<open>what the connector of a thing reports\<close>

definition thing_SendInclusionReport :: "adapter_env \<Rightarrow> thing \<Rightarrow> bool \<Rightarrow> bool adapter_act" where
  "thing_SendInclusionReport av t force =
     act_bind (act_result (wrap_err ''thing: failed to marshal inclusion report''
                             (av_Marshal av (th_inclusionReport t)))) (\<lambda>data.
     let checksum = ChecksumIEEE data in
     act_bind (if force then act_return False
               else act_bind (thingState_InclusionChecksum (th_state t)) (\<lambda>c. act_return (checksum = c))) (\<lambda>same.
     if same then act_return False
     else
       act_bind (act_wrap ''thing: failed to send inclusion report''
                   (PublishAdapterMessage (av_fimpgo av)
                      (fg_New (av_fimpgo av) KObject EvtThingInclusionReport ''''
                         (inclusion_value (th_inclusionReport t)) [] None))) (\<lambda>_.
       act_bind (PublishThingEvent (NewInclusionReportSentEvent (thing_Address t) (th_inclusionReport t))) (\<lambda>_.
       act_bind (act_wrap ''thing: failed to set inclusion checksum''
                   (thingState_SetInclusionChecksum (th_state t) checksum)) (\<lambda>_.
       act_return True)))))"

definition thing_ConnectivityReport :: "thing \<Rightarrow> connectivity_details \<Rightarrow> connectivity_report" where
  "thing_ConnectivityReport t details =
     report_sanitize
       \<lparr>cr_Address = thing_Address t, cr_Hash = ir_ProductHash (th_inclusionReport t),
        cr_Alias = ir_ProductName (th_inclusionReport t), cr_PowerSource = ir_PowerSource (th_inclusionReport t),
        cr_WakeupInterval = ir_WakeUpInterval (th_inclusionReport t),
        cr_CommTechnology = ir_CommTechnology (th_inclusionReport t), cr_Details = details\<rparr>"

definition thing_SendConnectivityReport ::
  "adapter_env \<Rightarrow> time \<Rightarrow> thing \<Rightarrow> bool \<Rightarrow> (bool \<times> thing) adapter_act" where
  "thing_SendConnectivityReport av now t force =
     (let report = thing_ConnectivityReport t (av_Connectivity av (thing_Address t)) in
      act_bind (PublishThingEvent (newConnectivityEvent (thing_Address t) (cr_Details report))) (\<lambda>_.
      if \<not> force \<and> \<not> cache_ReportRequired (th_strategy t) now EvtNetworkNodeReport '''' report (th_cache t)
      then act_return (False, t)
      else
        act_bind (act_wrap ''thing: failed to send node report''
                    (PublishThingMessage (av_fimpgo av) (thing_Address t)
                       (fg_New (av_fimpgo av) KObject EvtNetworkNodeReport '''' (connectivity_value report) [] None))) (\<lambda>_.
        act_return (True, t\<lparr>th_cache := cache_Reported now EvtNetworkNodeReport '''' report (th_cache t)\<rparr>))))"

definition thing_SendPingReport ::
  "adapter_env \<Rightarrow> time \<Rightarrow> ping_details \<Rightarrow> time \<Rightarrow> thing \<Rightarrow> unit adapter_act" where
  "thing_SendPingReport av ts pingDetails now t =
     (let delay = go_quot (time_since now ts) time_Millisecond;
          report = \<lparr>pr_Address = thing_Address t, pr_Delay = delay, pr_Details = pingDetails\<rparr>
      in act_wrap ''thing: failed to send ping report''
           (PublishThingMessage (av_fimpgo av) (thing_Address t)
              (fg_New (av_fimpgo av) KObject EvtPingReport '''' (ping_value report) [] None)))"

definition thing_Connect :: "thing \<Rightarrow> unit adapter_act" where
  "thing_Connect t =
     (if \<not> th_controllable t then act_return ()
      else act_modify (\<lambda>w. w\<lparr>ad_connections := ad_connections w @ [(thing_Address t, True)]\<rparr>))"

definition thing_Disconnect :: "thing \<Rightarrow> unit adapter_act" where
  "thing_Disconnect t =
     (if \<not> th_controllable t then act_return ()
      else act_modify (\<lambda>w. w\<lparr>ad_connections := ad_connections w @ [(thing_Address t, False)]\<rparr>))"

datatype thing_update = ThingUpdateAddService service_spec | ThingUpdateRemoveService service_spec

fun thing_update_Apply :: "thing_update \<Rightarrow> thing \<Rightarrow> thing" where
  "thing_update_Apply (ThingUpdateAddService s) t =
     (if map_of (th_services t) (sv_Address s) = None
      then t\<lparr>th_services := AList.update (sv_Address s) s (th_services t),
             th_inclusionReport := (th_inclusionReport t)
               \<lparr>ir_Services := ir_Services (th_inclusionReport t) @ [s]\<rparr>\<rparr>
      else t)"
| "thing_update_Apply (ThingUpdateRemoveService s) t =
     t\<lparr>th_services := AList.delete (sv_Address s) (th_services t),
       th_inclusionReport := (th_inclusionReport t)
         \<lparr>ir_Services := filter (\<lambda>srv. sv_Address s \<noteq> sv_Address srv) (ir_Services (th_inclusionReport t))\<rparr>\<rparr>"

definition thing_Update :: "thing_update list \<Rightarrow> thing \<Rightarrow> thing" where
  "thing_Update options t = foldl (\<lambda>t opt. thing_update_Apply opt t) t options"

section \<open>The adapter (\<^verbatim>\<open>adapter.go\<close>)\<close>

definition NewAdapter :: "adapter_state \<Rightarrow> string \<Rightarrow> string \<Rightarrow> (nat \<Rightarrow> go_error option) \<Rightarrow> adapter" where
  "NewAdapter state resourceName resourceAddress publishErr =
     adapter_state.extend state
       \<lparr>ad_name = resourceName, adapter.ad_address = resourceAddress, ad_things = [], ad_initialized = False,
        ad_published = [], ad_publishes = 0, ad_publishErr = publishErr, ad_events = [], ad_connections = []\<rparr>"

definition adapter_Services :: "adapter \<Rightarrow> string \<Rightarrow> service_spec list" where
  "adapter_Services a name = concat (map (\<lambda>(_, t). thing_Services t name) (ad_things a))"

fun first_service :: "thing list \<Rightarrow> string \<Rightarrow> (thing \<times> service_spec) option" where
  "first_service [] topic = None"
| "first_service (t # ts) topic =
     (case thing_ServiceByTopic t topic of Some s \<Rightarrow> Some (t, s) | None \<Rightarrow> first_service ts topic)"

definition adapter_ServiceByTopic :: "adapter \<Rightarrow> string \<Rightarrow> service_spec option" where
  "adapter_ServiceByTopic a topic = map_option snd (first_service (map snd (ad_things a)) topic)"

definition adapter_Things :: "adapter \<Rightarrow> thing list" where
  "adapter_Things a = map snd (ad_things a)"

definition adapter_ThingByTopic :: "adapter \<Rightarrow> string \<Rightarrow> thing option" where
  "adapter_ThingByTopic a topic = map_option fst (first_service (map snd (ad_things a)) topic)"

definition adapter_ThingByAddress :: "adapter \<Rightarrow> string \<Rightarrow> thing option" where
  "adapter_ThingByAddress a address = map_of (ad_things a) address"

definition adapter_ThingByID :: "string \<Rightarrow> thing option adapter_act" where
  "adapter_ThingByID i =
     act_bind (state_byID i) (\<lambda>ts.
     case ts of
       None \<Rightarrow> act_return None
     | Some p \<Rightarrow> act_bind (thingState_Address p) (\<lambda>address. act_get (\<lambda>a. map_of (ad_things a) address)))"

definition adapter_ExchangeID :: "string \<Rightarrow> string option adapter_act" where
  "adapter_ExchangeID i =
     act_bind (state_byID i) (\<lambda>ts.
     case ts of
       None \<Rightarrow> act_return None
     | Some p \<Rightarrow> act_bind (thingState_Address p) (\<lambda>address. act_return (Some address)))"

definition adapter_ExchangeAddress :: "string \<Rightarrow> string option adapter_act" where
  "adapter_ExchangeAddress address =
     act_bind (state_byAddress address) (\<lambda>ts.
     case ts of
       None \<Rightarrow> act_return None
     | Some p \<Rightarrow> act_bind (thingState_ID p) (\<lambda>i. act_return (Some i)))"

definition registerThing :: "thing \<Rightarrow> unit adapter_act" where
  "registerThing t =
     act_bind (act_modify (\<lambda>a. a\<lparr>ad_things := AList.update (thing_Address t) t (ad_things a)\<rparr>)) (\<lambda>_.
     thing_Connect t)"

definition unregisterThing :: "thing \<Rightarrow> unit adapter_act" where
  "unregisterThing t =
     act_bind (act_modify (\<lambda>a. a\<lparr>ad_things := AList.delete (thing_Address t) (ad_things a)\<rparr>)) (\<lambda>_.
     thing_Disconnect t)"

text \<open>An error that the message of \<^verbatim>\<open>fmt.Errorf\<close> wraps with the address of a record.\<close>

definition wrap_with_Address :: "string \<Rightarrow> nat \<Rightarrow> 'a adapter_act \<Rightarrow> 'a adapter_act" where
  "wrap_with_Address s p m =
     act_bind (act_try m) (\<lambda>r.
     case r of
       Inr x \<Rightarrow> act_return x
     | Inl e \<Rightarrow> act_bind (thingState_Address p) (\<lambda>address. act_fail (Wrapf (s @ address) e)))"

definition factory_Create :: "adapter_env \<Rightarrow> nat \<Rightarrow> thing adapter_act" where
  "factory_Create av p a = act_result (av_Create av p (as_heap a p)) a"

definition InitializeThings :: "adapter_env \<Rightarrow> unit adapter_act" where
  "InitializeThings av a =
     (if ad_initialized a then act_return () a
      else
        act_bind state_all (\<lambda>states.
        act_bind (act_map states (\<lambda>p.
          act_bind (wrap_with_Address ''failed to create thing with address '' p (factory_Create av p)) (\<lambda>t.
          act_bind (wrap_with_Address ''failed to send inclusion report for thing with address '' p
                      (thing_SendInclusionReport av t False)) (\<lambda>_.
          act_return t)))) (\<lambda>things.
        act_bind (act_for things registerThing) (\<lambda>_.
        act_modify (\<lambda>a. a\<lparr>ad_initialized := True\<rparr>)))) a)"

definition createThingState :: "thing_seed \<Rightarrow> nat adapter_act" where
  "createThingState seed =
     act_bind (if ts_CustomAddress seed = ''''
               then act_wrap (''failed to accquire a new address for thing with ID '' @ ts_ID seed) state_acquireAddress
               else act_return (ts_CustomAddress seed)) (\<lambda>address.
     act_bind (case ts_Info seed of
                 None \<Rightarrow> act_return ''''
               | Some r \<Rightarrow> act_result (wrap_err (''failed to marshal additional information associated with thing with ID ''
                             @ ts_ID seed) r)) (\<lambda>info.
     act_wrap (''failed to persist state of thing with ID '' @ ts_ID seed)
       (state_add \<lparr>tm_ID = ts_ID seed, tm_Address = address, tm_Info = info, tm_State = '''', tm_InclusionChecksum = 0\<rparr>)))"

definition createThing :: "adapter_env \<Rightarrow> thing_seed \<Rightarrow> unit adapter_act" where
  "createThing av seed =
     act_bind (act_wrap (''failed to create state for thing with ID '' @ ts_ID seed) (createThingState seed)) (\<lambda>p.
     act_bind (act_wrap (''failed to create thing with ID '' @ ts_ID seed) (factory_Create av p)) (\<lambda>t.
     act_bind (act_errorf (''failed to add thing with ID '' @ ts_ID seed @ '' to the '') (thing_SendInclusionReport av t True)) (\<lambda>_.
     registerThing t)))"

definition sendExclusionReport :: "adapter_env \<Rightarrow> string \<Rightarrow> unit adapter_act" where
  "sendExclusionReport av address a =
     PublishAdapterMessage (av_fimpgo av)
       (fg_New (av_fimpgo av) KObject EvtThingExclusionReport (ad_name a)
          (VObject [(''Address'', VString address)]) [] None) a"

definition destroyThing :: "adapter_env \<Rightarrow> string \<Rightarrow> unit adapter_act" where
  "destroyThing av address =
     act_bind (state_byAddress address) (\<lambda>ts.
     act_bind (case ts of
                 None \<Rightarrow> act_return ()
               | Some p \<Rightarrow>
                   act_bind (thingState_ID p) (\<lambda>i.
                   act_wrap (''failed to remove state for thing with ID '' @ i) (state_remove i))) (\<lambda>_.
     act_bind (act_get (\<lambda>a. map_of (ad_things a) address)) (\<lambda>t.
     act_bind (case t of None \<Rightarrow> act_return () | Some t \<Rightarrow> unregisterThing t) (\<lambda>_.
     act_wrap (''failed to send exclusion report for thing with address '' @ address)
       (sendExclusionReport av address)))))"

text \<open>The first loop of \<^verbatim>\<open>EnsureThings\<close>: the addresses to remove and the seeds that remain.\<close>

fun partition_things ::
  "(string \<times> string) list \<Rightarrow> thing_seed list \<Rightarrow> string list \<times> thing_seed list" where
  "partition_things [] seeds = ([], seeds)"
| "partition_things ((i, address) # xs) seeds =
     (if \<not> seeds_Contains seeds i
      then let (rm, seeds') = partition_things xs seeds in (address # rm, seeds')
      else partition_things xs (seeds_Without seeds i))"

definition EnsureThings :: "adapter_env \<Rightarrow> thing_seed list \<Rightarrow> unit adapter_act" where
  "EnsureThings av seeds =
     act_bind state_all (\<lambda>states.
     act_bind (act_map states (\<lambda>p. act_bind (thingState_ID p) (\<lambda>i.
        act_bind (thingState_Address p) (\<lambda>address. act_return (i, address))))) (\<lambda>ids.
     let (addressesToRemove, seeds') = partition_things ids seeds in
     act_bind (act_for addressesToRemove (\<lambda>address.
        act_wrap (''failed to destroy thing with address '' @ address) (destroyThing av address))) (\<lambda>_.
     act_for seeds' (\<lambda>seed. act_wrap (''failed to create thing with ID '' @ ts_ID seed) (createThing av seed)))))"

definition CreateThing :: "adapter_env \<Rightarrow> thing_seed \<Rightarrow> unit adapter_act" where
  "CreateThing av seed = act_wrap (''failed to create thing with ID '' @ ts_ID seed) (createThing av seed)"

definition DestroyThingByID :: "adapter_env \<Rightarrow> string \<Rightarrow> unit adapter_act" where
  "DestroyThingByID av i =
     act_bind (state_byID i) (\<lambda>ts.
     case ts of
       None \<Rightarrow> act_return ()
     | Some p \<Rightarrow> act_bind (thingState_Address p) (destroyThing av))"

definition DestroyThingByAddress :: "adapter_env \<Rightarrow> string \<Rightarrow> unit adapter_act" where
  "DestroyThingByAddress av address = destroyThing av address"

definition DestroyAllThings :: "adapter_env \<Rightarrow> unit adapter_act" where
  "DestroyAllThings av =
     act_bind state_all (\<lambda>states.
     act_bind (act_for states (\<lambda>p.
        act_bind (thingState_Address p) (\<lambda>address.
        act_bind (act_try (destroyThing av address)) (\<lambda>r.
        case r of
          Inr _ \<Rightarrow> act_return ()
        | Inl e \<Rightarrow> fail_with_ID ''failed to destroy thing with ID '' p '''' e)))) (\<lambda>_.
     act_modify (\<lambda>a. a\<lparr>ad_things := []\<rparr>)))"

definition adapter_SendConnectivityReport :: "adapter_env \<Rightarrow> unit adapter_act" where
  "adapter_SendConnectivityReport av a =
     PublishAdapterMessage (av_fimpgo av)
       (fg_New (av_fimpgo av) KObject EvtNetworkAllNodesReport (ad_name a)
          (VList (map (\<lambda>t. connectivity_value (thing_ConnectivityReport t (av_Connectivity av (thing_Address t))))
             (adapter_Things a))) [] None) a"

section \<open>Routing and tasks (\<^verbatim>\<open>routing.go\<close>, \<^verbatim>\<open>tasks.go\<close>, \<^verbatim>\<open>service.go\<close>)\<close>

text \<open>
  The processors of the routings. What the clock and the connector answer during a ping are arguments.
\<close>

definition getThingByMessage :: "adapter_env \<Rightarrow> message \<Rightarrow> thing adapter_act" where
  "getThingByMessage av msg =
     act_bind (act_result (wrap_err ''provided address has an incorrect format''
                 (fg_GetStringValue (av_fimpgo av) (ms_Payload msg)))) (\<lambda>address.
     act_bind (act_get (\<lambda>a. adapter_ThingByAddress a address)) (\<lambda>t.
     case t of
       None \<Rightarrow> act_fail (Errorf (''thing not found under the provided address: '' @ address))
     | Some t \<Rightarrow> act_return t))"

definition handleCmdThingGetInclusionReport :: "adapter_env \<Rightarrow> message \<Rightarrow> fimp_message option adapter_act" where
  "handleCmdThingGetInclusionReport av msg =
     act_bind (getThingByMessage av msg) (\<lambda>t.
     act_bind (act_wrap ''failed to send the inclusion report'' (thing_SendInclusionReport av t True)) (\<lambda>_.
     act_return None))"

definition handleCmdThingDelete :: "adapter_env \<Rightarrow> message \<Rightarrow> fimp_message option adapter_act" where
  "handleCmdThingDelete av msg =
     act_bind (act_result (wrap_err ''provided address has an incorrect format''
                 (fg_GetStrMapValue (av_fimpgo av) (ms_Payload msg)))) (\<lambda>value.
     let address = (case map_of value ''address'' of None \<Rightarrow> '''' | Some x \<Rightarrow> x) in
     act_bind (act_wrap (''failed to delete thing with address '' @ address) (DestroyThingByAddress av address)) (\<lambda>_.
     act_return None))"

definition handleCmdNetworkReset :: "adapter_env \<Rightarrow> message \<Rightarrow> fimp_message option adapter_act" where
  "handleCmdNetworkReset av msg =
     act_bind (act_wrap ''failed to reset all things'' (DestroyAllThings av)) (\<lambda>_.
     act_get (\<lambda>a. Some (fg_New (av_fimpgo av) KNull EvtNetworkResetDone (ad_name a) VNull [] (Some (ms_Payload msg)))))"

text \<open>A registered thing whose reporting cache has changed is put back under its address.\<close>

definition update_thing :: "thing \<Rightarrow> unit adapter_act" where
  "update_thing t = act_modify (\<lambda>a. a\<lparr>ad_things := AList.update (thing_Address t) t (ad_things a)\<rparr>)"

definition handleCmdNetworkGetNode :: "adapter_env \<Rightarrow> time \<Rightarrow> message \<Rightarrow> fimp_message option adapter_act" where
  "handleCmdNetworkGetNode av now msg =
     act_bind (getThingByMessage av msg) (\<lambda>t.
     act_bind (act_wrap ''failed to send the node report'' (thing_SendConnectivityReport av now t True)) (\<lambda>(_, t').
     act_bind (update_thing t') (\<lambda>_.
     act_return None)))"

definition handleCmdNetworkGetAllNodes :: "adapter_env \<Rightarrow> message \<Rightarrow> fimp_message option adapter_act" where
  "handleCmdNetworkGetAllNodes av msg =
     act_bind (act_wrap ''failed to send connectivity report'' (adapter_SendConnectivityReport av)) (\<lambda>_.
     act_return None)"

definition handleCmdPingSend ::
  "adapter_env \<Rightarrow> time \<Rightarrow> ping_details \<Rightarrow> time \<Rightarrow> message \<Rightarrow> fimp_message option adapter_act" where
  "handleCmdPingSend av ts pingDetails now msg =
     act_bind (getThingByMessage av msg) (\<lambda>t.
     act_bind (act_wrap ''failed to send the ping report'' (thing_SendPingReport av ts pingDetails now t)) (\<lambda>_.
     act_return None))"

text \<open>\<^verbatim>\<open>RouteAdapter\<close>: the voters of each routing.\<close>

definition RouteAdapter_voters :: "adapter \<Rightarrow> voter list list" where
  "RouteAdapter_voters a =
     map (\<lambda>cmd. [ForService (ad_name a), ForType cmd])
       [CmdThingGetInclusionReport, CmdThingDelete, CmdNetworkReset, CmdNetworkGetNode,
        CmdNetworkGetAllNodes, CmdPingSend]"

text \<open>The tasks log errors and go on.\<close>

definition handleInitialization :: "adapter_env \<Rightarrow> unit adapter_act" where
  "handleInitialization av = act_bind (act_try (InitializeThings av)) (\<lambda>_. act_return ())"

definition handleConnectivityReporting :: "adapter_env \<Rightarrow> time \<Rightarrow> unit adapter_act" where
  "handleConnectivityReporting av now =
     act_bind (act_get adapter_Things) (\<lambda>things.
     act_for things (\<lambda>t.
       act_bind (act_try (thing_SendConnectivityReport av now t False)) (\<lambda>r.
       case r of Inl _ \<Rightarrow> act_return () | Inr (_, t') \<Rightarrow> update_thing t')))"

definition adapter_IsInitialized :: "adapter \<Rightarrow> bool" where
  "adapter_IsInitialized a = ad_initialized a"

text \<open>\<^verbatim>\<open>ShouldSkipServiceTask\<close>: a thing that is down is not polled.\<close>

definition ShouldSkipServiceTask :: "adapter_env \<Rightarrow> adapter \<Rightarrow> service_spec \<Rightarrow> bool" where
  "ShouldSkipServiceTask av a s =
     (case adapter_ThingByTopic a (sv_Address s) of
        None \<Rightarrow> False
      | Some t \<Rightarrow> cd_ConnStatus (cr_Details (thing_ConnectivityReport t (av_Connectivity av (thing_Address t)))) = ConnStatusDown)"

section \<open>How the operations run\<close>

text \<open>Nothing fails: no save, no publication, no lock held.\<close>

definition all_fine :: "adapter \<Rightarrow> bool" where
  "all_fine a \<longleftrightarrow> lock_free a \<and> saves_fine a \<and> (\<forall>n. ad_publishErr a n = None)"

definition env_ok :: "adapter_env \<Rightarrow> bool" where
  "env_ok av \<longleftrightarrow>
     (\<forall>r. \<exists>data. av_Marshal av r = Inr data)
   \<and> (\<forall>p m. \<exists>t. av_Create av p m = Inr t \<and> thing_Address t = tm_Address m \<and> th_state t = p)"

text \<open>
  The invariant of an initialised adapter: exactly the recorded things are registered, each under its
  address.
\<close>

definition adapter_inv :: "adapter \<Rightarrow> bool" where
  "adapter_inv a \<longleftrightarrow>
     state_inv a \<and> amap_ok (ad_things a) \<and> fst ` set (ad_things a) = snd ` set (things_view a)
   \<and> (\<forall>(x, t) \<in> set (ad_things a). thing_Address t = x)"

text \<open>What an operation may change besides the records and the registered things.\<close>

definition same_core :: "adapter \<Rightarrow> adapter \<Rightarrow> bool" where
  "same_core a b \<longleftrightarrow>
     things_view b = things_view a \<and> ad_things b = ad_things a \<and> as_AddressIndex b = as_AddressIndex a
   \<and> (state_inv a \<longrightarrow> state_inv b) \<and> (all_fine a \<longrightarrow> all_fine b)"

lemma same_core_trans: "same_core a b \<Longrightarrow> same_core b c \<Longrightarrow> same_core a c"
  by (simp add: same_core_def)

lemma same_core_outside [simp]:
  "same_core a (a\<lparr>ad_published := x\<rparr>)" "same_core a (a\<lparr>ad_publishes := n\<rparr>)" "same_core a (a\<lparr>ad_events := e\<rparr>)"
  "same_core a (a\<lparr>ad_connections := c\<rparr>)" "same_core a (saved a)"
  by (simp_all add: same_core_def things_view_def state_inv_def lock_free_def all_fine_def saves_fine_def saved_def)

lemma ad_things_update [simp]:
  "things_view (a\<lparr>ad_things := x\<rparr>) = things_view a" "all_fine (a\<lparr>ad_things := x\<rparr>) = all_fine a"
  "state_inv (a\<lparr>ad_things := x\<rparr>) = state_inv a"
  by (simp_all add: things_view_def state_inv_def lock_free_def all_fine_def saves_fine_def)

lemma publish_fine:
  assumes "all_fine a"
  shows "\<exists>a'. mqtt_Publish ad m a = Some (Inr (), a') \<and> same_core a a'
    \<and> ad_published a' = ad_published a @ [(ad, m)]"
proof -
  let ?a = "a\<lparr>ad_publishes := Suc (ad_publishes a), ad_published := ad_published a @ [(ad, m)]\<rparr>"
  have "same_core a ?a"
    by (rule same_core_trans [of _ "a\<lparr>ad_publishes := Suc (ad_publishes a)\<rparr>"]) simp_all
  then show ?thesis using assms by (simp add: mqtt_Publish_def all_fine_def Let_def)
qed

lemma PublishAdapterMessage_fine:
  assumes "all_fine a"
  shows "\<exists>a'. PublishAdapterMessage fg m a = Some (Inr (), a') \<and> same_core a a'
    \<and> ad_published a' = ad_published a @ [(adapter_event_address fg a, m\<lparr>pl_Service := ad_name a\<rparr>)]"
  using publish_fine [OF assms, of "adapter_event_address fg a" "m\<lparr>pl_Service := ad_name a\<rparr>"]
  by (auto simp: PublishAdapterMessage_def)





section \<open>Creating and destroying one thing\<close>




definition seed_ok :: "thing_seed \<Rightarrow> bool" where
  "seed_ok seed \<longleftrightarrow> (case ts_Info seed of None \<Rightarrow> True | Some r \<Rightarrow> \<not> isl r) \<and> (\<forall>j. ts_CustomAddress seed \<noteq> Itoa j)"

text \<open>The address a new thing gets.\<close>

definition seed_address :: "adapter \<Rightarrow> thing_seed \<Rightarrow> string" where
  "seed_address a seed =
     (if ts_CustomAddress seed = '''' then Itoa (as_AddressIndex a + 1) else ts_CustomAddress seed)"

lemma createThingState_fine:
  assumes "state_inv a" "saves_fine a" "seed_ok seed" "ts_ID seed \<notin> fst ` set (things_view a)"
    and "ts_CustomAddress seed = '''' \<or> ts_CustomAddress seed \<notin> snd ` set (things_view a)"
  shows "\<exists>a'. createThingState seed a = Some (Inr (as_next a), a') \<and> state_inv a' \<and> saves_fine a'
    \<and> things_view a' = things_view a @ [(ts_ID seed, seed_address a seed)] \<and> ad_things a' = ad_things a
    \<and> ad_publishErr a' = ad_publishErr a \<and> ad_publishes a' = ad_publishes a
    \<and> tm_Address (as_heap a' (as_next a)) = seed_address a seed"
proof -
  let ?x = "seed_address a seed"
  let ?a1 = "if ts_CustomAddress seed = '''' then saved (a\<lparr>as_AddressIndex := as_AddressIndex a + 1\<rparr>) else a"
  obtain info where info: "(case ts_Info seed of None \<Rightarrow> act_return '''' | Some r \<Rightarrow> act_result
      (wrap_err (''failed to marshal additional information associated with thing with ID '' @ ts_ID seed) r))
      = (act_return info :: string adapter_act)"
  proof (cases "ts_Info seed")
    case None
    then show ?thesis using that by simp
  next
    case (Some r)
    then obtain b where "r = Inr b" using assms(3) by (cases r) (auto simp: seed_ok_def)
    with Some that show ?thesis by (simp add: fun_eq_iff)
  qed
  let ?m = "\<lparr>tm_ID = ts_ID seed, tm_Address = ?x, tm_Info = info, tm_State = '''', tm_InclusionChecksum = 0\<rparr>"
  have lf: "lock_free a" "saves_fine a" using assms(1,2) by (simp_all add: state_inv_def)
  have acq: "(if ts_CustomAddress seed = '''' then act_wrap s state_acquireAddress
      else act_return (ts_CustomAddress seed)) a = Some (Inr ?x, ?a1)" for s
    using acquireAddress_run [OF lf] by (simp add: seed_address_def)
  have a1: "state_inv ?a1" "things_view ?a1 = things_view a" "as_next ?a1 = as_next a" "ad_things ?a1 = ad_things a"
    "ad_publishErr ?a1 = ad_publishErr a" "ad_publishes ?a1 = ad_publishes a" "saves_fine ?a1" "lock_free ?a1"
    using acquire_inv [OF assms(1)] assms(1,2)
    by (simp_all add: saved_def lock_free_def saves_fine_def things_view_def state_inv_def)
  have x: "?x \<notin> snd ` set (things_view ?a1)" "\<forall>j > as_AddressIndex ?a1. ?x \<noteq> Itoa j"
  proof -
    have "0 \<le> as_AddressIndex a" using assms(1) by (simp add: state_inv_def)
    then have "Itoa (as_AddressIndex a + 1) \<noteq> Itoa j" if "as_AddressIndex a + 1 < j" for j
      using that Itoa_inj_nonneg [of "as_AddressIndex a + 1" j] by fastforce
    then show "?x \<notin> snd ` set (things_view ?a1)" "\<forall>j > as_AddressIndex ?a1. ?x \<noteq> Itoa j"
      unfolding a1(2) using acquire_inv(2) [OF assms(1)] assms(3,5)
      by (auto simp: seed_address_def seed_ok_def)
  qed
  let ?a2 = "?a1\<lparr>as_heap := (as_heap ?a1)(as_next ?a1 := ?m), as_next := Suc (as_next ?a1),
               as_Things := AList.update (tm_ID ?m) (as_next ?a1) (as_Things ?a1)\<rparr>"
  have add: "things_view ?a2 = things_view ?a1 @ [(ts_ID seed, ?x)]" "state_inv ?a2"
    using add_inv [OF a1(1), of ?m] x assms(4) a1(2) by simp_all
  have run: "state_add ?m ?a1 = Some (Inr (as_next a), saved ?a2)"
    using add_run [of ?a1 ?m] a1(3,7,8) by simp
  have "createThingState seed a = Some (Inr (as_next a), saved ?a2)"
    unfolding createThingState_def using acq run by (simp add: info)
  moreover have "saves_fine (saved ?a2)" "ad_things (saved ?a2) = ad_things a"
    "ad_publishErr (saved ?a2) = ad_publishErr a" "ad_publishes (saved ?a2) = ad_publishes a"
    "tm_Address (as_heap (saved ?a2) (as_next a)) = ?x"
    using a1 by (simp_all add: saves_fine_def saved_def)
  ultimately show ?thesis using add a1(2) by auto
qed

text \<open>The condition under which a seed can be created beside the recorded things.\<close>

definition seed_fits :: "(string \<times> string) list \<Rightarrow> thing_seed \<Rightarrow> bool" where
  "seed_fits v seed \<longleftrightarrow>
     seed_ok seed \<and> ts_ID seed \<notin> fst ` set v
   \<and> (ts_CustomAddress seed = '''' \<or> ts_CustomAddress seed \<notin> snd ` set v)"


section \<open>Reconciling the things with the seeds\<close>

lemma seeds_Contains_iff: "seeds_Contains seeds i \<longleftrightarrow> i \<in> ts_ID ` set seeds"
  by (induction seeds) auto

lemma partition_things_eq:
  "distinct (map fst v) \<Longrightarrow>
   partition_things v seeds =
     (map snd (filter (\<lambda>y. fst y \<notin> ts_ID ` set seeds) v), filter (\<lambda>s. ts_ID s \<notin> fst ` set v) seeds)"
proof (induction v arbitrary: seeds)
  case Nil
  then show ?case by simp
next
  case (Cons y v)
  obtain i x where y: "y = (i, x)" by (cases y)
  have i: "i \<notin> fst ` set v" and d: "distinct (map fst v)" using Cons.prems y by simp_all
  show ?case
  proof (cases "i \<in> ts_ID ` set seeds")
    case False
    then have "filter (\<lambda>s. ts_ID s \<notin> fst ` set v) seeds = filter (\<lambda>s. ts_ID s \<notin> fst ` set (y # v)) seeds"
      using y by (intro filter_cong) auto
    then show ?thesis using False Cons.IH [OF d] y by (simp add: seeds_Contains_iff)
  next
    case True
    have "ts_ID ` set (seeds_Without seeds i) = ts_ID ` set seeds - {i}"
      by (auto simp: seeds_Without_def)
    moreover have "fst z \<noteq> i" if "z \<in> set v" for z using i that by auto
    ultimately have "filter (\<lambda>y. fst y \<notin> ts_ID ` set (seeds_Without seeds i)) v
        = filter (\<lambda>y. fst y \<notin> ts_ID ` set seeds) v"
      by (intro filter_cong) auto
    moreover have "filter (\<lambda>s. ts_ID s \<notin> fst ` set v) (seeds_Without seeds i)
        = filter (\<lambda>s. ts_ID s \<notin> fst ` set (y # v)) seeds"
      unfolding seeds_Without_def filter_filter using y by (intro filter_cong) auto
    ultimately show ?thesis
      using True Cons.IH [OF d, of "seeds_Without seeds i"] y by (simp add: seeds_Contains_iff)
  qed
qed

lemma read_things:
  assumes "state_inv a"
  shows "act_map (map snd (as_Things a)) (\<lambda>p. act_bind (thingState_ID p) (\<lambda>i.
        act_bind (thingState_Address p) (\<lambda>address. act_return (i, address)))) a = Some (Inr (things_view a), a)"
proof -
  have lf: "lock_free a" using assms by (simp add: state_inv_def)
  have "\<forall>(i, p) \<in> set xs. tm_ID (as_heap a p) = i \<Longrightarrow>
    act_map (map snd xs) (\<lambda>p. act_bind (thingState_ID p) (\<lambda>i.
        act_bind (thingState_Address p) (\<lambda>address. act_return (i, address)))) a
      = Some (Inr (map (\<lambda>(i, p). (i, tm_Address (as_heap a p))) xs), a)" for xs
    by (induction xs) (auto simp: lf)
  then show ?thesis using assms by (auto simp: state_inv_def things_view_def)
qed




lemma things_view_ids: "state_inv a \<Longrightarrow> distinct (map fst (things_view a))"
  by (simp add: state_inv_def things_view_fst amap_ok_def)

lemma EnsureThings_run:
  assumes "state_inv a"
  shows "EnsureThings av seeds a =
      act_bind (act_for (map snd (filter (\<lambda>y. fst y \<notin> ts_ID ` set seeds) (things_view a)))
        (\<lambda>x. act_wrap (''failed to destroy thing with address '' @ x) (destroyThing av x))) (\<lambda>_.
      act_for (filter (\<lambda>s. ts_ID s \<notin> fst ` set (things_view a)) seeds)
        (\<lambda>s. act_wrap (''failed to create thing with ID '' @ ts_ID s) (createThing av s))) a"
  using read_things [OF assms] partition_things_eq [OF things_view_ids [OF assms], of seeds] assms
  by (simp add: EnsureThings_def state_inv_def)

lemma EnsureThings_settled:
  assumes "state_inv a" "fst ` set (things_view a) = ts_ID ` set seeds"
  shows "EnsureThings av seeds a = Some (Inr (), a)"
proof -
  have "filter (\<lambda>y. fst y \<notin> ts_ID ` set seeds) (things_view a) = []"
    "filter (\<lambda>s. ts_ID s \<notin> fst ` set (things_view a)) seeds = []"
    using assms(2) by (auto simp: filter_empty_conv)
  then show ?thesis using EnsureThings_run [OF assms(1)] by simp
qed



section \<open>Properties\<close>


text \<open>A factory of things without services, and an adapter without things.\<close>

definition demo_adapter_env :: adapter_env where
  "demo_adapter_env =
     \<lparr>av_fimpgo = demo_fimpgo, av_Marshal = (\<lambda>r. Inr (ir_ProductName r)),
      av_Create = (\<lambda>p m. Inr (NewThing p
        \<lparr>tc_Controllable = True,
         tc_InclusionReport = \<lparr>ir_Address = tm_Address m, ir_ProductHash = ''h'', ir_ProductName = ''lamp'', ir_PowerSource = ''ac'',
           ir_WakeUpInterval = ''-1'', ir_CommTechnology = ''zw'', ir_Groups = [], ir_Services = []\<rparr>,
         tc_ConnectivityReportingStrategy = None\<rparr> [])),
      av_Connectivity = (\<lambda>_. \<lparr>cd_ConnStatus = ConnStatusUp, cd_Operationability = None, cd_ConnQuality = '''', cd_ConnType = ''''\<rparr>)\<rparr>"

definition demo_adapter :: "(nat \<Rightarrow> go_error option) \<Rightarrow> adapter" where
  "demo_adapter publishErr = NewAdapter (state_NewState (0, []) (\<lambda>_. None)) ''zw'' ''1'' publishErr"

definition demo_seeds :: "thing_seed list" where
  "demo_seeds = [\<lparr>ts_ID = ''a'', ts_Info = None, ts_CustomAddress = ''''\<rparr>,
                 \<lparr>ts_ID = ''b'', ts_Info = Some (Inr ''{}''), ts_CustomAddress = ''x''\<rparr>]"

lemma demo_env_ok: "env_ok demo_adapter_env"
  by (simp add: env_ok_def demo_adapter_env_def NewThing_def thing_Address_def)

lemma demo_adapter_inv:
  "adapter_inv (demo_adapter e)" "things_view (demo_adapter e) = []" "saves_fine (demo_adapter e)"
  "ad_publishErr (demo_adapter e) = e" "ad_publishes (demo_adapter e) = 0"
  by (simp_all add: adapter_inv_def demo_adapter_def NewAdapter_def adapter_state.defs state_NewState_def
      state_inv_def things_view_def lock_free_def saves_fine_def Let_def)



text \<open>
  C25. A thing whose creation failed half way is taken for existing: if the inclusion report of a new thing cannot be published,
  \<^verbatim>\<open>CreateThing\<close> returns an error and the thing is not registered, but its record stays. While the wanted things stay
  those recorded, any number of further calls of \<^verbatim>\<open>EnsureThings\<close> in the same process report success, change nothing, and so leave
  the thing recorded and not registered, whether publishing works again or not.
\<close>
theorem failed_creation_not_retried:
  assumes "adapter_inv a" "saves_fine a" "env_ok av" "seed_fits (things_view a) s"
    and "ad_publishErr a (ad_publishes a) = Some e"
  shows "\<exists>e' a'. CreateThing av s a = Some (Inl e', a') \<and> ad_things a' = ad_things a
    \<and> things_view a' = things_view a @ [(ts_ID s, seed_address a s)] \<and> seed_address a s \<notin> fst ` set (ad_things a')
    \<and> (\<forall>calls pe. list_all (\<lambda>seeds. ts_ID ` set seeds = fst ` set (things_view a')) calls \<longrightarrow>
         act_for calls (EnsureThings av) (a'\<lparr>ad_publishErr := pe\<rparr>) = Some (Inr (), a'\<lparr>ad_publishErr := pe\<rparr>))"
proof -
  have fits: "seed_ok s" "ts_ID s \<notin> fst ` set (things_view a)"
    "ts_CustomAddress s = '''' \<or> ts_CustomAddress s \<notin> snd ` set (things_view a)"
    using assms(4) by (simp_all add: seed_fits_def)
  have sinv: "state_inv a" using assms(1) by (simp add: adapter_inv_def)
  from createThingState_fine [OF sinv assms(2) fits] obtain a1 where
    a1: "createThingState s a = Some (Inr (as_next a), a1)" "state_inv a1"
      "things_view a1 = things_view a @ [(ts_ID s, seed_address a s)]" "ad_things a1 = ad_things a"
      "ad_publishErr a1 = ad_publishErr a" "ad_publishes a1 = ad_publishes a" by blast
  obtain t where t: "av_Create av (as_next a) (as_heap a1 (as_next a)) = Inr t"
    using assms(3) unfolding env_ok_def by metis
  obtain data where data: "av_Marshal av (th_inclusionReport t) = Inr data"
    using assms(3) unfolding env_ok_def by blast
  let ?a2 = "a1\<lparr>ad_publishes := Suc (ad_publishes a1)\<rparr>"
  obtain e2 where send: "thing_SendInclusionReport av t True a1 = Some (Inl e2, ?a2)"
    using data assms(5) a1(5,6)
    by (simp add: thing_SendInclusionReport_def PublishAdapterMessage_def mqtt_Publish_def Let_def)
  have v: "things_view ?a2 = things_view a1" and inv2: "state_inv ?a2"
    using a1(2) by (simp_all add: things_view_def state_inv_def lock_free_def)
  have "seed_address a s \<notin> snd ` set (things_view a)"
    using a1(2,3) by (auto simp: state_inv_def)
  then have "seed_address a s \<notin> fst ` set (ad_things ?a2)"
    using assms(1) a1(4) by (simp add: adapter_inv_def)
  moreover have "\<exists>e'. CreateThing av s a = Some (Inl e', ?a2)"
    using a1(1) t send by (simp add: CreateThing_def createThing_def factory_Create_def)
  moreover have "act_for calls (EnsureThings av) (?a2\<lparr>ad_publishErr := pe\<rparr>) = Some (Inr (), ?a2\<lparr>ad_publishErr := pe\<rparr>)"
    if "list_all (\<lambda>seeds. ts_ID ` set seeds = fst ` set (things_view ?a2)) calls" for calls pe
  proof -
    have inv3: "state_inv (?a2\<lparr>ad_publishErr := pe\<rparr>)" "things_view (?a2\<lparr>ad_publishErr := pe\<rparr>) = things_view ?a2"
      using inv2 by (simp_all add: things_view_def state_inv_def lock_free_def)
    then show ?thesis using that EnsureThings_settled [OF inv3(1)] by (induction calls) (simp_all add: act_bind_def)
  qed
  ultimately show ?thesis using v a1(3,4) by auto
qed

theorem failed_creation_not_retried_witness:
  "\<exists>e' a'. CreateThing demo_adapter_env (hd demo_seeds) (demo_adapter (\<lambda>_. Some (Errorf ''offline''))) = Some (Inl e', a')
     \<and> ad_things a' = ad_things (demo_adapter (\<lambda>_. Some (Errorf ''offline'')))
     \<and> things_view a' = [(''a'', ''1'')] \<and> ''1'' \<notin> fst ` set (ad_things a')
     \<and> act_for [[hd demo_seeds], [hd demo_seeds]] (EnsureThings demo_adapter_env) (a'\<lparr>ad_publishErr := \<lambda>_. None\<rparr>)
         = Some (Inr (), a'\<lparr>ad_publishErr := \<lambda>_. None\<rparr>)"
proof -
  let ?a = "demo_adapter (\<lambda>_. Some (Errorf ''offline''))"
  have "seed_fits (things_view ?a) (hd demo_seeds)"
    using Itoa_nonempty by (auto simp: demo_seeds_def seed_fits_def seed_ok_def demo_adapter_inv dest: sym)
  moreover have "seed_address ?a (hd demo_seeds) = ''1''"
    by (simp add: seed_address_def demo_seeds_def demo_adapter_def NewAdapter_def adapter_state.defs
        state_NewState_def Let_def Itoa_def nat_digits.simps digit_char_def char_of_eq_iff take_bit_eq_mod)
  moreover have "ts_ID (hd demo_seeds) = ''a''" by (simp add: demo_seeds_def)
  moreover have "ad_publishErr ?a (ad_publishes ?a) = Some (Errorf ''offline'')" by (simp add: demo_adapter_inv)
  moreover have "things_view ?a = []" by (simp add: demo_adapter_inv)
  ultimately obtain e' a' where "CreateThing demo_adapter_env (hd demo_seeds) ?a = Some (Inl e', a')"
    "ad_things a' = ad_things ?a" "things_view a' = [(''a'', ''1'')]" "''1'' \<notin> fst ` set (ad_things a')"
    "list_all (\<lambda>seeds. ts_ID ` set seeds = fst ` set (things_view a')) [[hd demo_seeds], [hd demo_seeds]] \<longrightarrow>
       act_for [[hd demo_seeds], [hd demo_seeds]] (EnsureThings demo_adapter_env) (a'\<lparr>ad_publishErr := \<lambda>_. None\<rparr>)
         = Some (Inr (), a'\<lparr>ad_publishErr := \<lambda>_. None\<rparr>)"
    using failed_creation_not_retried [OF demo_adapter_inv(1,3) demo_env_ok, of _ "hd demo_seeds"] by (metis append_Nil)
  moreover from this(3) have "list_all (\<lambda>seeds. ts_ID ` set seeds = fst ` set (things_view a')) [[hd demo_seeds], [hd demo_seeds]]"
    by (simp add: demo_seeds_def)
  ultimately show ?thesis by blast
qed

text \<open>
  An inclusion report is sent once: after a report has been sent, or found to be sent already, asking
  again without force sends nothing and changes nothing; when the report of the thing has changed so that
  its checksum differs, the changed report is sent, exactly once.
\<close>
theorem inclusion_report_sent_once:
  assumes "all_fine a" "av_Marshal av (th_inclusionReport t) = Inr data"
    and "av_Marshal av (th_inclusionReport t') = Inr data'" "th_state t' = th_state t"
    and "ChecksumIEEE data' \<noteq> ChecksumIEEE data"
  shows "\<exists>b a'. thing_SendInclusionReport av t force a = Some (Inr b, a') \<and> (force \<longrightarrow> b)
    \<and> thing_SendInclusionReport av t False a' = Some (Inr False, a')
    \<and> (\<exists>a''. thing_SendInclusionReport av t' False a' = Some (Inr True, a'')
         \<and> length (ad_published a'') = Suc (length (ad_published a')))"
proof -
  have sent: "\<exists>b'. thing_SendInclusionReport av u f b = Some (Inr True, b') \<and> all_fine b'
      \<and> tm_InclusionChecksum (as_heap b' (th_state u)) = ChecksumIEEE d
      \<and> length (ad_published b') = Suc (length (ad_published b))"
    if fb: "all_fine b" and d: "av_Marshal av (th_inclusionReport u) = Inr d"
      and new: "f \<or> ChecksumIEEE d \<noteq> tm_InclusionChecksum (as_heap b (th_state u))" for b u f d
  proof -
    obtain b1 where b1: "PublishAdapterMessage (av_fimpgo av)
        (fg_New (av_fimpgo av) KObject EvtThingInclusionReport '''' (inclusion_value (th_inclusionReport u)) [] None) b
        = Some (Inr (), b1)" "same_core b b1" "length (ad_published b1) = Suc (length (ad_published b))"
      using PublishAdapterMessage_fine [OF fb] by fastforce
    let ?b2 = "b1\<lparr>ad_events := ad_events b1 @ [NewInclusionReportSentEvent (thing_Address u) (th_inclusionReport u)]\<rparr>"
    have f2: "all_fine ?b2" using b1(2) fb by (simp add: same_core_def all_fine_def lock_free_def saves_fine_def)
    then have run: "thingState_SetInclusionChecksum (th_state u) (ChecksumIEEE d) ?b2 = Some (Inr (), saved
        (?b2\<lparr>as_heap := (as_heap ?b2)(th_state u := (as_heap ?b2 (th_state u))\<lparr>tm_InclusionChecksum := ChecksumIEEE d\<rparr>)\<rparr>))"
      by (intro SetInclusionChecksum_run) (simp_all add: all_fine_def)
    have "lock_free b" using fb by (simp add: all_fine_def)
    with b1 run d new f2 show ?thesis
      by (auto simp: thing_SendInclusionReport_def PublishThingEvent_def PublishEvent_def Let_def
          all_fine_def lock_free_def saves_fine_def saved_def)
  qed
  have same: "thing_SendInclusionReport av t False b = Some (Inr False, b)"
    if "all_fine b" "tm_InclusionChecksum (as_heap b (th_state t)) = ChecksumIEEE data" for b
    using that assms(2) by (simp add: thing_SendInclusionReport_def all_fine_def Let_def)
  have "\<exists>b a'. thing_SendInclusionReport av t force a = Some (Inr b, a') \<and> (force \<longrightarrow> b) \<and> all_fine a'
      \<and> tm_InclusionChecksum (as_heap a' (th_state t)) = ChecksumIEEE data"
    using sent [OF assms(1,2), of force] same [OF assms(1)] assms(1) by (cases force) fastforce+
  then obtain b a' where a': "thing_SendInclusionReport av t force a = Some (Inr b, a')" "force \<longrightarrow> b" "all_fine a'"
      "tm_InclusionChecksum (as_heap a' (th_state t)) = ChecksumIEEE data" by blast
  with same [OF a'(3,4)] sent [OF a'(3) assms(3), of False] assms(4,5) show ?thesis by auto
qed

definition demo_thing :: "string \<Rightarrow> thing" where
  "demo_thing name = NewThing 0
     \<lparr>tc_Controllable = False,
      tc_InclusionReport = \<lparr>ir_Address = ''1'', ir_ProductHash = ''h'', ir_ProductName = name, ir_PowerSource = ''ac'',
        ir_WakeUpInterval = ''-1'', ir_CommTechnology = ''zw'', ir_Groups = [], ir_Services = []\<rparr>,
      tc_ConnectivityReportingStrategy = None\<rparr> []"

theorem inclusion_report_sent_once_witness:
  "\<exists>a' a''. thing_SendInclusionReport demo_adapter_env (demo_thing ''a'') True (demo_adapter (\<lambda>_. None)) = Some (Inr True, a')
     \<and> thing_SendInclusionReport demo_adapter_env (demo_thing ''a'') False a' = Some (Inr False, a')
     \<and> thing_SendInclusionReport demo_adapter_env (demo_thing ''b'') False a' = Some (Inr True, a'')"
proof -
  have "all_fine (demo_adapter (\<lambda>_. None))"
    using demo_adapter_inv [of "\<lambda>_. None"] by (simp add: all_fine_def adapter_inv_def state_inv_def)
  moreover have "av_Marshal demo_adapter_env (th_inclusionReport (demo_thing n)) = Inr n" for n
    by (simp add: demo_adapter_env_def demo_thing_def NewThing_def)
  moreover have "th_state (demo_thing n) = 0" for n by (simp add: demo_thing_def NewThing_def)
  moreover have "ChecksumIEEE ''b'' \<noteq> ChecksumIEEE ''a''" by code_simp
  ultimately show ?thesis
    using inclusion_report_sent_once [of "demo_adapter (\<lambda>_. None)" demo_adapter_env "demo_thing ''a''" "''a''"
        "demo_thing ''b''" "''b''" True] by auto
qed

end
