(* ===== verification/Virtual_Meter.thy ===== *)
theory Virtual_Meter
  imports Adapter Rounding
begin

text \<open>
  The virtual meter of \<^verbatim>\<open>src/adapter/service/virtualmeter\<close>, which estimates the energy used by a device from
  the power of its modes: the stored devices (\<^verbatim>\<open>storage.go\<close>), the manager (\<^verbatim>\<open>manager.go\<close>), the controller of
  the numeric meter (\<^verbatim>\<open>controller.go\<close>), the event processors (\<^verbatim>\<open>listener.go\<close>), the service with its routing
  and tasks. The key-value database is a map whose calls may fail; \<^verbatim>\<open>float64\<close> arithmetic rounds by \<open>rnd\<close>.
\<close>

section \<open>Devices and their storage (\<^verbatim>\<open>storage.go\<close>)\<close>

record device =
  dv_Modes :: "(string \<times> rat) list"
  dv_CurrentMode :: string
  dv_Level :: rat
  dv_AccumulatedEnergy :: rat
  dv_LastTimeUpdated :: time
  dv_Unit :: string
  dv_Active :: bool

definition device_Initialised :: "device \<Rightarrow> bool" where
  "device_Initialised d \<longleftrightarrow> 0 < length (dv_Modes d)"

record vmanager =
  vm_ad :: adapter
  vm_virtualServices :: "(string \<times> service_spec option) list"
  vm_devices :: "string \<Rightarrow> device option"
  vm_dbOps :: nat
  vm_dbErr :: "nat \<Rightarrow> go_error option"
  vm_energyRecalculationPeriod :: duration
  vm_garbageCleaningPeriod :: duration

type_synonym 'a vm_act = "(vmanager, 'a) act"

definition db_call :: "unit vm_act" where
  "db_call w =
     (let w' = w\<lparr>vm_dbOps := Suc (vm_dbOps w)\<rparr>
      in case vm_dbErr w (vm_dbOps w) of Some e \<Rightarrow> Some (Inl e, w') | None \<Rightarrow> Some (Inr (), w'))"

definition vstorage_SetDevice :: "string \<Rightarrow> device \<Rightarrow> unit vm_act" where
  "vstorage_SetDevice addr d =
     act_bind (act_wrap (''storage: failed to save device by addr - '' @ addr) db_call) (\<lambda>_.
     act_modify (\<lambda>w. w\<lparr>vm_devices := (vm_devices w)(addr := Some d)\<rparr>))"

definition clean_device :: "time \<Rightarrow> device" where
  "clean_device now =
     \<lparr>dv_Modes = [], dv_CurrentMode = '''', dv_Level = 0, dv_AccumulatedEnergy = 0, dv_LastTimeUpdated = now,
      dv_Unit = '''', dv_Active = False\<rparr>"

definition vstorage_CleanDevice :: "time \<Rightarrow> string \<Rightarrow> unit vm_act" where
  "vstorage_CleanDevice now addr =
     act_bind (act_wrap (''storage: failed to mark as deleted by addr - '' @ addr) db_call) (\<lambda>_.
     act_modify (\<lambda>w. w\<lparr>vm_devices := (vm_devices w)(addr := Some (clean_device now))\<rparr>))"

definition vstorage_DeleteDevice :: "string \<Rightarrow> unit vm_act" where
  "vstorage_DeleteDevice addr =
     act_bind (act_wrap (''storage: failed to delete device by addr - '' @ addr) db_call) (\<lambda>_.
     act_modify (\<lambda>w. w\<lparr>vm_devices := (vm_devices w)(addr := None)\<rparr>))"

definition vstorage_Device :: "string \<Rightarrow> device option vm_act" where
  "vstorage_Device addr =
     act_bind (act_wrap ''storage: failed to get device from the database'' db_call) (\<lambda>_.
     act_get (\<lambda>w. vm_devices w addr))"

text \<open>The device, or the error that the manager returns when the database fails or has no such device.\<close>

definition device_or_fail :: "string \<Rightarrow> string \<Rightarrow> device vm_act" where
  "device_or_fail s topic =
     act_bind (act_wrap s (vstorage_Device topic)) (\<lambda>d.
     case d of None \<Rightarrow> act_fail (Errorf s) | Some d \<Rightarrow> act_return d)"

section \<open>Energy (\<^verbatim>\<open>manager.go\<close>)\<close>

definition ModeOn :: string where "ModeOn = ''on''"
definition ModeOff :: string where "ModeOff = ''off''"
definition VirtualMeterElec :: string where "VirtualMeterElec = ''virtual_meter_elec''"
definition UnitW :: string where "UnitW = ''W''"
definition UnitKWh :: string where "UnitKWh = ''kWh''"

text \<open>\<^verbatim>\<open>d.Modes[mode]\<close>: a missing mode reads as zero.\<close>

definition mode_power :: "(string \<times> rat) list \<Rightarrow> string \<Rightarrow> rat" where
  "mode_power modes mode = (case map_of modes mode of None \<Rightarrow> 0 | Some p \<Rightarrow> p)"

definition float_Hours :: "rounding \<Rightarrow> duration \<Rightarrow> rat" where
  "float_Hours rnd d = float_units rnd time_Hour d"

text \<open>\<open>clk\<close> gives the successive readings of \<^verbatim>\<open>time.Now\<close> in one call.\<close>

definition recalculateEnergy ::
  "rounding \<Rightarrow> duration \<Rightarrow> (nat \<Rightarrow> time) \<Rightarrow> bool \<Rightarrow> device option \<Rightarrow> (bool \<times> device) result" where
  "recalculateEnergy rnd period clk force dev =
     (case dev of
        None \<Rightarrow> Inl (Errorf ''manager: trying to recalculate energy for nil device'')
      | Some d \<Rightarrow>
          if \<not> dv_Active d then Inr (False, d)
          else if \<not> force \<and> time_since (clk 0) (dv_LastTimeUpdated d) < period then Inr (False, d)
          else
            let timeSinceUpdated = time_since (clk 1) (dv_LastTimeUpdated d);
                hours = min (float_Hours rnd timeSinceUpdated) (rnd (2 * float_Hours rnd period));
                increase = rnd (rnd (hours * mode_power (dv_Modes d) (dv_CurrentMode d)) * dv_Level d);
                increase' = rnd (increase / 1000)
            in Inr (True, d\<lparr>dv_AccumulatedEnergy := rnd (dv_AccumulatedEnergy d + increase'),
                            dv_LastTimeUpdated := clk 2\<rparr>))"

definition vm_recalculate :: "rounding \<Rightarrow> (nat \<Rightarrow> time) \<Rightarrow> bool \<Rightarrow> device \<Rightarrow> (bool \<times> device) vm_act" where
  "vm_recalculate rnd clk force d w =
     act_result (recalculateEnergy rnd (vm_energyRecalculationPeriod w) clk force (Some d)) w"

text \<open>A call on the adapter that the manager holds.\<close>

definition on_ad :: "'a adapter_act \<Rightarrow> 'a vm_act" where
  "on_ad m w = map_option (\<lambda>(r, a). (r, w\<lparr>vm_ad := a\<rparr>)) (m (vm_ad w))"

definition virtual_service :: "vmanager \<Rightarrow> string \<Rightarrow> service_spec option" where
  "virtual_service w topic = (case map_of (vm_virtualServices w) topic of Some s \<Rightarrow> s | None \<Rightarrow> None)"

text \<open>\<^verbatim>\<open>thing.Update\<close> and \<^verbatim>\<open>thing.SendInclusionReport(true)\<close> on a registered thing.\<close>

definition update_and_report :: "adapter_env \<Rightarrow> string \<Rightarrow> thing_update \<Rightarrow> thing \<Rightarrow> unit vm_act" where
  "update_and_report av s upd t =
     (let t' = thing_Update [upd] t in
      act_bind (on_ad (update_thing t')) (\<lambda>_.
      act_bind (act_wrap s (on_ad (thing_SendInclusionReport av t' True))) (\<lambda>_. act_return ())))"

definition manager_add ::
  "adapter_env \<Rightarrow> rounding \<Rightarrow> (nat \<Rightarrow> time) \<Rightarrow> string \<Rightarrow> (string \<times> rat) list \<Rightarrow> string \<Rightarrow> unit vm_act" where
  "manager_add av rnd clk topic modes unit =
     act_bind (act_get (\<lambda>w. virtual_service w topic)) (\<lambda>s.
     case s of
       None \<Rightarrow> act_fail (Errorf (''manager: failed to add meter to the thing: '' @ topic @ ''. no service template found.''))
     | Some s \<Rightarrow>
         act_bind (act_get (\<lambda>w. adapter_ThingByTopic (vm_ad w) topic)) (\<lambda>thing.
         case thing of
           None \<Rightarrow> act_fail (Errorf (''manager: no thing found by topic: '' @ topic @ ''. can not add meter''))
         | Some thing \<Rightarrow>
             act_bind (device_or_fail ''manager: failed to get device'' topic) (\<lambda>device.
             act_bind (if 0 < length (dv_Modes device)
                       then act_bind (act_wrap ''manager: failed to update energy'' (vm_recalculate rnd clk True device))
                              (\<lambda>(_, d). act_return d)
                       else act_return device) (\<lambda>d.
             act_bind (act_wrap ''manager: failed add meter, can not save data''
                (vstorage_SetDevice topic (d\<lparr>dv_Modes := modes, dv_Unit := unit, dv_LastTimeUpdated := clk 3\<rparr>))) (\<lambda>_.
             if length (dv_Modes device) = 0
             then update_and_report av ''manager: failed to send inclusion report on add'' (ThingUpdateAddService s) thing
             else act_return ())))))"

definition manager_remove :: "adapter_env \<Rightarrow> time \<Rightarrow> string \<Rightarrow> unit vm_act" where
  "manager_remove av now topic =
     act_bind (act_get (\<lambda>w. virtual_service w topic)) (\<lambda>s.
     case s of
       None \<Rightarrow> act_fail (Errorf (''manager: failed to remove meter from a thing: '' @ topic @ ''. No service template found''))
     | Some s \<Rightarrow>
         act_bind (act_get (\<lambda>w. adapter_ThingByTopic (vm_ad w) topic)) (\<lambda>thing.
         case thing of
           None \<Rightarrow> act_fail (Errorf (''manager: no thing found by topic: '' @ topic @ ''. can not remove meter''))
         | Some thing \<Rightarrow>
             act_bind (act_wrap ''manager: failed to delete meter, can not remove from storage''
                (vstorage_CleanDevice now topic)) (\<lambda>_.
             update_and_report av ''manager: failed to send inclusion report on remove'' (ThingUpdateRemoveService s) thing)))"

definition manager_modes :: "string \<Rightarrow> (string \<times> rat) list vm_act" where
  "manager_modes topic =
     act_bind (device_or_fail ''manager: failed to get modes, device'' topic) (\<lambda>d. act_return (dv_Modes d))"

definition manager_update ::
  "rounding \<Rightarrow> (nat \<Rightarrow> time) \<Rightarrow> string \<Rightarrow> string \<Rightarrow> rat \<Rightarrow> unit vm_act" where
  "manager_update rnd clk topic newMode newLevel =
     act_bind (act_wrap ''manager: virtual meter update failed err'' (vstorage_Device topic)) (\<lambda>device.
     case device of
       None \<Rightarrow> act_fail (Errorf (''manager: virtual meter update failed, device not found topic='' @ topic))
     | Some d \<Rightarrow>
         if \<not> device_Initialised d then act_return ()
         else if dv_CurrentMode d = newMode \<and> dv_Level d = newLevel then act_return ()
         else
           act_bind (act_wrap (''manager: failed to update energy by topic '' @ topic) (vm_recalculate rnd clk True d)) (\<lambda>(_, d').
           act_wrap (''manager: failed to update device when state changed by topic '' @ topic)
             (vstorage_SetDevice topic (d'\<lparr>dv_Level := newLevel, dv_CurrentMode := newMode\<rparr>))))"

definition reportPerUnit :: "rounding \<Rightarrow> device \<Rightarrow> string \<Rightarrow> rat result" where
  "reportPerUnit rnd d unit =
     (if unit = UnitW then Inr (rnd (mode_power (dv_Modes d) (dv_CurrentMode d) * dv_Level d))
      else if unit = UnitKWh then Inr (dv_AccumulatedEnergy d)
      else Inl (Errorf (''manager: report for unknown unit requested: '' @ unit)))"

definition manager_report :: "rounding \<Rightarrow> (nat \<Rightarrow> time) \<Rightarrow> string \<Rightarrow> string \<Rightarrow> rat vm_act" where
  "manager_report rnd clk topic unit =
     act_bind (device_or_fail ''manager: virtual meter report failed, device'' topic) (\<lambda>d.
     act_bind (act_wrap (''manager: failed to update energy by topic '' @ topic) (vm_recalculate rnd clk False d)) (\<lambda>(updated, d').
     if \<not> updated then act_result (reportPerUnit rnd d' unit)
     else
       act_bind (act_wrap (''manager: failed to update device when reporting by topic '' @ topic)
                   (vstorage_SetDevice topic d')) (\<lambda>_.
       act_result (reportPerUnit rnd d' unit))))"

definition manager_reset :: "time \<Rightarrow> string \<Rightarrow> unit vm_act" where
  "manager_reset now topic =
     act_bind (device_or_fail ''manager: virtual meter reset failed, device'' topic) (\<lambda>d.
     act_wrap (''manager: failed to update device when reset by topic '' @ topic)
       (vstorage_SetDevice topic (d\<lparr>dv_AccumulatedEnergy := 0, dv_LastTimeUpdated := now\<rparr>)))"

definition deleteDeviceEntry :: "time \<Rightarrow> string \<Rightarrow> unit vm_act" where
  "deleteDeviceEntry now topic =
     act_bind (device_or_fail (''manager: failed to get device by address '' @ topic) topic) (\<lambda>d w.
     if time_since now (dv_LastTimeUpdated d) > vm_garbageCleaningPeriod w then vstorage_DeleteDevice topic w
     else act_return () w)"

definition updateDeviceActivity :: "string \<Rightarrow> bool \<Rightarrow> unit vm_act" where
  "updateDeviceActivity thingAddr active =
     act_bind (act_get (\<lambda>w. adapter_ThingByAddress (vm_ad w) thingAddr)) (\<lambda>thing.
     case thing of
       None \<Rightarrow> act_fail (Errorf (''manager: no thing found by address: '' @ thingAddr @ ''. can not update device activity''))
     | Some thing \<Rightarrow>
         act_for (thing_Services thing '''') (\<lambda>s.
         act_bind (act_get (\<lambda>w. virtual_service w (sv_Address s))) (\<lambda>v.
         if v = None then act_return ()
         else
           act_bind (device_or_fail ''manager: failed to get device'' (sv_Address s)) (\<lambda>d.
           if dv_Active d \<noteq> active
           then act_wrap (''manager: failed to update device when activity changed by address '' @ sv_Address s)
                  (vstorage_SetDevice (sv_Address s) (d\<lparr>dv_Active := active\<rparr>))
           else act_return ()))))"

text \<open>The loop of \<^verbatim>\<open>vmsAddressFromTopic\<close>, and the search itself.\<close>

fun match_service :: "fimpgo \<Rightarrow> string \<Rightarrow> string \<Rightarrow> service_spec list \<Rightarrow> string result" where
  "match_service fg topic inAddr [] = Inl (Errorf (''manager: no vms service found using topic: '' @ topic))"
| "match_service fg topic inAddr (s # ss) =
     (case fg_NewAddressFromString fg (sv_Address s) of
        Inl e \<Rightarrow> Inl (Wrapf ''manager: failed to find vms by topic, can not parse out topic'' e)
      | Inr a \<Rightarrow> if ad_ServiceAddress a = inAddr then Inr (sv_Address s) else match_service fg topic inAddr ss)"

definition vmsAddressFromTopic :: "fimpgo \<Rightarrow> adapter \<Rightarrow> string \<Rightarrow> string result" where
  "vmsAddressFromTopic fg ad topic =
     (case fg_NewAddressFromString fg topic of
        Inl e \<Rightarrow> Inl (Wrapf ''manager: failed to find vms by topic, can not parse in topic'' e)
      | Inr inAddr \<Rightarrow>
          (case adapter_ThingByTopic ad topic of
             None \<Rightarrow> Inl (Errorf (''manager: failed to find thing for topic '' @ topic))
           | Some t \<Rightarrow>
               (let services = thing_Services t VirtualMeterElec in
                if services = [] then Inl (Errorf (''manager: failed to find virtual meter service for topic '' @ topic))
                else match_service fg topic (ad_ServiceAddress inAddr) services)))"

definition OutLvlSwitch :: string where "OutLvlSwitch = ''out_lvl_switch''"
definition PropertyMaxLvl :: string where "PropertyMaxLvl = ''max_lvl''"

definition normalizeOutLvlSwitchLevel :: "fimpgo \<Rightarrow> rounding \<Rightarrow> adapter \<Rightarrow> int \<Rightarrow> string \<Rightarrow> rat result" where
  "normalizeOutLvlSwitchLevel fg rnd ad level serviceAddr =
     (case adapter_ThingByTopic ad serviceAddr of
        None \<Rightarrow> Inl (Errorf (''manager: failed to find thing for service '' @ serviceAddr))
      | Some t \<Rightarrow>
          (case find (\<lambda>s. sv_Address s = serviceAddr) (thing_Services t OutLvlSwitch) of
             None \<Rightarrow> Inl (Errorf (''manager: failed to find outlvlswitch service for thing '' @ thing_Address t))
           | Some s \<Rightarrow>
               (let maxLevel = (case fg_PropertyInteger fg s PropertyMaxLvl of None \<Rightarrow> 0 | Some i \<Rightarrow> i) in
                if maxLevel = 0 then Inl (Errorf (''manager: max level is set to zero for service '' @ serviceAddr))
                else Inr (rnd (rnd (of_int level) / rnd (of_int maxLevel))))))"

section \<open>Registration\<close>

definition PropertySupportedUnits :: string where "PropertySupportedUnits = ''sup_units''"
definition PropertySupportedModes :: string where "PropertySupportedModes = ''sup_modes''"
definition PropertyIsVirtual :: string where "PropertyIsVirtual = ''is_virtual''"
definition CmdMeterAdd :: string where "CmdMeterAdd = ''cmd.meter.add''"
definition CmdMeterRemove :: string where "CmdMeterRemove = ''cmd.meter.remove''"
definition CmdMeterGetReport :: string where "CmdMeterGetReport = ''cmd.meter.get_report''"
definition EvtMeterReport :: string where "EvtMeterReport = ''evt.meter.report''"
definition PropertyNameUnit :: string where "PropertyNameUnit = ''unit''"
definition MeterElec :: string where "MeterElec = ''meter_elec''"

definition mk_interface :: "string \<Rightarrow> string \<Rightarrow> string \<Rightarrow> interface" where
  "mk_interface t m v = \<lparr>if_Type = t, if_MsgType = m, if_ValueType = v, if_Version = ''1''\<rparr>"

definition service_topic :: "string \<Rightarrow> string \<Rightarrow> string \<Rightarrow> string \<Rightarrow> string" where
  "service_topic resourceName resourceAddress serviceName address =
     ''/rt:dev/rn:'' @ resourceName @ ''/ad:'' @ resourceAddress @ ''/sv:'' @ serviceName @ ''/ad:'' @ address"

definition vm_requiredInterfaces :: "fimpgo \<Rightarrow> interface list" where
  "vm_requiredInterfaces fg =
     [mk_interface (fg_TypeIn fg) CmdMeterAdd (fg_VTypeFloatMap fg),
      mk_interface (fg_TypeIn fg) CmdMeterRemove (fg_VTypeNull fg),
      mk_interface (fg_TypeIn fg) CmdMeterGetReport (fg_VTypeNull fg),
      mk_interface (fg_TypeOut fg) EvtMeterReport (fg_VTypeFloatMap fg)]"

definition vm_Specification ::
  "fimpgo \<Rightarrow> string \<Rightarrow> string \<Rightarrow> string \<Rightarrow> string list \<Rightarrow> string list \<Rightarrow> string list
   \<Rightarrow> (service_spec \<Rightarrow> service_spec) list \<Rightarrow> service_spec" where
  "vm_Specification fg resourceName resourceAddress address groups supportedUnits supportedModes options =
     foldl (\<lambda>s opt. opt s)
       \<lparr>sv_Name = VirtualMeterElec, sv_Address = service_topic resourceName resourceAddress VirtualMeterElec address,
        sv_Enabled = True, sv_Groups = groups,
        sv_Props = [(PropertySupportedUnits, VList (map VString supportedUnits)),
                    (PropertySupportedModes, VList (map VString supportedModes))],
        sv_Interfaces = vm_requiredInterfaces fg\<rparr> options"

text \<open>The specification of the numeric meter (\<^verbatim>\<open>numericmeter/specification.go\<close>).\<close>

definition nm_requiredInterfaces :: "fimpgo \<Rightarrow> interface list" where
  "nm_requiredInterfaces fg =
     [mk_interface (fg_TypeIn fg) CmdMeterGetReport (fg_VTypeString fg),
      mk_interface (fg_TypeOut fg) EvtMeterReport (fg_VTypeFloat fg),
      mk_interface (fg_TypeOut fg) EvtErrorReport (fg_VTypeString fg)]"

definition CmdMeterExportGetReport :: string where "CmdMeterExportGetReport = ''cmd.meter_export.get_report''"

definition nm_resetInterfaces :: "fimpgo \<Rightarrow> interface list" where
  "nm_resetInterfaces fg = [mk_interface (fg_TypeIn fg) CmdMeterExportGetReport (fg_VTypeString fg)]"

definition WithIsVirtual :: "service_spec \<Rightarrow> service_spec" where
  "WithIsVirtual s = s\<lparr>sv_Props := AList.update PropertyIsVirtual (VBool True) (sv_Props s)\<rparr>"

definition nm_Specification ::
  "fimpgo \<Rightarrow> string \<Rightarrow> string \<Rightarrow> string \<Rightarrow> string \<Rightarrow> string list \<Rightarrow> string list
   \<Rightarrow> (service_spec \<Rightarrow> service_spec) list \<Rightarrow> service_spec" where
  "nm_Specification fg serviceName resourceName resourceAddress address groups units options =
     foldl (\<lambda>s opt. opt s)
       \<lparr>sv_Name = serviceName, sv_Address = service_topic resourceName resourceAddress serviceName address,
        sv_Enabled = True, sv_Groups = groups,
        sv_Props = [(PropertySupportedUnits, VList (map VString units)), (PropertyIsVirtual, VBool False)],
        sv_Interfaces = nm_requiredInterfaces fg\<rparr> options"

text \<open>
  The loop of \<^verbatim>\<open>createVirtualServicesForThing\<close>. Which services are level switches by their Go type is the
  predicate \<open>is_lvl\<close>.
\<close>

fun virtual_specs ::
  "fimpgo \<Rightarrow> (service_spec \<Rightarrow> bool) \<Rightarrow> string \<Rightarrow> string \<Rightarrow> string \<Rightarrow> service_spec list
   \<Rightarrow> (service_spec \<times> service_spec) option" where
  "virtual_specs fg is_lvl name addr grp [] = None"
| "virtual_specs fg is_lvl name addr grp (s # ss) =
     (if sv_Groups s = [] \<or> hd (sv_Groups s) \<noteq> grp then virtual_specs fg is_lvl name addr grp ss
      else
        (case fg_NewAddressFromString fg (sv_Address s) of
           Inl _ \<Rightarrow> virtual_specs fg is_lvl name addr grp ss
         | Inr a \<Rightarrow>
             if is_lvl s then
               Some (vm_Specification fg name addr (ad_ServiceAddress a) [grp] [UnitW] [ModeOn, ModeOff] [],
                     nm_Specification fg MeterElec name addr (ad_ServiceAddress a) [grp] [UnitW, UnitKWh] [WithIsVirtual])
             else virtual_specs fg is_lvl name addr grp ss))"

definition createVirtualServicesForThing ::
  "fimpgo \<Rightarrow> (service_spec \<Rightarrow> bool) \<Rightarrow> adapter \<Rightarrow> thing \<Rightarrow> string \<Rightarrow> (service_spec \<times> service_spec) option" where
  "createVirtualServicesForThing fg is_lvl ad t grp =
     virtual_specs fg is_lvl (ad_name ad) (adapter.ad_address ad) grp (thing_Services t '''')"

text \<open>
  \<^verbatim>\<open>RegisterThing\<close> runs while the factory builds the thing, before it is registered with the adapter, so the
  thing is passed along. The \<^verbatim>\<open>NewService\<close> functions add the required interfaces to the specifications; the
  controller of the numeric meter can be reset, which adds the interfaces for that.
\<close>

definition registerVirtualServices ::
  "fimpgo \<Rightarrow> time \<Rightarrow> service_spec \<Rightarrow> service_spec \<Rightarrow> thing \<Rightarrow> thing vm_act" where
  "registerVirtualServices fg now vmsSpec numericSpec thing =
     (if \<exists>s \<in> set (thing_Services thing VirtualMeterElec). sv_Address s = sv_Address vmsSpec then act_return thing
      else
        let vms = fg_EnsureInterfaces fg (vm_requiredInterfaces fg) vmsSpec;
            topic = sv_Address vms;
            thing1 = thing_Update [ThingUpdateAddService vms] thing;
            srv = fg_EnsureInterfaces fg (nm_resetInterfaces fg)
                    (fg_EnsureInterfaces fg (nm_requiredInterfaces fg) numericSpec)
        in act_bind (act_wrap (''manager: failed to get device by address '' @ topic) (vstorage_Device topic)) (\<lambda>device.
           case device of
             Some d \<Rightarrow>
               if length (dv_Modes d) \<noteq> 0 then
                 act_bind (act_modify (\<lambda>w. w\<lparr>vm_virtualServices := AList.update topic (Some srv) (vm_virtualServices w)\<rparr>)) (\<lambda>_.
                 act_return (thing_Update [ThingUpdateAddService srv] thing1))
               else
                 act_bind (act_modify (\<lambda>w. w\<lparr>vm_virtualServices := AList.update topic (Some srv) (vm_virtualServices w)\<rparr>)) (\<lambda>_.
                 act_bind (act_try (vstorage_SetDevice topic (clean_device now))) (\<lambda>r.
                 case r of
                   Inr _ \<Rightarrow> act_return thing1
                 | Inl e \<Rightarrow>
                     act_bind (act_modify (\<lambda>w. w\<lparr>vm_virtualServices := AList.update topic None (vm_virtualServices w)\<rparr>)) (\<lambda>_.
                     act_fail (Wrapf ''manager: failed to register a device'' e))))
           | None \<Rightarrow>
                 act_bind (act_modify (\<lambda>w. w\<lparr>vm_virtualServices := AList.update topic (Some srv) (vm_virtualServices w)\<rparr>)) (\<lambda>_.
                 act_bind (act_try (vstorage_SetDevice topic (clean_device now))) (\<lambda>r.
                 case r of
                   Inr _ \<Rightarrow> act_return thing1
                 | Inl e \<Rightarrow>
                     act_bind (act_modify (\<lambda>w. w\<lparr>vm_virtualServices := AList.update topic None (vm_virtualServices w)\<rparr>)) (\<lambda>_.
                     act_fail (Wrapf ''manager: failed to register a device'' e))))))"

fun register_groups ::
  "fimpgo \<Rightarrow> (service_spec \<Rightarrow> bool) \<Rightarrow> time \<Rightarrow> string list \<Rightarrow> thing \<Rightarrow> thing vm_act" where
  "register_groups fg is_lvl now [] t = act_return t"
| "register_groups fg is_lvl now (g # gs) t =
     act_bind (act_get (\<lambda>w. createVirtualServicesForThing fg is_lvl (vm_ad w) t g)) (\<lambda>specs.
     case specs of
       None \<Rightarrow> register_groups fg is_lvl now gs t
     | Some (v, n) \<Rightarrow>
         act_bind (registerVirtualServices fg now v n t) (\<lambda>t'. register_groups fg is_lvl now gs t'))"

definition RegisterThing ::
  "fimpgo \<Rightarrow> (service_spec \<Rightarrow> bool) \<Rightarrow> time \<Rightarrow> thing \<Rightarrow> thing vm_act" where
  "RegisterThing fg is_lvl now t = register_groups fg is_lvl now (ir_Groups (th_inclusionReport t)) t"

section \<open>Controller, listener, service and tasks\<close>

definition MeterReport :: "rounding \<Rightarrow> (nat \<Rightarrow> time) \<Rightarrow> string \<Rightarrow> string \<Rightarrow> rat vm_act" where
  "MeterReport rnd clk topic unit =
     act_wrap (''controller: failed to get virtual report by address - '' @ topic @ '', for unit - '' @ unit)
       (manager_report rnd clk topic unit)"

definition MeterReset :: "time \<Rightarrow> string \<Rightarrow> unit vm_act" where
  "MeterReset now topic =
     act_wrap (''controller: failed to reset virtual meter by address - '' @ topic) (manager_reset now topic)"

text \<open>The processors of the event handlers log errors and return; \<open>level\<close> is that of the level event.\<close>

definition processLevelEvent ::
  "fimpgo \<Rightarrow> rounding \<Rightarrow> (nat \<Rightarrow> time) \<Rightarrow> int \<Rightarrow> string \<Rightarrow> unit vm_act" where
  "processLevelEvent fg rnd clk level address =
     (let mode = (if level = 0 then ModeOff else ModeOn) in
      act_bind (act_get (\<lambda>w. vmsAddressFromTopic fg (vm_ad w) address)) (\<lambda>vmsAddr.
      case vmsAddr of
        Inl _ \<Rightarrow> act_return ()
      | Inr vmsAddr \<Rightarrow>
          act_bind (act_get (\<lambda>w. normalizeOutLvlSwitchLevel fg rnd (vm_ad w) level address)) (\<lambda>lvl.
          case lvl of
            Inl _ \<Rightarrow> act_return ()
          | Inr lvl \<Rightarrow>
              act_bind (act_try (manager_update rnd clk vmsAddr mode lvl)) (\<lambda>_. act_return ()))))"

definition processConnectivityEvent :: "string \<Rightarrow> connectivity_details \<Rightarrow> unit vm_act" where
  "processConnectivityEvent address c =
     act_bind (act_try (updateDeviceActivity address (cd_ConnStatus c \<noteq> ConnStatusDown))) (\<lambda>_. act_return ())"

record vm_service =
  vs_spec :: service_spec
  vs_cache :: "(string \<times> rat) list reporting_cache"
  vs_strategy :: strategy

definition vm_NewService :: "fimpgo \<Rightarrow> service_spec \<Rightarrow> strategy option \<Rightarrow> vm_service" where
  "vm_NewService fg spec strat =
     \<lparr>vs_spec = fg_EnsureInterfaces fg (vm_requiredInterfaces fg) spec, vs_cache = NewReportingCache,
      vs_strategy = (case strat of None \<Rightarrow> ReportOnChangeOnly | Some s \<Rightarrow> s)\<rparr>"

definition SendModesReport :: "fimpgo \<Rightarrow> time \<Rightarrow> time \<Rightarrow> bool \<Rightarrow> vm_service \<Rightarrow> (bool \<times> vm_service) vm_act" where
  "SendModesReport fg now now' force s =
     act_bind (act_wrap ''service: failed to send virtual meter report'' (manager_modes (sv_Address (vs_spec s)))) (\<lambda>value.
     if \<not> force \<and> \<not> cache_ReportRequired (vs_strategy s) now EvtMeterReport '''' value (vs_cache s)
     then act_return (False, s)
     else
       act_bind (act_wrap (''service: '' @ sv_Name (vs_spec s) @ '' - failed to send virtual meter report'')
          (on_ad (PublishServiceMessage fg (vs_spec s)
            (fg_New fg KFloatMap EvtMeterReport (sv_Name (vs_spec s))
               (VObject (map (\<lambda>(k, v). (k, VFloat v)) value)) [] None)))) (\<lambda>_.
       act_return (True, s\<lparr>vs_cache := cache_Reported now' EvtMeterReport '''' value (vs_cache s)\<rparr>)))"

text \<open>The loop over the modes that are to be added.\<close>

fun check_modes :: "string \<Rightarrow> string list \<Rightarrow> (string \<times> rat) list \<Rightarrow> unit result" where
  "check_modes name supported [] = Inr ()"
| "check_modes name supported ((mode, p) # ms) =
     (if mode \<notin> set supported
      then Inl (Errorf (''service: '' @ name @ '': unsupported mode is provided: '' @ mode))
      else check_modes name supported ms)"

definition AddMeter ::
  "adapter_env \<Rightarrow> rounding \<Rightarrow> (nat \<Rightarrow> time) \<Rightarrow> (string \<times> rat) list \<Rightarrow> string \<Rightarrow> vm_service \<Rightarrow> unit vm_act" where
  "AddMeter av rnd clk modes unit s =
     (let fg = av_fimpgo av; name = sv_Name (vs_spec s);
          supportedModes = fg_PropertyStrings fg (vs_spec s) PropertySupportedModes in
      if unit \<notin> set (fg_PropertyStrings fg (vs_spec s) PropertySupportedUnits)
      then act_fail (Errorf (''service: '' @ name @ '': unsupported unit is provided: '' @ unit))
      else if length modes \<noteq> length supportedModes
      then act_fail (Errorf (''service: '' @ name @ '': number of modes is not equal to the number of supported modes''))
      else
        act_bind (act_result (check_modes name supportedModes modes)) (\<lambda>_.
        manager_add av rnd clk (sv_Address (vs_spec s)) modes unit))"

definition RemoveMeter :: "adapter_env \<Rightarrow> time \<Rightarrow> vm_service \<Rightarrow> unit vm_act" where
  "RemoveMeter av now s =
     act_wrap ''service: failed to remove meter'' (manager_remove av now (sv_Address (vs_spec s)))"

text \<open>The garbage collection task: a device that was not updated for long is deleted; errors are logged.\<close>

definition handleGarbageCleaning :: "time \<Rightarrow> unit vm_act" where
  "handleGarbageCleaning now =
     act_bind (act_get (\<lambda>w. adapter_Services (vm_ad w) VirtualMeterElec)) (\<lambda>services.
     act_for services (\<lambda>s. act_bind (act_try (deleteDeviceEntry now (sv_Address s))) (\<lambda>_. act_return ())))"

section \<open>How the operations run\<close>

definition db_fine :: "vmanager \<Rightarrow> bool" where
  "db_fine w \<longleftrightarrow> (\<forall>n. vm_dbErr w n = None)"

text \<open>After a number of database calls that changed nothing but one device.\<close>

definition db_after :: "nat \<Rightarrow> string \<Rightarrow> device option \<Rightarrow> vmanager \<Rightarrow> vmanager" where
  "db_after n topic d w = w\<lparr>vm_dbOps := vm_dbOps w + n, vm_devices := (vm_devices w)(topic := d)\<rparr>"

lemma db_after_simps [simp]:
  "db_fine (db_after n topic d w) = db_fine w" "vm_devices (db_after n topic d w) = (vm_devices w)(topic := d)"
  "vm_energyRecalculationPeriod (db_after n topic d w) = vm_energyRecalculationPeriod w"
  "vm_ad (db_after n topic d w) = vm_ad w" "vm_virtualServices (db_after n topic d w) = vm_virtualServices w"
  "virtual_service (db_after n topic d w) = virtual_service w"
  by (simp_all add: db_after_def db_fine_def virtual_service_def fun_eq_iff)

lemma db_after_after [simp]: "db_after m topic d (db_after n topic c w) = db_after (n + m) topic d w"
  by (simp add: db_after_def)

lemma db_call_fine: "db_fine w \<Longrightarrow> db_call w = Some (Inr (), w\<lparr>vm_dbOps := Suc (vm_dbOps w)\<rparr>)"
  by (simp add: db_call_def db_fine_def Let_def)

lemma Device_fine:
  assumes "db_fine w" "vm_devices w topic = d"
  shows "vstorage_Device topic w = Some (Inr d, db_after 1 topic d w)"
proof -
  have "(vm_devices w)(topic := d) = vm_devices w" using assms(2) by auto
  then show ?thesis
    using db_call_fine [OF assms(1)] assms(2) by (simp add: vstorage_Device_def db_after_def)
qed

lemma SetDevice_fine:
  assumes "db_fine w"
  shows "vstorage_SetDevice topic d w = Some (Inr (), db_after 1 topic (Some d) w)"
  using db_call_fine [OF assms] by (simp add: vstorage_SetDevice_def db_after_def)

lemma device_or_fail_fine:
  assumes "db_fine w" "vm_devices w topic = Some d"
  shows "device_or_fail s topic w = Some (Inr d, db_after 1 topic (Some d) w)"
  using Device_fine [OF assms] by (simp add: device_or_fail_def)

text \<open>Exact arithmetic: hours are nanoseconds divided by the nanoseconds of an hour.\<close>

lemma float_Hours_exact: "float_Hours (\<lambda>x. x) d = of_int d / of_int time_Hour"
proof -
  have "go_quot d time_Hour * time_Hour + go_rem d time_Hour = d"
    by (simp add: go_quot_def go_rem_def time_Hour_def)
  then have "(of_int d :: rat) = of_int (go_quot d time_Hour) * of_int time_Hour + of_int (go_rem d time_Hour)"
    by (metis of_int_add of_int_mult)
  then show ?thesis by (simp add: float_Hours_def float_units_def time_Hour_def field_simps)
qed

text \<open>The energy, in kWh, of \<open>p\<close> watts during \<open>d\<close> nanoseconds.\<close>

definition energy_kWh :: "rat \<Rightarrow> duration \<Rightarrow> rat" where
  "energy_kWh p d = of_int d / of_int time_Hour * p / 1000"

definition device_power :: "device \<Rightarrow> rat" where
  "device_power d = mode_power (dv_Modes d) (dv_CurrentMode d) * dv_Level d"

lemma recalculate_exact:
  assumes "dv_Active d" "force \<or> period \<le> time_since (clk 0) (dv_LastTimeUpdated d)"
  shows "recalculateEnergy (\<lambda>x. x) period clk force (Some d) =
    Inr (True, d\<lparr>dv_AccumulatedEnergy := dv_AccumulatedEnergy d +
                   energy_kWh (device_power d) (min (time_since (clk 1) (dv_LastTimeUpdated d)) (2 * period)),
                 dv_LastTimeUpdated := clk 2\<rparr>)"
proof -
  have h: "0 < (of_int time_Hour :: rat)" by (simp add: time_Hour_def)
  have "min (of_int a / of_int time_Hour) (2 * (of_int period / of_int time_Hour))
      = (of_int (min a (2 * period)) :: rat) / of_int time_Hour" for a
    using h by (simp add: min_def divide_le_cancel)
  then show ?thesis
    using assms
    by (auto simp: recalculateEnergy_def float_Hours_exact energy_kWh_def device_power_def Let_def mult.assoc)
qed

text \<open>
  In \<^verbatim>\<open>float64\<close> a charge of the meter is off the exact one by at most seven roundings: three to get the hours, and one each
  for twice the period, the two multiplications and the division.
\<close>

definition charge_kWh :: "device \<Rightarrow> duration \<Rightarrow> duration \<Rightarrow> rat" where
  "charge_kWh d gap period = energy_kWh (device_power d) (min gap (2 * period))"

lemma time_since_later:
  "u \<le> t \<Longrightarrow> 0 \<le> time_since t u" "u \<le> t \<Longrightarrow> time_since t u = min max_duration (t - u)"
  by (auto simp: time_since_def time_sub_def min_duration_def max_duration_def)

lemma recalculate_near:
  assumes "float64_round rnd" "dv_Active d" "force \<or> period \<le> time_since (clk 0) (dv_LastTimeUpdated d)"
    and "dv_LastTimeUpdated d \<le> clk 1" "0 \<le> period" "2 * period \<le> max_duration"
    and "sized 9 (mode_power (dv_Modes d) (dv_CurrentMode d))" "sized 9 (dv_Level d)"
  obtains x acc where
    "recalculateEnergy rnd period clk force (Some d) = Inr (True, d\<lparr>dv_AccumulatedEnergy := acc, dv_LastTimeUpdated := clk 2\<rparr>)"
    "acc = rnd (dv_AccumulatedEnergy d + x)" "near 7 (charge_kWh d (clk 1 - dv_LastTimeUpdated d) period) x"
    "sized 56 (charge_kWh d (clk 1 - dv_LastTimeUpdated d) period)"
proof -
  let ?P = "mode_power (dv_Modes d) (dv_CurrentMode d)" and ?L = "dv_Level d"
  let ?since = "time_since (clk 1) (dv_LastTimeUpdated d)" and ?gap = "clk 1 - dv_LastTimeUpdated d"
  let ?h = "\<lambda>t. of_int t / of_int time_Hour :: rat"
  let ?hours = "min (float_Hours rnd ?since) (rnd (2 * float_Hours rnd period))"
  have H: "0 < (of_int time_Hour :: rat)" "0 < time_Hour" "time_Hour \<le> 10 ^ 13" by (simp_all add: time_Hour_def)
  have since: "0 \<le> ?since" "?since \<le> max_duration" "min ?since (2 * period) = min ?gap (2 * period)"
    using time_since_later [OF assms(4)] assms(6) by auto
  have rounded: "near (Suc k) x (rnd y)" if "near k x y" "sized 299 x" "k \<le> 9" for k x y
    using near_round [OF assms(1) that(1,2)] that(3) by simp
  have hs: "near 3 (?h ?since) (float_Hours rnd ?since)" "sized 33 (?h ?since)"
    using near_float_units [OF assms(1) since(1,2) H(2,3)] by (simp_all add: float_Hours_def)
  have hp: "near 3 (?h period) (float_Hours rnd period)" "sized 33 (?h period)"
    using near_float_units [OF assms(1,5) _ H(2,3)] assms(5,6) by (simp_all add: float_Hours_def)
  have "sized 1 (2::rat)" by (simp add: sized_def)
  from sized_mult [OF hp(2) this] have two: "sized 34 (?h (2 * period))" by (simp add: mult.commute)
  have "near 3 (?h (2 * period)) (2 * float_Hours rnd period)"
    using near_mult [OF hp(1), of 2] by (simp add: mult.commute)
  then have n2: "near 4 (?h (2 * period)) (rnd (2 * float_Hours rnd period))"
    using rounded [of 3] sized_mono [OF two] by simp
  have n1: "near 4 (?h ?since) (float_Hours rnd ?since)"
    using near_mono [OF hs(1)] sized_nonneg [OF hs(2)] by simp
  have hmin: "min (?h a) (?h b) = ?h (min a b)" for a b
    using H(1) by (simp add: min_def divide_le_cancel)
  have n: "near 4 (?h (min ?gap (2 * period))) ?hours"
    using near_min [OF n1 n2] unfolding hmin since(3) .
  have s: "sized 34 (?h (min ?gap (2 * period)))"
    using sized_mono [OF hs(2), of 34] two hmin [of ?since "2 * period"] unfolding since(3)
    by (simp add: min_def split: if_splits)
  have sP: "sized 43 (?h (min ?gap (2 * period)) * ?P)" using sized_mult [OF s assms(7)] by simp
  have sL: "sized 52 (?h (min ?gap (2 * period)) * ?P * ?L)" using sized_mult [OF sP assms(8)] by simp
  have "sized 3 (1000::rat)" by (simp add: sized_def)
  from sized_divide [OF sL this] have sK: "sized 55 (?h (min ?gap (2 * period)) * ?P * ?L / 1000)" by simp
  have "near 5 (?h (min ?gap (2 * period)) * ?P) (rnd (?hours * ?P))"
    using rounded [OF near_mult [OF n sized_nonneg [OF assms(7)]] sized_mono [OF sP]] by simp
  then have "near 6 (?h (min ?gap (2 * period)) * ?P * ?L) (rnd (rnd (?hours * ?P) * ?L))"
    using rounded [OF near_mult [OF _ sized_nonneg [OF assms(8)]] sized_mono [OF sL], of 5] by simp
  then have "near 7 (?h (min ?gap (2 * period)) * ?P * ?L / 1000) (rnd (rnd (rnd (?hours * ?P) * ?L) / 1000))"
    using rounded [OF near_divide [of 6 _ _ 1000] sized_mono [OF sK]] by simp
  moreover have "?h (min ?gap (2 * period)) * ?P * ?L / 1000 = charge_kWh d ?gap period"
    by (simp add: charge_kWh_def energy_kWh_def device_power_def mult.assoc)
  ultimately show thesis
    using sized_mono [OF sK, of 56] assms(2,3)
    by (intro that [OF _ refl]) (auto simp: recalculateEnergy_def Let_def)
qed

section \<open>Properties\<close>

text \<open>
  The events of a device: a new mode and level, and a report of the energy. Each comes with the readings of the clock during
  its processing. The energy that they stand for, in exact arithmetic, is charged when mode or level change, and by a report
  when a recalculation period has passed: the power of the device times the time since the last charge, of which at
  most two periods count.
\<close>

datatype meter_event = LevelSet "nat \<Rightarrow> time" string rat | EnergyReport "nat \<Rightarrow> time"

fun metered :: "duration \<Rightarrow> (string \<times> rat) list \<Rightarrow> time \<Rightarrow> string \<Rightarrow> rat \<Rightarrow> meter_event list \<Rightarrow> rat" where
  "metered period ms t m l [] = 0"
| "metered period ms t m l (LevelSet clk m' l' # es) =
     (if m = m' \<and> l = l' then metered period ms t m l es
      else energy_kWh (mode_power ms m * l) (min (clk 1 - t) (2 * period)) + metered period ms (clk 2) m' l' es)"
| "metered period ms t m l (EnergyReport clk # es) =
     (if clk 0 - t < period then metered period ms t m l es
      else energy_kWh (mode_power ms m * l) (min (clk 1 - t) (2 * period)) + metered period ms (clk 2) m l es)"

text \<open>The readings of the clock never go back.\<close>

fun in_order :: "time \<Rightarrow> meter_event list \<Rightarrow> bool" where
  "in_order t [] \<longleftrightarrow> True"
| "in_order t (LevelSet clk m l # es) \<longleftrightarrow> t \<le> clk 1 \<and> clk 1 \<le> clk 2 \<and> in_order (clk 2) es"
| "in_order t (EnergyReport clk # es) \<longleftrightarrow> t \<le> clk 0 \<and> clk 0 \<le> clk 1 \<and> clk 1 \<le> clk 2 \<and> in_order (clk 2) es"

text \<open>Levels, like powers in watts, are zero or between a billionth and a billion.\<close>

fun levels_sized :: "meter_event list \<Rightarrow> bool" where
  "levels_sized [] \<longleftrightarrow> True"
| "levels_sized (LevelSet clk m l # es) \<longleftrightarrow> sized 9 l \<and> levels_sized es"
| "levels_sized (EnergyReport clk # es) \<longleftrightarrow> levels_sized es"

definition process_meter :: "rounding \<Rightarrow> string \<Rightarrow> meter_event \<Rightarrow> unit vm_act" where
  "process_meter rnd topic e =
     (case e of
        LevelSet clk m l \<Rightarrow> manager_update rnd clk topic m l
      | EnergyReport clk \<Rightarrow> act_bind (manager_report rnd clk topic UnitKWh) (\<lambda>_. act_return ()))"

lemma update_same:
  assumes "db_fine w" "vm_devices w topic = Some d" "device_Initialised d"
  shows "manager_update rnd clk topic (dv_CurrentMode d) (dv_Level d) w = Some (Inr (), db_after 1 topic (Some d) w)"
  using Device_fine [OF assms(1,2)] assms(3) by (simp add: manager_update_def)

lemma update_changed:
  assumes "db_fine w" "vm_devices w topic = Some d" "device_Initialised d"
    and "\<not> (dv_CurrentMode d = m \<and> dv_Level d = l)"
    and "recalculateEnergy rnd (vm_energyRecalculationPeriod w) clk True (Some d) = Inr (b, d')"
  shows "manager_update rnd clk topic m l w =
    Some (Inr (), db_after 2 topic (Some (d'\<lparr>dv_Level := l, dv_CurrentMode := m\<rparr>)) w)"
proof -
  let ?w1 = "db_after 1 topic (Some d) w"
  have "vm_recalculate rnd clk True d ?w1 = Some (Inr (b, d'), ?w1)"
    using assms(5) by (simp add: vm_recalculate_def)
  moreover have "vstorage_SetDevice topic (d'\<lparr>dv_Level := l, dv_CurrentMode := m\<rparr>) ?w1
      = Some (Inr (), db_after 2 topic (Some (d'\<lparr>dv_Level := l, dv_CurrentMode := m\<rparr>)) w)"
    using SetDevice_fine [of ?w1] assms(1) by (simp add: numeral_2_eq_2)
  ultimately show ?thesis
    using Device_fine [OF assms(1,2)] assms(3,4) by (auto simp: manager_update_def)
qed

lemma report_kWh:
  assumes "db_fine w" "vm_devices w topic = Some d"
    and "recalculateEnergy rnd (vm_energyRecalculationPeriod w) clk False (Some d) = Inr (b, d')"
  shows "manager_report rnd clk topic UnitKWh w =
    Some (Inr (dv_AccumulatedEnergy d'), db_after (if b then 2 else 1) topic (Some (if b then d' else d)) w)"
proof -
  let ?w1 = "db_after 1 topic (Some d) w"
  have "b \<or> d' = d" using assms(3) by (auto simp: recalculateEnergy_def Let_def split: if_splits)
  moreover have "vm_recalculate rnd clk False d ?w1 = Some (Inr (b, d'), ?w1)"
    using assms(3) by (simp add: vm_recalculate_def)
  moreover have "vstorage_SetDevice topic d' ?w1 = Some (Inr (), db_after 2 topic (Some d') w)"
    using SetDevice_fine [of ?w1] assms(1) by (simp add: numeral_2_eq_2)
  ultimately show ?thesis
    using device_or_fail_fine [OF assms(1,2)] by (auto simp: manager_report_def reportPerUnit_def UnitW_def UnitKWh_def)
qed

text \<open>The total stays within range while charges are added to it.\<close>

definition total_sized :: "nat \<Rightarrow> rat \<Rightarrow> bool" where
  "total_sized n x \<longleftrightarrow> x = 0 \<or> 1 / 10 ^ 100 \<le> x \<and> x \<le> 10 ^ 100 + of_nat n * 10 ^ 56"

lemma total_sized_bounds:
  assumes "total_sized n x"
  shows "0 \<le> x" "x \<le> 10 ^ 100 + of_nat n * 10 ^ 56" "n \<le> 2 ^ 49 \<Longrightarrow> sized 299 x"
proof -
  have pos: "0 \<le> 1 / (10::rat) ^ 100" "0 \<le> (10::rat) ^ 100 + of_nat n * 10 ^ 56" by simp_all
  show "0 \<le> x" "x \<le> 10 ^ 100 + of_nat n * 10 ^ 56"
    using assms pos unfolding total_sized_def by linarith+
  assume "n \<le> 2 ^ 49"
  then have "(of_nat n :: rat) \<le> 2 ^ 49" by (metis of_nat_le_iff of_nat_numeral of_nat_power)
  then have "(of_nat n :: rat) * 10 ^ 56 \<le> 2 ^ 49 * 10 ^ 56" by (rule mult_right_mono) simp
  moreover have "(10::rat) ^ 100 + 2 ^ 49 * 10 ^ 56 \<le> 10 ^ 299" "1 / (10::rat) ^ 299 \<le> 1 / 10 ^ 100" by simp_all
  ultimately show "sized 299 x" using assms unfolding total_sized_def sized_def by linarith
qed

lemma total_sized_add:
  assumes "total_sized n x" "sized 56 y"
  shows "total_sized (Suc n) (x + y)"
proof -
  have "1 / (10::rat) ^ 100 \<le> 1 / 10 ^ 56" by simp
  moreover have "y \<le> 10 ^ 56" using assms(2) unfolding sized_def by auto
  moreover note total_sized_bounds(1,2) [OF assms(1)] sized_nonneg [OF assms(2)]
  ultimately have "x + y = 0 \<or> 1 / 10 ^ 100 \<le> x + y"
    using assms unfolding total_sized_def sized_def by linarith
  moreover have "x + y \<le> 10 ^ 100 + (of_nat n * 10 ^ 56 + 10 ^ 56)"
    using total_sized_bounds(2) [OF assms(1)] \<open>y \<le> 10 ^ 56\<close> by linarith
  ultimately show ?thesis unfolding total_sized_def by (simp add: algebra_simps)
qed

lemma in_order_earlier: "in_order t es \<Longrightarrow> t' \<le> t \<Longrightarrow> in_order t' es"
  by (cases "(t, es)" rule: in_order.cases) auto

text \<open>One more charge adds one rounding to the error of the total.\<close>

lemma near_total:
  assumes "float64_round rnd" "total_sized n E" "near (7 + n) E acc" "near 7 e x" "sized 56 e" "n < 2 ^ 49"
  shows "near (7 + Suc n) (E + e) (rnd (acc + x))"
proof -
  have "near (7 + n) e x" using near_mono [OF assms(4)] sized_nonneg [OF assms(5)] by simp
  from near_add [OF assms(3) this] have sum: "near (7 + n) (E + e) (acc + x)" .
  have "sized 299 (E + e)"
    using total_sized_bounds(3) [OF total_sized_add [OF assms(2,5)]] assms(6) by simp
  from near_round [OF assms(1) sum this] show ?thesis using assms(6) by simp
qed

text \<open>A stored device with modes, with powers and a level of ordinary size, and a database that works; and one that is active.\<close>

definition device_ok :: "vmanager \<Rightarrow> string \<Rightarrow> device \<Rightarrow> bool" where
  "device_ok w topic d \<longleftrightarrow>
     db_fine w \<and> vm_devices w topic = Some d \<and> device_Initialised d
   \<and> 0 \<le> vm_energyRecalculationPeriod w \<and> 2 * vm_energyRecalculationPeriod w \<le> max_duration
   \<and> list_all (\<lambda>(m, p). sized 9 p) (dv_Modes d) \<and> sized 9 (dv_Level d)"

definition meter_ok :: "vmanager \<Rightarrow> string \<Rightarrow> device \<Rightarrow> bool" where
  "meter_ok w topic d \<longleftrightarrow> device_ok w topic d \<and> dv_Active d"

lemma mode_power_sized: "list_all (\<lambda>(m, p). sized 9 p) ms \<Longrightarrow> sized 9 (mode_power ms m)"
  by (auto simp: mode_power_def list_all_iff split: option.split dest: map_of_SomeD)

text \<open>What processing an event does: nothing to the device, or a charge.\<close>

lemma process_meter_step:
  assumes "float64_round rnd" "meter_ok w topic d" "in_order (dv_LastTimeUpdated d) (e # es)" "levels_sized (e # es)"
  obtains (idle) w' d' where "meter_ok w' topic d'" "vm_energyRecalculationPeriod w' = vm_energyRecalculationPeriod w"
      "process_meter rnd topic e w = Some (Inr (), w')" "dv_Modes d' = dv_Modes d" "in_order (dv_LastTimeUpdated d') es"
      "dv_AccumulatedEnergy d' = dv_AccumulatedEnergy d"
      "metered (vm_energyRecalculationPeriod w) (dv_Modes d) (dv_LastTimeUpdated d) (dv_CurrentMode d) (dv_Level d) (e # es)
        = metered (vm_energyRecalculationPeriod w) (dv_Modes d) (dv_LastTimeUpdated d') (dv_CurrentMode d') (dv_Level d') es"
    | (charge) w' d' x c where "meter_ok w' topic d'" "vm_energyRecalculationPeriod w' = vm_energyRecalculationPeriod w"
      "process_meter rnd topic e w = Some (Inr (), w')" "dv_Modes d' = dv_Modes d" "in_order (dv_LastTimeUpdated d') es"
      "dv_AccumulatedEnergy d' = rnd (dv_AccumulatedEnergy d + x)" "near 7 c x" "sized 56 c"
      "metered (vm_energyRecalculationPeriod w) (dv_Modes d) (dv_LastTimeUpdated d) (dv_CurrentMode d) (dv_Level d) (e # es)
        = c + metered (vm_energyRecalculationPeriod w) (dv_Modes d) (dv_LastTimeUpdated d') (dv_CurrentMode d') (dv_Level d') es"
proof -
  let ?p = "vm_energyRecalculationPeriod w"
  have ok: "db_fine w" "vm_devices w topic = Some d" "dv_Active d" "device_Initialised d" "0 \<le> ?p" "2 * ?p \<le> max_duration"
    "list_all (\<lambda>(m, p). sized 9 p) (dv_Modes d)" "sized 9 (dv_Level d)"
    using assms(2) by (simp_all add: meter_ok_def device_ok_def)
  note power = mode_power_sized [OF ok(7), of "dv_CurrentMode d"]
  have unfold_charge: "charge_kWh d g ?p = energy_kWh (mode_power (dv_Modes d) (dv_CurrentMode d) * dv_Level d) (min g (2 * ?p))" for g
    by (simp add: charge_kWh_def device_power_def)
  show thesis
  proof (cases e)
    case (LevelSet clk m l)
    show thesis
    proof (cases "dv_CurrentMode d = m \<and> dv_Level d = l")
      case True
      then have "process_meter rnd topic e w = Some (Inr (), db_after 1 topic (Some d) w)"
        using LevelSet update_same [OF ok(1,2,4)] by (simp add: process_meter_def)
      with True LevelSet assms(2,3) show thesis
        by (intro idle [of "db_after 1 topic (Some d) w" d]) (auto simp: meter_ok_def device_ok_def intro: in_order_earlier)
    next
      case False
      have t: "dv_LastTimeUpdated d \<le> clk 1" using assms(3) LevelSet by simp
      have forced: "True \<or> ?p \<le> time_since (clk 0) (dv_LastTimeUpdated d)" by simp
      obtain x acc where r: "recalculateEnergy rnd ?p clk True (Some d)
          = Inr (True, d\<lparr>dv_AccumulatedEnergy := acc, dv_LastTimeUpdated := clk 2\<rparr>)"
        "acc = rnd (dv_AccumulatedEnergy d + x)" "near 7 (charge_kWh d (clk 1 - dv_LastTimeUpdated d) ?p) x"
        "sized 56 (charge_kWh d (clk 1 - dv_LastTimeUpdated d) ?p)"
        by (rule recalculate_near [OF assms(1) ok(3) forced t ok(5,6) power ok(8)])
      let ?d' = "d\<lparr>dv_AccumulatedEnergy := acc, dv_LastTimeUpdated := clk 2, dv_Level := l, dv_CurrentMode := m\<rparr>"
      have "process_meter rnd topic e w = Some (Inr (), db_after 2 topic (Some ?d') w)"
        using LevelSet update_changed [OF ok(1,2,4) False r(1)] by (simp add: process_meter_def)
      then show thesis
        using False LevelSet assms(2,3,4) r(2,3,4) unfold_charge
        by (intro charge [of "db_after 2 topic (Some ?d') w" ?d' x "charge_kWh d (clk 1 - dv_LastTimeUpdated d) ?p"])
          (auto simp: meter_ok_def device_ok_def device_Initialised_def)
    qed
  next
    case (EnergyReport clk)
    have t: "dv_LastTimeUpdated d \<le> clk 0" "dv_LastTimeUpdated d \<le> clk 1" using assms(3) EnergyReport by simp_all
    show thesis
    proof (cases "clk 0 - dv_LastTimeUpdated d < ?p")
      case True
      then have "time_since (clk 0) (dv_LastTimeUpdated d) < ?p" using time_since_later(2) [OF t(1)] by simp
      then have idle_rec: "recalculateEnergy rnd ?p clk False (Some d) = Inr (False, d)"
        using ok(3) by (simp add: recalculateEnergy_def)
      have "process_meter rnd topic e w = Some (Inr (), db_after 1 topic (Some d) w)"
        using EnergyReport report_kWh [OF ok(1,2) idle_rec] by (simp add: process_meter_def)
      with True EnergyReport assms(2,3) show thesis
        by (intro idle [of "db_after 1 topic (Some d) w" d]) (auto simp: meter_ok_def device_ok_def intro: in_order_earlier)
    next
      case False
      then have since: "False \<or> ?p \<le> time_since (clk 0) (dv_LastTimeUpdated d)"
        using time_since_later(2) [OF t(1)] ok(5,6) by simp
      obtain x acc where r: "recalculateEnergy rnd ?p clk False (Some d)
          = Inr (True, d\<lparr>dv_AccumulatedEnergy := acc, dv_LastTimeUpdated := clk 2\<rparr>)"
        "acc = rnd (dv_AccumulatedEnergy d + x)" "near 7 (charge_kWh d (clk 1 - dv_LastTimeUpdated d) ?p) x"
        "sized 56 (charge_kWh d (clk 1 - dv_LastTimeUpdated d) ?p)"
        by (rule recalculate_near [OF assms(1) ok(3) since t(2) ok(5,6) power ok(8)])
      let ?d' = "d\<lparr>dv_AccumulatedEnergy := acc, dv_LastTimeUpdated := clk 2\<rparr>"
      have "process_meter rnd topic e w = Some (Inr (), db_after 2 topic (Some ?d') w)"
        using EnergyReport report_kWh [OF ok(1,2) r(1)] by (simp add: process_meter_def)
      then show thesis
        using False EnergyReport assms(2,3,4) r(2,3,4) unfold_charge
        by (intro charge [of "db_after 2 topic (Some ?d') w" ?d' x "charge_kWh d (clk 1 - dv_LastTimeUpdated d) ?p"])
          (auto simp: meter_ok_def device_ok_def device_Initialised_def)
    qed
  qed
qed

lemma meter_run_near:
  assumes "float64_round rnd" "meter_ok w topic d" "in_order (dv_LastTimeUpdated d) es" "levels_sized es"
    and "total_sized n E" "near (7 + n) E (dv_AccumulatedEnergy d)" "n + length es \<le> 2 ^ 49"
  shows "\<exists>w' d'. act_for es (process_meter rnd topic) w = Some (Inr (), w') \<and> vm_devices w' topic = Some d'
    \<and> 0 \<le> E + metered (vm_energyRecalculationPeriod w) (dv_Modes d) (dv_LastTimeUpdated d) (dv_CurrentMode d) (dv_Level d) es
    \<and> near (7 + n + length es) (E + metered (vm_energyRecalculationPeriod w) (dv_Modes d) (dv_LastTimeUpdated d)
         (dv_CurrentMode d) (dv_Level d) es) (dv_AccumulatedEnergy d')"
  using assms(2-7)
proof (induction es arbitrary: w d n E)
  case Nil
  then show ?case by (simp add: meter_ok_def device_ok_def total_sized_bounds(1))
next
  case (Cons e es)
  have ls: "levels_sized es" using Cons.prems(3) by (cases e) simp_all
  from assms(1) Cons.prems(1-3) show ?case
  proof (cases rule: process_meter_step)
    case (idle w' d')
    have len: "n + length es \<le> 2 ^ 49" using Cons.prems(6) by simp
    have acc: "near (7 + n) E (dv_AccumulatedEnergy d')" using idle(6) Cons.prems(5) by simp
    let ?X = "E + metered (vm_energyRecalculationPeriod w) (dv_Modes d) (dv_LastTimeUpdated d') (dv_CurrentMode d') (dv_Level d') es"
    obtain w2 d2 where IH: "act_for es (process_meter rnd topic) w' = Some (Inr (), w2)" "vm_devices w2 topic = Some d2"
      "0 \<le> ?X" "near (7 + n + length es) ?X (dv_AccumulatedEnergy d2)"
      using Cons.IH [OF idle(1,5) ls Cons.prems(4) acc len] idle(2,4) by auto
    have "near (7 + n + length (e # es)) ?X (dv_AccumulatedEnergy d2)" using near_mono [OF IH(4) _ IH(3)] by simp
    with IH(1-3) idle(3) show ?thesis unfolding idle(7) by (auto simp: act_bind_def)
  next
    case (charge w' d' x c)
    have len: "Suc n + length es \<le> 2 ^ 49" using Cons.prems(6) by simp
    have "near (7 + Suc n) (E + c) (dv_AccumulatedEnergy d')"
      using near_total [OF assms(1) Cons.prems(4,5) charge(7,8)] len charge(6) by simp
    from Cons.IH [OF charge(1,5) ls total_sized_add [OF Cons.prems(4) charge(8)] this len] charge(2,4)
    obtain w2 d2 where IH: "act_for es (process_meter rnd topic) w' = Some (Inr (), w2)" "vm_devices w2 topic = Some d2"
      "0 \<le> E + c + metered (vm_energyRecalculationPeriod w) (dv_Modes d) (dv_LastTimeUpdated d') (dv_CurrentMode d') (dv_Level d') es"
      "near (7 + Suc n + length es) (E + c + metered (vm_energyRecalculationPeriod w) (dv_Modes d) (dv_LastTimeUpdated d')
         (dv_CurrentMode d') (dv_Level d') es) (dv_AccumulatedEnergy d2)"
      by auto
    then show ?thesis using charge(3) unfolding charge(9) by (auto simp: act_bind_def add.assoc)
  qed
qed

text \<open>
  C5. The virtual meter integrates the power: take an active device with a working database, and any sequence of new modes and levels and
  of energy reports, at any times in order. The energy accumulated is, up to the rounding of \<^verbatim>\<open>float64\<close>, the sum over the
  charges of the power of the device since the last charge times that time, of which at most two recalculation periods
  count; a change of mode or level charges, and so does a report if a period has passed. The relative error is that of seven
  roundings and one for each event, for powers and levels of ordinary size and up to \<open>2 ^ 49\<close> events.
\<close>
theorem energy_accounted:
  assumes "float64_round rnd" "meter_ok w topic d" "in_order (dv_LastTimeUpdated d) es" "levels_sized es"
    and "sized 100 (dv_AccumulatedEnergy d)" "length es \<le> 2 ^ 49"
    and "E = dv_AccumulatedEnergy d + metered (vm_energyRecalculationPeriod w) (dv_Modes d) (dv_LastTimeUpdated d)
      (dv_CurrentMode d) (dv_Level d) es"
  shows "\<exists>w' d'. act_for es (process_meter rnd topic) w = Some (Inr (), w') \<and> vm_devices w' topic = Some d'
    \<and> (1 - 1 / 2 ^ 53) ^ (7 + length es) * E \<le> dv_AccumulatedEnergy d'
    \<and> dv_AccumulatedEnergy d' \<le> (1 + 1 / 2 ^ 53) ^ (7 + length es) * E"
proof -
  have "total_sized 0 (dv_AccumulatedEnergy d)" using assms(5) by (simp add: total_sized_def sized_def)
  moreover have "near 7 (dv_AccumulatedEnergy d) (dv_AccumulatedEnergy d)"
    using near_mono [OF near_refl _ sized_nonneg [OF assms(5)]] by simp
  ultimately show ?thesis
    using meter_run_near [OF assms(1-4), of 0 "dv_AccumulatedEnergy d"] assms(6) unfolding assms(7) near_def unit_roundoff_def
    by auto
qed

text \<open>
  After a long interruption the meter accounts for two recalculation periods: if more than two
  periods have passed since the last recalculation, an active device is charged, in exact arithmetic, the
  energy of exactly two periods at its present power, not of one.
\<close>
theorem long_interruption_two_periods:
  assumes "dv_Active d" "2 * period < time_since (clk 1) (dv_LastTimeUpdated d)"
    and "force \<or> period \<le> time_since (clk 0) (dv_LastTimeUpdated d)"
  shows "\<exists>d'. recalculateEnergy (\<lambda>x. x) period clk force (Some d) = Inr (True, d')
    \<and> dv_AccumulatedEnergy d' = dv_AccumulatedEnergy d + 2 * energy_kWh (device_power d) period
    \<and> dv_LastTimeUpdated d' = clk 2"
  using recalculate_exact [of d force period clk] assms by (simp add: min_def energy_kWh_def)

text \<open>A lamp of ten watts, and a manager whose thing has its virtual meter as its only service.\<close>

definition demo_device :: device where
  "demo_device =
     \<lparr>dv_Modes = [(''on'', 10), (''off'', 0)], dv_CurrentMode = ''on'', dv_Level = 1, dv_AccumulatedEnergy = 0,
      dv_LastTimeUpdated = 0, dv_Unit = ''W'', dv_Active = True\<rparr>"

definition demo_vms :: service_spec where
  "demo_vms = vm_Specification demo_fimpgo ''zw'' ''1'' ''2'' [''ch_0''] [UnitW] [ModeOn, ModeOff] []"

definition demo_vmanager :: vmanager where
  "demo_vmanager =
     \<lparr>vm_ad = (demo_adapter (\<lambda>_. None))\<lparr>ad_things := [(''1'', (demo_thing ''lamp'')\<lparr>th_services := [(sv_Address demo_vms, demo_vms)]\<rparr>)]\<rparr>,
      vm_virtualServices = [(sv_Address demo_vms, Some demo_vms)],
      vm_devices = (\<lambda>t. if t = sv_Address demo_vms then Some demo_device else None),
      vm_dbOps = 0, vm_dbErr = (\<lambda>_. None), vm_energyRecalculationPeriod = time_Hour,
      vm_garbageCleaningPeriod = 100 * time_Hour\<rparr>"

lemma demo_vmanager_simps [simp]:
  "db_fine demo_vmanager" "vm_devices demo_vmanager (sv_Address demo_vms) = Some demo_device"
  "vm_energyRecalculationPeriod demo_vmanager = time_Hour"
  by (simp_all add: demo_vmanager_def db_fine_def)

text \<open>Every reading of the clock in one event gives the same time, and every operation rounds up by half of what is allowed.\<close>

theorem energy_accounted_witness:
  "\<exists>w' d'. act_for [LevelSet (\<lambda>_. time_Hour) ''off'' 0, LevelSet (\<lambda>_. 2 * time_Hour) ''on'' 1, EnergyReport (\<lambda>_. 9 * time_Hour)]
         (process_meter (\<lambda>x. x + x / 2 ^ 54) (sv_Address demo_vms)) demo_vmanager = Some (Inr (), w')
     \<and> vm_devices w' (sv_Address demo_vms) = Some d'
     \<and> (1 - 1 / 2 ^ 53) ^ 10 * (3 / 100) \<le> dv_AccumulatedEnergy d' \<and> dv_AccumulatedEnergy d' \<le> (1 + 1 / 2 ^ 53) ^ 10 * (3 / 100)"
proof -
  let ?es = "[LevelSet (\<lambda>_. time_Hour) ''off'' 0, LevelSet (\<lambda>_. 2 * time_Hour) ''on'' 1, EnergyReport (\<lambda>_. 9 * time_Hour)]"
  have ok: "meter_ok demo_vmanager (sv_Address demo_vms) demo_device"
    by (simp add: meter_ok_def device_ok_def demo_device_def device_Initialised_def sized_def time_Hour_def max_duration_def)
  have ord: "in_order (dv_LastTimeUpdated demo_device) ?es" "levels_sized ?es"
    by (simp_all add: demo_device_def time_Hour_def sized_def)
  have acc: "sized 100 (dv_AccumulatedEnergy demo_device)" by (simp add: demo_device_def)
  have len: "length ?es \<le> 2 ^ 49" by simp
  have E: "3 / 100 = dv_AccumulatedEnergy demo_device + metered (vm_energyRecalculationPeriod demo_vmanager) (dv_Modes demo_device)
      (dv_LastTimeUpdated demo_device) (dv_CurrentMode demo_device) (dv_Level demo_device) ?es"
    by (simp add: demo_device_def energy_kWh_def mode_power_def time_Hour_def)
  have n: "7 + length ?es = 10" by simp
  from energy_accounted [OF float64_round_biased ok ord acc len E] show ?thesis unfolding n .
qed

theorem long_interruption_two_periods_witness:
  "\<exists>d'. recalculateEnergy (\<lambda>x. x) time_Hour (\<lambda>_. 50 * time_Hour) False (Some demo_device) = Inr (True, d')
     \<and> dv_AccumulatedEnergy d' = 2 / 100"
proof -
  have "time_since (50 * time_Hour) (dv_LastTimeUpdated demo_device) = 50 * time_Hour"
    by (simp add: demo_device_def time_since_def time_sub_def max_duration_def min_duration_def time_Hour_def)
  then show ?thesis
    using long_interruption_two_periods [of demo_device time_Hour "\<lambda>_. 50 * time_Hour" False]
    by (auto simp: demo_device_def device_power_def mode_power_def energy_kWh_def time_Hour_def)
qed

lemma activity_single:
  assumes "db_fine w" "adapter_ThingByAddress (vm_ad w) addr = Some t" "thing_Services t '''' = [s]"
    and "virtual_service w (sv_Address s) \<noteq> None" "vm_devices w (sv_Address s) = Some d"
  shows "\<exists>n. updateDeviceActivity addr active w = Some (Inr (), db_after n (sv_Address s) (Some (d\<lparr>dv_Active := active\<rparr>)) w)"
proof -
  let ?w1 = "db_after 1 (sv_Address s) (Some d) w"
  have get: "device_or_fail e (sv_Address s) w = Some (Inr d, ?w1)" for e
    using device_or_fail_fine [OF assms(1,5)] .
  show ?thesis
  proof (cases "dv_Active d = active")
    case True
    then have same: "d\<lparr>dv_Active := active\<rparr> = d" by (cases d) simp
    have "updateDeviceActivity addr active w = Some (Inr (), ?w1)"
      using True get assms(2,3,4) by (auto simp: updateDeviceActivity_def)
    then show ?thesis unfolding same by blast
  next
    case False
    have "vstorage_SetDevice (sv_Address s) (d\<lparr>dv_Active := active\<rparr>) ?w1
        = Some (Inr (), db_after 2 (sv_Address s) (Some (d\<lparr>dv_Active := active\<rparr>)) w)"
      using SetDevice_fine [of ?w1] assms(1) by (simp add: numeral_2_eq_2)
    then show ?thesis
      using False get assms(2,3,4) by (intro exI [of _ 2]) (auto simp: updateDeviceActivity_def)
  qed
qed

text \<open>
  Energy is charged for time in which the device was unreachable: when a device is reported down and up
  again, however long it was down, its next report charges it, in exact arithmetic, for the whole time
  since the last recalculation before it went down, up to two periods. Going up does not restart the clock.
\<close>
theorem offline_time_charged:
  assumes "db_fine w" "adapter_ThingByAddress (vm_ad w) addr = Some t" "thing_Services t '''' = [s]"
    and "virtual_service w (sv_Address s) \<noteq> None" "vm_devices w (sv_Address s) = Some d" "dv_Active d"
    and "vm_energyRecalculationPeriod w \<le> time_since now (dv_LastTimeUpdated d)"
  shows "\<exists>w1 w2 w3. updateDeviceActivity addr False w = Some (Inr (), w1)
    \<and> updateDeviceActivity addr True w1 = Some (Inr (), w2)
    \<and> manager_report (\<lambda>x. x) (\<lambda>_. now) (sv_Address s) UnitKWh w2 =
        Some (Inr (dv_AccumulatedEnergy d + energy_kWh (device_power d)
               (min (time_since now (dv_LastTimeUpdated d)) (2 * vm_energyRecalculationPeriod w))), w3)"
proof -
  let ?topic = "sv_Address s"
  let ?off = "d\<lparr>dv_Active := False\<rparr>"
  obtain n where down: "updateDeviceActivity addr False w = Some (Inr (), db_after n ?topic (Some ?off) w)"
    using activity_single [OF assms(1-5)] by blast
  have on: "?off\<lparr>dv_Active := True\<rparr> = d" using assms(6) by simp
  obtain m where up: "updateDeviceActivity addr True (db_after n ?topic (Some ?off) w)
      = Some (Inr (), db_after m ?topic (Some d) (db_after n ?topic (Some ?off) w))"
    using activity_single [of "db_after n ?topic (Some ?off) w" addr t s ?off True] assms(1-4) on by auto
  let ?w2 = "db_after (n + m) ?topic (Some d) w"
  let ?w2' = "db_after 1 ?topic (Some d) ?w2"
  let ?d = "d\<lparr>dv_AccumulatedEnergy := dv_AccumulatedEnergy d + energy_kWh (device_power d)
               (min (time_since now (dv_LastTimeUpdated d)) (2 * vm_energyRecalculationPeriod w)),
             dv_LastTimeUpdated := now\<rparr>"
  have get: "device_or_fail e ?topic ?w2 = Some (Inr d, ?w2')" for e
    using device_or_fail_fine [of ?w2 ?topic d] assms(1) by simp
  have rec: "vm_recalculate (\<lambda>x. x) (\<lambda>_. now) False d ?w2' = Some (Inr (True, ?d), ?w2')"
    using recalculate_exact [of d False "vm_energyRecalculationPeriod w" "\<lambda>_. now"] assms(6,7)
    by (simp add: vm_recalculate_def)
  have set: "vstorage_SetDevice ?topic ?d ?w2' = Some (Inr (), db_after 1 ?topic (Some ?d) ?w2')"
    using SetDevice_fine [of ?w2'] assms(1) by simp
  have "manager_report (\<lambda>x. x) (\<lambda>_. now) ?topic UnitKWh ?w2
      = Some (Inr (dv_AccumulatedEnergy ?d), db_after 1 ?topic (Some ?d) ?w2')"
    using get rec set by (simp add: manager_report_def reportPerUnit_def UnitW_def UnitKWh_def)
  then show ?thesis using down up by auto
qed

theorem offline_time_charged_witness:
  "\<exists>w1 w2 w3. updateDeviceActivity ''1'' False demo_vmanager = Some (Inr (), w1)
     \<and> updateDeviceActivity ''1'' True w1 = Some (Inr (), w2)
     \<and> manager_report (\<lambda>x. x) (\<lambda>_. 2 * time_Hour) (sv_Address demo_vms) UnitKWh w2 = Some (Inr (2 / 100), w3)"
proof -
  have s: "time_since (2 * time_Hour) (dv_LastTimeUpdated demo_device) = 2 * time_Hour"
    by (simp add: demo_device_def time_since_def time_sub_def max_duration_def min_duration_def time_Hour_def)
  let ?t = "(demo_thing ''lamp'')\<lparr>th_services := [(sv_Address demo_vms, demo_vms)]\<rparr>"
  have "adapter_ThingByAddress (vm_ad demo_vmanager) ''1'' = Some ?t"
    by (simp add: demo_vmanager_def adapter_ThingByAddress_def)
  moreover have "thing_Services ?t [] = [demo_vms]" by (simp add: thing_Services_def)
  moreover have "virtual_service demo_vmanager (sv_Address demo_vms) \<noteq> None"
    by (simp add: demo_vmanager_def virtual_service_def)
  moreover have "dv_Active demo_device" by (simp add: demo_device_def)
  moreover have "time_Hour \<le> 2 * time_Hour" by (simp add: time_Hour_def)
  moreover have "dv_AccumulatedEnergy demo_device + energy_kWh (device_power demo_device)
      (min (2 * time_Hour) (2 * vm_energyRecalculationPeriod demo_vmanager)) = 2 / 100"
    by (simp add: demo_device_def device_power_def mode_power_def energy_kWh_def time_Hour_def)
  ultimately show ?thesis
    using offline_time_charged [OF demo_vmanager_simps(1), of "''1''" ?t demo_vms demo_device "2 * time_Hour"] s
      demo_vmanager_simps(2,3) by metis
qed

end
