(* ===== verification/Prime.thy ===== *)
theory Prime
  imports Fimp Go_Actions "HOL-Library.Char_ord" "HOL-Library.List_Lexorder"
begin

text \<open>
  The data of the hub's registry (\<^verbatim>\<open>src/prime/type.go\<close>), the messages that carry it
  (\<^verbatim>\<open>src/prime/model.go\<close>) and the client that requests it (\<^verbatim>\<open>src/prime/client.go\<close>).

  A value of type \<^verbatim>\<open>any\<close> that came from JSON is a \<open>fimp_value\<close>. A pointer that the code compares with nil
  is an option; the elements of the decoded slices and maps are not nil. Go maps are association lists
  with distinct keys. The decoders of JSON text into the structures are the fields of the record
  \<open>prime_json\<close>, an argument of the definitions that decode.
\<close>

section \<open>Strings and numbers of the standard library\<close>

text \<open>\<^verbatim>\<open>strings.Contains\<close>.\<close>

definition strings_Contains :: "string \<Rightarrow> string \<Rightarrow> bool" where
  "strings_Contains s sub \<longleftrightarrow> sublist sub s"

text \<open>\<^verbatim>\<open>strconv.ParseInt(s, 10, 64)\<close> and \<^verbatim>\<open>strconv.Atoi\<close>: an optional sign, at least one digit, and a value in range.\<close>

fun parse_digits :: "int \<Rightarrow> string \<Rightarrow> int option" where
  "parse_digits n [] = Some n"
| "parse_digits n (c # cs) =
     (if CHR ''0'' \<le> c \<and> c \<le> CHR ''9'' then parse_digits (10 * n + (int (of_char c) - 48)) cs else None)"

definition parse_magnitude :: "string \<Rightarrow> int option" where
  "parse_magnitude ds = (if ds = '''' then None else parse_digits 0 ds)"

definition parse_signed :: "string \<Rightarrow> int option" where
  "parse_signed s =
     (case s of
        [] \<Rightarrow> None
      | c # ds \<Rightarrow>
          if c = CHR ''-'' then map_option uminus (parse_magnitude ds)
          else if c = CHR ''+'' then parse_magnitude ds
          else parse_magnitude s)"

definition ParseInt :: "string \<Rightarrow> int result" where
  "ParseInt s =
     (case parse_signed s of
        None \<Rightarrow> Inl (Errorf ''invalid syntax'')
      | Some i \<Rightarrow> if - (2 ^ 63) \<le> i \<and> i < 2 ^ 63 then Inr i else Inl (Errorf ''value out of range''))"

definition Atoi :: "string \<Rightarrow> int result" where
  "Atoi s = ParseInt s"

text \<open>
  \<^verbatim>\<open>json.Marshal\<close> of a value followed by \<^verbatim>\<open>json.Unmarshal\<close> into a target: the content of the target
  afterwards, and the first error. A null leaves the target as it is; an element of the wrong type
  leaves that element as it is and does not stop the decoding. A floating-point number is written
  without exponent and fraction, and so read as an integer, if it is integral and below $10^{21}$.
\<close>

type_synonym 'a json_into = "'a \<Rightarrow> fimp_value \<Rightarrow> 'a \<times> go_error option"

definition json_type_error :: go_error where
  "json_type_error = Errorf ''json: cannot unmarshal''"

definition into_string :: "string json_into" where
  "into_string z v = (case v of VString s \<Rightarrow> (s, None) | VNull \<Rightarrow> (z, None) | _ \<Rightarrow> (z, Some json_type_error))"

definition into_bool :: "bool json_into" where
  "into_bool z v = (case v of VBool b \<Rightarrow> (b, None) | VNull \<Rightarrow> (z, None) | _ \<Rightarrow> (z, Some json_type_error))"

definition into_float :: "rat json_into" where
  "into_float z v =
     (case v of VFloat r \<Rightarrow> (r, None) | VInt i \<Rightarrow> (of_int i, None) | VNull \<Rightarrow> (z, None)
      | _ \<Rightarrow> (z, Some json_type_error))"

definition into_int :: "int json_into" where
  "into_int z v =
     (case v of
        VInt i \<Rightarrow> (i, None)
      | VFloat r \<Rightarrow>
          if r = of_int \<lfloor>r\<rfloor> \<and> - (2 ^ 63) \<le> \<lfloor>r\<rfloor> \<and> \<lfloor>r\<rfloor> < 2 ^ 63 then (\<lfloor>r\<rfloor>, None)
          else (z, Some json_type_error)
      | VNull \<Rightarrow> (z, None)
      | _ \<Rightarrow> (z, Some json_type_error))"

fun first_error :: "go_error option list \<Rightarrow> go_error option" where
  "first_error [] = None"
| "first_error (None # es) = first_error es"
| "first_error (Some e # es) = Some e"

definition into_list :: "'a \<Rightarrow> 'a json_into \<Rightarrow> 'a list json_into" where
  "into_list zero f z v =
     (case v of
        VList vs \<Rightarrow> (map (\<lambda>x. fst (f zero x)) vs, first_error (map (\<lambda>x. snd (f zero x)) vs))
      | VNull \<Rightarrow> ([], None)
      | _ \<Rightarrow> (z, Some json_type_error))"

definition into_map :: "'a \<Rightarrow> 'a json_into \<Rightarrow> (string \<times> 'a) list json_into" where
  "into_map zero f z v =
     (case v of
        VObject kvs \<Rightarrow> (map (\<lambda>(k, x). (k, fst (f zero x))) kvs, first_error (map (\<lambda>(k, x). snd (f zero x)) kvs))
      | VNull \<Rightarrow> ([], None)
      | _ \<Rightarrow> (z, Some json_type_error))"

section \<open>The registry (\<^verbatim>\<open>type.go\<close>)\<close>

definition ComponentDevice :: string where "ComponentDevice = ''device''"
definition ComponentThing :: string where "ComponentThing = ''thing''"
definition ComponentRoom :: string where "ComponentRoom = ''room''"
definition ComponentArea :: string where "ComponentArea = ''area''"
definition ComponentHouse :: string where "ComponentHouse = ''house''"
definition ComponentHub :: string where "ComponentHub = ''hub''"
definition ComponentShortcut :: string where "ComponentShortcut = ''shortcut''"
definition ComponentMode :: string where "ComponentMode = ''mode''"
definition ComponentTimer :: string where "ComponentTimer = ''timer''"
definition ComponentService :: string where "ComponentService = ''service''"
definition ComponentState :: string where "ComponentState = ''state''"
definition CmdGet :: string where "CmdGet = ''get''"
definition CmdSet :: string where "CmdSet = ''set''"
definition CmdEdit :: string where "CmdEdit = ''edit''"
definition CmdDelete :: string where "CmdDelete = ''delete''"
definition CmdAdd :: string where "CmdAdd = ''add''"

lemmas component_names = ComponentDevice_def ComponentThing_def ComponentRoom_def ComponentArea_def
  ComponentHouse_def ComponentHub_def ComponentShortcut_def ComponentMode_def ComponentTimer_def
  ComponentService_def ComponentState_def
lemmas command_names = CmdGet_def CmdSet_def CmdEdit_def CmdDelete_def CmdAdd_def

definition validComponents :: "string list" where
  "validComponents =
     [ComponentDevice, ComponentThing, ComponentRoom, ComponentArea, ComponentHouse, ComponentHub,
      ComponentShortcut, ComponentMode, ComponentTimer, ComponentService, ComponentState]"

record prime_service =
  ps_Addr :: string
  ps_Enabled :: bool
  ps_Interfaces :: "string list"
  ps_Props :: "(string \<times> fimp_value) list"

record device_fimp =
  df_Adapter :: string
  df_Address :: string
  df_AdapterResource :: string
  df_AdapterAddress :: string
  df_Group :: string

record client_type =
  ct_Name :: "string option"
  ct_OpenStateType :: "string option"

record device =
  dv_FIMP :: device_fimp
  dv_Client :: client_type
  dv_Functionality :: "string option"
  dv_Services :: "(string \<times> prime_service) list"
  dv_ID :: int
  dv_Lrn :: bool
  dv_Model :: string
  dv_ModelAlias :: string
  dv_Param :: "(string \<times> fimp_value) list"
  dv_Problem :: bool
  dv_Room :: "int option"
  dv_Changes :: "(string \<times> fimp_value) list"
  dv_ThingID :: "int option"
  dv_Type :: "(string \<times> fimp_value) list"

record thing_fimp =
  tf_Address :: string
  tf_AdapterService :: string
  tf_AdapterResource :: string
  tf_AdapterAddress :: string

record prime_thing =
  pt_ID :: int
  pt_FIMP :: thing_fimp
  pt_Address :: string
  pt_Name :: string
  pt_Devices :: "int list"
  pt_Props :: "(string \<times> fimp_value) list"
  pt_RoomID :: int

record room_heating =
  rh_Desired :: rat
  rh_Target :: rat
  rh_Thermostat :: bool
  rh_Actuator :: bool
  rh_Power :: string

record room_params =
  rp_Heating :: room_heating
  rp_Lighting :: fimp_value
  rp_Security :: fimp_value
  rp_Sensors :: "string list"
  rp_Shading :: fimp_value
  rp_Triggers :: fimp_value

record room =
  rm_Alias :: string
  rm_ID :: int
  rm_Param :: room_params
  rm_Client :: client_type
  rm_Type :: "string option"
  rm_Area :: "int option"
  rm_Outside :: bool

record area_props =
  ap_HNumber :: string
  ap_TransNr :: string

record area =
  ar_ID :: int
  ar_Name :: string
  ar_Type :: string
  ar_Props :: area_props

record house =
  ho_Learning :: fimp_value
  ho_Mode :: string
  ho_Time :: time

record hub_mode =
  hm_Current :: string
  hm_Previous :: string

record hub =
  hu_Mode :: hub_mode

type_synonym action = "(string \<times> fimp_value) list"

record shortcut_action =
  sa_Device :: "(int \<times> action) list"
  sa_Room :: "(int \<times> action) list"

record shortcut =
  sc_ID :: int
  sc_Client :: client_type
  sc_Action :: shortcut_action

record mode_action =
  ma_Device :: action
  ma_Room :: action

record mode =
  mo_ID :: string
  mo_Action :: mode_action

record timer_action =
  ta_Type :: string
  ta_Shortcut :: int
  ta_Mode :: string
  ta_Action :: shortcut_action

record timer =
  ti_Action :: timer_action
  ti_Client :: client_type
  ti_Enabled :: bool
  ti_Time :: "(string \<times> fimp_value) list"
  ti_ID :: int

record vinculum_services =
  vs_FireAlarm :: "(string \<times> fimp_value) list"

record state_attribute_value =
  av_Timestamp :: string
  av_ValueType :: string
  av_Value :: fimp_value
  av_Props :: "(string \<times> string) list"

record state_attribute =
  at_Name :: string
  at_Values :: "state_attribute_value list"

record state_service =
  ss_Name :: string
  ss_Address :: string
  ss_Attributes :: "state_attribute list"

record state_device =
  sd_ID :: int
  sd_Services :: "state_service list"

record prime_state =
  pst_Devices :: "state_device list"

record component_set =
  cs_Devices :: "device list"
  cs_Things :: "prime_thing list"
  cs_Rooms :: "room list"
  cs_Areas :: "area list"
  cs_House :: "house option"
  cs_Hub :: "hub option"
  cs_Shortcuts :: "shortcut list"
  cs_Modes :: "mode list"
  cs_Timers :: "timer list"
  cs_Services :: "vinculum_services option"
  cs_State :: "prime_state option"


section \<open>Devices\<close>

definition Device_GetThingID :: "device \<Rightarrow> int" where
  "Device_GetThingID d = (case dv_ThingID d of None \<Rightarrow> 0 | Some i \<Rightarrow> i)"

definition Device_GetRoomID :: "device \<Rightarrow> int" where
  "Device_GetRoomID d = (case dv_Room d of None \<Rightarrow> 0 | Some i \<Rightarrow> i)"

definition Device_GetName :: "device \<Rightarrow> string" where
  "Device_GetName d =
     (case ct_Name (dv_Client d) of
        Some n \<Rightarrow> n
      | None \<Rightarrow> if dv_ModelAlias d \<noteq> '''' then dv_ModelAlias d else dv_Model d)"

definition string_entry :: "(string \<times> fimp_value) list \<Rightarrow> string \<Rightarrow> string" where
  "string_entry m k = (case map_of m k of Some (VString s) \<Rightarrow> s | _ \<Rightarrow> '''')"

definition Device_GetType :: "device \<Rightarrow> string" where
  "Device_GetType d = string_entry (dv_Type d) ''type''"

definition Device_GetSubType :: "device \<Rightarrow> string" where
  "Device_GetSubType d = string_entry (dv_Type d) ''subtype''"

fun any_string_equals :: "fimp_value list \<Rightarrow> string \<Rightarrow> bool" where
  "any_string_equals [] t = False"
| "any_string_equals (v # vs) t =
     (case v of VString s \<Rightarrow> if s = t then True else any_string_equals vs t | _ \<Rightarrow> any_string_equals vs t)"

definition Device_SupportsSubType :: "device \<Rightarrow> string \<Rightarrow> string \<Rightarrow> bool" where
  "Device_SupportsSubType d mainType subType =
     (case map_of (dv_Type d) ''supported'' of
        Some (VObject supported) \<Rightarrow>
          (case map_of supported mainType of
             Some (VList subTypes) \<Rightarrow> any_string_equals subTypes subType
           | _ \<Rightarrow> False)
      | _ \<Rightarrow> False)"

definition Device_GetService :: "device \<Rightarrow> string \<Rightarrow> prime_service option" where
  "Device_GetService d serviceName =
     map_option snd (find (\<lambda>(srvName, srv). srvName = serviceName) (dv_Services d))"

definition Device_HasService :: "device \<Rightarrow> string \<Rightarrow> bool" where
  "Device_HasService d serviceName \<longleftrightarrow> Device_GetService d serviceName \<noteq> None"

fun containsInterface :: "string \<Rightarrow> string list \<Rightarrow> bool" where
  "containsInterface interfaceName [] = False"
| "containsInterface interfaceName (i # is) =
     (if i = interfaceName then True else containsInterface interfaceName is)"

fun contains_all_interfaces :: "string list \<Rightarrow> string list \<Rightarrow> bool" where
  "contains_all_interfaces [] is = True"
| "contains_all_interfaces (n # ns) is =
     (if \<not> containsInterface n is then False else contains_all_interfaces ns is)"

definition Device_HasInterfaces :: "device \<Rightarrow> string \<Rightarrow> string list \<Rightarrow> bool" where
  "Device_HasInterfaces d serviceName interfaceNames =
     (case Device_GetService d serviceName of
        None \<Rightarrow> False
      | Some srv \<Rightarrow> contains_all_interfaces interfaceNames (ps_Interfaces srv))"

text \<open>A nil value of type \<^verbatim>\<open>any\<close> is \<open>None\<close>: no service, no such property, or a property that is null.\<close>

definition Device_GetServiceProperty :: "device \<Rightarrow> string \<Rightarrow> string \<Rightarrow> fimp_value option" where
  "Device_GetServiceProperty d serviceName property =
     (case Device_GetService d serviceName of
        None \<Rightarrow> None
      | Some srv \<Rightarrow>
          (case map_of (ps_Props srv) property of
             None \<Rightarrow> None
           | Some v \<Rightarrow> if v = VNull then None else Some v))"

text \<open>The content of the target afterwards, and whether the call reports success.\<close>

definition Device_GetServicePropertyObject ::
  "'a json_into \<Rightarrow> device \<Rightarrow> string \<Rightarrow> string \<Rightarrow> 'a \<Rightarrow> 'a \<times> bool" where
  "Device_GetServicePropertyObject into d serviceName property obj =
     (case Device_GetServiceProperty d serviceName property of
        None \<Rightarrow> (obj, False)
      | Some v \<Rightarrow> (let (obj', err) = into obj v in (obj', err = None)))"

definition Device_GetServicePropertyString :: "device \<Rightarrow> string \<Rightarrow> string \<Rightarrow> string" where
  "Device_GetServicePropertyString d serviceName property =
     (let (val, ok) = Device_GetServicePropertyObject into_string d serviceName property ''''
      in if \<not> ok then '''' else val)"

definition Device_GetServicePropertyStrings :: "device \<Rightarrow> string \<Rightarrow> string \<Rightarrow> string list" where
  "Device_GetServicePropertyStrings d serviceName property =
     (let (val, ok) = Device_GetServicePropertyObject (into_list '''' into_string) d serviceName property []
      in if \<not> ok then [] else val)"

definition Device_GetServicePropertyInteger :: "device \<Rightarrow> string \<Rightarrow> string \<Rightarrow> int" where
  "Device_GetServicePropertyInteger d serviceName property =
     (let (val, ok) = Device_GetServicePropertyObject into_int d serviceName property 0
      in if \<not> ok then 0 else val)"

fun any_service_address :: "(string \<times> prime_service) list \<Rightarrow> string \<Rightarrow> bool" where
  "any_service_address [] topic = False"
| "any_service_address ((n, srv) # srvs) topic =
     (if strings_Contains topic (ps_Addr srv) then True else any_service_address srvs topic)"

definition Device_MatchesTopic :: "device \<Rightarrow> string \<Rightarrow> bool" where
  "Device_MatchesTopic d topic = any_service_address (dv_Services d) topic"

definition Device_GetAddresses :: "device \<Rightarrow> string list" where
  "Device_GetAddresses d = sort (map (\<lambda>(n, srv). ps_Addr srv) (dv_Services d))"

fun Devices_FilterByThingID_loop :: "device list \<Rightarrow> int \<Rightarrow> device list" where
  "Devices_FilterByThingID_loop [] thingID = []"
| "Devices_FilterByThingID_loop (d # ds) thingID =
     (if Device_GetThingID d \<noteq> thingID then Devices_FilterByThingID_loop ds thingID
      else d # Devices_FilterByThingID_loop ds thingID)"

definition Devices_FilterByThingID :: "device list \<Rightarrow> int \<Rightarrow> device list" where
  "Devices_FilterByThingID ds thingID = (if thingID = 0 then [] else Devices_FilterByThingID_loop ds thingID)"

definition Devices_FilterByIDs :: "device list \<Rightarrow> int list \<Rightarrow> device list" where
  "Devices_FilterByIDs ds ids = concat (map (\<lambda>d. concat (map (\<lambda>i. if dv_ID d = i then [d] else []) ids)) ds)"

definition Devices_FindByID :: "device list \<Rightarrow> int \<Rightarrow> device option" where
  "Devices_FindByID ds i = find (\<lambda>d. dv_ID d = i) ds"

definition Devices_FindByTopic :: "device list \<Rightarrow> string \<Rightarrow> device option" where
  "Devices_FindByTopic ds topic = find (\<lambda>d. Device_MatchesTopic d topic) ds"

definition Things_FindByID :: "prime_thing list \<Rightarrow> int \<Rightarrow> prime_thing option" where
  "Things_FindByID ts i = find (\<lambda>t. pt_ID t = i) ts"

definition Rooms_FindByID :: "room list \<Rightarrow> int \<Rightarrow> room option" where
  "Rooms_FindByID rs i = find (\<lambda>r. rm_ID r = i) rs"

definition Room_GetAreaID :: "room \<Rightarrow> int" where
  "Room_GetAreaID r = (case rm_Area r of None \<Rightarrow> 0 | Some i \<Rightarrow> i)"

lemma containsInterface_iff: "containsInterface n is \<longleftrightarrow> n \<in> set is"
  by (induction "is") auto

lemma contains_all_interfaces_iff: "contains_all_interfaces ns is \<longleftrightarrow> set ns \<subseteq> set is"
  by (induction ns) (auto simp: containsInterface_iff)

lemma any_string_equals_iff: "any_string_equals vs t \<longleftrightarrow> VString t \<in> set vs"
  by (induction vs) (auto split: fimp_value.split)

lemma any_service_address_iff:
  "any_service_address srvs topic \<longleftrightarrow> (\<exists>srv \<in> snd ` set srvs. sublist (ps_Addr srv) topic)"
  by (induction srvs) (auto simp: strings_Contains_def)

lemma find_key_map_of: "map_option snd (find (\<lambda>(k, v). k = a) m) = map_of m a"
  by (induction m) auto

lemma Device_GetService_map_of: "Device_GetService d = map_of (dv_Services d)"
  by (rule ext) (simp add: Device_GetService_def find_key_map_of)

lemma FilterByThingID_loop_filter:
  "Devices_FilterByThingID_loop ds t = filter (\<lambda>d. Device_GetThingID d = t) ds"
  by (induction ds) auto

section \<open>The reported state of the devices\<close>

definition HasProperty :: "state_attribute_value \<Rightarrow> string \<Rightarrow> string \<Rightarrow> bool" where
  "HasProperty v property value \<longleftrightarrow>
     (case map_of (av_Props v) property of None \<Rightarrow> '''' | Some p \<Rightarrow> p) = value"

fun HasProperties :: "state_attribute_value \<Rightarrow> (string \<times> string) list \<Rightarrow> bool" where
  "HasProperties v [] = True"
| "HasProperties v ((property, value) # ps) =
     (if \<not> HasProperty v property value then False else HasProperties v ps)"

definition StateAttribute_FindValue ::
  "state_attribute option \<Rightarrow> (string \<times> string) list \<Rightarrow> state_attribute_value option" where
  "StateAttribute_FindValue a properties =
     (case a of
        None \<Rightarrow> None
      | Some a \<Rightarrow> if at_Values a = [] then None else find (\<lambda>v. HasProperties v properties) (at_Values a))"

definition StateService_FindAttribute :: "state_service option \<Rightarrow> string \<Rightarrow> state_attribute option" where
  "StateService_FindAttribute s name =
     (case s of
        None \<Rightarrow> None
      | Some s \<Rightarrow>
          let segments = strings_Split (CHR ''.'') name;
              name' = (if length segments = 3 then segments ! 1 else name)
          in find (\<lambda>a. at_Name a = name') (ss_Attributes s))"

definition StateDevice_FindService :: "state_device option \<Rightarrow> string \<Rightarrow> state_service option" where
  "StateDevice_FindService d name =
     (case d of None \<Rightarrow> None | Some d \<Rightarrow> find (\<lambda>s. ss_Name s = name) (sd_Services d))"

definition StateDevice_FindAttributeValue ::
  "state_device option \<Rightarrow> string \<Rightarrow> string \<Rightarrow> (string \<times> string) list \<Rightarrow> state_attribute_value option" where
  "StateDevice_FindAttributeValue d serviceName attributeName properties =
     (case d of
        None \<Rightarrow> None
      | Some _ \<Rightarrow>
          (case StateDevice_FindService d serviceName of
             None \<Rightarrow> None
           | Some service \<Rightarrow>
               (case StateService_FindAttribute (Some service) attributeName of
                  None \<Rightarrow> None
                | Some attribute \<Rightarrow> StateAttribute_FindValue (Some attribute) properties)))"

definition StateDevices_FindDevice :: "state_device list \<Rightarrow> int \<Rightarrow> state_device option" where
  "StateDevices_FindDevice ds i = find (\<lambda>d. sd_ID d = i) ds"

text \<open>\<^verbatim>\<open>GetObjectValue\<close> of a value: the content of the target afterwards, and the error.\<close>

definition GetObjectValue :: "'a json_into \<Rightarrow> state_attribute_value option \<Rightarrow> 'a \<Rightarrow> 'a \<times> go_error option" where
  "GetObjectValue into v obj =
     (case v of
        None \<Rightarrow> (obj, None)
      | Some v \<Rightarrow>
          (let (obj', err) = into obj (av_Value v)
           in (obj', map_option (Wrapf ''state: failed to unmarshal value'') err)))"

text \<open>\<open>ParseTime\<close> is the function of that name of \<^verbatim>\<open>fimpgo\<close>.\<close>

definition StateAttributeValue_GetTime :: "(string \<Rightarrow> time) \<Rightarrow> state_attribute_value option \<Rightarrow> time result" where
  "StateAttributeValue_GetTime ParseTime v =
     (case v of
        None \<Rightarrow> Inr time_zero
      | Some v \<Rightarrow>
          let t = ParseTime (av_Timestamp v)
          in if is_zero t then Inl (Errorf (''state: failed to parse timestamp: '' @ av_Timestamp v)) else Inr t)"

definition GetAttributeObjectValue ::
  "(string \<Rightarrow> time) \<Rightarrow> 'a json_into \<Rightarrow> state_device option \<Rightarrow> string \<Rightarrow> string \<Rightarrow> (string \<times> string) list
   \<Rightarrow> 'a \<Rightarrow> 'a \<times> time" where
  "GetAttributeObjectValue ParseTime into d serviceName attributeName properties obj =
     (case d of
        None \<Rightarrow> (obj, time_zero)
      | Some _ \<Rightarrow>
          (case StateDevice_FindAttributeValue d serviceName attributeName properties of
             None \<Rightarrow> (obj, time_zero)
           | Some value \<Rightarrow>
               (let (obj', err) = GetObjectValue into (Some value) obj
                in if err \<noteq> None then (obj', time_zero)
                   else case StateAttributeValue_GetTime ParseTime (Some value) of
                          Inl _ \<Rightarrow> (obj', time_zero)
                        | Inr t \<Rightarrow> (obj', t))))"



text \<open>
  The typed getters declare a zero value, pass its address, and return it together with the result of the
  call (\<^verbatim>\<open>return val, v.GetObjectValue(&val)\<close>). Go does not fix whether the variable is read before or after
  the call; the definitions have the order of the compiler, which reads it after the call.
\<close>

definition GetAttributeStringValue ::
  "(string \<Rightarrow> time) \<Rightarrow> state_device option \<Rightarrow> string \<Rightarrow> string \<Rightarrow> (string \<times> string) list \<Rightarrow> string \<times> time" where
  "GetAttributeStringValue ParseTime d serviceName attributeName properties =
     GetAttributeObjectValue ParseTime into_string d serviceName attributeName properties ''''"

definition GetAttributeIntValue ::
  "(string \<Rightarrow> time) \<Rightarrow> state_device option \<Rightarrow> string \<Rightarrow> string \<Rightarrow> (string \<times> string) list \<Rightarrow> int \<times> time" where
  "GetAttributeIntValue ParseTime d serviceName attributeName properties =
     GetAttributeObjectValue ParseTime into_int d serviceName attributeName properties 0"

definition GetAttributeFloatValue ::
  "(string \<Rightarrow> time) \<Rightarrow> state_device option \<Rightarrow> string \<Rightarrow> string \<Rightarrow> (string \<times> string) list \<Rightarrow> rat \<times> time" where
  "GetAttributeFloatValue ParseTime d serviceName attributeName properties =
     GetAttributeObjectValue ParseTime into_float d serviceName attributeName properties 0"

definition GetAttributeBoolValue ::
  "(string \<Rightarrow> time) \<Rightarrow> state_device option \<Rightarrow> string \<Rightarrow> string \<Rightarrow> (string \<times> string) list \<Rightarrow> bool \<times> time" where
  "GetAttributeBoolValue ParseTime d serviceName attributeName properties =
     GetAttributeObjectValue ParseTime into_bool d serviceName attributeName properties False"

definition GetAttributeStringArrayValue ::
  "(string \<Rightarrow> time) \<Rightarrow> state_device option \<Rightarrow> string \<Rightarrow> string \<Rightarrow> (string \<times> string) list \<Rightarrow> string list \<times> time" where
  "GetAttributeStringArrayValue ParseTime d serviceName attributeName properties =
     GetAttributeObjectValue ParseTime (into_list '''' into_string) d serviceName attributeName properties []"

definition GetAttributeIntArrayValue ::
  "(string \<Rightarrow> time) \<Rightarrow> state_device option \<Rightarrow> string \<Rightarrow> string \<Rightarrow> (string \<times> string) list \<Rightarrow> int list \<times> time" where
  "GetAttributeIntArrayValue ParseTime d serviceName attributeName properties =
     GetAttributeObjectValue ParseTime (into_list 0 into_int) d serviceName attributeName properties []"

definition GetAttributeFloatArrayValue ::
  "(string \<Rightarrow> time) \<Rightarrow> state_device option \<Rightarrow> string \<Rightarrow> string \<Rightarrow> (string \<times> string) list \<Rightarrow> rat list \<times> time" where
  "GetAttributeFloatArrayValue ParseTime d serviceName attributeName properties =
     GetAttributeObjectValue ParseTime (into_list 0 into_float) d serviceName attributeName properties []"

definition GetAttributeBoolArrayValue ::
  "(string \<Rightarrow> time) \<Rightarrow> state_device option \<Rightarrow> string \<Rightarrow> string \<Rightarrow> (string \<times> string) list \<Rightarrow> bool list \<times> time" where
  "GetAttributeBoolArrayValue ParseTime d serviceName attributeName properties =
     GetAttributeObjectValue ParseTime (into_list False into_bool) d serviceName attributeName properties []"

definition GetAttributeStringMapValue ::
  "(string \<Rightarrow> time) \<Rightarrow> state_device option \<Rightarrow> string \<Rightarrow> string \<Rightarrow> (string \<times> string) list \<Rightarrow> (string \<times> string) list \<times> time" where
  "GetAttributeStringMapValue ParseTime d serviceName attributeName properties =
     GetAttributeObjectValue ParseTime (into_map '''' into_string) d serviceName attributeName properties []"

definition GetAttributeIntMapValue ::
  "(string \<Rightarrow> time) \<Rightarrow> state_device option \<Rightarrow> string \<Rightarrow> string \<Rightarrow> (string \<times> string) list \<Rightarrow> (string \<times> int) list \<times> time" where
  "GetAttributeIntMapValue ParseTime d serviceName attributeName properties =
     GetAttributeObjectValue ParseTime (into_map 0 into_int) d serviceName attributeName properties []"

definition GetAttributeFloatMapValue ::
  "(string \<Rightarrow> time) \<Rightarrow> state_device option \<Rightarrow> string \<Rightarrow> string \<Rightarrow> (string \<times> string) list \<Rightarrow> (string \<times> rat) list \<times> time" where
  "GetAttributeFloatMapValue ParseTime d serviceName attributeName properties =
     GetAttributeObjectValue ParseTime (into_map 0 into_float) d serviceName attributeName properties []"

definition GetAttributeBoolMapValue ::
  "(string \<Rightarrow> time) \<Rightarrow> state_device option \<Rightarrow> string \<Rightarrow> string \<Rightarrow> (string \<times> string) list \<Rightarrow> (string \<times> bool) list \<times> time" where
  "GetAttributeBoolMapValue ParseTime d serviceName attributeName properties =
     GetAttributeObjectValue ParseTime (into_map False into_bool) d serviceName attributeName properties []"

definition GetStringValue :: "state_attribute_value option \<Rightarrow> string \<times> go_error option" where
  "GetStringValue v = GetObjectValue into_string v ''''"

definition GetIntValue :: "state_attribute_value option \<Rightarrow> int \<times> go_error option" where
  "GetIntValue v = GetObjectValue into_int v 0"

definition GetFloatValue :: "state_attribute_value option \<Rightarrow> rat \<times> go_error option" where
  "GetFloatValue v = GetObjectValue into_float v 0"

definition GetBoolValue :: "state_attribute_value option \<Rightarrow> bool \<times> go_error option" where
  "GetBoolValue v = GetObjectValue into_bool v False"

definition GetStringArrayValue :: "state_attribute_value option \<Rightarrow> string list \<times> go_error option" where
  "GetStringArrayValue v = GetObjectValue (into_list '''' into_string) v []"

definition GetIntArrayValue :: "state_attribute_value option \<Rightarrow> int list \<times> go_error option" where
  "GetIntArrayValue v = GetObjectValue (into_list 0 into_int) v []"

definition GetFloatArrayValue :: "state_attribute_value option \<Rightarrow> rat list \<times> go_error option" where
  "GetFloatArrayValue v = GetObjectValue (into_list 0 into_float) v []"

definition GetBoolArrayValue :: "state_attribute_value option \<Rightarrow> bool list \<times> go_error option" where
  "GetBoolArrayValue v = GetObjectValue (into_list False into_bool) v []"

definition GetStringMapValue :: "state_attribute_value option \<Rightarrow> (string \<times> string) list \<times> go_error option" where
  "GetStringMapValue v = GetObjectValue (into_map '''' into_string) v []"

definition GetIntMapValue :: "state_attribute_value option \<Rightarrow> (string \<times> int) list \<times> go_error option" where
  "GetIntMapValue v = GetObjectValue (into_map 0 into_int) v []"

definition GetFloatMapValue :: "state_attribute_value option \<Rightarrow> (string \<times> rat) list \<times> go_error option" where
  "GetFloatMapValue v = GetObjectValue (into_map 0 into_float) v []"

definition GetBoolMapValue :: "state_attribute_value option \<Rightarrow> (string \<times> bool) list \<times> go_error option" where
  "GetBoolMapValue v = GetObjectValue (into_map False into_bool) v []"

definition GetPropertyString :: "state_attribute_value option \<Rightarrow> string \<Rightarrow> string" where
  "GetPropertyString v property =
     (case v of None \<Rightarrow> '''' | Some v \<Rightarrow> (case map_of (av_Props v) property of None \<Rightarrow> '''' | Some p \<Rightarrow> p))"

definition GetPropertyInteger :: "state_attribute_value option \<Rightarrow> string \<Rightarrow> int" where
  "GetPropertyInteger v property =
     (case v of
        None \<Rightarrow> 0
      | Some v \<Rightarrow>
          (case map_of (av_Props v) property of
             None \<Rightarrow> 0
           | Some p \<Rightarrow> (case ParseInt p of Inl _ \<Rightarrow> 0 | Inr i \<Rightarrow> i)))"

definition GetPropertyTimestamp :: "(string \<Rightarrow> time) \<Rightarrow> state_attribute_value option \<Rightarrow> string \<Rightarrow> time" where
  "GetPropertyTimestamp ParseTime v property =
     (case v of
        None \<Rightarrow> time_zero
      | Some v \<Rightarrow> (case map_of (av_Props v) property of None \<Rightarrow> time_zero | Some p \<Rightarrow> ParseTime p))"

section \<open>Responses and notifications (\<^verbatim>\<open>model.go\<close>)\<close>

definition CmdPD7Request :: string where "CmdPD7Request = ''cmd.pd7.request''"
definition EvtPD7Notify :: string where "EvtPD7Notify = ''evt.pd7.notify''"
definition NotifyTopic :: string where "NotifyTopic = ''pt:j1/mt:evt/rt:app/rn:vinculum/ad:1''"

record prime_request =
  rq_Cmd :: string
  rq_Component :: "string option"
  rq_Components :: "string list option"    \<comment> \<open>\<^verbatim>\<open>Param\<close>, of which the client sets only \<^verbatim>\<open>Components\<close>\<close>
  rq_ID :: "fimp_value option"

text \<open>The request as the value of a message, with the tags of the structure.\<close>

definition request_value :: "prime_request \<Rightarrow> fimp_value" where
  "request_value r =
     VObject
       ([(''cmd'', VString (rq_Cmd r)),
         (''component'', case rq_Component r of None \<Rightarrow> VNull | Some c \<Rightarrow> VString c)]
      @ (case rq_Components r of
           None \<Rightarrow> []
         | Some cs \<Rightarrow>
             [(''param'', VObject (if cs = [] then [] else [(''components'', VList (map VString cs))]))])
      @ (case rq_ID r of None \<Rightarrow> [] | Some i \<Rightarrow> [(''id'', i)]))"

type_synonym raw_json = string

record response =
  rs_Errors :: fimp_value
  rs_Cmd :: string
  rs_ParamRaw :: "(string \<times> raw_json) list"
  rs_RequestID :: fimp_value
  rs_Success :: bool
  rs_ID :: fimp_value

record notify =
  nt_Errors :: fimp_value
  nt_Cmd :: string
  nt_Component :: string
  nt_ParamRaw :: raw_json
  nt_ChangesRaw :: raw_json
  nt_Success :: bool
  nt_ID :: fimp_value

text \<open>The decoders: of a component as a whole, of one element of it, and of the value of a message.\<close>

record prime_json =
  pj_Devices :: "raw_json \<Rightarrow> device list result"
  pj_Things :: "raw_json \<Rightarrow> prime_thing list result"
  pj_Areas :: "raw_json \<Rightarrow> area list result"
  pj_Rooms :: "raw_json \<Rightarrow> room list result"
  pj_House :: "raw_json \<Rightarrow> house result"
  pj_Hub :: "raw_json \<Rightarrow> hub result"
  pj_HubMode :: "raw_json \<Rightarrow> hub_mode result"
  pj_Shortcuts :: "raw_json \<Rightarrow> shortcut list result"
  pj_Modes :: "raw_json \<Rightarrow> mode list result"
  pj_Timers :: "raw_json \<Rightarrow> timer list result"
  pj_Services :: "raw_json \<Rightarrow> vinculum_services result"
  pj_State :: "raw_json \<Rightarrow> prime_state result"
  pj_Device :: "raw_json \<Rightarrow> device result"
  pj_Thing :: "raw_json \<Rightarrow> prime_thing result"
  pj_Room :: "raw_json \<Rightarrow> room result"
  pj_Area :: "raw_json \<Rightarrow> area result"
  pj_Shortcut :: "raw_json \<Rightarrow> shortcut result"
  pj_Mode :: "raw_json \<Rightarrow> mode result"
  pj_Timer :: "raw_json \<Rightarrow> timer result"
  pj_Response :: "fimp_message \<Rightarrow> response result"
  pj_Notify :: "fimp_message \<Rightarrow> notify result"

definition ResponseFromMessage :: "prime_json \<Rightarrow> fimp_message \<Rightarrow> response result" where
  "ResponseFromMessage js msg = wrap_err ''response: failed to unmarshal message value'' (pj_Response js msg)"

definition NotifyFromMessage :: "prime_json \<Rightarrow> message \<Rightarrow> notify result" where
  "NotifyFromMessage js msg =
     wrap_err ''notify: failed to unmarshal message value'' (pj_Notify js (ms_Payload msg))"

text \<open>The common body of the getters of a response; a component that the response lacks is nil.\<close>

definition response_component :: "string \<Rightarrow> 'a \<Rightarrow> (raw_json \<Rightarrow> 'a result) \<Rightarrow> response \<Rightarrow> 'a result" where
  "response_component component nil decode r =
     (case map_of (rs_ParamRaw r) component of
        None \<Rightarrow> Inr nil
      | Some param \<Rightarrow> wrap_err (''response: failed to unmarshal component '' @ component) (decode param))"

definition Response_GetDevices :: "prime_json \<Rightarrow> response \<Rightarrow> device list result" where
  "Response_GetDevices js r = response_component ComponentDevice [] (pj_Devices js) r"

definition Response_GetThings :: "prime_json \<Rightarrow> response \<Rightarrow> prime_thing list result" where
  "Response_GetThings js r = response_component ComponentThing [] (pj_Things js) r"

definition Response_GetAreas :: "prime_json \<Rightarrow> response \<Rightarrow> area list result" where
  "Response_GetAreas js r = response_component ComponentArea [] (pj_Areas js) r"

definition Response_GetRooms :: "prime_json \<Rightarrow> response \<Rightarrow> room list result" where
  "Response_GetRooms js r = response_component ComponentRoom [] (pj_Rooms js) r"

definition Response_GetHouse :: "prime_json \<Rightarrow> response \<Rightarrow> house option result" where
  "Response_GetHouse js r = response_component ComponentHouse None (\<lambda>p. map_sum id Some (pj_House js p)) r"

definition Response_GetHub :: "prime_json \<Rightarrow> response \<Rightarrow> hub option result" where
  "Response_GetHub js r = response_component ComponentHub None (\<lambda>p. map_sum id Some (pj_Hub js p)) r"

definition Response_GetShortcuts :: "prime_json \<Rightarrow> response \<Rightarrow> shortcut list result" where
  "Response_GetShortcuts js r = response_component ComponentShortcut [] (pj_Shortcuts js) r"

definition Response_GetModes :: "prime_json \<Rightarrow> response \<Rightarrow> mode list result" where
  "Response_GetModes js r = response_component ComponentMode [] (pj_Modes js) r"

definition Response_GetTimers :: "prime_json \<Rightarrow> response \<Rightarrow> timer list result" where
  "Response_GetTimers js r = response_component ComponentTimer [] (pj_Timers js) r"

definition Response_GetVinculumServices :: "prime_json \<Rightarrow> response \<Rightarrow> vinculum_services option result" where
  "Response_GetVinculumServices js r = response_component ComponentService None (\<lambda>p. map_sum id Some (pj_Services js p)) r"

definition Response_State :: "prime_json \<Rightarrow> response \<Rightarrow> prime_state option result" where
  "Response_State js r = response_component ComponentState None (\<lambda>p. map_sum id Some (pj_State js p)) r"


definition Response_GetAll :: "prime_json \<Rightarrow> response \<Rightarrow> component_set result" where
  "Response_GetAll js r =
     bind_result (Response_GetDevices js r) (\<lambda>devices.
     bind_result (Response_GetThings js r) (\<lambda>things.
     bind_result (Response_GetRooms js r) (\<lambda>rooms.
     bind_result (Response_GetAreas js r) (\<lambda>areas.
     bind_result (Response_GetHouse js r) (\<lambda>house.
     bind_result (Response_GetHub js r) (\<lambda>hub.
     bind_result (Response_GetShortcuts js r) (\<lambda>shortcuts.
     bind_result (Response_GetModes js r) (\<lambda>modes.
     bind_result (Response_GetTimers js r) (\<lambda>timers.
     bind_result (Response_GetVinculumServices js r) (\<lambda>services.
     bind_result (Response_State js r) (\<lambda>state.
     Inr \<lparr>cs_Devices = devices, cs_Things = things, cs_Rooms = rooms, cs_Areas = areas, cs_House = house,
          cs_Hub = hub, cs_Shortcuts = shortcuts, cs_Modes = modes, cs_Timers = timers,
          cs_Services = services, cs_State = state\<rparr>)))))))))))"

text \<open>The conversion of a \<^verbatim>\<open>float64\<close> to an \<^verbatim>\<open>int\<close> truncates; its result out of range is wrapped here.\<close>

definition ParseIntegerID :: "notify \<Rightarrow> int result" where
  "ParseIntegerID n =
     (case nt_ID n of
        VNull \<Rightarrow> Inl (Errorf ''notify: id is nil'')
      | VInt i \<Rightarrow> Inr i
      | VFloat r \<Rightarrow> Inr (wrap64 (trunc_int r))
      | VString s \<Rightarrow> Atoi s
      | _ \<Rightarrow> Inl (Errorf ''notify: id is of unsupported type''))"

definition notify_component :: "string \<Rightarrow> (raw_json \<Rightarrow> 'a result) \<Rightarrow> notify \<Rightarrow> 'a option result" where
  "notify_component component decode n =
     (if nt_Component n \<noteq> component then Inr None
      else wrap_err (''notify: failed to unmarshal component '' @ component)
             (map_sum id Some (decode (nt_ParamRaw n))))"

definition Notify_GetDevice :: "prime_json \<Rightarrow> notify \<Rightarrow> device option result" where
  "Notify_GetDevice js n = notify_component ComponentDevice (pj_Device js) n"

definition Notify_GetThing :: "prime_json \<Rightarrow> notify \<Rightarrow> prime_thing option result" where
  "Notify_GetThing js n = notify_component ComponentThing (pj_Thing js) n"

definition Notify_GetRoom :: "prime_json \<Rightarrow> notify \<Rightarrow> room option result" where
  "Notify_GetRoom js n = notify_component ComponentRoom (pj_Room js) n"

definition Notify_GetArea :: "prime_json \<Rightarrow> notify \<Rightarrow> area option result" where
  "Notify_GetArea js n = notify_component ComponentArea (pj_Area js) n"

definition Notify_GetHouse :: "prime_json \<Rightarrow> notify \<Rightarrow> house option result" where
  "Notify_GetHouse js n = notify_component ComponentHouse (pj_House js) n"

definition Notify_GetHub :: "prime_json \<Rightarrow> notify \<Rightarrow> hub option result" where
  "Notify_GetHub js n = notify_component ComponentHub (pj_Hub js) n"

definition Notify_GetHubMode :: "prime_json \<Rightarrow> notify \<Rightarrow> hub_mode option result" where
  "Notify_GetHubMode js n =
     (if nt_Component n \<noteq> ComponentHub \<or> nt_ID n \<noteq> VString ''mode'' then Inr None
      else notify_component ComponentHub (pj_HubMode js) n)"

definition Notify_GetShortcut :: "prime_json \<Rightarrow> notify \<Rightarrow> shortcut option result" where
  "Notify_GetShortcut js n = notify_component ComponentShortcut (pj_Shortcut js) n"

definition Notify_GetMode :: "prime_json \<Rightarrow> notify \<Rightarrow> mode option result" where
  "Notify_GetMode js n = notify_component ComponentMode (pj_Mode js) n"

definition Notify_GetTimer :: "prime_json \<Rightarrow> notify \<Rightarrow> timer option result" where
  "Notify_GetTimer js n = notify_component ComponentTimer (pj_Timer js) n"

definition Notify_GetService :: "prime_json \<Rightarrow> notify \<Rightarrow> vinculum_services option result" where
  "Notify_GetService js n = notify_component ComponentService (pj_Services js) n"


section \<open>The client (\<^verbatim>\<open>client.go\<close>)\<close>

text \<open>
  The synchronous client of \<^verbatim>\<open>fimpgo\<close> is an argument: it is given the topics of the request and of the
  response, the message, the timeout and whether to subscribe, and acts on the rest of the system,
  whose state is \<^typ>\<open>'w\<close>. A panic is \<open>None\<close>.
\<close>

type_synonym 'w sync_client = "string \<Rightarrow> string \<Rightarrow> fimp_message \<Rightarrow> int \<Rightarrow> bool \<Rightarrow> ('w, fimp_message) act"

record prime_client =
  pc_clientName :: string
  pc_requestAddress :: address
  pc_responseAddress :: address
  pc_defaultTimeout :: int

definition time_Second :: duration where "time_Second = 1000000000"

definition app_address :: "fimpgo \<Rightarrow> string \<Rightarrow> string \<Rightarrow> string \<Rightarrow> string \<Rightarrow> string \<Rightarrow> address" where
  "app_address fg pre msgType resourceType resourceName resourceAddress =
     \<lparr>ad_PayloadType = fg_DefaultPayload fg, ad_MsgType = msgType, ad_ResourceType = resourceType,
      ad_ResourceName = resourceName, ad_ResourceAddress = resourceAddress, ad_ServiceName = '''',
      ad_ServiceAddress = '''', ad_GlobalPrefix = pre\<rparr>"

definition prime_NewClient :: "fimpgo \<Rightarrow> string \<Rightarrow> duration \<Rightarrow> prime_client" where
  "prime_NewClient fg resourceName defaultTimeout =
     \<lparr>pc_clientName = resourceName,
      pc_requestAddress =
        app_address fg '''' (fg_MsgTypeCmd fg) (fg_ResourceTypeApp fg) (fg_VinculumRn fg) ''1'',
      pc_responseAddress =
        app_address fg '''' (fg_MsgTypeRsp fg) (fg_ResourceTypeApp fg) resourceName ''1'',
      pc_defaultTimeout = go_quot defaultTimeout time_Second\<rparr>"

definition prime_NewCloudClient :: "fimpgo \<Rightarrow> string \<Rightarrow> string \<Rightarrow> duration \<Rightarrow> prime_client" where
  "prime_NewCloudClient fg cloudServiceName siteUUID defaultTimeout =
     \<lparr>pc_clientName = cloudServiceName,
      pc_requestAddress =
        app_address fg siteUUID (fg_MsgTypeCmd fg) (fg_ResourceTypeApp fg) (fg_VinculumRn fg) ''1'',
      pc_responseAddress =
        app_address fg siteUUID (fg_MsgTypeRsp fg) (fg_ResourceTypeCloud fg) (fg_BackendServiceRn fg)
          cloudServiceName,
      pc_defaultTimeout = go_quot defaultTimeout time_Second\<rparr>"

text \<open>The common body of \<^verbatim>\<open>sendGetRequest\<close> and \<^verbatim>\<open>sendSetRequest\<close>, which differ in the request and in the texts.\<close>

definition client_message :: "fimpgo \<Rightarrow> prime_client \<Rightarrow> string \<Rightarrow> prime_request \<Rightarrow> fimp_message" where
  "client_message fg c responseTopic request =
     (fg_New fg KObject CmdPD7Request ''vinculum'' (request_value request) [] None)
       \<lparr>pl_ResponseToTopic := responseTopic, pl_Source := pc_clientName c\<rparr>"

definition client_send ::
  "fimpgo \<Rightarrow> prime_json \<Rightarrow> 'w sync_client \<Rightarrow> prime_client \<Rightarrow> string \<Rightarrow> string \<Rightarrow> prime_request
   \<Rightarrow> ('w, response) act" where
  "client_send fg js send c errSend errParse request =
     act_bind (act_option (fg_Serialize fg (Some (pc_responseAddress c)))) (\<lambda>responseTopic.
     act_bind (act_option (fg_Serialize fg (Some (pc_requestAddress c)))) (\<lambda>requestTopic.
     act_bind (act_wrap errSend
       (send requestTopic responseTopic (client_message fg c responseTopic request)
          (pc_defaultTimeout c) True)) (\<lambda>response.
     act_wrap errParse (act_result (ResponseFromMessage js response)))))"

definition sendGetRequest ::
  "fimpgo \<Rightarrow> prime_json \<Rightarrow> 'w sync_client \<Rightarrow> prime_client \<Rightarrow> string list \<Rightarrow> ('w, response) act" where
  "sendGetRequest fg js send c components =
     client_send fg js send c
       (''prime client: error while sending get request for components '' @ strings_Join '', '' components)
       (''prime client: error while parsing get response for components '' @ strings_Join '', '' components)
       \<lparr>rq_Cmd = CmdGet, rq_Component = None, rq_Components = Some components, rq_ID = None\<rparr>"

definition sendSetRequest ::
  "fimpgo \<Rightarrow> prime_json \<Rightarrow> 'w sync_client \<Rightarrow> prime_client \<Rightarrow> string \<Rightarrow> fimp_value \<Rightarrow> ('w, response) act" where
  "sendSetRequest fg js send c component val =
     client_send fg js send c
       (''prime client: error while sending set request for component '' @ component)
       (''prime client: error while parsing set response for component '' @ component)
       \<lparr>rq_Cmd = CmdSet, rq_Component = Some component, rq_Components = None, rq_ID = Some val\<rparr>"

definition client_get ::
  "fimpgo \<Rightarrow> prime_json \<Rightarrow> 'w sync_client \<Rightarrow> prime_client \<Rightarrow> string \<Rightarrow> (response \<Rightarrow> 'a result)
   \<Rightarrow> ('w, 'a) act" where
  "client_get fg js send c component get =
     act_bind (sendGetRequest fg js send c [component]) (\<lambda>response. act_result (get response))"


definition Client_GetDevices ::
  "fimpgo \<Rightarrow> prime_json \<Rightarrow> 'w sync_client \<Rightarrow> prime_client \<Rightarrow> ('w, device list) act" where
  "Client_GetDevices fg js send c = client_get fg js send c ComponentDevice (Response_GetDevices js)"

definition Client_GetThings ::
  "fimpgo \<Rightarrow> prime_json \<Rightarrow> 'w sync_client \<Rightarrow> prime_client \<Rightarrow> ('w, prime_thing list) act" where
  "Client_GetThings fg js send c = client_get fg js send c ComponentThing (Response_GetThings js)"

definition Client_GetRooms ::
  "fimpgo \<Rightarrow> prime_json \<Rightarrow> 'w sync_client \<Rightarrow> prime_client \<Rightarrow> ('w, room list) act" where
  "Client_GetRooms fg js send c = client_get fg js send c ComponentRoom (Response_GetRooms js)"

definition Client_GetAreas ::
  "fimpgo \<Rightarrow> prime_json \<Rightarrow> 'w sync_client \<Rightarrow> prime_client \<Rightarrow> ('w, area list) act" where
  "Client_GetAreas fg js send c = client_get fg js send c ComponentArea (Response_GetAreas js)"

definition Client_GetHouse ::
  "fimpgo \<Rightarrow> prime_json \<Rightarrow> 'w sync_client \<Rightarrow> prime_client \<Rightarrow> ('w, house option) act" where
  "Client_GetHouse fg js send c = client_get fg js send c ComponentHouse (Response_GetHouse js)"

definition Client_GetHub ::
  "fimpgo \<Rightarrow> prime_json \<Rightarrow> 'w sync_client \<Rightarrow> prime_client \<Rightarrow> ('w, hub option) act" where
  "Client_GetHub fg js send c = client_get fg js send c ComponentHub (Response_GetHub js)"

definition Client_GetShortcuts ::
  "fimpgo \<Rightarrow> prime_json \<Rightarrow> 'w sync_client \<Rightarrow> prime_client \<Rightarrow> ('w, shortcut list) act" where
  "Client_GetShortcuts fg js send c = client_get fg js send c ComponentShortcut (Response_GetShortcuts js)"

definition Client_GetModes ::
  "fimpgo \<Rightarrow> prime_json \<Rightarrow> 'w sync_client \<Rightarrow> prime_client \<Rightarrow> ('w, mode list) act" where
  "Client_GetModes fg js send c = client_get fg js send c ComponentMode (Response_GetModes js)"

definition Client_GetTimers ::
  "fimpgo \<Rightarrow> prime_json \<Rightarrow> 'w sync_client \<Rightarrow> prime_client \<Rightarrow> ('w, timer list) act" where
  "Client_GetTimers fg js send c = client_get fg js send c ComponentTimer (Response_GetTimers js)"

definition Client_GetVinculumServices ::
  "fimpgo \<Rightarrow> prime_json \<Rightarrow> 'w sync_client \<Rightarrow> prime_client \<Rightarrow> ('w, vinculum_services option) act" where
  "Client_GetVinculumServices fg js send c = client_get fg js send c ComponentService (Response_GetVinculumServices js)"

definition Client_State ::
  "fimpgo \<Rightarrow> prime_json \<Rightarrow> 'w sync_client \<Rightarrow> prime_client \<Rightarrow> ('w, prime_state option) act" where
  "Client_State fg js send c = client_get fg js send c ComponentState (Response_State js)"


definition validateComponent :: "string \<Rightarrow> unit result" where
  "validateComponent component =
     (if find (\<lambda>c. c = component) validComponents \<noteq> None then Inr ()
      else Inl (Errorf (''prime client: invalid component '' @ component)))"

fun validateComponents :: "string list \<Rightarrow> unit result" where
  "validateComponents [] = Inr ()"
| "validateComponents (component # given) =
     bind_result (validateComponent component) (\<lambda>_. validateComponents given)"

definition Client_GetComponents ::
  "fimpgo \<Rightarrow> prime_json \<Rightarrow> 'w sync_client \<Rightarrow> prime_client \<Rightarrow> string list \<Rightarrow> ('w, component_set) act" where
  "Client_GetComponents fg js send c components =
     act_bind (act_result (validateComponents components)) (\<lambda>_.
     act_bind (sendGetRequest fg js send c components) (\<lambda>response.
     act_result (Response_GetAll js response)))"

definition Client_GetAll ::
  "fimpgo \<Rightarrow> prime_json \<Rightarrow> 'w sync_client \<Rightarrow> prime_client \<Rightarrow> ('w, component_set) act" where
  "Client_GetAll fg js send c = Client_GetComponents fg js send c validComponents"

definition Client_RunShortcut ::
  "fimpgo \<Rightarrow> prime_json \<Rightarrow> 'w sync_client \<Rightarrow> prime_client \<Rightarrow> int \<Rightarrow> ('w, response) act" where
  "Client_RunShortcut fg js send c shortcutID = sendSetRequest fg js send c ComponentShortcut (VInt shortcutID)"

definition Client_ChangeMode ::
  "fimpgo \<Rightarrow> prime_json \<Rightarrow> 'w sync_client \<Rightarrow> prime_client \<Rightarrow> string \<Rightarrow> ('w, response) act" where
  "Client_ChangeMode fg js send c mode = sendSetRequest fg js send c ComponentMode (VString mode)"


section \<open>Properties\<close>

lemma parse_digits_append:
  "parse_digits n (xs @ ys) = (case parse_digits n xs of None \<Rightarrow> None | Some m \<Rightarrow> parse_digits m ys)"
  by (induction xs arbitrary: n) auto

lemma parse_digit_char: "d < 10 \<Longrightarrow> parse_digits n [digit_char d] = Some (10 * n + int d)"
  by (simp add: digit_char_def less_eq_char_def)

lemma parse_nat_digits: "parse_digits 0 (nat_digits k) = Some (int k)"
proof (induction k rule: nat_digits.induct)
  case (1 k)
  show ?case
  proof (cases "k < 10")
    case True
    then show ?thesis by (simp add: nat_digits.simps [of k] parse_digit_char del: parse_digits.simps)
  next
    case False
    have "10 * int (k div 10) + int (k mod 10) = int k" by (simp flip: of_nat_mult of_nat_add add: zdiv_int zmod_int)
    with False 1 show ?thesis
      by (simp add: nat_digits.simps [of k] parse_digits_append parse_digit_char del: parse_digits.simps)
  qed
qed

lemma nat_digits_hd: "hd (nat_digits k) \<in> digit_char ` {..<10}"
proof (induction k rule: nat_digits.induct)
  case (1 k)
  then show ?case by (cases "k < 10") (auto simp: nat_digits.simps [of k] hd_append)
qed

lemma nat_digits_no_sign:
  "nat_digits k = c # ds \<Longrightarrow> c \<noteq> CHR ''-'' \<and> c \<noteq> CHR ''+''"
  using nat_digits_hd [of k]
  by (auto simp: digit_char_def dest!: arg_cong [of _ _ "of_char :: char \<Rightarrow> nat"])

lemma parse_signed_Itoa: "parse_signed (Itoa i) = Some i"
proof (cases "i < 0")
  case True
  then show ?thesis by (simp add: Itoa_def parse_signed_def parse_magnitude_def parse_nat_digits)
next
  case False
  obtain c ds where ds: "nat_digits (nat i) = c # ds" by (cases "nat_digits (nat i)") auto
  with nat_digits_no_sign [OF ds] parse_nat_digits [of "nat i"] False show ?thesis
    by (simp add: Itoa_def parse_signed_def parse_magnitude_def)
qed

lemma Atoi_Itoa: "- (2 ^ 63) \<le> i \<Longrightarrow> i < 2 ^ 63 \<Longrightarrow> Atoi (Itoa i) = Inr i"
  by (simp add: Atoi_def ParseInt_def parse_signed_Itoa)


text \<open>
  \<^verbatim>\<open>FindByTopic\<close> looks for a service address anywhere in the topic, so an address that is a prefix of another
  one captures its topics: when the address of a service of \<open>e\<close> continues the address of a service of \<open>d\<close>
  (\<^verbatim>\<open>ad:1\<close> and \<^verbatim>\<open>ad:10\<close>), a topic of \<open>e\<close> is attributed to \<open>d\<close> if \<open>d\<close> comes first in the list.
\<close>
theorem FindByTopic_prefix_confusion:
  assumes "(n, srv) \<in> set (dv_Services d)" "(n', srv') \<in> set (dv_Services e)"
    and "ps_Addr srv' = ps_Addr srv @ rest"
  shows "Devices_FindByTopic (d # ds) (topic_prefix @ ps_Addr srv') = Some d"
proof -
  have "sublist (ps_Addr srv) (topic_prefix @ ps_Addr srv')"
    using assms(3) by (auto simp: sublist_def)
  then have "Device_MatchesTopic d (topic_prefix @ ps_Addr srv')"
    using assms(1) by (auto simp: Device_MatchesTopic_def any_service_address_iff intro!: bexI [of _ "(n, srv)"])
  then show ?thesis by (simp add: Devices_FindByTopic_def)
qed

definition demo_device :: "int \<Rightarrow> device" where
  "demo_device i =
     \<lparr>dv_FIMP = \<lparr>df_Adapter = ''zw'', df_Address = '''', df_AdapterResource = '''', df_AdapterAddress = '''', df_Group = ''''\<rparr>,
      dv_Client = \<lparr>ct_Name = None, ct_OpenStateType = None\<rparr>, dv_Functionality = None,
      dv_Services = [(''x'', \<lparr>ps_Addr = ''/ad:'' @ Itoa i, ps_Enabled = True, ps_Interfaces = [], ps_Props = []\<rparr>)],
      dv_ID = i, dv_Lrn = False, dv_Model = '''', dv_ModelAlias = '''', dv_Param = [], dv_Problem = False,
      dv_Room = None, dv_Changes = [], dv_ThingID = None, dv_Type = []\<rparr>"

theorem FindByTopic_prefix_confusion_witness:
  "Devices_FindByTopic [demo_device 1, demo_device 10] ''pt:j1/mt:evt/ad:10'' = Some (demo_device 1)"
proof -
  let ?srv = "\<lambda>i. \<lparr>ps_Addr = ''/ad:'' @ Itoa i, ps_Enabled = True, ps_Interfaces = [], ps_Props = []\<rparr>"
  have srv: "(''x'', ?srv i) \<in> set (dv_Services (demo_device i))" for i by (simp add: demo_device_def)
  have "Itoa 1 = ''1''" "Itoa 10 = ''10''" by code_simp+
  then show ?thesis
    using FindByTopic_prefix_confusion [OF srv [of 1] srv [of 10], of "''0''" "[demo_device 10]" "''pt:j1/mt:evt''"] by simp
qed

end
