(* ===== verification/Prime_Observer.thy ===== *)
theory Prime_Observer
  imports Prime Events Router Tasks
begin

text \<open>
  The observer of \<^verbatim>\<open>src/prime/observer\<close>: a local copy of the hub's registry that is refreshed as a whole and
  kept up to date by notifications. \<^verbatim>\<open>set.go\<close> holds the components, \<^verbatim>\<open>observer.go\<close> the operations,
  \<^verbatim>\<open>event.go\<close> the events it publishes, \<^verbatim>\<open>routing.go\<close> and \<^verbatim>\<open>task.go\<close> connect it to the router and the task
  manager. The operations hold the lock of the observer, so each is one step.
\<close>

section \<open>Lists of elements with identifiers (\<^verbatim>\<open>set.go\<close>)\<close>

text \<open>
  The four kinds of components are handled by the same code; \<open>key\<close> is the field \<^verbatim>\<open>ID\<close> of the kind. Deletion
  moves the last element into the place of the deleted one.
\<close>

fun id_find :: "('c \<Rightarrow> int) \<Rightarrow> int \<Rightarrow> 'c list \<Rightarrow> nat option" where
  "id_find key i [] = None"
| "id_find key i (v # vs) = (if i = key v then Some 0 else map_option Suc (id_find key i vs))"

definition id_add :: "('c \<Rightarrow> int) \<Rightarrow> 'c \<Rightarrow> 'c list \<Rightarrow> 'c list" where
  "id_add key c xs = (if id_find key (key c) xs \<noteq> None then xs else xs @ [c])"

definition id_update :: "('c \<Rightarrow> int) \<Rightarrow> 'c \<Rightarrow> 'c list \<Rightarrow> 'c list" where
  "id_update key c xs = (case id_find key (key c) xs of Some i \<Rightarrow> xs[i := c] | None \<Rightarrow> xs @ [c])"

definition id_delete :: "('c \<Rightarrow> int) \<Rightarrow> int \<Rightarrow> 'c list \<Rightarrow> 'c list" where
  "id_delete key i xs =
     (case id_find key i xs of
        None \<Rightarrow> xs
      | Some k \<Rightarrow> take (length xs - 1) (xs[k := xs ! (length xs - 1)]))"

definition newSet :: "component_set option \<Rightarrow> component_set" where
  "newSet componentSet =
     (case componentSet of
        Some s \<Rightarrow> s
      | None \<Rightarrow> \<lparr>cs_Devices = [], cs_Things = [], cs_Rooms = [], cs_Areas = [], cs_House = None, cs_Hub = None,
                 cs_Shortcuts = [], cs_Modes = [], cs_Timers = [], cs_Services = None, cs_State = None\<rparr>)"

definition set_addDevice :: "device \<Rightarrow> component_set \<Rightarrow> component_set" where
  "set_addDevice d s = s\<lparr>cs_Devices := id_add dv_ID d (cs_Devices s)\<rparr>"

definition set_updateDevice :: "device \<Rightarrow> component_set \<Rightarrow> component_set" where
  "set_updateDevice d s = s\<lparr>cs_Devices := id_update dv_ID d (cs_Devices s)\<rparr>"

definition set_deleteDevice :: "int \<Rightarrow> component_set \<Rightarrow> component_set" where
  "set_deleteDevice i s = s\<lparr>cs_Devices := id_delete dv_ID i (cs_Devices s)\<rparr>"

definition set_addThing :: "prime_thing \<Rightarrow> component_set \<Rightarrow> component_set" where
  "set_addThing t s = s\<lparr>cs_Things := id_add pt_ID t (cs_Things s)\<rparr>"

definition set_updateThing :: "prime_thing \<Rightarrow> component_set \<Rightarrow> component_set" where
  "set_updateThing t s = s\<lparr>cs_Things := id_update pt_ID t (cs_Things s)\<rparr>"

definition set_deleteThing :: "int \<Rightarrow> component_set \<Rightarrow> component_set" where
  "set_deleteThing i s = s\<lparr>cs_Things := id_delete pt_ID i (cs_Things s)\<rparr>"

definition set_addRoom :: "room \<Rightarrow> component_set \<Rightarrow> component_set" where
  "set_addRoom r s = s\<lparr>cs_Rooms := id_add rm_ID r (cs_Rooms s)\<rparr>"

definition set_updateRoom :: "room \<Rightarrow> component_set \<Rightarrow> component_set" where
  "set_updateRoom r s = s\<lparr>cs_Rooms := id_update rm_ID r (cs_Rooms s)\<rparr>"

definition set_deleteRoom :: "int \<Rightarrow> component_set \<Rightarrow> component_set" where
  "set_deleteRoom i s = s\<lparr>cs_Rooms := id_delete rm_ID i (cs_Rooms s)\<rparr>"

definition set_addArea :: "area \<Rightarrow> component_set \<Rightarrow> component_set" where
  "set_addArea a s = s\<lparr>cs_Areas := id_add ar_ID a (cs_Areas s)\<rparr>"

definition set_updateArea :: "area \<Rightarrow> component_set \<Rightarrow> component_set" where
  "set_updateArea a s = s\<lparr>cs_Areas := id_update ar_ID a (cs_Areas s)\<rparr>"

definition set_deleteArea :: "int \<Rightarrow> component_set \<Rightarrow> component_set" where
  "set_deleteArea i s = s\<lparr>cs_Areas := id_delete ar_ID i (cs_Areas s)\<rparr>"

section \<open>Events (\<^verbatim>\<open>event.go\<close>)\<close>

definition observer_Domain :: string where "observer_Domain = ''prime''"
definition observer_Class :: string where "observer_Class = ''observer''"

text \<open>The dynamic types of the events on the bus: those of the observer, and all others.\<close>

datatype 'x observer_body =
    ComponentEvent string string int     \<comment> \<open>component, command, ID\<close>
  | RefreshEvent "string list"
  | OtherEvent 'x

definition newComponentEvent :: "string \<Rightarrow> string \<Rightarrow> int \<Rightarrow> 'x observer_body event" where
  "newComponentEvent component command i =
     \<lparr>ev_domain = observer_Domain, ev_class = observer_Class, ev_body = ComponentEvent component command i\<rparr>"

definition newRefreshEvent :: "string list \<Rightarrow> 'x observer_body event" where
  "newRefreshEvent components =
     \<lparr>ev_domain = observer_Domain, ev_class = observer_Class, ev_body = RefreshEvent components\<rparr>"

definition WaitForComponent :: "string \<Rightarrow> string list \<Rightarrow> 'x observer_body filter_fn" where
  "WaitForComponent component commands e =
     (case ev_body e of
        ComponentEvent c command i \<Rightarrow>
          if c \<noteq> component then False
          else if commands = [] then True
          else find (\<lambda>x. command = x) commands \<noteq> None
      | _ \<Rightarrow> False)"

definition WaitForRefresh :: "string \<Rightarrow> 'x observer_body filter_fn" where
  "WaitForRefresh component e =
     (case ev_body e of RefreshEvent cs \<Rightarrow> find (\<lambda>c. component = c) cs \<noteq> None | _ \<Rightarrow> False)"

definition wait_for_change :: "string \<Rightarrow> 'x observer_body filter_fn" where
  "wait_for_change component =
     event_And
       [WaitForDomain observer_Domain,
        event_Or [WaitForRefresh component, WaitForComponent component [CmdAdd, CmdDelete, CmdEdit]]]"

definition WaitForDeviceChange :: "'x observer_body filter_fn" where
  "WaitForDeviceChange = wait_for_change ComponentDevice"

definition WaitForThingChange :: "'x observer_body filter_fn" where
  "WaitForThingChange = wait_for_change ComponentThing"

definition WaitForRoomChange :: "'x observer_body filter_fn" where
  "WaitForRoomChange = wait_for_change ComponentRoom"

definition WaitForAreaChange :: "'x observer_body filter_fn" where
  "WaitForAreaChange = wait_for_change ComponentArea"

section \<open>The observer (\<^verbatim>\<open>observer.go\<close>)\<close>

text \<open>
  The keys of the map of strategies are \<open>ob_strategies\<close>: the strategy of a key is the update of that
  component. The observer acts on its own fields, on the bus and, through its client, on the rest of the
  system. A panic is \<open>None\<close>.
\<close>

record observer =
  ob_components :: "string list"
  ob_strategies :: "string list"
  ob_refreshInterval :: duration
  ob_refreshed :: bool
  ob_lastRefresh :: time
  ob_set :: component_set

record ('x, 'w) observer_env = observer +
  oe_events :: "'x observer_body manager"
  oe_hub :: 'w

fun observer_strategies :: "string list \<Rightarrow> string list \<Rightarrow> string list result" where
  "observer_strategies [] strategies = Inr strategies"
| "observer_strategies (component # components) strategies =
     (if component = ComponentDevice \<or> component = ComponentThing \<or> component = ComponentRoom
         \<or> component = ComponentArea
      then observer_strategies components (List.insert component strategies)
      else Inl (Errorf (''prime observer: unsupported component '' @ component)))"

definition observer_New :: "duration \<Rightarrow> string list \<Rightarrow> observer result" where
  "observer_New refreshInterval components =
     bind_result (observer_strategies components []) (\<lambda>strategies.
     Inr \<lparr>ob_components = components, ob_strategies = strategies, ob_refreshInterval = refreshInterval,
          ob_refreshed = False, ob_lastRefresh = time_zero, ob_set = newSet None\<rparr>)"

type_synonym ('x, 'w, 'a) observer_act = "(('x, 'w) observer_env, 'a) act"

definition observer_Publish :: "'x observer_body event \<Rightarrow> ('x, 'w, unit) observer_act" where
  "observer_Publish e w =
     (case manager_Publish e (oe_events w) of
        None \<Rightarrow> None
      | Some m \<Rightarrow> Some (Inr (), w\<lparr>oe_events := m\<rparr>))"

text \<open>
  The common body of \<^verbatim>\<open>updateDevice\<close>, \<^verbatim>\<open>updateThing\<close>, \<^verbatim>\<open>updateRoom\<close> and \<^verbatim>\<open>updateArea\<close>. The element that a getter
  returns is nil when the notification is about another component; the code then reads the field of a nil
  pointer.
\<close>

definition update_component ::
  "string \<Rightarrow> string \<Rightarrow> (notify \<Rightarrow> 'c option result) \<Rightarrow> ('c \<Rightarrow> int) \<Rightarrow> ('c \<Rightarrow> component_set \<Rightarrow> component_set)
   \<Rightarrow> ('c \<Rightarrow> component_set \<Rightarrow> component_set) \<Rightarrow> (int \<Rightarrow> component_set \<Rightarrow> component_set) \<Rightarrow> notify
   \<Rightarrow> ('x, 'w, unit) observer_act" where
  "update_component kind a_kind get key add upd del n =
     (if nt_Cmd n = CmdAdd then
        act_bind (act_wrap (''prime observer: failed to add '' @ kind) (act_result (get n))) (\<lambda>c.
        act_bind (act_option c) (\<lambda>c.
        act_bind (act_modify (\<lambda>w. w\<lparr>ob_set := add c (ob_set w)\<rparr>)) (\<lambda>_.
        observer_Publish (newComponentEvent (nt_Component n) (nt_Cmd n) (key c)))))
      else if nt_Cmd n = CmdEdit then
        act_bind (act_wrap (''prime observer: failed to update '' @ kind) (act_result (get n))) (\<lambda>c.
        act_bind (act_option c) (\<lambda>c.
        act_bind (act_modify (\<lambda>w. w\<lparr>ob_set := upd c (ob_set w)\<rparr>)) (\<lambda>_.
        observer_Publish (newComponentEvent (nt_Component n) (nt_Cmd n) (key c)))))
      else if nt_Cmd n = CmdDelete then
        act_bind (act_wrap (''prime observer: failed to parse ID of '' @ a_kind) (act_result (ParseIntegerID n))) (\<lambda>i.
        act_bind (act_modify (\<lambda>w. w\<lparr>ob_set := del i (ob_set w)\<rparr>)) (\<lambda>_.
        observer_Publish (newComponentEvent (nt_Component n) (nt_Cmd n) i)))
      else act_return ())"

definition observer_updateDevice :: "prime_json \<Rightarrow> notify \<Rightarrow> ('x, 'w, unit) observer_act" where
  "observer_updateDevice js =
     update_component ''device'' ''a device'' (Notify_GetDevice js) dv_ID set_addDevice set_updateDevice set_deleteDevice"

definition observer_updateThing :: "prime_json \<Rightarrow> notify \<Rightarrow> ('x, 'w, unit) observer_act" where
  "observer_updateThing js =
     update_component ''thing'' ''a thing'' (Notify_GetThing js) pt_ID set_addThing set_updateThing set_deleteThing"

definition observer_updateRoom :: "prime_json \<Rightarrow> notify \<Rightarrow> ('x, 'w, unit) observer_act" where
  "observer_updateRoom js =
     update_component ''room'' ''a room'' (Notify_GetRoom js) rm_ID set_addRoom set_updateRoom set_deleteRoom"

definition observer_updateArea :: "prime_json \<Rightarrow> notify \<Rightarrow> ('x, 'w, unit) observer_act" where
  "observer_updateArea js =
     update_component ''area'' ''an area'' (Notify_GetArea js) ar_ID set_addArea set_updateArea set_deleteArea"

definition observer_strategy :: "prime_json \<Rightarrow> string \<Rightarrow> notify \<Rightarrow> ('x, 'w, unit) observer_act" where
  "observer_strategy js component =
     (if component = ComponentDevice then observer_updateDevice js
      else if component = ComponentThing then observer_updateThing js
      else if component = ComponentRoom then observer_updateRoom js
      else observer_updateArea js)"

definition isComponentObserved :: "observer \<Rightarrow> string \<Rightarrow> bool" where
  "isComponentObserved obs component \<longleftrightarrow> component \<in> set (ob_strategies obs)"

definition observer_Update :: "prime_json \<Rightarrow> notify \<Rightarrow> ('x, 'w, unit) observer_act" where
  "observer_Update js n w =
     (if \<not> isComponentObserved (observer.truncate w) (nt_Component n) then Some (Inr (), w)
      else case observer_strategy js (nt_Component n) n w of
        None \<Rightarrow> None
      | Some (Inl err, w') \<Rightarrow>
          Some (Inl (Wrapf (''prime observer: failed to process update for component '' @ nt_Component n) err),
                w'\<lparr>ob_refreshed := False\<rparr>)
      | Some (Inr x, w') \<Rightarrow> Some (Inr x, w'))"

text \<open>\<open>now\<close> is the clock when the age of the copy is read, \<open>now'\<close> the clock after the answer of the client.\<close>

definition isRefreshRequired :: "time \<Rightarrow> observer \<Rightarrow> bool" where
  "isRefreshRequired now obs =
     (if \<not> ob_refreshed obs \<or> is_zero (ob_lastRefresh obs) then True
      else time_since now (ob_lastRefresh obs) > ob_refreshInterval obs)"

text \<open>\<open>GetComponents\<close> is the method of the client, which acts on the rest of the system.\<close>

definition on_hub :: "('w, 'a) act \<Rightarrow> ('x, 'w, 'a) observer_act" where
  "on_hub m w = map_option (\<lambda>(r, h). (r, w\<lparr>oe_hub := h\<rparr>)) (m (oe_hub w))"

definition observer_doRefresh ::
  "(string list \<Rightarrow> ('w, component_set) act) \<Rightarrow> time \<Rightarrow> time \<Rightarrow> bool \<Rightarrow> ('x, 'w, unit) observer_act" where
  "observer_doRefresh GetComponents now now' force w =
     (if \<not> force \<and> \<not> isRefreshRequired now (observer.truncate w) then Some (Inr (), w)
      else
        act_bind (act_wrap ''observer: error while refreshing components''
                    (on_hub (GetComponents (ob_components w)))) (\<lambda>componentSet.
        act_bind (act_modify (\<lambda>w. w\<lparr>ob_set := newSet (Some componentSet), ob_refreshed := True,
                                  ob_lastRefresh := now'\<rparr>)) (\<lambda>_.
        observer_Publish (newRefreshEvent (ob_components w)))) w)"

definition observer_Refresh ::
  "(string list \<Rightarrow> ('w, component_set) act) \<Rightarrow> time \<Rightarrow> time \<Rightarrow> bool \<Rightarrow> ('x, 'w, unit) observer_act" where
  "observer_Refresh GetComponents now now' force = observer_doRefresh GetComponents now now' force"

text \<open>The getters return a copy of the list, which later updates in place do not change.\<close>

definition observer_get ::
  "(string list \<Rightarrow> ('w, component_set) act) \<Rightarrow> time \<Rightarrow> time \<Rightarrow> (component_set \<Rightarrow> 'c list)
   \<Rightarrow> ('x, 'w, 'c list) observer_act" where
  "observer_get GetComponents now now' get =
     act_bind (observer_doRefresh GetComponents now now' False) (\<lambda>_. act_get (\<lambda>w. get (ob_set w)))"

definition observer_GetDevices ::
  "(string list \<Rightarrow> ('w, component_set) act) \<Rightarrow> time \<Rightarrow> time \<Rightarrow> ('x, 'w, device list) observer_act" where
  "observer_GetDevices GetComponents now now' = observer_get GetComponents now now' cs_Devices"

definition observer_GetThings ::
  "(string list \<Rightarrow> ('w, component_set) act) \<Rightarrow> time \<Rightarrow> time \<Rightarrow> ('x, 'w, prime_thing list) observer_act" where
  "observer_GetThings GetComponents now now' = observer_get GetComponents now now' cs_Things"

definition observer_GetRooms ::
  "(string list \<Rightarrow> ('w, component_set) act) \<Rightarrow> time \<Rightarrow> time \<Rightarrow> ('x, 'w, room list) observer_act" where
  "observer_GetRooms GetComponents now now' = observer_get GetComponents now now' cs_Rooms"

definition observer_GetAreas ::
  "(string list \<Rightarrow> ('w, component_set) act) \<Rightarrow> time \<Rightarrow> time \<Rightarrow> ('x, 'w, area list) observer_act" where
  "observer_GetAreas GetComponents now now' = observer_get GetComponents now now' cs_Areas"


section \<open>Messages and tasks (\<^verbatim>\<open>routing.go\<close>, \<^verbatim>\<open>task.go\<close>)\<close>

definition HandleEvtPD7Notify :: "prime_json \<Rightarrow> ('x, 'w) observer_env message_handler" where
  "HandleEvtPD7Notify js =
     NewMessageHandler
       (act_processor (\<lambda>msg.
          act_bind (act_wrap ''observer: failed to read a prime notification''
                      (act_result (NotifyFromMessage js msg))) (\<lambda>notify.
          act_bind (act_wrap ''observer: failed to process a prime notification''
                      (observer_Update js notify)) (\<lambda>_.
          act_return None))))
       [WithSilentErrors]"

definition RouteEvtPD7Notify :: "fimpgo \<Rightarrow> prime_json \<Rightarrow> ('x, 'w) observer_env routing" where
  "RouteEvtPD7Notify fg js =
     NewRouting (Some (handler_Handle fg (HandleEvtPD7Notify js)))
       [ForTopic NotifyTopic, ForService (fg_VinculumService fg), ForType EvtPD7Notify]"

definition observer_Route :: "fimpgo \<Rightarrow> prime_json \<Rightarrow> ('x, 'w) observer_env routing list" where
  "observer_Route fg js = [RouteEvtPD7Notify fg js]"

text \<open>The handler of the refreshing task logs an error; the clock is read from the state. A panic keeps the state.\<close>

definition HandleRefreshing ::
  "(string list \<Rightarrow> ('w, component_set) act) \<Rightarrow> ('w \<Rightarrow> time) \<Rightarrow> bool \<Rightarrow> ('x, 'w) observer_env \<Rightarrow> ('x, 'w) observer_env \<times> bool" where
  "HandleRefreshing GetComponents clock force w =
     (case observer_Refresh GetComponents (clock (oe_hub w)) (clock (oe_hub w)) force w of
        None \<Rightarrow> (w, True)
      | Some (r, w') \<Rightarrow> (w', False))"

definition TaskRefreshing ::
  "(string list \<Rightarrow> ('w, component_set) act) \<Rightarrow> ('w \<Rightarrow> time) \<Rightarrow> duration \<Rightarrow> ('x, 'w) observer_env task" where
  "TaskRefreshing GetComponents clock refreshInterval =
     task_New (HandleRefreshing GetComponents clock False) refreshInterval []"

section \<open>A component is a store by identifier\<close>

definition id_lookup :: "('c \<Rightarrow> int) \<Rightarrow> 'c list \<Rightarrow> int \<Rightarrow> 'c option" where
  "id_lookup key xs i = find (\<lambda>c. key c = i) xs"

lemma id_find_None: "id_find key i xs = None \<longleftrightarrow> i \<notin> key ` set xs"
  by (induction xs) auto

lemma id_find_Some: "id_find key i xs = Some k \<Longrightarrow> k < length xs \<and> key (xs ! k) = i"
  by (induction xs arbitrary: k) (auto split: if_splits)

lemma id_lookup_iff:
  "distinct (map key xs) \<Longrightarrow> id_lookup key xs i = Some c \<longleftrightarrow> c \<in> set xs \<and> key c = i"
  by (induction xs) (auto simp: id_lookup_def)

lemma id_lookup_None: "id_lookup key xs i = None \<longleftrightarrow> i \<notin> key ` set xs"
  by (auto simp: id_lookup_def find_None_iff)

lemma fresh_key: "k \<notin> key ` set xs \<Longrightarrow> \<forall>x \<in> set xs. key x \<noteq> k"
  by auto

lemma id_lookup_eqI:
  assumes "distinct (map key xs)" "\<And>i c. P i = Some c \<longleftrightarrow> c \<in> set xs \<and> key c = i"
  shows "id_lookup key xs = P"
proof
  fix i
  have "\<And>c. id_lookup key xs i = Some c \<longleftrightarrow> P i = Some c"
    using assms(2) [of i] id_lookup_iff [OF assms(1), of i] by simp
  then show "id_lookup key xs i = P i" by (metis not_None_eq)
qed

lemma keyed_update_set:
  assumes "distinct (map key xs)" "k < length xs"
  shows "set (xs[k := c]) = insert c {x \<in> set xs. key x \<noteq> key (xs ! k)}"
proof -
  have "{x \<in> set xs. key x \<noteq> key (xs ! k)} = set xs - {xs ! k}"
    using assms nth_mem [OF assms(2)] by (auto simp: distinct_map dest: inj_onD)
  then show ?thesis using assms by (simp add: set_update_distinct distinct_map)
qed

lemma id_add_store:
  assumes "distinct (map key xs)"
  shows "distinct (map key (id_add key c xs))"
    and "id_lookup key (id_add key c xs) =
      (if key c \<in> dom (id_lookup key xs) then id_lookup key xs else (id_lookup key xs)(key c \<mapsto> c))"
proof -
  show d: "distinct (map key (id_add key c xs))"
    using assms by (auto simp: id_add_def id_find_None)
  show "id_lookup key (id_add key c xs) =
      (if key c \<in> dom (id_lookup key xs) then id_lookup key xs else (id_lookup key xs)(key c \<mapsto> c))"
  proof (cases "key c \<in> dom (id_lookup key xs)")
    case True
    then show ?thesis by (auto simp: id_add_def id_find_None id_lookup_None domIff)
  next
    case False
    then have "key c \<notin> key ` set xs" by (simp add: domIff id_lookup_None)
    note new = this fresh_key [OF this]
    from new have s: "set (id_add key c xs) = insert c (set xs)" by (simp add: id_add_def id_find_None)
    have "id_lookup key (id_add key c xs) = (id_lookup key xs)(key c \<mapsto> c)"
      using new by (intro id_lookup_eqI [OF d]) (auto simp: s id_lookup_iff [OF assms])
    then show ?thesis using False by simp
  qed
qed

lemma id_update_store:
  assumes "distinct (map key xs)"
  shows "distinct (map key (id_update key c xs))"
    and "id_lookup key (id_update key c xs) = (id_lookup key xs)(key c \<mapsto> c)"
proof -
  have d: "distinct (map key (id_update key c xs)) \<and>
      set (id_update key c xs) = insert c {x \<in> set xs. key x \<noteq> key c}"
  proof (cases "id_find key (key c) xs")
    case None
    then have "key c \<notin> key ` set xs" by (simp add: id_find_None)
    with fresh_key [OF this] None show ?thesis using assms by (auto simp: id_update_def)
  next
    case (Some k)
    note k = id_find_Some [OF Some]
    have "map key (xs[k := c]) = map key xs" using k by (simp add: map_update list_update_same_conv)
    moreover have "set (xs[k := c]) = insert c {x \<in> set xs. key x \<noteq> key c}"
      using k assms by (simp add: keyed_update_set)
    ultimately show ?thesis using assms Some by (simp add: id_update_def)
  qed
  then show "distinct (map key (id_update key c xs))" by simp
  then show "id_lookup key (id_update key c xs) = (id_lookup key xs)(key c \<mapsto> c)"
    by (rule id_lookup_eqI) (use d in \<open>auto simp: id_lookup_iff [OF assms]\<close>)
qed

lemma id_delete_store:
  assumes "distinct (map key xs)"
  shows "distinct (map key (id_delete key i xs))"
    and "id_lookup key (id_delete key i xs) = (id_lookup key xs)(i := None)"
proof -
  have d: "distinct (map key (id_delete key i xs)) \<and> set (id_delete key i xs) = {x \<in> set xs. key x \<noteq> i}"
  proof (cases "id_find key i xs")
    case None
    then have "i \<notin> key ` set xs" by (simp add: id_find_None)
    with None show ?thesis using assms by (auto simp: id_delete_def)
  next
    case (Some k)
    note k = id_find_Some [OF Some]
    then obtain ys z where xs: "xs = ys @ [z]" by (cases xs rule: rev_cases) auto
    have dy: "distinct (map key ys)" "key z \<notin> key ` set ys" using assms xs by simp_all
    show ?thesis
    proof (cases "k = length ys")
      case True
      moreover have "\<forall>x \<in> set ys. key x \<noteq> key z" using assms xs by (intro fresh_key) simp
      ultimately show ?thesis using assms Some k xs by (auto simp: id_delete_def)
    next
      case False
      then have ky: "k < length ys" using k xs by simp
      have del: "id_delete key i xs = ys[k := z]"
        using ky Some xs by (simp add: id_delete_def list_update_append)
      have ki: "key (ys ! k) = i" using k ky xs by (simp add: nth_append)
      have "key z \<noteq> i" using dy(2) ki ky by auto
      then have "set (ys[k := z]) = {x \<in> set (ys @ [z]). key x \<noteq> i}"
        unfolding keyed_update_set [OF dy(1) ky] ki by auto
      then have "set (id_delete key i xs) = {x \<in> set xs. key x \<noteq> i}" by (simp only: del flip: xs)
      moreover have "distinct (map key (id_delete key i xs))"
        using dy by (auto simp: del map_update intro!: distinct_list_update)
      ultimately show ?thesis by simp
    qed
  qed
  then show "distinct (map key (id_delete key i xs))" by simp
  then show "id_lookup key (id_delete key i xs) = (id_lookup key xs)(i := None)"
    by (rule id_lookup_eqI) (use d in \<open>auto simp: id_lookup_iff [OF assms]\<close>)
qed


text \<open>A change of one component, its effect on a map from identifiers to elements, and the notification of it.\<close>

datatype 'c change = Added 'c | Edited 'c | Deleted int

fun change_apply :: "('c \<Rightarrow> int) \<Rightarrow> 'c change \<Rightarrow> (int \<rightharpoonup> 'c) \<Rightarrow> (int \<rightharpoonup> 'c)" where
  "change_apply key (Added c) m = (if key c \<in> dom m then m else m(key c \<mapsto> c))"
| "change_apply key (Edited c) m = m(key c \<mapsto> c)"
| "change_apply key (Deleted i) m = m(i := None)"

fun change_id :: "('c \<Rightarrow> int) \<Rightarrow> 'c change \<Rightarrow> int" where
  "change_id key (Added c) = key c"
| "change_id key (Edited c) = key c"
| "change_id key (Deleted i) = i"

fun notifies :: "(notify \<Rightarrow> 'c option result) \<Rightarrow> notify \<Rightarrow> 'c change \<Rightarrow> bool" where
  "notifies get n (Added c) \<longleftrightarrow> nt_Cmd n = CmdAdd \<and> get n = Inr (Some c)"
| "notifies get n (Edited c) \<longleftrightarrow> nt_Cmd n = CmdEdit \<and> get n = Inr (Some c)"
| "notifies get n (Deleted i) \<longleftrightarrow> nt_Cmd n = CmdDelete \<and> ParseIntegerID n = Inr i"

text \<open>
  What the observer relies on in a component of the set: identifiers stay unique, and the three
  operations act on the elements as on a map. The update of the observer is proved once against it.
\<close>

locale component_store =
  fixes items :: "component_set \<Rightarrow> 'c list"
    and key :: "'c \<Rightarrow> int"
    and add upd :: "'c \<Rightarrow> component_set \<Rightarrow> component_set"
    and del :: "int \<Rightarrow> component_set \<Rightarrow> component_set"
  assumes add_unique: "distinct (map key (items s)) \<Longrightarrow> distinct (map key (items (add c s)))"
    and upd_unique: "distinct (map key (items s)) \<Longrightarrow> distinct (map key (items (upd c s)))"
    and del_unique: "distinct (map key (items s)) \<Longrightarrow> distinct (map key (items (del i s)))"
    and add_lookup: "distinct (map key (items s)) \<Longrightarrow> id_lookup key (items (add c s)) =
      (if key c \<in> dom (id_lookup key (items s)) then id_lookup key (items s)
       else (id_lookup key (items s))(key c \<mapsto> c))"
    and upd_lookup: "distinct (map key (items s)) \<Longrightarrow>
      id_lookup key (items (upd c s)) = (id_lookup key (items s))(key c \<mapsto> c)"
    and del_lookup: "distinct (map key (items s)) \<Longrightarrow>
      id_lookup key (items (del i s)) = (id_lookup key (items s))(i := None)"
begin

fun store_change :: "'c change \<Rightarrow> component_set \<Rightarrow> component_set" where
  "store_change (Added c) s = add c s"
| "store_change (Edited c) s = upd c s"
| "store_change (Deleted i) s = del i s"

lemma store_change_refines:
  assumes "distinct (map key (items s))"
  shows "distinct (map key (items (store_change ch s)))"
    and "id_lookup key (items (store_change ch s)) = change_apply key ch (id_lookup key (items s))"
  using assms by (cases ch; simp add: add_unique upd_unique del_unique add_lookup upd_lookup del_lookup)+

lemma update_component_change:
  assumes "notifies get n ch" "manager_inv (oe_events w)"
  shows "\<exists>m. manager_Publish (newComponentEvent (nt_Component n) (nt_Cmd n) (change_id key ch)) (oe_events w) = Some m
     \<and> manager_inv m
     \<and> update_component kind a_kind get key add upd del n w =
        Some (Inr (), w\<lparr>ob_set := store_change ch (ob_set w), oe_events := m\<rparr>)"
proof -
  let ?e = "newComponentEvent (nt_Component n) (nt_Cmd n) (change_id key ch)"
  obtain m where m: "manager_Publish ?e (oe_events w) = Some m"
    using em.publish_total [OF assms(2)] by blast
  with assms(1) have "update_component kind a_kind get key add upd del n w =
        Some (Inr (), w\<lparr>ob_set := store_change ch (ob_set w), oe_events := m\<rparr>)"
    by (cases ch) (simp_all add: update_component_def observer_Publish_def command_names)
  with m em.publish_invar [OF assms(2) m] show ?thesis by blast
qed

end

interpretation dev: component_store cs_Devices dv_ID set_addDevice set_updateDevice set_deleteDevice
  by unfold_locales
    (simp_all add: set_addDevice_def set_updateDevice_def set_deleteDevice_def id_add_store
      id_update_store id_delete_store)

interpretation thg: component_store cs_Things pt_ID set_addThing set_updateThing set_deleteThing
  by unfold_locales
    (simp_all add: set_addThing_def set_updateThing_def set_deleteThing_def id_add_store
      id_update_store id_delete_store)

interpretation rms: component_store cs_Rooms rm_ID set_addRoom set_updateRoom set_deleteRoom
  by unfold_locales
    (simp_all add: set_addRoom_def set_updateRoom_def set_deleteRoom_def id_add_store
      id_update_store id_delete_store)

interpretation ars: component_store cs_Areas ar_ID set_addArea set_updateArea set_deleteArea
  by unfold_locales
    (simp_all add: set_addArea_def set_updateArea_def set_deleteArea_def id_add_store
      id_update_store id_delete_store)

section \<open>The registry that the observer mirrors\<close>

datatype element = EDevice device | EThing prime_thing | ERoom room | EArea area

fun element_kind :: "element \<Rightarrow> string" where
  "element_kind (EDevice d) = ComponentDevice"
| "element_kind (EThing t) = ComponentThing"
| "element_kind (ERoom r) = ComponentRoom"
| "element_kind (EArea a) = ComponentArea"

fun element_id :: "element \<Rightarrow> int" where
  "element_id (EDevice d) = dv_ID d"
| "element_id (EThing t) = pt_ID t"
| "element_id (ERoom r) = rm_ID r"
| "element_id (EArea a) = ar_ID a"

type_synonym registry = "string \<Rightarrow> int \<rightharpoonup> element"

definition set_lookup :: "component_set \<Rightarrow> registry" where
  "set_lookup s k i =
     (if k = ComponentDevice then map_option EDevice (id_lookup dv_ID (cs_Devices s) i)
      else if k = ComponentThing then map_option EThing (id_lookup pt_ID (cs_Things s) i)
      else if k = ComponentRoom then map_option ERoom (id_lookup rm_ID (cs_Rooms s) i)
      else if k = ComponentArea then map_option EArea (id_lookup ar_ID (cs_Areas s) i)
      else None)"

definition set_ok :: "component_set \<Rightarrow> bool" where
  "set_ok s \<longleftrightarrow>
     distinct (map dv_ID (cs_Devices s)) \<and> distinct (map pt_ID (cs_Things s))
   \<and> distinct (map rm_ID (cs_Rooms s)) \<and> distinct (map ar_ID (cs_Areas s))"

text \<open>The changes of the hub: it adds only elements with a new identifier.\<close>

datatype hub_change = HubAdd element | HubEdit element | HubDelete string int

fun hub_apply :: "hub_change \<Rightarrow> registry \<Rightarrow> registry" where
  "hub_apply (HubAdd e) r = r(element_kind e := (r (element_kind e))(element_id e \<mapsto> e))"
| "hub_apply (HubEdit e) r = r(element_kind e := (r (element_kind e))(element_id e \<mapsto> e))"
| "hub_apply (HubDelete k i) r = r(k := (r k)(i := None))"

fun hub_change_ok :: "registry \<Rightarrow> hub_change \<Rightarrow> bool" where
  "hub_change_ok r (HubAdd e) \<longleftrightarrow> r (element_kind e) (element_id e) = None"
| "hub_change_ok r (HubEdit e) \<longleftrightarrow> True"
| "hub_change_ok r (HubDelete k i) \<longleftrightarrow> True"

fun hub_changes_ok :: "registry \<Rightarrow> hub_change list \<Rightarrow> bool" where
  "hub_changes_ok r [] = True"
| "hub_changes_ok r (ch # chs) \<longleftrightarrow> hub_change_ok r ch \<and> hub_changes_ok (hub_apply ch r) chs"

text \<open>A notification that tells of a change: its parameter decodes to the element, or its ID is the identifier.\<close>

definition notify_element :: "prime_json \<Rightarrow> notify \<Rightarrow> element option" where
  "notify_element js n =
     (if nt_Component n = ComponentDevice then
        (case pj_Device js (nt_ParamRaw n) of Inr d \<Rightarrow> Some (EDevice d) | _ \<Rightarrow> None)
      else if nt_Component n = ComponentThing then
        (case pj_Thing js (nt_ParamRaw n) of Inr t \<Rightarrow> Some (EThing t) | _ \<Rightarrow> None)
      else if nt_Component n = ComponentRoom then
        (case pj_Room js (nt_ParamRaw n) of Inr r \<Rightarrow> Some (ERoom r) | _ \<Rightarrow> None)
      else if nt_Component n = ComponentArea then
        (case pj_Area js (nt_ParamRaw n) of Inr a \<Rightarrow> Some (EArea a) | _ \<Rightarrow> None)
      else None)"

fun hub_notifies :: "prime_json \<Rightarrow> notify \<Rightarrow> hub_change \<Rightarrow> bool" where
  "hub_notifies js n (HubAdd e) \<longleftrightarrow>
     nt_Cmd n = CmdAdd \<and> nt_Component n = element_kind e \<and> notify_element js n = Some e"
| "hub_notifies js n (HubEdit e) \<longleftrightarrow>
     nt_Cmd n = CmdEdit \<and> nt_Component n = element_kind e \<and> notify_element js n = Some e"
| "hub_notifies js n (HubDelete k i) \<longleftrightarrow>
     nt_Cmd n = CmdDelete \<and> nt_Component n = k \<and> ParseIntegerID n = Inr i"


text \<open>
  What makes a component one of the registry: it is shown under its kind and nowhere else, its elements
  keep kind and identifier, and its notifications are decoded by its own getter and strategy.
\<close>

locale registry_component = component_store +
  fixes kind label a_label :: string
    and embed :: "'a \<Rightarrow> element"
    and get :: "prime_json \<Rightarrow> notify \<Rightarrow> 'a option result"
  assumes kind_lookup: "set_lookup s kind = (\<lambda>i. map_option embed (id_lookup key (items s) i))"
    and other_lookup: "k \<noteq> kind \<Longrightarrow> set_lookup (store_change ch s) k = set_lookup s k"
    and ok_unique: "set_ok s \<Longrightarrow> distinct (map key (items s))"
    and ok_change: "set_ok s \<Longrightarrow> set_ok (store_change ch s)"
    and embed_kind: "element_kind (embed c) = kind"
    and embed_id: "element_id (embed c) = key c"
    and decode: "nt_Component n = kind \<Longrightarrow> notify_element js n = Some e \<Longrightarrow> \<exists>c. get js n = Inr (Some c) \<and> e = embed c"
begin

lemma notified_change:
  assumes "hub_notifies js n ch" "nt_Component n = kind" "hub_change_ok (set_lookup s) ch" "set_ok s"
  shows "\<exists>c. notifies (get js) n c \<and> set_lookup (store_change c s) = hub_apply ch (set_lookup s)"
proof -
  note uq = ok_unique [OF assms(4)]
  have eqI: "set_lookup (store_change c s) = (set_lookup s)(kind := f)"
    if "(\<lambda>i. map_option embed (id_lookup key (items (store_change c s)) i)) = f" for c f
    using that by (auto simp: kind_lookup other_lookup)
  show ?thesis
  proof (cases ch)
    case (HubAdd e)
    with assms(1) have "notify_element js n = Some e" by simp
    from decode [OF assms(2) this] obtain c where c: "get js n = Inr (Some c)" "e = embed c" by blast
    have "key c \<notin> dom (id_lookup key (items s))"
      using assms(3) HubAdd c by (simp add: embed_kind embed_id kind_lookup domIff)
    then have "set_lookup (store_change (Added c) s) = (set_lookup s)(kind := (set_lookup s kind)(key c \<mapsto> embed c))"
      by (intro eqI) (auto simp: kind_lookup add_lookup [OF uq])
    then have "set_lookup (store_change (Added c) s) = hub_apply ch (set_lookup s)"
      by (simp add: HubAdd c embed_kind embed_id)
    then show ?thesis using assms(1) HubAdd c by (intro exI [of _ "Added c"]) simp
  next
    case (HubEdit e)
    with assms(1) have "notify_element js n = Some e" by simp
    from decode [OF assms(2) this] obtain c where c: "get js n = Inr (Some c)" "e = embed c" by blast
    have "set_lookup (store_change (Edited c) s) = (set_lookup s)(kind := (set_lookup s kind)(key c \<mapsto> embed c))"
      by (intro eqI) (auto simp: kind_lookup upd_lookup [OF uq])
    then have "set_lookup (store_change (Edited c) s) = hub_apply ch (set_lookup s)"
      by (simp add: HubEdit c embed_kind embed_id)
    then show ?thesis using assms(1) HubEdit c by (intro exI [of _ "Edited c"]) simp
  next
    case (HubDelete k i)
    then have k: "k = kind" using assms(1,2) by simp
    have "set_lookup (store_change (Deleted i) s) = (set_lookup s)(kind := (set_lookup s kind)(i := None))"
      by (intro eqI) (auto simp: kind_lookup del_lookup [OF uq])
    then have "set_lookup (store_change (Deleted i) s) = hub_apply ch (set_lookup s)"
      by (simp add: HubDelete k)
    then show ?thesis using assms(1) HubDelete by (intro exI [of _ "Deleted i"]) simp
  qed
qed

lemma notified_update:
  assumes "hub_notifies js n ch" "nt_Component n = kind" "hub_change_ok (set_lookup (ob_set w)) ch"
    and "set_ok (ob_set w)" "manager_inv (oe_events w)"
  shows "\<exists>s m. update_component label a_label (get js) key add upd del n w =
      Some (Inr (), w\<lparr>ob_set := s, oe_events := m\<rparr>) \<and> set_ok s \<and> manager_inv m
    \<and> set_lookup s = hub_apply ch (set_lookup (ob_set w))"
proof -
  obtain c where c: "notifies (get js) n c"
      "set_lookup (store_change c (ob_set w)) = hub_apply ch (set_lookup (ob_set w))"
    using notified_change [OF assms(1-4)] by blast
  with update_component_change [OF c(1) assms(5), of label a_label] ok_change [OF assms(4), of c]
  show ?thesis by blast
qed

end

lemmas registry_defs = set_lookup_def fun_eq_iff set_ok_def component_names notify_element_def
  notify_component_def

interpretation dev: registry_component cs_Devices dv_ID set_addDevice set_updateDevice set_deleteDevice
  ComponentDevice "''device''" "''a device''" EDevice Notify_GetDevice
proof unfold_locales
  show "k \<noteq> ComponentDevice \<Longrightarrow> set_lookup (dev.store_change ch s) k = set_lookup s k" for k ch s
    by (cases ch) (auto simp: set_lookup_def set_addDevice_def set_updateDevice_def set_deleteDevice_def)
  show "set_ok s \<Longrightarrow> set_ok (dev.store_change ch s)" for ch s
    using dev.store_change_refines(1) [of s ch]
    by (cases ch) (auto simp: set_ok_def set_addDevice_def set_updateDevice_def set_deleteDevice_def)
qed (auto simp: registry_defs Notify_GetDevice_def split: sum.splits)

interpretation thg: registry_component cs_Things pt_ID set_addThing set_updateThing set_deleteThing
  ComponentThing "''thing''" "''a thing''" EThing Notify_GetThing
proof unfold_locales
  show "k \<noteq> ComponentThing \<Longrightarrow> set_lookup (thg.store_change ch s) k = set_lookup s k" for k ch s
    by (cases ch) (auto simp: set_lookup_def set_addThing_def set_updateThing_def set_deleteThing_def)
  show "set_ok s \<Longrightarrow> set_ok (thg.store_change ch s)" for ch s
    using thg.store_change_refines(1) [of s ch]
    by (cases ch) (auto simp: set_ok_def set_addThing_def set_updateThing_def set_deleteThing_def)
qed (auto simp: registry_defs Notify_GetThing_def split: sum.splits)

interpretation rms: registry_component cs_Rooms rm_ID set_addRoom set_updateRoom set_deleteRoom
  ComponentRoom "''room''" "''a room''" ERoom Notify_GetRoom
proof unfold_locales
  show "k \<noteq> ComponentRoom \<Longrightarrow> set_lookup (rms.store_change ch s) k = set_lookup s k" for k ch s
    by (cases ch) (auto simp: set_lookup_def set_addRoom_def set_updateRoom_def set_deleteRoom_def)
  show "set_ok s \<Longrightarrow> set_ok (rms.store_change ch s)" for ch s
    using rms.store_change_refines(1) [of s ch]
    by (cases ch) (auto simp: set_ok_def set_addRoom_def set_updateRoom_def set_deleteRoom_def)
qed (auto simp: registry_defs Notify_GetRoom_def split: sum.splits)

interpretation ars: registry_component cs_Areas ar_ID set_addArea set_updateArea set_deleteArea
  ComponentArea "''area''" "''an area''" EArea Notify_GetArea
proof unfold_locales
  show "k \<noteq> ComponentArea \<Longrightarrow> set_lookup (ars.store_change ch s) k = set_lookup s k" for k ch s
    by (cases ch) (auto simp: set_lookup_def set_addArea_def set_updateArea_def set_deleteArea_def)
  show "set_ok s \<Longrightarrow> set_ok (ars.store_change ch s)" for ch s
    using ars.store_change_refines(1) [of s ch]
    by (cases ch) (auto simp: set_ok_def set_addArea_def set_updateArea_def set_deleteArea_def)
qed (auto simp: registry_defs Notify_GetArea_def split: sum.splits)

section \<open>Properties\<close>

lemma observer_strategies_set:
  "observer_strategies cs xs = Inr ys \<Longrightarrow>
   set ys = set xs \<union> set cs \<and> set cs \<subseteq> {ComponentDevice, ComponentThing, ComponentRoom, ComponentArea}"
  by (induction cs arbitrary: xs) (auto split: if_splits)

lemma observer_strategy_change:
  assumes "hub_notifies js n ch" "nt_Component n \<in> {ComponentDevice, ComponentThing, ComponentRoom, ComponentArea}"
    and "hub_change_ok (set_lookup (ob_set w)) ch" "set_ok (ob_set w)" "manager_inv (oe_events w)"
  shows "\<exists>s m. observer_strategy js (nt_Component n) n w = Some (Inr (), w\<lparr>ob_set := s, oe_events := m\<rparr>)
    \<and> set_ok s \<and> manager_inv m \<and> set_lookup s = hub_apply ch (set_lookup (ob_set w))"
proof -
  note defs = observer_strategy_def observer_updateDevice_def observer_updateThing_def
    observer_updateRoom_def observer_updateArea_def component_names
  consider "nt_Component n = ComponentDevice" | "nt_Component n = ComponentThing"
    | "nt_Component n = ComponentRoom" | "nt_Component n = ComponentArea"
    using assms(2) by blast
  then show ?thesis
  proof cases
    case 1
    with dev.notified_update [OF assms(1) _ assms(3-5)] show ?thesis by (simp add: defs)
  next
    case 2
    with thg.notified_update [OF assms(1) _ assms(3-5)] show ?thesis by (simp add: defs)
  next
    case 3
    with rms.notified_update [OF assms(1) _ assms(3-5)] show ?thesis by (simp add: defs)
  next
    case 4
    with ars.notified_update [OF assms(1) _ assms(3-5)] show ?thesis by (simp add: defs)
  qed
qed

lemma hub_notifies_component:
  "hub_notifies js n ch \<Longrightarrow> k \<noteq> nt_Component n \<Longrightarrow> hub_apply ch r k = r k"
  by (cases ch) auto

lemma hub_apply_cong: "r k = r' k \<Longrightarrow> hub_apply ch r k = hub_apply ch r' k"
  by (cases ch) auto

lemma hub_change_ok_cong:
  "hub_notifies js n ch \<Longrightarrow> r (nt_Component n) = r' (nt_Component n) \<Longrightarrow> hub_change_ok r ch \<longleftrightarrow> hub_change_ok r' ch"
  by (cases ch) auto

text \<open>The part of the observer that a notification leaves alone.\<close>

definition same_observer :: "('x, 'w) observer_env \<Rightarrow> ('x, 'w) observer_env \<Rightarrow> bool" where
  "same_observer w w' \<longleftrightarrow>
     ob_strategies w' = ob_strategies w \<and> ob_components w' = ob_components w
   \<and> ob_refreshed w' = ob_refreshed w \<and> ob_lastRefresh w' = ob_lastRefresh w \<and> oe_hub w' = oe_hub w"

lemma observer_Update_change:
  assumes "set (ob_strategies w) \<subseteq> {ComponentDevice, ComponentThing, ComponentRoom, ComponentArea}"
    and "set_ok (ob_set w)" "manager_inv (oe_events w)" "hub_notifies js n ch" "hub_change_ok reg ch"
    and "\<forall>k \<in> set (ob_strategies w). set_lookup (ob_set w) k = reg k"
  shows "\<exists>w'. observer_Update js n w = Some (Inr (), w') \<and> same_observer w w' \<and> set_ok (ob_set w')
    \<and> manager_inv (oe_events w') \<and> (\<forall>k \<in> set (ob_strategies w). set_lookup (ob_set w') k = hub_apply ch reg k)"
proof (cases "nt_Component n \<in> set (ob_strategies w)")
  case False
  then have "observer_Update js n w = Some (Inr (), w)"
    by (simp add: observer_Update_def isComponentObserved_def observer.defs)
  moreover have "\<forall>k \<in> set (ob_strategies w). hub_apply ch reg k = reg k"
    using False hub_notifies_component [OF assms(4)] by metis
  ultimately show ?thesis using assms by (simp add: same_observer_def)
next
  case True
  have "hub_change_ok (set_lookup (ob_set w)) ch"
    using hub_change_ok_cong [OF assms(4), of "set_lookup (ob_set w)" reg] assms(5,6) True by simp
  from observer_strategy_change [OF assms(4) _ this assms(2,3)] True assms(1)
  obtain s m where s: "observer_strategy js (nt_Component n) n w = Some (Inr (), w\<lparr>ob_set := s, oe_events := m\<rparr>)"
      "set_ok s" "manager_inv m" "set_lookup s = hub_apply ch (set_lookup (ob_set w))"
    by blast
  have "set_lookup s k = hub_apply ch reg k" if "k \<in> set (ob_strategies w)" for k
    unfolding s(4) using assms(6) that by (intro hub_apply_cong) simp
  with s True show ?thesis
    by (simp add: observer_Update_def isComponentObserved_def observer.defs same_observer_def)
qed

lemma observer_Updates_changes:
  assumes "set (ob_strategies w) \<subseteq> {ComponentDevice, ComponentThing, ComponentRoom, ComponentArea}"
    and "set_ok (ob_set w)" "manager_inv (oe_events w)" "list_all2 (hub_notifies js) ns chs"
    and "hub_changes_ok reg chs" "\<forall>k \<in> set (ob_strategies w). set_lookup (ob_set w) k = reg k"
  shows "\<exists>w'. act_for ns (observer_Update js) w = Some (Inr (), w') \<and> same_observer w w' \<and> set_ok (ob_set w')
    \<and> (\<forall>k \<in> set (ob_strategies w). set_lookup (ob_set w') k = foldl (\<lambda>r ch. hub_apply ch r) reg chs k)"
  using assms(4,1-3,5,6)
proof (induction ns chs arbitrary: w reg rule: list_all2_induct)
  case Nil
  then show ?case by (auto simp: same_observer_def)
next
  case (Cons n ns ch chs)
  obtain w1 where w1: "observer_Update js n w = Some (Inr (), w1)" "same_observer w w1" "set_ok (ob_set w1)"
      "manager_inv (oe_events w1)" "\<forall>k \<in> set (ob_strategies w). set_lookup (ob_set w1) k = hub_apply ch reg k"
    using observer_Update_change [of w js n ch reg] Cons by auto
  have st: "ob_strategies w1 = ob_strategies w" using w1(2) by (simp add: same_observer_def)
  obtain w2 where "act_for ns (observer_Update js) w1 = Some (Inr (), w2)" "same_observer w1 w2" "set_ok (ob_set w2)"
      "\<forall>k \<in> set (ob_strategies w1). set_lookup (ob_set w2) k = foldl (\<lambda>r ch. hub_apply ch r) (hub_apply ch reg) chs k"
    using Cons.IH [of w1 "hub_apply ch reg"] Cons.prems w1 st by auto
  with w1 st show ?case by (auto simp: same_observer_def)
qed

text \<open>
  C3. The observer mirrors the hub: once the observed components agree with the registry of the hub, the
  notifications of any sequence of changes of the hub, in its order, are processed without an error and
  leave the observed components in agreement with the changed registry, with unique identifiers,
  whatever the mix of components and whichever of them are observed.
\<close>
theorem observer_mirrors_hub:
  assumes "observer_strategies components [] = Inr (ob_strategies w)"
    and "set_ok (ob_set w)" "manager_inv (oe_events w)"
    and "\<forall>k \<in> set components. set_lookup (ob_set w) k = reg k"
    and "list_all2 (hub_notifies js) ns chs" "hub_changes_ok reg chs"
  shows "\<exists>w'. act_for ns (observer_Update js) w = Some (Inr (), w') \<and> set_ok (ob_set w')
     \<and> ob_refreshed w' = ob_refreshed w \<and> oe_hub w' = oe_hub w
     \<and> (\<forall>k \<in> set components. set_lookup (ob_set w') k = foldl (\<lambda>r ch. hub_apply ch r) reg chs k)"
  using observer_Updates_changes [of w js ns chs reg] observer_strategies_set [OF assms(1)] assms(2-)
  by (auto simp: same_observer_def)


lemma update_component_error:
  "update_component kind a_kind get key add upd del n w = Some (Inl e, w1) \<Longrightarrow> w1 = w"
  by (auto simp: update_component_def act_bind_def act_wrap_def act_option_def observer_Publish_def
      split: if_splits option.splits sum.splits prod.splits)

lemma observer_Update_error:
  assumes "observer_Update js n w = Some (Inl e, w1)"
  shows "w1 = w\<lparr>ob_refreshed := False\<rparr>"
proof -
  have "observer_strategy js k n w = Some (Inl e', w') \<Longrightarrow> w' = w" for k e' w'
    by (auto simp: observer_strategy_def observer_updateDevice_def observer_updateThing_def
        observer_updateRoom_def observer_updateArea_def split: if_splits dest: update_component_error)
  with assms show ?thesis
    by (auto simp: observer_Update_def split: if_splits option.splits sum.splits prod.splits)
qed

lemma observer_doRefresh_ok:
  assumes "force \<or> isRefreshRequired now (observer.truncate w)" "manager_inv (oe_events w)"
    and "GetComponents (ob_components w) (oe_hub w) = Some (Inr s, h)"
  shows "\<exists>m. observer_doRefresh GetComponents now now' force w =
     Some (Inr (), w\<lparr>oe_hub := h, ob_set := s, ob_refreshed := True, ob_lastRefresh := now', oe_events := m\<rparr>)
     \<and> manager_inv m"
proof -
  obtain m where m: "manager_Publish (newRefreshEvent (ob_components w)) (oe_events w) = Some m"
    using em.publish_total [OF assms(2)] by blast
  have hub: "act_wrap ''observer: error while refreshing components'' (on_hub (GetComponents (ob_components w))) w
      = Some (Inr s, w\<lparr>oe_hub := h\<rparr>)"
    by (simp add: act_wrap_def on_hub_def assms(3))
  have "observer_doRefresh GetComponents now now' force w =
     Some (Inr (), w\<lparr>oe_hub := h, ob_set := s, ob_refreshed := True, ob_lastRefresh := now', oe_events := m\<rparr>)"
    using assms(1) by (auto simp: observer_doRefresh_def hub observer_Publish_def m newSet_def)
  with em.publish_invar [OF assms(2) m] show ?thesis by blast
qed

text \<open>
  After a notification that could not be processed the observer no longer trusts its copy: the next getter,
  whenever it is called, asks the hub and returns what the hub answers, and for one refresh interval after
  that the getters return the refreshed copy without asking the hub.
\<close>
theorem failed_update_resyncs:
  assumes "observer_Update js n w = Some (Inl e, w1)" "manager_inv (oe_events w)"
    and "GetComponents (ob_components w) (oe_hub w) = Some (Inr s, h)" "now' \<noteq> time_zero"
    and "time_since now2 now' \<le> ob_refreshInterval w"
  shows "\<exists>w2. observer_get GetComponents now now' get w1 = Some (Inr (get s), w2) \<and> oe_hub w2 = h
     \<and> observer_get GetComponents now2 now3 get w2 = Some (Inr (get s), w2)"
proof -
  have w1: "w1 = w\<lparr>ob_refreshed := False\<rparr>" using observer_Update_error [OF assms(1)] .
  obtain m where m: "observer_doRefresh GetComponents now now' False w1 =
     Some (Inr (), w1\<lparr>oe_hub := h, ob_set := s, ob_refreshed := True, ob_lastRefresh := now', oe_events := m\<rparr>)"
    using observer_doRefresh_ok [of False now w1 GetComponents s h now'] assms(2,3)
    by (auto simp: w1 isRefreshRequired_def observer.defs)
  let ?w2 = "w1\<lparr>oe_hub := h, ob_set := s, ob_refreshed := True, ob_lastRefresh := now', oe_events := m\<rparr>"
  have "observer_doRefresh GetComponents now2 now3 False ?w2 = Some (Inr (), ?w2)"
    using assms(4,5) by (simp add: observer_doRefresh_def isRefreshRequired_def observer.defs is_zero_def time_zero_def w1)
  with m show ?thesis by (intro exI [of _ ?w2]) (simp add: observer_get_def)
qed

section \<open>A device that is added, and one that is removed\<close>

definition no_json :: "'r \<Rightarrow> 'a result" where
  "no_json _ = Inl (Errorf ''unexpected end of JSON input'')"

definition demo_json :: prime_json where
  "demo_json =
     \<lparr>pj_Devices = no_json, pj_Things = no_json, pj_Areas = no_json, pj_Rooms = no_json, pj_House = no_json, pj_Hub = no_json,
      pj_HubMode = no_json, pj_Shortcuts = no_json, pj_Modes = no_json, pj_Timers = no_json, pj_Services = no_json, pj_State = no_json,
      pj_Device = (\<lambda>raw. case ParseInt raw of Inl e \<Rightarrow> Inl e | Inr i \<Rightarrow> Inr (demo_device i)),
      pj_Thing = no_json, pj_Room = no_json, pj_Area = no_json, pj_Shortcut = no_json, pj_Mode = no_json, pj_Timer = no_json,
      pj_Response = no_json, pj_Notify = no_json\<rparr>"

definition demo_notify :: "string \<Rightarrow> raw_json \<Rightarrow> fimp_value \<Rightarrow> notify" where
  "demo_notify cmd raw i =
     \<lparr>nt_Errors = VNull, nt_Cmd = cmd, nt_Component = ComponentDevice, nt_ParamRaw = raw, nt_ChangesRaw = '''',
      nt_Success = True, nt_ID = i\<rparr>"

definition demo_bus_heap :: "'x event heap" where
  "demo_bus_heap = \<lparr>hp_chans = (\<lambda>_. \<lparr>ch_buf = [], ch_cap = 0, ch_recvq = 0, ch_closed = False\<rparr>), hp_next = 0\<rparr>"

definition demo_observer :: "(unit, nat) observer_env" where
  "demo_observer =
     \<lparr>ob_components = [ComponentDevice], ob_strategies = [ComponentDevice], ob_refreshInterval = 10,
      ob_refreshed = True, ob_lastRefresh = 5, ob_set = newSet None,
      oe_events = event_NewManager demo_bus_heap, oe_hub = 0\<rparr>"

theorem observer_mirrors_hub_witness:
  "\<exists>w'. act_for [demo_notify CmdAdd ''2'' VNull, demo_notify CmdAdd ''3'' VNull, demo_notify CmdDelete '''' (VString ''2'')]
        (observer_Update demo_json) demo_observer = Some (Inr (), w')
     \<and> set_lookup (ob_set w') ComponentDevice 2 = None
     \<and> set_lookup (ob_set w') ComponentDevice 3 = Some (EDevice (demo_device 3))"
proof -
  let ?ns = "[demo_notify CmdAdd ''2'' VNull, demo_notify CmdAdd ''3'' VNull, demo_notify CmdDelete '''' (VString ''2'')]"
  let ?chs = "[HubAdd (EDevice (demo_device 2)), HubAdd (EDevice (demo_device 3)), HubDelete ComponentDevice 2]"
  have p: "ParseInt ''2'' = Inr 2" "ParseInt ''3'' = Inr 3" by code_simp+
  have n: "list_all2 (hub_notifies demo_json) ?ns ?chs"
    by (simp add: demo_notify_def notify_element_def demo_json_def Let_def p ParseIntegerID_def Atoi_def)
  have inv: "manager_inv (oe_events demo_observer)" by (simp add: demo_observer_def manager_inv_new)
  have "observer_strategies [ComponentDevice] [] = Inr (ob_strategies demo_observer)"
    by (simp add: demo_observer_def)
  moreover have "set_ok (ob_set demo_observer)" by (simp add: demo_observer_def set_ok_def newSet_def)
  moreover have "\<forall>k \<in> set [ComponentDevice]. set_lookup (ob_set demo_observer) k = (\<lambda>_. Map.empty) k"
    by (simp add: demo_observer_def newSet_def set_lookup_def id_lookup_def fun_eq_iff)
  moreover have "hub_changes_ok (\<lambda>_. Map.empty) ?chs" by (simp add: demo_device_def)
  ultimately obtain w' where w': "act_for ?ns (observer_Update demo_json) demo_observer = Some (Inr (), w')"
      "set_lookup (ob_set w') ComponentDevice = foldl (\<lambda>r ch. hub_apply ch r) (\<lambda>_. Map.empty) ?chs ComponentDevice"
    using observer_mirrors_hub [of "[ComponentDevice]" demo_observer "\<lambda>_. Map.empty" demo_json ?ns ?chs, OF _ _ inv _ n]
    by (metis list.set_intros(1))
  have "dv_ID (demo_device i) = i" for i by (simp add: demo_device_def)
  with w' show ?thesis by (intro exI [of _ w']) simp
qed

theorem failed_update_resyncs_witness:
  "\<exists>w1 w2. observer_Update demo_json (demo_notify CmdAdd ''x'' VNull) demo_observer
       = Some (Inl (Wrapf ''prime observer: failed to process update for component device''
           (Wrapf ''prime observer: failed to add device''
             (Wrapf ''notify: failed to unmarshal component device'' (Errorf ''invalid syntax'')))), w1)
     \<and> observer_get (\<lambda>cs h. Some (Inr (newSet None), h + 1)) 6 7 cs_Devices w1 = Some (Inr [], w2) \<and> oe_hub w2 = 1"
proof -
  let ?n = "demo_notify CmdAdd ''x'' VNull"
  have p: "ParseInt ''x'' = Inl (Errorf ''invalid syntax'')" by code_simp
  have inv: "manager_inv (oe_events demo_observer)" by (simp add: demo_observer_def manager_inv_new)
  have u: "\<exists>w1. observer_Update demo_json ?n demo_observer
       = Some (Inl (Wrapf ''prime observer: failed to process update for component device''
           (Wrapf ''prime observer: failed to add device''
             (Wrapf ''notify: failed to unmarshal component device'' (Errorf ''invalid syntax'')))), w1)"
    by (simp add: observer_Update_def isComponentObserved_def observer.defs demo_notify_def observer_strategy_def
        observer_updateDevice_def update_component_def Notify_GetDevice_def notify_component_def demo_json_def
        Let_def p act_bind_def act_wrap_def demo_observer_def ComponentDevice_def)
  then obtain w1 where "observer_Update demo_json ?n demo_observer
       = Some (Inl (Wrapf ''prime observer: failed to process update for component device''
           (Wrapf ''prime observer: failed to add device''
             (Wrapf ''notify: failed to unmarshal component device'' (Errorf ''invalid syntax'')))), w1)" ..
  note w1 = this
  have "\<exists>w2. observer_get (\<lambda>cs h. Some (Inr (newSet None), h + 1)) 6 7 cs_Devices w1 = Some (Inr (cs_Devices (newSet None)), w2)
      \<and> oe_hub w2 = 1
      \<and> observer_get (\<lambda>cs h. Some (Inr (newSet None), h + 1)) 8 9 cs_Devices w2 = Some (Inr (cs_Devices (newSet None)), w2)"
    by (rule failed_update_resyncs [OF w1 inv])
      (simp_all add: demo_observer_def time_zero_def time_since_def time_sub_def min_duration_def max_duration_def)
  with w1 show ?thesis by (auto simp: newSet_def)
qed

end
