(* ===== verification/Device_Service.thy ===== *)
theory Device_Service
  imports Adapter Tasks Phases
begin

text \<open>
  What the device services of \<^verbatim>\<open>src/adapter/service\<close> share. A service has a specification, a cache of the
  values it has reported and a controller, which is the driver of a device outside of this repository:
  its methods are actions on the state of the device, and a service is proved correct for every
  controller. A service sends its messages through the publisher of the adapter. Every method holds the
  lock of its service, so each is one action.

  Cached values are compared with \<^verbatim>\<open>reflect.DeepEqual\<close>; they are stored as message values, a structure as
  the object of its fields. The clock is a sequence of readings.
\<close>

section \<open>A service and its world\<close>

record 'd svc =
  sc_spec :: service_spec
  sc_cache :: "fimp_value reporting_cache"
  sc_dev :: 'd
  sc_ad :: adapter
  sc_clock :: "nat \<Rightarrow> time"
  sc_reads :: nat

type_synonym ('d, 'a) svc_act = "('d svc, 'a) act"

abbreviation svc_Name :: "'d svc \<Rightarrow> string" where
  "svc_Name s \<equiv> sv_Name (sc_spec s)"

definition svc_now :: "('d, time) svc_act" where
  "svc_now s = Some (Inr (sc_clock s (sc_reads s)), s\<lparr>sc_reads := Suc (sc_reads s)\<rparr>)"

definition on_dev :: "('d, 'a) act \<Rightarrow> ('d, 'a) svc_act" where
  "on_dev m s = map_option (\<lambda>(r, d). (r, s\<lparr>sc_dev := d\<rparr>)) (m (sc_dev s))"

definition svc_SendMessage :: "fimpgo \<Rightarrow> fimp_message \<Rightarrow> ('d, unit) svc_act" where
  "svc_SendMessage fg m s =
     map_option (\<lambda>(r, a). (r, s\<lparr>sc_ad := a\<rparr>)) (PublishServiceMessage fg (sc_spec s) m (sc_ad s))"

definition svc_PublishEvent :: "service_event \<Rightarrow> ('d, unit) svc_act" where
  "svc_PublishEvent e s =
     map_option (\<lambda>(r, a). (r, s\<lparr>sc_ad := a\<rparr>)) (PublishServiceEvent (sc_spec s) e (sc_ad s))"

definition svc_New :: "service_spec \<Rightarrow> 'd \<Rightarrow> adapter \<Rightarrow> (nat \<Rightarrow> time) \<Rightarrow> 'd svc" where
  "svc_New spec d a clock =
     \<lparr>sc_spec = spec, sc_cache = NewReportingCache, sc_dev = d, sc_ad = a, sc_clock = clock, sc_reads = 0\<rparr>"

text \<open>An action that starts with the state it is run in, e.g. to read the name of the service for its errors.\<close>

definition with_svc :: "('d svc \<Rightarrow> ('d, 'a) svc_act) \<Rightarrow> ('d, 'a) svc_act" where
  "with_svc f s = f s s"

text \<open>
  The services of an adapter: the objects of one service type, by the address of their specification.
  The handlers find them through the registry of the adapter.
\<close>

record 'd svc_world =
  wd_ad :: adapter
  wd_svcs :: "string \<Rightarrow> 'd svc option"

definition on_svc :: "string \<Rightarrow> ('d, 'a) svc_act \<Rightarrow> ('d svc_world, 'a) act" where
  "on_svc a m w =
     (case wd_svcs w a of
        None \<Rightarrow> None
      | Some s \<Rightarrow>
          map_option (\<lambda>(r, s'). (r, w\<lparr>wd_ad := sc_ad s', wd_svcs := (wd_svcs w)(a \<mapsto> s')\<rparr>))
            (m (s\<lparr>sc_ad := wd_ad w\<rparr>)))"

text \<open>\<^verbatim>\<open>getService\<close>, which every service package has: the address of the service that a message is for.\<close>

definition getService :: "message \<Rightarrow> ('d svc_world, string) act" where
  "getService msg w =
     (case adapter_ServiceByTopic (wd_ad w) (ms_Topic msg) of
        None \<Rightarrow>
          Some (Inl (Errorf (''service not found under the provided address: '' @ ad_ServiceAddress (ms_Addr msg))), w)
      | Some spec \<Rightarrow>
          if wd_svcs w (sv_Address spec) = None
          then Some (Inl (Errorf (''incorrect service found under the provided address: '' @ ad_ServiceAddress (ms_Addr msg))), w)
          else Some (Inr (sv_Address spec), w))"

text \<open>A handler that finds the service and returns no message.\<close>

definition svc_handler :: "(message \<Rightarrow> ('d, unit) svc_act) \<Rightarrow> message \<Rightarrow> ('d svc_world, fimp_message option) act" where
  "svc_handler body msg =
     act_bind (getService msg) (\<lambda>a. act_bind (on_svc a (body msg)) (\<lambda>_. act_return None))"

definition svc_route ::
  "fimpgo \<Rightarrow> voter \<Rightarrow> string \<Rightarrow> 'd svc_world handler_option list \<Rightarrow> (message \<Rightarrow> ('d, unit) svc_act) \<Rightarrow> 'd svc_world routing" where
  "svc_route fg v cmd options body =
     NewRouting (Some (handler_Handle fg (NewMessageHandler (act_processor (svc_handler body)) options))) [v, ForType cmd]"

definition svc_routing ::
  "fimpgo \<Rightarrow> string \<Rightarrow> string \<Rightarrow> (message \<Rightarrow> ('d, unit) svc_act) \<Rightarrow> 'd svc_world routing" where
  "svc_routing fg service cmd body = svc_route fg (ForService service) cmd [] body"

text \<open>An error that is only logged.\<close>

definition act_log :: "('w, 'a) act \<Rightarrow> ('w, unit) act" where
  "act_log m = act_bind (act_try m) (\<lambda>_. act_return ())"

text \<open>The body of the reporting tasks: every service of the name, unless its thing is down.\<close>

definition svc_reporting_for ::
  "adapter_env \<Rightarrow> (adapter \<Rightarrow> service_spec list) \<Rightarrow> ('d, unit) svc_act \<Rightarrow> ('d svc_world, unit) act" where
  "svc_reporting_for av select body =
     act_bind (act_get (\<lambda>w. select (wd_ad w))) (\<lambda>specs.
     act_for specs (\<lambda>spec.
       act_bind (act_get (\<lambda>w. wd_svcs w (sv_Address spec) = None \<or> ShouldSkipServiceTask av (wd_ad w) spec)) (\<lambda>skip.
       if skip then act_return () else on_svc (sv_Address spec) body)))"

definition svc_reporting :: "adapter_env \<Rightarrow> string \<Rightarrow> ('d, unit) svc_act \<Rightarrow> ('d svc_world, unit) act" where
  "svc_reporting av service = svc_reporting_for av (\<lambda>a. adapter_Services a service)"

text \<open>The tasks of the services whose names share a prefix ask for all services.\<close>

definition svc_reporting_prefix :: "adapter_env \<Rightarrow> string \<Rightarrow> ('d, unit) svc_act \<Rightarrow> ('d svc_world, unit) act" where
  "svc_reporting_prefix av pre =
     svc_reporting_for av (\<lambda>a. filter (\<lambda>s. take (length pre) (sv_Name s) = pre) (adapter_Services a ''''))"

text \<open>\<^verbatim>\<open>TaskReporting\<close>: the voters of the caller and the one that waits for the registry.\<close>

definition svc_TaskReporting ::
  "('d svc_world, unit) act \<Rightarrow> duration \<Rightarrow> ('d svc_world \<Rightarrow> bool) list \<Rightarrow> 'd svc_world task" where
  "svc_TaskReporting body frequency voters =
     task_New (\<lambda>w. case body w of None \<Rightarrow> (w, True) | Some (_, w') \<Rightarrow> (w', False)) frequency
       (voters @ [\<lambda>w. adapter_IsInitialized (wd_ad w)])"

text \<open>What a service is configured with: the library, the controller (a record of the methods of its interface) and the reporting strategy.\<close>

record 'c svc_config =
  cf_fimpgo :: fimpgo
  cf_controller :: 'c
  cf_strategy :: strategy

text \<open>
  \<^verbatim>\<open>NewService\<close>: \<open>spec\<close> is the specification after the interfaces were added, and a nil strategy is replaced
  by the default. The result is the configuration and the state of the service.
\<close>

definition NewService_with ::
  "fimpgo \<Rightarrow> 'c \<Rightarrow> strategy \<Rightarrow> strategy option \<Rightarrow> service_spec \<Rightarrow> 'd \<Rightarrow> adapter \<Rightarrow> (nat \<Rightarrow> time) \<Rightarrow> 'c svc_config \<times> 'd svc" where
  "NewService_with fg controller dflt strat spec d a clock =
     (\<lparr>cf_fimpgo = fg, cf_controller = controller, cf_strategy = (case strat of None \<Rightarrow> dflt | Some s \<Rightarrow> s)\<rparr>,
      svc_New spec d a clock)"

section \<open>Specifications\<close>

definition service_address :: "string \<Rightarrow> string \<Rightarrow> string \<Rightarrow> string \<Rightarrow> string" where
  "service_address resourceName resourceAddress service address =
     ''/rt:dev/rn:'' @ resourceName @ ''/ad:'' @ resourceAddress @ ''/sv:'' @ service @ ''/ad:'' @ address"

definition iface :: "string \<Rightarrow> string \<Rightarrow> string \<Rightarrow> interface" where
  "iface typ msgType valueType =
     \<lparr>if_Type = typ, if_MsgType = msgType, if_ValueType = valueType, if_Version = ''1''\<rparr>"

definition service_Specification ::
  "string \<Rightarrow> string \<Rightarrow> string \<Rightarrow> string \<Rightarrow> string list \<Rightarrow> (string \<times> fimp_value) list \<Rightarrow> interface list \<Rightarrow> service_spec" where
  "service_Specification service resourceName resourceAddress address groups props interfaces =
     \<lparr>sv_Name = service, sv_Address = service_address resourceName resourceAddress service address,
      sv_Enabled = True, sv_Groups = groups, sv_Props = props, sv_Interfaces = interfaces\<rparr>"

text \<open>What the specification options do: set a property.\<close>

definition set_prop :: "string \<Rightarrow> fimp_value \<Rightarrow> service_spec \<Rightarrow> service_spec" where
  "set_prop p v s = s\<lparr>sv_Props := AList.update p v (sv_Props s)\<rparr>"

text \<open>\<^verbatim>\<open>strings.ToLower\<close> and \<^verbatim>\<open>strings.EqualFold\<close> on ASCII text.\<close>

definition char_lower :: "char \<Rightarrow> char" where
  "char_lower c = (if 65 \<le> (of_char c :: nat) \<and> (of_char c :: nat) \<le> 90 then char_of ((of_char c :: nat) + 32) else c)"

definition strings_ToLower :: "string \<Rightarrow> string" where
  "strings_ToLower = map char_lower"

definition strings_EqualFold :: "string \<Rightarrow> string \<Rightarrow> bool" where
  "strings_EqualFold s t \<longleftrightarrow> strings_ToLower s = strings_ToLower t"

text \<open>The first supported value that a name stands for, in the spelling of the specification.\<close>

definition normalize :: "string \<Rightarrow> string list \<Rightarrow> string option" where
  "normalize x supported = find (\<lambda>u. strings_EqualFold x u) supported"

lemma normalize_supported: "normalize x supported = Some u \<Longrightarrow> u \<in> set supported \<and> strings_EqualFold x u"
  by (auto simp: normalize_def find_Some_iff)

lemma EqualFold_refl [simp]: "strings_EqualFold x x"
  by (simp add: strings_EqualFold_def)

lemma normalize_None: "normalize x supported = None \<longleftrightarrow> (\<forall>u \<in> set supported. \<not> strings_EqualFold x u)"
  by (auto simp: normalize_def find_None_iff)

text \<open>Maps of values as they stand in a payload.\<close>

definition int_map_value :: "(string \<times> int) list \<Rightarrow> fimp_value" where
  "int_map_value m = VObject (map (\<lambda>(k, v). (k, VInt v)) m)"

definition bool_map_value :: "(string \<times> bool) list \<Rightarrow> fimp_value" where
  "bool_map_value m = VObject (map (\<lambda>(k, v). (k, VBool v)) m)"

definition str_map_value :: "(string \<times> string) list \<Rightarrow> fimp_value" where
  "str_map_value m = VObject (map (\<lambda>(k, v). (k, VString v)) m)"

section \<open>Reports\<close>

text \<open>
  The body of the methods that send a report. \<open>send_value\<close> is what they do with the value that was read:
  skip it if the report is not forced and the cache does not require it; send the message; mark the value
  as reported. \<open>text\<close> is the text of the error when the message cannot be sent. In \<open>send_built\<close> building the
  message may fail.
\<close>

definition send_built ::
  "fimpgo \<Rightarrow> strategy \<Rightarrow> string \<Rightarrow> string \<Rightarrow> string \<Rightarrow> fimp_value \<Rightarrow> fimp_message result \<Rightarrow> bool \<Rightarrow> ('d, bool) svc_act" where
  "send_built fg strat key subKey text v build force =
     act_bind svc_now (\<lambda>now.
     act_bind (act_get sc_cache) (\<lambda>c.
     if \<not> force \<and> \<not> cache_ReportRequired strat now key subKey v c then act_return False
     else
       act_bind (act_result build) (\<lambda>msg.
       act_bind (act_wrap text (svc_SendMessage fg msg)) (\<lambda>_.
       act_bind svc_now (\<lambda>now'.
       act_bind (act_modify (\<lambda>s. s\<lparr>sc_cache := cache_Reported now' key subKey v (sc_cache s)\<rparr>)) (\<lambda>_.
       act_return True))))))"

definition send_value ::
  "fimpgo \<Rightarrow> strategy \<Rightarrow> string \<Rightarrow> string \<Rightarrow> string \<Rightarrow> fimp_value \<Rightarrow> fimp_message \<Rightarrow> bool \<Rightarrow> ('d, bool) svc_act" where
  "send_value fg strat key subKey text v msg = send_built fg strat key subKey text v (Inr msg)"

text \<open>
  The whole method: read the value from the controller and send it; \<open>get_text\<close> and \<open>send_text\<close> are the texts
  of the errors, in \<open>send_report\<close> the texts after the name of the service.
\<close>

definition send_reading ::
  "fimpgo \<Rightarrow> strategy \<Rightarrow> string \<Rightarrow> string \<Rightarrow> string \<Rightarrow> string \<Rightarrow> ('d, 'x) act \<Rightarrow> ('x \<Rightarrow> fimp_value)
   \<Rightarrow> (string \<Rightarrow> 'x \<Rightarrow> fimp_message) \<Rightarrow> bool \<Rightarrow> ('d, bool) svc_act" where
  "send_reading fg strat key subKey get_text send_text get val msg force = with_svc (\<lambda>s.
     act_bind (act_wrap get_text (on_dev get)) (\<lambda>x.
     send_value fg strat key subKey send_text (val x) (msg (svc_Name s) x) force))"

definition send_report ::
  "fimpgo \<Rightarrow> strategy \<Rightarrow> string \<Rightarrow> string \<Rightarrow> string \<Rightarrow> string \<Rightarrow> ('d, 'x) act \<Rightarrow> ('x \<Rightarrow> fimp_value)
   \<Rightarrow> (string \<Rightarrow> 'x \<Rightarrow> fimp_message) \<Rightarrow> bool \<Rightarrow> ('d, bool) svc_act" where
  "send_report fg strat key subKey get_text send_text get val msg force = with_svc (\<lambda>s.
     send_reading fg strat key subKey (svc_Name s @ get_text) (svc_Name s @ send_text) get val msg force)"

text \<open>The forced report that a handler ends with.\<close>

definition answer :: "string \<Rightarrow> (bool \<Rightarrow> ('d, bool) svc_act) \<Rightarrow> ('d, unit) svc_act" where
  "answer text send = act_bind (act_wrap text (send True)) (\<lambda>_. act_return ())"

text \<open>A call of the controller that changes the device, with the text of its error.\<close>

definition control :: "string \<Rightarrow> ('d, 'a) act \<Rightarrow> ('d, 'a) svc_act" where
  "control text m = with_svc (\<lambda>s. act_wrap (svc_Name s @ text) (on_dev m))"


section \<open>Invariants of the device\<close>

text \<open>
  A service keeps its specification, and reaches the device only through the controller: a property of the
  device that the controller keeps is kept by the service.
\<close>

definition dev_inv :: "service_spec \<Rightarrow> ('d \<Rightarrow> bool) \<Rightarrow> 'd svc \<Rightarrow> bool" where
  "dev_inv spec I s \<longleftrightarrow> sc_spec s = spec \<and> I (sc_dev s)"

lemma keeps_svc_now [act_keeps_rules]: "act_keeps (dev_inv spec I) svc_now"
  by (auto simp: act_keeps_def svc_now_def dev_inv_def)

lemma keeps_svc_SendMessage [act_keeps_rules]: "act_keeps (dev_inv spec I) (svc_SendMessage fg m)"
  by (auto simp: act_keeps_def svc_SendMessage_def dev_inv_def)

lemma keeps_svc_PublishEvent [act_keeps_rules]: "act_keeps (dev_inv spec I) (svc_PublishEvent e)"
  by (auto simp: act_keeps_def svc_PublishEvent_def dev_inv_def)

lemma keeps_on_dev [act_keeps_rules]: "act_keeps I m \<Longrightarrow> act_keeps (dev_inv spec I) (on_dev m)"
  by (auto simp: act_keeps_def on_dev_def dev_inv_def)

lemma keeps_with_svc [act_keeps_rules]:
  "(\<And>s. sc_spec s = spec \<Longrightarrow> act_keeps (dev_inv spec I) (f s)) \<Longrightarrow> act_keeps (dev_inv spec I) (with_svc f)"
proof (rule act_keepsI)
  fix s r s'
  assume keeps: "\<And>s. sc_spec s = spec \<Longrightarrow> act_keeps (dev_inv spec I) (f s)"
    and s: "dev_inv spec I s" and run: "with_svc f s = Some (r, s')"
  from keeps [of s] s have "act_keeps (dev_inv spec I) (f s)" by (simp add: dev_inv_def)
  from act_keepsD [OF this s] run show "dev_inv spec I s'" by (simp add: with_svc_def)
qed

lemma keeps_control [act_keeps_rules]: "act_keeps I m \<Longrightarrow> act_keeps (dev_inv spec I) (control text m)"
  unfolding control_def by (intro act_keeps_rules)

lemma keeps_act_log [act_keeps_rules]: "act_keeps J m \<Longrightarrow> act_keeps J (act_log m)"
  unfolding act_log_def by (intro act_keeps_rules)

lemma keeps_mark [act_keeps_rules]: "act_keeps (dev_inv spec I) (act_modify (\<lambda>s. s\<lparr>sc_cache := f s\<rparr>))"
  by (rule act_keeps_modify) (simp add: dev_inv_def)

lemma keeps_send_built [act_keeps_rules]:
  "act_keeps (dev_inv spec I) (send_built fg strat key subKey text v build force)"
  "act_keeps (dev_inv spec I) (send_value fg strat key subKey text v msg force)"
  unfolding send_value_def send_built_def by (intro act_keeps_rules)+

lemma keeps_send_reading [act_keeps_rules]:
  "act_keeps I get \<Longrightarrow> act_keeps (dev_inv spec I) (send_reading fg strat key subKey t1 t2 get val msg force)"
  unfolding send_reading_def by (intro act_keeps_rules)

lemma keeps_send_report [act_keeps_rules]:
  "act_keeps I get \<Longrightarrow> act_keeps (dev_inv spec I) (send_report fg strat key subKey t1 t2 get val msg force)"
  unfolding send_report_def by (intro act_keeps_rules)

lemma keeps_answer [act_keeps_rules]:
  "act_keeps (dev_inv spec I) (send True) \<Longrightarrow> act_keeps (dev_inv spec I) (answer text send)"
  unfolding answer_def by (intro act_keeps_rules)

text \<open>Conditionals and the results of lookups inside an action.\<close>

lemma act_keeps_result_bind:
  "(\<And>x. r = Inr x \<Longrightarrow> act_keeps I (f x)) \<Longrightarrow> act_keeps I (act_bind (act_result r) f)"
  by (cases r) (auto simp: act_keeps_def)

lemma act_keeps_wrap_result_bind:
  "(\<And>x. r = Inr x \<Longrightarrow> act_keeps I (f x)) \<Longrightarrow> act_keeps I (act_bind (act_wrap t (act_result r)) f)"
  by (cases r) (auto simp: act_keeps_def)

text \<open>All services of a world: their specifications are \<open>specs\<close>, and their devices satisfy \<open>I\<close>.\<close>

definition svcs_inv :: "(string \<Rightarrow> service_spec) \<Rightarrow> ('d \<Rightarrow> bool) \<Rightarrow> 'd svc_world \<Rightarrow> bool" where
  "svcs_inv specs I w \<longleftrightarrow> (\<forall>a s. wd_svcs w a = Some s \<longrightarrow> dev_inv (specs a) I s)"

lemma keeps_on_svc:
  assumes "act_keeps (dev_inv (specs a) I) m"
  shows "act_keeps (svcs_inv specs I) (on_svc a m)"
proof (rule act_keepsI)
  fix w r w'
  assume w: "svcs_inv specs I w" and run: "on_svc a m w = Some (r, w')"
  obtain s s' where s: "wd_svcs w a = Some s" "m (s\<lparr>sc_ad := wd_ad w\<rparr>) = Some (r, s')"
    and w': "w' = w\<lparr>wd_ad := sc_ad s', wd_svcs := (wd_svcs w)(a \<mapsto> s')\<rparr>"
    using run by (auto simp: on_svc_def split: option.splits)
  have "dev_inv (specs a) I (s\<lparr>sc_ad := wd_ad w\<rparr>)" using w s(1) by (simp add: svcs_inv_def dev_inv_def)
  from act_keepsD [OF assms this s(2)] show "svcs_inv specs I w'"
    using w by (auto simp: svcs_inv_def w')
qed

lemma keeps_svc_handler:
  assumes "\<And>a. act_keeps (dev_inv (specs a) I) (body msg)"
  shows "act_keeps (svcs_inv specs I) (svc_handler body msg)"
proof -
  have "act_keeps (svcs_inv specs I) (getService msg)"
    by (auto simp: act_keeps_def getService_def split: option.splits if_splits)
  then show ?thesis
    unfolding svc_handler_def by (intro act_keeps_rules keeps_on_svc assms)
qed

lemma keeps_svc_reporting:
  assumes "\<And>a. act_keeps (dev_inv (specs a) I) body"
  shows "act_keeps (svcs_inv specs I) (svc_reporting av service body)"
    "act_keeps (svcs_inv specs I) (svc_reporting_prefix av pre body)"
  unfolding svc_reporting_def svc_reporting_prefix_def svc_reporting_for_def
  by (intro act_keeps_rules keeps_on_svc assms)+


text \<open>A service whose handlers and whose reports keep an invariant of its device keeps it in the world.\<close>

lemma service_keeps_world:
  assumes "\<And>a cmd h msg. (cmd, h) \<in> set hs \<Longrightarrow> act_keeps (dev_inv (specs a) I) (h msg)"
    and "\<And>a. act_keeps (dev_inv (specs a) I) body" and "svcs_inv specs I w"
  shows "(\<forall>(cmd, h) \<in> set hs. \<forall>msg r w'. svc_handler h msg w = Some (r, w') \<longrightarrow> svcs_inv specs I w')
    \<and> (\<forall>r w'. svc_reporting av service body w = Some (r, w') \<longrightarrow> svcs_inv specs I w')"
proof -
  have "svcs_inv specs I w'" if "(cmd, h) \<in> set hs" "svc_handler h msg w = Some (r, w')" for cmd h msg r w'
    using act_keepsD [OF keeps_svc_handler [of specs I h msg, OF assms(1) [OF that(1)]] assms(3) that(2)] .
  moreover have "svcs_inv specs I w'" if "svc_reporting av service body w = Some (r, w')" for r w'
    using act_keepsD [OF keeps_svc_reporting(1) [of specs I body, OF assms(2)] assms(3) that] .
  ultimately show ?thesis by blast
qed

section \<open>The contract of a report\<close>

definition svc_published :: "'d svc \<Rightarrow> (address \<times> fimp_message) list" where
  "svc_published s = ad_published (sc_ad s)"

text \<open>Actions that publish no message and leave the cache as it is.\<close>

definition quiet :: "('d, 'a) svc_act \<Rightarrow> bool" where
  "quiet m \<longleftrightarrow> (\<forall>s r s'. m s = Some (r, s') \<longrightarrow> svc_published s' = svc_published s \<and> sc_cache s' = sc_cache s)"

named_theorems quiet_rules \<open>actions that are quiet\<close>
named_theorems report_rules \<open>actions that keep the contract of a report\<close>

lemma quietD: "quiet m \<Longrightarrow> m s = Some (r, s') \<Longrightarrow> svc_published s' = svc_published s \<and> sc_cache s' = sc_cache s"
  by (auto simp: quiet_def)

lemma quiet_basic [quiet_rules]:
  "quiet (act_return x)" "quiet (act_fail e)" "quiet (act_get f)" "quiet (act_result r)" "quiet svc_now"
  "quiet (on_dev m)" "quiet (svc_PublishEvent ev)"
  by (auto simp: quiet_def svc_now_def on_dev_def svc_PublishEvent_def PublishServiceEvent_def PublishEvent_def svc_published_def)

lemma quiet_bind [quiet_rules]:
  assumes "quiet m" "\<And>x. quiet (f x)"
  shows "quiet (act_bind m f)"
proof -
  have "svc_published s' = svc_published s \<and> sc_cache s' = sc_cache s" if "act_bind m f s = Some (r, s')" for s r s'
  proof (cases "m s")
    case None
    with that show ?thesis by simp
  next
    case (Some p)
    obtain r1 s1 where "m s = Some (r1, s1)" using Some by (cases p) auto
    then show ?thesis using that quietD [OF assms(1)] quietD [OF assms(2)] by (cases r1) fastforce+
  qed
  then show ?thesis by (simp add: quiet_def)
qed

lemma quiet_wrap [quiet_rules]: "quiet m \<Longrightarrow> quiet (act_wrap t m)"
  by (auto simp: quiet_def act_wrap_def)

lemma quiet_if [quiet_rules]: "quiet m \<Longrightarrow> quiet m' \<Longrightarrow> quiet (if b then m else m')"
  by simp

lemma quiet_with_svc [quiet_rules]: "(\<And>s. quiet (f s)) \<Longrightarrow> quiet (with_svc f)"
  by (auto simp: quiet_def with_svc_def)

lemma quiet_control [quiet_rules]: "quiet (control t m)"
  unfolding control_def by (intro quiet_rules)

text \<open>A step that looks up a supported value.\<close>

lemma quiet_lookup [quiet_rules]: "quiet (case x of None \<Rightarrow> act_fail e | Some u \<Rightarrow> act_return u)"
  by (cases x) (simp_all add: quiet_rules)

text \<open>
  What the tasks and handlers rely on in the methods that send a report under a key of the cache: a report
  that is not sent, because it was not required or because of an error, leaves no trace in the cache and
  publishes nothing; one that is sent is one message, and only entries of its key are marked.
\<close>

locale report_op =
  fixes send :: "bool \<Rightarrow> ('d, bool) svc_act" and key :: string and subKeys :: "string set"
  assumes not_sent: "send force s = Some (r, s') \<Longrightarrow> r \<noteq> Inr True \<Longrightarrow>
      svc_published s' = svc_published s \<and> sc_cache s' = sc_cache s"
    and is_sent: "send force s = Some (Inr True, s') \<Longrightarrow> \<exists>a m. svc_published s' = svc_published s @ [(a, m)]"
    and marks: "send force s = Some (Inr True, s') \<Longrightarrow> k \<noteq> key \<or> j \<notin> subKeys \<Longrightarrow>
      cache_lookup (sc_cache s') k j = cache_lookup (sc_cache s) k j"
begin

text \<open>A run of polls publishes as many messages as there are polls that answer true.\<close>

fun polls :: "nat \<Rightarrow> 'd svc \<Rightarrow> (nat \<times> 'd svc) option" where
  "polls 0 s = Some (0, s)"
| "polls (Suc n) s =
     (case send False s of
        None \<Rightarrow> None
      | Some (r, s') \<Rightarrow> map_option (\<lambda>(k, s''). (k + (if r = Inr True then 1 else 0), s'')) (polls n s'))"

lemma polls_count:
  "polls n s = Some (k, s') \<Longrightarrow> length (svc_published s') = length (svc_published s) + k \<and> k \<le> n"
proof (induction n arbitrary: s k)
  case 0
  then show ?case by simp
next
  case (Suc n)
  then obtain r s1 k1 where s1: "send False s = Some (r, s1)" "polls n s1 = Some (k1, s')"
    and k: "k = k1 + (if r = Inr True then 1 else 0)"
    by (auto split: option.splits prod.splits)
  show ?case
  proof (cases "r = Inr True")
    case True
    with is_sent [of False s s1] s1 Suc.IH [OF s1(2)] k show ?thesis by auto
  next
    case False
    with not_sent [OF s1(1)] Suc.IH [OF s1(2)] k show ?thesis by auto
  qed
qed

lemma other_keys:
  "send force s = Some (r, s') \<Longrightarrow> k \<noteq> key \<or> j \<notin> subKeys \<Longrightarrow>
   cache_lookup (sc_cache s') k j = cache_lookup (sc_cache s) k j"
  using marks [of force s s' k j] not_sent [of force s r s'] by (cases "r = Inr True") auto

end

text \<open>
  A report that is sent whenever it is forced: the handlers of commands answer with it.
\<close>

locale forced_report = report_op +
  assumes forced: "send True s = Some (r, s') \<Longrightarrow> r \<noteq> Inr False"
begin

lemma forced_sends:
  "send True s = Some (Inr b, s') \<Longrightarrow> b \<and> (\<exists>a m. svc_published s' = svc_published s @ [(a, m)])"
  using forced [of s "Inr b" s'] is_sent [of True s s'] by (cases b) auto

text \<open>The body of a handler: an action on the device, and the forced report.\<close>

lemma answers:
  assumes "quiet m" "act_bind m (\<lambda>_. answer t send) s = Some (r, s')"
  shows "if isl r then svc_published s' = svc_published s \<and> sc_cache s' = sc_cache s
    else \<exists>a p. svc_published s' = svc_published s @ [(a, p)]"
proof (cases "m s")
  case None
  with assms(2) show ?thesis by simp
next
  case (Some p)
  then obtain r1 s1 where m: "m s = Some (r1, s1)" by (cases p) auto
  note q = quietD [OF assms(1) m]
  show ?thesis
  proof (cases r1)
    case (Inl e)
    then show ?thesis using m q assms(2) by auto
  next
    case (Inr x)
    obtain r2 s2 where s2: "send True s1 = Some (r2, s2)"
      using m Inr assms(2) by (cases "send True s1") (auto simp: answer_def)
    then show ?thesis
      using m Inr assms(2) q not_sent [OF s2] forced_sends [of s1 _ s2] by (cases r2) (auto simp: isl_def answer_def)
  qed
qed

end

lemma PublishServiceMessage_outcome:
  assumes "PublishServiceMessage fg spec m a = Some (r, a')"
  shows "r = Inr () \<and> (\<exists>t. ad_published a' = ad_published a @ [(t, m\<lparr>pl_Service := sv_Name spec\<rparr>)])
    \<or> isl r \<and> ad_published a' = ad_published a"
  using assms
  by (cases "fg_NewAddressFromString fg (sv_Address spec)")
    (auto simp: PublishServiceMessage_def mqtt_Publish_def act_bind_def act_wrap_def Let_def split: option.splits)

lemma svc_SendMessage_outcome:
  assumes "svc_SendMessage fg m s = Some (r, s')"
  shows "sc_cache s' = sc_cache s \<and> sc_dev s' = sc_dev s \<and> sc_clock s' = sc_clock s \<and> sc_reads s' = sc_reads s
     \<and> sc_spec s' = sc_spec s
     \<and> (r = Inr () \<and> (\<exists>t. svc_published s' = svc_published s @ [(t, m\<lparr>pl_Service := svc_Name s\<rparr>)])
       \<or> isl r \<and> svc_published s' = svc_published s)"
  using assms by (auto simp: svc_SendMessage_def svc_published_def dest!: PublishServiceMessage_outcome)

text \<open>The ways a report can go.\<close>

lemma send_built_outcome:
  assumes "send_built fg strat key subKey text v build force s = Some (r, s')"
  shows "isl r \<and> svc_published s' = svc_published s \<and> sc_cache s' = sc_cache s
    \<or> r = Inr False \<and> \<not> force \<and> svc_published s' = svc_published s \<and> sc_cache s' = sc_cache s
        \<and> (\<exists>t. \<not> cache_ReportRequired strat t key subKey v (sc_cache s))
    \<or> r = Inr True \<and> (\<exists>msg a t. build = Inr msg \<and> svc_published s' = svc_published s @ [(a, msg\<lparr>pl_Service := svc_Name s\<rparr>)]
        \<and> sc_cache s' = cache_Reported t key subKey v (sc_cache s))"
proof (cases "\<not> force \<and> \<not> cache_ReportRequired strat (sc_clock s (sc_reads s)) key subKey v (sc_cache s)")
  case True
  then have "r = Inr False \<and> s' = s\<lparr>sc_reads := Suc (sc_reads s)\<rparr>"
    using assms by (auto simp: send_built_def svc_now_def)
  with True show ?thesis by (auto simp: svc_published_def)
next
  case False
  show ?thesis
  proof (cases build)
    case (Inl e)
    with False show ?thesis using assms by (auto simp: send_built_def svc_now_def svc_published_def)
  next
    case (Inr msg)
    note build = this
  let ?s2 = "s\<lparr>sc_reads := Suc (sc_reads s)\<rparr>"
  obtain r2 s3 where m: "svc_SendMessage fg msg ?s2 = Some (r2, s3)"
    using assms False build by (cases "svc_SendMessage fg msg ?s2") (auto simp: send_built_def svc_now_def)
  note o3 = svc_SendMessage_outcome [OF m]
  have p: "svc_published ?s2 = svc_published s" by (simp add: svc_published_def)
  show ?thesis
  proof (cases r2)
    case (Inl e)
    then show ?thesis using assms False m o3 p build by (auto simp: send_built_def svc_now_def)
  next
    case (Inr u)
    then obtain a where a: "svc_published s3 = svc_published s @ [(a, msg\<lparr>pl_Service := svc_Name s\<rparr>)]"
      using o3 p by auto
    have "r = Inr True \<and> s' = s3\<lparr>sc_reads := Suc (sc_reads s3),
        sc_cache := cache_Reported (sc_clock s3 (sc_reads s3)) key subKey v (sc_cache s3)\<rparr>"
      using assms False m Inr build by (auto simp: send_built_def svc_now_def)
    with a o3 have "r = Inr True" "svc_published s' = svc_published s @ [(a, msg\<lparr>pl_Service := svc_Name s\<rparr>)]"
      "sc_cache s' = cache_Reported (sc_clock s3 (sc_reads s3)) key subKey v (sc_cache s)"
      by (simp_all add: svc_published_def)
    then show ?thesis using build by blast
  qed
  qed
qed

lemma send_value_outcome:
  assumes "send_value fg strat key subKey text v msg force s = Some (r, s')"
  shows "isl r \<and> svc_published s' = svc_published s \<and> sc_cache s' = sc_cache s
    \<or> r = Inr False \<and> \<not> force \<and> svc_published s' = svc_published s \<and> sc_cache s' = sc_cache s
        \<and> (\<exists>t. \<not> cache_ReportRequired strat t key subKey v (sc_cache s))
    \<or> r = Inr True \<and> (\<exists>a t. svc_published s' = svc_published s @ [(a, msg\<lparr>pl_Service := svc_Name s\<rparr>)]
        \<and> sc_cache s' = cache_Reported t key subKey v (sc_cache s))"
  using send_built_outcome [OF assms [unfolded send_value_def]] by simp

text \<open>Sending a message publishes no event.\<close>

lemma svc_SendMessage_events:
  "svc_SendMessage fg m s = Some (r, s') \<Longrightarrow> ad_events (sc_ad s') = ad_events (sc_ad s) \<and> sc_spec s' = sc_spec s"
  by (cases "fg_NewAddressFromString fg (sv_Address (sc_spec s))")
    (auto simp: svc_SendMessage_def PublishServiceMessage_def mqtt_Publish_def act_bind_def act_wrap_def Let_def
      split: option.splits)

lemma send_value_events:
  assumes "send_value fg strat key subKey text v msg force s = Some (r, s')"
  shows "ad_events (sc_ad s') = ad_events (sc_ad s) \<and> sc_spec s' = sc_spec s"
proof -
  have "act_keeps (\<lambda>s'. ad_events (sc_ad s') = ad_events (sc_ad s) \<and> sc_spec s' = sc_spec s)
      (send_value fg strat key subKey text v msg force)"
    unfolding send_value_def send_built_def
    by (intro act_keeps_rules act_keeps_modify) (auto simp: act_keeps_def svc_now_def dest!: svc_SendMessage_events)
  from act_keepsD [OF this _ assms] show ?thesis by simp
qed

lemma on_dev_outcome:
  assumes "on_dev m s = Some (r, s')"
  shows "sc_cache s' = sc_cache s \<and> svc_published s' = svc_published s \<and> svc_Name s' = svc_Name s
    \<and> (\<exists>d. m (sc_dev s) = Some (r, d))"
  using assms by (auto simp: on_dev_def svc_published_def)

lemma send_reading_outcome:
  assumes "send_reading fg strat key subKey t1 t2 get val msg force s = Some (r, s')"
  shows "isl r \<and> svc_published s' = svc_published s \<and> sc_cache s' = sc_cache s
    \<or> r = Inr False \<and> \<not> force \<and> svc_published s' = svc_published s \<and> sc_cache s' = sc_cache s
        \<and> (\<exists>x d t. get (sc_dev s) = Some (Inr x, d) \<and> \<not> cache_ReportRequired strat t key subKey (val x) (sc_cache s))
    \<or> r = Inr True \<and> (\<exists>x d a t. get (sc_dev s) = Some (Inr x, d)
        \<and> svc_published s' = svc_published s @ [(a, (msg (svc_Name s) x)\<lparr>pl_Service := svc_Name s\<rparr>)]
        \<and> sc_cache s' = cache_Reported t key subKey (val x) (sc_cache s))"
proof -
  obtain r1 s1 where g: "on_dev get s = Some (r1, s1)"
    using assms by (cases "on_dev get s") (auto simp: send_reading_def with_svc_def)
  note o1 = on_dev_outcome [OF g]
  show ?thesis
  proof (cases r1)
    case (Inl e)
    then show ?thesis using assms g o1 by (auto simp: send_reading_def with_svc_def)
  next
    case (Inr x)
    then have "send_value fg strat key subKey t2 (val x) (msg (svc_Name s) x) force s1 = Some (r, s')"
      using assms g by (simp add: send_reading_def with_svc_def)
    from send_value_outcome [OF this] o1 Inr show ?thesis by auto
  qed
qed

text \<open>Methods that are built from quiet actions and \<^const>\<open>send_value\<close> keep the contract.\<close>

lemma report_op_built [report_rules]:
  assumes "subKey \<in> subKeys"
  shows "report_op (send_built fg strat key subKey text v build) key subKeys"
proof
  fix force s r s'
  assume "send_built fg strat key subKey text v build force s = Some (r, s')" "r \<noteq> Inr True"
  then show "svc_published s' = svc_published s \<and> sc_cache s' = sc_cache s"
    using send_built_outcome by blast
next
  fix force s s'
  assume run: "send_built fg strat key subKey text v build force s = Some (Inr True, s')"
  from send_built_outcome [OF run] show "\<exists>a m. svc_published s' = svc_published s @ [(a, m)]" by auto
  show "cache_lookup (sc_cache s') k j = cache_lookup (sc_cache s) k j" if "k \<noteq> key \<or> j \<notin> subKeys" for k j
    using send_built_outcome [OF run] that assms by auto
qed

lemma report_op_value [report_rules]:
  "subKey \<in> subKeys \<Longrightarrow> report_op (send_value fg strat key subKey text v msg) key subKeys"
  unfolding send_value_def by (rule report_op_built)

lemma report_op_bind [report_rules]:
  assumes "\<And>force. quiet (m force)" "\<And>x. report_op (f x) key subKeys"
  shows "report_op (\<lambda>force. act_bind (m force) (\<lambda>x. f x force)) key subKeys"
proof -
  have run: "\<exists>x s1. svc_published s1 = svc_published s \<and> sc_cache s1 = sc_cache s
      \<and> (f x force s1 = Some (r, s') \<or> isl r \<and> s' = s1)"
    if "act_bind (m force) (\<lambda>x. f x force) s = Some (r, s')" for force s r s'
    using that quietD [OF assms(1) [of force], of s]
    by (cases "m force s") (force simp: act_bind_def isl_def split: sum.splits)+
  show ?thesis
  proof
    fix force s r s'
    assume "act_bind (m force) (\<lambda>x. f x force) s = Some (r, s')" "r \<noteq> Inr True"
    then show "svc_published s' = svc_published s \<and> sc_cache s' = sc_cache s"
      using run report_op.not_sent [OF assms(2)] by metis
  next
    fix force s s'
    assume *: "act_bind (m force) (\<lambda>x. f x force) s = Some (Inr True, s')"
    then show "\<exists>a p. svc_published s' = svc_published s @ [(a, p)]"
      using run [OF *] report_op.is_sent [OF assms(2)] by (metis sum.disc(2))
    fix k j
    assume "k \<noteq> key \<or> j \<notin> subKeys"
    then show "cache_lookup (sc_cache s') k j = cache_lookup (sc_cache s) k j"
      using run [OF *] report_op.marks [OF assms(2)] by (metis sum.disc(2))
  qed
qed

lemma report_op_with_svc [report_rules]:
  assumes "\<And>s. report_op (f s) key subKeys"
  shows "report_op (\<lambda>force. with_svc (\<lambda>s. f s force)) key subKeys"
  using report_op.not_sent [OF assms] report_op.is_sent [OF assms] report_op.marks [OF assms]
  by unfold_locales (simp_all add: with_svc_def)

lemma report_op_none [report_rules]:
  "report_op (\<lambda>force. act_fail e) key subKeys" "report_op (\<lambda>force. act_return False) key subKeys"
  by (unfold_locales; simp)+

lemma report_op_if [report_rules]:
  "report_op f key subKeys \<Longrightarrow> report_op g key subKeys \<Longrightarrow> report_op (\<lambda>force. if b then f force else g force) key subKeys"
  by (cases b) simp_all

text \<open>An event that announces what was done with the report.\<close>

lemma report_op_event [report_rules]:
  assumes "report_op f key subKeys"
  shows "report_op (\<lambda>force. act_bind (f force) (\<lambda>b. act_bind (svc_PublishEvent (ev b)) (\<lambda>_. act_return b))) key subKeys"
proof -
  have run: "\<exists>s1. f force s = Some (r, s1) \<and> svc_published s' = svc_published s1 \<and> sc_cache s' = sc_cache s1"
    if "act_bind (f force) (\<lambda>b. act_bind (svc_PublishEvent (ev b)) (\<lambda>_. act_return b)) s = Some (r, s')"
    for force s r s'
    using that by (cases "f force s")
      (auto simp: act_bind_def svc_PublishEvent_def PublishServiceEvent_def PublishEvent_def svc_published_def split: sum.splits)
  show ?thesis
  proof
    fix force s r s'
    assume "act_bind (f force) (\<lambda>b. act_bind (svc_PublishEvent (ev b)) (\<lambda>_. act_return b)) s = Some (r, s')"
    from run [OF this] obtain s1 where s1: "f force s = Some (r, s1)"
      "svc_published s' = svc_published s1" "sc_cache s' = sc_cache s1" by blast
    assume "r \<noteq> Inr True"
    from report_op.not_sent [OF assms s1(1) this] s1(2,3) show "svc_published s' = svc_published s \<and> sc_cache s' = sc_cache s" by simp
  next
    fix force s s'
    assume "act_bind (f force) (\<lambda>b. act_bind (svc_PublishEvent (ev b)) (\<lambda>_. act_return b)) s = Some (Inr True, s')"
    from run [OF this] obtain s1 where s1: "f force s = Some (Inr True, s1)"
      "svc_published s' = svc_published s1" "sc_cache s' = sc_cache s1" by blast
    from report_op.is_sent [OF assms s1(1)] s1(2) show "\<exists>a p. svc_published s' = svc_published s @ [(a, p)]" by simp
    show "cache_lookup (sc_cache s') k j = cache_lookup (sc_cache s) k j" if "k \<noteq> key \<or> j \<notin> subKeys" for k j
      using report_op.marks [OF assms s1(1) that] s1(3) by simp
  qed
qed

text \<open>Those that are sent whenever they are forced.\<close>

definition forces :: "(bool \<Rightarrow> ('d, bool) svc_act) \<Rightarrow> bool" where
  "forces f \<longleftrightarrow> (\<forall>s r s'. f True s = Some (r, s') \<longrightarrow> r \<noteq> Inr False)"

named_theorems forces_rules \<open>reports that are sent when they are forced\<close>

lemma forces_value [forces_rules]:
  "forces (send_built fg strat key subKey text v build)" "forces (send_value fg strat key subKey text v msg)"
  unfolding forces_def by (auto dest!: send_built_outcome send_value_outcome)

lemma forces_bind [forces_rules]: "(\<And>x. forces (f x)) \<Longrightarrow> forces (\<lambda>force. act_bind (m force) (\<lambda>x. f x force))"
  by (auto simp: forces_def act_bind_def split: option.splits sum.splits)

lemma forces_required:
  "forces f \<Longrightarrow> forces (\<lambda>force. act_bind (if force then act_return True else m) (\<lambda>req. if \<not> req then act_return False else f force))"
  by (simp add: forces_def)

lemma forces_with_svc [forces_rules]: "(\<And>s. forces (f s)) \<Longrightarrow> forces (\<lambda>force. with_svc (\<lambda>s. f s force))"
  by (auto simp: forces_def with_svc_def)

lemma forces_fail [forces_rules]: "forces (\<lambda>force. act_fail e)"
  by (simp add: forces_def)

lemma forces_if [forces_rules]: "forces f \<Longrightarrow> forces g \<Longrightarrow> forces (\<lambda>force. if b then f force else g force)"
  by (cases b) simp_all

lemma forces_event [forces_rules]:
  "forces f \<Longrightarrow> forces (\<lambda>force. act_bind (f force) (\<lambda>b. act_bind (svc_PublishEvent (ev b)) (\<lambda>_. act_return b)))"
  by (fastforce simp: forces_def act_bind_def svc_PublishEvent_def PublishServiceEvent_def PublishEvent_def
      split: option.splits sum.splits)

lemma forced_reportI: "report_op f key subKeys \<Longrightarrow> forces f \<Longrightarrow> forced_report f key subKeys"
  by (auto simp: forced_report_def forced_report_axioms_def forces_def)

lemma forced_reportD:
  assumes "forced_report f key subKeys"
  shows "report_op f key subKeys" "forces f"
  using assms by (auto simp: forced_report_def forced_report_axioms_def forces_def)

lemma report_op_reading [report_rules]:
  "subKey \<in> subKeys \<Longrightarrow> report_op (send_reading fg strat key subKey t1 t2 get val msg) key subKeys"
  unfolding send_reading_def by (intro report_rules quiet_rules)

lemma forces_reading [forces_rules]: "forces (send_reading fg strat key subKey t1 t2 get val msg)"
  unfolding send_reading_def by (intro forces_rules)

lemma report_op_report [report_rules]:
  "subKey \<in> subKeys \<Longrightarrow> report_op (send_report fg strat key subKey t1 t2 get val msg) key subKeys"
  unfolding send_report_def by (intro report_rules)

lemma forces_report [forces_rules]: "forces (send_report fg strat key subKey t1 t2 get val msg)"
  unfolding send_report_def by (intro forces_rules)

section \<open>Reports that show the value itself\<close>

text \<open>
  A run of a service in which its device changes by itself at any time and the report is sent now and then,
  forced or not; it may fail.
\<close>

inductive report_run :: "(bool \<Rightarrow> ('d, bool) svc_act) \<Rightarrow> 'd svc \<Rightarrow> 'd svc \<Rightarrow> bool"
  for send s0 where
  start: "report_run send s0 s0"
| device: "report_run send s0 s \<Longrightarrow> report_run send s0 (s\<lparr>sc_dev := d\<rparr>)"
| report: "report_run send s0 s \<Longrightarrow> send force s = Some (r, s') \<Longrightarrow> report_run send s0 s'"

text \<open>
  \<open>reading s\<close> is what the controller reports. Where the value of the message is the value that is cached and
  reports are sent on change (\<open>shown\<close> and \<open>plain\<close>), the last message that was published shows the value that the device
  had at the last report that did not fail.
\<close>

locale plain_report = forced_report send key "{subKey}"
  for send :: "bool \<Rightarrow> ('d, bool) svc_act" and key subKey :: string +
  fixes reading :: "'d svc \<Rightarrow> fimp_value option" and shown plain :: bool
  assumes plain_shown: "plain \<Longrightarrow> shown"
    and sent_value: "shown \<Longrightarrow> send force s = Some (Inr True, s') \<Longrightarrow>
      \<exists>a m t. svc_published s' = svc_published s @ [(a, m)] \<and> reading s = Some (pl_Value m)
        \<and> sc_cache s' = cache_Reported t key subKey (pl_Value m) (sc_cache s)"
    and skipped_value: "plain \<Longrightarrow> send force s = Some (Inr False, s') \<Longrightarrow>
      \<exists>cv. cache_lookup (sc_cache s) key subKey = Some cv \<and> reading s = Some (cv_value cv)"
begin

lemma run_cached:
  assumes "plain" "report_run send s0 s" "cache_lookup (sc_cache s0) key subKey = None"
  shows "\<exists>ms. svc_published s = svc_published s0 @ ms \<and>
    (case cache_lookup (sc_cache s) key subKey of
       None \<Rightarrow> ms = [] | Some cv \<Rightarrow> ms \<noteq> [] \<and> pl_Value (snd (last ms)) = cv_value cv)"
  using assms(2)
proof (induction rule: report_run.induct)
  case start
  then show ?case using assms(3) by simp
next
  case (device s d)
  then show ?case by (simp add: svc_published_def)
next
  case (report s force r s')
  show ?case
  proof (cases "r = Inr True")
    case True
    with sent_value [OF plain_shown [OF assms(1)], of force s s'] report show ?thesis by fastforce
  next
    case False
    with not_sent [OF report.hyps(2)] report.IH show ?thesis by simp
  qed
qed

lemma in_sync:
  assumes "plain" "report_run send s0 s" "cache_lookup (sc_cache s0) key subKey = None"
    and "send force s = Some (Inr b, s')"
  shows "\<exists>ms. svc_published s' = svc_published s0 @ ms \<and> ms \<noteq> [] \<and> reading s = Some (pl_Value (snd (last ms)))"
proof -
  obtain ms where ms: "svc_published s = svc_published s0 @ ms"
      "case cache_lookup (sc_cache s) key subKey of
        None \<Rightarrow> ms = [] | Some cv \<Rightarrow> ms \<noteq> [] \<and> pl_Value (snd (last ms)) = cv_value cv"
    using run_cached [OF assms(1-3)] by blast
  show ?thesis
  proof (cases b)
    case True
    then obtain a m where "svc_published s' = svc_published s @ [(a, m)]" "reading s = Some (pl_Value m)"
      using sent_value [OF plain_shown [OF assms(1)], of force s s'] assms(4) by auto
    with ms show ?thesis by (intro exI [of _ "ms @ [(a, m)]"]) simp
  next
    case False
    then have "send force s = Some (Inr False, s')" using assms(4) by simp
    with skipped_value [OF assms(1)] not_sent [of force s "Inr False" s'] ms show ?thesis by fastforce
  qed
qed

text \<open>
  A command: the value of the message, a call of the controller that sets it, and the forced report. If it
  succeeds, the controller was given the value, and the one message that was published shows what the
  controller reports afterwards.
\<close>

lemma confirms:
  assumes "shown" "act_bind (act_wrap t1 (act_result v)) (\<lambda>x. act_bind (act_wrap t2 (control t3 (setv x))) (\<lambda>_. answer t4 send)) s
      = Some (Inr (), s')"
  shows "\<exists>x d a m. v = Inr x \<and> setv x (sc_dev s) = Some (Inr (), d) \<and> reading (s\<lparr>sc_dev := d\<rparr>) = Some (pl_Value m)
    \<and> svc_published s' = svc_published s @ [(a, m)]"
proof -
  obtain x where x: "v = Inr x" using assms(2) by (cases v) auto
  obtain s1 where s1: "control t3 (setv x) s = Some (Inr (), s1)"
    and ans: "answer t4 send s1 = Some (Inr (), s')"
    using assms(2) x by (cases "control t3 (setv x) s") (auto simp: act_bind_def act_wrap_def split: sum.splits)
  obtain d where d: "setv x (sc_dev s) = Some (Inr (), d)" "s1 = s\<lparr>sc_dev := d\<rparr>"
    using s1 by (cases "setv x (sc_dev s)") (auto simp: control_def with_svc_def on_dev_def act_wrap_def wrap_err_def split: sum.splits)
  obtain b where sent: "send True s1 = Some (Inr b, s')"
    using ans by (cases "send True s1") (auto simp: answer_def act_bind_def act_wrap_def wrap_err_def split: sum.splits)
  then have "send True s1 = Some (Inr True, s')" using forced_sends [OF sent] by simp
  from sent_value [OF assms(1) this] obtain a m where
    "svc_published s' = svc_published s1 @ [(a, m)]" "reading s1 = Some (pl_Value m)" by blast
  with x d show ?thesis by (auto simp: svc_published_def)
qed

end


definition dev_reading :: "('d, 'x) act \<Rightarrow> ('x \<Rightarrow> fimp_value) \<Rightarrow> 'd svc \<Rightarrow> fimp_value option" where
  "dev_reading get val s = (case get (sc_dev s) of Some (Inr x, d) \<Rightarrow> Some (val x) | _ \<Rightarrow> None)"

lemma send_reading_plain:
  assumes "\<And>name x. shown \<Longrightarrow> pl_Value (msg name x) = val x" "plain \<Longrightarrow> shown \<and> strat = ReportOnChangeOnly"
  shows "plain_report (send_reading fg strat key subKey t1 t2 get val msg) key subKey
    (dev_reading get val) shown plain"
proof (intro plain_report.intro plain_report_axioms.intro)
  show "forced_report (send_reading fg strat key subKey t1 t2 get val msg) key {subKey}"
    by (intro forced_reportI report_rules forces_rules singletonI)
next
  show "plain \<Longrightarrow> shown" using assms(2) by blast
next
  fix force s s'
  assume shown and "send_reading fg strat key subKey t1 t2 get val msg force s = Some (Inr True, s')"
  from send_reading_outcome [OF this(2)] assms(1) [OF this(1)]
  show "\<exists>a m t. svc_published s' = svc_published s @ [(a, m)]
      \<and> dev_reading get val s = Some (pl_Value m)
      \<and> sc_cache s' = cache_Reported t key subKey (pl_Value m) (sc_cache s)"
    by (fastforce simp: dev_reading_def)
next
  fix force s s'
  assume plain and "send_reading fg strat key subKey t1 t2 get val msg force s = Some (Inr False, s')"
  from send_reading_outcome [OF this(2)] assms(2) [OF this(1)]
  show "\<exists>cv. cache_lookup (sc_cache s) key subKey = Some cv
      \<and> dev_reading get val s = Some (cv_value cv)"
    by (auto simp: dev_reading_def cache_ReportRequired_def ReportOnChangeOnly_def value_hasChanged_def split: option.splits)
qed

lemma plain_report_with_svc:
  assumes "\<And>s. plain_report (f s) key subKey rd shown plain"
  shows "plain_report (\<lambda>force. with_svc (\<lambda>s. f s force)) key subKey rd shown plain"
  using forced_reportD [OF plain_report.axioms(1) [OF assms]] plain_report.plain_shown [OF assms] plain_report.sent_value [OF assms] plain_report.skipped_value [OF assms]
  by (intro plain_report.intro plain_report_axioms.intro forced_reportI report_rules forces_rules) (simp_all add: with_svc_def)

lemma send_report_plain:
  assumes "\<And>name x. shown \<Longrightarrow> pl_Value (msg name x) = val x" "plain \<Longrightarrow> shown \<and> strat = ReportOnChangeOnly"
  shows "plain_report (send_report fg strat key subKey t1 t2 get val msg) key subKey
    (dev_reading get val) shown plain"
  unfolding send_report_def by (intro plain_report_with_svc send_reading_plain assms)

text \<open>A report behind the lookup of a capability of the controller.\<close>

lemma plain_report_guarded:
  assumes "\<And>s x. plain_report (f x) key subKey (rd x) shown plain"
  shows "plain_report (\<lambda>force. with_svc (\<lambda>s. act_bind (act_result (g (sc_spec s))) (\<lambda>x. f x force))) key subKey
    (\<lambda>s. case g (sc_spec s) of Inl _ \<Rightarrow> None | Inr x \<Rightarrow> rd x s) shown plain"
proof (intro plain_report.intro plain_report_axioms.intro)
  show "forced_report (\<lambda>force. with_svc (\<lambda>s. act_bind (act_result (g (sc_spec s))) (\<lambda>x. f x force))) key {subKey}"
    by (intro forced_reportI report_rules forces_rules quiet_rules forced_reportD [OF plain_report.axioms(1) [OF assms]])
next
  show "plain \<Longrightarrow> shown" by (rule plain_report.plain_shown [OF assms])
next
  fix force s s'
  assume shown and "with_svc (\<lambda>s. act_bind (act_result (g (sc_spec s))) (\<lambda>x. f x force)) s = Some (Inr True, s')"
  then show "\<exists>a m t. svc_published s' = svc_published s @ [(a, m)]
      \<and> (case g (sc_spec s) of Inl _ \<Rightarrow> None | Inr x \<Rightarrow> rd x s) = Some (pl_Value m)
      \<and> sc_cache s' = cache_Reported t key subKey (pl_Value m) (sc_cache s)"
    using plain_report.sent_value [OF assms] by (cases "g (sc_spec s)") (auto simp: with_svc_def)
next
  fix force s s'
  assume plain and "with_svc (\<lambda>s. act_bind (act_result (g (sc_spec s))) (\<lambda>x. f x force)) s = Some (Inr False, s')"
  then show "\<exists>cv. cache_lookup (sc_cache s) key subKey = Some cv
      \<and> (case g (sc_spec s) of Inl _ \<Rightarrow> None | Inr x \<Rightarrow> rd x s) = Some (cv_value cv)"
    using plain_report.skipped_value [OF assms] by (cases "g (sc_spec s)") (auto simp: with_svc_def)
qed

section \<open>Handlers that succeed\<close>

lemma svc_handler_success:
  assumes "svc_handler body msg w = Some (Inr reply, w')"
  obtains a s s' where "getService msg w = Some (Inr a, w)" "wd_svcs w a = Some s"
    "body msg (s\<lparr>sc_ad := wd_ad w\<rparr>) = Some (Inr (), s')" "wd_ad w' = sc_ad s'" "reply = None"
proof -
  obtain a where a: "getService msg w = Some (Inr a, w)"
    using assms by (auto simp: svc_handler_def act_bind_def getService_def split: option.splits if_splits)
  then show thesis
    using assms that
    by (cases "wd_svcs w a")
      (auto simp: svc_handler_def act_bind_def on_svc_def split: option.splits sum.splits)
qed

text \<open>A command that was handled, through the registry: \<open>confirms\<close> of the report it ends with.\<close>

lemma handler_confirms:
  assumes "plain_report send key subKey reading shown plain" shown
    and "svc_handler (\<lambda>msg. act_bind (act_wrap t1 (act_result (v msg))) (\<lambda>x.
      act_bind (act_wrap t2 (control t3 (setv x))) (\<lambda>_. answer t4 send))) msg w = Some (Inr reply, w')"
  shows "\<exists>a s x d t m. getService msg w = Some (Inr a, w) \<and> wd_svcs w a = Some s \<and> v msg = Inr x
    \<and> setv x (sc_dev s) = Some (Inr (), d) \<and> reading (s\<lparr>sc_dev := d, sc_ad := wd_ad w\<rparr>) = Some (pl_Value m)
    \<and> ad_published (wd_ad w') = ad_published (wd_ad w) @ [(t, m)]"
proof (rule svc_handler_success [OF assms(3)])
  fix a s s'
  assume *: "getService msg w = Some (Inr a, w)" "wd_svcs w a = Some s" "wd_ad w' = sc_ad s'"
    and run: "act_bind (act_wrap t1 (act_result (v msg))) (\<lambda>x. act_bind (act_wrap t2 (control t3 (setv x)))
      (\<lambda>_. answer t4 send)) (s\<lparr>sc_ad := wd_ad w\<rparr>) = Some (Inr (), s')"
  from plain_report.confirms [OF assms(1,2) run] obtain x d t m where
    "v msg = Inr x" "setv x (sc_dev s) = Some (Inr (), d)" "reading (s\<lparr>sc_ad := wd_ad w, sc_dev := d\<rparr>) = Some (pl_Value m)"
    "svc_published s' = ad_published (wd_ad w) @ [(t, m)]"
    by (auto simp: svc_published_def)
  moreover have "s\<lparr>sc_ad := wd_ad w, sc_dev := d\<rparr> = s\<lparr>sc_dev := d, sc_ad := wd_ad w\<rparr>" by simp
  ultimately show ?thesis using * by (metis svc_published_def)
qed

section \<open>A world with one service\<close>

definition demo_svc_spec :: "string \<Rightarrow> (string \<times> fimp_value) list \<Rightarrow> service_spec" where
  "demo_svc_spec name props = service_Specification name ''zw'' ''1'' ''2'' [] props []"

definition demo_world :: "service_spec \<Rightarrow> 'd \<Rightarrow> 'd svc_world" where
  "demo_world spec d =
     (let a = (demo_adapter (\<lambda>_. None))\<lparr>ad_things := [(''1'', (demo_thing ''x'')\<lparr>th_services := [(sv_Address spec, spec)]\<rparr>)]\<rparr>
      in \<lparr>wd_ad = a, wd_svcs = (\<lambda>x. if x = sv_Address spec then Some (svc_New spec d a int) else None)\<rparr>)"

definition demo_command :: "service_spec \<Rightarrow> fimp_value \<Rightarrow> message" where
  "demo_command spec v =
     \<lparr>ms_Topic = ''pt:j1/mt:cmd'' @ sv_Address spec, ms_Addr = demo_address,
      ms_Payload = demo_NewMessage ''cmd'' (sv_Name spec) ''any'' v [] None\<rparr>"

lemma demo_getService: "getService (demo_command spec v) (demo_world spec d) = Some (Inr (sv_Address spec), demo_world spec d)"
  by (simp add: getService_def demo_world_def demo_command_def adapter_ServiceByTopic_def thing_ServiceByTopic_def
      HasSuffix_def Let_def)

lemma demo_svcs_inv: "I d \<Longrightarrow> svcs_inv (\<lambda>_. spec) I (demo_world spec d)"
  by (simp add: svcs_inv_def demo_world_def Let_def dev_inv_def svc_New_def)

lemma demo_unpublished [simp]: "ad_published (demo_adapter f) = []"
  by (simp add: demo_adapter_def NewAdapter_def adapter_state.defs)

end
