(* ===== verification/Chargepoint.thy ===== *)
theory Chargepoint
  imports Device_Service
begin

text \<open>
  The chargepoint service, \<^verbatim>\<open>src/adapter/service/chargepoint\<close>: model, specification, service, handlers
  and reporting task. An optional interface of the controller that the code asks for by a type assertion is
  an optional field of the record \<open>chargepoint_controller\<close>.
\<close>

section \<open>Model (\<^verbatim>\<open>model.go\<close>)\<close>

definition PropertySupportedStates :: string where "PropertySupportedStates = ''sup_states''"
definition PropertySupportedChargingModes :: string where "PropertySupportedChargingModes = ''sup_charging_modes''"
definition PropertyChargingMode :: string where "PropertyChargingMode = ''charging_mode''"
definition PropertyPreviousSession :: string where "PropertyPreviousSession = ''previous_session''"
definition PropertyStartedAt :: string where "PropertyStartedAt = ''started_at''"
definition PropertyFinishedAt :: string where "PropertyFinishedAt = ''finished_at''"
definition PropertyOfferedCurrent :: string where "PropertyOfferedCurrent = ''offered_current''"
definition PropertyCableCurrent :: string where "PropertyCableCurrent = ''cable_current''"
definition PropertySupportedMaxCurrent :: string where "PropertySupportedMaxCurrent = ''sup_max_current''"
definition PropertySupportedPhaseModes :: string where "PropertySupportedPhaseModes = ''sup_phase_modes''"
definition PropertyGridType :: string where "PropertyGridType = ''grid_type''"
definition PropertyPhases :: string where "PropertyPhases = ''phases''"

record cable_report =
  cb_CableLock :: bool
  cb_CableCurrent :: "int option"

definition cable_reportProperties :: "cable_report \<Rightarrow> properties" where
  "cable_reportProperties r =
     (case cb_CableCurrent r of None \<Rightarrow> [] | Some c \<Rightarrow> [(PropertyCableCurrent, Itoa c)])"

record session_report =
  se_SessionEnergy :: rat
  se_PreviousSessionEnergy :: rat
  se_StartedAt :: time
  se_FinishedAt :: time
  se_OfferedCurrent :: int

text \<open>The RFC 3339 format of an instant is an argument.\<close>

definition session_reportProperties :: "(time \<Rightarrow> string) \<Rightarrow> bool \<Rightarrow> session_report \<Rightarrow> properties" where
  "session_reportProperties RFC3339 supportsAdjustingCurrent r =
     (if se_PreviousSessionEnergy r > 0
      then [(PropertyPreviousSession, FormatFloat 2 (se_PreviousSessionEnergy r))] else [])
   @ (if \<not> is_zero (se_StartedAt r) then [(PropertyStartedAt, RFC3339 (se_StartedAt r))] else [])
   @ (if \<not> is_zero (se_FinishedAt r) then [(PropertyFinishedAt, RFC3339 (se_FinishedAt r))] else [])
   @ (if supportsAdjustingCurrent then [(PropertyOfferedCurrent, Itoa (se_OfferedCurrent r))] else [])"

text \<open>The cached values of the reports that are structures.\<close>

definition cable_value :: "cable_report \<Rightarrow> fimp_value" where
  "cable_value r =
     VObject [(''CableLock'', VBool (cb_CableLock r)),
              (''CableCurrent'', case cb_CableCurrent r of None \<Rightarrow> VNull | Some c \<Rightarrow> VInt c)]"

definition session_value :: "session_report \<Rightarrow> fimp_value" where
  "session_value r =
     VObject [(''SessionEnergy'', VFloat (se_SessionEnergy r)), (''PreviousSessionEnergy'', VFloat (se_PreviousSessionEnergy r)),
              (''StartedAt'', VInt (se_StartedAt r)), (''FinishedAt'', VInt (se_FinishedAt r)),
              (''OfferedCurrent'', VInt (se_OfferedCurrent r))]"

section \<open>Specification (\<^verbatim>\<open>specification.go\<close>)\<close>

definition CmdChargeStart :: string where "CmdChargeStart = ''cmd.charge.start''"
definition CmdChargeStop :: string where "CmdChargeStop = ''cmd.charge.stop''"
definition CmdStateGetReport :: string where "CmdStateGetReport = ''cmd.state.get_report''"
definition EvtStateReport :: string where "EvtStateReport = ''evt.state.report''"
definition CmdCableLockSet :: string where "CmdCableLockSet = ''cmd.cable_lock.set''"
definition CmdCableLockGetReport :: string where "CmdCableLockGetReport = ''cmd.cable_lock.get_report''"
definition EvtCableLockReport :: string where "EvtCableLockReport = ''evt.cable_lock.report''"
definition CmdCurrentSessionGetReport :: string where "CmdCurrentSessionGetReport = ''cmd.current_session.get_report''"
definition EvtCurrentSessionReport :: string where "EvtCurrentSessionReport = ''evt.current_session.report''"
definition CmdCurrentSessionSetCurrent :: string where "CmdCurrentSessionSetCurrent = ''cmd.current_session.set_current''"
definition CmdMaxCurrentSet :: string where "CmdMaxCurrentSet = ''cmd.max_current.set''"
definition CmdMaxCurrentGetReport :: string where "CmdMaxCurrentGetReport = ''cmd.max_current.get_report''"
definition EvtMaxCurrentReport :: string where "EvtMaxCurrentReport = ''evt.max_current.report''"
definition CmdPhaseModeSet :: string where "CmdPhaseModeSet = ''cmd.phase_mode.set''"
definition CmdPhaseModeGetReport :: string where "CmdPhaseModeGetReport = ''cmd.phase_mode.get_report''"
definition EvtPhaseModeReport :: string where "EvtPhaseModeReport = ''evt.phase_mode.report''"
definition Chargepoint_name :: string where "Chargepoint_name = ''chargepoint''"

definition WithChargingModes :: "string list \<Rightarrow> service_spec \<Rightarrow> service_spec" where
  "WithChargingModes modes = set_prop PropertySupportedChargingModes (VList (map VString modes))"

definition WithSupportedMaxCurrent :: "int \<Rightarrow> service_spec \<Rightarrow> service_spec" where
  "WithSupportedMaxCurrent current = set_prop PropertySupportedMaxCurrent (VInt current)"

definition WithSupportedPhaseModes :: "phase_mode list \<Rightarrow> service_spec \<Rightarrow> service_spec" where
  "WithSupportedPhaseModes modes = set_prop PropertySupportedPhaseModes (VList (map VString modes))"

definition WithGridType :: "grid_type \<Rightarrow> service_spec \<Rightarrow> service_spec" where
  "WithGridType gridType = set_prop PropertyGridType (VString gridType)"

definition WithPhases :: "int \<Rightarrow> service_spec \<Rightarrow> service_spec" where
  "WithPhases phases = set_prop PropertyPhases (VInt phases)"

definition cp_requiredInterfaces :: "fimpgo \<Rightarrow> interface list" where
  "cp_requiredInterfaces fg =
     [iface (fg_TypeIn fg) CmdChargeStart (fg_VTypeNull fg),
      iface (fg_TypeIn fg) CmdChargeStop (fg_VTypeNull fg),
      iface (fg_TypeIn fg) CmdStateGetReport (fg_VTypeNull fg),
      iface (fg_TypeOut fg) EvtStateReport (fg_VTypeString fg),
      iface (fg_TypeIn fg) CmdCurrentSessionGetReport (fg_VTypeNull fg),
      iface (fg_TypeOut fg) EvtCurrentSessionReport (fg_VTypeFloat fg),
      iface (fg_TypeOut fg) EvtErrorReport (fg_VTypeString fg)]"

definition adjustableCableLockInterfaces :: "fimpgo \<Rightarrow> interface list" where
  "adjustableCableLockInterfaces fg =
     [iface (fg_TypeIn fg) CmdCableLockSet (fg_VTypeBool fg),
      iface (fg_TypeIn fg) CmdCableLockGetReport (fg_VTypeNull fg),
      iface (fg_TypeOut fg) EvtCableLockReport (fg_VTypeBool fg)]"

definition cableLockAwareInterfaces :: "fimpgo \<Rightarrow> interface list" where
  "cableLockAwareInterfaces fg =
     [iface (fg_TypeIn fg) CmdCableLockGetReport (fg_VTypeNull fg),
      iface (fg_TypeOut fg) EvtCableLockReport (fg_VTypeBool fg)]"

definition adjustableMaxCurrentInterfaces :: "fimpgo \<Rightarrow> interface list" where
  "adjustableMaxCurrentInterfaces fg =
     [iface (fg_TypeIn fg) CmdMaxCurrentSet (fg_VTypeInt fg),
      iface (fg_TypeIn fg) CmdMaxCurrentGetReport (fg_VTypeNull fg),
      iface (fg_TypeOut fg) EvtMaxCurrentReport (fg_VTypeInt fg)]"

definition adjustablePhaseModeInterfaces :: "fimpgo \<Rightarrow> interface list" where
  "adjustablePhaseModeInterfaces fg = [iface (fg_TypeIn fg) CmdPhaseModeSet (fg_VTypeString fg)]"

definition phaseModeAwareInterfaces :: "fimpgo \<Rightarrow> interface list" where
  "phaseModeAwareInterfaces fg =
     [iface (fg_TypeIn fg) CmdPhaseModeGetReport (fg_VTypeNull fg),
      iface (fg_TypeOut fg) EvtPhaseModeReport (fg_VTypeString fg)]"

definition adjustableOfferedCurrentInterfaces :: "fimpgo \<Rightarrow> interface list" where
  "adjustableOfferedCurrentInterfaces fg = [iface (fg_TypeIn fg) CmdCurrentSessionSetCurrent (fg_VTypeInt fg)]"

definition cp_Specification ::
  "fimpgo \<Rightarrow> string \<Rightarrow> string \<Rightarrow> string \<Rightarrow> string list \<Rightarrow> string list \<Rightarrow> (service_spec \<Rightarrow> service_spec) list \<Rightarrow> service_spec" where
  "cp_Specification fg resourceName resourceAddress address groups supportedStates options =
     foldl (\<lambda>s f. f s)
       (service_Specification Chargepoint_name resourceName resourceAddress address groups
          [(PropertySupportedStates, VList (map VString supportedStates))] (cp_requiredInterfaces fg))
       options"

section \<open>Controller and service (\<^verbatim>\<open>service.go\<close>)\<close>

record 'd chargepoint_controller =
  cc_StartCharging :: "string \<Rightarrow> ('d, unit) act"                \<comment> \<open>\<^verbatim>\<open>ChargingSettings\<close> is its field \<^verbatim>\<open>Mode\<close>\<close>
  cc_StopCharging :: "('d, unit) act"
  cc_CurrentSessionReport :: "('d, session_report) act"
  cc_StateReport :: "('d, string) act"
  cc_MaxCurrent :: "((int \<Rightarrow> ('d, unit) act) \<times> ('d, int) act) option"   \<comment> \<open>set and report\<close>
  cc_SetOfferedCurrent :: "(int \<Rightarrow> ('d, unit) act) option"
  cc_PhaseModeReport :: "('d, phase_mode) act option"
  cc_SetPhaseMode :: "(phase_mode \<Rightarrow> ('d, unit) act) option"
  cc_CableLockReport :: "('d, cable_report) act option"
  cc_SetCableLock :: "(bool \<Rightarrow> ('d, unit) act) option"

record 'd cp_config =
  cp_fimpgo :: fimpgo
  cp_controller :: "'d chargepoint_controller"
  cp_stateStrategy :: strategy
  cp_sessionStrategy :: strategy
  cp_RFC3339 :: "time \<Rightarrow> string"

definition DefaultStateReportingStrategy :: strategy where
  "DefaultStateReportingStrategy = ReportOnChangeOnly"

definition DefaultSessionReportingStrategy :: strategy where
  "DefaultSessionReportingStrategy = ReportAtLeastEvery (30 * 60 * 1000000000)"

definition not_supported :: "string \<Rightarrow> string \<Rightarrow> 'a result" where
  "not_supported name what = Inl (Errorf (name @ '': '' @ what @ '' is not supported''))"

definition adjustableMaxCurrentController ::
  "'d cp_config \<Rightarrow> service_spec \<Rightarrow> ((int \<Rightarrow> ('d, unit) act) \<times> ('d, int) act) result" where
  "adjustableMaxCurrentController c spec =
     (if fg_PropertyInteger (cp_fimpgo c) spec PropertySupportedMaxCurrent = None
      then not_supported (sv_Name spec) ''adjusting max current''
      else case cc_MaxCurrent (cp_controller c) of
             None \<Rightarrow> not_supported (sv_Name spec) ''adjusting max current''
           | Some ctl \<Rightarrow> Inr ctl)"

definition adjustableOfferedCurrentController ::
  "'d cp_config \<Rightarrow> service_spec \<Rightarrow> (int \<Rightarrow> ('d, unit) act) result" where
  "adjustableOfferedCurrentController c spec =
     (if fg_PropertyInteger (cp_fimpgo c) spec PropertySupportedMaxCurrent = None
      then not_supported (sv_Name spec) ''adjusting offered current''
      else case cc_SetOfferedCurrent (cp_controller c) of
             None \<Rightarrow> not_supported (sv_Name spec) ''adjusting offered current''
           | Some ctl \<Rightarrow> Inr ctl)"

definition phaseModeAwareController :: "'d cp_config \<Rightarrow> service_spec \<Rightarrow> ('d, phase_mode) act result" where
  "phaseModeAwareController c spec =
     (if fg_PropertyStrings (cp_fimpgo c) spec PropertySupportedPhaseModes = []
      then not_supported (sv_Name spec) ''aware phase modes''
      else case cc_PhaseModeReport (cp_controller c) of
             None \<Rightarrow> not_supported (sv_Name spec) ''aware phase modes''
           | Some ctl \<Rightarrow> Inr ctl)"

definition adjustablePhaseModeController ::
  "'d cp_config \<Rightarrow> service_spec \<Rightarrow> (phase_mode \<Rightarrow> ('d, unit) act) result" where
  "adjustablePhaseModeController c spec =
     bind_result (phaseModeAwareController c spec) (\<lambda>_.
     case cc_SetPhaseMode (cp_controller c) of
       None \<Rightarrow> not_supported (sv_Name spec) ''adjusting phase modes''
     | Some ctl \<Rightarrow> Inr ctl)"

definition cableLockAwareController :: "'d cp_config \<Rightarrow> service_spec \<Rightarrow> ('d, cable_report) act result" where
  "cableLockAwareController c spec =
     (case cc_CableLockReport (cp_controller c) of
        None \<Rightarrow> not_supported (sv_Name spec) ''aware cable lock''
      | Some ctl \<Rightarrow> Inr ctl)"

definition adjustableCableLockController ::
  "'d cp_config \<Rightarrow> service_spec \<Rightarrow> (bool \<Rightarrow> ('d, unit) act) result" where
  "adjustableCableLockController c spec =
     bind_result (cableLockAwareController c spec) (\<lambda>_.
     case cc_SetCableLock (cp_controller c) of
       None \<Rightarrow> not_supported (sv_Name spec) ''adjusting cable lock''
     | Some ctl \<Rightarrow> Inr ctl)"

definition SupportedStates :: "'d cp_config \<Rightarrow> service_spec \<Rightarrow> string list" where
  "SupportedStates c spec = fg_PropertyStrings (cp_fimpgo c) spec PropertySupportedStates"

definition SupportsAdjustingMaxCurrent :: "'d cp_config \<Rightarrow> service_spec \<Rightarrow> bool" where
  "SupportsAdjustingMaxCurrent c spec \<longleftrightarrow> \<not> isl (adjustableMaxCurrentController c spec)"

definition SupportsAdjustingOfferedCurrent :: "'d cp_config \<Rightarrow> service_spec \<Rightarrow> bool" where
  "SupportsAdjustingOfferedCurrent c spec \<longleftrightarrow> \<not> isl (adjustableOfferedCurrentController c spec)"

definition SupportsAdjustingPhaseModes :: "'d cp_config \<Rightarrow> service_spec \<Rightarrow> bool" where
  "SupportsAdjustingPhaseModes c spec \<longleftrightarrow> \<not> isl (adjustablePhaseModeController c spec)"

definition IsPhaseModeAware :: "'d cp_config \<Rightarrow> service_spec \<Rightarrow> bool" where
  "IsPhaseModeAware c spec \<longleftrightarrow> \<not> isl (phaseModeAwareController c spec)"

definition SupportsAdjustingCableLock :: "'d cp_config \<Rightarrow> service_spec \<Rightarrow> bool" where
  "SupportsAdjustingCableLock c spec \<longleftrightarrow> \<not> isl (adjustableCableLockController c spec)"

definition IsCableLockAware :: "'d cp_config \<Rightarrow> service_spec \<Rightarrow> bool" where
  "IsCableLockAware c spec \<longleftrightarrow> \<not> isl (cableLockAwareController c spec)"

definition cp_NewService :: "'d cp_config \<Rightarrow> service_spec \<Rightarrow> 'd \<Rightarrow> adapter \<Rightarrow> (nat \<Rightarrow> time) \<Rightarrow> 'd svc" where
  "cp_NewService c spec d a clock =
     (let fg = cp_fimpgo c;
          ensure = (\<lambda>b is s. if b then fg_EnsureInterfaces fg is s else s);
          s0 = fg_EnsureInterfaces fg (cp_requiredInterfaces fg) (spec\<lparr>sv_Name := Chargepoint_name\<rparr>);
          s1 = ensure (SupportsAdjustingMaxCurrent c s0) (adjustableMaxCurrentInterfaces fg) s0;
          s2 = ensure (SupportsAdjustingOfferedCurrent c s1) (adjustableOfferedCurrentInterfaces fg) s1;
          s3 = ensure (SupportsAdjustingPhaseModes c s2) (adjustablePhaseModeInterfaces fg) s2;
          s4 = ensure (IsPhaseModeAware c s3) (phaseModeAwareInterfaces fg) s3;
          s5 = (if SupportsAdjustingCableLock c s4 then fg_EnsureInterfaces fg (adjustableCableLockInterfaces fg) s4
                else ensure (IsCableLockAware c s4) (cableLockAwareInterfaces fg) s4)
      in svc_New s5 d a clock)"


text \<open>The strategies of a configuration, with the defaults for those that are nil.\<close>

definition cp_strategies :: "strategy option \<Rightarrow> strategy option \<Rightarrow> 'd cp_config \<Rightarrow> 'd cp_config" where
  "cp_strategies stateStrategy sessionStrategy c =
     c\<lparr>cp_sessionStrategy := (case sessionStrategy of None \<Rightarrow> DefaultSessionReportingStrategy | Some s \<Rightarrow> s),
       cp_stateStrategy := (case stateStrategy of None \<Rightarrow> DefaultStateReportingStrategy | Some s \<Rightarrow> s)\<rparr>"

definition normalizeChargingMode :: "'d cp_config \<Rightarrow> service_spec \<Rightarrow> string \<Rightarrow> string result" where
  "normalizeChargingMode c spec mode =
     (if mode = '''' then Inr ''''
      else
        let supportedModes = fg_PropertyStrings (cp_fimpgo c) spec PropertySupportedChargingModes in
        if supportedModes = [] then Inr ''''
        else
          let m = strings_ToLower mode in
          if find (\<lambda>supported. m = supported) supportedModes \<noteq> None then Inr m
          else Inl (Errorf (''unsupported mode: '' @ m @ '': supported modes: ['' @ strings_Join '' '' supportedModes @ '']'')))"

definition validateCurrent :: "'d cp_config \<Rightarrow> service_spec \<Rightarrow> int \<Rightarrow> unit result" where
  "validateCurrent c spec current =
     (if current < 6
      then Inl (Errorf (sv_Name spec @ '': configured current must be at least 6A, received '' @ Itoa current @ ''A instead''))
      else
        let maximumCurrent =
              (case fg_PropertyInteger (cp_fimpgo c) spec PropertySupportedMaxCurrent of None \<Rightarrow> 0 | Some m \<Rightarrow> m) in
        if current > maximumCurrent
        then Inl (Errorf (sv_Name spec @ '': configured current must not exceed '' @ Itoa maximumCurrent
                          @ ''A, received '' @ Itoa current @ ''A instead''))
        else Inr ())"

definition validatePhaseMode :: "'d cp_config \<Rightarrow> service_spec \<Rightarrow> phase_mode \<Rightarrow> unit result" where
  "validatePhaseMode c spec mode =
     (if find (\<lambda>supportedMode. mode = supportedMode) (fg_PropertyStrings (cp_fimpgo c) spec PropertySupportedPhaseModes) \<noteq> None
      then Inr ()
      else Inl (Errorf (sv_Name spec @ '': unsupported phase mode: '' @ mode)))"

definition StartCharging :: "'d cp_config \<Rightarrow> string \<Rightarrow> ('d, unit) svc_act" where
  "StartCharging c mode = with_svc (\<lambda>s.
     act_bind (act_wrap (svc_Name s @ '': failed to start charging'')
       (act_result (normalizeChargingMode c (sc_spec s) mode))) (\<lambda>mode'.
     control '': failed to start charging'' (cc_StartCharging (cp_controller c) mode')))"

definition StopCharging :: "'d cp_config \<Rightarrow> ('d, unit) svc_act" where
  "StopCharging c = control '': failed to stop charging'' (cc_StopCharging (cp_controller c))"

definition format_bool :: "bool \<Rightarrow> string" where
  "format_bool b = (if b then ''true'' else ''false'')"

definition SetCableLock :: "'d cp_config \<Rightarrow> bool \<Rightarrow> ('d, unit) svc_act" where
  "SetCableLock c lock = with_svc (\<lambda>s.
     act_bind (act_result (adjustableCableLockController c (sc_spec s))) (\<lambda>set.
     control ('': failed to set cable lock to '' @ format_bool lock) (set lock)))"

definition SetOfferedCurrent :: "'d cp_config \<Rightarrow> int \<Rightarrow> ('d, unit) svc_act" where
  "SetOfferedCurrent c current = with_svc (\<lambda>s.
     act_bind (act_result (adjustableOfferedCurrentController c (sc_spec s))) (\<lambda>set.
     act_bind (act_result (validateCurrent c (sc_spec s) current)) (\<lambda>_.
     control ('': failed to set offered current to '' @ Itoa current) (set current))))"

definition SetMaxCurrent :: "'d cp_config \<Rightarrow> int \<Rightarrow> ('d, unit) svc_act" where
  "SetMaxCurrent c current = with_svc (\<lambda>s.
     act_bind (act_result (adjustableMaxCurrentController c (sc_spec s))) (\<lambda>(set, _).
     act_bind (act_result (validateCurrent c (sc_spec s) current)) (\<lambda>_.
     control ('': failed to set max current to '' @ Itoa current) (set current))))"

definition SetPhaseMode :: "'d cp_config \<Rightarrow> phase_mode \<Rightarrow> ('d, unit) svc_act" where
  "SetPhaseMode c mode = with_svc (\<lambda>s.
     act_bind (act_result (adjustablePhaseModeController c (sc_spec s))) (\<lambda>set.
     act_bind (act_result (validatePhaseMode c (sc_spec s) mode)) (\<lambda>_.
     control ('': failed to set phase mode to '' @ mode) (set mode))))"

definition SendCurrentSessionReport :: "'d cp_config \<Rightarrow> bool \<Rightarrow> ('d, bool) svc_act" where
  "SendCurrentSessionReport c force = with_svc (\<lambda>s.
     send_report (cp_fimpgo c) (cp_sessionStrategy c) EvtCurrentSessionReport ''''
       '': failed to retrieve current session report'' '': failed to send current session report''
       (cc_CurrentSessionReport (cp_controller c)) session_value
       (\<lambda>name v. fg_New (cp_fimpgo c) KFloat EvtCurrentSessionReport name (VFloat (se_SessionEnergy v))
          (session_reportProperties (cp_RFC3339 c) (SupportsAdjustingOfferedCurrent c (sc_spec s)) v) None)
       force)"

definition SendCableLockReport :: "'d cp_config \<Rightarrow> bool \<Rightarrow> ('d, bool) svc_act" where
  "SendCableLockReport c force = with_svc (\<lambda>s.
     act_bind (act_result (cableLockAwareController c (sc_spec s))) (\<lambda>get.
     send_report (cp_fimpgo c) (cp_stateStrategy c) EvtCableLockReport ''''
       '': failed to retrieve cable lock report'' '': failed to send cable lock report'' get cable_value
       (\<lambda>name v. fg_New (cp_fimpgo c) KBool EvtCableLockReport name (VBool (cb_CableLock v)) (cable_reportProperties v) None)
       force))"

definition SendStateReport :: "'d cp_config \<Rightarrow> bool \<Rightarrow> ('d, bool) svc_act" where
  "SendStateReport c force =
     send_report (cp_fimpgo c) (cp_stateStrategy c) EvtStateReport ''''
       '': failed to retrieve state report'' '': failed to send state report''
       (cc_StateReport (cp_controller c)) VString
       (\<lambda>name v. fg_New (cp_fimpgo c) KString EvtStateReport name (VString v) [] None)
       force"

definition SendMaxCurrentReport :: "'d cp_config \<Rightarrow> bool \<Rightarrow> ('d, bool) svc_act" where
  "SendMaxCurrentReport c force = with_svc (\<lambda>s.
     act_bind (act_result (adjustableMaxCurrentController c (sc_spec s))) (\<lambda>(_, get).
     send_report (cp_fimpgo c) (cp_stateStrategy c) EvtMaxCurrentReport ''''
       '': failed to retrieve max current report'' '': failed to send max current report'' get VInt
       (\<lambda>name v. fg_New (cp_fimpgo c) KInt EvtMaxCurrentReport name (VInt v) [] None)
       force))"

definition SendPhaseModeReport :: "'d cp_config \<Rightarrow> bool \<Rightarrow> ('d, bool) svc_act" where
  "SendPhaseModeReport c force = with_svc (\<lambda>s.
     act_bind (act_result (phaseModeAwareController c (sc_spec s))) (\<lambda>get.
     send_report (cp_fimpgo c) (cp_stateStrategy c) EvtPhaseModeReport ''''
       '': failed to retrieve phase mode report'' '': failed to send phase mode report'' get VString
       (\<lambda>name v. fg_New (cp_fimpgo c) KString EvtPhaseModeReport name (VString v) [] None)
       force))"

section \<open>Handlers (\<^verbatim>\<open>routing.go\<close>)\<close>

definition cp_state_report :: "'d cp_config \<Rightarrow> ('d, unit) svc_act" where
  "cp_state_report c =
     act_bind (act_wrap ''failed to send chargepoint state report'' (SendStateReport c True)) (\<lambda>_. act_return ())"

definition cp_session_report :: "'d cp_config \<Rightarrow> ('d, unit) svc_act" where
  "cp_session_report c =
     act_bind (act_wrap ''failed to send chargepoint current session report'' (SendCurrentSessionReport c True)) (\<lambda>_. act_return ())"

definition cp_cable_report :: "'d cp_config \<Rightarrow> ('d, unit) svc_act" where
  "cp_cable_report c =
     act_bind (act_wrap ''failed to send chargepoint cable lock report'' (SendCableLockReport c True)) (\<lambda>_. act_return ())"

definition cp_max_report :: "'d cp_config \<Rightarrow> ('d, unit) svc_act" where
  "cp_max_report c =
     act_bind (act_wrap ''failed to send chargepoint max current report'' (SendMaxCurrentReport c True)) (\<lambda>_. act_return ())"

definition cp_phase_report :: "'d cp_config \<Rightarrow> ('d, unit) svc_act" where
  "cp_phase_report c =
     act_bind (act_wrap ''failed to send chargepoint phase mode report'' (SendPhaseModeReport c True)) (\<lambda>_. act_return ())"

definition handleCmdChargeStart :: "'d cp_config \<Rightarrow> message \<Rightarrow> ('d, unit) svc_act" where
  "handleCmdChargeStart c msg =
     act_bind (act_wrap ''failed to start charging''
       (StartCharging c (case map_of (pl_Properties (ms_Payload msg)) PropertyChargingMode of None \<Rightarrow> '''' | Some m \<Rightarrow> m))) (\<lambda>_.
     act_bind (cp_state_report c) (\<lambda>_. cp_session_report c))"

definition handleCmdChargeStop :: "'d cp_config \<Rightarrow> message \<Rightarrow> ('d, unit) svc_act" where
  "handleCmdChargeStop c msg =
     act_bind (act_wrap ''failed to stop charging'' (StopCharging c)) (\<lambda>_.
     act_bind (cp_state_report c) (\<lambda>_. cp_session_report c))"

definition handleCmdCableLockSet :: "'d cp_config \<Rightarrow> message \<Rightarrow> ('d, unit) svc_act" where
  "handleCmdCableLockSet c msg =
     act_bind (act_wrap ''provided cable lock value has an incorrect format''
       (act_result (fg_GetBoolValue (cp_fimpgo c) (ms_Payload msg)))) (\<lambda>val.
     act_bind (act_wrap ''failed to set chargepoint cable lock'' (SetCableLock c val)) (\<lambda>_.
     cp_cable_report c))"

definition handleCmdStateGetReport :: "'d cp_config \<Rightarrow> message \<Rightarrow> ('d, unit) svc_act" where
  "handleCmdStateGetReport c msg = cp_state_report c"

definition handleCmdCableLockGetReport :: "'d cp_config \<Rightarrow> message \<Rightarrow> ('d, unit) svc_act" where
  "handleCmdCableLockGetReport c msg = cp_cable_report c"

definition handleCmdCurrentSessionSetCurrent :: "'d cp_config \<Rightarrow> message \<Rightarrow> ('d, unit) svc_act" where
  "handleCmdCurrentSessionSetCurrent c msg =
     act_bind (act_wrap ''provided current value has an incorrect format''
       (act_result (fg_GetIntValue (cp_fimpgo c) (ms_Payload msg)))) (\<lambda>current.
     act_bind (act_wrap ''failed to set chargepoint offered current'' (SetOfferedCurrent c current)) (\<lambda>_.
     cp_session_report c))"

definition handleCmdCurrentSessionGetReport :: "'d cp_config \<Rightarrow> message \<Rightarrow> ('d, unit) svc_act" where
  "handleCmdCurrentSessionGetReport c msg = cp_session_report c"

definition handleCmdMaxCurrentSet :: "'d cp_config \<Rightarrow> message \<Rightarrow> ('d, unit) svc_act" where
  "handleCmdMaxCurrentSet c msg =
     act_bind (act_wrap ''provided current value has an incorrect format''
       (act_result (fg_GetIntValue (cp_fimpgo c) (ms_Payload msg)))) (\<lambda>current.
     act_bind (act_wrap ''failed to set chargepoint max current'' (SetMaxCurrent c current)) (\<lambda>_.
     cp_max_report c))"

definition handleCmdMaxCurrentGetReport :: "'d cp_config \<Rightarrow> message \<Rightarrow> ('d, unit) svc_act" where
  "handleCmdMaxCurrentGetReport c msg = cp_max_report c"

definition handleCmdPhaseModeSet :: "'d cp_config \<Rightarrow> message \<Rightarrow> ('d, unit) svc_act" where
  "handleCmdPhaseModeSet c msg =
     act_bind (act_wrap ''provided phase mode has an incorrect format''
       (act_result (fg_GetStringValue (cp_fimpgo c) (ms_Payload msg)))) (\<lambda>phaseMode.
     act_bind (act_wrap ''failed to set chargepoint phase mode'' (SetPhaseMode c phaseMode)) (\<lambda>_.
     cp_phase_report c))"

definition handleCmdPhaseModeGetReport :: "'d cp_config \<Rightarrow> message \<Rightarrow> ('d, unit) svc_act" where
  "handleCmdPhaseModeGetReport c msg = cp_phase_report c"

text \<open>The commands and their handlers, in the order of \<^verbatim>\<open>RouteService\<close>.\<close>

definition cp_handlers :: "'d cp_config \<Rightarrow> (string \<times> (message \<Rightarrow> ('d, unit) svc_act)) list" where
  "cp_handlers c =
     [(CmdChargeStart, handleCmdChargeStart c), (CmdChargeStop, handleCmdChargeStop c),
      (CmdStateGetReport, handleCmdStateGetReport c), (CmdCableLockSet, handleCmdCableLockSet c),
      (CmdCableLockGetReport, handleCmdCableLockGetReport c),
      (CmdCurrentSessionSetCurrent, handleCmdCurrentSessionSetCurrent c),
      (CmdCurrentSessionGetReport, handleCmdCurrentSessionGetReport c),
      (CmdMaxCurrentSet, handleCmdMaxCurrentSet c), (CmdMaxCurrentGetReport, handleCmdMaxCurrentGetReport c),
      (CmdPhaseModeSet, handleCmdPhaseModeSet c), (CmdPhaseModeGetReport, handleCmdPhaseModeGetReport c)]"

definition routeCmdChargeStart :: "'d cp_config \<Rightarrow> 'd svc_world routing" where
  "routeCmdChargeStart c = svc_routing (cp_fimpgo c) Chargepoint_name CmdChargeStart (handleCmdChargeStart c)"

definition routeCmdChargeStop :: "'d cp_config \<Rightarrow> 'd svc_world routing" where
  "routeCmdChargeStop c = svc_routing (cp_fimpgo c) Chargepoint_name CmdChargeStop (handleCmdChargeStop c)"

definition routeCmdStateGetReport :: "'d cp_config \<Rightarrow> 'd svc_world routing" where
  "routeCmdStateGetReport c = svc_routing (cp_fimpgo c) Chargepoint_name CmdStateGetReport (handleCmdStateGetReport c)"

definition routeCmdCableLockSet :: "'d cp_config \<Rightarrow> 'd svc_world routing" where
  "routeCmdCableLockSet c = svc_routing (cp_fimpgo c) Chargepoint_name CmdCableLockSet (handleCmdCableLockSet c)"

definition routeCmdCableLockGetReport :: "'d cp_config \<Rightarrow> 'd svc_world routing" where
  "routeCmdCableLockGetReport c = svc_routing (cp_fimpgo c) Chargepoint_name CmdCableLockGetReport (handleCmdCableLockGetReport c)"

definition routeCmdCurrentSessionSetCurrent :: "'d cp_config \<Rightarrow> 'd svc_world routing" where
  "routeCmdCurrentSessionSetCurrent c = svc_routing (cp_fimpgo c) Chargepoint_name CmdCurrentSessionSetCurrent (handleCmdCurrentSessionSetCurrent c)"

definition routeCmdCurrentSessionGetReport :: "'d cp_config \<Rightarrow> 'd svc_world routing" where
  "routeCmdCurrentSessionGetReport c = svc_routing (cp_fimpgo c) Chargepoint_name CmdCurrentSessionGetReport (handleCmdCurrentSessionGetReport c)"

definition routeCmdMaxCurrentSet :: "'d cp_config \<Rightarrow> 'd svc_world routing" where
  "routeCmdMaxCurrentSet c = svc_routing (cp_fimpgo c) Chargepoint_name CmdMaxCurrentSet (handleCmdMaxCurrentSet c)"

definition routeCmdMaxCurrentGetReport :: "'d cp_config \<Rightarrow> 'd svc_world routing" where
  "routeCmdMaxCurrentGetReport c = svc_routing (cp_fimpgo c) Chargepoint_name CmdMaxCurrentGetReport (handleCmdMaxCurrentGetReport c)"

definition routeCmdPhaseModeSet :: "'d cp_config \<Rightarrow> 'd svc_world routing" where
  "routeCmdPhaseModeSet c = svc_routing (cp_fimpgo c) Chargepoint_name CmdPhaseModeSet (handleCmdPhaseModeSet c)"

definition routeCmdPhaseModeGetReport :: "'d cp_config \<Rightarrow> 'd svc_world routing" where
  "routeCmdPhaseModeGetReport c = svc_routing (cp_fimpgo c) Chargepoint_name CmdPhaseModeGetReport (handleCmdPhaseModeGetReport c)"

definition cp_RouteService :: "'d cp_config \<Rightarrow> 'd svc_world routing list" where
  "cp_RouteService c =
     [routeCmdChargeStart c,
      routeCmdChargeStop c,
      routeCmdStateGetReport c,
      routeCmdCableLockSet c,
      routeCmdCableLockGetReport c,
      routeCmdCurrentSessionSetCurrent c,
      routeCmdCurrentSessionGetReport c,
      routeCmdMaxCurrentSet c,
      routeCmdMaxCurrentGetReport c,
      routeCmdPhaseModeSet c,
      routeCmdPhaseModeGetReport c]"

text \<open>The table pairs every command with its handler.\<close>

lemma cp_RouteService_handlers:
  "cp_RouteService c = map (\<lambda>(cmd, h). svc_routing (cp_fimpgo c) Chargepoint_name cmd h) (cp_handlers c)"
  by (simp add: cp_RouteService_def cp_handlers_def routeCmdChargeStart_def routeCmdChargeStop_def routeCmdStateGetReport_def routeCmdCableLockSet_def routeCmdCableLockGetReport_def routeCmdCurrentSessionSetCurrent_def routeCmdCurrentSessionGetReport_def routeCmdMaxCurrentSet_def routeCmdMaxCurrentGetReport_def routeCmdPhaseModeSet_def routeCmdPhaseModeGetReport_def)

section \<open>Reporting (\<^verbatim>\<open>tasks.go\<close>)\<close>

definition sendChargepointReports :: "'d cp_config \<Rightarrow> ('d, unit) svc_act" where
  "sendChargepointReports c = with_svc (\<lambda>s. let spec = sc_spec s in
     act_bind (act_log (SendCurrentSessionReport c False)) (\<lambda>_.
     act_bind (if length (SupportedStates c spec) > 0 then act_log (SendStateReport c False) else act_return ()) (\<lambda>_.
     act_bind (if SupportsAdjustingMaxCurrent c spec then act_log (SendMaxCurrentReport c False) else act_return ()) (\<lambda>_.
     act_bind (if SupportsAdjustingPhaseModes c spec then act_log (SendPhaseModeReport c False) else act_return ()) (\<lambda>_.
     if IsCableLockAware c spec then act_log (SendCableLockReport c False) else act_return ())))))"

definition cp_handleReporting :: "adapter_env \<Rightarrow> 'd cp_config \<Rightarrow> ('d svc_world, unit) act" where
  "cp_handleReporting av c = svc_reporting av Chargepoint_name (sendChargepointReports c)"

definition cp_TaskReporting ::
  "adapter_env \<Rightarrow> 'd cp_config \<Rightarrow> duration \<Rightarrow> ('d svc_world \<Rightarrow> bool) list \<Rightarrow> 'd svc_world task" where
  "cp_TaskReporting av c = svc_TaskReporting (cp_handleReporting av c)"


section \<open>The reports keep their contract\<close>

definition cp_plain :: "'d cp_config \<Rightarrow> bool" where
  "cp_plain c \<longleftrightarrow> fimpgo_ok (cp_fimpgo c) \<and> cp_stateStrategy c = ReportOnChangeOnly"

interpretation cps: plain_report "SendStateReport c" EvtStateReport "''''"
  "dev_reading (cc_StateReport (cp_controller c)) VString" "fimpgo_ok (cp_fimpgo c)" "cp_plain c" for c
  unfolding SendStateReport_def by (rule send_report_plain) (simp_all add: cp_plain_def)

interpretation cpm: plain_report "SendMaxCurrentReport c" EvtMaxCurrentReport "''''"
  "\<lambda>s. case adjustableMaxCurrentController c (sc_spec s) of Inl _ \<Rightarrow> None | Inr x \<Rightarrow> dev_reading (snd x) VInt s"
  "fimpgo_ok (cp_fimpgo c)" "cp_plain c" for c
  unfolding SendMaxCurrentReport_def case_prod_unfold
  by (intro plain_report_guarded send_report_plain) (simp_all add: cp_plain_def)

interpretation cpp: plain_report "SendPhaseModeReport c" EvtPhaseModeReport "''''"
  "\<lambda>s. case phaseModeAwareController c (sc_spec s) of Inl _ \<Rightarrow> None | Inr x \<Rightarrow> dev_reading x VString s"
  "fimpgo_ok (cp_fimpgo c)" "cp_plain c" for c
  unfolding SendPhaseModeReport_def
  by (intro plain_report_guarded send_report_plain) (simp_all add: cp_plain_def)

interpretation cpe: forced_report "SendCurrentSessionReport c" EvtCurrentSessionReport "{''''}" for c
  unfolding SendCurrentSessionReport_def by (intro forced_reportI report_rules forces_rules singletonI)

interpretation cpl: forced_report "SendCableLockReport c" EvtCableLockReport "{''''}" for c
  unfolding SendCableLockReport_def by (intro forced_reportI report_rules forces_rules quiet_rules singletonI)

section \<open>Properties\<close>

text \<open>The values that a controller may be given under a specification.\<close>

definition supported_mode :: "'d cp_config \<Rightarrow> service_spec \<Rightarrow> string \<Rightarrow> bool" where
  "supported_mode c spec m \<longleftrightarrow>
     m = '''' \<or> m \<in> set (fg_PropertyStrings (cp_fimpgo c) spec PropertySupportedChargingModes)"

definition supported_current :: "'d cp_config \<Rightarrow> service_spec \<Rightarrow> int \<Rightarrow> bool" where
  "supported_current c spec i \<longleftrightarrow>
     6 \<le> i \<and> (\<exists>m. fg_PropertyInteger (cp_fimpgo c) spec PropertySupportedMaxCurrent = Some m \<and> i \<le> m)"

definition supported_phases :: "'d cp_config \<Rightarrow> service_spec \<Rightarrow> phase_mode \<Rightarrow> bool" where
  "supported_phases c spec m \<longleftrightarrow> m \<in> set (fg_PropertyStrings (cp_fimpgo c) spec PropertySupportedPhaseModes)"

text \<open>The controller keeps \<open>I\<close> whenever it is called with supported values; nothing is known of other values.\<close>

definition controller_keeps :: "'d cp_config \<Rightarrow> service_spec \<Rightarrow> ('d \<Rightarrow> bool) \<Rightarrow> bool" where
  "controller_keeps c spec I \<longleftrightarrow>
     (\<forall>m. supported_mode c spec m \<longrightarrow> act_keeps I (cc_StartCharging (cp_controller c) m))
   \<and> act_keeps I (cc_StopCharging (cp_controller c))
   \<and> act_keeps I (cc_CurrentSessionReport (cp_controller c)) \<and> act_keeps I (cc_StateReport (cp_controller c))
   \<and> (\<forall>set get. cc_MaxCurrent (cp_controller c) = Some (set, get) \<longrightarrow>
        act_keeps I get \<and> (\<forall>i. supported_current c spec i \<longrightarrow> act_keeps I (set i)))
   \<and> (\<forall>set. cc_SetOfferedCurrent (cp_controller c) = Some set \<longrightarrow>
        (\<forall>i. supported_current c spec i \<longrightarrow> act_keeps I (set i)))
   \<and> (\<forall>get. cc_PhaseModeReport (cp_controller c) = Some get \<longrightarrow> act_keeps I get)
   \<and> (\<forall>set. cc_SetPhaseMode (cp_controller c) = Some set \<longrightarrow>
        (\<forall>m. supported_phases c spec m \<longrightarrow> act_keeps I (set m)))
   \<and> (\<forall>get. cc_CableLockReport (cp_controller c) = Some get \<longrightarrow> act_keeps I get)
   \<and> (\<forall>set. cc_SetCableLock (cp_controller c) = Some set \<longrightarrow> (\<forall>b. act_keeps I (set b)))"

lemma find_eq_mem: "find (\<lambda>x. y = x) xs \<noteq> None \<longleftrightarrow> y \<in> set xs"
  by (auto simp: find_None_iff)

lemma normalizeChargingMode_supported: "normalizeChargingMode c spec mode = Inr m \<Longrightarrow> supported_mode c spec m"
  unfolding normalizeChargingMode_def find_eq_mem supported_mode_def by (auto simp: Let_def split: if_splits)

lemma validateCurrent_supported:
  "validateCurrent c spec i = Inr x \<Longrightarrow> supported_current c spec i"
  by (auto simp: validateCurrent_def Let_def supported_current_def split: if_splits option.splits)

lemma validatePhaseMode_supported: "validatePhaseMode c spec m = Inr x \<Longrightarrow> supported_phases c spec m"
  unfolding validatePhaseMode_def find_eq_mem supported_phases_def by (auto split: if_splits)

lemmas controller_lookups = adjustableMaxCurrentController_def adjustableOfferedCurrentController_def
  phaseModeAwareController_def adjustablePhaseModeController_def cableLockAwareController_def
  adjustableCableLockController_def not_supported_def bind_result_def

lemma cp_sets_keep:
  assumes "controller_keeps c spec I"
  shows "act_keeps (dev_inv spec I) (StartCharging c mode)" "act_keeps (dev_inv spec I) (StopCharging c)"
    "act_keeps (dev_inv spec I) (SetCableLock c lock)" "act_keeps (dev_inv spec I) (SetOfferedCurrent c i)"
    "act_keeps (dev_inv spec I) (SetMaxCurrent c i)" "act_keeps (dev_inv spec I) (SetPhaseMode c pm)"
  using assms unfolding controller_keeps_def StartCharging_def StopCharging_def SetCableLock_def
    SetOfferedCurrent_def SetMaxCurrent_def SetPhaseMode_def case_prod_unfold
  by (auto intro!: keeps_with_svc keeps_control act_keeps_result_bind act_keeps_wrap_result_bind
      dest: normalizeChargingMode_supported validateCurrent_supported validatePhaseMode_supported
      simp: controller_lookups split: if_splits option.splits sum.splits)


lemma cp_reports_keep:
  assumes "controller_keeps c spec I"
  shows "act_keeps (dev_inv spec I) (SendCurrentSessionReport c force)"
    "act_keeps (dev_inv spec I) (SendCableLockReport c force)" "act_keeps (dev_inv spec I) (SendStateReport c force)"
    "act_keeps (dev_inv spec I) (SendMaxCurrentReport c force)" "act_keeps (dev_inv spec I) (SendPhaseModeReport c force)"
  using assms unfolding controller_keeps_def SendCurrentSessionReport_def SendCableLockReport_def
    SendStateReport_def SendMaxCurrentReport_def SendPhaseModeReport_def case_prod_unfold
  by (auto intro!: keeps_with_svc keeps_send_report act_keeps_result_bind
      simp: controller_lookups split: if_splits option.splits sum.splits)

lemmas cp_handler_defs = handleCmdChargeStart_def handleCmdChargeStop_def handleCmdStateGetReport_def
  handleCmdCableLockSet_def handleCmdCableLockGetReport_def handleCmdCurrentSessionSetCurrent_def
  handleCmdCurrentSessionGetReport_def handleCmdMaxCurrentSet_def handleCmdMaxCurrentGetReport_def
  handleCmdPhaseModeSet_def handleCmdPhaseModeGetReport_def cp_state_report_def cp_session_report_def
  cp_cable_report_def cp_max_report_def cp_phase_report_def

lemma cp_handlers_keep:
  assumes "controller_keeps c spec I" "(cmd, h) \<in> set (cp_handlers c)"
  shows "act_keeps (dev_inv spec I) (h msg)"
proof -
  note keep = cp_sets_keep [OF assms(1)] cp_reports_keep [OF assms(1)]
  have "list_all (\<lambda>(cmd, h). act_keeps (dev_inv spec I) (h msg)) (cp_handlers c)"
    unfolding cp_handlers_def list.pred_inject(2) cp_handler_defs prod.case
    by (intro conjI act_keeps_rules keep list.pred_inject(1))
  with assms(2) show ?thesis by (auto simp: list_all_iff)
qed

lemma cp_reporting_keeps:
  assumes "controller_keeps c spec I"
  shows "act_keeps (dev_inv spec I) (sendChargepointReports c)"
  unfolding sendChargepointReports_def Let_def
  by (intro act_keeps_rules cp_reports_keep [OF assms])

text \<open>
  C4. The controller of a chargepoint is only ever asked for what the specification allows: a property of the
  devices that survives every call with a supported charging mode, a current between 6 A and the
  supported maximum, or a supported phase mode, survives every message that is routed to a chargepoint,
  whatever its content, and every run of the reporting task.
\<close>
theorem chargepoint_limits:
  assumes "\<forall>a. controller_keeps c (specs a) I" "svcs_inv specs I w"
  shows "(\<forall>(cmd, h) \<in> set (cp_handlers c). \<forall>msg r w'. svc_handler h msg w = Some (r, w') \<longrightarrow> svcs_inv specs I w')
    \<and> (\<forall>r w'. cp_handleReporting av c w = Some (r, w') \<longrightarrow> svcs_inv specs I w')"
  unfolding cp_handleReporting_def using assms(1)
  by (intro service_keeps_world [OF _ _ assms(2)] cp_handlers_keep cp_reporting_keeps) blast+

text \<open>
  Listeners see the state of the chargepoint: whatever the device does between the reports and whichever
  reports fail, once \<^verbatim>\<open>SendStateReport\<close> returns without an error, with or without sending a message, the last
  state report that was published shows the state that the controller has just reported.
\<close>
theorem state_report_in_sync:
  assumes "fimpgo_ok (cp_fimpgo c)" "cp_stateStrategy c = ReportOnChangeOnly"
    and "report_run (SendStateReport c) (svc_New spec d a clock) s"
    and "SendStateReport c force s = Some (Inr b, s')"
  shows "\<exists>ms d'. ad_published (sc_ad s') = ad_published a @ ms \<and> ms \<noteq> []
     \<and> (\<exists>v. cc_StateReport (cp_controller c) (sc_dev s) = Some (Inr v, d') \<and> pl_Value (snd (last ms)) = VString v)"
proof -
  have "cache_lookup (sc_cache (svc_New spec d a clock)) EvtStateReport '''' = None" by (simp add: svc_New_def)
  from cps.in_sync [OF _ assms(3) this assms(4)] assms(1,2)
  show ?thesis by (auto simp: cp_plain_def dev_reading_def svc_published_def svc_New_def split: option.splits prod.splits sum.splits)
qed


section \<open>A chargepoint that records the currents it is set to\<close>

definition demo_controller :: "int list chargepoint_controller" where
  "demo_controller =
     \<lparr>cc_StartCharging = (\<lambda>m d. Some (Inr (), d)), cc_StopCharging = (\<lambda>d. Some (Inr (), d)),
      cc_CurrentSessionReport = (\<lambda>d. Some (Inl (Errorf ''offline''), d)),
      cc_StateReport = (\<lambda>d. Some (Inr (if d = [] then ''requesting'' else ''charging''), d)),
      cc_MaxCurrent = Some ((\<lambda>i d. Some (Inr (), i # d)), (\<lambda>d. Some (Inr (hd d), d))),
      cc_SetOfferedCurrent = None, cc_PhaseModeReport = None, cc_SetPhaseMode = None,
      cc_CableLockReport = None, cc_SetCableLock = None\<rparr>"

definition demo_cp :: "int list cp_config" where
  "demo_cp =
     \<lparr>cp_fimpgo = demo_fimpgo, cp_controller = demo_controller, cp_stateStrategy = ReportOnChangeOnly,
      cp_sessionStrategy = DefaultSessionReportingStrategy, cp_RFC3339 = (\<lambda>t. '''')\<rparr>"

definition demo_cp_spec :: service_spec where
  "demo_cp_spec = demo_svc_spec Chargepoint_name [(PropertySupportedMaxCurrent, VInt 32)]"

lemma demo_cp_max: "fg_PropertyInteger demo_fimpgo demo_cp_spec PropertySupportedMaxCurrent = Some 32"
  by (simp add: demo_fimpgo_def demo_cp_spec_def demo_svc_spec_def service_Specification_def)

theorem chargepoint_limits_witness:
  "svcs_inv (\<lambda>_. demo_cp_spec) (list_all (\<lambda>i. 6 \<le> i \<and> i \<le> 32))
     (snd (the (svc_handler (handleCmdMaxCurrentSet demo_cp) (demo_command demo_cp_spec (VInt 16)) (demo_world demo_cp_spec []))))
   \<and> fst (the (svc_handler (handleCmdMaxCurrentSet demo_cp) (demo_command demo_cp_spec (VInt 16)) (demo_world demo_cp_spec []))) = Inr None"
proof -
  let ?w = "demo_world demo_cp_spec ([] :: int list)" and ?m = "demo_command demo_cp_spec (VInt 16)"
  have keep: "\<forall>a :: string. controller_keeps demo_cp demo_cp_spec (list_all (\<lambda>i. 6 \<le> i \<and> i \<le> 32))"
    by (auto simp: controller_keeps_def demo_cp_def demo_controller_def act_keeps_def supported_current_def demo_cp_max)
  have inv: "svcs_inv (\<lambda>_. demo_cp_spec) (list_all (\<lambda>i. 6 \<le> i \<and> i \<le> 32)) ?w" by (rule demo_svcs_inv) simp
  have mem: "(CmdMaxCurrentSet, handleCmdMaxCurrentSet demo_cp) \<in> set (cp_handlers demo_cp)" by (simp add: cp_handlers_def)
  have int: "fg_GetIntValue demo_fimpgo (ms_Payload ?m) = Inr 16"
    by (simp add: demo_fimpgo_def demo_command_def demo_NewMessage_def)
  have "map_option fst (svc_handler (handleCmdMaxCurrentSet demo_cp) ?m ?w) = Some (Inr None)" by code_simp
  then obtain w' where run: "svc_handler (handleCmdMaxCurrentSet demo_cp) ?m ?w = Some (Inr None, w')" by auto
  from chargepoint_limits [OF keep inv] mem run show ?thesis by fastforce
qed

theorem state_report_in_sync_witness:
  "\<exists>s1 s2 ms. SendStateReport demo_cp False (svc_New demo_cp_spec [] (demo_adapter (\<lambda>_. None)) int) = Some (Inr True, s1)
     \<and> SendStateReport demo_cp False (s1\<lparr>sc_dev := [16]\<rparr>) = Some (Inr True, s2)
     \<and> ad_published (sc_ad s2) = ms \<and> length ms = 2 \<and> pl_Value (snd (last ms)) = VString ''charging''"
proof -
  let ?a = "demo_adapter (\<lambda>_. None)"
  let ?s = "svc_New demo_cp_spec [] ?a int"
  have "map_option fst (SendStateReport demo_cp False ?s) = Some (Inr True)" by code_simp
  then obtain s1 where s1: "SendStateReport demo_cp False ?s = Some (Inr True, s1)" by auto
  have "map_option fst (SendStateReport demo_cp False ((snd (the (SendStateReport demo_cp False ?s)))\<lparr>sc_dev := [16]\<rparr>)) = Some (Inr True)"
    by code_simp
  then obtain s2 where s2: "SendStateReport demo_cp False (s1\<lparr>sc_dev := [16]\<rparr>) = Some (Inr True, s2)" using s1 by auto
  have "report_run (SendStateReport demo_cp) ?s (s1\<lparr>sc_dev := [16]\<rparr>)"
    by (rule report_run.device, rule report_run.report [of _ _ ?s False "Inr True"]) (simp_all add: report_run.start s1)
  moreover have "fimpgo_ok (cp_fimpgo demo_cp)" "cp_stateStrategy demo_cp = ReportOnChangeOnly"
    by (simp_all add: demo_cp_def demo_fimpgo_ok)
  moreover have "cc_StateReport (cp_controller demo_cp) [16] = Some (Inr ''charging'', [16])"
    by (simp add: demo_cp_def demo_controller_def)
  ultimately obtain ms where "ad_published (sc_ad s2) = ad_published ?a @ ms" "pl_Value (snd (last ms)) = VString ''charging''"
    using state_report_in_sync [OF _ _ _ s2, of demo_cp_spec "[]" ?a int] by auto
  moreover have "ad_published ?a = []" by simp
  moreover have "length (ad_published (sc_ad s2)) = 2"
    using cps.is_sent [OF s1] cps.is_sent [OF s2] \<open>ad_published ?a = []\<close> by (auto simp: svc_published_def svc_New_def)
  ultimately show ?thesis using s1 s2 by auto
qed

end
