(* ===== verification/Switches.thy ===== *)
theory Switches
  imports Device_Service
begin

text \<open>
  The switches: \<^verbatim>\<open>src/adapter/service/outbinswitch\<close> (on and off) and \<^verbatim>\<open>src/adapter/service/outlvlswitch\<close> (levels,
  with optional transitions). Each has its constants, controller, specification, service, handlers and
  reporting task.
\<close>

section \<open>Binary switch (\<^verbatim>\<open>outbinswitch\<close>)\<close>

definition CmdBinarySet :: string where "CmdBinarySet = ''cmd.binary.set''"
definition CmdBinaryGetReport :: string where "CmdBinaryGetReport = ''cmd.binary.get_report''"
definition EvtBinaryReport :: string where "EvtBinaryReport = ''evt.binary.report''"
definition OutBinSwitch :: string where "OutBinSwitch = ''out_bin_switch''"

record 'd bsw_controller =
  bc_BinarySwitchStateReport :: "('d, bool) act"
  bc_SetBinarySwitchState :: "bool \<Rightarrow> ('d, unit) act"

definition bsw_requiredInterfaces :: "fimpgo \<Rightarrow> interface list" where
  "bsw_requiredInterfaces fg =
     [iface (fg_TypeIn fg) CmdBinarySet (fg_VTypeBool fg),
      iface (fg_TypeIn fg) CmdBinaryGetReport (fg_VTypeNull fg),
      iface (fg_TypeOut fg) EvtBinaryReport (fg_VTypeBool fg),
      iface (fg_TypeOut fg) EvtErrorReport (fg_VTypeString fg)]"

definition bsw_Specification ::
  "fimpgo \<Rightarrow> string \<Rightarrow> string \<Rightarrow> string \<Rightarrow> string list \<Rightarrow> (service_spec \<Rightarrow> service_spec) list \<Rightarrow> service_spec" where
  "bsw_Specification fg resourceName resourceAddress address groups options =
     foldl (\<lambda>s f. f s)
       (service_Specification OutBinSwitch resourceName resourceAddress address groups [] (bsw_requiredInterfaces fg))
       options"

definition bsw_DefaultReportingStrategy :: strategy where
  "bsw_DefaultReportingStrategy = ReportOnChangeOnly"

definition bsw_NewService ::
  "fimpgo \<Rightarrow> 'd bsw_controller \<Rightarrow> strategy option \<Rightarrow> service_spec \<Rightarrow> 'd \<Rightarrow> adapter \<Rightarrow> (nat \<Rightarrow> time)
   \<Rightarrow> 'd bsw_controller svc_config \<times> 'd svc" where
  "bsw_NewService fg ctl strat spec =
     NewService_with fg ctl bsw_DefaultReportingStrategy strat (fg_EnsureInterfaces fg (bsw_requiredInterfaces fg) spec)"

definition SendBinaryReport :: "'d bsw_controller svc_config \<Rightarrow> bool \<Rightarrow> ('d, bool) svc_act" where
  "SendBinaryReport c force =
     send_report (cf_fimpgo c) (cf_strategy c) EvtBinaryReport ''''
       '': failed to get binary report'' '': failed to send binary report''
       (bc_BinarySwitchStateReport (cf_controller c)) VBool
       (\<lambda>name v. fg_New (cf_fimpgo c) KBool EvtBinaryReport name (VBool v) [] None)
       force"

definition SetBinaryState :: "'d bsw_controller svc_config \<Rightarrow> bool \<Rightarrow> ('d, unit) svc_act" where
  "SetBinaryState c state = control '': failed to set binary state'' (bc_SetBinarySwitchState (cf_controller c) state)"

definition HandleCmdBinarySet :: "'d bsw_controller svc_config \<Rightarrow> message \<Rightarrow> ('d, unit) svc_act" where
  "HandleCmdBinarySet c msg =
     act_bind (act_wrap ''failed to get value from the message''
       (act_result (fg_GetBoolValue (cf_fimpgo c) (ms_Payload msg)))) (\<lambda>val.
     act_bind (act_wrap ''failed to set state'' (SetBinaryState c val)) (\<lambda>_.
     answer ''failed to send binary report'' (SendBinaryReport c)))"

definition HandleCmdBinaryGetReport :: "'d bsw_controller svc_config \<Rightarrow> message \<Rightarrow> ('d, unit) svc_act" where
  "HandleCmdBinaryGetReport c msg = answer ''failed to send binary report'' (SendBinaryReport c)"

definition RouteCmdBinarySet :: "'d bsw_controller svc_config \<Rightarrow> 'd svc_world routing" where
  "RouteCmdBinarySet c = svc_routing (cf_fimpgo c) OutBinSwitch CmdBinarySet (HandleCmdBinarySet c)"

definition RouteCmdBinaryGetReport :: "'d bsw_controller svc_config \<Rightarrow> 'd svc_world routing" where
  "RouteCmdBinaryGetReport c = svc_routing (cf_fimpgo c) OutBinSwitch CmdBinaryGetReport (HandleCmdBinaryGetReport c)"

definition bsw_RouteService :: "'d bsw_controller svc_config \<Rightarrow> 'd svc_world routing list" where
  "bsw_RouteService c = [RouteCmdBinarySet c, RouteCmdBinaryGetReport c]"

definition bsw_handleReporting :: "adapter_env \<Rightarrow> 'd bsw_controller svc_config \<Rightarrow> ('d svc_world, unit) act" where
  "bsw_handleReporting av c = svc_reporting av OutBinSwitch (act_log (SendBinaryReport c False))"

definition bsw_TaskReporting ::
  "adapter_env \<Rightarrow> 'd bsw_controller svc_config \<Rightarrow> duration \<Rightarrow> ('d svc_world \<Rightarrow> bool) list \<Rightarrow> 'd svc_world task" where
  "bsw_TaskReporting av c = svc_TaskReporting (bsw_handleReporting av c)"

section \<open>Level switch (\<^verbatim>\<open>outlvlswitch\<close>)\<close>

definition CmdLvlSet :: string where "CmdLvlSet = ''cmd.lvl.set''"
definition CmdLvlGetReport :: string where "CmdLvlGetReport = ''cmd.lvl.get_report''"
definition EvtLvlReport :: string where "EvtLvlReport = ''evt.lvl.report''"
definition CmdLvlStart :: string where "CmdLvlStart = ''cmd.lvl.start''"
definition CmdLvlStop :: string where "CmdLvlStop = ''cmd.lvl.stop''"
definition OutLvlSwitch :: string where "OutLvlSwitch = ''out_lvl_switch''"
definition PropertyMaxLvl :: string where "PropertyMaxLvl = ''max_lvl''"
definition PropertyMinLvl :: string where "PropertyMinLvl = ''min_lvl''"
definition PropertySwitchType :: string where "PropertySwitchType = ''sw_type''"
definition PropertySupportDuration :: string where "PropertySupportDuration = ''sup_duration''"
definition PropertySupportStartLevel :: string where "PropertySupportStartLevel = ''sup_start_lvl''"
definition Duration_prop :: string where "Duration_prop = ''duration''"
definition StartLvl_prop :: string where "StartLvl_prop = ''start_lvl''"
definition TransitionUp :: string where "TransitionUp = ''up''"
definition TransitionDown :: string where "TransitionDown = ''down''"

record level_transition_params =
  lt_StartLvl :: "int option"
  lt_Duration :: "duration option"

text \<open>The optional interface \<^verbatim>\<open>LevelTransitionController\<close> is an optional pair: start and stop.\<close>

record 'd lsw_controller =
  lc_LevelSwitchLevelReport :: "('d, int) act"
  lc_SetLevelSwitchLevel :: "int \<Rightarrow> duration \<Rightarrow> ('d, unit) act"
  lc_SetLevelSwitchBinaryState :: "bool \<Rightarrow> ('d, unit) act"
  lc_LevelTransition :: "((string \<Rightarrow> level_transition_params \<Rightarrow> ('d, unit) act) \<times> ('d, unit) act) option"

definition WithSupportedDuration :: "service_spec \<Rightarrow> service_spec" where
  "WithSupportedDuration = set_prop PropertySupportDuration (VBool True)"

definition WithSupportedStartLevel :: "service_spec \<Rightarrow> service_spec" where
  "WithSupportedStartLevel = set_prop PropertySupportStartLevel (VBool True)"

definition lsw_requiredInterfaces :: "fimpgo \<Rightarrow> interface list" where
  "lsw_requiredInterfaces fg =
     [iface (fg_TypeIn fg) CmdLvlSet (fg_VTypeInt fg),
      iface (fg_TypeIn fg) CmdBinarySet (fg_VTypeBool fg),
      iface (fg_TypeIn fg) CmdLvlGetReport (fg_VTypeNull fg),
      iface (fg_TypeOut fg) EvtLvlReport (fg_VTypeInt fg),
      iface (fg_TypeOut fg) EvtErrorReport (fg_VTypeString fg)]"

definition levelTransitionInterfaces :: "fimpgo \<Rightarrow> interface list" where
  "levelTransitionInterfaces fg =
     [iface (fg_TypeIn fg) CmdLvlStart (fg_VTypeString fg), iface (fg_TypeIn fg) CmdLvlStop (fg_VTypeNull fg)]"

definition lsw_Specification ::
  "fimpgo \<Rightarrow> string \<Rightarrow> string \<Rightarrow> string \<Rightarrow> string \<Rightarrow> int \<Rightarrow> int \<Rightarrow> string list
   \<Rightarrow> (service_spec \<Rightarrow> service_spec) list \<Rightarrow> service_spec" where
  "lsw_Specification fg resourceName resourceAddress address switchType maxLvl minLvl groups options =
     foldl (\<lambda>s f. f s)
       (service_Specification OutLvlSwitch resourceName resourceAddress address groups
          [(PropertyMaxLvl, VInt maxLvl), (PropertyMinLvl, VInt minLvl), (PropertySwitchType, VString switchType)]
          (lsw_requiredInterfaces fg))
       options"

definition lsw_DefaultReportingStrategy :: strategy where
  "lsw_DefaultReportingStrategy = ReportOnChangeOnly"

definition supportsLevelTransition :: "'d lsw_controller \<Rightarrow> bool" where
  "supportsLevelTransition ctl \<longleftrightarrow> lc_LevelTransition ctl \<noteq> None"

definition lsw_NewService ::
  "fimpgo \<Rightarrow> 'd lsw_controller \<Rightarrow> strategy option \<Rightarrow> service_spec \<Rightarrow> 'd \<Rightarrow> adapter \<Rightarrow> (nat \<Rightarrow> time)
   \<Rightarrow> 'd lsw_controller svc_config \<times> 'd svc" where
  "lsw_NewService fg ctl strat spec =
     (let s0 = fg_EnsureInterfaces fg (lsw_requiredInterfaces fg) spec;
          s1 = (if supportsLevelTransition ctl then fg_EnsureInterfaces fg (levelTransitionInterfaces fg) s0 else s0)
      in NewService_with fg ctl lsw_DefaultReportingStrategy strat s1)"

definition newLevelEvent :: "string \<Rightarrow> bool \<Rightarrow> int \<Rightarrow> service_event" where
  "newLevelEvent eventType hasChanged level = (NewServiceEvent eventType hasChanged)\<lparr>se_Level := Some level\<rparr>"

text \<open>A level report is announced by an event, whether it is sent or not.\<close>

definition SendLevelReport :: "'d lsw_controller svc_config \<Rightarrow> bool \<Rightarrow> ('d, bool) svc_act" where
  "SendLevelReport c force = with_svc (\<lambda>s. let name = svc_Name s in
     act_bind (act_wrap (name @ '': failed to get level report'') (on_dev (lc_LevelSwitchLevelReport (cf_controller c)))) (\<lambda>lvl.
     act_bind (send_value (cf_fimpgo c) (cf_strategy c) EvtLvlReport '''' (name @ '': failed to send level report'') (VInt lvl)
       (fg_New (cf_fimpgo c) KInt EvtLvlReport name (VInt lvl) [] None) force) (\<lambda>b.
     act_bind (svc_PublishEvent (newLevelEvent EvtLvlReport b lvl)) (\<lambda>_. act_return b))))"

definition SetLevel :: "'d lsw_controller svc_config \<Rightarrow> int \<Rightarrow> duration option \<Rightarrow> ('d, unit) svc_act" where
  "SetLevel c v d =
     control '': failed to set level'' (lc_SetLevelSwitchLevel (cf_controller c) v (case d of None \<Rightarrow> 0 | Some d \<Rightarrow> d))"

definition lsw_SetBinaryState :: "'d lsw_controller svc_config \<Rightarrow> bool \<Rightarrow> ('d, unit) svc_act" where
  "lsw_SetBinaryState c v = control '': failed to set binary'' (lc_SetLevelSwitchBinaryState (cf_controller c) v)"

text \<open>\<open>ptr\<close> is the address of the integer, which the code prints instead of its value.\<close>

definition validateStartLevelOption :: "'d lsw_controller svc_config \<Rightarrow> string \<Rightarrow> service_spec \<Rightarrow> int option \<Rightarrow> unit result" where
  "validateStartLevelOption c ptr spec startLvl =
     (case startLvl of
        None \<Rightarrow> Inr ()
      | Some lvl \<Rightarrow>
          case fg_PropertyInteger (cf_fimpgo c) spec PropertyMaxLvl of
            None \<Rightarrow> Inl (Errorf (''invalid service specification property: '' @ PropertyMaxLvl @ '' should be int''))
          | Some lvlMax \<Rightarrow>
              case fg_PropertyInteger (cf_fimpgo c) spec PropertyMinLvl of
                None \<Rightarrow> Inl (Errorf (''invalid service specification property: '' @ PropertyMinLvl @ '' should be int''))
              | Some lvlMin \<Rightarrow>
                  if lvl < lvlMin \<or> lvlMax < lvl
                  then Inl (Errorf (''invalid startLvl received: '' @ ptr @ ''. Should be in range: '' @ Itoa lvlMin @ '' - '' @ Itoa lvlMax))
                  else Inr ())"

definition StartLevelTransition ::
  "'d lsw_controller svc_config \<Rightarrow> string \<Rightarrow> string \<Rightarrow> level_transition_params \<Rightarrow> ('d, unit) svc_act" where
  "StartLevelTransition c ptr v params = with_svc (\<lambda>s.
     if \<not> supportsLevelTransition (cf_controller c)
     then act_fail (Errorf (''level transition isn'' @ [CHR 0x27] @ ''t supported, can'' @ [CHR 0x27] @ ''t start''))
     else if v \<noteq> TransitionUp \<and> v \<noteq> TransitionDown
     then act_fail (Errorf (''received incorrect value to start level transition. Received: '' @ v
                            @ '' Supported: '' @ TransitionUp @ '', '' @ TransitionDown))
     else
       act_bind (act_wrap ''validation of the start_lvl property has failed''
         (act_result (validateStartLevelOption c ptr (sc_spec s) (lt_StartLvl params)))) (\<lambda>_.
       let p1 = (if fg_PropertyBool (cf_fimpgo c) (sc_spec s) PropertySupportStartLevel then params else params\<lparr>lt_StartLvl := None\<rparr>);
           p2 = (if fg_PropertyBool (cf_fimpgo c) (sc_spec s) PropertySupportDuration then p1 else p1\<lparr>lt_Duration := None\<rparr>)
       in case lc_LevelTransition (cf_controller c) of
            None \<Rightarrow> act_fail (Errorf ''failed to cast controller into LevelTransitionController when starting level transition'')
          | Some (start, _) \<Rightarrow> act_wrap ''failed to start level transition'' (on_dev (start v p2))))"

definition StopLevelTransition :: "'d lsw_controller svc_config \<Rightarrow> ('d, unit) svc_act" where
  "StopLevelTransition c =
     (if \<not> supportsLevelTransition (cf_controller c)
      then act_fail (Errorf (''level transition isn'' @ [CHR 0x27] @ ''t supported, can'' @ [CHR 0x27] @ ''t stop''))
      else case lc_LevelTransition (cf_controller c) of
             None \<Rightarrow> act_fail (Errorf ''failed to cast controller into LevelTransitionController when stopping level transition'')
           | Some (_, stop) \<Rightarrow> act_wrap ''failed to start level transition'' (on_dev stop))"

text \<open>A \<^verbatim>\<open>time.Duration\<close> is an \<^verbatim>\<open>int64\<close>: the multiplication by a second may wrap around.\<close>

definition getStartLvl :: "fimpgo \<Rightarrow> message \<Rightarrow> int option result" where
  "getStartLvl fg msg =
     (case fg_IntProperty fg (pl_Properties (ms_Payload msg)) StartLvl_prop of
        None \<Rightarrow> Inr None
      | Some (Inl e) \<Rightarrow> Inl e
      | Some (Inr d) \<Rightarrow> Inr (Some d))"

definition getDurationInSeconds :: "fimpgo \<Rightarrow> message \<Rightarrow> duration option result" where
  "getDurationInSeconds fg msg =
     (case fg_IntProperty fg (pl_Properties (ms_Payload msg)) Duration_prop of
        None \<Rightarrow> Inr None
      | Some (Inl e) \<Rightarrow> Inl e
      | Some (Inr d) \<Rightarrow> Inr (Some (wrap64 (d * 1000000000))))"

definition HandleCmdLvlStart :: "'d lsw_controller svc_config \<Rightarrow> string \<Rightarrow> message \<Rightarrow> ('d, unit) svc_act" where
  "HandleCmdLvlStart c ptr msg =
     act_bind (act_wrap ''adapter: error while getting level value from message''
       (act_result (fg_GetStringValue (cf_fimpgo c) (ms_Payload msg)))) (\<lambda>direction.
     act_bind (act_wrap ''adapter: error while getting duration value from message''
       (act_result (getDurationInSeconds (cf_fimpgo c) msg))) (\<lambda>d.
     act_bind (act_wrap ''adapter: error while getting start_lvl value from message''
       (act_result (getStartLvl (cf_fimpgo c) msg))) (\<lambda>startLvl.
     act_bind (act_wrap ''adapter: failed to start level transitioning''
       (StartLevelTransition c ptr direction \<lparr>lt_StartLvl = startLvl, lt_Duration = d\<rparr>)) (\<lambda>_.
     answer ''adapter: error while sending level report'' (SendLevelReport c)))))"

definition HandleCmdLvlStop :: "'d lsw_controller svc_config \<Rightarrow> message \<Rightarrow> ('d, unit) svc_act" where
  "HandleCmdLvlStop c msg =
     act_bind (act_wrap ''adapter: failed to stop level transitioning'' (StopLevelTransition c)) (\<lambda>_.
     answer ''adapter: error while sending level report'' (SendLevelReport c))"

definition HandleCmdLvlSet :: "'d lsw_controller svc_config \<Rightarrow> message \<Rightarrow> ('d, unit) svc_act" where
  "HandleCmdLvlSet c msg =
     act_bind (act_wrap ''error while getting level value from message''
       (act_result (fg_GetIntValue (cf_fimpgo c) (ms_Payload msg)))) (\<lambda>lvl.
     act_bind (act_wrap ''error while getting duration value from message''
       (act_result (getDurationInSeconds (cf_fimpgo c) msg))) (\<lambda>d.
     act_bind (act_wrap ''error while setting level'' (SetLevel c lvl d)) (\<lambda>_.
     answer ''error while sending level report'' (SendLevelReport c))))"

definition lsw_HandleCmdBinarySet :: "'d lsw_controller svc_config \<Rightarrow> message \<Rightarrow> ('d, unit) svc_act" where
  "lsw_HandleCmdBinarySet c msg =
     act_bind (act_wrap ''error while getting binary value from message''
       (act_result (fg_GetBoolValue (cf_fimpgo c) (ms_Payload msg)))) (\<lambda>b.
     act_bind (act_wrap ''error while setting binary'' (lsw_SetBinaryState c b)) (\<lambda>_.
     answer ''error while sending level report'' (SendLevelReport c)))"

definition HandleCmdLvlGetReport :: "'d lsw_controller svc_config \<Rightarrow> message \<Rightarrow> ('d, unit) svc_act" where
  "HandleCmdLvlGetReport c msg = answer ''error while sending level report'' (SendLevelReport c)"

definition RouteCmdLvlSet :: "'d lsw_controller svc_config \<Rightarrow> 'd svc_world routing" where
  "RouteCmdLvlSet c = svc_routing (cf_fimpgo c) OutLvlSwitch CmdLvlSet (HandleCmdLvlSet c)"

definition lsw_RouteCmdBinarySet :: "'d lsw_controller svc_config \<Rightarrow> 'd svc_world routing" where
  "lsw_RouteCmdBinarySet c = svc_routing (cf_fimpgo c) OutLvlSwitch CmdBinarySet (lsw_HandleCmdBinarySet c)"

definition RouteCmdLvlGetReport :: "'d lsw_controller svc_config \<Rightarrow> 'd svc_world routing" where
  "RouteCmdLvlGetReport c = svc_routing (cf_fimpgo c) OutLvlSwitch CmdLvlGetReport (HandleCmdLvlGetReport c)"

definition RouteCmdLvlStart :: "'d lsw_controller svc_config \<Rightarrow> string \<Rightarrow> 'd svc_world routing" where
  "RouteCmdLvlStart c ptr = svc_routing (cf_fimpgo c) OutLvlSwitch CmdLvlStart (HandleCmdLvlStart c ptr)"

definition RouteCmdLvlStop :: "'d lsw_controller svc_config \<Rightarrow> 'd svc_world routing" where
  "RouteCmdLvlStop c = svc_routing (cf_fimpgo c) OutLvlSwitch CmdLvlStop (HandleCmdLvlStop c)"

definition lsw_RouteService :: "'d lsw_controller svc_config \<Rightarrow> string \<Rightarrow> 'd svc_world routing list" where
  "lsw_RouteService c ptr =
     [RouteCmdLvlSet c, lsw_RouteCmdBinarySet c, RouteCmdLvlGetReport c, RouteCmdLvlStart c ptr, RouteCmdLvlStop c]"

definition lsw_handleReporting :: "adapter_env \<Rightarrow> 'd lsw_controller svc_config \<Rightarrow> ('d svc_world, unit) act" where
  "lsw_handleReporting av c = svc_reporting av OutLvlSwitch (act_log (SendLevelReport c False))"

definition lsw_TaskReporting ::
  "adapter_env \<Rightarrow> 'd lsw_controller svc_config \<Rightarrow> duration \<Rightarrow> ('d svc_world \<Rightarrow> bool) list \<Rightarrow> 'd svc_world task" where
  "lsw_TaskReporting av c = svc_TaskReporting (lsw_handleReporting av c)"

section \<open>The reports keep their contract\<close>

interpretation bsr: forced_report "SendBinaryReport c" EvtBinaryReport "{''''}" for c
  unfolding SendBinaryReport_def by (intro forced_reportI report_rules forces_rules singletonI)

interpretation bsp: plain_report "SendBinaryReport c" EvtBinaryReport "''''"
  "dev_reading (bc_BinarySwitchStateReport (cf_controller c)) VBool"
  "fimpgo_ok (cf_fimpgo c)" "fimpgo_ok (cf_fimpgo c) \<and> cf_strategy c = ReportOnChangeOnly" for c
  unfolding SendBinaryReport_def by (rule send_report_plain) simp_all

interpretation lsr: forced_report "SendLevelReport c" EvtLvlReport "{''''}" for c
  unfolding SendLevelReport_def Let_def by (intro forced_reportI report_rules forces_rules quiet_rules singletonI)

section \<open>Properties\<close>

text \<open>
  A command that switches a device is confirmed by its effect: if the handler of \<^verbatim>\<open>cmd.binary.set\<close> returns
  without an error, the controller of the addressed service was given the value of the message, and exactly
  one message was published, which shows the state that the controller reports after the change.
\<close>
theorem binary_set_confirmed:
  assumes "fimpgo_ok (cf_fimpgo c)" "svc_handler (HandleCmdBinarySet c) msg w = Some (Inr reply, w')"
  shows "\<exists>a s v d t m b d'. getService msg w = Some (Inr a, w) \<and> wd_svcs w a = Some s
    \<and> fg_GetBoolValue (cf_fimpgo c) (ms_Payload msg) = Inr v
    \<and> bc_SetBinarySwitchState (cf_controller c) v (sc_dev s) = Some (Inr (), d)
    \<and> bc_BinarySwitchStateReport (cf_controller c) d = Some (Inr b, d') \<and> pl_Value m = VBool b
    \<and> ad_published (wd_ad w') = ad_published (wd_ad w) @ [(t, m)]"
proof -
  have "\<exists>a s x d t m. getService msg w = Some (Inr a, w) \<and> wd_svcs w a = Some s
    \<and> fg_GetBoolValue (cf_fimpgo c) (ms_Payload msg) = Inr x
    \<and> bc_SetBinarySwitchState (cf_controller c) x (sc_dev s) = Some (Inr (), d)
    \<and> dev_reading (bc_BinarySwitchStateReport (cf_controller c)) VBool (s\<lparr>sc_dev := d, sc_ad := wd_ad w\<rparr>) = Some (pl_Value m)
    \<and> ad_published (wd_ad w') = ad_published (wd_ad w) @ [(t, m)]"
    using assms(2) unfolding HandleCmdBinarySet_def SetBinaryState_def
    by (rule handler_confirms [OF bsp.plain_report_axioms assms(1)])
  then show ?thesis
    by (fastforce simp: dev_reading_def split: option.splits prod.splits sum.splits)
qed

text \<open>
  Whoever follows the events of a level switch knows its level: each level report that returns without an
  error publishes exactly one level event, with the level that the controller has reported and with the
  information whether a message was sent for it.
\<close>
theorem level_reports_announced:
  assumes "SendLevelReport c force s = Some (Inr sent, s')"
  shows "\<exists>lvl d e. lc_LevelSwitchLevelReport (cf_controller c) (sc_dev s) = Some (Inr lvl, d)
    \<and> ad_events (sc_ad s') = ad_events (sc_ad s) @ [ServiceEvent e]
    \<and> se_Level e = Some lvl \<and> se_hasChanged e = sent \<and> service_event.se_address e = sv_Address (sc_spec s)
    \<and> length (ad_published (sc_ad s')) = length (ad_published (sc_ad s)) + (if sent then 1 else 0)"
proof -
  let ?get = "on_dev (lc_LevelSwitchLevelReport (cf_controller c))"
  let ?send = "\<lambda>lvl. send_value (cf_fimpgo c) (cf_strategy c) EvtLvlReport '''' (svc_Name s @ '': failed to send level report'') (VInt lvl)
    (fg_New (cf_fimpgo c) KInt EvtLvlReport (svc_Name s) (VInt lvl) [] None) force"
  obtain lvl s1 s2 where g: "?get s = Some (Inr lvl, s1)" and s2: "?send lvl s1 = Some (Inr sent, s2)"
    and ev: "svc_PublishEvent (newLevelEvent EvtLvlReport sent lvl) s2 = Some (Inr (), s')"
    using assms by (auto simp: SendLevelReport_def with_svc_def Let_def elim!: act_bind_InrE)
  have s1: "sc_spec s1 = sc_spec s" "sc_ad s1 = sc_ad s" using g by (auto simp: on_dev_def)
  have "length (svc_published s2) = length (svc_published s1) + (if sent then 1 else 0)"
    using send_value_outcome [OF s2] by auto
  with on_dev_outcome [OF g] send_value_events [OF s2] ev s1 show ?thesis
    by (auto simp: svc_PublishEvent_def PublishServiceEvent_def PublishEvent_def newLevelEvent_def
        NewServiceEvent_def svc_published_def)
qed


section \<open>Switches that remember their state\<close>

definition demo_bsw :: "bool bsw_controller svc_config" where
  "demo_bsw =
     \<lparr>cf_fimpgo = demo_fimpgo,
      cf_controller = \<lparr>bc_BinarySwitchStateReport = (\<lambda>d. Some (Inr d, d)), bc_SetBinarySwitchState = (\<lambda>b d. Some (Inr (), b))\<rparr>,
      cf_strategy = ReportOnChangeOnly\<rparr>"

theorem binary_set_confirmed_witness:
  "\<exists>w' t m. svc_handler (HandleCmdBinarySet demo_bsw) (demo_command (demo_svc_spec OutBinSwitch []) (VBool True))
      (demo_world (demo_svc_spec OutBinSwitch []) False) = Some (Inr None, w')
    \<and> ad_published (wd_ad w') = [(t, m)] \<and> pl_Value m = VBool True"
proof -
  let ?sp = "demo_svc_spec OutBinSwitch []"
  let ?w = "demo_world ?sp False" and ?m = "demo_command ?sp (VBool True)"
  have "map_option fst (svc_handler (HandleCmdBinarySet demo_bsw) ?m ?w) = Some (Inr None)" by code_simp
  then obtain w' where w': "svc_handler (HandleCmdBinarySet demo_bsw) ?m ?w = Some (Inr None, w')" by auto
  have ok: "fimpgo_ok (cf_fimpgo demo_bsw)" by (simp add: demo_bsw_def demo_fimpgo_ok)
  have b: "fg_GetBoolValue (cf_fimpgo demo_bsw) (ms_Payload ?m) = Inr True"
    by (simp add: demo_bsw_def demo_fimpgo_def demo_command_def demo_NewMessage_def)
  have "ad_published (wd_ad ?w) = []"
    by (simp add: demo_world_def demo_adapter_def NewAdapter_def adapter_state.defs Let_def)
  then show ?thesis
    using binary_set_confirmed [OF ok w'] w' b by (auto simp: demo_bsw_def)
qed

definition demo_lsw :: "int lsw_controller svc_config" where
  "demo_lsw =
     \<lparr>cf_fimpgo = demo_fimpgo,
      cf_controller = \<lparr>lc_LevelSwitchLevelReport = (\<lambda>d. Some (Inr d, d)), lc_SetLevelSwitchLevel = (\<lambda>l t d. Some (Inr (), l)),
        lc_SetLevelSwitchBinaryState = (\<lambda>b d. Some (Inr (), if b then 100 else 0)), lc_LevelTransition = None\<rparr>,
      cf_strategy = ReportOnChangeOnly\<rparr>"

theorem level_reports_announced_witness:
  "\<exists>s' e es. SendLevelReport demo_lsw False (svc_New (demo_svc_spec OutLvlSwitch []) 70 (demo_adapter (\<lambda>_. None)) int) = Some (Inr True, s')
    \<and> ad_events (sc_ad s') = es @ [ServiceEvent e] \<and> se_Level e = Some 70 \<and> se_hasChanged e"
proof -
  let ?s = "svc_New (demo_svc_spec OutLvlSwitch []) 70 (demo_adapter (\<lambda>_. None)) int"
  have "map_option fst (SendLevelReport demo_lsw False ?s) = Some (Inr True)" by code_simp
  then obtain s' where s': "SendLevelReport demo_lsw False ?s = Some (Inr True, s')" by auto
  from level_reports_announced [OF s'] s' show ?thesis by (auto simp: demo_lsw_def svc_New_def)
qed

end
