(* ===== verification/Sensors.thy ===== *)
theory Sensors
  imports Device_Service
begin

text \<open>
  The services that only report: \<^verbatim>\<open>src/adapter/service/presence\<close>, \<^verbatim>\<open>src/adapter/service/numericsensor\<close> and
  \<^verbatim>\<open>src/adapter/service/battery\<close>, each with its constants, controller, specification, service, handlers and
  reporting task.
\<close>

section \<open>Presence (\<^verbatim>\<open>presence\<close>)\<close>

definition CmdPresenceGetReport :: string where "CmdPresenceGetReport = ''cmd.presence.get_report''"
definition EvtPresenceReport :: string where "EvtPresenceReport = ''evt.presence.report''"
definition SensorPresence :: string where "SensorPresence = ''sensor_presence''"

record 'd presence_controller =
  pc_SensorPresenceReport :: "('d, bool) act"

definition presence_requiredInterfaces :: "fimpgo \<Rightarrow> interface list" where
  "presence_requiredInterfaces fg =
     [iface (fg_TypeIn fg) CmdPresenceGetReport (fg_VTypeNull fg),
      iface (fg_TypeOut fg) EvtPresenceReport (fg_VTypeBool fg),
      iface (fg_TypeOut fg) EvtErrorReport (fg_VTypeString fg)]"

definition presence_Specification :: "fimpgo \<Rightarrow> string \<Rightarrow> string \<Rightarrow> string \<Rightarrow> string list \<Rightarrow> service_spec" where
  "presence_Specification fg resourceName resourceAddress address groups =
     service_Specification SensorPresence resourceName resourceAddress address groups [] (presence_requiredInterfaces fg)"

definition presence_DefaultReportingStrategy :: strategy where
  "presence_DefaultReportingStrategy = ReportOnChangeOnly"

definition presence_NewService ::
  "fimpgo \<Rightarrow> 'd presence_controller \<Rightarrow> strategy option \<Rightarrow> service_spec \<Rightarrow> 'd \<Rightarrow> adapter \<Rightarrow> (nat \<Rightarrow> time)
   \<Rightarrow> 'd presence_controller svc_config \<times> 'd svc" where
  "presence_NewService fg ctl strat spec =
     NewService_with fg ctl presence_DefaultReportingStrategy strat (fg_EnsureInterfaces fg (presence_requiredInterfaces fg) spec)"

definition SendPresenceReport :: "'d presence_controller svc_config \<Rightarrow> bool \<Rightarrow> ('d, bool) svc_act" where
  "SendPresenceReport c force =
     send_report (cf_fimpgo c) (cf_strategy c) EvtPresenceReport ''''
       '': failed to get presence reeport'' '': failed to send presence report''
       (pc_SensorPresenceReport (cf_controller c)) VBool
       (\<lambda>name v. fg_New (cf_fimpgo c) KBool EvtPresenceReport name (VBool v) [] None)
       force"

definition HandleCmdPresenceGetReport :: "'d presence_controller svc_config \<Rightarrow> message \<Rightarrow> ('d, unit) svc_act" where
  "HandleCmdPresenceGetReport c msg = answer ''failed to send presence report'' (SendPresenceReport c)"

definition RouteCmdPresenceGetReport :: "'d presence_controller svc_config \<Rightarrow> 'd svc_world routing" where
  "RouteCmdPresenceGetReport c = svc_routing (cf_fimpgo c) SensorPresence CmdPresenceGetReport (HandleCmdPresenceGetReport c)"

definition presence_RouteService :: "'d presence_controller svc_config \<Rightarrow> 'd svc_world routing list" where
  "presence_RouteService c = [RouteCmdPresenceGetReport c]"

definition presence_handleReporting :: "adapter_env \<Rightarrow> 'd presence_controller svc_config \<Rightarrow> ('d svc_world, unit) act" where
  "presence_handleReporting av c = svc_reporting av SensorPresence (act_log (SendPresenceReport c False))"

definition presence_TaskReporting ::
  "adapter_env \<Rightarrow> 'd presence_controller svc_config \<Rightarrow> duration \<Rightarrow> ('d svc_world \<Rightarrow> bool) list \<Rightarrow> 'd svc_world task" where
  "presence_TaskReporting av c = svc_TaskReporting (presence_handleReporting av c)"

section \<open>Numeric sensor (\<^verbatim>\<open>numericsensor\<close>)\<close>

definition CmdSensorGetReport :: string where "CmdSensorGetReport = ''cmd.sensor.get_report''"
definition EvtSensorReport :: string where "EvtSensorReport = ''evt.sensor.report''"
definition sensor_prefix :: string where "sensor_prefix = ''sensor_''"
definition PropertyUnit :: string where "PropertyUnit = ''unit''"
definition PropertySupportedUnits :: string where "PropertySupportedUnits = ''sup_units''"

record 'd sensor_reporter =
  sr_NumericSensorReport :: "string \<Rightarrow> ('d, rat) act"

definition sensor_requiredInterfaces :: "fimpgo \<Rightarrow> interface list" where
  "sensor_requiredInterfaces fg =
     [iface (fg_TypeIn fg) CmdSensorGetReport (fg_VTypeString fg),
      iface (fg_TypeOut fg) EvtSensorReport (fg_VTypeFloat fg),
      iface (fg_TypeOut fg) EvtErrorReport (fg_VTypeString fg)]"

definition sensor_Specification ::
  "fimpgo \<Rightarrow> string \<Rightarrow> string \<Rightarrow> string \<Rightarrow> string \<Rightarrow> string list \<Rightarrow> string list \<Rightarrow> service_spec" where
  "sensor_Specification fg resourceName resourceAddress serviceName address groups supportedUnits =
     service_Specification serviceName resourceName resourceAddress address groups
       [(PropertySupportedUnits, VList (map VString supportedUnits))] (sensor_requiredInterfaces fg)"

definition sensor_DefaultReportingStrategy :: strategy where
  "sensor_DefaultReportingStrategy = ReportAtLeastEvery (30 * 60 * 1000000000)"

definition sensor_NewService ::
  "fimpgo \<Rightarrow> 'd sensor_reporter \<Rightarrow> strategy option \<Rightarrow> service_spec \<Rightarrow> 'd \<Rightarrow> adapter \<Rightarrow> (nat \<Rightarrow> time)
   \<Rightarrow> 'd sensor_reporter svc_config \<times> 'd svc" where
  "sensor_NewService fg ctl strat spec =
     NewService_with fg ctl sensor_DefaultReportingStrategy strat (fg_EnsureInterfaces fg (sensor_requiredInterfaces fg) spec)"

definition sensor_SupportedUnits :: "'d sensor_reporter svc_config \<Rightarrow> service_spec \<Rightarrow> string list" where
  "sensor_SupportedUnits c spec = fg_PropertyStrings (cf_fimpgo c) spec PropertySupportedUnits"

definition sensor_normalizeUnit :: "'d sensor_reporter svc_config \<Rightarrow> service_spec \<Rightarrow> string \<Rightarrow> string option" where
  "sensor_normalizeUnit c spec unit = normalize unit (sensor_SupportedUnits c spec)"

text \<open>The sensor is asked with the unit as it was received, the message has the unit of the specification.\<close>

definition SendSensorReport :: "'d sensor_reporter svc_config \<Rightarrow> string \<Rightarrow> bool \<Rightarrow> ('d, bool) svc_act" where
  "SendSensorReport c unit force = with_svc (\<lambda>s.
     act_bind (case sensor_normalizeUnit c (sc_spec s) unit of
         None \<Rightarrow> act_fail (Errorf (svc_Name s @ '': unit is unsupported: '' @ unit))
       | Some u \<Rightarrow> act_return u) (\<lambda>u.
     send_report (cf_fimpgo c) (cf_strategy c) EvtSensorReport u
       '': failed to retrieve sensor report'' ('': failed to send sensor report for unit '' @ u)
       (sr_NumericSensorReport (cf_controller c) unit) VFloat
       (\<lambda>name v. fg_WithStorageStrategy (cf_fimpgo c) (fg_StorageStrategyAggregate (cf_fimpgo c)) u
          (fg_New (cf_fimpgo c) KFloat EvtSensorReport name (VFloat v) [(PropertyUnit, u)] None))
       force))"

definition sensor_unitsToReport :: "'d sensor_reporter svc_config \<Rightarrow> service_spec \<Rightarrow> message \<Rightarrow> string list result" where
  "sensor_unitsToReport c spec msg =
     (if pl_ValueType (ms_Payload msg) = fg_VTypeNull (cf_fimpgo c) then Inr (sensor_SupportedUnits c spec)
      else bind_result (wrap_err ''provided unit has an incorrect format'' (fg_GetStringValue (cf_fimpgo c) (ms_Payload msg))) (\<lambda>unit.
        if unit = '''' then Inr (sensor_SupportedUnits c spec) else Inr [unit]))"

definition HandleCmdSensorGetReport :: "'d sensor_reporter svc_config \<Rightarrow> message \<Rightarrow> ('d, unit) svc_act" where
  "HandleCmdSensorGetReport c msg = with_svc (\<lambda>s.
     if svc_Name s \<noteq> pl_Service (ms_Payload msg)
     then act_fail (Errorf (''incorrect service found under the provided address: '' @ ad_ServiceAddress (ms_Addr msg)))
     else
       act_bind (act_result (sensor_unitsToReport c (sc_spec s) msg)) (\<lambda>units.
       act_for units (\<lambda>unit. answer ''failed to send sensor report'' (SendSensorReport c unit))))"

definition RouteCmdSensorGetReport :: "'d sensor_reporter svc_config \<Rightarrow> 'd svc_world routing" where
  "RouteCmdSensorGetReport c =
     svc_route (cf_fimpgo c) (ForServicePrefix sensor_prefix) CmdSensorGetReport [] (HandleCmdSensorGetReport c)"

definition sensor_RouteService :: "'d sensor_reporter svc_config \<Rightarrow> 'd svc_world routing list" where
  "sensor_RouteService c = [RouteCmdSensorGetReport c]"

definition sensor_handleReporting :: "adapter_env \<Rightarrow> 'd sensor_reporter svc_config \<Rightarrow> ('d svc_world, unit) act" where
  "sensor_handleReporting av c = svc_reporting_prefix av sensor_prefix (with_svc (\<lambda>s.
     act_for (sensor_SupportedUnits c (sc_spec s)) (\<lambda>unit. act_log (SendSensorReport c unit False))))"

definition sensor_TaskReporting ::
  "adapter_env \<Rightarrow> 'd sensor_reporter svc_config \<Rightarrow> duration \<Rightarrow> ('d svc_world \<Rightarrow> bool) list \<Rightarrow> 'd svc_world task" where
  "sensor_TaskReporting av c = svc_TaskReporting (sensor_handleReporting av c)"

section \<open>Battery (\<^verbatim>\<open>battery\<close>)\<close>

definition CmdLevelGetReport :: string where "CmdLevelGetReport = ''cmd.lvl.get_report''"
definition EvtLevelReport :: string where "EvtLevelReport = ''evt.lvl.report''"
definition EvtAlarmReport :: string where "EvtAlarmReport = ''evt.alarm.report''"
definition Battery :: string where "Battery = ''battery''"
definition PropertySupportedEvents :: string where "PropertySupportedEvents = ''sup_events''"

record alarm_report =
  al_Event :: string
  al_Status :: string

definition ToStrMap :: "alarm_report \<Rightarrow> fimp_value" where
  "ToStrMap r = VObject [(''event'', VString (al_Event r)), (''status'', VString (al_Status r))]"

record 'd battery_reporter =
  br_BatteryLevelReport :: "('d, int) act"
  br_BatteryAlarmReport :: "string \<Rightarrow> ('d, alarm_report option) act"   \<comment> \<open>\<open>None\<close> is a nil report\<close>

definition battery_requiredInterfaces :: "fimpgo \<Rightarrow> interface list" where
  "battery_requiredInterfaces fg =
     [iface (fg_TypeIn fg) CmdLevelGetReport (fg_VTypeNull fg),
      iface (fg_TypeOut fg) EvtLevelReport (fg_VTypeString fg),
      iface (fg_TypeOut fg) EvtAlarmReport (fg_VTypeStrMap fg),
      iface (fg_TypeOut fg) EvtErrorReport (fg_VTypeString fg)]"

definition battery_Specification :: "fimpgo \<Rightarrow> string \<Rightarrow> string \<Rightarrow> string \<Rightarrow> string list \<Rightarrow> string list \<Rightarrow> service_spec" where
  "battery_Specification fg resourceName resourceAddress address groups events =
     service_Specification Battery resourceName resourceAddress address groups
       [(PropertySupportedEvents, VList (map VString events))] (battery_requiredInterfaces fg)"

definition battery_DefaultReportingStrategy :: strategy where
  "battery_DefaultReportingStrategy = ReportOnChangeOnly"

definition battery_NewService ::
  "fimpgo \<Rightarrow> 'd battery_reporter \<Rightarrow> strategy option \<Rightarrow> service_spec \<Rightarrow> 'd \<Rightarrow> adapter \<Rightarrow> (nat \<Rightarrow> time)
   \<Rightarrow> 'd battery_reporter svc_config \<times> 'd svc" where
  "battery_NewService fg ctl strat spec =
     NewService_with fg ctl battery_DefaultReportingStrategy strat
       (fg_EnsureInterfaces fg (battery_requiredInterfaces fg) (spec\<lparr>sv_Name := Battery\<rparr>))"

definition SupportedEvents :: "'d battery_reporter svc_config \<Rightarrow> service_spec \<Rightarrow> string list" where
  "SupportedEvents c spec = fg_PropertyStrings (cf_fimpgo c) spec PropertySupportedEvents"

definition normalizeEvent :: "'d battery_reporter svc_config \<Rightarrow> service_spec \<Rightarrow> string \<Rightarrow> string option" where
  "normalizeEvent c spec ev = normalize ev (SupportedEvents c spec)"

definition SendBatteryLevelReport :: "'d battery_reporter svc_config \<Rightarrow> bool \<Rightarrow> ('d, bool) svc_act" where
  "SendBatteryLevelReport c force =
     send_reading (cf_fimpgo c) (cf_strategy c) EvtLevelReport ''''
       ''failed to get battery level report'' ''failed to send battery level report''
       (br_BatteryLevelReport (cf_controller c)) VInt
       (\<lambda>name v. fg_New (cf_fimpgo c) KInt EvtLevelReport name (VInt v) [] None)
       force"

definition SendBatteryAlarmReport :: "'d battery_reporter svc_config \<Rightarrow> string \<Rightarrow> bool \<Rightarrow> ('d, bool) svc_act" where
  "SendBatteryAlarmReport c ev force = with_svc (\<lambda>s.
     act_bind (case normalizeEvent c (sc_spec s) ev of
         None \<Rightarrow> act_fail (Errorf (svc_Name s @ '': event is unsupported: '' @ ev))
       | Some n \<Rightarrow> act_return n) (\<lambda>n.
     act_bind (act_wrap (''failed to get battery alarm report for event '' @ n)
       (on_dev (br_BatteryAlarmReport (cf_controller c) n))) (\<lambda>alarm.
     if alarm = None then act_return False
     else
       send_value (cf_fimpgo c) (cf_strategy c) EvtAlarmReport (al_Event (the alarm))
         ''failed to send battery alarm report'' (ToStrMap (the alarm))
         (fg_WithStorageStrategy (cf_fimpgo c) (fg_StorageStrategyAggregate (cf_fimpgo c)) (al_Event (the alarm))
            (fg_New (cf_fimpgo c) KStrMap EvtAlarmReport (svc_Name s) (ToStrMap (the alarm)) [] None))
         force)))"

definition handleCmdLevelGetReport :: "'d battery_reporter svc_config \<Rightarrow> message \<Rightarrow> ('d, unit) svc_act" where
  "handleCmdLevelGetReport c msg = answer ''failed to send battery level report'' (SendBatteryLevelReport c)"

definition routeCmdLevelGetReport :: "'d battery_reporter svc_config \<Rightarrow> 'd svc_world routing" where
  "routeCmdLevelGetReport c = svc_routing (cf_fimpgo c) Battery CmdLevelGetReport (handleCmdLevelGetReport c)"

definition battery_RouteService :: "'d battery_reporter svc_config \<Rightarrow> 'd svc_world routing list" where
  "battery_RouteService c = [routeCmdLevelGetReport c]"

definition battery_handleReporting :: "adapter_env \<Rightarrow> 'd battery_reporter svc_config \<Rightarrow> ('d svc_world, unit) act" where
  "battery_handleReporting av c = svc_reporting av Battery (with_svc (\<lambda>s.
     act_bind (act_log (SendBatteryLevelReport c False)) (\<lambda>_.
     act_for (SupportedEvents c (sc_spec s)) (\<lambda>ev. act_log (SendBatteryAlarmReport c ev False)))))"

definition battery_TaskReporting ::
  "adapter_env \<Rightarrow> 'd battery_reporter svc_config \<Rightarrow> duration \<Rightarrow> ('d svc_world \<Rightarrow> bool) list \<Rightarrow> 'd svc_world task" where
  "battery_TaskReporting av c = svc_TaskReporting (battery_handleReporting av c)"

section \<open>The reports keep their contract\<close>

interpretation psr: plain_report "SendPresenceReport c" EvtPresenceReport "''''"
  "dev_reading (pc_SensorPresenceReport (cf_controller c)) VBool"
  "fimpgo_ok (cf_fimpgo c)" "fimpgo_ok (cf_fimpgo c) \<and> cf_strategy c = ReportOnChangeOnly" for c
  unfolding SendPresenceReport_def by (rule send_report_plain) simp_all

interpretation blr: plain_report "SendBatteryLevelReport c" EvtLevelReport "''''"
  "dev_reading (br_BatteryLevelReport (cf_controller c)) VInt"
  "fimpgo_ok (cf_fimpgo c)" "fimpgo_ok (cf_fimpgo c) \<and> cf_strategy c = ReportOnChangeOnly" for c
  unfolding SendBatteryLevelReport_def by (rule send_reading_plain) simp_all

interpretation bar: report_op "SendBatteryAlarmReport c ev" EvtAlarmReport UNIV for c ev
  unfolding SendBatteryAlarmReport_def by (intro report_rules quiet_rules UNIV_I)

interpretation ssr: forced_report "SendSensorReport c unit" EvtSensorReport UNIV for c unit
  unfolding SendSensorReport_def by (intro forced_reportI report_rules forces_rules quiet_rules UNIV_I)

end
