(* ===== verification/Controls.thy ===== *)
theory Controls
  imports Device_Service
begin

text \<open>
  The services that set a value of a device and report it: \<^verbatim>\<open>colorctrl\<close>, \<^verbatim>\<open>fanctrl\<close>, \<^verbatim>\<open>scenectrl\<close> and
  \<^verbatim>\<open>mediaplayer\<close> of \<^verbatim>\<open>src/adapter/service\<close>, and \<^verbatim>\<open>devsys\<close>, which only reboots a device.
\<close>

section \<open>Colors (\<^verbatim>\<open>colorctrl\<close>)\<close>

definition CmdColorSet :: string where "CmdColorSet = ''cmd.color.set''"
definition CmdColorGetReport :: string where "CmdColorGetReport = ''cmd.color.get_report''"
definition EvtColorReport :: string where "EvtColorReport = ''evt.color.report''"
definition ColorCtrl :: string where "ColorCtrl = ''color_ctrl''"
definition PropertySupportedComponents :: string where "PropertySupportedComponents = ''sup_components''"
definition PropertySupportedDurations :: string where "PropertySupportedDurations = ''sup_durations''"

record 'd color_controller =
  co_SetColorCtrlColor :: "(string \<times> int) list \<Rightarrow> ('d, unit) act"
  co_ColorCtrlColorReport :: "('d, (string \<times> int) list) act"

definition color_requiredInterfaces :: "fimpgo \<Rightarrow> interface list" where
  "color_requiredInterfaces fg =
     [iface (fg_TypeIn fg) CmdColorSet (fg_VTypeNull fg),
      iface (fg_TypeOut fg) EvtColorReport (fg_VTypeIntMap fg),
      iface (fg_TypeIn fg) CmdColorGetReport (fg_VTypeNull fg),
      iface (fg_TypeOut fg) EvtErrorReport (fg_VTypeString fg)]"

definition color_Specification ::
  "fimpgo \<Rightarrow> string \<Rightarrow> string \<Rightarrow> string \<Rightarrow> string list \<Rightarrow> string list \<Rightarrow> (string \<times> int) list \<Rightarrow> service_spec" where
  "color_Specification fg resourceName resourceAddress address groups supportedComponents supportedDurations =
     (let s = service_Specification ColorCtrl resourceName resourceAddress address groups
                [(PropertySupportedComponents, VList (map VString supportedComponents))] (color_requiredInterfaces fg)
      in if supportedDurations \<noteq> [] then set_prop PropertySupportedDurations (int_map_value supportedDurations) s else s)"

definition color_DefaultReportingStrategy :: strategy where
  "color_DefaultReportingStrategy = ReportOnChangeOnly"

definition color_NewService ::
  "fimpgo \<Rightarrow> 'd color_controller \<Rightarrow> strategy option \<Rightarrow> service_spec \<Rightarrow> 'd \<Rightarrow> adapter \<Rightarrow> (nat \<Rightarrow> time)
   \<Rightarrow> 'd color_controller svc_config \<times> 'd svc" where
  "color_NewService fg ctl strat spec =
     NewService_with fg ctl color_DefaultReportingStrategy strat
       (fg_EnsureInterfaces fg (color_requiredInterfaces fg) (spec\<lparr>sv_Name := ColorCtrl\<rparr>))"

definition SetColor :: "'d color_controller svc_config \<Rightarrow> (string \<times> int) list \<Rightarrow> ('d, unit) svc_act" where
  "SetColor c color = act_wrap ''failed to set color'' (on_dev (co_SetColorCtrlColor (cf_controller c) color))"

definition SendColorReport :: "'d color_controller svc_config \<Rightarrow> bool \<Rightarrow> ('d, bool) svc_act" where
  "SendColorReport c force =
     send_reading (cf_fimpgo c) (cf_strategy c) EvtColorReport ''''
       ''failed to get color'' ''failed to send color report''
       (co_ColorCtrlColorReport (cf_controller c)) int_map_value
       (\<lambda>name v. fg_New (cf_fimpgo c) KIntMap EvtColorReport name (int_map_value v) [] None)
       force"

definition SupportedComponents :: "'d color_controller svc_config \<Rightarrow> service_spec \<Rightarrow> string list" where
  "SupportedComponents c spec = fg_PropertyStrings (cf_fimpgo c) spec PropertySupportedComponents"

definition SupportedDurations :: "'d color_controller svc_config \<Rightarrow> service_spec \<Rightarrow> int list" where
  "SupportedDurations c spec = fg_PropertyIntegers (cf_fimpgo c) spec PropertySupportedDurations"

definition HandleCmdColorSet :: "'d color_controller svc_config \<Rightarrow> message \<Rightarrow> ('d, unit) svc_act" where
  "HandleCmdColorSet c msg =
     act_bind (act_wrap ''failed to parse color'' (act_result (fg_GetIntMapValue (cf_fimpgo c) (ms_Payload msg)))) (\<lambda>color.
     act_bind (act_wrap ''failed to set color'' (SetColor c color)) (\<lambda>_.
     answer ''failed to send color report'' (SendColorReport c)))"

definition HandleCmdColorGetReport :: "'d color_controller svc_config \<Rightarrow> message \<Rightarrow> ('d, unit) svc_act" where
  "HandleCmdColorGetReport c msg = answer ''failed to send color report'' (SendColorReport c)"

definition RouteCmdColorSet :: "'d color_controller svc_config \<Rightarrow> 'd svc_world routing" where
  "RouteCmdColorSet c = svc_routing (cf_fimpgo c) ColorCtrl CmdColorSet (HandleCmdColorSet c)"

definition RouteCmdColorGetReport :: "'d color_controller svc_config \<Rightarrow> 'd svc_world routing" where
  "RouteCmdColorGetReport c = svc_routing (cf_fimpgo c) ColorCtrl CmdColorGetReport (HandleCmdColorGetReport c)"

definition color_RouteService :: "'d color_controller svc_config \<Rightarrow> 'd svc_world routing list" where
  "color_RouteService c = [RouteCmdColorSet c, RouteCmdColorGetReport c]"

definition color_handleReporting :: "adapter_env \<Rightarrow> 'd color_controller svc_config \<Rightarrow> ('d svc_world, unit) act" where
  "color_handleReporting av c = svc_reporting av ColorCtrl (act_log (SendColorReport c False))"

definition color_TaskReporting ::
  "adapter_env \<Rightarrow> 'd color_controller svc_config \<Rightarrow> duration \<Rightarrow> ('d svc_world \<Rightarrow> bool) list \<Rightarrow> 'd svc_world task" where
  "color_TaskReporting av c = svc_TaskReporting (color_handleReporting av c)"

section \<open>Fans (\<^verbatim>\<open>fanctrl\<close>)\<close>

definition CmdModeGetReport :: string where "CmdModeGetReport = ''cmd.mode.get_report''"
definition CmdModeSet :: string where "CmdModeSet = ''cmd.mode.set''"
definition EvtModeReport :: string where "EvtModeReport = ''evt.mode.report''"
definition FanCtrl :: string where "FanCtrl = ''fan_ctrl''"
definition PropertySupportedModes :: string where "PropertySupportedModes = ''sup_modes''"

record 'd fan_controller =
  fa_SetFanCtrlMode :: "string \<Rightarrow> ('d, unit) act"
  fa_FanCtrlModeReport :: "('d, string) act"

definition fan_requiredInterfaces :: "fimpgo \<Rightarrow> interface list" where
  "fan_requiredInterfaces fg =
     [iface (fg_TypeIn fg) CmdModeSet (fg_VTypeNull fg),
      iface (fg_TypeOut fg) EvtModeReport (fg_VTypeIntMap fg),
      iface (fg_TypeIn fg) CmdModeGetReport (fg_VTypeNull fg),
      iface (fg_TypeOut fg) EvtErrorReport (fg_VTypeString fg)]"

definition fan_Specification :: "fimpgo \<Rightarrow> string \<Rightarrow> string \<Rightarrow> string \<Rightarrow> string list \<Rightarrow> string list \<Rightarrow> service_spec" where
  "fan_Specification fg resourceName resourceAddress address groups supportedModes =
     service_Specification FanCtrl resourceName resourceAddress address groups
       [(PropertySupportedModes, VList (map VString supportedModes))] (fan_requiredInterfaces fg)"

definition fan_DefaultReportingStrategy :: strategy where
  "fan_DefaultReportingStrategy = ReportOnChangeOnly"

definition fan_NewService ::
  "fimpgo \<Rightarrow> 'd fan_controller \<Rightarrow> strategy option \<Rightarrow> service_spec \<Rightarrow> 'd \<Rightarrow> adapter \<Rightarrow> (nat \<Rightarrow> time)
   \<Rightarrow> 'd fan_controller svc_config \<times> 'd svc" where
  "fan_NewService fg ctl strat spec =
     NewService_with fg ctl fan_DefaultReportingStrategy strat
       (fg_EnsureInterfaces fg (fan_requiredInterfaces fg) (spec\<lparr>sv_Name := FanCtrl\<rparr>))"

definition fan_SupportedModes :: "'d fan_controller svc_config \<Rightarrow> service_spec \<Rightarrow> string list" where
  "fan_SupportedModes c spec = fg_PropertyStrings (cf_fimpgo c) spec PropertySupportedModes"

definition fan_SetMode :: "'d fan_controller svc_config \<Rightarrow> string \<Rightarrow> ('d, unit) svc_act" where
  "fan_SetMode c mode = with_svc (\<lambda>s.
     if mode \<notin> set (fan_SupportedModes c (sc_spec s)) then act_fail (Errorf (''mode '' @ mode @ '' is not supported''))
     else act_wrap ''failed to set mode'' (on_dev (fa_SetFanCtrlMode (cf_controller c) mode)))"

definition fan_SendModeReport :: "'d fan_controller svc_config \<Rightarrow> bool \<Rightarrow> ('d, bool) svc_act" where
  "fan_SendModeReport c force = with_svc (\<lambda>s.
     act_bind (act_wrap ''failed to get mode'' (on_dev (fa_FanCtrlModeReport (cf_controller c)))) (\<lambda>mode.
     if mode \<notin> set (fan_SupportedModes c (sc_spec s)) then act_fail (Errorf (''mode '' @ mode @ '' is not supported''))
     else
       send_value (cf_fimpgo c) (cf_strategy c) EvtModeReport '''' ''failed to send mode report'' (VString mode)
         (fg_New (cf_fimpgo c) KString EvtModeReport (svc_Name s) (VString mode) [] None) force))"

definition fan_HandleCmdModeSet :: "'d fan_controller svc_config \<Rightarrow> message \<Rightarrow> ('d, unit) svc_act" where
  "fan_HandleCmdModeSet c msg =
     act_bind (act_wrap ''failed to parse mode'' (act_result (fg_GetStringValue (cf_fimpgo c) (ms_Payload msg)))) (\<lambda>mode.
     act_bind (act_wrap ''failed to set mode'' (fan_SetMode c mode)) (\<lambda>_.
     answer ''failed to send mode report'' (fan_SendModeReport c)))"

definition fan_HandleCmdModeGetReport :: "'d fan_controller svc_config \<Rightarrow> message \<Rightarrow> ('d, unit) svc_act" where
  "fan_HandleCmdModeGetReport c msg = answer ''failed to send mode report'' (fan_SendModeReport c)"

definition fan_RouteCmdModeSet :: "'d fan_controller svc_config \<Rightarrow> 'd svc_world routing" where
  "fan_RouteCmdModeSet c = svc_routing (cf_fimpgo c) FanCtrl CmdModeSet (fan_HandleCmdModeSet c)"

definition fan_RouteCmdModeGetReport :: "'d fan_controller svc_config \<Rightarrow> 'd svc_world routing" where
  "fan_RouteCmdModeGetReport c = svc_routing (cf_fimpgo c) FanCtrl CmdModeGetReport (fan_HandleCmdModeGetReport c)"

definition fan_RouteService :: "'d fan_controller svc_config \<Rightarrow> 'd svc_world routing list" where
  "fan_RouteService c = [fan_RouteCmdModeSet c, fan_RouteCmdModeGetReport c]"

definition fan_handleReporting :: "adapter_env \<Rightarrow> 'd fan_controller svc_config \<Rightarrow> ('d svc_world, unit) act" where
  "fan_handleReporting av c = svc_reporting av FanCtrl (act_log (fan_SendModeReport c False))"

definition fan_TaskReporting ::
  "adapter_env \<Rightarrow> 'd fan_controller svc_config \<Rightarrow> duration \<Rightarrow> ('d svc_world \<Rightarrow> bool) list \<Rightarrow> 'd svc_world task" where
  "fan_TaskReporting av c = svc_TaskReporting (fan_handleReporting av c)"

section \<open>Scenes (\<^verbatim>\<open>scenectrl\<close>)\<close>

definition CmdSceneGetReport :: string where "CmdSceneGetReport = ''cmd.scene.get_report''"
definition CmdSceneSet :: string where "CmdSceneSet = ''cmd.scene.set''"
definition EvtSceneReport :: string where "EvtSceneReport = ''evt.scene.report''"
definition SceneCtrl :: string where "SceneCtrl = ''scene_ctrl''"
definition PropertySupportedScenes :: string where "PropertySupportedScenes = ''sup_scenes''"

record scene_report =
  sn_Scene :: string
  sn_Timestamp :: time

definition scene_value :: "scene_report \<Rightarrow> fimp_value" where
  "scene_value r = VObject [(''Scene'', VString (sn_Scene r)), (''Timestamp'', VInt (sn_Timestamp r))]"

record 'd scene_controller =
  sk_SetSceneCtrlScene :: "string \<Rightarrow> ('d, unit) act"
  sk_SceneCtrlSceneReport :: "('d, scene_report) act"

definition scene_requiredInterfaces :: "fimpgo \<Rightarrow> interface list" where
  "scene_requiredInterfaces fg =
     [iface (fg_TypeIn fg) CmdSceneGetReport (fg_VTypeNull fg),
      iface (fg_TypeIn fg) CmdSceneSet (fg_VTypeString fg),
      iface (fg_TypeOut fg) EvtSceneReport (fg_VTypeString fg),
      iface (fg_TypeOut fg) EvtErrorReport (fg_VTypeString fg)]"

definition scene_Specification :: "fimpgo \<Rightarrow> string \<Rightarrow> string \<Rightarrow> string \<Rightarrow> string list \<Rightarrow> string list \<Rightarrow> service_spec" where
  "scene_Specification fg resourceName resourceAddress address supportedScenes groups =
     service_Specification SceneCtrl resourceName resourceAddress address groups
       [(PropertySupportedScenes, VList (map VString supportedScenes))] (scene_requiredInterfaces fg)"

definition scene_DefaultReportingStrategy :: strategy where
  "scene_DefaultReportingStrategy = ReportOnChangeOnly"

definition scene_NewService ::
  "fimpgo \<Rightarrow> 'd scene_controller \<Rightarrow> strategy option \<Rightarrow> service_spec \<Rightarrow> 'd \<Rightarrow> adapter \<Rightarrow> (nat \<Rightarrow> time)
   \<Rightarrow> 'd scene_controller svc_config \<times> 'd svc" where
  "scene_NewService fg ctl strat spec =
     NewService_with fg ctl scene_DefaultReportingStrategy strat (fg_EnsureInterfaces fg (scene_requiredInterfaces fg) spec)"

definition isSceneSupported :: "'d scene_controller svc_config \<Rightarrow> service_spec \<Rightarrow> string \<Rightarrow> bool" where
  "isSceneSupported c spec scene \<longleftrightarrow> find (\<lambda>s. s = scene) (fg_PropertyStrings (cf_fimpgo c) spec PropertySupportedScenes) \<noteq> None"

definition SetScene :: "'d scene_controller svc_config \<Rightarrow> string \<Rightarrow> ('d, unit) svc_act" where
  "SetScene c scene = with_svc (\<lambda>s.
     if \<not> isSceneSupported c (sc_spec s) scene then act_fail (Errorf (''scene '' @ scene @ '' is not supported''))
     else act_wrap ''failed to set scene'' (on_dev (sk_SetSceneCtrlScene (cf_controller c) scene)))"

definition SendSceneReport :: "'d scene_controller svc_config \<Rightarrow> bool \<Rightarrow> ('d, bool) svc_act" where
  "SendSceneReport c force =
     send_report (cf_fimpgo c) (cf_strategy c) EvtSceneReport ''''
       '': failed to get scene report'' '': failed to send scene report''
       (sk_SceneCtrlSceneReport (cf_controller c)) scene_value
       (\<lambda>name v. fg_New (cf_fimpgo c) KString EvtSceneReport name (VString (sn_Scene v)) [] None)
       force"

definition HandleCmdSceneSet :: "'d scene_controller svc_config \<Rightarrow> message \<Rightarrow> ('d, unit) svc_act" where
  "HandleCmdSceneSet c msg =
     act_bind (act_wrap ''failed to parse scene id'' (act_result (fg_GetStringValue (cf_fimpgo c) (ms_Payload msg)))) (\<lambda>sceneID.
     act_bind (act_wrap ''failed to set scene'' (SetScene c sceneID)) (\<lambda>_.
     answer ''failed to send scene report'' (SendSceneReport c)))"

definition HandleCmdSceneGetReport :: "'d scene_controller svc_config \<Rightarrow> message \<Rightarrow> ('d, unit) svc_act" where
  "HandleCmdSceneGetReport c msg = answer ''failed to send presence report'' (SendSceneReport c)"

definition RouteCmdSceneSet :: "'d scene_controller svc_config \<Rightarrow> 'd svc_world routing" where
  "RouteCmdSceneSet c = svc_routing (cf_fimpgo c) SceneCtrl CmdSceneSet (HandleCmdSceneSet c)"

definition RouteCmdSceneGetReport :: "'d scene_controller svc_config \<Rightarrow> 'd svc_world routing" where
  "RouteCmdSceneGetReport c = svc_routing (cf_fimpgo c) SceneCtrl CmdSceneGetReport (HandleCmdSceneGetReport c)"

definition scene_RouteService :: "'d scene_controller svc_config \<Rightarrow> 'd svc_world routing list" where
  "scene_RouteService c = [RouteCmdSceneSet c, RouteCmdSceneGetReport c]"

definition scene_handleReporting :: "adapter_env \<Rightarrow> 'd scene_controller svc_config \<Rightarrow> ('d svc_world, unit) act" where
  "scene_handleReporting av c = svc_reporting av SceneCtrl (act_log (SendSceneReport c False))"

definition scene_TaskReporting ::
  "adapter_env \<Rightarrow> 'd scene_controller svc_config \<Rightarrow> duration \<Rightarrow> ('d svc_world \<Rightarrow> bool) list \<Rightarrow> 'd svc_world task" where
  "scene_TaskReporting av c = svc_TaskReporting (scene_handleReporting av c)"

section \<open>Rebooting a device (\<^verbatim>\<open>devsys\<close>)\<close>

definition CmdThingReboot :: string where "CmdThingReboot = ''cmd.thing.reboot''"
definition DevSys :: string where "DevSys = ''dev_sys''"

text \<open>The controller has one optional method, \<^verbatim>\<open>RebootDevice\<close>.\<close>

type_synonym 'd reboot_controller = "(bool \<Rightarrow> ('d, unit) act) option"

definition devsys_requiredInterfaces :: "fimpgo \<Rightarrow> interface list" where
  "devsys_requiredInterfaces fg =
     [iface (fg_TypeOut fg) EvtErrorReport (fg_VTypeString fg),
      iface (fg_TypeOut fg) EvtSuccessReport (fg_VTypeNull fg)]"

definition rebootInterfaces :: "fimpgo \<Rightarrow> interface list" where
  "rebootInterfaces fg = [iface (fg_TypeIn fg) CmdThingReboot (fg_VTypeBool fg)]"

definition devsys_Specification :: "fimpgo \<Rightarrow> string \<Rightarrow> string \<Rightarrow> string \<Rightarrow> string list \<Rightarrow> service_spec" where
  "devsys_Specification fg resourceName resourceAddress address groups =
     service_Specification DevSys resourceName resourceAddress address groups [] (devsys_requiredInterfaces fg)"

definition rebootController :: "'d reboot_controller \<Rightarrow> string \<Rightarrow> (bool \<Rightarrow> ('d, unit) act) result" where
  "rebootController ctl name =
     (case ctl of None \<Rightarrow> Inl (Errorf (name @ '': reboot functionality is not supported'')) | Some f \<Rightarrow> Inr f)"

definition SupportsReboot :: "'d reboot_controller \<Rightarrow> string \<Rightarrow> bool" where
  "SupportsReboot ctl name \<longleftrightarrow> \<not> isl (rebootController ctl name)"

definition devsys_NewService ::
  "fimpgo \<Rightarrow> 'd reboot_controller \<Rightarrow> service_spec \<Rightarrow> 'd \<Rightarrow> adapter \<Rightarrow> (nat \<Rightarrow> time) \<Rightarrow> 'd svc" where
  "devsys_NewService fg ctl spec =
     (let s0 = fg_EnsureInterfaces fg (devsys_requiredInterfaces fg) (spec\<lparr>sv_Name := DevSys\<rparr>)
      in svc_New (if SupportsReboot ctl (sv_Name s0) then fg_EnsureInterfaces fg (rebootInterfaces fg) s0 else s0))"

definition Reboot :: "'d reboot_controller \<Rightarrow> bool \<Rightarrow> ('d, unit) svc_act" where
  "Reboot ctl hard = with_svc (\<lambda>s.
     act_bind (act_result (rebootController ctl (svc_Name s))) (\<lambda>f.
     control '': failed to reboot device'' (f hard)))"

text \<open>Any value that is not a boolean is a soft reboot.\<close>

definition handleCmdThingReboot :: "fimpgo \<Rightarrow> 'd reboot_controller \<Rightarrow> message \<Rightarrow> ('d, unit) svc_act" where
  "handleCmdThingReboot fg ctl msg =
     (let hard = (case fg_GetBoolValue fg (ms_Payload msg) of Inl _ \<Rightarrow> False | Inr b \<Rightarrow> b) in
      act_wrap ''failed to reboot'' (Reboot ctl hard))"

definition routeCmdThingReboot :: "fimpgo \<Rightarrow> 'd reboot_controller \<Rightarrow> 'd svc_world routing" where
  "routeCmdThingReboot fg ctl =
     svc_route fg (ForService DevSys) CmdThingReboot [WithSuccessConfirmation] (handleCmdThingReboot fg ctl)"

definition devsys_RouteService :: "fimpgo \<Rightarrow> 'd reboot_controller \<Rightarrow> 'd svc_world routing list" where
  "devsys_RouteService fg ctl = [routeCmdThingReboot fg ctl]"

section \<open>The reports keep their contract\<close>

interpretation crr: plain_report "SendColorReport c" EvtColorReport "''''"
  "dev_reading (co_ColorCtrlColorReport (cf_controller c)) int_map_value"
  "fimpgo_ok (cf_fimpgo c)" "fimpgo_ok (cf_fimpgo c) \<and> cf_strategy c = ReportOnChangeOnly" for c
  unfolding SendColorReport_def by (rule send_reading_plain) simp_all

interpretation fmr: forced_report "fan_SendModeReport c" EvtModeReport "{''''}" for c
  unfolding fan_SendModeReport_def by (intro forced_reportI report_rules forces_rules quiet_rules singletonI)

interpretation scr: forced_report "SendSceneReport c" EvtSceneReport "{''''}" for c
  unfolding SendSceneReport_def by (intro forced_reportI report_rules forces_rules singletonI)

end
