(* ===== verification/Media_Player.thy ===== *)
theory Media_Player
  imports Device_Service
begin

text \<open>
  The media player service, \<^verbatim>\<open>src/adapter/service/mediaplayer\<close>: constants, specification, service, handlers
  and reporting task. \<open>decode\<close> is \<^verbatim>\<open>mapstructure.Decode\<close> of a library, which copies the map of modes.
\<close>

section \<open>Constants and specification\<close>

definition CmdPlaybackSet :: string where "CmdPlaybackSet = ''cmd.playback.set''"
definition CmdPlaybackGetReport :: string where "CmdPlaybackGetReport = ''cmd.playback.get_report''"
definition EvtPlaybackReport :: string where "EvtPlaybackReport = ''evt.playback.report''"
definition CmdPlaybackModeSet :: string where "CmdPlaybackModeSet = ''cmd.playbackmode.set''"
definition CmdPlaybackModeGetReport :: string where "CmdPlaybackModeGetReport = ''cmd.playbackmode.get_report''"
definition EvtPlaybackModeReport :: string where "EvtPlaybackModeReport = ''evt.playbackmode.report''"
definition CmdVolumeSet :: string where "CmdVolumeSet = ''cmd.volume.set''"
definition CmdVolumeGetReport :: string where "CmdVolumeGetReport = ''cmd.volume.get_report''"
definition EvtVolumeReport :: string where "EvtVolumeReport = ''evt.volume.report''"
definition CmdMuteSet :: string where "CmdMuteSet = ''cmd.mute.set''"
definition CmdMuteGetReport :: string where "CmdMuteGetReport = ''cmd.mute.get_report''"
definition EvtMuteReport :: string where "EvtMuteReport = ''evt.mute.report''"
definition CmdMetadataGetReport :: string where "CmdMetadataGetReport = ''cmd.metadata.get_report''"
definition EvtMetadataReport :: string where "EvtMetadataReport = ''evt.metadata.report''"
definition MediaPlayer :: string where "MediaPlayer = ''media_player''"
definition PropertySupportedPlayback :: string where "PropertySupportedPlayback = ''sup_playback''"
definition PropertySupportedModes :: string where "PropertySupportedModes = ''sup_modes''"
definition PropertySupportedMetadata :: string where "PropertySupportedMetadata = ''sup_metadata''"

record 'd mp_controller =
  mc_SetPlayback :: "string \<Rightarrow> ('d, unit) act"
  mc_Playback :: "('d, string) act"
  mc_SetPlaybackMode :: "(string \<times> bool) list \<Rightarrow> ('d, unit) act"
  mc_PlaybackMode :: "('d, (string \<times> bool) list) act"
  mc_SetVolume :: "int \<Rightarrow> ('d, unit) act"
  mc_Volume :: "('d, int) act"
  mc_SetMute :: "bool \<Rightarrow> ('d, unit) act"
  mc_Mute :: "('d, bool) act"
  mc_Metadata :: "('d, (string \<times> string) list) act"

definition mp_requiredInterfaces :: "fimpgo \<Rightarrow> interface list" where
  "mp_requiredInterfaces fg =
     [iface (fg_TypeIn fg) CmdPlaybackSet (fg_VTypeString fg),
      iface (fg_TypeIn fg) CmdPlaybackGetReport (fg_VTypeNull fg),
      iface (fg_TypeOut fg) EvtPlaybackReport (fg_VTypeString fg),
      iface (fg_TypeIn fg) CmdPlaybackModeSet (fg_VTypeBoolMap fg),
      iface (fg_TypeIn fg) CmdPlaybackModeGetReport (fg_VTypeNull fg),
      iface (fg_TypeOut fg) EvtPlaybackModeReport (fg_VTypeBoolMap fg),
      iface (fg_TypeIn fg) CmdVolumeSet (fg_VTypeInt fg),
      iface (fg_TypeIn fg) CmdVolumeGetReport (fg_VTypeNull fg),
      iface (fg_TypeOut fg) EvtVolumeReport (fg_VTypeInt fg),
      iface (fg_TypeIn fg) CmdMuteSet (fg_VTypeBool fg),
      iface (fg_TypeIn fg) CmdMuteGetReport (fg_VTypeNull fg),
      iface (fg_TypeOut fg) EvtMuteReport (fg_VTypeBool fg),
      iface (fg_TypeIn fg) CmdMetadataGetReport (fg_VTypeNull fg),
      iface (fg_TypeOut fg) EvtMetadataReport (fg_VTypeStrMap fg),
      iface (fg_TypeOut fg) EvtErrorReport (fg_VTypeString fg)]"

definition mp_Specification ::
  "fimpgo \<Rightarrow> string \<Rightarrow> string \<Rightarrow> string \<Rightarrow> string list \<Rightarrow> string list \<Rightarrow> string list \<Rightarrow> string list
   \<Rightarrow> (service_spec \<Rightarrow> service_spec) list \<Rightarrow> service_spec" where
  "mp_Specification fg resourceName resourceAddress address groups supportedPlayback supportedModes supportedMetadata options =
     foldl (\<lambda>s f. f s)
       (service_Specification MediaPlayer resourceName resourceAddress address groups
          [(PropertySupportedPlayback, VList (map VString supportedPlayback)),
           (PropertySupportedModes, VList (map VString supportedModes)),
           (PropertySupportedMetadata, VList (map VString supportedMetadata))] (mp_requiredInterfaces fg))
       options"

section \<open>Service\<close>

definition mp_DefaultReportingStrategy :: strategy where
  "mp_DefaultReportingStrategy = ReportOnChangeOnly"

definition mp_NewService ::
  "fimpgo \<Rightarrow> 'd mp_controller \<Rightarrow> strategy option \<Rightarrow> service_spec \<Rightarrow> 'd \<Rightarrow> adapter \<Rightarrow> (nat \<Rightarrow> time)
   \<Rightarrow> 'd mp_controller svc_config \<times> 'd svc" where
  "mp_NewService fg ctl strat spec =
     NewService_with fg ctl mp_DefaultReportingStrategy strat (fg_EnsureInterfaces fg (mp_requiredInterfaces fg) spec)"

definition validatePlaybackAction :: "'d mp_controller svc_config \<Rightarrow> service_spec \<Rightarrow> string \<Rightarrow> unit result" where
  "validatePlaybackAction c spec action =
     (if action \<notin> set (fg_PropertyStrings (cf_fimpgo c) spec PropertySupportedPlayback)
      then Inl (Errorf (''mediaplayer: unsupported playback action: '' @ action)) else Inr ())"

fun unsupported_mode :: "string list \<Rightarrow> (string \<times> bool) list \<Rightarrow> string option" where
  "unsupported_mode supported [] = None"
| "unsupported_mode supported ((mode, b) # rest) =
     (if mode \<notin> set supported then Some mode else unsupported_mode supported rest)"

definition validateMode :: "'d mp_controller svc_config \<Rightarrow> service_spec \<Rightarrow> (string \<times> bool) list \<Rightarrow> unit result" where
  "validateMode c spec mode =
     (case unsupported_mode (fg_PropertyStrings (cf_fimpgo c) spec PropertySupportedModes) mode of
        None \<Rightarrow> Inr () | Some m \<Rightarrow> Inl (Errorf (''mediaplayer: unsupported playback mode: '' @ m)))"

definition SetPlayback :: "'d mp_controller svc_config \<Rightarrow> string \<Rightarrow> ('d, unit) svc_act" where
  "SetPlayback c action = with_svc (\<lambda>s.
     act_bind (act_wrap (svc_Name s @ '': invalid playback action'')
       (act_result (validatePlaybackAction c (sc_spec s) action))) (\<lambda>_.
     control '': failed to set playback'' (mc_SetPlayback (cf_controller c) action)))"

definition SendPlaybackReport :: "'d mp_controller svc_config \<Rightarrow> bool \<Rightarrow> ('d, bool) svc_act" where
  "SendPlaybackReport c force =
     send_report (cf_fimpgo c) (cf_strategy c) EvtPlaybackReport ''''
       '': failed to get playback report'' '': failed to send playback report''
       (mc_Playback (cf_controller c)) VString
       (\<lambda>name v. fg_New (cf_fimpgo c) KString EvtPlaybackReport name (VString v) [] None)
       force"

definition SetPlaybackMode :: "'d mp_controller svc_config \<Rightarrow> (string \<times> bool) list \<Rightarrow> ('d, unit) svc_act" where
  "SetPlaybackMode c mode = with_svc (\<lambda>s.
     act_bind (act_wrap ''mediaplayer: invalid playback mode'' (act_result (validateMode c (sc_spec s) mode))) (\<lambda>_.
     act_wrap ''mediaplayer: failed to set playback mode'' (on_dev (mc_SetPlaybackMode (cf_controller c) mode))))"

definition SendPlaybackModeReport ::
  "'d mp_controller svc_config \<Rightarrow> ((string \<times> bool) list \<Rightarrow> (string \<times> bool) list result) \<Rightarrow> bool \<Rightarrow> ('d, bool) svc_act" where
  "SendPlaybackModeReport c decode force = with_svc (\<lambda>s.
     act_bind (act_wrap ''mediaplayer: failed to get playback mode'' (on_dev (mc_PlaybackMode (cf_controller c)))) (\<lambda>mode.
     send_built (cf_fimpgo c) (cf_strategy c) EvtPlaybackModeReport '''' ''mediaplayer: failed to send playback mode report''
       (bool_map_value mode)
       (bind_result (wrap_err ''mediaplayer: failed to decode playback mode'' (decode mode)) (\<lambda>modeMap.
          Inr (fg_New (cf_fimpgo c) KBoolMap EvtPlaybackModeReport (svc_Name s) (bool_map_value modeMap) [] None)))
       force))"

definition SetVolume :: "'d mp_controller svc_config \<Rightarrow> int \<Rightarrow> ('d, unit) svc_act" where
  "SetVolume c level = act_wrap ''mediaplayer: failed to set volume'' (on_dev (mc_SetVolume (cf_controller c) level))"

definition SendVolumeReport :: "'d mp_controller svc_config \<Rightarrow> bool \<Rightarrow> ('d, bool) svc_act" where
  "SendVolumeReport c force =
     send_reading (cf_fimpgo c) (cf_strategy c) EvtVolumeReport ''''
       ''mediaplayer: failed to get volume'' ''mediaplayer: failed to send volume report''
       (mc_Volume (cf_controller c)) VInt
       (\<lambda>name v. fg_New (cf_fimpgo c) KInt EvtVolumeReport name (VInt v) [] None)
       force"

definition SetMute :: "'d mp_controller svc_config \<Rightarrow> bool \<Rightarrow> ('d, unit) svc_act" where
  "SetMute c mute = act_wrap ''mediaplayer: failed to set mute'' (on_dev (mc_SetMute (cf_controller c) mute))"

definition SendMuteReport :: "'d mp_controller svc_config \<Rightarrow> bool \<Rightarrow> ('d, bool) svc_act" where
  "SendMuteReport c force =
     send_reading (cf_fimpgo c) (cf_strategy c) EvtMuteReport ''''
       ''mediaplayer: failed to get mute'' ''mediaplayer: failed to send mute report''
       (mc_Mute (cf_controller c)) VBool
       (\<lambda>name v. fg_New (cf_fimpgo c) KBool EvtMuteReport name (VBool v) [] None)
       force"

definition SendMetadataReport :: "'d mp_controller svc_config \<Rightarrow> bool \<Rightarrow> ('d, bool) svc_act" where
  "SendMetadataReport c force =
     send_reading (cf_fimpgo c) (cf_strategy c) EvtMetadataReport ''''
       ''mediaplayer: failed to get metadata'' ''mediaplayer: failed to send metadata report''
       (mc_Metadata (cf_controller c)) str_map_value
       (\<lambda>name v. fg_New (cf_fimpgo c) KStrMap EvtMetadataReport name (str_map_value v) [] None)
       force"

section \<open>Handlers and reporting\<close>

definition handleCmdPlaybackSet :: "'d mp_controller svc_config \<Rightarrow> message \<Rightarrow> ('d, unit) svc_act" where
  "handleCmdPlaybackSet c msg =
     act_bind (act_wrap ''failed to get value from the message''
       (act_result (fg_GetStringValue (cf_fimpgo c) (ms_Payload msg)))) (\<lambda>val.
     act_bind (act_wrap ''failed to set playback'' (SetPlayback c val)) (\<lambda>_.
     act_bind (answer ''failed to get playback report'' (SendPlaybackReport c)) (\<lambda>_.
     act_bind (act_wrap ''failed to get metadata report'' (SendMetadataReport c False)) (\<lambda>_. act_return ()))))"

definition handleCmdPlaybackGetReport :: "'d mp_controller svc_config \<Rightarrow> message \<Rightarrow> ('d, unit) svc_act" where
  "handleCmdPlaybackGetReport c msg = answer ''failed to send playback report'' (SendPlaybackReport c)"

definition handleCmdPlaybackModeSet ::
  "'d mp_controller svc_config \<Rightarrow> ((string \<times> bool) list \<Rightarrow> (string \<times> bool) list result) \<Rightarrow> message \<Rightarrow> ('d, unit) svc_act" where
  "handleCmdPlaybackModeSet c decode msg =
     act_bind (act_wrap ''failed to get value from the message''
       (act_result (fg_GetBoolMapValue (cf_fimpgo c) (ms_Payload msg)))) (\<lambda>val.
     act_bind (act_wrap ''failed to set playback mode'' (SetPlaybackMode c val)) (\<lambda>_.
     answer ''failed to get playback mode report'' (SendPlaybackModeReport c decode)))"

definition handleCmdPlaybackModeGetReport ::
  "'d mp_controller svc_config \<Rightarrow> ((string \<times> bool) list \<Rightarrow> (string \<times> bool) list result) \<Rightarrow> message \<Rightarrow> ('d, unit) svc_act" where
  "handleCmdPlaybackModeGetReport c decode msg = answer ''failed to send playback mode report'' (SendPlaybackModeReport c decode)"

definition handleCmdVolumeSet :: "'d mp_controller svc_config \<Rightarrow> message \<Rightarrow> ('d, unit) svc_act" where
  "handleCmdVolumeSet c msg =
     act_bind (act_wrap ''failed to get value from the message''
       (act_result (fg_GetIntValue (cf_fimpgo c) (ms_Payload msg)))) (\<lambda>val.
     act_bind (act_wrap ''failed to set volume'' (SetVolume c val)) (\<lambda>_.
     answer ''failed to get volume report'' (SendVolumeReport c)))"

definition handleCmdVolumeGetReport :: "'d mp_controller svc_config \<Rightarrow> message \<Rightarrow> ('d, unit) svc_act" where
  "handleCmdVolumeGetReport c msg = answer ''failed to send volume report'' (SendVolumeReport c)"

definition handleCmdMuteSet :: "'d mp_controller svc_config \<Rightarrow> message \<Rightarrow> ('d, unit) svc_act" where
  "handleCmdMuteSet c msg =
     act_bind (act_wrap ''failed to get value from the message''
       (act_result (fg_GetBoolValue (cf_fimpgo c) (ms_Payload msg)))) (\<lambda>val.
     act_bind (act_wrap ''failed to set mute'' (SetMute c val)) (\<lambda>_.
     answer ''failed to get mute report'' (SendMuteReport c)))"

definition handleCmdMuteGetReport :: "'d mp_controller svc_config \<Rightarrow> message \<Rightarrow> ('d, unit) svc_act" where
  "handleCmdMuteGetReport c msg = answer ''failed to send mute report'' (SendMuteReport c)"

definition handleCmdMetadataGetReport :: "'d mp_controller svc_config \<Rightarrow> message \<Rightarrow> ('d, unit) svc_act" where
  "handleCmdMetadataGetReport c msg = answer ''failed to send metadata report'' (SendMetadataReport c)"

text \<open>The commands and their handlers, in the order of \<^verbatim>\<open>RouteService\<close>.\<close>

definition mp_handlers ::
  "'d mp_controller svc_config \<Rightarrow> ((string \<times> bool) list \<Rightarrow> (string \<times> bool) list result)
   \<Rightarrow> (string \<times> (message \<Rightarrow> ('d, unit) svc_act)) list" where
  "mp_handlers c decode =
     [(CmdPlaybackSet, handleCmdPlaybackSet c), (CmdPlaybackGetReport, handleCmdPlaybackGetReport c),
      (CmdPlaybackModeSet, handleCmdPlaybackModeSet c decode),
      (CmdPlaybackModeGetReport, handleCmdPlaybackModeGetReport c decode),
      (CmdVolumeSet, handleCmdVolumeSet c), (CmdVolumeGetReport, handleCmdVolumeGetReport c),
      (CmdMuteSet, handleCmdMuteSet c), (CmdMuteGetReport, handleCmdMuteGetReport c),
      (CmdMetadataGetReport, handleCmdMetadataGetReport c)]"

definition routeCmdPlaybackSet :: "'d mp_controller svc_config \<Rightarrow> 'd svc_world routing" where
  "routeCmdPlaybackSet c = svc_routing (cf_fimpgo c) MediaPlayer CmdPlaybackSet (handleCmdPlaybackSet c)"

definition routeCmdPlaybackGetReport :: "'d mp_controller svc_config \<Rightarrow> 'd svc_world routing" where
  "routeCmdPlaybackGetReport c = svc_routing (cf_fimpgo c) MediaPlayer CmdPlaybackGetReport (handleCmdPlaybackGetReport c)"

definition routeCmdPlaybackModeSet :: "'d mp_controller svc_config \<Rightarrow> ((string \<times> bool) list \<Rightarrow> (string \<times> bool) list result) \<Rightarrow> 'd svc_world routing" where
  "routeCmdPlaybackModeSet c decode = svc_routing (cf_fimpgo c) MediaPlayer CmdPlaybackModeSet (handleCmdPlaybackModeSet c decode)"

definition routeCmdPlaybackModeGetReport :: "'d mp_controller svc_config \<Rightarrow> ((string \<times> bool) list \<Rightarrow> (string \<times> bool) list result) \<Rightarrow> 'd svc_world routing" where
  "routeCmdPlaybackModeGetReport c decode = svc_routing (cf_fimpgo c) MediaPlayer CmdPlaybackModeGetReport (handleCmdPlaybackModeGetReport c decode)"

definition routeCmdVolumeSet :: "'d mp_controller svc_config \<Rightarrow> 'd svc_world routing" where
  "routeCmdVolumeSet c = svc_routing (cf_fimpgo c) MediaPlayer CmdVolumeSet (handleCmdVolumeSet c)"

definition routeCmdVolumeGetReport :: "'d mp_controller svc_config \<Rightarrow> 'd svc_world routing" where
  "routeCmdVolumeGetReport c = svc_routing (cf_fimpgo c) MediaPlayer CmdVolumeGetReport (handleCmdVolumeGetReport c)"

definition routeCmdMuteSet :: "'d mp_controller svc_config \<Rightarrow> 'd svc_world routing" where
  "routeCmdMuteSet c = svc_routing (cf_fimpgo c) MediaPlayer CmdMuteSet (handleCmdMuteSet c)"

definition routeCmdMuteGetReport :: "'d mp_controller svc_config \<Rightarrow> 'd svc_world routing" where
  "routeCmdMuteGetReport c = svc_routing (cf_fimpgo c) MediaPlayer CmdMuteGetReport (handleCmdMuteGetReport c)"

definition routeCmdMetadataGetReport :: "'d mp_controller svc_config \<Rightarrow> 'd svc_world routing" where
  "routeCmdMetadataGetReport c = svc_routing (cf_fimpgo c) MediaPlayer CmdMetadataGetReport (handleCmdMetadataGetReport c)"

definition mp_RouteService ::
  "'d mp_controller svc_config \<Rightarrow> ((string \<times> bool) list \<Rightarrow> (string \<times> bool) list result) \<Rightarrow> 'd svc_world routing list" where
  "mp_RouteService c decode =
     [routeCmdPlaybackSet c,
      routeCmdPlaybackGetReport c,
      routeCmdPlaybackModeSet c decode,
      routeCmdPlaybackModeGetReport c decode,
      routeCmdVolumeSet c,
      routeCmdVolumeGetReport c,
      routeCmdMuteSet c,
      routeCmdMuteGetReport c,
      routeCmdMetadataGetReport c]"

text \<open>The table pairs every command with its handler.\<close>

lemma mp_RouteService_handlers:
  "mp_RouteService c decode = map (\<lambda>(cmd, h). svc_routing (cf_fimpgo c) MediaPlayer cmd h) (mp_handlers c decode)"
  by (simp add: mp_RouteService_def mp_handlers_def routeCmdPlaybackSet_def routeCmdPlaybackGetReport_def routeCmdPlaybackModeSet_def routeCmdPlaybackModeGetReport_def routeCmdVolumeSet_def routeCmdVolumeGetReport_def routeCmdMuteSet_def routeCmdMuteGetReport_def routeCmdMetadataGetReport_def)

definition mp_reports ::
  "'d mp_controller svc_config \<Rightarrow> ((string \<times> bool) list \<Rightarrow> (string \<times> bool) list result) \<Rightarrow> ('d, unit) svc_act" where
  "mp_reports c decode =
     act_bind (act_log (SendPlaybackReport c False)) (\<lambda>_.
     act_bind (act_log (SendPlaybackModeReport c decode False)) (\<lambda>_.
     act_bind (act_log (SendVolumeReport c False)) (\<lambda>_.
     act_bind (act_log (SendMuteReport c False)) (\<lambda>_.
     act_log (SendMetadataReport c False)))))"

definition mp_handleReporting ::
  "adapter_env \<Rightarrow> 'd mp_controller svc_config \<Rightarrow> ((string \<times> bool) list \<Rightarrow> (string \<times> bool) list result) \<Rightarrow> ('d svc_world, unit) act" where
  "mp_handleReporting av c decode = svc_reporting av MediaPlayer (mp_reports c decode)"

definition mp_TaskReporting ::
  "adapter_env \<Rightarrow> 'd mp_controller svc_config \<Rightarrow> ((string \<times> bool) list \<Rightarrow> (string \<times> bool) list result) \<Rightarrow> duration
   \<Rightarrow> ('d svc_world \<Rightarrow> bool) list \<Rightarrow> 'd svc_world task" where
  "mp_TaskReporting av c decode = svc_TaskReporting (mp_handleReporting av c decode)"

section \<open>The reports keep their contract\<close>

interpretation mpp: plain_report "SendPlaybackReport c" EvtPlaybackReport "''''"
  "dev_reading (mc_Playback (cf_controller c)) VString"
  "fimpgo_ok (cf_fimpgo c)" "fimpgo_ok (cf_fimpgo c) \<and> cf_strategy c = ReportOnChangeOnly" for c
  unfolding SendPlaybackReport_def by (rule send_report_plain) simp_all

interpretation mpv: plain_report "SendVolumeReport c" EvtVolumeReport "''''"
  "dev_reading (mc_Volume (cf_controller c)) VInt"
  "fimpgo_ok (cf_fimpgo c)" "fimpgo_ok (cf_fimpgo c) \<and> cf_strategy c = ReportOnChangeOnly" for c
  unfolding SendVolumeReport_def by (rule send_reading_plain) simp_all

interpretation mpu: plain_report "SendMuteReport c" EvtMuteReport "''''"
  "dev_reading (mc_Mute (cf_controller c)) VBool"
  "fimpgo_ok (cf_fimpgo c)" "fimpgo_ok (cf_fimpgo c) \<and> cf_strategy c = ReportOnChangeOnly" for c
  unfolding SendMuteReport_def by (rule send_reading_plain) simp_all

interpretation mpm: forced_report "SendPlaybackModeReport c decode" EvtPlaybackModeReport "{''''}" for c decode
  unfolding SendPlaybackModeReport_def by (intro forced_reportI report_rules forces_rules quiet_rules singletonI)

section \<open>Only supported actions and modes reach the player\<close>

definition mp_controller_keeps :: "'d mp_controller svc_config \<Rightarrow> service_spec \<Rightarrow> ('d \<Rightarrow> bool) \<Rightarrow> bool" where
  "mp_controller_keeps c spec I \<longleftrightarrow>
     (\<forall>a \<in> set (fg_PropertyStrings (cf_fimpgo c) spec PropertySupportedPlayback). act_keeps I (mc_SetPlayback (cf_controller c) a))
   \<and> (\<forall>m. fst ` set m \<subseteq> set (fg_PropertyStrings (cf_fimpgo c) spec PropertySupportedModes)
        \<longrightarrow> act_keeps I (mc_SetPlaybackMode (cf_controller c) m))
   \<and> (\<forall>l. act_keeps I (mc_SetVolume (cf_controller c) l)) \<and> (\<forall>b. act_keeps I (mc_SetMute (cf_controller c) b))
   \<and> act_keeps I (mc_Playback (cf_controller c)) \<and> act_keeps I (mc_PlaybackMode (cf_controller c))
   \<and> act_keeps I (mc_Volume (cf_controller c)) \<and> act_keeps I (mc_Mute (cf_controller c))
   \<and> act_keeps I (mc_Metadata (cf_controller c))"

lemma unsupported_mode_None: "unsupported_mode supported m = None \<longleftrightarrow> fst ` set m \<subseteq> set supported"
  by (induction supported m rule: unsupported_mode.induct) auto

lemma mp_sets_keep:
  assumes "mp_controller_keeps c spec I"
  shows "act_keeps (dev_inv spec I) (SetPlayback c action)" "act_keeps (dev_inv spec I) (SetPlaybackMode c mode)"
    "act_keeps (dev_inv spec I) (SetVolume c l)" "act_keeps (dev_inv spec I) (SetMute c b)"
  using assms unfolding mp_controller_keeps_def SetPlayback_def SetPlaybackMode_def SetVolume_def SetMute_def
  by (auto intro!: keeps_with_svc keeps_control act_keeps_wrap_result_bind act_keeps_wrap keeps_on_dev
      simp: validatePlaybackAction_def validateMode_def unsupported_mode_None [symmetric] split: if_splits option.splits)

lemma mp_reports_keep:
  assumes "mp_controller_keeps c spec I"
  shows "act_keeps (dev_inv spec I) (SendPlaybackReport c force)" "act_keeps (dev_inv spec I) (SendPlaybackModeReport c decode force)"
    "act_keeps (dev_inv spec I) (SendVolumeReport c force)" "act_keeps (dev_inv spec I) (SendMuteReport c force)"
    "act_keeps (dev_inv spec I) (SendMetadataReport c force)"
  using assms unfolding mp_controller_keeps_def SendPlaybackReport_def SendPlaybackModeReport_def
    SendVolumeReport_def SendMuteReport_def SendMetadataReport_def
  by (auto intro!: act_keeps_rules)

lemma mp_handlers_keep:
  assumes "mp_controller_keeps c spec I" "(cmd, h) \<in> set (mp_handlers c decode)"
  shows "act_keeps (dev_inv spec I) (h msg)"
proof -
  note keep = mp_sets_keep [OF assms(1)] mp_reports_keep [OF assms(1)]
  have "list_all (\<lambda>(cmd, h). act_keeps (dev_inv spec I) (h msg)) (mp_handlers c decode)"
    unfolding mp_handlers_def list.pred_inject(2) prod.case handleCmdPlaybackSet_def handleCmdPlaybackGetReport_def
      handleCmdPlaybackModeSet_def handleCmdPlaybackModeGetReport_def handleCmdVolumeSet_def handleCmdVolumeGetReport_def
      handleCmdMuteSet_def handleCmdMuteGetReport_def handleCmdMetadataGetReport_def
    by (intro conjI act_keeps_rules keep list.pred_inject(1))
  with assms(2) show ?thesis by (auto simp: list_all_iff)
qed

lemma mp_reporting_keeps:
  assumes "mp_controller_keeps c spec I"
  shows "act_keeps (dev_inv spec I) (mp_reports c decode)"
  unfolding mp_reports_def by (intro act_keeps_rules mp_reports_keep [OF assms])

end
