(* ===== verification/Climate.thy ===== *)
theory Climate
  imports Device_Service
begin

text \<open>
  Climate devices: \<^verbatim>\<open>src/adapter/service/thermostat\<close> and \<^verbatim>\<open>src/adapter/service/waterheater\<close>, with their modes,
  setpoints and states. A water heater checks the values of its setpoints against ranges and a step.
  Floats are rationals; the operations on them are rounded by \<open>wh_rnd\<close>.
\<close>

section \<open>Commands and properties\<close>

definition CmdModeGetReport :: string where "CmdModeGetReport = ''cmd.mode.get_report''"
definition CmdModeSet :: string where "CmdModeSet = ''cmd.mode.set''"
definition EvtModeReport :: string where "EvtModeReport = ''evt.mode.report''"
definition CmdSetpointGetReport :: string where "CmdSetpointGetReport = ''cmd.setpoint.get_report''"
definition CmdSetpointSet :: string where "CmdSetpointSet = ''cmd.setpoint.set''"
definition EvtSetpointReport :: string where "EvtSetpointReport = ''evt.setpoint.report''"
definition CmdStateGetReport :: string where "CmdStateGetReport = ''cmd.state.get_report''"
definition EvtStateReport :: string where "EvtStateReport = ''evt.state.report''"
definition Thermostat :: string where "Thermostat = ''thermostat''"
definition WaterHeater :: string where "WaterHeater = ''water_heater''"
definition PropertySupportedModes :: string where "PropertySupportedModes = ''sup_modes''"
definition PropertySupportedSetpoints :: string where "PropertySupportedSetpoints = ''sup_setpoints''"
definition PropertySupportedStates :: string where "PropertySupportedStates = ''sup_states''"
definition PropertySupportedRange :: string where "PropertySupportedRange = ''sup_range''"
definition PropertySupportedRanges :: string where "PropertySupportedRanges = ''sup_ranges''"
definition PropertySupportedStep :: string where "PropertySupportedStep = ''sup_step''"

text \<open>The interfaces are the same for both services.\<close>

definition climate_requiredInterfaces :: "fimpgo \<Rightarrow> interface list" where
  "climate_requiredInterfaces fg =
     [iface (fg_TypeIn fg) CmdModeGetReport (fg_VTypeNull fg),
      iface (fg_TypeIn fg) CmdModeSet (fg_VTypeString fg),
      iface (fg_TypeOut fg) EvtModeReport (fg_VTypeString fg),
      iface (fg_TypeIn fg) CmdSetpointGetReport (fg_VTypeString fg),
      iface (fg_TypeIn fg) CmdSetpointSet (fg_VTypeStrMap fg),
      iface (fg_TypeOut fg) EvtSetpointReport (fg_VTypeStrMap fg),
      iface (fg_TypeIn fg) CmdStateGetReport (fg_VTypeNull fg),
      iface (fg_TypeOut fg) EvtStateReport (fg_VTypeString fg),
      iface (fg_TypeOut fg) EvtErrorReport (fg_VTypeString fg)]"

record setpoint =
  sp_Type :: string
  sp_Temperature :: rat
  sp_Unit :: string

definition NewSetpoint :: "string \<Rightarrow> rat \<Rightarrow> string \<Rightarrow> setpoint" where
  "NewSetpoint mode temp unit = \<lparr>sp_Type = mode, sp_Temperature = temp, sp_Unit = unit\<rparr>"

section \<open>Thermostat\<close>

record 'd ts_controller =
  tc_SetThermostatMode :: "string \<Rightarrow> ('d, unit) act"
  tc_SetThermostatSetpoint :: "string \<Rightarrow> rat \<Rightarrow> string \<Rightarrow> ('d, unit) act"
  tc_ThermostatModeReport :: "('d, string) act"
  tc_ThermostatSetpointReport :: "string \<Rightarrow> ('d, rat \<times> string) act"
  tc_ThermostatStateReport :: "('d, string) act"

text \<open>\<open>ts_ParseFloat\<close> is \<^verbatim>\<open>strconv.ParseFloat\<close>, on values that are finite.\<close>

record 'd ts_config = "'d ts_controller svc_config" +
  ts_ParseFloat :: "string \<Rightarrow> rat result"

definition setpoint_StringMap :: "setpoint \<Rightarrow> (string \<times> string) list" where
  "setpoint_StringMap s =
     [(''type'', sp_Type s), (''temp'', FormatFloat 1 (sp_Temperature s)), (''unit'', sp_Unit s)]"

definition missing_field :: "string \<Rightarrow> 'a result" where
  "missing_field f = Inl (Errorf (''setpoint: missing '' @ [CHR 0x60] @ f @ [CHR 0x60] @ '' field in a string map''))"

definition SetpointFromStringMap :: "(string \<Rightarrow> rat result) \<Rightarrow> (string \<times> string) list \<Rightarrow> setpoint result" where
  "SetpointFromStringMap parseFloat input =
     (case map_of input ''type'' of
        None \<Rightarrow> missing_field ''type''
      | Some t \<Rightarrow>
          case map_of input ''unit'' of
            None \<Rightarrow> missing_field ''unit''
          | Some unit \<Rightarrow>
              case map_of input ''temp'' of
                None \<Rightarrow> missing_field ''temp''
              | Some tempStr \<Rightarrow>
                  bind_result
                    (wrap_err (''setpoint: cannot parse '' @ [CHR 0x60] @ ''temp'' @ [CHR 0x60] @ '' field '' @ tempStr)
                      (parseFloat tempStr))
                    (\<lambda>temp. Inr \<lparr>sp_Type = t, sp_Temperature = temp, sp_Unit = unit\<rparr>))"

definition ts_Specification ::
  "fimpgo \<Rightarrow> string \<Rightarrow> string \<Rightarrow> string \<Rightarrow> string list \<Rightarrow> string list \<Rightarrow> string list \<Rightarrow> string list \<Rightarrow> service_spec" where
  "ts_Specification fg resourceName resourceAddress address groups supportedModes supportedSetpoints supportedStates =
     service_Specification Thermostat resourceName resourceAddress address groups
       [(PropertySupportedModes, VList (map VString supportedModes)),
        (PropertySupportedSetpoints, VList (map VString supportedSetpoints)),
        (PropertySupportedStates, VList (map VString supportedStates))] (climate_requiredInterfaces fg)"

definition ts_DefaultReportingStrategy :: strategy where
  "ts_DefaultReportingStrategy = ReportOnChangeOnly"

definition ts_NewService ::
  "'d ts_config \<Rightarrow> strategy option \<Rightarrow> service_spec \<Rightarrow> 'd \<Rightarrow> adapter \<Rightarrow> (nat \<Rightarrow> time) \<Rightarrow> 'd ts_config \<times> 'd svc" where
  "ts_NewService c strat spec d a clock =
     (c\<lparr>cf_strategy := (case strat of None \<Rightarrow> ts_DefaultReportingStrategy | Some s \<Rightarrow> s)\<rparr>,
      svc_New (fg_EnsureInterfaces (cf_fimpgo c) (climate_requiredInterfaces (cf_fimpgo c)) (spec\<lparr>sv_Name := Thermostat\<rparr>)) d a clock)"

definition ts_SupportedModes :: "'d ts_config \<Rightarrow> service_spec \<Rightarrow> string list" where
  "ts_SupportedModes c spec = fg_PropertyStrings (cf_fimpgo c) spec PropertySupportedModes"

definition ts_SupportedSetpoints :: "'d ts_config \<Rightarrow> service_spec \<Rightarrow> string list" where
  "ts_SupportedSetpoints c spec = fg_PropertyStrings (cf_fimpgo c) spec PropertySupportedSetpoints"

definition ts_SupportedStates :: "'d ts_config \<Rightarrow> service_spec \<Rightarrow> string list" where
  "ts_SupportedStates c spec = fg_PropertyStrings (cf_fimpgo c) spec PropertySupportedStates"

definition ts_normalizeMode :: "'d ts_config \<Rightarrow> service_spec \<Rightarrow> string \<Rightarrow> string option" where
  "ts_normalizeMode c spec mode = normalize mode (ts_SupportedModes c spec)"

definition ts_normalizeSetpoint :: "'d ts_config \<Rightarrow> service_spec \<Rightarrow> string \<Rightarrow> string option" where
  "ts_normalizeSetpoint c spec mode = normalize mode (ts_SupportedSetpoints c spec)"

definition ts_SupportsSetpoint :: "'d ts_config \<Rightarrow> service_spec \<Rightarrow> string \<Rightarrow> bool" where
  "ts_SupportsSetpoint c spec setpoint \<longleftrightarrow> ts_normalizeSetpoint c spec setpoint \<noteq> None"

definition ts_SetMode :: "'d ts_config \<Rightarrow> string \<Rightarrow> ('d, unit) svc_act" where
  "ts_SetMode c mode = with_svc (\<lambda>s.
     act_bind (case ts_normalizeMode c (sc_spec s) mode of
         None \<Rightarrow> act_fail (Errorf (svc_Name s @ '': mode is unsupported: '' @ mode)) | Some m \<Rightarrow> act_return m) (\<lambda>m.
     control ('': failed to set mode '' @ m) (tc_SetThermostatMode (cf_controller c) m)))"

definition ts_SetSetpoint :: "'d ts_config \<Rightarrow> string \<Rightarrow> rat \<Rightarrow> string \<Rightarrow> ('d, unit) svc_act" where
  "ts_SetSetpoint c mode v unit = with_svc (\<lambda>s.
     act_bind (case ts_normalizeSetpoint c (sc_spec s) mode of
         None \<Rightarrow> act_fail (Errorf (svc_Name s @ '': setpoint mode is unsupported: '' @ mode)) | Some m \<Rightarrow> act_return m) (\<lambda>m.
     control ('': failed to set setpoint for mode '' @ m @ '' for value '' @ FormatFloat 1 v)
       (tc_SetThermostatSetpoint (cf_controller c) m v unit)))"

definition ts_SendModeReport :: "'d ts_config \<Rightarrow> bool \<Rightarrow> ('d, bool) svc_act" where
  "ts_SendModeReport c force =
     send_report (cf_fimpgo c) (cf_strategy c) EvtModeReport ''''
       '': failed to retrieve mode report'' '': failed to send mode report''
       (tc_ThermostatModeReport (cf_controller c)) VString
       (\<lambda>name v. fg_New (cf_fimpgo c) KString EvtModeReport name (VString v) [] None)
       force"

definition ts_SendSetpointReport :: "'d ts_config \<Rightarrow> string \<Rightarrow> bool \<Rightarrow> ('d, bool) svc_act" where
  "ts_SendSetpointReport c mode force = with_svc (\<lambda>s.
     act_bind (case ts_normalizeSetpoint c (sc_spec s) mode of
         None \<Rightarrow> act_fail (Errorf (svc_Name s @ '': setpoint mode is unsupported: '' @ mode)) | Some m \<Rightarrow> act_return m) (\<lambda>m.
     send_report (cf_fimpgo c) (cf_strategy c) EvtSetpointReport mode
       ('': failed to retrieve setpoint report for mode '' @ m) '': failed to send state report''
       (tc_ThermostatSetpointReport (cf_controller c) m) (\<lambda>(v, unit). VFloat v)
       (\<lambda>name (v, unit). fg_WithStorageStrategy (cf_fimpgo c) (fg_StorageStrategyAggregate (cf_fimpgo c)) m
          (fg_New (cf_fimpgo c) KStrMap EvtSetpointReport name (str_map_value (setpoint_StringMap (NewSetpoint m v unit))) [] None))
       force))"

definition ts_SendStateReport :: "'d ts_config \<Rightarrow> bool \<Rightarrow> ('d, bool) svc_act" where
  "ts_SendStateReport c force =
     send_report (cf_fimpgo c) (cf_strategy c) EvtStateReport ''''
       '': failed to retrieve state report'' '': failed to send state report''
       (tc_ThermostatStateReport (cf_controller c)) VString
       (\<lambda>name v. fg_New (cf_fimpgo c) KString EvtStateReport name (VString v) [] None)
       force"

definition ts_HandleCmdModeSet :: "'d ts_config \<Rightarrow> message \<Rightarrow> ('d, unit) svc_act" where
  "ts_HandleCmdModeSet c msg =
     act_bind (act_wrap ''provided mode has an incorrect format'' (act_result (fg_GetStringValue (cf_fimpgo c) (ms_Payload msg)))) (\<lambda>mode.
     act_bind (act_wrap ''failed to set thermostat mode'' (ts_SetMode c mode)) (\<lambda>_.
     act_bind (answer ''failed to send thermostat mode report'' (ts_SendModeReport c)) (\<lambda>_.
     act_bind (act_get (\<lambda>s. ts_SupportsSetpoint c (sc_spec s) mode)) (\<lambda>supported.
     if supported then answer ''failed to send thermostat setpoint report'' (ts_SendSetpointReport c mode) else act_return ()))))"

definition ts_HandleCmdSetpointSet :: "'d ts_config \<Rightarrow> message \<Rightarrow> ('d, unit) svc_act" where
  "ts_HandleCmdSetpointSet c msg =
     act_bind (act_wrap ''provided setpoint string map has an incorrect format''
       (act_result (fg_GetStrMapValue (cf_fimpgo c) (ms_Payload msg)))) (\<lambda>val.
     act_bind (act_wrap ''provided setpoint string map has an incorrect format''
       (act_result (SetpointFromStringMap (ts_ParseFloat c) val))) (\<lambda>sp.
     act_bind (act_wrap ''failed to set thermostat setpoint'' (ts_SetSetpoint c (sp_Type sp) (sp_Temperature sp) (sp_Unit sp))) (\<lambda>_.
     answer ''failed to send thermostat setpoint report'' (ts_SendSetpointReport c (sp_Type sp)))))"

definition ts_HandleCmdModeGetReport :: "'d ts_config \<Rightarrow> message \<Rightarrow> ('d, unit) svc_act" where
  "ts_HandleCmdModeGetReport c msg = answer ''failed to send thermostat mode report'' (ts_SendModeReport c)"

definition ts_HandleCmdSetpointGetReport :: "'d ts_config \<Rightarrow> message \<Rightarrow> ('d, unit) svc_act" where
  "ts_HandleCmdSetpointGetReport c msg =
     act_bind (act_wrap ''provided mode has an incorrect format'' (act_result (fg_GetStringValue (cf_fimpgo c) (ms_Payload msg)))) (\<lambda>mode.
     answer ''failed to send thermostat setpoint report'' (ts_SendSetpointReport c mode))"

definition ts_HandleCmdStateGetReport :: "'d ts_config \<Rightarrow> message \<Rightarrow> ('d, unit) svc_act" where
  "ts_HandleCmdStateGetReport c msg = answer ''failed to send thermostat state report'' (ts_SendStateReport c)"

text \<open>The commands and their handlers, in the order of \<^verbatim>\<open>RouteService\<close>.\<close>

definition ts_handlers :: "'d ts_config \<Rightarrow> (string \<times> (message \<Rightarrow> ('d, unit) svc_act)) list" where
  "ts_handlers c =
     [(CmdModeSet, ts_HandleCmdModeSet c), (CmdSetpointSet, ts_HandleCmdSetpointSet c),
      (CmdModeGetReport, ts_HandleCmdModeGetReport c), (CmdSetpointGetReport, ts_HandleCmdSetpointGetReport c),
      (CmdStateGetReport, ts_HandleCmdStateGetReport c)]"

definition ts_RouteCmdModeSet :: "'d ts_config \<Rightarrow> 'd svc_world routing" where
  "ts_RouteCmdModeSet c = svc_routing (cf_fimpgo c) Thermostat CmdModeSet (ts_HandleCmdModeSet c)"

definition ts_RouteCmdSetpointSet :: "'d ts_config \<Rightarrow> 'd svc_world routing" where
  "ts_RouteCmdSetpointSet c = svc_routing (cf_fimpgo c) Thermostat CmdSetpointSet (ts_HandleCmdSetpointSet c)"

definition ts_RouteCmdModeGetReport :: "'d ts_config \<Rightarrow> 'd svc_world routing" where
  "ts_RouteCmdModeGetReport c = svc_routing (cf_fimpgo c) Thermostat CmdModeGetReport (ts_HandleCmdModeGetReport c)"

definition ts_RouteCmdSetpointGetReport :: "'d ts_config \<Rightarrow> 'd svc_world routing" where
  "ts_RouteCmdSetpointGetReport c = svc_routing (cf_fimpgo c) Thermostat CmdSetpointGetReport (ts_HandleCmdSetpointGetReport c)"

definition ts_RouteCmdStateGetReport :: "'d ts_config \<Rightarrow> 'd svc_world routing" where
  "ts_RouteCmdStateGetReport c = svc_routing (cf_fimpgo c) Thermostat CmdStateGetReport (ts_HandleCmdStateGetReport c)"

definition ts_RouteService :: "'d ts_config \<Rightarrow> 'd svc_world routing list" where
  "ts_RouteService c =
     [ts_RouteCmdModeSet c,
      ts_RouteCmdSetpointSet c,
      ts_RouteCmdModeGetReport c,
      ts_RouteCmdSetpointGetReport c,
      ts_RouteCmdStateGetReport c]"

text \<open>The table pairs every command with its handler.\<close>

lemma ts_RouteService_handlers:
  "ts_RouteService c = map (\<lambda>(cmd, h). svc_routing (cf_fimpgo c) Thermostat cmd h) (ts_handlers c)"
  by (simp add: ts_RouteService_def ts_handlers_def ts_RouteCmdModeSet_def ts_RouteCmdSetpointSet_def ts_RouteCmdModeGetReport_def ts_RouteCmdSetpointGetReport_def ts_RouteCmdStateGetReport_def)

definition ts_reports :: "'d ts_config \<Rightarrow> ('d, unit) svc_act" where
  "ts_reports c = with_svc (\<lambda>s. let spec = sc_spec s in
     act_bind (if length (ts_SupportedModes c spec) > 0 then act_log (ts_SendModeReport c False) else act_return ()) (\<lambda>_.
     act_bind (act_for (ts_SupportedSetpoints c spec) (\<lambda>mode. act_log (ts_SendSetpointReport c mode False))) (\<lambda>_.
     if length (ts_SupportedStates c spec) > 0 then act_log (ts_SendStateReport c False) else act_return ())))"

definition ts_handleReporting :: "adapter_env \<Rightarrow> 'd ts_config \<Rightarrow> ('d svc_world, unit) act" where
  "ts_handleReporting av c = svc_reporting av Thermostat (ts_reports c)"

definition ts_TaskReporting ::
  "adapter_env \<Rightarrow> 'd ts_config \<Rightarrow> duration \<Rightarrow> ('d svc_world \<Rightarrow> bool) list \<Rightarrow> 'd svc_world task" where
  "ts_TaskReporting av c = svc_TaskReporting (ts_handleReporting av c)"

section \<open>Water heater\<close>

record range =
  rg_Min :: rat
  rg_Max :: rat

record 'd wh_controller =
  wc_SetWaterHeaterMode :: "string \<Rightarrow> ('d, unit) act"
  wc_SetWaterHeaterSetpoint :: "string \<Rightarrow> rat \<Rightarrow> string \<Rightarrow> ('d, unit) act"
  wc_WaterHeaterModeReport :: "('d, string) act"
  wc_WaterHeaterSetpointReport :: "string \<Rightarrow> ('d, rat \<times> string) act"
  wc_WaterHeaterStateReport :: "('d, string) act"

text \<open>
  \<open>wh_Ranges\<close> and \<open>wh_Range\<close> decode the properties with \<^verbatim>\<open>PropertyObject\<close> of \<^verbatim>\<open>fimptype\<close>, \<open>wh_Setpoint\<close> is \<^verbatim>\<open>GetObjectValue\<close>
  of \<^verbatim>\<open>fimpgo\<close> into a setpoint. The decoded map may hold nil pointers.
\<close>

record 'd wh_config = "'d wh_controller svc_config" +
  wh_rnd :: rounding
  wh_Ranges :: "service_spec \<Rightarrow> (string \<times> range option) list"
  wh_Range :: "service_spec \<Rightarrow> range option"
  wh_Setpoint :: "fimp_message \<Rightarrow> setpoint result"

definition wh_requiredInterfaces :: "fimpgo \<Rightarrow> interface list" where
  "wh_requiredInterfaces fg = climate_requiredInterfaces fg"

definition setpoint_value :: "setpoint \<Rightarrow> fimp_value" where
  "setpoint_value s =
     VObject [(''type'', VString (sp_Type s)), (''temp'', VFloat (sp_Temperature s)), (''unit'', VString (sp_Unit s))]"

definition range_value :: "range \<Rightarrow> fimp_value" where
  "range_value r = VObject [(''min'', VFloat (rg_Min r)), (''max'', VFloat (rg_Max r))]"

definition wh_Specification ::
  "fimpgo \<Rightarrow> string \<Rightarrow> string \<Rightarrow> string \<Rightarrow> string list \<Rightarrow> string list \<Rightarrow> string list \<Rightarrow> string list
   \<Rightarrow> range option \<Rightarrow> (string \<times> range) list option \<Rightarrow> rat \<Rightarrow> service_spec" where
  "wh_Specification fg resourceName resourceAddress address groups supportedModes supportedSetpoints supportedStates
     supportedRange supportedRanges supportedStep =
     (let s0 = service_Specification WaterHeater resourceName resourceAddress address groups
            [(PropertySupportedModes, VList (map VString supportedModes)),
             (PropertySupportedSetpoints, VList (map VString supportedSetpoints)),
             (PropertySupportedStates, VList (map VString supportedStates)),
             (PropertySupportedStep, VFloat supportedStep)] (wh_requiredInterfaces fg);
          s1 = (case supportedRanges of None \<Rightarrow> s0
                | Some rs \<Rightarrow> set_prop PropertySupportedRanges (VObject (map (\<lambda>(k, r). (k, range_value r)) rs)) s0)
      in case supportedRange of None \<Rightarrow> s1 | Some r \<Rightarrow> set_prop PropertySupportedRange (range_value r) s1)"

definition wh_DefaultReportingStrategy :: strategy where
  "wh_DefaultReportingStrategy = ReportOnChangeOnly"

definition wh_NewService ::
  "'d wh_config \<Rightarrow> strategy option \<Rightarrow> service_spec \<Rightarrow> 'd \<Rightarrow> adapter \<Rightarrow> (nat \<Rightarrow> time) \<Rightarrow> 'd wh_config \<times> 'd svc" where
  "wh_NewService c strat spec d a clock =
     (c\<lparr>cf_strategy := (case strat of None \<Rightarrow> wh_DefaultReportingStrategy | Some s \<Rightarrow> s)\<rparr>,
      svc_New (fg_EnsureInterfaces (cf_fimpgo c) (climate_requiredInterfaces (cf_fimpgo c)) (spec\<lparr>sv_Name := WaterHeater\<rparr>)) d a clock)"

definition wh_SupportedModes :: "'d wh_config \<Rightarrow> service_spec \<Rightarrow> string list" where
  "wh_SupportedModes c spec = fg_PropertyStrings (cf_fimpgo c) spec PropertySupportedModes"

definition wh_SupportedSetpoints :: "'d wh_config \<Rightarrow> service_spec \<Rightarrow> string list" where
  "wh_SupportedSetpoints c spec = fg_PropertyStrings (cf_fimpgo c) spec PropertySupportedSetpoints"

definition wh_SupportedStates :: "'d wh_config \<Rightarrow> service_spec \<Rightarrow> string list" where
  "wh_SupportedStates c spec = fg_PropertyStrings (cf_fimpgo c) spec PropertySupportedStates"

definition wh_normalizeMode :: "'d wh_config \<Rightarrow> service_spec \<Rightarrow> string \<Rightarrow> string option" where
  "wh_normalizeMode c spec mode = normalize mode (wh_SupportedModes c spec)"

definition wh_normalizeSetpoint :: "'d wh_config \<Rightarrow> service_spec \<Rightarrow> string \<Rightarrow> string option" where
  "wh_normalizeSetpoint c spec mode = normalize mode (wh_SupportedSetpoints c spec)"

definition wh_SupportsSetpoint :: "'d wh_config \<Rightarrow> service_spec \<Rightarrow> string \<Rightarrow> bool" where
  "wh_SupportsSetpoint c spec setpoint \<longleftrightarrow> wh_normalizeSetpoint c spec setpoint \<noteq> None"

text \<open>The range of a mode, else the range of all modes, else none.\<close>

definition wh_supportedRange :: "'d wh_config \<Rightarrow> service_spec \<Rightarrow> string \<Rightarrow> range option" where
  "wh_supportedRange c spec mode =
     (case map_of (wh_Ranges c spec) mode of Some r \<Rightarrow> r | None \<Rightarrow> wh_Range c spec)"

definition wh_normalizeValue :: "'d wh_config \<Rightarrow> service_spec \<Rightarrow> string \<Rightarrow> rat \<Rightarrow> rat result" where
  "wh_normalizeValue c spec mode val =
     (let v = (case fg_PropertyFloat (cf_fimpgo c) spec PropertySupportedStep of
                 Some step \<Rightarrow> if step > 0 then wh_rnd c (math_Round (wh_rnd c (val / step)) * step) else val
               | None \<Rightarrow> val)
      in case wh_supportedRange c spec mode of
           None \<Rightarrow> Inr v
         | Some r \<Rightarrow>
             if v < rg_Min r \<or> v > rg_Max r
             then Inl (Errorf (sv_Name spec @ '': value '' @ FormatFloat 1 v @ '' is out of range '' @ FormatFloat 1 (rg_Min r)
                               @ '' - '' @ FormatFloat 1 (rg_Max r) @ '' for mode '' @ mode))
             else Inr v)"

definition wh_SetMode :: "'d wh_config \<Rightarrow> string \<Rightarrow> ('d, unit) svc_act" where
  "wh_SetMode c mode = with_svc (\<lambda>s.
     act_bind (case wh_normalizeMode c (sc_spec s) mode of
         None \<Rightarrow> act_fail (Errorf (svc_Name s @ '': mode is unsupported: '' @ mode)) | Some m \<Rightarrow> act_return m) (\<lambda>m.
     control ('': failed to set mode '' @ m) (wc_SetWaterHeaterMode (cf_controller c) m)))"

text \<open>The value is normalized for the mode as it was received.\<close>

definition wh_SetSetpoint :: "'d wh_config \<Rightarrow> string \<Rightarrow> rat \<Rightarrow> string \<Rightarrow> ('d, unit) svc_act" where
  "wh_SetSetpoint c mode val unit = with_svc (\<lambda>s.
     act_bind (case wh_normalizeSetpoint c (sc_spec s) mode of
         None \<Rightarrow> act_fail (Errorf (svc_Name s @ '': setpoint mode is unsupported: '' @ mode)) | Some m \<Rightarrow> act_return m) (\<lambda>m.
     act_bind (act_wrap (svc_Name s @ '': setpoint value is incorrect'')
       (act_result (wh_normalizeValue c (sc_spec s) mode val))) (\<lambda>v.
     control ('': failed to set setpoint for mode '' @ m @ '' for value '' @ FormatFloat 1 v)
       (wc_SetWaterHeaterSetpoint (cf_controller c) m v unit))))"

definition wh_SendModeReport :: "'d wh_config \<Rightarrow> bool \<Rightarrow> ('d, bool) svc_act" where
  "wh_SendModeReport c force =
     send_report (cf_fimpgo c) (cf_strategy c) EvtModeReport ''''
       '': failed to retrieve mode report'' '': failed to send mode report''
       (wc_WaterHeaterModeReport (cf_controller c)) VString
       (\<lambda>name v. fg_New (cf_fimpgo c) KString EvtModeReport name (VString v) [] None)
       force"

definition wh_SendSetpointReport :: "'d wh_config \<Rightarrow> string \<Rightarrow> bool \<Rightarrow> ('d, bool) svc_act" where
  "wh_SendSetpointReport c mode force = with_svc (\<lambda>s.
     act_bind (case wh_normalizeSetpoint c (sc_spec s) mode of
         None \<Rightarrow> act_fail (Errorf (svc_Name s @ '': setpoint mode is unsupported: '' @ mode)) | Some m \<Rightarrow> act_return m) (\<lambda>m.
     send_report (cf_fimpgo c) (cf_strategy c) EvtSetpointReport mode
       ('': failed to retrieve setpoint report for mode '' @ m) '': failed to send state report''
       (wc_WaterHeaterSetpointReport (cf_controller c) m) (\<lambda>(v, unit). VFloat v)
       (\<lambda>name (v, unit). fg_WithStorageStrategy (cf_fimpgo c) (fg_StorageStrategyAggregate (cf_fimpgo c)) m
          (fg_New (cf_fimpgo c) KObject EvtSetpointReport name (setpoint_value (NewSetpoint m v unit)) [] None))
       force))"

definition wh_SendStateReport :: "'d wh_config \<Rightarrow> bool \<Rightarrow> ('d, bool) svc_act" where
  "wh_SendStateReport c force =
     send_report (cf_fimpgo c) (cf_strategy c) EvtStateReport ''''
       '': failed to retrieve state report'' '': failed to send state report''
       (wc_WaterHeaterStateReport (cf_controller c)) VString
       (\<lambda>name v. fg_New (cf_fimpgo c) KString EvtStateReport name (VString v) [] None)
       force"

definition wh_HandleCmdModeSet :: "'d wh_config \<Rightarrow> message \<Rightarrow> ('d, unit) svc_act" where
  "wh_HandleCmdModeSet c msg =
     act_bind (act_wrap ''provided mode has an incorrect format'' (act_result (fg_GetStringValue (cf_fimpgo c) (ms_Payload msg)))) (\<lambda>mode.
     act_bind (act_wrap ''failed to set water heater mode'' (wh_SetMode c mode)) (\<lambda>_.
     act_bind (answer ''failed to send water heater mode report'' (wh_SendModeReport c)) (\<lambda>_.
     act_bind (act_get (\<lambda>s. wh_SupportsSetpoint c (sc_spec s) mode)) (\<lambda>supported.
     if supported then answer ''failed to send water heater setpoint report'' (wh_SendSetpointReport c mode) else act_return ()))))"

definition wh_HandleCmdSetpointSet :: "'d wh_config \<Rightarrow> message \<Rightarrow> ('d, unit) svc_act" where
  "wh_HandleCmdSetpointSet c msg =
     act_bind (act_wrap ''provided setpoint object has an incorrect format'' (act_result (wh_Setpoint c (ms_Payload msg)))) (\<lambda>sp.
     act_bind (act_wrap ''failed to set water heater setpoint'' (wh_SetSetpoint c (sp_Type sp) (sp_Temperature sp) (sp_Unit sp))) (\<lambda>_.
     answer ''failed to send water heater setpoint report'' (wh_SendSetpointReport c (sp_Type sp))))"

definition wh_HandleCmdModeGetReport :: "'d wh_config \<Rightarrow> message \<Rightarrow> ('d, unit) svc_act" where
  "wh_HandleCmdModeGetReport c msg = answer ''failed to send water heater mode report'' (wh_SendModeReport c)"

definition wh_HandleCmdSetpointGetReport :: "'d wh_config \<Rightarrow> message \<Rightarrow> ('d, unit) svc_act" where
  "wh_HandleCmdSetpointGetReport c msg =
     act_bind (act_wrap ''provided mode has an incorrect format'' (act_result (fg_GetStringValue (cf_fimpgo c) (ms_Payload msg)))) (\<lambda>mode.
     answer ''failed to send water heater setpoint report'' (wh_SendSetpointReport c mode))"

definition wh_HandleCmdStateGetReport :: "'d wh_config \<Rightarrow> message \<Rightarrow> ('d, unit) svc_act" where
  "wh_HandleCmdStateGetReport c msg = answer ''failed to send water heater state report'' (wh_SendStateReport c)"

text \<open>The commands and their handlers, in the order of \<^verbatim>\<open>RouteService\<close>.\<close>

definition wh_handlers :: "'d wh_config \<Rightarrow> (string \<times> (message \<Rightarrow> ('d, unit) svc_act)) list" where
  "wh_handlers c =
     [(CmdModeSet, wh_HandleCmdModeSet c), (CmdSetpointSet, wh_HandleCmdSetpointSet c),
      (CmdModeGetReport, wh_HandleCmdModeGetReport c), (CmdSetpointGetReport, wh_HandleCmdSetpointGetReport c),
      (CmdStateGetReport, wh_HandleCmdStateGetReport c)]"

definition wh_RouteCmdModeSet :: "'d wh_config \<Rightarrow> 'd svc_world routing" where
  "wh_RouteCmdModeSet c = svc_routing (cf_fimpgo c) WaterHeater CmdModeSet (wh_HandleCmdModeSet c)"

definition wh_RouteCmdSetpointSet :: "'d wh_config \<Rightarrow> 'd svc_world routing" where
  "wh_RouteCmdSetpointSet c = svc_routing (cf_fimpgo c) WaterHeater CmdSetpointSet (wh_HandleCmdSetpointSet c)"

definition wh_RouteCmdModeGetReport :: "'d wh_config \<Rightarrow> 'd svc_world routing" where
  "wh_RouteCmdModeGetReport c = svc_routing (cf_fimpgo c) WaterHeater CmdModeGetReport (wh_HandleCmdModeGetReport c)"

definition wh_RouteCmdSetpointGetReport :: "'d wh_config \<Rightarrow> 'd svc_world routing" where
  "wh_RouteCmdSetpointGetReport c = svc_routing (cf_fimpgo c) WaterHeater CmdSetpointGetReport (wh_HandleCmdSetpointGetReport c)"

definition wh_RouteCmdStateGetReport :: "'d wh_config \<Rightarrow> 'd svc_world routing" where
  "wh_RouteCmdStateGetReport c = svc_routing (cf_fimpgo c) WaterHeater CmdStateGetReport (wh_HandleCmdStateGetReport c)"

definition wh_RouteService :: "'d wh_config \<Rightarrow> 'd svc_world routing list" where
  "wh_RouteService c =
     [wh_RouteCmdModeSet c,
      wh_RouteCmdSetpointSet c,
      wh_RouteCmdModeGetReport c,
      wh_RouteCmdSetpointGetReport c,
      wh_RouteCmdStateGetReport c]"

text \<open>The table pairs every command with its handler.\<close>

lemma wh_RouteService_handlers:
  "wh_RouteService c = map (\<lambda>(cmd, h). svc_routing (cf_fimpgo c) WaterHeater cmd h) (wh_handlers c)"
  by (simp add: wh_RouteService_def wh_handlers_def wh_RouteCmdModeSet_def wh_RouteCmdSetpointSet_def wh_RouteCmdModeGetReport_def wh_RouteCmdSetpointGetReport_def wh_RouteCmdStateGetReport_def)

definition wh_reports :: "'d wh_config \<Rightarrow> ('d, unit) svc_act" where
  "wh_reports c = with_svc (\<lambda>s. let spec = sc_spec s in
     act_bind (if length (wh_SupportedModes c spec) > 0 then act_log (wh_SendModeReport c False) else act_return ()) (\<lambda>_.
     act_bind (act_for (wh_SupportedSetpoints c spec) (\<lambda>mode. act_log (wh_SendSetpointReport c mode False))) (\<lambda>_.
     if length (wh_SupportedStates c spec) > 0 then act_log (wh_SendStateReport c False) else act_return ())))"

definition wh_handleReporting :: "adapter_env \<Rightarrow> 'd wh_config \<Rightarrow> ('d svc_world, unit) act" where
  "wh_handleReporting av c = svc_reporting av WaterHeater (wh_reports c)"

definition wh_TaskReporting ::
  "adapter_env \<Rightarrow> 'd wh_config \<Rightarrow> duration \<Rightarrow> ('d svc_world \<Rightarrow> bool) list \<Rightarrow> 'd svc_world task" where
  "wh_TaskReporting av c = svc_TaskReporting (wh_handleReporting av c)"


section \<open>Values of the setpoints of a water heater\<close>

text \<open>
  The controller keeps \<open>I\<close> whenever it is set to a supported mode, or to a supported setpoint with a value in
  the range; nothing is known of other calls.
\<close>

definition wh_controller_keeps :: "'d wh_config \<Rightarrow> service_spec \<Rightarrow> range \<Rightarrow> ('d \<Rightarrow> bool) \<Rightarrow> bool" where
  "wh_controller_keeps c spec r I \<longleftrightarrow>
     (\<forall>m \<in> set (wh_SupportedModes c spec). act_keeps I (wc_SetWaterHeaterMode (cf_controller c) m))
   \<and> (\<forall>m \<in> set (wh_SupportedSetpoints c spec). \<forall>v unit. rg_Min r \<le> v \<longrightarrow> v \<le> rg_Max r
        \<longrightarrow> act_keeps I (wc_SetWaterHeaterSetpoint (cf_controller c) m v unit))
   \<and> act_keeps I (wc_WaterHeaterModeReport (cf_controller c))
   \<and> (\<forall>m. act_keeps I (wc_WaterHeaterSetpointReport (cf_controller c) m))
   \<and> act_keeps I (wc_WaterHeaterStateReport (cf_controller c))"

lemma keeps_lookup_bind:
  "(\<And>u. x = Some u \<Longrightarrow> act_keeps I (f u)) \<Longrightarrow>
   act_keeps I (act_bind (case x of None \<Rightarrow> act_fail e | Some u \<Rightarrow> act_return u) f)"
  by (cases x) (auto simp: act_keeps_def)

lemma wh_normalizeValue_in_range:
  assumes "wh_normalizeValue c spec mode val = Inr v" "wh_supportedRange c spec mode = Some r"
  shows "rg_Min r \<le> v \<and> v \<le> rg_Max r"
  using assms by (auto simp: wh_normalizeValue_def Let_def split: if_splits)

lemma wh_ops_keep:
  assumes "wh_controller_keeps c spec r I" "wh_Ranges c spec = []" "wh_Range c spec = Some r"
  shows "act_keeps (dev_inv spec I) (wh_SetMode c mode)" "act_keeps (dev_inv spec I) (wh_SetSetpoint c mode val unit)"
    "act_keeps (dev_inv spec I) (wh_SendModeReport c force)" "act_keeps (dev_inv spec I) (wh_SendSetpointReport c mode force)"
    "act_keeps (dev_inv spec I) (wh_SendStateReport c force)"
proof -
  have rg: "wh_supportedRange c spec mode = Some r" for mode using assms by (simp add: wh_supportedRange_def)
  note k = assms(1) [unfolded wh_controller_keeps_def]
  show "act_keeps (dev_inv spec I) (wh_SetMode c mode)"
    unfolding wh_SetMode_def using k
    by (intro keeps_with_svc keeps_lookup_bind keeps_control) (auto simp: wh_normalizeMode_def dest: normalize_supported)
  show "act_keeps (dev_inv spec I) (wh_SetSetpoint c mode val unit)"
    unfolding wh_SetSetpoint_def using k wh_normalizeValue_in_range [OF _ rg]
    by (intro keeps_with_svc keeps_lookup_bind act_keeps_wrap_result_bind keeps_control)
      (auto simp: wh_normalizeSetpoint_def dest: normalize_supported)
  show "act_keeps (dev_inv spec I) (wh_SendModeReport c force)"
    unfolding wh_SendModeReport_def using k by (intro act_keeps_rules) blast
  show "act_keeps (dev_inv spec I) (wh_SendSetpointReport c mode force)"
    unfolding wh_SendSetpointReport_def using k by (intro keeps_with_svc keeps_lookup_bind act_keeps_rules) blast
  show "act_keeps (dev_inv spec I) (wh_SendStateReport c force)"
    unfolding wh_SendStateReport_def using k by (intro act_keeps_rules) blast
qed

lemma wh_service_keeps:
  assumes "wh_controller_keeps c spec r I" "wh_Ranges c spec = []" "wh_Range c spec = Some r"
  shows "(cmd, h) \<in> set (wh_handlers c) \<Longrightarrow> act_keeps (dev_inv spec I) (h msg)"
    and "act_keeps (dev_inv spec I) (wh_reports c)"
proof -
  note keep = wh_ops_keep [OF assms]
  have "list_all (\<lambda>(cmd, h). act_keeps (dev_inv spec I) (h msg)) (wh_handlers c)"
    unfolding wh_handlers_def list.pred_inject(2) prod.case wh_HandleCmdModeSet_def wh_HandleCmdSetpointSet_def
      wh_HandleCmdModeGetReport_def wh_HandleCmdSetpointGetReport_def wh_HandleCmdStateGetReport_def
    by (intro conjI act_keeps_rules keep list.pred_inject(1))
  then show "(cmd, h) \<in> set (wh_handlers c) \<Longrightarrow> act_keeps (dev_inv spec I) (h msg)" by (auto simp: list_all_iff)
  show "act_keeps (dev_inv spec I) (wh_reports c)"
    unfolding wh_reports_def Let_def by (intro act_keeps_rules keep)
qed

text \<open>
  C10. The temperature of a water heater with one range for all modes stays in that range: a property of the
  devices that survives every call of the controller with a supported mode, and every call with a supported
  setpoint and a value in the range, survives every message that is routed to a water heater, whatever it
  holds, and every run of the reporting task.
\<close>
theorem water_heater_stays_in_range:
  assumes "\<forall>a. wh_controller_keeps c (specs a) (r a) I" "\<forall>a. wh_Ranges c (specs a) = [] \<and> wh_Range c (specs a) = Some (r a)"
    and "svcs_inv specs I w"
  shows "(\<forall>(cmd, h) \<in> set (wh_handlers c). \<forall>msg res w'. svc_handler h msg w = Some (res, w') \<longrightarrow> svcs_inv specs I w')
    \<and> (\<forall>res w'. wh_handleReporting av c w = Some (res, w') \<longrightarrow> svcs_inv specs I w')"
  unfolding wh_handleReporting_def using assms(1,2)
  by (intro service_keeps_world [OF _ _ assms(3)] wh_service_keeps) blast+

section \<open>A heater with a range for one mode\<close>

definition hot_heater :: "rat list wh_config" where
  "hot_heater =
     \<lparr>cf_fimpgo = demo_fimpgo,
      cf_controller = \<lparr>wc_SetWaterHeaterMode = (\<lambda>m d. Some (Inr (), d)),
        wc_SetWaterHeaterSetpoint = (\<lambda>m v u d. Some (Inr (), v # d)), wc_WaterHeaterModeReport = (\<lambda>d. Some (Inr ''heat'', d)),
        wc_WaterHeaterSetpointReport = (\<lambda>m d. Some (Inr (hd d, ''C''), d)), wc_WaterHeaterStateReport = (\<lambda>d. Some (Inr ''heat'', d))\<rparr>,
      cf_strategy = ReportOnChangeOnly, wh_rnd = (\<lambda>x. x),
      wh_Ranges = (\<lambda>s. [(''heat'', Some \<lparr>rg_Min = 10, rg_Max = 60\<rparr>)]), wh_Range = (\<lambda>s. None),
      wh_Setpoint = (\<lambda>m. case pl_Value m of VFloat x \<Rightarrow> Inr \<lparr>sp_Type = ''heat'', sp_Temperature = x, sp_Unit = ''C''\<rparr>
                     | _ \<Rightarrow> Inl (Errorf ''wrong value format''))\<rparr>"

definition heater_spec :: service_spec where
  "heater_spec = demo_svc_spec WaterHeater [(PropertySupportedSetpoints, VList [VString ''heat''])]"

lemma heater_props:
  "wh_SupportedSetpoints hot_heater heater_spec = [''heat'']"
  "fg_PropertyFloat (cf_fimpgo hot_heater) heater_spec PropertySupportedStep = None"
  by code_simp+

lemma heater_set: "wc_SetWaterHeaterSetpoint (cf_controller hot_heater) m v u = (\<lambda>d. Some (Inr (), v # d))"
  by (simp add: hot_heater_def)

lemma heater_modes: "wh_normalizeSetpoint hot_heater heater_spec ''HEAT'' = Some ''heat''"
    "wh_normalizeSetpoint hot_heater heater_spec ''heat'' = Some ''heat''"
  by code_simp+

lemma heater_ranges: "wh_supportedRange hot_heater heater_spec ''HEAT'' = None"
    "wh_supportedRange hot_heater heater_spec ''heat'' = Some \<lparr>rg_Min = 10, rg_Max = 60\<rparr>"
  by (simp_all add: wh_supportedRange_def hot_heater_def)

text \<open>
  Ranges of single modes do not bind: modes are accepted in any spelling, but the range is looked up under
  the spelling that was received. The heater whose setpoint \<^verbatim>\<open>heat\<close> is limited to 10 to 60 degrees refuses
  other values for \<^verbatim>\<open>heat\<close>, and sets the same setpoint to every value whatsoever for \<^verbatim>\<open>HEAT\<close>.
\<close>
theorem setpoint_range_bypassed:
  assumes "sc_spec s = heater_spec"
  shows "wh_SetSetpoint hot_heater ''HEAT'' v ''C'' s = Some (Inr (), s\<lparr>sc_dev := v # sc_dev s\<rparr>)
    \<and> (v < 10 \<or> 60 < v \<longrightarrow> (\<exists>e. wh_SetSetpoint hot_heater ''heat'' v ''C'' s = Some (Inl e, s)))"
  using assms
  by (auto simp: wh_SetSetpoint_def with_svc_def heater_modes heater_ranges heater_props wh_normalizeValue_def
      control_def on_dev_def heater_set Let_def)


theorem setpoint_range_bypassed_witness:
  "\<exists>s. wh_SetSetpoint hot_heater ''HEAT'' 95 ''C'' (svc_New heater_spec [] (demo_adapter (\<lambda>_. None)) int) = Some (Inr (), s)
    \<and> sc_dev s = [95]"
proof -
  have "sc_spec (svc_New heater_spec ([] :: rat list) (demo_adapter (\<lambda>_. None)) int) = heater_spec" by (simp add: svc_New_def)
  from setpoint_range_bypassed [OF this, of 95] show ?thesis by (simp add: svc_New_def)
qed

text \<open>The same heater with the range for all modes.\<close>

definition demo_wh :: "rat list wh_config" where
  "demo_wh = hot_heater\<lparr>wh_Ranges := (\<lambda>s. []), wh_Range := (\<lambda>s. Some \<lparr>rg_Min = 10, rg_Max = 60\<rparr>)\<rparr>"

theorem water_heater_stays_in_range_witness:
  "\<exists>w'. svc_handler (wh_HandleCmdSetpointSet demo_wh) (demo_command heater_spec (VFloat 55)) (demo_world heater_spec []) = Some (Inr None, w')
    \<and> svcs_inv (\<lambda>_. heater_spec) (list_all (\<lambda>v. 10 \<le> v \<and> v \<le> 60)) w'"
proof -
  let ?w = "demo_world heater_spec ([] :: rat list)" and ?m = "demo_command heater_spec (VFloat 55)"
  let ?I = "list_all (\<lambda>v :: rat. 10 \<le> v \<and> v \<le> 60)"
  have keep: "\<forall>a :: string. wh_controller_keeps demo_wh heater_spec \<lparr>rg_Min = 10, rg_Max = 60\<rparr> ?I"
    by (auto simp: wh_controller_keeps_def demo_wh_def hot_heater_def act_keeps_def)
  have rg: "\<forall>a :: string. wh_Ranges demo_wh heater_spec = [] \<and> wh_Range demo_wh heater_spec = Some \<lparr>rg_Min = 10, rg_Max = 60\<rparr>"
    by (simp add: demo_wh_def)
  have inv: "svcs_inv (\<lambda>_. heater_spec) ?I ?w" by (rule demo_svcs_inv) simp
  have mem: "(CmdSetpointSet, wh_HandleCmdSetpointSet demo_wh) \<in> set (wh_handlers demo_wh)" by (simp add: wh_handlers_def)
  have "map_option fst (svc_handler (wh_HandleCmdSetpointSet demo_wh) ?m ?w) = Some (Inr None)" by code_simp
  then obtain w' where run: "svc_handler (wh_HandleCmdSetpointSet demo_wh) ?m ?w = Some (Inr None, w')" by auto
  from water_heater_stays_in_range [OF keep rg inv] mem run show ?thesis by fastforce
qed


section \<open>The reports keep their contract\<close>

interpretation tsm: plain_report "ts_SendModeReport c" EvtModeReport "''''"
  "dev_reading (tc_ThermostatModeReport (cf_controller c)) VString"
  "fimpgo_ok (cf_fimpgo c)" "fimpgo_ok (cf_fimpgo c) \<and> cf_strategy c = ReportOnChangeOnly" for c
  unfolding ts_SendModeReport_def by (rule send_report_plain) simp_all

interpretation tss: forced_report "ts_SendSetpointReport c mode" EvtSetpointReport "{mode}" for c mode
  unfolding ts_SendSetpointReport_def by (intro forced_reportI report_rules forces_rules quiet_rules singletonI)

interpretation whm: plain_report "wh_SendModeReport c" EvtModeReport "''''"
  "dev_reading (wc_WaterHeaterModeReport (cf_controller c)) VString"
  "fimpgo_ok (cf_fimpgo c)" "fimpgo_ok (cf_fimpgo c) \<and> cf_strategy c = ReportOnChangeOnly" for c
  unfolding wh_SendModeReport_def by (rule send_report_plain) simp_all

interpretation whs: forced_report "wh_SendSetpointReport c mode" EvtSetpointReport "{mode}" for c mode
  unfolding wh_SendSetpointReport_def by (intro forced_reportI report_rules forces_rules quiet_rules singletonI)

end
