(* ===== verification/Numeric_Meter.thy ===== *)
theory Numeric_Meter
  imports Device_Service
begin

text \<open>
  The meter service, \<^verbatim>\<open>src/adapter/service/numericmeter\<close>: units and values (\<^verbatim>\<open>model.go\<close>), specification,
  service, handlers and the reporting task. The Go types \<^verbatim>\<open>Unit\<close> and \<^verbatim>\<open>Value\<close> are strings; the optional
  interfaces of the reporter are optional fields. A report of extended values is a map, an association list
  in the order in which the code happens to visit it.
\<close>

section \<open>Model and specification\<close>

definition CmdMeterGetReport :: string where "CmdMeterGetReport = ''cmd.meter.get_report''"
definition EvtMeterReport :: string where "EvtMeterReport = ''evt.meter.report''"
definition CmdMeterReset :: string where "CmdMeterReset = ''cmd.meter.reset''"
definition CmdMeterExportGetReport :: string where "CmdMeterExportGetReport = ''cmd.meter_export.get_report''"
definition EvtMeterExportReport :: string where "EvtMeterExportReport = ''evt.meter_export.report''"
definition CmdMeterExtGetReport :: string where "CmdMeterExtGetReport = ''cmd.meter_ext.get_report''"
definition EvtMeterExtReport :: string where "EvtMeterExtReport = ''evt.meter_ext.report''"
definition meter_prefix :: string where "meter_prefix = ''meter_''"
definition PropertyUnit :: string where "PropertyUnit = ''unit''"
definition PropertySupportedUnits :: string where "PropertySupportedUnits = ''sup_units''"
definition PropertySupportedExportUnits :: string where "PropertySupportedExportUnits = ''sup_export_units''"
definition PropertySupportedExtendedValues :: string where "PropertySupportedExtendedValues = ''sup_extended_vals''"
definition PropertyIsVirtual :: string where "PropertyIsVirtual = ''is_virtual''"

type_synonym values_report = "(string \<times> rat) list"

definition ValuesReport_Map :: "values_report \<Rightarrow> fimp_value" where
  "ValuesReport_Map r = VObject (map (\<lambda>(k, v). (k, VFloat v)) r)"

definition WithExportUnits :: "string list \<Rightarrow> service_spec \<Rightarrow> service_spec" where
  "WithExportUnits exportUnits = set_prop PropertySupportedExportUnits (VList (map VString exportUnits))"

definition WithExtendedValues :: "string list \<Rightarrow> service_spec \<Rightarrow> service_spec" where
  "WithExtendedValues extendedValues = set_prop PropertySupportedExtendedValues (VList (map VString extendedValues))"

definition WithIsVirtual :: "service_spec \<Rightarrow> service_spec" where
  "WithIsVirtual = set_prop PropertyIsVirtual (VBool True)"

definition meter_requiredInterfaces :: "fimpgo \<Rightarrow> interface list" where
  "meter_requiredInterfaces fg =
     [iface (fg_TypeIn fg) CmdMeterGetReport (fg_VTypeString fg),
      iface (fg_TypeOut fg) EvtMeterReport (fg_VTypeFloat fg),
      iface (fg_TypeOut fg) EvtErrorReport (fg_VTypeString fg)]"

definition resetInterfaces :: "fimpgo \<Rightarrow> interface list" where
  "resetInterfaces fg = [iface (fg_TypeIn fg) CmdMeterExportGetReport (fg_VTypeString fg)]"

definition exportInterfaces :: "fimpgo \<Rightarrow> interface list" where
  "exportInterfaces fg =
     [iface (fg_TypeIn fg) CmdMeterExportGetReport (fg_VTypeString fg),
      iface (fg_TypeOut fg) EvtMeterExportReport (fg_VTypeFloat fg)]"

definition extendedInterfaces :: "fimpgo \<Rightarrow> interface list" where
  "extendedInterfaces fg =
     [iface (fg_TypeIn fg) CmdMeterExtGetReport (fg_VTypeStrArray fg),
      iface (fg_TypeOut fg) EvtMeterExtReport (fg_VTypeFloatMap fg)]"

definition meter_Specification ::
  "fimpgo \<Rightarrow> string \<Rightarrow> string \<Rightarrow> string \<Rightarrow> string \<Rightarrow> string list \<Rightarrow> string list
   \<Rightarrow> (service_spec \<Rightarrow> service_spec) list \<Rightarrow> service_spec" where
  "meter_Specification fg serviceName resourceName resourceAddress address groups units options =
     foldl (\<lambda>s f. f s)
       (service_Specification serviceName resourceName resourceAddress address groups
          [(PropertySupportedUnits, VList (map VString units)), (PropertyIsVirtual, VBool False)] (meter_requiredInterfaces fg))
       options"

section \<open>Reporter and service\<close>

record 'd meter_reporter =
  mr_MeterReport :: "string \<Rightarrow> ('d, rat) act"
  mr_MeterExportReport :: "(string \<Rightarrow> ('d, rat) act) option"
  mr_MeterExtendedReport :: "(string list \<Rightarrow> ('d, values_report) act) option"
  mr_MeterReset :: "('d, unit) act option"

definition meter_DefaultReportingStrategy :: strategy where
  "meter_DefaultReportingStrategy = ReportAtLeastEvery (30 * 60 * 1000000000)"

definition meter_SupportedUnits :: "'d meter_reporter svc_config \<Rightarrow> service_spec \<Rightarrow> string list" where
  "meter_SupportedUnits c spec = fg_PropertyStrings (cf_fimpgo c) spec PropertySupportedUnits"

definition SupportedExportUnits :: "'d meter_reporter svc_config \<Rightarrow> service_spec \<Rightarrow> string list" where
  "SupportedExportUnits c spec = fg_PropertyStrings (cf_fimpgo c) spec PropertySupportedExportUnits"

definition SupportedExtendedValues :: "'d meter_reporter svc_config \<Rightarrow> service_spec \<Rightarrow> string list" where
  "SupportedExtendedValues c spec = fg_PropertyStrings (cf_fimpgo c) spec PropertySupportedExtendedValues"

definition meter_exportReporter ::
  "'d meter_reporter svc_config \<Rightarrow> service_spec \<Rightarrow> (string \<Rightarrow> ('d, rat) act) result" where
  "meter_exportReporter c spec =
     (case mr_MeterExportReport (cf_controller c) of
        None \<Rightarrow> Inl (Errorf (sv_Name spec @ '': export meter report is not supported''))
      | Some reporter \<Rightarrow>
          if length (SupportedExportUnits c spec) = 0
          then Inl (Errorf (sv_Name spec @ '': export meter report is not supported'')) else Inr reporter)"

definition SupportsExportReport :: "'d meter_reporter svc_config \<Rightarrow> service_spec \<Rightarrow> bool" where
  "SupportsExportReport c spec \<longleftrightarrow> \<not> isl (meter_exportReporter c spec)"

definition meter_extendedReporter ::
  "'d meter_reporter svc_config \<Rightarrow> service_spec \<Rightarrow> (string list \<Rightarrow> ('d, values_report) act) result" where
  "meter_extendedReporter c spec =
     (case mr_MeterExtendedReport (cf_controller c) of
        None \<Rightarrow> Inl (Errorf (sv_Name spec @ '': extended meter report is not supported''))
      | Some reporter \<Rightarrow>
          if length (SupportedExtendedValues c spec) = 0
          then Inl (Errorf (sv_Name spec @ '': extended meter report is not supported'')) else Inr reporter)"

definition SupportsExtendedReport :: "'d meter_reporter svc_config \<Rightarrow> service_spec \<Rightarrow> bool" where
  "SupportsExtendedReport c spec \<longleftrightarrow> \<not> isl (meter_extendedReporter c spec)"

definition meter_resettableReporter :: "'d meter_reporter svc_config \<Rightarrow> service_spec \<Rightarrow> ('d, unit) act result" where
  "meter_resettableReporter c spec =
     (case mr_MeterReset (cf_controller c) of
        None \<Rightarrow> Inl (Errorf (sv_Name spec @ '': meter reset is not supported'')) | Some reporter \<Rightarrow> Inr reporter)"

definition SupportsMeterReset :: "'d meter_reporter svc_config \<Rightarrow> service_spec \<Rightarrow> bool" where
  "SupportsMeterReset c spec \<longleftrightarrow> \<not> isl (meter_resettableReporter c spec)"

definition meter_NewService ::
  "'d meter_reporter svc_config \<Rightarrow> strategy option \<Rightarrow> service_spec \<Rightarrow> 'd \<Rightarrow> adapter \<Rightarrow> (nat \<Rightarrow> time)
   \<Rightarrow> 'd meter_reporter svc_config \<times> 'd svc" where
  "meter_NewService c strat spec d a clock =
     (let fg = cf_fimpgo c;
          ensure = (\<lambda>b is s. if b then fg_EnsureInterfaces fg is s else s);
          s0 = fg_EnsureInterfaces fg (meter_requiredInterfaces fg) spec;
          s1 = ensure (SupportsExportReport c s0) (exportInterfaces fg) s0;
          s2 = ensure (SupportsExtendedReport c s1) (extendedInterfaces fg) s1;
          s3 = ensure (SupportsMeterReset c s2) (resetInterfaces fg) s2
      in (c\<lparr>cf_strategy := (case strat of None \<Rightarrow> meter_DefaultReportingStrategy | Some s \<Rightarrow> s)\<rparr>, svc_New s3 d a clock))"

definition meter_normalizeUnit :: "string \<Rightarrow> string list \<Rightarrow> string option" where
  "meter_normalizeUnit unit units = normalize unit units"

definition meter_normalizeValue :: "string \<Rightarrow> string list \<Rightarrow> string option" where
  "meter_normalizeValue v vs = normalize v vs"

fun normalize_all :: "string \<Rightarrow> string list \<Rightarrow> string list \<Rightarrow> string list result" where
  "normalize_all name supported [] = Inr []"
| "normalize_all name supported (v # vs) =
     (case meter_normalizeValue v supported of
        None \<Rightarrow> Inl (Errorf (name @ '': extended value '' @ v @ '' is unsupported''))
      | Some n \<Rightarrow> bind_result (normalize_all name supported vs) (\<lambda>ns. Inr (n # ns)))"

definition normalizeExtendedValues :: "'d meter_reporter svc_config \<Rightarrow> service_spec \<Rightarrow> string list \<Rightarrow> string list result" where
  "normalizeExtendedValues c spec vs = normalize_all (sv_Name spec) (SupportedExtendedValues c spec) vs"

text \<open>The properties of a report: the unit and whether the meter is virtual.\<close>

definition meter_properties :: "'d meter_reporter svc_config \<Rightarrow> service_spec \<Rightarrow> string \<Rightarrow> properties" where
  "meter_properties c spec u =
     [(PropertyUnit, u), (PropertyIsVirtual, if fg_PropertyBool (cf_fimpgo c) spec PropertyIsVirtual then ''true'' else ''false'')]"

text \<open>The reporter is asked with the unit as it was received, the message has the unit of the specification.\<close>

definition SendMeterReport :: "'d meter_reporter svc_config \<Rightarrow> string \<Rightarrow> bool \<Rightarrow> ('d, bool) svc_act" where
  "SendMeterReport c unit force = with_svc (\<lambda>s. let spec = sc_spec s in
     act_bind (case meter_normalizeUnit unit (meter_SupportedUnits c spec) of
         None \<Rightarrow> act_fail (Errorf (sv_Name spec @ '': unit is unsupported: '' @ unit)) | Some u \<Rightarrow> act_return u) (\<lambda>u.
     send_report (cf_fimpgo c) (cf_strategy c) EvtMeterReport u
       '': failed to retrieve meter report'' ('': failed to send meter report for unit '' @ u)
       (mr_MeterReport (cf_controller c) unit) VFloat
       (\<lambda>name v. fg_WithStorageStrategy (cf_fimpgo c) (fg_StorageStrategyAggregate (cf_fimpgo c)) u
          (fg_New (cf_fimpgo c) KFloat EvtMeterReport name (VFloat v) (meter_properties c spec u) None))
       force))"

definition SendMeterExportReport :: "'d meter_reporter svc_config \<Rightarrow> string \<Rightarrow> bool \<Rightarrow> ('d, bool) svc_act" where
  "SendMeterExportReport c unit force = with_svc (\<lambda>s. let spec = sc_spec s in
     act_bind (act_result (meter_exportReporter c spec)) (\<lambda>reporter.
     act_bind (case meter_normalizeUnit unit (SupportedExportUnits c spec) of
         None \<Rightarrow> act_fail (Errorf (sv_Name spec @ '': unit is unsupported: '' @ unit)) | Some u \<Rightarrow> act_return u) (\<lambda>u.
     send_report (cf_fimpgo c) (cf_strategy c) EvtMeterExportReport u
       '': failed to retrieve meter export report'' ('': failed to send meter report for unit '' @ u)
       (reporter unit) VFloat
       (\<lambda>name v. fg_WithStorageStrategy (cf_fimpgo c) (fg_StorageStrategyAggregate (cf_fimpgo c)) u
          (fg_New (cf_fimpgo c) KFloat EvtMeterExportReport name (VFloat v) (meter_properties c spec u) None))
       force)))"

text \<open>A report is required if it is for any of the values.\<close>

fun isExtendedReportRequired :: "strategy \<Rightarrow> values_report \<Rightarrow> ('d, bool) svc_act" where
  "isExtendedReportRequired strat [] = act_return False"
| "isExtendedReportRequired strat ((name, v) # rest) =
     act_bind svc_now (\<lambda>now.
     act_bind (act_get (\<lambda>s. cache_ReportRequired strat now EvtMeterExtReport name (VFloat v) (sc_cache s))) (\<lambda>req.
     if req then act_return True else isExtendedReportRequired strat rest))"

definition mark_value :: "string \<times> rat \<Rightarrow> ('d, unit) svc_act" where
  "mark_value kv =
     act_bind svc_now (\<lambda>now.
     act_modify (\<lambda>s. s\<lparr>sc_cache := cache_Reported now EvtMeterExtReport (fst kv) (VFloat (snd kv)) (sc_cache s)\<rparr>))"

definition SendMeterExtendedReport :: "'d meter_reporter svc_config \<Rightarrow> string list \<Rightarrow> bool \<Rightarrow> ('d, bool) svc_act" where
  "SendMeterExtendedReport c extendedValues force = with_svc (\<lambda>s. let spec = sc_spec s; name = sv_Name spec in
     act_bind (act_result (meter_extendedReporter c spec)) (\<lambda>reporter.
     act_bind (act_wrap (name @ '': failed to normalize extended values'')
       (act_result (normalizeExtendedValues c spec extendedValues))) (\<lambda>normalized.
     act_bind (act_wrap (name @ '': failed to retrieve extended meter report'') (on_dev (reporter normalized))) (\<lambda>vals.
     act_bind (if force then act_return True else isExtendedReportRequired (cf_strategy c) vals) (\<lambda>req.
     if \<not> req then act_return False
     else
       act_bind (act_wrap (name @ '': failed to send extended meter report'')
         (svc_SendMessage (cf_fimpgo c) (fg_WithStorageStrategy (cf_fimpgo c) (fg_StorageStrategySplit (cf_fimpgo c)) ''''
            (fg_New (cf_fimpgo c) KFloatMap EvtMeterExtReport name (ValuesReport_Map vals) [] None)))) (\<lambda>_.
       act_bind (act_for vals mark_value) (\<lambda>_. act_return True)))))))"

definition ResetMeter :: "'d meter_reporter svc_config \<Rightarrow> ('d, unit) svc_act" where
  "ResetMeter c = with_svc (\<lambda>s.
     act_bind (act_result (meter_resettableReporter c (sc_spec s))) (\<lambda>reset. control '': failed to reset meter'' reset))"

section \<open>Handlers\<close>

definition invalid_type :: "message \<Rightarrow> string \<Rightarrow> string \<Rightarrow> ('w, 'a) act" where
  "invalid_type msg a b = act_fail (Errorf (''provided message value has an invalid type, received ''
     @ pl_ValueType (ms_Payload msg) @ '' instead of '' @ a @ '' or '' @ b))"

definition meter_unitsToReport :: "fimpgo \<Rightarrow> message \<Rightarrow> string list \<Rightarrow> string list result" where
  "meter_unitsToReport fg msg supportedUnits =
     (if pl_ValueType (ms_Payload msg) = fg_VTypeNull fg then Inr supportedUnits
      else bind_result (wrap_err ''provided unit has an incorrect format'' (fg_GetStringValue fg (ms_Payload msg))) (\<lambda>unit.
        if unit = '''' then Inr supportedUnits else Inr [unit]))"

definition valuesToReport :: "fimpgo \<Rightarrow> message \<Rightarrow> string list \<Rightarrow> string list result" where
  "valuesToReport fg msg supportedValues =
     (if pl_ValueType (ms_Payload msg) = fg_VTypeNull fg then Inr supportedValues
      else bind_result (wrap_err ''provided value has an incorrect format'' (fg_GetStrArrayValue fg (ms_Payload msg))) (\<lambda>vals.
        if vals = [] then Inr supportedValues else Inr vals))"

definition handleCmdMeterGetReport :: "'d meter_reporter svc_config \<Rightarrow> message \<Rightarrow> ('d, unit) svc_act" where
  "handleCmdMeterGetReport c msg = with_svc (\<lambda>s. let fg = cf_fimpgo c in
     if pl_ValueType (ms_Payload msg) \<noteq> fg_VTypeString fg \<and> pl_ValueType (ms_Payload msg) \<noteq> fg_VTypeNull fg
     then invalid_type msg (fg_VTypeString fg) (fg_VTypeNull fg)
     else
       act_bind (act_result (meter_unitsToReport fg msg (meter_SupportedUnits c (sc_spec s)))) (\<lambda>units.
       act_for units (\<lambda>unit. answer ''failed to send meter report'' (SendMeterReport c unit))))"

definition handleCmdMeterExportGetReport :: "'d meter_reporter svc_config \<Rightarrow> message \<Rightarrow> ('d, unit) svc_act" where
  "handleCmdMeterExportGetReport c msg = with_svc (\<lambda>s. let fg = cf_fimpgo c in
     if pl_ValueType (ms_Payload msg) \<noteq> fg_VTypeString fg \<and> pl_ValueType (ms_Payload msg) \<noteq> fg_VTypeNull fg
     then invalid_type msg (fg_VTypeString fg) (fg_VTypeNull fg)
     else
       act_bind (act_result (meter_unitsToReport fg msg (SupportedExportUnits c (sc_spec s)))) (\<lambda>units.
       act_for units (\<lambda>unit. answer ''failed to send meter report'' (SendMeterExportReport c unit))))"

definition handleCmdMeterExtGetReport :: "'d meter_reporter svc_config \<Rightarrow> message \<Rightarrow> ('d, unit) svc_act" where
  "handleCmdMeterExtGetReport c msg = with_svc (\<lambda>s. let fg = cf_fimpgo c in
     if pl_ValueType (ms_Payload msg) \<noteq> fg_VTypeStrArray fg \<and> pl_ValueType (ms_Payload msg) \<noteq> fg_VTypeNull fg
     then invalid_type msg (fg_VTypeStrArray fg) (fg_VTypeNull fg)
     else
       act_bind (act_result (valuesToReport fg msg (SupportedExtendedValues c (sc_spec s)))) (\<lambda>vals.
       answer ''failed to send meter extended report'' (SendMeterExtendedReport c vals)))"

definition handleCmdMeterReset :: "'d meter_reporter svc_config \<Rightarrow> message \<Rightarrow> ('d, unit) svc_act" where
  "handleCmdMeterReset c msg = act_wrap ''failed to reset meter'' (ResetMeter c)"

definition meter_route ::
  "'d meter_reporter svc_config \<Rightarrow> string \<Rightarrow> (message \<Rightarrow> ('d, unit) svc_act) \<Rightarrow> 'd svc_world routing" where
  "meter_route c cmd h = svc_route (cf_fimpgo c) (ForServicePrefix meter_prefix) cmd [] h"

definition routeCmdMeterGetReport :: "'d meter_reporter svc_config \<Rightarrow> 'd svc_world routing" where
  "routeCmdMeterGetReport c = meter_route c CmdMeterGetReport (handleCmdMeterGetReport c)"

definition routeCmdMeterExportGetReport :: "'d meter_reporter svc_config \<Rightarrow> 'd svc_world routing" where
  "routeCmdMeterExportGetReport c = meter_route c CmdMeterExportGetReport (handleCmdMeterExportGetReport c)"

definition routeCmdMeterExtGetReport :: "'d meter_reporter svc_config \<Rightarrow> 'd svc_world routing" where
  "routeCmdMeterExtGetReport c = meter_route c CmdMeterExtGetReport (handleCmdMeterExtGetReport c)"

definition routeCmdMeterReset :: "'d meter_reporter svc_config \<Rightarrow> 'd svc_world routing" where
  "routeCmdMeterReset c = meter_route c CmdMeterReset (handleCmdMeterReset c)"

definition meter_RouteService :: "'d meter_reporter svc_config \<Rightarrow> 'd svc_world routing list" where
  "meter_RouteService c =
     [routeCmdMeterGetReport c, routeCmdMeterExportGetReport c, routeCmdMeterExtGetReport c, routeCmdMeterReset c]"

section \<open>Reporting\<close>

text \<open>A meter with extended values reports those only.\<close>

definition handlePeriodicReporting :: "'d meter_reporter svc_config \<Rightarrow> ('d, unit) svc_act" where
  "handlePeriodicReporting c = with_svc (\<lambda>s. let spec = sc_spec s in
     if SupportsExtendedReport c spec then act_log (SendMeterExtendedReport c (SupportedExtendedValues c spec) False)
     else
       act_bind (act_for (meter_SupportedUnits c spec) (\<lambda>unit. act_log (SendMeterReport c unit False))) (\<lambda>_.
       if \<not> SupportsExportReport c spec then act_return ()
       else act_for (SupportedExportUnits c spec) (\<lambda>unit. act_log (SendMeterExportReport c unit False))))"

definition meter_handleReporting :: "adapter_env \<Rightarrow> 'd meter_reporter svc_config \<Rightarrow> ('d svc_world, unit) act" where
  "meter_handleReporting av c = svc_reporting_prefix av meter_prefix (handlePeriodicReporting c)"

definition meter_TaskReporting ::
  "adapter_env \<Rightarrow> 'd meter_reporter svc_config \<Rightarrow> duration \<Rightarrow> ('d svc_world \<Rightarrow> bool) list \<Rightarrow> 'd svc_world task" where
  "meter_TaskReporting av c = svc_TaskReporting (meter_handleReporting av c)"

section \<open>The reports keep their contract\<close>

interpretation mrr: forced_report "SendMeterReport c unit" EvtMeterReport UNIV for c unit
  unfolding SendMeterReport_def Let_def by (intro forced_reportI report_rules forces_rules quiet_rules UNIV_I)

interpretation mre: forced_report "SendMeterExportReport c unit" EvtMeterExportReport UNIV for c unit
  unfolding SendMeterExportReport_def Let_def by (intro forced_reportI report_rules forces_rules quiet_rules UNIV_I)


text \<open>Marking the values of an extended report.\<close>

lemma quiet_isExtendedReportRequired [quiet_rules]: "quiet (isExtendedReportRequired strat vals)"
proof (induction vals)
  case Nil
  show ?case unfolding isExtendedReportRequired.simps by (rule quiet_basic)
next
  case (Cons kv vals)
  obtain k v where kv: "kv = (k, v)" by (cases kv)
  show ?case unfolding kv isExtendedReportRequired.simps by (intro quiet_rules Cons)
qed

lemma mark_values:
  "\<exists>s'. act_for vals mark_value s = Some (Inr (), s') \<and> svc_published s' = svc_published s
    \<and> (\<forall>k j. k \<noteq> EvtMeterExtReport \<or> j \<notin> fst ` set vals \<longrightarrow> cache_lookup (sc_cache s') k j = cache_lookup (sc_cache s) k j)
    \<and> (distinct (map fst vals) \<longrightarrow> (\<forall>(j, v) \<in> set vals. \<exists>cv. cache_lookup (sc_cache s') EvtMeterExtReport j = Some cv
         \<and> cv_value cv = VFloat v))"
proof (induction vals arbitrary: s)
  case Nil
  then show ?case by simp
next
  case (Cons kv vals)
  obtain k v where kv: "kv = (k, v)" by (cases kv)
  let ?s1 = "s\<lparr>sc_reads := Suc (sc_reads s), sc_cache := cache_Reported (sc_clock s (sc_reads s)) EvtMeterExtReport k (VFloat v) (sc_cache s)\<rparr>"
  have "mark_value kv s = Some (Inr (), ?s1)" by (simp add: kv mark_value_def svc_now_def)
  moreover obtain s' where "act_for vals mark_value ?s1 = Some (Inr (), s')" "svc_published s' = svc_published ?s1"
    "\<forall>k' j. k' \<noteq> EvtMeterExtReport \<or> j \<notin> fst ` set vals \<longrightarrow> cache_lookup (sc_cache s') k' j = cache_lookup (sc_cache ?s1) k' j"
    "distinct (map fst vals) \<longrightarrow> (\<forall>(j, v) \<in> set vals. \<exists>cv. cache_lookup (sc_cache s') EvtMeterExtReport j = Some cv
         \<and> cv_value cv = VFloat v)"
    using Cons [of ?s1] by blast
  ultimately show ?case
    by (intro exI [of _ s']) (auto simp: kv svc_published_def)
qed


text \<open>What is done with the values of an extended report.\<close>

lemma extended_tail:
  assumes "act_bind (act_wrap t (svc_SendMessage fg m)) (\<lambda>_. act_bind (act_for vals mark_value) (\<lambda>_. act_return True)) s = Some (r, s')"
  shows "isl r \<and> svc_published s' = svc_published s \<and> sc_cache s' = sc_cache s
    \<or> r = Inr True \<and> (\<exists>a. svc_published s' = svc_published s @ [(a, m\<lparr>pl_Service := svc_Name s\<rparr>)])
        \<and> (\<forall>k j. k \<noteq> EvtMeterExtReport \<longrightarrow> cache_lookup (sc_cache s') k j = cache_lookup (sc_cache s) k j)
        \<and> (distinct (map fst vals) \<longrightarrow> (\<forall>(j, v) \<in> set vals. \<exists>cv. cache_lookup (sc_cache s') EvtMeterExtReport j = Some cv
             \<and> cv_value cv = VFloat v))"
proof -
  obtain r1 s1 where m: "svc_SendMessage fg m s = Some (r1, s1)"
    using assms by (cases "svc_SendMessage fg m s") auto
  note o = svc_SendMessage_outcome [OF m]
  show ?thesis
  proof (cases r1)
    case (Inl e)
    then show ?thesis using assms m o by auto
  next
    case (Inr u)
    obtain s2 where "act_for vals mark_value s1 = Some (Inr (), s2)" "svc_published s2 = svc_published s1"
      "\<forall>k j. k \<noteq> EvtMeterExtReport \<or> j \<notin> fst ` set vals \<longrightarrow> cache_lookup (sc_cache s2) k j = cache_lookup (sc_cache s1) k j"
      "distinct (map fst vals) \<longrightarrow> (\<forall>(j, v) \<in> set vals. \<exists>cv. cache_lookup (sc_cache s2) EvtMeterExtReport j = Some cv
         \<and> cv_value cv = VFloat v)"
      using mark_values [of vals s1] by blast
    then show ?thesis using assms m o Inr by auto
  qed
qed

lemma report_op_extended [report_rules]:
  "report_op (\<lambda>force. act_bind (act_wrap t (svc_SendMessage fg m)) (\<lambda>_. act_bind (act_for vals mark_value) (\<lambda>_. act_return True)))
     EvtMeterExtReport UNIV"
  by unfold_locales (use extended_tail in \<open>fastforce\<close>)+

lemma quiet_force [quiet_rules]: "quiet (if force then act_return True else isExtendedReportRequired strat vals)"
  by (intro quiet_rules)

lemma required_frame:
  "isExtendedReportRequired strat vals s = Some (r, s') \<Longrightarrow> \<exists>n. s' = s\<lparr>sc_reads := n\<rparr>"
proof (induction vals arbitrary: s)
  case Nil
  then show ?case by (intro exI [of _ "sc_reads s"]) simp
next
  case (Cons kv vals)
  obtain k v where kv: "kv = (k, v)" by (cases kv)
  let ?s1 = "s\<lparr>sc_reads := Suc (sc_reads s)\<rparr>"
  have "?s1 = s' \<or> isExtendedReportRequired strat vals ?s1 = Some (r, s')"
    using Cons.prems by (auto simp: kv svc_now_def split: if_splits)
  then show ?case
  proof
    assume "?s1 = s'"
    then show ?thesis by blast
  next
    assume "isExtendedReportRequired strat vals ?s1 = Some (r, s')"
    from Cons.IH [OF this] show ?thesis by simp
  qed
qed

lemma extended_report_cases:
  assumes "SendMeterExtendedReport c vs force s = Some (Inr sent, s')"
  shows "\<exists>reporter normalized vals s1. meter_extendedReporter c (sc_spec s) = Inr reporter
    \<and> normalizeExtendedValues c (sc_spec s) vs = Inr normalized
    \<and> (\<exists>d. reporter normalized (sc_dev s) = Some (Inr vals, d))
    \<and> svc_published s1 = svc_published s \<and> sc_cache s1 = sc_cache s \<and> svc_Name s1 = svc_Name s
    \<and> (if sent then act_bind (act_wrap (svc_Name s @ '': failed to send extended meter report'')
           (svc_SendMessage (cf_fimpgo c) (fg_WithStorageStrategy (cf_fimpgo c) (fg_StorageStrategySplit (cf_fimpgo c)) ''''
             (fg_New (cf_fimpgo c) KFloatMap EvtMeterExtReport (svc_Name s) (ValuesReport_Map vals) [] None))))
           (\<lambda>_. act_bind (act_for vals mark_value) (\<lambda>_. act_return True)) s1 = Some (Inr True, s')
       else s' = s1)"
proof -
  obtain reporter normalized vals s0 s1 req where
    rep: "meter_extendedReporter c (sc_spec s) = Inr reporter" "normalizeExtendedValues c (sc_spec s) vs = Inr normalized"
    and get: "on_dev (reporter normalized) s = Some (Inr vals, s0)"
    and req: "(if force then act_return True else isExtendedReportRequired (cf_strategy c) vals) s0 = Some (Inr req, s1)"
    and rest: "(if \<not> req then act_return False
     else act_bind (act_wrap (svc_Name s @ '': failed to send extended meter report'')
         (svc_SendMessage (cf_fimpgo c) (fg_WithStorageStrategy (cf_fimpgo c) (fg_StorageStrategySplit (cf_fimpgo c)) ''''
            (fg_New (cf_fimpgo c) KFloatMap EvtMeterExtReport (svc_Name s) (ValuesReport_Map vals) [] None)))) (\<lambda>_.
       act_bind (act_for vals mark_value) (\<lambda>_. act_return True))) s1 = Some (Inr sent, s')"
    using assms unfolding SendMeterExtendedReport_def with_svc_def Let_def by (elim act_bind_InrE) (simp only: act_wrap_Inr act_result_Inr; blast)
  have "svc_published s1 = svc_published s0 \<and> sc_cache s1 = sc_cache s0 \<and> sc_spec s1 = sc_spec s0"
    using req required_frame [of "cf_strategy c" vals s0] by (cases force) (auto simp: svc_published_def)
  moreover have "svc_published s0 = svc_published s \<and> sc_cache s0 = sc_cache s \<and> sc_spec s0 = sc_spec s"
    "\<exists>d. reporter normalized (sc_dev s) = Some (Inr vals, d)"
    using get by (auto simp: on_dev_def svc_published_def)
  moreover have "if sent then act_bind (act_wrap (svc_Name s @ '': failed to send extended meter report'')
           (svc_SendMessage (cf_fimpgo c) (fg_WithStorageStrategy (cf_fimpgo c) (fg_StorageStrategySplit (cf_fimpgo c)) ''''
             (fg_New (cf_fimpgo c) KFloatMap EvtMeterExtReport (svc_Name s) (ValuesReport_Map vals) [] None))))
           (\<lambda>_. act_bind (act_for vals mark_value) (\<lambda>_. act_return True)) s1 = Some (Inr True, s') else s' = s1"
    using rest extended_tail [of _ _ _ vals s1 "Inr sent" s'] by (cases req) auto
  ultimately show ?thesis using rep by (intro exI [of _ reporter] exI [of _ normalized] exI [of _ vals] exI [of _ s1]) simp
qed

lemma forces_extended [forces_rules]:
  "forces (\<lambda>force. act_bind (if force then act_return True else req) (\<lambda>b. if \<not> b then act_return False
     else act_bind (act_wrap t (svc_SendMessage fg m)) (\<lambda>_. act_bind (act_for vals mark_value) (\<lambda>_. act_return True))))"
  by (rule forces_required) (auto simp: forces_def dest!: extended_tail)

lemma report_op_SendMeterExtendedReport: "report_op (SendMeterExtendedReport c vs) EvtMeterExtReport UNIV"
  unfolding SendMeterExtendedReport_def Let_def by (intro report_rules quiet_rules)

interpretation mrx: forced_report "SendMeterExtendedReport c vs" EvtMeterExtReport UNIV for c vs
proof (rule forced_reportI [OF report_op_SendMeterExtendedReport])
  show "forces (SendMeterExtendedReport c vs)"
    unfolding SendMeterExtendedReport_def Let_def
    by (rule forces_with_svc, rule forces_bind, rule forces_bind, rule forces_bind, rule forces_extended)
qed

end
