(* ===== verification/Parameters.thy ===== *)
theory Parameters
  imports Device_Service Listener
begin

text \<open>
  The parameters service, \<^verbatim>\<open>src/adapter/service/parameters\<close>: parameters and their specifications with the
  validation (\<^verbatim>\<open>model.go\<close>), the service, its routing and its event handler. The value of a parameter is
  raw JSON, of which \<open>fimp_value\<close> is the syntax tree: an integer literal is a \<open>VInt\<close>, a number with a
  fraction or an exponent a \<open>VFloat\<close>; \<open>None\<close> is text that is missing or is not JSON.
\<close>

section \<open>Decoding (\<^verbatim>\<open>encoding/json\<close>)\<close>

type_synonym raw_message = "fimp_value option"

text \<open>
  \<^verbatim>\<open>json.Unmarshal\<close> into a zero value: \<^verbatim>\<open>null\<close> leaves it as it is, an integer must be in the range of \<^verbatim>\<open>int\<close>,
  and a slice is decoded if all of its elements are.
\<close>

fun dec_int :: "fimp_value \<Rightarrow> int option" where
  "dec_int VNull = Some 0"
| "dec_int (VInt i) = (if - (2 ^ 63) \<le> i \<and> i < 2 ^ 63 then Some i else None)"
| "dec_int _ = None"

fun dec_string :: "fimp_value \<Rightarrow> string option" where
  "dec_string VNull = Some ''''"
| "dec_string (VString s) = Some s"
| "dec_string _ = None"

fun dec_bool :: "fimp_value \<Rightarrow> bool option" where
  "dec_bool VNull = Some False"
| "dec_bool (VBool b) = Some b"
| "dec_bool _ = None"

primrec dec_all :: "('a \<Rightarrow> 'b option) \<Rightarrow> 'a list \<Rightarrow> 'b list option" where
  "dec_all dec [] = Some []"
| "dec_all dec (v # vs) = (case dec v of None \<Rightarrow> None | Some x \<Rightarrow> map_option ((#) x) (dec_all dec vs))"

fun dec_slice :: "(fimp_value \<Rightarrow> 'a option) \<Rightarrow> fimp_value \<Rightarrow> 'a list option" where
  "dec_slice dec VNull = Some []"
| "dec_slice dec (VList vs) = dec_all dec vs"
| "dec_slice dec _ = None"

definition json_Unmarshal :: "(fimp_value \<Rightarrow> 'a option) \<Rightarrow> raw_message \<Rightarrow> 'a option" where
  "json_Unmarshal dec raw = (case raw of None \<Rightarrow> None | Some v \<Rightarrow> dec v)"

section \<open>Parameters\<close>

definition ValueTypeInt :: string where "ValueTypeInt = ''int''"
definition ValueTypeString :: string where "ValueTypeString = ''string''"
definition ValueTypeBool :: string where "ValueTypeBool = ''bool''"
definition ValueTypeIntArray :: string where "ValueTypeIntArray = ''int_array''"
definition ValueTypeStringArray :: string where "ValueTypeStringArray = ''string_array''"

lemmas value_type_defs = ValueTypeInt_def ValueTypeString_def ValueTypeBool_def ValueTypeIntArray_def ValueTypeStringArray_def

definition AllowedValueTypes :: "string list" where
  "AllowedValueTypes = [ValueTypeInt, ValueTypeString, ValueTypeBool, ValueTypeIntArray, ValueTypeStringArray]"

fun par_contains :: "'a list \<Rightarrow> 'a \<Rightarrow> bool" where
  "par_contains [] v = False"
| "par_contains (e # s) v = (if e = v then True else par_contains s v)"

fun par_includes :: "'a list \<Rightarrow> 'a list \<Rightarrow> bool" where
  "par_includes s1 [] = True"
| "par_includes s1 (v # s2) = (if \<not> par_contains s1 v then False else par_includes s1 s2)"

definition IsValueTypeAllowed :: "string \<Rightarrow> bool" where
  "IsValueTypeAllowed t = par_contains AllowedValueTypes t"

record parameter =
  pm_ID :: string
  pm_ValueType :: string
  pm_Value :: raw_message

text \<open>The constructors; a nil slice (\<open>None\<close>) is encoded as \<^verbatim>\<open>null\<close>.\<close>

definition NewIntParameter :: "string \<Rightarrow> int \<Rightarrow> parameter" where
  "NewIntParameter i v = \<lparr>pm_ID = i, pm_ValueType = ValueTypeInt, pm_Value = Some (VInt v)\<rparr>"

definition NewStringParameter :: "string \<Rightarrow> string \<Rightarrow> parameter" where
  "NewStringParameter i v = \<lparr>pm_ID = i, pm_ValueType = ValueTypeString, pm_Value = Some (VString v)\<rparr>"

definition NewBoolParameter :: "string \<Rightarrow> bool \<Rightarrow> parameter" where
  "NewBoolParameter i v = \<lparr>pm_ID = i, pm_ValueType = ValueTypeBool, pm_Value = Some (VBool v)\<rparr>"

definition NewIntArrayParameter :: "string \<Rightarrow> int list option \<Rightarrow> parameter" where
  "NewIntArrayParameter i v =
     \<lparr>pm_ID = i, pm_ValueType = ValueTypeIntArray,
      pm_Value = Some (case v of None \<Rightarrow> VNull | Some xs \<Rightarrow> VList (map VInt xs))\<rparr>"

definition NewStringArrayParameter :: "string \<Rightarrow> string list option \<Rightarrow> parameter" where
  "NewStringArrayParameter i v =
     \<lparr>pm_ID = i, pm_ValueType = ValueTypeStringArray,
      pm_Value = Some (case v of None \<Rightarrow> VNull | Some xs \<Rightarrow> VList (map VString xs))\<rparr>"

text \<open>The common shape of the accessors: the type is checked, then the value is decoded.\<close>

definition typed_value :: "string \<Rightarrow> string \<Rightarrow> string \<Rightarrow> (fimp_value \<Rightarrow> 'a option) \<Rightarrow> parameter \<Rightarrow> 'a result" where
  "typed_value t what T dec p =
     (if pm_ValueType p \<noteq> t
      then Inl (Errorf (''value type '' @ [CHR 0x27] @ pm_ValueType p @ [CHR 0x27] @ '' is not '' @ what))
      else case json_Unmarshal dec (pm_Value p) of
             None \<Rightarrow> Inl (Errorf (''value is not of type '' @ T))
           | Some v \<Rightarrow> Inr v)"

definition IntValue :: "parameter \<Rightarrow> int result" where
  "IntValue = typed_value ValueTypeInt ''an integer'' ''int'' dec_int"

definition StringValue :: "parameter \<Rightarrow> string result" where
  "StringValue = typed_value ValueTypeString ''a string'' ''string'' dec_string"

definition BoolValue :: "parameter \<Rightarrow> bool result" where
  "BoolValue = typed_value ValueTypeBool ''a boolean'' ''bool'' dec_bool"

definition IntArrayValue :: "parameter \<Rightarrow> int list result" where
  "IntArrayValue = typed_value ValueTypeIntArray ''an integer array'' ''[]int'' (dec_slice dec_int)"

definition StringArrayValue :: "parameter \<Rightarrow> string list result" where
  "StringArrayValue = typed_value ValueTypeStringArray ''a string array'' ''[]string'' (dec_slice dec_string)"

definition valueMatchesValueType :: "parameter \<Rightarrow> bool" where
  "valueMatchesValueType p =
     (if pm_ValueType p = ValueTypeInt then \<not> isl (IntValue p)
      else if pm_ValueType p = ValueTypeString then \<not> isl (StringValue p)
      else if pm_ValueType p = ValueTypeBool then \<not> isl (BoolValue p)
      else if pm_ValueType p = ValueTypeIntArray then \<not> isl (IntArrayValue p)
      else if pm_ValueType p = ValueTypeStringArray then \<not> isl (StringArrayValue p)
      else True)"

definition quoted :: "string \<Rightarrow> string" where
  "quoted s = [CHR 0x27] @ s @ [CHR 0x27]"

definition parameter_Validate :: "parameter \<Rightarrow> unit result" where
  "parameter_Validate p =
     (if pm_ID p = '''' then Inl (Errorf ''parameter id cannot be empty'')
      else if \<not> IsValueTypeAllowed (pm_ValueType p)
      then Inl (Errorf (''value type '' @ quoted (pm_ValueType p) @ '' is not allowed''))
      else if \<not> valueMatchesValueType p
      then Inl (Errorf (''value of type json.RawMessage is not allowed for type '' @ pm_ValueType p))
      else Inr ())"

section \<open>Specifications of parameters\<close>

definition WidgetTypeInput :: string where "WidgetTypeInput = ''input''"
definition WidgetTypeSelect :: string where "WidgetTypeSelect = ''select''"
definition WidgetTypeMultiSelect :: string where "WidgetTypeMultiSelect = ''multiselect''"

lemmas widget_type_defs = WidgetTypeInput_def WidgetTypeSelect_def WidgetTypeMultiSelect_def

text \<open>The dynamic types of an option's value that are told apart; \<^verbatim>\<open>int\<close> and \<^verbatim>\<open>uint\<close> have 64 bits.\<close>

datatype option_value =
    GoInt "64 word" | GoInt8 "8 word" | GoInt16 "16 word" | GoInt32 "32 word" | GoInt64 "64 word"
  | GoFloat32 rat | GoFloat64 rat
  | GoUint "64 word" | GoUint8 "8 word" | GoUint16 "16 word" | GoUint32 "32 word" | GoUint64 "64 word"
  | GoString string
  | GoOther fimp_value

text \<open>\<^verbatim>\<open>int(v)\<close> of a float truncates; out of range it gives the least integer (amd64).\<close>

definition float_to_int :: "rat \<Rightarrow> int" where
  "float_to_int x = (let i = trunc_int x in if - (2 ^ 63) \<le> i \<and> i < 2 ^ 63 then i else - (2 ^ 63))"

fun option_int :: "option_value \<Rightarrow> int option" where
  "option_int (GoInt v) = Some (sint v)"
| "option_int (GoInt8 v) = Some (sint v)"
| "option_int (GoInt16 v) = Some (sint v)"
| "option_int (GoInt32 v) = Some (sint v)"
| "option_int (GoInt64 v) = Some (sint v)"
| "option_int (GoFloat32 x) = Some (float_to_int x)"
| "option_int (GoFloat64 x) = Some (float_to_int x)"
| "option_int (GoUint v) = Some (sint v)"
| "option_int (GoUint8 v) = Some (uint v)"
| "option_int (GoUint16 v) = Some (uint v)"
| "option_int (GoUint32 v) = Some (uint v)"
| "option_int (GoUint64 v) = Some (sint v)"
| "option_int _ = None"

record select_option =
  so_Label :: string
  so_Value :: option_value

primrec IntValues :: "select_option list \<Rightarrow> int list" where
  "IntValues [] = []"
| "IntValues (opt # opts) = (case option_int (so_Value opt) of None \<Rightarrow> IntValues opts | Some v \<Rightarrow> v # IntValues opts)"

primrec StringValues :: "select_option list \<Rightarrow> string list" where
  "StringValues [] = []"
| "StringValues (opt # opts) = (case so_Value opt of GoString v \<Rightarrow> v # StringValues opts | _ \<Rightarrow> StringValues opts)"

record parameter_specification =
  ps_ID :: string
  ps_Name :: string
  ps_Description :: string
  ps_ValueType :: string
  ps_WidgetType :: string
  ps_Options :: "select_option list"
  ps_Min :: "int option"
  ps_Max :: "int option"
  ps_DefaultValue :: option_value
  ps_ReadOnly :: bool

definition WithMin :: "int \<Rightarrow> parameter_specification \<Rightarrow> parameter_specification" where
  "WithMin m s = s\<lparr>ps_Min := Some m\<rparr>"

definition WithMax :: "int \<Rightarrow> parameter_specification \<Rightarrow> parameter_specification" where
  "WithMax m s = s\<lparr>ps_Max := Some m\<rparr>"

text \<open>\<^verbatim>\<open>%d\<close> and \<^verbatim>\<open>%s\<close> of a slice.\<close>

definition fmt_slice :: "('a \<Rightarrow> string) \<Rightarrow> 'a list \<Rightarrow> string" where
  "fmt_slice f xs = ''['' @ strings_Join '' '' (map f xs) @ '']''"

definition not_allowed :: "string \<Rightarrow> unit result" where
  "not_allowed v = Inl (Errorf (''parameter value '' @ quoted v @ '' is not allowed''))"

definition validateInput :: "parameter_specification \<Rightarrow> parameter \<Rightarrow> unit result" where
  "validateInput s p =
     (if ps_ValueType s \<noteq> ValueTypeInt then Inr ()
      else bind_result (IntValue p) (\<lambda>v.
        if (case ps_Min s of None \<Rightarrow> False | Some m \<Rightarrow> v < m)
        then Inl (Errorf (''parameter value '' @ quoted (Itoa v) @ '' lower than allowed minimum '' @ quoted (Itoa (the (ps_Min s)))))
        else if (case ps_Max s of None \<Rightarrow> False | Some m \<Rightarrow> v > m)
        then Inl (Errorf (''parameter value '' @ quoted (Itoa v) @ '' higher than allowed maximum '' @ quoted (Itoa (the (ps_Max s)))))
        else Inr ()))"

definition validateSelect :: "parameter_specification \<Rightarrow> parameter \<Rightarrow> unit result" where
  "validateSelect s p =
     (if ps_ValueType s = ValueTypeInt then
        bind_result (IntValue p) (\<lambda>v. if \<not> par_contains (IntValues (ps_Options s)) v then not_allowed (Itoa v) else Inr ())
      else if ps_ValueType s = ValueTypeString then
        bind_result (StringValue p) (\<lambda>v. if \<not> par_contains (StringValues (ps_Options s)) v then not_allowed v else Inr ())
      else Inr ())"

definition validateMultiSelect :: "parameter_specification \<Rightarrow> parameter \<Rightarrow> unit result" where
  "validateMultiSelect s p =
     (if ps_ValueType s = ValueTypeIntArray then
        bind_result (IntArrayValue p) (\<lambda>v.
          if \<not> par_includes (IntValues (ps_Options s)) v then not_allowed (fmt_slice Itoa v) else Inr ())
      else if ps_ValueType s = ValueTypeStringArray then
        bind_result (StringArrayValue p) (\<lambda>v.
          if \<not> par_includes (StringValues (ps_Options s)) v then not_allowed (fmt_slice (\<lambda>x. x) v) else Inr ())
      else Inr ())"

definition ValidateParameter :: "parameter_specification \<Rightarrow> parameter \<Rightarrow> unit result" where
  "ValidateParameter s p =
     (if ps_ValueType s \<noteq> pm_ValueType p
      then Inl (Errorf (''parameter value type '' @ quoted (pm_ValueType p) @ '' does not match specification value type ''
        @ quoted (ps_ValueType s)))
      else if ps_WidgetType s = WidgetTypeInput then validateInput s p
      else if ps_WidgetType s = WidgetTypeSelect then validateSelect s p
      else if ps_WidgetType s = WidgetTypeMultiSelect then validateMultiSelect s p
      else Inl (Errorf (''widget type '' @ quoted (ps_WidgetType s) @ '' is not supported'')))"

section \<open>What the validation means\<close>

text \<open>
  The values of the five types, and the JSON texts that stand for them; \<^verbatim>\<open>null\<close> stands for the zero value of
  every type. \<open>admits\<close> is what a specification with its widget allows.
\<close>

datatype typed = TInt int | TString string | TBool bool | TIntArray "int list" | TStringArray "string list"

primrec type_name :: "typed \<Rightarrow> string" where
  "type_name (TInt i) = ValueTypeInt"
| "type_name (TString s) = ValueTypeString"
| "type_name (TBool b) = ValueTypeBool"
| "type_name (TIntArray is) = ValueTypeIntArray"
| "type_name (TStringArray ss) = ValueTypeStringArray"

inductive stands_for :: "fimp_value \<Rightarrow> typed \<Rightarrow> bool" where
  null_int: "stands_for VNull (TInt 0)"
| int: "- (2 ^ 63) \<le> i \<Longrightarrow> i < 2 ^ 63 \<Longrightarrow> stands_for (VInt i) (TInt i)"
| null_string: "stands_for VNull (TString '''')"
| string: "stands_for (VString s) (TString s)"
| null_bool: "stands_for VNull (TBool False)"
| bool: "stands_for (VBool b) (TBool b)"
| null_ints: "stands_for VNull (TIntArray [])"
| ints: "list_all2 (\<lambda>v i. stands_for v (TInt i)) vs is \<Longrightarrow> stands_for (VList vs) (TIntArray is)"
| null_strings: "stands_for VNull (TStringArray [])"
| strings: "list_all2 (\<lambda>v s. stands_for v (TString s)) vs ss \<Longrightarrow> stands_for (VList vs) (TStringArray ss)"

inductive_simps stands_for_simps:
  "stands_for v (TInt i)" "stands_for v (TString s)" "stands_for v (TBool b)"
  "stands_for v (TIntArray is)" "stands_for v (TStringArray ss)"

primrec widget_admits :: "parameter_specification \<Rightarrow> typed \<Rightarrow> bool" where
  "widget_admits s (TInt i) \<longleftrightarrow>
     (ps_WidgetType s = WidgetTypeInput \<longrightarrow> (\<forall>m. ps_Min s = Some m \<longrightarrow> m \<le> i) \<and> (\<forall>m. ps_Max s = Some m \<longrightarrow> i \<le> m))
   \<and> (ps_WidgetType s = WidgetTypeSelect \<longrightarrow> i \<in> set (IntValues (ps_Options s)))"
| "widget_admits s (TString x) \<longleftrightarrow> (ps_WidgetType s = WidgetTypeSelect \<longrightarrow> x \<in> set (StringValues (ps_Options s)))"
| "widget_admits s (TBool b) \<longleftrightarrow> True"
| "widget_admits s (TIntArray is) \<longleftrightarrow> (ps_WidgetType s = WidgetTypeMultiSelect \<longrightarrow> set is \<subseteq> set (IntValues (ps_Options s)))"
| "widget_admits s (TStringArray ss) \<longleftrightarrow>
     (ps_WidgetType s = WidgetTypeMultiSelect \<longrightarrow> set ss \<subseteq> set (StringValues (ps_Options s)))"

definition well_typed :: "parameter \<Rightarrow> typed \<Rightarrow> bool" where
  "well_typed p t \<longleftrightarrow> type_name t = pm_ValueType p \<and> (\<exists>v. pm_Value p = Some v \<and> stands_for v t)"

definition admits :: "parameter_specification \<Rightarrow> parameter \<Rightarrow> bool" where
  "admits s p \<longleftrightarrow> pm_ID p \<noteq> '''' \<and> pm_ValueType p = ps_ValueType s \<and> (\<exists>t. well_typed p t \<and> widget_admits s t)
   \<and> ps_WidgetType s \<in> {WidgetTypeInput, WidgetTypeSelect, WidgetTypeMultiSelect}"

text \<open>Decoding decides the relation.\<close>

lemma dec_int_iff: "dec_int v = Some i \<longleftrightarrow> stands_for v (TInt i)"
  by (cases v) (auto simp: stands_for_simps)

lemma dec_string_iff: "dec_string v = Some s \<longleftrightarrow> stands_for v (TString s)"
  by (cases v) (auto simp: stands_for_simps)

lemma dec_bool_iff: "dec_bool v = Some b \<longleftrightarrow> stands_for v (TBool b)"
  by (cases v) (auto simp: stands_for_simps)

lemma dec_all_iff: "dec_all dec vs = Some xs \<longleftrightarrow> list_all2 (\<lambda>v x. dec v = Some x) vs xs"
  by (induction vs arbitrary: xs) (auto simp: list_all2_Cons1 split: option.splits)

lemma dec_ints_iff: "dec_slice dec_int v = Some is \<longleftrightarrow> stands_for v (TIntArray is)"
  by (cases v) (auto simp: stands_for_simps(4) dec_all_iff dec_int_iff)

lemma dec_strings_iff: "dec_slice dec_string v = Some ss \<longleftrightarrow> stands_for v (TStringArray ss)"
  by (cases v) (auto simp: stands_for_simps(5) dec_all_iff dec_string_iff)

lemma typed_value_iff:
  "typed_value t what T dec p = Inr x \<longleftrightarrow> pm_ValueType p = t \<and> (\<exists>v. pm_Value p = Some v \<and> dec v = Some x)"
  by (auto simp: typed_value_def json_Unmarshal_def split: option.splits)

lemma values_iff [simp]:
  "IntValue p = Inr i \<longleftrightarrow> well_typed p (TInt i)"
  "StringValue p = Inr s \<longleftrightarrow> well_typed p (TString s)"
  "BoolValue p = Inr b \<longleftrightarrow> well_typed p (TBool b)"
  "IntArrayValue p = Inr is \<longleftrightarrow> well_typed p (TIntArray is)"
  "StringArrayValue p = Inr ss \<longleftrightarrow> well_typed p (TStringArray ss)"
  by (auto simp: IntValue_def StringValue_def BoolValue_def IntArrayValue_def StringArrayValue_def typed_value_iff
      well_typed_def dec_int_iff dec_string_iff dec_bool_iff dec_ints_iff dec_strings_iff)

text \<open>A type has only the values of its constructor.\<close>

lemma value_types_distinct [simp]:
  "ValueTypeInt \<noteq> ValueTypeString" "ValueTypeInt \<noteq> ValueTypeBool" "ValueTypeInt \<noteq> ValueTypeIntArray"
  "ValueTypeInt \<noteq> ValueTypeStringArray" "ValueTypeString \<noteq> ValueTypeInt" "ValueTypeString \<noteq> ValueTypeBool"
  "ValueTypeString \<noteq> ValueTypeIntArray" "ValueTypeString \<noteq> ValueTypeStringArray" "ValueTypeBool \<noteq> ValueTypeInt"
  "ValueTypeBool \<noteq> ValueTypeString" "ValueTypeBool \<noteq> ValueTypeIntArray" "ValueTypeBool \<noteq> ValueTypeStringArray"
  "ValueTypeIntArray \<noteq> ValueTypeInt" "ValueTypeIntArray \<noteq> ValueTypeString" "ValueTypeIntArray \<noteq> ValueTypeBool"
  "ValueTypeIntArray \<noteq> ValueTypeStringArray" "ValueTypeStringArray \<noteq> ValueTypeInt" "ValueTypeStringArray \<noteq> ValueTypeString"
  "ValueTypeStringArray \<noteq> ValueTypeBool" "ValueTypeStringArray \<noteq> ValueTypeIntArray"
  by (simp_all add: value_type_defs)

lemma widget_types_distinct [simp]:
  "WidgetTypeInput \<noteq> WidgetTypeSelect" "WidgetTypeInput \<noteq> WidgetTypeMultiSelect" "WidgetTypeSelect \<noteq> WidgetTypeInput"
  "WidgetTypeSelect \<noteq> WidgetTypeMultiSelect" "WidgetTypeMultiSelect \<noteq> WidgetTypeInput" "WidgetTypeMultiSelect \<noteq> WidgetTypeSelect"
  by (simp_all add: widget_type_defs)

lemma well_typed_type: "well_typed p t \<Longrightarrow> type_name t = pm_ValueType p"
  by (simp add: well_typed_def)

lemma par_contains_iff [simp]: "par_contains s v \<longleftrightarrow> v \<in> set s"
  by (induction s v rule: par_contains.induct) auto

lemma par_includes_iff [simp]: "par_includes s1 s2 \<longleftrightarrow> set s2 \<subseteq> set s1"
  by (induction s1 s2 rule: par_includes.induct) auto

lemma not_isl_ex: "\<not> isl r \<longleftrightarrow> (\<exists>x. r = Inr x)"
  by (cases r) auto

lemma type_name_allowed: "type_name t \<in> set AllowedValueTypes"
  by (cases t) (simp_all add: AllowedValueTypes_def)

lemma parameter_Validate_iff: "parameter_Validate p = Inr () \<longleftrightarrow> pm_ID p \<noteq> '''' \<and> (\<exists>t. well_typed p t)"
proof -
  have matches: "pm_ValueType p \<in> set AllowedValueTypes \<Longrightarrow> valueMatchesValueType p \<longleftrightarrow> (\<exists>t. well_typed p t)"
  proof (rule iffI)
    assume "pm_ValueType p \<in> set AllowedValueTypes" "valueMatchesValueType p"
    then show "\<exists>t. well_typed p t"
      by (auto simp: AllowedValueTypes_def valueMatchesValueType_def not_isl_ex split: if_splits)
  next
    assume "\<exists>t. well_typed p t"
    then obtain t where t: "well_typed p t" ..
    then show "valueMatchesValueType p"
      using well_typed_type [OF t, symmetric] by (cases t) (auto simp: valueMatchesValueType_def not_isl_ex)
  qed
  have "pm_ValueType p \<in> set AllowedValueTypes" if "well_typed p t" for t
    using type_name_allowed [of t] well_typed_type [OF that] by simp
  with matches show ?thesis
    by (auto simp: parameter_Validate_def IsValueTypeAllowed_def)
qed

text \<open>A parameter has one value of its type.\<close>

lemma well_typed_one:
  "well_typed p (TInt i) \<Longrightarrow> well_typed p (TInt i') \<Longrightarrow> i = i'"
  "well_typed p (TString s) \<Longrightarrow> well_typed p (TString s') \<Longrightarrow> s = s'"
  "well_typed p (TBool b) \<Longrightarrow> well_typed p (TBool b') \<Longrightarrow> b = b'"
  "well_typed p (TIntArray is) \<Longrightarrow> well_typed p (TIntArray is') \<Longrightarrow> is = is'"
  "well_typed p (TStringArray ss) \<Longrightarrow> well_typed p (TStringArray ss') \<Longrightarrow> ss = ss'"
  using values_iff(1) [of p] values_iff(2) [of p] values_iff(3) [of p] values_iff(4) [of p] values_iff(5) [of p]
  by (metis Inr_inject)+

lemma well_typed_unique:
  assumes "well_typed p t" "well_typed p t'"
  shows "t = t'"
proof -
  have "type_name t = type_name t'" using assms by (simp add: well_typed_def)
  then show ?thesis using assms by (cases t; cases t') (simp_all add: well_typed_one)
qed

text \<open>The validation of the specification, for a parameter that has a value.\<close>

lemma ValidateParameter_iff:
  assumes "well_typed p t" "pm_ID p \<noteq> ''''"
  shows "ValidateParameter s p = Inr () \<longleftrightarrow> admits s p"
proof -
  have one: "(\<exists>t'. well_typed p t' \<and> widget_admits s t') \<longleftrightarrow> widget_admits s t"
    using well_typed_unique [OF assms(1)] assms(1) by blast
  have val: "IntValue p = Inr i" if "t = TInt i" for i using assms(1) that by simp
  have "ValidateParameter s p = Inr () \<longleftrightarrow> pm_ValueType p = ps_ValueType s
      \<and> ps_WidgetType s \<in> {WidgetTypeInput, WidgetTypeSelect, WidgetTypeMultiSelect} \<and> widget_admits s t"
  proof (cases "pm_ValueType p = ps_ValueType s")
    case False
    then show ?thesis by (auto simp: ValidateParameter_def)
  next
    case True
    have ty: "ps_ValueType s = type_name t" using True well_typed_type [OF assms(1)] by simp
    show ?thesis
    proof (cases t)
      case (TInt i)
      then have "IntValue p = Inr i" using assms(1) by simp
      with TInt ty True show ?thesis
        by (auto simp: ValidateParameter_def validateInput_def validateSelect_def validateMultiSelect_def not_allowed_def
            simp del: values_iff split: option.splits)
    next
      case (TString x)
      then have "StringValue p = Inr x" using assms(1) by simp
      with TString ty True show ?thesis
        by (auto simp: ValidateParameter_def validateInput_def validateSelect_def validateMultiSelect_def not_allowed_def
            simp del: values_iff)
    next
      case (TBool b)
      with ty True show ?thesis
        by (auto simp: ValidateParameter_def validateInput_def validateSelect_def validateMultiSelect_def)
    next
      case (TIntArray x)
      then have "IntArrayValue p = Inr x" using assms(1) by simp
      with TIntArray ty True show ?thesis
        by (auto simp: ValidateParameter_def validateInput_def validateSelect_def validateMultiSelect_def not_allowed_def
            simp del: values_iff)
    next
      case (TStringArray x)
      then have "StringArrayValue p = Inr x" using assms(1) by simp
      with TStringArray ty True show ?thesis
        by (auto simp: ValidateParameter_def validateInput_def validateSelect_def validateMultiSelect_def not_allowed_def
            simp del: values_iff)
    qed
  qed
  then show ?thesis using assms(2) by (auto simp: admits_def one)
qed

lemma validated_iff:
  "parameter_Validate p = Inr () \<and> ValidateParameter s p = Inr () \<longleftrightarrow> admits s p"
  using ValidateParameter_iff [of p _ s] by (auto simp: parameter_Validate_iff admits_def)

section \<open>The service\<close>

definition CmdSupParamsGetReport :: string where "CmdSupParamsGetReport = ''cmd.sup_params.get_report''"
definition EvtSupParamsReport :: string where "EvtSupParamsReport = ''evt.sup_params.report''"
definition CmdParamSet :: string where "CmdParamSet = ''cmd.param.set''"
definition CmdParamGetReport :: string where "CmdParamGetReport = ''cmd.param.get_report''"
definition EvtParamReport :: string where "EvtParamReport = ''evt.param.report''"
definition Parameters_name :: string where "Parameters_name = ''parameters''"

record 'd par_controller =
  pk_SetParameter :: "parameter \<Rightarrow> ('d, unit) act"
  pk_GetParameter :: "string \<Rightarrow> ('d, parameter) act"
  pk_GetParameterSpecifications :: "('d, parameter_specification list) act"

text \<open>The library decodes the object of a message into a parameter.\<close>

record 'd par_config = "'d par_controller svc_config" +
  pf_GetObjectValue :: "fimp_message \<Rightarrow> parameter result"

text \<open>The payloads: the fields under their JSON names.\<close>

definition parameter_value :: "parameter \<Rightarrow> fimp_value" where
  "parameter_value p =
     VObject [(''parameter_id'', VString (pm_ID p)), (''value_type'', VString (pm_ValueType p)),
              (''value'', case pm_Value p of None \<Rightarrow> VNull | Some v \<Rightarrow> v)]"

fun option_payload :: "option_value \<Rightarrow> fimp_value" where
  "option_payload (GoFloat32 x) = VFloat x"
| "option_payload (GoFloat64 x) = VFloat x"
| "option_payload (GoString s) = VString s"
| "option_payload (GoOther v) = v"
| "option_payload (GoUint v) = VInt (uint v)"
| "option_payload (GoUint64 v) = VInt (uint v)"
| "option_payload v = VInt (case option_int v of Some i \<Rightarrow> i)"

definition specification_value :: "parameter_specification \<Rightarrow> fimp_value" where
  "specification_value s =
     VObject ([(''parameter_id'', VString (ps_ID s)), (''name'', VString (ps_Name s)),
               (''description'', VString (ps_Description s)), (''value_type'', VString (ps_ValueType s)),
               (''widget_type'', VString (ps_WidgetType s))]
       @ (if ps_Options s = [] then []
          else [(''options'', VList (map (\<lambda>opt. VObject ((if so_Label opt = '''' then [] else [(''label'', VString (so_Label opt))])
                  @ [(''value'', option_payload (so_Value opt))])) (ps_Options s)))])
       @ (case ps_Min s of None \<Rightarrow> [] | Some m \<Rightarrow> [(''min'', VInt m)])
       @ (case ps_Max s of None \<Rightarrow> [] | Some m \<Rightarrow> [(''max'', VInt m)])
       @ [(''default_value'', option_payload (ps_DefaultValue s)), (''read_only'', VBool (ps_ReadOnly s))])"

definition par_requiredInterfaces :: "fimpgo \<Rightarrow> interface list" where
  "par_requiredInterfaces fg =
     [iface (fg_TypeIn fg) CmdSupParamsGetReport (fg_VTypeNull fg),
      iface (fg_TypeOut fg) EvtSupParamsReport (fg_VTypeObject fg),
      iface (fg_TypeIn fg) CmdParamSet (fg_VTypeObject fg),
      iface (fg_TypeIn fg) CmdParamGetReport (fg_VTypeString fg),
      iface (fg_TypeOut fg) EvtParamReport (fg_VTypeObject fg),
      iface (fg_TypeOut fg) EvtErrorReport (fg_VTypeString fg)]"

definition par_Specification :: "fimpgo \<Rightarrow> string \<Rightarrow> string \<Rightarrow> string \<Rightarrow> string list \<Rightarrow> service_spec" where
  "par_Specification fg resourceName resourceAddress address groups =
     service_Specification Parameters_name resourceName resourceAddress address groups [] (par_requiredInterfaces fg)"

definition par_NewService ::
  "'d par_config \<Rightarrow> service_spec \<Rightarrow> 'd \<Rightarrow> adapter \<Rightarrow> (nat \<Rightarrow> time) \<Rightarrow> 'd par_config \<times> 'd svc" where
  "par_NewService c spec d a clock =
     (c\<lparr>cf_strategy := ReportOnChangeOnly\<rparr>,
      svc_New (fg_EnsureInterfaces (cf_fimpgo c) (par_requiredInterfaces (cf_fimpgo c)) (spec\<lparr>sv_Name := Parameters_name\<rparr>)) d a clock)"

definition getParameterSpecification :: "'d par_config \<Rightarrow> string \<Rightarrow> ('d, parameter_specification) svc_act" where
  "getParameterSpecification c i =
     act_bind (act_wrap ''failed to get parameter specifications'' (on_dev (pk_GetParameterSpecifications (cf_controller c)))) (\<lambda>specs.
     case find (\<lambda>spec. ps_ID spec = i) specs of
       None \<Rightarrow> act_fail (Errorf (''parameter specification id '' @ quoted i @ '' not found''))
     | Some spec \<Rightarrow> act_return spec)"

definition SetParameter :: "'d par_config \<Rightarrow> parameter \<Rightarrow> ('d, unit) svc_act" where
  "SetParameter c p = with_svc (\<lambda>s. let name = svc_Name s in
     act_bind (act_wrap (name @ '': failed to Validate parameter'') (act_result (parameter_Validate p))) (\<lambda>_.
     act_bind (act_wrap (name @ '': failed to get parameter specification'') (getParameterSpecification c (pm_ID p))) (\<lambda>spec.
     if ps_ReadOnly spec then act_fail (Errorf (name @ '': parameter is read only''))
     else
       act_bind (act_wrap (name @ '': failed to Validate parameter'') (act_result (ValidateParameter spec p))) (\<lambda>_.
       act_wrap (name @ '': failed to set parameter ID '' @ pm_ID p) (on_dev (pk_SetParameter (cf_controller c) p))))))"

text \<open>
  Both reports ask the cache whether they are required, and neither marks the value as reported.
\<close>

definition send_unmarked ::
  "'d par_config \<Rightarrow> string \<Rightarrow> string \<Rightarrow> fimp_value \<Rightarrow> fimp_message \<Rightarrow> bool \<Rightarrow> ('d, bool) svc_act" where
  "send_unmarked c key text v msg force =
     act_bind svc_now (\<lambda>now.
     act_bind (act_get sc_cache) (\<lambda>cache.
     if \<not> force \<and> \<not> cache_ReportRequired (cf_strategy c) now key '''' v cache then act_return False
     else act_bind (act_wrap text (svc_SendMessage (cf_fimpgo c) msg)) (\<lambda>_. act_return True)))"

definition SendParameterReport :: "'d par_config \<Rightarrow> string \<Rightarrow> bool \<Rightarrow> ('d, bool) svc_act" where
  "SendParameterReport c i force = with_svc (\<lambda>s. let fg = cf_fimpgo c; name = svc_Name s in
     act_bind (act_wrap (name @ '': failed to get parameter ID '' @ i) (on_dev (pk_GetParameter (cf_controller c) i))) (\<lambda>p.
     send_unmarked c EvtParamReport (name @ '': failed to send parameter report'') (parameter_value p)
       (fg_WithStorageStrategy fg (fg_StorageStrategyAggregate fg) (pm_ID p)
         (fg_New fg KObject EvtParamReport name (parameter_value p) [] None)) force))"

definition SendSupportedParamsReport :: "'d par_config \<Rightarrow> bool \<Rightarrow> ('d, bool) svc_act" where
  "SendSupportedParamsReport c force = with_svc (\<lambda>s. let fg = cf_fimpgo c; name = svc_Name s in
     act_bind (act_wrap (name @ '': failed to get supported parameters'')
       (on_dev (pk_GetParameterSpecifications (cf_controller c)))) (\<lambda>specs.
     send_unmarked c EvtSupParamsReport (name @ '': failed to send supported parameters report'')
       (VList (map specification_value specs))
       (fg_New fg KObject EvtSupParamsReport name (VList (map specification_value specs)) [] None) force))"

section \<open>Routing and events\<close>

definition handleCmdSupParamsGetReport :: "'d par_config \<Rightarrow> message \<Rightarrow> ('d, unit) svc_act" where
  "handleCmdSupParamsGetReport c msg =
     answer ''failed to send supported parameters report'' (SendSupportedParamsReport c)"

definition handleCmdParamSet :: "'d par_config \<Rightarrow> message \<Rightarrow> ('d, unit) svc_act" where
  "handleCmdParamSet c msg =
     act_bind (act_wrap ''provided parameter has an incorrect format'' (act_result (pf_GetObjectValue c (ms_Payload msg)))) (\<lambda>param.
     act_bind (act_wrap ''failed to set a parameter'' (SetParameter c param)) (\<lambda>_.
     answer ''failed to send parameter report'' (SendParameterReport c (pm_ID param))))"

definition handleCmdParamGetReport :: "'d par_config \<Rightarrow> message \<Rightarrow> ('d, unit) svc_act" where
  "handleCmdParamGetReport c msg =
     act_bind (act_wrap ''provided parameter id has an incorrect format''
       (act_result (fg_GetStringValue (cf_fimpgo c) (ms_Payload msg)))) (\<lambda>v.
     answer ''failed to send parameter report'' (SendParameterReport c v))"

definition routeCmdSupParamsGetReport :: "'d par_config \<Rightarrow> 'd svc_world routing" where
  "routeCmdSupParamsGetReport c =
     svc_routing (cf_fimpgo c) Parameters_name CmdSupParamsGetReport (handleCmdSupParamsGetReport c)"

definition routeCmdParamSet :: "'d par_config \<Rightarrow> 'd svc_world routing" where
  "routeCmdParamSet c = svc_routing (cf_fimpgo c) Parameters_name CmdParamSet (handleCmdParamSet c)"

definition routeCmdParamGetReport :: "'d par_config \<Rightarrow> 'd svc_world routing" where
  "routeCmdParamGetReport c =
     svc_routing (cf_fimpgo c) Parameters_name CmdParamGetReport (handleCmdParamGetReport c)"

definition par_RouteService :: "'d par_config \<Rightarrow> 'd svc_world routing list" where
  "par_RouteService c = [routeCmdSupParamsGetReport c, routeCmdParamSet c, routeCmdParamGetReport c]"

text \<open>
  The events of the adapter on the bus; \<open>None\<close> is an event of another package. The assertion to \<^verbatim>\<open>ThingEvent\<close>
  holds for every event that has an address, those of services included.
\<close>

fun event_Address :: "adapter_event \<Rightarrow> string" where
  "event_Address (ServiceEvent e) = service_event.se_address e"
| "event_Address (ThingEvent a) = a"
| "event_Address (ConnectivityEvent a _) = a"
| "event_Address (InclusionReportSent a _) = a"

definition WaitForInclusionReportSent :: "adapter_event option filter_fn" where
  "WaitForInclusionReportSent = event_And [WaitForDomain EventDomainAdapterThing, WaitForClass EventClassInclusionReportSent]"

definition getParametersService :: "thing \<Rightarrow> 'd svc_world \<Rightarrow> string option" where
  "getParametersService t w =
     find (\<lambda>a. wd_svcs w a \<noteq> None) (map sv_Address (thing_Services t Parameters_name))"

definition inclusionReportSent_processor ::
  "'d par_config \<Rightarrow> adapter_event option event \<Rightarrow> 'd svc_world \<Rightarrow> 'd svc_world \<times> bool" where
  "inclusionReportSent_processor c e w =
     (case ev_body e of
        None \<Rightarrow> (w, False)
      | Some ev \<Rightarrow>
          case adapter_ThingByAddress (wd_ad w) (event_Address ev) of
            None \<Rightarrow> (w, False)
          | Some t \<Rightarrow>
              case getParametersService t w of
                None \<Rightarrow> (w, False)
              | Some a \<Rightarrow>
                  case on_svc a (SendSupportedParamsReport c True) w of
                    None \<Rightarrow> (w, True)
                  | Some (_, w') \<Rightarrow> (w', False))"

definition NewInclusionReportSentEventHandler :: "'d par_config \<Rightarrow> (adapter_event option, 'd svc_world) handler" where
  "NewInclusionReportSentEventHandler c =
     NewHandler (inclusionReportSent_processor c) (Parameters_name @ ''_inclusion_report_sent'') 10 [WaitForInclusionReportSent]"

section \<open>The reports keep their contract\<close>

lemma send_unmarked_outcome:
  assumes "send_unmarked c key text v msg force s = Some (r, s')"
  shows "sc_cache s' = sc_cache s \<and> (r = Inr True \<and> (\<exists>a. svc_published s' = svc_published s @ [(a, msg\<lparr>pl_Service := svc_Name s\<rparr>)])
    \<or> isl r \<and> svc_published s' = svc_published s
    \<or> r = Inr False \<and> svc_published s' = svc_published s \<and> \<not> force \<and> cache_lookup (sc_cache s) key '''' \<noteq> None)"
proof -
  let ?s1 = "s\<lparr>sc_reads := Suc (sc_reads s)\<rparr>"
  show ?thesis
  proof (cases "\<not> force \<and> \<not> cache_ReportRequired (cf_strategy c) (sc_clock s (sc_reads s)) key '''' v (sc_cache s)")
    case True
    then have "r = Inr False \<and> s' = ?s1" using assms by (simp add: send_unmarked_def svc_now_def)
    with True show ?thesis by (auto simp: svc_published_def cache_ReportRequired_def split: option.splits)
  next
    case False
    then obtain r1 s2 where m: "svc_SendMessage (cf_fimpgo c) msg ?s1 = Some (r1, s2)"
      using assms by (cases "svc_SendMessage (cf_fimpgo c) msg ?s1") (auto simp: send_unmarked_def svc_now_def)
    note o = svc_SendMessage_outcome [OF m]
    have p: "svc_published ?s1 = svc_published s" by (simp add: svc_published_def)
    show ?thesis
      using assms False m o p by (cases r1) (auto simp: send_unmarked_def svc_now_def)
  qed
qed

lemma report_op_unmarked [report_rules]: "report_op (send_unmarked c key text v msg) k UNIV"
  by unfold_locales (use send_unmarked_outcome in fastforce)+

lemma forces_unmarked [forces_rules]: "forces (send_unmarked c key text v msg)"
  unfolding forces_def by (auto dest!: send_unmarked_outcome)

interpretation ppr: forced_report "SendParameterReport c i" EvtParamReport UNIV for c i
  unfolding SendParameterReport_def Let_def by (intro forced_reportI report_rules forces_rules quiet_rules)

interpretation psr: forced_report "SendSupportedParamsReport c" EvtSupParamsReport UNIV for c
  unfolding SendSupportedParamsReport_def Let_def by (intro forced_reportI report_rules forces_rules quiet_rules)

section \<open>Only admitted parameters reach the device\<close>

text \<open>A property of the devices that survives the queries, and every parameter that its specification admits.\<close>

definition par_controller_keeps :: "'d par_config \<Rightarrow> ('d \<Rightarrow> bool) \<Rightarrow> bool" where
  "par_controller_keeps c I \<longleftrightarrow>
     (\<forall>i. act_keeps I (pk_GetParameter (cf_controller c) i)) \<and> act_keeps I (pk_GetParameterSpecifications (cf_controller c))
   \<and> (\<forall>d specs d1 spec p. I d \<longrightarrow> pk_GetParameterSpecifications (cf_controller c) d = Some (Inr specs, d1)
        \<longrightarrow> find (\<lambda>spec. ps_ID spec = pm_ID p) specs = Some spec \<longrightarrow> \<not> ps_ReadOnly spec \<longrightarrow> admits spec p
        \<longrightarrow> (\<forall>r d2. pk_SetParameter (cf_controller c) p d1 = Some (r, d2) \<longrightarrow> I d2))"

lemma SetParameter_outcome:
  assumes "SetParameter c p s = Some (r, s')"
  shows "s' = s \<or> (\<exists>specs d1. pk_GetParameterSpecifications (cf_controller c) (sc_dev s) = Some (specs, d1) \<and> s' = s\<lparr>sc_dev := d1\<rparr>)
    \<or> (\<exists>specs d1 spec r' d2. pk_GetParameterSpecifications (cf_controller c) (sc_dev s) = Some (Inr specs, d1)
        \<and> find (\<lambda>spec. ps_ID spec = pm_ID p) specs = Some spec \<and> \<not> ps_ReadOnly spec \<and> admits spec p
        \<and> pk_SetParameter (cf_controller c) p d1 = Some (r', d2) \<and> s' = s\<lparr>sc_dev := d2\<rparr>)"
proof (cases "parameter_Validate p")
  case (Inl e)
  then show ?thesis using assms by (simp add: SetParameter_def with_svc_def Let_def act_wrap_def wrap_err_def)
next
  case (Inr u)
  note valid = this
  obtain specs d1 where g: "pk_GetParameterSpecifications (cf_controller c) (sc_dev s) = Some (specs, d1)"
    using assms valid
    by (cases "pk_GetParameterSpecifications (cf_controller c) (sc_dev s)")
      (auto simp: SetParameter_def with_svc_def Let_def getParameterSpecification_def on_dev_def)
  show ?thesis
  proof (cases "\<exists>xs spec. specs = Inr xs \<and> find (\<lambda>spec. ps_ID spec = pm_ID p) xs = Some spec \<and> \<not> ps_ReadOnly spec
      \<and> ValidateParameter spec p = Inr ()")
    case False
    then have "s' = s\<lparr>sc_dev := d1\<rparr>"
      using assms valid g
      by (auto simp: SetParameter_def with_svc_def Let_def getParameterSpecification_def on_dev_def act_bind_def act_wrap_def
          act_result_def wrap_err_def split: sum.splits option.splits if_splits)
    with g show ?thesis by blast
  next
    case True
    then obtain xs spec where spec: "specs = Inr xs" "find (\<lambda>spec. ps_ID spec = pm_ID p) xs = Some spec" "\<not> ps_ReadOnly spec"
      "ValidateParameter spec p = Inr ()" by blast
    then obtain r' d2 where "pk_SetParameter (cf_controller c) p d1 = Some (r', d2)" "s' = s\<lparr>sc_dev := d2\<rparr>"
      using assms valid g
      by (auto simp: SetParameter_def with_svc_def Let_def getParameterSpecification_def on_dev_def act_wrap_def)
    moreover have "admits spec p" using valid spec(4) validated_iff [of p spec] by simp
    ultimately show ?thesis using g spec by blast
  qed
qed

lemma par_service_keeps:
  assumes keeps: "par_controller_keeps c I"
  shows "act_keeps (dev_inv spec I) (SetParameter c p)"
    and "act_keeps (dev_inv spec I) (SendParameterReport c i force)"
    and "act_keeps (dev_inv spec I) (SendSupportedParamsReport c force)"
proof -
  have get: "act_keeps I (pk_GetParameter (cf_controller c) i)" for i using keeps by (simp add: par_controller_keeps_def)
  have specs: "act_keeps I (pk_GetParameterSpecifications (cf_controller c))" using keeps by (simp add: par_controller_keeps_def)
  show "act_keeps (dev_inv spec I) (SetParameter c p)"
  proof (rule act_keepsI)
    fix s r s'
    assume s: "dev_inv spec I s" and run: "SetParameter c p s = Some (r, s')"
    have "sc_spec s = spec" and I: "I (sc_dev s)" using s by (simp_all add: dev_inv_def)
    moreover have "\<And>xs d1 sp r' d2. pk_GetParameterSpecifications (cf_controller c) (sc_dev s) = Some (Inr xs, d1)
        \<Longrightarrow> find (\<lambda>spec. ps_ID spec = pm_ID p) xs = Some sp \<Longrightarrow> \<not> ps_ReadOnly sp \<Longrightarrow> admits sp p
        \<Longrightarrow> pk_SetParameter (cf_controller c) p d1 = Some (r', d2) \<Longrightarrow> I d2"
      using keeps I unfolding par_controller_keeps_def by blast
    ultimately show "dev_inv spec I s'"
      using SetParameter_outcome [OF run] act_keepsD [OF specs I] s
      by (elim disjE exE conjE) (auto simp: dev_inv_def)
  qed
  show "act_keeps (dev_inv spec I) (SendParameterReport c i force)"
    unfolding SendParameterReport_def send_unmarked_def Let_def by (intro act_keeps_rules get)
  show "act_keeps (dev_inv spec I) (SendSupportedParamsReport c force)"
    unfolding SendSupportedParamsReport_def send_unmarked_def Let_def by (intro act_keeps_rules specs)
qed

lemma par_handlers_keep:
  assumes "par_controller_keeps c I"
  shows "act_keeps (dev_inv spec I) (handleCmdSupParamsGetReport c msg)"
    "act_keeps (dev_inv spec I) (handleCmdParamSet c msg)"
    "act_keeps (dev_inv spec I) (handleCmdParamGetReport c msg)"
  unfolding handleCmdSupParamsGetReport_def handleCmdParamSet_def handleCmdParamGetReport_def
  by (intro act_keeps_rules par_service_keeps assms)+

section \<open>Properties\<close>

lemma unmarked_cache: "act_keeps (\<lambda>s. sc_cache s = C) (send_unmarked c key text v msg force)"
  using send_unmarked_outcome [of c key "text" v msg force] by (auto simp: act_keeps_def)

lemma SendParameterReport_cache:
  assumes "SendParameterReport c i force s = Some (r, s')"
  shows "sc_cache s' = sc_cache s"
proof -
  have dev: "act_keeps (\<lambda>s. sc_cache s = C) (on_dev m)" for C and m :: "('d, 'x) act" by (auto simp: act_keeps_def on_dev_def)
  have keep: "act_keeps (\<lambda>s. sc_cache s = C)
      (act_bind (act_wrap t (on_dev m)) (\<lambda>p. send_unmarked c (k p) (tx p) (v p) (msg p) force))" for C t m k tx v msg
    by (intro act_keeps_bind act_keeps_wrap dev unmarked_cache)
  show ?thesis
    using assms unfolding SendParameterReport_def with_svc_def Let_def by (rule act_keepsD [OF keep refl])
qed

lemma SendParameterReport_sent:
  assumes "SendParameterReport c i force s = Some (Inr sent, s')" "cache_lookup (sc_cache s) EvtParamReport '''' = None"
  shows sent
proof -
  obtain p s1 where g: "on_dev (pk_GetParameter (cf_controller c) i) s = Some (Inr p, s1)"
    and u: "\<exists>t v m. send_unmarked c EvtParamReport t v m force s1 = Some (Inr sent, s')"
    using assms(1) unfolding SendParameterReport_def with_svc_def Let_def by (elim act_bind_InrE) auto
  have "sc_cache s1 = sc_cache s" using on_dev_outcome [OF g] by simp
  with u assms(2) show ?thesis using send_unmarked_outcome by fastforce
qed

text \<open>
  C27. Setting a parameter is type-safe and accepts everything that is well typed: provided that the controller
  has specifications, setting succeeds exactly if the parameter names a specification that is not read-only
  and has its value type, its JSON text stands for a value of this type, this value is one that the widget of
  the specification allows (in the bounds of an input, among the options of a select or multiselect), and the
  controller accepts it; the device then is as the controller has left it.
\<close>
theorem set_parameter_type_safe:
  assumes "pk_GetParameterSpecifications (cf_controller c) (sc_dev s) = Some (Inr specs, d)"
  shows "SetParameter c p s = Some (Inr (), s') \<longleftrightarrow>
    (\<exists>spec d2. find (\<lambda>spec. ps_ID spec = pm_ID p) specs = Some spec \<and> \<not> ps_ReadOnly spec \<and> admits spec p
      \<and> pk_SetParameter (cf_controller c) p d = Some (Inr (), d2) \<and> s' = s\<lparr>sc_dev := d2\<rparr>)"
proof (cases "parameter_Validate p")
  case (Inl e)
  then show ?thesis using validated_iff [of p]
    by (auto simp: SetParameter_def with_svc_def Let_def act_wrap_def wrap_err_def)
next
  case (Inr u)
  then have v: "ValidateParameter spec p = Inr () \<longleftrightarrow> admits spec p" for spec using validated_iff [of p spec] by simp
  let ?run = "\<lambda>t. act_wrap t (on_dev (pk_SetParameter (cf_controller c) p)) (s\<lparr>sc_dev := d\<rparr>)"
  have run: "?run t = Some (Inr (), s') \<longleftrightarrow> (\<exists>d2. pk_SetParameter (cf_controller c) p d = Some (Inr (), d2) \<and> s' = s\<lparr>sc_dev := d2\<rparr>)" for t
    by (auto simp: on_dev_def)
  show ?thesis
  proof (cases "find (\<lambda>spec. ps_ID spec = pm_ID p) specs")
    case None
    with Inr assms show ?thesis
      by (auto simp: SetParameter_def with_svc_def Let_def getParameterSpecification_def on_dev_def act_wrap_def wrap_err_def)
  next
    case (Some spec)
    have "SetParameter c p s = (if ps_ReadOnly spec then act_fail (Errorf (svc_Name s @ '': parameter is read only''))
       else act_bind (act_wrap (svc_Name s @ '': failed to Validate parameter'') (act_result (ValidateParameter spec p))) (\<lambda>_.
         act_wrap (svc_Name s @ '': failed to set parameter ID '' @ pm_ID p) (on_dev (pk_SetParameter (cf_controller c) p))))
       (s\<lparr>sc_dev := d\<rparr>)"
      using Inr assms Some
      by (simp add: SetParameter_def with_svc_def Let_def getParameterSpecification_def on_dev_def act_wrap_def wrap_err_def)
    then show ?thesis
      using Some run v [of spec]
      by (cases "ValidateParameter spec p") (auto simp: act_wrap_def act_result_def wrap_err_def)
  qed
qed

text \<open>
  C11. Whatever messages and events arrive, the device is only given parameters that its own specifications
  admit: a property of the devices that the queries of the controller keep, and that every parameter keeps
  which its specification admits and does not protect, is kept by all handlers of the service and by the handler
  of the event that an inclusion report was sent.
\<close>
theorem only_admitted_parameters_set:
  assumes "par_controller_keeps c I" "svcs_inv specs I w"
  shows "list_all (\<lambda>h. \<forall>msg r w'. svc_handler h msg w = Some (r, w') \<longrightarrow> svcs_inv specs I w')
      [handleCmdSupParamsGetReport c, handleCmdParamSet c, handleCmdParamGetReport c]
    \<and> svcs_inv specs I (fst (inclusionReportSent_processor c e w))"
proof -
  have "svcs_inv specs I w'" if "on_svc a (SendSupportedParamsReport c True) w = Some (r, w')" for a r w'
    using act_keepsD [OF keeps_on_svc [where m = "SendSupportedParamsReport c True"] assms(2) that]
      par_service_keeps(3) [OF assms(1)] by blast
  then have "svcs_inv specs I (fst (inclusionReportSent_processor c e w))"
    using assms(2) by (auto simp: inclusionReportSent_processor_def split: option.splits)
  moreover have "svcs_inv specs I w'" if "svc_handler h msg w = Some (r, w')" "\<And>spec msg. act_keeps (dev_inv spec I) (h msg)"
    for h msg r w'
    using act_keepsD [OF keeps_svc_handler assms(2) that(1)] that(2) by blast
  ultimately show ?thesis using par_handlers_keep [OF assms(1)] by auto
qed

text \<open>
  The reporting cache of the service never holds anything back: in every run of a service that starts with
  an empty cache, a report of a parameter that does not fail is sent, also if it is not forced and nothing has
  changed since the last one.
\<close>
theorem parameter_report_never_skipped:
  assumes "report_run (SendParameterReport c i) s0 s" "cache_lookup (sc_cache s0) EvtParamReport '''' = None"
    and "SendParameterReport c i force s = Some (Inr sent, s')"
  shows sent
proof -
  from assms(1) have "sc_cache s = sc_cache s0"
    by (induction rule: report_run.induct) (auto dest: SendParameterReport_cache)
  with assms(2,3) show ?thesis using SendParameterReport_sent by metis
qed

section \<open>Instances\<close>

text \<open>A device with one parameter that can be set between 1 and 5, and one that cannot be set.\<close>

definition demo_pspec :: parameter_specification where
  "demo_pspec =
     \<lparr>ps_ID = ''1'', ps_Name = ''level'', ps_Description = '''', ps_ValueType = ValueTypeInt, ps_WidgetType = WidgetTypeInput,
      ps_Options = [], ps_Min = Some 1, ps_Max = Some 5, ps_DefaultValue = GoInt 1, ps_ReadOnly = False\<rparr>"

definition demo_par :: "int par_config" where
  "demo_par =
     \<lparr>cf_fimpgo = demo_fimpgo,
      cf_controller =
        \<lparr>pk_SetParameter = (\<lambda>p d. case pm_Value p of Some (VInt i) \<Rightarrow> Some (Inr (), i) | _ \<Rightarrow> Some (Inl (Errorf ''no value''), d)),
         pk_GetParameter = (\<lambda>i d. Some (Inr (NewIntParameter i d), d)),
         pk_GetParameterSpecifications = (\<lambda>d. Some (Inr [demo_pspec, demo_pspec\<lparr>ps_ID := ''2'', ps_ReadOnly := True\<rparr>], d))\<rparr>,
      cf_strategy = ReportOnChangeOnly,
      pf_GetObjectValue = (\<lambda>m. case pl_Value m of VInt i \<Rightarrow> Inr (NewIntParameter ''1'' i) | _ \<Rightarrow> Inl (Errorf ''no object''))\<rparr>"

definition demo_par_spec :: service_spec where
  "demo_par_spec = demo_svc_spec Parameters_name []"

theorem set_parameter_type_safe_witness:
  "SetParameter demo_par (NewIntParameter ''1'' 4) ((svc_New demo_par_spec 2 (demo_adapter (\<lambda>_. None)) int))
     = Some (Inr (), (svc_New demo_par_spec 2 (demo_adapter (\<lambda>_. None)) int)\<lparr>sc_dev := 4\<rparr>)"
proof -
  let ?s = "svc_New demo_par_spec (2 :: int) (demo_adapter (\<lambda>_. None)) int"
  have specs: "pk_GetParameterSpecifications (cf_controller demo_par) (sc_dev ?s)
      = Some (Inr [demo_pspec, demo_pspec\<lparr>ps_ID := ''2'', ps_ReadOnly := True\<rparr>], 2)"
    by (simp add: demo_par_def svc_New_def)
  have "well_typed (NewIntParameter ''1'' 4) (TInt 4)"
    by (simp add: well_typed_def NewIntParameter_def stands_for_simps)
  then have "admits demo_pspec (NewIntParameter ''1'' 4)"
    by (auto simp: admits_def demo_pspec_def NewIntParameter_def)
  then show ?thesis
    by (subst set_parameter_type_safe [OF specs]) (auto simp: demo_pspec_def demo_par_def NewIntParameter_def)
qed

theorem only_admitted_parameters_set_witness:
  "\<exists>w'. svc_handler (handleCmdParamSet demo_par) (demo_command demo_par_spec (VInt 4)) (demo_world demo_par_spec 2) = Some (Inr None, w')
    \<and> svcs_inv (\<lambda>_. demo_par_spec) (\<lambda>d. 1 \<le> d \<and> d \<le> 5) w'"
proof -
  let ?w = "demo_world demo_par_spec (2 :: int)" and ?m = "demo_command demo_par_spec (VInt 4)"
  have "1 \<le> i \<and> i \<le> 5" if "admits demo_pspec p" "pm_Value p = Some (VInt i)" for p i
  proof -
    from that(1) obtain t where "well_typed p t" "widget_admits demo_pspec t" "type_name t = ValueTypeInt"
      by (auto simp: admits_def demo_pspec_def well_typed_def)
    with that(2) show ?thesis by (cases t) (auto simp: well_typed_def stands_for_simps demo_pspec_def)
  qed
  then have keep: "par_controller_keeps demo_par (\<lambda>d. 1 \<le> d \<and> d \<le> 5)"
    by (auto simp: par_controller_keeps_def demo_par_def act_keeps_def split: option.splits fimp_value.splits if_splits)
  have inv: "svcs_inv (\<lambda>_. demo_par_spec) (\<lambda>d. 1 \<le> d \<and> d \<le> 5) ?w" by (rule demo_svcs_inv) simp
  have "map_option fst (svc_handler (handleCmdParamSet demo_par) ?m ?w) = Some (Inr None)" by code_simp
  then obtain w' where "svc_handler (handleCmdParamSet demo_par) ?m ?w = Some (Inr None, w')" by auto
  with only_admitted_parameters_set [OF keep inv] show ?thesis by auto
qed

theorem parameter_report_never_skipped_witness:
  "\<exists>s1 s2. SendParameterReport demo_par ''1'' False (svc_New demo_par_spec 2 (demo_adapter (\<lambda>_. None)) int) = Some (Inr True, s1)
    \<and> SendParameterReport demo_par ''1'' False s1 = Some (Inr True, s2)"
proof -
  let ?s0 = "svc_New demo_par_spec (2 :: int) (demo_adapter (\<lambda>_. None)) int"
  have "map_option fst (SendParameterReport demo_par ''1'' False ?s0) = Some (Inr True)" by code_simp
  then obtain s1 where s1: "SendParameterReport demo_par ''1'' False ?s0 = Some (Inr True, s1)" by auto
  have "case SendParameterReport demo_par ''1'' False ?s0 of Some (_, s) \<Rightarrow>
      (case SendParameterReport demo_par ''1'' False s of Some (Inr b, _) \<Rightarrow> True | _ \<Rightarrow> False) | None \<Rightarrow> False" by code_simp
  then obtain b s2 where s2: "SendParameterReport demo_par ''1'' False s1 = Some (Inr b, s2)"
    using s1 by (auto split: option.splits sum.splits)
  have "report_run (SendParameterReport demo_par ''1'') ?s0 s1" using report_run.report [OF report_run.start] s1 by blast
  moreover have "cache_lookup (sc_cache ?s0) EvtParamReport '''' = None" by (simp add: svc_New_def NewReportingCache_def cache_lookup_def)
  ultimately have b using parameter_report_never_skipped s2 by blast
  with s1 s2 show ?thesis by auto
qed

end
