(* ===== verification/Diagnostics.thy ===== *)
theory Diagnostics
  imports Device_Service
begin

text \<open>
  The services about the device itself: firmware updates, \<^verbatim>\<open>src/adapter/service/ota\<close>, and diagnostics,
  \<^verbatim>\<open>src/adapter/service/diagnostic\<close>. Neither has a cache or a reporting task.
\<close>

section \<open>Firmware updates (\<^verbatim>\<open>ota\<close>)\<close>

definition CmdOTAUpdateStart :: string where "CmdOTAUpdateStart = ''cmd.ota_update.start''"
definition EvtOTAStartReport :: string where "EvtOTAStartReport = ''evt.ota_start.report''"
definition EvtOTAProgressReport :: string where "EvtOTAProgressReport = ''evt.ota_progress.report''"
definition EvtOTAEndReport :: string where "EvtOTAEndReport = ''evt.ota_end.report''"
definition OTA :: string where "OTA = ''ota''"

definition StatusIdle :: int where "StatusIdle = 0"
definition StatusStarted :: int where "StatusStarted = 1"
definition StatusInProgress :: int where "StatusInProgress = 2"
definition StatusDone :: int where "StatusDone = 3"

lemmas status_defs = StatusIdle_def StatusStarted_def StatusInProgress_def StatusDone_def

definition allowedStatuses :: "int list" where
  "allowedStatuses = [StatusIdle, StatusStarted, StatusInProgress, StatusDone]"

definition status_isValid :: "int \<Rightarrow> bool" where
  "status_isValid s \<longleftrightarrow> s \<in> set allowedStatuses"

definition ErrLowBattery :: string where "ErrLowBattery = ''low_battery''"
definition ErrInvalidImage :: string where "ErrInvalidImage = ''invalid_image''"
definition ErrNotUpgradable :: string where "ErrNotUpgradable = ''not_upgradable''"
definition ErrNeedsUserAction :: string where "ErrNeedsUserAction = ''needs_user_action''"
definition ErrOther :: string where "ErrOther = ''other''"
definition ErrNoError :: string where "ErrNoError = ''''"

definition allowedErrors :: "string list" where
  "allowedErrors = [ErrLowBattery, ErrInvalidImage, ErrNotUpgradable, ErrNeedsUserAction, ErrOther, ErrNoError]"

definition error_isValid :: "string \<Rightarrow> bool" where
  "error_isValid e \<longleftrightarrow> e \<in> set allowedErrors"

record progress_data =
  pg_Progress :: int
  pg_RemainingMinutes :: int
  pg_RemainingSeconds :: int

record result_data =
  rs_Error :: string

record status_report =
  st_Status :: int
  st_Progress :: progress_data
  st_Result :: result_data

definition progress_validate :: "progress_data \<Rightarrow> unit result" where
  "progress_validate d =
     (if pg_Progress d < 0 \<or> pg_Progress d > 100 then Inl (Errorf ''progress must be between 0 and 100'')
      else if pg_RemainingMinutes d < 0 then Inl (Errorf ''remaining minutes must be greater than or equal 0'')
      else if pg_RemainingSeconds d < 0 then Inl (Errorf ''remaining seconds must be greater than or equal 0'')
      else Inr ())"

definition result_validate :: "result_data \<Rightarrow> unit result" where
  "result_validate d =
     (if \<not> error_isValid (rs_Error d) then Inl (Errorf (''invalid error: '' @ rs_Error d)) else Inr ())"

definition status_validate :: "status_report \<Rightarrow> unit result" where
  "status_validate r =
     (if \<not> status_isValid (st_Status r) then Inl (Errorf (''invalid status: '' @ Itoa (st_Status r)))
      else if st_Status r = StatusInProgress then progress_validate (st_Progress r)
      else if st_Status r = StatusDone then result_validate (st_Result r)
      else Inr ())"

record 'd ota_controller =
  oc_StartOTAUpdate :: "string \<Rightarrow> ('d, unit) act"
  oc_OTAStatusReport :: "('d, status_report) act"

definition ota_requiredInterfaces :: "fimpgo \<Rightarrow> interface list" where
  "ota_requiredInterfaces fg =
     [iface (fg_TypeIn fg) CmdOTAUpdateStart (fg_VTypeString fg),
      iface (fg_TypeOut fg) EvtOTAStartReport (fg_VTypeNull fg),
      iface (fg_TypeOut fg) EvtOTAProgressReport (fg_VTypeIntMap fg),
      iface (fg_TypeOut fg) EvtOTAEndReport (fg_VTypeObject fg),
      iface (fg_TypeOut fg) EvtErrorReport (fg_VTypeString fg)]"

definition ota_Specification :: "fimpgo \<Rightarrow> string \<Rightarrow> string \<Rightarrow> string \<Rightarrow> string list \<Rightarrow> service_spec" where
  "ota_Specification fg resourceName resourceAddress address groups =
     service_Specification OTA resourceName resourceAddress address groups [] (ota_requiredInterfaces fg)"

text \<open>The services of this theory have no strategy; \<open>cf_strategy\<close> is not used.\<close>

definition ota_NewService ::
  "fimpgo \<Rightarrow> 'd ota_controller \<Rightarrow> service_spec \<Rightarrow> 'd \<Rightarrow> adapter \<Rightarrow> (nat \<Rightarrow> time)
   \<Rightarrow> 'd ota_controller svc_config \<times> 'd svc" where
  "ota_NewService fg ctl spec =
     NewService_with fg ctl ReportAlways None (fg_EnsureInterfaces fg (ota_requiredInterfaces fg) (spec\<lparr>sv_Name := OTA\<rparr>))"

definition StartUpdate :: "'d ota_controller svc_config \<Rightarrow> string \<Rightarrow> ('d, unit) svc_act" where
  "StartUpdate c firmwarePath =
     (if firmwarePath = '''' then act_fail (Errorf ''firmware path is empty'')
      else act_wrap ''failed to start OTA update'' (on_dev (oc_StartOTAUpdate (cf_controller c) firmwarePath)))"

definition newStartReport :: "fimpgo \<Rightarrow> string \<Rightarrow> fimp_message" where
  "newStartReport fg name = fg_New fg KNull EvtOTAStartReport name VNull [] None"

definition newProgressReport :: "fimpgo \<Rightarrow> string \<Rightarrow> progress_data \<Rightarrow> fimp_message" where
  "newProgressReport fg name d =
     fg_New fg KIntMap EvtOTAProgressReport name
       (int_map_value ([(''progress'', pg_Progress d)]
          @ (if pg_RemainingMinutes d > 0 then [(''remaining_min'', pg_RemainingMinutes d)] else [])
          @ (if pg_RemainingSeconds d > 0 then [(''remaining_sec'', pg_RemainingSeconds d)] else []))) [] None"

definition newEndReport :: "fimpgo \<Rightarrow> string \<Rightarrow> result_data \<Rightarrow> fimp_message" where
  "newEndReport fg name d =
     fg_New fg KObject EvtOTAEndReport name
       (VObject [(''success'', VBool (rs_Error d = '''')), (''error'', VString (rs_Error d))]) [] None"

text \<open>\<open>None\<close> is an idle device, for which nothing is sent.\<close>

definition status_message :: "fimpgo \<Rightarrow> string \<Rightarrow> status_report \<Rightarrow> fimp_message option" where
  "status_message fg name r =
     (if st_Status r = StatusStarted then Some (newStartReport fg name)
      else if st_Status r = StatusInProgress then Some (newProgressReport fg name (st_Progress r))
      else if st_Status r = StatusDone then Some (newEndReport fg name (st_Result r))
      else None)"

definition SendStatusReport :: "'d ota_controller svc_config \<Rightarrow> ('d, unit) svc_act" where
  "SendStatusReport c = with_svc (\<lambda>s.
     act_bind (act_wrap ''failed to get OTA status report'' (on_dev (oc_OTAStatusReport (cf_controller c)))) (\<lambda>report.
     act_bind (act_wrap ''invalid OTA update report'' (act_result (status_validate report))) (\<lambda>_.
     case status_message (cf_fimpgo c) (svc_Name s) report of
       None \<Rightarrow> act_return ()
     | Some message \<Rightarrow> act_wrap ''failed to send OTA status report'' (svc_SendMessage (cf_fimpgo c) message))))"

definition handleCmdOTAUpdateStart :: "'d ota_controller svc_config \<Rightarrow> message \<Rightarrow> ('d, unit) svc_act" where
  "handleCmdOTAUpdateStart c msg =
     act_bind (act_wrap ''failed to get firmware path from payload'' (act_result (fg_GetStringValue (cf_fimpgo c) (ms_Payload msg)))) (\<lambda>firmwarePath.
     act_wrap ''failed to start OTA update'' (StartUpdate c firmwarePath))"

definition routeCmdOTAUpdateStart :: "'d ota_controller svc_config \<Rightarrow> 'd svc_world routing" where
  "routeCmdOTAUpdateStart c = svc_routing (cf_fimpgo c) OTA CmdOTAUpdateStart (handleCmdOTAUpdateStart c)"

definition ota_RouteService :: "'d ota_controller svc_config \<Rightarrow> 'd svc_world routing list" where
  "ota_RouteService c = [routeCmdOTAUpdateStart c]"

section \<open>Diagnostics (\<^verbatim>\<open>diagnostic\<close>)\<close>

definition CmdLQIGetReport :: string where "CmdLQIGetReport = ''cmd.lqi.get_report''"
definition EvtLQIReport :: string where "EvtLQIReport = ''evt.lqi.report''"
definition CmdRSSIGetReport :: string where "CmdRSSIGetReport = ''cmd.rssi.get_report''"
definition EvtRSSIReport :: string where "EvtRSSIReport = ''evt.rssi.report''"
definition CmdRebootReasonGetReport :: string where "CmdRebootReasonGetReport = ''cmd.reboot_reason.get_report''"
definition EvtRebootReasonReport :: string where "EvtRebootReasonReport = ''evt.reboot_reason.report''"
definition CmdRebootsCountGetReport :: string where "CmdRebootsCountGetReport = ''cmd.reboots_count.get_report''"
definition EvtRebootsCountReport :: string where "EvtRebootsCountReport = ''evt.reboots_count.report''"
definition CmdUptimeGetReport :: string where "CmdUptimeGetReport = ''cmd.uptime.get_report''"
definition EvtUptimeReport :: string where "EvtUptimeReport = ''evt.uptime.report''"
definition CmdErrorsGetReport :: string where "CmdErrorsGetReport = ''cmd.errors.get_report''"
definition EvtErrorsReport :: string where "EvtErrorsReport = ''evt.errors.report''"
definition Diagnostic :: string where "Diagnostic = ''diagnostic''"

text \<open>The optional interfaces of the controller; \<open>None\<close> is a controller that does not implement one.\<close>

record 'd diag_controller =
  dc_LQIReport :: "('d, int) act option"
  dc_RSSIReport :: "('d, int) act option"
  dc_RebootReasonReport :: "('d, string) act option"
  dc_RebootsCountReport :: "('d, int) act option"
  dc_UptimeReport :: "('d, int) act option"
  dc_ErrorsReport :: "('d, string list) act option"

definition SupportsLQI :: "'d diag_controller \<Rightarrow> bool" where "SupportsLQI k \<longleftrightarrow> dc_LQIReport k \<noteq> None"
definition SupportsRSSI :: "'d diag_controller \<Rightarrow> bool" where "SupportsRSSI k \<longleftrightarrow> dc_RSSIReport k \<noteq> None"
definition SupportsRebootReason :: "'d diag_controller \<Rightarrow> bool" where
  "SupportsRebootReason k \<longleftrightarrow> dc_RebootReasonReport k \<noteq> None"
definition SupportsRebootsCount :: "'d diag_controller \<Rightarrow> bool" where
  "SupportsRebootsCount k \<longleftrightarrow> dc_RebootsCountReport k \<noteq> None"
definition SupportsUptime :: "'d diag_controller \<Rightarrow> bool" where "SupportsUptime k \<longleftrightarrow> dc_UptimeReport k \<noteq> None"
definition SupportsErrors :: "'d diag_controller \<Rightarrow> bool" where "SupportsErrors k \<longleftrightarrow> dc_ErrorsReport k \<noteq> None"

definition diag_requiredInterfaces :: "fimpgo \<Rightarrow> interface list" where
  "diag_requiredInterfaces fg = [iface (fg_TypeOut fg) EvtErrorReport (fg_VTypeString fg)]"

definition lqiInterfaces :: "fimpgo \<Rightarrow> interface list" where
  "lqiInterfaces fg =
     [iface (fg_TypeIn fg) CmdLQIGetReport (fg_VTypeNull fg), iface (fg_TypeOut fg) EvtLQIReport (fg_VTypeInt fg)]"

definition rssiInterfaces :: "fimpgo \<Rightarrow> interface list" where
  "rssiInterfaces fg =
     [iface (fg_TypeIn fg) CmdRSSIGetReport (fg_VTypeNull fg), iface (fg_TypeOut fg) EvtRSSIReport (fg_VTypeInt fg)]"

definition rebootReasonInterfaces :: "fimpgo \<Rightarrow> interface list" where
  "rebootReasonInterfaces fg =
     [iface (fg_TypeIn fg) CmdRebootReasonGetReport (fg_VTypeNull fg),
      iface (fg_TypeOut fg) EvtRebootReasonReport (fg_VTypeString fg)]"

definition rebootsCountInterfaces :: "fimpgo \<Rightarrow> interface list" where
  "rebootsCountInterfaces fg =
     [iface (fg_TypeIn fg) CmdRebootsCountGetReport (fg_VTypeNull fg),
      iface (fg_TypeOut fg) EvtRebootsCountReport (fg_VTypeInt fg)]"

definition uptimeInterfaces :: "fimpgo \<Rightarrow> interface list" where
  "uptimeInterfaces fg =
     [iface (fg_TypeIn fg) CmdUptimeGetReport (fg_VTypeNull fg), iface (fg_TypeOut fg) EvtUptimeReport (fg_VTypeInt fg)]"

definition errorsInterfaces :: "fimpgo \<Rightarrow> interface list" where
  "errorsInterfaces fg =
     [iface (fg_TypeIn fg) CmdErrorsGetReport (fg_VTypeNull fg), iface (fg_TypeOut fg) EvtErrorsReport (fg_VTypeStrArray fg)]"

definition diag_Specification :: "fimpgo \<Rightarrow> string \<Rightarrow> string \<Rightarrow> string \<Rightarrow> string list \<Rightarrow> service_spec" where
  "diag_Specification fg resourceName resourceAddress address groups =
     service_Specification Diagnostic resourceName resourceAddress address groups [] (diag_requiredInterfaces fg)"

definition ensure_if :: "fimpgo \<Rightarrow> bool \<Rightarrow> interface list \<Rightarrow> service_spec \<Rightarrow> service_spec" where
  "ensure_if fg b is spec = (if b then fg_EnsureInterfaces fg is spec else spec)"

definition diag_NewService ::
  "fimpgo \<Rightarrow> 'd diag_controller \<Rightarrow> service_spec \<Rightarrow> 'd \<Rightarrow> adapter \<Rightarrow> (nat \<Rightarrow> time)
   \<Rightarrow> 'd diag_controller svc_config \<times> 'd svc" where
  "diag_NewService fg k spec =
     NewService_with fg k ReportAlways None
       (ensure_if fg (SupportsErrors k) (errorsInterfaces fg)
       (ensure_if fg (SupportsUptime k) (uptimeInterfaces fg)
       (ensure_if fg (SupportsRebootsCount k) (rebootsCountInterfaces fg)
       (ensure_if fg (SupportsRebootReason k) (rebootReasonInterfaces fg)
       (ensure_if fg (SupportsRSSI k) (rssiInterfaces fg)
       (ensure_if fg (SupportsLQI k) (lqiInterfaces fg)
       (fg_EnsureInterfaces fg (diag_requiredInterfaces fg) (spec\<lparr>sv_Name := Diagnostic\<rparr>))))))))"

text \<open>The six reports have one shape; \<open>what\<close> is the name of the report in the texts of the errors.\<close>

definition send_diagnostic ::
  "fimpgo \<Rightarrow> string \<Rightarrow> string \<Rightarrow> msg_kind \<Rightarrow> ('x \<Rightarrow> fimp_value) \<Rightarrow> ('d, 'x) act option \<Rightarrow> ('d, unit) svc_act" where
  "send_diagnostic fg what evt kind val reporter = with_svc (\<lambda>s. let name = svc_Name s in
     case reporter of
       None \<Rightarrow> act_fail (Errorf (name @ '': '' @ what @ '' reporting is not supported''))
     | Some get \<Rightarrow>
         act_bind (act_wrap (name @ '': failed to retrieve '' @ what @ '' report'') (on_dev get)) (\<lambda>v.
         act_wrap (name @ '': failed to send '' @ what @ '' report'')
           (svc_SendMessage fg (fg_New fg kind evt name (val v) [] None))))"

definition SendLQIReport :: "'d diag_controller svc_config \<Rightarrow> ('d, unit) svc_act" where
  "SendLQIReport c = send_diagnostic (cf_fimpgo c) ''LQI'' EvtLQIReport KInt VInt (dc_LQIReport (cf_controller c))"

definition SendRSSIReport :: "'d diag_controller svc_config \<Rightarrow> ('d, unit) svc_act" where
  "SendRSSIReport c = send_diagnostic (cf_fimpgo c) ''RSSI'' EvtRSSIReport KInt VInt (dc_RSSIReport (cf_controller c))"

definition SendRebootReasonReport :: "'d diag_controller svc_config \<Rightarrow> ('d, unit) svc_act" where
  "SendRebootReasonReport c =
     send_diagnostic (cf_fimpgo c) ''reboot reason'' EvtRebootReasonReport KString VString (dc_RebootReasonReport (cf_controller c))"

definition SendRebootsCountReport :: "'d diag_controller svc_config \<Rightarrow> ('d, unit) svc_act" where
  "SendRebootsCountReport c =
     send_diagnostic (cf_fimpgo c) ''reboots count'' EvtRebootsCountReport KInt VInt (dc_RebootsCountReport (cf_controller c))"

definition SendUptimeReport :: "'d diag_controller svc_config \<Rightarrow> ('d, unit) svc_act" where
  "SendUptimeReport c = send_diagnostic (cf_fimpgo c) ''uptime'' EvtUptimeReport KInt VInt (dc_UptimeReport (cf_controller c))"

definition SendErrorsReport :: "'d diag_controller svc_config \<Rightarrow> ('d, unit) svc_act" where
  "SendErrorsReport c =
     send_diagnostic (cf_fimpgo c) ''errors'' EvtErrorsReport KStrArray (\<lambda>es. VList (map VString es)) (dc_ErrorsReport (cf_controller c))"

definition handleSendReport :: "('d, unit) svc_act \<Rightarrow> message \<Rightarrow> ('d, unit) svc_act" where
  "handleSendReport send msg = act_wrap ''failed to send diagnostic report'' send"

definition routeCmdLQIGetReport :: "'d diag_controller svc_config \<Rightarrow> 'd svc_world routing" where
  "routeCmdLQIGetReport c = svc_routing (cf_fimpgo c) Diagnostic CmdLQIGetReport (handleSendReport (SendLQIReport c))"

definition routeCmdRSSIGetReport :: "'d diag_controller svc_config \<Rightarrow> 'd svc_world routing" where
  "routeCmdRSSIGetReport c = svc_routing (cf_fimpgo c) Diagnostic CmdRSSIGetReport (handleSendReport (SendRSSIReport c))"

definition routeCmdRebootReasonGetReport :: "'d diag_controller svc_config \<Rightarrow> 'd svc_world routing" where
  "routeCmdRebootReasonGetReport c =
     svc_routing (cf_fimpgo c) Diagnostic CmdRebootReasonGetReport (handleSendReport (SendRebootReasonReport c))"

definition routeCmdRebootsCountGetReport :: "'d diag_controller svc_config \<Rightarrow> 'd svc_world routing" where
  "routeCmdRebootsCountGetReport c =
     svc_routing (cf_fimpgo c) Diagnostic CmdRebootsCountGetReport (handleSendReport (SendRebootsCountReport c))"

definition routeCmdUptimeGetReport :: "'d diag_controller svc_config \<Rightarrow> 'd svc_world routing" where
  "routeCmdUptimeGetReport c =
     svc_routing (cf_fimpgo c) Diagnostic CmdUptimeGetReport (handleSendReport (SendUptimeReport c))"

definition routeCmdErrorsGetReport :: "'d diag_controller svc_config \<Rightarrow> 'd svc_world routing" where
  "routeCmdErrorsGetReport c =
     svc_routing (cf_fimpgo c) Diagnostic CmdErrorsGetReport (handleSendReport (SendErrorsReport c))"

definition diag_RouteService :: "'d diag_controller svc_config \<Rightarrow> 'd svc_world routing list" where
  "diag_RouteService c =
     [routeCmdLQIGetReport c, routeCmdRSSIGetReport c, routeCmdRebootReasonGetReport c,
      routeCmdRebootsCountGetReport c, routeCmdUptimeGetReport c, routeCmdErrorsGetReport c]"

section \<open>What the reports show\<close>

text \<open>
  A status report of a firmware update that does not fail is one of the four that the status demands: nothing for
  an idle device, the start report, a progress report whose progress is between 0 and 100 and which mentions
  only positive remaining times, or an end report that claims success exactly if there is no error; at most one
  message is published.
\<close>
theorem ota_status_reported:
  assumes "fimpgo_ok (cf_fimpgo c)" "SendStatusReport c s = Some (Inr (), s')"
  shows "\<exists>r d ms. oc_OTAStatusReport (cf_controller c) (sc_dev s) = Some (Inr r, d)
    \<and> svc_published s' = svc_published s @ ms \<and>
    (st_Status r = StatusIdle \<and> ms = []
   \<or> (\<exists>a m. ms = [(a, m)] \<and>
       (st_Status r = StatusStarted \<and> pl_Interface m = EvtOTAStartReport \<and> pl_Value m = VNull
      \<or> st_Status r = StatusInProgress \<and> pl_Interface m = EvtOTAProgressReport
          \<and> (\<exists>rest. pl_Value m = int_map_value ((''progress'', pg_Progress (st_Progress r)) # rest)
              \<and> 0 \<le> pg_Progress (st_Progress r) \<and> pg_Progress (st_Progress r) \<le> 100 \<and> list_all (\<lambda>(k, n). 0 < n) rest)
      \<or> st_Status r = StatusDone \<and> pl_Interface m = EvtOTAEndReport \<and> rs_Error (st_Result r) \<in> set allowedErrors
          \<and> pl_Value m = VObject [(''success'', VBool (rs_Error (st_Result r) = ErrNoError)), (''error'', VString (rs_Error (st_Result r)))])))"
proof -
  obtain r s1 where get: "on_dev (oc_OTAStatusReport (cf_controller c)) s = Some (Inr r, s1)"
    and valid: "status_validate r = Inr ()"
    and send: "(case status_message (cf_fimpgo c) (svc_Name s) r of None \<Rightarrow> act_return ()
        | Some m \<Rightarrow> act_wrap ''failed to send OTA status report'' (svc_SendMessage (cf_fimpgo c) m)) s1 = Some (Inr (), s')"
    using assms(2) unfolding SendStatusReport_def with_svc_def by (elim act_bind_InrE) auto
  from on_dev_outcome [OF get] have pub: "svc_published s1 = svc_published s" by simp
  show ?thesis
  proof (cases "status_message (cf_fimpgo c) (svc_Name s) r")
    case None
    then have "st_Status r = StatusIdle" "s' = s1"
      using valid send
      by (auto simp: status_message_def status_validate_def status_isValid_def allowedStatuses_def split: if_splits)
    with get pub show ?thesis by (auto simp: on_dev_def)
  next
    case (Some m)
    with send have sent: "svc_SendMessage (cf_fimpgo c) m s1 = Some (Inr (), s')" by simp
    from svc_SendMessage_outcome [OF sent] pub obtain a where
      "svc_published s' = svc_published s @ [(a, m\<lparr>pl_Service := svc_Name s1\<rparr>)]" by auto
    with get Some valid assms(1) show ?thesis
      by (auto simp: on_dev_def status_message_def status_validate_def newStartReport_def newProgressReport_def
          newEndReport_def progress_validate_def result_validate_def error_isValid_def ErrNoError_def split: if_splits)
  qed
qed

definition demo_ota :: "status_report ota_controller svc_config" where
  "demo_ota =
     \<lparr>cf_fimpgo = demo_fimpgo,
      cf_controller = \<lparr>oc_StartOTAUpdate = (\<lambda>p d. Some (Inr (), d)), oc_OTAStatusReport = (\<lambda>d. Some (Inr d, d))\<rparr>,
      cf_strategy = ReportAlways\<rparr>"

theorem ota_status_reported_witness:
  "\<exists>s' a m. SendStatusReport demo_ota
      (svc_New (demo_svc_spec OTA []) \<lparr>st_Status = 2, st_Progress = \<lparr>pg_Progress = 40, pg_RemainingMinutes = 1, pg_RemainingSeconds = 0\<rparr>,
         st_Result = \<lparr>rs_Error = ''''\<rparr>\<rparr> (demo_adapter (\<lambda>_. None)) int) = Some (Inr (), s')
    \<and> svc_published s' = [(a, m)] \<and> pl_Interface m = EvtOTAProgressReport"
proof -
  let ?d = "\<lparr>st_Status = 2, st_Progress = \<lparr>pg_Progress = 40, pg_RemainingMinutes = 1, pg_RemainingSeconds = 0\<rparr>,
         st_Result = \<lparr>rs_Error = ''''\<rparr>\<rparr>"
  let ?s = "svc_New (demo_svc_spec OTA []) ?d (demo_adapter (\<lambda>_. None)) int"
  have "map_option fst (SendStatusReport demo_ota ?s) = Some (Inr ())" by code_simp
  then obtain s' where run: "SendStatusReport demo_ota ?s = Some (Inr (), s')" by auto
  have ok: "fimpgo_ok (cf_fimpgo demo_ota)" by (simp add: demo_ota_def demo_fimpgo_ok)
  have "oc_OTAStatusReport (cf_controller demo_ota) (sc_dev ?s) = Some (Inr ?d, ?d)" by (simp add: demo_ota_def svc_New_def)
  moreover have "svc_published ?s = []" by (simp add: svc_published_def svc_New_def)
  ultimately show ?thesis using ota_status_reported [OF ok run] run by (auto simp: status_defs)
qed

end
