(* ===== verification/Configuration.thy ===== *)
theory Configuration
  imports Router Go_Actions Events
begin

text \<open>
  The configuration of an application, \<^verbatim>\<open>src/config\<close>: the default settings with their store (\<^verbatim>\<open>default.go\<close>),
  migrations (\<^verbatim>\<open>migration.go\<close>), validators (\<^verbatim>\<open>validation.go\<close>), change events (\<^verbatim>\<open>event.go\<close>) and the routing of
  settings (\<^verbatim>\<open>routing.go\<close>), with the telemetry settings of \<^verbatim>\<open>src/telemetry/types\<close>.
\<close>

section \<open>Settings and their store (\<^verbatim>\<open>default.go\<close>)\<close>

record suppressed_entry =
  su_Domains :: "string list"
  su_Events :: "string list"

record telemetry_config =
  tc_Enabled :: bool
  tc_EnabledAt :: time
  tc_Validity :: duration
  tc_Suppressed :: "suppressed_entry option"

definition zero_telemetry :: telemetry_config where
  "zero_telemetry = \<lparr>tc_Enabled = False, tc_EnabledAt = time_zero, tc_Validity = 0, tc_Suppressed = None\<rparr>"

record default_cfg =
  df_WorkDir :: string
  df_ConfigDir :: string
  df_ConfigVersion :: int
  df_MQTTServerURI :: string
  df_MQTTUsername :: string
  df_MQTTPassword :: string
  df_MQTTClientIDPrefix :: string
  df_InfoFile :: string
  df_LogFile :: string
  df_LogLevel :: string
  df_LogFormat :: string
  df_LogRevertTimeout :: duration
  df_LogRevertAt :: time
  df_RestartsCount :: int
  df_Telemetry :: "telemetry_config option"
  df_ConfiguredAt :: string

definition NewCanonicalDefault :: "string \<Rightarrow> string \<Rightarrow> default_cfg" where
  "NewCanonicalDefault cfgDir workDir =
     \<lparr>df_WorkDir = workDir, df_ConfigDir = cfgDir, df_ConfigVersion = 0, df_MQTTServerURI = '''', df_MQTTUsername = '''',
      df_MQTTPassword = '''', df_MQTTClientIDPrefix = '''', df_InfoFile = '''', df_LogFile = '''', df_LogLevel = '''',
      df_LogFormat = '''', df_LogRevertTimeout = 0, df_LogRevertAt = time_zero, df_RestartsCount = 0,
      df_Telemetry = None, df_ConfiguredAt = ''''\<rparr>"

definition NewDefault :: "string \<Rightarrow> default_cfg" where
  "NewDefault workDir = NewCanonicalDefault workDir workDir"

definition default_IncrementRestartsCount :: "default_cfg \<Rightarrow> int \<times> default_cfg" where
  "default_IncrementRestartsCount d = (df_RestartsCount d + 1, d\<lparr>df_RestartsCount := df_RestartsCount d + 1\<rparr>)"

definition default_GetTelemetry :: "default_cfg \<Rightarrow> telemetry_config" where
  "default_GetTelemetry d = (case df_Telemetry d of None \<Rightarrow> zero_telemetry | Some t \<Rightarrow> t)"

definition default_SetTelemetry :: "telemetry_config \<Rightarrow> default_cfg \<Rightarrow> default_cfg" where
  "default_SetTelemetry c d = d\<lparr>df_Telemetry := Some c\<rparr>"

text \<open>The RFC 3339 format of an instant is an argument.\<close>

definition SetConfiguredAt :: "(time \<Rightarrow> string) \<Rightarrow> time \<Rightarrow> default_cfg \<Rightarrow> default_cfg" where
  "SetConfiguredAt rfc t d = d\<lparr>df_ConfiguredAt := rfc t\<rparr>"

text \<open>
  A store: the settings that the accessor gives access to, the function that saves them (\<open>cs_saveErr\<close> is its
  result at each call) and what was saved last. The methods hold the lock of the store and do not call each
  other under it, so each is one action; they return copies. \<open>cs_rfc\<close> is the format of the time stamp.
\<close>

record default_store =
  cs_default :: default_cfg
  cs_saveErr :: "nat \<Rightarrow> go_error option"
  cs_saves :: nat
  cs_file :: default_cfg
  cs_rfc :: "time \<Rightarrow> string"

type_synonym 'a store_act = "(default_store, 'a) act"

definition NewDefaultStore :: "default_cfg \<Rightarrow> (nat \<Rightarrow> go_error option) \<Rightarrow> (time \<Rightarrow> string) \<Rightarrow> default_store" where
  "NewDefaultStore d save rfc =
     \<lparr>cs_default = d, cs_saveErr = save, cs_saves = 0, cs_file = d, cs_rfc = rfc\<rparr>"

definition store_save :: "unit store_act" where
  "store_save s =
     (let s' = s\<lparr>cs_saves := Suc (cs_saves s)\<rparr>
      in case cs_saveErr s (cs_saves s) of
           Some e \<Rightarrow> Some (Inl e, s')
         | None \<Rightarrow> Some (Inr (), s'\<lparr>cs_file := cs_default s\<rparr>))"

definition saveStamped :: "time \<Rightarrow> unit store_act" where
  "saveStamped now =
     act_bind (act_modify (\<lambda>s. s\<lparr>cs_default := SetConfiguredAt (cs_rfc s) now (cs_default s)\<rparr>)) (\<lambda>_. store_save)"

definition store_Save :: "time \<Rightarrow> unit store_act" where
  "store_Save now = saveStamped now"

definition store_Default :: "default_cfg store_act" where
  "store_Default = act_get cs_default"

text \<open>The setters assign first and save then: the assignment stays when saving fails.\<close>

definition store_set :: "(default_cfg \<Rightarrow> default_cfg) \<Rightarrow> time \<Rightarrow> unit store_act" where
  "store_set f now = act_bind (act_modify (\<lambda>s. s\<lparr>cs_default := f (cs_default s)\<rparr>)) (\<lambda>_. saveStamped now)"

definition store_Level :: "string store_act" where "store_Level = act_get (\<lambda>s. df_LogLevel (cs_default s))"
definition store_SetLevel :: "string \<Rightarrow> time \<Rightarrow> unit store_act" where
  "store_SetLevel level = store_set (\<lambda>d. d\<lparr>df_LogLevel := level\<rparr>)"
definition store_Format :: "string store_act" where "store_Format = act_get (\<lambda>s. df_LogFormat (cs_default s))"
definition store_SetFormat :: "string \<Rightarrow> time \<Rightarrow> unit store_act" where
  "store_SetFormat f = store_set (\<lambda>d. d\<lparr>df_LogFormat := f\<rparr>)"
definition store_LogFile :: "string store_act" where "store_LogFile = act_get (\<lambda>s. df_LogFile (cs_default s))"
definition store_SetLogFile :: "string \<Rightarrow> time \<Rightarrow> unit store_act" where
  "store_SetLogFile f = store_set (\<lambda>d. d\<lparr>df_LogFile := f\<rparr>)"
definition store_LogRevertTimeout :: "duration store_act" where
  "store_LogRevertTimeout = act_get (\<lambda>s. df_LogRevertTimeout (cs_default s))"
definition store_SetLogRevertTimeout :: "duration \<Rightarrow> time \<Rightarrow> unit store_act" where
  "store_SetLogRevertTimeout x = store_set (\<lambda>d. d\<lparr>df_LogRevertTimeout := x\<rparr>)"
definition store_LogRevertAt :: "time store_act" where "store_LogRevertAt = act_get (\<lambda>s. df_LogRevertAt (cs_default s))"
definition store_SetLogRevertAt :: "time \<Rightarrow> time \<Rightarrow> unit store_act" where
  "store_SetLogRevertAt t = store_set (\<lambda>d. d\<lparr>df_LogRevertAt := t\<rparr>)"

definition store_Telemetry :: "default_store \<Rightarrow> telemetry_config result" where
  "store_Telemetry s = (case df_Telemetry (cs_default s) of None \<Rightarrow> Inl (Errorf ''not_found'') | Some t \<Rightarrow> Inr t)"

definition store_SetTelemetry :: "telemetry_config \<Rightarrow> time \<Rightarrow> unit store_act" where
  "store_SetTelemetry cfg = store_set (\<lambda>d. d\<lparr>df_Telemetry := Some cfg\<rparr>)"

definition store_RestartsCount :: "int store_act" where
  "store_RestartsCount = act_get (\<lambda>s. df_RestartsCount (cs_default s))"

definition store_IncrementRestartsCount :: "int store_act" where
  "store_IncrementRestartsCount =
     act_bind (\<lambda>s. let (n, d) = default_IncrementRestartsCount (cs_default s) in Some (Inr n, s\<lparr>cs_default := d\<rparr>)) (\<lambda>count.
     act_bind store_save (\<lambda>_. act_return count))"

lemma store_set_run:
  "store_set f now s =
     (let d = SetConfiguredAt (cs_rfc s) now (f (cs_default s)); s' = s\<lparr>cs_default := d, cs_saves := Suc (cs_saves s)\<rparr>
      in case cs_saveErr s (cs_saves s) of Some e \<Rightarrow> Some (Inl e, s') | None \<Rightarrow> Some (Inr (), s'\<lparr>cs_file := d\<rparr>))"
  by (auto simp: store_set_def saveStamped_def store_save_def Let_def split: option.splits)

section \<open>Migrations (\<^verbatim>\<open>migration.go\<close>)\<close>

text \<open>
  The state is the configuration version and what the steps act on; a step may be nil. \<^verbatim>\<open>Migrate\<close> returns the
  number of the steps and an error, both. \<open>seen\<close> are the versions that it has left.
\<close>

record 'w migration =
  mg_From :: int
  mg_To :: int
  mg_Do :: "(int \<times> 'w, unit) act option"

definition run_Do :: "'w migration \<Rightarrow> (int \<times> 'w, unit) act" where
  "run_Do m = (case mg_Do m of None \<Rightarrow> act_return () | Some f \<Rightarrow> f)"

definition mg_text :: "'w migration \<Rightarrow> string" where
  "mg_text m = ''config migration '' @ Itoa (mg_From m) @ ''->'' @ Itoa (mg_To m)"

function (sequential) migrate_loop ::
  "'w migration list \<Rightarrow> int list \<Rightarrow> nat \<Rightarrow> int \<times> 'w \<Rightarrow> ((nat \<times> go_error option) \<times> int \<times> 'w) option" where
  "migrate_loop ms seen applied (current, w) =
     (case find (\<lambda>m. mg_From m = current) ms of
        None \<Rightarrow> Some ((applied, None), (current, w))
      | Some m \<Rightarrow>
          if mg_To m = mg_From m
          then Some ((applied, Some (Errorf (mg_text m @ '' does not advance version''))), (current, w))
          else if mg_To m \<in> set seen
          then Some ((applied, Some (Errorf (''config migration cycle detected at version '' @ Itoa (mg_To m)))), (current, w))
          else
            case run_Do m (current, w) of
              None \<Rightarrow> None
            | Some (Inl e, s') \<Rightarrow> Some ((applied, Some (Wrapf (mg_text m @ '' failed'') e)), s')
            | Some (Inr _, (_, w')) \<Rightarrow> migrate_loop ms (current # seen) (Suc applied) (mg_To m, w'))"
  by pat_completeness auto

text \<open>
  Every round leaves a version that was not left before: the versions that are still to be left become fewer,
  unless the current one is already among those seen, which the next one is not.
\<close>

termination
proof (relation "measure (\<lambda>(ms, seen, applied, (current, w)).
    2 * card (mg_From ` set ms - set seen) + (if current \<in> set seen then 1 else 0))", goal_cases)
  case 1
  then show ?case by simp
next
  case (2 ms seen applied current w m)
  have m: "m \<in> set ms" "mg_From m = current" using 2(1) by (auto simp: find_Some_iff)
  have "card (mg_From ` set ms - set (current # seen)) < card (mg_From ` set ms - set seen)" if "current \<notin> set seen"
    using m that by (intro psubset_card_mono) auto
  moreover have "mg_From ` set ms - set (current # seen) = mg_From ` set ms - set seen" if "current \<in> set seen"
    using that by auto
  moreover have "mg_To m \<notin> set (current # seen)" using 2(2,3) m by auto
  ultimately show ?case by (cases "current \<in> set seen") auto
qed

declare migrate_loop.simps [simp del]

definition Migrate :: "'w migration list \<Rightarrow> int \<times> 'w \<Rightarrow> ((nat \<times> go_error option) \<times> int \<times> 'w) option" where
  "Migrate ms = migrate_loop ms [] 0"

text \<open>A chain of steps that are run one after another, each from the version that the one before leads to.\<close>

inductive migrates :: "'w migration list \<Rightarrow> int \<Rightarrow> 'w \<Rightarrow> 'w migration list \<Rightarrow> int \<Rightarrow> 'w \<Rightarrow> bool" for ms where
  up_to_date: "migrates ms v w [] v w"
| step: "find (\<lambda>m. mg_From m = v) ms = Some m \<Longrightarrow> run_Do m (v, w) = Some (Inr (), (v1, w1)) \<Longrightarrow>
    migrates ms (mg_To m) w1 path v2 w2 \<Longrightarrow> migrates ms v w (m # path) v2 w2"

lemma find_From: "find (\<lambda>m. mg_From m = v) ms = Some m \<Longrightarrow> m \<in> set ms \<and> mg_From m = v"
  by (auto simp: find_Some_iff)

lemma find_no_From: "find (\<lambda>m. mg_From m = v) ms = None \<longleftrightarrow> v \<notin> mg_From ` set ms"
  by (auto simp: find_None_iff)

lemma migrate_loop_path:
  assumes "migrate_loop ms seen applied (v, w) = Some ((n, None), (v', w'))" "v \<notin> set seen"
  shows "\<exists>path. migrates ms v w path v' w' \<and> n = applied + length path \<and> distinct (map mg_From path)
    \<and> mg_From ` set path \<inter> set seen = {} \<and> v' \<notin> mg_From ` set ms"
  using assms
proof (induction ms seen applied "(v, w)" arbitrary: v w rule: migrate_loop.induct)
  case (1 ms seen applied v w)
  show ?case
  proof (cases "find (\<lambda>m. mg_From m = v) ms")
    case None
    with "1.prems" have "v' = v" "w' = w" "n = applied" by (simp_all add: migrate_loop.simps [of ms seen])
    with None show ?thesis by (intro exI [of _ "[]"]) (simp add: migrates.up_to_date find_no_From)
  next
    case (Some m)
    note m = find_From [OF Some]
    from "1.prems"(1) Some have ok: "mg_To m \<noteq> mg_From m" "mg_To m \<notin> set seen"
      by (auto simp: migrate_loop.simps [of ms seen] split: if_splits)
    with "1.prems"(1) Some obtain v1 w1 where run: "run_Do m (v, w) = Some (Inr (), (v1, w1))"
      and rest: "migrate_loop ms (v # seen) (Suc applied) (mg_To m, w1) = Some ((n, None), (v', w'))"
      by (auto simp: migrate_loop.simps [of ms seen] split: option.splits sum.splits)
    have new: "mg_To m \<notin> set (v # seen)" using ok m by auto
    obtain path where path: "migrates ms (mg_To m) w1 path v' w'" "n = Suc applied + length path"
      "distinct (map mg_From path)" "mg_From ` set path \<inter> set (v # seen) = {}" "v' \<notin> mg_From ` set ms"
      using "1.hyps" [OF Some ok run refl refl refl rest new] by auto
    with Some run m "1.prems"(2) show ?thesis by (intro exI [of _ "m # path"]) (auto intro: migrates.step)
  qed
qed

lemma migrate_loop_returns:
  assumes "\<And>m s. m \<in> set ms \<Longrightarrow> run_Do m s \<noteq> None" "v \<notin> set seen"
  shows "\<exists>n err s'. migrate_loop ms seen applied (v, w) = Some ((n, err), s') \<and> n \<le> applied + card (mg_From ` set ms - set seen)"
  using assms
proof (induction ms seen applied "(v, w)" arbitrary: v w rule: migrate_loop.induct)
  case (1 ms seen applied v w)
  show ?case
  proof (cases "find (\<lambda>m. mg_From m = v) ms")
    case None
    then show ?thesis by (simp add: migrate_loop.simps [of ms seen])
  next
    case (Some m)
    note m = find_From [OF Some]
    show ?thesis
    proof (cases "mg_To m = mg_From m \<or> mg_To m \<in> set seen")
      case True
      with Some show ?thesis by (auto simp: migrate_loop.simps [of ms seen])
    next
      case False
      then have ok: "mg_To m \<noteq> mg_From m" "mg_To m \<notin> set seen" by auto
      obtain r v1 w1 where run: "run_Do m (v, w) = Some (r, (v1, w1))"
        using "1.prems"(1) [of m "(v, w)"] m by (cases "run_Do m (v, w)") auto
      show ?thesis
      proof (cases r)
        case (Inl e)
        with Some ok run show ?thesis by (auto simp: migrate_loop.simps [of ms seen])
      next
        case (Inr u)
        have new: "mg_To m \<notin> set (v # seen)" using ok m by auto
        have "card (mg_From ` set ms - set (v # seen)) < card (mg_From ` set ms - set seen)"
          using m "1.prems"(2) by (intro psubset_card_mono) auto
        with "1.hyps" [OF Some ok run refl Inr refl "1.prems"(1) new] Some ok run Inr show ?thesis
          by (fastforce simp: migrate_loop.simps [of ms seen applied])
      qed
    qed
  qed
qed

section \<open>Validators (\<^verbatim>\<open>validation.go\<close>)\<close>

type_synonym 'v validator = "'v \<Rightarrow> unit result"

fun first_error :: "'v validator list \<Rightarrow> 'v \<Rightarrow> unit result" where
  "first_error [] val = Inr ()"
| "first_error (f # fs) val = (case f val of Inl e \<Rightarrow> Inl e | Inr _ \<Rightarrow> first_error fs val)"

definition Validate :: "('v \<Rightarrow> ('w, unit) act) \<Rightarrow> 'v validator list \<Rightarrow> 'v \<Rightarrow> ('w, unit) act" where
  "Validate setter validators val =
     act_bind (act_wrap ''config: failed to validate setting'' (act_result (first_error validators val))) (\<lambda>_. setter val)"

fun Contains :: "'v \<Rightarrow> 'v list \<Rightarrow> bool" where
  "Contains needle [] = False"
| "Contains needle (h # haystack) = (if h = needle then True else Contains needle haystack)"

text \<open>\<open>fmt\<close> prints a value of the setting's type (\<^verbatim>\<open>%v\<close>), \<open>isZero\<close> is the zero value of \<^verbatim>\<open>reflect\<close>.\<close>

definition Within :: "('v \<Rightarrow> string) \<Rightarrow> ('v \<Rightarrow> bool) \<Rightarrow> 'v list \<Rightarrow> bool \<Rightarrow> 'v validator" where
  "Within fmt isZero vs optional val =
     (if optional \<and> isZero val then Inr ()
      else if Contains val vs then Inr ()
      else Inl (Errorf (''config: value is not within the list of allowed values: '' @ strings_Join '', '' (map fmt vs))))"

definition Between :: "('v \<Rightarrow> string) \<Rightarrow> 'v :: linorder \<Rightarrow> 'v \<Rightarrow> 'v validator" where
  "Between fmt minimum maximum val =
     (if val < minimum
      then Inl (Errorf (''config: provided value '' @ fmt val @ '' is lesser than the minimum allowed value: '' @ fmt minimum))
      else if val > maximum
      then Inl (Errorf (''config: provided value '' @ fmt val @ '' is greater than the maximum allowed value: '' @ fmt maximum))
      else Inr ())"

definition Lesser :: "('v \<Rightarrow> string) \<Rightarrow> 'v :: linorder \<Rightarrow> 'v validator" where
  "Lesser fmt than val =
     (if val \<ge> than
      then Inl (Errorf (''config: provided value '' @ fmt val @ '' must be lesser than than the maximum allowed value: '' @ fmt than))
      else Inr ())"

definition Greater :: "('v \<Rightarrow> string) \<Rightarrow> 'v :: linorder \<Rightarrow> 'v validator" where
  "Greater fmt than val =
     (if val \<le> than
      then Inl (Errorf (''config: provided value '' @ fmt val @ '' must be greater than the minimum allowed value: '' @ fmt than))
      else Inr ())"

text \<open>The elements once each, in the order in which Go's map is traversed, which is \<open>order\<close>.\<close>

definition Deduplicate :: "('v list \<Rightarrow> 'v list) \<Rightarrow> 'v list \<Rightarrow> 'v list" where
  "Deduplicate order xs = order (remdups xs)"

lemma first_error_iff: "first_error fs val = Inr () \<longleftrightarrow> (\<forall>f \<in> set fs. f val = Inr ())"
  by (induction fs val rule: first_error.induct) (auto split: sum.splits)

lemma Contains_iff [simp]: "Contains x xs \<longleftrightarrow> x \<in> set xs"
  by (induction x xs rule: Contains.induct) auto

text \<open>What the validators accept.\<close>

lemma validator_iff [simp]:
  "Within fmt isZero vs optional val = Inr () \<longleftrightarrow> optional \<and> isZero val \<or> val \<in> set vs"
  "Between fmt a b val = Inr () \<longleftrightarrow> a \<le> val \<and> val \<le> b"
  "Lesser fmt a val = Inr () \<longleftrightarrow> val < a"
  "Greater fmt a val = Inr () \<longleftrightarrow> a < val"
  by (auto simp: Within_def Between_def Lesser_def Greater_def)

section \<open>Change events (\<^verbatim>\<open>event.go\<close>)\<close>

definition eventDomain :: string where "eventDomain = ''config''"
definition eventClassConfigurationChange :: string where "eventClassConfigurationChange = ''configuration_change''"

record configuration_change =
  ch_Service :: string
  ch_Setting :: string

definition NewConfigurationChangeEvent :: "string \<Rightarrow> string \<Rightarrow> configuration_change base_body event" where
  "NewConfigurationChangeEvent service setting =
     event_NewWithPayload eventDomain eventClassConfigurationChange \<lparr>ch_Service = service, ch_Setting = setting\<rparr>"

text \<open>\<open>payload_of\<close> is the assertion of an event of the bus to an event with a payload of this type.\<close>

definition WaitForConfigurationUpdate :: "('x \<Rightarrow> configuration_change option) \<Rightarrow> string \<Rightarrow> string \<Rightarrow> 'x filter_fn" where
  "WaitForConfigurationUpdate payload_of service setting =
     event_And [WaitForDomain eventDomain, WaitForClass eventClassConfigurationChange,
       WaitForPayload payload_of \<lparr>ch_Service = service, ch_Setting = setting\<rparr>]"

section \<open>Routing (\<^verbatim>\<open>routing.go\<close>)\<close>

definition CmdConfigGetReport :: string where "CmdConfigGetReport = ''cmd.config.get_report''"
definition EvtConfigReport :: string where "EvtConfigReport = ''evt.config.report''"
definition cmdConfigSet :: string where "cmdConfigSet = ''cmd.config.set_''"
definition cmdConfigGet :: string where "cmdConfigGet = ''cmd.config.get_''"
definition evtConfigReport :: "string \<Rightarrow> string" where "evtConfigReport setting = ''evt.config.'' @ setting @ ''_report''"

text \<open>How \<^verbatim>\<open>encoding/json\<close> writes and reads values of the Go type \<open>'v\<close> of a setting.\<close>

record 'v codec =
  co_encode :: "'v \<Rightarrow> fimp_value"
  co_decode :: "fimp_value \<Rightarrow> 'v result"

text \<open>A routing for one command of a service, whose handler has no options.\<close>

definition plain_route ::
  "fimpgo \<Rightarrow> string \<Rightarrow> string \<Rightarrow> (message \<Rightarrow> ('w, fimp_message option) act) \<Rightarrow> 'w routing" where
  "plain_route fg serviceName cmd h =
     NewRouting (Some (handler_Handle fg (NewMessageHandler (act_processor h) []))) [ForService serviceName, ForType cmd]"

definition handleConfigGetReport ::
  "fimpgo \<Rightarrow> string \<Rightarrow> ('w \<Rightarrow> fimp_value) \<Rightarrow> message \<Rightarrow> ('w, fimp_message option) act" where
  "handleConfigGetReport fg serviceName getter msg =
     act_get (\<lambda>w. Some (fg_NewMessage fg EvtConfigReport serviceName (fg_VTypeObject fg) (getter w) [] (Some (ms_Payload msg))))"

definition RouteCmdConfigGetReport :: "fimpgo \<Rightarrow> string \<Rightarrow> ('w \<Rightarrow> fimp_value) \<Rightarrow> 'w routing" where
  "RouteCmdConfigGetReport fg serviceName getter =
     plain_route fg serviceName CmdConfigGetReport (handleConfigGetReport fg serviceName getter)"

definition getMessageValue :: "'v codec \<Rightarrow> message \<Rightarrow> 'v result" where
  "getMessageValue co msg =
     wrap_err ''config: failed to unmarshal message value'' (co_decode co (pl_Value (ms_Payload msg)))"

definition handleConfigGet ::
  "fimpgo \<Rightarrow> 'v codec \<Rightarrow> string \<Rightarrow> string \<Rightarrow> string \<Rightarrow> ('w \<Rightarrow> 'v) \<Rightarrow> message \<Rightarrow> ('w, fimp_message option) act" where
  "handleConfigGet fg co serviceName setting valueType getter msg =
     act_get (\<lambda>w. Some (fg_NewMessage fg (evtConfigReport setting) serviceName (valueType) (co_encode co (getter w)) []
       (Some (ms_Payload msg))))"

text \<open>The options of a routing: the event manager that is told of changes, the last one given.\<close>

type_synonym 'w routing_options = "(configuration_change base_body event \<Rightarrow> ('w, unit) act) option"
type_synonym 'w routing_option = "'w routing_options \<Rightarrow> 'w routing_options"

definition WithConfigurationChangeEvent :: "(configuration_change base_body event \<Rightarrow> ('w, unit) act) \<Rightarrow> 'w routing_option" where
  "WithConfigurationChangeEvent eventManager opts = Some eventManager"

definition getRoutingOptions :: "'w routing_option list \<Rightarrow> 'w routing_options" where
  "getRoutingOptions options = foldl (\<lambda>opts opt. opt opts) None options"

definition handleConfigSet ::
  "fimpgo \<Rightarrow> 'v codec \<Rightarrow> string \<Rightarrow> string \<Rightarrow> string \<Rightarrow> ('v \<Rightarrow> ('w, unit) act) \<Rightarrow> 'w routing_option list
   \<Rightarrow> message \<Rightarrow> ('w, fimp_message option) act" where
  "handleConfigSet fg co serviceName setting valueType setter options msg =
     (if valueType \<noteq> pl_ValueType (ms_Payload msg)
      then act_fail (Errorf (''config: message value type '' @ pl_ValueType (ms_Payload msg)
        @ '' does not match the expected type '' @ valueType))
      else
        act_bind (act_result (getMessageValue co msg)) (\<lambda>v.
        act_bind (setter v) (\<lambda>_.
        act_bind (case getRoutingOptions options of
            None \<Rightarrow> act_return ()
          | Some publish \<Rightarrow> publish (NewConfigurationChangeEvent serviceName setting)) (\<lambda>_.
        act_return (Some (fg_NewMessage fg (evtConfigReport setting) serviceName (valueType) (co_encode co v) []
          (Some (ms_Payload msg))))))))"

definition routeCmdConfigGet :: "fimpgo \<Rightarrow> 'v codec \<Rightarrow> string \<Rightarrow> string \<Rightarrow> string \<Rightarrow> ('w \<Rightarrow> 'v) \<Rightarrow> 'w routing" where
  "routeCmdConfigGet fg co serviceName setting valueType getter =
     plain_route fg serviceName (cmdConfigGet @ setting) (handleConfigGet fg co serviceName setting valueType getter)"

definition routeCmdConfigSet ::
  "fimpgo \<Rightarrow> 'v codec \<Rightarrow> string \<Rightarrow> string \<Rightarrow> string \<Rightarrow> ('v \<Rightarrow> ('w, unit) act) \<Rightarrow> 'w routing_option list \<Rightarrow> 'w routing" where
  "routeCmdConfigSet fg co serviceName setting valueType setter options =
     plain_route fg serviceName (cmdConfigSet @ setting) (handleConfigSet fg co serviceName setting valueType setter options)"

text \<open>The routings by the kind of the setting.\<close>

type_synonym ('w, 'v) get_route = "fimpgo \<Rightarrow> 'v codec \<Rightarrow> string \<Rightarrow> string \<Rightarrow> ('w \<Rightarrow> 'v) \<Rightarrow> 'w routing"
type_synonym ('w, 'v) set_route = "fimpgo \<Rightarrow> 'v codec \<Rightarrow> string \<Rightarrow> string \<Rightarrow> ('v \<Rightarrow> ('w, unit) act) \<Rightarrow> 'w routing_option list \<Rightarrow> 'w routing"

definition RouteCmdConfigGetString :: "('w, 'v) get_route" where
  "RouteCmdConfigGetString fg co serviceName setting getter = routeCmdConfigGet fg co serviceName setting (fg_VTypeString fg) getter"

definition RouteCmdConfigSetString :: "('w, 'v) set_route" where
  "RouteCmdConfigSetString fg co serviceName setting setter options =
     routeCmdConfigSet fg co serviceName setting (fg_VTypeString fg) setter options"

definition RouteCmdConfigGetInt :: "('w, 'v) get_route" where
  "RouteCmdConfigGetInt fg co serviceName setting getter = routeCmdConfigGet fg co serviceName setting (fg_VTypeInt fg) getter"

definition RouteCmdConfigSetInt :: "('w, 'v) set_route" where
  "RouteCmdConfigSetInt fg co serviceName setting setter options =
     routeCmdConfigSet fg co serviceName setting (fg_VTypeInt fg) setter options"

definition RouteCmdConfigGetFloat :: "('w, 'v) get_route" where
  "RouteCmdConfigGetFloat fg co serviceName setting getter = routeCmdConfigGet fg co serviceName setting (fg_VTypeFloat fg) getter"

definition RouteCmdConfigSetFloat :: "('w, 'v) set_route" where
  "RouteCmdConfigSetFloat fg co serviceName setting setter options =
     routeCmdConfigSet fg co serviceName setting (fg_VTypeFloat fg) setter options"

definition RouteCmdConfigGetBool :: "('w, 'v) get_route" where
  "RouteCmdConfigGetBool fg co serviceName setting getter = routeCmdConfigGet fg co serviceName setting (fg_VTypeBool fg) getter"

definition RouteCmdConfigSetBool :: "('w, 'v) set_route" where
  "RouteCmdConfigSetBool fg co serviceName setting setter options =
     routeCmdConfigSet fg co serviceName setting (fg_VTypeBool fg) setter options"

definition RouteCmdConfigGetStringMap :: "('w, 'v) get_route" where
  "RouteCmdConfigGetStringMap fg co serviceName setting getter = routeCmdConfigGet fg co serviceName setting (fg_VTypeStrMap fg) getter"

definition RouteCmdConfigSetStringMap :: "('w, 'v) set_route" where
  "RouteCmdConfigSetStringMap fg co serviceName setting setter options =
     routeCmdConfigSet fg co serviceName setting (fg_VTypeStrMap fg) setter options"

definition RouteCmdConfigGetIntMap :: "('w, 'v) get_route" where
  "RouteCmdConfigGetIntMap fg co serviceName setting getter = routeCmdConfigGet fg co serviceName setting (fg_VTypeIntMap fg) getter"

definition RouteCmdConfigSetIntMap :: "('w, 'v) set_route" where
  "RouteCmdConfigSetIntMap fg co serviceName setting setter options =
     routeCmdConfigSet fg co serviceName setting (fg_VTypeIntMap fg) setter options"

definition RouteCmdConfigGetFloatMap :: "('w, 'v) get_route" where
  "RouteCmdConfigGetFloatMap fg co serviceName setting getter = routeCmdConfigGet fg co serviceName setting (fg_VTypeFloatMap fg) getter"

definition RouteCmdConfigSetFloatMap :: "('w, 'v) set_route" where
  "RouteCmdConfigSetFloatMap fg co serviceName setting setter options =
     routeCmdConfigSet fg co serviceName setting (fg_VTypeFloatMap fg) setter options"

definition RouteCmdConfigGetBoolMap :: "('w, 'v) get_route" where
  "RouteCmdConfigGetBoolMap fg co serviceName setting getter = routeCmdConfigGet fg co serviceName setting (fg_VTypeBoolMap fg) getter"

definition RouteCmdConfigSetBoolMap :: "('w, 'v) set_route" where
  "RouteCmdConfigSetBoolMap fg co serviceName setting setter options =
     routeCmdConfigSet fg co serviceName setting (fg_VTypeBoolMap fg) setter options"

definition RouteCmdConfigGetStringArray :: "('w, 'v) get_route" where
  "RouteCmdConfigGetStringArray fg co serviceName setting getter = routeCmdConfigGet fg co serviceName setting (fg_VTypeStrArray fg) getter"

definition RouteCmdConfigSetStringArray :: "('w, 'v) set_route" where
  "RouteCmdConfigSetStringArray fg co serviceName setting setter options =
     routeCmdConfigSet fg co serviceName setting (fg_VTypeStrArray fg) setter options"

definition RouteCmdConfigGetIntArray :: "('w, 'v) get_route" where
  "RouteCmdConfigGetIntArray fg co serviceName setting getter = routeCmdConfigGet fg co serviceName setting (fg_VTypeIntArray fg) getter"

definition RouteCmdConfigSetIntArray :: "('w, 'v) set_route" where
  "RouteCmdConfigSetIntArray fg co serviceName setting setter options =
     routeCmdConfigSet fg co serviceName setting (fg_VTypeIntArray fg) setter options"

definition RouteCmdConfigGetFloatArray :: "('w, 'v) get_route" where
  "RouteCmdConfigGetFloatArray fg co serviceName setting getter = routeCmdConfigGet fg co serviceName setting (fg_VTypeFloatArray fg) getter"

definition RouteCmdConfigSetFloatArray :: "('w, 'v) set_route" where
  "RouteCmdConfigSetFloatArray fg co serviceName setting setter options =
     routeCmdConfigSet fg co serviceName setting (fg_VTypeFloatArray fg) setter options"

definition RouteCmdConfigGetBoolArray :: "('w, 'v) get_route" where
  "RouteCmdConfigGetBoolArray fg co serviceName setting getter = routeCmdConfigGet fg co serviceName setting (fg_VTypeBoolArray fg) getter"

definition RouteCmdConfigSetBoolArray :: "('w, 'v) set_route" where
  "RouteCmdConfigSetBoolArray fg co serviceName setting setter options =
     routeCmdConfigSet fg co serviceName setting (fg_VTypeBoolArray fg) setter options"

definition RouteCmdConfigGetObject :: "('w, 'v) get_route" where
  "RouteCmdConfigGetObject fg co serviceName setting getter = routeCmdConfigGet fg co serviceName setting (fg_VTypeObject fg) getter"

definition RouteCmdConfigSetObject :: "('w, 'v) set_route" where
  "RouteCmdConfigSetObject fg co serviceName setting setter options =
     routeCmdConfigSet fg co serviceName setting (fg_VTypeObject fg) setter options"

text \<open>Durations are strings: \<open>durString\<close> is \<^verbatim>\<open>Duration.String\<close>, \<open>parse\<close> is \<^verbatim>\<open>time.ParseDuration\<close>.\<close>

definition RouteCmdConfigGetDuration ::
  "fimpgo \<Rightarrow> string codec \<Rightarrow> (duration \<Rightarrow> string) \<Rightarrow> string \<Rightarrow> string \<Rightarrow> ('w \<Rightarrow> duration) \<Rightarrow> 'w routing" where
  "RouteCmdConfigGetDuration fg co durString serviceName setting getter =
     routeCmdConfigGet fg co serviceName setting (fg_VTypeString fg) (\<lambda>w. durString (getter w))"

definition duration_setter :: "(string \<Rightarrow> duration result) \<Rightarrow> (duration \<Rightarrow> ('w, unit) act) \<Rightarrow> string \<Rightarrow> ('w, unit) act" where
  "duration_setter parse rawSetter v =
     act_bind (act_wrap ''config: failed to parse duration'' (act_result (parse v))) rawSetter"

definition RouteCmdConfigSetDuration ::
  "fimpgo \<Rightarrow> string codec \<Rightarrow> (string \<Rightarrow> duration result) \<Rightarrow> string \<Rightarrow> string \<Rightarrow> (duration \<Rightarrow> ('w, unit) act)
   \<Rightarrow> 'w routing_option list \<Rightarrow> 'w routing" where
  "RouteCmdConfigSetDuration fg co parse serviceName setting rawSetter options =
     routeCmdConfigSet fg co serviceName setting (fg_VTypeString fg) (duration_setter parse rawSetter) options"

section \<open>Properties\<close>

text \<open>
  C28. A migration always ends: for any list of steps that return themselves, whatever cycles they form and whatever they
  do to the configuration, \<^verbatim>\<open>Migrate\<close> returns, after at most as many steps as there are versions that
  have a step.
\<close>
theorem Migrate_terminates:
  assumes "\<And>m s. m \<in> set ms \<Longrightarrow> run_Do m s \<noteq> None"
  shows "\<exists>n err s'. Migrate ms s = Some ((n, err), s') \<and> n \<le> card (mg_From ` set ms)"
  using migrate_loop_returns [OF assms, where v = "fst s" and w = "snd s" and seen = "[]" and applied = 0]
  by (simp add: Migrate_def)

text \<open>
  C29. A migration that ends without an error has brought the configuration up to date: there is no step from the version
  that is reached, and the number returned is the length of the chain of steps that were run, one after another,
  each from the version its predecessor leads to, none twice.
\<close>
theorem Migrate_up_to_date:
  assumes "Migrate ms (v, w) = Some ((n, None), (v', w'))"
  shows "v' \<notin> mg_From ` set ms \<and> (\<exists>path. migrates ms v w path v' w' \<and> n = length path \<and> distinct (map mg_From path))"
  using migrate_loop_path [OF assms [unfolded Migrate_def]] by auto

text \<open>
  C13. What a setting's validators do not accept never reaches its setter: a command that sets a setting either fails
  and changes nothing, or its value has the type of the setting and satisfies all validators; then the setter was called
  with it, the change is announced only after the setter has accepted the value, and the reply shows the value.
\<close>
theorem config_set_guarded:
  assumes "handleConfigSet fg co serviceName setting valueType (Validate raw vs) options msg w = Some (r, w')"
  shows "isl r \<and> w' = w \<or>
    (\<exists>v r1 w1. valueType = pl_ValueType (ms_Payload msg) \<and> co_decode co (pl_Value (ms_Payload msg)) = Inr v
      \<and> list_all (\<lambda>f. f v = Inr ()) vs \<and> raw v w = Some (r1, w1)
      \<and> (case r1 of
           Inl e \<Rightarrow> r = Inl e \<and> w' = w1
         | Inr _ \<Rightarrow>
             (case getRoutingOptions options of
                None \<Rightarrow> w' = w1 \<and> r = Inr (Some (fg_NewMessage fg (evtConfigReport setting) serviceName valueType (co_encode co v) []
                    (Some (ms_Payload msg))))
              | Some publish \<Rightarrow> \<exists>r2. publish (NewConfigurationChangeEvent serviceName setting) w1 = Some (r2, w')
                  \<and> (isl r \<or> r = Inr (Some (fg_NewMessage fg (evtConfigReport setting) serviceName valueType (co_encode co v) []
                      (Some (ms_Payload msg))))))))"
proof (cases "valueType = pl_ValueType (ms_Payload msg) \<and> (\<exists>v. co_decode co (pl_Value (ms_Payload msg)) = Inr v \<and> first_error vs v = Inr ())")
  case False
  then have "isl r \<and> w' = w"
    using assms
    by (cases "co_decode co (pl_Value (ms_Payload msg))")
      (auto simp: handleConfigSet_def getMessageValue_def Validate_def act_result_def act_bind_def act_wrap_def wrap_err_def
        split: if_splits sum.splits)
  then show ?thesis by blast
next
  case True
  then obtain v where v: "valueType = pl_ValueType (ms_Payload msg)" "co_decode co (pl_Value (ms_Payload msg)) = Inr v"
    "first_error vs v = Inr ()" by blast
  then have run: "act_bind (raw v) (\<lambda>_. act_bind (case getRoutingOptions options of None \<Rightarrow> act_return ()
        | Some publish \<Rightarrow> publish (NewConfigurationChangeEvent serviceName setting)) (\<lambda>_.
      act_return (Some (fg_NewMessage fg (evtConfigReport setting) serviceName valueType (co_encode co v) [] (Some (ms_Payload msg)))))) w
      = Some (r, w')"
    using assms by (simp add: handleConfigSet_def getMessageValue_def Validate_def act_bind_assoc act_result_def act_wrap_def)
  obtain r1 w1 where raw: "raw v w = Some (r1, w1)" using run by (cases "raw v w") auto
  then have "case r1 of Inl e \<Rightarrow> r = Inl e \<and> w' = w1 | Inr _ \<Rightarrow>
      (case getRoutingOptions options of
         None \<Rightarrow> w' = w1 \<and> r = Inr (Some (fg_NewMessage fg (evtConfigReport setting) serviceName valueType (co_encode co v) []
           (Some (ms_Payload msg))))
       | Some publish \<Rightarrow> \<exists>r2. publish (NewConfigurationChangeEvent serviceName setting) w1 = Some (r2, w')
           \<and> (isl r \<or> r = Inr (Some (fg_NewMessage fg (evtConfigReport setting) serviceName valueType (co_encode co v) []
             (Some (ms_Payload msg))))))"
    using run by (auto simp: act_bind_def split: sum.splits option.splits)
  with v raw show ?thesis by (auto simp: first_error_iff list_all_iff)
qed

section \<open>Instances\<close>

definition demo_steps :: "string migration list" where
  "demo_steps =
     [\<lparr>mg_From = 1, mg_To = 2, mg_Do = Some (\<lambda>(v, w). Some (Inr (), (v, w @ ''a'')))\<rparr>, \<lparr>mg_From = 0, mg_To = 1, mg_Do = None\<rparr>,
      \<lparr>mg_From = 5, mg_To = 0, mg_Do = None\<rparr>]"

lemma demo_steps_run: "m \<in> set demo_steps \<Longrightarrow> run_Do m s \<noteq> None"
  by (cases s) (auto simp: demo_steps_def run_Do_def)

lemma demo_migration: "Migrate demo_steps (0, ''x'') = Some ((2, None), (2, ''xa''))"
  by (simp add: Migrate_def demo_steps_def migrate_loop.simps run_Do_def)

theorem Migrate_terminates_witness:
  "\<exists>n err s'. Migrate demo_steps (0, ''x'') = Some ((n, err), s') \<and> n \<le> 3"
  using Migrate_terminates [of demo_steps "(0, ''x'')"] demo_steps_run by (auto simp: demo_steps_def)

theorem Migrate_up_to_date_witness:
  "\<exists>path. migrates demo_steps 0 ''x'' path 2 ''xa'' \<and> length path = 2"
  using Migrate_up_to_date [OF demo_migration] by auto

definition int_codec :: "int codec" where
  "int_codec = \<lparr>co_encode = VInt, co_decode = (\<lambda>v. case v of VInt i \<Rightarrow> Inr i | _ \<Rightarrow> Inl (Errorf ''not an integer''))\<rparr>"

definition demo_set :: "int \<Rightarrow> message" where
  "demo_set i = \<lparr>ms_Topic = ''t'', ms_Addr = demo_address,
     ms_Payload = demo_NewMessage ''cmd.config.set_limit'' ''app'' ''int'' (VInt i) [] None\<rparr>"

theorem config_set_guarded_witness:
  "\<exists>e. handleConfigSet demo_fimpgo int_codec ''app'' ''limit'' ''int'' (Validate (\<lambda>v w. Some (Inr (), v)) [Between Itoa 1 10]) []
      (demo_set 11) 5 = Some (Inl e, 5)"
proof -
  let ?h = "handleConfigSet demo_fimpgo int_codec ''app'' ''limit'' ''int'' (Validate (\<lambda>v w. Some (Inr (), v)) [Between Itoa 1 10]) []"
  obtain r w' where run: "?h (demo_set 11) 5 = Some (r, w')"
    by (simp add: handleConfigSet_def getMessageValue_def Validate_def demo_set_def int_codec_def demo_NewMessage_def
        act_wrap_def act_result_def act_bind_def Between_def)
  from config_set_guarded [OF run] have "isl r \<and> w' = 5"
    by (auto simp: demo_set_def int_codec_def demo_NewMessage_def)
  with run show ?thesis by (cases r) auto
qed

end
