(* ===== verification/Config_Poll.thy ===== *)
theory Config_Poll
  imports Configuration Backoff
begin

text \<open>
  The polling of the telemetry configuration, \<^verbatim>\<open>src/telemetry/config_poll\<close>. The poller has a timer, whose callback
  sends a request to the cloud, and a goroutine that subscribes to the answers and applies them. It is a step
  relation: a step is a call of \<^verbatim>\<open>Start\<close> or \<^verbatim>\<open>Stop\<close>, a section of a callback or of a goroutine under the lock, or
  what a goroutine does between two such sections. The clock only moves forward; a step reads it once.
\<close>

definition go_minutes :: "int \<Rightarrow> duration" where
  "go_minutes n = n * (60 * 10 ^ 9)"

definition CmdGetConfig :: string where "CmdGetConfig = ''cmd.telemetry.get_config''"
definition poll_EvtConfigReport :: string where "poll_EvtConfigReport = ''evt.telemetry.config_report''"
definition ConfigRequestTopic :: string where "ConfigRequestTopic = ''pt:j1/mt:cmd/rt:cloud/rn:telemetry/ad:config''"
definition ConfigResponseTopic :: string where "ConfigResponseTopic = ''pt:j1/mt:evt/rt:cloud/rn:telemetry/ad:config''"
definition DefaultPollInterval :: duration where "DefaultPollInterval = go_minutes (6 * 60)"
definition AdditionalRandomPollIntervalRange :: duration where "AdditionalRandomPollIntervalRange = go_minutes 30"
definition MaxPollInterval :: duration where "MaxPollInterval = go_minutes (24 * 60)"
definition channelName :: string where "channelName = ''telemetry-config-poll''"

lemmas poll_intervals = DefaultPollInterval_def AdditionalRandomPollIntervalRange_def MaxPollInterval_def go_minutes_def

definition subscribeBackoff :: stateful where
  "subscribeBackoff = stateful_New (3 * 10 ^ 9) (go_minutes 1) (go_minutes 30) 1 1"

record config_response =
  cr_Enabled :: bool
  cr_Suppressed :: "(string \<times> suppressed_entry) list"
  cr_NextUpdate :: string

text \<open>
  A listening goroutine: its stop channel, and whether it is still subscribing (with its backoff and the time of
  the next attempt), receives messages, or handles a report that it has applied: it then first takes the time of the next
  update from it, and then, with the delay until then, the lock.
\<close>

datatype listen_phase = Subscribing stateful time | Listening | Applied string | Planned duration

record listen_thread =
  lt_stopCh :: nat
  lt_phase :: listen_phase

text \<open>
  The poller. Timers have numbers; \<open>po_armed\<close> are the callbacks that have not run, with their deadlines. A timer
  that is stopped may have fired before, so its callback stays there; it finds out by the number of the current
  timer. \<open>po_sending\<close> counts the callbacks that have left the lock to send a request. \<open>po_registered\<close> is the channel
  that the transport has under the name of the poller, \<open>po_subscribed\<close> whether the current \<^verbatim>\<open>subscribedCh\<close> is closed (closing
  it again panics), \<open>po_buffer\<close> the messages in the current channel, \<open>po_app\<close> the state that \<^verbatim>\<open>applyConfig\<close> acts on.
\<close>

record 'w poll =
  po_sourceRn :: string
  po_fallbackPoll :: duration
  po_requestTopic :: string
  po_timer :: "nat option"
  po_armed :: "(nat \<times> time) list"
  po_nextTimer :: nat
  po_stopped :: bool
  po_stopCh :: "nat option"
  po_closed :: "nat list"
  po_nextCh :: nat
  po_msgCh :: nat
  po_buffer :: "message list"
  po_lastReceivedAt :: time
  po_sending :: nat
  po_threads :: "listen_thread list"
  po_registered :: "nat option"
  po_subscribed :: bool
  po_panicked :: bool
  po_requests :: "(string \<times> fimp_message) list"
  po_clock :: time
  po_app :: 'w

definition poll_New :: "string \<Rightarrow> 'w \<Rightarrow> time \<Rightarrow> 'w poll" where
  "poll_New sourceRn app now =
     \<lparr>po_sourceRn = sourceRn, po_fallbackPoll = DefaultPollInterval, po_requestTopic = ConfigRequestTopic,
      po_timer = None, po_armed = [], po_nextTimer = 0, po_stopped = False, po_stopCh = None, po_closed = [],
      po_nextCh = 0, po_msgCh = 0, po_buffer = [], po_lastReceivedAt = time_zero, po_sending = 0, po_threads = [],
      po_registered = None, po_subscribed = False, po_panicked = False, po_requests = [], po_clock = now, po_app = app\<rparr>"

definition scheduleLocked :: "duration \<Rightarrow> 'w poll \<Rightarrow> 'w poll" where
  "scheduleLocked delay p =
     p\<lparr>po_timer := Some (po_nextTimer p), po_armed := (po_nextTimer p, po_clock p + delay) # po_armed p,
       po_nextTimer := Suc (po_nextTimer p)\<rparr>"

text \<open>\<^verbatim>\<open>Start\<close> makes the channels, registers one and starts the goroutine, whose first wait is that of the backoff.\<close>

definition poll_Start :: "'w poll \<Rightarrow> 'w poll result" where
  "poll_Start p =
     (if po_fallbackPoll p \<le> 0 then Inl (Errorf ''telemetry: config poll: fallback poll interval must be positive'')
      else if po_requestTopic p = '''' then Inl (Errorf ''telemetry: config poll: request topic must not be empty'')
      else if po_timer p \<noteq> None then Inr p
      else
        let (wait, bo) = stateful_Next (po_clock p) subscribeBackoff;
            p1 = p\<lparr>po_stopped := False, po_stopCh := Some (po_nextCh p), po_msgCh := Suc (po_nextCh p), po_buffer := [],
                   po_nextCh := po_nextCh p + 2, po_subscribed := False, po_registered := Some (Suc (po_nextCh p)),
                   po_threads := po_threads p @ [\<lparr>lt_stopCh = po_nextCh p, lt_phase = Subscribing bo (po_clock p + wait)\<rparr>]\<rparr>
        in Inr (scheduleLocked DefaultPollInterval p1))"

definition poll_Stop :: "'w poll \<Rightarrow> 'w poll" where
  "poll_Stop p =
     p\<lparr>po_stopped := True, po_closed := (case po_stopCh p of None \<Rightarrow> po_closed p | Some c \<Rightarrow> c # po_closed p),
       po_stopCh := None, po_timer := None\<rparr>"

text \<open>The callback of a timer: up to the sending of the request, and after it.\<close>

definition timer_callback :: "nat \<Rightarrow> 'w poll \<Rightarrow> 'w poll" where
  "timer_callback t p =
     (let p = p\<lparr>po_armed := filter (\<lambda>a. fst a \<noteq> t) (po_armed p)\<rparr> in
      if po_stopped p \<or> po_timer p \<noteq> Some t then p
      else if \<not> is_zero (po_lastReceivedAt p) \<and> time_since (po_clock p) (po_lastReceivedAt p) < AdditionalRandomPollIntervalRange
      then scheduleLocked (po_fallbackPoll p) p
      else p\<lparr>po_sending := Suc (po_sending p)\<rparr>)"

definition getConfig_message :: "fimpgo \<Rightarrow> 'w poll \<Rightarrow> fimp_message" where
  "getConfig_message fg p =
     (fg_New fg KNull CmdGetConfig (po_sourceRn p) VNull [] None)\<lparr>pl_Source := po_sourceRn p, pl_ResponseToTopic := ConfigResponseTopic\<rparr>"

text \<open>\<^verbatim>\<open>sendGetConfigCmd\<close>; \<open>sent\<close> says whether the transport accepted the request, which is only logged.\<close>

definition sendGetConfigCmd :: "fimpgo \<Rightarrow> bool \<Rightarrow> 'w poll \<Rightarrow> 'w poll" where
  "sendGetConfigCmd fg sent p =
     (let p = p\<lparr>po_sending := po_sending p - 1,
                po_requests := po_requests p @ (if sent then [(po_requestTopic p, getConfig_message fg p)] else [])\<rparr>
      in if \<not> po_stopped p then scheduleLocked (po_fallbackPoll p) p else p)"

text \<open>
  The delay until the next poll: \<open>parse\<close> is \<^verbatim>\<open>time.Parse\<close> of the RFC 3339 format, \<open>jitter\<close> the random number
  below the range.
\<close>

definition nextUpdate :: "(string \<Rightarrow> time option) \<Rightarrow> duration \<Rightarrow> duration \<Rightarrow> time \<Rightarrow> string \<Rightarrow> duration" where
  "nextUpdate parse fallbackPoll jitter now nextAt =
     (if nextAt = '''' then fallbackPoll + jitter
      else case parse nextAt of
             None \<Rightarrow> fallbackPoll + jitter
           | Some t \<Rightarrow>
               let d = time_sub t now
               in if d > 0 then min d MaxPollInterval + jitter else fallbackPoll + jitter)"

text \<open>
  The handling of an answer by the goroutine \<open>i\<close>: \<open>decode\<close> is the decoding of its object, \<open>app_fn\<close> the callback of the poller. The callback
  and the reading of the clock for the delay come before the lock is taken, and each is a step of its own.
\<close>

definition set_phase :: "nat \<Rightarrow> listen_phase \<Rightarrow> 'w poll \<Rightarrow> 'w poll" where
  "set_phase i ph p = p\<lparr>po_threads := (po_threads p)[i := (po_threads p ! i)\<lparr>lt_phase := ph\<rparr>]\<rparr>"

definition handleConfigReport ::
  "(fimp_message \<Rightarrow> config_response result) \<Rightarrow> (bool \<Rightarrow> (string \<times> suppressed_entry) list \<Rightarrow> 'w \<Rightarrow> 'w)
   \<Rightarrow> nat \<Rightarrow> fimp_message \<Rightarrow> 'w poll \<Rightarrow> 'w poll" where
  "handleConfigReport decode app_fn i payload p =
     (case decode payload of
        Inl _ \<Rightarrow> p
      | Inr cfg \<Rightarrow>
          set_phase i (Applied (cr_NextUpdate cfg)) (p\<lparr>po_app := app_fn (cr_Enabled cfg) (cr_Suppressed cfg) (po_app p)\<rparr>))"

definition plan_update :: "(string \<Rightarrow> time option) \<Rightarrow> duration \<Rightarrow> nat \<Rightarrow> string \<Rightarrow> 'w poll \<Rightarrow> 'w poll" where
  "plan_update parse jitter i nextAt p =
     set_phase i (Planned (nextUpdate parse (po_fallbackPoll p) jitter (po_clock p) nextAt)) p"

definition reschedule :: "nat \<Rightarrow> duration \<Rightarrow> 'w poll \<Rightarrow> 'w poll" where
  "reschedule i delay p =
     (let p = (set_phase i Listening p)\<lparr>po_lastReceivedAt := po_clock p\<rparr>
      in if \<not> po_stopped p then scheduleLocked delay p else p)"

text \<open>What a listening goroutine does with a message; other messages are ignored.\<close>

definition listen_message ::
  "(fimp_message \<Rightarrow> config_response result) \<Rightarrow> (bool \<Rightarrow> (string \<times> suppressed_entry) list \<Rightarrow> 'w \<Rightarrow> 'w)
   \<Rightarrow> nat \<Rightarrow> message \<Rightarrow> 'w poll \<Rightarrow> 'w poll" where
  "listen_message decode app_fn i msg p =
     (if ms_Topic msg \<noteq> ConfigResponseTopic \<or> pl_Interface (ms_Payload msg) \<noteq> poll_EvtConfigReport then p
      else handleConfigReport decode app_fn i (ms_Payload msg) p)"

text \<open>An attempt to subscribe, and the exit of the goroutine, which unregisters the channel by its name.\<close>

definition subscribe_attempt :: "bool \<Rightarrow> nat \<Rightarrow> 'w poll \<Rightarrow> 'w poll" where
  "subscribe_attempt accepted i p =
     (case lt_phase (po_threads p ! i) of
        Subscribing bo due \<Rightarrow>
          if accepted
          then (set_phase i Listening p)\<lparr>po_subscribed := True, po_panicked := po_panicked p \<or> po_subscribed p\<rparr>
          else let (wait, bo') = stateful_Next (po_clock p) bo in set_phase i (Subscribing bo' (po_clock p + wait)) p
      | _ \<Rightarrow> p)"

definition listen_exit :: "nat \<Rightarrow> 'w poll \<Rightarrow> 'w poll" where
  "listen_exit i p = p\<lparr>po_threads := take i (po_threads p) @ drop (Suc i) (po_threads p), po_registered := None\<rparr>"

inductive poll_step ::
  "fimpgo \<Rightarrow> (fimp_message \<Rightarrow> config_response result) \<Rightarrow> (string \<Rightarrow> time option) \<Rightarrow> (bool \<Rightarrow> (string \<times> suppressed_entry) list \<Rightarrow> 'w \<Rightarrow> 'w)
   \<Rightarrow> 'w poll \<Rightarrow> 'w poll \<Rightarrow> bool" for fg decode parse app_fn where
  tick: "po_clock p \<le> now \<Longrightarrow> poll_step fg decode parse app_fn p (p\<lparr>po_clock := now\<rparr>)"
| start: "poll_Start p = Inr p' \<Longrightarrow> poll_step fg decode parse app_fn p p'"
| stop: "poll_step fg decode parse app_fn p (poll_Stop p)"
| fire: "(t, due) \<in> set (po_armed p) \<Longrightarrow> due \<le> po_clock p \<Longrightarrow> poll_step fg decode parse app_fn p (timer_callback t p)"
| send: "0 < po_sending p \<Longrightarrow> poll_step fg decode parse app_fn p (sendGetConfigCmd fg sent p)"
| subscribe: "i < length (po_threads p) \<Longrightarrow> lt_phase (po_threads p ! i) = Subscribing bo due \<Longrightarrow> due \<le> po_clock p \<Longrightarrow>
    poll_step fg decode parse app_fn p (subscribe_attempt accepted i p)"
| arrive: "po_registered p = Some (po_msgCh p) \<Longrightarrow> length (po_buffer p) < 8 \<Longrightarrow>
    poll_step fg decode parse app_fn p (p\<lparr>po_buffer := po_buffer p @ [msg]\<rparr>)"
| message: "i < length (po_threads p) \<Longrightarrow> lt_phase (po_threads p ! i) = Listening \<Longrightarrow> po_buffer p = msg # msgs \<Longrightarrow>
    poll_step fg decode parse app_fn p (listen_message decode app_fn i msg (p\<lparr>po_buffer := msgs\<rparr>))"
| plan: "i < length (po_threads p) \<Longrightarrow> lt_phase (po_threads p ! i) = Applied nextAt \<Longrightarrow>
    0 \<le> jitter \<Longrightarrow> jitter < AdditionalRandomPollIntervalRange \<Longrightarrow>
    poll_step fg decode parse app_fn p (plan_update parse jitter i nextAt p)"
| rescheduled: "i < length (po_threads p) \<Longrightarrow> lt_phase (po_threads p ! i) = Planned delay \<Longrightarrow>
    poll_step fg decode parse app_fn p (reschedule i delay p)"
| exit: "i < length (po_threads p) \<Longrightarrow> (case lt_phase (po_threads p ! i) of Subscribing _ _ \<Rightarrow> True | Listening \<Rightarrow> True | _ \<Rightarrow> False) \<Longrightarrow>
    lt_stopCh (po_threads p ! i) \<in> set (po_closed p) \<Longrightarrow>
    poll_step fg decode parse app_fn p (listen_exit i p)"

abbreviation poll_reach where
  "poll_reach fg decode parse app_fn p0 \<equiv> (poll_step fg decode parse app_fn)\<^sup>*\<^sup>* p0"

section \<open>The next poll is always ahead\<close>

text \<open>
  The current timer of a running poller is armed with a deadline at most one maximal delay ahead, unless its callback
  is sending a request. The delays that are planned are not longer.
\<close>

definition poll_horizon :: duration where
  "poll_horizon = MaxPollInterval + AdditionalRandomPollIntervalRange"

definition plans_ok :: "'w poll \<Rightarrow> bool" where
  "plans_ok p \<longleftrightarrow> (\<forall>th \<in> set (po_threads p). \<forall>d. lt_phase th = Planned d \<longrightarrow> 0 \<le> d \<and> d \<le> poll_horizon)"

definition poll_inv :: "'w poll \<Rightarrow> bool" where
  "poll_inv p \<longleftrightarrow> po_fallbackPoll p = DefaultPollInterval \<and> po_requestTopic p \<noteq> '''' \<and> plans_ok p
    \<and> (\<forall>(t, due) \<in> set (po_armed p). t < po_nextTimer p \<and> due \<le> po_clock p + poll_horizon)
    \<and> (\<forall>t. po_timer p = Some t \<longrightarrow> t < po_nextTimer p)
    \<and> (\<not> po_stopped p \<longrightarrow> po_timer p = None \<and> po_stopCh p = None
        \<or> (\<exists>t. po_timer p = Some t \<and> (t \<in> fst ` set (po_armed p) \<or> 0 < po_sending p)))"

lemma nextUpdate_bounds:
  assumes "0 \<le> jitter" "jitter < AdditionalRandomPollIntervalRange" "0 < fallbackPoll" "fallbackPoll \<le> MaxPollInterval"
  shows "0 < nextUpdate parse fallbackPoll jitter now nextAt" "nextUpdate parse fallbackPoll jitter now nextAt \<le> poll_horizon"
  using assms by (auto simp: nextUpdate_def poll_horizon_def Let_def poll_intervals split: option.splits)

lemma schedule_inv:
  assumes "0 \<le> delay" "delay \<le> poll_horizon" "po_fallbackPoll p = DefaultPollInterval" "po_requestTopic p \<noteq> ''''" "plans_ok p"
    "\<forall>(t, due) \<in> set (po_armed p). t < po_nextTimer p \<and> due \<le> po_clock p + poll_horizon"
  shows "poll_inv (scheduleLocked delay p)"
  using assms by (force simp: poll_inv_def scheduleLocked_def plans_ok_def)

lemma horizon_default: "0 \<le> DefaultPollInterval" "DefaultPollInterval \<le> poll_horizon"
  by (simp_all add: poll_horizon_def poll_intervals)

lemma plans_ok_cong: "po_threads p' = po_threads p \<Longrightarrow> plans_ok p' = plans_ok p"
  by (simp add: plans_ok_def)

lemma plans_ok_phase:
  assumes "plans_ok p" "\<And>d. ph = Planned d \<Longrightarrow> 0 \<le> d \<and> d \<le> poll_horizon"
  shows "plans_ok (set_phase i ph p)"
  using assms set_update_subset_insert [of "po_threads p" i "(po_threads p ! i)\<lparr>lt_phase := ph\<rparr>"]
  by (fastforce simp: plans_ok_def set_phase_def)

lemma set_phase_simps [simp]:
  "po_fallbackPoll (set_phase i ph p) = po_fallbackPoll p" "po_requestTopic (set_phase i ph p) = po_requestTopic p"
  "po_armed (set_phase i ph p) = po_armed p" "po_nextTimer (set_phase i ph p) = po_nextTimer p" "po_clock (set_phase i ph p) = po_clock p"
  "po_timer (set_phase i ph p) = po_timer p" "po_stopped (set_phase i ph p) = po_stopped p" "po_stopCh (set_phase i ph p) = po_stopCh p"
  "po_sending (set_phase i ph p) = po_sending p"
  by (simp_all add: set_phase_def)

text \<open>Most of the steps leave what the invariant reads besides the threads alone.\<close>

lemma poll_inv_frame:
  assumes "poll_inv p" "plans_ok p'" "po_fallbackPoll p' = po_fallbackPoll p" "po_requestTopic p' = po_requestTopic p"
    "po_armed p' = po_armed p" "po_nextTimer p' = po_nextTimer p" "po_clock p \<le> po_clock p'" "po_timer p' = po_timer p"
    "po_stopped p' = po_stopped p" "po_stopCh p' = po_stopCh p" "po_sending p' = po_sending p"
  shows "poll_inv p'"
  using assms by (fastforce simp: poll_inv_def)

lemma poll_inv_New: "poll_inv (poll_New sourceRn app_state now)"
  by (simp add: poll_inv_def poll_New_def ConfigRequestTopic_def plans_ok_def)

lemma poll_inv_Start: "poll_inv p \<Longrightarrow> poll_Start p = Inr p' \<Longrightarrow> poll_inv p'"
  by (auto simp: poll_Start_def Let_def split: if_splits prod.splits intro!: schedule_inv horizon_default)
    (auto simp: poll_inv_def plans_ok_def)

lemma poll_inv_Stop: "poll_inv p \<Longrightarrow> poll_inv (poll_Stop p)"
  by (auto simp: poll_inv_def poll_Stop_def plans_ok_def)

lemma poll_inv_fire: "poll_inv p \<Longrightarrow> poll_inv (timer_callback t p)"
  by (auto simp: timer_callback_def Let_def intro!: schedule_inv horizon_default) (auto simp: poll_inv_def plans_ok_def horizon_default)

lemma poll_inv_send: "poll_inv p \<Longrightarrow> poll_inv (sendGetConfigCmd fg sent p)"
  by (auto simp: sendGetConfigCmd_def Let_def intro!: schedule_inv) (auto simp: poll_inv_def plans_ok_def horizon_default)

lemma poll_inv_phase:
  assumes "poll_inv p" "\<And>d. ph = Planned d \<Longrightarrow> 0 \<le> d \<and> d \<le> poll_horizon"
  shows "poll_inv (set_phase i ph p)"
  by (rule poll_inv_frame [OF assms(1) plans_ok_phase]) (use assms in \<open>auto simp: poll_inv_def\<close>)

lemma poll_inv_message: "poll_inv p \<Longrightarrow> poll_inv (listen_message decode app_fn i msg p)"
proof -
  assume inv: "poll_inv p"
  have "poll_inv (p\<lparr>po_app := w\<rparr>)" for w
    by (rule poll_inv_frame [OF inv]) (use inv in \<open>simp_all add: poll_inv_def plans_ok_def\<close>)
  then have "poll_inv (set_phase i (Applied a) (p\<lparr>po_app := w\<rparr>))" for a w by (intro poll_inv_phase) auto
  with inv show ?thesis by (simp add: listen_message_def handleConfigReport_def split: sum.split)
qed

lemma poll_inv_plan:
  assumes "poll_inv p" "0 \<le> jitter" "jitter < AdditionalRandomPollIntervalRange"
  shows "poll_inv (plan_update parse jitter i nextAt p)"
proof -
  have "0 < nextUpdate parse (po_fallbackPoll p) jitter (po_clock p) a" "nextUpdate parse (po_fallbackPoll p) jitter (po_clock p) a \<le> poll_horizon" for a
    using assms nextUpdate_bounds [OF assms(2,3)] by (simp_all add: poll_inv_def poll_intervals)
  then show ?thesis using assms(1) by (auto simp: plan_update_def less_imp_le intro!: poll_inv_phase)
qed

lemma poll_inv_reschedule:
  assumes "poll_inv p" "i < length (po_threads p)" "lt_phase (po_threads p ! i) = Planned delay"
  shows "poll_inv (reschedule i delay p)"
proof -
  let ?p = "(set_phase i Listening p)\<lparr>po_lastReceivedAt := po_clock p\<rparr>"
  have d: "0 \<le> delay" "delay \<le> poll_horizon" using assms by (auto simp: poll_inv_def plans_ok_def)
  have plans: "plans_ok ?p"
    using plans_ok_phase [of p Listening i] assms(1) by (simp add: poll_inv_def plans_ok_def)
  have "poll_inv ?p" by (rule poll_inv_frame [OF assms(1) plans]) simp_all
  moreover have "poll_inv (scheduleLocked delay ?p)"
    using d plans assms(1) by (intro schedule_inv) (auto simp: poll_inv_def)
  ultimately show ?thesis by (simp add: reschedule_def Let_def)
qed

lemma poll_inv_step: "poll_step fg decode parse app_fn p p' \<Longrightarrow> poll_inv p \<Longrightarrow> poll_inv p'"
proof (induction rule: poll_step.induct)
  case (tick p now)
  show ?case by (rule poll_inv_frame [OF tick.prems]) (use tick in \<open>simp_all add: poll_inv_def plans_ok_def\<close>)
next
  case (subscribe i p bo due accepted)
  have "poll_inv (set_phase i ph p)" if "\<And>d. ph \<noteq> Planned d" for ph
    using poll_inv_phase [OF subscribe.prems, of ph i] that by simp
  note phase = this
  have inv: "poll_inv (set_phase i Listening p)" by (rule phase) simp
  have "poll_inv ((set_phase i Listening p)\<lparr>po_subscribed := b, po_panicked := c\<rparr>)" for b c
    by (rule poll_inv_frame [OF inv]) (use inv in \<open>simp_all add: poll_inv_def plans_ok_def\<close>)
  with phase subscribe.prems show ?case by (simp add: subscribe_attempt_def split: listen_phase.splits prod.splits)
next
  case (arrive p msg)
  from arrive.prems show ?case by (rule poll_inv_frame) (use arrive.prems in \<open>simp_all add: poll_inv_def plans_ok_def\<close>)
next
  case (message i p msg msgs)
  from message.prems have "poll_inv (p\<lparr>po_buffer := msgs\<rparr>)"
    by (rule poll_inv_frame) (use message.prems in \<open>simp_all add: poll_inv_def plans_ok_def\<close>)
  then show ?case by (rule poll_inv_message)
next
  case (exit i p)
  have "plans_ok (listen_exit i p)"
    using exit.prems by (auto simp: poll_inv_def plans_ok_def listen_exit_def dest: in_set_takeD in_set_dropD)
  from poll_inv_frame [OF exit.prems this] show ?case by (simp add: listen_exit_def)
qed (auto intro: poll_inv_Start poll_inv_Stop poll_inv_fire poll_inv_send poll_inv_plan poll_inv_reschedule)

text \<open>
  C30. Polling never dries up: in every state that a poller can reach, whatever messages arrive, get lost or cannot be sent
  and however often it is stopped and started, if it is running its current timer is due within the
  largest delay (a day and half an hour), or a callback is sending a request and will set the next one.
\<close>
theorem poll_always_ahead:
  assumes "poll_reach fg decode parse app_fn (poll_New sourceRn app_state now) p" "\<not> po_stopped p" "po_timer p \<noteq> None"
  shows "\<exists>t. po_timer p = Some t
    \<and> ((\<exists>due. (t, due) \<in> set (po_armed p) \<and> due \<le> po_clock p + poll_horizon) \<or> 0 < po_sending p)"
proof -
  from assms(1) have "poll_inv p"
    by (induction rule: rtranclp_induct) (auto intro: poll_inv_step poll_inv_New)
  with assms(2,3) show ?thesis by (fastforce simp: poll_inv_def)
qed

section \<open>Stopping and starting again\<close>

lemma poll_reach_step:
  "poll_reach fg decode parse app_fn p0 p \<Longrightarrow> poll_step fg decode parse app_fn p p' \<Longrightarrow> poll_reach fg decode parse app_fn p0 p'"
  by (rule rtranclp.rtrancl_into_rtrancl)

lemma reach_started:
  assumes "poll_reach fg decode parse app_fn p0 p" "po_timer p = None" "po_fallbackPoll p = DefaultPollInterval" "po_requestTopic p \<noteq> ''''"
  shows "\<exists>p' bo due. poll_reach fg decode parse app_fn p0 p' \<and> poll_Start p = Inr p'
    \<and> po_threads p' = po_threads p @ [\<lparr>lt_stopCh = po_nextCh p, lt_phase = Subscribing bo due\<rparr>]
    \<and> \<not> po_stopped p' \<and> po_stopCh p' = Some (po_nextCh p) \<and> po_closed p' = po_closed p \<and> po_nextCh p' = po_nextCh p + 2
    \<and> po_subscribed p' = False \<and> po_buffer p' = [] \<and> po_fallbackPoll p' = DefaultPollInterval \<and> po_requestTopic p' = po_requestTopic p"
proof -
  have "\<exists>p' bo due. poll_Start p = Inr p'
    \<and> po_threads p' = po_threads p @ [\<lparr>lt_stopCh = po_nextCh p, lt_phase = Subscribing bo due\<rparr>]
    \<and> \<not> po_stopped p' \<and> po_stopCh p' = Some (po_nextCh p) \<and> po_closed p' = po_closed p \<and> po_nextCh p' = po_nextCh p + 2
    \<and> po_subscribed p' = False \<and> po_buffer p' = [] \<and> po_fallbackPoll p' = DefaultPollInterval \<and> po_requestTopic p' = po_requestTopic p"
    using assms(2-4) by (auto simp: poll_Start_def Let_def scheduleLocked_def poll_intervals split: prod.splits)
  with assms(1) show ?thesis by (blast intro: poll_reach_step poll_step.start)
qed

lemma reach_subscribed:
  assumes "poll_reach fg decode parse app_fn p0 p" "i < length (po_threads p)" "lt_phase (po_threads p ! i) = Subscribing bo due"
  shows "\<exists>p' now. poll_reach fg decode parse app_fn p0 p'
    \<and> p' = p\<lparr>po_clock := now, po_threads := (po_threads p)[i := (po_threads p ! i)\<lparr>lt_phase := Listening\<rparr>], po_subscribed := True,
          po_panicked := po_panicked p \<or> po_subscribed p\<rparr>"
proof -
  let ?p1 = "p\<lparr>po_clock := max (po_clock p) due\<rparr>"
  have "poll_reach fg decode parse app_fn p0 ?p1"
    using assms(1) by (rule poll_reach_step) (simp add: poll_step.tick)
  moreover have "poll_step fg decode parse app_fn ?p1 (subscribe_attempt True i ?p1)"
    using assms(2,3) by (intro poll_step.subscribe) auto
  ultimately have "poll_reach fg decode parse app_fn p0 (subscribe_attempt True i ?p1)" by (rule poll_reach_step)
  with assms(3) show ?thesis
    by (intro exI [of _ "subscribe_attempt True i ?p1"] exI [of _ "max (po_clock p) due"]) (simp add: subscribe_attempt_def set_phase_def)
qed

text \<open>
  A poller that is stopped and started again can go deaf: the goroutine of the first start unregisters
  the channel by its name when it ends, and so removes the channel of the second. The poller then runs, its only goroutine has
  subscribed and listens, its stop channel is open, and there is no channel, so no answer is ever
  received, whatever step comes next.
\<close>
theorem restart_can_deafen:
  "\<exists>p th. poll_reach fg decode parse app_fn (poll_New sourceRn app_state now) p \<and> \<not> po_stopped p
    \<and> po_threads p = [th] \<and> lt_phase th = Listening \<and> po_stopCh p = Some (lt_stopCh th) \<and> lt_stopCh th \<notin> set (po_closed p)
    \<and> po_registered p = None \<and> po_buffer p = []"
proof -
  let ?p0 = "poll_New sourceRn app_state now"
  have "po_timer ?p0 = None" "po_fallbackPoll ?p0 = DefaultPollInterval" "po_requestTopic ?p0 \<noteq> ''''" "po_threads ?p0 = []" "po_closed ?p0 = []"
    "po_nextCh ?p0 = 0"
    by (simp_all add: poll_New_def ConfigRequestTopic_def)
  then obtain p1 bo1 due1 where p1: "poll_reach fg decode parse app_fn ?p0 p1"
    "po_threads p1 = [\<lparr>lt_stopCh = 0, lt_phase = Subscribing bo1 due1\<rparr>]" "po_stopCh p1 = Some 0" "po_closed p1 = []"
    "po_nextCh p1 = 2" "po_fallbackPoll p1 = DefaultPollInterval" "po_requestTopic p1 \<noteq> ''''"
    using reach_started [of fg decode parse app_fn ?p0 ?p0] by fastforce
  let ?p2 = "poll_Stop p1"
  have p2: "poll_reach fg decode parse app_fn ?p0 ?p2" using p1(1) poll_step.stop by (rule poll_reach_step)
  have s2: "po_threads ?p2 = [\<lparr>lt_stopCh = 0, lt_phase = Subscribing bo1 due1\<rparr>]" "po_closed ?p2 = [0]" "po_nextCh ?p2 = 2"
    "po_timer ?p2 = None" "po_fallbackPoll ?p2 = DefaultPollInterval" "po_requestTopic ?p2 \<noteq> ''''"
    using p1 by (simp_all add: poll_Stop_def)
  from reach_started [OF p2 s2(4-6)] s2(1-3) obtain p3 bo3 due3 where p3: "poll_reach fg decode parse app_fn ?p0 p3"
    "po_threads p3 = [\<lparr>lt_stopCh = 0, lt_phase = Subscribing bo1 due1\<rparr>, \<lparr>lt_stopCh = 2, lt_phase = Subscribing bo3 due3\<rparr>]"
    "\<not> po_stopped p3" "po_stopCh p3 = Some 2" "po_closed p3 = [0]" "po_buffer p3 = []" by auto
  from reach_subscribed [OF p3(1), of 1 bo3 due3] p3(2) obtain p4 where p4: "poll_reach fg decode parse app_fn ?p0 p4"
    "po_threads p4 = [\<lparr>lt_stopCh = 0, lt_phase = Subscribing bo1 due1\<rparr>, \<lparr>lt_stopCh = 2, lt_phase = Listening\<rparr>]"
    "\<not> po_stopped p4" "po_stopCh p4 = Some 2" "po_closed p4 = [0]" "po_buffer p4 = []"
    using p3 by auto
  have "poll_step fg decode parse app_fn p4 (listen_exit 0 p4)" using p4 by (intro poll_step.exit) auto
  with p4(1) have "poll_reach fg decode parse app_fn ?p0 (listen_exit 0 p4)" by (rule poll_reach_step)
  then show ?thesis using p4 by (intro exI [of _ "listen_exit 0 p4"]) (simp add: listen_exit_def)
qed

section \<open>Instances\<close>

theorem poll_always_ahead_witness:
  "\<exists>p t. poll_reach demo_fimpgo (\<lambda>_. Inl (Errorf ''no object'')) (\<lambda>_. None) (\<lambda>_ _ u. u) (poll_New ''app'' () 5) p
    \<and> po_timer p = Some t \<and> ((\<exists>due. (t, due) \<in> set (po_armed p) \<and> due \<le> po_clock p + poll_horizon) \<or> 0 < po_sending p)"
proof -
  obtain p where p: "poll_Start (poll_New ''app'' () 5) = Inr p" "po_timer p \<noteq> None" "\<not> po_stopped p"
    by (cases "stateful_Next 5 subscribeBackoff")
      (auto simp: poll_Start_def poll_New_def Let_def scheduleLocked_def poll_intervals ConfigRequestTopic_def split: prod.splits)
  have r: "poll_reach demo_fimpgo (\<lambda>_. Inl (Errorf ''no object'')) (\<lambda>_. None) (\<lambda>_ _ u. u) (poll_New ''app'' () 5) p"
    using poll_step.start [OF p(1)] by (rule r_into_rtranclp)
  from poll_always_ahead [OF r p(3) p(2)] r show ?thesis by blast
qed

end
