(* ===== verification/Telemetry.thy ===== *)
theory Telemetry
  imports Config_Poll
begin

text \<open>
  Telemetry, \<^verbatim>\<open>src/telemetry\<close>: events that an application sends to the cloud while it is enabled, for a limited
  time, unless they are suppressed or throttled; its routing (\<^verbatim>\<open>routing.go\<close>) and constants (\<^verbatim>\<open>defs.go\<close>). The
  operations hold the lock while they change the state, so each is one action; an operation reads the clock once.
\<close>

definition telemetryInterface :: string where "telemetryInterface = ''evt.telemetry.report''"
definition telemetryReportEvtTopic :: string where
  "telemetryReportEvtTopic = ''pt:j1/mt:rsp/rt:cloud/rn:backend-service/ad:telemetry''"
definition DomainPanic :: string where "DomainPanic = ''panic''"
definition DomainReboot :: string where "DomainReboot = ''reboot''"
definition EventRebootMilestone :: string where "EventRebootMilestone = ''milestone''"
definition restartMilestoneStep :: int where "restartMilestoneStep = 500"
definition defaultTelemetryValidity :: duration where "defaultTelemetryValidity = go_minutes (30 * 24 * 60)"

type_synonym event_data = "(string \<times> fimp_value) list"

definition telemetry_event_value :: "string \<Rightarrow> string \<Rightarrow> event_data \<Rightarrow> fimp_value" where
  "telemetry_event_value event domain data =
     VObject ([(''event'', VString event)] @ (if domain = '''' then [] else [(''domain'', VString domain)])
       @ (if data = [] then [] else [(''data'', VObject data)]))"

record if_more_state =
  im_count :: int
  im_last :: time
  im_data :: event_data

text \<open>
  The state: the store of the settings, the timer of the validity (a number; \<open>te_armed\<close> are the callbacks that have not
  run, with their deadlines; one that was stopped may be among them), the times of the throttled events, the counters,
  and what was published. \<open>te_publishErr\<close> is what the transport answers to each attempt.
\<close>

record telemetry =
  te_sourceRn :: string
  te_store :: default_store
  te_topic :: string
  te_timer :: "nat option"
  te_armed :: "(nat \<times> time) list"
  te_nextTimer :: nat
  te_emitTimestamps :: "(string \<times> time) list"
  te_ifMoreStates :: "(string \<times> if_more_state) list"
  te_published :: "(string \<times> fimp_message) list"
  te_publishErr :: "nat \<Rightarrow> go_error option"
  te_publishes :: nat
  te_clock :: time

type_synonym 'a tel_act = "(telemetry, 'a) act"

definition validityOrDefault :: "telemetry_config \<Rightarrow> duration" where
  "validityOrDefault c = (if tc_Validity c > 0 then tc_Validity c else defaultTelemetryValidity)"

definition tel_config :: "telemetry \<Rightarrow> telemetry_config" where
  "tel_config t = (case store_Telemetry (te_store t) of Inl _ \<Rightarrow> zero_telemetry | Inr c \<Rightarrow> c)"

definition tel_SetTelemetry :: "telemetry_config \<Rightarrow> unit tel_act" where
  "tel_SetTelemetry cfg t =
     map_option (\<lambda>(r, s). (r, t\<lparr>te_store := s\<rparr>)) (store_SetTelemetry cfg (te_clock t) (te_store t))"

section \<open>Emitting events\<close>

definition tel_publish :: "fimpgo \<Rightarrow> string \<Rightarrow> string \<Rightarrow> event_data \<Rightarrow> unit tel_act" where
  "tel_publish fg domain event data t =
     (if event = '''' then Some (Inl (Errorf ''telemetry: event name is required''), t)
      else
        let msg = (fg_New fg KObject telemetryInterface (te_sourceRn t) (telemetry_event_value event domain data) [] None)
                    \<lparr>pl_Source := te_sourceRn t\<rparr>;
            t' = t\<lparr>te_publishes := Suc (te_publishes t)\<rparr>
        in case te_publishErr t (te_publishes t) of
             Some e \<Rightarrow> Some (Inl (Wrapf ''telemetry: publish event'' e), t')
           | None \<Rightarrow> Some (Inr (), t'\<lparr>te_published := te_published t @ [(te_topic t, msg)]\<rparr>))"

definition is_suppressed :: "telemetry_config \<Rightarrow> string \<Rightarrow> string \<Rightarrow> bool" where
  "is_suppressed cfg domain event =
     (case tc_Suppressed cfg of
        None \<Rightarrow> False
      | Some s \<Rightarrow> su_Domains s = [] \<and> su_Events s = [] \<or> domain \<in> set (su_Domains s) \<or> event \<in> set (su_Events s))"

definition tel_emit :: "fimpgo \<Rightarrow> string \<Rightarrow> string \<Rightarrow> event_data \<Rightarrow> unit tel_act" where
  "tel_emit fg domain event data t =
     (let cfg = tel_config t in
      if \<not> tc_Enabled cfg then Some (Inr (), t)
      else if is_suppressed cfg domain event then Some (Inr (), t)
      else tel_publish fg domain event data t)"

definition tel_emitOnChange :: "fimpgo \<Rightarrow> string \<Rightarrow> string \<Rightarrow> event_data \<Rightarrow> duration \<Rightarrow> unit tel_act" where
  "tel_emitOnChange fg domain event data interval t =
     (let key = domain @ ''/'' @ event;
          last = (case map_of (te_emitTimestamps t) key of None \<Rightarrow> time_zero | Some x \<Rightarrow> x)
      in if \<not> is_zero last \<and> time_since (te_clock t) last < interval then Some (Inr (), t)
         else tel_emit fg domain event data (t\<lparr>te_emitTimestamps := AList.update key (te_clock t) (te_emitTimestamps t)\<rparr>))"

text \<open>
  The keys of the counters; \<open>fp\<close> is \<^verbatim>\<open>dataFingerprint\<close>, the JSON text of the data with sorted keys.
\<close>

definition if_more_prefix :: "string \<Rightarrow> string \<Rightarrow> string" where
  "if_more_prefix domain event = domain @ [CHR 0x00] @ event @ [CHR 0x00]"

definition tel_emitIfMore ::
  "fimpgo \<Rightarrow> (event_data \<Rightarrow> string) \<Rightarrow> string \<Rightarrow> string \<Rightarrow> int \<Rightarrow> bool \<Rightarrow> event_data \<Rightarrow> duration \<Rightarrow> unit tel_act" where
  "tel_emitIfMore fg fp domain event threshold reset data interval t =
     (if threshold < 1 then Some (Inr (), t)
      else
        let key = if_more_prefix domain event @ fp data;
            st = (case map_of (te_ifMoreStates t) key of None \<Rightarrow> \<lparr>im_count = 0, im_last = time_zero, im_data = data\<rparr> | Some st \<Rightarrow> st);
            st = st\<lparr>im_count := im_count st + 1\<rparr>;
            reached = im_count st \<ge> threshold;
            throttled = \<not> is_zero (im_last st) \<and> time_since (te_clock t) (im_last st) < interval;
            emitNow = reached \<and> \<not> throttled;
            st = (if emitNow then st\<lparr>im_last := te_clock t, im_count := if reset then 0 else im_count st\<rparr> else st);
            t' = t\<lparr>te_ifMoreStates := AList.update key st (te_ifMoreStates t)\<rparr>
        in if \<not> emitNow then Some (Inr (), t') else tel_emit fg domain event data t')"

fun matchScope :: "(event_data \<Rightarrow> string) \<Rightarrow> event_data \<Rightarrow> event_data \<Rightarrow> bool" where
  "matchScope fp stored [] = True"
| "matchScope fp stored ((k, v) # scope) =
     (case map_of stored k of
        None \<Rightarrow> False
      | Some sv \<Rightarrow> if fp [(k, sv)] \<noteq> fp [(k, v)] then False else matchScope fp stored scope)"

definition tel_resetEventCounters :: "(event_data \<Rightarrow> string) \<Rightarrow> string \<Rightarrow> string \<Rightarrow> event_data \<Rightarrow> unit tel_act" where
  "tel_resetEventCounters fp domain event scope t =
     Some (Inr (), t\<lparr>te_ifMoreStates :=
       filter (\<lambda>(k, st). \<not> (prefix (if_more_prefix domain event) k \<and> matchScope fp (im_data st) scope)) (te_ifMoreStates t)\<rparr>)"

text \<open>The functions that applications call: without telemetry they do nothing, and errors are only logged.\<close>

definition tel_logged :: "unit tel_act \<Rightarrow> telemetry option \<Rightarrow> telemetry option option" where
  "tel_logged m tel =
     (case tel of None \<Rightarrow> Some None | Some t \<Rightarrow> map_option (\<lambda>(_, t'). Some t') (m t))"

definition Emit :: "fimpgo \<Rightarrow> telemetry option \<Rightarrow> string \<Rightarrow> string \<Rightarrow> event_data \<Rightarrow> telemetry option option" where
  "Emit fg tel domain event data = tel_logged (tel_emit fg domain event data) tel"

definition EmitOnChange ::
  "fimpgo \<Rightarrow> telemetry option \<Rightarrow> string \<Rightarrow> string \<Rightarrow> event_data \<Rightarrow> duration \<Rightarrow> telemetry option option" where
  "EmitOnChange fg tel domain event data interval = tel_logged (tel_emitOnChange fg domain event data interval) tel"

definition EmitIfMore ::
  "fimpgo \<Rightarrow> (event_data \<Rightarrow> string) \<Rightarrow> telemetry option \<Rightarrow> string \<Rightarrow> string \<Rightarrow> int \<Rightarrow> bool \<Rightarrow> event_data \<Rightarrow> duration
   \<Rightarrow> telemetry option option" where
  "EmitIfMore fg fp tel domain event threshold reset data interval =
     tel_logged (tel_emitIfMore fg fp domain event threshold reset data interval) tel"

definition ResetEventCounters ::
  "(event_data \<Rightarrow> string) \<Rightarrow> telemetry option \<Rightarrow> string \<Rightarrow> string \<Rightarrow> event_data \<Rightarrow> telemetry option option" where
  "ResetEventCounters fp tel domain event scope = tel_logged (tel_resetEventCounters fp domain event scope) tel"

definition EmitRebootMilestone :: "fimpgo \<Rightarrow> telemetry option \<Rightarrow> int \<Rightarrow> telemetry option option" where
  "EmitRebootMilestone fg tel count =
     (if count \<le> 0 \<or> go_rem count restartMilestoneStep \<noteq> 0 then Some tel
      else Emit fg tel DomainReboot EventRebootMilestone [(''count'', VInt count)])"

text \<open>\<open>panicking\<close>: \<^verbatim>\<open>recover\<close> has found a panic; a panic that terminates goes on, which is \<open>None\<close>.\<close>

definition RecoverAndEmit :: "fimpgo \<Rightarrow> telemetry option \<Rightarrow> bool \<Rightarrow> string \<Rightarrow> bool \<Rightarrow> telemetry option option" where
  "RecoverAndEmit fg tel panicking name terminate =
     (if \<not> panicking then Some tel
      else case Emit fg tel DomainPanic name [(''terminate'', VBool terminate)] of
             None \<Rightarrow> None
           | Some tel' \<Rightarrow> if terminate then None else Some tel')"

section \<open>Settings and validity\<close>

definition startTimerLocked :: "duration \<Rightarrow> telemetry \<Rightarrow> telemetry" where
  "startTimerLocked d t =
     t\<lparr>te_timer := Some (te_nextTimer t), te_armed := (te_nextTimer t, te_clock t + d) # te_armed t, te_nextTimer := Suc (te_nextTimer t)\<rparr>"

definition stopTimerLocked :: "telemetry \<Rightarrow> telemetry" where
  "stopTimerLocked t = t\<lparr>te_timer := None\<rparr>"

definition disableLocked :: "unit tel_act" where
  "disableLocked t =
     (let t = t\<lparr>te_timer := None\<rparr>
      in act_bind (act_try (tel_SetTelemetry ((tel_config t)\<lparr>tc_Enabled := False, tc_EnabledAt := time_zero\<rparr>))) (\<lambda>_. act_return ()) t)"

definition tel_timer_callback :: "nat \<Rightarrow> unit tel_act" where
  "tel_timer_callback i t =
     (let t = t\<lparr>te_armed := filter (\<lambda>a. fst a \<noteq> i) (te_armed t)\<rparr>
      in if te_timer t \<noteq> Some i then Some (Inr (), t) else disableLocked t)"

definition SetEvtTopic :: "string \<Rightarrow> unit tel_act" where
  "SetEvtTopic topic = act_modify (\<lambda>t. t\<lparr>te_topic := if topic = '''' then telemetryReportEvtTopic else topic\<rparr>)"

definition tel_Enable :: "bool \<Rightarrow> unit tel_act" where
  "tel_Enable enabled t =
     (let cfg = (tel_config t)\<lparr>tc_Enabled := enabled, tc_EnabledAt := if enabled then te_clock t else time_zero\<rparr>
      in act_bind (act_wrap (''telemetry: persist enable='' @ (if enabled then ''true'' else ''false'')) (tel_SetTelemetry cfg)) (\<lambda>_.
         act_modify (\<lambda>t. let t = stopTimerLocked t in if enabled then startTimerLocked (validityOrDefault cfg) t else t)) t)"

definition IsEnabled :: "telemetry \<Rightarrow> bool" where
  "IsEnabled t = tc_Enabled (tel_config t)"

definition tel_Validity :: "telemetry \<Rightarrow> duration" where
  "tel_Validity t = validityOrDefault (tel_config t)"

definition SetValidity :: "duration \<Rightarrow> unit tel_act" where
  "SetValidity validity t =
     (if validity \<le> 0 then Some (Inl (Errorf ''telemetry: validity must be positive''), t)
      else
        let cfg = tel_config t;
            running = tc_Enabled cfg \<and> \<not> is_zero (tc_EnabledAt cfg);
            elapsed = (if running then max (time_since (te_clock t) (tc_EnabledAt cfg)) 0 else 0);
            shouldDisable = running \<and> elapsed \<ge> validity;
            cfg1 = cfg\<lparr>tc_Validity := validity\<rparr>;
            cfg2 = (if shouldDisable then cfg1\<lparr>tc_Enabled := False, tc_EnabledAt := time_zero\<rparr> else cfg1)
        in act_bind (act_wrap ''telemetry: persist validity'' (tel_SetTelemetry cfg2)) (\<lambda>_.
           act_modify (\<lambda>t. let t = stopTimerLocked t in
             if shouldDisable then t
             else if tc_Enabled cfg2 \<and> \<not> is_zero (tc_EnabledAt cfg2) then startTimerLocked (validity - elapsed) t
             else t)) t)"

definition SetSuppressed :: "(string \<times> suppressed_entry) list \<Rightarrow> unit tel_act" where
  "SetSuppressed suppressed t =
     (let next_suppressed = (case map_of suppressed (te_sourceRn t) of
            None \<Rightarrow> None
          | Some e \<Rightarrow> if su_Domains e = [] \<and> su_Events e = [] then Some \<lparr>su_Domains = [], su_Events = []\<rparr>
                      else Some \<lparr>su_Domains = su_Domains e, su_Events = su_Events e\<rparr>)
      in act_wrap ''telemetry: persist suppressed'' (tel_SetTelemetry ((tel_config t)\<lparr>tc_Suppressed := next_suppressed\<rparr>)) t)"

definition tel_Suppressed :: "telemetry \<Rightarrow> (string \<times> suppressed_entry) list" where
  "tel_Suppressed t =
     (case tc_Suppressed (tel_config t) of None \<Rightarrow> [] | Some s \<Rightarrow> [(te_sourceRn t, s)])"

definition applyConfigFromCloud :: "bool \<Rightarrow> (string \<times> suppressed_entry) list \<Rightarrow> unit tel_act" where
  "applyConfigFromCloud enabled suppressed =
     act_bind (act_try (tel_Enable enabled)) (\<lambda>_. act_bind (act_try (SetSuppressed suppressed)) (\<lambda>_. act_return ()))"

definition resumeValidityWindow :: "unit tel_act" where
  "resumeValidityWindow t =
     (let cfg = tel_config t; now = te_clock t in
      if \<not> tc_Enabled cfg then Some (Inr (), t)
      else
        let validity = validityOrDefault cfg;
            enabledAt = (if is_zero (tc_EnabledAt cfg) then now else if tc_EnabledAt cfg > now then now else tc_EnabledAt cfg);
            elapsed = time_sub now enabledAt;
            expired = elapsed \<ge> validity;
            dirty = (tc_EnabledAt cfg \<noteq> enabledAt \<or> expired);
            cfg1 = (if expired then cfg\<lparr>tc_Enabled := False, tc_EnabledAt := time_zero\<rparr> else cfg\<lparr>tc_EnabledAt := enabledAt\<rparr>)
        in act_bind (if dirty then act_bind (act_try (tel_SetTelemetry cfg1)) (\<lambda>_. act_return ()) else act_return ()) (\<lambda>_.
           if \<not> tc_Enabled cfg1 then act_return () else act_modify (startTimerLocked (validity - elapsed))) t)"


section \<open>Starting and stopping\<close>

definition stopValidityTimer :: "telemetry \<Rightarrow> telemetry" where
  "stopValidityTimer t = stopTimerLocked t"

definition tel_ServiceName :: "telemetry \<Rightarrow> string" where
  "tel_ServiceName t = te_sourceRn t"

text \<open>What the poller does with an answer; the errors of \<^verbatim>\<open>applyConfigFromCloud\<close> are only logged.\<close>

definition tel_apply :: "bool \<Rightarrow> (string \<times> suppressed_entry) list \<Rightarrow> telemetry \<Rightarrow> telemetry" where
  "tel_apply enabled suppressed t =
     (case applyConfigFromCloud enabled suppressed t of None \<Rightarrow> t | Some (_, t') \<Rightarrow> t')"

definition new_telemetry :: "string \<Rightarrow> default_store \<Rightarrow> (nat \<Rightarrow> go_error option) \<Rightarrow> time \<Rightarrow> telemetry" where
  "new_telemetry sourceRn store publishErr now =
     \<lparr>te_sourceRn = sourceRn, te_store = store, te_topic = telemetryReportEvtTopic, te_timer = None, te_armed = [],
      te_nextTimer = 0, te_emitTimestamps = [], te_ifMoreStates = [], te_published = [], te_publishErr = publishErr,
      te_publishes = 0, te_clock = now\<rparr>"

text \<open>
  \<^verbatim>\<open>New\<close> acts on the store that it is given, whose pointer and that of the transport may be nil; the telemetry it
  returns is the state on which its poller acts.
\<close>

definition tel_New ::
  "bool \<Rightarrow> string \<Rightarrow> default_store option \<Rightarrow> (nat \<Rightarrow> go_error option) \<Rightarrow> time \<Rightarrow> telemetry poll result option" where
  "tel_New mqtt sourceRn store publishErr now =
     (if \<not> mqtt then Some (Inl (Errorf ''telemetry: mqtt transport is nil''))
      else if sourceRn = '''' then Some (Inl (Errorf ''telemetry: source is not set''))
      else case store of
        None \<Rightarrow> Some (Inl (Errorf ''telemetry: store is required''))
      | Some s \<Rightarrow>
          (case (case store_Telemetry s of
                   Inr _ \<Rightarrow> Some (Inr (), s)
                 | Inl _ \<Rightarrow> act_wrap ''telemetry: seed config''
                     (store_SetTelemetry (zero_telemetry\<lparr>tc_Enabled := True, tc_EnabledAt := now\<rparr>) now) s) of
             None \<Rightarrow> None
           | Some (Inl e, _) \<Rightarrow> Some (Inl e)
           | Some (Inr _, s) \<Rightarrow>
               (case resumeValidityWindow (new_telemetry sourceRn s publishErr now) of
                  None \<Rightarrow> None
                | Some (Inl e, _) \<Rightarrow> Some (Inl e)
                | Some (Inr _, t) \<Rightarrow>
                    (case poll_Start (poll_New sourceRn t now) of
                       Inl e \<Rightarrow> Some (Inl e)
                     | Inr p \<Rightarrow> Some (Inr p)))))"

definition tel_Stop :: "telemetry poll \<Rightarrow> telemetry poll" where
  "tel_Stop p = (poll_Stop p)\<lparr>po_app := stopValidityTimer (po_app p)\<rparr>"

section \<open>Routing (\<^verbatim>\<open>routing.go\<close>)\<close>

definition SettingEnabled :: string where "SettingEnabled = ''telemetry_enabled''"
definition SettingValidity :: string where "SettingValidity = ''telemetry_validity''"
definition SettingSuppressed :: string where "SettingSuppressed = ''telemetry_suppressed''"

text \<open>A list in a value; a nil slice, which is written as null, is the empty list here.\<close>

definition str_list_value :: "string list \<Rightarrow> fimp_value" where
  "str_list_value xs = VList (map VString xs)"

definition suppressed_value :: "(string \<times> suppressed_entry) list \<Rightarrow> fimp_value" where
  "suppressed_value m =
     VObject (map (\<lambda>(k, e). (k, VObject [(''domains'', str_list_value (su_Domains e)), (''events'', str_list_value (su_Events e))])) m)"

definition RouteCmdTelemetryEnabled :: "fimpgo \<Rightarrow> string \<Rightarrow> telemetry routing" where
  "RouteCmdTelemetryEnabled fg name =
     plain_route fg name (''cmd.config.get_'' @ SettingEnabled) (\<lambda>msg.
       act_get (\<lambda>t. Some (fg_New fg KBool (evtConfigReport SettingEnabled) (tel_ServiceName t) (VBool (IsEnabled t)) []
         (Some (ms_Payload msg)))))"

definition RouteCmdTelemetrySetEnabled :: "fimpgo \<Rightarrow> string \<Rightarrow> telemetry routing" where
  "RouteCmdTelemetrySetEnabled fg name =
     plain_route fg name (''cmd.config.set_'' @ SettingEnabled) (\<lambda>msg.
       act_bind (act_result (fg_GetBoolValue fg (ms_Payload msg))) (\<lambda>enabled.
       act_bind (tel_Enable enabled) (\<lambda>_.
       act_get (\<lambda>t. Some (fg_New fg KBool (evtConfigReport SettingEnabled) (tel_ServiceName t) (VBool enabled) []
         (Some (ms_Payload msg)))))))"

definition RouteCmdTelemetryValidity :: "fimpgo \<Rightarrow> (duration \<Rightarrow> string) \<Rightarrow> string \<Rightarrow> telemetry routing" where
  "RouteCmdTelemetryValidity fg durString name =
     plain_route fg name (''cmd.config.get_'' @ SettingValidity) (\<lambda>msg.
       act_get (\<lambda>t. Some (fg_New fg KString (evtConfigReport SettingValidity) (tel_ServiceName t)
         (VString (durString (tel_Validity t))) [] (Some (ms_Payload msg)))))"

definition RouteCmdTelemetrySetValidity ::
  "fimpgo \<Rightarrow> (duration \<Rightarrow> string) \<Rightarrow> (string \<Rightarrow> duration result) \<Rightarrow> string \<Rightarrow> telemetry routing" where
  "RouteCmdTelemetrySetValidity fg durString parse name =
     plain_route fg name (''cmd.config.set_'' @ SettingValidity) (\<lambda>msg.
       act_bind (act_result (fg_GetStringValue fg (ms_Payload msg))) (\<lambda>raw.
       act_bind (act_wrap (''telemetry: failed to parse validity '' @ raw) (act_result (parse raw))) (\<lambda>d.
       act_bind (SetValidity d) (\<lambda>_.
       act_get (\<lambda>t. Some (fg_New fg KString (evtConfigReport SettingValidity) (tel_ServiceName t)
         (VString (durString d)) [] (Some (ms_Payload msg))))))))"

definition RouteCmdTelemetrySuppressed :: "fimpgo \<Rightarrow> string \<Rightarrow> telemetry routing" where
  "RouteCmdTelemetrySuppressed fg name =
     plain_route fg name (''cmd.config.get_'' @ SettingSuppressed) (\<lambda>msg.
       act_get (\<lambda>t. Some (fg_New fg KObject (evtConfigReport SettingSuppressed) (tel_ServiceName t)
         (suppressed_value (tel_Suppressed t)) [] (Some (ms_Payload msg)))))"

definition RouteCmdTelemetrySetSuppressed ::
  "fimpgo \<Rightarrow> (fimp_message \<Rightarrow> (string \<times> suppressed_entry) list result) \<Rightarrow> string \<Rightarrow> telemetry routing" where
  "RouteCmdTelemetrySetSuppressed fg decode name =
     plain_route fg name (''cmd.config.set_'' @ SettingSuppressed) (\<lambda>msg.
       act_bind (act_result (decode (ms_Payload msg))) (\<lambda>suppressed.
       act_bind (SetSuppressed suppressed) (\<lambda>_.
       act_get (\<lambda>t. Some (fg_New fg KObject (evtConfigReport SettingSuppressed) (tel_ServiceName t)
         (suppressed_value (tel_Suppressed t)) [] (Some (ms_Payload msg)))))))"

text \<open>\<open>name\<close> is the service name of the telemetry, which does not change.\<close>

definition tel_Route ::
  "fimpgo \<Rightarrow> (duration \<Rightarrow> string) \<Rightarrow> (string \<Rightarrow> duration result) \<Rightarrow> (fimp_message \<Rightarrow> (string \<times> suppressed_entry) list result)
   \<Rightarrow> string option \<Rightarrow> telemetry routing list" where
  "tel_Route fg durString parse decode tel =
     (case tel of
        None \<Rightarrow> []
      | Some name \<Rightarrow>
          [RouteCmdTelemetrySetEnabled fg name, RouteCmdTelemetryEnabled fg name,
           RouteCmdTelemetrySetValidity fg durString parse name, RouteCmdTelemetryValidity fg durString name,
           RouteCmdTelemetrySetSuppressed fg decode name, RouteCmdTelemetrySuppressed fg name])"


section \<open>The validity of the telemetry ends\<close>

text \<open>
  What happens to the telemetry by itself, or when an application sends events: time passes, a timer fires, an event
  is emitted; and what sets it.
\<close>

inductive tel_quiet_step :: "fimpgo \<Rightarrow> (event_data \<Rightarrow> string) \<Rightarrow> telemetry \<Rightarrow> telemetry \<Rightarrow> bool" for fg fp where
  tick: "te_clock t \<le> now \<Longrightarrow> tel_quiet_step fg fp t (t\<lparr>te_clock := now\<rparr>)"
| fire: "(i, due) \<in> set (te_armed t) \<Longrightarrow> due \<le> te_clock t \<Longrightarrow> tel_timer_callback i t = Some (r, t') \<Longrightarrow> tel_quiet_step fg fp t t'"
| emit: "tel_emit fg domain event data t = Some (r, t') \<Longrightarrow> tel_quiet_step fg fp t t'"
| on_change: "tel_emitOnChange fg domain event data interval t = Some (r, t') \<Longrightarrow> tel_quiet_step fg fp t t'"
| if_more: "tel_emitIfMore fg fp domain event threshold reset data interval t = Some (r, t') \<Longrightarrow> tel_quiet_step fg fp t t'"
| counters: "tel_resetEventCounters fp domain event scope t = Some (r, t') \<Longrightarrow> tel_quiet_step fg fp t t'"
| topic: "SetEvtTopic topic t = Some (r, t') \<Longrightarrow> tel_quiet_step fg fp t t'"

inductive tel_step :: "fimpgo \<Rightarrow> (event_data \<Rightarrow> string) \<Rightarrow> telemetry \<Rightarrow> telemetry \<Rightarrow> bool" for fg fp where
  quiet: "tel_quiet_step fg fp t t' \<Longrightarrow> tel_step fg fp t t'"
| enable: "tel_Enable enabled t = Some (r, t') \<Longrightarrow> tel_step fg fp t t'"
| validity: "d \<le> max_duration \<Longrightarrow> SetValidity d t = Some (r, t') \<Longrightarrow> tel_step fg fp t t'"
| suppress: "SetSuppressed suppressed t = Some (r, t') \<Longrightarrow> tel_step fg fp t t'"

lemma store_Telemetry_set [simp]:
  "df_Telemetry (cs_default s) = Some c \<Longrightarrow> store_Telemetry s = Inr c"
  by (simp add: store_Telemetry_def)

text \<open>Saving the settings changes the store only, to the new settings whether or not it succeeds.\<close>

lemma tel_SetTelemetry_run:
  obtains r s where "tel_SetTelemetry cfg t = Some (r, t\<lparr>te_store := s\<rparr>)" "store_Telemetry s = Inr cfg"
    "cs_saveErr s = cs_saveErr (te_store t)" "cs_saveErr (te_store t) (cs_saves (te_store t)) = None \<Longrightarrow> r = Inr ()"
    "cs_saveErr (te_store t) (cs_saves (te_store t)) \<noteq> None \<Longrightarrow> isl r"
proof -
  obtain r s where run: "store_SetTelemetry cfg (te_clock t) (te_store t) = Some (r, s)"
    by (cases "store_SetTelemetry cfg (te_clock t) (te_store t)")
      (auto simp: store_SetTelemetry_def store_set_run Let_def split: option.splits)
  then have "df_Telemetry (cs_default s) = Some cfg \<and> cs_saveErr s = cs_saveErr (te_store t)
      \<and> isl r = (cs_saveErr (te_store t) (cs_saves (te_store t)) \<noteq> None)"
    by (auto simp: store_SetTelemetry_def store_set_run Let_def SetConfiguredAt_def split: option.splits)
  with run show ?thesis by (intro that [of r s]; cases r; simp add: tel_SetTelemetry_def)
qed

lemma tel_config_store [simp]: "store_Telemetry s = Inr c \<Longrightarrow> tel_config (t\<lparr>te_store := s\<rparr>) = c"
  by (simp add: tel_config_def)

lemma tel_config_cong [simp]:
  "tel_config (t\<lparr>te_clock := x1\<rparr>) = tel_config t" "tel_config (t\<lparr>te_timer := x2\<rparr>) = tel_config t"
  "tel_config (t\<lparr>te_armed := x3\<rparr>) = tel_config t" "tel_config (t\<lparr>te_nextTimer := x4\<rparr>) = tel_config t"
  "tel_config (t\<lparr>te_emitTimestamps := x5\<rparr>) = tel_config t" "tel_config (t\<lparr>te_ifMoreStates := x6\<rparr>) = tel_config t"
  "tel_config (t\<lparr>te_published := x7\<rparr>) = tel_config t" "tel_config (t\<lparr>te_publishes := x8\<rparr>) = tel_config t"
  "tel_config (t\<lparr>te_topic := x9\<rparr>) = tel_config t"
  by (simp_all add: tel_config_def)

text \<open>Emitting does not touch the settings, the timers and the clock.\<close>

definition tel_core :: "telemetry \<Rightarrow> default_store \<times> nat option \<times> (nat \<times> time) list \<times> nat \<times> time" where
  "tel_core t = (te_store t, te_timer t, te_armed t, te_nextTimer t, te_clock t)"

lemma emit_core: "tel_emit fg domain event data t = Some (r, t') \<Longrightarrow> tel_core t' = tel_core t"
  by (auto simp: tel_emit_def tel_publish_def tel_core_def Let_def split: if_splits option.splits)

lemma emitOnChange_core: "tel_emitOnChange fg domain event data interval t = Some (r, t') \<Longrightarrow> tel_core t' = tel_core t"
  by (auto simp: tel_emitOnChange_def tel_core_def Let_def split: if_splits dest!: emit_core)

lemma emitIfMore_core:
  "tel_emitIfMore fg fp domain event threshold reset data interval t = Some (r, t') \<Longrightarrow> tel_core t' = tel_core t"
  by (auto simp: tel_emitIfMore_def tel_core_def Let_def split: if_splits dest!: emit_core)

lemma tel_core_config: "tel_core t' = tel_core t \<Longrightarrow> tel_config t' = tel_config t"
  by (simp add: tel_core_def tel_config_def)

lemma timers_filter: "list_all (\<lambda>a. fst a < n) xs \<Longrightarrow> list_all (\<lambda>a. fst a < n) (filter P xs)"
  by (auto simp: list_all_iff)

lemma timers_Suc: "list_all (\<lambda>a. fst a < n) xs \<Longrightarrow> list_all (\<lambda>a. fst a < Suc n) (xs :: (nat \<times> time) list)"
  by (auto simp: list_all_iff)

definition tel_inv :: "telemetry \<Rightarrow> bool" where
  "tel_inv t \<longleftrightarrow> 0 < te_clock t \<and> cs_saveErr (te_store t) = (\<lambda>_. None) \<and> tc_Validity (tel_config t) \<le> max_duration
    \<and> list_all (\<lambda>a. fst a < te_nextTimer t) (te_armed t)
    \<and> (tc_Enabled (tel_config t) \<longrightarrow> 0 < tc_EnabledAt (tel_config t) \<and> tc_EnabledAt (tel_config t) \<le> te_clock t
        \<and> (\<exists>i. te_timer t = Some i \<and> (i, tc_EnabledAt (tel_config t) + validityOrDefault (tel_config t)) \<in> set (te_armed t)))"

lemma tel_inv_core: "tel_core t' = tel_core t \<Longrightarrow> tel_inv t \<Longrightarrow> tel_inv t'"
  using tel_core_config [of t' t] by (simp add: tel_inv_def tel_core_def)

lemma tel_inv_tick: "tel_inv t \<Longrightarrow> te_clock t \<le> now \<Longrightarrow> tel_inv (t\<lparr>te_clock := now\<rparr>)"
  by (auto simp: tel_inv_def)

lemma disableLocked_run:
  obtains s where "disableLocked t = Some (Inr (), t\<lparr>te_timer := None, te_store := s\<rparr>)"
    "store_Telemetry s = Inr ((tel_config t)\<lparr>tc_Enabled := False, tc_EnabledAt := time_zero\<rparr>)"
    "cs_saveErr s = cs_saveErr (te_store t)"
proof -
  obtain r s where "tel_SetTelemetry ((tel_config t)\<lparr>tc_Enabled := False, tc_EnabledAt := time_zero\<rparr>) (t\<lparr>te_timer := None\<rparr>)
      = Some (r, t\<lparr>te_timer := None, te_store := s\<rparr>)"
    "store_Telemetry s = Inr ((tel_config t)\<lparr>tc_Enabled := False, tc_EnabledAt := time_zero\<rparr>)"
    "cs_saveErr s = cs_saveErr (te_store t)"
    by (rule tel_SetTelemetry_run [of "(tel_config t)\<lparr>tc_Enabled := False, tc_EnabledAt := time_zero\<rparr>" "t\<lparr>te_timer := None\<rparr>"]) auto
  then show ?thesis by (intro that [of s]) (auto simp: disableLocked_def Let_def)
qed

lemma tel_inv_fire:
  assumes "tel_inv t" "tel_timer_callback i t = Some (r, t')"
  shows "tel_inv t'"
proof (cases "te_timer t = Some i")
  case True
  obtain s where "disableLocked (t\<lparr>te_armed := filter (\<lambda>a. fst a \<noteq> i) (te_armed t)\<rparr>)
      = Some (Inr (), t\<lparr>te_armed := filter (\<lambda>a. fst a \<noteq> i) (te_armed t), te_timer := None, te_store := s\<rparr>)"
    "store_Telemetry s = Inr ((tel_config t)\<lparr>tc_Enabled := False, tc_EnabledAt := time_zero\<rparr>)"
    "cs_saveErr s = cs_saveErr (te_store t)"
    by (rule disableLocked_run [of "t\<lparr>te_armed := filter (\<lambda>a. fst a \<noteq> i) (te_armed t)\<rparr>"]) auto
  with assms True show ?thesis by (auto simp: tel_timer_callback_def tel_inv_def Let_def timers_filter)
next
  case False
  with assms show ?thesis by (auto simp: tel_timer_callback_def tel_inv_def Let_def timers_filter)
qed


lemma validityOrDefault_pos: "0 < validityOrDefault c"
  by (simp add: validityOrDefault_def defaultTelemetryValidity_def go_minutes_def)

lemma validityOrDefault_cong [simp]:
  "validityOrDefault (c\<lparr>tc_Enabled := b\<rparr>) = validityOrDefault c" "validityOrDefault (c\<lparr>tc_EnabledAt := a\<rparr>) = validityOrDefault c"
  "validityOrDefault (c\<lparr>tc_Suppressed := s\<rparr>) = validityOrDefault c" "0 < d \<Longrightarrow> validityOrDefault (c\<lparr>tc_Validity := d\<rparr>) = d"
  by (simp_all add: validityOrDefault_def)

lemma validityOrDefault_max: "tc_Validity c \<le> max_duration \<Longrightarrow> validityOrDefault c \<le> max_duration"
  by (simp add: validityOrDefault_def defaultTelemetryValidity_def go_minutes_def max_duration_def)

lemma tel_Enable_ok:
  assumes "tel_Enable enabled t = Some (r, t')" "cs_saveErr (te_store t) = (\<lambda>_. None)"
  obtains s where "store_Telemetry s = Inr ((tel_config t)\<lparr>tc_Enabled := enabled, tc_EnabledAt := if enabled then te_clock t else time_zero\<rparr>)"
    "cs_saveErr s = (\<lambda>_. None)"
    "t' = (let t = stopTimerLocked (t\<lparr>te_store := s\<rparr>) in if enabled then startTimerLocked (validityOrDefault (tel_config t)) t else t)"
proof -
  let ?c = "(tel_config t)\<lparr>tc_Enabled := enabled, tc_EnabledAt := if enabled then te_clock t else time_zero\<rparr>"
  obtain r s where s: "tel_SetTelemetry ?c t = Some (r, t\<lparr>te_store := s\<rparr>)" "store_Telemetry s = Inr ?c"
    "cs_saveErr s = cs_saveErr (te_store t)" "r = Inr ()"
    by (rule tel_SetTelemetry_run [of ?c t]) (simp add: assms(2))
  have "t' = (let t = stopTimerLocked (t\<lparr>te_store := s\<rparr>) in if enabled then startTimerLocked (validityOrDefault (tel_config t)) t else t)"
    using assms(1) s by (cases enabled) (simp_all add: tel_Enable_def Let_def stopTimerLocked_def act_bind_def wrap_err_def)
  with s assms(2) show ?thesis by (intro that [of s]) simp_all
qed

lemma tel_inv_Enable:
  assumes "tel_inv t" "tel_Enable enabled t = Some (r, t')"
  shows "tel_inv t'"
proof -
  have "cs_saveErr (te_store t) = (\<lambda>_. None)" using assms(1) by (simp add: tel_inv_def)
  then obtain s where "store_Telemetry s = Inr ((tel_config t)\<lparr>tc_Enabled := enabled, tc_EnabledAt := if enabled then te_clock t else time_zero\<rparr>)"
    "cs_saveErr s = (\<lambda>_. None)"
    "t' = (let t = stopTimerLocked (t\<lparr>te_store := s\<rparr>) in if enabled then startTimerLocked (validityOrDefault (tel_config t)) t else t)"
    using tel_Enable_ok [OF assms(2)] by blast
  with assms(1) show ?thesis
    by (cases enabled) (simp_all add: tel_inv_def Let_def startTimerLocked_def stopTimerLocked_def timers_Suc validityOrDefault_pos)
qed

lemma tel_inv_SetSuppressed:
  assumes "tel_inv t" "SetSuppressed suppressed t = Some (r, t')"
  shows "tel_inv t'"
proof -
  obtain x where x: "act_wrap ''telemetry: persist suppressed'' (tel_SetTelemetry ((tel_config t)\<lparr>tc_Suppressed := x\<rparr>)) t = Some (r, t')"
    using assms(2) by (auto simp: SetSuppressed_def Let_def)
  obtain r1 s where "tel_SetTelemetry ((tel_config t)\<lparr>tc_Suppressed := x\<rparr>) t = Some (r1, t\<lparr>te_store := s\<rparr>)"
    "store_Telemetry s = Inr ((tel_config t)\<lparr>tc_Suppressed := x\<rparr>)" "cs_saveErr s = cs_saveErr (te_store t)"
    by (rule tel_SetTelemetry_run [of "(tel_config t)\<lparr>tc_Suppressed := x\<rparr>" t]) auto
  with x assms(1) show ?thesis by (auto simp: tel_inv_def)
qed


lemma elapsed_due:
  assumes "e < d" "d \<le> max_duration" "e = max (time_since now a) 0" "a \<le> now"
  shows "now + (d - e) = a + d"
  using assms by (auto simp: time_since_def time_sub_def max_duration_def min_duration_def)

lemma tel_inv_SetValidity:
  assumes "tel_inv t" "SetValidity d t = Some (r, t')" "d \<le> max_duration"
  shows "tel_inv t'"
proof (cases "d \<le> 0")
  case True
  with assms show ?thesis by (auto simp: SetValidity_def)
next
  case False
  let ?c = "tel_config t"
  let ?e = "max (time_since (te_clock t) (tc_EnabledAt ?c)) 0"
  define c2 where "c2 = (if tc_Enabled ?c \<and> ?e \<ge> d then ?c\<lparr>tc_Validity := d, tc_Enabled := False, tc_EnabledAt := time_zero\<rparr>
      else ?c\<lparr>tc_Validity := d\<rparr>)"
  have nz: "tc_Enabled ?c \<Longrightarrow> \<not> is_zero (tc_EnabledAt ?c)" using assms(1) by (simp add: tel_inv_def is_zero_def)
  obtain r1 s where s: "tel_SetTelemetry c2 t = Some (r1, t\<lparr>te_store := s\<rparr>)" "store_Telemetry s = Inr c2"
    "cs_saveErr s = cs_saveErr (te_store t)" "r1 = Inr ()"
    by (rule tel_SetTelemetry_run [of c2 t]) (use assms(1) in \<open>simp add: tel_inv_def\<close>)
  have t': "t' = (let t = t\<lparr>te_store := s, te_timer := None\<rparr> in if tc_Enabled c2 then startTimerLocked (d - ?e) t else t)"
  proof (cases "tc_Enabled ?c")
    case True
    define e where "e = ?e"
    have v: "SetValidity d t = act_bind (act_wrap ''telemetry: persist validity'' (tel_SetTelemetry c2)) (\<lambda>_.
        act_modify (\<lambda>t. let t = stopTimerLocked t in
          if e \<ge> d then t else if tc_Enabled c2 \<and> \<not> is_zero (tc_EnabledAt c2) then startTimerLocked (d - e) t else t)) t"
      using False True nz by (simp add: SetValidity_def Let_def c2_def e_def [symmetric])
    have c2: "c2 = (if e \<ge> d then ?c\<lparr>tc_Validity := d, tc_Enabled := False, tc_EnabledAt := time_zero\<rparr> else ?c\<lparr>tc_Validity := d\<rparr>)"
      using True by (simp add: c2_def e_def)
    show ?thesis unfolding e_def [symmetric]
      using assms(2) s(1,4) True nz unfolding v
      by (cases "e \<ge> d") (simp_all add: stopTimerLocked_def act_bind_def wrap_err_def, simp_all add: c2)
  next
    case F: False
    have v: "SetValidity d t = act_bind (act_wrap ''telemetry: persist validity'' (tel_SetTelemetry c2)) (\<lambda>_.
        act_modify (\<lambda>t. stopTimerLocked t)) t"
      using False F by (simp add: SetValidity_def Let_def c2_def)
    have "\<not> tc_Enabled c2" using F by (simp add: c2_def)
    with v assms(2) s(1,4) show ?thesis by (simp add: stopTimerLocked_def act_bind_def wrap_err_def)
  qed
  show ?thesis
  proof (cases "tc_Enabled c2")
    case True
    then have c2: "c2 = ?c\<lparr>tc_Validity := d\<rparr>" "tc_Enabled ?c" "?e < d" by (auto simp: c2_def split: if_splits)
    have "te_clock t + (d - ?e) = tc_EnabledAt ?c + d"
      using c2 assms(1,3) by (intro elapsed_due) (auto simp: tel_inv_def)
    with t' s(2,3) c2 assms(1,3) False show ?thesis
      by (simp add: tel_inv_def Let_def startTimerLocked_def timers_Suc)
  next
    case F: False
    have "tc_Validity c2 = d" by (simp add: c2_def)
    with t' s(2,3) F assms(1,3) show ?thesis by (simp add: tel_inv_def Let_def)
  qed
qed

lemma tel_inv_quiet_step: "tel_quiet_step fg fp t t' \<Longrightarrow> tel_inv t \<Longrightarrow> tel_inv t'"
proof (induction rule: tel_quiet_step.induct)
  case (emit domain event data t r t')
  then show ?case using tel_inv_core emit_core by blast
next
  case (on_change domain event data interval t r t')
  then show ?case using tel_inv_core emitOnChange_core by blast
next
  case (if_more domain event threshold reset data interval t r t')
  then show ?case using tel_inv_core emitIfMore_core by blast
next
  case (counters domain event scope t r t')
  then show ?case by (auto simp: tel_resetEventCounters_def tel_inv_def)
next
  case (topic topic t r t')
  then show ?case by (auto simp: SetEvtTopic_def tel_inv_def)
qed (auto intro: tel_inv_tick tel_inv_fire)

lemma tel_inv_step: "tel_step fg fp t t' \<Longrightarrow> tel_inv t \<Longrightarrow> tel_inv t'"
  by (induction rule: tel_step.induct) (auto intro: tel_inv_quiet_step tel_inv_Enable tel_inv_SetValidity tel_inv_SetSuppressed)


lemma tel_inv_resume:
  assumes "resumeValidityWindow t = Some (r, t')" "0 < te_clock t" "cs_saveErr (te_store t) = (\<lambda>_. None)"
    "tc_Validity (tel_config t) \<le> max_duration" "0 \<le> tc_EnabledAt (tel_config t)" "te_armed t = []"
  shows "r = Inr () \<and> tel_inv t'"
proof (cases "tc_Enabled (tel_config t)")
  case False
  with assms show ?thesis by (auto simp: resumeValidityWindow_def Let_def tel_inv_def)
next
  case True
  let ?c = "tel_config t"
  define a where "a = (if is_zero (tc_EnabledAt ?c) then te_clock t else if tc_EnabledAt ?c > te_clock t then te_clock t else tc_EnabledAt ?c)"
  define v where "v = validityOrDefault ?c"
  define e where "e = time_sub (te_clock t) a"
  define c1 where "c1 = (if e \<ge> v then ?c\<lparr>tc_Enabled := False, tc_EnabledAt := time_zero\<rparr> else ?c\<lparr>tc_EnabledAt := a\<rparr>)"
  obtain r1 s where s: "tel_SetTelemetry c1 t = Some (r1, t\<lparr>te_store := s\<rparr>)" "store_Telemetry s = Inr c1"
    "cs_saveErr s = cs_saveErr (te_store t)" "r1 = Inr ()"
    by (rule tel_SetTelemetry_run [of c1 t]) (simp add: assms(3))
  define dirty where "dirty = (tc_EnabledAt ?c \<noteq> a \<or> e \<ge> v)"
  define t1 where "t1 = (if dirty then t\<lparr>te_store := s\<rparr> else t)"
  have "resumeValidityWindow t =
      act_bind (if dirty then act_bind (act_try (tel_SetTelemetry c1)) (\<lambda>_. act_return ()) else act_return ()) (\<lambda>_.
        if \<not> tc_Enabled c1 then act_return () else act_modify (startTimerLocked (v - e))) t"
    using True by (simp add: resumeValidityWindow_def Let_def a_def [symmetric] v_def [symmetric] e_def [symmetric] c1_def dirty_def)
  then have t': "r = Inr ()" "t' = (if \<not> tc_Enabled c1 then t1 else startTimerLocked (v - e) t1)"
    using assms(1) s(1) by (auto simp: t1_def split: if_splits)
  have c1: "tel_config t1 = c1" using s(2) by (auto simp: t1_def dirty_def c1_def)
  have t1: "te_clock t1 = te_clock t" "cs_saveErr (te_store t1) = (\<lambda>_. None)" "te_armed t1 = []" "te_nextTimer t1 = te_nextTimer t"
    using assms(3,6) s(3) by (auto simp: t1_def)
  show ?thesis
  proof (cases "e \<ge> v")
    case True
    with t' c1 t1 assms(2,4) show ?thesis by (simp add: tel_inv_def c1_def)
  next
    case F: False
    have a: "0 < a" "a \<le> te_clock t" using assms(2,5) by (auto simp: a_def is_zero_def)
    have "te_clock t + (v - e) = a + v"
      using F a assms(4) validityOrDefault_max [of ?c]
      by (auto simp: e_def v_def time_sub_def max_duration_def min_duration_def)
    with a F t' c1 t1 assms(2,4) \<open>tc_Enabled ?c\<close> show ?thesis
      by (simp add: tel_inv_def c1_def startTimerLocked_def v_def)
  qed
qed


lemma tel_inv_New:
  assumes "tel_New mqtt sourceRn (Some s) publishErr now = Some (Inr p)" "0 < now" "cs_saveErr s = (\<lambda>_. None)"
    "tc_Validity (default_GetTelemetry (cs_default s)) \<le> max_duration" "0 \<le> tc_EnabledAt (default_GetTelemetry (cs_default s))"
  shows "tel_inv (po_app p)"
proof -
  obtain s1 where s1: "(case store_Telemetry s of Inr _ \<Rightarrow> Some (Inr (), s)
      | Inl _ \<Rightarrow> act_wrap ''telemetry: seed config'' (store_SetTelemetry (zero_telemetry\<lparr>tc_Enabled := True, tc_EnabledAt := now\<rparr>) now) s)
      = Some (Inr (), s1)"
    using assms(1) by (auto simp: tel_New_def split: if_splits option.splits sum.splits prod.splits)
  have c: "cs_saveErr s1 = (\<lambda>_. None)" "\<exists>c. store_Telemetry s1 = Inr c \<and> tc_Validity c \<le> max_duration \<and> 0 \<le> tc_EnabledAt c"
    using s1 assms(2-5)
    by (auto simp: store_Telemetry_def default_GetTelemetry_def store_SetTelemetry_def store_set_run Let_def SetConfiguredAt_def
        zero_telemetry_def max_duration_def split: option.splits)
  obtain t where t: "resumeValidityWindow (new_telemetry sourceRn s1 publishErr now) = Some (Inr (), t)"
    "poll_Start (poll_New sourceRn t now) = Inr p"
    using assms(1) s1 by (auto simp: tel_New_def split: if_splits option.splits sum.splits prod.splits)
  have "tel_inv t"
    using tel_inv_resume [OF t(1)] c assms(2) by (auto simp: new_telemetry_def tel_config_def)
  moreover have "po_app p = t"
    using t(2) by (auto simp: poll_Start_def poll_New_def scheduleLocked_def Let_def split: if_splits prod.splits)
  ultimately show ?thesis by simp
qed

lemma timer_callback_disables:
  assumes "te_timer t = Some i"
  obtains t' where "tel_timer_callback i t = Some (Inr (), t')" "\<not> IsEnabled t'"
proof -
  let ?t = "t\<lparr>te_armed := filter (\<lambda>a. fst a \<noteq> i) (te_armed t)\<rparr>"
  obtain s where "disableLocked ?t = Some (Inr (), ?t\<lparr>te_timer := None, te_store := s\<rparr>)"
    "store_Telemetry s = Inr ((tel_config ?t)\<lparr>tc_Enabled := False, tc_EnabledAt := time_zero\<rparr>)"
    by (rule disableLocked_run [of ?t])
  with assms show ?thesis
    by (intro that [of "?t\<lparr>te_timer := None, te_store := s\<rparr>"]) (simp_all add: tel_timer_callback_def Let_def IsEnabled_def)
qed

text \<open>
  C12. Telemetry never stays on for longer than its validity: as long as settings can be saved, in every state that telemetry
  reaches after it has been started, whatever is emitted, set and whichever timers fire, if it is enabled then it was
  enabled in the past, its current timer is due exactly when the validity that counts from then ends, and
  the callback of that timer disables it.
\<close>
theorem telemetry_window_closes:
  assumes "tel_New mqtt sourceRn (Some s) publishErr now = Some (Inr p)" "0 < now" "cs_saveErr s = (\<lambda>_. None)"
    "tc_Validity (default_GetTelemetry (cs_default s)) \<le> max_duration" "0 \<le> tc_EnabledAt (default_GetTelemetry (cs_default s))"
    "(tel_step fg fp)\<^sup>*\<^sup>* (po_app p) t" "IsEnabled t"
  shows "tc_EnabledAt (tel_config t) \<le> te_clock t
    \<and> (\<exists>i t'. te_timer t = Some i \<and> (i, tc_EnabledAt (tel_config t) + tel_Validity t) \<in> set (te_armed t)
        \<and> tel_timer_callback i t = Some (Inr (), t') \<and> \<not> IsEnabled t')"
proof -
  from assms(6) have "tel_inv t"
    by (induction rule: rtranclp_induct) (auto intro: tel_inv_step tel_inv_New [OF assms(1-5)])
  with assms(7) have "tc_EnabledAt (tel_config t) \<le> te_clock t"
    "\<exists>i. te_timer t = Some i \<and> (i, tc_EnabledAt (tel_config t) + tel_Validity t) \<in> set (te_armed t)"
    by (auto simp: tel_inv_def IsEnabled_def tel_Validity_def)
  then show ?thesis by (meson timer_callback_disables)
qed

section \<open>A failed save\<close>

lemma quiet_step_enabled:
  assumes "tel_quiet_step fg fp t t'" "te_timer t = None" "IsEnabled t"
  shows "te_timer t' = None \<and> IsEnabled t'"
  using assms
proof (induction rule: tel_quiet_step.induct)
  case (emit domain event data t r t')
  then show ?case using emit_core [OF emit(1)] tel_core_config [of t' t] by (simp add: tel_core_def IsEnabled_def)
next
  case (on_change domain event data interval t r t')
  then show ?case using emitOnChange_core [OF on_change(1)] tel_core_config [of t' t] by (simp add: tel_core_def IsEnabled_def)
next
  case (if_more domain event threshold reset data interval t r t')
  then show ?case using emitIfMore_core [OF if_more(1)] tel_core_config [of t' t] by (simp add: tel_core_def IsEnabled_def)
next
  case (fire i due t r t')
  then show ?case by (auto simp: tel_timer_callback_def Let_def IsEnabled_def)
qed (auto simp: IsEnabled_def tel_resetEventCounters_def SetEvtTopic_def)

text \<open>
  Enabling can fail and still take effect without a limit: when the settings cannot be saved, \<^verbatim>\<open>Enable(true)\<close> on
  telemetry that is off returns an error, but the telemetry is enabled and has no timer; however long one waits and whatever is
  emitted, it stays enabled.
\<close>
theorem failed_enable_never_expires:
  assumes "te_timer t = None" "cs_saveErr (te_store t) (cs_saves (te_store t)) = Some e"
  shows "\<exists>e' t1. tel_Enable True t = Some (Inl e', t1) \<and> IsEnabled t1 \<and> te_timer t1 = None
    \<and> (\<forall>t2. (tel_quiet_step fg fp)\<^sup>*\<^sup>* t1 t2 \<longrightarrow> IsEnabled t2)"
proof -
  let ?c = "(tel_config t)\<lparr>tc_Enabled := True, tc_EnabledAt := te_clock t\<rparr>"
  obtain e1 s where s: "tel_SetTelemetry ?c t = Some (Inl e1, t\<lparr>te_store := s\<rparr>)" "store_Telemetry s = Inr ?c"
    by (rule tel_SetTelemetry_run [of ?c t]) (use assms(2) in \<open>auto simp: isl_def\<close>)
  have en: "\<exists>e'. tel_Enable True t = Some (Inl e', t\<lparr>te_store := s\<rparr>)"
    using s by (simp add: tel_Enable_def Let_def act_bind_def wrap_err_def)
  have start: "te_timer (t\<lparr>te_store := s\<rparr>) = None \<and> IsEnabled (t\<lparr>te_store := s\<rparr>)"
    using s assms(1) by (simp add: IsEnabled_def)
  have "te_timer t2 = None \<and> IsEnabled t2" if "(tel_quiet_step fg fp)\<^sup>*\<^sup>* (t\<lparr>te_store := s\<rparr>) t2" for t2
    using that by (induction rule: rtranclp_induct) (auto intro: start simp: start dest: quiet_step_enabled)
  with en start show ?thesis by blast
qed


section \<open>Counting\<close>

text \<open>Calls of \<^verbatim>\<open>EmitIfMore\<close> with the same arguments, at the times \<open>ts\<close>, one after another.\<close>

fun emitIfMore_at ::
  "fimpgo \<Rightarrow> (event_data \<Rightarrow> string) \<Rightarrow> string \<Rightarrow> string \<Rightarrow> int \<Rightarrow> bool \<Rightarrow> event_data \<Rightarrow> duration \<Rightarrow> time list
   \<Rightarrow> telemetry option \<Rightarrow> telemetry option option" where
  "emitIfMore_at fg fp domain event threshold reset data interval [] tel = Some tel"
| "emitIfMore_at fg fp domain event threshold reset data interval (now # ts) tel =
     (case EmitIfMore fg fp (map_option (\<lambda>t. t\<lparr>te_clock := now\<rparr>) tel) domain event threshold reset data interval of
        None \<Rightarrow> None
      | Some tel' \<Rightarrow> emitIfMore_at fg fp domain event threshold reset data interval ts tel')"

definition if_more_count :: "telemetry \<Rightarrow> string \<Rightarrow> int" where
  "if_more_count t key = (case map_of (te_ifMoreStates t) key of None \<Rightarrow> 0 | Some st \<Rightarrow> im_count st)"

definition if_more_last :: "telemetry \<Rightarrow> string \<Rightarrow> time" where
  "if_more_last t key = (case map_of (te_ifMoreStates t) key of None \<Rightarrow> time_zero | Some st \<Rightarrow> im_last st)"

definition counting_ok :: "string \<Rightarrow> string \<Rightarrow> telemetry \<Rightarrow> bool" where
  "counting_ok domain event t \<longleftrightarrow> tc_Enabled (tel_config t) \<and> \<not> is_suppressed (tel_config t) domain event
     \<and> te_publishErr t = (\<lambda>_. None)"

lemma emitIfMore_call:
  fixes t now
  assumes "0 < threshold" "interval \<le> 0" "event \<noteq> ''''" "counting_ok domain event t" "if_more_last t key \<le> now"
    "key = if_more_prefix domain event @ fp data"
  obtains t' where "EmitIfMore fg fp (Some (t\<lparr>te_clock := now\<rparr>)) domain event threshold True data interval = Some (Some t')"
    "counting_ok domain event t'" "te_clock t' = now" "if_more_last t' key \<le> now"
    "if_more_count t' key = (if if_more_count t key + 1 \<ge> threshold then 0 else if_more_count t key + 1)"
    "length (te_published t') = length (te_published t) + (if if_more_count t key + 1 \<ge> threshold then 1 else 0)"
proof -
  define st where "st = (case map_of (te_ifMoreStates t) key of None \<Rightarrow> \<lparr>im_count = 0, im_last = time_zero, im_data = data\<rparr> | Some st \<Rightarrow> st)"
  define c where "c = im_count st + 1"
  have st: "im_count st = if_more_count t key" "im_last st = if_more_last t key"
    by (auto simp: st_def if_more_count_def if_more_last_def split: option.splits)
  have nt: "\<not> time_since now (im_last st) < interval"
    using assms(2,5) st by (auto simp: time_since_def time_sub_def max_duration_def min_duration_def)
  define st' where "st' = (if c \<ge> threshold then st\<lparr>im_last := now, im_count := 0\<rparr> else st\<lparr>im_count := c\<rparr>)"
  define t1 where "t1 = t\<lparr>te_clock := now, te_ifMoreStates := AList.update key st' (te_ifMoreStates t)\<rparr>"
  have t1: "if_more_count t1 key = (if c \<ge> threshold then 0 else c)" "if_more_last t1 key \<le> now" "counting_ok domain event t1"
    "te_clock t1 = now"
    using assms(4,5) st by (auto simp: t1_def st'_def if_more_count_def if_more_last_def update_conv counting_ok_def)
  have call: "tel_emitIfMore fg fp domain event threshold True data interval (t\<lparr>te_clock := now\<rparr>)
      = (if c \<ge> threshold then tel_emit fg domain event data t1 else Some (Inr (), t1))"
    using assms(1) nt by (auto simp: tel_emitIfMore_def Let_def assms(6) [symmetric] st_def [symmetric] c_def st'_def t1_def)
  show ?thesis
  proof (cases "c \<ge> threshold")
    case False
    with call t1 c_def st show ?thesis
      by (intro that [of t1]) (simp_all add: EmitIfMore_def tel_logged_def t1_def)
  next
    case True
    obtain m where "tel_emit fg domain event data t1 = Some (Inr (), t1\<lparr>te_publishes := Suc (te_publishes t1), te_published := te_published t1 @ [m]\<rparr>)"
      using t1(3) assms(3) by (auto simp: tel_emit_def tel_publish_def counting_ok_def Let_def)
    with True call t1 c_def st show ?thesis
      by (intro that [of "t1\<lparr>te_publishes := Suc (te_publishes t1), te_published := te_published t1 @ [m]\<rparr>"])
        (simp_all add: EmitIfMore_def tel_logged_def counting_ok_def if_more_count_def if_more_last_def, simp add: t1_def)
  qed
qed

lemma emitIfMore_count:
  assumes "0 < threshold" "interval \<le> 0" "event \<noteq> ''''" "counting_ok domain event t" "sorted (te_clock t # ts)"
    "key = if_more_prefix domain event @ fp data" "0 \<le> if_more_count t key" "if_more_count t key < threshold" "if_more_last t key \<le> te_clock t"
  shows "\<exists>t'. emitIfMore_at fg fp domain event threshold True data interval ts (Some t) = Some (Some t')
    \<and> int (length (te_published t')) = int (length (te_published t)) + (if_more_count t key + int (length ts)) div threshold"
  using assms
proof (induction ts arbitrary: t)
  case Nil
  then show ?case by simp
next
  case (Cons now ts)
  let ?n = "if_more_count t key"
  from Cons.prems obtain t1 where t1: "EmitIfMore fg fp (Some (t\<lparr>te_clock := now\<rparr>)) domain event threshold True data interval = Some (Some t1)"
    "counting_ok domain event t1" "te_clock t1 = now" "if_more_last t1 key \<le> now"
    "if_more_count t1 key = (if ?n + 1 \<ge> threshold then 0 else ?n + 1)"
    "length (te_published t1) = length (te_published t) + (if ?n + 1 \<ge> threshold then 1 else 0)"
    by (elim emitIfMore_call [where t = t and now = now and fg = fg and fp = fp and data = data and key = key and domain = domain, rotated -1]) auto
  have "0 \<le> if_more_count t1 key" "if_more_count t1 key < threshold" using t1(5) Cons.prems(1,7) by auto
  with Cons.IH [of t1] Cons.prems t1 obtain t' where t':
    "emitIfMore_at fg fp domain event threshold True data interval ts (Some t1) = Some (Some t')"
    "int (length (te_published t')) = int (length (te_published t1)) + (if_more_count t1 key + int (length ts)) div threshold"
    by auto
  have "(?n + (1 + int (length ts))) div threshold
      = (if ?n + 1 \<ge> threshold then 1 else 0) + (if_more_count t1 key + int (length ts)) div threshold"
  proof (cases "?n + 1 \<ge> threshold")
    case True
    with Cons.prems(8) have "?n + (1 + int (length ts)) = int (length ts) + threshold" by simp
    then have "(?n + (1 + int (length ts))) div threshold = (int (length ts) + threshold) div threshold" by (rule arg_cong)
    with True t1(5) Cons.prems(1) show ?thesis by (simp only: div_add_self2) simp
  qed (simp add: t1(5) add.assoc)
  with t' t1(1,6) show ?case by auto
qed

text \<open>
  Every so many calls, one event: with the counter reset on emission and no throttling, enabled telemetry publishes
  exactly one event for every \<open>threshold\<close> calls of \<^verbatim>\<open>EmitIfMore\<close> with the same data, however the calls are spread over time.
\<close>
theorem EmitIfMore_counts:
  assumes "0 < threshold" "interval \<le> 0" "event \<noteq> ''''" "counting_ok domain event t" "sorted (te_clock t # ts)"
    "map_of (te_ifMoreStates t) (if_more_prefix domain event @ fp data) = None" "0 \<le> te_clock t"
  shows "\<exists>t'. emitIfMore_at fg fp domain event threshold True data interval ts (Some t) = Some (Some t')
    \<and> int (length (te_published t')) = int (length (te_published t)) + int (length ts) div threshold"
  using emitIfMore_count [of threshold interval event domain t ts _ fp data fg] assms
  by (simp add: if_more_count_def if_more_last_def time_zero_def)


section \<open>Instances\<close>

definition demo_store :: "(nat \<Rightarrow> go_error option) \<Rightarrow> default_store" where
  "demo_store save =
     NewDefaultStore (default_SetTelemetry (zero_telemetry\<lparr>tc_Enabled := True, tc_EnabledAt := 5, tc_Validity := 100\<rparr>) (NewDefault ''work''))
       save (\<lambda>_. ''now'')"

lemma demo_store_Telemetry:
  "store_Telemetry (demo_store save) = Inr (zero_telemetry\<lparr>tc_Enabled := True, tc_EnabledAt := 5, tc_Validity := 100\<rparr>)"
  by (simp add: store_Telemetry_def demo_store_def NewDefaultStore_def default_SetTelemetry_def)

lemma demo_resume:
  "resumeValidityWindow (new_telemetry ''app'' (demo_store (\<lambda>_. None)) (\<lambda>_. None) 40)
     = Some (Inr (), startTimerLocked 65 (new_telemetry ''app'' (demo_store (\<lambda>_. None)) (\<lambda>_. None) 40))"
  by (simp add: resumeValidityWindow_def new_telemetry_def tel_config_def demo_store_Telemetry Let_def validityOrDefault_def
      zero_telemetry_def is_zero_def time_sub_def max_duration_def min_duration_def)

lemma demo_New:
  obtains p where "tel_New True ''app'' (Some (demo_store (\<lambda>_. None))) (\<lambda>_. None) 40 = Some (Inr p)"
    "po_app p = startTimerLocked 65 (new_telemetry ''app'' (demo_store (\<lambda>_. None)) (\<lambda>_. None) 40)"
  by (cases "stateful_Next 40 subscribeBackoff")
    (auto simp: tel_New_def demo_store_Telemetry demo_resume poll_Start_def poll_New_def scheduleLocked_def poll_intervals
      ConfigRequestTopic_def Let_def)

theorem telemetry_window_closes_witness:
  "\<exists>t. te_timer t = Some 0 \<and> (0, 105) \<in> set (te_armed t) \<and> IsEnabled t
    \<and> (\<exists>t'. tel_timer_callback 0 t = Some (Inr (), t') \<and> \<not> IsEnabled t')"
proof -
  obtain p where p: "tel_New True ''app'' (Some (demo_store (\<lambda>_. None))) (\<lambda>_. None) 40 = Some (Inr p)"
    "po_app p = startTimerLocked 65 (new_telemetry ''app'' (demo_store (\<lambda>_. None)) (\<lambda>_. None) 40)"
    by (rule demo_New)
  have ok: "cs_saveErr (demo_store (\<lambda>_. None)) = (\<lambda>_. None)"
    "tc_Validity (default_GetTelemetry (cs_default (demo_store (\<lambda>_. None)))) \<le> max_duration"
    "0 \<le> tc_EnabledAt (default_GetTelemetry (cs_default (demo_store (\<lambda>_. None))))"
    by (simp_all add: demo_store_def NewDefaultStore_def default_SetTelemetry_def default_GetTelemetry_def max_duration_def)
  have e: "IsEnabled (po_app p)" "tc_EnabledAt (tel_config (po_app p)) = 5" "tel_Validity (po_app p) = 100" "te_timer (po_app p) = Some 0"
    by (simp_all add: p(2) IsEnabled_def tel_Validity_def validityOrDefault_def startTimerLocked_def new_telemetry_def tel_config_def
        demo_store_Telemetry)
  from telemetry_window_closes [OF p(1) _ ok rtranclp.rtrancl_refl e(1)] e show ?thesis by (intro exI [of _ "po_app p"]) auto
qed

theorem failed_enable_never_expires_witness:
  "\<exists>e t1. tel_Enable True (new_telemetry ''app'' (demo_store (\<lambda>_. Some (Errorf ''disk full''))) (\<lambda>_. None) 40) = Some (Inl e, t1)
    \<and> IsEnabled t1 \<and> te_timer t1 = None"
proof -
  let ?t = "new_telemetry ''app'' (demo_store (\<lambda>_. Some (Errorf ''disk full''))) (\<lambda>_. None) 40"
  have "te_timer ?t = None" "cs_saveErr (te_store ?t) (cs_saves (te_store ?t)) = Some (Errorf ''disk full'')"
    by (simp_all add: new_telemetry_def demo_store_def NewDefaultStore_def)
  from failed_enable_never_expires [OF this, of demo_fimpgo "\<lambda>_. ''''"] show ?thesis by blast
qed

theorem EmitIfMore_counts_witness:
  "\<exists>t'. emitIfMore_at demo_fimpgo (\<lambda>_. '''') ''panic'' ''boot'' 2 True [] 0 [41, 41, 42, 50, 60]
      (Some (new_telemetry ''app'' (demo_store (\<lambda>_. None)) (\<lambda>_. None) 40)) = Some (Some t') \<and> length (te_published t') = 2"
  using EmitIfMore_counts [of 2 0 "''boot''" "''panic''" "new_telemetry ''app'' (demo_store (\<lambda>_. None)) (\<lambda>_. None) 40"
      "[41, 41, 42, 50, 60]" "\<lambda>_. ''''" "[]" demo_fimpgo]
  by (auto simp: counting_ok_def new_telemetry_def tel_config_def demo_store_Telemetry is_suppressed_def zero_telemetry_def)

end
