(* ===== verification/Application.thy ===== *)
theory Application
  imports Configuration Tasks Storage
begin

text \<open>
  The application: its manifest (\<^verbatim>\<open>src/manifest\<close>), the discovery of services (\<^verbatim>\<open>src/discovery\<close>), and the messages and
  tasks of an application (\<^verbatim>\<open>src/app\<close>). The application itself is written by the users of the library: it is a record of
  actions on the state \<open>'w\<close>, whose optional interfaces may be missing.
\<close>

section \<open>The manifest (\<^verbatim>\<open>src/manifest\<close>)\<close>

type_synonym multilingual_label = "(string \<times> string) list"

record app_config_ui =
  ui_Type :: string
  ui_Select :: fimp_value

record app_config =
  ac_ID :: string
  ac_Label :: multilingual_label
  ac_ValT :: string
  ac_UI :: app_config_ui
  ac_Default :: fimp_value
  ac_IsRequired :: bool
  ac_ConfigPoint :: string
  ac_Hidden :: bool

record app_auth =
  aa_Type :: string
  aa_CodeGrantLoginPageURL :: string
  aa_RedirectURL :: string
  aa_ClientID :: string
  aa_Secret :: string
  aa_PartnerID :: string
  aa_AuthEndpoint :: string

record app_service =
  as_Name :: string
  as_Alias :: string
  as_Address :: string
  as_Interfaces :: "interface list"

record ui_button =
  ub_ID :: string
  ub_Label :: multilingual_label
  ub_Serv :: string
  ub_IntfT :: string
  ub_Val :: string
  ub_Hidden :: bool

record app_ub_lock =
  ul_ID :: string
  ul_Header :: multilingual_label
  ul_Text :: multilingual_label
  ul_Configs :: "string list"
  ul_Buttons :: "string list"
  ul_Footer :: multilingual_label
  ul_Hidden :: bool

record app_states =
  st_Health :: string
  st_Connection :: string
  st_Config :: string
  st_Auth :: string

record manifest =
  mf_Configs :: "app_config list"
  mf_UIBlocks :: "app_ub_lock list"
  mf_UIButtons :: "ui_button list"
  mf_Auth :: app_auth
  mf_InitFlow :: "string list"
  mf_Services :: "app_service list"
  mf_AppState :: app_states
  mf_ConfigState :: fimp_value

definition manifest_Name :: string where "manifest_Name = ''app-manifest.json''"

definition manifest_New :: manifest where
  "manifest_New =
     \<lparr>mf_Configs = [], mf_UIBlocks = [], mf_UIButtons = [],
      mf_Auth = \<lparr>aa_Type = '''', aa_CodeGrantLoginPageURL = '''', aa_RedirectURL = '''', aa_ClientID = '''', aa_Secret = '''',
        aa_PartnerID = '''', aa_AuthEndpoint = ''''\<rparr>,
      mf_InitFlow = [], mf_Services = [], mf_AppState = \<lparr>st_Health = '''', st_Connection = '''', st_Config = '''', st_Auth = ''''\<rparr>,
      mf_ConfigState = VNull\<rparr>"

definition app_config_Hide :: "app_config \<Rightarrow> app_config" where "app_config_Hide b = b\<lparr>ac_Hidden := True\<rparr>"
definition app_config_Show :: "app_config \<Rightarrow> app_config" where "app_config_Show b = b\<lparr>ac_Hidden := False\<rparr>"
definition button_Hide :: "ui_button \<Rightarrow> ui_button" where "button_Hide b = b\<lparr>ub_Hidden := True\<rparr>"
definition button_Show :: "ui_button \<Rightarrow> ui_button" where "button_Show b = b\<lparr>ub_Hidden := False\<rparr>"
definition ui_block_Hide :: "app_ub_lock \<Rightarrow> app_ub_lock" where "ui_block_Hide b = b\<lparr>ul_Hidden := True\<rparr>"
definition ui_block_Show :: "app_ub_lock \<Rightarrow> app_ub_lock" where "ui_block_Show b = b\<lparr>ul_Hidden := False\<rparr>"

text \<open>
  The getters return pointers into the lists, or nil: the index of the first element with the identifier. What a caller
  does with the element through such a pointer is an update at that index.
\<close>

fun index_of :: "('x \<Rightarrow> bool) \<Rightarrow> nat \<Rightarrow> 'x list \<Rightarrow> nat option" where
  "index_of P i [] = None"
| "index_of P i (x # xs) = (if P x then Some i else index_of P (Suc i) xs)"

definition GetUIBlock :: "string \<Rightarrow> manifest \<Rightarrow> nat option" where
  "GetUIBlock uid m = index_of (\<lambda>b. ul_ID b = uid) 0 (mf_UIBlocks m)"

definition GetButton :: "string \<Rightarrow> manifest \<Rightarrow> nat option" where
  "GetButton uid m = index_of (\<lambda>b. ub_ID b = uid) 0 (mf_UIButtons m)"

definition GetAppConfig :: "string \<Rightarrow> manifest \<Rightarrow> nat option" where
  "GetAppConfig uid m = index_of (\<lambda>c. ac_ID c = uid) 0 (mf_Configs m)"

definition update_UIBlock :: "string \<Rightarrow> (app_ub_lock \<Rightarrow> app_ub_lock) \<Rightarrow> manifest \<Rightarrow> manifest" where
  "update_UIBlock uid f m =
     (case GetUIBlock uid m of None \<Rightarrow> m | Some i \<Rightarrow> m\<lparr>mf_UIBlocks := (mf_UIBlocks m)[i := f (mf_UIBlocks m ! i)]\<rparr>)"

lemma index_of_shift: "index_of P i xs = map_option (\<lambda>k. i + k) (index_of P 0 xs)"
proof (induction xs arbitrary: i)
  case (Cons x xs)
  show ?case using Cons [of "Suc i"] Cons [of "Suc 0"] by (simp add: option.map_comp comp_def)
qed simp

lemma index_of_Some:
  "index_of P 0 xs = Some i \<longleftrightarrow> i < length xs \<and> P (xs ! i) \<and> (\<forall>j < i. \<not> P (xs ! j))"
proof (induction xs arbitrary: i)
  case (Cons x xs)
  show ?case
  proof (cases i)
    case 0
    then show ?thesis by (auto simp: index_of_shift [of P "Suc 0"])
  next
    case (Suc k)
    then show ?thesis by (auto simp: index_of_shift [of P "Suc 0"] Cons.IH less_Suc_eq_0_disj)
  qed
qed simp

text \<open>The loader reads the manifest from its storage.\<close>

definition loader_Load :: "manifest json \<Rightarrow> string \<Rightarrow> os \<Rightarrow> manifest result" where
  "loader_Load js workDir os =
     (case storage_Load js (storage_New manifest_New workDir manifest_Name) os of
        (s, _, Some e) \<Rightarrow> Inl (Wrapf ''manifest loader: failed to load the manifest'' e)
      | (s, _, None) \<Rightarrow> Inr (sg_model s))"

section \<open>Values\<close>

definition label_value :: "multilingual_label \<Rightarrow> fimp_value" where
  "label_value l = VObject (map (\<lambda>(k, v). (k, VString v)) l)"

definition strings_value :: "string list \<Rightarrow> fimp_value" where
  "strings_value xs = VList (map VString xs)"

definition interface_value :: "interface \<Rightarrow> fimp_value" where
  "interface_value i =
     VObject [(''intf_t'', VString (if_Type i)), (''msg_t'', VString (if_MsgType i)), (''val_t'', VString (if_ValueType i)),
       (''ver'', VString (if_Version i))]"

definition app_config_value :: "app_config \<Rightarrow> fimp_value" where
  "app_config_value c =
     VObject [(''id'', VString (ac_ID c)), (''label'', label_value (ac_Label c)), (''val_t'', VString (ac_ValT c)),
       (''ui'', VObject [(''type'', VString (ui_Type (ac_UI c))), (''select'', ui_Select (ac_UI c))]),
       (''val'', VObject [(''default'', ac_Default c)]), (''is_required'', VBool (ac_IsRequired c)),
       (''config_point'', VString (ac_ConfigPoint c)), (''hidden'', VBool (ac_Hidden c))]"

definition app_auth_value :: "app_auth \<Rightarrow> fimp_value" where
  "app_auth_value a =
     VObject [(''type'', VString (aa_Type a)), (''code_grant_login_page_url'', VString (aa_CodeGrantLoginPageURL a)),
       (''redirect_url'', VString (aa_RedirectURL a)), (''client_id'', VString (aa_ClientID a)), (''secret'', VString (aa_Secret a)),
       (''partner_id'', VString (aa_PartnerID a)), (''auth_endpoint'', VString (aa_AuthEndpoint a))]"

definition app_service_value :: "app_service \<Rightarrow> fimp_value" where
  "app_service_value s =
     VObject [(''name'', VString (as_Name s)), (''alias'', VString (as_Alias s)), (''address'', VString (as_Address s)),
       (''interfaces'', VList (map interface_value (as_Interfaces s)))]"

definition button_value :: "ui_button \<Rightarrow> fimp_value" where
  "button_value b =
     VObject [(''id'', VString (ub_ID b)), (''label'', label_value (ub_Label b)),
       (''req'', VObject [(''serv'', VString (ub_Serv b)), (''intf_t'', VString (ub_IntfT b)), (''val'', VString (ub_Val b))]),
       (''hidden'', VBool (ub_Hidden b))]"

definition ui_block_value :: "app_ub_lock \<Rightarrow> fimp_value" where
  "ui_block_value b =
     VObject [(''id'', VString (ul_ID b)), (''header'', label_value (ul_Header b)), (''text'', label_value (ul_Text b)),
       (''configs'', strings_value (ul_Configs b)), (''buttons'', strings_value (ul_Buttons b)),
       (''footer'', label_value (ul_Footer b)), (''hidden'', VBool (ul_Hidden b))]"

definition states_value :: "app_states \<Rightarrow> fimp_value" where
  "states_value s =
     VObject [(''app'', VString (st_Health s)), (''connection'', VString (st_Connection s)), (''config'', VString (st_Config s)),
       (''auth'', VString (st_Auth s))]"

definition manifest_value :: "manifest \<Rightarrow> fimp_value" where
  "manifest_value m =
     VObject [(''configs'', VList (map app_config_value (mf_Configs m))), (''ui_blocks'', VList (map ui_block_value (mf_UIBlocks m))),
       (''ui_buttons'', VList (map button_value (mf_UIButtons m))), (''auth'', app_auth_value (mf_Auth m)),
       (''init_flow'', strings_value (mf_InitFlow m)), (''services'', VList (map app_service_value (mf_Services m))),
       (''app_state'', states_value (mf_AppState m)), (''config_state'', mf_ConfigState m)]"

definition all_states :: "lifecycle \<Rightarrow> app_states" where
  "all_states l =
     (case lifecycle_AllStates l of (health, connection, config, auth) \<Rightarrow>
        \<lparr>st_Health = health, st_Connection = connection, st_Config = config, st_Auth = auth\<rparr>)"

section \<open>Discovery (\<^verbatim>\<open>src/discovery\<close>)\<close>

definition discovery_Topic :: string where "discovery_Topic = ''pt:j1/mt:cmd/rt:discovery''"
definition discovery_Service :: string where "discovery_Service = ''system''"
definition CmdDiscoveryRequest :: string where "CmdDiscoveryRequest = ''cmd.discovery.request''"
definition EvtDiscoveryReport :: string where "EvtDiscoveryReport = ''evt.discovery.report''"

record discovery_resource =
  dr_ResourceName :: string
  dr_ResourceType :: string
  dr_PackageName :: string
  dr_InstanceID :: string
  dr_Version :: string

definition resource_value :: "discovery_resource \<Rightarrow> app_states option \<Rightarrow> fimp_value" where
  "resource_value r states =
     VObject ([(''resource_name'', VString (dr_ResourceName r)), (''resource_type'', VString (dr_ResourceType r)),
       (''package_name'', VString (dr_PackageName r)), (''instance_id'', VString (dr_InstanceID r)), (''version'', VString (dr_Version r))]
       @ (case states of None \<Rightarrow> [] | Some s \<Rightarrow> [(''app_state'', states_value s)]))"

definition discovery_Handle ::
  "fimpgo \<Rightarrow> discovery_resource \<Rightarrow> ('w \<Rightarrow> lifecycle) option \<Rightarrow> message \<Rightarrow> ('w, fimp_message option) act" where
  "discovery_Handle fg r lc msg =
     act_get (\<lambda>w. Some (fg_New fg KObject EvtDiscoveryReport discovery_Service
       (resource_value r (map_option (\<lambda>f. all_states (f w)) lc)) [] (Some (ms_Payload msg))))"

definition discovery_Route :: "fimpgo \<Rightarrow> discovery_resource \<Rightarrow> ('w \<Rightarrow> lifecycle) option \<Rightarrow> 'w routing" where
  "discovery_Route fg r lc =
     NewRouting (Some (handler_Handle fg (NewMessageHandler (act_processor (discovery_Handle fg r lc)) [])))
       [ForTopic discovery_Topic, ForType CmdDiscoveryRequest]"


section \<open>The application (\<^verbatim>\<open>app.go\<close>, \<^verbatim>\<open>model.go\<close>)\<close>

definition OperationStatusOK :: string where "OperationStatusOK = ''ok''"
definition OperationStatusError :: string where "OperationStatusError = ''error''"

record configuration_report =
  cr_OpStatus :: string
  cr_OpError :: string
  cr_AppState :: app_states

record authentication_report =
  ar_Status :: string
  ar_ErrorText :: string
  ar_ErrorCode :: string
  ar_Errors :: string

record login_credentials =
  lg_Username :: string
  lg_Password :: string
  lg_Encrypted :: bool

record oauth2_token_response =
  ot_AccessToken :: string
  ot_TokenType :: string
  ot_ExpiresIn :: int
  ot_RefreshToken :: string
  ot_Scope :: fimp_value

record button_action_response =
  ba_Operation :: string
  ba_OperationStatus :: string
  ba_Next :: string
  ba_ErrorCode :: string
  ba_ErrorText :: string

definition configuration_report_value :: "configuration_report \<Rightarrow> fimp_value" where
  "configuration_report_value r =
     VObject [(''op_status'', VString (cr_OpStatus r)), (''op_error'', VString (cr_OpError r)), (''app_state'', states_value (cr_AppState r))]"

definition authentication_report_value :: "authentication_report \<Rightarrow> fimp_value" where
  "authentication_report_value r =
     VObject ([(''status'', VString (ar_Status r)), (''error_text'', VString (ar_ErrorText r)), (''error_code'', VString (ar_ErrorCode r))]
       @ (if ar_Errors r = '''' then [] else [(''errors'', VString (ar_Errors r))]))"

definition button_action_value :: "button_action_response \<Rightarrow> fimp_value" where
  "button_action_value r =
     VObject [(''op'', VString (ba_Operation r)), (''op_status'', VString (ba_OperationStatus r)), (''next'', VString (ba_Next r)),
       (''error_code'', VString (ba_ErrorCode r)), (''error_text'', VString (ba_ErrorText r))]"

text \<open>
  The methods of an application; those of its optional interfaces may be missing. \<^verbatim>\<open>GetManifest\<close> returns a pointer, through which
  the handler writes: \<open>ai_putManifest\<close> is what becomes of the manifest that the application keeps (nothing, if it
  hands out copies). \<open>'c\<close> is the type of its configuration.
\<close>

record ('w, 'c) app_impl =
  ai_GetManifest :: "('w, manifest) act"
  ai_putManifest :: "manifest \<Rightarrow> 'w \<Rightarrow> 'w"
  ai_Configure :: "'c \<Rightarrow> ('w, unit) act"
  ai_Uninstall :: "('w, unit) act"
  ai_Reset :: "('w, unit) act option"
  ai_Initialize :: "('w, unit) act option"
  ai_Check :: "(('w, unit) act \<times> duration) option"
  ai_Login :: "(login_credentials \<Rightarrow> ('w, unit) act) option"
  ai_Authorize :: "(oauth2_token_response \<Rightarrow> ('w, unit) act) option"
  ai_Logout :: "('w, unit) act option"
  ai_ErrorsReport :: "('w, string list) act option"

definition LogginableApp :: "('w, 'c) app_impl \<Rightarrow> ((login_credentials \<Rightarrow> ('w, unit) act) \<times> ('w, unit) act) option" where
  "LogginableApp a =
     (case (ai_Login a, ai_Logout a) of (Some login, Some logout) \<Rightarrow> Some (login, logout) | _ \<Rightarrow> None)"

definition AuthorizableApp :: "('w, 'c) app_impl \<Rightarrow> ((oauth2_token_response \<Rightarrow> ('w, unit) act) \<times> ('w, unit) act) option" where
  "AuthorizableApp a =
     (case (ai_Authorize a, ai_Logout a) of (Some authorize, Some logout) \<Rightarrow> Some (authorize, logout) | _ \<Rightarrow> None)"

text \<open>
  What the routing is given: the service name, the life cycle, the storage of the configuration (with its public model, if it
  has one), the locker, the function that excludes all things, the application, and how the values of messages are decoded.
\<close>

record ('w, 'c) app_env =
  ae_fimpgo :: fimpgo
  ae_service :: string
  ae_lifecycle :: "'w \<Rightarrow> lifecycle"
  ae_putLifecycle :: "lifecycle \<Rightarrow> 'w \<Rightarrow> 'w"
  ae_PublicModel :: "('w \<Rightarrow> fimp_value) option"
  ae_Model :: "'w \<Rightarrow> fimp_value"
  ae_locker :: "nat option"
  ae_excludeAllThings :: "('w, unit) act option"
  ae_app :: "('w, 'c) app_impl"
  ae_decodeConfig :: "fimp_message \<Rightarrow> 'c result"
  ae_decodeLogin :: "fimp_message \<Rightarrow> login_credentials result"
  ae_decodeTokens :: "fimp_message \<Rightarrow> oauth2_token_response result"
  ae_rounding :: rounding
  ae_now :: "'w \<Rightarrow> time"

definition publicConfigState :: "('w, 'c) app_env \<Rightarrow> 'w \<Rightarrow> fimp_value" where
  "publicConfigState e w = (case ae_PublicModel e of Some f \<Rightarrow> f w | None \<Rightarrow> ae_Model e w)"

definition on_lifecycle :: "('w, 'c) app_env \<Rightarrow> (lifecycle \<Rightarrow> lifecycle option) \<Rightarrow> ('w, unit) act" where
  "on_lifecycle e f w = map_option (\<lambda>l. (Inr (), ae_putLifecycle e l w)) (f (ae_lifecycle e w))"

definition app_AuthState :: "('w, 'c) app_env \<Rightarrow> 'w \<Rightarrow> app_state" where
  "app_AuthState e w = lc_authState (ae_lifecycle e w)"

section \<open>The handlers (\<^verbatim>\<open>routing.go\<close>)\<close>

definition CmdAppGetManifest :: string where "CmdAppGetManifest = ''cmd.app.get_manifest''"
definition EvtAppManifestReport :: string where "EvtAppManifestReport = ''evt.app.manifest_report''"
definition CmdAppGetState :: string where "CmdAppGetState = ''cmd.app.get_state''"
definition EvtAppStateReport :: string where "EvtAppStateReport = ''evt.app.state_report''"
definition CmdConfigGetExtendedReport :: string where "CmdConfigGetExtendedReport = ''cmd.config.get_extended_report''"
definition EvtConfigExtendedReport :: string where "EvtConfigExtendedReport = ''evt.config.extended_report''"
definition CmdConfigExtendedSet :: string where "CmdConfigExtendedSet = ''cmd.config.extended_set''"
definition EvtAppConfigReport :: string where "EvtAppConfigReport = ''evt.app.config_report''"
definition CmdAppUninstall :: string where "CmdAppUninstall = ''cmd.app.uninstall''"
definition EvtAppUninstallReport :: string where "EvtAppUninstallReport = ''evt.app.uninstall_report''"
definition CmdAppReset :: string where "CmdAppReset = ''cmd.app.reset''"
definition EvtAppConfigActionReport :: string where "EvtAppConfigActionReport = ''evt.app.config_action_report''"
definition CmdAuthLogin :: string where "CmdAuthLogin = ''cmd.auth.login''"
definition CmdAuthLogout :: string where "CmdAuthLogout = ''cmd.auth.logout''"
definition CmdAuthSetTokens :: string where "CmdAuthSetTokens = ''cmd.auth.set_tokens''"
definition EvtAuthStatusReport :: string where "EvtAuthStatusReport = ''evt.auth.status_report''"
definition CmdAppDiagGetReport :: string where "CmdAppDiagGetReport = ''cmd.app.get_diag''"
definition EvtAppDiagReport :: string where "EvtAppDiagReport = ''evt.app.diag_report''"

lemmas app_commands = CmdAppGetManifest_def CmdAppGetState_def CmdConfigGetExtendedReport_def CmdConfigExtendedSet_def
  CmdAppUninstall_def CmdAppReset_def CmdAuthLogin_def CmdAuthLogout_def CmdAuthSetTokens_def CmdAppDiagGetReport_def

type_synonym 'w app_handler = "message \<Rightarrow> ('w, fimp_message option) act"

text \<open>A reply with an object.\<close>

definition app_reply :: "('w, 'c) app_env \<Rightarrow> string \<Rightarrow> fimp_value \<Rightarrow> message \<Rightarrow> fimp_message option" where
  "app_reply e evt v msg =
     Some (fg_NewMessage (ae_fimpgo e) evt (ae_service e) (fg_VTypeObject (ae_fimpgo e)) v [] (Some (ms_Payload msg)))"

definition HandleCmdAppGetState :: "('w, 'c) app_env \<Rightarrow> 'w app_handler" where
  "HandleCmdAppGetState e msg =
     act_get (\<lambda>w. app_reply e EvtAppStateReport (states_value (all_states (ae_lifecycle e w))) msg)"

definition HandleCmdConfigGetExtendedReport :: "('w, 'c) app_env \<Rightarrow> 'w app_handler" where
  "HandleCmdConfigGetExtendedReport e msg =
     act_get (\<lambda>w. app_reply e EvtConfigExtendedReport (publicConfigState e w) msg)"

definition HandleCmdAppGetManifest :: "('w, 'c) app_env \<Rightarrow> 'w app_handler" where
  "HandleCmdAppGetManifest e msg =
     act_bind (if pl_ValueType (ms_Payload msg) \<noteq> fg_VTypeNull (ae_fimpgo e)
               then act_wrap ''provided value has an incorrect format'' (act_result (fg_GetStringValue (ae_fimpgo e) (ms_Payload msg)))
               else act_return '''') (\<lambda>mode.
     act_bind (act_wrap ''failed to retrieve the manifest'' (ai_GetManifest (ae_app e))) (\<lambda>m.
     if mode = ''manifest_state'' \<or> mode = ''full''
     then
       act_bind (act_get (\<lambda>w. m\<lparr>mf_AppState := all_states (ae_lifecycle e w), mf_ConfigState := publicConfigState e w\<rparr>)) (\<lambda>m.
       act_bind (act_modify (ai_putManifest (ae_app e) m)) (\<lambda>_.
       act_return (app_reply e EvtAppManifestReport (manifest_value m) msg)))
     else act_return (app_reply e EvtAppManifestReport (manifest_value m) msg)))"

definition makeConfigurationReply :: "('w, 'c) app_env \<Rightarrow> string \<Rightarrow> message \<Rightarrow> go_error option \<Rightarrow> ('w, fimp_message option) act" where
  "makeConfigurationReply e messageType msg err =
     act_get (\<lambda>w. app_reply e messageType (configuration_report_value
       (case err of
          None \<Rightarrow> \<lparr>cr_OpStatus = OperationStatusOK, cr_OpError = '''', cr_AppState = all_states (ae_lifecycle e w)\<rparr>
        | Some x \<Rightarrow> \<lparr>cr_OpStatus = OperationStatusError, cr_OpError = ''configure the app err: '' @ Error x,
                     cr_AppState = all_states (ae_lifecycle e w)\<rparr>)) msg)"

definition HandleCmdConfigExtendedSet :: "('w, 'c) app_env \<Rightarrow> 'w app_handler" where
  "HandleCmdConfigExtendedSet e msg =
     (case ae_decodeConfig e (ms_Payload msg) of
        Inl err \<Rightarrow> makeConfigurationReply e EvtAppConfigReport msg (Some err)
      | Inr cfg \<Rightarrow>
          act_bind (act_try (ai_Configure (ae_app e) cfg)) (\<lambda>r.
          case r of
            Inl err \<Rightarrow> makeConfigurationReply e EvtAppConfigReport msg (Some err)
          | Inr _ \<Rightarrow> makeConfigurationReply e EvtAppConfigReport msg None))"

definition HandleCmdAppUninstall :: "('w, 'c) app_env \<Rightarrow> 'w app_handler" where
  "HandleCmdAppUninstall e msg =
     act_bind (case ae_excludeAllThings e of None \<Rightarrow> act_return () | Some f \<Rightarrow> act_bind (act_try f) (\<lambda>_. act_return ())) (\<lambda>_.
     act_bind (act_try (ai_Uninstall (ae_app e))) (\<lambda>r.
     case r of
       Inl err \<Rightarrow> makeConfigurationReply e EvtAppUninstallReport msg (Some err)
     | Inr _ \<Rightarrow> makeConfigurationReply e EvtAppUninstallReport msg None))"

definition HandleConfigActionCommand :: "('w, 'c) app_env \<Rightarrow> (string \<Rightarrow> ('w, button_action_response) act) \<Rightarrow> 'w app_handler" where
  "HandleConfigActionCommand e action msg =
     (let parameter = (case fg_GetStringValue (ae_fimpgo e) (ms_Payload msg) of Inl _ \<Rightarrow> '''' | Inr s \<Rightarrow> s) in
      act_bind (action parameter) (\<lambda>response. act_return (app_reply e EvtAppConfigActionReport (button_action_value response) msg)))"

definition reset_action :: "('w, unit) act \<Rightarrow> string \<Rightarrow> ('w, button_action_response) act" where
  "reset_action reset _ =
     act_bind (act_try reset) (\<lambda>r. act_return
       (case r of
          Inl _ \<Rightarrow> \<lparr>ba_Operation = CmdAppReset, ba_OperationStatus = ''error'', ba_Next = ''ok'', ba_ErrorCode = '''',
                    ba_ErrorText = ''failed to reset the application''\<rparr>
        | Inr _ \<Rightarrow> \<lparr>ba_Operation = CmdAppReset, ba_OperationStatus = ''ok'', ba_Next = ''reload'', ba_ErrorCode = '''',
                    ba_ErrorText = ''''\<rparr>))"

record diag_report =
  dg_Uptime :: int
  dg_RestartsCount :: int
  dg_Errors :: "string list"

definition diag_report_value :: "diag_report \<Rightarrow> fimp_value" where
  "diag_report_value r =
     VObject [(''uptime'', VInt (dg_Uptime r)), (''restarts_count'', VInt (dg_RestartsCount r)), (''errors'', strings_value (dg_Errors r))]"

definition HandleCmdAppDiagGetReport :: "('w, 'c) app_env \<Rightarrow> ('w, string list) act \<Rightarrow> 'w app_handler" where
  "HandleCmdAppDiagGetReport e errorsReport msg =
     act_bind (act_wrap ''failed to retrieve error log entries'' errorsReport) (\<lambda>entries.
     act_get (\<lambda>w. app_reply e EvtAppDiagReport (diag_report_value
       \<lparr>dg_Uptime = lifecycle_Uptime (ae_rounding e) (ae_now e w) (ae_lifecycle e w),
        dg_RestartsCount = lc_restartsCount (ae_lifecycle e w), dg_Errors = entries\<rparr>) msg))"


definition AuthStateNotAuthenticated :: app_state where "AuthStateNotAuthenticated = ''NOT_AUTHENTICATED''"
definition AuthStateAuthenticated :: app_state where "AuthStateAuthenticated = ''AUTHENTICATED''"

definition HandleCmdAuthLogin :: "('w, 'c) app_env \<Rightarrow> (login_credentials \<Rightarrow> ('w, unit) act) \<Rightarrow> 'w app_handler" where
  "HandleCmdAuthLogin e login msg =
     act_bind (act_wrap ''provided login credentials have an invalid format'' (act_result (ae_decodeLogin e (ms_Payload msg)))) (\<lambda>credentials.
     act_bind (act_try (login credentials)) (\<lambda>r.
     act_get (\<lambda>w. app_reply e EvtAuthStatusReport (authentication_report_value
       \<lparr>ar_Status = app_AuthState e w, ar_ErrorText = (if isl r then ''failed to login'' else ''''), ar_ErrorCode = '''',
        ar_Errors = (if isl r \<or> app_AuthState e w \<noteq> AuthStateAuthenticated then ''failed to login'' else '''')\<rparr>) msg)))"

definition HandleCmdAuthSetTokens :: "('w, 'c) app_env \<Rightarrow> (oauth2_token_response \<Rightarrow> ('w, unit) act) \<Rightarrow> 'w app_handler" where
  "HandleCmdAuthSetTokens e authorize msg =
     act_bind (act_wrap ''provided authorization credentials have an invalid format'' (act_result (ae_decodeTokens e (ms_Payload msg)))) (\<lambda>credentials.
     act_bind (act_try (authorize credentials)) (\<lambda>r.
     act_get (\<lambda>w. app_reply e EvtAuthStatusReport (authentication_report_value
       \<lparr>ar_Status = app_AuthState e w, ar_ErrorText = (if isl r then ''failed to authorize'' else ''''), ar_ErrorCode = '''',
        ar_Errors = ''''\<rparr>) msg)))"

definition HandleCmdAuthLogout :: "('w, 'c) app_env \<Rightarrow> ('w, unit) act \<Rightarrow> 'w app_handler" where
  "HandleCmdAuthLogout e logout msg =
     act_bind (act_try logout) (\<lambda>r.
     act_get (\<lambda>w. app_reply e EvtAuthStatusReport (authentication_report_value
       \<lparr>ar_Status = app_AuthState e w, ar_ErrorText = (if isl r then ''failed to logout'' else ''''), ar_ErrorCode = '''',
        ar_Errors = ''''\<rparr>) msg))"

section \<open>The routings\<close>

definition app_route :: "('w, 'c) app_env \<Rightarrow> string \<Rightarrow> nat option \<Rightarrow> 'w app_handler \<Rightarrow> 'w routing" where
  "app_route e cmd locker h =
     NewRouting (Some (handler_Handle (ae_fimpgo e) (NewMessageHandler (act_processor h)
       (case locker of None \<Rightarrow> [] | Some k \<Rightarrow> [WithExternalLock k])))) [ForService (ae_service e), ForType cmd]"

definition RouteCmdAppGetState :: "('w, 'c) app_env \<Rightarrow> 'w routing" where
  "RouteCmdAppGetState e = app_route e CmdAppGetState None (HandleCmdAppGetState e)"

definition RouteCmdConfigGetExtendedReport :: "('w, 'c) app_env \<Rightarrow> 'w routing" where
  "RouteCmdConfigGetExtendedReport e = app_route e CmdConfigGetExtendedReport None (HandleCmdConfigGetExtendedReport e)"

definition RouteCmdAppGetManifest :: "('w, 'c) app_env \<Rightarrow> 'w routing" where
  "RouteCmdAppGetManifest e = app_route e CmdAppGetManifest None (HandleCmdAppGetManifest e)"

definition RouteCmdConfigExtendedSet :: "('w, 'c) app_env \<Rightarrow> 'w routing" where
  "RouteCmdConfigExtendedSet e = app_route e CmdConfigExtendedSet (ae_locker e) (HandleCmdConfigExtendedSet e)"

definition RouteCmdAppUninstall :: "('w, 'c) app_env \<Rightarrow> 'w routing" where
  "RouteCmdAppUninstall e = app_route e CmdAppUninstall (ae_locker e) (HandleCmdAppUninstall e)"

definition RouteCmdAppReset :: "('w, 'c) app_env \<Rightarrow> ('w, unit) act \<Rightarrow> 'w routing" where
  "RouteCmdAppReset e reset = app_route e CmdAppReset (ae_locker e) (HandleConfigActionCommand e (reset_action reset))"

definition RouteConfigActionCommand :: "('w, 'c) app_env \<Rightarrow> string \<Rightarrow> (string \<Rightarrow> ('w, button_action_response) act) \<Rightarrow> 'w routing" where
  "RouteConfigActionCommand e commandName action = app_route e commandName (ae_locker e) (HandleConfigActionCommand e action)"

definition RouteCmdAppDiagGetReport :: "('w, 'c) app_env \<Rightarrow> ('w, string list) act \<Rightarrow> 'w routing" where
  "RouteCmdAppDiagGetReport e p = app_route e CmdAppDiagGetReport None (HandleCmdAppDiagGetReport e p)"

definition RouteCmdAuthLogin :: "('w, 'c) app_env \<Rightarrow> (login_credentials \<Rightarrow> ('w, unit) act) \<Rightarrow> 'w routing" where
  "RouteCmdAuthLogin e login = app_route e CmdAuthLogin (ae_locker e) (HandleCmdAuthLogin e login)"

definition RouteCmdAuthSetTokens :: "('w, 'c) app_env \<Rightarrow> (oauth2_token_response \<Rightarrow> ('w, unit) act) \<Rightarrow> 'w routing" where
  "RouteCmdAuthSetTokens e authorize = app_route e CmdAuthSetTokens (ae_locker e) (HandleCmdAuthSetTokens e authorize)"

definition RouteCmdAuthLogout :: "('w, 'c) app_env \<Rightarrow> ('w, unit) act \<Rightarrow> 'w routing" where
  "RouteCmdAuthLogout e logout = app_route e CmdAuthLogout (ae_locker e) (HandleCmdAuthLogout e logout)"

text \<open>
  \<^verbatim>\<open>RouteApp\<close> is called while the application is put together; for an application that authorizes it also sets the
  authorization state.
\<close>

definition app_routings :: "('w, 'c) app_env \<Rightarrow> 'w routing list" where
  "app_routings e =
     [RouteCmdAppGetState e, RouteCmdConfigGetExtendedReport e, RouteCmdAppGetManifest e, RouteCmdConfigExtendedSet e,
      RouteCmdAppUninstall e]
     @ (case ai_Reset (ae_app e) of None \<Rightarrow> [] | Some reset \<Rightarrow> [RouteCmdAppReset e reset])
     @ (case LogginableApp (ae_app e) of
          None \<Rightarrow> []
        | Some (login, logout) \<Rightarrow> [RouteCmdAuthLogin e login, RouteCmdAuthLogout e logout])
     @ (case AuthorizableApp (ae_app e) of
          None \<Rightarrow> []
        | Some (authorize, logout) \<Rightarrow> [RouteCmdAuthSetTokens e authorize, RouteCmdAuthLogout e logout])
     @ (case ai_ErrorsReport (ae_app e) of None \<Rightarrow> [] | Some p \<Rightarrow> [RouteCmdAppDiagGetReport e p])"

definition RouteApp :: "('w, 'c) app_env \<Rightarrow> ('w, 'w routing list) act" where
  "RouteApp e =
     act_bind (case AuthorizableApp (ae_app e) of
         None \<Rightarrow> act_return ()
       | Some _ \<Rightarrow>
           act_bind (act_get (app_AuthState e)) (\<lambda>s.
           if s = AuthStateNA then on_lifecycle e (lifecycle_SetAuthState AuthStateNotAuthenticated) else act_return ())) (\<lambda>_.
     act_return (app_routings e))"

section \<open>The tasks (\<^verbatim>\<open>task.go\<close>)\<close>

definition defaultAppInitInterval :: duration where "defaultAppInitInterval = 10 * (60 * 10 ^ 9)"
definition defaultCheckInterval :: duration where "defaultCheckInterval = 30 * (60 * 10 ^ 9)"

text \<open>A handler of a task: an action whose result is dropped; an action that does not return is a panic.\<close>

definition act_task :: "('w, unit) act \<Rightarrow> 'w \<Rightarrow> 'w \<times> bool" where
  "act_task m w = (case m w of None \<Rightarrow> (w, True) | Some (_, w') \<Rightarrow> (w', False))"

definition HandleInitialization :: "('w, 'c) app_env \<Rightarrow> ('w, unit) act \<Rightarrow> ('w, unit) act" where
  "HandleInitialization e initialize =
     act_bind (act_try initialize) (\<lambda>r.
       if isl r then on_lifecycle e (lifecycle_SetAppHealth AppHealthStartupError None) else act_return ())"

definition TaskInitialization :: "('w, 'c) app_env \<Rightarrow> ('w, unit) act \<Rightarrow> duration \<Rightarrow> 'w task list" where
  "TaskInitialization e initialize interval =
     [task_New (act_task (HandleInitialization e initialize)) 0 [],
      task_New (act_task (HandleInitialization e initialize)) interval [WhenAppEncounteredStartupError (ae_lifecycle e)]]"

definition HandleCheck :: "('w, unit) act \<Rightarrow> ('w, unit) act" where
  "HandleCheck check = act_bind (act_try check) (\<lambda>_. act_return ())"

definition TaskCheck :: "('w, 'c) app_env \<Rightarrow> ('w, unit) act \<Rightarrow> duration \<Rightarrow> 'w task" where
  "TaskCheck e check interval = task_New (act_task (HandleCheck check)) interval [WhenAppIsRunning (ae_lifecycle e)]"

definition TaskApp :: "('w, 'c) app_env \<Rightarrow> 'w task list" where
  "TaskApp e =
     (case ai_Initialize (ae_app e) of None \<Rightarrow> [] | Some f \<Rightarrow> TaskInitialization e f defaultAppInitInterval)
     @ (case ai_Check (ae_app e) of
          None \<Rightarrow> []
        | Some (check, interval) \<Rightarrow> [TaskCheck e check (if interval = 0 then defaultCheckInterval else interval)])"


section \<open>Who answers a message\<close>

lemma app_route_vote [simp]:
  "routing_vote (app_route e cmd locker h) msg \<longleftrightarrow> pl_Service (ms_Payload msg) = ae_service e \<and> pl_Interface (ms_Payload msg) = cmd"
  by (auto simp: routing_vote_iff app_route_def NewRouting_def ForService_def ForType_def)

lemmas app_route_defs = RouteCmdAppGetState_def RouteCmdConfigGetExtendedReport_def RouteCmdAppGetManifest_def
  RouteCmdConfigExtendedSet_def RouteCmdAppUninstall_def RouteCmdAppReset_def RouteCmdAppDiagGetReport_def RouteCmdAuthLogin_def
  RouteCmdAuthSetTokens_def RouteCmdAuthLogout_def

lemma processMessage_not_voted: "\<not> routing_vote rt msg \<Longrightarrow> processMessage tr cfg rt msg env = env"
  by (simp add: processMessage_def)

lemma route_message_filter:
  "route_message tr cfg rts env msg = route_message tr cfg (filter (\<lambda>rt. routing_vote rt msg) rts) env msg"
  by (induction rts arbitrary: env) (simp_all add: route_message_def processMessage_not_voted)

lemma processMessage_count: "length (en_published (processMessage tr cfg rt msg env)) \<le> length (en_published env) + 1"
proof -
  have r: "length (en_published (fst (router_respond tr cfg msg resp (env\<lparr>en_state := s\<rparr>)))) \<le> length (en_published env) + 1" for s resp
    using router_respond_published [of tr cfg msg resp "env\<lparr>en_state := s\<rparr>"] by auto
  show ?thesis
  proof (cases "rt_handler rt")
    case (Some h)
    then show ?thesis using r by (cases "h msg (en_state env)") (simp add: processMessage_published split: option.split)
  qed (simp add: processMessage_published)
qed

lemma route_message_count:
  "length (en_published (route_message tr cfg rts env msg)) \<le> length (en_published env) + length rts"
proof (induction rts arbitrary: env)
  case (Cons rt rts)
  have "length (en_published (processMessage tr cfg rt msg env)) \<le> length (en_published env) + 1"
    by (rule processMessage_count)
  with Cons [of "processMessage tr cfg rt msg env"] show ?case by (simp add: route_message_def)
qed (simp add: route_message_def)

lemma app_commands_distinct [simp]:
  "distinct [CmdAppGetState, CmdConfigGetExtendedReport, CmdAppGetManifest, CmdConfigExtendedSet, CmdAppUninstall, CmdAppReset,
     CmdAuthLogin, CmdAuthLogout, CmdAuthSetTokens, CmdAppDiagGetReport]"
  by (simp add: app_commands)

text \<open>How many routings of an application take a message of its service: counted by command.\<close>

definition app_cmds :: "('w, 'c) app_env \<Rightarrow> string list" where
  "app_cmds e =
     [CmdAppGetState, CmdConfigGetExtendedReport, CmdAppGetManifest, CmdConfigExtendedSet, CmdAppUninstall]
     @ (if ai_Reset (ae_app e) = None then [] else [CmdAppReset])
     @ (if LogginableApp (ae_app e) = None then [] else [CmdAuthLogin, CmdAuthLogout])
     @ (if AuthorizableApp (ae_app e) = None then [] else [CmdAuthSetTokens, CmdAuthLogout])
     @ (if ai_ErrorsReport (ae_app e) = None then [] else [CmdAppDiagGetReport])"

lemma length_filter_sum: "length (filter P xs) = sum_list (map (\<lambda>x. if P x then 1 else 0) xs)"
  by (induction xs) auto

lemma app_routings_cmds:
  assumes "pl_Service (ms_Payload msg) = ae_service e"
  shows "length (filter (\<lambda>rt. routing_vote rt msg) (app_routings e)) = length (filter (\<lambda>c. pl_Interface (ms_Payload msg) = c) (app_cmds e))"
proof -
  have "map (\<lambda>rt. if routing_vote rt msg then 1 else 0 :: nat) (app_routings e)
      = map (\<lambda>c. if pl_Interface (ms_Payload msg) = c then 1 else 0) (app_cmds e)"
    using assms
    by (cases "LogginableApp (ae_app e)"; cases "AuthorizableApp (ae_app e)"; cases "ai_Reset (ae_app e)"; cases "ai_ErrorsReport (ae_app e)")
      (simp_all add: app_routings_def app_cmds_def app_route_defs split_beta split del: if_split)
  then show ?thesis by (simp only: length_filter_sum)
qed

lemma app_routings_other:
  "pl_Service (ms_Payload msg) \<noteq> ae_service e \<Longrightarrow> filter (\<lambda>rt. routing_vote rt msg) (app_routings e) = []"
  by (auto simp: app_routings_def app_route_defs filter_empty_conv split: option.splits)

lemma count_distinct: "distinct xs \<Longrightarrow> length (filter (\<lambda>c. i = c) xs) \<le> 1"
  by (induction xs) (auto simp: filter_empty_conv)

lemma app_cmds_distinct: "LogginableApp (ae_app e) = None \<or> AuthorizableApp (ae_app e) = None \<Longrightarrow> distinct (app_cmds e)"
  using app_commands_distinct by (auto simp: app_cmds_def)

lemma app_cmds_count:
  "i \<noteq> CmdAuthLogout \<Longrightarrow> length (filter (\<lambda>c. i = c) (app_cmds e)) \<le> 1"
proof -
  assume i: "i \<noteq> CmdAuthLogout"
  have "filter (\<lambda>c. i = c) xs = filter (\<lambda>c. i = c) (filter (\<lambda>c. c \<noteq> CmdAuthLogout) xs)" for xs
    using i by (induction xs) auto
  moreover have "distinct (filter (\<lambda>c. c \<noteq> CmdAuthLogout) (app_cmds e))"
    using app_commands_distinct by (auto simp: app_cmds_def)
  ultimately show ?thesis using count_distinct by metis
qed

lemma app_logout_routings:
  assumes "LogginableApp (ae_app e) = Some (login, logout)" "AuthorizableApp (ae_app e) = Some (authorize, logout')"
    "pl_Service (ms_Payload msg) = ae_service e" "pl_Interface (ms_Payload msg) = CmdAuthLogout"
  shows "filter (\<lambda>rt. routing_vote rt msg) (app_routings e) = [RouteCmdAuthLogout e logout, RouteCmdAuthLogout e logout]"
proof -
  have "logout' = logout"
    using assms(1,2) by (auto simp: LogginableApp_def AuthorizableApp_def split: option.splits)
  with assms show ?thesis
    by (auto simp: app_routings_def app_route_defs app_commands split: option.splits)
qed

text \<open>
  C14. A message is answered at most once by an application: at most one of its routings takes a message, and at most one
  message is published for it, whatever the handler does; the only exception is \<^verbatim>\<open>cmd.auth.logout\<close> for an
  application that both logs in and authorizes.
\<close>
theorem app_answers_once:
  assumes "pl_Interface (ms_Payload msg) \<noteq> CmdAuthLogout \<or> LogginableApp (ae_app e) = None \<or> AuthorizableApp (ae_app e) = None"
  shows "length (filter (\<lambda>rt. routing_vote rt msg) (app_routings e)) \<le> 1
    \<and> length (en_published (route_message tr cfg (app_routings e) env msg)) \<le> length (en_published env) + 1"
proof -
  have "length (filter (\<lambda>rt. routing_vote rt msg) (app_routings e)) \<le> 1"
    using assms app_cmds_distinct [of e] app_cmds_count [of "pl_Interface (ms_Payload msg)" e] count_distinct [of "app_cmds e"]
      app_routings_other [of msg e]
    by (cases "pl_Service (ms_Payload msg) = ae_service e") (auto simp: app_routings_cmds)
  moreover have "length (en_published (route_message tr cfg (app_routings e) env msg))
      \<le> length (en_published env) + length (filter (\<lambda>rt. routing_vote rt msg) (app_routings e))"
    using route_message_count [of tr cfg "filter (\<lambda>rt. routing_vote rt msg) (app_routings e)" env msg]
    by (simp add: route_message_filter [of tr cfg "app_routings e"])
  ultimately show ?thesis by simp
qed


definition logout_message :: "('w, 'c) app_env \<Rightarrow> message \<Rightarrow> bool" where
  "logout_message e msg \<longleftrightarrow> pl_Service (ms_Payload msg) = ae_service e \<and> pl_Interface (ms_Payload msg) = CmdAuthLogout
     \<and> pl_ResponseToTopic (ms_Payload msg) = ''''"

definition app_unlocked :: "('w, 'c) app_env \<Rightarrow> 'w rstate \<Rightarrow> bool" where
  "app_unlocked e s \<longleftrightarrow> (case ae_locker e of None \<Rightarrow> True | Some k \<Rightarrow> \<not> rs_locked s k)"

lemma logout_processed:
  assumes "logout_message e msg" "app_unlocked e (en_state env)" "tr_Publish tr = (\<lambda>_ _. None)"
    "logout (rs_app (en_state env)) = Some (r, w)"
  shows "rs_app (en_state (processMessage tr cfg (RouteCmdAuthLogout e logout) msg env)) = w
    \<and> app_unlocked e (en_state (processMessage tr cfg (RouteCmdAuthLogout e logout) msg env))
    \<and> length (en_published (processMessage tr cfg (RouteCmdAuthLogout e logout) msg env)) = length (en_published env) + 1"
proof -
  let ?rt = "RouteCmdAuthLogout e logout"
  let ?m = "NewMessageHandler (act_processor (HandleCmdAuthLogout e logout)) (case ae_locker e of None \<Rightarrow> [] | Some k \<Rightarrow> [WithExternalLock k])"
  have v: "routing_vote ?rt msg" "rt_handler ?rt = Some (handler_Handle (ae_fimpgo e) ?m)"
    using assms(1) by (simp_all add: RouteCmdAuthLogout_def logout_message_def) (simp add: app_route_def NewRouting_def)
  obtain p where p: "HandleCmdAuthLogout e logout msg (rs_app (en_state env)) = Some (Inr (Some p), w)"
    using assms(4) by (simp add: HandleCmdAuthLogout_def app_reply_def)
  obtain s where s: "handler_Handle (ae_fimpgo e) ?m msg (en_state env) = (s, Some (handler_handleReply (ae_fimpgo e) ?m msg (Some p)))"
    "rs_app s = w" "app_unlocked e s"
    using assms(2) p
    by (cases "ae_locker e")
      (auto simp: handler_Handle_def handler_enter_def handler_leave_def app_unlocked_def NewMessageHandler_def WithExternalLock_def
        act_processor_def locker_Lock_def locker_Unlock_def Let_def)
  have g: "router_getResponseAddress (tr_fimpgo tr) cfg msg \<lparr>re_Addr = Some a, re_Payload = Some p\<rparr>
      = Some (if cf_preserveGlobalPrefix cfg then a\<lparr>ad_GlobalPrefix := ad_GlobalPrefix (ms_Addr msg)\<rparr> else a,
          \<lparr>re_Addr = Some (if cf_preserveGlobalPrefix cfg then a\<lparr>ad_GlobalPrefix := ad_GlobalPrefix (ms_Addr msg)\<rparr> else a), re_Payload = Some p\<rparr>)" for a
    using assms(1) by (simp add: router_getResponseAddress_def logout_message_def Let_def)
  obtain a q where resp: "router_respond tr cfg msg (handler_handleReply (ae_fimpgo e) ?m msg (Some p)) (env\<lparr>en_state := s\<rparr>)
      = (env\<lparr>en_state := s, en_published := en_published env @ [a]\<rparr>, q, False)"
    using assms(3) by (auto simp: router_respond_def handler_handleReply_def g Let_def)
  have "en_published (processMessage tr cfg ?rt msg env) = en_published env @ [a]"
    by (simp add: processMessage_published v s(1) resp)
  moreover have "en_state (processMessage tr cfg ?rt msg env) = s"
    by (simp add: processMessage_def v s(1) resp Let_def)
  ultimately show ?thesis using s by simp
qed

text \<open>
  An application that both logs in and authorizes is logged out twice by one \<^verbatim>\<open>cmd.auth.logout\<close>: the handler of the
  login and that of the authorization both take the message, so \<^verbatim>\<open>Logout\<close> runs a second time on the state that the first run
  left, and two reports are published.
\<close>
theorem logout_runs_twice:
  assumes "LogginableApp (ae_app e) = Some (login, logout)" "AuthorizableApp (ae_app e) = Some (authorize, logout')"
    "logout_message e msg" "app_unlocked e (en_state env)" "tr_Publish tr = (\<lambda>_ _. None)"
    "logout (rs_app (en_state env)) = Some (r1, w1)" "logout w1 = Some (r2, w2)"
  shows "rs_app (en_state (route_message tr cfg (app_routings e) env msg)) = w2
    \<and> length (en_published (route_message tr cfg (app_routings e) env msg)) = length (en_published env) + 2"
proof -
  let ?p = "\<lambda>env. processMessage tr cfg (RouteCmdAuthLogout e logout) msg env"
  have "route_message tr cfg (app_routings e) env msg = ?p (?p env)"
    using app_logout_routings [OF assms(1,2), of msg] assms(3)
    by (simp add: route_message_filter [of tr cfg "app_routings e"] logout_message_def) (simp add: route_message_def)
  moreover have one: "rs_app (en_state (?p env)) = w1" "app_unlocked e (en_state (?p env))" "length (en_published (?p env)) = length (en_published env) + 1"
    using logout_processed [OF assms(3,4,5), of logout r1 w1] assms(6) by auto
  moreover have "rs_app (en_state (?p (?p env))) = w2" "length (en_published (?p (?p env))) = length (en_published (?p env)) + 1"
    using logout_processed [OF assms(3) one(2) assms(5), of logout r2 w2] one(1) assms(7) by auto
  ultimately show ?thesis by simp
qed


text \<open>
  A request to configure the application is always answered, with the truth: the report says ok exactly if the
  configuration could be decoded and the application has accepted it, otherwise it carries the error; it shows the
  states of the application after the attempt, and a configuration that cannot be decoded leaves the application alone.
\<close>
theorem configuration_answered:
  assumes "HandleCmdConfigExtendedSet e msg w = Some (r, w')"
  shows "\<exists>rep. r = Inr (app_reply e EvtAppConfigReport (configuration_report_value rep) msg)
    \<and> cr_AppState rep = all_states (ae_lifecycle e w')
    \<and> (case ae_decodeConfig e (ms_Payload msg) of
         Inl err \<Rightarrow> w' = w \<and> cr_OpStatus rep = OperationStatusError \<and> cr_OpError rep = ''configure the app err: '' @ Error err
       | Inr cfg \<Rightarrow> \<exists>x. ai_Configure (ae_app e) cfg w = Some (x, w')
           \<and> (case x of
                Inl err \<Rightarrow> cr_OpStatus rep = OperationStatusError \<and> cr_OpError rep = ''configure the app err: '' @ Error err
              | Inr _ \<Rightarrow> cr_OpStatus rep = OperationStatusOK \<and> cr_OpError rep = ''''))"
proof (cases "ae_decodeConfig e (ms_Payload msg)")
  case (Inl err)
  with assms show ?thesis
    by (intro exI [of _ "\<lparr>cr_OpStatus = OperationStatusError, cr_OpError = ''configure the app err: '' @ Error err,
        cr_AppState = all_states (ae_lifecycle e w')\<rparr>"]) (auto simp: HandleCmdConfigExtendedSet_def makeConfigurationReply_def)
next
  case (Inr cfg)
  with assms obtain x where x: "ai_Configure (ae_app e) cfg w = Some (x, w')"
    and r: "(case x of Inl err \<Rightarrow> makeConfigurationReply e EvtAppConfigReport msg (Some err)
      | Inr _ \<Rightarrow> makeConfigurationReply e EvtAppConfigReport msg None) w' = Some (r, w')"
    by (auto simp: HandleCmdConfigExtendedSet_def act_bind_def act_try_def makeConfigurationReply_def split: option.splits sum.splits)
  show ?thesis
  proof (cases x)
    case err: (Inl err)
    with r x Inr show ?thesis
      by (intro exI [of _ "\<lparr>cr_OpStatus = OperationStatusError, cr_OpError = ''configure the app err: '' @ Error err,
          cr_AppState = all_states (ae_lifecycle e w')\<rparr>"]) (auto simp: makeConfigurationReply_def)
  next
    case (Inr u)
    with r x \<open>ae_decodeConfig e (ms_Payload msg) = Inr cfg\<close> show ?thesis
      by (intro exI [of _ "\<lparr>cr_OpStatus = OperationStatusOK, cr_OpError = '''',
          cr_AppState = all_states (ae_lifecycle e w')\<rparr>"]) (auto simp: makeConfigurationReply_def)
  qed
qed

section \<open>Instances\<close>

text \<open>An application whose state counts its logouts.\<close>

definition demo_app :: "(nat, int) app_impl" where
  "demo_app =
     \<lparr>ai_GetManifest = act_return manifest_New, ai_putManifest = (\<lambda>_ w. w),
      ai_Configure = (\<lambda>c. if c < 0 then act_fail (Errorf ''negative'') else act_return ()), ai_Uninstall = act_return (),
      ai_Reset = None, ai_Initialize = None, ai_Check = None, ai_Login = Some (\<lambda>_. act_return ()),
      ai_Authorize = Some (\<lambda>_. act_return ()), ai_Logout = Some (act_modify Suc), ai_ErrorsReport = None\<rparr>"

definition demo_app_env :: "(nat, int) app_env" where
  "demo_app_env =
     \<lparr>ae_fimpgo = demo_fimpgo, ae_service = ''app'', ae_lifecycle = (\<lambda>_. lifecycle_New 0 None \<lparr>hp_chans = (\<lambda>_. \<lparr>ch_buf = [], ch_cap = 0, ch_recvq = 0, ch_closed = False\<rparr>), hp_next = 0\<rparr>),
      ae_putLifecycle = (\<lambda>_ w. w), ae_PublicModel = None, ae_Model = (\<lambda>_. VNull), ae_locker = Some 0, ae_excludeAllThings = None,
      ae_app = demo_app, ae_decodeConfig = (\<lambda>m. fg_GetIntValue demo_fimpgo m),
      ae_decodeLogin = (\<lambda>_. Inr \<lparr>lg_Username = ''u'', lg_Password = ''p'', lg_Encrypted = False\<rparr>),
      ae_decodeTokens = (\<lambda>_. Inl (Errorf ''no tokens'')), ae_rounding = id, ae_now = (\<lambda>_. 0)\<rparr>"

definition demo_cmd :: "string \<Rightarrow> fimp_value \<Rightarrow> message" where
  "demo_cmd cmd v = \<lparr>ms_Topic = ''t'', ms_Addr = demo_address, ms_Payload = demo_NewMessage cmd ''app'' ''object'' v [] None\<rparr>"

theorem app_answers_once_witness:
  "length (en_published (route_message demo_transport router_defaultConfig (app_routings demo_app_env) demo_env (demo_cmd CmdAppGetState VNull))) \<le> 1"
proof -
  have "pl_Interface (ms_Payload (demo_cmd CmdAppGetState VNull)) \<noteq> CmdAuthLogout"
    by (simp add: demo_cmd_def demo_NewMessage_def app_commands)
  then have "length (en_published (route_message demo_transport router_defaultConfig (app_routings demo_app_env) demo_env
      (demo_cmd CmdAppGetState VNull))) \<le> length (en_published demo_env) + 1"
    using app_answers_once [of "demo_cmd CmdAppGetState VNull" demo_app_env] by blast
  then show ?thesis by (simp add: demo_env_def)
qed

theorem logout_runs_twice_witness:
  "rs_app (en_state (route_message demo_transport router_defaultConfig (app_routings demo_app_env) demo_env (demo_cmd CmdAuthLogout VNull))) = 2"
proof -
  have "LogginableApp (ae_app demo_app_env) = Some (\<lambda>_. act_return (), act_modify Suc)"
    "AuthorizableApp (ae_app demo_app_env) = Some (\<lambda>_. act_return (), act_modify Suc)"
    by (simp_all add: demo_app_env_def demo_app_def LogginableApp_def AuthorizableApp_def)
  moreover have "logout_message demo_app_env (demo_cmd CmdAuthLogout VNull)"
    by (simp add: logout_message_def demo_app_env_def demo_cmd_def demo_NewMessage_def)
  moreover have "app_unlocked demo_app_env (en_state demo_env)" "tr_Publish demo_transport = (\<lambda>_ _. None)"
    by (simp_all add: app_unlocked_def demo_app_env_def demo_env_def demo_transport_def)
  ultimately show ?thesis
    using logout_runs_twice [of demo_app_env "\<lambda>_. act_return ()" "act_modify Suc" "\<lambda>_. act_return ()" "act_modify Suc"
        "demo_cmd CmdAuthLogout VNull" demo_env demo_transport "Inr ()" 1 "Inr ()" 2 router_defaultConfig]
    by (simp add: demo_env_def)
qed

theorem configuration_answered_witness:
  "\<exists>r w'. HandleCmdConfigExtendedSet demo_app_env (demo_cmd CmdConfigExtendedSet (VInt (- 1))) 0 = Some (r, w')
    \<and> (\<exists>rep. r = Inr (app_reply demo_app_env EvtAppConfigReport (configuration_report_value rep) (demo_cmd CmdConfigExtendedSet (VInt (- 1))))
        \<and> cr_OpStatus rep = OperationStatusError)"
proof -
  obtain r w' where run: "HandleCmdConfigExtendedSet demo_app_env (demo_cmd CmdConfigExtendedSet (VInt (- 1))) 0 = Some (r, w')"
    by (simp add: HandleCmdConfigExtendedSet_def demo_app_env_def demo_app_def demo_cmd_def demo_NewMessage_def demo_fimpgo_def
        makeConfigurationReply_def act_try_def act_bind_def)
  have "ae_decodeConfig demo_app_env (ms_Payload (demo_cmd CmdConfigExtendedSet (VInt (- 1)))) = Inr (- 1)"
    by (simp add: demo_app_env_def demo_cmd_def demo_NewMessage_def demo_fimpgo_def)
  moreover have "ai_Configure (ae_app demo_app_env) (- 1) 0 = Some (Inl (Errorf ''negative''), 0)"
    by (simp add: demo_app_env_def demo_app_def)
  ultimately show ?thesis using configuration_answered [OF run] run by fastforce
qed

end
