(* ===== verification/Virtual_Service.thy ===== *)
theory Virtual_Service
  imports Virtual_Meter Switches Listener
begin

text \<open>
  The messages, event handlers and tasks of the virtual meter (\<^verbatim>\<open>routing.go\<close>, \<^verbatim>\<open>tasks.go\<close> and \<^verbatim>\<open>listener.go\<close> of
  \<^verbatim>\<open>src/adapter/service/virtualmeter\<close>), which act on the meters and on the level switches of one adapter: the level of a
  switch reaches the meter through the events that its reports publish.
\<close>

section \<open>The world\<close>

text \<open>
  The manager (with the adapter), the service objects of the meters by their address, the level switches, and the clock with
  the number of its readings. The switches share the adapter of the manager.
\<close>

record 'd vm_world =
  vw_manager :: vmanager
  vw_meters :: "string \<Rightarrow> vm_service option"
  vw_switches :: "string \<Rightarrow> 'd svc option"
  vw_clock :: "nat \<Rightarrow> time"
  vw_reads :: nat

type_synonym ('d, 'a) vw_act = "('d vm_world, 'a) act"

text \<open>A call on the manager that may read the clock up to four times.\<close>

definition on_manager :: "((nat \<Rightarrow> time) \<Rightarrow> 'a vm_act) \<Rightarrow> ('d, 'a) vw_act" where
  "on_manager m w =
     map_option (\<lambda>(r, g). (r, w\<lparr>vw_manager := g, vw_reads := vw_reads w + 4\<rparr>)) (m (\<lambda>i. vw_clock w (vw_reads w + i)) (vw_manager w))"

text \<open>The sending of a report by a meter, whose cache changes with it.\<close>

definition vw_SendModesReport :: "fimpgo \<Rightarrow> bool \<Rightarrow> string \<Rightarrow> ('d, bool) vw_act" where
  "vw_SendModesReport fg force a w =
     (case vw_meters w a of
        None \<Rightarrow> None
      | Some s \<Rightarrow>
          act_bind (on_manager (\<lambda>clk. SendModesReport fg (clk 0) (clk 1) force s)) (\<lambda>(b, s').
          act_bind (act_modify (\<lambda>w. w\<lparr>vw_meters := (vw_meters w)(a \<mapsto> s')\<rparr>)) (\<lambda>_. act_return b)) w)"

section \<open>Routing (\<^verbatim>\<open>routing.go\<close>)\<close>

definition vw_getService :: "message \<Rightarrow> ('d, string \<times> vm_service) vw_act" where
  "vw_getService msg w =
     (case adapter_ServiceByTopic (vm_ad (vw_manager w)) (ms_Topic msg) of
        None \<Rightarrow>
          Some (Inl (Errorf (''routing: service not found under the provided address: '' @ ad_ServiceAddress (ms_Addr msg))), w)
      | Some spec \<Rightarrow>
          (case vw_meters w (sv_Address spec) of
             None \<Rightarrow>
               Some (Inl (Errorf (''routing: incorrect service found under the provided address: '' @ ad_ServiceAddress (ms_Addr msg))), w)
           | Some s \<Rightarrow> Some (Inr (sv_Address spec, s), w)))"

definition vw_answer :: "fimpgo \<Rightarrow> string \<Rightarrow> ('d, fimp_message option) vw_act" where
  "vw_answer fg a =
     act_bind (act_wrap ''routing: failed to send virtual meter report'' (vw_SendModesReport fg True a)) (\<lambda>_. act_return None)"

definition handleCmdMeterAdd :: "adapter_env \<Rightarrow> rounding \<Rightarrow> message \<Rightarrow> ('d, fimp_message option) vw_act" where
  "handleCmdMeterAdd av rnd msg =
     (let fg = av_fimpgo av in
      act_bind (act_wrap ''routing: failed to find service'' (vw_getService msg)) (\<lambda>(a, srv).
      act_bind (act_wrap ''routing: value has incorrect type, expected float map''
        (act_result (fg_GetFloatMapValue fg (ms_Payload msg)))) (\<lambda>modes.
      case map_of (pl_Properties (ms_Payload msg)) PropertyNameUnit of
        None \<Rightarrow> act_fail (Errorf ''routing: unit property is required in the message'')
      | Some unit \<Rightarrow>
          act_bind (act_wrap ''routing: failed to add meter'' (on_manager (\<lambda>clk. AddMeter av rnd clk modes unit srv))) (\<lambda>_.
          vw_answer fg a))))"

definition handleCmdMeterRemove :: "adapter_env \<Rightarrow> message \<Rightarrow> ('d, fimp_message option) vw_act" where
  "handleCmdMeterRemove av msg =
     act_bind (act_wrap ''routing: failed to find service'' (vw_getService msg)) (\<lambda>(a, srv).
     act_bind (act_wrap ''routing: failed to remove meter'' (on_manager (\<lambda>clk. RemoveMeter av (clk 0) srv))) (\<lambda>_.
     vw_answer (av_fimpgo av) a))"

definition handleCmdMeterGetReport :: "adapter_env \<Rightarrow> message \<Rightarrow> ('d, fimp_message option) vw_act" where
  "handleCmdMeterGetReport av msg =
     act_bind (act_wrap ''routing: failed to find service'' (vw_getService msg)) (\<lambda>(a, srv). vw_answer (av_fimpgo av) a)"

definition vw_route :: "fimpgo \<Rightarrow> string \<Rightarrow> (message \<Rightarrow> ('d, fimp_message option) vw_act) \<Rightarrow> 'd vm_world routing" where
  "vw_route fg cmd h =
     NewRouting (Some (handler_Handle fg (NewMessageHandler (act_processor h) []))) [ForService VirtualMeterElec, ForType cmd]"

definition routeCmdMeterAdd :: "adapter_env \<Rightarrow> rounding \<Rightarrow> 'd vm_world routing" where
  "routeCmdMeterAdd av rnd = vw_route (av_fimpgo av) CmdMeterAdd (handleCmdMeterAdd av rnd)"

definition routeCmdMeterRemove :: "adapter_env \<Rightarrow> 'd vm_world routing" where
  "routeCmdMeterRemove av = vw_route (av_fimpgo av) CmdMeterRemove (handleCmdMeterRemove av)"

definition routeCmdMeterGetReport :: "adapter_env \<Rightarrow> 'd vm_world routing" where
  "routeCmdMeterGetReport av = vw_route (av_fimpgo av) CmdMeterGetReport (handleCmdMeterGetReport av)"

definition vw_RouteService :: "adapter_env \<Rightarrow> rounding \<Rightarrow> 'd vm_world routing list" where
  "vw_RouteService av rnd = [routeCmdMeterAdd av rnd, routeCmdMeterRemove av, routeCmdMeterGetReport av]"

section \<open>Tasks (\<^verbatim>\<open>tasks.go\<close>)\<close>

definition vw_services :: "string \<Rightarrow> ('d, service_spec list) vw_act" where
  "vw_services name = act_get (\<lambda>w. adapter_Services (vm_ad (vw_manager w)) name)"

text \<open>A service of the name that is not an object of the expected type is passed over; errors are logged.\<close>

definition vw_handleReporting :: "fimpgo \<Rightarrow> ('d, unit) vw_act" where
  "vw_handleReporting fg =
     act_bind (vw_services VirtualMeterElec) (\<lambda>specs.
     act_for specs (\<lambda>spec.
       act_bind (act_get (\<lambda>w. vw_meters w (sv_Address spec) = None)) (\<lambda>skip.
       if skip then act_return () else act_log (vw_SendModesReport fg False (sv_Address spec)))))"

text \<open>A call on a level switch, with the adapter of the manager.\<close>

definition on_switch :: "string \<Rightarrow> ('d, 'a) svc_act \<Rightarrow> ('d, 'a) vw_act" where
  "on_switch a m w =
     (case vw_switches w a of
        None \<Rightarrow> None
      | Some s \<Rightarrow>
          map_option (\<lambda>(r, s'). (r, w\<lparr>vw_manager := (vw_manager w)\<lparr>vm_ad := sc_ad s'\<rparr>, vw_switches := (vw_switches w)(a \<mapsto> s')\<rparr>))
            (m (s\<lparr>sc_ad := vm_ad (vw_manager w)\<rparr>)))"

definition handleStatePolling :: "'d lsw_controller svc_config \<Rightarrow> ('d, unit) vw_act" where
  "handleStatePolling c =
     act_bind (vw_services OutLvlSwitch) (\<lambda>specs.
     act_for specs (\<lambda>spec.
       act_bind (act_get (\<lambda>w. vw_switches w (sv_Address spec) = None)) (\<lambda>skip.
       if skip then act_return () else act_log (on_switch (sv_Address spec) (SendLevelReport c False)))))"

definition vw_handleGarbageCleaning :: "('d, unit) vw_act" where
  "vw_handleGarbageCleaning =
     act_bind (vw_services VirtualMeterElec) (\<lambda>specs.
     act_for specs (\<lambda>spec.
       act_bind (act_get (\<lambda>w. vw_meters w (sv_Address spec) = None)) (\<lambda>skip.
       if skip then act_return () else act_log (on_manager (\<lambda>clk. deleteDeviceEntry (clk 0) (sv_Address spec))))))"

definition vw_task :: "('d, unit) vw_act \<Rightarrow> 'd vm_world \<Rightarrow> 'd vm_world \<times> bool" where
  "vw_task m w = (case m w of None \<Rightarrow> (w, True) | Some (_, w') \<Rightarrow> (w', False))"

definition vw_Tasks ::
  "'d lsw_controller svc_config \<Rightarrow> fimpgo \<Rightarrow> duration \<Rightarrow> duration \<Rightarrow> duration \<Rightarrow> ('d vm_world \<Rightarrow> bool) list \<Rightarrow> 'd vm_world task list" where
  "vw_Tasks c fg reportingInterval pollingInterval cleaningInterval voters =
     (let voters = voters @ [\<lambda>w. adapter_IsInitialized (vm_ad (vw_manager w))]
      in task_Combine (TaskList
           [task_New (vw_task (vw_handleReporting fg)) reportingInterval voters,
            task_New (vw_task (handleStatePolling c)) pollingInterval voters,
            task_New (vw_task vw_handleGarbageCleaning) cleaningInterval voters]))"

section \<open>Events (\<^verbatim>\<open>listener.go\<close>)\<close>


section \<open>From the switch to the meter\<close>










section \<open>Setting a meter\<close>

lemma check_modes_ok: "check_modes name supported ms = Inr u \<longleftrightarrow> list_all (\<lambda>(m, _). m \<in> set supported) ms"
  by (induction name supported ms rule: check_modes.induct) auto

lemma manager_add_stores:
  assumes "manager_add av rnd clk topic modes unit g = Some (Inr (), g')"
  shows "\<exists>d. vm_devices g' topic = Some d \<and> dv_Modes d = modes \<and> dv_Unit d = unit"
proof -
  obtain s t where s: "virtual_service g topic = Some s" "adapter_ThingByTopic (vm_ad g) topic = Some t"
    using assms by (auto simp: manager_add_def split: option.splits)
  from assms s have "\<exists>d1 g1 g2. vstorage_SetDevice topic (d1\<lparr>dv_Modes := modes, dv_Unit := unit, dv_LastTimeUpdated := clk 3\<rparr>) g1 = Some (Inr (), g2)
      \<and> (update_and_report av ''manager: failed to send inclusion report on add'' (ThingUpdateAddService s) t g2 = Some (Inr (), g') \<or> g' = g2)"
    by (auto simp: manager_add_def elim!: act_bind_InrE split: if_splits) blast+
  then obtain d1 g1 g2 where
    st: "vstorage_SetDevice topic (d1\<lparr>dv_Modes := modes, dv_Unit := unit, dv_LastTimeUpdated := clk 3\<rparr>) g1 = Some (Inr (), g2)"
    and rest: "update_and_report av ''manager: failed to send inclusion report on add'' (ThingUpdateAddService s) t g2 = Some (Inr (), g') \<or> g' = g2"
    by blast
  have "vm_devices g2 topic = Some (d1\<lparr>dv_Modes := modes, dv_Unit := unit, dv_LastTimeUpdated := clk 3\<rparr>)"
    using st by (auto simp: vstorage_SetDevice_def elim!: act_bind_InrE)
  moreover have "vm_devices g' = vm_devices g2"
    using rest by (auto simp: update_and_report_def on_ad_def Let_def elim!: act_bind_InrE split: if_splits)
  ultimately show ?thesis by simp
qed

lemma SendModesReport_forced:
  assumes "SendModesReport fg now now' True s g = Some (Inr (b, s'), g')"
  shows "b \<and> (\<exists>d a. vm_devices g (sv_Address (vs_spec s)) = Some d \<and> vm_devices g' = vm_devices g
    \<and> ad_published (vm_ad g') = ad_published (vm_ad g) @ [(a, (fg_New fg KFloatMap EvtMeterReport (sv_Name (vs_spec s))
        (VObject (map (\<lambda>(k, v). (k, VFloat v)) (dv_Modes d))) [] None)\<lparr>pl_Service := sv_Name (vs_spec s)\<rparr>)])"
proof -
  obtain d g1 where d: "device_or_fail ''manager: failed to get modes, device'' (sv_Address (vs_spec s)) g = Some (Inr d, g1)"
    and p: "on_ad (PublishServiceMessage fg (vs_spec s) (fg_New fg KFloatMap EvtMeterReport (sv_Name (vs_spec s))
        (VObject (map (\<lambda>(k, v). (k, VFloat v)) (dv_Modes d))) [] None)) g1 = Some (Inr (), g')" and b: b
    using assms by (auto simp: SendModesReport_def manager_modes_def elim!: act_bind_InrE)
  have "vm_devices g (sv_Address (vs_spec s)) = Some d" "vm_devices g1 = vm_devices g" "vm_ad g1 = vm_ad g"
    using d by (auto simp: device_or_fail_def vstorage_Device_def db_call_def Let_def act_bind_def act_wrap_def wrap_err_def
        split: option.splits sum.splits)
  moreover obtain a' where "PublishServiceMessage fg (vs_spec s) (fg_New fg KFloatMap EvtMeterReport (sv_Name (vs_spec s))
        (VObject (map (\<lambda>(k, v). (k, VFloat v)) (dv_Modes d))) [] None) (vm_ad g1) = Some (Inr (), a')" "g' = g1\<lparr>vm_ad := a'\<rparr>"
    using p by (auto simp: on_ad_def)
  ultimately show ?thesis using PublishServiceMessage_outcome b by fastforce
qed


text \<open>
  Adding a meter is checked, stored and confirmed: when \<^verbatim>\<open>cmd.meter.add\<close> returns without an error, the message named a supported
  unit and exactly as many modes as are supported, all of them supported; these are the modes and the unit that are
  stored for the device, and the last message published is a report that shows these modes.
\<close>
theorem meter_add_confirmed:
  assumes "handleCmdMeterAdd av rnd msg w = Some (Inr r, w')"
    "\<And>a s. vw_meters w a = Some s \<Longrightarrow> sv_Address (vs_spec s) = a"
  shows "r = None \<and> (\<exists>s modes unit d t.
      vw_meters w (sv_Address (vs_spec s)) = Some s \<and> fg_GetFloatMapValue (av_fimpgo av) (ms_Payload msg) = Inr modes
    \<and> map_of (pl_Properties (ms_Payload msg)) PropertyNameUnit = Some unit
    \<and> unit \<in> set (fg_PropertyStrings (av_fimpgo av) (vs_spec s) PropertySupportedUnits)
    \<and> length modes = length (fg_PropertyStrings (av_fimpgo av) (vs_spec s) PropertySupportedModes)
    \<and> list_all (\<lambda>(m, _). m \<in> set (fg_PropertyStrings (av_fimpgo av) (vs_spec s) PropertySupportedModes)) modes
    \<and> vm_devices (vw_manager w') (sv_Address (vs_spec s)) = Some d \<and> dv_Modes d = modes \<and> dv_Unit d = unit
    \<and> last (ad_published (vm_ad (vw_manager w'))) = (t, (fg_New (av_fimpgo av) KFloatMap EvtMeterReport (sv_Name (vs_spec s))
        (VObject (map (\<lambda>(k, v). (k, VFloat v)) modes)) [] None)\<lparr>pl_Service := sv_Name (vs_spec s)\<rparr>))"
proof -
  let ?fg = "av_fimpgo av"
  obtain a s modes unit w1 u where svc: "vw_getService msg w = Some (Inr (a, s), w)"
    and modes: "fg_GetFloatMapValue ?fg (ms_Payload msg) = Inr modes" and unit: "map_of (pl_Properties (ms_Payload msg)) PropertyNameUnit = Some unit"
    and add: "on_manager (\<lambda>clk. AddMeter av rnd clk modes unit s) w = Some (Inr u, w1)" and ans: "vw_answer ?fg a w1 = Some (Inr r, w')"
    using assms(1)
    by (auto simp: handleCmdMeterAdd_def vw_getService_def Let_def elim!: act_bind_InrE split: option.splits)
  have s: "vw_meters w a = Some s" using svc by (auto simp: vw_getService_def split: option.splits)
  with assms(2) have a: "a = sv_Address (vs_spec s)" by simp
  obtain clk g1 where g1: "AddMeter av rnd clk modes unit s (vw_manager w) = Some (Inr u, g1)" "vw_manager w1 = g1" "vw_meters w1 = vw_meters w"
    using add by (auto simp: on_manager_def)
  then have valid: "unit \<in> set (fg_PropertyStrings ?fg (vs_spec s) PropertySupportedUnits)"
    "length modes = length (fg_PropertyStrings ?fg (vs_spec s) PropertySupportedModes)"
    "list_all (\<lambda>(m, _). m \<in> set (fg_PropertyStrings ?fg (vs_spec s) PropertySupportedModes)) modes"
    and madd: "manager_add av rnd clk a modes unit (vw_manager w) = Some (Inr u, g1)"
    using a by (auto simp: AddMeter_def Let_def check_modes_ok elim!: act_bind_InrE split: if_splits)
  obtain d where d: "vm_devices g1 a = Some d" "dv_Modes d = modes" "dv_Unit d = unit"
    using manager_add_stores [of av rnd clk a modes unit "vw_manager w" g1] madd by auto
  obtain b w2 where snd: "vw_SendModesReport ?fg True a w1 = Some (Inr b, w')" and r: "r = None"
    using ans by (auto simp: vw_answer_def elim!: act_bind_InrE)
  obtain t0 t1 s' g' where rep: "SendModesReport ?fg t0 t1 True s g1 = Some (Inr (b, s'), g')" and w': "vw_manager w' = g'"
    using snd g1(2,3) s by (auto simp: vw_SendModesReport_def on_manager_def elim!: act_bind_InrE)
  from SendModesReport_forced [OF rep] d w' a r s modes unit valid show ?thesis by fastforce
qed

section \<open>Instances\<close>




end
