(* ===== verification/Database.thy ===== *)
theory Database
  imports Storage Go_Actions "HOL-Library.List_Lexorder" "HOL-Library.Char_ord"
begin

text \<open>
  The embedded database of \<^verbatim>\<open>src/database\<close>: buckets of keys with JSON values, kept in one \<^verbatim>\<open>buntdb\<close> store under the key
  \<^verbatim>\<open>bucket:key\<close>; domain databases, which prefix the buckets; and the recovery of a corrupted data file. The store
  is a parameter with the laws that its documentation states.
\<close>

section \<open>The store (\<^verbatim>\<open>buntdb\<close>)\<close>

text \<open>\<^verbatim>\<open>errors.Is\<close>: the error or one that it wraps.\<close>

primrec errors_Is :: "go_error \<Rightarrow> go_error \<Rightarrow> bool" where
  "errors_Is (Errorf s) t \<longleftrightarrow> Errorf s = t"
| "errors_Is (Wrapf s e) t \<longleftrightarrow> Wrapf s e = t \<or> errors_Is e t"

text \<open>
  The calls of the store that the database makes, on a state \<open>'b\<close> of the store. \<open>bn_View\<close> is the error with which
  \<^verbatim>\<open>View\<close> returns before it calls the function. The iterations return the keys they visit, since the callbacks of
  the database never stop them. The last three fields describe a state: the items with their
  expiry, the time, and whether the store is closed.
\<close>

record 'b bunt =
  bn_Open :: "string \<Rightarrow> (os, 'b) act"
  bn_SetConfig :: "int \<Rightarrow> int \<Rightarrow> ('b, unit) act"
  bn_Load :: "string \<Rightarrow> 'b \<Rightarrow> 'b"
  bn_Save :: "'b \<Rightarrow> string result"
  bn_Close :: "('b, unit) act"
  bn_Shrink :: "('b, unit) act"
  bn_View :: "'b \<Rightarrow> go_error option"
  bn_Update :: "('b, unit) act \<Rightarrow> ('b, unit) act"
  bn_Get :: "string \<Rightarrow> 'b \<Rightarrow> string result"
  bn_Set :: "string \<Rightarrow> string \<Rightarrow> duration option \<Rightarrow> ('b, unit) act"
  bn_Delete :: "string \<Rightarrow> ('b, unit) act"
  bn_DeleteAll :: "('b, unit) act"
  bn_AscendKeys :: "string \<Rightarrow> 'b \<Rightarrow> string list result"
  bn_AscendRange :: "string \<Rightarrow> string \<Rightarrow> string \<Rightarrow> 'b \<Rightarrow> string list result"
  bn_ErrNotFound :: go_error
  bn_ErrInvalid :: go_error
  bn_store :: "'b \<Rightarrow> string \<Rightarrow> (string \<times> time option) option"
  bn_now :: "'b \<Rightarrow> time"
  bn_closed :: "'b \<Rightarrow> bool"

text \<open>A read-only transaction.\<close>

definition view_tx :: "'b bunt \<Rightarrow> ('b \<Rightarrow> 'a result) \<Rightarrow> 'b \<Rightarrow> 'a result" where
  "view_tx bn f w = (case bn_View bn w of Some e \<Rightarrow> Inl e | None \<Rightarrow> f w)"

text \<open>The value of an item that has not expired.\<close>

definition live_item :: "time \<Rightarrow> (string \<times> time option) option \<Rightarrow> string option" where
  "live_item now it =
     (case it of
        None \<Rightarrow> None
      | Some (v, None) \<Rightarrow> Some v
      | Some (v, Some t) \<Rightarrow> if now \<le> t then Some v else None)"

text \<open>Two states with the same contents.\<close>

definition same_contents :: "'b bunt \<Rightarrow> 'b \<Rightarrow> 'b \<Rightarrow> bool" where
  "same_contents bn w w' \<longleftrightarrow> bn_store bn w' = bn_store bn w \<and> bn_now bn w' = bn_now bn w \<and> bn_closed bn w' = bn_closed bn w"

text \<open>
  The laws of an open store. A transaction whose function fails is rolled back, and so is one that cannot be written; the
  calls on a key change that key only.
\<close>

definition bunt_writes :: "'b bunt \<Rightarrow> 'b \<Rightarrow> bool" where
  "bunt_writes bn w \<longleftrightarrow>
     (\<forall>k v ttl. \<exists>w'. bn_Set bn k v ttl w = Some (Inr (), w') \<and> bn_now bn w' = bn_now bn w \<and> \<not> bn_closed bn w'
        \<and> bn_store bn w' = (bn_store bn w)(k \<mapsto> (v, map_option ((+) (bn_now bn w)) ttl)))
   \<and> (\<forall>k. \<exists>w'. if live_item (bn_now bn w) (bn_store bn w k) = None then bn_Delete bn k w = Some (Inl (bn_ErrNotFound bn), w')
        else bn_Delete bn k w = Some (Inr (), w') \<and> bn_now bn w' = bn_now bn w \<and> \<not> bn_closed bn w'
          \<and> bn_store bn w' = (bn_store bn w)(k := None))
   \<and> (\<exists>w'. bn_DeleteAll bn w = Some (Inr (), w') \<and> bn_now bn w' = bn_now bn w \<and> \<not> bn_closed bn w'
        \<and> bn_store bn w' = Map.empty)"

definition bunt_updates :: "'b bunt \<Rightarrow> 'b \<Rightarrow> bool" where
  "bunt_updates bn w \<longleftrightarrow>
     (\<forall>f. case f w of
        None \<Rightarrow> bn_Update bn f w = None
      | Some (Inl e, _) \<Rightarrow> \<exists>w2. bn_Update bn f w = Some (Inl e, w2) \<and> same_contents bn w w2
      | Some (Inr _, w1) \<Rightarrow> bn_Update bn f w = Some (Inr (), w1)
          \<or> (\<exists>e w2. bn_Update bn f w = Some (Inl e, w2) \<and> same_contents bn w w2))"

text \<open>A pattern without special characters and with a star at the end matches by prefix; keys are visited in order.\<close>

definition literal :: "string \<Rightarrow> bool" where
  "literal s \<longleftrightarrow> CHR ''*'' \<notin> set s \<and> CHR ''?'' \<notin> set s \<and> CHR 0x5C \<notin> set s"

definition store_keys :: "'b bunt \<Rightarrow> 'b \<Rightarrow> string list" where
  "store_keys bn w = sorted_list_of_set (dom (bn_store bn w))"

definition bunt_reads :: "'b bunt \<Rightarrow> 'b \<Rightarrow> bool" where
  "bunt_reads bn w \<longleftrightarrow>
     finite (dom (bn_store bn w)) \<and> bn_View bn w = None
   \<and> (\<forall>k. bn_Get bn k w = (case live_item (bn_now bn w) (bn_store bn w k) of None \<Rightarrow> Inl (bn_ErrNotFound bn) | Some v \<Rightarrow> Inr v))
   \<and> (\<forall>p. literal p \<longrightarrow> bn_AscendKeys bn (p @ ''*'') w = Inr (filter (prefix p) (store_keys bn w)))
   \<and> (\<forall>ge lt. bn_AscendRange bn '''' ge lt w = Inr (filter (\<lambda>k. ge \<le> k \<and> k < lt) (store_keys bn w)))"

definition bunt_ok :: "'b bunt \<Rightarrow> bool" where
  "bunt_ok bn \<longleftrightarrow> (\<forall>w. \<not> bn_closed bn w \<longrightarrow> bunt_reads bn w \<and> bunt_writes bn w \<and> bunt_updates bn w)"

section \<open>Options (\<^verbatim>\<open>options.go\<close>)\<close>

record db_config =
  dc_workdir :: string
  dc_filename :: string
  dc_compactionSize :: int
  dc_compactionPercentage :: int

definition db_newConfig :: db_config where
  "db_newConfig = \<lparr>dc_workdir = '''', dc_filename = '''', dc_compactionSize = 0, dc_compactionPercentage = 0\<rparr>"

definition db_withDefaults :: "db_config \<Rightarrow> db_config" where
  "db_withDefaults c = c\<lparr>dc_filename := ''data'', dc_compactionSize := 2 * 1024 * 1024\<rparr>"

definition db_apply :: "(db_config \<Rightarrow> db_config) list \<Rightarrow> db_config \<Rightarrow> db_config" where
  "db_apply opts c = foldl (\<lambda>c opt. opt c) c opts"

definition WithWorkdir :: "string \<Rightarrow> db_config \<Rightarrow> db_config" where
  "WithWorkdir workdir c = c\<lparr>dc_workdir := workdir\<rparr>"

definition WithFilename :: "string \<Rightarrow> db_config \<Rightarrow> db_config" where
  "WithFilename filename c = c\<lparr>dc_filename := filename\<rparr>"

definition WithCompactionSize :: "int \<Rightarrow> db_config \<Rightarrow> db_config" where
  "WithCompactionSize n c = c\<lparr>dc_compactionSize := n\<rparr>"

definition WithCompactionPercentage :: "int \<Rightarrow> db_config \<Rightarrow> db_config" where
  "WithCompactionPercentage percentage c = c\<lparr>dc_compactionPercentage := percentage\<rparr>"

section \<open>Opening and recovery\<close>

text \<open>The calls of the operating system that \<^verbatim>\<open>Storage\<close> does not make. \<^verbatim>\<open>O_CREATE|O_RDWR\<close> does not truncate the file.\<close>

definition os_ErrNotExist :: go_error where
  "os_ErrNotExist = Errorf ''file does not exist''"

definition os_MkdirAll :: "string \<Rightarrow> (os, unit) act" where
  "os_MkdirAll path os = (case os_fault os SMkdir path of Some e \<Rightarrow> Some (Inl e, os) | None \<Rightarrow> Some (Inr (), os))"

definition os_Read :: "string \<Rightarrow> (os, string) act" where
  "os_Read path os = Some (os_ReadFile os path, os)"

definition os_Remove :: "string \<Rightarrow> (os, unit) act" where
  "os_Remove path os =
     (case os_fault os SRemove path of
        Some e \<Rightarrow> Some (Inl e, os)
      | None \<Rightarrow>
          if os_files os path = None then Some (Inl os_ErrNotExist, os)
          else Some (Inr (), os\<lparr>os_files := (os_files os)(path := None)\<rparr>))"

definition os_Rename :: "string \<Rightarrow> string \<Rightarrow> (os, unit) act" where
  "os_Rename old new os =
     (case os_fault os SRename old of
        Some e \<Rightarrow> Some (Inl e, os)
      | None \<Rightarrow>
          if os_files os old = None then Some (Inl os_ErrNotExist, os)
          else Some (Inr (), os\<lparr>os_files := (os_files os)(new := os_files os old, old := None)\<rparr>))"

definition file_body :: "node option \<Rightarrow> string" where
  "file_body f = (case f of Some (RegFile c) \<Rightarrow> c | _ \<Rightarrow> '''')"

definition os_OpenFile :: "string \<Rightarrow> (os, unit) act" where
  "os_OpenFile path os =
     (case os_fault os SOpen path of
        Some e \<Rightarrow> Some (Inl e, os)
      | None \<Rightarrow>
          if os_files os path = Some Directory then Some (Inl (Errorf ''is a directory''), os)
          else Some (Inr (), os_put path (file_body (os_files os path)) os))"

definition os_WriteAt0 :: "string \<Rightarrow> string \<Rightarrow> (os, unit) act" where
  "os_WriteAt0 path data os =
     (let old = file_body (os_files os path) in
      case os_fault os SWrite path of
        Some e \<Rightarrow>
          (let part = take (os_short os path) data
           in Some (Inl e, os_put path (part @ drop (length part) old) os))
      | None \<Rightarrow> Some (Inr (), os_put path (data @ drop (length data) old) os))"

definition dbExtension :: string where
  "dbExtension = ''.db''"

definition db_path :: "string \<Rightarrow> string \<Rightarrow> string" where
  "db_path workdir filename = filepath_Join [workdir, filename @ dbExtension]"

definition db_recovered :: "string \<Rightarrow> string \<Rightarrow> string" where
  "db_recovered workdir filename = filepath_Join [workdir, filename @ ''.db.recovered'']"

definition db_corrupted :: "string \<Rightarrow> string \<Rightarrow> string" where
  "db_corrupted workdir filename = filepath_Join [workdir, filename @ ''.db.corrupted'']"

text \<open>The temporary database is loaded with as much of the data as can be read, and saved; its closing has no effect on files.\<close>

definition recoverData :: "'b bunt \<Rightarrow> string \<Rightarrow> string \<Rightarrow> (os, unit) act" where
  "recoverData bn workdir filename =
     act_bind (act_wrap ''database: failed to read corrupted data file'' (os_Read (db_path workdir filename))) (\<lambda>corruptedData.
     act_bind (act_wrap ''database: failed to open temporary database'' (bn_Open bn '':memory:'')) (\<lambda>tempDB.
     let tempDB = bn_Load bn corruptedData tempDB in
     act_bind (act_wrap ''database: failed to create recovered data file'' (os_OpenFile (db_recovered workdir filename))) (\<lambda>_.
     act_bind (act_wrap ''database: failed to save recovered data file''
       (act_bind (act_result (bn_Save bn tempDB)) (\<lambda>data. os_WriteAt0 (db_recovered workdir filename) data))) (\<lambda>_.
     act_wrap ''database: failed to close temporary database''
       (\<lambda>os. case bn_Close bn tempDB of None \<Rightarrow> None | Some (r, _) \<Rightarrow> Some (r, os))))))"

definition recoverDatabase :: "'b bunt \<Rightarrow> string \<Rightarrow> string \<Rightarrow> (os, 'b) act" where
  "recoverDatabase bn workdir filename =
     act_bind (act_wrap ''database: failed to recover data file'' (recoverData bn workdir filename)) (\<lambda>_.
     act_bind (act_try (os_Remove (db_corrupted workdir filename))) (\<lambda>r.
     act_bind (case r of
         Inl e \<Rightarrow> if errors_Is e os_ErrNotExist then act_return ()
                 else act_fail (Wrapf ''database: failed to remove previous corrupted data file'' e)
       | Inr _ \<Rightarrow> act_return ()) (\<lambda>_.
     act_bind (act_wrap ''database: failed to rename corrupted data file''
       (os_Rename (db_path workdir filename) (db_corrupted workdir filename))) (\<lambda>_.
     act_bind (act_wrap ''database: failed to rename recovered data file''
       (os_Rename (db_recovered workdir filename) (db_path workdir filename))) (\<lambda>_.
     act_wrap ''database: failed to open recovered data file'' (bn_Open bn (db_path workdir filename)))))))"

text \<open>\<open>bn_ErrInvalid\<close> stands for either of the two errors that start the recovery.\<close>

definition prepareDatabase :: "'b bunt \<Rightarrow> string \<Rightarrow> string \<Rightarrow> (os, 'b) act" where
  "prepareDatabase bn workdir filename =
     act_bind (act_wrap ''database: failed to create work directory'' (os_MkdirAll workdir)) (\<lambda>_.
     act_bind (act_try (bn_Open bn (db_path workdir filename))) (\<lambda>r.
     case r of
       Inr db \<Rightarrow> act_return db
     | Inl e \<Rightarrow>
         if errors_Is e (bn_ErrInvalid bn) then recoverDatabase bn workdir filename
         else act_fail (Wrapf ''databse: failed to open data file'' e)))"

definition NewDatabase :: "'b bunt \<Rightarrow> string \<Rightarrow> (db_config \<Rightarrow> db_config) list \<Rightarrow> (os, 'b) act" where
  "NewDatabase bn workdir options =
     (let cfg = db_apply (options @ [WithWorkdir workdir]) (db_withDefaults db_newConfig) in
      act_bind (act_wrap ''database: failed to prepare database'' (prepareDatabase bn (dc_workdir cfg) (dc_filename cfg))) (\<lambda>db.
      act_wrap ''database: failed to set database config''
        (\<lambda>os. case bn_SetConfig bn (dc_compactionPercentage cfg) (dc_compactionSize cfg) db of
           None \<Rightarrow> None
         | Some (Inl e, _) \<Rightarrow> Some (Inl e, os)
         | Some (Inr _, db') \<Rightarrow> Some (Inr db', os))))"

section \<open>The database\<close>

definition database_key :: "string \<Rightarrow> string \<Rightarrow> string" where
  "database_key bucket key = bucket @ '':'' @ key"

text \<open>The interface, with the value type of the caller; \<^verbatim>\<open>Get\<close> returns the target that it has decoded into.\<close>

record ('w, 'v) Database =
  db_Start :: "('w, unit) act"
  db_Stop :: "('w, unit) act"
  db_Reset :: "('w, unit) act"
  db_Keys :: "string \<Rightarrow> ('w, string list) act"
  db_KeysFrom :: "string \<Rightarrow> string \<Rightarrow> ('w, string list) act"
  db_KeysBetween :: "string \<Rightarrow> string \<Rightarrow> string \<Rightarrow> ('w, string list) act"
  db_Get :: "string \<Rightarrow> string \<Rightarrow> 'v \<Rightarrow> 'w \<Rightarrow> 'v \<times> bool result"
  db_Set :: "string \<Rightarrow> string \<Rightarrow> 'v \<Rightarrow> ('w, unit) act"
  db_SetWithExpiry :: "string \<Rightarrow> string \<Rightarrow> 'v \<Rightarrow> duration \<Rightarrow> ('w, unit) act"
  db_Delete :: "string \<Rightarrow> string \<Rightarrow> ('w, unit) act"

definition database_Stop :: "'b bunt \<Rightarrow> ('b, unit) act" where
  "database_Stop bn = act_wrap ''database: failed to close the database'' (bn_Close bn)"

definition database_Reset :: "'b bunt \<Rightarrow> ('b, unit) act" where
  "database_Reset bn =
     act_bind (act_wrap ''database: failed to delete key from the database'' (bn_Update bn (bn_DeleteAll bn))) (\<lambda>_.
     act_wrap ''database: failed to shrink the database'' (bn_Shrink bn))"

definition database_SetWithExpiry :: "'b bunt \<Rightarrow> 'v json \<Rightarrow> string \<Rightarrow> string \<Rightarrow> 'v \<Rightarrow> duration \<Rightarrow> ('b, unit) act" where
  "database_SetWithExpiry bn js bucket key v expiry =
     bn_Update bn
       (act_bind (act_wrap ''database: failed to marshal value'' (act_result (js_Marshal js v))) (\<lambda>rawData.
        act_wrap ''database: failed to set the key''
          (bn_Set bn (database_key bucket key) rawData (if 0 < expiry then Some expiry else None))))"

definition database_Set :: "'b bunt \<Rightarrow> 'v json \<Rightarrow> string \<Rightarrow> string \<Rightarrow> 'v \<Rightarrow> ('b, unit) act" where
  "database_Set bn js bucket key v = database_SetWithExpiry bn js bucket key v 0"

definition database_Delete :: "'b bunt \<Rightarrow> string \<Rightarrow> string \<Rightarrow> ('b, unit) act" where
  "database_Delete bn bucket key =
     bn_Update bn (act_wrap ''database: failed to delete the key'' (bn_Delete bn (database_key bucket key)))"

definition database_Get :: "'b bunt \<Rightarrow> 'v json \<Rightarrow> string \<Rightarrow> string \<Rightarrow> 'v \<Rightarrow> 'b \<Rightarrow> 'v \<times> bool result" where
  "database_Get bn js bucket key v w =
     (let (v', err) = (case view_tx bn (bn_Get bn (database_key bucket key)) w of
          Inl e \<Rightarrow> (v, Some e)
        | Inr rawData \<Rightarrow> js_Unmarshal js rawData v)
      in (v', case err of
            None \<Rightarrow> Inr True
          | Some e \<Rightarrow> if errors_Is e (bn_ErrNotFound bn) then Inr False
                      else Inl (Wrapf ''database: failed to get the key'' e)))"

text \<open>The bucket is cut off each key; slicing a shorter key panics.\<close>

definition cut_keys :: "string \<Rightarrow> string list \<Rightarrow> string list option" where
  "cut_keys bucket keys =
     (if list_all (\<lambda>k. length bucket + 1 \<le> length k) keys then Some (map (drop (length bucket + 1)) keys) else None)"

definition read_keys :: "string \<Rightarrow> 'b bunt \<Rightarrow> string \<Rightarrow> ('b \<Rightarrow> string list result) \<Rightarrow> ('b, string list) act" where
  "read_keys msg bn bucket f =
     act_bind (act_wrap msg (\<lambda>w. Some (view_tx bn f w, w))) (\<lambda>keys. act_option (cut_keys bucket keys))"

definition database_Keys :: "'b bunt \<Rightarrow> string \<Rightarrow> ('b, string list) act" where
  "database_Keys bn bucket =
     read_keys (''database: failed to get the keys for bucket '' @ bucket) bn bucket (bn_AscendKeys bn (bucket @ '':*''))"

definition database_KeysFrom :: "'b bunt \<Rightarrow> string \<Rightarrow> string \<Rightarrow> ('b, string list) act" where
  "database_KeysFrom bn bucket from =
     read_keys (''database: failed to get the keys for bucket '' @ bucket @ '' from '' @ from) bn bucket
       (bn_AscendRange bn '''' (database_key bucket from) (database_key bucket [CHR 0xFF]))"

definition database_KeysBetween :: "'b bunt \<Rightarrow> string \<Rightarrow> string \<Rightarrow> string \<Rightarrow> ('b, string list) act" where
  "database_KeysBetween bn bucket from limit =
     read_keys (''database: failed to get the keys for bucket '' @ bucket @ '' between '' @ from @ '' and '' @ limit) bn bucket
       (bn_AscendRange bn '''' (database_key bucket from) (database_key bucket limit))"

definition database_of :: "'b bunt \<Rightarrow> 'v json \<Rightarrow> ('b, 'v) Database" where
  "database_of bn js =
     \<lparr>db_Start = act_return (), db_Stop = database_Stop bn, db_Reset = database_Reset bn, db_Keys = database_Keys bn,
      db_KeysFrom = database_KeysFrom bn, db_KeysBetween = database_KeysBetween bn, db_Get = database_Get bn js,
      db_Set = database_Set bn js, db_SetWithExpiry = database_SetWithExpiry bn js, db_Delete = database_Delete bn\<rparr>"

section \<open>Domains\<close>

definition domain_bucket :: "string \<Rightarrow> string \<Rightarrow> string" where
  "domain_bucket domain bucket = domain @ '':'' @ bucket"

definition NewDomainDatabase :: "string \<Rightarrow> ('w, 'v) Database \<Rightarrow> ('w, 'v) Database" where
  "NewDomainDatabase domain db =
     db\<lparr>db_Keys := (\<lambda>b. db_Keys db (domain_bucket domain b)),
        db_KeysFrom := (\<lambda>b. db_KeysFrom db (domain_bucket domain b)),
        db_KeysBetween := (\<lambda>b. db_KeysBetween db (domain_bucket domain b)),
        db_Get := (\<lambda>b. db_Get db (domain_bucket domain b)),
        db_Set := (\<lambda>b. db_Set db (domain_bucket domain b)),
        db_SetWithExpiry := (\<lambda>b. db_SetWithExpiry db (domain_bucket domain b)),
        db_Delete := (\<lambda>b. db_Delete db (domain_bucket domain b))\<rparr>"

section \<open>The contract of a database\<close>

text \<open>
  A database is a map of cells: the cell of a bucket and a key is set, deleted and read, and no other. An operation that
  fails changes nothing. The value that \<^verbatim>\<open>Get\<close> decodes into is the zero value.
\<close>

locale kv_database =
  fixes db :: "('w, 'v) Database" and inv :: "'w \<Rightarrow> bool" and cell :: "string \<Rightarrow> string \<Rightarrow> string"
    and view :: "'w \<Rightarrow> string \<Rightarrow> 'v option" and zero :: 'v
  assumes Get_view: "inv w \<Longrightarrow> db_Get db b k zero w = (case view w (cell b k) of None \<Rightarrow> (zero, Inr False) | Some v \<Rightarrow> (v, Inr True))"
    and Set_run: "inv w \<Longrightarrow> \<exists>r w'. db_Set db b k v w = Some (r, w') \<and> inv w'
      \<and> view w' = (if isl r then view w else (view w)(cell b k \<mapsto> v))"
    and Delete_run: "inv w \<Longrightarrow> \<exists>r w'. db_Delete db b k w = Some (r, w') \<and> inv w'
      \<and> view w' = (if isl r then view w else (view w)(cell b k := None))"

datatype 'v kv_op = KSet string string 'v | KDelete string string

fun kv_step :: "('w, 'v) Database \<Rightarrow> 'v kv_op \<Rightarrow> ('w, unit) act" where
  "kv_step db (KSet b k v) = db_Set db b k v"
| "kv_step db (KDelete b k) = db_Delete db b k"

text \<open>A caller that makes calls one after the other and remembers which have failed.\<close>

fun kv_run :: "('w, 'v) Database \<Rightarrow> 'v kv_op list \<Rightarrow> 'w \<Rightarrow> (bool list \<times> 'w) option" where
  "kv_run db [] w = Some ([], w)"
| "kv_run db (x # xs) w =
     (case kv_step db x w of
        None \<Rightarrow> None
      | Some (r, w1) \<Rightarrow> map_option (\<lambda>(oks, w2). ((\<not> isl r) # oks, w2)) (kv_run db xs w1))"

text \<open>The specification: a map of pairs, on which the calls that have not failed act.\<close>

fun kv_spec :: "'v kv_op list \<Rightarrow> bool list \<Rightarrow> (string \<times> string \<Rightarrow> 'v option) \<Rightarrow> string \<times> string \<Rightarrow> 'v option" where
  "kv_spec (KSet b k v # xs) (True # oks) m = kv_spec xs oks (m((b, k) \<mapsto> v))"
| "kv_spec (KDelete b k # xs) (True # oks) m = kv_spec xs oks (m((b, k) := None))"
| "kv_spec (x # xs) (False # oks) m = kv_spec xs oks m"
| "kv_spec _ _ m = m"

fun kv_place :: "'v kv_op \<Rightarrow> string \<times> string" where
  "kv_place (KSet b k v) = (b, k)"
| "kv_place (KDelete b k) = (b, k)"

context kv_database
begin

lemma step_run:
  assumes "inv w"
  obtains r w' where "kv_step db x w = Some (r, w')" "inv w'"
    "\<And>c. c \<noteq> case_prod cell (kv_place x) \<Longrightarrow> view w' c = view w c"
    "\<And>m. view w' (case_prod cell (kv_place x)) = (if isl r then view w (case_prod cell (kv_place x))
       else kv_spec [x] [True] m (kv_place x))"
proof (cases x)
  case (KSet b k v)
  obtain r w' where "db_Set db b k v w = Some (r, w')" "inv w'" "view w' = (if isl r then view w else (view w)(cell b k \<mapsto> v))"
    using Set_run [OF assms, of b k v] by blast
  with KSet show ?thesis by (intro that [of r w']) auto
next
  case (KDelete b k)
  obtain r w' where "db_Delete db b k w = Some (r, w')" "inv w'" "view w' = (if isl r then view w else (view w)(cell b k := None))"
    using Delete_run [OF assms, of b k] by blast
  with KDelete show ?thesis by (intro that [of r w']) auto
qed

text \<open>Calls on other cells leave a cell alone.\<close>

lemma run_frame:
  "inv w \<Longrightarrow> list_all (\<lambda>x. case_prod cell (kv_place x) \<noteq> c) xs \<Longrightarrow>
   \<exists>oks w'. kv_run db xs w = Some (oks, w') \<and> length oks = length xs \<and> inv w' \<and> view w' c = view w c"
proof (induction xs arbitrary: w)
  case (Cons x xs)
  have "c \<noteq> case_prod cell (kv_place x)" using Cons.prems(2) by auto
  then obtain r w1 where w1: "kv_step db x w = Some (r, w1)" "inv w1" "view w1 c = view w c"
    by (rule_tac step_run [OF Cons.prems(1), of x]) blast
  moreover obtain oks w2 where "kv_run db xs w1 = Some (oks, w2)" "length oks = length xs" "inv w2" "view w2 c = view w1 c"
    using Cons.IH [OF w1(2)] Cons.prems(2) by auto
  ultimately show ?case by simp
qed simp

text \<open>Where different places have different cells, the database refines the map of pairs.\<close>

lemma run_refines:
  assumes "inj_on (case_prod cell) D"
  shows "inv w \<Longrightarrow> list_all (\<lambda>x. kv_place x \<in> D) xs \<Longrightarrow> (\<And>p. p \<in> D \<Longrightarrow> m p = view w (case_prod cell p)) \<Longrightarrow>
    \<exists>oks w'. kv_run db xs w = Some (oks, w') \<and> length oks = length xs \<and> inv w'
      \<and> (\<forall>p\<in>D. view w' (case_prod cell p) = kv_spec xs oks m p)"
proof (induction xs arbitrary: w m)
  case (Cons x xs)
  obtain r w1 where w1: "kv_step db x w = Some (r, w1)" "inv w1" "\<And>c. c \<noteq> case_prod cell (kv_place x) \<Longrightarrow> view w1 c = view w c"
    "view w1 (case_prod cell (kv_place x)) = (if isl r then view w (case_prod cell (kv_place x)) else kv_spec [x] [True] m (kv_place x))"
    using step_run [OF Cons.prems(1), of x] by metis
  let ?m = "kv_spec [x] [\<not> isl r] m"
  have "?m p = view w1 (case_prod cell p)" if "p \<in> D" for p
  proof (cases "p = kv_place x")
    case True
    then show ?thesis using w1(4) Cons.prems(3) [OF that] by (cases x; cases "isl r") auto
  next
    case False
    moreover have "case_prod cell p \<noteq> case_prod cell (kv_place x)"
      using inj_onD [OF assms, of p "kv_place x"] that False Cons.prems(2) by auto
    ultimately show ?thesis using w1(3) Cons.prems(3) [OF that] by (cases x; cases "isl r") auto
  qed
  then obtain oks w2 where "kv_run db xs w1 = Some (oks, w2)" "length oks = length xs" "inv w2"
    "\<forall>p\<in>D. view w2 (case_prod cell p) = kv_spec xs oks ?m p"
    using Cons.IH [OF w1(2), of ?m] Cons.prems(2) by auto
  moreover have "kv_spec (x # xs) ((\<not> isl r) # oks) m = kv_spec xs oks ?m" by (cases x; cases "isl r") auto
  ultimately show ?case using w1(1) by simp
qed simp

end

text \<open>A domain database keeps the contract, with the cells of its prefixed buckets.\<close>

locale domain_database = kv_database +
  fixes domain :: string
begin

lemma domain_contract: "kv_database (NewDomainDatabase domain db) inv (\<lambda>b. cell (domain_bucket domain b)) view zero"
  by unfold_locales (auto simp: NewDomainDatabase_def Get_view Set_run Delete_run)

end

sublocale domain_database \<subseteq> scoped: kv_database "NewDomainDatabase domain db" inv "\<lambda>b. cell (domain_bucket domain b)" view zero
  by (rule domain_contract)

section \<open>The database keeps the contract\<close>

text \<open>What the database relies on in \<^verbatim>\<open>encoding/json\<close>: decoding an encoded value into the zero value restores it.\<close>

definition json_restores :: "'v json \<Rightarrow> 'v \<Rightarrow> bool" where
  "json_restores js zero \<longleftrightarrow> (\<forall>v raw. js_Marshal js v = Inr raw \<longrightarrow> js_Unmarshal js raw zero = (v, None))"

definition db_view :: "'b bunt \<Rightarrow> 'v json \<Rightarrow> 'v \<Rightarrow> 'b \<Rightarrow> string \<Rightarrow> 'v option" where
  "db_view bn js zero w c = map_option (\<lambda>raw. fst (js_Unmarshal js raw zero)) (live_item (bn_now bn w) (bn_store bn w c))"

text \<open>The store is open and holds what the database has encoded.\<close>

definition db_inv :: "'b bunt \<Rightarrow> 'v json \<Rightarrow> 'v \<Rightarrow> 'b \<Rightarrow> bool" where
  "db_inv bn js zero w \<longleftrightarrow>
     bunt_ok bn \<and> json_restores js zero \<and> \<not> bn_closed bn w
   \<and> (\<forall>k raw t. bn_store bn w k = Some (raw, t) \<longrightarrow> (\<exists>v. js_Marshal js v = Inr raw))"

lemma errors_Is_refl [simp]: "errors_Is e e"
  by (cases e) simp_all

lemma live_item_simps [simp]:
  "live_item now None = None" "live_item now (Some (v, None)) = Some v"
  "live_item now (Some (v, Some t)) = (if now \<le> t then Some v else None)"
  by (simp_all add: live_item_def)

lemma live_item_SomeD: "live_item now it = Some v \<Longrightarrow> \<exists>t. it = Some (v, t)"
  by (auto simp: live_item_def split: option.splits if_splits)

lemma db_invD:
  assumes "db_inv bn js zero w"
  shows "bunt_reads bn w" "bunt_writes bn w" "bunt_updates bn w" "json_restores js zero"
  using assms by (auto simp: db_inv_def bunt_ok_def)

lemma db_inv_same:
  assumes "same_contents bn w w'" "db_inv bn js zero w"
  shows "db_inv bn js zero w' \<and> db_view bn js zero w' = db_view bn js zero w"
  using assms by (auto simp: db_inv_def same_contents_def db_view_def fun_eq_iff)

text \<open>An update that may fail on the way or when it is written.\<close>

lemma Update_run:
  assumes "db_inv bn js zero w" "f w = Some (r, w1)"
  obtains "isl r" "\<exists>w2. bn_Update bn f w = Some (r, w2) \<and> same_contents bn w w2"
  | "\<not> isl r" "bn_Update bn f w = Some (Inr (), w1)"
  | e w2 where "\<not> isl r" "bn_Update bn f w = Some (Inl e, w2)" "same_contents bn w w2"
  using db_invD(3) [OF assms(1)] assms(2) that
  by (cases r) (fastforce simp: bunt_updates_def dest!: spec [of _ f])+

lemma database_Get_run:
  assumes "db_inv bn js zero w"
  shows "database_Get bn js b k zero w
    = (case db_view bn js zero w (database_key b k) of None \<Rightarrow> (zero, Inr False) | Some v \<Rightarrow> (v, Inr True))"
proof -
  have g: "view_tx bn (bn_Get bn c) w = (case live_item (bn_now bn w) (bn_store bn w c) of None \<Rightarrow> Inl (bn_ErrNotFound bn) | Some v \<Rightarrow> Inr v)" for c
    using db_invD(1) [OF assms] by (simp add: bunt_reads_def view_tx_def)
  show ?thesis
  proof (cases "live_item (bn_now bn w) (bn_store bn w (database_key b k))")
    case (Some raw)
    then obtain t where "bn_store bn w (database_key b k) = Some (raw, t)" by (blast dest: live_item_SomeD)
    then obtain v where "js_Marshal js v = Inr raw" using assms by (fastforce simp: db_inv_def)
    then have "js_Unmarshal js raw zero = (v, None)" using db_invD(4) [OF assms] by (simp add: json_restores_def)
    then show ?thesis using Some by (simp add: database_Get_def db_view_def g)
  qed (simp add: database_Get_def db_view_def g)
qed

lemma database_Set_run:
  assumes "db_inv bn js zero w"
  shows "\<exists>r w'. database_Set bn js b k v w = Some (r, w') \<and> db_inv bn js zero w'
    \<and> db_view bn js zero w' = (if isl r then db_view bn js zero w else (db_view bn js zero w)(database_key b k \<mapsto> v))"
proof -
  let ?f = "act_bind (act_wrap ''database: failed to marshal value'' (act_result (js_Marshal js v))) (\<lambda>rawData.
        act_wrap ''database: failed to set the key'' (bn_Set bn (database_key b k) rawData None))"
  have set_def: "database_Set bn js b k v w = bn_Update bn ?f w"
    by (simp add: database_Set_def database_SetWithExpiry_def)
  show ?thesis
  proof (cases "js_Marshal js v")
    case (Inl e)
    then have "?f w = Some (Inl (Wrapf ''database: failed to marshal value'' e), w)" by simp
    from Update_run [where f = ?f, OF assms this] show ?thesis
      by cases (use assms db_inv_same in \<open>fastforce simp: set_def\<close>)+
  next
    case (Inr raw)
    then obtain w1 where w1: "bn_Set bn (database_key b k) raw None w = Some (Inr (), w1)" "bn_now bn w1 = bn_now bn w"
      "\<not> bn_closed bn w1" "bn_store bn w1 = (bn_store bn w)(database_key b k \<mapsto> (raw, None))"
      using db_invD(2) [OF assms] by (fastforce simp: bunt_writes_def)
    have dec: "js_Unmarshal js raw zero = (v, None)" using Inr db_invD(4) [OF assms] by (simp add: json_restores_def)
    have inv1: "db_inv bn js zero w1" using assms w1(3,4) Inr by (auto simp: db_inv_def)
    have view1: "db_view bn js zero w1 = (db_view bn js zero w)(database_key b k \<mapsto> v)"
      using w1(2,4) dec by (simp add: db_view_def fun_eq_iff)
    have "?f w = Some (Inr (), w1)" using Inr w1(1) by simp
    from Update_run [where f = ?f, OF assms this] show ?thesis
    proof cases
      case 2
      then show ?thesis using inv1 view1 set_def by auto
    next
      case (3 e w2)
      then show ?thesis using db_inv_same [OF 3(3) assms] set_def by auto
    qed simp
  qed
qed

lemma database_Delete_run:
  assumes "db_inv bn js zero w"
  shows "\<exists>r w'. database_Delete bn b k w = Some (r, w') \<and> db_inv bn js zero w'
    \<and> db_view bn js zero w' = (if isl r then db_view bn js zero w else (db_view bn js zero w)(database_key b k := None))"
proof -
  let ?f = "act_wrap ''database: failed to delete the key'' (bn_Delete bn (database_key b k))"
  obtain w1 where w1: "if live_item (bn_now bn w) (bn_store bn w (database_key b k)) = None
      then bn_Delete bn (database_key b k) w = Some (Inl (bn_ErrNotFound bn), w1)
      else bn_Delete bn (database_key b k) w = Some (Inr (), w1) \<and> bn_now bn w1 = bn_now bn w \<and> \<not> bn_closed bn w1
        \<and> bn_store bn w1 = (bn_store bn w)(database_key b k := None)"
    using db_invD(2) [OF assms] unfolding bunt_writes_def by blast
  show ?thesis
  proof (cases "live_item (bn_now bn w) (bn_store bn w (database_key b k))")
    case None
    then have "?f w = Some (Inl (Wrapf ''database: failed to delete the key'' (bn_ErrNotFound bn)), w1)" using w1 by simp
    from Update_run [where f = ?f, OF assms this] show ?thesis
      by cases (use assms db_inv_same in \<open>fastforce simp: database_Delete_def\<close>)+
  next
    case (Some raw)
    with w1 have w1': "bn_Delete bn (database_key b k) w = Some (Inr (), w1)" "bn_now bn w1 = bn_now bn w" "\<not> bn_closed bn w1"
      "bn_store bn w1 = (bn_store bn w)(database_key b k := None)" by auto
    have inv1: "db_inv bn js zero w1" using assms w1' by (auto simp: db_inv_def)
    have view1: "db_view bn js zero w1 = (db_view bn js zero w)(database_key b k := None)"
      using w1' by (simp add: db_view_def fun_eq_iff)
    have "?f w = Some (Inr (), w1)" using w1'(1) by simp
    from Update_run [where f = ?f, OF assms this] show ?thesis
    proof cases
      case 2
      then show ?thesis using inv1 view1 by (auto simp: database_Delete_def)
    next
      case (3 e w2)
      then show ?thesis using db_inv_same [OF 3(3) assms] by (auto simp: database_Delete_def)
    qed simp
  qed
qed

text \<open>
  \<^verbatim>\<open>Reset\<close> deletes all keys and then shrinks the file, which keeps the contents.
\<close>

definition shrink_keeps :: "'b bunt \<Rightarrow> bool" where
  "shrink_keeps bn \<longleftrightarrow> (\<forall>w r w'. bn_Shrink bn w = Some (r, w') \<longrightarrow> same_contents bn w w')"

lemma database_Reset_empties:
  assumes "db_inv bn js zero w" "shrink_keeps bn" "database_Reset bn w = Some (Inr (), w')"
  shows "db_inv bn js zero w' \<and> db_view bn js zero w' = Map.empty"
proof -
  obtain w1 where w1: "bn_DeleteAll bn w = Some (Inr (), w1)" "bn_now bn w1 = bn_now bn w" "\<not> bn_closed bn w1" "bn_store bn w1 = Map.empty"
    using db_invD(2) [OF assms(1)] unfolding bunt_writes_def by blast
  have inv1: "db_inv bn js zero w1" "db_view bn js zero w1 = Map.empty"
    using assms(1) w1 by (simp_all add: db_inv_def db_view_def fun_eq_iff)
  from Update_run [where f = "bn_DeleteAll bn", OF assms(1) w1(1)] show ?thesis
  proof cases
    case 2
    then have "bn_Shrink bn w1 = Some (Inr (), w')"
      using assms(3) by (auto simp: database_Reset_def elim!: act_bind_InrE)
    then have "same_contents bn w1 w'" using assms(2) by (simp add: shrink_keeps_def)
    then show ?thesis using db_inv_same inv1 by metis
  next
    case (3 e w2)
    then show ?thesis using assms(3) by (auto simp: database_Reset_def elim!: act_bind_InrE)
  qed simp
qed

interpretation plain: kv_database "database_of bn js" "db_inv bn js zero" database_key "db_view bn js zero" zero
  for bn :: "'b bunt" and js :: "'v json" and zero :: 'v
  by unfold_locales (simp_all add: database_of_def database_Get_run database_Set_run database_Delete_run)

interpretation domained: domain_database "database_of bn js" "db_inv bn js zero" database_key "db_view bn js zero" zero domain
  for bn :: "'b bunt" and js :: "'v json" and zero :: 'v and domain :: string ..

section \<open>Buckets, domains and keys\<close>

lemma database_key_inj: "inj_on (case_prod database_key) {p. CHR '':'' \<notin> set (fst p)}"
proof (rule inj_onI)
  fix p q :: "string \<times> string"
  assume "p \<in> {p. CHR '':'' \<notin> set (fst p)}" "q \<in> {p. CHR '':'' \<notin> set (fst p)}"
    "case_prod database_key p = case_prod database_key q"
  then show "p = q"
    using append_sep_inj [of "CHR '':''" "fst p" "fst q" "snd p" "snd q"] by (cases p; cases q) (simp add: database_key_def)
qed

lemma domains_apart:
  assumes "CHR '':'' \<notin> set d" "CHR '':'' \<notin> set e" "d \<noteq> e"
  shows "database_key (domain_bucket d b) k \<noteq> database_key (domain_bucket e b') k'"
  using append_sep_inj [of "CHR '':''" d e "b @ '':'' @ k" "b' @ '':'' @ k'"] assms by (auto simp: database_key_def domain_bucket_def)

text \<open>
  C15. The database refines a map of pairs: after any sequence of \<^verbatim>\<open>Set\<close> and \<^verbatim>\<open>Delete\<close> calls, some of which may fail, \<^verbatim>\<open>Get\<close> of
  a bucket and a key finds the value of the last call on this bucket and this key that did not fail, and nothing after a
  deletion, provided that no bucket contains the separator.
\<close>
theorem database_refines_map:
  assumes "db_inv bn js zero w" "list_all (\<lambda>x. CHR '':'' \<notin> set (fst (kv_place x))) xs" "CHR '':'' \<notin> set b"
  shows "\<exists>oks w'. kv_run (database_of bn js) xs w = Some (oks, w') \<and> length oks = length xs
    \<and> db_Get (database_of bn js) b k zero w'
      = (case kv_spec xs oks (\<lambda>(b, k). db_view bn js zero w (database_key b k)) (b, k) of
           None \<Rightarrow> (zero, Inr False) | Some v \<Rightarrow> (v, Inr True))"
proof -
  have "list_all (\<lambda>x. kv_place x \<in> {p. CHR '':'' \<notin> set (fst p)}) xs" using assms(2) by (simp add: list_all_iff)
  from plain.run_refines [OF database_key_inj assms(1) this, of "\<lambda>(b, k). db_view bn js zero w (database_key b k)"]
  obtain oks w' where "kv_run (database_of bn js) xs w = Some (oks, w')" "length oks = length xs" "db_inv bn js zero w'"
    "db_view bn js zero w' (database_key b k) = kv_spec xs oks (\<lambda>(b, k). db_view bn js zero w (database_key b k)) (b, k)"
    using assms(3) by auto
  then show ?thesis using plain.Get_view [of bn js zero w' b k] by auto
qed

text \<open>
  C32. Domains are isolated, except by \<^verbatim>\<open>Reset\<close>: no sequence of \<^verbatim>\<open>Set\<close> and \<^verbatim>\<open>Delete\<close> calls through the database of one domain, on
  whatever buckets and keys, changes what is found through the database of another domain, if the names of the domains do not
  contain the separator. But \<^verbatim>\<open>Reset\<close> is not confined to its domain: when it succeeds, nothing is found through any other domain either.
\<close>
theorem domains_isolated_except_Reset:
  assumes "db_inv bn js zero w" "shrink_keeps bn" "CHR '':'' \<notin> set d" "CHR '':'' \<notin> set e" "d \<noteq> e"
  shows "(\<exists>oks w'. kv_run (NewDomainDatabase d (database_of bn js)) xs w = Some (oks, w')
      \<and> db_Get (NewDomainDatabase e (database_of bn js)) b k zero w' = db_Get (NewDomainDatabase e (database_of bn js)) b k zero w)
    \<and> (db_Reset (NewDomainDatabase d (database_of bn js)) w = Some (Inr (), w')
        \<longrightarrow> db_Get (NewDomainDatabase e (database_of bn js)) b k zero w' = (zero, Inr False))"
proof
  let ?c = "database_key (domain_bucket e b) k"
  have "list_all (\<lambda>x. (case kv_place x of (b', k') \<Rightarrow> database_key (domain_bucket d b') k') \<noteq> ?c) xs"
    using domains_apart [OF assms(3-5)] by (simp add: list_all_iff split: prod.split)
  from domained.scoped.run_frame [OF assms(1) this] obtain oks w1 where
    "kv_run (NewDomainDatabase d (database_of bn js)) xs w = Some (oks, w1)" "db_inv bn js zero w1"
    "db_view bn js zero w1 ?c = db_view bn js zero w ?c" by auto
  then show "\<exists>oks w'. kv_run (NewDomainDatabase d (database_of bn js)) xs w = Some (oks, w')
      \<and> db_Get (NewDomainDatabase e (database_of bn js)) b k zero w' = db_Get (NewDomainDatabase e (database_of bn js)) b k zero w"
    using domained.scoped.Get_view [of bn js zero w1 e b k] domained.scoped.Get_view [OF assms(1), of e b k] by auto
  show "db_Reset (NewDomainDatabase d (database_of bn js)) w = Some (Inr (), w')
      \<longrightarrow> db_Get (NewDomainDatabase e (database_of bn js)) b k zero w' = (zero, Inr False)"
  proof
    assume "db_Reset (NewDomainDatabase d (database_of bn js)) w = Some (Inr (), w')"
    then have "database_Reset bn w = Some (Inr (), w')" by (simp add: NewDomainDatabase_def database_of_def)
    from database_Reset_empties [OF assms(1,2) this]
    show "db_Get (NewDomainDatabase e (database_of bn js)) b k zero w' = (zero, Inr False)"
      using domained.scoped.Get_view [of bn js zero w' e b k] by simp
  qed
qed

text \<open>With the separator in a bucket, two places share a cell.\<close>

lemma ambiguous_cell: "database_key ''a'' ''b:c'' = database_key ''a:b'' ''c''"
  by (simp add: database_key_def)

text \<open>The keys of a bucket, in order.\<close>

definition bucket_keys :: "'b bunt \<Rightarrow> 'b \<Rightarrow> string \<Rightarrow> string list" where
  "bucket_keys bn w b = sorted_list_of_set {k. database_key b k \<in> dom (bn_store bn w)}"

lemma between_prefix:
  fixes x :: string
  shows "p @ u \<le> x \<Longrightarrow> x < p @ v \<Longrightarrow> \<exists>y. x = p @ y \<and> u \<le> y \<and> y < v"
proof (induction p arbitrary: x)
  case (Cons c p)
  then obtain d x' where x: "x = d # x'" by (cases x) simp_all
  with Cons.prems have "d = c" "p @ u \<le> x'" "x' < p @ v" by (auto split: if_splits)
  with Cons.IH x show ?case by auto
qed simp

lemma prefix_between:
  fixes u :: string
  shows "p @ u \<le> p @ v \<longleftrightarrow> u \<le> v" "p @ u < p @ v \<longleftrightarrow> u < v"
  by (induction p) auto

lemma cut_sorted:
  fixes D :: "string set"
  assumes "finite D" "\<And>x. P x \<Longrightarrow> prefix p x"
  shows "map (drop (length p)) (filter P (sorted_list_of_set D)) = sorted_list_of_set {k. p @ k \<in> D \<and> P (p @ k)}"
proof -
  let ?xs = "filter P (sorted_list_of_set D)"
  have pre: "\<forall>x\<in>set ?xs. x = p @ drop (length p) x" using assms(2) by (fastforce simp: prefix_def)
  have fin: "finite {k. p @ k \<in> D \<and> P (p @ k)}"
    by (rule finite_subset [of _ "drop (length p) ` D"]) (use assms(1) in \<open>force simp: image_iff\<close>)+
  have s: "sorted ?xs" "distinct ?xs" by (simp_all add: sorted_wrt_filter)
  have sx: "sorted (map (drop (length p)) xs)" if "sorted xs" "\<forall>x\<in>set xs. x = p @ drop (length p) x" for xs
    using that
  proof (induction xs)
    case (Cons x xs)
    then have "drop (length p) x \<le> drop (length p) y" if "y \<in> set xs" for y
      using that prefix_between(1) [of p "drop (length p) x" "drop (length p) y"] by auto
    with Cons show ?case by auto
  qed simp
  have "inj_on (drop (length p)) (set ?xs)" using pre by (metis inj_onI)
  then have "distinct (map (drop (length p)) ?xs)" using s(2) by (simp add: distinct_map)
  moreover have "set (map (drop (length p)) ?xs) = {k. p @ k \<in> D \<and> P (p @ k)}"
    using pre assms(1) by (force simp: image_iff)
  ultimately show ?thesis
    using sx [OF s(1) pre] fin by (intro sorted_distinct_set_unique) simp_all
qed

lemma filter_sorted_set:
  fixes A :: "string set"
  shows "finite A \<Longrightarrow> filter Q (sorted_list_of_set A) = sorted_list_of_set {x \<in> A. Q x}"
  by (rule sorted_distinct_set_unique) (auto simp: sorted_wrt_filter)

lemma read_keys_run:
  assumes "db_inv bn js zero w" "bn_View bn w = None" "f w = Inr (filter P (store_keys bn w))" "\<And>x. P x \<Longrightarrow> prefix (database_key b []) x"
  shows "read_keys t bn b f w = Some (Inr (filter (\<lambda>k. P (database_key b k)) (bucket_keys bn w b)), w)"
proof -
  let ?p = "database_key b []"
  have p: "length ?p = length b + 1" "\<And>k. ?p @ k = database_key b k" by (simp_all add: database_key_def)
  have fin: "finite (dom (bn_store bn w))" using db_invD(1) [OF assms(1)] by (simp add: bunt_reads_def)
  have finb: "finite {k. database_key b k \<in> dom (bn_store bn w)}"
    using finite_vimageI [OF fin, of "(@) ?p"] by (simp add: vimage_def p(2) inj_on_def database_key_def)
  have "list_all (\<lambda>k. length b + 1 \<le> length k) (filter P (store_keys bn w))"
    using prefix_length_le [OF assms(4)] p(1) by (simp add: list_all_iff)
  moreover have "map (drop (length b + 1)) (filter P (store_keys bn w)) = filter (\<lambda>k. P (database_key b k)) (bucket_keys bn w b)"
    using cut_sorted [OF fin assms(4)] filter_sorted_set [OF finb] p unfolding store_keys_def bucket_keys_def by simp
  ultimately show ?thesis using assms(2,3) by (simp add: read_keys_def view_tx_def cut_keys_def)
qed

text \<open>
  The keys of a bucket: \<^verbatim>\<open>Keys\<close> returns the keys of the bucket in ascending order and without the bucket, \<^verbatim>\<open>KeysBetween\<close>
  those of them from the first bound up to, but without, the second, and \<^verbatim>\<open>KeysFrom\<close> those from the bound that sort before the byte
  255, which begins no valid UTF-8 string. The bucket has no special characters of a pattern.
\<close>
theorem Keys_sorted:
  assumes "db_inv bn js zero w" "literal b"
  shows "db_Keys (database_of bn js) b w = Some (Inr (bucket_keys bn w b), w)
    \<and> db_KeysBetween (database_of bn js) b from limit w
      = Some (Inr (filter (\<lambda>k. from \<le> k \<and> k < limit) (bucket_keys bn w b)), w)
    \<and> db_KeysFrom (database_of bn js) b from w
      = Some (Inr (filter (\<lambda>k. from \<le> k \<and> k < [CHR 0xFF]) (bucket_keys bn w b)), w)"
proof -
  have r: "bn_View bn w = None" "\<And>p. literal p \<Longrightarrow> bn_AscendKeys bn (p @ ''*'') w = Inr (filter (prefix p) (store_keys bn w))"
    "\<And>ge lt. bn_AscendRange bn '''' ge lt w = Inr (filter (\<lambda>k. ge \<le> k \<and> k < lt) (store_keys bn w))"
    using db_invD(1) [OF assms(1)] by (simp_all add: bunt_reads_def)
  have "literal (database_key b [])" "b @ '':*'' = database_key b [] @ ''*''"
    using assms(2) by (simp_all add: literal_def database_key_def)
  with r(2) have "bn_AscendKeys bn (b @ '':*'') w = Inr (filter (prefix (database_key b [])) (store_keys bn w))" by metis
  from read_keys_run [where P = "prefix (database_key b [])" and f = "bn_AscendKeys bn (b @ '':*'')" and b = b,
      OF assms(1) r(1) this] have keys: "db_Keys (database_of bn js) b w = Some (Inr (bucket_keys bn w b), w)"
    by (simp add: database_of_def database_Keys_def database_key_def prefix_def)
  have range: "read_keys t bn b (bn_AscendRange bn '''' (database_key b u) (database_key b v)) w
      = Some (Inr (filter (\<lambda>k. u \<le> k \<and> k < v) (bucket_keys bn w b)), w)" for t u v
  proof -
    have "prefix (database_key b []) x" if "database_key b u \<le> x \<and> x < database_key b v" for x
      using between_prefix [of "database_key b []" u x v] that by (auto simp: database_key_def prefix_def)
    from read_keys_run [where P = "\<lambda>x. database_key b u \<le> x \<and> x < database_key b v"
        and f = "bn_AscendRange bn '''' (database_key b u) (database_key b v)" and b = b, OF assms(1) r(1) r(3) this]
    show ?thesis using prefix_between [of "database_key b []"] by (simp add: database_key_def)
  qed
  show ?thesis using keys range by (simp add: database_of_def database_KeysBetween_def database_KeysFrom_def)
qed

section \<open>Recovery\<close>

text \<open>Opening a database touches at most its own file, and no file when it is kept in memory.\<close>

definition opens_only :: "'b bunt \<Rightarrow> bool" where
  "opens_only bn \<longleftrightarrow>
     (\<forall>path os r os'. bn_Open bn path os = Some (r, os') \<longrightarrow>
        (\<forall>p. p \<noteq> path \<or> path = '':memory:'' \<longrightarrow> os_files os' p = os_files os p))"

definition kept :: "string \<Rightarrow> string \<Rightarrow> string \<Rightarrow> os \<Rightarrow> bool" where
  "kept wd fn c os \<longleftrightarrow> os_files os (db_path wd fn) = Some (RegFile c) \<or> os_files os (db_corrupted wd fn) = Some (RegFile c)"

lemma db_paths [simp]:
  "db_path wd fn \<noteq> db_recovered wd fn" "db_recovered wd fn \<noteq> db_path wd fn"
  "db_path wd fn \<noteq> db_corrupted wd fn" "db_corrupted wd fn \<noteq> db_path wd fn"
  "db_recovered wd fn \<noteq> db_corrupted wd fn" "db_corrupted wd fn \<noteq> db_recovered wd fn"
  by (simp_all add: db_path_def db_recovered_def db_corrupted_def dbExtension_def filepath_Join_def)

text \<open>The saving of the recovered data writes the recovered file only.\<close>

lemma os_keeps_others:
  "p \<noteq> path \<Longrightarrow> act_keeps (\<lambda>os'. os_files os' p = f) (os_OpenFile path)"
  "p \<noteq> path \<Longrightarrow> act_keeps (\<lambda>os'. os_files os' p = f) (os_WriteAt0 path data)"
  "act_keeps (\<lambda>os'. os_files os' p = f) (os_Read path)"
  "opens_only bn \<Longrightarrow> act_keeps (\<lambda>os'. os_files os' p = f) (bn_Open bn '':memory:'')"
  by (auto simp: os_OpenFile_def os_WriteAt0_def os_Read_def os_put_def opens_only_def Let_def split: option.splits if_splits intro!: act_keepsI)

lemma recoverData_keeps:
  assumes "opens_only bn" "p \<noteq> db_recovered wd fn"
  shows "act_keeps (\<lambda>os'. os_files os' p = f) (recoverData bn wd fn)"
  unfolding recoverData_def Let_def using assms
  by (intro act_keeps_rules os_keeps_others) (auto intro!: act_keepsI split: option.splits)

lemma recoverData_saves:
  assumes "opens_only bn" "recoverData bn wd fn os = Some (Inr (), os1)" "os_files os (db_path wd fn) = Some (RegFile c)"
  shows "\<exists>temp os' saved. bn_Open bn '':memory:'' os = Some (Inr temp, os') \<and> bn_Save bn (bn_Load bn c temp) = Inr saved
    \<and> os_files os1 (db_recovered wd fn) = Some (RegFile (saved @ drop (length saved) (file_body (os_files os (db_recovered wd fn)))))"
proof -
  obtain temp os' os2 os3 saved where t: "os_ReadFile os (db_path wd fn) = Inr c" "bn_Open bn '':memory:'' os = Some (Inr temp, os')"
    "os_OpenFile (db_recovered wd fn) os' = Some (Inr (), os2)" "bn_Save bn (bn_Load bn c temp) = Inr saved"
    "os_WriteAt0 (db_recovered wd fn) saved os2 = Some (Inr (), os3)" "os1 = os3"
    using assms(2,3) by (auto simp: recoverData_def os_Read_def os_ReadFile_def Let_def split: option.splits elim!: act_bind_InrE)
  have "os_files os' (db_recovered wd fn) = os_files os (db_recovered wd fn)" using assms(1) t(2) by (auto simp: opens_only_def)
  with t show ?thesis
    by (auto simp: os_OpenFile_def os_WriteAt0_def os_put_def file_body_def Let_def split: option.splits if_splits)
qed


text \<open>Moving the files: what is done once the recovered data have been saved.\<close>

definition swap_files :: "'b bunt \<Rightarrow> string \<Rightarrow> string \<Rightarrow> (os, 'b) act" where
  "swap_files bn wd fn =
     act_bind (act_try (os_Remove (db_corrupted wd fn))) (\<lambda>r.
     act_bind (case r of
         Inl e \<Rightarrow> if errors_Is e os_ErrNotExist then act_return ()
                 else act_fail (Wrapf ''database: failed to remove previous corrupted data file'' e)
       | Inr _ \<Rightarrow> act_return ()) (\<lambda>_.
     act_bind (act_wrap ''database: failed to rename corrupted data file'' (os_Rename (db_path wd fn) (db_corrupted wd fn))) (\<lambda>_.
     act_bind (act_wrap ''database: failed to rename recovered data file'' (os_Rename (db_recovered wd fn) (db_path wd fn))) (\<lambda>_.
     act_wrap ''database: failed to open recovered data file'' (bn_Open bn (db_path wd fn))))))"

lemma recoverDatabase_eq:
  "recoverDatabase bn wd fn = act_bind (act_wrap ''database: failed to recover data file'' (recoverData bn wd fn)) (\<lambda>_. swap_files bn wd fn)"
  by (simp add: recoverDatabase_def swap_files_def)

lemma os_Remove_run:
  "(\<exists>e. os_Remove p os = Some (Inl e, os)) \<or> os_Remove p os = Some (Inr (), os\<lparr>os_files := (os_files os)(p := None)\<rparr>)"
  by (simp add: os_Remove_def split: option.split)

lemma os_Rename_run:
  "(\<exists>e. os_Rename p q os = Some (Inl e, os))
    \<or> os_Rename p q os = Some (Inr (), os\<lparr>os_files := (os_files os)(q := os_files os p, p := None)\<rparr>)"
  by (simp add: os_Rename_def split: option.split)

lemma swap_files_run:
  assumes "opens_only bn" "os_files os (db_path wd fn) = Some (RegFile c)" "swap_files bn wd fn os = Some (r, os')"
  shows "kept wd fn c os' \<and> (\<forall>db. r = Inr db \<longrightarrow> os_files os' (db_corrupted wd fn) = Some (RegFile c)
    \<and> (\<exists>os2. bn_Open bn (db_path wd fn) os2 = Some (Inr db, os') \<and> os_files os2 (db_path wd fn) = os_files os (db_recovered wd fn)))"
proof -
  obtain r1 os1 where os1: "os_Remove (db_corrupted wd fn) os = Some (r1, os1)" "os_files os1 (db_path wd fn) = Some (RegFile c)"
    "os_files os1 (db_recovered wd fn) = os_files os (db_recovered wd fn)"
    using os_Remove_run [of "db_corrupted wd fn" os] assms(2) by auto
  show ?thesis
  proof (cases "\<exists>e. r1 = Inl e \<and> \<not> errors_Is e os_ErrNotExist")
    case True
    then show ?thesis using assms(3) os1 by (auto simp: swap_files_def kept_def)
  next
    case False
    then have go: "swap_files bn wd fn os = act_bind (act_wrap ''database: failed to rename corrupted data file'' (os_Rename (db_path wd fn) (db_corrupted wd fn))) (\<lambda>_.
     act_bind (act_wrap ''database: failed to rename recovered data file'' (os_Rename (db_recovered wd fn) (db_path wd fn))) (\<lambda>_.
     act_wrap ''database: failed to open recovered data file'' (bn_Open bn (db_path wd fn)))) os1"
      using os1(1) by (auto simp: swap_files_def split: sum.splits)
    show ?thesis
    proof (rule disjE [OF os_Rename_run [of "db_path wd fn" "db_corrupted wd fn" os1]])
      assume "\<exists>e. os_Rename (db_path wd fn) (db_corrupted wd fn) os1 = Some (Inl e, os1)"
      then show ?thesis using go assms(3) os1(2) by (auto simp: kept_def)
    next
      let ?os2 = "os1\<lparr>os_files := (os_files os1)(db_corrupted wd fn := os_files os1 (db_path wd fn), db_path wd fn := None)\<rparr>"
      assume r2: "os_Rename (db_path wd fn) (db_corrupted wd fn) os1 = Some (Inr (), ?os2)"
      show ?thesis
      proof (rule disjE [OF os_Rename_run [of "db_recovered wd fn" "db_path wd fn" ?os2]])
        assume "\<exists>e. os_Rename (db_recovered wd fn) (db_path wd fn) ?os2 = Some (Inl e, ?os2)"
        then show ?thesis using go r2 assms(3) os1(2) by (auto simp: kept_def)
      next
        let ?os3 = "?os2\<lparr>os_files := (os_files ?os2)(db_path wd fn := os_files ?os2 (db_recovered wd fn), db_recovered wd fn := None)\<rparr>"
        assume "os_Rename (db_recovered wd fn) (db_path wd fn) ?os2 = Some (Inr (), ?os3)"
        with go r2 assms(3) have "act_wrap ''database: failed to open recovered data file'' (bn_Open bn (db_path wd fn)) ?os3 = Some (r, os')"
          by simp
        then obtain r4 where r4: "bn_Open bn (db_path wd fn) ?os3 = Some (r4, os')"
          "r = wrap_err ''database: failed to open recovered data file'' r4"
          by (auto simp del: fun_upd_apply simp: act_wrap_def)
        then have "os_files os' (db_corrupted wd fn) = Some (RegFile c)" using assms(1) os1(2) by (simp add: opens_only_def)
        with r4 os1(3) show ?thesis by (auto simp: kept_def intro!: exI [of _ ?os3])
      qed
    qed
  qed
qed

text \<open>
  C33. Recovery loses no data: however the recovery of a corrupted data file ends, errors of the operating system included, the bytes of the
  file are still there, as the data file or as the file with the extension \<^verbatim>\<open>.corrupted\<close>. When it succeeds, they are the latter, and the
  database has been opened on what the temporary database has saved, followed by the tail of a longer recovered file that an
  earlier attempt has left.
\<close>
theorem recovery_keeps_data:
  assumes "opens_only bn" "os_files os (db_path wd fn) = Some (RegFile c)" "recoverDatabase bn wd fn os = Some (r, os')"
  shows "kept wd fn c os' \<and> (\<forall>db. r = Inr db \<longrightarrow> os_files os' (db_corrupted wd fn) = Some (RegFile c)
    \<and> (\<exists>temp os1 saved os2. bn_Open bn '':memory:'' os = Some (Inr temp, os1) \<and> bn_Save bn (bn_Load bn c temp) = Inr saved
        \<and> bn_Open bn (db_path wd fn) os2 = Some (Inr db, os')
        \<and> os_files os2 (db_path wd fn) = Some (RegFile (saved @ drop (length saved) (file_body (os_files os (db_recovered wd fn)))))))"
proof -
  obtain r1 os1 where os1: "recoverData bn wd fn os = Some (r1, os1)"
    using assms(3) by (cases "recoverData bn wd fn os") (auto simp: recoverDatabase_eq)
  then have c: "os_files os1 (db_path wd fn) = Some (RegFile c)"
    using act_keepsD [OF recoverData_keeps [OF assms(1) db_paths(1)] assms(2)] by blast
  show ?thesis
  proof (cases r1)
    case (Inl e)
    then show ?thesis using os1 assms(3) c by (auto simp: recoverDatabase_eq kept_def)
  next
    case (Inr u)
    then have "swap_files bn wd fn os1 = Some (r, os')" using os1 assms(3) by (simp add: recoverDatabase_eq)
    from swap_files_run [OF assms(1) c this] recoverData_saves [OF assms(1) _ assms(2)] os1 Inr show ?thesis by auto
  qed
qed

section \<open>Instances\<close>

text \<open>A store in memory, whose clock stands still and which encodes its keys and values with a separator when it is saved.\<close>

type_synonym demo_kv = "(string \<times> string \<times> time option) list \<times> bool"

definition demo_keys :: "demo_kv \<Rightarrow> string list" where
  "demo_keys w = sorted_list_of_set (set (map fst (fst w)))"

definition demo_delete :: "string \<Rightarrow> (demo_kv, unit) act" where
  "demo_delete k w =
     (case live_item 0 (map_of (fst w) k) of
        None \<Rightarrow> Some (Inl (Errorf ''not found''), w)
      | Some _ \<Rightarrow> Some (Inr (), (AList.delete k (fst w), snd w)))"

definition demo_update :: "(demo_kv, unit) act \<Rightarrow> (demo_kv, unit) act" where
  "demo_update f w =
     (if snd w then Some (Inl (Errorf ''database closed''), w)
      else case f w of
        None \<Rightarrow> None
      | Some (Inl e, _) \<Rightarrow> Some (Inl e, w)
      | Some (Inr _, w1) \<Rightarrow> Some (Inr (), w1))"

definition demo_bunt :: "demo_kv bunt" where
  "demo_bunt =
     \<lparr>bn_Open = (\<lambda>path os. if path = '':memory:'' \<or> file_body (os_files os path) \<noteq> ''?'' then Some (Inr ([], False), os)
         else Some (Inl (Errorf ''invalid database''), os)),
      bn_SetConfig = (\<lambda>_ _. act_return ()), bn_Load = (\<lambda>c w. ([(''b:k'', c, None)], snd w)),
      bn_Save = (\<lambda>w. Inr (concat (map fst (fst w)))),
      bn_Close = act_modify (\<lambda>w. (fst w, True)), bn_Shrink = act_return (),
      bn_View = (\<lambda>w. if snd w then Some (Errorf ''database closed'') else None), bn_Update = demo_update,
      bn_Get = (\<lambda>k w. case live_item 0 (map_of (fst w) k) of None \<Rightarrow> Inl (Errorf ''not found'') | Some v \<Rightarrow> Inr v),
      bn_Set = (\<lambda>k v ttl. act_modify (\<lambda>w. (AList.update k (v, ttl) (fst w), snd w))), bn_Delete = demo_delete,
      bn_DeleteAll = act_modify (\<lambda>w. ([], snd w)),
      bn_AscendKeys = (\<lambda>p w. Inr (filter (prefix (butlast p)) (demo_keys w))),
      bn_AscendRange = (\<lambda>_ ge lt w. Inr (filter (\<lambda>k. ge \<le> k \<and> k < lt) (demo_keys w))),
      bn_ErrNotFound = Errorf ''not found'', bn_ErrInvalid = Errorf ''invalid database'',
      bn_store = (\<lambda>w. map_of (fst w)), bn_now = (\<lambda>_. 0), bn_closed = snd\<rparr>"

lemma demo_bunt_reads: "\<not> snd w \<Longrightarrow> bunt_reads demo_bunt w"
  by (auto simp: bunt_reads_def demo_bunt_def finite_dom_map_of store_keys_def demo_keys_def dom_map_of_conv_image_fst
      split: option.split)

lemma demo_bunt_writes: "\<not> snd w \<Longrightarrow> bunt_writes demo_bunt w"
  by (auto simp: bunt_writes_def demo_bunt_def demo_delete_def update_conv' delete_conv' map_option_idI split: option.splits)

lemma demo_bunt_updates: "\<not> snd w \<Longrightarrow> bunt_updates demo_bunt w"
  by (auto simp: bunt_updates_def demo_bunt_def demo_update_def same_contents_def split: option.splits sum.splits)

lemma demo_bunt_ok: "bunt_ok demo_bunt"
  using demo_bunt_reads demo_bunt_writes demo_bunt_updates by (simp add: bunt_ok_def) (simp add: demo_bunt_def)

text \<open>Values of one bit; the zero value is \<open>False\<close>.\<close>

lemma demo_db_inv: "db_inv demo_bunt demo_json False ([], False)"
  using demo_bunt_ok by (simp add: db_inv_def json_restores_def) (simp add: demo_bunt_def demo_json_def)

definition demo_calls :: "bool kv_op list" where
  "demo_calls = [KSet ''a'' ''k'' True, KSet ''a'' ''l'' True, KDelete ''b'' ''k'', KSet ''a'' ''k'' False, KDelete ''a'' ''l'']"

theorem database_refines_map_witness:
  "\<exists>w'. kv_run (database_of demo_bunt demo_json) demo_calls ([], False) = Some ([True, True, False, True, True], w')
     \<and> db_Get (database_of demo_bunt demo_json) ''a'' ''k'' False w' = (False, Inr True)"
proof -
  have oks: "map_option fst (kv_run (database_of demo_bunt demo_json) demo_calls ([], False)) = Some [True, True, False, True, True]"
    by code_simp
  have "list_all (\<lambda>x. CHR '':'' \<notin> set (fst (kv_place x))) demo_calls" by code_simp
  from database_refines_map [OF demo_db_inv this, of "''a''" "''k''"] oks show ?thesis
    by (auto simp: demo_calls_def)
qed

theorem domains_isolated_except_Reset_witness:
  "(\<exists>oks w'. kv_run (NewDomainDatabase ''x'' (database_of demo_bunt demo_json)) demo_calls ([(''y:a:k'', ''{1}'', None)], False) = Some (oks, w')
       \<and> db_Get (NewDomainDatabase ''y'' (database_of demo_bunt demo_json)) ''a'' ''k'' False w' = (True, Inr True))
     \<and> (\<exists>w'. db_Reset (NewDomainDatabase ''x'' (database_of demo_bunt demo_json)) ([(''y:a:k'', ''{1}'', None)], False) = Some (Inr (), w')
       \<and> db_Get (NewDomainDatabase ''y'' (database_of demo_bunt demo_json)) ''a'' ''k'' False w' = (False, Inr False))"
proof -
  let ?w = "([(''y:a:k'', ''{1}'', None)], False) :: demo_kv"
  have inv: "db_inv demo_bunt demo_json False ?w"
    using demo_bunt_ok by (simp add: db_inv_def json_restores_def) (auto simp: demo_bunt_def demo_json_def)
  have shrink: "shrink_keeps demo_bunt" by (simp add: shrink_keeps_def same_contents_def demo_bunt_def act_return_def)
  have got: "db_Get (NewDomainDatabase ''y'' (database_of demo_bunt demo_json)) ''a'' ''k'' False ?w = (True, Inr True)"
    by code_simp
  have reset: "db_Reset (NewDomainDatabase ''x'' (database_of demo_bunt demo_json)) ?w = Some (Inr (), ([], False))"
    by code_simp
  have names: "CHR '':'' \<notin> set ''x''" "CHR '':'' \<notin> set ''y''" "''x'' \<noteq> ''y''" by simp_all
  from domains_isolated_except_Reset [OF inv shrink names, of demo_calls "''a''" "''k''" "([], False)"] got reset
  show ?thesis by auto
qed

theorem Keys_sorted_witness:
  "db_KeysBetween (database_of demo_bunt demo_json) ''b'' ''a'' ''c'' ([(''b:c'', ''{1}'', None), (''b:ab'', ''{0}'', None)], False)
     = Some (Inr [''ab''], ([(''b:c'', ''{1}'', None), (''b:ab'', ''{0}'', None)], False))"
proof -
  let ?w = "([(''b:c'', ''{1}'', None), (''b:ab'', ''{0}'', None)], False) :: demo_kv"
  have inv: "db_inv demo_bunt demo_json False ?w"
    using demo_bunt_ok by (simp add: db_inv_def json_restores_def) (auto simp: demo_bunt_def demo_json_def)
  have "{k. database_key ''b'' k \<in> dom (bn_store demo_bunt ?w)} = {''c'', ''ab''}"
    by (auto simp: demo_bunt_def database_key_def)
  then have "bucket_keys demo_bunt ?w ''b'' = [''ab'', ''c'']" by (simp add: bucket_keys_def)
  then show ?thesis using Keys_sorted [OF inv, of "''b''" "''a''" "''c''"] by (simp add: literal_def)
qed

theorem recovery_keeps_data_witness:
  "\<exists>os'. recoverDatabase demo_bunt ''w'' ''data'' (demo_os [(''w/data.db'', ''?''), (''w/data.db.recovered'', ''12345'')]) = Some (Inr ([], False), os')
     \<and> os_files os' ''w/data.db.corrupted'' = Some (RegFile ''?'')"
proof -
  let ?os = "demo_os [(''w/data.db'', ''?''), (''w/data.db.recovered'', ''12345'')]"
  have p: "db_path ''w'' ''data'' = ''w/data.db''" "db_corrupted ''w'' ''data'' = ''w/data.db.corrupted''"
    "db_recovered ''w'' ''data'' = ''w/data.db.recovered''"
    by (simp_all add: db_path_def db_corrupted_def db_recovered_def dbExtension_def filepath_Join_def)
  have "map_option fst (recoverDatabase demo_bunt ''w'' ''data'' ?os) = Some (Inr ([], False))" by code_simp
  then obtain os' where os': "recoverDatabase demo_bunt ''w'' ''data'' ?os = Some (Inr ([], False), os')" by auto
  have "opens_only demo_bunt" by (simp add: opens_only_def demo_bunt_def)
  from recovery_keeps_data [OF this _ os', of "''?''"] os' p show ?thesis by simp
qed

end
