(* ===== verification/Root.thy ===== *)
theory Root
  imports Application Tasks Configuration
begin

text \<open>
  The root application of \<^verbatim>\<open>src/root\<close>: its builder, the start, stop and factory reset of its parts, the callers that wait for its end, and
  the goroutine that watches for the loss of the authorization. The message broker, the services and the resetters are
  other code; the router and the task manager are called through their interfaces (their models are in \<open>Router\<close> and
  \<open>Tasks\<close>). Every call of a part is recorded, and may fail as an oracle says.
\<close>

section \<open>The application (\<^verbatim>\<open>app.go\<close>)\<close>

definition AuthStateLost :: app_state where
  "AuthStateLost = ''LOST''"

datatype part_call =
    MqttStart | MqttStop | MqttSubscribe string | MqttUnsubscribe string
  | PublishToTopic string fimp_message | TelemetryEmit string
  | RouterStart | RouterStop | TasksStart | TasksStop
  | ServiceStart nat | ServiceStop nat | ResetterReset nat

text \<open>Where the goroutine of the watcher stands, with its channel; and where a call of \<^verbatim>\<open>Wait\<close> stands.\<close>

datatype watcher_pc = WatchFresh nat | WatchLoop nat

datatype wait_pc = WaitStart | WaitUnlocked | WaitBlocked | WaitDone "go_error option"

text \<open>
  \<open>ra_waits\<close> are the calls of \<^verbatim>\<open>Wait\<close>; \<open>ra_recvq\<close> those of them that are blocked on the unbuffered error channel, in the order in
  which they are served. \<open>ra_pendingResets\<close> counts the goroutines that the factory reset has started. Services and resetters
  are known by their index. Every method but \<^verbatim>\<open>Wait\<close> holds the lock and is one action.
\<close>

record root_app =
  ra_running :: bool
  ra_lifecycle :: "lifecycle option"
  ra_resourceName :: string
  ra_topicSubscriptions :: "string list"
  ra_services :: nat
  ra_resetters :: nat
  ra_watcher :: "watcher_pc option"
  ra_waits :: "wait_pc list"
  ra_recvq :: "nat list"
  ra_pendingResets :: nat
  ra_calls :: "part_call list"
  ra_err :: "nat \<Rightarrow> go_error option"

type_synonym ('u, 'a) root_act = "('u root_app_scheme, 'a) act"

definition part :: "part_call \<Rightarrow> ('u, unit) root_act" where
  "part c a =
     (let a' = a\<lparr>ra_calls := ra_calls a @ [c]\<rparr> in
      Some (case ra_err a (length (ra_calls a)) of None \<Rightarrow> Inr () | Some e \<Rightarrow> Inl e, a'))"

text \<open>A call on the lifecycle, if there is one; \<open>None\<close> is a panic.\<close>

definition root_on_lifecycle :: "(lifecycle \<Rightarrow> lifecycle option) \<Rightarrow> ('u, unit) root_act" where
  "root_on_lifecycle f a =
     (case ra_lifecycle a of
        None \<Rightarrow> Some (Inr (), a)
      | Some l \<Rightarrow> map_option (\<lambda>l'. (Inr (), a\<lparr>ra_lifecycle := Some l'\<rparr>)) (f l))"

definition passErr :: "unit result \<Rightarrow> ('u, unit) root_act" where
  "passErr r a =
     (let a' = (case ra_recvq a of
          [] \<Rightarrow> a
        | i # q \<Rightarrow> a\<lparr>ra_recvq := q, ra_waits := (ra_waits a)[i := WaitDone (case r of Inl e \<Rightarrow> Some e | Inr _ \<Rightarrow> None)]\<rparr>)
      in Some (r, a'))"

definition sendAppStateReport :: "fimpgo \<Rightarrow> ('u, unit) root_act" where
  "sendAppStateReport fg a =
     (case ra_lifecycle a of
        None \<Rightarrow> None
      | Some l \<Rightarrow>
          act_wrap ''failed to publish app state report''
            (part (PublishToTopic (''pt:j1/mt:evt/rt:app/rn:'' @ ra_resourceName a @ ''/ad:1'')
               (fg_NewMessage fg EvtAppStateReport (ra_resourceName a) (fg_VTypeObject fg) (states_value (all_states l)) [] None))) a)"

text \<open>A failure to publish is logged only.\<close>

definition reportAuthLoss :: "fimpgo \<Rightarrow> string \<Rightarrow> ('u, unit) root_act" where
  "reportAuthLoss fg cause =
     act_bind (act_try (sendAppStateReport fg)) (\<lambda>_.
     act_bind (act_try (part (TelemetryEmit cause))) (\<lambda>_. act_return ()))"

definition watcher_subID :: string where
  "watcher_subID = ''auth_lost''"

definition startAuthLossWatcher :: "('u, unit) root_act" where
  "startAuthLossWatcher a =
     (case ra_lifecycle a of
        None \<Rightarrow> Some (Inr (), a)
      | Some l \<Rightarrow>
          if ra_resourceName a = '''' then Some (Inr (), a)
          else case lifecycle_Subscribe watcher_subID 5 l of
            (ch, l') \<Rightarrow> Some (Inr (), a\<lparr>ra_lifecycle := Some l', ra_watcher := Some (WatchFresh ch)\<rparr>))"

text \<open>The first step of the goroutine; then, in its loop, an event. A closed channel ends it.\<close>

definition watcher_begin :: "fimpgo \<Rightarrow> ('u, unit) root_act" where
  "watcher_begin fg a =
     (case (ra_watcher a, ra_lifecycle a) of
        (Some (WatchFresh ch), Some l) \<Rightarrow>
          act_bind (if lc_authState l = AuthStateLost then reportAuthLoss fg ''startup'' else act_return ()) (\<lambda>_.
          act_modify (\<lambda>a. a\<lparr>ra_watcher := Some (WatchLoop ch)\<rparr>)) a
      | _ \<Rightarrow> Some (Inr (), a))"

definition watcher_event :: "fimpgo \<Rightarrow> ('u, unit) root_act" where
  "watcher_event fg a =
     (case (ra_watcher a, ra_lifecycle a) of
        (Some (WatchLoop ch), Some l) \<Rightarrow>
          (case chan_recv ch (lc_heap l) of
             (Received e, h) \<Rightarrow>
               (if se_type e \<noteq> StateTypeAuthState \<or> se_state e \<noteq> AuthStateLost then act_return () else reportAuthLoss fg ''transition'')
                 (a\<lparr>ra_lifecycle := Some (l\<lparr>lc_heap := h\<rparr>)\<rparr>)
           | _ \<Rightarrow> Some (Inr (), a))
      | _ \<Rightarrow> Some (Inr (), a))"

text \<open>
  The stop channel is closed, and the goroutine is awaited: it unsubscribes when it ends, but first it takes its first step, if it
  has not taken it yet. The events that it may still process are steps of its own before the stop.
\<close>

definition stopAuthLossWatcher :: "fimpgo \<Rightarrow> ('u, unit) root_act" where
  "stopAuthLossWatcher fg a =
     (if ra_watcher a = None then Some (Inr (), a)
      else act_bind (watcher_begin fg) (\<lambda>_.
           act_bind (root_on_lifecycle (lifecycle_Unsubscribe watcher_subID)) (\<lambda>_.
           act_modify (\<lambda>a. a\<lparr>ra_watcher := None\<rparr>))) a)"

text \<open>\<open>order\<close> is the order in which \<^verbatim>\<open>Deduplicate\<close> ranges over its map.\<close>

definition for_topics :: "(string list \<Rightarrow> string list) \<Rightarrow> (string \<Rightarrow> ('u, unit) root_act) \<Rightarrow> ('u, unit) root_act" where
  "for_topics order f = act_bind (act_get (\<lambda>a. Deduplicate order (ra_topicSubscriptions a))) (\<lambda>topics. act_for topics f)"

definition doStart :: "(string list \<Rightarrow> string list) \<Rightarrow> ('u, unit) root_act" where
  "doStart order a =
     (if ra_running a then Some (Inr (), a)
      else
        act_bind (root_on_lifecycle (lifecycle_SetAppHealth AppHealthStarting None)) (\<lambda>_.
        act_bind (act_wrap ''start MQTT err'' (part MqttStart)) (\<lambda>_.
        act_bind (act_for [0..<ra_services a] (\<lambda>i. act_wrap ''start service err'' (part (ServiceStart i)))) (\<lambda>_.
        act_bind (act_wrap ''start message router err'' (part RouterStart)) (\<lambda>_.
        act_bind (for_topics order (\<lambda>topic. act_wrap (''subscribe topic='' @ topic @ '' err'') (part (MqttSubscribe topic)))) (\<lambda>_.
        act_bind (act_wrap ''start task manager err'' (part TasksStart)) (\<lambda>_.
        act_bind startAuthLossWatcher (\<lambda>_.
        act_modify (\<lambda>a. a\<lparr>ra_running := True\<rparr>)))))))) a)"

definition doStop :: "fimpgo \<Rightarrow> (string list \<Rightarrow> string list) \<Rightarrow> ('u, unit) root_act" where
  "doStop fg order a =
     (if \<not> ra_running a then Some (Inr (), a)
      else
        act_bind (stopAuthLossWatcher fg) (\<lambda>_.
        act_bind (root_on_lifecycle (lifecycle_SetAppHealth AppHealthTerminate None)) (\<lambda>_.
        act_bind (act_wrap ''stop task manager err'' (part TasksStop)) (\<lambda>_.
        act_bind (for_topics order (\<lambda>topic. act_wrap (''unsubscribe topic='' @ topic @ '' err'') (part (MqttUnsubscribe topic)))) (\<lambda>_.
        act_bind (act_wrap ''stop message router err'' (part RouterStop)) (\<lambda>_.
        act_bind (act_for (rev [0..<ra_services a]) (\<lambda>i. act_wrap ''stop service err'' (part (ServiceStop i)))) (\<lambda>_.
        act_bind (act_try (part MqttStop)) (\<lambda>_.
        act_modify (\<lambda>a. a\<lparr>ra_running := False\<rparr>)))))))) a)"

definition doReset :: "('u, unit) root_act" where
  "doReset a = act_for [0..<ra_resetters a] (\<lambda>i. act_wrap ''factory reset app data err'' (part (ResetterReset i))) a"

definition root_Start :: "(string list \<Rightarrow> string list) \<Rightarrow> ('u, unit) root_act" where
  "root_Start order = doStart order"

definition root_Stop :: "fimpgo \<Rightarrow> (string list \<Rightarrow> string list) \<Rightarrow> ('u, unit) root_act" where
  "root_Stop fg order = act_bind (act_try (doStop fg order)) passErr"

text \<open>An error of the stop is logged only.\<close>

definition root_Reset :: "fimpgo \<Rightarrow> (string list \<Rightarrow> string list) \<Rightarrow> ('u, unit) root_act" where
  "root_Reset fg order = act_bind (act_try (doStop fg order)) (\<lambda>_. act_bind (act_try doReset) passErr)"

text \<open>\<^verbatim>\<open>Wait\<close>: it looks at the flag under the lock, and receives after it has released the lock.\<close>

definition wait_check :: "nat \<Rightarrow> 'u root_app_scheme \<Rightarrow> 'u root_app_scheme" where
  "wait_check i a =
     (if i < length (ra_waits a) \<and> ra_waits a ! i = WaitStart
      then a\<lparr>ra_waits := (ra_waits a)[i := if ra_running a then WaitUnlocked else WaitDone None]\<rparr> else a)"

definition wait_receive :: "nat \<Rightarrow> 'u root_app_scheme \<Rightarrow> 'u root_app_scheme" where
  "wait_receive i a =
     (if i < length (ra_waits a) \<and> ra_waits a ! i = WaitUnlocked
      then a\<lparr>ra_waits := (ra_waits a)[i := WaitBlocked], ra_recvq := ra_recvq a @ [i]\<rparr> else a)"

section \<open>The factory reset (\<^verbatim>\<open>routing.go\<close>)\<close>

definition GatewayEvtTopic :: string where
  "GatewayEvtTopic = ''pt:j1/mt:evt/rt:ad/rn:gateway/ad:1''"

definition EvtGatewayFactoryReset :: string where
  "EvtGatewayFactoryReset = ''evt.gateway.factory_reset''"

text \<open>The handler starts a goroutine, which calls \<^verbatim>\<open>Reset\<close> later.\<close>

definition handleFactoryReset :: "fimpgo \<Rightarrow> 'u root_app_scheme handler_fn" where
  "handleFactoryReset fg =
     handler_Handle fg (NewMessageHandler
       (act_processor (\<lambda>_. act_bind (act_modify (\<lambda>a. a\<lparr>ra_pendingResets := Suc (ra_pendingResets a)\<rparr>)) (\<lambda>_. act_return None)))
       [WithSilentErrors])"

definition routeFactoryReset :: "fimpgo \<Rightarrow> 'u root_app_scheme routing" where
  "routeFactoryReset fg =
     NewRouting (Some (handleFactoryReset fg)) [ForTopic GatewayEvtTopic, ForType EvtGatewayFactoryReset]"

section \<open>The builder (\<^verbatim>\<open>builder.go\<close>)\<close>

record 'u root_builder =
  bd_edge :: bool
  bd_mqtt :: bool
  bd_resourceName :: string
  bd_resourceType :: string
  bd_packageName :: string
  bd_instanceID :: string
  bd_version :: string
  bd_lifecycle :: "lifecycle option"
  bd_topicSubscriptions :: "string list"
  bd_routing :: "'u root_app_scheme routing list"
  bd_routerOptions :: "router_option list"
  bd_tasks :: "'u root_app_scheme task list"
  bd_services :: nat
  bd_resetters :: nat

definition root_newBuilder :: "bool \<Rightarrow> 'u root_builder" where
  "root_newBuilder edge =
     \<lparr>bd_edge = edge, bd_mqtt = False, bd_resourceName = '''', bd_resourceType = '''', bd_packageName = '''', bd_instanceID = '''',
      bd_version = '''', bd_lifecycle = None, bd_topicSubscriptions = [], bd_routing = [], bd_routerOptions = [], bd_tasks = [],
      bd_services = 0, bd_resetters = 0\<rparr>"

definition NewEdgeAppBuilder :: "'u root_builder" where "NewEdgeAppBuilder = root_newBuilder True"
definition NewCoreAppBuilder :: "'u root_builder" where "NewCoreAppBuilder = root_newBuilder False"

definition WithMQTT :: "bool \<Rightarrow> 'u root_builder \<Rightarrow> 'u root_builder" where
  "WithMQTT mqtt b = b\<lparr>bd_mqtt := mqtt\<rparr>"

definition WithServiceDiscovery :: "string \<Rightarrow> string \<Rightarrow> string \<Rightarrow> string \<Rightarrow> string \<Rightarrow> 'u root_builder \<Rightarrow> 'u root_builder" where
  "WithServiceDiscovery resourceName resourceType packageName instanceID version b =
     b\<lparr>bd_resourceName := resourceName, bd_resourceType := resourceType, bd_packageName := packageName,
       bd_instanceID := instanceID, bd_version := version\<rparr>"

definition WithLifecycle :: "lifecycle option \<Rightarrow> 'u root_builder \<Rightarrow> 'u root_builder" where
  "WithLifecycle l b = b\<lparr>bd_lifecycle := l\<rparr>"

definition WithTopicSubscription :: "string list \<Rightarrow> 'u root_builder \<Rightarrow> 'u root_builder" where
  "WithTopicSubscription topics b = b\<lparr>bd_topicSubscriptions := bd_topicSubscriptions b @ topics\<rparr>"

definition WithRouterOptions :: "router_option list \<Rightarrow> 'u root_builder \<Rightarrow> 'u root_builder" where
  "WithRouterOptions options b = b\<lparr>bd_routerOptions := bd_routerOptions b @ options\<rparr>"

definition WithRouting :: "'u root_app_scheme routing list \<Rightarrow> 'u root_builder \<Rightarrow> 'u root_builder" where
  "WithRouting routing b = b\<lparr>bd_routing := bd_routing b @ routing\<rparr>"

definition WithTask :: "'u root_app_scheme task list \<Rightarrow> 'u root_builder \<Rightarrow> 'u root_builder" where
  "WithTask tasks b = b\<lparr>bd_tasks := bd_tasks b @ tasks\<rparr>"

definition WithServices :: "nat \<Rightarrow> 'u root_builder \<Rightarrow> 'u root_builder" where
  "WithServices n b = b\<lparr>bd_services := bd_services b + n\<rparr>"

definition WithResetter :: "nat \<Rightarrow> 'u root_builder \<Rightarrow> 'u root_builder" where
  "WithResetter n b = b\<lparr>bd_resetters := bd_resetters b + n\<rparr>"

definition builder_check :: "'u root_builder \<Rightarrow> unit result" where
  "builder_check b =
     (if \<not> bd_mqtt b then Inl (Errorf ''builder: it is required to provide MQTT broker instance'')
      else if bd_resourceName b = '''' then Inl (Errorf ''builder: it is required to provide service discovery resource name'')
      else if bd_resourceType b = '''' then Inl (Errorf ''builder: it is required to provide service discovery resource type'')
      else if bd_packageName b = '''' then Inl (Errorf ''builder: it is required to provide service discovery resource package'')
      else if bd_instanceID b = '''' then Inl (Errorf ''builder: it is required to provide service discovery resource instance'')
      else if bd_version b = '''' then Inl (Errorf ''builder: it is required to provide service discovery resource version'')
      else if bd_edge b \<and> bd_lifecycle b = None
      then Inl (Errorf ''builder: it is required for an edge app to provide a lifecycle service instance'')
      else if \<not> bd_edge b \<and> bd_lifecycle b \<noteq> None
      then Inl (Errorf ''builder: it is not allowed for a core app to provide a lifecycle service instance'')
      else Inr ())"

text \<open>The topics and the routing table, with the factory reset only if there is something to reset.\<close>

definition prepareRouting :: "fimpgo \<Rightarrow> 'u root_builder \<Rightarrow> string list \<times> 'u root_app_scheme routing list" where
  "prepareRouting fg b =
     (let r = \<lparr>dr_ResourceName = bd_resourceName b, dr_ResourceType = bd_resourceType b, dr_PackageName = bd_packageName b,
               dr_InstanceID = bd_instanceID b, dr_Version = bd_version b\<rparr>;
          lc = (case bd_lifecycle b of None \<Rightarrow> None | Some l \<Rightarrow> Some (\<lambda>a. case ra_lifecycle a of None \<Rightarrow> l | Some l' \<Rightarrow> l'))
      in (bd_topicSubscriptions b @ [discovery_Topic] @ (if 0 < bd_resetters b then [GatewayEvtTopic] else []),
          bd_routing b @ [discovery_Route fg r lc] @ (if 0 < bd_resetters b then [routeFactoryReset fg] else [])))"

definition doBuild ::
  "fimpgo \<Rightarrow> string \<Rightarrow> 'u \<Rightarrow> (nat \<Rightarrow> go_error option) \<Rightarrow> 'u root_builder
    \<Rightarrow> 'u root_app_scheme \<times> 'u root_app_scheme router \<times> 'u root_app_scheme task_manager" where
  "doBuild fg channelID user err b =
     (case prepareRouting fg b of (topics, routing) \<Rightarrow>
       (\<lparr>ra_running = False, ra_lifecycle = bd_lifecycle b, ra_resourceName = bd_resourceName b, ra_topicSubscriptions = topics,
         ra_services = bd_services b, ra_resetters = bd_resetters b, ra_watcher = None, ra_waits = [], ra_recvq = [],
         ra_pendingResets = 0, ra_calls = [], ra_err = err, \<dots> = user\<rparr>,
        router_WithOptions (bd_routerOptions b) (NewRouter channelID routing),
        task_NewManager (bd_tasks b)))"

definition builder_Build ::
  "fimpgo \<Rightarrow> string \<Rightarrow> 'u \<Rightarrow> (nat \<Rightarrow> go_error option) \<Rightarrow> 'u root_builder
    \<Rightarrow> ('u root_app_scheme \<times> 'u root_app_scheme router \<times> 'u root_app_scheme task_manager) result" where
  "builder_Build fg channelID user err b = bind_result (builder_check b) (\<lambda>_. Inr (doBuild fg channelID user err b))"

section \<open>Runs\<close>

text \<open>What may happen to an application: calls of its methods, the steps of its goroutines, and changes of its lifecycle.\<close>

datatype root_op =
    RStart | RStop | RReset | RWait | RCheck nat | RReceive nat | RWatchBegin | RWatchEvent | RPendingReset
  | RLifecycle lifecycle_op

definition root_step ::
  "fimpgo \<Rightarrow> (string list \<Rightarrow> string list) \<Rightarrow> root_op \<Rightarrow> 'u root_app_scheme \<Rightarrow> (unit result \<times> 'u root_app_scheme) option" where
  "root_step fg order op a =
     (case op of
        RStart \<Rightarrow> root_Start order a
      | RStop \<Rightarrow> root_Stop fg order a
      | RReset \<Rightarrow> root_Reset fg order a
      | RWait \<Rightarrow> Some (Inr (), a\<lparr>ra_waits := ra_waits a @ [WaitStart]\<rparr>)
      | RCheck i \<Rightarrow> Some (Inr (), wait_check i a)
      | RReceive i \<Rightarrow> Some (Inr (), wait_receive i a)
      | RWatchBegin \<Rightarrow> watcher_begin fg a
      | RWatchEvent \<Rightarrow> watcher_event fg a
      | RPendingReset \<Rightarrow>
          if ra_pendingResets a = 0 then Some (Inr (), a)
          else root_Reset fg order (a\<lparr>ra_pendingResets := ra_pendingResets a - 1\<rparr>)
      | RLifecycle e \<Rightarrow> root_on_lifecycle (lifecycle_step e) a)"

fun root_run ::
  "fimpgo \<Rightarrow> (string list \<Rightarrow> string list) \<Rightarrow> root_op list \<Rightarrow> 'u root_app_scheme \<Rightarrow> 'u root_app_scheme option" where
  "root_run fg order [] a = Some a"
| "root_run fg order (x # xs) a = (case root_step fg order x a of None \<Rightarrow> None | Some (_, a') \<Rightarrow> root_run fg order xs a')"

text \<open>
  The invariant: the bus of the lifecycle is in order; a watcher runs only in a running application, with a lifecycle in which it has its
  channel; and the callers that are served next are blocked.
\<close>

definition root_inv :: "'u root_app_scheme \<Rightarrow> bool" where
  "root_inv a \<longleftrightarrow>
     (\<forall>l. ra_lifecycle a = Some l \<longrightarrow> lifecycle_inv l)
   \<and> (ra_watcher a \<noteq> None \<longrightarrow> ra_running a \<and> ra_lifecycle a \<noteq> None)
   \<and> (\<forall>ch l. (ra_watcher a = Some (WatchFresh ch) \<or> ra_watcher a = Some (WatchLoop ch)) \<and> ra_lifecycle a = Some l
        \<longrightarrow> map_of (lc_systemEventBus l) watcher_subID = Some ch)
   \<and> (ra_watcher a = None \<longrightarrow> (\<forall>l. ra_lifecycle a = Some l \<longrightarrow> map_of (lc_systemEventBus l) watcher_subID = None))
   \<and> distinct (ra_recvq a) \<and> (\<forall>i. i \<in> set (ra_recvq a) \<longleftrightarrow> i < length (ra_waits a) \<and> ra_waits a ! i = WaitBlocked)"

text \<open>
  Preservation with the guarantee of a return: from \<open>P\<close> the action returns, to the invariant, and if it succeeds, to \<open>Q\<close>.
\<close>

definition root_ok :: "('u root_app_scheme \<Rightarrow> bool) \<Rightarrow> ('u, 'a) root_act \<Rightarrow> ('u root_app_scheme \<Rightarrow> bool) \<Rightarrow> bool" where
  "root_ok P m Q \<longleftrightarrow> (\<forall>a. P a \<longrightarrow> (\<exists>r a'. m a = Some (r, a') \<and> root_inv a' \<and> (isl r \<or> Q a')))"

named_theorems root_ok_rules \<open>what returns and keeps the invariant\<close>

lemma root_okE:
  assumes "root_ok P m Q" "P a"
  obtains e a' where "m a = Some (Inl e, a')" "root_inv a'"
  | x a' where "m a = Some (Inr x, a')" "root_inv a'" "Q a'"
proof -
  obtain r a' where "m a = Some (r, a')" "root_inv a'" "isl r \<or> Q a'" using assms unfolding root_ok_def by blast
  with that show ?thesis by (cases r) auto
qed

lemma root_ok_bind [root_ok_rules]:
  assumes "root_ok P m R" "\<And>x. root_ok R (f x) Q"
  shows "root_ok P (act_bind m f) Q"
  unfolding root_ok_def
proof (intro allI impI)
  fix a assume "P a"
  with assms(1) show "\<exists>r a'. act_bind m f a = Some (r, a') \<and> root_inv a' \<and> (isl r \<or> Q a')"
  proof (cases rule: root_okE)
    case (2 x a')
    then show ?thesis using assms(2) [of x] by (simp add: root_ok_def)
  qed simp
qed

lemma root_ok_wrap [root_ok_rules]: "root_ok P m Q \<Longrightarrow> root_ok P (act_wrap s m) Q"
  unfolding root_ok_def by (metis act_wrap_simps(2) isl_wrap_err)

lemma root_ok_try: "root_ok P m Q \<Longrightarrow> (\<And>a. root_inv a \<Longrightarrow> Q a) \<Longrightarrow> root_ok P (act_try m) Q"
  unfolding root_ok_def by (metis act_try_simps(2))

lemma root_ok_return [root_ok_rules]: "(\<And>a. P a \<Longrightarrow> root_inv a) \<Longrightarrow> root_ok P (act_return x) P"
  by (simp add: root_ok_def)

lemma root_ok_for [root_ok_rules]:
  "(\<And>a. P a \<Longrightarrow> root_inv a) \<Longrightarrow> (\<And>x. root_ok P (f x) P) \<Longrightarrow> root_ok P (act_for xs f) P"
  by (induction xs) (auto intro!: root_ok_bind simp: root_ok_return)

lemma root_ok_part: "(\<And>a cs. P a \<Longrightarrow> P (a\<lparr>ra_calls := cs\<rparr>)) \<Longrightarrow> (\<And>a. P a \<Longrightarrow> root_inv a) \<Longrightarrow> root_ok P (part c) P"
  by (auto simp: root_ok_def part_def Let_def)

lemma root_inv_calls [simp]: "root_inv (a\<lparr>ra_calls := cs\<rparr>) = root_inv a"
  by (simp add: root_inv_def)

lemma lifecycle_step_bus:
  assumes "lifecycle_inv l"
  obtains l' where "lifecycle_step op l = Some l'" "lifecycle_inv l'" "lc_systemEventBus l' = lc_systemEventBus l"
proof -
  show thesis
  proof (cases "lifecycle_view l (se_type (requested op)) = se_state (requested op)")
    case True
    with lifecycle_step_same assms that show thesis by blast
  next
    case False
    obtain l0 where l0: "lifecycle_step op l = lifecycle_emit (requested op) l0" "lifecycle_inv l0"
      "lc_systemEventBus l0 = lc_systemEventBus l"
      by (rule lifecycle_step_changes [OF assms False])
    show thesis by (rule lifecycle_emit_shape [OF l0(2), of "requested op"]) (use l0 in \<open>auto intro: that\<close>)
  qed
qed

text \<open>A change of the lifecycle keeps what the invariant says of the other parts.\<close>

lemma root_ok_lifecycle:
  assumes "\<And>a. P a \<Longrightarrow> root_inv a" "\<And>a l. P a \<Longrightarrow> root_inv (a\<lparr>ra_lifecycle := Some l\<rparr>) \<Longrightarrow> P (a\<lparr>ra_lifecycle := Some l\<rparr>)"
  shows "root_ok P (root_on_lifecycle (lifecycle_step op)) P"
  unfolding root_ok_def
proof (intro allI impI)
  fix a assume P: "P a"
  show "\<exists>r a'. root_on_lifecycle (lifecycle_step op) a = Some (r, a') \<and> root_inv a' \<and> (isl r \<or> P a')"
  proof (cases "ra_lifecycle a")
    case None
    then show ?thesis using P assms(1) [OF P] by (simp add: root_on_lifecycle_def)
  next
    case (Some l)
    then have "lifecycle_inv l" using assms(1) [OF P] by (simp add: root_inv_def)
    then obtain l' where l': "lifecycle_step op l = Some l'" "lifecycle_inv l'" "lc_systemEventBus l' = lc_systemEventBus l"
      by (rule lifecycle_step_bus)
    have "root_inv (a\<lparr>ra_lifecycle := Some l'\<rparr>)" using assms(1) [OF P] Some l' by (simp add: root_inv_def)
    then show ?thesis using assms(2) [OF P] Some l'(1) by (simp add: root_on_lifecycle_def)
  qed
qed

lemma SetAppHealth_step: "lifecycle_SetAppHealth s p = lifecycle_step (OpSetHealth s p)"
  by (rule ext) simp

text \<open>The three states of the application between which the parts are called.\<close>

definition root_idle :: "'u root_app_scheme \<Rightarrow> bool" where
  "root_idle a \<longleftrightarrow> root_inv a \<and> \<not> ra_running a"

definition root_unwatched :: "'u root_app_scheme \<Rightarrow> bool" where
  "root_unwatched a \<longleftrightarrow> root_inv a \<and> ra_watcher a = None"

lemma root_ok_parts:
  "root_ok root_inv (part c) root_inv" "root_ok root_idle (part c) root_idle" "root_ok root_unwatched (part c) root_unwatched"
  by (rule root_ok_part; simp add: root_idle_def root_unwatched_def)+

lemma root_ok_health:
  "root_ok root_idle (root_on_lifecycle (lifecycle_SetAppHealth s p)) root_idle"
  "root_ok root_unwatched (root_on_lifecycle (lifecycle_SetAppHealth s p)) root_unwatched"
  unfolding SetAppHealth_step by (rule root_ok_lifecycle; simp add: root_idle_def root_unwatched_def)+

lemma root_ok_topics:
  "(\<And>a. P a \<Longrightarrow> root_inv a) \<Longrightarrow> (\<And>t. root_ok P (f t) P) \<Longrightarrow> root_ok P (for_topics order f) P"
  unfolding for_topics_def by (rule root_ok_bind [of _ _ P]) (auto simp: root_ok_def [of _ "act_get _"] intro: root_ok_for)

lemma root_idleD: "root_idle a \<Longrightarrow> root_inv a" "root_unwatched a \<Longrightarrow> root_inv a"
  by (simp_all add: root_idle_def root_unwatched_def)

lemma lifecycle_Subscribe_map: "lifecycle_Subscribe x n l = (ch, l') \<Longrightarrow> map_of (lc_systemEventBus l') x = Some ch"
  by (auto simp: lifecycle_Subscribe_def chan_make_def update_conv' split: option.splits)

lemma lifecycle_Unsubscribe_map:
  assumes "lifecycle_inv l"
  obtains l' where "lifecycle_Unsubscribe x l = Some l'" "lifecycle_inv l'" "map_of (lc_systemEventBus l') x = None"
  using lifecycle_Unsubscribe_ok [OF assms, of x] by (auto simp: lifecycle_Unsubscribe_def delete_conv' split: option.splits)

text \<open>The start of the watcher, after which the application is running.\<close>

lemma root_ok_watch:
  "root_ok root_idle (act_bind startAuthLossWatcher (\<lambda>_. act_modify (\<lambda>a. a\<lparr>ra_running := True\<rparr>))) root_inv"
  unfolding root_ok_def
proof (intro allI impI)
  fix a :: "'a root_app_scheme" assume a: "root_idle a"
  then have w: "ra_watcher a = None" by (auto simp: root_idle_def root_inv_def)
  show "\<exists>r a'. act_bind startAuthLossWatcher (\<lambda>_. act_modify (\<lambda>a. a\<lparr>ra_running := True\<rparr>)) a = Some (r, a') \<and> root_inv a' \<and> (isl r \<or> root_inv a')"
  proof (cases "\<exists>l. ra_lifecycle a = Some l \<and> ra_resourceName a \<noteq> ''''")
    case False
    then have "startAuthLossWatcher a = Some (Inr (), a)" by (auto simp: startAuthLossWatcher_def split: option.split)
    then show ?thesis using a w by (simp add: root_idle_def root_inv_def)
  next
    case True
    then obtain l where l: "ra_lifecycle a = Some l" "ra_resourceName a \<noteq> ''''" by blast
    obtain ch l' where s: "lifecycle_Subscribe watcher_subID 5 l = (ch, l')" by (metis surj_pair)
    have "lifecycle_inv l'" using lifecycle_Subscribe_inv [of l watcher_subID 5] a l s by (auto simp: root_idle_def root_inv_def)
    then show ?thesis using lifecycle_Subscribe_map [OF s] a l s by (simp add: startAuthLossWatcher_def root_idle_def root_inv_def)
  qed
qed

lemma root_ok_start:
  "root_ok root_idle
        (act_bind (root_on_lifecycle (lifecycle_SetAppHealth AppHealthStarting None)) (\<lambda>_.
        act_bind (act_wrap ''start MQTT err'' (part MqttStart)) (\<lambda>_.
        act_bind (act_for [0..<n] (\<lambda>i. act_wrap ''start service err'' (part (ServiceStart i)))) (\<lambda>_.
        act_bind (act_wrap ''start message router err'' (part RouterStart)) (\<lambda>_.
        act_bind (for_topics order (\<lambda>topic. act_wrap (''subscribe topic='' @ topic @ '' err'') (part (MqttSubscribe topic)))) (\<lambda>_.
        act_bind (act_wrap ''start task manager err'' (part TasksStart)) (\<lambda>_.
        act_bind startAuthLossWatcher (\<lambda>_.
        act_modify (\<lambda>a. a\<lparr>ra_running := True\<rparr>))))))))) root_inv"
    by (rule root_ok_bind [of _ _ root_idle], simp add: root_ok_health,
        (rule root_ok_bind [of _ _ root_idle], intro root_ok_wrap root_ok_for root_ok_topics root_ok_parts root_idleD, assumption?)+,
        rule root_ok_watch)

lemma root_ok_doStart: "root_ok root_inv (doStart order) root_inv"
  unfolding root_ok_def
proof (intro allI impI)
  fix a :: "'u root_app_scheme" assume a: "root_inv a"
  show "\<exists>r a'. doStart order a = Some (r, a') \<and> root_inv a' \<and> (isl r \<or> root_inv a')"
  proof (cases "ra_running a")
    case False
    with a have "root_idle a" by (simp add: root_idle_def)
    with root_ok_start [of "ra_services a" order] False show ?thesis
      unfolding root_ok_def doStart_def if_not_P [OF False] by blast
  qed (use a in \<open>simp add: doStart_def\<close>)
qed

text \<open>The report of the watcher: two calls of parts, whose errors are logged.\<close>

lemma report_run:
  assumes "ra_lifecycle a = Some l"
  shows "reportAuthLoss fg cause a = Some (Inr (), a\<lparr>ra_calls := ra_calls a
    @ [PublishToTopic (''pt:j1/mt:evt/rt:app/rn:'' @ ra_resourceName a @ ''/ad:1'')
         (fg_NewMessage fg EvtAppStateReport (ra_resourceName a) (fg_VTypeObject fg) (states_value (all_states l)) [] None),
       TelemetryEmit cause]\<rparr>)"
  using assms by (simp add: reportAuthLoss_def sendAppStateReport_def part_def Let_def)

lemma watcher_begin_run:
  assumes "root_inv a"
  obtains a' where "watcher_begin fg a = Some (Inr (), a')" "root_inv a'" "ra_running a' = ra_running a" "ra_lifecycle a' = ra_lifecycle a"
proof (cases "\<exists>ch l. ra_watcher a = Some (WatchFresh ch) \<and> ra_lifecycle a = Some l")
  case True
  then obtain ch l where w: "ra_watcher a = Some (WatchFresh ch)" "ra_lifecycle a = Some l" by blast
  have "root_inv (a\<lparr>ra_calls := cs, ra_watcher := Some (WatchLoop ch)\<rparr>)" for cs using assms w by (simp add: root_inv_def)
  from this [of "ra_calls a"] this w show ?thesis using report_run [OF w(2)]
    by (intro that [of "if lc_authState l = AuthStateLost then (snd (the (reportAuthLoss fg ''startup'' a)))\<lparr>ra_watcher := Some (WatchLoop ch)\<rparr>
        else a\<lparr>ra_watcher := Some (WatchLoop ch)\<rparr>"]) (simp_all add: watcher_begin_def)
next
  case False
  then have "watcher_begin fg a = Some (Inr (), a)"
    by (auto simp: watcher_begin_def split: option.splits watcher_pc.splits)
  with assms that show ?thesis by blast
qed

lemma recv_bus_ok: "bus_ok (\<lambda>c. c) subs h \<Longrightarrow> chan_recv ch h = (r, h') \<Longrightarrow> bus_ok (\<lambda>c. c) subs h'"
  by (fastforce simp: bus_ok_def chan_recv_def Let_def split: list.splits if_splits)

lemma watcher_event_run:
  assumes "root_inv a"
  shows "\<exists>r a'. watcher_event fg a = Some (r, a') \<and> root_inv a'"
proof (cases "\<exists>ch l e h. ra_watcher a = Some (WatchLoop ch) \<and> ra_lifecycle a = Some l \<and> chan_recv ch (lc_heap l) = (Received e, h)")
  case True
  then obtain ch l e h where w: "ra_watcher a = Some (WatchLoop ch)" "ra_lifecycle a = Some l" "chan_recv ch (lc_heap l) = (Received e, h)"
    by blast
  let ?a = "a\<lparr>ra_lifecycle := Some (l\<lparr>lc_heap := h\<rparr>)\<rparr>"
  have "root_inv ?a" using assms w recv_bus_ok [OF _ w(3)] by (simp add: root_inv_def lifecycle_inv_def)
  then show ?thesis using w report_run [of ?a "l\<lparr>lc_heap := h\<rparr>"] by (simp add: watcher_event_def)
next
  case False
  then have "watcher_event fg a = Some (Inr (), a)"
    by (auto simp: watcher_event_def split: option.splits watcher_pc.splits prod.splits received.splits)
  with assms show ?thesis by simp
qed

lemma root_ok_unwatch: "root_ok root_inv (stopAuthLossWatcher fg) root_unwatched"
  unfolding root_ok_def
proof (intro allI impI)
  fix a :: "'u root_app_scheme" assume a: "root_inv a"
  show "\<exists>r a'. stopAuthLossWatcher fg a = Some (r, a') \<and> root_inv a' \<and> (isl r \<or> root_unwatched a')"
  proof (cases "ra_watcher a")
    case None
    then show ?thesis using a by (simp add: stopAuthLossWatcher_def root_unwatched_def)
  next
    case (Some w)
    with a obtain l where l: "ra_lifecycle a = Some l" by (auto simp: root_inv_def)
    obtain a1 where a1: "watcher_begin fg a = Some (Inr (), a1)" "root_inv a1" "ra_lifecycle a1 = Some l"
      using watcher_begin_run [OF a, of fg] l by metis
    then have "lifecycle_inv l" by (simp add: root_inv_def)
    then obtain l' where l': "lifecycle_Unsubscribe watcher_subID l = Some l'" "lifecycle_inv l'"
      "map_of (lc_systemEventBus l') watcher_subID = None" by (rule lifecycle_Unsubscribe_map)
    have "root_inv (a1\<lparr>ra_lifecycle := Some l', ra_watcher := None\<rparr>)" using a1(2) l'(2,3) by (simp add: root_inv_def)
    then show ?thesis using Some a1 l'(1) by (simp add: stopAuthLossWatcher_def root_on_lifecycle_def root_unwatched_def)
  qed
qed

lemma root_ok_halt: "root_ok root_unwatched (act_modify (\<lambda>a. a\<lparr>ra_running := False\<rparr>)) root_inv"
  by (simp add: root_ok_def root_unwatched_def root_inv_def)

lemma root_ok_stop:
  "root_ok root_inv
        (act_bind (stopAuthLossWatcher fg) (\<lambda>_.
        act_bind (root_on_lifecycle (lifecycle_SetAppHealth AppHealthTerminate None)) (\<lambda>_.
        act_bind (act_wrap ''stop task manager err'' (part TasksStop)) (\<lambda>_.
        act_bind (for_topics order (\<lambda>topic. act_wrap (''unsubscribe topic='' @ topic @ '' err'') (part (MqttUnsubscribe topic)))) (\<lambda>_.
        act_bind (act_wrap ''stop message router err'' (part RouterStop)) (\<lambda>_.
        act_bind (act_for (rev [0..<n]) (\<lambda>i. act_wrap ''stop service err'' (part (ServiceStop i)))) (\<lambda>_.
        act_bind (act_try (part MqttStop)) (\<lambda>_.
        act_modify (\<lambda>a. a\<lparr>ra_running := False\<rparr>))))))))) root_inv"
  by (rule root_ok_bind [OF root_ok_unwatch], rule root_ok_bind [OF root_ok_health(2)],
      (rule root_ok_bind [of _ _ root_unwatched], intro root_ok_wrap root_ok_for root_ok_topics root_ok_parts root_idleD, assumption?)+,
      rule root_ok_bind [of _ _ root_unwatched], simp add: root_ok_def part_def Let_def root_unwatched_def, rule root_ok_halt)

lemma root_ok_doStop: "root_ok root_inv (doStop fg order) root_inv"
  unfolding root_ok_def
proof (intro allI impI)
  fix a :: "'u root_app_scheme" assume a: "root_inv a"
  show "\<exists>r a'. doStop fg order a = Some (r, a') \<and> root_inv a' \<and> (isl r \<or> root_inv a')"
  proof (cases "ra_running a")
    case True
    with root_ok_stop [of fg order "ra_services a"] a show ?thesis
      unfolding root_ok_def doStop_def by (simp only: not_True_eq_False if_False True) blast
  qed (use a in \<open>simp add: doStop_def\<close>)
qed

lemma root_ok_passErr: "root_ok root_inv (passErr r) root_inv"
  unfolding root_ok_def
proof (intro allI impI)
  fix a :: "'u root_app_scheme" assume a: "root_inv a"
  show "\<exists>r' a'. passErr r a = Some (r', a') \<and> root_inv a' \<and> (isl r' \<or> root_inv a')"
  proof (cases "ra_recvq a")
    case (Cons i q)
    have d: "distinct (i # q)" "\<And>j. j \<in> set (i # q) \<longleftrightarrow> j < length (ra_waits a) \<and> ra_waits a ! j = WaitBlocked"
      using a Cons by (auto simp: root_inv_def)
    have "j \<in> set q \<longleftrightarrow> j < length (ra_waits a) \<and> (ra_waits a)[i := WaitDone e] ! j = WaitBlocked" for j e
      using d(1) d(2) [of i] d(2) [of j] by (cases "j = i") auto
    then show ?thesis using a Cons d(1) by (simp add: passErr_def root_inv_def)
  qed (use a in \<open>simp add: passErr_def\<close>)
qed

lemma root_ok_resets:
  "root_ok root_inv (act_for [0..<n] (\<lambda>i. act_wrap ''factory reset app data err'' (part (ResetterReset i)))) root_inv"
  by (intro root_ok_for root_ok_wrap root_ok_parts)

lemma root_ok_doReset: "root_ok root_inv doReset root_inv"
  using root_ok_resets unfolding root_ok_def doReset_def by blast

lemma root_ok_methods:
  "root_ok root_inv (root_Start order) root_inv" "root_ok root_inv (root_Stop fg order) root_inv"
  "root_ok root_inv (root_Reset fg order) root_inv"
  unfolding root_Start_def root_Stop_def root_Reset_def
  by (intro root_ok_doStart root_ok_bind [of _ _ root_inv] root_ok_try root_ok_doStop root_ok_doReset root_ok_passErr; assumption)+

lemma wait_steps_inv:
  assumes "root_inv a"
  shows "root_inv (wait_check i a)" "root_inv (wait_receive i a)" "root_inv (a\<lparr>ra_waits := ra_waits a @ [WaitStart]\<rparr>)"
    "root_inv (a\<lparr>ra_pendingResets := n\<rparr>)"
proof -
  have q: "distinct (ra_recvq a)" "\<And>j. j \<in> set (ra_recvq a) \<longleftrightarrow> j < length (ra_waits a) \<and> ra_waits a ! j = WaitBlocked"
    using assms by (auto simp: root_inv_def)
  show "root_inv (wait_check i a)"
    using assms q by (auto simp: wait_check_def root_inv_def nth_list_update)
  show "root_inv (wait_receive i a)"
    using assms q by (auto simp: wait_receive_def root_inv_def nth_list_update)
  show "root_inv (a\<lparr>ra_waits := ra_waits a @ [WaitStart]\<rparr>)"
    using assms q by (auto simp: root_inv_def nth_append less_Suc_eq)
  show "root_inv (a\<lparr>ra_pendingResets := n\<rparr>)" using assms by (simp add: root_inv_def)
qed

lemma root_okD: "root_ok root_inv m Q \<Longrightarrow> root_inv a \<Longrightarrow> \<exists>r a'. m a = Some (r, a') \<and> root_inv a'"
  by (auto simp: root_ok_def)

lemmas root_methods_return = root_okD [OF root_ok_methods(1)] root_okD [OF root_ok_methods(2)] root_okD [OF root_ok_methods(3)]

lemma root_step_inv:
  assumes "root_inv a"
  shows "\<exists>r a'. root_step fg order op a = Some (r, a') \<and> root_inv a'"
proof (cases op)
  case RWatchBegin
  obtain a' where "watcher_begin fg a = Some (Inr (), a')" "root_inv a'" by (rule watcher_begin_run [OF assms, of fg]) blast
  with RWatchBegin show ?thesis by (simp add: root_step_def)
next
  case (RLifecycle e)
  have "root_ok root_inv (root_on_lifecycle (lifecycle_step e)) root_inv" by (rule root_ok_lifecycle) simp_all
  from root_okD [OF this assms] RLifecycle show ?thesis by (simp add: root_step_def)
next
  case RPendingReset
  then show ?thesis using assms root_methods_return(3) [OF wait_steps_inv(4) [OF assms]] by (simp add: root_step_def)
qed (use assms root_methods_return wait_steps_inv watcher_event_run in \<open>simp_all add: root_step_def\<close>)

lemma root_run_inv: "root_inv a \<Longrightarrow> \<exists>a'. root_run fg order ops a = Some a' \<and> root_inv a'"
proof (induction ops arbitrary: a)
  case (Cons op ops)
  obtain r a1 where "root_step fg order op a = Some (r, a1)" "root_inv a1" using root_step_inv [OF Cons.prems] by blast
  with Cons.IH show ?case by simp
qed simp

text \<open>
  C34. No sequence of calls of the application, of steps of its goroutines and of changes of its lifecycle panics or waits forever, whatever parts
  fail; and the subscription of the watcher to the lifecycle exists exactly as long as the watcher, which in turn runs only while
  the application is marked as running.
\<close>
theorem root_never_panics:
  assumes "builder_Build fg channelID user err b = Inr (a, r, t)"
    "\<forall>l. bd_lifecycle b = Some l \<longrightarrow> lifecycle_inv l \<and> map_of (lc_systemEventBus l) watcher_subID = None"
  shows "\<exists>a'. root_run fg order ops a = Some a' \<and> (ra_watcher a' \<noteq> None \<longrightarrow> ra_running a')
    \<and> (\<forall>l. ra_lifecycle a' = Some l \<longrightarrow> (map_of (lc_systemEventBus l) watcher_subID \<noteq> None \<longleftrightarrow> ra_watcher a' \<noteq> None))"
proof -
  have "root_inv a"
    using assms by (auto simp: builder_Build_def doBuild_def prepareRouting_def root_inv_def bind_result_Inr_iff Let_def)
  then obtain a' where a': "root_run fg order ops a = Some a'" "root_inv a'" using root_run_inv by blast
  then show ?thesis by (cases "ra_watcher a'") (auto simp: root_inv_def split: watcher_pc.splits, metis watcher_pc.exhaust)+
qed

section \<open>The order of the calls\<close>

text \<open>The calls of the parts other than the reports of the watcher.\<close>

definition is_part :: "part_call \<Rightarrow> bool" where
  "is_part c = (case c of PublishToTopic _ _ \<Rightarrow> False | TelemetryEmit _ \<Rightarrow> False | _ \<Rightarrow> True)"

definition part_log :: "'u root_app_scheme \<Rightarrow> part_call list" where
  "part_log a = filter is_part (ra_calls a)"

text \<open>
  The action makes the calls \<open>cs\<close> in this order, or, if it fails, a first part of them; \<open>ts\<close> and \<open>n\<close> are the topics and the number of the services.
\<close>

definition makes :: "string list \<Rightarrow> nat \<Rightarrow> ('u, 'a) root_act \<Rightarrow> part_call list \<Rightarrow> bool" where
  "makes ts n m cs \<longleftrightarrow>
     (\<forall>a r a'. ra_topicSubscriptions a = ts \<and> ra_services a = n \<and> m a = Some (r, a') \<longrightarrow>
        ra_topicSubscriptions a' = ts \<and> ra_services a' = n \<and> ra_resetters a' = ra_resetters a \<and> ra_running a' = ra_running a
      \<and> (\<exists>ds. part_log a' = part_log a @ ds \<and> prefix ds cs \<and> (isl r \<or> ds = cs)))"

lemma makesI:
  assumes "\<And>a r a'. ra_topicSubscriptions a = ts \<Longrightarrow> ra_services a = n \<Longrightarrow> m a = Some (r, a') \<Longrightarrow>
    ra_topicSubscriptions a' = ts \<and> ra_services a' = n \<and> ra_resetters a' = ra_resetters a \<and> ra_running a' = ra_running a
      \<and> (\<exists>ds. part_log a' = part_log a @ ds \<and> prefix ds cs \<and> (isl r \<or> ds = cs))"
  shows "makes ts n m cs"
  using assms unfolding makes_def by blast

lemma makesD:
  assumes "makes ts n m cs" "ra_topicSubscriptions a = ts" "ra_services a = n" "m a = Some (r, a')"
  obtains ds where "ra_topicSubscriptions a' = ts" "ra_services a' = n" "ra_resetters a' = ra_resetters a" "ra_running a' = ra_running a"
    "part_log a' = part_log a @ ds" "prefix ds cs" "isl r \<or> ds = cs"
  using assms unfolding makes_def by blast

lemma makes_bind:
  assumes "makes ts n m cs" "\<And>x. makes ts n (f x) ds"
  shows "makes ts n (act_bind m f) (cs @ ds)"
proof (rule makesI)
  fix a r a' assume a: "ra_topicSubscriptions a = ts" "ra_services a = n" "act_bind m f a = Some (r, a')"
  then obtain r1 a1 where r1: "m a = Some (r1, a1)" by (cases "m a") (auto simp: act_bind_def)
  obtain es where m: "ra_topicSubscriptions a1 = ts" "ra_services a1 = n" "ra_resetters a1 = ra_resetters a" "ra_running a1 = ra_running a"
    "part_log a1 = part_log a @ es" "prefix es cs" "isl r1 \<or> es = cs" by (rule makesD [OF assms(1) a(1,2) r1])
  show "ra_topicSubscriptions a' = ts \<and> ra_services a' = n \<and> ra_resetters a' = ra_resetters a \<and> ra_running a' = ra_running a
      \<and> (\<exists>es. part_log a' = part_log a @ es \<and> prefix es (cs @ ds) \<and> (isl r \<or> es = cs @ ds))"
  proof (cases r1)
    case (Inl e)
    with a r1 m show ?thesis by auto
  next
    case (Inr x)
    with a(3) r1 have "f x a1 = Some (r, a')" by simp
    then obtain fs where "ra_topicSubscriptions a' = ts" "ra_services a' = n" "ra_resetters a' = ra_resetters a1" "ra_running a' = ra_running a1"
      "part_log a' = part_log a1 @ fs" "prefix fs ds" "isl r \<or> fs = ds" by (rule makesD [OF assms(2) m(1,2)])
    with m Inr show ?thesis by auto
  qed
qed

lemma makes_wrap:
  assumes "makes ts n m cs"
  shows "makes ts n (act_wrap s m) cs"
proof (rule makesI)
  fix a r a' assume a: "ra_topicSubscriptions a = ts" "ra_services a = n" "act_wrap s m a = Some (r, a')"
  then obtain r0 where r0: "m a = Some (r0, a')" "r = wrap_err s r0" by (auto simp: act_wrap_def)
  show "ra_topicSubscriptions a' = ts \<and> ra_services a' = n \<and> ra_resetters a' = ra_resetters a \<and> ra_running a' = ra_running a
      \<and> (\<exists>ds. part_log a' = part_log a @ ds \<and> prefix ds cs \<and> (isl r \<or> ds = cs))"
    by (rule makesD [OF assms a(1,2) r0(1)]) (use r0(2) in auto)
qed

lemma makes_part: "is_part c \<Longrightarrow> makes ts n (part c) [c]"
  by (rule makesI) (auto simp: part_def part_log_def Let_def split: option.splits)

lemma makes_for: "(\<And>x. makes ts n (f x) [g x]) \<Longrightarrow> makes ts n (act_for xs f) (map g xs)"
proof (induction xs)
  case Nil
  show ?case by (rule makesI) auto
next
  case (Cons x xs)
  have "makes ts n (act_bind (f x) (\<lambda>_. act_for xs f)) ([g x] @ map g xs)" by (rule makes_bind) (use Cons in auto)
  then show ?case by simp
qed

lemma makes_topics:
  assumes "\<And>t. makes ts n (f t) [g t]"
  shows "makes ts n (for_topics order f) (map g (Deduplicate order ts))"
proof -
  have "makes ts n (act_for (Deduplicate order ts) f) (map g (Deduplicate order ts))" by (rule makes_for) (rule assms)
  then show ?thesis
    by (intro makesI) (elim makesD; force simp: for_topics_def)
qed

lemma makes_health: "makes ts n (root_on_lifecycle f) []"
  by (rule makesI) (auto simp: root_on_lifecycle_def part_log_def split: option.splits)

definition start_calls :: "(string list \<Rightarrow> string list) \<Rightarrow> string list \<Rightarrow> nat \<Rightarrow> part_call list" where
  "start_calls order ts n =
     [MqttStart] @ map ServiceStart [0..<n] @ [RouterStart] @ map MqttSubscribe (Deduplicate order ts) @ [TasksStart]"

definition stop_calls :: "(string list \<Rightarrow> string list) \<Rightarrow> string list \<Rightarrow> nat \<Rightarrow> part_call list" where
  "stop_calls order ts n =
     [TasksStop] @ map MqttUnsubscribe (Deduplicate order ts) @ [RouterStop] @ map ServiceStop (rev [0..<n]) @ [MqttStop]"

lemma startWatcher_run:
  "\<exists>l w. startAuthLossWatcher a = Some (Inr (), a\<lparr>ra_lifecycle := l, ra_watcher := w\<rparr>)"
proof (cases "ra_lifecycle a")
  case None
  then show ?thesis by (intro exI [of _ None] exI [of _ "ra_watcher a"]) (simp add: startAuthLossWatcher_def)
next
  case (Some l)
  then show ?thesis
    by (cases "ra_resourceName a = ''''")
      (force simp: startAuthLossWatcher_def split: prod.split intro: exI [of _ "Some l"] exI [of _ "ra_watcher a"])+
qed

text \<open>Calls of parts, and then a last action that cannot fail and only sets the flag and the watcher.\<close>

lemma makes_then:
  assumes m: "makes ts n m cs" and a: "ra_topicSubscriptions a = ts" "ra_services a = n" "act_bind m (\<lambda>_. f) a = Some (r, a')"
    and f: "\<And>b. \<exists>l w. f b = Some (Inr (), b\<lparr>ra_lifecycle := l, ra_watcher := w, ra_running := v\<rparr>)"
  shows "ra_topicSubscriptions a' = ts \<and> ra_services a' = n \<and> ra_resetters a' = ra_resetters a
    \<and> ra_running a' = (if isl r then ra_running a else v)
    \<and> (\<exists>ds. part_log a' = part_log a @ ds \<and> prefix ds cs \<and> (isl r \<or> ds = cs))"
proof -
  obtain r1 a1 where r1: "m a = Some (r1, a1)" using a(3) by (cases "m a") (auto simp: act_bind_def)
  show ?thesis
  proof (rule makesD [OF m a(1,2) r1])
    fix ds
    assume d: "ra_topicSubscriptions a1 = ts" "ra_services a1 = n" "ra_resetters a1 = ra_resetters a" "ra_running a1 = ra_running a"
      "part_log a1 = part_log a @ ds" "prefix ds cs" "isl r1 \<or> ds = cs"
    show ?thesis
    proof (cases r1)
      case (Inl e)
      then show ?thesis using a(3) r1 d by auto
    next
      case (Inr u)
      obtain l w where "f a1 = Some (Inr (), a1\<lparr>ra_lifecycle := l, ra_watcher := w, ra_running := v\<rparr>)" using f by blast
      with a(3) r1 Inr have "r = Inr ()" "a' = a1\<lparr>ra_lifecycle := l, ra_watcher := w, ra_running := v\<rparr>" by auto
      with d Inr show ?thesis by (auto simp: part_log_def)
    qed
  qed
qed

lemma start_end:
  "\<exists>l w. act_bind startAuthLossWatcher (\<lambda>_. act_modify (\<lambda>a. a\<lparr>ra_running := True\<rparr>)) b
     = Some (Inr (), b\<lparr>ra_lifecycle := l, ra_watcher := w, ra_running := True\<rparr>)"
proof -
  obtain l w where "startAuthLossWatcher b = Some (Inr (), b\<lparr>ra_lifecycle := l, ra_watcher := w\<rparr>)" using startWatcher_run by blast
  then show ?thesis by auto
qed

definition start_parts :: "(string list \<Rightarrow> string list) \<Rightarrow> nat \<Rightarrow> ('u, unit) root_act" where
  "start_parts order n =
     act_bind (root_on_lifecycle (lifecycle_SetAppHealth AppHealthStarting None)) (\<lambda>_.
     act_bind (act_wrap ''start MQTT err'' (part MqttStart)) (\<lambda>_.
     act_bind (act_for [0..<n] (\<lambda>i. act_wrap ''start service err'' (part (ServiceStart i)))) (\<lambda>_.
     act_bind (act_wrap ''start message router err'' (part RouterStart)) (\<lambda>_.
     act_bind (for_topics order (\<lambda>topic. act_wrap (''subscribe topic='' @ topic @ '' err'') (part (MqttSubscribe topic)))) (\<lambda>_.
     act_wrap ''start task manager err'' (part TasksStart))))))"

lemma doStart_parts:
  "\<not> ra_running a \<Longrightarrow> doStart order a = act_bind (start_parts order (ra_services a)) (\<lambda>_.
     act_bind startAuthLossWatcher (\<lambda>_. act_modify (\<lambda>a. a\<lparr>ra_running := True\<rparr>))) a"
  unfolding doStart_def start_parts_def act_bind_assoc by simp

lemma start_parts_make: "makes ts n (start_parts order n) (start_calls order ts n)"
proof -
  have "makes ts n (start_parts order n)
      ([] @ [MqttStart] @ map ServiceStart [0..<n] @ [RouterStart] @ map MqttSubscribe (Deduplicate order ts) @ [TasksStart])"
    unfolding start_parts_def
    by (intro makes_bind makes_health makes_wrap makes_part makes_for makes_topics) (simp_all add: is_part_def)
  then show ?thesis by (simp add: start_calls_def)
qed

lemma start_makes:
  assumes "\<not> ra_running a" "root_Start order a = Some (r, a')"
  shows "ra_topicSubscriptions a' = ra_topicSubscriptions a \<and> ra_services a' = ra_services a \<and> ra_resetters a' = ra_resetters a
    \<and> ra_running a' = (\<not> isl r)
    \<and> (\<exists>ds. part_log a' = part_log a @ ds \<and> prefix ds (start_calls order (ra_topicSubscriptions a) (ra_services a))
        \<and> (isl r \<or> ds = start_calls order (ra_topicSubscriptions a) (ra_services a)))"
  using makes_then [OF start_parts_make refl refl _ start_end, of order a r a'] assms by (simp add: root_Start_def doStart_parts)

lemma watcher_begin_makes: "makes ts n (watcher_begin fg) []"
  by (rule makesI) (auto simp: watcher_begin_def report_run part_log_def is_part_def split: option.splits watcher_pc.splits if_splits)

lemma stopWatcher_makes: "makes ts n (stopAuthLossWatcher fg) []"
proof -
  have "makes ts n (act_modify (\<lambda>a. a\<lparr>ra_watcher := None\<rparr>)) []" by (rule makesI) (auto simp: part_log_def)
  with watcher_begin_makes makes_health
  have m: "makes ts n (act_bind (watcher_begin fg) (\<lambda>_. act_bind (root_on_lifecycle (lifecycle_Unsubscribe watcher_subID)) (\<lambda>_.
           act_modify (\<lambda>a. a\<lparr>ra_watcher := None\<rparr>)))) ([] @ [] @ [])"
    by (intro makes_bind)
  show ?thesis
  proof (rule makesI)
    fix a :: "'a root_app_scheme" and r a'
    assume a: "ra_topicSubscriptions a = ts" "ra_services a = n" "stopAuthLossWatcher fg a = Some (r, a')"
    show "ra_topicSubscriptions a' = ts \<and> ra_services a' = n \<and> ra_resetters a' = ra_resetters a \<and> ra_running a' = ra_running a
      \<and> (\<exists>ds. part_log a' = part_log a @ ds \<and> prefix ds [] \<and> (isl r \<or> ds = []))"
    proof (cases "ra_watcher a = None")
      case True
      then show ?thesis using a by (simp add: stopAuthLossWatcher_def)
    next
      case False
      with a(3) show ?thesis unfolding stopAuthLossWatcher_def if_not_P [OF False]
        by (elim makesD [OF m a(1,2)]) auto
    qed
  qed
qed

lemma makes_try_part: "is_part c \<Longrightarrow> makes ts n (act_try (part c)) [c]"
  by (rule makesI) (auto simp: act_try_def part_def part_log_def Let_def split: option.splits)

definition stop_parts :: "fimpgo \<Rightarrow> (string list \<Rightarrow> string list) \<Rightarrow> nat \<Rightarrow> ('u, unit result) root_act" where
  "stop_parts fg order n =
     act_bind (stopAuthLossWatcher fg) (\<lambda>_.
     act_bind (root_on_lifecycle (lifecycle_SetAppHealth AppHealthTerminate None)) (\<lambda>_.
     act_bind (act_wrap ''stop task manager err'' (part TasksStop)) (\<lambda>_.
     act_bind (for_topics order (\<lambda>topic. act_wrap (''unsubscribe topic='' @ topic @ '' err'') (part (MqttUnsubscribe topic)))) (\<lambda>_.
     act_bind (act_wrap ''stop message router err'' (part RouterStop)) (\<lambda>_.
     act_bind (act_for (rev [0..<n]) (\<lambda>i. act_wrap ''stop service err'' (part (ServiceStop i)))) (\<lambda>_.
     act_try (part MqttStop)))))))"

lemma doStop_parts:
  "ra_running a \<Longrightarrow> doStop fg order a = act_bind (stop_parts fg order (ra_services a)) (\<lambda>_. act_modify (\<lambda>a. a\<lparr>ra_running := False\<rparr>)) a"
  unfolding doStop_def stop_parts_def act_bind_assoc by simp

lemma stop_parts_make: "makes ts n (stop_parts fg order n) (stop_calls order ts n)"
proof -
  have "makes ts n (stop_parts fg order n)
      ([] @ [] @ [TasksStop] @ map MqttUnsubscribe (Deduplicate order ts) @ [RouterStop] @ map ServiceStop (rev [0..<n]) @ [MqttStop])"
    unfolding stop_parts_def
    by (intro makes_bind makes_health stopWatcher_makes makes_wrap makes_part makes_for makes_topics makes_try_part) (simp_all add: is_part_def)
  then show ?thesis by (simp add: stop_calls_def)
qed

lemma stop_end: "\<exists>l w. act_modify (\<lambda>a. a\<lparr>ra_running := False\<rparr>) b = Some (Inr (), b\<lparr>ra_lifecycle := l, ra_watcher := w, ra_running := False\<rparr>)"
  by (rule exI [of _ "ra_lifecycle b"], rule exI [of _ "ra_watcher b"]) simp

lemma doStop_makes:
  assumes "ra_running a" "doStop fg order a = Some (r, a')"
  shows "ra_topicSubscriptions a' = ra_topicSubscriptions a \<and> ra_services a' = ra_services a \<and> ra_resetters a' = ra_resetters a
    \<and> ra_running a' = isl r
    \<and> (\<exists>ds. part_log a' = part_log a @ ds \<and> prefix ds (stop_calls order (ra_topicSubscriptions a) (ra_services a))
        \<and> (isl r \<or> ds = stop_calls order (ra_topicSubscriptions a) (ra_services a)))"
  using makes_then [where f = "act_modify (\<lambda>a. a\<lparr>ra_running := False\<rparr>)", OF stop_parts_make refl refl _ stop_end, of fg order a r a'] assms by (simp add: doStop_parts)

lemma passErr_run: "\<exists>w q. passErr r a = Some (r, a\<lparr>ra_recvq := q, ra_waits := w\<rparr>)"
proof (cases "ra_recvq a")
  case Nil
  then show ?thesis by (intro exI [of _ "ra_waits a"] exI [of _ "ra_recvq a"]) (simp add: passErr_def)
next
  case (Cons i q)
  then show ?thesis by (intro exI [of _ q] exI) (simp add: passErr_def)
qed

lemma Stop_idle: "\<not> ra_running a \<Longrightarrow> \<exists>w q. root_Stop fg order a = Some (Inr (), a\<lparr>ra_recvq := q, ra_waits := w\<rparr>)"
  using passErr_run [of "Inr ()" a] by (auto simp: root_Stop_def doStop_def)

lemma Stop_makes:
  assumes "ra_running a" "root_Stop fg order a = Some (r, a')"
  shows "ra_running a' = isl r \<and> (\<exists>ds. part_log a' = part_log a @ ds
      \<and> prefix ds (stop_calls order (ra_topicSubscriptions a) (ra_services a))
      \<and> (isl r \<or> ds = stop_calls order (ra_topicSubscriptions a) (ra_services a)))"
proof -
  obtain r1 a1 where s: "doStop fg order a = Some (r1, a1)"
    using assms(2) by (cases "doStop fg order a") (auto simp: root_Stop_def)
  obtain w q where "passErr r1 a1 = Some (r1, a1\<lparr>ra_recvq := q, ra_waits := w\<rparr>)" using passErr_run by blast
  with assms(2) s have "r = r1" "a' = a1\<lparr>ra_recvq := q, ra_waits := w\<rparr>" by (simp_all add: root_Stop_def)
  with doStop_makes [OF assms(1) s] show ?thesis by (auto simp: part_log_def)
qed

text \<open>The steps between a start and a stop: everything but the calls that start, stop or reset.\<close>

definition quiet_op :: "root_op \<Rightarrow> bool" where
  "quiet_op op = (case op of RStart \<Rightarrow> False | RStop \<Rightarrow> False | RReset \<Rightarrow> False | RPendingReset \<Rightarrow> False | _ \<Rightarrow> True)"

definition frame_ok :: "'u root_app_scheme \<Rightarrow> 'u root_app_scheme \<Rightarrow> bool" where
  "frame_ok a a' \<longleftrightarrow> ra_topicSubscriptions a' = ra_topicSubscriptions a \<and> ra_services a' = ra_services a
     \<and> ra_running a' = ra_running a \<and> part_log a' = part_log a"

lemma makes_frame: "makes (ra_topicSubscriptions a) (ra_services a) m [] \<Longrightarrow> m a = Some (r, a') \<Longrightarrow> frame_ok a a'"
  by (elim makesD) (auto simp: frame_ok_def)

lemma watcher_event_makes: "makes ts n (watcher_event fg) []"
  by (rule makesI)
    (auto simp: watcher_event_def report_run part_log_def is_part_def split: option.splits watcher_pc.splits if_splits prod.splits received.splits)

lemma quiet_frame:
  assumes "quiet_op op" "root_step fg order op a = Some (r, a')"
  shows "frame_ok a a'"
proof (cases op)
  case RWatchBegin
  with assms makes_frame [OF watcher_begin_makes] show ?thesis by (simp add: root_step_def)
next
  case RWatchEvent
  with assms makes_frame [OF watcher_event_makes] show ?thesis by (simp add: root_step_def)
next
  case (RLifecycle e)
  with assms makes_frame [OF makes_health] show ?thesis by (simp add: root_step_def)
qed (use assms in \<open>auto simp: root_step_def quiet_op_def frame_ok_def part_log_def wait_check_def wait_receive_def split: if_splits\<close>)

lemma quiet_run_frame: "list_all quiet_op ops \<Longrightarrow> root_run fg order ops a = Some a' \<Longrightarrow> frame_ok a a'"
proof (induction ops arbitrary: a)
  case Nil
  then show ?case by (simp add: frame_ok_def)
next
  case (Cons op ops)
  then obtain r a1 where s: "root_step fg order op a = Some (r, a1)" "root_run fg order ops a1 = Some a'"
    by (auto split: option.splits)
  with Cons have "frame_ok a a1" "frame_ok a1 a'" using quiet_frame [of op fg order a r a1] by auto
  then show ?case by (simp add: frame_ok_def)
qed

text \<open>
  C16. \<^verbatim>\<open>Stop\<close> undoes \<^verbatim>\<open>Start\<close>: between a start and a stop that succeed, whatever the goroutines and the lifecycle do, the parts are started and
  stopped exactly once each: the broker, the services, the router, one subscription for each topic and the task manager are started in this
  order, and the task manager, the topics, the router, the services from the last to the first and the broker are stopped in this
  order. The topics are unsubscribed from in the order of their subscription if \<^verbatim>\<open>Deduplicate\<close> happens to range over them in the same
  order both times, and in any order otherwise.
\<close>
theorem Stop_undoes_Start:
  assumes "\<not> ra_running a" "root_Start order a = Some (Inr (), a1)" "list_all quiet_op ops" "root_run fg order1 ops a1 = Some a2"
    "root_Stop fg order2 a2 = Some (Inr (), a3)" "\<And>xs. distinct xs \<Longrightarrow> distinct (order xs) \<and> set (order xs) = set xs"
    "\<And>xs. distinct xs \<Longrightarrow> distinct (order2 xs) \<and> set (order2 xs) = set xs"
  shows "\<not> ra_running a3 \<and> (\<exists>topics topics2. distinct topics \<and> set topics = set (ra_topicSubscriptions a)
    \<and> distinct topics2 \<and> set topics2 = set topics \<and> (order2 = order \<longrightarrow> topics2 = topics)
    \<and> part_log a3 = part_log a
        @ [MqttStart] @ map ServiceStart [0..<ra_services a] @ [RouterStart] @ map MqttSubscribe topics @ [TasksStart]
        @ [TasksStop] @ map MqttUnsubscribe topics2 @ [RouterStop] @ map ServiceStop (rev [0..<ra_services a]) @ [MqttStop])"
proof -
  let ?T = "\<lambda>order. Deduplicate order (ra_topicSubscriptions a)"
  have T: "distinct (?T order)" "set (?T order) = set (ra_topicSubscriptions a)"
    "distinct (?T order2)" "set (?T order2) = set (?T order)"
    using assms(6,7) [of "remdups (ra_topicSubscriptions a)"] by (simp_all add: Deduplicate_def)
  from start_makes [OF assms(1,2)] quiet_run_frame [OF assms(3,4)]
  have s: "ra_running a2" "ra_services a2 = ra_services a" "ra_topicSubscriptions a2 = ra_topicSubscriptions a"
    "part_log a2 = part_log a @ start_calls order (ra_topicSubscriptions a) (ra_services a)"
    by (auto simp: frame_ok_def)
  from Stop_makes [OF s(1) assms(5)] have "\<not> ra_running a3"
    "part_log a3 = part_log a @ start_calls order (ra_topicSubscriptions a) (ra_services a)
        @ stop_calls order2 (ra_topicSubscriptions a) (ra_services a)"
    using s by auto
  with T show ?thesis
    by (intro conjI [OF _ exI [of _ "?T order", OF exI [of _ "?T order2"]]])
      (simp_all add: start_calls_def stop_calls_def)
qed

text \<open>
  C35. A start that fails leaves behind what it has started: the parts before the one that failed have been started, but the application is not marked
  as running, so that a \<^verbatim>\<open>Stop\<close> makes no call at all and reports success.
\<close>
theorem failed_start_is_not_stopped:
  assumes "\<not> ra_running a" "root_Start order a = Some (Inl e, a1)"
  shows "\<exists>started a2. part_log a1 = part_log a @ started
    \<and> prefix started (start_calls order (ra_topicSubscriptions a) (ra_services a))
    \<and> root_Stop fg order a1 = Some (Inr (), a2) \<and> ra_calls a2 = ra_calls a1 \<and> \<not> ra_running a2"
proof -
  from start_makes [OF assms] obtain ds where d: "\<not> ra_running a1" "part_log a1 = part_log a @ ds"
    "prefix ds (start_calls order (ra_topicSubscriptions a) (ra_services a))" by auto
  obtain w q where "root_Stop fg order a1 = Some (Inr (), a1\<lparr>ra_recvq := q, ra_waits := w\<rparr>)" using Stop_idle [OF d(1)] by blast
  with d show ?thesis by auto
qed

section \<open>Waiting\<close>

text \<open>What does not start, stop or reset leaves the calls of \<^verbatim>\<open>Wait\<close> alone; so do the calls of the parts.\<close>

definition waits_are :: "wait_pc list \<Rightarrow> nat list \<Rightarrow> 'u root_app_scheme \<Rightarrow> bool" where
  "waits_are w q a \<longleftrightarrow> ra_waits a = w \<and> ra_recvq a = q"

lemma waits_part: "act_keeps (waits_are w q) (part c)"
  by (auto simp: act_keeps_def part_def waits_are_def Let_def)

lemma waits_lifecycle: "act_keeps (waits_are w q) (root_on_lifecycle f)"
  by (auto simp: act_keeps_def root_on_lifecycle_def waits_are_def split: option.splits)

lemma waits_watch: "act_keeps (waits_are w q) startAuthLossWatcher"
proof (rule act_keepsI)
  fix a r a' assume "waits_are w q a" "startAuthLossWatcher a = Some (r, a')"
  with startWatcher_run [of a] show "waits_are w q a'" by (auto simp: waits_are_def)
qed

lemma waits_watcher_begin: "act_keeps (waits_are w q) (watcher_begin fg)"
  by (auto simp: act_keeps_def watcher_begin_def report_run waits_are_def split: option.splits watcher_pc.splits if_splits)

lemma waits_watcher_event: "act_keeps (waits_are w q) (watcher_event fg)"
  by (auto simp: act_keeps_def watcher_event_def report_run waits_are_def
      split: option.splits watcher_pc.splits if_splits prod.splits received.splits)

lemma waits_stop_watcher: "act_keeps (waits_are w q) (stopAuthLossWatcher fg)"
proof -
  have "act_keeps (waits_are w q) (act_bind (watcher_begin fg) (\<lambda>_. act_bind (root_on_lifecycle (lifecycle_Unsubscribe watcher_subID)) (\<lambda>_.
           act_modify (\<lambda>a. a\<lparr>ra_watcher := None\<rparr>))))"
    by (intro act_keeps_rules waits_watcher_begin waits_lifecycle act_keeps_modify) (simp add: waits_are_def)
  then show ?thesis unfolding act_keeps_def stopAuthLossWatcher_def by auto
qed

lemma waits_topics: "(\<And>t. act_keeps (waits_are w q) (f t)) \<Longrightarrow> act_keeps (waits_are w q) (for_topics order f)"
  unfolding for_topics_def by (intro act_keeps_rules)

lemma waits_doStart: "act_keeps (waits_are w q) (doStart order)"
proof (rule act_keepsI)
  fix a r a' assume a: "waits_are w q a" "doStart order a = Some (r, a')"
  have k: "act_keeps (waits_are w q) (act_bind (start_parts order (ra_services a)) (\<lambda>_.
     act_bind startAuthLossWatcher (\<lambda>_. act_modify (\<lambda>a. a\<lparr>ra_running := True\<rparr>))))"
    unfolding start_parts_def
    by (intro act_keeps_rules waits_part waits_lifecycle waits_topics waits_watch act_keeps_modify) (simp add: waits_are_def)
  show "waits_are w q a'"
  proof (cases "ra_running a")
    case False
    with a k show ?thesis by (auto simp: doStart_parts dest: act_keepsD)
  qed (use a in \<open>simp add: doStart_def\<close>)
qed

lemma waits_doStop: "act_keeps (waits_are w q) (doStop fg order)"
proof (rule act_keepsI)
  fix a r a' assume a: "waits_are w q a" "doStop fg order a = Some (r, a')"
  have k: "act_keeps (waits_are w q) (act_bind (stop_parts fg order (ra_services a)) (\<lambda>_. act_modify (\<lambda>a. a\<lparr>ra_running := False\<rparr>)))"
    unfolding stop_parts_def
    by (intro act_keeps_rules waits_part waits_lifecycle waits_topics waits_stop_watcher act_keeps_modify) (simp add: waits_are_def)
  show "waits_are w q a'"
  proof (cases "ra_running a")
    case True
    with a k show ?thesis by (auto simp: doStop_parts dest: act_keepsD)
  qed (use a in \<open>simp add: doStop_def\<close>)
qed

text \<open>The first blocked caller is woken by a stop, with its result.\<close>

lemma Stop_wakes_first:
  assumes "root_Stop fg order a = Some (r, a')" "ra_recvq a = i # q" "i < length (ra_waits a)"
  shows "ra_waits a' ! i = WaitDone (case r of Inl e \<Rightarrow> Some e | Inr _ \<Rightarrow> None) \<and> ra_recvq a' = q"
proof -
  obtain r1 a1 where s: "doStop fg order a = Some (r1, a1)" using assms(1) by (cases "doStop fg order a") (auto simp: root_Stop_def)
  have "waits_are (ra_waits a) (i # q) a1"
    using act_keepsD [OF waits_doStop _ s, of "ra_waits a" "i # q"] assms(2) by (simp add: waits_are_def)
  with assms s show ?thesis by (auto simp: root_Stop_def passErr_def waits_are_def Let_def)
qed

text \<open>Without a failing part, nothing fails.\<close>

definition never_fails :: "('u, 'a) root_act \<Rightarrow> bool" where
  "never_fails m \<longleftrightarrow> (\<forall>a r a'. ra_err a = (\<lambda>_. None) \<and> m a = Some (r, a') \<longrightarrow> \<not> isl r \<and> ra_err a' = (\<lambda>_. None))"

lemma never_fails_bind: "never_fails m \<Longrightarrow> (\<And>x. never_fails (f x)) \<Longrightarrow> never_fails (act_bind m f)"
proof -
  assume m: "never_fails m" and f: "\<And>x. never_fails (f x)"
  have "\<not> isl r \<and> ra_err a' = (\<lambda>_. None)" if a: "ra_err a = (\<lambda>_. None)" "act_bind m f a = Some (r, a')" for a r a'
  proof -
    obtain r1 a1 where r1: "m a = Some (r1, a1)" using a(2) by (cases "m a") (auto simp: act_bind_def)
    with m a(1) have "\<not> isl r1" "ra_err a1 = (\<lambda>_. None)" unfolding never_fails_def by blast+
    moreover from this(1) obtain x where "r1 = Inr x" by (cases r1) auto
    ultimately show ?thesis using f [of x] a(2) r1 unfolding never_fails_def by auto
  qed
  then show ?thesis unfolding never_fails_def by blast
qed

lemma never_fails_basic:
  "never_fails (part c)" "never_fails (root_on_lifecycle f)" "never_fails (watcher_begin fg)" "never_fails (act_return x)"
  by (auto simp: never_fails_def part_def root_on_lifecycle_def watcher_begin_def report_run Let_def
      split: option.splits watcher_pc.splits if_splits)

lemma never_fails_wrap: "never_fails m \<Longrightarrow> never_fails (act_wrap s m)"
  unfolding never_fails_def act_wrap_def by (auto simp: isl_wrap_err)

lemma never_fails_for: "(\<And>x. never_fails (f x)) \<Longrightarrow> never_fails (act_for xs f)"
  by (induction xs) (simp_all add: never_fails_basic never_fails_bind)

lemma never_fails_stop_watcher: "never_fails (stopAuthLossWatcher fg)"
proof -
  have m: "never_fails (act_modify (\<lambda>a. a\<lparr>ra_watcher := None\<rparr>))" by (auto simp: never_fails_def)
  have "never_fails (act_bind (watcher_begin fg) (\<lambda>_. act_bind (root_on_lifecycle (lifecycle_Unsubscribe watcher_subID)) (\<lambda>_.
           act_modify (\<lambda>a. a\<lparr>ra_watcher := None\<rparr>))))"
    by (intro never_fails_bind never_fails_basic m)
  then show ?thesis unfolding never_fails_def stopAuthLossWatcher_def by auto
qed

lemma never_fails_topics: "(\<And>t. never_fails (f t)) \<Longrightarrow> never_fails (for_topics order f)"
  unfolding for_topics_def by (rule never_fails_bind) (auto simp: never_fails_def [of "act_get _"] intro: never_fails_for)

lemma never_fails_stop_parts: "never_fails (stop_parts fg order n)"
proof -
  have "never_fails (act_try (part MqttStop))"
    unfolding never_fails_def by (auto simp: act_try_def part_def Let_def)
  then show ?thesis unfolding stop_parts_def
    by (intro never_fails_bind never_fails_basic never_fails_wrap never_fails_for never_fails_topics never_fails_stop_watcher)
qed

lemma never_fails_doStop: "never_fails (doStop fg order)"
proof -
  have m: "never_fails (act_modify (\<lambda>a. a\<lparr>ra_running := False\<rparr>))" by (auto simp: never_fails_def)
  have "\<not> isl r \<and> ra_err a' = (\<lambda>_. None)" if a: "ra_err a = (\<lambda>_. None)" "doStop fg order a = Some (r, a')" for a r a'
  proof (cases "ra_running a")
    case True
    have "never_fails (act_bind (stop_parts fg order (ra_services a)) (\<lambda>_. act_modify (\<lambda>a. a\<lparr>ra_running := False\<rparr>)))"
      by (intro never_fails_bind never_fails_stop_parts m)
    with a True show ?thesis unfolding never_fails_def by (auto simp: doStop_parts)
  qed (use a in \<open>auto simp: doStop_def\<close>)
  then show ?thesis unfolding never_fails_def by blast
qed

lemma quiet_waiting:
  assumes "quiet_op op" "root_step fg order op a = Some (r, a')" "ra_waits a ! i = WaitBlocked" "i < length (ra_waits a)"
  shows "ra_waits a' ! i = WaitBlocked \<and> i < length (ra_waits a')"
proof -
  have k: "ra_waits a' = ra_waits a" if "m a = Some (r, a')" "\<And>w q. act_keeps (waits_are w q) m" for m :: "('a, unit) root_act"
    using act_keepsD [OF that(2) _ that(1), of "ra_waits a" "ra_recvq a"] by (simp add: waits_are_def)
  show ?thesis
  proof (cases op)
    case RWatchBegin
    with assms k [OF _ waits_watcher_begin] show ?thesis by (simp add: root_step_def)
  next
    case RWatchEvent
    with assms k [OF _ waits_watcher_event] show ?thesis by (simp add: root_step_def)
  next
    case (RLifecycle e)
    with assms k [OF _ waits_lifecycle] show ?thesis by (simp add: root_step_def)
  qed (use assms in \<open>auto simp: root_step_def quiet_op_def wait_check_def wait_receive_def nth_append nth_list_update split: if_splits\<close>)
qed

lemma quiet_run_waiting:
  "list_all quiet_op ops \<Longrightarrow> root_run fg order ops a = Some a' \<Longrightarrow> ra_waits a ! i = WaitBlocked \<Longrightarrow> i < length (ra_waits a) \<Longrightarrow>
   ra_waits a' ! i = WaitBlocked"
proof (induction ops arbitrary: a)
  case (Cons op ops)
  then obtain r a1 where s: "root_step fg order op a = Some (r, a1)" "root_run fg order ops a1 = Some a'"
    by (auto split: option.splits)
  with Cons quiet_waiting [of op fg order a r a1 i] show ?case by auto
qed simp

text \<open>
  C36. \<^verbatim>\<open>Wait\<close> can miss the end of the application: it looks at the flag under the lock but waits for the result after it has released the lock, and
  \<^verbatim>\<open>Stop\<close> hands its result only to a caller that is waiting already. If the application is stopped between the two, the caller waits for an
  application that has ended, and waits as long as there is no other stop or reset.
\<close>
theorem Wait_can_miss_Stop:
  assumes "root_inv a" "ra_running a" "ra_waits a = []" "ra_err a = (\<lambda>_. None)"
  shows "\<exists>a'. root_run fg order [RWait, RCheck 0, RStop, RReceive 0] a = Some a' \<and> \<not> ra_running a' \<and> ra_waits a' = [WaitBlocked]
    \<and> (\<forall>ops a''. list_all quiet_op ops \<and> root_run fg order ops a' = Some a'' \<longrightarrow> ra_waits a'' ! 0 = WaitBlocked)"
proof -
  let ?b = "a\<lparr>ra_waits := [WaitUnlocked]\<rparr>"
  have q: "ra_recvq a = []" using assms(1,3) by (cases "ra_recvq a") (auto simp: root_inv_def)
  have inv: "root_inv ?b" using assms(1,3) q by (auto simp: root_inv_def)
  have b: "ra_running ?b" "ra_err ?b = (\<lambda>_. None)" "waits_are [WaitUnlocked] [] ?b" using assms q by (simp_all add: waits_are_def)
  obtain r c where c: "doStop fg order ?b = Some (r, c)" using root_okD [OF root_ok_doStop inv] by blast
  then have "\<not> isl r" using never_fails_doStop b(2) unfolding never_fails_def by blast
  moreover have "waits_are [WaitUnlocked] [] c" by (rule act_keepsD [OF waits_doStop b(3) c])
  ultimately have d: "root_Stop fg order ?b = Some (r, c)" "\<not> ra_running c" "ra_waits c = [WaitUnlocked]" "ra_recvq c = []"
    using c doStop_makes [OF b(1) c] by (auto simp: root_Stop_def passErr_def waits_are_def)
  let ?d = "c\<lparr>ra_waits := [WaitBlocked], ra_recvq := [0]\<rparr>"
  have "root_run fg order [RWait, RCheck 0, RStop, RReceive 0] a = Some ?d"
    using assms(2,3) d by (simp add: root_step_def wait_check_def wait_receive_def)
  then show ?thesis using d(2) quiet_run_waiting [of _ fg order ?d _ 0] by auto
qed

section \<open>Instances\<close>

text \<open>An edge application with two services and one resetter.\<close>

definition demo_builder :: "unit root_builder" where
  "demo_builder =
     WithResetter 1 (WithServices 2 (WithTopicSubscription [''t'', ''t''] (WithLifecycle (Some (lifecycle_New 0 None no_chans))
       (WithServiceDiscovery ''app'' ''ad'' ''pkg'' ''1'' ''0.1'' (WithMQTT True NewEdgeAppBuilder)))))"

definition demo_root :: "(nat \<Rightarrow> go_error option) \<Rightarrow> root_app" where
  "demo_root err = fst (doBuild demo_fimpgo ''default'' () err demo_builder)"

lemma demo_builder_simps [simp]:
  "builder_check demo_builder = Inr ()" "bd_lifecycle demo_builder = Some (lifecycle_New 0 None no_chans)"
  by (simp_all add: demo_builder_def NewEdgeAppBuilder_def root_newBuilder_def WithMQTT_def WithServiceDiscovery_def WithLifecycle_def
      WithTopicSubscription_def WithServices_def WithResetter_def builder_check_def)

lemma demo_root_simps [simp]:
  "\<not> ra_running (demo_root err)" "ra_err (demo_root err) = err" "ra_waits (demo_root err) = []" "ra_recvq (demo_root err) = []"
  "ra_calls (demo_root err) = []" "ra_watcher (demo_root err) = None"
  by (simp_all add: demo_root_def doBuild_def prepareRouting_def Let_def)

theorem root_never_panics_witness:
  "\<exists>a r t a'. builder_Build demo_fimpgo ''default'' () (\<lambda>n. if n = 4 then Some (Errorf ''broken'') else None) demo_builder = Inr (a, r, t)
     \<and> root_run demo_fimpgo (\<lambda>x. x) [RStart, RStop, RStart, RReset] a = Some a' \<and> (ra_watcher a' = None \<or> ra_running a')"
proof -
  obtain a r t where b: "builder_Build demo_fimpgo ''default'' () (\<lambda>n. if n = 4 then Some (Errorf ''broken'') else None) demo_builder = Inr (a, r, t)"
    by (metis builder_Build_def bind_result_simps(2) demo_builder_simps(1) surj_pair)
  have "lifecycle_inv (lifecycle_New 0 None no_chans)"
    "map_of (lc_systemEventBus (lifecycle_New 0 None no_chans)) watcher_subID = None"
    by (simp_all add: lifecycle_inv_new) (simp add: lifecycle_New_def)
  with root_never_panics [OF b, where order = "\<lambda>x. x" and ops = "[RStart, RStop, RStart, RReset]"] b show ?thesis by auto
qed

definition demo_between :: "root_op list" where
  "demo_between = [RWatchBegin, RLifecycle (OpSetAuth AuthStateLost), RWatchEvent]"

theorem Stop_undoes_Start_witness:
  "\<exists>a1 a2 a3. root_Start (\<lambda>x. x) (demo_root (\<lambda>_. None)) = Some (Inr (), a1)
     \<and> root_run demo_fimpgo (\<lambda>x. x) demo_between a1 = Some a2 \<and> root_Stop demo_fimpgo (\<lambda>x. x) a2 = Some (Inr (), a3) \<and> \<not> ra_running a3"
proof -
  let ?go = "Option.bind (root_Start (\<lambda>x. x) (demo_root (\<lambda>_. None))) (\<lambda>(r, a1).
     Option.bind (root_run demo_fimpgo (\<lambda>x. x) demo_between a1) (\<lambda>a2.
     map_option (\<lambda>(r', a3). (r, r')) (root_Stop demo_fimpgo (\<lambda>x. x) a2)))"
  have "?go = Some (Inr (), Inr ())" by code_simp
  then obtain a1 a2 a3 where r: "root_Start (\<lambda>x. x) (demo_root (\<lambda>_. None)) = Some (Inr (), a1)"
    "root_run demo_fimpgo (\<lambda>x. x) demo_between a1 = Some a2" "root_Stop demo_fimpgo (\<lambda>x. x) a2 = Some (Inr (), a3)"
    by (auto split: bind_splits)
  have "list_all quiet_op demo_between" by code_simp
  from Stop_undoes_Start [OF _ r(1) this r(2,3)] r show ?thesis by auto
qed

theorem failed_start_is_not_stopped_witness:
  "\<exists>a1 a2. root_Start (\<lambda>x. x) (demo_root (\<lambda>n. if n = 2 then Some (Errorf ''broken'') else None))
       = Some (Inl (Wrapf ''start service err'' (Errorf ''broken'')), a1)
     \<and> root_Stop demo_fimpgo (\<lambda>x. x) a1 = Some (Inr (), a2) \<and> ra_calls a2 = [MqttStart, ServiceStart 0, ServiceStart 1]"
proof -
  let ?a = "demo_root (\<lambda>n. if n = 2 then Some (Errorf ''broken'') else None)"
  have "map_option (\<lambda>(r, a). (r, list_all2 (=) (ra_calls a) [MqttStart, ServiceStart 0, ServiceStart 1])) (root_Start (\<lambda>x. x) ?a)
    = Some (Inl (Wrapf ''start service err'' (Errorf ''broken'')), True)" by code_simp
  then obtain a1 where a1: "root_Start (\<lambda>x. x) ?a = Some (Inl (Wrapf ''start service err'' (Errorf ''broken'')), a1)"
    "ra_calls a1 = [MqttStart, ServiceStart 0, ServiceStart 1]" by (auto simp: list.rel_eq)
  from failed_start_is_not_stopped [OF _ a1(1), of demo_fimpgo] a1 show ?thesis by auto
qed

theorem Wait_can_miss_Stop_witness:
  "\<exists>a'. root_run demo_fimpgo (\<lambda>x. x) [RWait, RCheck 0, RStop, RReceive 0] ((demo_root (\<lambda>_. None))\<lparr>ra_lifecycle := None, ra_running := True\<rparr>)
     = Some a' \<and> ra_waits a' = [WaitBlocked]"
proof -
  have "root_inv ((demo_root (\<lambda>_. None))\<lparr>ra_lifecycle := None, ra_running := True\<rparr>)" by (simp add: root_inv_def)
  from Wait_can_miss_Stop [OF this, of demo_fimpgo "\<lambda>x. x"] show ?thesis by (auto simp del: root_run.simps)
qed

end
