(* ===== verification/Debug.thy ===== *)
theory Debug
  imports Configuration Storage Router "HOL-Library.List_Lexorder" "HOL-Library.Char_ord"
begin

text \<open>
  The log manager of \<^verbatim>\<open>src/debug\<close>, which keeps level, format and file of the log in the configuration and reverts a
  verbose level at a start after its deadline; its messages; and the formatters of \<^verbatim>\<open>src/debug/formatters\<close>, with the ring buffer of
  errors. The logging library \<^verbatim>\<open>logrus\<close>, and \<^verbatim>\<open>time.ParseDuration\<close> and \<^verbatim>\<open>Duration.String\<close>, are parameters.
\<close>

section \<open>The log manager (\<^verbatim>\<open>log_manager.go\<close>)\<close>

text \<open>Levels are the numbers of \<^verbatim>\<open>logrus\<close>: the larger, the more verbose.\<close>

record logging =
  lg_ParseLevel :: "string \<Rightarrow> nat result"
  lg_LevelString :: "nat \<Rightarrow> string"
  lg_ParseDuration :: "string \<Rightarrow> duration result"
  lg_DurationString :: "duration \<Rightarrow> string"

definition InfoLevel :: nat where "InfoLevel = 4"
definition DebugLevel :: nat where "DebugLevel = 5"
definition TraceLevel :: nat where "TraceLevel = 6"

definition defaultLogRevertTimeout :: duration where
  "defaultLogRevertTimeout = 7 * 24 * 3600 * 1000000000"

text \<open>The store of the configuration, what is in effect in the logging library, and the operating system.\<close>

record log_world =
  lw_store :: default_store
  lw_level :: nat
  lw_formatter :: string
  lw_output :: "string option"
  lw_os :: os

type_synonym 'a log_act = "(log_world, 'a) act"

definition on_store :: "'a store_act \<Rightarrow> 'a log_act" where
  "on_store m w = map_option (\<lambda>(r, s). (r, w\<lparr>lw_store := s\<rparr>)) (m (lw_store w))"

definition logrus_SetLevel :: "nat \<Rightarrow> unit log_act" where
  "logrus_SetLevel l = act_modify (\<lambda>w. w\<lparr>lw_level := l\<rparr>)"

text \<open>An error that is logged only.\<close>

definition log_warn :: "unit log_act \<Rightarrow> unit log_act" where
  "log_warn m = act_bind (act_try m) (\<lambda>_. act_return ())"

text \<open>\<open>clk i\<close> is the \<open>i\<close>-th reading of the clock in a call: the first is \<^verbatim>\<open>time.Now\<close>, the others stamp the saves.\<close>

definition clearRevertStateLocked :: "time \<Rightarrow> unit log_act" where
  "clearRevertStateLocked now = on_store (store_SetLogRevertAt time_zero now)"

definition applyPersistedLevel :: "logging \<Rightarrow> (nat \<Rightarrow> time) \<Rightarrow> unit log_act" where
  "applyPersistedLevel lg clk =
     act_bind (on_store store_Level) (\<lambda>persisted.
     case lg_ParseLevel lg persisted of
       Inl err \<Rightarrow>
         act_bind (logrus_SetLevel InfoLevel) (\<lambda>_. act_fail (Wrapf (''log: invalid level '' @ persisted) err))
     | Inr logLevel \<Rightarrow>
         act_bind (on_store store_LogRevertAt) (\<lambda>revertAt.
         if DebugLevel \<le> logLevel \<and> \<not> is_zero revertAt \<and> revertAt \<le> clk 0
         then act_bind (on_store (store_SetLevel (lg_LevelString lg InfoLevel) (clk 1))) (\<lambda>_.
              act_bind (log_warn (clearRevertStateLocked (clk 2))) (\<lambda>_.
              logrus_SetLevel InfoLevel))
         else logrus_SetLevel logLevel))"

definition setLogFormat :: "string \<Rightarrow> unit log_act" where
  "setLogFormat logFormat =
     act_modify (\<lambda>w. w\<lparr>lw_formatter := (if logFormat = ''json'' then ''json'' else if logFormat = ''budzik'' then ''budzik'' else ''text'')\<rparr>)"

text \<open>The directory and the file are made sure to exist; closing the previous output is logged only.\<close>

definition setLogOutput :: "string \<Rightarrow> unit log_act" where
  "setLogOutput logFile w =
     (if logFile = '''' then Some (Inl (Errorf ''log file not set''), w)
      else case os_fault (lw_os w) SMkdir (path_Dir logFile) of
        Some e \<Rightarrow> Some (Inl (Wrapf (''create log dir='' @ path_Dir logFile @ '' err'') e), w)
      | None \<Rightarrow>
          (case os_fault (lw_os w) SOpen logFile of
             Some e \<Rightarrow> Some (Inl (Wrapf (''open log file='' @ logFile @ '' err'') e), w)
           | None \<Rightarrow>
               (let os = (if os_files (lw_os w) logFile = None then os_put logFile '''' (lw_os w) else lw_os w)
                in Some (Inr (), w\<lparr>lw_os := os, lw_output := Some logFile\<rparr>))))"

definition InitializeLogger :: "logging \<Rightarrow> (nat \<Rightarrow> time) \<Rightarrow> unit log_act" where
  "InitializeLogger lg clk =
     act_bind (on_store store_Format) (\<lambda>format.
     act_bind (setLogFormat format) (\<lambda>_.
     act_bind (act_try (applyPersistedLevel lg clk)) (\<lambda>_.
     act_bind (on_store store_LogFile) setLogOutput)))"

definition manager_Level :: "string log_act" where
  "manager_Level = on_store store_Level"

definition manager_SetLevel :: "logging \<Rightarrow> (nat \<Rightarrow> time) \<Rightarrow> string \<Rightarrow> unit log_act" where
  "manager_SetLevel lg clk level =
     (case lg_ParseLevel lg level of
        Inl err \<Rightarrow> act_fail (Wrapf (''log: invalid level '' @ level) err)
      | Inr logLevel \<Rightarrow>
          if logLevel < DebugLevel
          then act_bind (on_store (store_SetLevel (lg_LevelString lg logLevel) (clk 1))) (\<lambda>_.
               act_bind (log_warn (clearRevertStateLocked (clk 2))) (\<lambda>_.
               logrus_SetLevel logLevel))
          else act_bind (on_store store_LogRevertTimeout) (\<lambda>configured.
               let timeout = (if configured \<le> 0 then defaultLogRevertTimeout else configured) in
               act_bind (on_store (store_SetLogRevertAt (clk 0 + timeout) (clk 1))) (\<lambda>_.
               act_bind (on_store (store_SetLevel (lg_LevelString lg logLevel) (clk 2))) (\<lambda>_.
               logrus_SetLevel logLevel))))"

definition manager_SetRevertTimeout :: "(nat \<Rightarrow> time) \<Rightarrow> duration \<Rightarrow> unit log_act" where
  "manager_SetRevertTimeout clk d =
     (if d \<le> 0 then act_fail (Errorf ''log: revert timeout must be positive'')
      else act_bind (on_store (store_SetLogRevertTimeout d (clk 1))) (\<lambda>_.
           act_bind (on_store store_LogRevertAt) (\<lambda>revertAt.
           if \<not> is_zero revertAt then on_store (store_SetLogRevertAt (clk 0 + d) (clk 2)) else act_return ())))"

definition manager_Format :: "string log_act" where
  "manager_Format = on_store store_Format"

definition manager_SetFormat :: "(nat \<Rightarrow> time) \<Rightarrow> string \<Rightarrow> unit log_act" where
  "manager_SetFormat clk format = act_bind (setLogFormat format) (\<lambda>_. on_store (store_SetFormat format (clk 1)))"

definition manager_File :: "string log_act" where
  "manager_File = on_store store_LogFile"

definition manager_SetFile :: "(nat \<Rightarrow> time) \<Rightarrow> string \<Rightarrow> unit log_act" where
  "manager_SetFile clk file = act_bind (setLogOutput file) (\<lambda>_. on_store (store_SetLogFile file (clk 1)))"

section \<open>Routing (\<^verbatim>\<open>routing.go\<close>)\<close>

definition CmdLogSetLevel :: string where "CmdLogSetLevel = ''cmd.log.set_level''"
definition CmdLogGetLevel :: string where "CmdLogGetLevel = ''cmd.log.get_level''"
definition EvtLogLevelReport :: string where "EvtLogLevelReport = ''evt.log.level_report''"
definition CmdLogSetFormat :: string where "CmdLogSetFormat = ''cmd.log.set_format''"
definition CmdLogGetFormat :: string where "CmdLogGetFormat = ''cmd.log.get_format''"
definition EvtLogFormatReport :: string where "EvtLogFormatReport = ''evt.log.format_report''"
definition CmdLogSetFile :: string where "CmdLogSetFile = ''cmd.log.set_file''"
definition CmdLogGetFile :: string where "CmdLogGetFile = ''cmd.log.get_file''"
definition EvtLogFileReport :: string where "EvtLogFileReport = ''evt.log.file_report''"
definition CmdLogSetRevertTimeout :: string where "CmdLogSetRevertTimeout = ''cmd.log.set_revert_timeout''"
definition CmdLogGetRevertTimeout :: string where "CmdLogGetRevertTimeout = ''cmd.log.get_revert_timeout''"
definition EvtLogRevertTimeoutReport :: string where "EvtLogRevertTimeoutReport = ''evt.log.revert_timeout_report''"

definition log_reply :: "fimpgo \<Rightarrow> string \<Rightarrow> string \<Rightarrow> message \<Rightarrow> string \<Rightarrow> fimp_message option log_act" where
  "log_reply fg serviceName evt msg v =
     act_return (Some (fg_New fg KString evt serviceName (VString v) [] (Some (ms_Payload msg))))"

definition RouteCmdLogGetLevel :: "fimpgo \<Rightarrow> string \<Rightarrow> log_world routing" where
  "RouteCmdLogGetLevel fg serviceName =
     plain_route fg serviceName CmdLogGetLevel (\<lambda>msg. act_bind manager_Level (log_reply fg serviceName EvtLogLevelReport msg))"

definition handleLogSetLevel :: "fimpgo \<Rightarrow> logging \<Rightarrow> (nat \<Rightarrow> time) \<Rightarrow> string \<Rightarrow> message \<Rightarrow> fimp_message option log_act" where
  "handleLogSetLevel fg lg clk serviceName msg =
     act_bind (act_result (fg_GetStringValue fg (ms_Payload msg))) (\<lambda>level.
     act_bind (manager_SetLevel lg clk level) (\<lambda>_.
     act_bind manager_Level (log_reply fg serviceName EvtLogLevelReport msg)))"

definition RouteCmdLogSetLevel :: "fimpgo \<Rightarrow> logging \<Rightarrow> (nat \<Rightarrow> time) \<Rightarrow> string \<Rightarrow> log_world routing" where
  "RouteCmdLogSetLevel fg lg clk serviceName = plain_route fg serviceName CmdLogSetLevel (handleLogSetLevel fg lg clk serviceName)"

definition RouteCmdLogGetFormat :: "fimpgo \<Rightarrow> string \<Rightarrow> log_world routing" where
  "RouteCmdLogGetFormat fg serviceName =
     plain_route fg serviceName CmdLogGetFormat (\<lambda>msg. act_bind manager_Format (log_reply fg serviceName EvtLogFormatReport msg))"

definition handleLogSetFormat :: "fimpgo \<Rightarrow> (nat \<Rightarrow> time) \<Rightarrow> string \<Rightarrow> message \<Rightarrow> fimp_message option log_act" where
  "handleLogSetFormat fg clk serviceName msg =
     act_bind (act_result (fg_GetStringValue fg (ms_Payload msg))) (\<lambda>format.
     act_bind (manager_SetFormat clk format) (\<lambda>_. log_reply fg serviceName EvtLogFormatReport msg format))"

definition RouteCmdLogSetFormat :: "fimpgo \<Rightarrow> (nat \<Rightarrow> time) \<Rightarrow> string \<Rightarrow> log_world routing" where
  "RouteCmdLogSetFormat fg clk serviceName = plain_route fg serviceName CmdLogSetFormat (handleLogSetFormat fg clk serviceName)"

definition RouteCmdLogGetFile :: "fimpgo \<Rightarrow> string \<Rightarrow> log_world routing" where
  "RouteCmdLogGetFile fg serviceName =
     plain_route fg serviceName CmdLogGetFile (\<lambda>msg. act_bind manager_File (log_reply fg serviceName EvtLogFileReport msg))"

text \<open>\<^verbatim>\<open>filepath.Base\<close>: the last element, without trailing slashes.\<close>

definition filepath_Base :: "string \<Rightarrow> string" where
  "filepath_Base p =
     (if p = '''' then ''.''
      else let q = rev (dropWhile (\<lambda>c. c = CHR ''/'') (rev p))
           in if q = '''' then ''/'' else rev (takeWhile (\<lambda>c. c \<noteq> CHR ''/'') (rev q)))"

definition handleLogSetFile :: "fimpgo \<Rightarrow> (nat \<Rightarrow> time) \<Rightarrow> string \<Rightarrow> message \<Rightarrow> fimp_message option log_act" where
  "handleLogSetFile fg clk serviceName msg =
     act_bind (act_result (fg_GetStringValue fg (ms_Payload msg))) (\<lambda>file.
     if file = '''' \<or> file = ''.'' \<or> file = ''..'' \<or> file = ''/'' \<or> filepath_Base file \<noteq> file
     then act_fail (Errorf (''log file must be a plain file name, not a path: '' @ file))
     else act_bind (manager_SetFile clk file) (\<lambda>_. log_reply fg serviceName EvtLogFileReport msg file))"

definition RouteCmdLogSetFile :: "fimpgo \<Rightarrow> (nat \<Rightarrow> time) \<Rightarrow> string \<Rightarrow> log_world routing" where
  "RouteCmdLogSetFile fg clk serviceName = plain_route fg serviceName CmdLogSetFile (handleLogSetFile fg clk serviceName)"

definition RouteCmdLogGetRevertTimeout :: "fimpgo \<Rightarrow> logging \<Rightarrow> string \<Rightarrow> log_world routing" where
  "RouteCmdLogGetRevertTimeout fg lg serviceName =
     plain_route fg serviceName CmdLogGetRevertTimeout (\<lambda>msg.
       act_bind (on_store store_LogRevertTimeout) (\<lambda>d.
       log_reply fg serviceName EvtLogRevertTimeoutReport msg (lg_DurationString lg (if d \<le> 0 then defaultLogRevertTimeout else d))))"

definition handleLogSetRevertTimeout :: "fimpgo \<Rightarrow> logging \<Rightarrow> (nat \<Rightarrow> time) \<Rightarrow> string \<Rightarrow> message \<Rightarrow> fimp_message option log_act" where
  "handleLogSetRevertTimeout fg lg clk serviceName msg =
     act_bind (act_result (fg_GetStringValue fg (ms_Payload msg))) (\<lambda>raw.
     act_bind (act_wrap (''log: failed to parse revert timeout '' @ raw) (act_result (lg_ParseDuration lg raw))) (\<lambda>d.
     act_bind (manager_SetRevertTimeout clk d) (\<lambda>_.
     log_reply fg serviceName EvtLogRevertTimeoutReport msg (lg_DurationString lg d))))"

definition RouteCmdLogSetRevertTimeout :: "fimpgo \<Rightarrow> logging \<Rightarrow> (nat \<Rightarrow> time) \<Rightarrow> string \<Rightarrow> log_world routing" where
  "RouteCmdLogSetRevertTimeout fg lg clk serviceName =
     plain_route fg serviceName CmdLogSetRevertTimeout (handleLogSetRevertTimeout fg lg clk serviceName)"

text \<open>Calling \<^verbatim>\<open>Route\<close> before \<^verbatim>\<open>InitializeLogger\<close> panics.\<close>

definition debug_Route :: "bool \<Rightarrow> fimpgo \<Rightarrow> logging \<Rightarrow> (nat \<Rightarrow> time) \<Rightarrow> string \<Rightarrow> log_world routing list option" where
  "debug_Route initialised fg lg clk serviceName =
     (if \<not> initialised then None
      else Some [RouteCmdLogGetLevel fg serviceName, RouteCmdLogSetLevel fg lg clk serviceName,
        RouteCmdLogGetFormat fg serviceName, RouteCmdLogSetFormat fg clk serviceName,
        RouteCmdLogGetFile fg serviceName, RouteCmdLogSetFile fg clk serviceName,
        RouteCmdLogGetRevertTimeout fg lg serviceName, RouteCmdLogSetRevertTimeout fg lg clk serviceName])"

section \<open>The formatters (\<^verbatim>\<open>formatters\<close>)\<close>

text \<open>An entry of the log: level, message, time and the fields in the format \<^verbatim>\<open>%v\<close>.\<close>

record log_record =
  lr_Level :: nat
  lr_Message :: string
  lr_Time :: time
  lr_Data :: "(string \<times> string) list"

definition LevelDesc :: "string list" where
  "LevelDesc = [''PANIC'', ''FATAL'', ''E'', ''W'', ''I'', ''D'', ''T'', ''?'']"

definition budzik_Format :: "(time \<Rightarrow> string) \<Rightarrow> log_record \<Rightarrow> string" where
  "budzik_Format timestamp e =
     timestamp (lr_Time e) @ '' '' @ (if lr_Level e < length LevelDesc then LevelDesc ! lr_Level e else ''D'') @ '' '' @ lr_Message e
     @ concat (map (\<lambda>k. '' '' @ k @ ''='' @ (case map_of (lr_Data e) k of Some v \<Rightarrow> v | None \<Rightarrow> '''')) (sort (map fst (lr_Data e))))
     @ [CHR 0x0A]"

definition MaxLogEntries :: nat where
  "MaxLogEntries = 64"

definition LogRetention :: duration where
  "LogRetention = 30 * 24 * 3600 * 1000000000"

record log_entry =
  le_level :: nat
  le_msg :: string
  le_time :: time

definition no_entry :: log_entry where
  "no_entry = \<lparr>le_level = 0, le_msg = '''', le_time = time_zero\<rparr>"

record error_hook =
  eh_entries :: "log_entry list"
  eh_head :: nat
  eh_count :: nat

definition NewErrorHook :: error_hook where
  "NewErrorHook = \<lparr>eh_entries = replicate MaxLogEntries no_entry, eh_head = 0, eh_count = 0\<rparr>"

definition hook_Levels :: "nat list" where
  "hook_Levels = [3, 2, 1, 0]"

definition TrimRight_newline :: "string \<Rightarrow> string" where
  "TrimRight_newline s = rev (dropWhile (\<lambda>c. c = CHR 0x0A) (rev s))"

definition hook_Fire :: "(log_record \<Rightarrow> string result) \<Rightarrow> log_record \<Rightarrow> (error_hook, unit) act" where
  "hook_Fire format entry =
     act_bind (act_result (format entry)) (\<lambda>b.
     let e = \<lparr>le_level = lr_Level entry, le_msg = TrimRight_newline b, le_time = lr_Time entry\<rparr> in
     act_modify (\<lambda>h.
       if eh_count h < MaxLogEntries
       then h\<lparr>eh_entries := (eh_entries h)[(eh_head h + eh_count h) mod MaxLogEntries := e], eh_count := eh_count h + 1\<rparr>
       else h\<lparr>eh_entries := (eh_entries h)[eh_head h := e], eh_head := (eh_head h + 1) mod MaxLogEntries\<rparr>))"

function hook_purgeExpired :: "time \<Rightarrow> error_hook \<Rightarrow> error_hook" where
  "hook_purgeExpired now h =
     (if 0 < eh_count h \<and> le_time (eh_entries h ! eh_head h) < now - LogRetention
      then hook_purgeExpired now
        (h\<lparr>eh_entries := (eh_entries h)[eh_head h := no_entry], eh_head := (eh_head h + 1) mod MaxLogEntries, eh_count := eh_count h - 1\<rparr>)
      else h)"
  by auto

termination by (relation "measure (\<lambda>(now, h). eh_count h)") auto

declare hook_purgeExpired.simps [simp del]

definition hook_at :: "error_hook \<Rightarrow> nat \<Rightarrow> log_entry" where
  "hook_at h i = eh_entries h ! ((eh_head h + i) mod MaxLogEntries)"

definition hook_ErrorsReport :: "time \<Rightarrow> error_hook \<Rightarrow> string list \<times> error_hook" where
  "hook_ErrorsReport now h =
     (let h' = hook_purgeExpired now h in (map (\<lambda>i. le_msg (hook_at h' i)) [0..<eh_count h'], h'))"

section \<open>The ring buffer is a list\<close>

text \<open>
  The specification: a list of the last entries, without a buffer. A report first drops the expired entries at the front.
\<close>

datatype hook_op = HookFire log_record | HookReport time

fun hook_run :: "(log_record \<Rightarrow> string result) \<Rightarrow> hook_op list \<Rightarrow> error_hook \<Rightarrow> string list list" where
  "hook_run format [] h = []"
| "hook_run format (HookFire e # ops) h = (case hook_Fire format e h of None \<Rightarrow> [] | Some (_, h') \<Rightarrow> hook_run format ops h')"
| "hook_run format (HookReport now # ops) h = (case hook_ErrorsReport now h of (msgs, h') \<Rightarrow> msgs # hook_run format ops h')"

definition last_entries :: "log_entry list \<Rightarrow> log_entry list" where
  "last_entries es = drop (length es - MaxLogEntries) es"

fun hook_spec :: "(log_record \<Rightarrow> string result) \<Rightarrow> hook_op list \<Rightarrow> log_entry list \<Rightarrow> string list list" where
  "hook_spec format [] es = []"
| "hook_spec format (HookFire e # ops) es =
     (case format e of
        Inl _ \<Rightarrow> hook_spec format ops es
      | Inr b \<Rightarrow> hook_spec format ops (last_entries (es @ [\<lparr>le_level = lr_Level e, le_msg = TrimRight_newline b, le_time = lr_Time e\<rparr>])))"
| "hook_spec format (HookReport now # ops) es =
     (let es' = dropWhile (\<lambda>e. le_time e < now - LogRetention) es in map le_msg es' # hook_spec format ops es')"

definition hook_inv :: "error_hook \<Rightarrow> bool" where
  "hook_inv h \<longleftrightarrow> length (eh_entries h) = MaxLogEntries \<and> eh_head h < MaxLogEntries \<and> eh_count h \<le> MaxLogEntries"

definition hook_list :: "error_hook \<Rightarrow> log_entry list" where
  "hook_list h = map (hook_at h) [0..<eh_count h]"

lemma mod_shift_neq:
  assumes "i < j" "j - i < (n::nat)"
  shows "(a + i) mod n \<noteq> (a + j) mod n"
proof
  assume "(a + i) mod n = (a + j) mod n"
  then have "n dvd (a + j) - (a + i)" by (metis mod_eq_dvd_iff_nat add_le_cancel_left assms(1) less_imp_le)
  then have "n dvd j - i" by simp
  with assms show False by (auto dest: dvd_imp_le)
qed

lemma MaxLogEntries_pos [simp]: "0 < MaxLogEntries"
  by (simp add: MaxLogEntries_def)

lemma hook_list_new: "hook_inv NewErrorHook" "hook_list NewErrorHook = []"
  by (simp_all add: hook_inv_def hook_list_def NewErrorHook_def)

lemma Fire_list:
  assumes "hook_inv h" "format e = Inr b"
  obtains h' where "hook_Fire format e h = Some (Inr (), h')" "hook_inv h'"
    "hook_list h' = last_entries (hook_list h @ [\<lparr>le_level = lr_Level e, le_msg = TrimRight_newline b, le_time = lr_Time e\<rparr>])"
proof -
  let ?e = "\<lparr>le_level = lr_Level e, le_msg = TrimRight_newline b, le_time = lr_Time e\<rparr>"
  have h: "length (eh_entries h) = MaxLogEntries" "eh_head h < MaxLogEntries" "eh_count h \<le> MaxLogEntries"
    using assms(1) by (simp_all add: hook_inv_def)
  show thesis
  proof (cases "eh_count h < MaxLogEntries")
    case True
    let ?h = "h\<lparr>eh_entries := (eh_entries h)[(eh_head h + eh_count h) mod MaxLogEntries := ?e], eh_count := eh_count h + 1\<rparr>"
    have "hook_at ?h i = hook_at h i" if "i < eh_count h" for i
    proof -
      have "eh_count h - i < MaxLogEntries" using True by linarith
      with mod_shift_neq [of i "eh_count h" MaxLogEntries "eh_head h"] that show ?thesis by (simp add: hook_at_def)
    qed
    moreover have "hook_at ?h (eh_count h) = ?e" using h by (simp add: hook_at_def)
    ultimately have "hook_list ?h = hook_list h @ [?e]" by (simp add: hook_list_def)
    moreover have "last_entries (hook_list h @ [?e]) = hook_list h @ [?e]"
      using True by (simp add: last_entries_def hook_list_def)
    ultimately show thesis using that [of ?h] True h assms(2) by (simp add: hook_Fire_def hook_inv_def Let_def)
  next
    case False
    then have c: "eh_count h = MaxLogEntries" using h(3) by simp
    let ?h = "h\<lparr>eh_entries := (eh_entries h)[eh_head h := ?e], eh_head := (eh_head h + 1) mod MaxLogEntries\<rparr>"
    have at: "hook_at ?h i = hook_at h (Suc i)" if "Suc i < MaxLogEntries" for i
      using mod_shift_neq [of 0 "Suc i" MaxLogEntries "eh_head h"] that h by (simp add: hook_at_def mod_simps)
    have "((eh_head h + 1) mod MaxLogEntries + (MaxLogEntries - 1)) mod MaxLogEntries = (eh_head h + MaxLogEntries) mod MaxLogEntries"
      unfolding mod_add_left_eq by (simp add: MaxLogEntries_def)
    then have last: "hook_at ?h (MaxLogEntries - 1) = ?e" using h by (simp add: hook_at_def)
    obtain n where n: "MaxLogEntries = Suc n" by (simp add: MaxLogEntries_def)
    have "hook_list ?h = map (\<lambda>i. hook_at h (Suc i)) [0..<n] @ [?e]"
    proof -
      have cn: "eh_count ?h = Suc n" using c n by (cases h) simp
      have "hook_list ?h = map (hook_at ?h) [0..<n] @ [hook_at ?h n]" unfolding hook_list_def cn by simp
      moreover have "MaxLogEntries - 1 = n" using n by linarith
      with last have "hook_at ?h n = ?e" by simp
      moreover have "map (hook_at ?h) [0..<n] = map (\<lambda>i. hook_at h (Suc i)) [0..<n]"
        by (rule map_cong [OF refl]) (rule at, simp add: n)
      ultimately show ?thesis by simp
    qed
    moreover have "hook_list h = hook_at h 0 # map (\<lambda>i. hook_at h (Suc i)) [0..<n]"
      unfolding hook_list_def c n by (simp add: upt_conv_Cons map_Suc_upt [symmetric] del: upt_Suc)
    ultimately have "hook_list ?h = last_entries (hook_list h @ [?e])" using n by (simp add: last_entries_def)
    then show thesis using that [of ?h] False h assms(2) by (simp add: hook_Fire_def hook_inv_def Let_def)
  qed
qed

lemma purge_list:
  "hook_inv h \<Longrightarrow> hook_inv (hook_purgeExpired now h)
    \<and> hook_list (hook_purgeExpired now h) = dropWhile (\<lambda>e. le_time e < now - LogRetention) (hook_list h)"
proof (induction now h rule: hook_purgeExpired.induct)
  case (1 now h)
  have h: "length (eh_entries h) = MaxLogEntries" "eh_head h < MaxLogEntries" "eh_count h \<le> MaxLogEntries"
    using 1(2) by (simp_all add: hook_inv_def)
  let ?h = "h\<lparr>eh_entries := (eh_entries h)[eh_head h := no_entry], eh_head := (eh_head h + 1) mod MaxLogEntries, eh_count := eh_count h - 1\<rparr>"
  show ?case
  proof (cases "0 < eh_count h")
    case False
    then show ?thesis using 1(2) by (subst (1 2) hook_purgeExpired.simps) (simp add: hook_list_def)
  next
    case True
    then obtain n where n: "eh_count h = Suc n" by (cases "eh_count h") auto
    have "hook_at ?h i = hook_at h (Suc i)" if "i < n" for i
      using mod_shift_neq [of 0 "Suc i" MaxLogEntries "eh_head h"] that h n by (simp add: hook_at_def mod_simps)
    then have l: "hook_list h = eh_entries h ! eh_head h # hook_list ?h"
      using n h by (simp add: hook_list_def upt_conv_Cons map_Suc_upt [symmetric] hook_at_def del: upt_Suc)
    have "hook_inv ?h" using h by (simp add: hook_inv_def)
    then show ?thesis using 1 True l by (subst (1 2) hook_purgeExpired.simps) auto
  qed
qed

lemma hook_run_list: "hook_inv h \<Longrightarrow> hook_run format ops h = hook_spec format ops (hook_list h)"
proof (induction ops arbitrary: h)
  case (Cons op ops)
  show ?case
  proof (cases op)
    case (HookFire e)
    show ?thesis
    proof (cases "format e")
      case (Inl err)
      then show ?thesis using Cons HookFire by (simp add: hook_Fire_def)
    next
      case (Inr b)
      obtain h' where h': "hook_Fire format e h = Some (Inr (), h')" "hook_inv h'"
        "hook_list h' = last_entries (hook_list h @ [\<lparr>le_level = lr_Level e, le_msg = TrimRight_newline b, le_time = lr_Time e\<rparr>])"
        by (rule Fire_list [where format = format and e = e, OF Cons.prems Inr])
      then show ?thesis using Cons.IH [OF h'(2)] HookFire Inr by simp
    qed
  next
    case (HookReport now)
    have p: "hook_inv (hook_purgeExpired now h)"
      "hook_list (hook_purgeExpired now h) = dropWhile (\<lambda>e. le_time e < now - LogRetention) (hook_list h)"
      using purge_list [OF Cons.prems, of now] by simp_all
    have "hook_ErrorsReport now h = (map le_msg (hook_list (hook_purgeExpired now h)), hook_purgeExpired now h)"
      by (simp add: hook_ErrorsReport_def hook_list_def Let_def)
    then show ?thesis using Cons.IH [OF p(1)] p(2) HookReport by (simp add: Let_def)
  qed
qed simp

text \<open>
  C37. The ring buffer of errors refines a list: for every sequence of log entries and reports, the reports of a new \<^verbatim>\<open>ErrorHook\<close> are those of a
  list that keeps the last 64 entries and from whose front a report first drops the entries that are older than the retention.
\<close>
theorem error_hook_refines_list:
  "hook_run format ops NewErrorHook = hook_spec format ops []"
  using hook_run_list [of NewErrorHook format ops] hook_list_new by simp

section \<open>A verbose level has a deadline\<close>

text \<open>What the manager relies on in \<^verbatim>\<open>logrus\<close>: a level can be parsed from its name.\<close>

definition logging_ok :: "logging \<Rightarrow> bool" where
  "logging_ok lg \<longleftrightarrow> (\<forall>l \<le> TraceLevel. lg_ParseLevel lg (lg_LevelString lg l) = Inr l)
     \<and> (\<forall>s l. lg_ParseLevel lg s = Inr l \<longrightarrow> l \<le> TraceLevel)"

definition verbose :: "logging \<Rightarrow> string \<Rightarrow> bool" where
  "verbose lg s = (case lg_ParseLevel lg s of Inl _ \<Rightarrow> False | Inr l \<Rightarrow> DebugLevel \<le> l)"

definition has_deadline :: "logging \<Rightarrow> default_cfg \<Rightarrow> bool" where
  "has_deadline lg d \<longleftrightarrow> (verbose lg (df_LogLevel d) \<longrightarrow> \<not> is_zero (df_LogRevertAt d))"

definition log_inv :: "logging \<Rightarrow> log_world \<Rightarrow> bool" where
  "log_inv lg w \<longleftrightarrow> has_deadline lg (cs_default (lw_store w)) \<and> has_deadline lg (cs_file (lw_store w))
     \<and> (DebugLevel \<le> lw_level w \<longrightarrow> \<not> is_zero (df_LogRevertAt (cs_default (lw_store w))))"

text \<open>The process is started again: it loads the configuration, and \<^verbatim>\<open>logrus\<close> begins with the level \<^verbatim>\<open>info\<close>.\<close>

definition log_restart :: "logging \<Rightarrow> (nat \<Rightarrow> time) \<Rightarrow> unit log_act" where
  "log_restart lg clk =
     act_bind (act_modify (\<lambda>w. w\<lparr>lw_store := (lw_store w)\<lparr>cs_default := cs_file (lw_store w)\<rparr>, lw_level := InfoLevel, lw_output := None\<rparr>)) (\<lambda>_.
     InitializeLogger lg clk)"

datatype log_op = LogSetLevel string | LogSetRevertTimeout duration | LogSetFormat string | LogSetFile string | LogRestart

definition log_step :: "logging \<Rightarrow> (nat \<Rightarrow> time) \<Rightarrow> log_op \<Rightarrow> unit log_act" where
  "log_step lg clk op =
     (case op of
        LogSetLevel s \<Rightarrow> manager_SetLevel lg clk s
      | LogSetRevertTimeout d \<Rightarrow> manager_SetRevertTimeout clk d
      | LogSetFormat s \<Rightarrow> manager_SetFormat clk s
      | LogSetFile s \<Rightarrow> manager_SetFile clk s
      | LogRestart \<Rightarrow> log_restart lg clk)"

fun log_run :: "logging \<Rightarrow> ((nat \<Rightarrow> time) \<times> log_op) list \<Rightarrow> log_world \<Rightarrow> log_world option" where
  "log_run lg [] w = Some w"
| "log_run lg ((clk, op) # ops) w = (case log_step lg clk op w of None \<Rightarrow> None | Some (_, w') \<Rightarrow> log_run lg ops w')"

text \<open>A setter of the store changes the field in memory, and in the file if it is saved.\<close>

lemma on_store_set:
  "on_store (store_set f now) w =
     (let d = SetConfiguredAt (cs_rfc (lw_store w)) now (f (cs_default (lw_store w)));
          s' = (lw_store w)\<lparr>cs_default := d, cs_saves := Suc (cs_saves (lw_store w))\<rparr>
      in case cs_saveErr (lw_store w) (cs_saves (lw_store w)) of
           Some e \<Rightarrow> Some (Inl e, w\<lparr>lw_store := s'\<rparr>)
         | None \<Rightarrow> Some (Inr (), w\<lparr>lw_store := s'\<lparr>cs_file := d\<rparr>\<rparr>))"
  by (simp add: on_store_def store_set_run Let_def split: option.split)

lemma on_store_get: "on_store (act_get f) w = Some (Inr (f (lw_store w)), w)"
  by (simp add: on_store_def)

lemma SetConfiguredAt_log [simp]:
  "df_LogLevel (SetConfiguredAt r now d) = df_LogLevel d" "df_LogRevertAt (SetConfiguredAt r now d) = df_LogRevertAt d"
  "df_LogRevertTimeout (SetConfiguredAt r now d) = df_LogRevertTimeout d"
  by (simp_all add: SetConfiguredAt_def)

lemmas log_store_defs = store_SetLevel_def store_SetFormat_def store_SetLogFile_def store_SetLogRevertTimeout_def store_SetLogRevertAt_def

text \<open>A level below \<^verbatim>\<open>debug\<close>.\<close>

lemma not_verbose: "logging_ok lg \<Longrightarrow> l < DebugLevel \<Longrightarrow> \<not> verbose lg (lg_LevelString lg l)"
  by (auto simp: logging_ok_def verbose_def DebugLevel_def TraceLevel_def)

lemma SetLevel_inv:
  assumes "logging_ok lg" "log_inv lg w" "\<And>i. 0 \<le> clk i"
  shows "\<exists>r w'. manager_SetLevel lg clk s w = Some (r, w') \<and> log_inv lg w'"
proof (cases "lg_ParseLevel lg s")
  case (Inl e)
  with assms show ?thesis by (simp add: manager_SetLevel_def)
next
  case (Inr l)
  show ?thesis
  proof (cases "l < DebugLevel")
    case True
    with not_verbose [OF assms(1) True] assms(2) Inr show ?thesis
      by (auto simp: manager_SetLevel_def log_store_defs on_store_set log_warn_def clearRevertStateLocked_def logrus_SetLevel_def
          log_inv_def has_deadline_def Let_def act_bind_def act_try_def split: option.split)
  next
    case False
    let ?t = "if df_LogRevertTimeout (cs_default (lw_store w)) \<le> 0 then defaultLogRevertTimeout
      else df_LogRevertTimeout (cs_default (lw_store w))"
    have "clk 0 + ?t \<noteq> 0" using assms(3) [of 0] by (auto simp: defaultLogRevertTimeout_def)
    with False assms(2) Inr show ?thesis
      by (auto simp: manager_SetLevel_def log_store_defs on_store_set on_store_get store_LogRevertTimeout_def
          logrus_SetLevel_def log_inv_def has_deadline_def is_zero_def Let_def act_bind_def split: option.split)
  qed
qed

lemma SetRevertTimeout_inv:
  assumes "log_inv lg w" "\<And>i. 0 \<le> clk i"
  shows "\<exists>r w'. manager_SetRevertTimeout clk d w = Some (r, w') \<and> log_inv lg w'"
proof (cases "d \<le> 0")
  case False
  then have "clk 0 + d \<noteq> 0" using assms(2) [of 0] by auto
  with False assms(1) show ?thesis
    by (auto simp: manager_SetRevertTimeout_def log_store_defs on_store_set on_store_get store_LogRevertAt_def
        log_inv_def has_deadline_def is_zero_def Let_def act_bind_def split: option.split)
qed (use assms in \<open>simp add: manager_SetRevertTimeout_def\<close>)

lemma SetFormat_inv:
  assumes "log_inv lg w"
  shows "\<exists>r w'. manager_SetFormat clk s w = Some (r, w') \<and> log_inv lg w'"
  using assms by (auto simp: manager_SetFormat_def setLogFormat_def log_store_defs on_store_set log_inv_def has_deadline_def Let_def
      act_bind_def split: option.split)

lemma setLogOutput_run: "\<exists>r w'. setLogOutput f w = Some (r, w') \<and> lw_store w' = lw_store w \<and> lw_level w' = lw_level w"
  unfolding setLogOutput_def Let_def by (auto split: option.split)

lemma log_inv_cong: "lw_store w' = lw_store w \<Longrightarrow> lw_level w' = lw_level w \<Longrightarrow> log_inv lg w' = log_inv lg w"
  by (simp add: log_inv_def)

lemma SetFile_inv:
  assumes "log_inv lg w"
  shows "\<exists>r w'. manager_SetFile clk s w = Some (r, w') \<and> log_inv lg w'"
proof -
  obtain r w1 where o: "setLogOutput s w = Some (r, w1)" "lw_store w1 = lw_store w" "lw_level w1 = lw_level w" using setLogOutput_run by blast
  then have i: "log_inv lg w1" using assms log_inv_cong by blast
  show ?thesis
  proof (cases r)
    case (Inl e)
    with o i show ?thesis by (simp add: manager_SetFile_def)
  next
    case (Inr u)
    with o i show ?thesis
      by (auto simp: manager_SetFile_def log_store_defs on_store_set log_inv_def has_deadline_def Let_def act_bind_def split: option.split)
  qed
qed

text \<open>What a start makes of the level, from the level \<^verbatim>\<open>info\<close>.\<close>

lemma applyPersistedLevel_run:
  assumes "logging_ok lg" "log_inv lg w" "lw_level w = InfoLevel"
  shows "\<exists>r w'. applyPersistedLevel lg clk w = Some (r, w') \<and> log_inv lg w'
    \<and> lw_level w' = (case lg_ParseLevel lg (df_LogLevel (cs_default (lw_store w))) of
        Inl _ \<Rightarrow> InfoLevel
      | Inr l \<Rightarrow> if DebugLevel \<le> l \<and> df_LogRevertAt (cs_default (lw_store w)) \<le> clk 0 then InfoLevel else l)"
proof (cases "lg_ParseLevel lg (df_LogLevel (cs_default (lw_store w)))")
  case (Inl e)
  with assms show ?thesis
    by (simp add: applyPersistedLevel_def on_store_get store_Level_def logrus_SetLevel_def log_inv_def InfoLevel_def DebugLevel_def)
next
  case (Inr l)
  have nz: "DebugLevel \<le> l \<Longrightarrow> df_LogRevertAt (cs_default (lw_store w)) \<noteq> 0"
    using assms(2) Inr by (auto simp: log_inv_def has_deadline_def verbose_def is_zero_def)
  show ?thesis
  proof (cases "DebugLevel \<le> l \<and> df_LogRevertAt (cs_default (lw_store w)) \<le> clk 0")
    case True
    have "\<not> verbose lg (lg_LevelString lg InfoLevel)" by (rule not_verbose [OF assms(1)]) (simp add: InfoLevel_def DebugLevel_def)
    with True Inr nz assms(2,3) show ?thesis
      by (auto simp: applyPersistedLevel_def on_store_get store_Level_def store_LogRevertAt_def is_zero_def log_store_defs on_store_set
          log_warn_def clearRevertStateLocked_def logrus_SetLevel_def log_inv_def has_deadline_def Let_def act_bind_def act_try_def
          InfoLevel_def DebugLevel_def split: option.split)
  next
    case False
    with Inr nz assms(2,3) show ?thesis
      by (auto simp: applyPersistedLevel_def on_store_get store_Level_def store_LogRevertAt_def is_zero_def logrus_SetLevel_def log_inv_def)
  qed
qed

lemma restart_run:
  assumes "logging_ok lg" "log_inv lg w"
  shows "\<exists>r w'. log_restart lg clk w = Some (r, w') \<and> log_inv lg w'
    \<and> lw_level w' = (case lg_ParseLevel lg (df_LogLevel (cs_file (lw_store w))) of
        Inl _ \<Rightarrow> InfoLevel
      | Inr l \<Rightarrow> if DebugLevel \<le> l \<and> df_LogRevertAt (cs_file (lw_store w)) \<le> clk 0 then InfoLevel else l)"
proof -
  let ?w0 = "w\<lparr>lw_store := (lw_store w)\<lparr>cs_default := cs_file (lw_store w)\<rparr>, lw_level := InfoLevel, lw_output := None\<rparr>"
  let ?w1 = "?w0\<lparr>lw_formatter := (if df_LogFormat (cs_file (lw_store w)) = ''json'' then ''json''
     else if df_LogFormat (cs_file (lw_store w)) = ''budzik'' then ''budzik'' else ''text'')\<rparr>"
  have i: "log_inv lg ?w1" "lw_level ?w1 = InfoLevel" using assms(2) by (simp_all add: log_inv_def InfoLevel_def DebugLevel_def)
  have d: "cs_default (lw_store ?w1) = cs_file (lw_store w)" by simp
  from applyPersistedLevel_run [OF assms(1) i, of clk, unfolded d] obtain r w2 where w2: "applyPersistedLevel lg clk ?w1 = Some (r, w2)" "log_inv lg w2"
    "lw_level w2 = (case lg_ParseLevel lg (df_LogLevel (cs_file (lw_store w))) of
        Inl _ \<Rightarrow> InfoLevel
      | Inr l \<Rightarrow> if DebugLevel \<le> l \<and> df_LogRevertAt (cs_file (lw_store w)) \<le> clk 0 then InfoLevel else l)"
    by blast
  obtain r3 w3 where w3: "setLogOutput (df_LogFile (cs_default (lw_store w2))) w2 = Some (r3, w3)" "lw_store w3 = lw_store w2" "lw_level w3 = lw_level w2"
    using setLogOutput_run by blast
  have "log_restart lg clk w = Some (r3, w3)"
    using w2(1) w3(1) by (simp add: log_restart_def InitializeLogger_def on_store_get store_Format_def store_LogFile_def setLogFormat_def)
  moreover have "log_inv lg w3" using log_inv_cong [OF w3(2,3)] w2(2) by simp
  ultimately show ?thesis using w2(3) w3(3) by auto
qed

text \<open>
  C17. A verbose level never stays for good: whatever sequence of commands and restarts arrives, and whichever saves fail, the configuration
  in memory and the one on disk have a deadline as long as their level is verbose, and so has the memory as long as the level in effect
  is verbose.
\<close>
theorem verbose_level_has_deadline:
  assumes "logging_ok lg" "log_inv lg w" "list_all (\<lambda>(clk, _). \<forall>i. 0 \<le> clk i) ops"
  shows "\<exists>w'. log_run lg ops w = Some w'
    \<and> (verbose lg (df_LogLevel (cs_default (lw_store w'))) \<longrightarrow> df_LogRevertAt (cs_default (lw_store w')) \<noteq> 0)
    \<and> (verbose lg (df_LogLevel (cs_file (lw_store w'))) \<longrightarrow> df_LogRevertAt (cs_file (lw_store w')) \<noteq> 0)
    \<and> (DebugLevel \<le> lw_level w' \<longrightarrow> df_LogRevertAt (cs_default (lw_store w')) \<noteq> 0)"
proof -
  have "\<exists>w'. log_run lg ops w = Some w' \<and> log_inv lg w'" using assms(2,3)
  proof (induction ops arbitrary: w)
    case (Cons x ops)
    obtain clk op where x: "x = (clk, op)" by (cases x)
    with Cons.prems have c: "\<And>i. 0 \<le> clk i" by auto
    have "\<exists>r w'. log_step lg clk op w = Some (r, w') \<and> log_inv lg w'"
    proof (cases op)
      case LogRestart
      then show ?thesis using restart_run [OF assms(1) Cons.prems(1), of clk] by (auto simp: log_step_def)
    qed (use Cons.prems(1) c SetLevel_inv [OF assms(1)] SetRevertTimeout_inv SetFormat_inv SetFile_inv in \<open>simp_all add: log_step_def\<close>)
    with Cons x show ?case by auto
  qed simp
  then show ?thesis by (auto simp: log_inv_def has_deadline_def is_zero_def)
qed

text \<open>
  A verbose level is reverted at the first start after its deadline: after a successful \<^verbatim>\<open>SetLevel\<close> to \<^verbatim>\<open>debug\<close> or \<^verbatim>\<open>trace\<close>, a process that
  is started before the timeout has passed runs with this level, and one that is started later runs with the level \<^verbatim>\<open>info\<close>, even if
  the reverted level cannot be saved.
\<close>
theorem verbose_level_reverts:
  assumes "logging_ok lg" "log_inv lg w" "manager_SetLevel lg clk s w = Some (Inr (), w1)" "lg_ParseLevel lg s = Inr l" "DebugLevel \<le> l"
    "\<And>i. 0 \<le> clk i"
  shows "\<exists>r w2. log_restart lg clk' w1 = Some (r, w2)
    \<and> lw_level w2 = (if clk 0 + (if df_LogRevertTimeout (cs_default (lw_store w)) \<le> 0 then defaultLogRevertTimeout
                                 else df_LogRevertTimeout (cs_default (lw_store w))) \<le> clk' 0
        then InfoLevel else l)"
proof -
  let ?t = "if df_LogRevertTimeout (cs_default (lw_store w)) \<le> 0 then defaultLogRevertTimeout else df_LogRevertTimeout (cs_default (lw_store w))"
  have i: "log_inv lg w1" using SetLevel_inv [OF assms(1,2), of clk s] assms(3,6) by auto
  have l: "lg_ParseLevel lg (lg_LevelString lg l) = Inr l" using assms(1,4) by (auto simp: logging_ok_def)
  have "df_LogLevel (cs_file (lw_store w1)) = lg_LevelString lg l" "df_LogRevertAt (cs_file (lw_store w1)) = clk 0 + ?t"
    using assms(3,4,5)
    by (auto simp: manager_SetLevel_def log_store_defs on_store_set on_store_get store_LogRevertTimeout_def logrus_SetLevel_def Let_def
        split: option.splits elim!: act_bind_InrE)
  with restart_run [OF assms(1) i, of clk'] l assms(5) show ?thesis by auto
qed

section \<open>Instances\<close>

definition demo_levels :: "string list" where
  "demo_levels = [''panic'', ''fatal'', ''error'', ''warning'', ''info'', ''debug'', ''trace'']"

definition demo_logging :: logging where
  "demo_logging =
     \<lparr>lg_ParseLevel = (\<lambda>s. case map_of (zip demo_levels [0..<7]) s of Some l \<Rightarrow> Inr l | None \<Rightarrow> Inl (Errorf ''not a valid logrus Level'')),
      lg_LevelString = (\<lambda>l. if l < 7 then demo_levels ! l else ''unknown''),
      lg_ParseDuration = (\<lambda>s. Inr (int (length s))), lg_DurationString = (\<lambda>d. ''d'')\<rparr>"

lemma demo_parse: "lg_ParseLevel demo_logging s = Inr l \<Longrightarrow> l \<le> TraceLevel"
  by (auto simp: demo_logging_def demo_levels_def TraceLevel_def upt_conv_Cons split: if_splits option.splits)

lemma demo_logging_ok: "logging_ok demo_logging"
proof -
  have "lg_ParseLevel demo_logging (lg_LevelString demo_logging l) = Inr l" if "l \<le> TraceLevel" for l
  proof -
    have "l \<in> {0, 1, 2, 3, 4, 5, 6}" using that by (auto simp: TraceLevel_def)
    then show ?thesis by (elim insertE) (simp_all add: demo_logging_def demo_levels_def upt_conv_Cons)
  qed
  with demo_parse show ?thesis by (simp add: logging_ok_def)
qed

definition demo_log :: log_world where
  "demo_log =
     \<lparr>lw_store = NewDefaultStore (NewDefault ''w'') (\<lambda>n. if n = 1 then Some (Errorf ''disk full'') else None) (\<lambda>_. ''t''),
      lw_level = InfoLevel, lw_formatter = ''text'', lw_output = None, lw_os = demo_os []\<rparr>"

lemma demo_log_inv: "log_inv demo_logging demo_log"
  by (simp add: log_inv_def has_deadline_def verbose_def demo_log_def demo_logging_def demo_levels_def NewDefaultStore_def NewDefault_def
      NewCanonicalDefault_def InfoLevel_def DebugLevel_def upt_conv_Cons)

theorem verbose_level_has_deadline_witness:
  "\<exists>w'. log_run demo_logging [(\<lambda>_. 5, LogSetLevel ''debug''), (\<lambda>_. 6, LogSetLevel ''trace''), (\<lambda>_. 7, LogRestart)] demo_log = Some w'
     \<and> (lw_level w' < DebugLevel \<or> df_LogRevertAt (cs_default (lw_store w')) \<noteq> 0)"
proof -
  have "list_all (\<lambda>(clk, _). \<forall>i. (0::int) \<le> clk (i::nat))
    [(\<lambda>_. 5, LogSetLevel ''debug''), (\<lambda>_. 6, LogSetLevel ''trace''), (\<lambda>_. 7, LogRestart)]" by simp
  from verbose_level_has_deadline [OF demo_logging_ok demo_log_inv this] show ?thesis by (auto simp: not_less)
qed

theorem verbose_level_reverts_witness:
  "\<exists>w1 r w2. manager_SetLevel demo_logging (\<lambda>_. 5) ''debug'' (demo_log\<lparr>lw_store := (lw_store demo_log)\<lparr>cs_saveErr := \<lambda>_. None\<rparr>\<rparr>) = Some (Inr (), w1)
     \<and> log_restart demo_logging (\<lambda>_. 6) w1 = Some (r, w2) \<and> lw_level w2 = DebugLevel"
proof -
  let ?w = "demo_log\<lparr>lw_store := (lw_store demo_log)\<lparr>cs_saveErr := \<lambda>_. None\<rparr>\<rparr>"
  have i: "log_inv demo_logging ?w" using demo_log_inv by (simp add: log_inv_def)
  have p: "lg_ParseLevel demo_logging ''debug'' = Inr 5" by (simp add: demo_logging_def demo_levels_def upt_conv_Cons)
  have "map_option fst (manager_SetLevel demo_logging (\<lambda>_. 5) ''debug'' ?w) = Some (Inr ())" by code_simp
  then obtain w1 where w1: "manager_SetLevel demo_logging (\<lambda>_. 5) ''debug'' ?w = Some (Inr (), w1)" by auto
  have "df_LogRevertTimeout (cs_default (lw_store ?w)) = 0"
    by (simp add: demo_log_def NewDefaultStore_def NewDefault_def NewCanonicalDefault_def)
  with verbose_level_reverts [OF demo_logging_ok i w1 p, of "\<lambda>_. 6"] w1 show ?thesis
    by (auto simp: DebugLevel_def defaultLogRevertTimeout_def)
qed

end
