(* ===== verification/Security.thy ===== *)
theory Security
  imports Storage Go_Actions
begin

text \<open>
  The encryption helpers of \<^verbatim>\<open>src/security/encryption.go\<close>: a random key kept in a file, and strings encrypted with AES in
  Galois/Counter mode and printed in hexadecimal. A Go string is a list of bytes. The two primitives of the mode, sealing and
  opening under a key and a nonce, are a parameter; \<open>gcm_ok\<close> names what is documented of them. A panic is \<open>None\<close>.
\<close>

section \<open>Hexadecimal strings (\<^verbatim>\<open>encoding/hex\<close>, and \<^verbatim>\<open>%x\<close> of \<^verbatim>\<open>fmt\<close>)\<close>

definition hex_digit :: "nat \<Rightarrow> char" where
  "hex_digit d = (if d < 10 then digit_char d else char_of (87 + d))"

fun fmt_hex :: "string \<Rightarrow> string" where
  "fmt_hex [] = []"
| "fmt_hex (c # cs) = hex_digit (of_char c div 16) # hex_digit (of_char c mod 16) # fmt_hex cs"

definition from_hex :: "char \<Rightarrow> nat option" where
  "from_hex c =
     (let n = of_char c
      in if 48 \<le> n \<and> n \<le> 57 then Some (n - 48)
         else if 97 \<le> n \<and> n \<le> 102 then Some (n - 87)
         else if 65 \<le> n \<and> n \<le> 70 then Some (n - 55)
         else None)"

definition hex_InvalidByteError :: go_error where
  "hex_InvalidByteError = Errorf ''encoding/hex: invalid byte''"

definition hex_ErrLength :: go_error where
  "hex_ErrLength = Errorf ''encoding/hex: odd length hex string''"

fun hex_DecodeString :: "string \<Rightarrow> string result" where
  "hex_DecodeString [] = Inr []"
| "hex_DecodeString [c] = Inl (if from_hex c = None then hex_InvalidByteError else hex_ErrLength)"
| "hex_DecodeString (c # d # cs) =
     (case (from_hex c, from_hex d) of
        (Some a, Some b) \<Rightarrow> bind_result (hex_DecodeString cs) (\<lambda>bs. Inr (char_of (16 * a + b) # bs))
      | _ \<Rightarrow> Inl hex_InvalidByteError)"

lemma from_hex_digit [simp]: "d < 16 \<Longrightarrow> from_hex (hex_digit d) = Some d"
  by (auto simp: from_hex_def hex_digit_def digit_char_def Let_def)

lemma of_char_less [simp]: "(of_char c :: nat) < 256"
  using of_char_mod_256 [of c, where ?'a = nat] by (metis mod_less_divisor zero_less_numeral)

lemma hex_decode_fmt [simp]: "hex_DecodeString (fmt_hex bs) = Inr bs"
  by (induction bs) (simp_all add: bind_result_def less_mult_imp_div_less)

lemma length_fmt_hex [simp]: "length (fmt_hex bs) = 2 * length bs"
  by (induction bs) simp_all

lemma hex_decode_length: "hex_DecodeString x = Inr bs \<Longrightarrow> length x = 2 * length bs"
  by (induction x arbitrary: bs rule: hex_DecodeString.induct)
    (auto simp: bind_result_def split: option.splits sum.splits)

section \<open>The world\<close>

text \<open>The operating system, and the random bytes it is still to deliver; reading them may fail.\<close>

record sec_world =
  sw_os :: os
  sw_random :: "nat \<Rightarrow> char"
  sw_pos :: nat
  sw_randomErr :: "nat \<Rightarrow> go_error option"   \<comment> \<open>by position in the random bytes\<close>

type_synonym 'a sec_act = "(sec_world, 'a) act"

definition rand_Read :: "nat \<Rightarrow> string sec_act" where
  "rand_Read n w =
     (case sw_randomErr w (sw_pos w) of
        Some e \<Rightarrow> Some (Inl e, w)
      | None \<Rightarrow> Some (Inr (map (\<lambda>i. sw_random w (sw_pos w + i)) [0..<n]), w\<lparr>sw_pos := sw_pos w + n\<rparr>))"

text \<open>A system call that only succeeds or fails, and the effect of \<^verbatim>\<open>os.Create\<close> and of a write.\<close>

definition sec_call :: "syscall \<Rightarrow> string \<Rightarrow> unit sec_act" where
  "sec_call c path w = Some (case os_fault (sw_os w) c path of Some e \<Rightarrow> Inl e | None \<Rightarrow> Inr (), w)"

definition os_Chmod :: "string \<Rightarrow> unit sec_act" where
  "os_Chmod path = sec_call SChmod path"

definition os_Create :: "string \<Rightarrow> unit sec_act" where
  "os_Create path =
     act_bind (sec_call SOpen path) (\<lambda>_.
     act_bind (act_get (\<lambda>w. os_files (sw_os w) path)) (\<lambda>n.
     if n = Some Directory then act_fail (Errorf ''is a directory'')
     else act_modify (\<lambda>w. w\<lparr>sw_os := os_put path '''' (sw_os w)\<rparr>)))"

definition file_WriteString :: "string \<Rightarrow> string \<Rightarrow> unit sec_act" where
  "file_WriteString path s w =
     (case os_fault (sw_os w) SWrite path of
        Some e \<Rightarrow> Some (Inl e, w\<lparr>sw_os := os_put path (take (os_short (sw_os w) path) s) (sw_os w)\<rparr>)
      | None \<Rightarrow> Some (Inr (), w\<lparr>sw_os := os_put path s (sw_os w)\<rparr>))"

section \<open>The key\<close>

definition GenerateKey :: "nat \<Rightarrow> string sec_act" where
  "GenerateKey keySize =
     act_bind (act_wrap ''security: could not generate random key'' (rand_Read keySize)) (\<lambda>key.
     act_return (fmt_hex key))"

definition readKeyFromFile :: "string \<Rightarrow> string sec_act" where
  "readKeyFromFile path =
     act_bind (act_wrap ''security: could not read key file'' (\<lambda>w. Some (os_ReadFile (sw_os w) path, w))) (\<lambda>key.
     act_bind (act_wrap ''security: could not set chmod on key file'' (os_Chmod path)) (\<lambda>_.
     act_return key))"

definition writeKeyFile :: "string \<Rightarrow> string sec_act" where
  "writeKeyFile path =
     act_bind (act_wrap ''security: could not generate key file'' (os_Create path)) (\<lambda>_.
     act_bind (act_wrap ''security: could not set chmod on key file'' (os_Chmod path)) (\<lambda>_.
     act_bind (act_wrap ''security: could not generate key'' (GenerateKey 32)) (\<lambda>key.
     act_bind (act_wrap ''security: could not write string to key file'' (file_WriteString path key)) (\<lambda>_.
     act_return key))))"

definition GetKey :: "string \<Rightarrow> string sec_act" where
  "GetKey path =
     act_bind (act_try (readKeyFromFile path)) (\<lambda>r.
     case r of
       Inr key \<Rightarrow> act_return key
     | Inl _ \<Rightarrow> act_wrap ''security: could not read or generate key'' (writeKeyFile path))"

section \<open>Encryption\<close>

text \<open>
  \<^verbatim>\<open>aes.NewCipher\<close> takes keys of 16, 24 or 32 bytes; \<^verbatim>\<open>cipher.NewGCM\<close> wants a cipher with blocks of 16 bytes, and uses nonces of
  12 bytes.
\<close>

datatype cipher_block = AES string
datatype aead = GCM cipher_block

definition aes_NewCipher :: "string \<Rightarrow> cipher_block result" where
  "aes_NewCipher key =
     (if length key \<in> {16, 24, 32} then Inr (AES key)
      else Inl (Errorf (''crypto/aes: invalid key size '' @ Itoa (int (length key)))))"

fun block_BlockSize :: "cipher_block \<Rightarrow> nat" where
  "block_BlockSize (AES _) = 16"

definition cipher_NewGCM :: "cipher_block \<Rightarrow> aead result" where
  "cipher_NewGCM b =
     (if block_BlockSize b \<noteq> 16 then Inl (Errorf ''cipher: NewGCM requires 128-bit block cipher'') else Inr (GCM b))"

definition gcm_NonceSize :: nat where
  "gcm_NonceSize = 12"

record gcm =
  gc_Seal :: "aead \<Rightarrow> string \<Rightarrow> string \<Rightarrow> string"
  gc_Open :: "aead \<Rightarrow> string \<Rightarrow> string \<Rightarrow> string result"

text \<open>What was sealed can be opened with the same key and nonce; what can be opened was sealed with them.\<close>

definition gcm_ok :: "gcm \<Rightarrow> bool" where
  "gcm_ok gc \<longleftrightarrow>
     (\<forall>k n p c. length n = gcm_NonceSize \<longrightarrow> (gc_Open gc k n c = Inr p \<longleftrightarrow> c = gc_Seal gc k n p))"

definition Encrypt :: "gcm \<Rightarrow> string \<Rightarrow> string \<Rightarrow> string sec_act" where
  "Encrypt gc stringToEncrypt keyString =
     act_bind (act_wrap ''security: failed to decode string'' (act_result (hex_DecodeString keyString))) (\<lambda>key.
     act_bind (act_wrap ''security: unable to create new Cipher Block from key'' (act_result (aes_NewCipher key))) (\<lambda>block.
     act_bind (act_wrap ''security: unable to create new GCM'' (act_result (cipher_NewGCM block))) (\<lambda>aesGCM.
     act_bind (act_wrap ''security: unable to create a nonce from GCM'' (rand_Read gcm_NonceSize)) (\<lambda>nonce.
     act_return (fmt_hex (nonce @ gc_Seal gc aesGCM nonce stringToEncrypt))))))"

text \<open>The slices \<^verbatim>\<open>enc[:nonceSize]\<close> and \<^verbatim>\<open>enc[nonceSize:]\<close> panic when there are fewer bytes.\<close>

definition Decrypt :: "gcm \<Rightarrow> string \<Rightarrow> string \<Rightarrow> string result option" where
  "Decrypt gc encryptedString keyString =
     (case wrap_err ''security: failed to decode key string'' (hex_DecodeString keyString) of
        Inl e \<Rightarrow> Some (Inl e)
      | Inr key \<Rightarrow>
     (case wrap_err ''security: failed to decode encrypted string'' (hex_DecodeString encryptedString) of
        Inl e \<Rightarrow> Some (Inl e)
      | Inr enc \<Rightarrow>
     (case wrap_err ''security: unable to create new Cipher Block from key'' (aes_NewCipher key) of
        Inl e \<Rightarrow> Some (Inl e)
      | Inr block \<Rightarrow>
     (case wrap_err ''security: unable to create new GCM'' (cipher_NewGCM block) of
        Inl e \<Rightarrow> Some (Inl e)
      | Inr aesGCM \<Rightarrow>
          if length enc < gcm_NonceSize then None
          else Some (wrap_err ''security: unable to decrypt string''
                       (gc_Open gc aesGCM (take gcm_NonceSize enc) (drop gcm_NonceSize enc)))))))"

text \<open>A key that the cipher takes.\<close>

definition usable_key :: "string \<Rightarrow> bool" where
  "usable_key keyString \<longleftrightarrow>
     (case hex_DecodeString keyString of Inl _ \<Rightarrow> False | Inr key \<Rightarrow> length key \<in> {16, 24, 32})"

section \<open>Lemmas\<close>

lemma usable_keyE:
  assumes "usable_key keyString"
  obtains key where "hex_DecodeString keyString = Inr key" "aes_NewCipher key = Inr (AES key)"
    "cipher_NewGCM (AES key) = Inr (GCM (AES key))"
  using assms by (auto simp: usable_key_def aes_NewCipher_def cipher_NewGCM_def split: sum.splits)

lemma usable_key_fmt_hex: "usable_key (fmt_hex bs) \<longleftrightarrow> length bs \<in> {16, 24, 32}"
  by (simp add: usable_key_def)

lemma rand_Read_length: "rand_Read n w = Some (Inr bs, w') \<Longrightarrow> length bs = n"
  by (auto simp: rand_Read_def split: option.splits)

lemma Encrypt_run:
  assumes "usable_key keyString"
  shows "\<exists>key. hex_DecodeString keyString = Inr key \<and>
    Encrypt gc s keyString w =
      act_bind (act_wrap ''security: unable to create a nonce from GCM'' (rand_Read gcm_NonceSize))
        (\<lambda>nonce. act_return (fmt_hex (nonce @ gc_Seal gc (GCM (AES key)) nonce s))) w"
proof -
  obtain key where k: "hex_DecodeString keyString = Inr key" "aes_NewCipher key = Inr (AES key)"
      "cipher_NewGCM (AES key) = Inr (GCM (AES key))"
    using assms by (rule usable_keyE)
  then show ?thesis by (simp add: Encrypt_def)
qed

lemma Decrypt_run:
  assumes "usable_key keyString" "hex_DecodeString encrypted = Inr enc"
  shows "\<exists>key. hex_DecodeString keyString = Inr key \<and>
    Decrypt gc encrypted keyString =
      (if length enc < gcm_NonceSize then None
       else Some (wrap_err ''security: unable to decrypt string''
         (gc_Open gc (GCM (AES key)) (take gcm_NonceSize enc) (drop gcm_NonceSize enc))))"
  using assms(1) by (rule usable_keyE) (simp add: Decrypt_def assms(2))

lemma unusable_key:
  assumes "\<not> usable_key keyString"
  shows "\<exists>e. Encrypt gc s keyString w = Some (Inl e, w)" "\<exists>e. Decrypt gc x keyString = Some (Inl e)"
  using assms
  by (auto simp: Encrypt_def Decrypt_def usable_key_def aes_NewCipher_def split: sum.splits)

lemma Encrypt_usable: "Encrypt gc s keyString w = Some (Inr x, w') \<Longrightarrow> usable_key keyString"
  using unusable_key(1) [of keyString gc s w] by fastforce

section \<open>Properties of the encryption\<close>

text \<open>
  C38. What was encrypted is decrypted with the same key, whatever the nonce was; encryption fails only for a key that is not 16, 24 or
  32 bytes in hexadecimal, or when no random bytes can be read.
\<close>
theorem Decrypt_Encrypt:
  assumes "gcm_ok gc"
  shows "(if usable_key keyString \<and> sw_randomErr w (sw_pos w) = None
          then \<exists>x w'. Encrypt gc s keyString w = Some (Inr x, w') \<and> Decrypt gc x keyString = Some (Inr s)
          else \<exists>e. Encrypt gc s keyString w = Some (Inl e, w))"
proof (cases "usable_key keyString")
  case True
  from Encrypt_run [OF True] obtain key where k: "hex_DecodeString keyString = Inr key"
    "Encrypt gc s keyString w =
      act_bind (act_wrap ''security: unable to create a nonce from GCM'' (rand_Read gcm_NonceSize))
        (\<lambda>nonce. act_return (fmt_hex (nonce @ gc_Seal gc (GCM (AES key)) nonce s))) w" by blast
  show ?thesis
  proof (cases "sw_randomErr w (sw_pos w)")
    case None
    then obtain nonce w' where r: "rand_Read gcm_NonceSize w = Some (Inr nonce, w')"
      by (simp add: rand_Read_def)
    note len = rand_Read_length [OF r]
    let ?x = "fmt_hex (nonce @ gc_Seal gc (GCM (AES key)) nonce s)"
    have "Encrypt gc s keyString w = Some (Inr ?x, w')"
      unfolding k(2) using r by simp
    moreover have "Decrypt gc ?x keyString = Some (Inr s)"
      using Decrypt_run [OF True hex_decode_fmt, of gc "nonce @ gc_Seal gc (GCM (AES key)) nonce s"] k(1) len assms
      by (auto simp: gcm_ok_def)
    ultimately show ?thesis using True None by auto
  next
    case (Some e)
    then show ?thesis using True k(2) by (simp add: rand_Read_def)
  qed
next
  case False
  then show ?thesis using unusable_key(1) [OF False, of gc s w] by simp
qed

text \<open>
  Decryption panics exactly on texts that decode to fewer bytes than a nonce has, the empty text among them.
\<close>
theorem Decrypt_panics_iff:
  "Decrypt gc x keyString = None \<longleftrightarrow>
     usable_key keyString \<and> length x < 24 \<and> \<not> isl (hex_DecodeString x)"
proof (cases "usable_key keyString")
  case True
  show ?thesis
  proof (cases "hex_DecodeString x")
    case (Inl e)
    with True show ?thesis by (auto simp: Decrypt_def elim!: usable_keyE)
  next
    case (Inr enc)
    from Decrypt_run [OF True Inr, of gc] True Inr hex_decode_length [OF Inr] show ?thesis
      by (auto simp: gcm_NonceSize_def split: if_splits)
  qed
next
  case False
  then show ?thesis using unusable_key(2) [OF False, of gc x] by auto
qed

text \<open>Nothing is decrypted but what encryption prints, for some nonce, up to the case of the digits.\<close>

definition hex_lower :: "char \<Rightarrow> char" where
  "hex_lower c = (if 65 \<le> (of_char c :: nat) \<and> (of_char c :: nat) \<le> 70 then char_of ((of_char c :: nat) + 32) else c)"

lemma from_hex_lower: "from_hex c = Some a \<Longrightarrow> a < 16 \<and> hex_digit a = hex_lower c"
  by (auto simp: from_hex_def hex_digit_def hex_lower_def digit_char_def Let_def split: if_splits)

lemma hex_decode_lower: "hex_DecodeString x = Inr bs \<Longrightarrow> map hex_lower x = fmt_hex bs"
  by (induction x arbitrary: bs rule: hex_DecodeString.induct)
    (auto simp: bind_result_def split: option.splits sum.splits dest!: from_hex_lower)

theorem Decrypt_authentic:
  assumes "gcm_ok gc" "Decrypt gc x keyString = Some (Inr s)"
  shows "\<exists>w w'. Encrypt gc s keyString w = Some (Inr (map hex_lower x), w')"
proof -
  have u: "usable_key keyString" using unusable_key(2) [of keyString gc x] assms(2) by fastforce
  obtain enc where enc: "hex_DecodeString x = Inr enc"
    using assms(2) u by (cases "hex_DecodeString x") (auto simp: Decrypt_def elim!: usable_keyE)
  let ?n = "take gcm_NonceSize enc" and ?c = "drop gcm_NonceSize enc"
  from Decrypt_run [OF u enc] obtain key where k: "hex_DecodeString keyString = Inr key"
    and d: "Decrypt gc x keyString = (if length enc < gcm_NonceSize then None
      else Some (wrap_err ''security: unable to decrypt string'' (gc_Open gc (GCM (AES key)) ?n ?c)))" by blast
  have len: "gcm_NonceSize \<le> length enc" using d assms(2) by (simp split: if_splits)
  have "gc_Open gc (GCM (AES key)) ?n ?c = Inr s"
    using d assms(2) len by (simp add: wrap_err_def split: sum.splits)
  then have c: "?c = gc_Seal gc (GCM (AES key)) ?n s"
    using assms(1) len by (simp add: gcm_ok_def)
  let ?w = "\<lparr>sw_os = demo_os [], sw_random = (\<lambda>i. enc ! i), sw_pos = 0, sw_randomErr = (\<lambda>_. None)\<rparr>"
  have "map ((!) enc) [0..<gcm_NonceSize] = ?n"
    using len by (intro nth_equalityI) auto
  then have r: "rand_Read gcm_NonceSize ?w = Some (Inr ?n, ?w\<lparr>sw_pos := gcm_NonceSize\<rparr>)"
    by (simp add: rand_Read_def)
  have "Encrypt gc s keyString ?w = Some (Inr (fmt_hex (?n @ ?c)), ?w\<lparr>sw_pos := gcm_NonceSize\<rparr>)"
    using Encrypt_run [OF u, of gc s ?w] k r by (auto simp: c)
  then show ?thesis using hex_decode_lower [OF enc] by auto
qed

section \<open>Properties of the key file\<close>

definition sec_calm :: "sec_world \<Rightarrow> bool" where
  "sec_calm w \<longleftrightarrow> healthy (sw_os w) \<and> (\<forall>i. sw_randomErr w i = None)"

lemma readKeyFromFile_file:
  assumes "healthy (sw_os w)" "os_files (sw_os w) path = Some (RegFile key)"
  shows "readKeyFromFile path w = Some (Inr key, w)"
proof -
  have "os_Chmod path w = Some (Inr (), w)"
    using assms(1) by (simp add: os_Chmod_def sec_call_def healthy_def)
  moreover have "os_ReadFile (sw_os w) path = Inr key"
    using assms by (simp add: os_ReadFile_def healthy_def)
  ultimately show ?thesis by (simp add: readKeyFromFile_def)
qed

lemma GetKey_file:
  "healthy (sw_os w) \<Longrightarrow> os_files (sw_os w) path = Some (RegFile key) \<Longrightarrow> GetKey path w = Some (Inr key, w)"
  using readKeyFromFile_file [of w path key] by (simp add: GetKey_def)

lemma GetKey_unreadable:
  assumes "readKeyFromFile path w = Some (Inl e, w)"
  shows "GetKey path w = act_wrap ''security: could not read or generate key'' (writeKeyFile path) w"
  using assms by (simp add: GetKey_def)

text \<open>What \<^verbatim>\<open>writeKeyFile\<close> does when no call fails: a new key of 32 random bytes replaces whatever the file held.\<close>

lemma writeKeyFile_run:
  assumes "\<forall>c. c \<in> {SOpen, SChmod, SWrite} \<longrightarrow> os_fault (sw_os w) c path = None"
    and "os_files (sw_os w) path \<noteq> Some Directory" "sw_randomErr w (sw_pos w) = None"
  defines "key \<equiv> fmt_hex (map (\<lambda>i. sw_random w (sw_pos w + i)) [0..<32])"
  shows "writeKeyFile path w = Some (Inr key, w\<lparr>sw_os := os_put path key (sw_os w), sw_pos := sw_pos w + 32\<rparr>)"
proof -
  let ?w1 = "w\<lparr>sw_os := os_put path '''' (sw_os w)\<rparr>"
  have f: "os_fault (sw_os w) SOpen path = None" "os_fault (sw_os w) SChmod path = None"
    "os_fault (sw_os w) SWrite path = None" using assms(1) by simp_all
  have put: "os_fault (os_put path b (sw_os w)) = os_fault (sw_os w)" for b by (simp add: os_put_def)
  have "os_Create path w = Some (Inr (), ?w1)"
    using f assms(2) by (simp add: os_Create_def sec_call_def)
  moreover have "os_Chmod path ?w1 = Some (Inr (), ?w1)"
    using f by (simp add: os_Chmod_def sec_call_def put)
  moreover have "GenerateKey 32 ?w1 = Some (Inr key, ?w1\<lparr>sw_pos := sw_pos w + 32\<rparr>)"
    using assms(3) by (simp add: GenerateKey_def rand_Read_def key_def)
  moreover have "file_WriteString path key (?w1\<lparr>sw_pos := sw_pos w + 32\<rparr>)
      = Some (Inr (), w\<lparr>sw_os := os_put path key (sw_os w), sw_pos := sw_pos w + 32\<rparr>)"
    using f by (simp add: file_WriteString_def put)
  ultimately show ?thesis by (simp add: writeKeyFile_def)
qed

text \<open>
  On a system without failures \<^verbatim>\<open>GetKey\<close> returns the key of the file, or a new usable one, and every later call returns the same
  and changes nothing.
\<close>
theorem GetKey_stable:
  assumes "sec_calm w" "os_files (sw_os w) path \<noteq> Some Directory"
  shows "\<exists>key w'. GetKey path w = Some (Inr key, w') \<and> GetKey path w' = Some (Inr key, w')
    \<and> (case os_files (sw_os w) path of Some (RegFile k) \<Rightarrow> key = k \<and> w' = w | _ \<Rightarrow> usable_key key)"
proof (cases "os_files (sw_os w) path")
  case None
  let ?key = "fmt_hex (map (\<lambda>i. sw_random w (sw_pos w + i)) [0..<32])"
  let ?w' = "w\<lparr>sw_os := os_put path ?key (sw_os w), sw_pos := sw_pos w + 32\<rparr>"
  have "os_ReadFile (sw_os w) path = Inl (Errorf ''no such file or directory'')"
    using assms(1) None by (simp add: os_ReadFile_def sec_calm_def healthy_def)
  then have "\<exists>e. readKeyFromFile path w = Some (Inl e, w)" by (simp add: readKeyFromFile_def)
  then obtain e where "readKeyFromFile path w = Some (Inl e, w)" by blast
  moreover have "writeKeyFile path w = Some (Inr ?key, ?w')"
    using writeKeyFile_run [of w path] assms by (simp add: sec_calm_def healthy_def)
  ultimately have "GetKey path w = Some (Inr ?key, ?w')" using GetKey_unreadable [of path w e] by simp
  moreover have "GetKey path ?w' = Some (Inr ?key, ?w')"
    using GetKey_file [of ?w' path ?key] assms(1) by (simp add: sec_calm_def)
  ultimately show ?thesis using None usable_key_fmt_hex by (auto intro!: exI [of _ ?key])
next
  case (Some n)
  then obtain k where "os_files (sw_os w) path = Some (RegFile k)" using assms(2) by (cases n) auto
  then show ?thesis using GetKey_file [of w path k] assms(1) by (simp add: sec_calm_def)
qed

text \<open>
  Whatever makes reading the key file fail, a file that can still be opened for writing is overwritten: with a new key when the
  rest succeeds, and with nothing when the permissions cannot be set. The old key is lost either way, and what is left of the
  second case is accepted as a key by the next call.
\<close>
theorem GetKey_destroys_key:
  assumes "os_files (sw_os w) path = Some (RegFile k)" "sw_randomErr w (sw_pos w) = None"
    and "os_fault (sw_os w) SOpen path = None" "os_fault (sw_os w) SWrite path = None"
  shows "os_fault (sw_os w) SRead path = Some e \<Longrightarrow> os_fault (sw_os w) SChmod path = None \<Longrightarrow>
      \<exists>key w'. GetKey path w = Some (Inr key, w') \<and> os_files (sw_os w') path = Some (RegFile key)
        \<and> key = fmt_hex (map (\<lambda>i. sw_random w (sw_pos w + i)) [0..<32])"
    and "os_fault (sw_os w) SChmod path = Some e \<Longrightarrow>
      \<exists>e' w'. GetKey path w = Some (Inl e', w') \<and> os_files (sw_os w') path = Some (RegFile '''')
        \<and> (\<forall>w2. healthy (sw_os w2) \<and> os_files (sw_os w2) = os_files (sw_os w') \<longrightarrow> GetKey path w2 = Some (Inr '''', w2))"
proof -
  assume e: "os_fault (sw_os w) SRead path = Some e" "os_fault (sw_os w) SChmod path = None"
  let ?key = "fmt_hex (map (\<lambda>i. sw_random w (sw_pos w + i)) [0..<32])"
  have "os_ReadFile (sw_os w) path = Inl e" using e(1) by (simp add: os_ReadFile_def)
  then have "readKeyFromFile path w = Some (Inl (Wrapf ''security: could not read key file'' e), w)"
    by (simp add: readKeyFromFile_def)
  moreover have "writeKeyFile path w = Some (Inr ?key, w\<lparr>sw_os := os_put path ?key (sw_os w), sw_pos := sw_pos w + 32\<rparr>)"
    using writeKeyFile_run [of w path] assms e by simp
  ultimately show "\<exists>key w'. GetKey path w = Some (Inr key, w') \<and> os_files (sw_os w') path = Some (RegFile key) \<and> key = ?key"
    by (simp add: GetKey_def)
next
  assume e: "os_fault (sw_os w) SChmod path = Some e"
  let ?w1 = "w\<lparr>sw_os := os_put path '''' (sw_os w)\<rparr>"
  have "\<exists>e1. readKeyFromFile path w = Some (Inl e1, w)"
    using e by (cases "os_ReadFile (sw_os w) path") (simp_all add: readKeyFromFile_def os_Chmod_def sec_call_def)
  then obtain e1 where r: "readKeyFromFile path w = Some (Inl e1, w)" by blast
  have "os_Create path w = Some (Inr (), ?w1)"
    using assms by (simp add: os_Create_def sec_call_def)
  moreover have "os_Chmod path ?w1 = Some (Inl e, ?w1)"
    using e by (simp add: os_Chmod_def sec_call_def os_put_def)
  ultimately have "writeKeyFile path w = Some (Inl (Wrapf ''security: could not set chmod on key file'' e), ?w1)"
    by (simp add: writeKeyFile_def)
  then have "\<exists>e'. GetKey path w = Some (Inl e', ?w1)" using r by (simp add: GetKey_def)
  moreover have "os_files (sw_os ?w1) path = Some (RegFile '''')" by simp
  moreover have "GetKey path w2 = Some (Inr '''', w2)"
    if "healthy (sw_os w2) \<and> os_files (sw_os w2) = os_files (sw_os ?w1)" for w2
    using that GetKey_file [of w2 path] by simp
  ultimately show "\<exists>e' w'. GetKey path w = Some (Inl e', w') \<and> os_files (sw_os w') path = Some (RegFile '''')
        \<and> (\<forall>w2. healthy (sw_os w2) \<and> os_files (sw_os w2) = os_files (sw_os w') \<longrightarrow> GetKey path w2 = Some (Inr '''', w2))"
    by blast
qed

text \<open>With the empty key nothing is encrypted or decrypted.\<close>

lemma empty_key_useless:
  "\<exists>e. Encrypt gc s '''' w = Some (Inl e, w)" "\<exists>e. Decrypt gc x '''' = Some (Inl e)"
  by (rule unusable_key, simp add: usable_key_def)+

section \<open>An instance\<close>

text \<open>A sealing that appends the nonce reversed, and opens nothing else.\<close>

definition demo_gcm :: gcm where
  "demo_gcm =
     \<lparr>gc_Seal = (\<lambda>k n p. p @ rev n),
      gc_Open = (\<lambda>k n c. if length n \<le> length c \<and> drop (length c - length n) c = rev n
                         then Inr (take (length c - length n) c)
                         else Inl (Errorf ''cipher: message authentication failed''))\<rparr>"

lemma demo_gcm_ok: "gcm_ok demo_gcm"
  unfolding gcm_ok_def demo_gcm_def by auto (metis append_take_drop_id)

definition demo_sec :: sec_world where
  "demo_sec = \<lparr>sw_os = demo_os [], sw_random = (\<lambda>i. char_of (i + 200)), sw_pos = 0, sw_randomErr = (\<lambda>_. None)\<rparr>"

theorem Decrypt_Encrypt_witness:
  "\<exists>x w'. Encrypt demo_gcm ''secret'' (fmt_hex (replicate 16 CHR ''k'')) demo_sec = Some (Inr x, w')
     \<and> Decrypt demo_gcm x (fmt_hex (replicate 16 CHR ''k'')) = Some (Inr ''secret'')"
  using Decrypt_Encrypt [OF demo_gcm_ok, of "fmt_hex (replicate 16 CHR ''k'')" demo_sec "''secret''"]
  by (simp only: usable_key_fmt_hex length_replicate) (simp add: demo_sec_def)

end
