(* ===== verification/Clients.thy ===== *)
theory Clients
  imports Fimp Storage Go_Actions
begin

text \<open>
  The clients of other services: the hub's information files and its token (\<^verbatim>\<open>src/hub\<close>), the OAuth proxy (\<^verbatim>\<open>src/auth\<close>), and
  notifications and timeline (\<^verbatim>\<open>src/notification\<close>). The transport of \<^verbatim>\<open>net/http\<close>, the synchronous FIMP client and the JSON
  codecs are parameters.
\<close>

section \<open>The hub (\<^verbatim>\<open>hub/info.go\<close>)\<close>

definition hubV1FilePath :: string where "hubV1FilePath = ''/var/lib/futurehome/hub/hub.json''"
definition hubV2FilePath :: string where "hubV2FilePath = ''/var/lib/futurehome/hub/hub_v2.json''"

definition EnvBeta :: string where "EnvBeta = ''beta''"
definition EnvProd :: string where "EnvProd = ''prod''"

record hub_info =
  hi_HubID :: string
  hi_SiteID :: string
  hi_SiteName :: string
  hi_SiteType :: string
  hi_Environment :: string
  hi_CloudAPIRootURL :: string

definition hub_info_zero :: hub_info where
  "hub_info_zero = \<lparr>hi_HubID = '''', hi_SiteID = '''', hi_SiteName = '''', hi_SiteType = '''',
     hi_Environment = '''', hi_CloudAPIRootURL = ''''\<rparr>"

text \<open>\<^verbatim>\<open>os.Stat\<close>: whether the path is a directory, and its modification time, which the parameter \<open>mtime\<close> gives.\<close>

definition os_Stat :: "(string \<Rightarrow> time) \<Rightarrow> os \<Rightarrow> string \<Rightarrow> (bool \<times> time) result" where
  "os_Stat mtime os path =
     (case os_fault os SStat path of
        Some e \<Rightarrow> Inl e
      | None \<Rightarrow>
          (case os_files os path of
             None \<Rightarrow> Inl (Errorf ''no such file or directory'')
           | Some n \<Rightarrow> Inr (n = Directory, mtime path)))"

definition hub_preferredPath :: "(string \<Rightarrow> time) \<Rightarrow> os \<Rightarrow> string \<Rightarrow> string" where
  "hub_preferredPath mtime os path0 =
     (let path = (if path0 = '''' then hubV1FilePath else path0)
      in if path = hubV1FilePath
         then (case os_Stat mtime os hubV2FilePath of
                 Inr (False, t2) \<Rightarrow>
                   (case os_Stat mtime os hubV1FilePath of
                      Inl _ \<Rightarrow> hubV2FilePath
                    | Inr (_, t1) \<Rightarrow> if t1 < t2 then hubV2FilePath else path)
               | _ \<Rightarrow> path)
         else path)"

definition LoadInfo :: "hub_info json \<Rightarrow> (string \<Rightarrow> time) \<Rightarrow> os \<Rightarrow> string \<Rightarrow> hub_info result" where
  "LoadInfo js mtime os path0 =
     (let path = hub_preferredPath mtime os path0;
          other = (if path \<noteq> hubV2FilePath then hubV2FilePath else hubV1FilePath);
          (path, body) = (case os_ReadFile os path of Inr b \<Rightarrow> (path, Inr b) | Inl _ \<Rightarrow> (other, os_ReadFile os other))
      in case body of
           Inl e \<Rightarrow> Inl (Wrapf (''info loader: failed to load info file at path '' @ path) e)
         | Inr b \<Rightarrow>
             (case js_Unmarshal js b hub_info_zero of
                (_, Some e) \<Rightarrow> Inl (Wrapf (''info loader: failed to unmarshal info file at path '' @ path) e)
              | (info, None) \<Rightarrow> Inr info))"

section \<open>The token of the hub (\<^verbatim>\<open>hub/token.go\<close>)\<close>

record token_config =
  tc_ResourceName :: string
  tc_MQTTServerURI :: string
  tc_MQTTUsername :: string
  tc_MQTTPassword :: string
  tc_MQTTClientIDPrefix :: string
  tc_Retry :: int
  tc_RetryDelay :: duration

definition token_setDefaults :: "token_config \<Rightarrow> token_config" where
  "token_setDefaults cfg0 =
     (let cfg = (if tc_MQTTServerURI cfg0 = '''' then cfg0\<lparr>tc_MQTTServerURI := ''tcp://localhost:1883''\<rparr> else cfg0);
          cfg = (if tc_Retry cfg = 0 then cfg\<lparr>tc_Retry := 7\<rparr> else cfg);
          cfg = (if tc_RetryDelay cfg = 0 then cfg\<lparr>tc_RetryDelay := 30 * 1000000000\<rparr> else cfg);
          cfg = (if tc_MQTTClientIDPrefix cfg = '''' then cfg\<lparr>tc_MQTTClientIDPrefix := tc_ResourceName cfg\<rparr> else cfg)
      in cfg\<lparr>tc_MQTTClientIDPrefix := tc_MQTTClientIDPrefix cfg @ ''_hub_token_loader''\<rparr>)"

text \<open>
  What the loader does to the world, in order; and how the transport, the subscription and the requests turn out, each
  request by its number.
\<close>

datatype token_event =
    MqttStart string string string string
  | DefaultSource string
  | Subscribed string
  | Sent string fimp_message nat
  | Slept duration
  | ClientStop
  | MqttStop

record token_world =
  tw_trace :: "token_event list"
  tw_requests :: nat
  tw_startErr :: "go_error option"
  tw_subscribeErr :: "go_error option"
  tw_answers :: "nat \<Rightarrow> fimp_message result"

type_synonym 'a token_act = "(token_world, 'a) act"

definition tw_emit :: "token_event \<Rightarrow> unit token_act" where
  "tw_emit e = act_modify (\<lambda>w. w\<lparr>tw_trace := tw_trace w @ [e]\<rparr>)"

definition mqtt_Start :: "string \<Rightarrow> string \<Rightarrow> string \<Rightarrow> string \<Rightarrow> unit token_act" where
  "mqtt_Start uri clientID username password =
     act_bind (act_get tw_startErr) (\<lambda>e.
     case e of Some e \<Rightarrow> act_fail e | None \<Rightarrow> tw_emit (MqttStart uri clientID username password))"

definition sync_AddSubscription :: "string \<Rightarrow> unit token_act" where
  "sync_AddSubscription topic =
     act_bind (act_get tw_subscribeErr) (\<lambda>e. case e of Some e \<Rightarrow> act_fail e | None \<Rightarrow> tw_emit (Subscribed topic))"

definition sync_SendFimp :: "string \<Rightarrow> fimp_message \<Rightarrow> nat \<Rightarrow> fimp_message token_act" where
  "sync_SendFimp topic msg timeout w =
     Some (tw_answers w (tw_requests w),
           w\<lparr>tw_requests := Suc (tw_requests w), tw_trace := tw_trace w @ [Sent topic msg timeout]\<rparr>)"

text \<open>The loop over \<^verbatim>\<open>Retry\<close>, with the variables \<^verbatim>\<open>response\<close> and \<^verbatim>\<open>err\<close>, which start as nil.\<close>

fun token_retry ::
  "nat \<Rightarrow> duration \<Rightarrow> fimp_message \<Rightarrow> go_error option \<Rightarrow> (fimp_message option \<times> go_error option) token_act" where
  "token_retry 0 delay req err = act_return (None, err)"
| "token_retry (Suc n) delay req err =
     act_bind (act_try (sync_SendFimp ''pt:j1/mt:cmd/rt:app/rn:clbridge/ad:1'' req 5)) (\<lambda>r.
     case r of
       Inr response \<Rightarrow> act_return (Some response, None)
     | Inl e \<Rightarrow> act_bind (tw_emit (Slept delay)) (\<lambda>_. token_retry n delay req (Some e)))"

definition token_request :: "fimpgo \<Rightarrow> string \<Rightarrow> fimp_message" where
  "token_request fg responseTopic =
     (fg_New fg KString ''cmd.clbridge.get_auth_token'' ''clbridge'' (VString '''') [] None)\<lparr>pl_ResponseToTopic := responseTopic\<rparr>"

definition loader_responseTopic :: "token_config \<Rightarrow> string" where
  "loader_responseTopic cfg = ''pt:j1/mt:rsp/rt:app/rn:'' @ tc_ResourceName cfg @ ''/ad:1''"

text \<open>With no attempt at all, the nil response is dereferenced.\<close>

definition loader_requestToken :: "fimpgo \<Rightarrow> token_config \<Rightarrow> string token_act" where
  "loader_requestToken fg cfg =
     act_bind (act_wrap ''subscription err'' (sync_AddSubscription (loader_responseTopic cfg))) (\<lambda>_.
     act_bind (token_retry (nat (tc_Retry cfg)) (tc_RetryDelay cfg) (token_request fg (loader_responseTopic cfg)) None) (\<lambda>(response, err).
     case err of
       Some e \<Rightarrow> act_fail (Wrapf ''token loader: failed to retrieve hub token'' e)
     | None \<Rightarrow>
         act_bind (act_option response) (\<lambda>m.
         if pl_Interface m \<noteq> ''evt.clbridge.auth_token_report''
         then act_fail (Errorf (''token loader: wrong message type receiced, expected evt.clbridge.auth_token_report, got '' @ pl_Interface m))
         else act_wrap ''token loader: wrong message format'' (act_result (fg_GetStringValue fg m)))))"

text \<open>The deferred calls run in the opposite order, whatever the request returns.\<close>

definition loader_LoadToken :: "fimpgo \<Rightarrow> token_config \<Rightarrow> string token_act" where
  "loader_LoadToken fg cfg =
     act_bind (act_wrap ''token loader: failed to start MQTT''
                 (mqtt_Start (tc_MQTTServerURI cfg) (tc_MQTTClientIDPrefix cfg) (tc_MQTTUsername cfg) (tc_MQTTPassword cfg))) (\<lambda>_.
     act_bind (tw_emit (DefaultSource (tc_ResourceName cfg))) (\<lambda>_.
     act_bind (act_try (loader_requestToken fg cfg)) (\<lambda>r.
     act_bind (tw_emit ClientStop) (\<lambda>_.
     act_bind (tw_emit MqttStop) (\<lambda>_.
     act_result r)))))"

definition NewTokenLoader :: "token_config \<Rightarrow> token_config" where
  "NewTokenLoader cfg = token_setDefaults cfg"

definition LoadToken :: "fimpgo \<Rightarrow> string \<Rightarrow> string token_act" where
  "LoadToken fg resourceName =
     loader_LoadToken fg
       (NewTokenLoader \<lparr>tc_ResourceName = resourceName, tc_MQTTServerURI = '''', tc_MQTTUsername = '''',
          tc_MQTTPassword = '''', tc_MQTTClientIDPrefix = '''', tc_Retry = 0, tc_RetryDelay = 0\<rparr>)"

section \<open>The OAuth proxy (\<^verbatim>\<open>auth/client.go\<close>, \<^verbatim>\<open>auth/model.go\<close>)\<close>

record oauth_token_response =
  ot_AccessToken :: string
  ot_TokenType :: string
  ot_ExpiresIn :: int
  ot_RefreshToken :: string
  ot_Scope :: fimp_value

datatype oauth_request =
    OAuth2RefreshProxyRequest string string    \<comment> \<open>\<^verbatim>\<open>refreshToken\<close>, \<^verbatim>\<open>partnerCode\<close>\<close>
  | OAuth2AuthCodeProxyRequest string string   \<comment> \<open>\<^verbatim>\<open>code\<close>, \<^verbatim>\<open>partnerCode\<close>\<close>

definition ProxyURL :: "string \<Rightarrow> string" where
  "ProxyURL environment =
     (if environment = EnvBeta then ''https://partners-beta.futurehome.io'' else ''https://partners.futurehome.io'')"

definition ProxyCallbackURL :: "string \<Rightarrow> string" where
  "ProxyCallbackURL environment =
     (if environment = EnvBeta then ''https://app-static-beta.futurehome.io/playground_oauth_callback''
      else ''https://app-static.futurehome.io/playground_oauth_callback'')"

record proxy_config =
  px_PartnerCode :: string
  px_Token :: string
  px_URL :: string
  px_Retry :: int
  px_RetryDelay :: duration
  px_Timeout :: duration
  px_Headers :: "(string \<times> string) list"

definition proxy_setDefaults :: "proxy_config \<Rightarrow> proxy_config" where
  "proxy_setDefaults cfg =
     (let cfg = (if px_URL cfg = '''' then cfg\<lparr>px_URL := ProxyURL EnvProd\<rparr> else cfg)
      in if px_Timeout cfg = 0 then cfg\<lparr>px_Timeout := 60 * 1000000000\<rparr> else cfg)"

text \<open>The client keeps a copy of the configuration, headers included; its HTTP client has the timeout of it.\<close>

record proxy_client =
  pc_cfg :: proxy_config
  pc_clientTimeout :: duration

definition NewProxyClient :: "proxy_config \<Rightarrow> proxy_client" where
  "NewProxyClient cfg0 =
     (let cfg = proxy_setDefaults cfg0 in \<lparr>pc_cfg = cfg, pc_clientTimeout = px_Timeout cfg\<rparr>)"

text \<open>
  Headers: \<^verbatim>\<open>http.CanonicalHeaderKey\<close> makes the first letter and those after a hyphen upper case and the others lower case,
  unless some byte may not occur in the name of a header; \<^verbatim>\<open>Header.Add\<close> appends to the values of the canonical key.
\<close>

definition is_upper :: "char \<Rightarrow> bool" where
  "is_upper c \<longleftrightarrow> 65 \<le> (of_char c :: nat) \<and> (of_char c :: nat) \<le> 90"

definition is_lower :: "char \<Rightarrow> bool" where
  "is_lower c \<longleftrightarrow> 97 \<le> (of_char c :: nat) \<and> (of_char c :: nat) \<le> 122"

definition validHeaderFieldByte :: "char \<Rightarrow> bool" where
  "validHeaderFieldByte c \<longleftrightarrow>
     is_upper c \<or> is_lower c \<or> (48 \<le> (of_char c :: nat) \<and> (of_char c :: nat) \<le> 57)
   \<or> c \<in> {CHR ''!'', CHR ''#'', CHR 0x24, CHR ''%'', CHR ''&'', CHR 0x27, CHR ''*'', CHR ''+'', CHR ''-'', CHR ''.'',
           CHR ''^'', CHR ''_'', CHR 0x60, CHR ''|'', CHR ''~''}"

fun canonical_bytes :: "bool \<Rightarrow> string \<Rightarrow> string" where
  "canonical_bytes upper [] = []"
| "canonical_bytes upper (c # cs) =
     (let c' = (if upper \<and> is_lower c then char_of ((of_char c :: nat) - 32)
                else if \<not> upper \<and> is_upper c then char_of ((of_char c :: nat) + 32) else c)
      in c' # canonical_bytes (c' = CHR ''-'') cs)"

definition CanonicalHeaderKey :: "string \<Rightarrow> string" where
  "CanonicalHeaderKey s = (if list_all validHeaderFieldByte s then canonical_bytes True s else s)"

type_synonym http_header = "string \<Rightarrow> string list"

definition header_Add :: "string \<Rightarrow> string \<Rightarrow> http_header \<Rightarrow> http_header" where
  "header_Add k v h = h(CanonicalHeaderKey k := h (CanonicalHeaderKey k) @ [v])"

text \<open>A request, whose body is the buffer with the bytes that have not been read yet.\<close>

record http_request =
  rq_Method :: string
  rq_URL :: string
  rq_Header :: http_header
  rq_Body :: string

text \<open>
  How one call of \<^verbatim>\<open>Client.Do\<close> turns out: no connection, in which case the body is not read; an error after the body has been
  read, such as a timeout or a reset of the connection; or an answer, with its status and the result of reading it, after the
  body has been read. The calls are numbered; the transport sees the request as it is
  handed over.
\<close>

datatype exchange = Refused go_error | Broken go_error | Answered int "string result"

record proxy_world =
  pw_transport :: "nat \<Rightarrow> http_request \<Rightarrow> exchange"
  pw_handed :: "http_request list"
  pw_sleeps :: "duration list"
  pw_request :: http_request    \<comment> \<open>the request \<^verbatim>\<open>r\<close> of \<^verbatim>\<open>getToken\<close>\<close>

type_synonym 'a proxy_act = "(proxy_world, 'a) act"

definition client_Do :: "(int \<times> string result) proxy_act" where
  "client_Do w =
     (let r = pw_request w; w' = w\<lparr>pw_handed := pw_handed w @ [r]\<rparr>
      in case pw_transport w (length (pw_handed w)) r of
           Refused e \<Rightarrow> Some (Inl e, w')
         | Broken e \<Rightarrow> Some (Inl e, w'\<lparr>pw_request := r\<lparr>rq_Body := ''''\<rparr>\<rparr>)
         | Answered status body \<Rightarrow> Some (Inr (status, body), w'\<lparr>pw_request := r\<lparr>rq_Body := ''''\<rparr>\<rparr>))"

record oauth_json =
  oj_Marshal :: "oauth_request \<Rightarrow> string result"
  oj_Unmarshal :: "string \<Rightarrow> oauth_token_response result"
  oj_parseURL :: "string \<Rightarrow> go_error option"   \<comment> \<open>why \<^verbatim>\<open>http.NewRequest\<close> refuses a URL\<close>

definition client_requestToken :: "oauth_json \<Rightarrow> oauth_token_response proxy_act" where
  "client_requestToken oj =
     act_bind (act_wrap ''proxy proxyClient: failed to retrieve token from partner API due to an error'' client_Do) (\<lambda>(status, body).
     if status \<noteq> 200
     then act_fail (Errorf (''proxy proxyClient: failed to retrieve token from partner API, received status code: '' @ Itoa status))
     else
     act_bind (act_wrap ''proxy proxyClient: failed to read response'' (act_result body)) (\<lambda>responseData.
     act_wrap ''proxy proxyClient: failed to read response'' (act_result (oj_Unmarshal oj responseData))))"

text \<open>The loop with the attempts that are left, and the variable \<^verbatim>\<open>err\<close>; the nil response with a nil error is \<open>Inr None\<close>.\<close>

fun client_retry :: "oauth_json \<Rightarrow> nat \<Rightarrow> duration \<Rightarrow> go_error option \<Rightarrow> oauth_token_response option proxy_act" where
  "client_retry oj 0 delay err = (case err of None \<Rightarrow> act_return None | Some e \<Rightarrow> act_fail e)"
| "client_retry oj (Suc n) delay err =
     act_bind (act_try (client_requestToken oj)) (\<lambda>r.
     case r of
       Inr response \<Rightarrow> act_return (Some response)
     | Inl e \<Rightarrow>
         act_bind (if 0 < n then act_modify (\<lambda>w. w\<lparr>pw_sleeps := pw_sleeps w @ [delay]\<rparr>) else act_return ()) (\<lambda>_.
         client_retry oj n delay (Some e)))"

definition client_headers :: "proxy_config \<Rightarrow> http_header" where
  "client_headers cfg =
     fold (\<lambda>(k, v) h. if CanonicalHeaderKey k \<in> {''Authorization'', ''Content-Type''} then h else header_Add k v h)
       (px_Headers cfg)
       (header_Add ''Authorization'' (''Bearer '' @ px_Token cfg) (header_Add ''Content-Type'' ''application/json'' (\<lambda>_. [])))"

definition client_getToken ::
  "oauth_json \<Rightarrow> proxy_client \<Rightarrow> oauth_request \<Rightarrow> string \<Rightarrow> oauth_token_response option proxy_act" where
  "client_getToken oj c request url =
     act_bind (act_result (oj_Marshal oj request)) (\<lambda>requestData.
     case oj_parseURL oj url of
       Some e \<Rightarrow> act_fail (Wrapf ''proxy proxyClient: failed to create request'' e)
     | None \<Rightarrow>
         act_bind (act_modify (\<lambda>w. w\<lparr>pw_request := \<lparr>rq_Method = ''POST'', rq_URL = url,
                                     rq_Header = client_headers (pc_cfg c), rq_Body = requestData\<rparr>\<rparr>)) (\<lambda>_.
         client_retry oj (nat (px_Retry (pc_cfg c) + 1)) (px_RetryDelay (pc_cfg c)) None))"

definition client_ExchangeAuthorizationCode :: "oauth_json \<Rightarrow> proxy_client \<Rightarrow> string \<Rightarrow> oauth_token_response option proxy_act" where
  "client_ExchangeAuthorizationCode oj c code =
     client_getToken oj c (OAuth2AuthCodeProxyRequest code (px_PartnerCode (pc_cfg c)))
       (px_URL (pc_cfg c) @ ''/api/control/edge/proxy/auth-code'')"

definition client_ExchangeRefreshToken :: "oauth_json \<Rightarrow> proxy_client \<Rightarrow> string \<Rightarrow> oauth_token_response option proxy_act" where
  "client_ExchangeRefreshToken oj c refreshToken =
     client_getToken oj c (OAuth2RefreshProxyRequest refreshToken (px_PartnerCode (pc_cfg c)))
       (px_URL (pc_cfg c) @ ''/api/control/edge/proxy/refresh'')"

section \<open>Notifications and the timeline (\<^verbatim>\<open>src/notification\<close>)\<close>

text \<open>The messages published, and the error of each call of \<^verbatim>\<open>PublishToTopic\<close>, by its number.\<close>

record mqtt_world =
  mq_published :: "(string \<times> fimp_message) list"
  mq_calls :: nat
  mq_publishErr :: "nat \<Rightarrow> go_error option"

definition mqtt_PublishToTopic :: "string \<Rightarrow> fimp_message \<Rightarrow> (mqtt_world, unit) act" where
  "mqtt_PublishToTopic topic m w =
     (let w' = w\<lparr>mq_calls := Suc (mq_calls w)\<rparr>
      in case mq_publishErr w (mq_calls w) of
           Some e \<Rightarrow> Some (Inl e, w')
         | None \<Rightarrow> Some (Inr (), w'\<lparr>mq_published := mq_published w @ [(topic, m)]\<rparr>))"

definition idToString :: "int \<Rightarrow> string" where
  "idToString i = (if i = 0 then '''' else Itoa i)"

definition str_map :: "(string \<times> string) list \<Rightarrow> fimp_value" where
  "str_map ps = VObject (map (\<lambda>(k, v). (k, VString v)) ps)"

record notification_event =
  ne_EventName :: string
  ne_MessageContent :: string
  ne_DeviceID :: int
  ne_DeviceName :: string
  ne_RoomID :: int
  ne_RoomName :: string
  ne_AreaID :: int
  ne_AreaName :: string
  ne_AreaType :: string

definition CustomEventName :: string where "CustomEventName = ''custom''"

definition notification_EventWithProps :: "fimpgo \<Rightarrow> notification_event \<Rightarrow> properties \<Rightarrow> (mqtt_world, unit) act" where
  "notification_EventWithProps fg ev props =
     act_wrap ''notification: failed to send a notification event''
       (mqtt_PublishToTopic ''pt:j1/mt:evt/rt:app/rn:kind_owl/ad:1''
         (fg_New fg KStrMap ''evt.notification.report'' ''kind_owl''
           (str_map [(''EventName'', ne_EventName ev), (''MessageContent'', ne_MessageContent ev),
              (''DeviceId'', idToString (ne_DeviceID ev)), (''DeviceName'', ne_DeviceName ev),
              (''RoomId'', idToString (ne_RoomID ev)), (''RoomName'', ne_RoomName ev),
              (''AreaId'', idToString (ne_AreaID ev)), (''AreaName'', ne_AreaName ev), (''AreaType'', ne_AreaType ev)])
           props None))"

definition notification_Event :: "fimpgo \<Rightarrow> notification_event \<Rightarrow> (mqtt_world, unit) act" where
  "notification_Event fg ev = notification_EventWithProps fg ev []"

definition notification_Message :: "fimpgo \<Rightarrow> string \<Rightarrow> (mqtt_world, unit) act" where
  "notification_Message fg message =
     notification_Event fg \<lparr>ne_EventName = CustomEventName, ne_MessageContent = message, ne_DeviceID = 0,
       ne_DeviceName = '''', ne_RoomID = 0, ne_RoomName = '''', ne_AreaID = 0, ne_AreaName = '''', ne_AreaType = ''''\<rparr>"

record timeline_event =
  tv_EventName :: string
  tv_MessageContent :: string
  tv_DeviceID :: int
  tv_DeviceName :: string
  tv_RoomName :: string
  tv_AreaName :: string

record timeline_message =
  tl_Sender :: string
  tl_MessageEN :: string
  tl_MessageNO :: string

definition timeline_Event :: "fimpgo \<Rightarrow> timeline_event \<Rightarrow> (mqtt_world, unit) act" where
  "timeline_Event fg ev =
     act_wrap ''failed to send timeline event''
       (mqtt_PublishToTopic ''pt:j1/mt:cmd/rt:app/rn:time_owl/ad:1''
         (fg_New fg KStrMap ''cmd.timeline.set'' ''kind_owl''
           (str_map [(''EventName'', tv_EventName ev), (''MessageContent'', tv_MessageContent ev),
              (''DeviceId'', idToString (tv_DeviceID ev)), (''DeviceName'', tv_DeviceName ev),
              (''RoomName'', tv_RoomName ev), (''AreaName'', tv_AreaName ev)]) [] None))"

definition timeline_Message :: "fimpgo \<Rightarrow> timeline_message \<Rightarrow> (mqtt_world, unit) act" where
  "timeline_Message fg message =
     act_wrap ''failed to send timeline event''
       (mqtt_PublishToTopic ''pt:j1/mt:cmd/rt:app/rn:time_owl/ad:1''
         (fg_New fg KStrMap ''cmd.timeline.set'' ''time_owl''
           (str_map [(''sender'', tl_Sender message), (''message_en'', tl_MessageEN message),
              (''message_no'', tl_MessageNO message)]) [] None))"

section \<open>Properties of the proxy client\<close>

text \<open>Whatever headers are configured, the credentials and the type of the content are sent once, as the client sets them.\<close>
theorem reserved_headers:
  "client_headers cfg ''Authorization'' = [''Bearer '' @ px_Token cfg]"
  "client_headers cfg ''Content-Type'' = [''application/json'']"
proof -
  let ?f = "\<lambda>(k, v) h. if CanonicalHeaderKey k \<in> {''Authorization'', ''Content-Type''} then h else header_Add k v h"
  have keep: "fold ?f hs h n = h n" if "n \<in> {''Authorization'', ''Content-Type''}" for hs h n
    using that by (induction hs arbitrary: h) (auto simp: header_Add_def)
  have canon: "CanonicalHeaderKey ''Authorization'' = ''Authorization''" "CanonicalHeaderKey ''Content-Type'' = ''Content-Type''"
    by code_simp+
  show "client_headers cfg ''Authorization'' = [''Bearer '' @ px_Token cfg]"
    unfolding client_headers_def by (subst keep) (simp_all add: header_Add_def canon)
  show "client_headers cfg ''Content-Type'' = [''application/json'']"
    unfolding client_headers_def by (subst keep) (simp_all add: header_Add_def canon)
qed

text \<open>The token an exchange yields, if it does.\<close>

definition granted :: "oauth_json \<Rightarrow> exchange \<Rightarrow> oauth_token_response option" where
  "granted oj x =
     (case x of
        Answered status (Inr body) \<Rightarrow>
          if status = 200 then (case oj_Unmarshal oj body of Inr t \<Rightarrow> Some t | Inl _ \<Rightarrow> None) else None
      | _ \<Rightarrow> None)"

definition body_sent :: "exchange \<Rightarrow> bool" where
  "body_sent x \<longleftrightarrow> (case x of Refused _ \<Rightarrow> False | Broken _ \<Rightarrow> True | Answered _ _ \<Rightarrow> True)"

text \<open>The request after an exchange: the body is consumed once it has been sent.\<close>

definition consumed :: "exchange \<Rightarrow> http_request \<Rightarrow> http_request" where
  "consumed x r = (if body_sent x then r\<lparr>rq_Body := ''''\<rparr> else r)"

lemma client_requestToken_run:
  defines "x w \<equiv> pw_transport w (length (pw_handed w)) (pw_request w)"
  shows "\<exists>r. client_requestToken oj w = Some (r, w\<lparr>pw_handed := pw_handed w @ [pw_request w], pw_request := consumed (x w) (pw_request w)\<rparr>)
    \<and> (case r of Inr t \<Rightarrow> granted oj (x w) = Some t | Inl _ \<Rightarrow> granted oj (x w) = None)"
proof (cases "x w")
  case (Refused e)
  then show ?thesis
    by (simp add: client_requestToken_def client_Do_def x_def granted_def consumed_def body_sent_def Let_def)
next
  case (Broken e)
  then show ?thesis
    by (simp add: client_requestToken_def client_Do_def x_def granted_def consumed_def body_sent_def Let_def)
next
  case (Answered status body)
  then have d: "client_Do w = Some (Inr (status, body),
      w\<lparr>pw_handed := pw_handed w @ [pw_request w], pw_request := consumed (x w) (pw_request w)\<rparr>)"
    by (simp add: client_Do_def x_def consumed_def body_sent_def Let_def)
  show ?thesis
  proof (cases body)
    case (Inl e)
    with d Answered show ?thesis by (simp add: client_requestToken_def granted_def)
  next
    case (Inr b)
    with d Answered show ?thesis
      by (cases "oj_Unmarshal oj b") (simp_all add: client_requestToken_def granted_def)
  qed
qed

text \<open>
  A run of the loop, for whatever attempts are left: the requests handed over, each with the body as the attempts so far have left it,
  the pauses between them, and the result.
\<close>

definition retry_outcome ::
  "oauth_json \<Rightarrow> nat \<Rightarrow> duration \<Rightarrow> proxy_world \<Rightarrow> proxy_world \<Rightarrow> http_request list \<Rightarrow> oauth_token_response option result \<Rightarrow> bool" where
  "retry_outcome oj n delay w w' rs r \<longleftrightarrow>
     pw_handed w' = pw_handed w @ rs \<and> pw_sleeps w' = pw_sleeps w @ replicate (length rs - 1) delay \<and> length rs \<le> n
   \<and> (\<forall>i < length rs. rs ! i = (if \<exists>k < i. body_sent (pw_transport w (length (pw_handed w) + k) (rs ! k))
                               then (pw_request w)\<lparr>rq_Body := ''''\<rparr> else pw_request w))
   \<and> (\<forall>k < length rs. granted oj (pw_transport w (length (pw_handed w) + k) (rs ! k)) =
          (if Suc k = length rs then (case r of Inr t \<Rightarrow> t | Inl _ \<Rightarrow> None) else None))
   \<and> (case r of Inr (Some t) \<Rightarrow> rs \<noteq> [] | Inr None \<Rightarrow> n = 0 | Inl _ \<Rightarrow> length rs = n)"

lemma retry_outcome_first:
  assumes "granted oj (pw_transport w (length (pw_handed w)) (pw_request w)) = Some t"
  shows "retry_outcome oj (Suc n) delay w
    (w\<lparr>pw_handed := pw_handed w @ [pw_request w], pw_request := q\<rparr>) [pw_request w] (Inr (Some t))"
  using assms by (simp add: retry_outcome_def)

lemma retry_outcome_next:
  fixes w delay n
  defines "x \<equiv> pw_transport w (length (pw_handed w)) (pw_request w)"
  defines "w1 \<equiv> w\<lparr>pw_handed := pw_handed w @ [pw_request w], pw_request := consumed x (pw_request w),
                pw_sleeps := pw_sleeps w @ (if 0 < n then [delay] else [])\<rparr>"
  assumes "granted oj x = None" "retry_outcome oj n delay w1 w' rs r" "r \<noteq> Inr None"
  shows "retry_outcome oj (Suc n) delay w w' (pw_request w # rs) r"
proof -
  let ?l = "length (pw_handed w)" and ?T = "pw_transport w"
  have w1: "pw_transport w1 = ?T" "length (pw_handed w1) = Suc ?l" "pw_request w1 = consumed x (pw_request w)"
    by (simp_all add: w1_def)
  note out = assms(4) [unfolded retry_outcome_def w1, folded x_def]
  have o: "pw_handed w' = pw_handed w1 @ rs" "pw_sleeps w' = pw_sleeps w1 @ replicate (length rs - 1) delay"
    "length rs \<le> n" "case r of Inr (Some t) \<Rightarrow> rs \<noteq> [] | Inr None \<Rightarrow> n = 0 | Inl _ \<Rightarrow> length rs = n"
    using out by blast+
  have len: "0 < n \<Longrightarrow> rs \<noteq> []" "length rs \<le> n"
    using o assms(5) by (auto split: sum.splits option.splits)
  have sl: "pw_sleeps w' = pw_sleeps w @ replicate (length rs) delay"
  proof (cases rs)
    case Nil
    then show ?thesis using o len(1) by (auto simp: w1_def)
  next
    case (Cons a as)
    then show ?thesis using o len(2) by (auto simp: w1_def)
  qed
  have body: "rs ! i = (if \<exists>k < Suc i. body_sent (?T (?l + k) ((pw_request w # rs) ! k))
      then (pw_request w)\<lparr>rq_Body := ''''\<rparr> else pw_request w)" if "i < length rs" for i
  proof -
    from out that have e: "rs ! i = (if \<exists>k < i. body_sent (?T (Suc ?l + k) (rs ! k))
        then (consumed x (pw_request w))\<lparr>rq_Body := ''''\<rparr> else consumed x (pw_request w))"
      by blast
    show ?thesis
      unfolding e Ex_less_Suc2 by (auto simp: x_def [symmetric] consumed_def)
  qed
  have g: "\<forall>k < length rs. granted oj (?T (Suc ?l + k) (rs ! k)) =
      (if Suc k = length rs then (case r of Inr t \<Rightarrow> t | Inl _ \<Rightarrow> None) else None)"
    using out by blast
  have r0: "rs = [] \<Longrightarrow> (case r of Inr t \<Rightarrow> t | Inl _ \<Rightarrow> None) = None"
    using o assms(5) by (auto split: sum.splits option.splits)
  have "\<forall>k < Suc (length rs). granted oj (?T (?l + k) ((pw_request w # rs) ! k)) =
      (if Suc k = Suc (length rs) then (case r of Inr t \<Rightarrow> t | Inl _ \<Rightarrow> None) else None)"
    unfolding All_less_Suc2 using g r0 assms(3) by (simp add: x_def [symmetric])
  moreover have "\<forall>i < Suc (length rs). (pw_request w # rs) ! i =
      (if \<exists>k < i. body_sent (?T (?l + k) ((pw_request w # rs) ! k)) then (pw_request w)\<lparr>rq_Body := ''''\<rparr> else pw_request w)"
    unfolding All_less_Suc2 using body by simp
  ultimately show ?thesis
    using o assms(5) sl by (auto simp: retry_outcome_def w1_def split: sum.splits option.splits)
qed

lemma client_retry_run:
  "\<exists>r w' rs. client_retry oj n delay err w = Some (r, w') \<and> retry_outcome oj n delay w w' rs r
     \<and> (r = Inr None \<longrightarrow> err = None)"
proof (induction n arbitrary: w err)
  case 0
  show ?case
    by (cases err) (auto simp: retry_outcome_def intro!: exI [of _ "[] :: http_request list"])
next
  case (Suc n)
  let ?x = "pw_transport w (length (pw_handed w)) (pw_request w)"
  let ?w = "w\<lparr>pw_handed := pw_handed w @ [pw_request w], pw_request := consumed ?x (pw_request w)\<rparr>"
  from client_requestToken_run [of oj w] obtain a where a: "client_requestToken oj w = Some (a, ?w)"
    and g: "case a of Inr t \<Rightarrow> granted oj ?x = Some t | Inl _ \<Rightarrow> granted oj ?x = None" by blast
  show ?case
  proof (cases a)
    case (Inr t)
    with a g retry_outcome_first [of oj w t n delay "consumed ?x (pw_request w)"] show ?thesis
      by (intro exI [of _ "Inr (Some t)"] exI [of _ ?w] exI [of _ "[pw_request w]"]) simp
  next
    case (Inl e)
    let ?w1 = "?w\<lparr>pw_sleeps := pw_sleeps w @ (if 0 < n then [delay] else [])\<rparr>"
    from Suc.IH [of "Some e" ?w1] obtain r w' rs where
      i: "client_retry oj n delay (Some e) ?w1 = Some (r, w')" "retry_outcome oj n delay ?w1 w' rs r" "r \<noteq> Inr None"
      by blast
    have "client_retry oj (Suc n) delay err w = client_retry oj n delay (Some e) ?w1"
      using a Inl by (simp add: act_bind_def act_try_def)
    moreover have "retry_outcome oj (Suc n) delay w w' (pw_request w # rs) r"
      using retry_outcome_next [of oj w n delay w' rs r] g Inl i by simp
    ultimately show ?thesis using i by (metis)
  qed
qed

text \<open>The parts of a run, for a world in which nothing has been sent.\<close>

lemma retry_outcomeD:
  assumes "retry_outcome oj n delay w w' rs r" "pw_handed w = []"
  shows "pw_handed w' = rs" "pw_sleeps w' = pw_sleeps w @ replicate (length rs - 1) delay" "length rs \<le> n"
    and "\<forall>i < length rs. rs ! i = (if \<exists>k < i. body_sent (pw_transport w k (rs ! k))
           then (pw_request w)\<lparr>rq_Body := ''''\<rparr> else pw_request w)"
    and "\<forall>k < length rs. granted oj (pw_transport w k (rs ! k)) =
           (if Suc k = length rs then (case r of Inr t \<Rightarrow> t | Inl _ \<Rightarrow> None) else None)"
    and "case r of Inr (Some t) \<Rightarrow> rs \<noteq> [] | Inr None \<Rightarrow> n = 0 | Inl _ \<Rightarrow> length rs = n"
  using assms(1) [unfolded retry_outcome_def assms(2) append_Nil list.size(3) add_0] by blast+

definition proxy_request :: "proxy_client \<Rightarrow> string \<Rightarrow> string \<Rightarrow> http_request" where
  "proxy_request c url body =
     \<lparr>rq_Method = ''POST'', rq_URL = url, rq_Header = client_headers (pc_cfg c), rq_Body = body\<rparr>"

lemma client_getToken_run:
  assumes "oj_Marshal oj request = Inr data" "oj_parseURL oj url = None"
  shows "client_getToken oj c request url w =
    client_retry oj (nat (px_Retry (pc_cfg c) + 1)) (px_RetryDelay (pc_cfg c)) None (w\<lparr>pw_request := proxy_request c url data\<rparr>)"
  using assms by (simp add: client_getToken_def proxy_request_def)

text \<open>
  C39. A token is asked for until one is granted, at most once more than the configured number of retries, with the configured delay
  between two attempts and none after the last. The client returns whatever the transport does; the token it returns is the one
  granted by the last attempt, and it returns an error only after every attempt has failed.
\<close>
theorem getToken_attempts:
  assumes "oj_Marshal oj request = Inr data" "oj_parseURL oj url = None" "0 \<le> px_Retry (pc_cfg c)"
    and "pw_handed w = []" "pw_sleeps w = []"
  shows "\<exists>r w'. client_getToken oj c request url w = Some (r, w')
    \<and> 0 < length (pw_handed w') \<and> int (length (pw_handed w')) \<le> px_Retry (pc_cfg c) + 1
    \<and> pw_sleeps w' = replicate (length (pw_handed w') - 1) (px_RetryDelay (pc_cfg c))
    \<and> (\<forall>k. Suc k < length (pw_handed w') \<longrightarrow> granted oj (pw_transport w k (pw_handed w' ! k)) = None)
    \<and> (case r of
         Inr t \<Rightarrow> t \<noteq> None \<and> granted oj (pw_transport w (length (pw_handed w') - 1) (last (pw_handed w'))) = t
       | Inl _ \<Rightarrow> int (length (pw_handed w')) = px_Retry (pc_cfg c) + 1
           \<and> granted oj (pw_transport w (length (pw_handed w') - 1) (last (pw_handed w'))) = None)"
proof -
  let ?n = "nat (px_Retry (pc_cfg c) + 1)" and ?w = "w\<lparr>pw_request := proxy_request c url data\<rparr>"
  have n: "0 < ?n" "int ?n = px_Retry (pc_cfg c) + 1" using assms(3) by simp_all
  obtain r w' rs where r: "client_retry oj ?n (px_RetryDelay (pc_cfg c)) None ?w = Some (r, w')"
    and o: "retry_outcome oj ?n (px_RetryDelay (pc_cfg c)) ?w w' rs r"
    using client_retry_run by blast
  have w: "pw_handed ?w = []" "pw_sleeps ?w = []" "pw_transport ?w = pw_transport w" using assms(4,5) by simp_all
  note h = retry_outcomeD(1-3) [OF o w(1), unfolded w append_Nil]
  note g = retry_outcomeD(5) [OF o w(1), unfolded w]
  note e = retry_outcomeD(6) [OF o w(1)]
  have ne: "rs \<noteq> []" using e n by (auto split: sum.splits option.splits)
  then have "granted oj (pw_transport w (length rs - 1) (last rs)) = (case r of Inr t \<Rightarrow> t | Inl _ \<Rightarrow> None)"
    using g by (simp add: last_conv_nth)
  then show ?thesis
    unfolding client_getToken_run [OF assms(1,2)] using r h g e ne n
    by (intro exI [of _ r] exI [of _ w']) (auto split: sum.splits option.splits)
qed

text \<open>
  All attempts of one call use the same request. Once one has sent its body, whether it is answered or not, every later
  attempt hands over the request with an empty body.
\<close>
theorem retry_body_consumed:
  assumes "oj_Marshal oj request = Inr data" "oj_parseURL oj url = None" "pw_handed w = []"
    and "client_getToken oj c request url w = Some (r, w')" "j < length (pw_handed w')"
  shows "pw_handed w' ! j =
    proxy_request c url (if \<exists>i < j. body_sent (pw_transport w i (pw_handed w' ! i)) then '''' else data)"
proof -
  let ?n = "nat (px_Retry (pc_cfg c) + 1)" and ?w = "w\<lparr>pw_request := proxy_request c url data\<rparr>"
  obtain rs where o: "retry_outcome oj ?n (px_RetryDelay (pc_cfg c)) ?w w' rs r"
    using client_retry_run [of oj ?n "px_RetryDelay (pc_cfg c)" None ?w] assms(4)
    unfolding client_getToken_run [OF assms(1,2)] by auto
  have w: "pw_handed ?w = []" "pw_transport ?w = pw_transport w" "pw_request ?w = proxy_request c url data"
    using assms(3) by simp_all
  note d = retry_outcomeD(1,4) [OF o w(1), unfolded w]
  have "(proxy_request c url data)\<lparr>rq_Body := ''''\<rparr> = proxy_request c url ''''" by (simp add: proxy_request_def)
  note d2 = d(2) [unfolded this, rule_format, of j]
  show ?thesis
    unfolding d(1) by (subst d2) (use assms(5) d(1) in auto)
qed

text \<open>A server that is busy once, and grants a token to whoever sends a request with a body.\<close>

definition demo_token_response :: oauth_token_response where
  "demo_token_response = \<lparr>ot_AccessToken = ''a'', ot_TokenType = ''bearer'', ot_ExpiresIn = 3600, ot_RefreshToken = ''r'', ot_Scope = VNull\<rparr>"

definition demo_oauth :: oauth_json where
  "demo_oauth = \<lparr>oj_Marshal = (\<lambda>r. Inr ''{code}''),
     oj_Unmarshal = (\<lambda>b. if b = ''{token}'' then Inr demo_token_response else Inl (Errorf ''unexpected end of JSON input'')),
     oj_parseURL = (\<lambda>_. None)\<rparr>"

definition demo_proxy :: "int \<Rightarrow> proxy_client" where
  "demo_proxy retry = NewProxyClient \<lparr>px_PartnerCode = ''p'', px_Token = ''t'', px_URL = '''', px_Retry = retry,
     px_RetryDelay = 5, px_Timeout = 0, px_Headers = [(''authorization'', ''x''), (''x-trace'', ''1'')]\<rparr>"

definition demo_proxy_world :: "exchange \<Rightarrow> proxy_world" where
  "demo_proxy_world first =
     \<lparr>pw_transport = (\<lambda>i r. if i = 0 then first
                         else if rq_Body r = '''' then Refused (Errorf ''ContentLength=6 with Body length 0'')
                         else Answered 200 (Inr ''{token}'')),
      pw_handed = [], pw_sleeps = [], pw_request = proxy_request (demo_proxy 0) '''' ''''\<rparr>"

theorem getToken_attempts_witness:
  "\<exists>r w'. client_ExchangeAuthorizationCode demo_oauth (demo_proxy 2) ''c'' (demo_proxy_world (Refused (Errorf ''refused''))) = Some (r, w')
     \<and> 0 < length (pw_handed w') \<and> int (length (pw_handed w')) \<le> 3"
proof -
  have "oj_Marshal demo_oauth req = Inr ''{code}''" "oj_parseURL demo_oauth url = None" "px_Retry (pc_cfg (demo_proxy 2)) = 2" for req url
    by (simp_all add: demo_oauth_def demo_proxy_def NewProxyClient_def proxy_setDefaults_def Let_def)
  then show ?thesis
    using getToken_attempts [of demo_oauth "OAuth2AuthCodeProxyRequest ''c'' (px_PartnerCode (pc_cfg (demo_proxy 2)))" "''{code}''"
        "px_URL (pc_cfg (demo_proxy 2)) @ ''/api/control/edge/proxy/auth-code''" "demo_proxy 2" "demo_proxy_world (Refused (Errorf ''refused''))"]
    by (auto simp: client_ExchangeAuthorizationCode_def demo_proxy_world_def)
qed

text \<open>After a refused connection the retry succeeds; after one answer with status 503 no retry does.\<close>

lemma proxy_retry_example:
  "map_option fst (client_ExchangeRefreshToken demo_oauth (demo_proxy 3) ''r'' (demo_proxy_world (Refused (Errorf ''refused''))))
     = Some (Inr (Some demo_token_response))"
  "map_option (isl \<circ> fst) (client_ExchangeRefreshToken demo_oauth (demo_proxy 3) ''r'' (demo_proxy_world (Answered 503 (Inr ''''))))
     = Some True"
  by code_simp+

section \<open>Properties of the hub's files and token\<close>

text \<open>
  The contents \<^verbatim>\<open>LoadInfo\<close> reads for the default path, on a system without failures: of the two files that exist, the one of the
  second version if it is newer, and the one of the first otherwise.
\<close>

definition regular :: "os \<Rightarrow> string \<Rightarrow> string option" where
  "regular os path = (case os_files os path of Some (RegFile b) \<Rightarrow> Some b | _ \<Rightarrow> None)"

definition hub_contents :: "(string \<Rightarrow> time) \<Rightarrow> os \<Rightarrow> string option" where
  "hub_contents mtime os =
     (case (regular os hubV1FilePath, regular os hubV2FilePath) of
        (Some b1, Some b2) \<Rightarrow> Some (if mtime hubV1FilePath < mtime hubV2FilePath then b2 else b1)
      | (Some b1, None) \<Rightarrow> Some b1
      | (None, b2) \<Rightarrow> b2)"

lemma hub_paths_differ [simp]: "hubV1FilePath \<noteq> hubV2FilePath" "hubV2FilePath \<noteq> hubV1FilePath" "hubV1FilePath \<noteq> ''''"
  by (simp_all add: hubV1FilePath_def hubV2FilePath_def)

lemma healthy_reads:
  assumes "healthy os"
  shows "os_ReadFile os p = (case os_files os p of Some (RegFile b) \<Rightarrow> Inr b | Some Directory \<Rightarrow> Inl (Errorf ''is a directory'')
      | None \<Rightarrow> Inl (Errorf ''no such file or directory''))"
    and "os_Stat mtime os p = (case os_files os p of None \<Rightarrow> Inl (Errorf ''no such file or directory'') | Some n \<Rightarrow> Inr (n = Directory, mtime p))"
  using assms by (auto simp: os_ReadFile_def os_Stat_def healthy_def split: option.split node.split)

theorem LoadInfo_newest:
  assumes "healthy os"
  shows "case hub_contents mtime os of
      Some b \<Rightarrow> (case js_Unmarshal js b hub_info_zero of
                  (info, None) \<Rightarrow> LoadInfo js mtime os '''' = Inr info
                | (_, Some e) \<Rightarrow> isl (LoadInfo js mtime os ''''))
    | None \<Rightarrow> isl (LoadInfo js mtime os '''')"
  by (auto simp: LoadInfo_def hub_preferredPath_def hub_contents_def regular_def Let_def healthy_reads [OF assms]
      split: option.splits node.splits prod.splits)

text \<open>The requests of a run of the loop, each but the successful one followed by a pause.\<close>

definition token_events :: "duration \<Rightarrow> fimp_message \<Rightarrow> nat \<Rightarrow> bool \<Rightarrow> token_event list" where
  "token_events delay req failures success =
     concat (replicate failures [Sent ''pt:j1/mt:cmd/rt:app/rn:clbridge/ad:1'' req 5, Slept delay])
     @ (if success then [Sent ''pt:j1/mt:cmd/rt:app/rn:clbridge/ad:1'' req 5] else [])"

text \<open>The first answer among the next \<open>n\<close> requests, with the number of failures before it.\<close>

fun first_answer :: "(nat \<Rightarrow> fimp_message result) \<Rightarrow> nat \<Rightarrow> nat \<Rightarrow> nat \<times> fimp_message option" where
  "first_answer answers i 0 = (0, None)"
| "first_answer answers i (Suc n) =
     (case answers i of
        Inr m \<Rightarrow> (0, Some m)
      | Inl _ \<Rightarrow> (let (k, m) = first_answer answers (Suc i) n in (Suc k, m)))"

lemma first_answer_None: "snd (first_answer answers i n) = None \<longleftrightarrow> (\<forall>k < n. isl (answers (i + k)))"
proof (induction n arbitrary: i)
  case (Suc n)
  show ?case unfolding All_less_Suc2
    using Suc.IH [of "Suc i"] by (simp add: case_prod_unfold Let_def split: sum.split)
qed simp

lemma first_answer_bound: "fst (first_answer answers i n) \<le> n"
  by (induction n arbitrary: i) (auto simp: case_prod_unfold Let_def split: sum.split)

lemma token_retry_run:
  "\<exists>err' w'. token_retry n delay req err w = Some (Inr (snd (first_answer (tw_answers w) (tw_requests w) n), err'), w')
    \<and> (err' \<noteq> None \<longleftrightarrow> snd (first_answer (tw_answers w) (tw_requests w) n) = None \<and> (n \<noteq> 0 \<or> err \<noteq> None))
    \<and> tw_trace w' = tw_trace w @ token_events delay req (fst (first_answer (tw_answers w) (tw_requests w) n))
                       (snd (first_answer (tw_answers w) (tw_requests w) n) \<noteq> None)"
proof (induction n arbitrary: w err)
  case 0
  then show ?case by (simp add: token_events_def)
next
  case (Suc n)
  let ?w = "w\<lparr>tw_requests := Suc (tw_requests w), tw_trace := tw_trace w @ [Sent ''pt:j1/mt:cmd/rt:app/rn:clbridge/ad:1'' req 5]\<rparr>"
  have s: "sync_SendFimp ''pt:j1/mt:cmd/rt:app/rn:clbridge/ad:1'' req 5 w = Some (tw_answers w (tw_requests w), ?w)"
    by (simp add: sync_SendFimp_def)
  show ?case
  proof (cases "tw_answers w (tw_requests w)")
    case (Inr m)
    with s show ?thesis by (simp add: token_events_def)
  next
    case (Inl e)
    let ?w1 = "?w\<lparr>tw_trace := tw_trace ?w @ [Slept delay]\<rparr>"
    have "token_retry (Suc n) delay req err w = token_retry n delay req (Some e) ?w1"
      using s Inl by (simp add: tw_emit_def)
    with Suc.IH [of "Some e" ?w1] Inl show ?thesis
      by (auto simp: token_events_def case_prod_unfold Let_def)
  qed
qed

lemma request_token_returns:
  "(loader_requestToken fg cfg w = None \<and> tc_Retry cfg \<le> 0 \<and> tw_subscribeErr w = None)
   \<or> (\<exists>r w' tr. loader_requestToken fg cfg w = Some (r, w') \<and> tw_trace w' = tw_trace w @ tr
        \<and> (0 < tc_Retry cfg \<or> tw_subscribeErr w \<noteq> None))"
proof (cases "tw_subscribeErr w")
  case (Some e)
  then show ?thesis by (simp add: loader_requestToken_def sync_AddSubscription_def)
next
  case None
  let ?topic = "loader_responseTopic cfg" and ?n = "nat (tc_Retry cfg)"
  let ?w = "w\<lparr>tw_trace := tw_trace w @ [Subscribed ?topic]\<rparr>" and ?fa = "first_answer (tw_answers w) (tw_requests w) (nat (tc_Retry cfg))"
  have a: "sync_AddSubscription ?topic w = Some (Inr (), ?w)"
    using None by (simp add: sync_AddSubscription_def tw_emit_def)
  from token_retry_run [of ?n "tc_RetryDelay cfg" "token_request fg ?topic" None ?w] obtain err' w' where
    t: "token_retry ?n (tc_RetryDelay cfg) (token_request fg ?topic) None ?w = Some (Inr (snd ?fa, err'), w')"
    and e: "err' \<noteq> None \<longleftrightarrow> snd ?fa = None \<and> ?n \<noteq> 0"
    and tr: "tw_trace w' = tw_trace w @ Subscribed ?topic # token_events (tc_RetryDelay cfg) (token_request fg ?topic) (fst ?fa) (snd ?fa \<noteq> None)"
    by auto
  note run = a t tr
  show ?thesis
  proof (cases "snd ?fa")
    case None
    show ?thesis
    proof (cases err')
      case None
      with e \<open>snd ?fa = None\<close> have "tc_Retry cfg \<le> 0" by simp
      moreover have "loader_requestToken fg cfg w = None"
        using run None \<open>snd ?fa = None\<close> by (simp add: loader_requestToken_def)
      ultimately show ?thesis using \<open>tw_subscribeErr w = None\<close> by simp
    next
      case (Some x)
      with e have "0 < tc_Retry cfg" by simp
      with run Some show ?thesis by (simp add: loader_requestToken_def)
    qed
  next
    case (Some m)
    then have "?n \<noteq> 0" by (cases ?n) auto
    moreover have "err' = None" using e Some by simp
    moreover have "act_wrap s (act_result r) w' = Some (wrap_err s r, w')" for s and r :: "string result" by simp
    ultimately show ?thesis using run Some by (simp add: loader_requestToken_def)
  qed
qed

text \<open>
  Without any attempt, which only a negative \<^verbatim>\<open>Retry\<close> gives after the defaults have been set, the loader panics; in every other case
  it returns, and the subscription and the transport it has opened are closed again, the subscription first.
\<close>
theorem LoadToken_returns_and_cleans_up:
  assumes "cfg = NewTokenLoader cfg0"
  shows "(case loader_LoadToken fg cfg w of
      None \<Rightarrow> tc_Retry cfg0 < 0 \<and> tw_startErr w = None \<and> tw_subscribeErr w = None
    | Some (r, w') \<Rightarrow>
        (0 \<le> tc_Retry cfg0 \<or> tw_startErr w \<noteq> None \<or> tw_subscribeErr w \<noteq> None)
      \<and> (if tw_startErr w = None then \<exists>tr. tw_trace w' = tw_trace w @ tr @ [ClientStop, MqttStop] else isl r \<and> w' = w))"
proof (cases "tw_startErr w")
  case (Some e)
  then show ?thesis by (simp add: loader_LoadToken_def mqtt_Start_def)
next
  case None
  have retry: "tc_Retry cfg = (if tc_Retry cfg0 = 0 then 7 else tc_Retry cfg0)"
    by (simp add: assms NewTokenLoader_def token_setDefaults_def Let_def)
  let ?w1 = "w\<lparr>tw_trace := tw_trace w @ [MqttStart (tc_MQTTServerURI cfg) (tc_MQTTClientIDPrefix cfg) (tc_MQTTUsername cfg)
    (tc_MQTTPassword cfg), DefaultSource (tc_ResourceName cfg)]\<rparr>"
  have l: "loader_LoadToken fg cfg w = act_bind (act_try (loader_requestToken fg cfg)) (\<lambda>r.
     act_bind (tw_emit ClientStop) (\<lambda>_. act_bind (tw_emit MqttStop) (\<lambda>_. act_result r))) ?w1"
    using None by (simp add: loader_LoadToken_def mqtt_Start_def tw_emit_def)
  from request_token_returns [of fg cfg ?w1] show ?thesis
  proof
    assume "loader_requestToken fg cfg ?w1 = None \<and> tc_Retry cfg \<le> 0 \<and> tw_subscribeErr ?w1 = None"
    then show ?thesis using None retry by (auto simp: l split: if_splits)
  next
    assume "\<exists>r w' tr. loader_requestToken fg cfg ?w1 = Some (r, w') \<and> tw_trace w' = tw_trace ?w1 @ tr
      \<and> (0 < tc_Retry cfg \<or> tw_subscribeErr ?w1 \<noteq> None)"
    then show ?thesis using None retry by (auto simp: l tw_emit_def split: if_splits)
  qed
qed

end
