(* ===== verification/Monitor.thy ===== *)
theory Monitor
  imports Tasks
begin

text \<open>
  The disk space monitor of \<^verbatim>\<open>src/monitor/diskspace.go\<close>, a background service with one goroutine that measures the use of the disk
  at every tick, and the filter for dumps of goroutines of \<^verbatim>\<open>src/utils/tools.go\<close>. What the system reports of the disk, and the
  matching of regular expressions, are parameters.
\<close>

section \<open>The disk space monitor\<close>

text \<open>The goroutine, if there is one: it is about to create its ticker, or waits in its \<^verbatim>\<open>select\<close>.\<close>

datatype disk_worker = NoDiskWorker | DiskStarting | DiskSelecting

record disk_space =
  ds_interval :: duration
  ds_limitPercent :: rat
  ds_used :: rat
  ds_closeCh :: stop_chan
  ds_wg :: nat
  ds_worker :: disk_worker
  ds_calls :: nat                 \<comment> \<open>how often \<^verbatim>\<open>disk.Usage\<close> has been called\<close>

text \<open>What each call of \<^verbatim>\<open>disk.Usage\<close> returns, by its number.\<close>

type_synonym disk_usage = "nat \<Rightarrow> rat result"

definition NewDiskSpace :: "duration \<Rightarrow> rat \<Rightarrow> disk_space" where
  "NewDiskSpace interval limitPercent =
     \<lparr>ds_interval = interval, ds_limitPercent = limitPercent, ds_used = 0, ds_closeCh = NoStopCh, ds_wg = 0,
      ds_worker = NoDiskWorker, ds_calls = 0\<rparr>"

definition disk_checkSpace :: "disk_usage \<Rightarrow> disk_space \<Rightarrow> disk_space" where
  "disk_checkSpace usage d =
     (let d' = d\<lparr>ds_calls := Suc (ds_calls d)\<rparr>
      in case usage (ds_calls d) of Inl _ \<Rightarrow> d' | Inr usedPercent \<Rightarrow> d'\<lparr>ds_used := usedPercent\<rparr>)"

definition disk_DiskFull :: "disk_usage \<Rightarrow> disk_space \<Rightarrow> bool \<times> disk_space" where
  "disk_DiskFull usage d =
     (let d' = (if ds_used d = 0 then disk_checkSpace usage d else d)
      in (ds_limitPercent d' \<le> ds_used d', d'))"

definition disk_Start :: "disk_space \<Rightarrow> disk_space result" where
  "disk_Start d =
     (if ds_closeCh d \<noteq> NoStopCh then Inl (Errorf ''disk space monitor: already running'')
      else Inr (d\<lparr>ds_closeCh := OpenStopCh, ds_wg := ds_wg d + 1, ds_worker := DiskStarting\<rparr>))"

text \<open>\<^verbatim>\<open>Stop\<close> up to the point where it waits for the goroutine, and after it.\<close>

definition disk_Stop_close :: "disk_space \<Rightarrow> disk_space result" where
  "disk_Stop_close d =
     (if ds_closeCh d = NoStopCh then Inl (Errorf ''disk space monitor: already stopped'')
      else Inr (d\<lparr>ds_closeCh := ClosedStopCh\<rparr>))"

definition disk_Stop_return :: "disk_space \<Rightarrow> disk_space option" where
  "disk_Stop_return d = (if ds_wg d = 0 then Some (d\<lparr>ds_closeCh := NoStopCh\<rparr>) else None)"

text \<open>
  The steps of the goroutine, and a call of \<^verbatim>\<open>DiskFull\<close> by some other one, as one step. \<^verbatim>\<open>time.NewTicker\<close> panics for an interval that is not
  positive, and the panic is raised again, which ends the process: there is no such step.
\<close>

inductive disk_step :: "disk_usage \<Rightarrow> disk_space \<Rightarrow> disk_space \<Rightarrow> bool" for usage where
  started: "ds_worker d = DiskStarting \<Longrightarrow> 0 < ds_interval d \<Longrightarrow> disk_step usage d (d\<lparr>ds_worker := DiskSelecting\<rparr>)"
| tick: "ds_worker d = DiskSelecting \<Longrightarrow> disk_step usage d (disk_checkSpace usage d)"
| closed: "ds_worker d = DiskSelecting \<Longrightarrow> ds_closeCh d = ClosedStopCh \<Longrightarrow>
    disk_step usage d (d\<lparr>ds_worker := NoDiskWorker, ds_wg := ds_wg d - 1\<rparr>)"
| asked: "disk_step usage d (snd (disk_DiskFull usage d))"

inductive_cases disk_stepE: "disk_step usage d d'"

section \<open>Start and stop\<close>

definition disk_inv :: "disk_space \<Rightarrow> bool" where
  "disk_inv d \<longleftrightarrow>
     0 < ds_interval d \<and> ds_wg d = (if ds_worker d = NoDiskWorker then 0 else 1)
   \<and> (ds_closeCh d = NoStopCh \<longrightarrow> ds_worker d = NoDiskWorker)"

lemma disk_inv_new: "0 < interval \<Longrightarrow> disk_inv (NewDiskSpace interval limit)"
  by (simp add: disk_inv_def NewDiskSpace_def)

lemma checkSpace_frame [simp]:
  "ds_interval (disk_checkSpace usage d) = ds_interval d" "ds_limitPercent (disk_checkSpace usage d) = ds_limitPercent d"
  "ds_closeCh (disk_checkSpace usage d) = ds_closeCh d" "ds_wg (disk_checkSpace usage d) = ds_wg d"
  "ds_worker (disk_checkSpace usage d) = ds_worker d" "ds_calls (disk_checkSpace usage d) = Suc (ds_calls d)"
  by (simp_all add: disk_checkSpace_def Let_def split: sum.split)

lemma DiskFull_frame [simp]:
  "ds_interval (snd (disk_DiskFull usage d)) = ds_interval d" "ds_limitPercent (snd (disk_DiskFull usage d)) = ds_limitPercent d"
  "ds_closeCh (snd (disk_DiskFull usage d)) = ds_closeCh d" "ds_wg (snd (disk_DiskFull usage d)) = ds_wg d"
  "ds_worker (snd (disk_DiskFull usage d)) = ds_worker d"
  by (simp_all add: disk_DiskFull_def Let_def)

lemma disk_Start_inv [go_inv]: "disk_inv d \<Longrightarrow> disk_Start d = Inr d' \<Longrightarrow> disk_inv d'"
  by (auto simp: disk_inv_def disk_Start_def split: if_splits)

lemma disk_Stop_close_inv [go_inv]: "disk_inv d \<Longrightarrow> disk_Stop_close d = Inr d' \<Longrightarrow> disk_inv d'"
  by (auto simp: disk_inv_def disk_Stop_close_def split: if_splits)

lemma disk_Stop_return_inv [go_inv]: "disk_inv d \<Longrightarrow> disk_Stop_return d = Some d' \<Longrightarrow> disk_inv d'"
  by (auto simp: disk_inv_def disk_Stop_return_def split: if_splits)

lemma disk_step_inv [go_inv]: "disk_step usage d d' \<Longrightarrow> disk_inv d \<Longrightarrow> disk_inv d'"
  by (erule disk_stepE) (auto simp: disk_inv_def)

lemma disk_step_closeCh: "disk_step usage d d' \<Longrightarrow> ds_closeCh d' = ds_closeCh d"
  by (erule disk_stepE) auto

definition disk_debt :: "disk_space \<Rightarrow> nat" where
  "disk_debt d = (case ds_worker d of NoDiskWorker \<Rightarrow> 0 | DiskSelecting \<Rightarrow> 1 | DiskStarting \<Rightarrow> 2)"

interpretation dp: worker_pool "disk_step usage" "\<lambda>d. disk_inv d \<and> ds_closeCh d = ClosedStopCh" "\<lambda>d. ds_wg d = 0" disk_debt
  for usage
proof
  fix d
  assume ok: "disk_inv d \<and> ds_closeCh d = ClosedStopCh" and busy: "ds_wg d \<noteq> 0"
  have "\<exists>d'. disk_step usage d d' \<and> disk_debt d' < disk_debt d"
  proof (cases "ds_worker d")
    case NoDiskWorker
    with ok busy show ?thesis by (simp add: disk_inv_def)
  next
    case DiskStarting
    with ok disk_step.started [of d usage] show ?thesis by (auto simp: disk_inv_def disk_debt_def)
  next
    case DiskSelecting
    with ok disk_step.closed [of d usage] show ?thesis by (auto simp: disk_debt_def)
  qed
  with ok show "\<exists>d'. disk_step usage d d' \<and> (disk_inv d' \<and> ds_closeCh d' = ClosedStopCh) \<and> disk_debt d' < disk_debt d"
    using disk_step_inv disk_step_closeCh by metis
qed

text \<open>\<^verbatim>\<open>Stop\<close> as its caller sees it.\<close>

definition disk_Stop :: "disk_space \<Rightarrow> disk_space result" where
  "disk_Stop d =
     bind_result (disk_Stop_close d) (\<lambda>d'. Inr (d'\<lparr>ds_worker := NoDiskWorker, ds_wg := 0, ds_closeCh := NoStopCh\<rparr>))"

interpretation dm: runnable disk_Start disk_Stop "\<lambda>d. ds_closeCh d \<noteq> NoStopCh" disk_inv
  by unfold_locales
    (auto simp: disk_Start_def disk_Stop_def disk_Stop_close_def disk_inv_def bind_result_def split: if_splits)

text \<open>
  Once the close channel is closed, the goroutine can always end, and \<^verbatim>\<open>Stop\<close> returns with a monitor that can be started again.
\<close>
theorem disk_Stop_returns:
  assumes "disk_inv d" "disk_Stop_close d = Inr d1"
  shows "\<exists>d2 d3. (disk_step usage)\<^sup>*\<^sup>* d1 d2 \<and> disk_Stop_return d2 = Some d3 \<and> ds_worker d3 = NoDiskWorker
    \<and> \<not> isl (disk_Start d3)"
proof -
  have "disk_inv d1 \<and> ds_closeCh d1 = ClosedStopCh"
    using disk_Stop_close_inv [OF assms] assms(2) by (auto simp: disk_Stop_close_def split: if_splits)
  then obtain d2 where d2: "(disk_step usage)\<^sup>*\<^sup>* d1 d2" "disk_inv d2 \<and> ds_closeCh d2 = ClosedStopCh" "ds_wg d2 = 0"
    using dp.drains [of d1 usage] by blast
  then have "ds_worker d2 = NoDiskWorker" by (auto simp: disk_inv_def split: if_splits)
  with d2 show ?thesis
    by (intro exI [of _ d2] exI [of _ "d2\<lparr>ds_closeCh := NoStopCh\<rparr>"]) (simp add: disk_Stop_return_def disk_Start_def)
qed

section \<open>What the monitor answers\<close>

text \<open>The last measurement among the first \<open>n\<close> calls that did not fail, or 0.\<close>

fun last_measured :: "disk_usage \<Rightarrow> nat \<Rightarrow> rat" where
  "last_measured usage 0 = 0"
| "last_measured usage (Suc n) = (case usage n of Inr u \<Rightarrow> u | Inl _ \<Rightarrow> last_measured usage n)"

definition disk_current :: "disk_usage \<Rightarrow> disk_space \<Rightarrow> bool" where
  "disk_current usage d \<longleftrightarrow> ds_used d = last_measured usage (ds_calls d)"

lemma checkSpace_current: "disk_current usage d \<Longrightarrow> disk_current usage (disk_checkSpace usage d)"
  by (simp add: disk_current_def disk_checkSpace_def Let_def split: sum.split)

lemma DiskFull_current: "disk_current usage d \<Longrightarrow> disk_current usage (snd (disk_DiskFull usage d))"
  by (simp add: disk_DiskFull_def Let_def checkSpace_current)

lemma disk_step_current: "disk_step usage d d' \<Longrightarrow> disk_current usage d \<Longrightarrow> disk_current usage d'"
  by (erule disk_stepE) (simp_all add: checkSpace_current DiskFull_current, simp_all add: disk_current_def)

text \<open>
  Whatever the goroutine and the callers have done, \<^verbatim>\<open>DiskFull\<close> compares the last successful measurement with the limit, and takes
  a new one when that is 0, as it is before the first.
\<close>
theorem DiskFull_answers:
  assumes "(disk_step usage)\<^sup>*\<^sup>* (NewDiskSpace interval limit) d"
  defines "n \<equiv> (if last_measured usage (ds_calls d) = 0 then Suc (ds_calls d) else ds_calls d)"
  shows "fst (disk_DiskFull usage d) \<longleftrightarrow> limit \<le> last_measured usage n"
proof -
  have "disk_current usage d \<and> ds_limitPercent d = limit"
    using assms(1)
  proof (induction rule: rtranclp_induct)
    case base
    show ?case by (simp add: disk_current_def NewDiskSpace_def)
  next
    case (step d d')
    then show ?case using disk_step_current [OF step.hyps(2)] by (auto elim: disk_stepE)
  qed
  then show ?thesis
    using checkSpace_current [of usage d] by (auto simp: disk_DiskFull_def Let_def disk_current_def n_def)
qed

section \<open>Dumps of goroutines (\<^verbatim>\<open>utils/tools.go\<close>)\<close>

definition strings_Trim :: "char \<Rightarrow> string \<Rightarrow> string" where
  "strings_Trim c s = rev (dropWhile (\<lambda>x. x = c) (rev (dropWhile (\<lambda>x. x = c) s)))"

definition keyword_pattern :: "string list \<Rightarrow> string" where
  "keyword_pattern keywords =
     ''(?i)'' @ [CHR 0x5C] @ ''b('' @ strings_Trim (CHR ''|'') (concat (map (\<lambda>k. k @ ''|'') keywords)) @ '')'' @ [CHR 0x5C] @ ''b''"

definition is_goroutine :: "string \<Rightarrow> bool" where
  "is_goroutine line \<longleftrightarrow> take 10 line = ''goroutine ''"

record filter_state =
  fs_block :: "string list"
  fs_matched :: bool
  fs_out :: "string list"
  fs_inGorout :: bool

definition filter_flush :: "filter_state \<Rightarrow> filter_state" where
  "filter_flush st =
     \<lparr>fs_block = [], fs_matched = False,
      fs_out = (if fs_inGorout st \<and> fs_matched st \<and> 0 < length (fs_block st) then fs_out st @ fs_block st @ [''''] else fs_out st),
      fs_inGorout = False\<rparr>"

definition filter_line :: "(string \<Rightarrow> bool) \<Rightarrow> string \<Rightarrow> filter_state \<Rightarrow> filter_state" where
  "filter_line matches line st =
     (if is_goroutine line then (filter_flush st)\<lparr>fs_inGorout := True, fs_block := [line]\<rparr>
      else if \<not> fs_inGorout st then st
      else
        let st' = st\<lparr>fs_block := fs_block st @ [line]\<rparr>
        in if matches line then st'\<lparr>fs_matched := True\<rparr> else st')"

definition filter_lines :: "(string \<Rightarrow> bool) \<Rightarrow> string list \<Rightarrow> string list" where
  "filter_lines matches lines =
     fs_out (filter_flush (fold (filter_line matches) lines
       \<lparr>fs_block = [], fs_matched = False, fs_out = [], fs_inGorout = False\<rparr>))"

text \<open>A pattern that does not compile makes \<^verbatim>\<open>regexp.MustCompile\<close> panic.\<close>

definition FilterGoroutinesByKeywords :: "(string \<Rightarrow> (string \<Rightarrow> bool) option) \<Rightarrow> string \<Rightarrow> string list \<Rightarrow> string option" where
  "FilterGoroutinesByKeywords compile input keywords =
     (case compile (keyword_pattern keywords) of
        None \<Rightarrow> None
      | Some matches \<Rightarrow>
          Some (strings_Join [CHR 0x0A]
            (rev (dropWhile (\<lambda>l. l = '''') (rev (filter_lines matches (strings_Split (CHR 0x0A) input)))))))"

text \<open>The reference: the dump cut into one block for each goroutine, of which those are kept with a match below their first line.\<close>

function goroutine_blocks :: "string list \<Rightarrow> string list list" where
  "goroutine_blocks lines =
     (case dropWhile (\<lambda>l. \<not> is_goroutine l) lines of
        [] \<Rightarrow> []
      | h # rest \<Rightarrow> (h # takeWhile (\<lambda>l. \<not> is_goroutine l) rest) # goroutine_blocks (dropWhile (\<lambda>l. \<not> is_goroutine l) rest))"
  by pat_completeness auto

termination
proof (relation "measure length")
  fix lines h :: "string list" and x
  assume "dropWhile (\<lambda>l. \<not> is_goroutine l) lines = x # h"
  then have "Suc (length h) \<le> length lines"
    using length_dropWhile_le [of "\<lambda>l. \<not> is_goroutine l" lines] by simp
  moreover have "length (dropWhile (\<lambda>l. \<not> is_goroutine l) h) \<le> length h" by (rule length_dropWhile_le)
  ultimately show "(dropWhile (\<lambda>l. \<not> is_goroutine l) h, lines) \<in> measure length" by simp
qed simp

declare goroutine_blocks.simps [simp del]

definition block_kept :: "(string \<Rightarrow> bool) \<Rightarrow> string list \<Rightarrow> bool" where
  "block_kept matches b = list_ex matches (tl b)"

lemma goroutine_blocks_simps [simp]:
  "goroutine_blocks [] = []"
  "is_goroutine l \<Longrightarrow> goroutine_blocks (l # ls) =
     (l # takeWhile (\<lambda>l. \<not> is_goroutine l) ls) # goroutine_blocks (dropWhile (\<lambda>l. \<not> is_goroutine l) ls)"
  "\<not> is_goroutine l \<Longrightarrow> goroutine_blocks (l # ls) = goroutine_blocks ls"
  by (simp_all add: goroutine_blocks.simps [of "[]"] goroutine_blocks.simps [of "l # ls"] goroutine_blocks.simps [of ls])

lemma goroutine_blocks_dropWhile: "goroutine_blocks (dropWhile (\<lambda>l. \<not> is_goroutine l) ls) = goroutine_blocks ls"
  by (induction ls) auto

definition render_blocks :: "(string \<Rightarrow> bool) \<Rightarrow> string list list \<Rightarrow> string list" where
  "render_blocks matches bs = concat (map (\<lambda>b. b @ ['''']) (filter (block_kept matches) bs))"

lemma render_blocks_simps [simp]:
  "render_blocks matches [] = []"
  "render_blocks matches (b # bs) = (if block_kept matches b then b @ [''''] else []) @ render_blocks matches bs"
  by (simp_all add: render_blocks_def)

lemma filter_line_goroutine: "is_goroutine l \<Longrightarrow> filter_line matches l st = (filter_flush st)\<lparr>fs_inGorout := True, fs_block := [l]\<rparr>"
  by (simp add: filter_line_def)

lemma filter_line_outside: "\<not> is_goroutine l \<Longrightarrow> \<not> fs_inGorout st \<Longrightarrow> filter_line matches l st = st"
  by (simp add: filter_line_def)

text \<open>What the loop adds to the output from the middle of a block.\<close>

lemma filter_lines_in_block:
  assumes "fs_inGorout st" "fs_block st = h # b" "fs_matched st = list_ex matches b"
  shows "fs_out (filter_flush (fold (filter_line matches) lines st)) =
    fs_out st @ render_blocks matches
      ((h # b @ takeWhile (\<lambda>l. \<not> is_goroutine l) lines) # goroutine_blocks (dropWhile (\<lambda>l. \<not> is_goroutine l) lines))"
  using assms
proof (induction lines arbitrary: st h b)
  case Nil
  then show ?case by (simp add: filter_flush_def block_kept_def)
next
  case (Cons l ls)
  show ?case
  proof (cases "is_goroutine l")
    case True
    let ?st = "(filter_flush st)\<lparr>fs_inGorout := True, fs_block := [l]\<rparr>"
    have "fs_out (filter_flush (fold (filter_line matches) ls ?st)) = fs_out ?st @ render_blocks matches
        ((l # [] @ takeWhile (\<lambda>l. \<not> is_goroutine l) ls) # goroutine_blocks (dropWhile (\<lambda>l. \<not> is_goroutine l) ls))"
      by (rule Cons.IH) (simp_all add: filter_flush_def)
    moreover have "fs_out ?st = fs_out st @ (if block_kept matches (h # b) then (h # b) @ [''''] else [])"
      using Cons.prems by (simp add: filter_flush_def block_kept_def)
    ultimately show ?thesis
      using True by (simp add: filter_line_goroutine)
  next
    case False
    let ?st = "filter_line matches l st"
    have st: "fs_out ?st = fs_out st" "fs_inGorout ?st" "fs_block ?st = h # (b @ [l])" "fs_matched ?st = list_ex matches (b @ [l])"
      using False Cons.prems by (auto simp: filter_line_def Let_def)
    show ?thesis
      using Cons.IH [OF st(2-4)] False st(1) by simp
  qed
qed

text \<open>The loop with its flags computes the reference.\<close>
theorem filter_lines_reference: "filter_lines matches lines = render_blocks matches (goroutine_blocks lines)"
proof (induction lines)
  case Nil
  show ?case by (simp add: filter_lines_def filter_flush_def)
next
  case (Cons l ls)
  show ?case
  proof (cases "is_goroutine l")
    case True
    let ?st = "\<lparr>fs_block = [l], fs_matched = False, fs_out = [], fs_inGorout = True\<rparr>"
    have "fs_out (filter_flush (fold (filter_line matches) ls ?st)) = fs_out ?st @ render_blocks matches
        ((l # [] @ takeWhile (\<lambda>l. \<not> is_goroutine l) ls) # goroutine_blocks (dropWhile (\<lambda>l. \<not> is_goroutine l) ls))"
      by (rule filter_lines_in_block) simp_all
    moreover have "filter_line matches l \<lparr>fs_block = [], fs_matched = False, fs_out = [], fs_inGorout = False\<rparr> = ?st"
      using True by (simp add: filter_line_goroutine filter_flush_def)
    ultimately show ?thesis using True by (simp add: filter_lines_def)
  next
    case False
    with Cons.IH show ?thesis by (simp add: filter_lines_def filter_line_outside)
  qed
qed

end
