(* ===== verification/Things.thy ===== *)
theory Things
  imports Chargepoint Climate Controls Diagnostics Numeric_Meter Parameters Sensors Switches
begin

text \<open>
  The factories of \<^verbatim>\<open>src/adapter/thing\<close>, which put a thing together from services and give the routing and the tasks for its
  kind. An adapter holds services of several types; a handler that finds a service of another type under the address refuses it.
  So the services are kept by their type, and the routings and tasks of one type act on the part of the world of that type.
\<close>

section \<open>Services of several types\<close>

datatype service_type =
    TChargepoint | TDiagnostic | TDevSys | TMeter | TOTA | TParameters | TWaterHeater | TThermostat
  | TNumericSensor | TPresence | TLvlSwitch | TColor | TScene | TBattery

record 'd things_world =
  tg_ad :: adapter
  tg_svcs :: "service_type \<Rightarrow> string \<Rightarrow> 'd svc option"

definition type_view :: "service_type \<Rightarrow> 'd things_world \<Rightarrow> 'd svc_world" where
  "type_view k w = \<lparr>wd_ad = tg_ad w, wd_svcs = tg_svcs w k\<rparr>"

definition type_put :: "service_type \<Rightarrow> 'd svc_world \<Rightarrow> 'd things_world \<Rightarrow> 'd things_world" where
  "type_put k v w = \<lparr>tg_ad = wd_ad v, tg_svcs = (tg_svcs w)(k := wd_svcs v)\<rparr>"

definition type_handler :: "service_type \<Rightarrow> 'd svc_world handler_fn \<Rightarrow> 'd things_world handler_fn" where
  "type_handler k h msg s =
     (let (s', reply) = h msg \<lparr>rs_locked = rs_locked s, rs_app = type_view k (rs_app s)\<rparr>
      in (\<lparr>rs_locked = rs_locked s', rs_app = type_put k (rs_app s') (rs_app s)\<rparr>, reply))"

definition type_routing :: "service_type \<Rightarrow> 'd svc_world routing \<Rightarrow> 'd things_world routing" where
  "type_routing k r = \<lparr>rt_handler = map_option (type_handler k) (rt_handler r), rt_voters = rt_voters r\<rparr>"

definition type_routes :: "service_type \<Rightarrow> 'd svc_world routing list \<Rightarrow> 'd things_world routing_part" where
  "type_routes k rs = ManyRoutings (map (type_routing k) rs)"

text \<open>A reporting task of one type: the voters of the caller come first, then those the type adds.\<close>

definition type_task ::
  "service_type \<Rightarrow> (('d svc_world \<Rightarrow> bool) list \<Rightarrow> 'd svc_world task) \<Rightarrow> ('d things_world \<Rightarrow> bool) list \<Rightarrow> 'd things_world task" where
  "type_task k mk voters =
     (let t = mk []
      in task_New (\<lambda>w. let (v, panicked) = tk_handler t (type_view k w) in (type_put k v w, panicked)) (tk_duration t)
           (voters @ map (\<lambda>v w. v (type_view k w)) (tk_voters t)))"

section \<open>Configurations\<close>

text \<open>What a factory makes a service of: its configuration, the strategy that may be nil, its specification and its device.\<close>

record ('c, 'd) service_config =
  vc_config :: 'c
  vc_ReportingStrategy :: "strategy option"
  vc_Specification :: service_spec
  vc_dev :: 'd

text \<open>What the constructors of all services take: the adapter that publishes, and the clock.\<close>

record factory_env =
  fe_fimpgo :: fimpgo
  fe_ad :: adapter
  fe_clock :: "nat \<Rightarrow> time"

definition make_meter :: "factory_env \<Rightarrow> ('d meter_reporter svc_config, 'd) service_config \<Rightarrow> 'd meter_reporter svc_config \<times> 'd svc" where
  "make_meter fe v = meter_NewService (vc_config v) (vc_ReportingStrategy v) (vc_Specification v) (vc_dev v) (fe_ad fe) (fe_clock fe)"

definition make_sensor :: "factory_env \<Rightarrow> ('d sensor_reporter, 'd) service_config \<Rightarrow> 'd sensor_reporter svc_config \<times> 'd svc" where
  "make_sensor fe v =
     sensor_NewService (fe_fimpgo fe) (vc_config v) (vc_ReportingStrategy v) (vc_Specification v) (vc_dev v) (fe_ad fe) (fe_clock fe)"

definition SensorTemp :: string where "SensorTemp = sensor_prefix @ ''temp''"
definition SensorWatTemp :: string where "SensorWatTemp = sensor_prefix @ ''wattemp''"

text \<open>An optional service is left out when its configuration is nil.\<close>

definition optional_svc :: "('v \<Rightarrow> 'c \<times> 'd svc) \<Rightarrow> 'v option \<Rightarrow> ('c \<times> 'd svc) option" where
  "optional_svc f v = map_option f v"

definition svc_of :: "('c \<times> 'd svc) option \<Rightarrow> 'd svc list" where
  "svc_of r = (case r of None \<Rightarrow> [] | Some (_, s) \<Rightarrow> [s])"

text \<open>The sensor of a boiler or a thermostat is left out, too, when it measures something else.\<close>

definition matching_sensor :: "string \<Rightarrow> ('c, 'd) service_config option \<Rightarrow> ('c, 'd) service_config option" where
  "matching_sensor name v =
     (case v of None \<Rightarrow> None | Some x \<Rightarrow> if sv_Name (vc_Specification x) = name then Some x else None)"

definition thing_of :: "nat \<Rightarrow> thing_config \<Rightarrow> 'd svc list \<Rightarrow> thing" where
  "thing_of ts cfg services = NewThing ts cfg (map sc_spec services)"

section \<open>Batteries (\<^verbatim>\<open>battery.go\<close>)\<close>

definition NewBattery ::
  "factory_env \<Rightarrow> nat \<Rightarrow> thing_config \<Rightarrow> ('d battery_reporter, 'd) service_config \<Rightarrow> thing \<times> 'd battery_reporter svc_config \<times> 'd svc" where
  "NewBattery fe ts cfg b =
     (let (bc, s) = battery_NewService (fe_fimpgo fe) (vc_config b) (vc_ReportingStrategy b) (vc_Specification b) (vc_dev b) (fe_ad fe) (fe_clock fe)
      in (thing_of ts cfg [s], bc, s))"

definition RouteBattery :: "'d battery_reporter svc_config \<Rightarrow> 'd things_world routing list" where
  "RouteBattery b = map (type_routing TBattery) (battery_RouteService b)"

definition TaskBattery ::
  "adapter_env \<Rightarrow> 'd battery_reporter svc_config \<Rightarrow> duration \<Rightarrow> ('d things_world \<Rightarrow> bool) list \<Rightarrow> 'd things_world task list" where
  "TaskBattery av b interval voters = [type_task TBattery (battery_TaskReporting av b interval) voters]"

section \<open>Boilers (\<^verbatim>\<open>boiler.go\<close>)\<close>

definition NewBoiler ::
  "factory_env \<Rightarrow> nat \<Rightarrow> thing_config \<Rightarrow> ('d wh_config, 'd) service_config \<Rightarrow> ('d sensor_reporter, 'd) service_config option
   \<Rightarrow> ('d meter_reporter svc_config, 'd) service_config option
   \<Rightarrow> thing \<times> ('d wh_config \<times> 'd svc) \<times> ('d sensor_reporter svc_config \<times> 'd svc) option \<times> ('d meter_reporter svc_config \<times> 'd svc) option" where
  "NewBoiler fe ts cfg h sensor meter =
     (let wh = wh_NewService (vc_config h) (vc_ReportingStrategy h) (vc_Specification h) (vc_dev h) (fe_ad fe) (fe_clock fe);
          se = optional_svc (make_sensor fe) (matching_sensor SensorWatTemp sensor);
          me = optional_svc (make_meter fe) meter
      in (thing_of ts cfg ([snd wh] @ svc_of se @ svc_of me), wh, se, me))"

definition RouteBoiler ::
  "'d wh_config \<Rightarrow> 'd sensor_reporter svc_config \<Rightarrow> 'd meter_reporter svc_config \<Rightarrow> 'd things_world routing list" where
  "RouteBoiler h se me =
     router_Combine
       [type_routes TWaterHeater (wh_RouteService h),
        type_routes TNumericSensor (sensor_RouteService se),
        type_routes TMeter (meter_RouteService me)]"

definition TaskBoiler ::
  "adapter_env \<Rightarrow> 'd wh_config \<Rightarrow> 'd sensor_reporter svc_config \<Rightarrow> 'd meter_reporter svc_config \<Rightarrow> duration
   \<Rightarrow> ('d things_world \<Rightarrow> bool) list \<Rightarrow> 'd things_world task list" where
  "TaskBoiler av h se me interval voters =
     [type_task TWaterHeater (wh_TaskReporting av h interval) voters,
      type_task TNumericSensor (sensor_TaskReporting av se interval) voters,
      type_task TMeter (meter_TaskReporting av me interval) voters]"

section \<open>Car chargers (\<^verbatim>\<open>car_charger.go\<close>)\<close>

definition NewCarCharger ::
  "factory_env \<Rightarrow> nat \<Rightarrow> thing_config \<Rightarrow> ('d cp_config, 'd) service_config \<Rightarrow> ('d reboot_controller, 'd) service_config option
   \<Rightarrow> ('d diag_controller, 'd) service_config option \<Rightarrow> ('d meter_reporter svc_config, 'd) service_config option
   \<Rightarrow> ('d ota_controller, 'd) service_config option \<Rightarrow> ('d par_config, 'd) service_config option
   \<Rightarrow> thing \<times> 'd svc \<times> ('d diag_controller svc_config \<times> 'd svc) option \<times> (unit \<times> 'd svc) option
       \<times> ('d meter_reporter svc_config \<times> 'd svc) option \<times> ('d ota_controller svc_config \<times> 'd svc) option \<times> ('d par_config \<times> 'd svc) option" where
  "NewCarCharger fe ts cfg c devsys diag meter ota par =
     (let cp = cp_NewService (vc_config c) (vc_Specification c) (vc_dev c) (fe_ad fe) (fe_clock fe);
          dg = optional_svc (\<lambda>v. diag_NewService (fe_fimpgo fe) (vc_config v) (vc_Specification v) (vc_dev v) (fe_ad fe) (fe_clock fe)) diag;
          ds = optional_svc (\<lambda>v. ((), devsys_NewService (fe_fimpgo fe) (vc_config v) (vc_Specification v) (vc_dev v) (fe_ad fe) (fe_clock fe))) devsys;
          me = optional_svc (make_meter fe) meter;
          ot = optional_svc (\<lambda>v. ota_NewService (fe_fimpgo fe) (vc_config v) (vc_Specification v) (vc_dev v) (fe_ad fe) (fe_clock fe)) ota;
          pa = optional_svc (\<lambda>v. par_NewService (vc_config v) (vc_Specification v) (vc_dev v) (fe_ad fe) (fe_clock fe)) par
      in (thing_of ts cfg ([cp] @ svc_of dg @ svc_of ds @ svc_of me @ svc_of ot @ svc_of pa), cp, dg, ds, me, ot, pa))"

definition RouteCarCharger ::
  "fimpgo \<Rightarrow> 'd cp_config \<Rightarrow> 'd diag_controller svc_config \<Rightarrow> 'd reboot_controller \<Rightarrow> 'd meter_reporter svc_config
   \<Rightarrow> 'd ota_controller svc_config \<Rightarrow> 'd par_config \<Rightarrow> 'd things_world routing list" where
  "RouteCarCharger fg cp dg ds me ot pa =
     router_Combine
       [type_routes TChargepoint (cp_RouteService cp),
        type_routes TDiagnostic (diag_RouteService dg),
        type_routes TDevSys (devsys_RouteService fg ds),
        type_routes TMeter (meter_RouteService me),
        type_routes TOTA (ota_RouteService ot),
        type_routes TParameters (par_RouteService pa)]"

definition TaskCarCharger ::
  "adapter_env \<Rightarrow> 'd cp_config \<Rightarrow> 'd meter_reporter svc_config \<Rightarrow> duration \<Rightarrow> ('d things_world \<Rightarrow> bool) list \<Rightarrow> 'd things_world task list" where
  "TaskCarCharger av cp me interval voters =
     [type_task TChargepoint (cp_TaskReporting av cp interval) voters, type_task TMeter (meter_TaskReporting av me interval) voters]"

section \<open>Lights (\<^verbatim>\<open>light.go\<close>)\<close>

definition NewLight ::
  "factory_env \<Rightarrow> nat \<Rightarrow> thing_config \<Rightarrow> ('d lsw_controller, 'd) service_config \<Rightarrow> ('d color_controller, 'd) service_config option
   \<Rightarrow> thing \<times> ('d lsw_controller svc_config \<times> 'd svc) \<times> ('d color_controller svc_config \<times> 'd svc) option" where
  "NewLight fe ts cfg l color =
     (let lv = lsw_NewService (fe_fimpgo fe) (vc_config l) (vc_ReportingStrategy l) (vc_Specification l) (vc_dev l) (fe_ad fe) (fe_clock fe);
          co = optional_svc (\<lambda>v. color_NewService (fe_fimpgo fe) (vc_config v) (vc_ReportingStrategy v) (vc_Specification v) (vc_dev v) (fe_ad fe) (fe_clock fe)) color
      in (thing_of ts cfg ([snd lv] @ svc_of co), lv, co))"

definition RouteLight ::
  "'d lsw_controller svc_config \<Rightarrow> string \<Rightarrow> 'd color_controller svc_config \<Rightarrow> 'd things_world routing list" where
  "RouteLight l ptr co =
     router_Combine [type_routes TLvlSwitch (lsw_RouteService l ptr), type_routes TColor (color_RouteService co)]"

definition TaskLight ::
  "adapter_env \<Rightarrow> 'd lsw_controller svc_config \<Rightarrow> 'd color_controller svc_config \<Rightarrow> duration
   \<Rightarrow> ('d things_world \<Rightarrow> bool) list \<Rightarrow> 'd things_world task list" where
  "TaskLight av l co interval voters =
     [type_task TLvlSwitch (lsw_TaskReporting av l interval) voters, type_task TColor (color_TaskReporting av co interval) voters]"

section \<open>Main electricity meters (\<^verbatim>\<open>main_elec.go\<close>)\<close>

text \<open>A nil strategy of the meter becomes the one that always reports.\<close>

definition NewMainElec ::
  "factory_env \<Rightarrow> nat \<Rightarrow> thing_config \<Rightarrow> ('d meter_reporter svc_config, 'd) service_config \<Rightarrow> thing \<times> 'd meter_reporter svc_config \<times> 'd svc" where
  "NewMainElec fe ts cfg m =
     (let m' = (if vc_ReportingStrategy m = None then m\<lparr>vc_ReportingStrategy := Some ReportAlways\<rparr> else m);
          (mc, s) = make_meter fe m'
      in (thing_of ts cfg [s], mc, s))"

definition RouteMainElec :: "'d meter_reporter svc_config \<Rightarrow> 'd things_world routing list" where
  "RouteMainElec m = map (type_routing TMeter) (meter_RouteService m)"

definition TaskMainElec ::
  "adapter_env \<Rightarrow> 'd meter_reporter svc_config \<Rightarrow> duration \<Rightarrow> ('d things_world \<Rightarrow> bool) list \<Rightarrow> 'd things_world task list" where
  "TaskMainElec av m interval voters = [type_task TMeter (meter_TaskReporting av m interval) voters]"

section \<open>Scenes (\<^verbatim>\<open>scene.go\<close>)\<close>

definition NewScene ::
  "factory_env \<Rightarrow> nat \<Rightarrow> thing_config \<Rightarrow> ('d scene_controller, 'd) service_config \<Rightarrow> thing \<times> 'd scene_controller svc_config \<times> 'd svc" where
  "NewScene fe ts cfg v =
     (let (c, s) = scene_NewService (fe_fimpgo fe) (vc_config v) (vc_ReportingStrategy v) (vc_Specification v) (vc_dev v) (fe_ad fe) (fe_clock fe)
      in (thing_of ts cfg [s], c, s))"

definition RouteScene :: "'d scene_controller svc_config \<Rightarrow> 'd things_world routing list" where
  "RouteScene c = router_Combine [type_routes TScene (scene_RouteService c)]"

definition TaskScene ::
  "adapter_env \<Rightarrow> 'd scene_controller svc_config \<Rightarrow> duration \<Rightarrow> ('d things_world \<Rightarrow> bool) list \<Rightarrow> 'd things_world task list" where
  "TaskScene av c interval voters = [type_task TScene (scene_TaskReporting av c interval) voters]"

section \<open>Sensors (\<^verbatim>\<open>sensor.go\<close>)\<close>

definition NewSensor ::
  "factory_env \<Rightarrow> nat \<Rightarrow> thing_config \<Rightarrow> ('d sensor_reporter, 'd) service_config list \<Rightarrow> ('d presence_controller, 'd) service_config option
   \<Rightarrow> thing \<times> ('d presence_controller svc_config \<times> 'd svc) option \<times> ('d sensor_reporter svc_config \<times> 'd svc) list" where
  "NewSensor fe ts cfg numeric presence =
     (let pr = optional_svc (\<lambda>v. presence_NewService (fe_fimpgo fe) (vc_config v) (vc_ReportingStrategy v) (vc_Specification v) (vc_dev v) (fe_ad fe) (fe_clock fe)) presence;
          ns = map (make_sensor fe) numeric
      in (thing_of ts cfg (svc_of pr @ map snd ns), pr, ns))"

definition RouteSensor ::
  "'d presence_controller svc_config \<Rightarrow> 'd sensor_reporter svc_config \<Rightarrow> 'd things_world routing list" where
  "RouteSensor pr se =
     router_Combine [type_routes TPresence (presence_RouteService pr), type_routes TNumericSensor (sensor_RouteService se)]"

definition TaskSensor ::
  "adapter_env \<Rightarrow> 'd presence_controller svc_config \<Rightarrow> 'd sensor_reporter svc_config \<Rightarrow> duration
   \<Rightarrow> ('d things_world \<Rightarrow> bool) list \<Rightarrow> 'd things_world task list" where
  "TaskSensor av pr se interval voters =
     task_Combine (TaskList
       [type_task TPresence (presence_TaskReporting av pr interval) voters,
        type_task TNumericSensor (sensor_TaskReporting av se interval) voters])"

section \<open>Thermostats (\<^verbatim>\<open>thermostat.go\<close>)\<close>

definition NewThermostat ::
  "factory_env \<Rightarrow> nat \<Rightarrow> thing_config \<Rightarrow> ('d ts_config, 'd) service_config \<Rightarrow> ('d sensor_reporter, 'd) service_config option
   \<Rightarrow> ('d meter_reporter svc_config, 'd) service_config option
   \<Rightarrow> thing \<times> ('d ts_config \<times> 'd svc) \<times> ('d sensor_reporter svc_config \<times> 'd svc) option \<times> ('d meter_reporter svc_config \<times> 'd svc) option" where
  "NewThermostat fe ts cfg t sensor meter =
     (let th = ts_NewService (vc_config t) (vc_ReportingStrategy t) (vc_Specification t) (vc_dev t) (fe_ad fe) (fe_clock fe);
          se = optional_svc (make_sensor fe) (matching_sensor SensorTemp sensor);
          me = optional_svc (make_meter fe) meter
      in (thing_of ts cfg ([snd th] @ svc_of se @ svc_of me), th, se, me))"

definition RouteThermostat ::
  "'d ts_config \<Rightarrow> 'd sensor_reporter svc_config \<Rightarrow> 'd meter_reporter svc_config \<Rightarrow> 'd things_world routing list" where
  "RouteThermostat t se me =
     router_Combine
       [type_routes TThermostat (ts_RouteService t),
        type_routes TNumericSensor (sensor_RouteService se),
        type_routes TMeter (meter_RouteService me)]"

definition TaskThermostat ::
  "adapter_env \<Rightarrow> 'd ts_config \<Rightarrow> 'd sensor_reporter svc_config \<Rightarrow> 'd meter_reporter svc_config \<Rightarrow> duration
   \<Rightarrow> ('d things_world \<Rightarrow> bool) list \<Rightarrow> 'd things_world task list" where
  "TaskThermostat av t se me interval voters =
     [type_task TThermostat (ts_TaskReporting av t interval) voters,
      type_task TNumericSensor (sensor_TaskReporting av se interval) voters,
      type_task TMeter (meter_TaskReporting av me interval) voters]"

section \<open>Dispatch\<close>

text \<open>
  At most one routing of a list accepts a message, and every routing of a list only accepts messages whose service satisfies a
  test. Lists with tests that exclude each other can be put together.
\<close>

definition accepting :: "'w routing list \<Rightarrow> message \<Rightarrow> 'w routing list" where
  "accepting rs m = filter (\<lambda>r. routing_vote r m) rs"

definition dispatches :: "(string \<Rightarrow> bool) \<Rightarrow> 'w routing list \<Rightarrow> bool" where
  "dispatches S rs \<longleftrightarrow> (\<forall>m. length (accepting rs m) \<le> 1 \<and> (accepting rs m \<noteq> [] \<longrightarrow> S (pl_Service (ms_Payload m))))"

lemma accepting_append [simp]: "accepting (rs @ rs') m = accepting rs m @ accepting rs' m"
  by (simp add: accepting_def)

lemma dispatches_append:
  assumes "dispatches S rs" "dispatches T rs'" "\<And>s. \<not> (S s \<and> T s)"
  shows "dispatches (\<lambda>s. S s \<or> T s) (rs @ rs')"
  unfolding dispatches_def
proof (intro allI)
  fix m
  have "accepting rs m = [] \<or> accepting rs' m = []"
    using assms unfolding dispatches_def by blast
  then show "length (accepting (rs @ rs') m) \<le> 1
      \<and> (accepting (rs @ rs') m \<noteq> [] \<longrightarrow> S (pl_Service (ms_Payload m)) \<or> T (pl_Service (ms_Payload m)))"
    using assms(1,2) unfolding dispatches_def by auto
qed

lemma type_routing_vote [simp]: "routing_vote (type_routing k r) m = routing_vote r m"
  by (simp add: routing_vote_def type_routing_def)

lemma accepting_type [simp]: "accepting (map (type_routing k) rs) m = map (type_routing k) (accepting rs m)"
  by (simp add: accepting_def filter_map comp_def)

lemma dispatches_type [simp]: "dispatches S (map (type_routing k) rs) = dispatches S rs"
  by (simp add: dispatches_def)

text \<open>The routings of one service: one for each of its commands.\<close>

definition svc_votes :: "(string \<Rightarrow> bool) \<Rightarrow> string list \<Rightarrow> 'w routing list \<Rightarrow> bool" where
  "svc_votes S cmds rs \<longleftrightarrow>
     list_all2 (\<lambda>cmd r. \<forall>m. routing_vote r m \<longleftrightarrow> S (pl_Service (ms_Payload m)) \<and> pl_Interface (ms_Payload m) = cmd) cmds rs"

lemma svc_votes_none: "svc_votes S cmds rs \<Longrightarrow> pl_Interface (ms_Payload m) \<notin> set cmds \<Longrightarrow> accepting rs m = []"
  unfolding svc_votes_def by (induction cmds rs rule: list_all2_induct) (auto simp: accepting_def)

lemma svc_votes_dispatches: "svc_votes S cmds rs \<Longrightarrow> distinct cmds \<Longrightarrow> dispatches S rs"
proof -
  have "length (accepting rs m) \<le> 1 \<and> (accepting rs m \<noteq> [] \<longrightarrow> S (pl_Service (ms_Payload m)))"
    if "svc_votes S cmds rs" "distinct cmds" for m
    using that
  proof (induction rs arbitrary: cmds)
    case Nil
    then show ?case by (simp add: accepting_def)
  next
    case (Cons r rs)
    then obtain c cs where c: "cmds = c # cs" "svc_votes S cs rs" "c \<notin> set cs" "distinct cs"
      and v: "routing_vote r m \<longleftrightarrow> S (pl_Service (ms_Payload m)) \<and> pl_Interface (ms_Payload m) = c"
      by (cases cmds) (auto simp: svc_votes_def)
    show ?case
      using Cons.IH [OF c(2,4)] svc_votes_none [OF c(2), of m] v c(3) by (auto simp: accepting_def)
  qed
  then show "svc_votes S cmds rs \<Longrightarrow> distinct cmds \<Longrightarrow> dispatches S rs"
    by (simp add: dispatches_def)
qed

lemma svc_route_vote:
  "routing_vote (svc_routing fg service cmd h) m \<longleftrightarrow> pl_Service (ms_Payload m) = service \<and> pl_Interface (ms_Payload m) = cmd"
  "routing_vote (svc_route fg (ForService service) cmd opts h) m \<longleftrightarrow> pl_Service (ms_Payload m) = service \<and> pl_Interface (ms_Payload m) = cmd"
  "routing_vote (svc_route fg (ForServicePrefix pre) cmd opts h) m \<longleftrightarrow>
     take (length pre) (pl_Service (ms_Payload m)) = pre \<and> pl_Interface (ms_Payload m) = cmd"
  by (simp_all add: svc_routing_def svc_route_def routing_vote_iff NewRouting_def ForService_def ForServicePrefix_def ForType_def)



definition name_prefix :: "string \<Rightarrow> string \<Rightarrow> bool" where
  "name_prefix pre s \<longleftrightarrow> take (length pre) s = pre"

lemma name_prefix_excl: "\<not> (name_prefix ''sensor_'' s \<and> name_prefix ''meter_'' s)"
  by (cases s) (auto simp: name_prefix_def)

lemma cp_votes: "svc_votes (\<lambda>s. s = ''chargepoint'')
    [''cmd.charge.start'',
     ''cmd.charge.stop'',
     ''cmd.state.get_report'',
     ''cmd.cable_lock.set'',
     ''cmd.cable_lock.get_report'',
     ''cmd.current_session.set_current'',
     ''cmd.current_session.get_report'',
     ''cmd.max_current.set'',
     ''cmd.max_current.get_report'',
     ''cmd.phase_mode.set'',
     ''cmd.phase_mode.get_report''] (cp_RouteService c)"
  by (simp add: svc_votes_def svc_route_vote Chargepoint_name_def
      cp_RouteService_def Chargepoint.routeCmdChargeStart_def Chargepoint.CmdChargeStart_def Chargepoint.routeCmdChargeStop_def Chargepoint.CmdChargeStop_def Chargepoint.routeCmdStateGetReport_def Chargepoint.CmdStateGetReport_def Chargepoint.routeCmdCableLockSet_def Chargepoint.CmdCableLockSet_def Chargepoint.routeCmdCableLockGetReport_def Chargepoint.CmdCableLockGetReport_def Chargepoint.routeCmdCurrentSessionSetCurrent_def Chargepoint.CmdCurrentSessionSetCurrent_def Chargepoint.routeCmdCurrentSessionGetReport_def Chargepoint.CmdCurrentSessionGetReport_def Chargepoint.routeCmdMaxCurrentSet_def Chargepoint.CmdMaxCurrentSet_def Chargepoint.routeCmdMaxCurrentGetReport_def Chargepoint.CmdMaxCurrentGetReport_def Chargepoint.routeCmdPhaseModeSet_def Chargepoint.CmdPhaseModeSet_def Chargepoint.routeCmdPhaseModeGetReport_def Chargepoint.CmdPhaseModeGetReport_def)

lemma wh_votes: "svc_votes (\<lambda>s. s = ''water_heater'')
    [''cmd.mode.set'',
     ''cmd.setpoint.set'',
     ''cmd.mode.get_report'',
     ''cmd.setpoint.get_report'',
     ''cmd.state.get_report''] (wh_RouteService c)"
  by (simp add: svc_votes_def svc_route_vote WaterHeater_def
      wh_RouteService_def Climate.wh_RouteCmdModeSet_def Climate.CmdModeSet_def Climate.wh_RouteCmdSetpointSet_def Climate.CmdSetpointSet_def Climate.wh_RouteCmdModeGetReport_def Climate.CmdModeGetReport_def Climate.wh_RouteCmdSetpointGetReport_def Climate.CmdSetpointGetReport_def Climate.wh_RouteCmdStateGetReport_def Climate.CmdStateGetReport_def)

lemma ts_votes: "svc_votes (\<lambda>s. s = ''thermostat'')
    [''cmd.mode.set'',
     ''cmd.setpoint.set'',
     ''cmd.mode.get_report'',
     ''cmd.setpoint.get_report'',
     ''cmd.state.get_report''] (ts_RouteService c)"
  by (simp add: svc_votes_def svc_route_vote Thermostat_def
      ts_RouteService_def Climate.ts_RouteCmdModeSet_def Climate.CmdModeSet_def Climate.ts_RouteCmdSetpointSet_def Climate.CmdSetpointSet_def Climate.ts_RouteCmdModeGetReport_def Climate.CmdModeGetReport_def Climate.ts_RouteCmdSetpointGetReport_def Climate.CmdSetpointGetReport_def Climate.ts_RouteCmdStateGetReport_def Climate.CmdStateGetReport_def)

lemma diag_votes: "svc_votes (\<lambda>s. s = ''diagnostic'')
    [''cmd.lqi.get_report'',
     ''cmd.rssi.get_report'',
     ''cmd.reboot_reason.get_report'',
     ''cmd.reboots_count.get_report'',
     ''cmd.uptime.get_report'',
     ''cmd.errors.get_report''] (diag_RouteService c)"
  by (simp add: svc_votes_def svc_route_vote Diagnostic_def
      diag_RouteService_def Diagnostics.routeCmdLQIGetReport_def Diagnostics.CmdLQIGetReport_def Diagnostics.routeCmdRSSIGetReport_def Diagnostics.CmdRSSIGetReport_def Diagnostics.routeCmdRebootReasonGetReport_def Diagnostics.CmdRebootReasonGetReport_def Diagnostics.routeCmdRebootsCountGetReport_def Diagnostics.CmdRebootsCountGetReport_def Diagnostics.routeCmdUptimeGetReport_def Diagnostics.CmdUptimeGetReport_def Diagnostics.routeCmdErrorsGetReport_def Diagnostics.CmdErrorsGetReport_def)

lemma ota_votes: "svc_votes (\<lambda>s. s = ''ota'')
    [''cmd.ota_update.start''] (ota_RouteService c)"
  by (simp add: svc_votes_def svc_route_vote OTA_def
      ota_RouteService_def Diagnostics.routeCmdOTAUpdateStart_def Diagnostics.CmdOTAUpdateStart_def)

lemma devsys_votes: "svc_votes (\<lambda>s. s = ''dev_sys'')
    [''cmd.thing.reboot''] (devsys_RouteService fg ctl)"
  by (simp add: svc_votes_def svc_route_vote DevSys_def
      devsys_RouteService_def Controls.routeCmdThingReboot_def Controls.CmdThingReboot_def)

lemma par_votes: "svc_votes (\<lambda>s. s = ''parameters'')
    [''cmd.sup_params.get_report'',
     ''cmd.param.set'',
     ''cmd.param.get_report''] (par_RouteService c)"
  by (simp add: svc_votes_def svc_route_vote Parameters_name_def
      par_RouteService_def Parameters.routeCmdSupParamsGetReport_def Parameters.CmdSupParamsGetReport_def Parameters.routeCmdParamSet_def Parameters.CmdParamSet_def Parameters.routeCmdParamGetReport_def Parameters.CmdParamGetReport_def)

lemma meter_votes: "svc_votes (name_prefix ''meter_'')
    [''cmd.meter.get_report'',
     ''cmd.meter_export.get_report'',
     ''cmd.meter_ext.get_report'',
     ''cmd.meter.reset''] (meter_RouteService c)"
  by (simp add: svc_votes_def svc_route_vote name_prefix_def meter_prefix_def meter_route_def
      meter_RouteService_def Numeric_Meter.routeCmdMeterGetReport_def Numeric_Meter.CmdMeterGetReport_def Numeric_Meter.routeCmdMeterExportGetReport_def Numeric_Meter.CmdMeterExportGetReport_def Numeric_Meter.routeCmdMeterExtGetReport_def Numeric_Meter.CmdMeterExtGetReport_def Numeric_Meter.routeCmdMeterReset_def Numeric_Meter.CmdMeterReset_def)

lemma sensor_votes: "svc_votes (name_prefix ''sensor_'')
    [''cmd.sensor.get_report''] (sensor_RouteService c)"
  by (simp add: svc_votes_def svc_route_vote name_prefix_def sensor_prefix_def
      sensor_RouteService_def Sensors.RouteCmdSensorGetReport_def Sensors.CmdSensorGetReport_def)

lemma presence_votes: "svc_votes (\<lambda>s. s = ''sensor_presence'')
    [''cmd.presence.get_report''] (presence_RouteService c)"
  by (simp add: svc_votes_def svc_route_vote SensorPresence_def
      presence_RouteService_def Sensors.RouteCmdPresenceGetReport_def Sensors.CmdPresenceGetReport_def)

lemma battery_votes: "svc_votes (\<lambda>s. s = ''battery'')
    [''cmd.lvl.get_report''] (battery_RouteService c)"
  by (simp add: svc_votes_def svc_route_vote Battery_def
      battery_RouteService_def Sensors.routeCmdLevelGetReport_def Sensors.CmdLevelGetReport_def)

lemma lsw_votes: "svc_votes (\<lambda>s. s = ''out_lvl_switch'')
    [''cmd.lvl.set'',
     ''cmd.binary.set'',
     ''cmd.lvl.get_report'',
     ''cmd.lvl.start'',
     ''cmd.lvl.stop''] (lsw_RouteService c ptr)"
  by (simp add: svc_votes_def svc_route_vote OutLvlSwitch_def
      lsw_RouteService_def Switches.RouteCmdLvlSet_def Switches.CmdLvlSet_def Switches.lsw_RouteCmdBinarySet_def Switches.CmdBinarySet_def Switches.RouteCmdLvlGetReport_def Switches.CmdLvlGetReport_def Switches.RouteCmdLvlStart_def Switches.CmdLvlStart_def Switches.RouteCmdLvlStop_def Switches.CmdLvlStop_def)

lemma color_votes: "svc_votes (\<lambda>s. s = ''color_ctrl'')
    [''cmd.color.set'',
     ''cmd.color.get_report''] (color_RouteService c)"
  by (simp add: svc_votes_def svc_route_vote ColorCtrl_def
      color_RouteService_def Controls.RouteCmdColorSet_def Controls.CmdColorSet_def Controls.RouteCmdColorGetReport_def Controls.CmdColorGetReport_def)

lemma scene_votes: "svc_votes (\<lambda>s. s = ''scene_ctrl'')
    [''cmd.scene.set'',
     ''cmd.scene.get_report''] (scene_RouteService c)"
  by (simp add: svc_votes_def svc_route_vote SceneCtrl_def
      scene_RouteService_def Controls.RouteCmdSceneSet_def Controls.CmdSceneSet_def Controls.RouteCmdSceneGetReport_def Controls.CmdSceneGetReport_def)

lemmas votes_dispatch =
  cp_votes [THEN svc_votes_dispatches, simplified]
  wh_votes [THEN svc_votes_dispatches, simplified]
  ts_votes [THEN svc_votes_dispatches, simplified]
  diag_votes [THEN svc_votes_dispatches, simplified]
  ota_votes [THEN svc_votes_dispatches, simplified]
  devsys_votes [THEN svc_votes_dispatches, simplified]
  par_votes [THEN svc_votes_dispatches, simplified]
  meter_votes [THEN svc_votes_dispatches, simplified]
  sensor_votes [THEN svc_votes_dispatches, simplified]
  presence_votes [THEN svc_votes_dispatches, simplified]
  battery_votes [THEN svc_votes_dispatches, simplified]
  lsw_votes [THEN svc_votes_dispatches, simplified]
  color_votes [THEN svc_votes_dispatches, simplified]
  scene_votes [THEN svc_votes_dispatches, simplified]

text \<open>The routings that \<^verbatim>\<open>RouteBoiler\<close> and its like put together from services of different names.\<close>

lemma dispatches_one: "dispatches S rs \<Longrightarrow> length (accepting rs m) \<le> 1"
  by (simp add: dispatches_def)

lemma type_routes_Combine [simp]:
  "router_Combine (type_routes k rs # ps) = map (type_routing k) rs @ router_Combine ps"
  by (simp add: type_routes_def)

lemma other_name_prefix [simp]:
  "\<not> name_prefix ''meter_'' ''chargepoint''" "\<not> name_prefix ''meter_'' ''diagnostic''" "\<not> name_prefix ''meter_'' ''dev_sys''"
  "\<not> name_prefix ''meter_'' ''ota''" "\<not> name_prefix ''meter_'' ''parameters''" "\<not> name_prefix ''meter_'' ''water_heater''"
  "\<not> name_prefix ''meter_'' ''thermostat''" "\<not> name_prefix ''sensor_'' ''water_heater''" "\<not> name_prefix ''sensor_'' ''thermostat''"
  by (simp_all add: name_prefix_def)

lemma RouteBoiler_dispatches:
  "dispatches (\<lambda>s. s = ''water_heater'' \<or> name_prefix ''sensor_'' s \<or> name_prefix ''meter_'' s) (RouteBoiler h se me)"
  unfolding RouteBoiler_def type_routes_Combine router_Combine.simps append_Nil2
  by (intro dispatches_append) (use name_prefix_excl in \<open>auto simp: votes_dispatch\<close>)

lemma RouteThermostat_dispatches:
  "dispatches (\<lambda>s. s = ''thermostat'' \<or> name_prefix ''sensor_'' s \<or> name_prefix ''meter_'' s) (RouteThermostat t se me)"
  unfolding RouteThermostat_def type_routes_Combine router_Combine.simps append_Nil2
  by (intro dispatches_append) (use name_prefix_excl in \<open>auto simp: votes_dispatch\<close>)

lemma RouteCarCharger_dispatches:
  "dispatches (\<lambda>s. s = ''chargepoint'' \<or> s = ''diagnostic'' \<or> s = ''dev_sys'' \<or> name_prefix ''meter_'' s \<or> s = ''ota'' \<or> s = ''parameters'')
     (RouteCarCharger fg cp dg ds me ot pa)"
  unfolding RouteCarCharger_def type_routes_Combine router_Combine.simps append_Nil2
  by (intro dispatches_append) (auto simp: votes_dispatch)

lemma RouteLight_dispatches:
  "dispatches (\<lambda>s. s = ''out_lvl_switch'' \<or> s = ''color_ctrl'') (RouteLight l ptr co)"
  unfolding RouteLight_def type_routes_Combine router_Combine.simps append_Nil2
  by (intro dispatches_append) (auto simp: votes_dispatch)

text \<open>
  The name of the presence sensor has the prefix of the numeric sensors, so here it is the commands that tell the routings apart.
\<close>

lemma RouteSensor_one: "length (accepting (RouteSensor pr se) m) \<le> 1"
proof -
  have "accepting (presence_RouteService pr) m = [] \<or> accepting (sensor_RouteService se) m = []"
    using svc_votes_none [OF presence_votes, of m pr] svc_votes_none [OF sensor_votes, of m se] by fastforce
  moreover have "length (accepting (presence_RouteService pr) m) \<le> 1" "length (accepting (sensor_RouteService se) m) \<le> 1"
    by (rule dispatches_one, rule votes_dispatch)+
  ultimately show ?thesis by (auto simp: RouteSensor_def)
qed

text \<open>
  C40. Whatever message arrives, at most one routing of a thing handles it, so it is processed and answered by one service at most.
\<close>
theorem thing_commands_unambiguous:
  "length (accepting (RouteBattery b) m) \<le> 1 \<and> length (accepting (RouteBoiler h se me) m) \<le> 1
   \<and> length (accepting (RouteCarCharger fg cp dg ds me ot pa) m) \<le> 1 \<and> length (accepting (RouteLight l ptr co) m) \<le> 1
   \<and> length (accepting (RouteMainElec me) m) \<le> 1 \<and> length (accepting (RouteScene sc) m) \<le> 1
   \<and> length (accepting (RouteSensor pr se) m) \<le> 1 \<and> length (accepting (RouteThermostat t se me) m) \<le> 1"
proof -
  have "dispatches (\<lambda>s. s = ''battery'') (RouteBattery b)" "dispatches (name_prefix ''meter_'') (RouteMainElec me)"
    "dispatches (\<lambda>s. s = ''scene_ctrl'') (RouteScene sc)"
    by (simp_all add: RouteBattery_def RouteMainElec_def RouteScene_def votes_dispatch)
  then show ?thesis
    using RouteBoiler_dispatches RouteCarCharger_dispatches RouteLight_dispatches RouteSensor_one RouteThermostat_dispatches
    by (intro conjI) (assumption | rule dispatches_one | assumption)+
qed

text \<open>A handler of one type of service leaves the services of the other types as they are.\<close>

lemma type_handler_frame:
  "k' \<noteq> k \<Longrightarrow> tg_svcs (rs_app (fst (type_handler k h msg s))) k' = tg_svcs (rs_app s) k'"
  by (simp add: type_handler_def type_put_def case_prod_unfold Let_def)

end
