(* ===== verification/Spec2Isabelle.thy ===== *)
theory Spec2Isabelle
  imports Rounding Cache Phases Listener Virtual_Meter Prime_Observer Chargepoint
    Switches Sensors Controls Media_Player Climate Numeric_Meter Parameters Diagnostics
    Telemetry Application Virtual_Service Database Root Debug Security Clients Monitor Things
begin

text \<open>
  The cliffhanger framework (\<^verbatim>\<open>futurehomeno/cliffhanger\<close>, Go), on which applications ("edge apps") of a
  smart home hub are built. An application receives FIMP messages over MQTT and answers them, mirrors
  devices of another system as FIMP things with services, and keeps its state in files.

  \<^bold>\<open>The program\<close>

  A message that arrives is offered by the \<^emph>\<open>router\<close> to every routing; the voters of a routing decide, its
  handler runs under an optional lock, and its reply or an error report is published. The \<^emph>\<open>task manager\<close>
  runs tasks once or periodically. The \<^emph>\<open>adapter\<close> keeps the things of the application, each with a
  persistent record in the \<^emph>\<open>adapter state\<close>, which is kept by the \<^emph>\<open>file storage\<close>. A thing has \<^emph>\<open>services\<close>
  (a switch, a meter, a chargepoint). Each service package has a routing table for the router, whose handlers
  look the service up in the adapter, and a reporting task for the task manager; a service calls the
  controller, the driver that the application supplies, and sends what it reports through the publisher of
  the adapter unless its \<^emph>\<open>reporting cache\<close> says that this is not required. The \<^emph>\<open>event manager\<close> and the
  \<^emph>\<open>lifecycle\<close> are publish/subscribe buses; the \<^emph>\<open>event listener\<close> processes events of the former. The
  \<^emph>\<open>prime observer\<close> keeps a copy of the registry of the hub. The \<^emph>\<open>virtual meter\<close> turns events of the
  services into energy readings.

  \<^bold>\<open>The theories\<close> (sources under \<^verbatim>\<open>src/\<close>; a definition has the name of its function, with a prefix where
  two packages use the same one)

  \<^item> \<open>Go_Prelude\<close>, \<open>Go_Actions\<close>, \<open>Rounding\<close>: what is used of Go. Times and durations are integers (nanoseconds), with
    the saturation and the wrap-around of the source where it matters; \<open>uint32\<close> counters are words; floats
    are rationals, and their operations round by a parameter, whose relative error \<open>Rounding\<close> bounds. An error is a value of \<open>error\<close>, a fallible function returns \<open>error + 'a\<close>. An action
    \<open>('w, 'a) act\<close> maps a state to \<open>Some (result, state)\<close>, or to \<open>None\<close> when it does not return: it panics, or
    waits for a lock that nobody will release. \<open>act_keeps\<close> is preservation of a property by an action.
  \<^item> \<open>Channels\<close>, \<open>Events\<close>, \<open>Lifecycle\<close>, \<open>Runnable\<close>, \<open>Listener\<close>: channels in a heap; the locale of the two buses,
    interpreted on the event manager (\<^verbatim>\<open>event\<close>) and on the system events of \<^verbatim>\<open>lifecycle\<close>; the locale of
    background services with start and stop, interpreted on the listener, the task manager and the router.
  \<^item> \<open>Backoff\<close>, \<open>Phases\<close>, \<open>Cache\<close>: \<^verbatim>\<open>backoff\<close>, \<^verbatim>\<open>types\<close> and \<^verbatim>\<open>utils/phases.go\<close>, \<^verbatim>\<open>adapter/cache\<close>.
  \<^item> \<open>Tasks\<close>, \<open>Fimp\<close>, \<open>Router\<close>, \<open>Storage\<close>: \<^verbatim>\<open>task\<close>, the messages, \<^verbatim>\<open>router\<close>, \<^verbatim>\<open>storage\<close>. Goroutines are step relations:
    a state holds where each of them stands, and a step moves one of them.
  \<^item> \<open>Adapter_State\<close>, \<open>Adapter\<close>: \<^verbatim>\<open>adapter/state.go\<close> and the rest of \<^verbatim>\<open>adapter\<close>, with the locks of the state, so
    that a deadlock is visible as an action that does not return.
  \<^item> \<open>Device_Service\<close>: what the services share (\<^verbatim>\<open>adapter/service.go\<close> and the code that is the same in every
    service package). Three locales state the contracts of reports: \<open>report_op\<close> (a report publishes one
    message and marks its value in the cache, or leaves both alone), \<open>forced_report\<close> (sent whenever it is
    forced), and \<open>plain_report\<close> for reports of one reading of the controller. Their laws are discharged by
    closure rules over the way the methods are built. Their theorems: a forced report is an answer to the
    request, after a report returns the last published value is the one just read (\<open>in_sync\<close>), a handler
    that sets a value and then answers confirms the change (\<open>handler_confirms\<close>), and an invariant of the
    device that the controller keeps is kept by the handlers and the task (\<open>service_keeps_world\<close>).
  \<^item> \<open>Chargepoint\<close>, \<open>Switches\<close>, \<open>Sensors\<close>, \<open>Controls\<close>, \<open>Media_Player\<close>, \<open>Climate\<close>, \<open>Numeric_Meter\<close>: the services of
    \<^verbatim>\<open>adapter/service\<close>, with an interpretation of these locales for each kind of report.
  \<^item> \<open>Parameters\<close>, \<open>Diagnostics\<close>: the parameters of a device, whose validation is proved to be membership in the
    set of values that the specification describes; firmware updates and diagnostics.
  \<^item> \<open>Configuration\<close>, \<open>Config_Poll\<close>, \<open>Telemetry\<close>: \<^verbatim>\<open>config\<close>, with migrations, validators and the routing of settings; the
    poller of the telemetry configuration, a step relation of its timer and goroutines; \<^verbatim>\<open>telemetry\<close>, whose
    invariant is that enabled telemetry has a timer that ends it in time.
  \<^item> \<open>Application\<close>: \<^verbatim>\<open>app\<close>, \<^verbatim>\<open>manifest\<close> and \<^verbatim>\<open>discovery\<close>; the application of the user is a record of actions.
  \<^item> \<open>Virtual_Meter\<close>, \<open>Virtual_Service\<close>: \<^verbatim>\<open>adapter/service/virtualmeter\<close>, its manager and storage, and its routing, tasks
    and event processors, composed with the level switches whose reports it follows.
  \<^item> \<open>Root\<close>: \<^verbatim>\<open>root\<close>, which puts an application together and starts and stops its parts; the calls of the parts are recorded,
    and any of them may fail. Every run keeps an invariant over the lifecycle, the watcher of the authorization and the callers that wait.
  \<^item> \<open>Debug\<close>: \<^verbatim>\<open>debug\<close>, the log manager over the store of \<open>Configuration\<close>, whose verbose levels have deadlines, and the ring
    buffer of errors, which refines a list.
  \<^item> \<open>Database\<close>: \<^verbatim>\<open>database\<close>. The locale \<open>kv_database\<close> is the contract of a database as a map of cells; it is interpreted
    on the database over the store \<^verbatim>\<open>buntdb\<close> and on the domain databases, and gives the refinement of a map and the
    isolation of domains.
  \<^item> \<open>Things\<close>: the factories of \<^verbatim>\<open>adapter/thing\<close>, over the services of all types in one world; the routings of a thing exclude
    each other.
  \<^item> \<open>Security\<close>: \<^verbatim>\<open>security\<close>, the key file and the encryption of strings, down to the hexadecimal text; sealing and opening
    are parameters.
  \<^item> \<open>Clients\<close>: the clients of other services in \<^verbatim>\<open>hub\<close>, \<^verbatim>\<open>auth\<close> and \<^verbatim>\<open>notification\<close>; the transport of a request is an
    oracle that sees what each attempt hands over.
  \<^item> \<open>Monitor\<close>: \<^verbatim>\<open>monitor\<close>, another interpretation of the contracts in \<open>Runnable\<close>, and the filter of \<^verbatim>\<open>utils/tools.go\<close>, which is
    proved equal to cutting a dump into blocks.
  \<^item> \<open>Prime\<close>, \<open>Prime_Observer\<close>: \<^verbatim>\<open>prime\<close> and \<^verbatim>\<open>prime/observer\<close>; the observer refines the registry of the hub.

  \<^bold>\<open>Parameters of the model\<close>

  Code outside of the repository is an argument of the definitions: the message library \<^verbatim>\<open>fimpgo\<close> (the record
  \<open>fimpgo\<close>, with \<open>fimpgo_ok\<close> for what its documentation says), the JSON and mapstructure decoders (\<open>json_ok\<close> in \<open>Storage\<close>:
  decoding sets the fields that are in the text and leaves the others), \<^verbatim>\<open>ParseFloat\<close>, the rounding of \<^verbatim>\<open>float64\<close>
  (\<open>float64_round\<close>: the error bound of IEEE 754 for normal numbers), the operating system (any file operation may fail and
  leave part of what it writes; a crash is an operation that does not succeed, after which none follows), the
  controllers of the services (arbitrary actions on the state of a device), and the clock (a sequence of
  readings, or one argument per reading). The order in which \<^verbatim>\<open>Deduplicate\<close> ranges over its map is an argument of each start and stop. Maps whose iteration order is visible are association lists in
  that order. Every parameter is instantiated in a witness.

  \<^bold>\<open>Bounds\<close>

  Loops of the source are structural recursions or are shown to end by a measure; no definition has fuel.
  Liveness of the background services is stated as the existence of the run in which \<^verbatim>\<open>Stop\<close> returns.
  Integers other than the 32-bit counters of \<open>Backoff\<close> and the durations are unbounded.

  \<^bold>\<open>Not modelled\<close>

  The concurrency of two calls of the same service (every method holds its lock, so each is one action);
  logging; overflow and special values of floats; \<^verbatim>\<open>bootstrap\<close> (the command line, the working
  directory and signals), and the handler of signals in the \<^verbatim>\<open>Run\<close> of \<^verbatim>\<open>root\<close>; mocks and the test suite.
\<close>

end
